(* ===== verification/JsBase.thy ===== *)
theory JsBase
  imports Complex_Main "HOL-Library.Word" "HOL-Library.Sublist" "HOL-Library.Multiset"
begin

text \<open>
  The prelude of the Portiva development: the values of JavaScript the front end computes
  with, and the list operations its components share.

  \<^item> A string is the list of its UTF-16 code units (\<open>jsstr\<close>, 16-bit words), which is what
    \<^verbatim>\<open>length\<close>, \<^verbatim>\<open>slice\<close> and \<^verbatim>\<open>charCodeAt\<close> count. \<open>js ''abc''\<close> is an ASCII literal; a literal
    outside ASCII is written as its list of code units.
  \<^item> A number is \<open>jsnum\<close>: NaN, the two infinities or a finite value, which is a rational (every
    finite double is one). The operations below are the ones whose IEEE result is exact on the
    values the code passes (comparison, minimum, maximum, floor, scaling by a power of two);
    the sign of zero is not kept, no code reads it.
  \<^item> \<open>js_at\<close>, \<open>js_findIndex\<close>, \<open>insert_at\<close>, \<open>remove_at\<close> are array indexing (\<open>undefined\<close> is \<open>None\<close>),
    \<^verbatim>\<open>findIndex\<close> (-1 when absent) and the two uses of \<^verbatim>\<open>splice\<close>.
\<close>

named_theorems portiva_defs \<open>definitions unfolded when a handler is evaluated\<close>

section \<open>Strings\<close>

type_synonym code_unit = "16 word"
type_synonym jsstr = "code_unit list"

definition js :: "string \<Rightarrow> jsstr" where
  "js s = map of_char s"

lemma unat_of_char: "unat (of_char e :: code_unit) = of_char e"
proof -
  have "unat (of_nat (of_char e) :: code_unit) = of_char e mod 65536"
    by (simp only: unat_of_nat len_bit0 len_num1) simp
  moreover have "of_char e mod 65536 = (of_char e :: nat)"
    using nat_of_char_less_256 [of e] by (intro mod_less) linarith
  ultimately show ?thesis by (simp only: of_nat_of_char)
qed

lemma of_char_unit_inject: "(of_char c :: code_unit) = of_char d \<longleftrightarrow> c = d"
  by (metis unat_of_char of_char_eq_iff)

lemma js_inject [simp]: "js s = js t \<longleftrightarrow> s = t"
  unfolding js_def by (rule inj_eq, rule inj_mapI) (simp add: inj_def of_char_unit_inject)

lemma js_Nil [simp]: "js [] = []"
  by (simp add: js_def)

lemma js_eq_Nil [simp]: "js s = [] \<longleftrightarrow> s = []" "[] = js s \<longleftrightarrow> s = []"
  by (simp_all add: js_def)

lemma js_append: "js (s @ t) = js s @ js t"
  by (simp add: js_def)

lemma length_js [simp]: "length (js s) = length s"
  by (simp add: js_def)

text \<open>The characters \<^verbatim>\<open>trim\<close> removes: WhiteSpace and LineTerminator of ECMA-262.\<close>

definition js_space :: "code_unit \<Rightarrow> bool" where
  "js_space c \<longleftrightarrow>
     (9 \<le> c \<and> c \<le> 13) \<or> c = 32 \<or> c = 0xA0 \<or> c = 0x1680 \<or> (0x2000 \<le> c \<and> c \<le> 0x200A)
     \<or> c = 0x2028 \<or> c = 0x2029 \<or> c = 0x202F \<or> c = 0x205F \<or> c = 0x3000 \<or> c = 0xFEFF"

definition trim_end :: "('a \<Rightarrow> bool) \<Rightarrow> 'a list \<Rightarrow> 'a list" where
  "trim_end P s = rev (dropWhile P (rev s))"

definition js_trim :: "jsstr \<Rightarrow> jsstr" where
  "js_trim s = trim_end js_space (dropWhile js_space s)"

text \<open>
  \<^verbatim>\<open>toLowerCase\<close>. It is exact on ASCII and Latin-1, and exact about which ASCII letters the
  result holds: of all other characters only U+212A and U+0130 have an ASCII letter in their
  lower case form. The case pairs outside Latin-1 are left as they are.
\<close>

definition lower_unit :: "code_unit \<Rightarrow> jsstr" where
  "lower_unit c =
     (if 65 \<le> c \<and> c \<le> 90 then [c + 32]
      else if 0xC0 \<le> c \<and> c \<le> 0xDE \<and> c \<noteq> 0xD7 then [c + 32]
      else if c = 0x212A then [107]
      else if c = 0x130 then [105, 0x307]
      else [c])"

definition js_lower :: "jsstr \<Rightarrow> jsstr" where
  "js_lower s = concat (map lower_unit s)"

fun js_includes :: "jsstr \<Rightarrow> jsstr \<Rightarrow> bool" where
  "js_includes s p \<longleftrightarrow> prefix p s \<or> (case s of [] \<Rightarrow> False | _ # t \<Rightarrow> js_includes t p)"

declare js_includes.simps [simp del]

lemma js_includes_iff: "js_includes s p \<longleftrightarrow> (\<exists>a b. s = a @ p @ b)"
proof (induction s)
  case Nil
  then show ?case by (simp add: js_includes.simps [of "[]"])
next
  case (Cons c s)
  have "(\<exists>a b. c # s = a @ p @ b) \<longleftrightarrow> prefix p (c # s) \<or> (\<exists>a b. s = a @ p @ b)"
    by (auto simp: prefix_def Cons_eq_append_conv)
  then show ?case using Cons by (simp add: js_includes.simps [of "c # s"])
qed

text \<open>\<^verbatim>\<open>split\<close> at one character, \<^verbatim>\<open>join\<close>, and \<^verbatim>\<open>lastIndexOf\<close> of one character (-1 when absent).\<close>

fun js_split :: "code_unit \<Rightarrow> jsstr \<Rightarrow> jsstr list" where
  "js_split d [] = [[]]"
| "js_split d (c # s) =
     (if c = d then [] # js_split d s
      else (let r = js_split d s in (c # hd r) # tl r))"

fun js_join :: "jsstr \<Rightarrow> jsstr list \<Rightarrow> jsstr" where
  "js_join sep [] = []"
| "js_join sep [s] = s"
| "js_join sep (s # t # ss) = s @ sep @ js_join sep (t # ss)"

fun js_lastIndexOf :: "code_unit \<Rightarrow> jsstr \<Rightarrow> int" where
  "js_lastIndexOf d [] = -1"
| "js_lastIndexOf d (c # s) =
     (let i = js_lastIndexOf d s in if 0 \<le> i then i + 1 else if c = d then 0 else -1)"

lemma js_split_not_Nil [simp]: "js_split d s \<noteq> []"
  by (induction s) (auto simp: Let_def)

lemma js_join_split: "js_join [d] (js_split d s) = s"
proof (induction s)
  case Nil
  then show ?case by simp
next
  case (Cons c s)
  obtain x xs where r: "js_split d s = x # xs" by (cases "js_split d s") auto
  show ?case using Cons r by (cases xs) auto
qed

lemma js_split_no_sep: "p \<in> set (js_split d s) \<Longrightarrow> d \<notin> set p"
proof (induction s arbitrary: p)
  case Nil
  then show ?case by simp
next
  case (Cons c s)
  obtain x xs where r: "js_split d s = x # xs" by (cases "js_split d s") auto
  show ?case using Cons r by (auto split: if_splits)
qed

lemma js_split_append_sep:
  "d \<notin> set p \<Longrightarrow> js_split d (p @ d # s) = p # js_split d s"
  by (induction p) auto

lemma js_split_single: "d \<notin> set p \<Longrightarrow> js_split d p = [p]"
  by (induction p) auto

lemma js_split_join:
  "ps \<noteq> [] \<Longrightarrow> \<forall>p \<in> set ps. d \<notin> set p \<Longrightarrow> js_split d (js_join [d] ps) = ps"
proof (induction "[d]" ps rule: js_join.induct)
  case (3 s t ss)
  then show ?case by (simp add: js_split_append_sep)
qed (auto simp: js_split_single)

lemma js_split_subset: "p \<in> set (js_split d s) \<Longrightarrow> set p \<subseteq> set s"
proof (induction s arbitrary: p)
  case (Cons c s)
  obtain x xs where r: "js_split d s = x # xs" by (cases "js_split d s") auto
  show ?case using Cons r by (fastforce split: if_splits)
qed simp

lemma join_snoc: "ps \<noteq> [] \<Longrightarrow> js_join s (ps @ [p]) = js_join s ps @ s @ p"
  by (induction s ps rule: js_join.induct) auto

lemma lastIndexOf_append:
  "d \<notin> set s \<Longrightarrow> js_lastIndexOf d (p @ d # s) = int (length p)"
proof (induction p)
  case Nil
  have "js_lastIndexOf d s = -1" using Nil by (induction s) auto
  then show ?case by simp
qed simp

lemma lastIndexOf_absent: "d \<notin> set s \<Longrightarrow> js_lastIndexOf d s = -1"
  by (induction s) auto

lemma trim_end_id: "s = [] \<or> \<not> P (last s) \<Longrightarrow> trim_end P s = s"
  by (cases s rule: rev_cases) (auto simp: trim_end_def)

lemma trim_id: "s = [] \<or> (\<not> js_space (hd s) \<and> \<not> js_space (last s)) \<Longrightarrow> js_trim s = s"
  unfolding js_trim_def by (cases s) (auto simp: trim_end_id)

lemma trim_end_last: "trim_end P s \<noteq> [] \<Longrightarrow> \<not> P (last (trim_end P s))"
  unfolding trim_end_def by (metis hd_dropWhile last_rev rev_rev_ident rev.simps(1))

lemma trim_end_prefix: "\<exists>t. s = trim_end P s @ t \<and> list_all P t"
  unfolding trim_end_def
  by (rule exI [of _ "rev (takeWhile P (rev s))"])
    (metis list_all_rev list.pred_set rev_append rev_rev_ident set_takeWhileD takeWhile_dropWhile_id)

lemma trim_hd: "js_trim s \<noteq> [] \<Longrightarrow> \<not> js_space (hd (js_trim s))"
proof -
  assume ne: "js_trim s \<noteq> []"
  obtain t where t: "dropWhile js_space s = js_trim s @ t"
    unfolding js_trim_def using trim_end_prefix by blast
  then have "dropWhile js_space s \<noteq> []" using ne by simp
  then have "\<not> js_space (hd (dropWhile js_space s))" by (rule hd_dropWhile)
  then show ?thesis using ne by (simp add: t)
qed

lemma trim_last: "js_trim s \<noteq> [] \<Longrightarrow> \<not> js_space (last (js_trim s))"
  unfolding js_trim_def by (rule trim_end_last)

lemma trim_trim [simp]: "js_trim (js_trim s) = js_trim s"
  by (rule trim_id) (auto simp: trim_hd trim_last)

lemma lastIndexOf_less: "js_lastIndexOf d s < int (length s)"
  by (induction s) (auto simp: Let_def)

lemma lastIndexOf_skip: "d \<notin> set t \<Longrightarrow> js_lastIndexOf d (s @ t) = js_lastIndexOf d s"
  by (induction s) (auto simp: lastIndexOf_absent)

lemma set_trim_end: "set (trim_end P s) \<subseteq> set s"
  using trim_end_prefix [of s P] by (metis set_append sup_ge1)

section \<open>Arrays\<close>

definition js_at :: "'a list \<Rightarrow> int \<Rightarrow> 'a option" where
  "js_at xs i = (if 0 \<le> i \<and> i < int (length xs) then Some (xs ! nat i) else None)"

fun js_findIndex :: "('a \<Rightarrow> bool) \<Rightarrow> 'a list \<Rightarrow> int" where
  "js_findIndex P [] = -1"
| "js_findIndex P (x # xs) =
     (if P x then 0 else (let i = js_findIndex P xs in if i < 0 then -1 else i + 1))"

definition insert_at :: "nat \<Rightarrow> 'a \<Rightarrow> 'a list \<Rightarrow> 'a list" where
  "insert_at i x xs = take i xs @ x # drop i xs"

definition remove_at :: "nat \<Rightarrow> 'a list \<Rightarrow> 'a list" where
  "remove_at i xs = take i xs @ drop (Suc i) xs"

text \<open>\<^verbatim>\<open>[...new Set(xs)]\<close>: the distinct elements in the order of their first occurrence.\<close>

fun js_unique :: "'a list \<Rightarrow> 'a list" where
  "js_unique [] = []"
| "js_unique (x # xs) = x # filter (\<lambda>y. y \<noteq> x) (js_unique xs)"

lemma set_js_unique [simp]: "set (js_unique xs) = set xs"
  by (induction xs) auto

lemma distinct_js_unique [simp]: "distinct (js_unique xs)"
  by (induction xs) auto

lemma js_unique_id: "distinct xs \<Longrightarrow> js_unique xs = xs"
proof (induction xs)
  case (Cons x xs)
  then have "filter (\<lambda>y. y \<noteq> x) xs = xs" by (auto intro: filter_True)
  with Cons show ?case by simp
qed simp

lemma js_findIndex_ge: "-1 \<le> js_findIndex P xs"
  by (induction xs) (auto simp: Let_def)

lemma js_findIndex_neg_iff: "js_findIndex P xs < 0 \<longleftrightarrow> (\<forall>x \<in> set xs. \<not> P x)"
  using js_findIndex_ge [of P]
  by (induction xs) (auto simp: Let_def)

lemma js_findIndex_find:
  "0 \<le> js_findIndex P xs \<Longrightarrow>
   nat (js_findIndex P xs) < length xs \<and> P (xs ! nat (js_findIndex P xs))
   \<and> find P xs = Some (xs ! nat (js_findIndex P xs))"
proof (induction xs)
  case (Cons x xs)
  then show ?case by (auto simp: Let_def nat_add_distrib split: if_splits)
qed simp

lemma find_None_findIndex: "find P xs = None \<longleftrightarrow> js_findIndex P xs < 0"
  by (auto simp: js_findIndex_neg_iff find_None_iff)

lemma find_Some_set: "find P xs = Some x \<Longrightarrow> x \<in> set xs \<and> P x"
  by (induction xs) (auto split: if_splits)

lemma js_at_set: "js_at xs i = Some x \<Longrightarrow> x \<in> set xs"
  by (auto simp: js_at_def split: if_splits)

lemma set_insert_at [simp]: "set (insert_at i x xs) = insert x (set xs)"
  by (simp add: insert_at_def) (metis append_take_drop_id set_append)

lemma mset_insert_at [simp]: "mset (insert_at i x xs) = add_mset x (mset xs)"
proof -
  have "mset (take i xs) + mset (drop i xs) = mset xs"
    by (metis append_take_drop_id mset_append)
  then show ?thesis by (simp add: insert_at_def)
qed

lemma length_insert_at [simp]: "length (insert_at i x xs) = Suc (length xs)"
  by (simp add: insert_at_def)

lemma map_insert_at: "map f (insert_at i x xs) = insert_at i (f x) (map f xs)"
  by (simp add: insert_at_def take_map drop_map)

lemma mset_remove_at: "i < length xs \<Longrightarrow> add_mset (xs ! i) (mset (remove_at i xs)) = mset xs"
proof -
  assume "i < length xs"
  then have "mset (take i xs @ xs ! i # drop (Suc i) xs) = mset xs"
    by (simp add: id_take_nth_drop [symmetric])
  then show ?thesis by (simp add: remove_at_def)
qed

lemma map_remove_at: "map f (remove_at i xs) = remove_at i (map f xs)"
  by (simp add: remove_at_def take_map drop_map)

section \<open>Numbers\<close>

datatype jsnum = NaN | NegInf | PosInf | Fin rat

fun num_less :: "jsnum \<Rightarrow> jsnum \<Rightarrow> bool" where
  "num_less NaN y = False"
| "num_less x NaN = False"
| "num_less (Fin a) (Fin b) = (a < b)"
| "num_less NegInf y = (y \<noteq> NegInf)"
| "num_less PosInf y = False"
| "num_less x PosInf = True"
| "num_less x NegInf = False"

definition num_le :: "jsnum \<Rightarrow> jsnum \<Rightarrow> bool" where
  "num_le x y \<longleftrightarrow> num_less x y \<or> (x = y \<and> x \<noteq> NaN)"

definition num_min :: "jsnum \<Rightarrow> jsnum \<Rightarrow> jsnum" where
  "num_min x y = (if x = NaN \<or> y = NaN then NaN else if num_less y x then y else x)"

definition num_max :: "jsnum \<Rightarrow> jsnum \<Rightarrow> jsnum" where
  "num_max x y = (if x = NaN \<or> y = NaN then NaN else if num_less x y then y else x)"

fun num_floor :: "jsnum \<Rightarrow> jsnum" where
  "num_floor (Fin a) = Fin (of_int \<lfloor>a\<rfloor>)"
| "num_floor x = x"

fun num_finite :: "jsnum \<Rightarrow> bool" where
  "num_finite (Fin _) = True"
| "num_finite _ = False"

definition num_int :: "int \<Rightarrow> jsnum" where
  "num_int i = Fin (of_int i)"

definition num_isInteger :: "jsnum \<Rightarrow> bool" where
  "num_isInteger x = (case x of Fin a \<Rightarrow> of_int \<lfloor>a\<rfloor> = a | _ \<Rightarrow> False)"

text \<open>The decimal digits of a number that \<^verbatim>\<open>String(n)\<close> prints for a natural number \<open>n\<close>.\<close>

fun nat_digits :: "nat \<Rightarrow> jsstr" where
  "nat_digits n = (if n < 10 then [of_nat (48 + n)] else nat_digits (n div 10) @ [of_nat (48 + n mod 10)])"

declare nat_digits.simps [simp del]

definition js_digit :: "code_unit \<Rightarrow> bool" where
  "js_digit c \<longleftrightarrow> 48 \<le> c \<and> c \<le> 57"

definition digits_value :: "jsstr \<Rightarrow> nat" where
  "digits_value s = foldl (\<lambda>v c. 10 * v + unat (c - 48)) 0 s"

lemma nat_digits_digit: "c \<in> set (nat_digits n) \<Longrightarrow> js_digit c"
proof (induction n rule: nat_digits.induct)
  case (1 n)
  have dig: "js_digit (of_nat (48 + k))" if "k < 10" for k :: nat
  proof -
    have "k \<in> {0,1,2,3,4,5,6,7,8,9}" using that by auto
    then show ?thesis by (auto simp: js_digit_def)
  qed
  show ?case
  proof (cases "n < 10")
    case True
    then show ?thesis using 1 dig by (subst (asm) nat_digits.simps) auto
  next
    case False
    then have "c \<in> set (nat_digits (n div 10)) \<or> c = of_nat (48 + n mod 10)"
      using 1 by (subst (asm) (2) nat_digits.simps) auto
    then show ?thesis
      using 1(1) [OF False] dig [of "n mod 10"] by auto
  qed
qed

lemma digits_value_snoc: "digits_value (s @ [c]) = 10 * digits_value s + unat (c - 48)"
  by (simp add: digits_value_def)

lemma digits_value_nat_digits: "digits_value (nat_digits n) = n"
proof (induction n rule: nat_digits.induct)
  case (1 n)
  have dig: "unat ((of_nat (48 + k) :: code_unit) - 48) = k" if "k < 10" for k :: nat
  proof -
    have "k \<in> {0,1,2,3,4,5,6,7,8,9}" using that by auto
    then show ?thesis by auto
  qed
  show ?case
  proof (cases "n < 10")
    case True
    then have "digits_value (nat_digits n) = unat ((of_nat (48 + n) :: code_unit) - 48)"
      by (subst nat_digits.simps) (simp add: digits_value_def)
    then show ?thesis using dig [OF True] by simp
  next
    case False
    then have "digits_value (nat_digits n) =
        10 * (n div 10) + unat ((of_nat (48 + n mod 10) :: code_unit) - 48)"
      using 1 [OF False] by (subst nat_digits.simps) (simp add: digits_value_snoc)
    then show ?thesis using dig [of "n mod 10"] by simp
  qed
qed

lemma nat_digits_not_Nil [simp]: "nat_digits n \<noteq> []"
  by (subst nat_digits.simps) simp

lemma nat_digits_inject: "nat_digits m = nat_digits n \<longleftrightarrow> m = n"
  by (metis digits_value_nat_digits)

section \<open>JSON values\<close>

text \<open>
  A value of unknown type that came out of \<^verbatim>\<open>JSON.parse\<close>. An object is the list of its
  properties, each name once. \<open>json_get\<close> is the property access \<^verbatim>\<open>value.name\<close>, with \<open>None\<close> for
  \<^verbatim>\<open>undefined\<close>.
\<close>

datatype json =
    JNull
  | JBool bool
  | JNum jsnum
  | JStr jsstr
  | JArr "json list"
  | JObj "(jsstr \<times> json) list"

fun json_is_object :: "json \<Rightarrow> bool" where
  "json_is_object (JObj _) = True"
| "json_is_object _ = False"

fun json_get :: "string \<Rightarrow> json \<Rightarrow> json option" where
  "json_get name (JObj fields) = map_of fields (js name)"
| "json_get name _ = None"

end
