(* ===== verification/TabOrder.thy ===== *)
theory TabOrder
  imports JsBase
begin

text \<open>
  The order of the tabs in the title bar (\<^verbatim>\<open>src/app/tabOrder.ts\<close>): comparing two orders, merging
  the stored order with the tabs that exist, and moving a tab by drag and drop. \<open>move_by\<close> is the
  same move on records with a key, which \<^verbatim>\<open>reorderSessionTabs\<close> of the workspace performs on the
  session tabs; \<open>map_move_by\<close> relates the two.
\<close>

datatype drop_position = Before | After

definition areTabOrdersEqual :: "jsstr list \<Rightarrow> jsstr list \<Rightarrow> bool" where
  "areTabOrdersEqual left right \<longleftrightarrow>
     length left = length right \<and> list_all (\<lambda>i. left ! i = right ! i) [0..<length left]"

definition appendMissingTabIds :: "jsstr list \<Rightarrow> jsstr list \<Rightarrow> jsstr list" where
  "appendMissingTabIds currentOrder availableIds =
     (let retainedIds = filter (\<lambda>i. i \<in> set availableIds) currentOrder
      in retainedIds @ filter (\<lambda>i. i \<notin> set retainedIds) availableIds)"

definition moveTabId :: "jsstr list \<Rightarrow> jsstr \<Rightarrow> jsstr \<Rightarrow> drop_position \<Rightarrow> jsstr list" where
  "moveTabId currentOrder sourceTabId targetTabId position =
     (if sourceTabId = targetTabId then currentOrder
      else
        (let sourceIndex = js_findIndex (\<lambda>i. i = sourceTabId) currentOrder;
             targetIndex = js_findIndex (\<lambda>i. i = targetTabId) currentOrder
         in if sourceIndex < 0 \<or> targetIndex < 0 then currentOrder
            else
              (let movedTabId = currentOrder ! nat sourceIndex;
                   nextOrder = remove_at (nat sourceIndex) currentOrder;
                   nextTargetIndex = js_findIndex (\<lambda>i. i = targetTabId) nextOrder
               in insert_at (nat (nextTargetIndex + (if position = After then 1 else 0)))
                    movedTabId nextOrder)))"

definition move_by ::
  "('a \<Rightarrow> jsstr) \<Rightarrow> 'a list \<Rightarrow> jsstr \<Rightarrow> jsstr \<Rightarrow> drop_position \<Rightarrow> 'a list" where
  "move_by key current source target position =
     (let sourceIndex = js_findIndex (\<lambda>t. key t = source) current;
          targetIndex = js_findIndex (\<lambda>t. key t = target) current
      in if sourceIndex < 0 \<or> targetIndex < 0 then current
         else
           (let moved = current ! nat sourceIndex;
                nextTabs = remove_at (nat sourceIndex) current;
                nextTargetIndex = js_findIndex (\<lambda>t. key t = target) nextTabs
            in insert_at (nat (nextTargetIndex + (if position = After then 1 else 0)))
                 moved nextTabs))"

section \<open>Comparison and merging\<close>

lemma areTabOrdersEqual_iff: "areTabOrdersEqual xs ys \<longleftrightarrow> xs = ys"
  by (auto simp: areTabOrdersEqual_def list_all_iff intro: nth_equalityI)

lemma set_appendMissing: "set (appendMissingTabIds cur av) = set av"
  by (auto simp: appendMissingTabIds_def Let_def)

lemma distinct_appendMissing:
  "distinct cur \<Longrightarrow> distinct av \<Longrightarrow> distinct (appendMissingTabIds cur av)"
  by (auto simp: appendMissingTabIds_def Let_def)

lemma appendMissing_idem:
  "appendMissingTabIds (appendMissingTabIds cur av) av = appendMissingTabIds cur av"
proof -
  let ?r = "appendMissingTabIds cur av"
  have all: "filter (\<lambda>i. i \<in> set av) ?r = ?r"
    by (rule filter_True) (use set_appendMissing [of cur av] in auto)
  have "filter (\<lambda>i. i \<notin> set ?r) av = []"
    using set_appendMissing [of cur av] by (auto simp: filter_empty_conv)
  then show ?thesis
    unfolding appendMissingTabIds_def [of ?r] Let_def all by simp
qed

section \<open>Moving\<close>

lemma split_at_findIndex:
  "0 \<le> js_findIndex P xs \<Longrightarrow>
   \<exists>a s b. xs = a @ s # b \<and> P s \<and> js_findIndex P xs = int (length a)"
proof (induction xs)
  case Nil
  then show ?case by simp
next
  case (Cons x xs)
  show ?case
  proof (cases "P x")
    case True
    then show ?thesis by (intro exI [of _ "[]"] exI [of _ x] exI [of _ xs]) simp
  next
    case False
    with Cons.prems have nn: "0 \<le> js_findIndex P xs" by (auto simp: Let_def split: if_splits)
    with Cons.IH obtain a s b where "xs = a @ s # b" "P s" "js_findIndex P xs = int (length a)"
      by blast
    then show ?thesis
      using False by (intro exI [of _ "x # a"] exI [of _ s] exI [of _ b]) simp
  qed
qed

lemma remove_at_middle [simp]: "remove_at (length a) (a @ s # b) = a @ b"
  by (simp add: remove_at_def)

lemma insert_at_middle [simp]: "insert_at (length a) x (a @ b) = a @ x # b"
  by (simp add: insert_at_def)

text \<open>The shape of a move: the source is taken out and put next to the first target.\<close>

lemma move_by_shape:
  assumes "source \<noteq> target" and "source \<in> key ` set cur" and "target \<in> key ` set cur"
  shows "\<exists>a b c d s t. cur = a @ s # b \<and> key s = source \<and> a @ b = c @ t # d \<and> key t = target
     \<and> move_by key cur source target pos =
         (if pos = After then c @ t # s # d else c @ s # t # d)"
proof -
  have si: "0 \<le> js_findIndex (\<lambda>t. key t = source) cur"
    and ti: "0 \<le> js_findIndex (\<lambda>t. key t = target) cur"
    using assms js_findIndex_neg_iff [of "\<lambda>t. key t = source" cur]
      js_findIndex_neg_iff [of "\<lambda>t. key t = target" cur] by force+
  obtain a s b where ab: "cur = a @ s # b" "key s = source"
      "js_findIndex (\<lambda>t. key t = source) cur = int (length a)"
    using split_at_findIndex [OF si] by blast
  have "target \<in> key ` set (a @ b)" using assms(1,3) ab(1,2) by auto
  then have "0 \<le> js_findIndex (\<lambda>t. key t = target) (a @ b)"
    using js_findIndex_neg_iff [of "\<lambda>t. key t = target" "a @ b"] by force
  then obtain c t d where cd: "a @ b = c @ t # d" "key t = target"
      "js_findIndex (\<lambda>t. key t = target) (a @ b) = int (length c)"
    using split_at_findIndex by blast
  have rem: "remove_at (length a) cur = c @ t # d" by (simp add: ab(1) cd(1))
  have "insert_at (nat (int (length c) + (if pos = After then 1 else 0))) s (c @ t # d)
      = (if pos = After then c @ t # s # d else c @ s # t # d)"
    by (simp add: insert_at_def nat_add_distrib)
  then have "move_by key cur source target pos
      = (if pos = After then c @ t # s # d else c @ s # t # d)"
    using ti ab cd rem by (simp add: move_by_def Let_def)
  with ab(1,2) cd(1,2) show ?thesis by blast
qed

lemma move_by_absent:
  "source \<notin> key ` set cur \<or> target \<notin> key ` set cur \<Longrightarrow> move_by key cur source target pos = cur"
proof -
  assume "source \<notin> key ` set cur \<or> target \<notin> key ` set cur"
  then have "js_findIndex (\<lambda>t. key t = source) cur < 0 \<or> js_findIndex (\<lambda>t. key t = target) cur < 0"
    by (auto simp: js_findIndex_neg_iff)
  then show ?thesis by (simp add: move_by_def Let_def)
qed

lemma moveTabId_eq_move_by: "s \<noteq> t \<Longrightarrow> moveTabId cur s t pos = move_by (\<lambda>i. i) cur s t pos"
  by (simp add: moveTabId_def move_by_def Let_def)

lemma js_findIndex_map: "js_findIndex P (map f xs) = js_findIndex (\<lambda>x. P (f x)) xs"
  by (induction xs) (auto simp: Let_def)

text \<open>Moving records moves their keys as the title bar moves its identifiers.\<close>

lemma map_move_by: "s \<noteq> t \<Longrightarrow> map key (move_by key cur s t pos) = moveTabId (map key cur) s t pos"
proof -
  assume "s \<noteq> t"
  have nth: "0 \<le> js_findIndex (\<lambda>x. key x = s) cur \<Longrightarrow>
      map key cur ! nat (js_findIndex (\<lambda>x. key x = s) cur)
      = key (cur ! nat (js_findIndex (\<lambda>x. key x = s) cur))"
    using js_findIndex_find [of "\<lambda>x. key x = s" cur] by simp
  show ?thesis
    using \<open>s \<noteq> t\<close> nth
    by (auto simp: moveTabId_def move_by_def Let_def js_findIndex_map map_insert_at
        map_remove_at [symmetric] not_less)
qed

lemma mset_move_by: "mset (move_by key cur s t pos) = mset cur"
proof (cases "s \<noteq> t \<and> s \<in> key ` set cur \<and> t \<in> key ` set cur")
  case True
  then obtain a b c d x y where m: "cur = a @ x # b" "a @ b = c @ y # d"
      "move_by key cur s t pos = (if pos = After then c @ y # x # d else c @ x # y # d)"
    using move_by_shape [of s t key cur pos] by blast
  have "mset (move_by key cur s t pos) = add_mset x (mset (c @ y # d))"
    using m(3) by (simp add: add_mset_commute)
  also have "\<dots> = mset cur" unfolding m(2) [symmetric] by (simp add: m(1))
  finally show ?thesis .
next
  case False
  show ?thesis
  proof (cases "s = t \<and> s \<in> key ` set cur")
    case True
    then have si: "0 \<le> js_findIndex (\<lambda>x. key x = s) cur"
      using js_findIndex_neg_iff [of "\<lambda>x. key x = s" cur] by force
    then obtain a x b where c: "cur = a @ x # b"
        "js_findIndex (\<lambda>x. key x = s) cur = int (length a)"
      using split_at_findIndex by blast
    then have "move_by key cur s t pos = insert_at
        (nat (js_findIndex (\<lambda>x. key x = t) (a @ b) + (if pos = After then 1 else 0))) x (a @ b)"
      using True by (simp add: move_by_def Let_def)
    then show ?thesis
      by (simp only: mset_insert_at) (simp add: c(1))
  next
    case nt: False
    with False have "s \<notin> key ` set cur \<or> t \<notin> key ` set cur" by auto
    then show ?thesis by (simp add: move_by_absent)
  qed
qed

lemma mset_moveTabId: "mset (moveTabId cur s t pos) = mset cur"
  by (cases "s = t") (simp_all add: moveTabId_eq_move_by mset_move_by, simp add: moveTabId_def)

lemma filter_moveTabId:
  "filter (\<lambda>i. i \<noteq> s) (moveTabId cur s t pos) = filter (\<lambda>i. i \<noteq> s) cur"
proof (cases "s \<noteq> t \<and> s \<in> set cur \<and> t \<in> set cur")
  case True
  then obtain a b c d where m: "cur = a @ s # b" "a @ b = c @ t # d"
      "moveTabId cur s t pos = (if pos = After then c @ t # s # d else c @ s # t # d)"
    using move_by_shape [of s t "\<lambda>i. i" cur pos] by (auto simp: moveTabId_eq_move_by)
  have "filter (\<lambda>i. i \<noteq> s) (moveTabId cur s t pos) = filter (\<lambda>i. i \<noteq> s) (c @ t # d)"
    using m(3) by simp
  also have "\<dots> = filter (\<lambda>i. i \<noteq> s) cur" unfolding m(2) [symmetric] by (simp add: m(1))
  finally show ?thesis .
next
  case False
  then have "moveTabId cur s t pos = cur"
    using move_by_absent [of s "\<lambda>i. i" cur t pos]
    by (cases "s = t") (auto simp: moveTabId_eq_move_by, simp add: moveTabId_def)
  then show ?thesis by simp
qed

section \<open>Properties\<close>

text \<open>
  C2. Dragging a tab is a pure reordering: no tab is lost or duplicated, the other tabs keep
  their relative order, and when both tabs exist the dragged one ends up directly before or
  after the target, as the drop position says.
\<close>

theorem moveTabId_correct:
  assumes "s \<noteq> t" and "s \<in> set cur" and "t \<in> set cur"
  shows "mset (moveTabId cur s t pos) = mset cur
     \<and> filter (\<lambda>i. i \<noteq> s) (moveTabId cur s t pos) = filter (\<lambda>i. i \<noteq> s) cur
     \<and> (\<exists>a b. moveTabId cur s t pos = a @ (if pos = After then [t, s] else [s, t]) @ b)"
proof -
  obtain c d where
    "moveTabId cur s t pos = (if pos = After then c @ t # s # d else c @ s # t # d)"
    using move_by_shape [of s t "\<lambda>i. i" cur pos] assms by (auto simp: moveTabId_eq_move_by)
  then have "\<exists>a b. moveTabId cur s t pos = a @ (if pos = After then [t, s] else [s, t]) @ b"
    by (auto split: if_splits)
  then show ?thesis by (simp add: mset_moveTabId filter_moveTabId)
qed

theorem moveTabId_correct_witness:
  "moveTabId [js ''a'', js ''b'', js ''c''] (js ''a'') (js ''c'') After = [js ''b'', js ''c'', js ''a'']
   \<and> mset (moveTabId [js ''a'', js ''b'', js ''c''] (js ''a'') (js ''c'') After)
     = mset [js ''a'', js ''b'', js ''c'']"
  using moveTabId_correct [of "js ''a''" "js ''c''" "[js ''a'', js ''b'', js ''c'']" After]
  by (simp add: moveTabId_def insert_at_def remove_at_def)

end
