(* ===== verification/KeyedList.thy ===== *)
theory KeyedList
  imports JsBase
begin

text \<open>
  The interface of the keyed lists of the workspace: session tabs, transfers, credentials and
  profiles are arrays whose elements have an identity, and every handler that stores an element
  first drops the element of the same identity. \<open>keyed_upsert\<close> is that contract; the three
  ways the code writes it (append, prepend, splice at an index) are its interpretations, and
  the handlers' invariants use the interpreted lemmas.
\<close>

locale keyed_upsert =
  fixes key :: "'a \<Rightarrow> 'k"
    and upsert :: "'a \<Rightarrow> 'a list \<Rightarrow> 'a list"
  assumes mset_upsert:
    "mset (upsert x xs) = add_mset x (filter_mset (\<lambda>y. key y \<noteq> key x) (mset xs))"
begin

lemma set_upsert: "set (upsert x xs) = insert x {y \<in> set xs. key y \<noteq> key x}"
proof -
  have "set_mset (mset (upsert x xs)) = insert x {y \<in> set xs. key y \<noteq> key x}"
    by (simp add: mset_upsert)
  then show ?thesis by simp
qed

lemma keys_upsert: "key ` set (upsert x xs) = insert (key x) (key ` set xs)"
  by (auto simp: set_upsert)

lemma mset_keys_upsert:
  "mset (map key (upsert x xs)) = add_mset (key x) (filter_mset (\<lambda>k. k \<noteq> key x) (mset (map key xs)))"
proof -
  have "mset (map key (upsert x xs)) = image_mset key (mset (upsert x xs))" by simp
  also have "\<dots> = add_mset (key x) (image_mset key (filter_mset (\<lambda>y. key y \<noteq> key x) (mset xs)))"
    by (simp add: mset_upsert)
  also have "image_mset key (filter_mset (\<lambda>y. key y \<noteq> key x) (mset xs))
      = filter_mset (\<lambda>k. k \<noteq> key x) (image_mset key (mset xs))"
    by (induction xs) auto
  finally show ?thesis by simp
qed

lemma distinct_upsert:
  assumes "distinct (map key xs)"
  shows "distinct (map key (upsert x xs))"
proof -
  from assms have "\<forall>k. count (mset (map key xs)) k \<le> 1"
    by (metis distinct_count_atmost_1 le_numeral_extra(4) zero_le_one)
  then have "count (mset (map key (upsert x xs))) k \<le> 1" for k
    by (simp only: mset_keys_upsert) auto
  then have "count (mset (map key (upsert x xs))) k = (if k \<in> set (map key (upsert x xs)) then 1 else 0)" for k
    by (metis One_nat_def count_mset_0_iff le_Suc_eq le_zero_eq)
  then show ?thesis unfolding distinct_count_atmost_1 by blast
qed

lemma lookup_same: "find (\<lambda>y. key y = key x) (upsert x xs) = Some x"
proof -
  have "find (\<lambda>y. key y = key x) (upsert x xs) \<noteq> None"
    by (auto simp: find_None_iff set_upsert)
  then obtain y where y: "find (\<lambda>y. key y = key x) (upsert x xs) = Some y" by auto
  then have "y \<in> set (upsert x xs)" and "key y = key x" by (auto dest: find_Some_set)
  then have "y = x" by (auto simp: set_upsert)
  with y show ?thesis by simp
qed

lemma lookup_other:
  assumes "distinct (map key xs)" and "k \<noteq> key x"
  shows "find (\<lambda>y. key y = k) (upsert x xs) = find (\<lambda>y. key y = k) xs"
proof (cases "find (\<lambda>y. key y = k) xs")
  case None
  then have "\<forall>y \<in> set (upsert x xs). key y \<noteq> k"
    using assms(2) by (auto simp: find_None_iff set_upsert)
  then have "find (\<lambda>y. key y = k) (upsert x xs) = None" by (auto simp: find_None_iff)
  with None show ?thesis by simp
next
  case (Some z)
  then have z: "z \<in> set xs" "key z = k" by (auto dest: find_Some_set)
  then have "z \<in> set (upsert x xs)" using assms(2) by (auto simp: set_upsert)
  then have "find (\<lambda>y. key y = k) (upsert x xs) \<noteq> None" using z by (auto simp: find_None_iff)
  then obtain w where w: "find (\<lambda>y. key y = k) (upsert x xs) = Some w" by auto
  then have "w \<in> set xs" "key w = k" using assms(2)
    by (auto dest!: find_Some_set simp: set_upsert)
  with z assms(1) have "w = z" by (auto simp: distinct_map inj_on_def)
  with w Some show ?thesis by simp
qed

lemma length_upsert: "length (upsert x xs) \<le> Suc (length xs)"
proof -
  have "size (mset (upsert x xs)) \<le> Suc (size (mset xs))"
    by (simp only: mset_upsert size_add_mset) (metis Suc_le_mono size_filter_mset_lesseq)
  then show ?thesis by simp
qed

end

section \<open>The three ways the code upserts\<close>

definition put_last :: "('a \<Rightarrow> 'k) \<Rightarrow> 'a \<Rightarrow> 'a list \<Rightarrow> 'a list" where
  "put_last key x xs = filter (\<lambda>y. key y \<noteq> key x) xs @ [x]"

definition put_first :: "('a \<Rightarrow> 'k) \<Rightarrow> 'a \<Rightarrow> 'a list \<Rightarrow> 'a list" where
  "put_first key x xs = x # filter (\<lambda>y. key y \<noteq> key x) xs"

definition put_at :: "nat \<Rightarrow> ('a \<Rightarrow> 'k) \<Rightarrow> 'a \<Rightarrow> 'a list \<Rightarrow> 'a list" where
  "put_at i key x xs =
     (let filtered = filter (\<lambda>y. key y \<noteq> key x) xs
      in insert_at (min i (length filtered)) x filtered)"

interpretation append: keyed_upsert key "put_last key" for key
  by unfold_locales (simp add: put_last_def)

interpretation prepend: keyed_upsert key "put_first key" for key
  by unfold_locales (simp add: put_first_def)

interpretation splice: keyed_upsert key "put_at i key" for i key
  by unfold_locales (simp add: put_at_def Let_def)

text \<open>Storing into a list with no element of that identity adds exactly one element.\<close>

lemma put_at_fresh:
  "key x \<notin> key ` set xs \<Longrightarrow> put_at i key x xs = insert_at (min i (length xs)) x xs"
proof -
  assume "key x \<notin> key ` set xs"
  then have "filter (\<lambda>y. key y \<noteq> key x) xs = xs" by (metis (mono_tags, lifting) filter_True image_eqI)
  then show ?thesis by (simp add: put_at_def)
qed

end
