(* ===== verification/PortivaTypes.thy ===== *)
theory PortivaTypes
  imports JsBase
begin

text \<open>
  The data model of the front end (\<^verbatim>\<open>src/shared/types.ts\<close>): an interface is a record, a union of
  string literals a datatype with one constructor per literal, a tagged union a datatype with
  one constructor per tag. A field that may be missing or \<^verbatim>\<open>null\<close> is an option: the code reads
  both through \<^verbatim>\<open>?? default\<close> or a truth test, which do not tell them apart. Integral numbers
  (sizes, ports, counters) are \<open>int\<close>; the split ratio is a \<open>jsnum\<close>.
\<close>

section \<open>Connections\<close>

datatype connection_type =
    Ssh | Sftp | Telnet | Serial | RawTcp | LocalShell | Wsl
  | DockerExec | KubernetesExec | Ftp | Ftps | Webdav | S3

datatype connection_status = Ready | Connecting | Connected | Disconnected | Failed | Todo

datatype text_encoding =
  Ascii | Utf8 | Gbk | Big5 | ShiftJis | EucKr | Utf16le | Utf16be | Latin1

record capabilities =
  cap_terminal :: bool
  cap_fileTransfer :: bool
  cap_sftp :: bool
  cap_scp :: bool
  cap_tunnel :: bool
  cap_portForwarding :: bool
  cap_ptyResize :: bool
  cap_secureTransport :: bool
  cap_reconnect :: bool
  cap_localFileAccess :: bool
  cap_requiresHostKeyVerification :: bool

datatype auth_type = AuthPassword | AuthPrivateKey | AuthAgent
datatype terminal_type = Xterm | Vt100 | Vt220
datatype line_ending = Crlf | Cr | Lf
datatype parity = ParityNone | ParityOdd | ParityEven | ParityMark | ParitySpace
datatype stop_bits = StopOne | StopOneAndHalf | StopTwo
datatype flow_control = FlowNone | FlowSoftware | FlowHardware

record base_profile =
  prof_id :: jsstr
  prof_name :: jsstr
  prof_groupId :: "jsstr option"
  prof_tags :: "jsstr list"
  prof_createdAt :: jsstr
  prof_updatedAt :: jsstr

record ssh_profile = base_profile +
  ssh_host :: jsstr
  ssh_port :: int
  ssh_username :: jsstr
  ssh_authType :: auth_type
  ssh_privateKeyPath :: "jsstr option"
  ssh_enableAgentForwarding :: "bool option"
  ssh_enableCompression :: "bool option"
  ssh_proxyJump :: "jsstr option"

record sftp_profile = base_profile +
  sftp_host :: jsstr
  sftp_port :: int
  sftp_username :: jsstr
  sftp_authType :: auth_type
  sftp_privateKeyPath :: "jsstr option"
  sftp_enableCompression :: "bool option"
  sftp_proxyJump :: "jsstr option"

record telnet_profile = base_profile +
  tel_host :: jsstr
  tel_port :: int
  tel_username :: "jsstr option"
  tel_terminalType :: terminal_type
  tel_lineEnding :: line_ending
  tel_encoding :: text_encoding

record serial_profile = base_profile +
  ser_portName :: jsstr
  ser_baudRate :: int
  ser_dataBits :: int
  ser_parity :: parity
  ser_stopBits :: stop_bits
  ser_flowControl :: flow_control
  ser_lineEnding :: line_ending
  ser_encoding :: text_encoding
  ser_dtr :: "bool option"
  ser_rts :: "bool option"

record raw_profile = base_profile +
  raw_host :: jsstr
  raw_port :: int
  raw_lineEnding :: line_ending
  raw_encoding :: text_encoding

datatype profile =
    SshProfile ssh_profile
  | SftpProfile sftp_profile
  | TelnetProfile telnet_profile
  | SerialProfile serial_profile
  | RawSocketProfile raw_profile

fun profile_base :: "profile \<Rightarrow> base_profile" where
  "profile_base (SshProfile p) = base_profile.truncate p"
| "profile_base (SftpProfile p) = base_profile.truncate p"
| "profile_base (TelnetProfile p) = base_profile.truncate p"
| "profile_base (SerialProfile p) = base_profile.truncate p"
| "profile_base (RawSocketProfile p) = base_profile.truncate p"

fun profile_type :: "profile \<Rightarrow> connection_type" where
  "profile_type (SshProfile _) = Ssh"
| "profile_type (SftpProfile _) = Sftp"
| "profile_type (TelnetProfile _) = Telnet"
| "profile_type (SerialProfile _) = Serial"
| "profile_type (RawSocketProfile _) = RawTcp"

definition profile_id :: "profile \<Rightarrow> jsstr" where
  "profile_id p = prof_id (profile_base p)"

datatype transport_kind = KSsh | KTelnet | KSerial | KRawTcp | KLocalShell | KWsl

record transport =
  tr_kind :: transport_kind
  tr_host :: jsstr
  tr_port :: int
  tr_serverIdentification :: "jsstr option"
  tr_hostKeyFingerprint :: "jsstr option"
  tr_authenticated :: bool
  tr_terminalChannelReady :: bool
  tr_fileTransferReady :: bool

record connection =
  conn_id :: jsstr
  conn_profileId :: jsstr
  conn_title :: jsstr
  conn_status :: connection_status
  conn_capabilities :: capabilities
  conn_transport :: "transport option"

section \<open>Files and transfers\<close>

datatype entry_kind = File | Directory | Symlink | OtherEntry

record remote_entry =
  ent_name :: jsstr
  ent_path :: jsstr
  ent_kind :: entry_kind
  ent_size :: int
  ent_modifiedAt :: "jsstr option"
  ent_permissions :: "jsstr option"
  ent_owner :: "jsstr option"
  ent_group :: "jsstr option"

datatype transfer_protocol = PSftp | PScp | PFtp | PWebdav | PS3 | PWsl

record ft_session =
  fts_id :: jsstr
  fts_connectionId :: jsstr
  fts_protocol :: transfer_protocol

datatype direction = Upload | Download
datatype item_kind = ItemFile | ItemDirectory | ItemBatch
datatype conflict_policy = Ask | Overwrite | OverwriteAll | Rename | Skip | SkipAll
datatype transfer_status =
    Pending | Running | Paused | WaitingConflict | Cancelled | TFailed | Partial | Completed

record upload_item =
  up_localPath :: jsstr
  up_remotePath :: jsstr
  up_itemKind :: item_kind

record transfer =
  tf_id :: jsstr
  tf_connectionId :: jsstr
  tf_direction :: direction
  tf_protocol :: transfer_protocol
  tf_itemKind :: item_kind
  tf_localPath :: jsstr
  tf_remotePath :: jsstr
  tf_batchItems :: "upload_item list option"
  tf_status :: transfer_status
  tf_conflictPolicy :: conflict_policy
  tf_conflictPath :: "jsstr option"
  tf_retryCount :: int
  tf_totalBytes :: "int option"
  tf_transferredBytes :: int
  tf_totalItems :: "int option"
  tf_completedItems :: int
  tf_skippedItems :: int
  tf_failedItems :: int
  tf_speedBytesPerSecond :: "jsnum option"
  tf_error :: "jsstr option"
  tf_createdAt :: jsstr
  tf_updatedAt :: jsstr

section \<open>Terminals and tabs\<close>

record term_size =
  sz_cols :: int
  sz_rows :: int
  sz_widthPx :: int
  sz_heightPx :: int

datatype term_status = Attached | Closed

record render_policy =
  rp_flushIntervalMs :: int
  rp_maxChunkBytes :: int
  rp_scrollbackLines :: int

record terminal =
  term_id :: jsstr
  term_connectionId :: jsstr
  term_size :: term_size
  term_status :: term_status
  term_renderPolicy :: render_policy
  term_x11Forwarding :: bool

record snapshot =
  snap_terminalId :: jsstr
  snap_status :: term_status
  snap_bufferedBytes :: int
  snap_bufferPreview :: jsstr
  snap_historyTruncated :: bool
  snap_renderPolicy :: render_policy
  snap_outputChunk :: "jsstr option"
  snap_droppedOutputCharacters :: int

text \<open>
  \<^verbatim>\<open>droppedOutputCharacters?\<close> is read as \<^verbatim>\<open>?? 0\<close> and written as \<^verbatim>\<open>n || undefined\<close>, so a missing
  count is the count 0.
\<close>

datatype orientation = Columns | Rows

datatype layout =
    Leaf jsstr
  | Split orientation jsnum layout layout

record pane =
  pane_terminal :: terminal
  pane_snapshot :: "snapshot option"
  pane_title :: "jsstr option"
  pane_workingDirectory :: "jsstr option"

datatype tab_kind =
  TerminalTab | FileTransferTab | SettingsTab | HttpConsoleTab | HostDashboardTab | NetworkScanTab | WslFilesTab

record tab =
  tab_idField :: "jsstr option"
  tab_kindField :: "tab_kind option"
  tab_connection :: connection
  tab_fileTransferSession :: "ft_session option"
  tab_parentConnectionId :: "jsstr option"
  tab_restored :: bool
  tab_terminal :: "terminal option"
  tab_additionalTerminals :: "pane list"
  tab_terminalLayout :: "layout option"
  tab_terminalSnapshot :: "snapshot option"
  tab_terminalTitle :: "jsstr option"
  tab_terminalWorkingDirectory :: "jsstr option"

text \<open>\<^verbatim>\<open>tab.id ?? tab.connection.id\<close> and \<^verbatim>\<open>tab.kind ?? "terminal"\<close>, as every handler reads them.\<close>

definition tab_id :: "tab \<Rightarrow> jsstr" where
  "tab_id t = (case tab_idField t of Some i \<Rightarrow> i | None \<Rightarrow> conn_id (tab_connection t))"

definition tab_kind_of :: "tab \<Rightarrow> tab_kind" where
  "tab_kind_of t = (case tab_kindField t of Some k \<Rightarrow> k | None \<Rightarrow> TerminalTab)"

section \<open>The rest of the workspace's data\<close>

record profile_group =
  pg_id :: jsstr
  pg_name :: jsstr
  pg_profileCount :: int

record recent_connection =
  rc_profileId :: jsstr
  rc_title :: jsstr
  rc_lastConnectedAt :: jsstr

record protocol_descriptor =
  pd_protocolType :: connection_type
  pd_label :: jsstr
  pd_enabled :: bool
  pd_capabilities :: capabilities

datatype secret_purpose = PurposePassword | PurposePassphrase | PurposeToken | PurposeProxyPassword

record secret =
  sec_id :: jsstr
  sec_profileId :: jsstr
  sec_purpose :: secret_purpose
  sec_createdAt :: jsstr
  sec_hasValue :: bool

record known_host =
  kh_host :: jsstr
  kh_fingerprint :: jsstr

datatype log_level = LogDebug | LogInfo | LogWarn | LogError

record log_entry =
  log_id :: jsstr
  log_level :: log_level
  log_target :: jsstr
  log_message :: jsstr
  log_createdAt :: jsstr

datatype port_type = PortUsb | PortBluetooth | PortPci | PortUnknown

record serial_port =
  port_name :: jsstr
  port_portType :: port_type
  port_displayName :: jsstr
  port_manufacturer :: "jsstr option"
  port_vid :: "int option"
  port_pid :: "int option"
  port_isAvailable :: bool

record serial_rx_event =
  rx_terminalId :: jsstr
  rx_seq :: int
  rx_timestampUs :: int
  rx_bytes :: "int list"
  rx_text :: jsstr

datatype wsl_state = WslRunning | WslStopped | WslUnknown

record wsl_distribution =
  wsl_name :: jsstr
  wsl_isDefault :: bool
  wsl_state :: wsl_state
  wsl_version :: "int option"

record wsl_discovery =
  wsl_supported :: bool
  wsl_available :: bool
  wsl_distributions :: "wsl_distribution list"
  wsl_message :: "jsstr option"

datatype tunnel_kind = TunnelLocal | TunnelRemote | TunnelDynamic
datatype tunnel_status = TunnelPending | TunnelActive | TunnelStopped | TunnelFailed

record tunnel_rule =
  tun_id :: jsstr
  tun_connectionId :: jsstr
  tun_kind :: tunnel_kind
  tun_localHost :: jsstr
  tun_localPort :: int
  tun_remoteHost :: jsstr
  tun_remotePort :: int
  tun_status :: tunnel_status

section \<open>Network scans\<close>

record interface_info =
  if_name :: jsstr
  if_address :: jsstr
  if_prefixLength :: int
  if_cidr :: jsstr
  if_isLoopback :: bool
  if_isPrivate :: bool

record scan_request =
  req_cidr :: jsstr
  req_pingEnabled :: bool
  req_tcpEnabled :: bool
  req_ports :: "int list"
  req_timeoutMs :: int
  req_concurrency :: int

record scan_session =
  scan_id :: jsstr
  scan_total :: int

datatype discovery_method = ByPing | ByTcp

record scan_result =
  res_ip :: jsstr
  res_reachable :: bool
  res_pingSucceeded :: bool
  res_latencyMs :: "jsnum option"
  res_openPorts :: "int list"
  res_discoveryMethods :: "discovery_method list"
  res_error :: "jsstr option"

datatype scan_event_kind = ScanProgress | ScanCompleted | ScanCancelled

record scan_event =
  sev_scanId :: jsstr
  sev_kind :: scan_event_kind
  sev_scanned :: int
  sev_total :: int
  sev_results :: "scan_result list"
  sev_message :: "jsstr option"

section \<open>Settings\<close>

datatype theme_mode = ThemeDark | ThemeLight | ThemeSystem
datatype color_preset = PresetDark | PresetLight | PresetCustom
datatype right_click = RightDisabled | RightContextMenu | RightPaste | RightCopyOrPaste
datatype background_preset = Aurora | Horizon | Topography | CustomBackground
datatype proxy_mode = ProxyNone | ProxyHttp | ProxySocks5 | ProxyBrowser

record background_settings =
  bg_enabled :: bool
  bg_preset :: background_preset
  bg_customImage :: "jsstr option"
  bg_opacity :: jsnum
  bg_blur :: jsnum

record palette =
  pal_background :: jsstr
  pal_foreground :: jsstr
  pal_cursor :: jsstr
  pal_selectionBackground :: jsstr
  pal_black :: jsstr
  pal_red :: jsstr
  pal_green :: jsstr
  pal_yellow :: jsstr
  pal_blue :: jsstr
  pal_magenta :: jsstr
  pal_cyan :: jsstr
  pal_white :: jsstr
  pal_brightBlack :: jsstr
  pal_brightRed :: jsstr
  pal_brightGreen :: jsstr
  pal_brightYellow :: jsstr
  pal_brightBlue :: jsstr
  pal_brightMagenta :: jsstr
  pal_brightCyan :: jsstr
  pal_brightWhite :: jsstr

record theme_settings =
  th_mode :: theme_mode
  th_background :: background_settings
  th_terminalFontFamily :: jsstr
  th_terminalFontSize :: jsnum
  th_terminalColorPreset :: color_preset
  th_terminalColors :: palette

record keymap =
  km_commandPalette :: jsstr
  km_newProfile :: jsstr
  km_openHostOverview :: jsstr
  km_openLocalTerminal :: jsstr
  km_openSerialTerminal :: jsstr
  km_openSettings :: jsstr
  km_increaseFontSize :: jsstr
  km_decreaseFontSize :: jsstr
  km_closeTab :: jsstr

record security_settings =
  sx_requireHostKeyVerification :: bool
  sx_redactSensitiveLogs :: bool
  sx_allowInsecureWithoutWarning :: bool

record terminal_settings =
  ts_confirmMultilinePaste :: bool
  ts_copyRichText :: bool
  ts_rightClickBehavior :: right_click

record proxy_settings =
  px_mode :: proxy_mode
  px_host :: jsstr
  px_port :: int
  px_authenticationEnabled :: bool
  px_username :: jsstr

record app_settings =
  set_theme :: theme_settings
  set_keymap :: keymap
  set_security :: security_settings
  set_terminal :: terminal_settings
  set_proxy :: proxy_settings

end
