(* ===== verification/TerminalSplits.thy ===== *)
theory TerminalSplits
  imports PortivaTypes
begin

text \<open>
  The split layout of an SSH page (\<^verbatim>\<open>src/shared/terminalSplits.ts\<close>): a binary tree of terminals,
  the panes of a tab, and the validation of a layout that arrives in the URL of a detached
  window. The code compares object references to keep unchanged subtrees
  (\<^verbatim>\<open>first !== layout.first\<close>); the model compares the trees, which agrees because an operation
  that makes a new node either changes the tree or returns an equal one.
\<close>

definition maximumSshTerminalPanes :: nat where
  "maximumSshTerminalPanes = 4"

section \<open>Panes of a tab\<close>

definition terminalPanesForTab :: "tab \<Rightarrow> pane list" where
  "terminalPanesForTab tab =
     (case tab_terminal tab of
        Some terminal \<Rightarrow>
          [\<lparr>pane_terminal = terminal, pane_snapshot = tab_terminalSnapshot tab,
            pane_title = tab_terminalTitle tab,
            pane_workingDirectory = tab_terminalWorkingDirectory tab\<rparr>]
      | None \<Rightarrow> [])
     @ tab_additionalTerminals tab"

definition pane_id :: "pane \<Rightarrow> jsstr" where
  "pane_id pane = term_id (pane_terminal pane)"

fun findTerminalPane :: "tab list \<Rightarrow> jsstr \<Rightarrow> pane option" where
  "findTerminalPane [] terminalId = None"
| "findTerminalPane (tab # tabs) terminalId =
     (case find (\<lambda>item. pane_id item = terminalId) (terminalPanesForTab tab) of
        Some pane \<Rightarrow> Some pane
      | None \<Rightarrow> findTerminalPane tabs terminalId)"

section \<open>Layouts\<close>

fun collectLayoutTerminalIds :: "layout \<Rightarrow> jsstr list" where
  "collectLayoutTerminalIds (Leaf terminalId) = [terminalId]"
| "collectLayoutTerminalIds (Split _ _ first second) =
     collectLayoutTerminalIds first @ collectLayoutTerminalIds second"

definition layoutMatchesTerminalIds :: "layout \<Rightarrow> jsstr list \<Rightarrow> bool" where
  "layoutMatchesTerminalIds layout terminalIds =
     (let layoutIds = collectLayoutTerminalIds layout
      in if length layoutIds \<noteq> length terminalIds then False
         else length (js_unique layoutIds) = length (js_unique terminalIds)
            \<and> list_all (\<lambda>terminalId. terminalId \<in> set terminalIds) layoutIds)"

definition splitBranch :: "orientation \<Rightarrow> layout \<Rightarrow> layout \<Rightarrow> layout" where
  "splitBranch orient first second = Split orient (Fin (1 / 2)) first second"

text \<open>
  \<^verbatim>\<open>leaves[3]\<close> is read when there are four terminals or more; the other cases are the code's own
  tests on the length. An empty list is excluded by the only caller.
\<close>

fun createDefaultTerminalSplitLayout :: "jsstr list \<Rightarrow> layout option" where
  "createDefaultTerminalSplitLayout [] = None"
| "createDefaultTerminalSplitLayout [a] = Some (Leaf a)"
| "createDefaultTerminalSplitLayout [a, b] = Some (splitBranch Columns (Leaf a) (Leaf b))"
| "createDefaultTerminalSplitLayout [a, b, c] =
     Some (splitBranch Columns (Leaf a) (splitBranch Rows (Leaf b) (Leaf c)))"
| "createDefaultTerminalSplitLayout (a # b # c # d # _) =
     Some (splitBranch Columns
       (splitBranch Rows (Leaf a) (Leaf b))
       (splitBranch Rows (Leaf c) (Leaf d)))"

definition resolveTerminalSplitLayout :: "tab \<Rightarrow> layout option" where
  "resolveTerminalSplitLayout tab =
     (let terminalIds = map pane_id (terminalPanesForTab tab)
      in if terminalIds = [] then None
         else
           (case tab_terminalLayout tab of
              Some layout \<Rightarrow>
                if layoutMatchesTerminalIds layout terminalIds then Some layout
                else createDefaultTerminalSplitLayout terminalIds
            | None \<Rightarrow> createDefaultTerminalSplitLayout terminalIds))"

fun splitTerminalLayout :: "layout \<Rightarrow> jsstr \<Rightarrow> jsstr \<Rightarrow> orientation \<Rightarrow> layout" where
  "splitTerminalLayout (Leaf terminalId) targetTerminalId newTerminalId orient =
     (if terminalId \<noteq> targetTerminalId then Leaf terminalId
      else Split orient (Fin (1 / 2)) (Leaf terminalId) (Leaf newTerminalId))"
| "splitTerminalLayout (Split o' ratio first0 second0) targetTerminalId newTerminalId orient =
     (let first = splitTerminalLayout first0 targetTerminalId newTerminalId orient
      in if first \<noteq> first0 then Split o' ratio first second0
         else
           (let second = splitTerminalLayout second0 targetTerminalId newTerminalId orient
            in if second = second0 then Split o' ratio first0 second0
               else Split o' ratio first0 second))"

fun removeTerminalFromLayout :: "layout \<Rightarrow> jsstr \<Rightarrow> layout option" where
  "removeTerminalFromLayout (Leaf t) terminalId = (if t = terminalId then None else Some (Leaf t))"
| "removeTerminalFromLayout (Split o' ratio first0 second0) terminalId =
     (case removeTerminalFromLayout first0 terminalId of
        None \<Rightarrow> removeTerminalFromLayout second0 terminalId
      | Some first \<Rightarrow>
          (case removeTerminalFromLayout second0 terminalId of
             None \<Rightarrow> Some first
           | Some second \<Rightarrow>
               if first = first0 \<and> second = second0 then Some (Split o' ratio first0 second0)
               else Some (Split o' ratio first second)))"

fun replaceTerminalInLayout :: "layout \<Rightarrow> jsstr \<Rightarrow> jsstr \<Rightarrow> layout" where
  "replaceTerminalInLayout (Leaf t) terminalId replacementId =
     (if t = terminalId then Leaf replacementId else Leaf t)"
| "replaceTerminalInLayout (Split o' ratio first0 second0) terminalId replacementId =
     (let first = replaceTerminalInLayout first0 terminalId replacementId;
          second = replaceTerminalInLayout second0 terminalId replacementId
      in if first = first0 \<and> second = second0 then Split o' ratio first0 second0
         else Split o' ratio first second)"

text \<open>
  The literals \<^verbatim>\<open>0.1\<close>, \<^verbatim>\<open>0.22\<close>, \<^verbatim>\<open>0.78\<close> and \<^verbatim>\<open>0.9\<close> denote the doubles nearest to them; they are written
  as those exact values, since a ratio may be equal to one of them.
\<close>

definition lit_0_1 :: rat where
  "lit_0_1 = 3602879701896397 / 36028797018963968"

definition lit_0_22 :: rat where
  "lit_0_22 = 7926335344172073 / 36028797018963968"

definition lit_0_78 :: rat where
  "lit_0_78 = 3512807709348987 / 4503599627370496"

definition lit_0_9 :: rat where
  "lit_0_9 = 8106479329266893 / 9007199254740992"

lemmas ratio_lits = lit_0_1_def lit_0_22_def lit_0_78_def lit_0_9_def

definition clampTerminalSplitRatio :: "jsnum \<Rightarrow> jsnum" where
  "clampTerminalSplitRatio ratio = num_min (Fin lit_0_78) (num_max (Fin lit_0_22) ratio)"

text \<open>A step of the path is 0 for the first subtree; any other number means the second.\<close>

fun updateTerminalSplitRatio :: "layout \<Rightarrow> nat list \<Rightarrow> jsnum \<Rightarrow> layout" where
  "updateTerminalSplitRatio (Leaf t) path ratio = Leaf t"
| "updateTerminalSplitRatio (Split o' r first0 second0) [] ratio =
     Split o' (clampTerminalSplitRatio ratio) first0 second0"
| "updateTerminalSplitRatio (Split o' r first0 second0) (head # tail) ratio =
     (if head = 0
      then
        (let first = updateTerminalSplitRatio first0 tail ratio
         in if first = first0 then Split o' r first0 second0 else Split o' r first second0)
      else
        (let second = updateTerminalSplitRatio second0 tail ratio
         in if second = second0 then Split o' r first0 second0 else Split o' r first0 second))"

section \<open>Validation of a layout of unknown origin\<close>

definition json_ratio_ok :: "json option \<Rightarrow> bool" where
  "json_ratio_ok v =
     (case v of
        Some (JNum r) \<Rightarrow> num_finite r \<and> num_le (Fin lit_0_1) r \<and> num_le r (Fin lit_0_9)
      | _ \<Rightarrow> False)"

definition json_nonempty_string :: "json option \<Rightarrow> bool" where
  "json_nonempty_string v = (case v of Some (JStr s) \<Rightarrow> s \<noteq> [] | _ \<Rightarrow> False)"

text \<open>The second component is \<^verbatim>\<open>state.leaves\<close>, which the recursive calls share.\<close>

function validateTerminalSplitLayout :: "json option \<Rightarrow> nat \<Rightarrow> nat \<Rightarrow> bool \<times> nat" where
  "validateTerminalSplitLayout value depth leaves =
     (if depth > maximumSshTerminalPanes \<or> leaves > maximumSshTerminalPanes then (False, leaves)
      else
        (case value of
           None \<Rightarrow> (False, leaves)
         | Some candidate \<Rightarrow>
             if \<not> json_is_object candidate then (False, leaves)
             else if json_get ''type'' candidate = Some (JStr (js ''terminal'')) then
               (Suc leaves \<le> maximumSshTerminalPanes
                  \<and> json_nonempty_string (json_get ''terminalId'' candidate), Suc leaves)
             else if json_get ''type'' candidate = Some (JStr (js ''split''))
               \<and> (json_get ''orientation'' candidate = Some (JStr (js ''columns''))
                  \<or> json_get ''orientation'' candidate = Some (JStr (js ''rows'')))
               \<and> json_ratio_ok (json_get ''ratio'' candidate) then
               (case validateTerminalSplitLayout (json_get ''first'' candidate) (Suc depth) leaves of
                  (False, leaves') \<Rightarrow> (False, leaves')
                | (True, leaves') \<Rightarrow>
                    validateTerminalSplitLayout (json_get ''second'' candidate) (Suc depth) leaves')
             else (False, leaves)))"
  by pat_completeness auto
termination
  by (relation "measure (\<lambda>(v, depth, leaves). Suc maximumSshTerminalPanes - depth)") auto

declare validateTerminalSplitLayout.simps [simp del]

definition isTerminalSplitLayout :: "json \<Rightarrow> bool" where
  "isTerminalSplitLayout value = fst (validateTerminalSplitLayout (Some value) 0 0)"

section \<open>Leaves of a layout under the operations\<close>

lemma length_js_unique_set: "length (js_unique xs) = card (set xs)"
  by (metis distinct_card distinct_js_unique set_js_unique)

lemma layoutMatches_iff:
  "distinct ids \<Longrightarrow>
   layoutMatchesTerminalIds l ids \<longleftrightarrow> mset (collectLayoutTerminalIds l) = mset ids"
proof
  let ?ls = "collectLayoutTerminalIds l"
  assume d: "distinct ids"
  {
    assume m: "layoutMatchesTerminalIds l ids"
    then have len: "length ?ls = length ids" and sub: "set ?ls \<subseteq> set ids"
      and card: "card (set ?ls) = card (set ids)"
      by (auto simp: layoutMatchesTerminalIds_def Let_def length_js_unique_set list_all_iff split: if_splits)
    from sub card have eq: "set ?ls = set ids" by (simp add: card_subset_eq)
    with len d have "distinct ?ls" by (metis card_distinct distinct_card)
    with d eq show "mset ?ls = mset ids" by (simp add: set_eq_iff_mset_eq_distinct)
  }
  assume m: "mset ?ls = mset ids"
  then have "length ?ls = length ids" by (rule mset_eq_length)
  moreover from m have "set ?ls = set ids" by (rule mset_eq_setD)
  ultimately show "layoutMatchesTerminalIds l ids"
    by (simp add: layoutMatchesTerminalIds_def Let_def length_js_unique_set list_all_iff)
qed

lemma split_unchanged_iff:
  "splitTerminalLayout l t n o' = l \<longleftrightarrow> t \<notin> set (collectLayoutTerminalIds l)"
proof (induction l)
  case (Split p r a b)
  then show ?case by (auto simp: Let_def)
qed simp

fun insert_after :: "jsstr \<Rightarrow> jsstr \<Rightarrow> jsstr list \<Rightarrow> jsstr list" where
  "insert_after t n [] = []"
| "insert_after t n (x # xs) = (if x = t then x # n # xs else x # insert_after t n xs)"

lemma insert_after_append:
  "insert_after t n (xs @ ys) =
     (if t \<in> set xs then insert_after t n xs @ ys else xs @ insert_after t n ys)"
  by (induction xs) auto

lemma mset_insert_after: "t \<in> set xs \<Longrightarrow> mset (insert_after t n xs) = add_mset n (mset xs)"
  by (induction xs) (auto simp: add_mset_commute)

lemma leaves_split:
  "collectLayoutTerminalIds (splitTerminalLayout l t n o') =
     insert_after t n (collectLayoutTerminalIds l)"
proof (induction l)
  case (Split p r a b)
  show ?case
  proof (cases "t \<in> set (collectLayoutTerminalIds a)")
    case True
    then have "splitTerminalLayout a t n o' \<noteq> a" by (simp add: split_unchanged_iff)
    then show ?thesis using True Split.IH(1) by (simp add: insert_after_append)
  next
    case False
    then have "splitTerminalLayout a t n o' = a" by (simp add: split_unchanged_iff)
    then show ?thesis using False Split.IH(2) by (auto simp: insert_after_append Let_def)
  qed
qed simp

text \<open>Keeping an unchanged subtree and rebuilding it are the same value.\<close>

lemma remove_Split:
  "removeTerminalFromLayout (Split p r a b) t =
     (case removeTerminalFromLayout a t of
        None \<Rightarrow> removeTerminalFromLayout b t
      | Some a' \<Rightarrow>
          (case removeTerminalFromLayout b t of
             None \<Rightarrow> Some a' | Some b' \<Rightarrow> Some (Split p r a' b')))"
  by (simp split: option.split)

lemma replace_Split:
  "replaceTerminalInLayout (Split p r a b) t n =
     Split p r (replaceTerminalInLayout a t n) (replaceTerminalInLayout b t n)"
  by (simp add: Let_def)

lemma ratio_Split:
  "updateTerminalSplitRatio (Split p r a b) (h # path) x =
     (if h = 0 then Split p r (updateTerminalSplitRatio a path x) b
      else Split p r a (updateTerminalSplitRatio b path x))"
  by (simp add: Let_def)

lemmas layout_op_simps = remove_Split replace_Split ratio_Split
declare removeTerminalFromLayout.simps(2) [simp del] replaceTerminalInLayout.simps(2) [simp del]
  updateTerminalSplitRatio.simps(3) [simp del] layout_op_simps [simp]

lemma leaves_remove:
  "map_option collectLayoutTerminalIds (removeTerminalFromLayout l t) =
     (let rest = filter (\<lambda>x. x \<noteq> t) (collectLayoutTerminalIds l)
      in if rest = [] then None else Some rest)"
proof (induction l)
  case (Split p r a b)
  then show ?case
    by (cases "removeTerminalFromLayout a t"; cases "removeTerminalFromLayout b t")
       (simp_all add: Let_def split: if_splits)
qed simp

lemma remove_Some_leaves:
  "removeTerminalFromLayout l t = Some l' \<Longrightarrow>
     collectLayoutTerminalIds l' = filter (\<lambda>x. x \<noteq> t) (collectLayoutTerminalIds l)"
  using leaves_remove [of l t] by (simp add: Let_def split: if_splits)

lemma remove_None_iff:
  "removeTerminalFromLayout l t = None \<longleftrightarrow> set (collectLayoutTerminalIds l) \<subseteq> {t}"
proof -
  have "removeTerminalFromLayout l t = None
      \<longleftrightarrow> filter (\<lambda>x. x \<noteq> t) (collectLayoutTerminalIds l) = []"
    using leaves_remove [of l t] by (cases "removeTerminalFromLayout l t") (auto simp: Let_def split: if_splits)
  then show ?thesis by (auto simp: filter_empty_conv)
qed

lemma leaves_not_Nil [simp]: "collectLayoutTerminalIds l \<noteq> []"
  by (induction l) auto

lemma leaves_replace:
  "collectLayoutTerminalIds (replaceTerminalInLayout l t n) =
     map (\<lambda>x. if x = t then n else x) (collectLayoutTerminalIds l)"
  by (induction l) (auto simp: Let_def)

lemma leaves_ratio:
  "collectLayoutTerminalIds (updateTerminalSplitRatio l path r) = collectLayoutTerminalIds l"
  by (induction l path r rule: updateTerminalSplitRatio.induct) (auto simp: Let_def)

lemma leaves_default:
  "createDefaultTerminalSplitLayout ids = Some l \<Longrightarrow> collectLayoutTerminalIds l = take 4 ids"
  by (induction ids rule: createDefaultTerminalSplitLayout.induct) (auto simp: splitBranch_def)

lemma default_Some: "ids \<noteq> [] \<Longrightarrow> \<exists>l. createDefaultTerminalSplitLayout ids = Some l"
  by (induction ids rule: createDefaultTerminalSplitLayout.induct) auto

section \<open>The layout as an interface\<close>

text \<open>
  What the tab handlers rely on: a tree with an identity at each leaf, whose leaves change
  under split, removal and replacement as those of a list do. The handlers keep
  \<open>mset (leaves layout) = mset ids\<close>, the layout shows exactly the panes of the tab.
\<close>

locale split_tree =
  fixes leaves :: "'l \<Rightarrow> 'i list"
    and split :: "'l \<Rightarrow> 'i \<Rightarrow> 'i \<Rightarrow> 'l"
    and remove :: "'l \<Rightarrow> 'i \<Rightarrow> 'l option"
    and replace :: "'l \<Rightarrow> 'i \<Rightarrow> 'i \<Rightarrow> 'l"
  assumes mset_leaves_split:
      "t \<in> set (leaves l) \<Longrightarrow> mset (leaves (split l t n)) = add_mset n (mset (leaves l))"
    and remove_None: "remove l t = None \<longleftrightarrow> set (leaves l) \<subseteq> {t}"
    and remove_Some: "remove l t = Some l' \<Longrightarrow> leaves l' = filter (\<lambda>x. x \<noteq> t) (leaves l)"
    and leaves_replaced: "leaves (replace l t n) = map (\<lambda>x. if x = t then n else x) (leaves l)"
begin

lemma split_covers:
  "mset (leaves l) = mset ids \<Longrightarrow> t \<in> set ids \<Longrightarrow> mset (leaves (split l t n)) = mset (ids @ [n])"
  by (metis add_mset_add_single mset.simps(1,2) mset_append mset_eq_setD mset_leaves_split)

lemma remove_covers:
  "mset (leaves l) = mset ids \<Longrightarrow> remove l t = Some l' \<Longrightarrow>
   mset (leaves l') = mset (filter (\<lambda>x. x \<noteq> t) ids)"
  by (simp add: remove_Some)

lemma remove_other:
  assumes "mset (leaves l) = mset ids" and "x \<in> set ids" and "x \<noteq> t"
  shows "\<exists>l'. remove l t = Some l' \<and> mset (leaves l') = mset (filter (\<lambda>x. x \<noteq> t) ids)"
proof -
  from assms have "\<not> set (leaves l) \<subseteq> {t}" by (metis mset_eq_setD singletonD subsetD)
  then obtain l' where "remove l t = Some l'" using remove_None by (cases "remove l t") auto
  with assms(1) remove_covers show ?thesis by blast
qed

lemma replace_covers:
  "mset (leaves l) = mset ids \<Longrightarrow>
   mset (leaves (replace l t n)) = mset (map (\<lambda>x. if x = t then n else x) ids)"
  by (simp add: leaves_replaced)

end

interpretation layout_tree: split_tree collectLayoutTerminalIds
  "\<lambda>l t n. splitTerminalLayout l t n o'" removeTerminalFromLayout replaceTerminalInLayout for o'
  by unfold_locales
     (simp_all add: leaves_split mset_insert_after remove_None_iff remove_Some_leaves leaves_replace)

lemma default_covers:
  assumes "ids \<noteq> []" and "length ids \<le> maximumSshTerminalPanes"
  shows "\<exists>l. createDefaultTerminalSplitLayout ids = Some l \<and> collectLayoutTerminalIds l = ids"
  using assms default_Some [of ids] leaves_default [of ids]
  by (auto simp: maximumSshTerminalPanes_def)

lemma resolve_covers:
  assumes "map pane_id (terminalPanesForTab tab) = ids" and "distinct ids" and "ids \<noteq> []"
    and "length ids \<le> maximumSshTerminalPanes"
  shows "\<exists>l. resolveTerminalSplitLayout tab = Some l \<and> mset (collectLayoutTerminalIds l) = mset ids"
proof -
  obtain d where d: "createDefaultTerminalSplitLayout ids = Some d" "collectLayoutTerminalIds d = ids"
    using default_covers [OF assms(3,4)] by blast
  show ?thesis
    using assms d
    by (cases "tab_terminalLayout tab")
       (auto simp: resolveTerminalSplitLayout_def Let_def layoutMatches_iff)
qed

section \<open>Well-formed layouts and the validator\<close>

definition ratio_ok :: "jsnum \<Rightarrow> bool" where
  "ratio_ok r \<longleftrightarrow> num_finite r \<and> num_le (Fin lit_0_1) r \<and> num_le r (Fin lit_0_9)"

fun layout_wf :: "layout \<Rightarrow> bool" where
  "layout_wf (Leaf t) \<longleftrightarrow> t \<noteq> []"
| "layout_wf (Split _ r a b) \<longleftrightarrow> ratio_ok r \<and> layout_wf a \<and> layout_wf b"

fun layout_height :: "layout \<Rightarrow> nat" where
  "layout_height (Leaf _) = 0"
| "layout_height (Split _ _ a b) = Suc (max (layout_height a) (layout_height b))"

fun orientation_json :: "orientation \<Rightarrow> json" where
  "orientation_json Columns = JStr (js ''columns'')"
| "orientation_json Rows = JStr (js ''rows'')"

text \<open>The object a layout is, as \<^verbatim>\<open>JSON.parse(JSON.stringify(layout))\<close> gives it back.\<close>

fun layout_json :: "layout \<Rightarrow> json" where
  "layout_json (Leaf t) =
     JObj [(js ''type'', JStr (js ''terminal'')), (js ''terminalId'', JStr t)]"
| "layout_json (Split o' r a b) =
     JObj [(js ''type'', JStr (js ''split'')), (js ''orientation'', orientation_json o'),
           (js ''ratio'', JNum r), (js ''first'', layout_json a), (js ''second'', layout_json b)]"

text \<open>The layout an object describes, whatever other properties it has.\<close>

inductive describes :: "json \<Rightarrow> layout \<Rightarrow> bool" where
  leaf: "json_get ''type'' v = Some (JStr (js ''terminal'')) \<Longrightarrow>
         json_get ''terminalId'' v = Some (JStr t) \<Longrightarrow> describes v (Leaf t)"
| branch: "json_get ''type'' v = Some (JStr (js ''split'')) \<Longrightarrow>
         json_get ''orientation'' v = Some (orientation_json o') \<Longrightarrow>
         json_get ''ratio'' v = Some (JNum r) \<Longrightarrow>
         json_get ''first'' v = Some a \<Longrightarrow> describes a la \<Longrightarrow>
         json_get ''second'' v = Some b \<Longrightarrow> describes b lb \<Longrightarrow>
         describes v (Split o' r la lb)"

lemma describes_layout_json: "describes (layout_json l) l"
  by (induction l) (auto intro!: describes.intros)

lemma json_get_object: "json_get k v = Some x \<Longrightarrow> json_is_object v"
  by (cases v) auto

lemma height_less_leaves: "layout_height l < length (collectLayoutTerminalIds l)"
  by (induction l) auto

lemma validate_describes:
  "describes v l \<Longrightarrow>
   (fst (validateTerminalSplitLayout (Some v) depth n) \<longleftrightarrow>
      layout_wf l \<and> n + length (collectLayoutTerminalIds l) \<le> 4 \<and> depth + layout_height l \<le> 4)
   \<and> (fst (validateTerminalSplitLayout (Some v) depth n) \<longrightarrow>
      snd (validateTerminalSplitLayout (Some v) depth n) = n + length (collectLayoutTerminalIds l))"
proof (induction v l arbitrary: depth n rule: describes.induct)
  case (leaf v t)
  then show ?case
    by (subst (1 2 3) validateTerminalSplitLayout.simps)
       (auto simp: json_get_object maximumSshTerminalPanes_def json_nonempty_string_def)
next
  case (branch v o' r a la b lb)
  obtain p n' where first: "validateTerminalSplitLayout (Some a) (Suc depth) n = (p, n')"
    by (cases "validateTerminalSplitLayout (Some a) (Suc depth) n")
  have o': "orientation_json o' = JStr (js ''columns'') \<or> orientation_json o' = JStr (js ''rows'')"
    by (cases o') auto
  have step: "validateTerminalSplitLayout (Some v) depth n =
     (if depth > 4 \<or> n > 4 then (False, n)
      else if ratio_ok r then
        (if p then validateTerminalSplitLayout (Some b) (Suc depth) n' else (False, n'))
      else (False, n))"
    using branch.hyps o' first json_get_object [OF branch.hyps(1)]
    by (subst validateTerminalSplitLayout.simps)
       (auto simp: maximumSshTerminalPanes_def json_ratio_ok_def ratio_ok_def)
  show ?case
    using branch.IH(1) [of "Suc depth" n] branch.IH(2) [of "Suc depth" n']
    by (auto simp: step first)
qed

lemma validate_sound:
  "fst (validateTerminalSplitLayout value depth n) \<Longrightarrow>
   \<exists>v l. value = Some v \<and> describes v l"
proof (induction "value" depth n rule: validateTerminalSplitLayout.induct)
  case (1 v0 depth n)
  have small: "\<not> (depth > maximumSshTerminalPanes \<or> n > maximumSshTerminalPanes)"
    using "1.prems" by (subst (asm) validateTerminalSplitLayout.simps) (auto split: if_splits)
  obtain c where v0: "v0 = Some c" and obj: "json_is_object c"
    using "1.prems" small
    by (subst (asm) validateTerminalSplitLayout.simps) (auto split: option.splits if_splits)
  show ?case
  proof (cases "json_get ''type'' c = Some (JStr (js ''terminal''))")
    case True
    then have "json_nonempty_string (json_get ''terminalId'' c)"
      using "1.prems" small obj v0 by (subst (asm) validateTerminalSplitLayout.simps) simp
    then obtain t where "json_get ''terminalId'' c = Some (JStr t)"
      by (auto simp: json_nonempty_string_def split: option.splits json.splits)
    with True v0 show ?thesis by (blast intro: describes.leaf)
  next
    case False
    obtain o' r where br: "json_get ''type'' c = Some (JStr (js ''split''))"
        "json_get ''orientation'' c = Some (orientation_json o')"
        "json_get ''ratio'' c = Some (JNum r)" "json_ratio_ok (json_get ''ratio'' c)"
      using "1.prems" small obj v0 False
      by (subst (asm) validateTerminalSplitLayout.simps)
         (auto simp: json_ratio_ok_def split: option.splits json.splits if_splits,
          (metis orientation_json.simps)+)
    have o': "json_get ''orientation'' c = Some (JStr (js ''columns''))
        \<or> json_get ''orientation'' c = Some (JStr (js ''rows''))"
      using br(2) by (cases o') auto
    obtain p n' where first: "validateTerminalSplitLayout (json_get ''first'' c) (Suc depth) n = (p, n')"
      by (cases "validateTerminalSplitLayout (json_get ''first'' c) (Suc depth) n")
    have step: "validateTerminalSplitLayout v0 depth n =
        (if p then validateTerminalSplitLayout (json_get ''second'' c) (Suc depth) n' else (False, n'))"
      using br o' small obj v0 first
      by (subst validateTerminalSplitLayout.simps) auto
    then have p: "p" and second: "fst (validateTerminalSplitLayout (json_get ''second'' c) (Suc depth) n')"
      using "1.prems" by (auto split: if_splits)
    have "\<exists>v l. json_get ''first'' c = Some v \<and> describes v l"
      using "1.IH"(1) [OF small v0 _ False] obj br o' first p by auto
    moreover have "\<exists>v l. json_get ''second'' c = Some v \<and> describes v l"
      using "1.IH"(2) [OF small v0 _ False] obj br o' first p second by auto
    ultimately show ?thesis using br(1-3) v0 by (blast intro: describes.branch)
  qed
qed

lemma isTerminalSplitLayout_iff:
  "isTerminalSplitLayout v \<longleftrightarrow>
     (\<exists>l. describes v l \<and> layout_wf l \<and> length (collectLayoutTerminalIds l) \<le> maximumSshTerminalPanes)"
proof
  assume acc: "isTerminalSplitLayout v"
  then obtain l where l: "describes v l"
    using validate_sound [of "Some v" 0 0] by (auto simp: isTerminalSplitLayout_def)
  with acc validate_describes [OF l, of 0 0]
  show "\<exists>l. describes v l \<and> layout_wf l \<and> length (collectLayoutTerminalIds l) \<le> maximumSshTerminalPanes"
    by (auto simp: isTerminalSplitLayout_def maximumSshTerminalPanes_def)
next
  assume "\<exists>l. describes v l \<and> layout_wf l \<and> length (collectLayoutTerminalIds l) \<le> maximumSshTerminalPanes"
  then obtain l where l: "describes v l" "layout_wf l" "length (collectLayoutTerminalIds l) \<le> 4"
    by (auto simp: maximumSshTerminalPanes_def)
  with height_less_leaves [of l] validate_describes [OF l(1), of 0 0]
  show "isTerminalSplitLayout v" by (auto simp: isTerminalSplitLayout_def)
qed

section \<open>Operations keep a layout well formed\<close>

lemma ratio_lits_le: "lit_0_1 \<le> lit_0_22" "lit_0_22 \<le> lit_0_78" "lit_0_78 \<le> lit_0_9"
  by (simp_all add: ratio_lits)

lemma clamp_bounds:
  "r \<noteq> NaN \<Longrightarrow> \<exists>x. clampTerminalSplitRatio r = Fin x \<and> lit_0_22 \<le> x \<and> x \<le> lit_0_78"
  using ratio_lits_le by (cases r) (auto simp: clampTerminalSplitRatio_def num_min_def num_max_def)

lemma ratio_ok_clamp: "r \<noteq> NaN \<Longrightarrow> ratio_ok (clampTerminalSplitRatio r)"
  using clamp_bounds [of r] ratio_lits_le by (auto simp: ratio_ok_def num_le_def)

lemma ratio_ok_half [simp]: "ratio_ok (Fin (1 / 2))"
  by (simp add: ratio_ok_def num_le_def ratio_lits)

lemma wf_split: "layout_wf l \<Longrightarrow> n \<noteq> [] \<Longrightarrow> layout_wf (splitTerminalLayout l t n o')"
proof (induction l)
  case (Leaf x)
  then show ?case by auto
next
  case (Split p r a b)
  then show ?case by (simp add: Let_def)
qed

lemma wf_remove:
  "layout_wf l \<Longrightarrow> pred_option layout_wf (removeTerminalFromLayout l t)"
proof (induction l)
  case (Leaf x)
  then show ?case by simp
next
  case (Split p r a b)
  then show ?case
    by (cases "removeTerminalFromLayout a t"; cases "removeTerminalFromLayout b t") simp_all
qed

lemma wf_replace: "layout_wf l \<Longrightarrow> n \<noteq> [] \<Longrightarrow> layout_wf (replaceTerminalInLayout l t n)"
  by (induction l) auto

lemma wf_ratio: "layout_wf l \<Longrightarrow> r \<noteq> NaN \<Longrightarrow> layout_wf (updateTerminalSplitRatio l path r)"
  by (induction l path r rule: updateTerminalSplitRatio.induct) (auto simp: ratio_ok_clamp)

lemma remove_absent: "t \<notin> set (collectLayoutTerminalIds l) \<Longrightarrow> removeTerminalFromLayout l t = Some l"
  by (induction l) auto

lemma remove_split:
  "t \<in> set (collectLayoutTerminalIds l) \<Longrightarrow> n \<notin> set (collectLayoutTerminalIds l) \<Longrightarrow>
   removeTerminalFromLayout (splitTerminalLayout l t n o') n = Some l"
proof (induction l)
  case (Split p r a b)
  show ?case
  proof (cases "t \<in> set (collectLayoutTerminalIds a)")
    case True
    then have "splitTerminalLayout a t n o' \<noteq> a" by (simp add: split_unchanged_iff)
    then show ?thesis using True Split by (simp add: remove_absent)
  next
    case False
    then have "splitTerminalLayout a t n o' = a" by (simp add: split_unchanged_iff)
    moreover have "splitTerminalLayout b t n o' \<noteq> b"
      using False Split.prems by (simp add: split_unchanged_iff)
    ultimately show ?thesis using False Split by (simp add: remove_absent)
  qed
qed auto

text \<open>The node a path leads to, which is what dragging a divider addresses.\<close>

fun layout_at :: "layout \<Rightarrow> nat list \<Rightarrow> layout option" where
  "layout_at l [] = Some l"
| "layout_at (Leaf _) (h # path) = None"
| "layout_at (Split _ _ a b) (h # path) = (if h = 0 then layout_at a path else layout_at b path)"

lemma ratio_at:
  "layout_at l path = Some (Split p r a b) \<Longrightarrow>
   layout_at (updateTerminalSplitRatio l path x) path = Some (Split p (clampTerminalSplitRatio x) a b)"
  by (induction l path rule: layout_at.induct) (auto split: if_splits)

section \<open>Properties\<close>

text \<open>
  C3. The validator of a layout from a window URL accepts exactly the objects that describe a
  layout with one to four terminals, non-empty terminal identifiers and every ratio between
  0.1 and 0.9, for any JSON value.
\<close>

theorem isTerminalSplitLayout_spec:
  "isTerminalSplitLayout v \<longleftrightarrow>
     (\<exists>l. describes v l \<and> layout_wf l \<and> length (collectLayoutTerminalIds l) \<le> maximumSshTerminalPanes)"
  by (rule isTerminalSplitLayout_iff)

text \<open>
  Splitting a terminal and closing the new one restores the layout that was there, and the
  new terminal stands directly after the one that was split.
\<close>

theorem split_then_close:
  assumes "t \<in> set (collectLayoutTerminalIds l)" and "n \<notin> set (collectLayoutTerminalIds l)"
  shows "removeTerminalFromLayout (splitTerminalLayout l t n o') n = Some l
     \<and> collectLayoutTerminalIds (splitTerminalLayout l t n o')
         = insert_after t n (collectLayoutTerminalIds l)"
  using assms by (simp add: remove_split leaves_split)

theorem split_then_close_witness:
  "removeTerminalFromLayout
     (splitTerminalLayout (splitBranch Columns (Leaf (js ''a'')) (Leaf (js ''b''))) (js ''b'') (js ''c'') Rows)
     (js ''c'') = Some (splitBranch Columns (Leaf (js ''a'')) (Leaf (js ''b'')))"
  using split_then_close [of "js ''b''" "splitBranch Columns (Leaf (js ''a'')) (Leaf (js ''b''))" "js ''c''" Rows]
  by (simp add: splitBranch_def)

text \<open>
  Every layout the application builds survives the trip through a window URL: splitting a
  layout of at most three terminals, and then dragging any divider to any ratio, gives a layout
  whose serialised form the validator accepts.
\<close>

theorem built_layout_accepted:
  assumes "layout_wf l" and "length (collectLayoutTerminalIds l) < maximumSshTerminalPanes"
    and "n \<noteq> []" and "r \<noteq> NaN"
  shows "isTerminalSplitLayout
    (layout_json (updateTerminalSplitRatio (splitTerminalLayout l t n o') path r))"
proof -
  have len: "length (insert_after t n xs) \<le> Suc (length xs)" for xs
    by (induction xs) auto
  let ?l = "updateTerminalSplitRatio (splitTerminalLayout l t n o') path r"
  have "layout_wf ?l" using assms by (simp add: wf_ratio wf_split)
  moreover have "length (collectLayoutTerminalIds ?l) \<le> maximumSshTerminalPanes"
    using assms(2) len [of "collectLayoutTerminalIds l"] by (simp add: leaves_ratio leaves_split)
  ultimately show ?thesis
    using describes_layout_json isTerminalSplitLayout_iff by blast
qed

theorem built_layout_accepted_witness:
  "isTerminalSplitLayout
    (layout_json (updateTerminalSplitRatio
       (splitTerminalLayout (Leaf (js ''a'')) (js ''a'') (js ''b'') Columns) [] PosInf))"
  using built_layout_accepted [of "Leaf (js ''a'')" "js ''b''" PosInf "js ''a''" Columns "[]"]
  by (simp add: maximumSshTerminalPanes_def)

text \<open>
  Dragging the divider at a path sets exactly that divider, clamped to 0.22 .. 0.78, and
  leaves every terminal in its place.
\<close>

theorem drag_divider:
  assumes "layout_at l path = Some (Split p r a b)" and "x \<noteq> NaN"
  shows "\<exists>y. layout_at (updateTerminalSplitRatio l path x) path = Some (Split p (Fin y) a b)
      \<and> lit_0_22 \<le> y \<and> y \<le> lit_0_78
      \<and> collectLayoutTerminalIds (updateTerminalSplitRatio l path x) = collectLayoutTerminalIds l"
  using ratio_at [OF assms(1), of x] clamp_bounds [OF assms(2)] by (auto simp: leaves_ratio)

theorem drag_divider_witness:
  "\<exists>y. layout_at (updateTerminalSplitRatio (splitBranch Columns (Leaf (js ''a'')) (splitBranch Rows (Leaf (js ''b'')) (Leaf (js ''c'')))) [1] (Fin 2)) [1]
      = Some (Split Rows (Fin y) (Leaf (js ''b'')) (Leaf (js ''c''))) \<and> y \<le> lit_0_78"
  using drag_divider [of "splitBranch Columns (Leaf (js ''a'')) (splitBranch Rows (Leaf (js ''b'')) (Leaf (js ''c'')))" "[1]"
      Rows "Fin (1/2)" "Leaf (js ''b'')" "Leaf (js ''c'')" "Fin 2"]
  by (auto simp: splitBranch_def)

end
