(* ===== verification/OutputBuffer.thy ===== *)
theory OutputBuffer
  imports PortivaTypes
begin

text \<open>
  Terminal output on its way to a pane: the bounded buffer of \<^verbatim>\<open>src/shared/terminalOutputBuffer.ts\<close>
  and the merging of snapshots in \<^verbatim>\<open>src/app/usePortivaWorkspace.ts\<close>, first while they are pending
  (\<open>mergePendingSnapshot\<close>) and then into the state of a tab (\<open>mergeTerminalSnapshot\<close>). The limit of
  the buffer is a parameter, as in the code; the workspace uses the default of 512 KiB characters,
  and keeps a preview of 256 KiB characters. All lengths count UTF-16 code units.
\<close>

section \<open>The bounded buffer\<close>

definition maximumPendingTerminalOutputCharacters :: rat where
  "maximumPendingTerminalOutputCharacters = 512 * 1024"

record bounded_output =
  droppedCharacters :: nat
  value_of :: jsstr

definition low_surrogate :: "code_unit \<Rightarrow> bool" where
  "low_surrogate c \<longleftrightarrow> 0xDC00 \<le> c \<and> c \<le> 0xDFFF"

definition high_surrogate :: "code_unit \<Rightarrow> bool" where
  "high_surrogate c \<longleftrightarrow> 0xD800 \<le> c \<and> c \<le> 0xDBFF"

definition safeTailStart :: "jsstr \<Rightarrow> int \<Rightarrow> nat" where
  "safeTailStart s requestedStart =
     (let start = nat (max 0 (min (int (length s)) requestedStart))
      in if start > 0 \<and> start < length s \<and> low_surrogate (s ! start) \<and> high_surrogate (s ! (start - 1))
         then start + 1 else start)"

definition appendBoundedTerminalOutput :: "jsstr \<Rightarrow> jsstr \<Rightarrow> rat \<Rightarrow> bounded_output" where
  "appendBoundedTerminalOutput current incoming maximumCharacters =
     (let limit = nat (max 0 \<lfloor>maximumCharacters\<rfloor>)
      in if limit = 0 then
           \<lparr>droppedCharacters = length current + length incoming, value_of = []\<rparr>
         else if length current + length incoming \<le> limit then
           \<lparr>droppedCharacters = 0, value_of = current @ incoming\<rparr>
         else if length incoming \<ge> limit then
           (let start = safeTailStart incoming (int (length incoming) - int limit)
            in \<lparr>droppedCharacters = length current + start, value_of = drop start incoming\<rparr>)
         else
           (let currentStart =
                  safeTailStart current (int (length current) - (int limit - int (length incoming)))
            in \<lparr>droppedCharacters = currentStart, value_of = drop currentStart current @ incoming\<rparr>))"

definition limit_of :: "rat \<Rightarrow> nat" where
  "limit_of m = nat (max 0 \<lfloor>m\<rfloor>)"

lemma safeTailStart_bounds:
  assumes "0 \<le> r" and "r \<le> int (length s)"
  shows "nat r \<le> safeTailStart s r \<and> safeTailStart s r \<le> length s \<and> safeTailStart s r \<le> Suc (nat r)"
proof -
  have "nat (max 0 (min (int (length s)) r)) = nat r" "nat r \<le> length s" using assms by auto
  then show ?thesis by (auto simp: safeTailStart_def Let_def)
qed

lemma surrogates_disjoint: "low_surrogate c \<Longrightarrow> \<not> high_surrogate c"
proof -
  assume "low_surrogate c"
  then have "0xDC00 \<le> unat c" by (simp add: low_surrogate_def word_le_nat_alt)
  then have "\<not> unat c \<le> 0xDBFF" by simp
  then show ?thesis by (simp add: high_surrogate_def word_le_nat_alt)
qed

lemma safeTailStart_no_split:
  assumes "0 < safeTailStart s r" and "safeTailStart s r < length s"
  shows "\<not> (low_surrogate (s ! safeTailStart s r) \<and> high_surrogate (s ! (safeTailStart s r - 1)))"
proof -
  define k where "k = nat (max 0 (min (int (length s)) r))"
  define cut where "cut \<longleftrightarrow> 0 < k \<and> k < length s \<and> low_surrogate (s ! k) \<and> high_surrogate (s ! (k - 1))"
  have st: "safeTailStart s r = (if cut then k + 1 else k)"
    by (simp only: safeTailStart_def Let_def k_def cut_def)
  show ?thesis
  proof (cases cut)
    case True
    then have "\<not> high_surrogate (s ! k)" by (simp add: cut_def surrogates_disjoint)
    with True show ?thesis by (simp add: st)
  next
    case False
    then show ?thesis using assms by (auto simp: st cut_def)
  qed
qed

lemma append_eq:
  "appendBoundedTerminalOutput cur inc m =
     (if limit_of m = 0 then
        \<lparr>droppedCharacters = length cur + length inc, value_of = []\<rparr>
      else if length cur + length inc \<le> limit_of m then
        \<lparr>droppedCharacters = 0, value_of = cur @ inc\<rparr>
      else if length inc \<ge> limit_of m then
        \<lparr>droppedCharacters = length cur + safeTailStart inc (int (length inc) - int (limit_of m)),
          value_of = drop (safeTailStart inc (int (length inc) - int (limit_of m))) inc\<rparr>
      else
        \<lparr>droppedCharacters = safeTailStart cur (int (length cur) - (int (limit_of m) - int (length inc))),
          value_of = drop (safeTailStart cur (int (length cur) - (int (limit_of m) - int (length inc)))) cur
            @ inc\<rparr>)"
  unfolding appendBoundedTerminalOutput_def limit_of_def Let_def by (rule refl)

text \<open>The result is the stream without its first characters, one more than needed at most.\<close>

lemma append_bounded_shape:
  fixes cur inc m
  defines "out \<equiv> appendBoundedTerminalOutput cur inc m"
  shows "droppedCharacters out \<le> length (cur @ inc)
     \<and> value_of out = drop (droppedCharacters out) (cur @ inc)
     \<and> length (value_of out) \<le> limit_of m
     \<and> droppedCharacters out \<le> (length (cur @ inc) - limit_of m) + 1
     \<and> (length (cur @ inc) \<le> limit_of m \<longrightarrow> droppedCharacters out = 0)"
proof -
  define L where "L = limit_of m"
  define C where "C = length cur"
  define I where "I = length inc"
  consider (zero) "L = 0" | (fits) "0 < L" "C + I \<le> L" | (big) "0 < L" "L < C + I" "L \<le> I"
    | (tail) "0 < L" "L < C + I" "I < L" by linarith
  then show ?thesis
  proof cases
    case zero
    then have "out = \<lparr>droppedCharacters = C + I, value_of = []\<rparr>"
      by (simp add: out_def append_eq L_def [symmetric] C_def I_def)
    with zero show ?thesis by (simp add: L_def C_def I_def)
  next
    case fits
    then have "out = \<lparr>droppedCharacters = 0, value_of = cur @ inc\<rparr>"
      by (simp add: out_def append_eq L_def [symmetric] C_def I_def)
    with fits show ?thesis by (simp add: L_def C_def I_def)
  next
    case big
    define st where "st = safeTailStart inc (int I - int L)"
    have b: "nat (int I - int L) \<le> st" "st \<le> I" "st \<le> Suc (nat (int I - int L))"
      using safeTailStart_bounds [of "int I - int L" inc] big by (auto simp: st_def I_def)
    have "out = \<lparr>droppedCharacters = C + st, value_of = drop st inc\<rparr>"
      using big by (simp add: out_def append_eq L_def [symmetric] C_def I_def st_def)
    with big b show ?thesis by (auto simp: L_def C_def I_def)
  next
    case tail
    define st where "st = safeTailStart cur (int C - (int L - int I))"
    have b: "nat (int C - (int L - int I)) \<le> st" "st \<le> C" "st \<le> Suc (nat (int C - (int L - int I)))"
      using safeTailStart_bounds [of "int C - (int L - int I)" cur] tail by (auto simp: st_def C_def)
    have "out = \<lparr>droppedCharacters = st, value_of = drop st cur @ inc\<rparr>"
      using tail by (simp add: out_def append_eq L_def [symmetric] C_def I_def st_def)
    with tail b show ?thesis by (auto simp: L_def C_def I_def)
  qed
qed

lemma append_bounded_no_split:
  fixes cur inc m
  defines "d \<equiv> droppedCharacters (appendBoundedTerminalOutput cur inc m)"
  assumes "0 < d" and "d < length (cur @ inc)" and "d \<noteq> length cur"
  shows "\<not> (low_surrogate ((cur @ inc) ! d) \<and> high_surrogate ((cur @ inc) ! (d - 1)))"
proof -
  define L where "L = limit_of m"
  consider (none) "length (cur @ inc) \<le> L" | (zero) "L = 0"
    | (big) "0 < L" "L < length (cur @ inc)" "L \<le> length inc"
    | (tail) "0 < L" "L < length (cur @ inc)" "length inc < L" by linarith
  then show ?thesis
  proof cases
    case none
    then show ?thesis using append_bounded_shape [of cur inc m] assms by (simp add: L_def)
  next
    case zero
    then have "d = length (cur @ inc)"
      by (simp add: d_def append_eq L_def [symmetric])
    then show ?thesis using assms by simp
  next
    case big
    define st where "st = safeTailStart inc (int (length inc) - int L)"
    have d: "d = length cur + st"
      using big by (simp add: d_def append_eq L_def [symmetric] st_def)
    then have st: "0 < st" "st < length inc" using assms by auto
    have "(cur @ inc) ! d = inc ! st" by (simp add: d nth_append)
    moreover have "(cur @ inc) ! (d - 1) = inc ! (st - 1)"
    proof -
      have "d - 1 = length cur + (st - 1)" using st by (simp add: d)
      then show ?thesis by (simp add: nth_append)
    qed
    ultimately show ?thesis
      using safeTailStart_no_split [of inc "int (length inc) - int L"] st by (simp add: st_def)
  next
    case tail
    define st where "st = safeTailStart cur (int (length cur) - (int L - int (length inc)))"
    have d: "d = st"
      using tail by (simp add: d_def append_eq L_def [symmetric] st_def)
    have "st \<le> length cur"
      using safeTailStart_bounds [of "int (length cur) - (int L - int (length inc))" cur] tail
      by (auto simp: st_def)
    then have st: "0 < st" "st < length cur" using assms d by auto
    then have "(cur @ inc) ! d = cur ! st" "(cur @ inc) ! (d - 1) = cur ! (st - 1)"
      by (auto simp: d nth_append)
    then show ?thesis
      using safeTailStart_no_split [of cur "int (length cur) - (int L - int (length inc))"] st
      by (simp add: st_def)
  qed
qed

section \<open>Merging snapshots\<close>

definition terminalPreviewMaxChars :: nat where
  "terminalPreviewMaxChars = 256 * 1024"

definition truncateTerminalPreview :: "jsstr \<Rightarrow> jsstr" where
  "truncateTerminalPreview s =
     (if length s \<le> terminalPreviewMaxChars then s
      else drop (length s - terminalPreviewMaxChars) s)"

definition chunk_of :: "snapshot \<Rightarrow> jsstr" where
  "chunk_of s = (case snap_outputChunk s of Some c \<Rightarrow> c | None \<Rightarrow> [])"

definition preview_of :: "snapshot option \<Rightarrow> jsstr" where
  "preview_of p = (case p of Some s \<Rightarrow> snap_bufferPreview s | None \<Rightarrow> [])"

text \<open>The state of a tab takes in a snapshot.\<close>

definition mergeTerminalSnapshot :: "snapshot option \<Rightarrow> snapshot \<Rightarrow> snapshot" where
  "mergeTerminalSnapshot previous incoming =
     (let historyTruncated =
            (case previous of Some p \<Rightarrow> snap_historyTruncated p | None \<Rightarrow> False)
            \<or> snap_historyTruncated incoming
      in if snap_bufferPreview incoming \<noteq> [] then
           incoming\<lparr>snap_bufferPreview := truncateTerminalPreview (snap_bufferPreview incoming),
                    snap_historyTruncated := historyTruncated\<rparr>
         else if chunk_of incoming = [] then
           incoming\<lparr>snap_bufferPreview := preview_of previous,
                    snap_historyTruncated := historyTruncated\<rparr>
         else
           incoming\<lparr>snap_bufferPreview :=
                      truncateTerminalPreview (preview_of previous @ chunk_of incoming),
                    snap_historyTruncated := historyTruncated\<rparr>)"

text \<open>A snapshot event that arrives before the next frame joins the pending one.\<close>

definition mergePendingSnapshot :: "snapshot option \<Rightarrow> snapshot \<Rightarrow> snapshot" where
  "mergePendingSnapshot previous incoming =
     (case previous of
        None \<Rightarrow>
          (let boundedOutput = appendBoundedTerminalOutput [] (chunk_of incoming)
                 maximumPendingTerminalOutputCharacters
           in incoming\<lparr>snap_droppedOutputCharacters :=
                         snap_droppedOutputCharacters incoming + int (droppedCharacters boundedOutput),
                       snap_outputChunk := Some (value_of boundedOutput)\<rparr>)
      | Some p \<Rightarrow>
          (let historyTruncated = snap_historyTruncated p \<or> snap_historyTruncated incoming;
               boundedOutput = appendBoundedTerminalOutput (chunk_of p) (chunk_of incoming)
                 maximumPendingTerminalOutputCharacters;
               droppedOutputCharacters = snap_droppedOutputCharacters p
                 + snap_droppedOutputCharacters incoming + int (droppedCharacters boundedOutput)
           in if snap_bufferPreview incoming \<noteq> [] then
                incoming\<lparr>snap_droppedOutputCharacters := droppedOutputCharacters,
                         snap_historyTruncated := historyTruncated,
                         snap_outputChunk := Some (value_of boundedOutput)\<rparr>
              else if snap_bufferPreview p \<noteq> [] then
                incoming\<lparr>snap_bufferPreview :=
                           truncateTerminalPreview (snap_bufferPreview p @ chunk_of incoming),
                         snap_droppedOutputCharacters := droppedOutputCharacters,
                         snap_historyTruncated := historyTruncated,
                         snap_outputChunk := Some (value_of boundedOutput)\<rparr>
              else
                incoming\<lparr>snap_droppedOutputCharacters := droppedOutputCharacters,
                         snap_historyTruncated := historyTruncated,
                         snap_outputChunk := Some (value_of boundedOutput)\<rparr>))"

section \<open>A stream kept in bounded space\<close>

text \<open>
  The contract of a consumer that may drop the oldest output: what it holds is a suffix of
  what came in, within the bound, and every lost character is counted.
\<close>

locale bounded_stream =
  fixes push :: "'s \<Rightarrow> 'e \<Rightarrow> 's"
    and contents :: "'s \<Rightarrow> 'a list"
    and dropped :: "'s \<Rightarrow> int"
    and chunk :: "'e \<Rightarrow> 'a list"
    and lost :: "'e \<Rightarrow> int"
    and cap :: nat
  assumes push_suffix:
      "\<exists>k \<le> length (contents s @ chunk e).
         contents (push s e) = drop k (contents s @ chunk e)
         \<and> dropped (push s e) = dropped s + lost e + int k"
    and push_cap: "length (contents (push s e)) \<le> cap"
begin

lemma run_accounting:
  "dropped (foldl push s es) + int (length (contents (foldl push s es)))
     = dropped s + int (length (contents s)) + (\<Sum>e \<leftarrow> es. lost e + int (length (chunk e)))"
proof (induction es arbitrary: s)
  case (Cons e es)
  obtain k where "k \<le> length (contents s @ chunk e)"
      "contents (push s e) = drop k (contents s @ chunk e)"
      "dropped (push s e) = dropped s + lost e + int k"
    using push_suffix by blast
  then have "dropped (push s e) + int (length (contents (push s e)))
      = dropped s + int (length (contents s)) + lost e + int (length (chunk e))"
    by simp
  with Cons [of "push s e"] show ?case by simp
qed simp

lemma run_suffix: "suffix (contents (foldl push s es)) (contents s @ concat (map chunk es))"
proof (induction es arbitrary: s)
  case (Cons e es)
  obtain k where "contents (push s e) = drop k (contents s @ chunk e)" using push_suffix by blast
  then have "suffix (contents (push s e)) (contents s @ chunk e)" by (metis suffix_drop)
  then have "suffix (contents (push s e) @ concat (map chunk es)) (contents s @ chunk e @ concat (map chunk es))"
    by (simp add: suffix_def)
  then have "suffix (contents (foldl push (push s e) es)) (contents s @ chunk e @ concat (map chunk es))"
    using Cons [of "push s e"] by (metis suffix_order.trans)
  then show ?case by simp
qed simp

lemma run_cap: "es \<noteq> [] \<Longrightarrow> length (contents (foldl push s es)) \<le> cap"
  by (cases es rule: rev_cases) (auto intro: push_cap)

end

definition pending_chunk :: "snapshot option \<Rightarrow> jsstr" where
  "pending_chunk p = (case p of Some s \<Rightarrow> chunk_of s | None \<Rightarrow> [])"

definition pending_dropped :: "snapshot option \<Rightarrow> int" where
  "pending_dropped p = (case p of Some s \<Rightarrow> snap_droppedOutputCharacters s | None \<Rightarrow> 0)"

lemma limit_default: "limit_of maximumPendingTerminalOutputCharacters = 524288"
  by (simp add: limit_of_def maximumPendingTerminalOutputCharacters_def)

lemma mergePending_chunk:
  "chunk_of (mergePendingSnapshot p e) =
     value_of (appendBoundedTerminalOutput (pending_chunk p) (chunk_of e) maximumPendingTerminalOutputCharacters)"
  by (simp add: mergePendingSnapshot_def Let_def chunk_of_def pending_chunk_def split: option.split)

lemma mergePending_dropped:
  "snap_droppedOutputCharacters (mergePendingSnapshot p e) =
     pending_dropped p + snap_droppedOutputCharacters e + int (droppedCharacters
       (appendBoundedTerminalOutput (pending_chunk p) (chunk_of e) maximumPendingTerminalOutputCharacters))"
  by (simp add: mergePendingSnapshot_def Let_def pending_chunk_def pending_dropped_def split: option.split)

interpretation pending: bounded_stream "\<lambda>p e. Some (mergePendingSnapshot p e)"
  pending_chunk pending_dropped chunk_of snap_droppedOutputCharacters 524288
proof unfold_locales
  fix p :: "snapshot option" and e :: snapshot
  let ?out = "appendBoundedTerminalOutput (pending_chunk p) (chunk_of e) maximumPendingTerminalOutputCharacters"
  note shape = append_bounded_shape [of "pending_chunk p" "chunk_of e" maximumPendingTerminalOutputCharacters]
  show "\<exists>k \<le> length (pending_chunk p @ chunk_of e).
      pending_chunk (Some (mergePendingSnapshot p e)) = drop k (pending_chunk p @ chunk_of e)
      \<and> pending_dropped (Some (mergePendingSnapshot p e))
          = pending_dropped p + snap_droppedOutputCharacters e + int k"
  proof (intro exI [of _ "droppedCharacters ?out"] conjI)
    show "droppedCharacters ?out \<le> length (pending_chunk p @ chunk_of e)" using shape by blast
    have "pending_chunk (Some (mergePendingSnapshot p e)) = value_of ?out"
      by (simp add: pending_chunk_def [of "Some _"] mergePending_chunk)
    then show "pending_chunk (Some (mergePendingSnapshot p e))
        = drop (droppedCharacters ?out) (pending_chunk p @ chunk_of e)" using shape by metis
    show "pending_dropped (Some (mergePendingSnapshot p e))
        = pending_dropped p + snap_droppedOutputCharacters e + int (droppedCharacters ?out)"
      by (simp add: pending_dropped_def [of "Some _"] mergePending_dropped)
  qed
  show "length (pending_chunk (Some (mergePendingSnapshot p e))) \<le> 524288"
  proof -
    have "length (value_of ?out) \<le> 524288" using shape by (metis limit_default)
    then show ?thesis by (simp add: pending_chunk_def [of "Some _"] mergePending_chunk)
  qed
qed

section \<open>Batching is transparent\<close>

lemma truncate_eq: "truncateTerminalPreview s = drop (length s - terminalPreviewMaxChars) s"
  by (simp add: truncateTerminalPreview_def)

lemma truncate_of_long_suffix:
  assumes "suffix t s" and "terminalPreviewMaxChars \<le> length t"
  shows "truncateTerminalPreview t = truncateTerminalPreview s"
proof -
  obtain u where s: "s = u @ t" using assms by (auto simp: suffix_def)
  have "length s - terminalPreviewMaxChars = length u + (length t - terminalPreviewMaxChars)"
    using assms by (simp add: s)
  then show ?thesis by (simp add: truncate_eq s)
qed

lemma truncate_append_truncate:
  "truncateTerminalPreview (truncateTerminalPreview a @ b) = truncateTerminalPreview (a @ b)"
proof (cases "length a \<le> terminalPreviewMaxChars")
  case False
  then show ?thesis
    by (intro truncate_of_long_suffix) (auto simp: truncate_eq suffix_drop)
qed (simp add: truncateTerminalPreview_def)

lemma truncate_idem [simp]: "truncateTerminalPreview (truncateTerminalPreview a) = truncateTerminalPreview a"
  using truncate_append_truncate [of a "[]"] by simp

lemma truncate_Nil_iff [simp]: "truncateTerminalPreview s = [] \<longleftrightarrow> s = []"
  by (auto simp: truncateTerminalPreview_def terminalPreviewMaxChars_def)

lemma bounded_value:
  fixes a b
  defines "v \<equiv> value_of (appendBoundedTerminalOutput a b maximumPendingTerminalOutputCharacters)"
  shows "suffix v (a @ b) \<and> (v = a @ b \<or> terminalPreviewMaxChars \<le> length v)"
proof -
  define d where "d = droppedCharacters (appendBoundedTerminalOutput a b maximumPendingTerminalOutputCharacters)"
  have v: "v = drop d (a @ b)" and bound: "d \<le> (length (a @ b) - 524288) + 1"
    and fits: "length (a @ b) \<le> 524288 \<longrightarrow> d = 0"
    using append_bounded_shape [of a b maximumPendingTerminalOutputCharacters]
    unfolding v_def d_def limit_default by blast+
  have "suffix v (a @ b)" unfolding v by (rule suffix_drop)
  moreover have "v = a @ b \<or> terminalPreviewMaxChars \<le> length v"
  proof (cases "length (a @ b) \<le> 524288")
    case True
    then show ?thesis using fits v by simp
  next
    case False
    then have "262144 \<le> length v" using bound by (simp add: v)
    then show ?thesis by (simp add: terminalPreviewMaxChars_def)
  qed
  ultimately show ?thesis ..
qed

lemma bounded_value_Nil_iff [simp]:
  "value_of (appendBoundedTerminalOutput a b maximumPendingTerminalOutputCharacters) = [] \<longleftrightarrow> a = [] \<and> b = []"
  using bounded_value [of a b] by (auto simp: terminalPreviewMaxChars_def)

lemma truncate_bounded [simp]:
  "truncateTerminalPreview
     (x @ value_of (appendBoundedTerminalOutput a b maximumPendingTerminalOutputCharacters))
     = truncateTerminalPreview (x @ a @ b)" (is "truncateTerminalPreview (x @ ?v) = _")
proof (cases "?v = a @ b")
  case False
  then have "suffix ?v (x @ a @ b)" "terminalPreviewMaxChars \<le> length ?v"
    using bounded_value [of a b] by (auto simp: suffix_appendI)
  then show ?thesis
    using truncate_of_long_suffix [of "x @ ?v" "x @ a @ b"] truncate_of_long_suffix [of ?v "x @ ?v"]
      truncate_of_long_suffix [of ?v "x @ a @ b"]
    by (simp add: suffix_def)
qed simp

text \<open>What a pane shows of a snapshot: everything but the transport of the last chunk.\<close>

definition shown :: "snapshot \<Rightarrow> snapshot" where
  "shown s = s\<lparr>snap_outputChunk := None, snap_droppedOutputCharacters := 0\<rparr>"

definition merged_preview :: "jsstr \<Rightarrow> snapshot \<Rightarrow> jsstr" where
  "merged_preview b e =
     (if snap_bufferPreview e \<noteq> [] then truncateTerminalPreview (snap_bufferPreview e)
      else if chunk_of e = [] then b else truncateTerminalPreview (b @ chunk_of e))"

definition truncated_flag :: "snapshot option \<Rightarrow> bool" where
  "truncated_flag p = (case p of Some s \<Rightarrow> snap_historyTruncated s | None \<Rightarrow> False)"

lemma mergeTerminal_eq:
  "mergeTerminalSnapshot p e = e\<lparr>snap_bufferPreview := merged_preview (preview_of p) e,
     snap_historyTruncated := truncated_flag p \<or> snap_historyTruncated e\<rparr>"
  by (simp add: mergeTerminalSnapshot_def merged_preview_def truncated_flag_def Let_def)

lemma shown_update:
  "shown (e\<lparr>snap_bufferPreview := b, snap_historyTruncated := h\<rparr>)
     = (shown e)\<lparr>snap_bufferPreview := b, snap_historyTruncated := h\<rparr>"
  by (simp add: shown_def)

lemma pending_first:
  "shown (mergeTerminalSnapshot p (mergePendingSnapshot None e)) = shown (mergeTerminalSnapshot p e)"
  by (simp add: mergeTerminal_eq mergePendingSnapshot_def Let_def merged_preview_def shown_def
      chunk_of_def [of "snap_outputChunk_update _ _"])

lemma mergePending_preview:
  "snap_bufferPreview (mergePendingSnapshot (Some p) e) =
     (if snap_bufferPreview e = [] \<and> snap_bufferPreview p \<noteq> []
      then truncateTerminalPreview (snap_bufferPreview p @ chunk_of e) else snap_bufferPreview e)"
  by (simp add: mergePendingSnapshot_def Let_def)

lemma mergePending_truncated:
  "snap_historyTruncated (mergePendingSnapshot (Some p) e) = (snap_historyTruncated p \<or> snap_historyTruncated e)"
  by (simp add: mergePendingSnapshot_def Let_def)

lemma mergePending_rest:
  "(shown (mergePendingSnapshot (Some p) e))\<lparr>snap_bufferPreview := b, snap_historyTruncated := h\<rparr>
     = (shown e)\<lparr>snap_bufferPreview := b, snap_historyTruncated := h\<rparr>"
  by (simp add: mergePendingSnapshot_def Let_def shown_def)

lemma merged_preview_pending:
  "merged_preview b (mergePendingSnapshot (Some p) e) = merged_preview (merged_preview b p) e"
  by (simp add: merged_preview_def mergePending_preview mergePending_chunk pending_chunk_def
      truncate_append_truncate)

lemma shown_merge:
  "shown (mergeTerminalSnapshot p e) =
     (shown e)\<lparr>snap_bufferPreview := merged_preview (preview_of p) e,
                snap_historyTruncated := truncated_flag p \<or> snap_historyTruncated e\<rparr>"
  by (simp add: mergeTerminal_eq shown_update)

lemma pending_step:
  assumes "shown (mergeTerminalSnapshot prev p) = shown d"
  shows "shown (mergeTerminalSnapshot prev (mergePendingSnapshot (Some p) e)) = shown (mergeTerminalSnapshot (Some d) e)"
proof -
  have "snap_bufferPreview (shown d) = merged_preview (preview_of prev) p"
    "snap_historyTruncated (shown d) = (truncated_flag prev \<or> snap_historyTruncated p)"
    by (simp_all add: assms [symmetric] shown_merge)
  then have "snap_bufferPreview d = merged_preview (preview_of prev) p"
    "snap_historyTruncated d = (truncated_flag prev \<or> snap_historyTruncated p)"
    by (simp_all add: shown_def)
  then show ?thesis
    by (simp add: shown_merge mergePending_truncated mergePending_rest merged_preview_pending
        preview_of_def [of "Some d"] truncated_flag_def [of "Some d"])
qed

lemma pending_run:
  assumes "shown (mergeTerminalSnapshot prev p) = shown d"
  shows "shown (mergeTerminalSnapshot prev (foldl (\<lambda>q. mergePendingSnapshot (Some q)) p es))
     = shown (foldl (\<lambda>q. mergeTerminalSnapshot (Some q)) d es)"
  using assms by (induction es arbitrary: p d) (simp_all add: pending_step)

section \<open>Properties\<close>

text \<open>
  Appending to the terminal output buffer keeps exactly a suffix of the stream, counts every
  dropped character, drops nothing while the limit is not exceeded and drops at most one character
  more than the excess.
\<close>

theorem append_bounded_accounts:
  "\<exists>d. appendBoundedTerminalOutput current incoming maximumCharacters
          = \<lparr>droppedCharacters = d, value_of = drop d (current @ incoming)\<rparr>
     \<and> d \<le> length (current @ incoming)
     \<and> length (current @ incoming) - d \<le> limit_of maximumCharacters
     \<and> d \<le> (length (current @ incoming) - limit_of maximumCharacters)
            + (if length (current @ incoming) \<le> limit_of maximumCharacters then 0 else 1)"
proof -
  define out where "out = appendBoundedTerminalOutput current incoming maximumCharacters"
  have "droppedCharacters out \<le> length (current @ incoming)"
     "value_of out = drop (droppedCharacters out) (current @ incoming)"
     "length (value_of out) \<le> limit_of maximumCharacters"
     "droppedCharacters out \<le> (length (current @ incoming) - limit_of maximumCharacters) + 1"
     "length (current @ incoming) \<le> limit_of maximumCharacters \<longrightarrow> droppedCharacters out = 0"
    using append_bounded_shape [of current incoming maximumCharacters] unfolding out_def by blast+
  then show ?thesis
    unfolding out_def [symmetric]
    by (intro exI [of _ "droppedCharacters out"]) (auto intro: bounded_output.equality)
qed

text \<open>
  The cut never separates the two halves of a surrogate pair, unless it falls exactly between
  the buffered text and the incoming chunk.
\<close>

theorem append_keeps_pairs:
  assumes "d = droppedCharacters (appendBoundedTerminalOutput current incoming maximumCharacters)"
    and "0 < d" and "d < length (current @ incoming)" and "d \<noteq> length current"
  shows "\<not> (low_surrogate ((current @ incoming) ! d) \<and> high_surrogate ((current @ incoming) ! (d - 1)))"
  using append_bounded_no_split [of current incoming maximumCharacters] assms by simp

theorem append_keeps_pairs_witness:
  "\<not> (low_surrogate (([0x41, 0xD83D] @ [0xDE00, 0x42 :: code_unit]) ! Suc 0)
      \<and> high_surrogate (([0x41, 0xD83D] @ [0xDE00, 0x42 :: code_unit]) ! 0))"
  using append_keeps_pairs [of "Suc 0" "[0x41, 0xD83D]" "[0xDE00, 0x42]" 3]
  by (simp add: appendBoundedTerminalOutput_def safeTailStart_def low_surrogate_def high_surrogate_def)

text \<open>
  The excluded case does happen: an incoming chunk that fills the limit exactly is kept from its
  first character on, so when the buffer ended with the first half of a surrogate pair the new buffer
  starts with the unpaired second half.
\<close>

theorem exact_fill_splits_pair:
  assumes "length incoming = limit_of maximumCharacters" and "incoming \<noteq> []"
    and "current \<noteq> []" and "high_surrogate (last current)" and "low_surrogate (hd incoming)"
  shows "value_of (appendBoundedTerminalOutput current incoming maximumCharacters) = incoming
     \<and> low_surrogate (hd (value_of (appendBoundedTerminalOutput current incoming maximumCharacters)))"
proof -
  have "0 < limit_of maximumCharacters" "limit_of maximumCharacters < length current + length incoming"
    using assms by (auto simp flip: assms(1))
  then have "value_of (appendBoundedTerminalOutput current incoming maximumCharacters) = incoming"
    using assms(1) by (simp add: append_eq safeTailStart_def)
  then show ?thesis using assms by simp
qed

theorem exact_fill_splits_pair_witness:
  "value_of (appendBoundedTerminalOutput [0x41, 0xD83D] [0xDE00, 0x42] 2) = [0xDE00, 0x42]
     \<and> low_surrogate (hd (value_of (appendBoundedTerminalOutput [0x41, 0xD83D] [0xDE00, 0x42] 2)))"
  using exact_fill_splits_pair [of "[0xDE00, 0x42]" 2 "[0x41, 0xD83D]"]
  by (simp add: limit_of_def high_surrogate_def low_surrogate_def)

text \<open>
  C4. However many snapshot events arrive before the next frame, the pending snapshot of a terminal
  never holds more than 512 KiB characters of output, holds the newest output, and its counter of
  dropped characters accounts for every character that is no longer there.
\<close>

theorem pending_output_accounted:
  assumes "es \<noteq> []"
  shows "\<exists>p. foldl (\<lambda>p e. Some (mergePendingSnapshot p e)) None es = Some p
     \<and> length (chunk_of p) \<le> 524288
     \<and> suffix (chunk_of p) (concat (map chunk_of es))
     \<and> snap_droppedOutputCharacters p + int (length (chunk_of p))
         = (\<Sum>e \<leftarrow> es. snap_droppedOutputCharacters e + int (length (chunk_of e)))"
proof -
  obtain es' e where es: "es = es' @ [e]" using assms by (cases es rule: rev_cases) auto
  obtain p where p: "foldl (\<lambda>p e. Some (mergePendingSnapshot p e)) None es = Some p" by (simp add: es)
  show ?thesis
    using pending.run_cap [OF assms, of None] pending.run_suffix [of None es]
      pending.run_accounting [of None es]
    by (simp add: p pending_chunk_def pending_dropped_def)
qed

definition ls_output :: snapshot where
  "ls_output = \<lparr>snap_terminalId = js ''t1'', snap_status = Attached, snap_bufferedBytes = 2,
     snap_bufferPreview = [], snap_historyTruncated = False,
     snap_renderPolicy = \<lparr>rp_flushIntervalMs = 16, rp_maxChunkBytes = 4096, rp_scrollbackLines = 1000\<rparr>,
     snap_outputChunk = Some (js ''ls''), snap_droppedOutputCharacters = 0\<rparr>"

theorem pending_output_accounted_witness:
  "\<exists>p. foldl (\<lambda>p e. Some (mergePendingSnapshot p e)) None [ls_output, ls_output] = Some p
     \<and> snap_droppedOutputCharacters p + int (length (chunk_of p)) = 4"
  using pending_output_accounted [of "[ls_output, ls_output]"]
  by (auto simp: ls_output_def chunk_of_def js_def)

text \<open>
  C5. Batching output events until the next frame is invisible: merging a batch into the pending
  snapshot and applying that once shows the same screen, status and truncation flag as applying the
  events one at a time.
\<close>

theorem batching_transparent:
  "shown (mergeTerminalSnapshot previous
       (foldl (\<lambda>q. mergePendingSnapshot (Some q)) (mergePendingSnapshot None e) es))
     = shown (foldl (\<lambda>q. mergeTerminalSnapshot (Some q)) (mergeTerminalSnapshot previous e) es)"
  by (rule pending_run [OF pending_first])

end
