(* ===== verification/Paths.thy ===== *)
theory Paths
  imports PortivaTypes
begin

text \<open>
  The path arithmetic of the file panels (the helpers at the end of
  \<^verbatim>\<open>src/app/usePortivaWorkspace.ts\<close>) and the working directory a shell reports through
  \<^verbatim>\<open>OSC 7\<close> (\<^verbatim>\<open>src/shared/terminalWorkingDirectory.ts\<close>). The URL parser of the web view is a
  parameter \<open>parse_url\<close> (the protocol and the path of a URL, or no URL); \<^verbatim>\<open>decodeURIComponent\<close>
  is the algorithm of ECMA-262 (\<open>decodeURIComponent\<close>).
\<close>

section \<open>Remote paths\<close>

abbreviation slash :: code_unit where "slash \<equiv> 47"
abbreviation backslash :: code_unit where "backslash \<equiv> 92"

definition forward_slashes :: "jsstr \<Rightarrow> jsstr" where
  "forward_slashes s = map (\<lambda>c. if c = backslash then slash else c) s"

text \<open>The loop both normalisers share: \<^verbatim>\<open>parts.pop()\<close> on an empty array does nothing.\<close>

definition push_part :: "jsstr list \<Rightarrow> jsstr \<Rightarrow> jsstr list" where
  "push_part parts part =
     (if part = [] \<or> part = js ''.'' then parts
      else if part = js ''..'' then butlast parts
      else parts @ [part])"

definition absolute :: "jsstr list \<Rightarrow> jsstr" where
  "absolute parts = (if parts = [] then js ''/'' else slash # js_join [slash] parts)"

definition normalizeRemotePathInput :: "jsstr \<Rightarrow> jsstr" where
  "normalizeRemotePathInput path =
     absolute (foldl push_part [] (js_split slash (forward_slashes (js_trim path))))"

definition ends_with :: "jsstr \<Rightarrow> code_unit \<Rightarrow> bool" where
  "ends_with s c \<longleftrightarrow> s \<noteq> [] \<and> last s = c"

definition starts_with :: "jsstr \<Rightarrow> code_unit \<Rightarrow> bool" where
  "starts_with s c \<longleftrightarrow> s \<noteq> [] \<and> hd s = c"

definition remoteRootPath :: jsstr where
  "remoteRootPath = js ''/''"

definition joinRemotePath :: "jsstr \<Rightarrow> jsstr \<Rightarrow> jsstr" where
  "joinRemotePath basePath name =
     (let base = normalizeRemotePathInput basePath; cleanName = js_trim name
      in if base = remoteRootPath \<or> ends_with base slash then base @ cleanName
         else base @ [slash] @ cleanName)"

definition remoteDirectoryName :: "jsstr \<Rightarrow> jsstr" where
  "remoteDirectoryName path =
     (let normalized = normalizeRemotePathInput path
      in if normalized = remoteRootPath then remoteRootPath
         else (let separatorIndex = js_lastIndexOf slash normalized
               in if separatorIndex \<le> 0 then remoteRootPath else take (nat separatorIndex) normalized))"

section \<open>Local paths\<close>

definition localRootsPath :: jsstr where
  "localRootsPath = js ''portiva://local-roots''"

definition joinLocalPath :: "jsstr \<Rightarrow> jsstr \<Rightarrow> jsstr" where
  "joinLocalPath basePath name =
     (let base = js_trim basePath; cleanName = js_trim name
      in if base = [] then cleanName
         else (let separator = (if backslash \<in> set base then backslash else slash)
               in if ends_with base backslash \<or> ends_with base slash then base @ cleanName
                  else base @ [separator] @ cleanName))"

definition separator_unit :: "code_unit \<Rightarrow> bool" where
  "separator_unit c \<longleftrightarrow> c = slash \<or> c = backslash"

definition ascii_letter :: "code_unit \<Rightarrow> bool" where
  "ascii_letter c \<longleftrightarrow> (65 \<le> c \<and> c \<le> 90) \<or> (97 \<le> c \<and> c \<le> 122)"

definition is_drive :: "jsstr \<Rightarrow> bool" where
  "is_drive s \<longleftrightarrow> (case s of [c, d] \<Rightarrow> ascii_letter c \<and> d = 58 | _ \<Rightarrow> False)"

definition localDirectoryName :: "jsstr \<Rightarrow> jsstr" where
  "localDirectoryName path =
     (let normalized = trim_end separator_unit (js_trim path);
          separatorIndex = max (js_lastIndexOf slash normalized) (js_lastIndexOf backslash normalized)
      in if separatorIndex < 0 then []
         else (let parent = take (nat separatorIndex) normalized
               in if is_drive parent then parent @ [backslash]
                  else if parent = [] \<and> starts_with normalized slash then js ''/''
                  else if parent = [] \<and> starts_with normalized backslash then [backslash]
                  else parent))"

definition localPathBaseName :: "jsstr \<Rightarrow> jsstr" where
  "localPathBaseName path =
     (let normalized = trim_end separator_unit (js_trim path);
          separatorIndex = max (js_lastIndexOf slash normalized) (js_lastIndexOf backslash normalized)
      in if 0 \<le> separatorIndex then drop (nat separatorIndex + 1) normalized else normalized)"

definition isVirtualLocalPath :: "jsstr \<Rightarrow> bool" where
  "isVirtualLocalPath path \<longleftrightarrow> js_lower (js_trim path) = localRootsPath"

definition downloadTargetDirectory :: "jsstr \<Rightarrow> remote_entry option \<Rightarrow> jsstr" where
  "downloadTargetDirectory localPath selectedLocalEntry =
     (case selectedLocalEntry of
        Some e \<Rightarrow> if ent_kind e = Directory then ent_path e else localPath
      | None \<Rightarrow> localPath)"

section \<open>Names for downloaded files\<close>

text \<open>The character class \<^verbatim>\<open>[<>:"/\\|?*\x00-\x1F]\<close>.\<close>

definition invalid_name_unit :: "code_unit \<Rightarrow> bool" where
  "invalid_name_unit c \<longleftrightarrow>
     c \<in> {60, 62, 58, 34, 47, 92, 124, 63, 42} \<or> c \<le> 0x1F"

text \<open>
  The expression \<^verbatim>\<open>/^(con|prn|aux|nul|com[1-9]|lpt[1-9])(?:\..*)?$/i\<close>: without the u flag only
  ASCII letters are folded, and the dot matches no line terminator.
\<close>

definition ascii_fold :: "code_unit \<Rightarrow> code_unit" where
  "ascii_fold c = (if 65 \<le> c \<and> c \<le> 90 then c + 32 else c)"

definition line_terminator :: "code_unit \<Rightarrow> bool" where
  "line_terminator c \<longleftrightarrow> c \<in> {10, 13, 0x2028, 0x2029}"

definition device_name :: "jsstr \<Rightarrow> bool" where
  "device_name s \<longleftrightarrow>
     (let t = map ascii_fold s
      in t \<in> {js ''con'', js ''prn'', js ''aux'', js ''nul''}
         \<or> (length t = 4 \<and> take 3 t \<in> {js ''com'', js ''lpt''} \<and> 49 \<le> t ! 3 \<and> t ! 3 \<le> 57))"

definition reserved_name :: "jsstr \<Rightarrow> bool" where
  "reserved_name s \<longleftrightarrow>
     (let stem = takeWhile (\<lambda>c. c \<noteq> 46) s; rest = dropWhile (\<lambda>c. c \<noteq> 46) s
      in device_name stem \<and> list_all (\<lambda>c. \<not> line_terminator c) (drop 1 rest))"

definition safeLocalDownloadName :: "jsstr \<Rightarrow> jsstr" where
  "safeLocalDownloadName name =
     (let sanitized = trim_end (\<lambda>c. c = 32 \<or> c = 46)
            (map (\<lambda>c. if invalid_name_unit c then 95 else c) (js_trim name))
      in if sanitized = [] \<or> sanitized = js ''.'' \<or> sanitized = js ''..'' then js ''download''
         else if reserved_name sanitized then 95 # sanitized
         else sanitized)"

section \<open>Classification of errors\<close>

definition includes_any :: "jsstr \<Rightarrow> string list \<Rightarrow> bool" where
  "includes_any s patterns \<longleftrightarrow> list_ex (\<lambda>p. js_includes s (js p)) patterns"

definition isRetryableSftpConnectionError :: "jsstr \<Rightarrow> bool" where
  "isRetryableSftpConnectionError e \<longleftrightarrow> includes_any (js_lower e)
     [''session closed'', ''channel closed'', ''connection closed'', ''unexpected eof'',
      ''end of file'', ''broken pipe'', ''connection reset'', ''transport closed'']"

definition isConnectionClosedTransferError :: "jsstr \<Rightarrow> bool" where
  "isConnectionClosedTransferError e \<longleftrightarrow> includes_any (js_lower e)
     [''automatic reopen failed'', ''failed to open ssh session channel'', ''channel send error'',
      ''session closed'', ''connection closed'']"

definition isAlreadyExistsError :: "jsstr \<Rightarrow> bool" where
  "isAlreadyExistsError e \<longleftrightarrow> includes_any (js_lower e)
     [''already exists'', ''file exists'', ''os error 17'', ''os error 183'']"

section \<open>The working directory of a shell\<close>

fun hex_value :: "code_unit \<Rightarrow> nat option" where
  "hex_value c =
     (if 48 \<le> c \<and> c \<le> 57 then Some (unat c - 48)
      else if 65 \<le> c \<and> c \<le> 70 then Some (unat c - 55)
      else if 97 \<le> c \<and> c \<le> 102 then Some (unat c - 87)
      else None)"

text \<open>The two digits after a percent sign, as a byte.\<close>

fun escape_digits :: "jsstr \<Rightarrow> (nat \<times> jsstr) option" where
  "escape_digits (a # b # s) =
     (case (hex_value a, hex_value b) of
        (Some x, Some y) \<Rightarrow> Some (16 * x + y, s)
      | _ \<Rightarrow> None)"
| "escape_digits _ = None"

fun escape_bytes :: "nat \<Rightarrow> jsstr \<Rightarrow> (nat list \<times> jsstr) option" where
  "escape_bytes 0 s = Some ([], s)"
| "escape_bytes (Suc n) [] = None"
| "escape_bytes (Suc n) (c # s) =
     (if c \<noteq> 37 then None
      else (case escape_digits s of
              None \<Rightarrow> None
            | Some (b, r) \<Rightarrow> (case escape_bytes n r of
                None \<Rightarrow> None
              | Some (bs, r') \<Rightarrow> Some (b # bs, r'))))"

text \<open>The length of a UTF-8 sequence by its first byte, and the code point of the sequence.\<close>

definition utf8_length :: "nat \<Rightarrow> nat option" where
  "utf8_length b =
     (if 0xC0 \<le> b \<and> b < 0xE0 then Some 2
      else if 0xE0 \<le> b \<and> b < 0xF0 then Some 3
      else if 0xF0 \<le> b \<and> b < 0xF8 then Some 4
      else None)"

definition utf8_point :: "nat \<Rightarrow> nat list \<Rightarrow> nat option" where
  "utf8_point b bs =
     (if list_all (\<lambda>x. 0x80 \<le> x \<and> x < 0xC0) bs then
        (let start = (if length bs = 1 then b - 0xC0 else if length bs = 2 then b - 0xE0 else b - 0xF0);
             v = foldl (\<lambda>v x. 64 * v + (x - 0x80)) start bs;
             least = (if length bs = 1 then 0x80 else if length bs = 2 then 0x800 else 0x10000)
         in if v < least \<or> 0x10FFFF < v \<or> (0xD800 \<le> v \<and> v \<le> 0xDFFF) then None else Some v)
      else None)"

definition utf16_units :: "nat \<Rightarrow> jsstr" where
  "utf16_units v =
     (if v < 0x10000 then [of_nat v]
      else [of_nat (0xD800 + (v - 0x10000) div 0x400), of_nat (0xDC00 + (v - 0x10000) mod 0x400)])"

lemma escape_digits_length: "escape_digits s = Some (b, r) \<Longrightarrow> length r < length s"
  by (cases s rule: escape_digits.cases) (auto split: option.splits)

lemma escape_bytes_length: "escape_bytes n s = Some (bs, r) \<Longrightarrow> length r \<le> length s"
  by (induction n s arbitrary: bs r rule: escape_bytes.induct)
    (fastforce split: if_splits option.splits dest: escape_digits_length)+

text \<open>\<open>None\<close> is the \<^verbatim>\<open>URIError\<close>.\<close>

function decodeURIComponent :: "jsstr \<Rightarrow> jsstr option" where
  "decodeURIComponent [] = Some []"
| "decodeURIComponent (c # s) =
     (if c \<noteq> 37 then map_option (\<lambda>t. c # t) (decodeURIComponent s)
      else (case escape_digits s of
              None \<Rightarrow> None
            | Some (b, r) \<Rightarrow>
                if b < 0x80 then map_option (\<lambda>t. of_nat b # t) (decodeURIComponent r)
                else (case utf8_length b of
                        None \<Rightarrow> None
                      | Some n \<Rightarrow> (case escape_bytes (n - 1) r of
                          None \<Rightarrow> None
                        | Some (bs, r') \<Rightarrow> (case utf8_point b bs of
                            None \<Rightarrow> None
                          | Some v \<Rightarrow> map_option (\<lambda>t. utf16_units v @ t) (decodeURIComponent r'))))))"
  by pat_completeness auto

termination
  by (relation "measure length")
    (auto dest!: escape_digits_length escape_bytes_length)

definition safeDecodePath :: "jsstr \<Rightarrow> jsstr" where
  "safeDecodePath path = (case decodeURIComponent path of Some p \<Rightarrow> p | None \<Rightarrow> path)"

definition control_unit :: "code_unit \<Rightarrow> bool" where
  "control_unit c \<longleftrightarrow> c \<le> 0x1F \<or> c = 0x7F"

definition normalizeOscPath :: "jsstr \<Rightarrow> jsstr" where
  "normalizeOscPath path =
     (if \<not> starts_with path slash \<or> list_ex control_unit path then []
      else absolute (foldl push_part [] (js_split slash (forward_slashes path))))"

definition maximumWorkingDirectoryLength :: nat where
  "maximumWorkingDirectoryLength = 8192"

definition parseOsc7WorkingDirectory :: "(jsstr \<Rightarrow> (jsstr \<times> jsstr) option) \<Rightarrow> jsstr \<Rightarrow> jsstr" where
  "parseOsc7WorkingDirectory parse_url v =
     (let uri = js_trim v
      in if uri = [] \<or> length uri > maximumWorkingDirectoryLength then []
         else (case parse_url uri of
                 Some (protocol, pathname) \<Rightarrow>
                   if protocol \<noteq> js ''file:'' then [] else normalizeOscPath (safeDecodePath pathname)
               | None \<Rightarrow>
                   if starts_with uri slash then normalizeOscPath (safeDecodePath uri) else []))"

text \<open>
  The matches of \<^verbatim>\<open>/\u001B\]7;([^\u0007\u001B]*)(?:\u0007|\u001B\\)/g\<close>, by their first group: the
  group ends at the first BEL or ESC, which has to be the terminator.
\<close>

definition osc7_body :: "code_unit \<Rightarrow> bool" where
  "osc7_body c \<longleftrightarrow> c \<noteq> 7 \<and> c \<noteq> 0x1B"

definition osc7_match :: "jsstr \<Rightarrow> (jsstr \<times> jsstr) option" where
  "osc7_match s =
     (if take 4 s = [0x1B, 93, 55, 59] then
        (let body = takeWhile osc7_body (drop 4 s); rest = dropWhile osc7_body (drop 4 s)
         in case rest of
              [] \<Rightarrow> None
            | c # r \<Rightarrow> if c = 7 then Some (body, r)
                else (case r of d # r' \<Rightarrow> if d = backslash then Some (body, r') else None | [] \<Rightarrow> None))
      else None)"

lemma osc7_match_length: "osc7_match s = Some (b, r) \<Longrightarrow> length r < length s"
proof -
  assume m: "osc7_match s = Some (b, r)"
  have "length (dropWhile osc7_body (drop 4 s)) \<le> length s"
    using length_dropWhile_le [of osc7_body "drop 4 s"] by simp
  with m show ?thesis
    by (auto simp: osc7_match_def Let_def split: if_splits list.splits)
qed

function osc7_matches :: "jsstr \<Rightarrow> jsstr list" where
  "osc7_matches [] = []"
| "osc7_matches (c # s) =
     (case osc7_match (c # s) of
        Some (body, rest) \<Rightarrow> body # osc7_matches rest
      | None \<Rightarrow> osc7_matches s)"
  by pat_completeness auto

termination
  by (relation "measure length") (auto dest: osc7_match_length)

definition latestOsc7WorkingDirectory :: "(jsstr \<Rightarrow> (jsstr \<times> jsstr) option) \<Rightarrow> jsstr \<Rightarrow> jsstr" where
  "latestOsc7WorkingDirectory parse_url text =
     foldl (\<lambda>latestPath body.
        (let path = parseOsc7WorkingDirectory parse_url body in if path \<noteq> [] then path else latestPath))
       [] (osc7_matches text)"

section \<open>Canonical paths\<close>

definition plain_part :: "jsstr \<Rightarrow> bool" where
  "plain_part p \<longleftrightarrow> p \<noteq> [] \<and> p \<noteq> js ''.'' \<and> p \<noteq> js ''..'' \<and> slash \<notin> set p \<and> backslash \<notin> set p"

definition canonical :: "jsstr \<Rightarrow> bool" where
  "canonical p \<longleftrightarrow> (\<exists>parts. list_all plain_part parts \<and> p = absolute parts)"

lemma set_forward_slashes: "backslash \<notin> set (forward_slashes s)"
  by (auto simp: forward_slashes_def)

lemma forward_slashes_id: "backslash \<notin> set s \<Longrightarrow> forward_slashes s = s"
  by (auto simp: forward_slashes_def intro!: map_idI)

lemma push_parts_plain:
  assumes "list_all plain_part parts" and "\<forall>p \<in> set ps. slash \<notin> set p \<and> backslash \<notin> set p"
  shows "list_all plain_part (foldl push_part parts ps)"
  using assms
proof (induction ps arbitrary: parts)
  case (Cons p ps)
  have "list_all plain_part (push_part parts p)"
    using Cons.prems by (auto simp: push_part_def plain_part_def list_all_iff dest: in_set_butlastD)
  with Cons show ?case by simp
qed simp

lemma push_plain: "list_all plain_part ps \<Longrightarrow> foldl push_part parts ps = parts @ ps"
  by (induction ps arbitrary: parts) (auto simp: push_part_def plain_part_def)

lemma resolve_canonical:
  "canonical (absolute (foldl push_part [] (js_split slash (forward_slashes s))))"
proof -
  have "\<forall>p \<in> set (js_split slash (forward_slashes s)). slash \<notin> set p \<and> backslash \<notin> set p"
    by (meson js_split_no_sep js_split_subset set_forward_slashes subsetD)
  from push_parts_plain [of "[]", OF _ this] show ?thesis
    unfolding canonical_def by auto
qed

lemma backslash_absolute: "list_all plain_part parts \<Longrightarrow> backslash \<notin> set (absolute parts)"
proof -
  assume a: "list_all plain_part parts"
  have "backslash \<notin> set (js_join [slash] ps)" if "list_all (\<lambda>p. backslash \<notin> set p) ps" for ps
    using that by (induction "[slash]" ps rule: js_join.induct) auto
  moreover have "list_all (\<lambda>p. backslash \<notin> set p) parts"
    using a by (simp add: list_all_iff plain_part_def)
  ultimately have "backslash \<notin> set (js_join [slash] parts)" by blast
  then show ?thesis by (simp add: absolute_def js_def)
qed

lemma split_absolute:
  "list_all plain_part parts \<Longrightarrow>
     foldl push_part [] (js_split slash (absolute parts)) = parts"
proof -
  assume a: "list_all plain_part parts"
  have slash_js: "js ''/'' = [slash]" by (simp add: js_def)
  show ?thesis
  proof (cases "parts = []")
    case True
    then show ?thesis by (simp add: absolute_def slash_js push_part_def)
  next
    case False
    then have "js_split slash (js_join [slash] parts) = parts"
      using a by (intro js_split_join) (auto simp: list_all_iff plain_part_def)
    then have "js_split slash (absolute parts) = [] # parts" using False by (simp add: absolute_def)
    then show ?thesis using push_plain [OF a, of "[]"] by (simp add: push_part_def)
  qed
qed

lemma normalize_absolute:
  assumes "list_all plain_part parts" and "js_trim p = absolute parts"
  shows "normalizeRemotePathInput p = absolute parts"
  using assms
  by (simp add: normalizeRemotePathInput_def forward_slashes_id backslash_absolute split_absolute)

lemma absolute_snoc:
  "absolute (ps @ [p]) = (if ps = [] then slash # p else absolute ps @ slash # p)"
  by (simp add: absolute_def join_snoc)

lemma absolute_inject:
  assumes "list_all plain_part ps" and "list_all plain_part qs"
  shows "absolute ps = absolute qs \<longleftrightarrow> ps = qs"
  using assms split_absolute by metis

lemma absolute_root_iff: "list_all plain_part ps \<Longrightarrow> absolute ps = remoteRootPath \<longleftrightarrow> ps = []"
  using absolute_inject [of ps "[]"] by (simp add: absolute_def remoteRootPath_def)

lemma absolute_last: "list_all plain_part ps \<Longrightarrow> ps \<noteq> [] \<Longrightarrow> last (absolute ps) = last (last ps)"
  by (cases ps rule: rev_cases) (auto simp: absolute_snoc plain_part_def)

section \<open>Splitting local paths and finding OSC 7 sequences\<close>

lemma last_separator:
  assumes "separator_unit d" and "list_all (\<lambda>c. \<not> separator_unit c) n"
  shows "max (js_lastIndexOf slash (p @ d # n)) (js_lastIndexOf backslash (p @ d # n)) = int (length p)"
proof -
  have n: "slash \<notin> set n" "backslash \<notin> set n"
    using assms by (auto simp: separator_unit_def list_all_iff)
  consider "d = slash" | "d = backslash" using assms by (auto simp: separator_unit_def)
  then show ?thesis
  proof cases
    case 1
    then have "js_lastIndexOf backslash (p @ d # n) = js_lastIndexOf backslash p"
      using n by (intro lastIndexOf_skip) auto
    then show ?thesis using 1 n lastIndexOf_less [of backslash p] by (simp add: lastIndexOf_append)
  next
    case 2
    then have "js_lastIndexOf slash (p @ d # n) = js_lastIndexOf slash p"
      using n by (intro lastIndexOf_skip) auto
    then show ?thesis using 2 n lastIndexOf_less [of slash p] by (simp add: lastIndexOf_append)
  qed
qed

definition local_directory :: "jsstr \<Rightarrow> bool" where
  "local_directory b \<longleftrightarrow> js_trim b = b \<and> b \<noteq> [] \<and>
     (b = [slash] \<or> b = [backslash] \<or> (ends_with b backslash \<and> is_drive (butlast b))
      \<or> (\<not> separator_unit (last b) \<and> \<not> is_drive b))"

text \<open>Splitting a path that ends with a name without separators.\<close>

lemma split_local:
  assumes "separator_unit d" and "list_all (\<lambda>c. \<not> separator_unit c) n" and "n \<noteq> []"
    and "js_trim (p @ d # n) = p @ d # n"
  shows "localPathBaseName (p @ d # n) = n"
    and "localDirectoryName (p @ d # n) =
      (if is_drive p then p @ [backslash]
       else if p = [] then (if d = slash then [slash] else [backslash]) else p)"
proof -
  have "\<not> separator_unit (last n)" using assms by (simp add: list_all_iff)
  then have t: "trim_end separator_unit (p @ d # n) = p @ d # n"
    using assms by (intro trim_end_id) simp
  show "localPathBaseName (p @ d # n) = n"
    by (simp only: localPathBaseName_def assms(4) t Let_def last_separator [OF assms(1,2)])
      (simp add: nat_add_distrib)
  have "d = slash \<or> d = backslash" using assms by (simp add: separator_unit_def)
  then show "localDirectoryName (p @ d # n) =
      (if is_drive p then p @ [backslash]
       else if p = [] then (if d = slash then [slash] else [backslash]) else p)"
    by (simp only: localDirectoryName_def assms(4) t Let_def last_separator [OF assms(1,2)])
      (auto simp: starts_with_def js_def)
qed

definition safe_file_name :: "jsstr \<Rightarrow> bool" where
  "safe_file_name s \<longleftrightarrow> s \<noteq> [] \<and> list_all (\<lambda>c. \<not> invalid_name_unit c) s
     \<and> last s \<noteq> 32 \<and> last s \<noteq> 46 \<and> \<not> reserved_name s"

lemma safe_download: "safe_file_name (js ''download'')"
  by (simp add: safe_file_name_def invalid_name_unit_def reserved_name_def device_name_def
      ascii_fold_def Let_def js_def)

lemma underscore_not_reserved: "\<not> reserved_name (95 # s)"
  by (simp add: reserved_name_def device_name_def Let_def ascii_fold_def js_def)

text \<open>The sequences of a text in front of another one are found as if it stood alone.\<close>

lemma osc7_match_append:
  assumes "s \<noteq> []"
  shows "osc7_match (s @ 0x1B # 93 # t) = map_option (\<lambda>(b, r). (b, r @ 0x1B # 93 # t)) (osc7_match s)"
proof (cases "length s < 4")
  case True
  have "length s \<noteq> 0" using assms by simp
  then consider "length s = Suc 0" | "length s = Suc (Suc 0)" | "length s = Suc (Suc (Suc 0))"
    using True by linarith
  then have "take 4 (s @ 0x1B # 93 # t) \<noteq> [0x1B, 93, 55, 59] \<and> take 4 s \<noteq> [0x1B, 93, 55, 59]"
    by cases (auto simp: length_Suc_conv)
  then show ?thesis by (simp add: osc7_match_def)
next
  case False
  then have split: "take 4 (s @ 0x1B # 93 # t) = take 4 s"
      "drop 4 (s @ 0x1B # 93 # t) = drop 4 s @ 0x1B # 93 # t" by simp_all
  define u where "u = drop 4 s"
  show ?thesis
  proof (cases "dropWhile osc7_body u")
    case Nil
    then have "\<forall>x \<in> set u. osc7_body x" by (simp add: dropWhile_eq_Nil_conv)
    then have ext: "dropWhile osc7_body (u @ 0x1B # 93 # t) = 0x1B # 93 # t"
      by (simp add: dropWhile_append2 osc7_body_def)
    show ?thesis unfolding osc7_match_def split u_def [symmetric] Let_def ext Nil by simp
  next
    case (Cons c r)
    then obtain x where "x \<in> set u" "\<not> osc7_body x"
      by (metis dropWhile_eq_Nil_conv list.distinct(1))
    then have "dropWhile osc7_body (u @ 0x1B # 93 # t) = c # r @ 0x1B # 93 # t"
      "takeWhile osc7_body (u @ 0x1B # 93 # t) = takeWhile osc7_body u"
      using Cons by (auto simp: dropWhile_append1)
    then show ?thesis using Cons
      unfolding osc7_match_def split u_def [symmetric] Let_def by (cases r) auto
  qed
qed

lemmas osc7_matches_Cons = osc7_matches.simps(2)
declare osc7_matches.simps(2) [simp del]

lemma osc7_matches_append:
  "osc7_matches (s @ 0x1B # 93 # t) = osc7_matches s @ osc7_matches (0x1B # 93 # t)"
proof (induction s rule: osc7_matches.induct)
  case (2 c s)
  show ?case
  proof (cases "osc7_match (c # s)")
    case None
    then show ?thesis using 2 osc7_match_append [of "c # s" t]
      by (simp add: osc7_matches_Cons [of c])
  next
    case (Some br)
    then show ?thesis using 2 osc7_match_append [of "c # s" t]
      by (cases br) (simp add: osc7_matches_Cons [of c])
  qed
qed simp

definition osc7_sequence :: "jsstr \<Rightarrow> jsstr \<Rightarrow> jsstr" where
  "osc7_sequence uri terminator = [0x1B, 93, 55, 59] @ uri @ terminator"

lemma osc7_sequence_match:
  assumes "list_all osc7_body uri" and "terminator = [7] \<or> terminator = [0x1B, backslash]"
  shows "osc7_matches (osc7_sequence uri terminator @ b) = uri # osc7_matches b"
proof -
  obtain e es where e: "terminator = e # es" "\<not> osc7_body e" using assms(2) by (auto simp: osc7_body_def)
  have "takeWhile osc7_body (uri @ terminator @ b) = uri"
    "dropWhile osc7_body (uri @ terminator @ b) = terminator @ b"
    using assms(1) e by (simp_all add: takeWhile_append2 dropWhile_append2 list_all_iff)
  then have "osc7_match (osc7_sequence uri terminator @ b) = Some (uri, b)"
    using assms(2) by (auto simp: osc7_match_def osc7_sequence_def)
  then show ?thesis by (simp add: osc7_sequence_def osc7_matches_Cons)
qed

lemma set_absolute: "list_all (list_all P) parts \<Longrightarrow> P slash \<Longrightarrow> list_all P (absolute parts)"
proof -
  assume a: "list_all (list_all P) parts" "P slash"
  have "list_all (list_all P) ps \<Longrightarrow> list_all P (js_join [slash] ps)" for ps
    using a(2) by (induction "[slash]" ps rule: js_join.induct) auto
  then show ?thesis using a by (simp add: absolute_def js_def)
qed

lemma push_parts_all:
  "list_all (list_all P) parts \<Longrightarrow> list_all (list_all P) ps \<Longrightarrow> list_all (list_all P) (foldl push_part parts ps)"
proof (induction ps arbitrary: parts)
  case (Cons p ps)
  have "list_all (list_all P) (push_part parts p)"
    using Cons.prems by (auto simp: push_part_def list_all_iff dest: in_set_butlastD)
  with Cons show ?case by simp
qed simp

lemma resolve_all:
  assumes "list_all P s" and "P slash"
  shows "list_all P (absolute (foldl push_part [] (js_split slash (forward_slashes s))))"
proof -
  have "list_all P (forward_slashes s)" using assms by (auto simp: forward_slashes_def list_all_iff)
  then have "list_all (list_all P) (js_split slash (forward_slashes s))"
    unfolding list_all_iff by (meson js_split_subset subsetD)
  then show ?thesis using assms(2) by (intro set_absolute push_parts_all) simp_all
qed

definition shown_directory :: "jsstr \<Rightarrow> bool" where
  "shown_directory p \<longleftrightarrow> p = [] \<or> (canonical p \<and> list_all (\<lambda>c. \<not> control_unit c) p)"

lemma normalizeOscPath_shown: "shown_directory (normalizeOscPath path)"
proof (cases "starts_with path slash \<and> \<not> list_ex control_unit path")
  case True
  then have "list_all (\<lambda>c. \<not> control_unit c) path" by (simp add: list_all_iff list_ex_iff)
  then have "list_all (\<lambda>c. \<not> control_unit c)
      (absolute (foldl push_part [] (js_split slash (forward_slashes path))))"
    by (rule resolve_all) (simp add: control_unit_def)
  then show ?thesis using True resolve_canonical
    by (simp add: normalizeOscPath_def shown_directory_def)
qed (auto simp: normalizeOscPath_def shown_directory_def)

lemma parseOsc7_shown: "shown_directory (parseOsc7WorkingDirectory parse_url v)"
proof -
  have "shown_directory []" by (simp add: shown_directory_def)
  then show ?thesis
    using normalizeOscPath_shown
    by (auto simp: parseOsc7WorkingDirectory_def Let_def split: option.split)
qed

section \<open>Properties\<close>

text \<open>
  A normalised remote path is canonical: it is absolute and none of its parts is empty, a dot,
  two dots or holds a separator of either kind.
\<close>

theorem normalizeRemotePathInput_canonical: "canonical (normalizeRemotePathInput path)"
  by (simp add: normalizeRemotePathInput_def resolve_canonical)

text \<open>
  Normalising changes nothing about a canonical path, so normalising twice is normalising once
  unless the first result ends with a blank (which the trim of the second call removes).
\<close>

theorem normalizeRemotePathInput_fixpoint:
  assumes "canonical p" and "\<not> js_space (last p)"
  shows "normalizeRemotePathInput p = p"
proof -
  obtain parts where parts: "list_all plain_part parts" "p = absolute parts"
    using assms by (auto simp: canonical_def)
  have "hd p = slash" "p \<noteq> []" by (auto simp: parts absolute_def js_def)
  then have "js_trim p = p" using assms by (intro trim_id) (simp add: js_space_def)
  then show ?thesis using parts normalize_absolute by metis
qed

theorem normalizeRemotePathInput_fixpoint_witness:
  "normalizeRemotePathInput (js ''/srv/www'') = js ''/srv/www''"
proof (rule normalizeRemotePathInput_fixpoint)
  show "canonical (js ''/srv/www'')"
    unfolding canonical_def
    by (rule exI [of _ "[js ''srv'', js ''www'']"]) (simp add: absolute_def plain_part_def js_def)
  show "\<not> js_space (last (js ''/srv/www''))" by (simp add: js_def js_space_def)
qed

text \<open>
  The second trim can matter: the normal form of this path is not a normal form.
\<close>

theorem normalizeRemotePathInput_not_idempotent:
  "normalizeRemotePathInput (js ''/a /.'') = js ''/a ''
   \<and> normalizeRemotePathInput (js ''/a '') = js ''/a''"
  by (simp add: normalizeRemotePathInput_def js_trim_def trim_end_def js_space_def
      forward_slashes_def js_def push_part_def absolute_def)

text \<open>
  Entering a directory and going up again leads back: the parent of the path the panel builds
  for an entry is the (normalised) directory it was built in.
\<close>

theorem remoteDirectoryName_joinRemotePath:
  assumes "plain_part (js_trim name)"
  shows "remoteDirectoryName (joinRemotePath base name) = normalizeRemotePathInput base"
proof -
  obtain parts where parts: "list_all plain_part parts" "normalizeRemotePathInput base = absolute parts"
    using normalizeRemotePathInput_canonical [of base] by (auto simp: canonical_def)
  define n where "n = js_trim name"
  have n: "plain_part n" "n \<noteq> []" "slash \<notin> set n" using assms by (auto simp: n_def plain_part_def)
  have all: "list_all plain_part (parts @ [n])" using parts n by simp
  have "\<not> ends_with (absolute parts) slash" if "parts \<noteq> []"
  proof -
    have "last parts \<noteq> [] \<and> slash \<notin> set (last parts)"
      using parts that by (auto simp: list_all_iff plain_part_def)
    then have "last (absolute parts) \<noteq> slash"
      using absolute_last [OF parts(1) that] by (metis last_in_set)
    then show ?thesis by (simp add: ends_with_def)
  qed
  then have "joinRemotePath base name =
      (if parts = [] then absolute parts @ n else absolute parts @ slash # n)"
    by (simp add: joinRemotePath_def parts n_def [symmetric] absolute_root_iff [OF parts(1)])
  then have join: "joinRemotePath base name = absolute (parts @ [n])"
    by (simp add: absolute_snoc) (simp add: absolute_def js_def)
  have "js_trim (absolute (parts @ [n])) = absolute (parts @ [n])"
  proof (rule trim_id)
    have "hd (absolute (parts @ [n])) = slash" by (simp add: absolute_def)
    moreover have "last (absolute (parts @ [n])) = last n"
      using absolute_last [OF all] by simp
    moreover have "\<not> js_space (last n)" using trim_last n(2) by (simp add: n_def)
    ultimately show "absolute (parts @ [n]) = [] \<or>
        (\<not> js_space (hd (absolute (parts @ [n]))) \<and> \<not> js_space (last (absolute (parts @ [n]))))"
      by (simp add: js_space_def)
  qed
  then have norm: "normalizeRemotePathInput (joinRemotePath base name) = absolute (parts @ [n])"
    using normalize_absolute [OF all] by (simp add: join)
  have nr: "absolute (parts @ [n]) \<noteq> remoteRootPath" using absolute_root_iff [OF all] by simp
  show ?thesis
  proof (cases "parts = []")
    case True
    then show ?thesis
      using nr lastIndexOf_append [OF n(3), of "[]"]
      by (simp add: remoteDirectoryName_def norm absolute_snoc parts) (simp add: absolute_def remoteRootPath_def)
  next
    case False
    then have "absolute (parts @ [n]) = absolute parts @ slash # n" by (simp add: absolute_snoc)
    moreover have "absolute parts \<noteq> []" by (simp add: absolute_def)
    ultimately show ?thesis
      using nr lastIndexOf_append [OF n(3), of "absolute parts"]
      by (simp add: remoteDirectoryName_def norm parts)
  qed
qed

theorem remoteDirectoryName_joinRemotePath_witness:
  "remoteDirectoryName (joinRemotePath (js ''/srv//./www'') (js '' logs '')) = js ''/srv/www''"
proof -
  have "plain_part (js_trim (js '' logs ''))"
    by (simp add: plain_part_def js_trim_def trim_end_def js_space_def js_def)
  from remoteDirectoryName_joinRemotePath [OF this, of "js ''/srv//./www''"]
  show ?thesis
    by (simp add: normalizeRemotePathInput_def js_trim_def trim_end_def js_space_def
      forward_slashes_def js_def push_part_def absolute_def)
qed

text \<open>
  Joining a name to a local directory and splitting the path again gives both back, for
  POSIX directories, Windows directories, the roots of both and drive roots.
\<close>

theorem joinLocalPath_split:
  assumes "local_directory base" and "js_trim name \<noteq> []"
    and "list_all (\<lambda>c. \<not> separator_unit c) (js_trim name)"
  shows "localDirectoryName (joinLocalPath base name) = base
     \<and> localPathBaseName (joinLocalPath base name) = js_trim name"
proof -
  define n where "n = js_trim name"
  have n: "n \<noteq> []" "list_all (\<lambda>c. \<not> separator_unit c) n" "\<not> js_space (last n)"
    using assms trim_last by (auto simp: n_def)
  have b: "js_trim base = base" "base \<noteq> []" using assms by (auto simp: local_directory_def)
  then have hb: "\<not> js_space (hd base)" using trim_hd by metis
  obtain p d where pd: "joinLocalPath base name = p @ d # n" "separator_unit d"
      "(if is_drive p then p @ [backslash]
       else if p = [] then (if d = slash then [slash] else [backslash]) else p) = base"
    and hd: "\<not> js_space (hd (p @ d # n))"
  proof (cases "separator_unit (last base)")
    case True
    then have ends: "ends_with base backslash \<or> ends_with base slash"
      using b by (auto simp: ends_with_def separator_unit_def)
    have base: "butlast base @ [last base] = base" using b by simp
    then have bs: "last base = backslash \<Longrightarrow> butlast base @ [backslash] = base" by metis
    show thesis
    proof (rule that [of "butlast base" "last base"])
      show "joinLocalPath base name = butlast base @ last base # n"
        using ends base b by (simp add: joinLocalPath_def n_def [symmetric])
      show "(if is_drive (butlast base) then butlast base @ [backslash]
          else if butlast base = [] then (if last base = slash then [slash] else [backslash])
          else butlast base) = base"
        using assms(1) True base
        by (auto simp: bs local_directory_def ends_with_def is_drive_def)
      show "\<not> js_space (hd (butlast base @ last base # n))"
        using hb base by (metis append_Cons hd_append2 list.sel(1) append_Nil)
    qed (rule True)
  next
    case False
    then have nd: "\<not> is_drive base" "\<not> ends_with base backslash" "\<not> ends_with base slash"
      using assms(1) by (auto simp: local_directory_def ends_with_def separator_unit_def)
    show thesis
      by (rule that [of base "if backslash \<in> set base then backslash else slash"])
        (use nd b hb in \<open>auto simp: joinLocalPath_def n_def [symmetric] separator_unit_def Let_def\<close>)
  qed
  have "js_trim (p @ d # n) = p @ d # n" using hd n by (intro trim_id) simp
  from split_local [OF pd(2) n(2,1) this] show ?thesis using pd by (simp add: n_def)
qed

theorem joinLocalPath_split_witness:
  "localDirectoryName (joinLocalPath [67, 58, 92] (js ''a.txt'')) = [67, 58, 92]
     \<and> localPathBaseName (joinLocalPath [67, 58, 92] (js ''a.txt'')) = js ''a.txt''"
proof -
  have t: "js_trim (js ''a.txt'') = js ''a.txt''"
    by (simp add: js_trim_def trim_end_def js_space_def js_def)
  have "local_directory [67, 58, 92]"
    by (simp add: local_directory_def js_trim_def trim_end_def js_space_def ends_with_def is_drive_def
        ascii_letter_def)
  from joinLocalPath_split [OF this, of "js ''a.txt''"] show ?thesis
    by (simp add: t) (simp add: separator_unit_def js_def)
qed

lemma safe_download_name: "safe_file_name (safeLocalDownloadName name)"
proof -
  define m where "m = map (\<lambda>c. if invalid_name_unit c then 95 else c) (js_trim name)"
  define s where "s = trim_end (\<lambda>c. c = 32 \<or> c = 46) m"
  have "list_all (\<lambda>c. \<not> invalid_name_unit c) m"
    by (auto simp: m_def list_all_iff invalid_name_unit_def)
  then have valid: "list_all (\<lambda>c. \<not> invalid_name_unit c) s"
    using set_trim_end [of "\<lambda>c. c = 32 \<or> c = 46" m] by (auto simp: s_def list_all_iff)
  have last: "s \<noteq> [] \<longrightarrow> last s \<noteq> 32 \<and> last s \<noteq> 46"
    using trim_end_last [of "\<lambda>c. c = 32 \<or> c = 46" m] by (auto simp: s_def)
  have under: "\<not> invalid_name_unit 95" by (simp add: invalid_name_unit_def)
  have eq: "safeLocalDownloadName name =
     (if s = [] \<or> s = js ''.'' \<or> s = js ''..'' then js ''download''
      else if reserved_name s then 95 # s else s)"
    by (simp add: safeLocalDownloadName_def s_def m_def Let_def)
  show ?thesis
    using valid last under safe_download underscore_not_reserved
    by (simp add: eq) (auto simp: safe_file_name_def)
qed

text \<open>
  C6. Whatever a server calls a file, the name it is downloaded to is one every desktop system
  accepts: not empty, without a separator, a wildcard or a control character, not ending with a
  blank or a dot, and not a reserved device name of Windows.
\<close>

theorem safeLocalDownloadName_safe: "safe_file_name (safeLocalDownloadName name)"
  by (rule safe_download_name)

text \<open>
  The working directory of a shell is the one its last OSC 7 sequence names: text around the
  sequence, earlier sequences and truncated ones make no difference.
\<close>

theorem latestOsc7_last_sequence:
  assumes "list_all osc7_body uri" and "terminator = [7] \<or> terminator = [0x1B, backslash]"
    and "osc7_matches rest = []" and "parseOsc7WorkingDirectory parse_url uri \<noteq> []"
  shows "latestOsc7WorkingDirectory parse_url (before @ osc7_sequence uri terminator @ rest)
     = parseOsc7WorkingDirectory parse_url uri"
proof -
  have "osc7_matches (before @ osc7_sequence uri terminator @ rest)
      = osc7_matches before @ osc7_matches (osc7_sequence uri terminator @ rest)"
    using osc7_matches_append [of before "[55, 59] @ uri @ terminator @ rest"]
    by (simp add: osc7_sequence_def)
  also have "\<dots> = osc7_matches before @ [uri]"
    by (simp add: osc7_sequence_match [OF assms(1,2)] assms(3))
  finally show ?thesis using assms(4) by (simp add: latestOsc7WorkingDirectory_def)
qed

definition file_url :: "jsstr \<Rightarrow> (jsstr \<times> jsstr) option" where
  "file_url uri = (if take 7 uri = js ''file://'' then Some (js ''file:'', drop 7 uri) else None)"

theorem latestOsc7_last_sequence_witness:
  "latestOsc7WorkingDirectory file_url
     (js ''$ '' @ osc7_sequence (js ''file:///srv/a%20b'') [7] @ js ''ls'') = js ''/srv/a b''"
proof -
  have "parseOsc7WorkingDirectory file_url (js ''file:///srv/a%20b'') = js ''/srv/a b''"
    by code_simp
  with latestOsc7_last_sequence [of "js ''file:///srv/a%20b''" "[7]" "js ''ls''" file_url "js ''$ ''"]
  show ?thesis by (simp add: osc7_body_def osc7_match_def osc7_matches_Cons js_def)
qed

text \<open>
  Whatever bytes a remote program sends, the working directory shown is either nothing or a
  canonical absolute path without control characters.
\<close>

theorem latestOsc7_shown: "shown_directory (latestOsc7WorkingDirectory parse_url text)"
proof -
  have "shown_directory (foldl (\<lambda>latestPath body.
      (let path = parseOsc7WorkingDirectory parse_url body in if path \<noteq> [] then path else latestPath)) r ms)"
    if "shown_directory r" for r ms
    using that by (induction ms arbitrary: r) (auto simp: Let_def parseOsc7_shown)
  then show ?thesis by (simp add: latestOsc7WorkingDirectory_def shown_directory_def)
qed

end
