(* ===== verification/Keymap.thy ===== *)
theory Keymap
  imports PortivaTypes
begin

text \<open>
  Keyboard shortcuts: parsing and matching (\<^verbatim>\<open>src/shared/keymap.ts\<close>) and the window's key handler
  (\<^verbatim>\<open>src/app/useKeyboardShortcuts.ts\<close>). What the handler reads of the DOM is the record
  \<open>key_target\<close>; what it does is the record \<open>key_outcome\<close>.
\<close>

section \<open>Shortcuts\<close>

record shortcut_spec =
  sp_alt :: bool
  sp_ctrl :: bool
  sp_meta :: bool
  sp_shift :: bool
  sp_key :: jsstr

record key_target =
  kt_isContentEditable :: bool
  kt_tagName :: jsstr
  kt_insideXterm :: bool

text \<open>\<open>ke_target\<close> is \<open>None\<close> when the target is not an \<^verbatim>\<open>HTMLElement\<close>.\<close>

record key_event =
  ke_altKey :: bool
  ke_ctrlKey :: bool
  ke_metaKey :: bool
  ke_shiftKey :: bool
  ke_key :: jsstr
  ke_isComposing :: bool
  ke_keyCode :: int
  ke_target :: "key_target option"

text \<open>
  What \<^verbatim>\<open>modifierAliases[name]\<close> finds. The table is an object literal, so the two names of
  \<^verbatim>\<open>Object.prototype\<close> that are in lower case are found too; the write \<^verbatim>\<open>spec[modifier] = true\<close>
  then sets a property nobody reads.
\<close>

datatype modifier = MAlt | MCtrl | MMeta | MShift | MInherited

definition modifierAliases :: "jsstr \<Rightarrow> modifier option" where
  "modifierAliases name =
     (if name = js ''alt'' \<or> name = js ''option'' then Some MAlt
      else if name = js ''cmd'' \<or> name = js ''command'' \<or> name = js ''meta'' then Some MMeta
      else if name = js ''control'' \<or> name = js ''ctrl'' then Some MCtrl
      else if name = js ''shift'' then Some MShift
      else if name = js ''constructor'' \<or> name = js ''__proto__'' then Some MInherited
      else None)"

fun set_modifier :: "modifier \<Rightarrow> shortcut_spec \<Rightarrow> shortcut_spec" where
  "set_modifier MAlt s = s\<lparr>sp_alt := True\<rparr>"
| "set_modifier MCtrl s = s\<lparr>sp_ctrl := True\<rparr>"
| "set_modifier MMeta s = s\<lparr>sp_meta := True\<rparr>"
| "set_modifier MShift s = s\<lparr>sp_shift := True\<rparr>"
| "set_modifier MInherited s = s"

definition normalizeKey :: "jsstr \<Rightarrow> jsstr" where
  "normalizeKey key =
     (let normalized = js_lower (js_trim key)
      in if normalized = js ''esc'' then js ''escape''
         else if normalized = js ''space'' then js '' ''
         else normalized)"

definition empty_spec :: shortcut_spec where
  "empty_spec = \<lparr>sp_alt = False, sp_ctrl = False, sp_meta = False, sp_shift = False, sp_key = []\<rparr>"

text \<open>The loop over the tokens, with the early return for a second key.\<close>

fun parse_tokens :: "shortcut_spec \<Rightarrow> jsstr list \<Rightarrow> shortcut_spec option" where
  "parse_tokens spec [] = (if sp_key spec \<noteq> [] then Some spec else None)"
| "parse_tokens spec (token # ts) =
     (case modifierAliases (js_lower token) of
        Some m \<Rightarrow> parse_tokens (set_modifier m spec) ts
      | None \<Rightarrow>
          if sp_key spec \<noteq> [] then None
          else parse_tokens (spec\<lparr>sp_key := normalizeKey token\<rparr>) ts)"

definition shortcut_tokens :: "jsstr \<Rightarrow> jsstr list" where
  "shortcut_tokens shortcut = filter (\<lambda>t. t \<noteq> []) (map js_trim (js_split 43 shortcut))"

definition parseShortcut :: "jsstr \<Rightarrow> shortcut_spec option" where
  "parseShortcut shortcut =
     (let tokens = shortcut_tokens shortcut
      in if tokens = [] then None else parse_tokens empty_spec tokens)"

definition matchesShortcut :: "key_event \<Rightarrow> jsstr \<Rightarrow> bool" where
  "matchesShortcut event shortcut =
     (case parseShortcut shortcut of
        None \<Rightarrow> False
      | Some spec \<Rightarrow>
          ke_altKey event = sp_alt spec \<and> ke_ctrlKey event = sp_ctrl spec
          \<and> ke_metaKey event = sp_meta spec \<and> ke_shiftKey event = sp_shift spec
          \<and> normalizeKey (ke_key event) = sp_key spec)"

definition isEditableShortcutTarget :: "key_target option \<Rightarrow> bool" where
  "isEditableShortcutTarget target =
     (case target of
        None \<Rightarrow> False
      | Some t \<Rightarrow> kt_isContentEditable t \<or> kt_tagName t = js ''INPUT''
          \<or> kt_tagName t = js ''TEXTAREA'' \<or> kt_tagName t = js ''SELECT'')"

section \<open>The key handler of the window\<close>

definition isBrowserReloadShortcut :: "key_event \<Rightarrow> bool" where
  "isBrowserReloadShortcut event \<longleftrightarrow>
     ke_key event = js ''F5''
     \<or> (js_lower (ke_key event) = js ''r'' \<and> (ke_ctrlKey event \<or> ke_metaKey event))"

definition isTerminalCtrlR :: "key_event \<Rightarrow> bool" where
  "isTerminalCtrlR event =
     (if js_lower (ke_key event) \<noteq> js ''r'' \<or> \<not> ke_ctrlKey event \<or> ke_metaKey event
         \<or> ke_altKey event \<or> ke_shiftKey event
      then False
      else (case ke_target event of Some t \<Rightarrow> kt_insideXterm t | None \<Rightarrow> False))"

datatype command =
    OpenHostOverview | OpenSettings | IncreaseFontSize | DecreaseFontSize
  | NewProfile | OpenLocalTerminal | OpenSerialTerminal | CloseTab

record key_outcome =
  ko_preventDefault :: bool
  ko_stopPropagation :: bool
  ko_command :: "command option"

definition or_default :: "jsstr \<Rightarrow> string \<Rightarrow> jsstr" where
  "or_default s d = (if s \<noteq> [] then s else js d)"

definition globalCommands :: "keymap \<Rightarrow> (jsstr \<times> command) list" where
  "globalCommands km =
     [(or_default (km_openHostOverview km) ''Ctrl+Shift+H'', OpenHostOverview),
      (or_default (km_openSettings km) ''Ctrl+,'', OpenSettings),
      (or_default (km_increaseFontSize km) ''Ctrl+='', IncreaseFontSize),
      (or_default (km_decreaseFontSize km) ''Ctrl+-'', DecreaseFontSize)]"

definition shortcutCommands :: "keymap \<Rightarrow> (jsstr \<times> command) list" where
  "shortcutCommands km =
     [(or_default (km_newProfile km) ''Ctrl+N'', NewProfile),
      (or_default (km_openLocalTerminal km) ''Ctrl+Alt+T'', OpenLocalTerminal),
      (or_default (km_openSerialTerminal km) ''Ctrl+Alt+S'', OpenSerialTerminal),
      (or_default (km_closeTab km) ''Ctrl+W'', CloseTab)]"

definition ignored :: key_outcome where
  "ignored = \<lparr>ko_preventDefault = False, ko_stopPropagation = False, ko_command = None\<rparr>"

definition onKeyDown :: "keymap \<Rightarrow> key_event \<Rightarrow> key_outcome" where
  "onKeyDown km event =
     (if ke_isComposing event \<or> ke_keyCode event = 229 then ignored
      else if isBrowserReloadShortcut event then
        (if isTerminalCtrlR event then ignored
         else \<lparr>ko_preventDefault = True, ko_stopPropagation = True, ko_command = None\<rparr>)
      else
        (case find (\<lambda>(shortcut, _). matchesShortcut event shortcut) (globalCommands km) of
           Some (_, c) \<Rightarrow> \<lparr>ko_preventDefault = True, ko_stopPropagation = False, ko_command = Some c\<rparr>
         | None \<Rightarrow>
             if isEditableShortcutTarget (ke_target event) then ignored
             else (case find (\<lambda>(shortcut, _). matchesShortcut event shortcut) (shortcutCommands km) of
                     None \<Rightarrow> ignored
                   | Some (_, c) \<Rightarrow>
                       \<lparr>ko_preventDefault = True, ko_stopPropagation = False, ko_command = Some c\<rparr>)))"

section \<open>Lemmas\<close>

lemma js_lower_append: "js_lower (s @ t) = js_lower s @ js_lower t"
  by (simp add: js_lower_def)

lemma js_lower_Nil [simp]: "js_lower [] = []"
  by (simp add: js_lower_def)

lemma lower_unit_ascii: "c < 128 \<Longrightarrow> lower_unit c = [if 65 \<le> c \<and> c \<le> 90 then c + 32 else c]"
proof -
  assume "c < 128"
  then have "\<not> 0xC0 \<le> c" "c \<noteq> 0x212A" "c \<noteq> 0x130"
    by (auto simp: word_less_nat_alt word_le_nat_alt)
  then show ?thesis by (simp add: lower_unit_def)
qed

text \<open>A token that names a key and not a modifier.\<close>

definition key_token :: "jsstr \<Rightarrow> bool" where
  "key_token t \<longleftrightarrow> js_trim t = t \<and> 43 \<notin> set t \<and> normalizeKey t \<noteq> [] \<and> modifierAliases (js_lower t) = None"

definition render_spec :: "bool \<Rightarrow> bool \<Rightarrow> bool \<Rightarrow> bool \<Rightarrow> jsstr \<Rightarrow> jsstr" where
  "render_spec ctrl alt shift meta key =
     js_join [43] ((if ctrl then [js ''Ctrl''] else []) @ (if alt then [js ''Alt''] else [])
       @ (if shift then [js ''Shift''] else []) @ (if meta then [js ''Meta''] else []) @ [key])"

lemma key_token_not_Nil: "key_token t \<Longrightarrow> t \<noteq> []"
  by (auto simp: key_token_def normalizeKey_def js_trim_def trim_end_def)

lemma modifier_words:
  "js_trim (js ''Ctrl'') = js ''Ctrl''" "js_trim (js ''Alt'') = js ''Alt''"
  "js_trim (js ''Shift'') = js ''Shift''" "js_trim (js ''Meta'') = js ''Meta''"
  "js_lower (js ''Ctrl'') = js ''ctrl''" "js_lower (js ''Alt'') = js ''alt''"
  "js_lower (js ''Shift'') = js ''shift''" "js_lower (js ''Meta'') = js ''meta''"
  by (simp_all add: js_trim_def trim_end_def js_space_def js_lower_def lower_unit_def js_def)

lemma modifier_no_plus:
  "43 \<notin> set (js ''Ctrl'')" "43 \<notin> set (js ''Alt'')" "43 \<notin> set (js ''Shift'')" "43 \<notin> set (js ''Meta'')"
  by (simp_all add: js_def)

lemma modifier_lookup [simp]:
  "modifierAliases (js ''ctrl'') = Some MCtrl" "modifierAliases (js ''alt'') = Some MAlt"
  "modifierAliases (js ''shift'') = Some MShift" "modifierAliases (js ''meta'') = Some MMeta"
  by (simp_all add: modifierAliases_def)

lemma shortcut_tokens_join:
  assumes "ts \<noteq> []" and "list_all (\<lambda>t. js_trim t = t \<and> 43 \<notin> set t \<and> t \<noteq> []) ts"
  shows "shortcut_tokens (js_join [43] ts) = ts"
proof -
  have "js_split 43 (js_join [43] ts) = ts" using assms by (intro js_split_join) (auto simp: list_all_iff)
  moreover have "map js_trim ts = ts" using assms by (intro map_idI) (auto simp: list_all_iff)
  ultimately show ?thesis using assms by (simp add: shortcut_tokens_def list_all_iff)
qed

lemma normalizeKey_space: "normalizeKey (js '' '') = []"
  by (simp add: normalizeKey_def js_trim_def trim_end_def js_space_def js_def)

lemma normalizeKey_trim: "normalizeKey (js_trim k) = normalizeKey k"
  by (simp add: normalizeKey_def)

lemma parse_tokens_key: "parse_tokens s ts = Some spec \<Longrightarrow> sp_key spec \<noteq> []"
  by (induction s ts rule: parse_tokens.induct) (auto split: option.splits if_splits)

section \<open>Properties\<close>

text \<open>
  A shortcut written as modifiers and a key is parsed as exactly these modifiers and the
  normalised key.
\<close>

theorem parseShortcut_render:
  assumes "key_token key"
  shows "parseShortcut (render_spec ctrl alt shift meta key) =
     Some \<lparr>sp_alt = alt, sp_ctrl = ctrl, sp_meta = meta, sp_shift = shift, sp_key = normalizeKey key\<rparr>"
proof -
  let ?ts = "(if ctrl then [js ''Ctrl''] else []) @ (if alt then [js ''Alt''] else [])
       @ (if shift then [js ''Shift''] else []) @ (if meta then [js ''Meta''] else []) @ [key]"
  have "shortcut_tokens (render_spec ctrl alt shift meta key) = ?ts"
    unfolding render_spec_def using assms key_token_not_Nil [OF assms]
    by (intro shortcut_tokens_join) (simp_all add: key_token_def modifier_words modifier_no_plus)
  then show ?thesis
    using assms by (simp add: parseShortcut_def empty_spec_def key_token_def modifier_words)
qed

theorem parseShortcut_render_witness:
  "parseShortcut (render_spec True False True False (js ''H'')) =
     Some \<lparr>sp_alt = False, sp_ctrl = True, sp_meta = False, sp_shift = True, sp_key = js ''h''\<rparr>"
proof -
  have k: "normalizeKey (js ''H'') = js ''h''"
    by (simp add: normalizeKey_def js_trim_def trim_end_def js_space_def js_lower_def lower_unit_def js_def)
  have "key_token (js ''H'')"
    unfolding key_token_def k
    by (simp add: js_trim_def trim_end_def js_space_def js_lower_def lower_unit_def js_def modifierAliases_def)
  from parseShortcut_render [OF this] show ?thesis by (simp add: k)
qed

text \<open>
  No shortcut can be bound to the space bar: the parser turns the word into a blank, which the
  handler's own normalisation of the event's key trims away, so the pair never matches.
\<close>

theorem space_bar_never_matches:
  "ke_key event = js '' '' \<Longrightarrow> \<not> matchesShortcut event shortcut"
proof -
  assume k: "ke_key event = js '' ''"
  show ?thesis
  proof (cases "parseShortcut shortcut")
    case (Some spec)
    then have "sp_key spec \<noteq> []"
      by (auto simp: parseShortcut_def Let_def split: if_splits dest: parse_tokens_key)
    then show ?thesis by (simp add: matchesShortcut_def Some k normalizeKey_space)
  qed (simp add: matchesShortcut_def)
qed

definition ctrl_space :: key_event where
  "ctrl_space = \<lparr>ke_altKey = False, ke_ctrlKey = True, ke_metaKey = False, ke_shiftKey = False,
     ke_key = js '' '', ke_isComposing = False, ke_keyCode = 32, ke_target = None\<rparr>"

theorem space_bar_never_matches_witness: "\<not> matchesShortcut ctrl_space (js ''Ctrl+Space'')"
  by (rule space_bar_never_matches) (simp add: ctrl_space_def)

text \<open>
  The window's key handler, branch by branch: keys of an input method and Ctrl+R in a terminal
  pass untouched, a reload key runs no command, a text field lets only the global commands
  through, and the default action is suppressed exactly when a command runs or a reload key is
  swallowed.
\<close>

theorem onKeyDown_safe:
  "(ke_isComposing e \<or> ke_keyCode e = 229 \<or> isTerminalCtrlR e \<longrightarrow> onKeyDown km e = ignored)
   \<and> (isBrowserReloadShortcut e \<longrightarrow> ko_command (onKeyDown km e) = None)
   \<and> (isEditableShortcutTarget (ke_target e) \<and> ko_command (onKeyDown km e) = Some c
        \<longrightarrow> c \<in> {OpenHostOverview, OpenSettings, IncreaseFontSize, DecreaseFontSize})
   \<and> (ko_preventDefault (onKeyDown km e) \<longleftrightarrow>
        ko_command (onKeyDown km e) \<noteq> None \<or> ko_stopPropagation (onKeyDown km e))"
proof -
  have r: "isTerminalCtrlR e \<longrightarrow> isBrowserReloadShortcut e"
    by (auto simp: isTerminalCtrlR_def isBrowserReloadShortcut_def)
  have g: "find (\<lambda>(shortcut, _). matchesShortcut e shortcut) (globalCommands km) = Some (s, d)
      \<Longrightarrow> d \<in> {OpenHostOverview, OpenSettings, IncreaseFontSize, DecreaseFontSize}" for s d
    by (drule find_Some_set) (auto simp: globalCommands_def)
  show ?thesis
    using r g by (auto simp: onKeyDown_def ignored_def split: option.splits)
qed

definition plain_keymap :: keymap where
  "plain_keymap = \<lparr>km_commandPalette = [], km_newProfile = [], km_openHostOverview = [],
     km_openLocalTerminal = [], km_openSerialTerminal = [], km_openSettings = [],
     km_increaseFontSize = [], km_decreaseFontSize = [], km_closeTab = []\<rparr>"

definition ctrl_w :: key_event where
  "ctrl_w = ctrl_space\<lparr>ke_key := js ''w'', ke_keyCode := 87\<rparr>"

theorem onKeyDown_safe_witness:
  "ko_command (onKeyDown plain_keymap ctrl_w) = Some CloseTab
   \<and> (ko_preventDefault (onKeyDown plain_keymap ctrl_w) \<longleftrightarrow>
        ko_command (onKeyDown plain_keymap ctrl_w) \<noteq> None \<or> ko_stopPropagation (onKeyDown plain_keymap ctrl_w))"
proof (rule conjI)
  show "ko_command (onKeyDown plain_keymap ctrl_w) = Some CloseTab" by code_simp
qed (use onKeyDown_safe [of ctrl_w plain_keymap CloseTab] in blast)

end
