(* ===== verification/JsNumber.thy ===== *)
theory JsNumber
  imports JsBase "HOL-Library.Log_Nat"
begin

text \<open>
  Conversions between numbers and strings: \<^verbatim>\<open>Number(string)\<close> with the rounding to a double,
  \<^verbatim>\<open>Math.round\<close>, \<^verbatim>\<open>toFixed\<close> and \<^verbatim>\<open>String(n)\<close> of a natural number. The rounding \<open>double_of\<close>
  is the IEEE 754 one (53 significant bits, ties to even, subnormals, overflow to infinity), so
  the quotients and products the code computes are \<open>double_of\<close> of the exact ones.
\<close>

section \<open>Doubles\<close>

definition pow2 :: "int \<Rightarrow> rat" where
  "pow2 k = (if 0 \<le> k then 2 ^ nat k else 1 / 2 ^ nat (- k))"

definition round_half_even :: "rat \<Rightarrow> int" where
  "round_half_even x =
     (let f = \<lfloor>x\<rfloor>; r = x - of_int f
      in if r < 1 / 2 then f else if 1 / 2 < r then f + 1 else if even f then f else f + 1)"

text \<open>The exponent of the power of two below a positive number.\<close>

definition binade :: "rat \<Rightarrow> int" where
  "binade x =
     (let (n, d) = quotient_of x; k = bitlen n - bitlen d
      in if pow2 k \<le> x then k else k - 1)"

definition double_of :: "rat \<Rightarrow> jsnum" where
  "double_of x =
     (if x = 0 then Fin 0
      else (let a = \<bar>x\<bar>; e = max (-1074) (binade a - 52);
                v = of_int (round_half_even (a / pow2 e)) * pow2 e
            in if pow2 1024 \<le> v then (if 0 < x then PosInf else NegInf)
               else Fin (if 0 < x then v else - v)))"

fun num_mul :: "jsnum \<Rightarrow> jsnum \<Rightarrow> jsnum" where
  "num_mul (Fin a) (Fin b) = double_of (a * b)"
| "num_mul NaN y = NaN"
| "num_mul x NaN = NaN"
| "num_mul x y =
     (if x = Fin 0 \<or> y = Fin 0 then NaN
      else if num_less x (Fin 0) = num_less y (Fin 0) then PosInf else NegInf)"

text \<open>\<^verbatim>\<open>Math.round\<close>: halves go up.\<close>

fun num_round :: "jsnum \<Rightarrow> jsnum" where
  "num_round (Fin a) = Fin (of_int \<lfloor>a + 1 / 2\<rfloor>)"
| "num_round x = x"

section \<open>Numbers from strings\<close>

definition radix_digit :: "nat \<Rightarrow> code_unit \<Rightarrow> nat option" where
  "radix_digit r c =
     (let d = (if 48 \<le> c \<and> c \<le> 57 then Some (unat c - 48)
               else if 65 \<le> c \<and> c \<le> 70 then Some (unat c - 55)
               else if 97 \<le> c \<and> c \<le> 102 then Some (unat c - 87) else None)
      in case d of Some v \<Rightarrow> if v < r then Some v else None | None \<Rightarrow> None)"

fun radix_value :: "nat \<Rightarrow> nat \<Rightarrow> jsstr \<Rightarrow> nat option" where
  "radix_value r v [] = Some v"
| "radix_value r v (c # s) =
     (case radix_digit r c of Some d \<Rightarrow> radix_value r (r * v + d) s | None \<Rightarrow> None)"

text \<open>A sign, and the exponent part of a decimal literal (\<open>None\<close> if malformed).\<close>

definition take_sign :: "jsstr \<Rightarrow> int \<times> jsstr" where
  "take_sign s = (case s of c # t \<Rightarrow> if c = 45 then (-1, t) else if c = 43 then (1, t) else (1, s) | [] \<Rightarrow> (1, s))"

definition exponent_part :: "jsstr \<Rightarrow> int option" where
  "exponent_part s =
     (case s of
        [] \<Rightarrow> Some 0
      | c # t \<Rightarrow>
          if c = 101 \<or> c = 69 then
            (let (sg, ds) = take_sign t
             in if ds \<noteq> [] \<and> list_all js_digit ds then Some (sg * int (digits_value ds)) else None)
          else None)"

definition pow10 :: "int \<Rightarrow> rat" where
  "pow10 k = (if 0 \<le> k then 10 ^ nat k else 1 / 10 ^ nat (- k))"

definition unsigned_decimal :: "jsstr \<Rightarrow> rat option" where
  "unsigned_decimal s =
     (let whole = takeWhile js_digit s; rest = dropWhile js_digit s;
          fraction = (case rest of c # t \<Rightarrow> if c = 46 then takeWhile js_digit t else [] | [] \<Rightarrow> []);
          tail = (case rest of c # t \<Rightarrow> if c = 46 then dropWhile js_digit t else rest | [] \<Rightarrow> [])
      in if whole = [] \<and> fraction = [] then None
         else map_option
           (\<lambda>e. of_nat (digits_value (whole @ fraction)) * pow10 (e - int (length fraction)))
           (exponent_part tail))"

text \<open>\<^verbatim>\<open>Number(s)\<close>.\<close>

definition js_number :: "jsstr \<Rightarrow> jsnum" where
  "js_number str =
     (let s = js_trim str; prefix = js_lower (take 2 s); (sg, u) = take_sign s;
          radix = (\<lambda>r. if length s = 2 then NaN
             else (case radix_value r 0 (drop 2 s) of Some v \<Rightarrow> double_of (of_nat v) | None \<Rightarrow> NaN))
      in if s = [] then Fin 0
         else if prefix = js ''0x'' then radix 16
         else if prefix = js ''0o'' then radix 8
         else if prefix = js ''0b'' then radix 2
         else if u = js ''Infinity'' then (if sg = 1 then PosInf else NegInf)
         else (case unsigned_decimal u of
                 Some v \<Rightarrow> double_of (of_int sg * v)
               | None \<Rightarrow> NaN))"

section \<open>Strings from numbers\<close>

text \<open>\<^verbatim>\<open>x.toFixed(d)\<close> of a finite number that is not negative: the nearest decimal, ties up.\<close>

definition to_fixed :: "nat \<Rightarrow> rat \<Rightarrow> jsstr" where
  "to_fixed d x =
     (let n = nat \<lfloor>x * 10 ^ d + 1 / 2\<rfloor>
      in if d = 0 then nat_digits n
         else nat_digits (n div 10 ^ d) @ [46]
           @ (let f = nat_digits (n mod 10 ^ d) in replicate (d - length f) 48 @ f))"

section \<open>Lemmas\<close>

lemma pow2_pos [simp]: "0 < pow2 k"
  by (simp add: pow2_def)

lemma round_half_even_int [simp]: "round_half_even (of_int i) = i"
  by (simp add: round_half_even_def)

lemma pow2_int: "k \<le> 0 \<Longrightarrow> \<exists>m. of_int i / pow2 k = of_int m"
proof -
  assume "k \<le> 0"
  then have "of_int i / pow2 k = (of_int (i * 2 ^ nat (- k)) :: rat)"
    by (cases "k = 0") (simp_all add: pow2_def)
  then show ?thesis by blast
qed

lemma pow2_mono: "j \<le> k \<Longrightarrow> pow2 j \<le> pow2 k"
proof -
  assume jk: "j \<le> k"
  consider "0 \<le> j" | "j < 0" "0 \<le> k" | "k < 0" by linarith
  then show ?thesis
  proof cases
    case 1
    then have "nat j \<le> nat k" using jk by simp
    then show ?thesis using 1 jk by (simp add: pow2_def power_increasing)
  next
    case 2
    then have "(1 :: rat) \<le> 2 ^ nat k" by (simp add: one_le_power)
    moreover have "(1 :: rat) / 2 ^ nat (- j) \<le> 1" by (simp add: one_le_power)
    ultimately have "(1 :: rat) / 2 ^ nat (- j) \<le> 2 ^ nat k" by linarith
    then show ?thesis using 2 by (simp add: pow2_def)
  next
    case 3
    then have "nat (- k) \<le> nat (- j)" using jk by simp
    then have "(2 :: rat) ^ nat (- k) \<le> 2 ^ nat (- j)" by (simp add: power_increasing)
    then show ?thesis using 3 jk by (simp add: pow2_def frac_le)
  qed
qed

lemma binade_of_nat:
  assumes "0 < i" and "i < 2 ^ 53"
  shows "binade (of_int i) \<le> 52"
proof -
  have q: "quotient_of (of_int i) = (i, 1)" by simp
  have "bitlen i \<le> 53" using assms by (simp add: bitlen_le_iff_power)
  moreover have "bitlen 1 = 1" by (simp add: compute_bitlen)
  ultimately show ?thesis by (simp add: binade_def q Let_def)
qed

lemma double_of_int:
  assumes "\<bar>i\<bar> < 2 ^ 53"
  shows "double_of (of_int i) = Fin (of_int i)"
proof (cases "i = 0")
  case False
  define a where "a = \<bar>i\<bar>"
  have a: "0 < a" "a < 2 ^ 53" using assms False by (auto simp: a_def)
  define e where "e = max (-1074) (binade (of_int a) - 52)"
  have "e \<le> 0" using binade_of_nat [OF a] by (simp add: e_def)
  then obtain m where m: "of_int a / pow2 e = of_int m" using pow2_int by blast
  have p: "pow2 e \<noteq> 0" by (metis less_irrefl pow2_pos)
  have "of_int (round_half_even (of_int a / pow2 e)) * pow2 e = of_int m * pow2 e" by (simp add: m)
  also have "\<dots> = of_int a" using p by (simp flip: m)
  finally have v: "of_int (round_half_even (of_int a / pow2 e)) * pow2 e = of_int a" .
  have "(of_int a :: rat) < 2 ^ 53" using a(2) by (metis of_int_less_iff of_int_numeral of_int_power)
  also have "(2 :: rat) ^ 53 \<le> pow2 1024" by (simp add: pow2_def)
  finally have "\<not> pow2 1024 \<le> of_int a" by simp
  then show ?thesis
    using False v by (auto simp: double_of_def Let_def e_def a_def abs_if split: if_splits)
qed (simp add: double_of_def)

lemma double_of_nonneg: "0 \<le> x \<Longrightarrow> double_of x = PosInf \<or> (\<exists>y. double_of x = Fin y \<and> 0 \<le> y)"
proof -
  assume "0 \<le> x"
  have "0 \<le> round_half_even y" if "0 \<le> y" for y
    using that by (auto simp: round_half_even_def Let_def zero_le_floor)
  then show ?thesis using \<open>0 \<le> x\<close>
    by (auto simp: double_of_def Let_def less_imp_le)
qed

lemma nat_digits_hd: "n \<noteq> 0 \<Longrightarrow> hd (nat_digits n) \<noteq> 48"
proof (induction n rule: nat_digits.induct)
  case (1 n)
  show ?case
  proof (cases "n < 10")
    case True
    then have "n \<in> {1,2,3,4,5,6,7,8,9}" using 1(2) by auto
    then show ?thesis using True by (subst nat_digits.simps) auto
  next
    case False
    then show ?thesis using 1 by (subst nat_digits.simps) simp
  qed
qed

lemma js_digit_bounds: "js_digit c \<Longrightarrow> 48 \<le> unat c \<and> unat c \<le> 57"
  by (simp add: js_digit_def word_le_nat_alt)

lemma js_digit_not_space: "js_digit c \<Longrightarrow> \<not> js_space c"
  by (drule js_digit_bounds) (auto simp: js_space_def word_le_nat_alt)

lemma js_digit_neq: "js_digit c \<Longrightarrow> c \<noteq> 45 \<and> c \<noteq> 43 \<and> c \<noteq> 46 \<and> c \<noteq> 73 \<and> c \<noteq> 120 \<and> c \<noteq> 98 \<and> c \<noteq> 111"
  by (drule js_digit_bounds) auto

lemma js_lower_digit: "js_digit c \<Longrightarrow> lower_unit c = [c]"
proof -
  assume "js_digit c"
  then have "unat c \<le> 57" using js_digit_bounds by blast
  then have "\<not> 65 \<le> c" "\<not> 0xC0 \<le> c" "c \<noteq> 0x212A" "c \<noteq> 0x130" by (auto simp: word_le_nat_alt)
  then show ?thesis by (simp add: lower_unit_def)
qed

lemma takeWhile_all: "list_all P s \<Longrightarrow> takeWhile P s = s"
  by (simp add: list_all_iff)

lemma js_number_digits:
  assumes "s \<noteq> []" and "list_all js_digit s"
  shows "js_number s = double_of (of_nat (digits_value s))"
proof -
  have d: "js_digit c" if "c \<in> set s" for c using assms that by (simp add: list_all_iff)
  have t: "js_trim s = s" using d js_digit_not_space assms by (intro trim_id) auto
  have sign: "take_sign s = (1, s)"
    using assms d js_digit_neq by (cases s) (auto simp: take_sign_def)
  have pre: "js_lower (take 2 s) \<noteq> js [c, e]" if "of_char e \<in> {120, 111, 98 :: code_unit}" for c e
  proof (cases "take 2 s")
    case (Cons a r)
    then have "r = [] \<or> (\<exists>b. r = [b])" by (cases r; cases "tl r") (auto simp: take_Cons' split: if_splits dest: arg_cong [of _ _ length])
    moreover have "set (take 2 s) \<subseteq> set s" by (rule set_take_subset)
    ultimately show ?thesis
      using Cons d js_digit_neq that by (auto simp: js_lower_def js_lower_digit js_def)
  qed (simp add: js_lower_def)
  have inf: "s \<noteq> js ''Infinity''"
    using assms d [of "hd s"] js_digit_neq [of "hd s"] by (auto simp: js_def)
  have all: "\<forall>x \<in> set s. js_digit x" using d by blast
  have "takeWhile js_digit s = s" using assms(2) by (rule takeWhile_all)
  moreover have "dropWhile js_digit s = []" using all by simp
  ultimately have "unsigned_decimal s = Some (of_nat (digits_value s))"
    unfolding unsigned_decimal_def Let_def using assms(1) by (simp only: list.case exponent_part_def append_Nil2) (simp add: pow10_def)
  then show ?thesis
    using assms(1) pre [of "CHR ''x''" "CHR ''0''"] pre [of "CHR ''o''" "CHR ''0''"] pre [of "CHR ''b''" "CHR ''0''"] inf
    by (simp add: js_number_def t sign)
qed

lemma js_number_nat_digits: "n < 2 ^ 53 \<Longrightarrow> js_number (nat_digits n) = Fin (of_nat n)"
  using double_of_int [of "int n"] nat_digits_digit
  by (simp add: js_number_digits list_all_iff digits_value_nat_digits)

end
