(* ===== verification/NetworkScan.thy ===== *)
theory NetworkScan
  imports PortivaTypes JsNumber
begin

text \<open>
  The network scanner: validation of its form (\<^verbatim>\<open>src/features/network-scan/networkScanConfig.ts\<close> and
  \<^verbatim>\<open>startScan\<close> of \<^verbatim>\<open>NetworkScannerPanel.tsx\<close>) and the state machine of
  \<^verbatim>\<open>useNetworkScanner.ts\<close>. Each handler that awaits the back end is split at the await into the
  part before it and one part per outcome; the events of the back end come in between in any
  order.
\<close>

section \<open>The form\<close>

record scan_draft =
  dr_cidr :: jsstr
  dr_pingEnabled :: bool
  dr_tcpEnabled :: bool
  dr_portsText :: jsstr
  dr_timeoutMs :: jsstr
  dr_concurrency :: jsstr

definition MIN_SCAN_TIMEOUT_MS :: nat where "MIN_SCAN_TIMEOUT_MS = 100"
definition MAX_SCAN_TIMEOUT_MS :: nat where "MAX_SCAN_TIMEOUT_MS = 3 * 60 * 1000"
definition MIN_SCAN_CONCURRENCY :: nat where "MIN_SCAN_CONCURRENCY = 1"
definition MAX_SCAN_CONCURRENCY :: nat where "MAX_SCAN_CONCURRENCY = 128"

definition defaultNetworkScanDraft :: scan_draft where
  "defaultNetworkScanDraft = \<lparr>dr_cidr = [], dr_pingEnabled = True, dr_tcpEnabled = False,
     dr_portsText = js ''22, 23, 80, 443'', dr_timeoutMs = js ''800'', dr_concurrency = js ''32''\<rparr>"

definition capNumericInput :: "jsstr \<Rightarrow> nat \<Rightarrow> jsstr" where
  "capNumericInput v maximum =
     (if v = [] then v
      else (let numericValue = js_number v
            in if num_finite numericValue \<and> num_less (Fin (of_nat maximum)) numericValue
               then nat_digits maximum else v))"

text \<open>The messages of the form.\<close>

datatype scan_error =
    BadTimeout
  | BadConcurrency
  | BadPortRange jsstr
  | PortRangeTooLarge
  | BadPort jsstr
  | TooManyPorts
  | MissingCidr
  | NoProbe
  | NoPorts

definition in_range :: "nat \<Rightarrow> nat \<Rightarrow> jsnum \<Rightarrow> bool" where
  "in_range lo hi n \<longleftrightarrow>
     num_isInteger n \<and> \<not> num_less n (Fin (of_nat lo)) \<and> \<not> num_less (Fin (of_nat hi)) n"

definition int_of_num :: "jsnum \<Rightarrow> int" where
  "int_of_num n = (case n of Fin x \<Rightarrow> \<lfloor>x\<rfloor> | _ \<Rightarrow> 0)"

text \<open>\<open>(timeoutMs, concurrency)\<close>, or the error.\<close>

definition parseScanLimits :: "jsstr \<Rightarrow> jsstr \<Rightarrow> scan_error + (int \<times> int)" where
  "parseScanLimits timeoutInput concurrencyInput =
     (let timeoutMs = js_number timeoutInput; concurrency = js_number concurrencyInput
      in if \<not> in_range MIN_SCAN_TIMEOUT_MS MAX_SCAN_TIMEOUT_MS timeoutMs then Inl BadTimeout
         else if \<not> in_range MIN_SCAN_CONCURRENCY MAX_SCAN_CONCURRENCY concurrency then Inl BadConcurrency
         else Inr (int_of_num timeoutMs, int_of_num concurrency))"

text \<open>The separators \<^verbatim>\<open>[\s,;]\<close> with the full width comma and semicolon.\<close>

definition port_separator :: "code_unit \<Rightarrow> bool" where
  "port_separator c \<longleftrightarrow> js_space c \<or> c \<in> {44, 59, 0xFF0C, 0xFF1B}"

fun split_where :: "('a \<Rightarrow> bool) \<Rightarrow> 'a list \<Rightarrow> 'a list list" where
  "split_where P [] = [[]]"
| "split_where P (c # s) =
     (if P c then [] # split_where P s
      else (let r = split_where P s in (c # hd r) # tl r))"

text \<open>
  Splitting at each separator yields the pieces between runs of separators and empty ones, which
  the filter drops.
\<close>

definition port_tokens :: "jsstr \<Rightarrow> jsstr list" where
  "port_tokens input = filter (\<lambda>t. t \<noteq> []) (map js_trim (split_where port_separator input))"

text \<open>The match of \<^verbatim>\<open>/^(\d+)-(\d+)$/\<close>.\<close>

definition range_match :: "jsstr \<Rightarrow> (jsstr \<times> jsstr) option" where
  "range_match token =
     (let a = takeWhile js_digit token; r = dropWhile js_digit token
      in case r of
           c # b \<Rightarrow> if a \<noteq> [] \<and> c = 45 \<and> b \<noteq> [] \<and> list_all js_digit b then Some (a, b) else None
         | [] \<Rightarrow> None)"

definition isValidPort :: "jsnum \<Rightarrow> bool" where
  "isValidPort port \<longleftrightarrow> in_range 1 65535 port"

definition add_port :: "int list \<Rightarrow> int \<Rightarrow> int list" where
  "add_port values p = (if p \<in> set values then values else values @ [p])"

definition add_token :: "int list \<Rightarrow> jsstr \<Rightarrow> scan_error + int list" where
  "add_token values token =
     (case range_match token of
        Some (a, b) \<Rightarrow>
          (let start = js_number a; end' = js_number b
           in if \<not> isValidPort start \<or> \<not> isValidPort end' \<or> num_less end' start then Inl (BadPortRange token)
              else if int_of_num end' - int_of_num start + 1 > 32 then Inl PortRangeTooLarge
              else Inr (foldl add_port values [int_of_num start .. int_of_num end']))
      | None \<Rightarrow>
          (let port = js_number token
           in if \<not> list_all js_digit token \<or> \<not> isValidPort port then Inl (BadPort token)
              else Inr (add_port values (int_of_num port))))"

fun add_tokens :: "int list \<Rightarrow> jsstr list \<Rightarrow> scan_error + int list" where
  "add_tokens values [] = Inr values"
| "add_tokens values (token # ts) =
     (case add_token values token of
        Inl e \<Rightarrow> Inl e
      | Inr values' \<Rightarrow> if length values' > 32 then Inl TooManyPorts else add_tokens values' ts)"

definition parsePortList :: "jsstr \<Rightarrow> scan_error + int list" where
  "parsePortList input =
     (case add_tokens [] (port_tokens input) of Inl e \<Rightarrow> Inl e | Inr values \<Rightarrow> Inr (sort values))"

definition startScan :: "scan_draft \<Rightarrow> scan_error + scan_request" where
  "startScan draft =
     (let cidr = js_trim (dr_cidr draft)
      in if cidr = [] then Inl MissingCidr
         else if \<not> dr_pingEnabled draft \<and> \<not> dr_tcpEnabled draft then Inl NoProbe
         else (case parseScanLimits (dr_timeoutMs draft) (dr_concurrency draft) of
             Inl e \<Rightarrow> Inl e
           | Inr (timeoutMs, concurrency) \<Rightarrow>
               (let parsed = parsePortList (dr_portsText draft);
                    ports = (case parsed of Inr ps \<Rightarrow> ps | Inl _ \<Rightarrow> [])
                in case (if dr_tcpEnabled draft then parsed else Inr ports) of
                     Inl e \<Rightarrow> Inl e
                   | Inr _ \<Rightarrow>
                       if dr_tcpEnabled draft \<and> ports = [] then Inl NoPorts
                       else Inr \<lparr>req_cidr = cidr, req_pingEnabled = dr_pingEnabled draft,
                                 req_tcpEnabled = dr_tcpEnabled draft, req_ports = ports,
                                 req_timeoutMs = timeoutMs, req_concurrency = concurrency\<rparr>)))"

section \<open>The scanner\<close>

datatype scanner_status =
  ScIdle | ScStarting | ScRunning | ScCancelling | ScCompleted | ScCancelled | ScFailed

text \<open>What the scanner shows as an error: an error of the back end, wrapped or as it is.\<close>

datatype scanner_error =
    ProbeError jsstr
  | InterfacesError jsstr
  | ListenError
  | StartError jsstr
  | CancelError jsstr

record scanner =
  sc_interfaces :: "interface_info list"
  sc_interfacesLoading :: bool
  sc_session :: "scan_session option"
  sc_status :: scanner_status
  sc_results :: "scan_result list"
  sc_scanned :: int
  sc_error :: "scanner_error option"
  sc_activeScanId :: "jsstr option"
  sc_starting :: bool
  sc_queuedEvents :: "scan_event list"

definition initial_scanner :: scanner where
  "initial_scanner = \<lparr>sc_interfaces = [], sc_interfacesLoading = True, sc_session = None,
     sc_status = ScIdle, sc_results = [], sc_scanned = 0, sc_error = None, sc_activeScanId = None,
     sc_starting = False, sc_queuedEvents = []\<rparr>"

text \<open>\<^verbatim>\<open>results.find((result) => result.error)?.error\<close>: the first error that is not empty.\<close>

fun first_error :: "scan_result list \<Rightarrow> jsstr option" where
  "first_error [] = None"
| "first_error (r # rs) =
     (case res_error r of Some e \<Rightarrow> if e \<noteq> [] then Some e else first_error rs | None \<Rightarrow> first_error rs)"

definition applyEvent :: "scan_event \<Rightarrow> scanner \<Rightarrow> scanner" where
  "applyEvent event st =
     (let st = st\<lparr>sc_scanned := sev_scanned event\<rparr>;
          st = (if sev_results event \<noteq> [] then
                  (let st = st\<lparr>sc_results := sc_results st @ sev_results event\<rparr>
                   in case first_error (sev_results event) of
                        Some e \<Rightarrow> st\<lparr>sc_error := Some (ProbeError e)\<rparr>
                      | None \<Rightarrow> st)
                else st)
      in case sev_kind event of
           ScanCompleted \<Rightarrow> st\<lparr>sc_activeScanId := None, sc_status := ScCompleted\<rparr>
         | ScanCancelled \<Rightarrow> st\<lparr>sc_activeScanId := None, sc_status := ScCancelled\<rparr>
         | ScanProgress \<Rightarrow> st)"

text \<open>An id is used when it is present and not the empty string.\<close>

definition active_id :: "scanner \<Rightarrow> jsstr option" where
  "active_id st = (case sc_activeScanId st of Some i \<Rightarrow> if i = [] then None else Some i | None \<Rightarrow> None)"

definition onScanEvent :: "scan_event \<Rightarrow> scanner \<Rightarrow> scanner" where
  "onScanEvent payload st =
     (case active_id st of
        None \<Rightarrow>
          if sc_starting st then st\<lparr>sc_queuedEvents := sc_queuedEvents st @ [payload]\<rparr> else st
      | Some activeScanId \<Rightarrow>
          if sev_scanId payload = activeScanId then applyEvent payload st else st)"

definition listenFailed :: "scanner \<Rightarrow> scanner" where
  "listenFailed st = st\<lparr>sc_error := Some ListenError\<rparr>"

text \<open>The cleanup of the effect cancels the scan that is active, if any.\<close>

definition unmount_cancels :: "scanner \<Rightarrow> jsstr option" where
  "unmount_cancels st = active_id st"

definition refreshInterfaces_begin :: "scanner \<Rightarrow> scanner" where
  "refreshInterfaces_begin st = st\<lparr>sc_interfacesLoading := True\<rparr>"

definition refreshInterfaces_end :: "jsstr + interface_info list \<Rightarrow> scanner \<Rightarrow> scanner" where
  "refreshInterfaces_end r st =
     (case r of
        Inr interfaces \<Rightarrow> st\<lparr>sc_interfaces := interfaces, sc_interfacesLoading := False\<rparr>
      | Inl e \<Rightarrow> st\<lparr>sc_error := Some (InterfacesError e), sc_interfacesLoading := False\<rparr>)"

definition start_begin :: "scanner \<Rightarrow> scanner" where
  "start_begin st = st\<lparr>sc_error := None, sc_results := [], sc_scanned := 0, sc_session := None,
     sc_status := ScStarting, sc_starting := True, sc_queuedEvents := []\<rparr>"

definition start_end :: "jsstr + scan_session \<Rightarrow> scanner \<Rightarrow> scanner" where
  "start_end r st =
     (case r of
        Inr nextSession \<Rightarrow>
          (let st = st\<lparr>sc_activeScanId := Some (scan_id nextSession), sc_session := Some nextSession,
                        sc_status := ScRunning\<rparr>;
               queuedEvents = sc_queuedEvents st;
               st = st\<lparr>sc_queuedEvents := []\<rparr>;
               st = fold applyEvent (filter (\<lambda>e. sev_scanId e = scan_id nextSession) queuedEvents) st
           in st\<lparr>sc_starting := False\<rparr>)
      | Inl e \<Rightarrow> st\<lparr>sc_error := Some (StartError e), sc_status := ScFailed, sc_starting := False\<rparr>)"

text \<open>\<open>cancel\<close> returns early without an active scan; otherwise it asks the back end.\<close>

definition cancel_begin :: "scanner \<Rightarrow> scanner" where
  "cancel_begin st = (case active_id st of None \<Rightarrow> st | Some _ \<Rightarrow> st\<lparr>sc_status := ScCancelling\<rparr>)"

definition cancel_end :: "jsstr + bool \<Rightarrow> scanner \<Rightarrow> scanner" where
  "cancel_end r st =
     (case r of
        Inr cancellationAccepted \<Rightarrow>
          if cancellationAccepted then st
          else st\<lparr>sc_activeScanId := None, sc_status := ScCancelled\<rparr>
      | Inl e \<Rightarrow> st\<lparr>sc_error := Some (CancelError e), sc_status := ScRunning\<rparr>)"

definition busy :: "scanner \<Rightarrow> bool" where
  "busy st \<longleftrightarrow> sc_status st \<in> {ScStarting, ScRunning, ScCancelling}"

section \<open>The steps of the scanner\<close>

text \<open>
  A run of the panel: the scanner, the requests to start and to cancel that the back end has not answered,
  and whether an answer to a cancel request has disturbed the scanner. A scan is started only while the
  panel is not busy; every answer comes at any time after its request, in any order, whatever the scanner
  shows by then.
\<close>

record scan_run =
  run_scanner :: scanner
  run_starts :: nat
  run_cancels :: nat
  run_disturbed :: bool

text \<open>
  The answers that come too late: a failure once the scan is over or another one is starting, and a refusal
  while another scan is starting. All other late answers are harmless.
\<close>

definition disturbing :: "jsstr + bool \<Rightarrow> scanner \<Rightarrow> bool" where
  "disturbing r st \<longleftrightarrow>
     (case r of
        Inl e \<Rightarrow> sc_status st \<noteq> ScRunning \<and> sc_status st \<noteq> ScCancelling
      | Inr accepted \<Rightarrow> \<not> accepted \<and> sc_status st = ScStarting)"

definition on_scanner :: "(scanner \<Rightarrow> scanner) \<Rightarrow> scan_run \<Rightarrow> scan_run" where
  "on_scanner f s = s\<lparr>run_scanner := f (run_scanner s)\<rparr>"

definition run_start :: "scan_run \<Rightarrow> scan_run" where
  "run_start s = (on_scanner start_begin s)\<lparr>run_starts := run_starts s + 1\<rparr>"

definition run_start_answer :: "jsstr + scan_session \<Rightarrow> scan_run \<Rightarrow> scan_run" where
  "run_start_answer r s = (on_scanner (start_end r) s)\<lparr>run_starts := run_starts s - 1\<rparr>"

definition run_cancel :: "scan_run \<Rightarrow> scan_run" where
  "run_cancel s =
     (on_scanner cancel_begin s)\<lparr>run_cancels := run_cancels s + (if active_id (run_scanner s) = None then 0 else 1)\<rparr>"

definition run_cancel_answer :: "jsstr + bool \<Rightarrow> scan_run \<Rightarrow> scan_run" where
  "run_cancel_answer r s =
     (on_scanner (cancel_end r) s)\<lparr>run_cancels := run_cancels s - 1,
        run_disturbed := run_disturbed s \<or> disturbing r (run_scanner s)\<rparr>"

definition initial_run :: scan_run where
  "initial_run = \<lparr>run_scanner = initial_scanner, run_starts = 0, run_cancels = 0, run_disturbed = False\<rparr>"

inductive scan_step :: "scan_run \<Rightarrow> scan_run \<Rightarrow> bool" where
  start: "\<not> busy (run_scanner s) \<Longrightarrow> scan_step s (run_start s)"
| started: "0 < run_starts s \<Longrightarrow> scan_id n \<noteq> [] \<Longrightarrow> scan_step s (run_start_answer (Inr n) s)"
| start_failed: "0 < run_starts s \<Longrightarrow> scan_step s (run_start_answer (Inl e) s)"
| event: "scan_step s (on_scanner (onScanEvent ev) s)"
| cancel: "busy (run_scanner s) \<Longrightarrow> scan_step s (run_cancel s)"
| cancel_answer: "0 < run_cancels s \<Longrightarrow> scan_step s (run_cancel_answer r s)"
| refresh: "scan_step s (on_scanner refreshInterfaces_begin s)"
| refreshed: "scan_step s (on_scanner (refreshInterfaces_end i) s)"
| listen_failed: "scan_step s (on_scanner listenFailed s)"

definition scanner_inv :: "scanner \<Rightarrow> bool" where
  "scanner_inv st \<longleftrightarrow>
     (case sc_status st of
        ScStarting \<Rightarrow> sc_starting st \<and> sc_activeScanId st = None \<and> sc_session st = None \<and> sc_results st = []
      | ScRunning \<Rightarrow> \<not> sc_starting st \<and> (\<exists>s. sc_session st = Some s \<and> sc_activeScanId st = Some (scan_id s) \<and> scan_id s \<noteq> [])
      | ScCancelling \<Rightarrow> \<not> sc_starting st \<and> (\<exists>s. sc_session st = Some s \<and> sc_activeScanId st = Some (scan_id s) \<and> scan_id s \<noteq> [])
      | _ \<Rightarrow> \<not> sc_starting st \<and> sc_activeScanId st = None)"

lemma applyEvent_status:
  "sc_status (applyEvent e st) = (case sev_kind e of ScanProgress \<Rightarrow> sc_status st
     | ScanCompleted \<Rightarrow> ScCompleted | ScanCancelled \<Rightarrow> ScCancelled)"
  "sc_activeScanId (applyEvent e st) = (if sev_kind e = ScanProgress then sc_activeScanId st else None)"
  "sc_session (applyEvent e st) = sc_session st"
  "sc_starting (applyEvent e st) = sc_starting st"
  "sc_queuedEvents (applyEvent e st) = sc_queuedEvents st"
  "sc_results (applyEvent e st) = sc_results st @ sev_results e"
  by (auto simp: applyEvent_def Let_def split: scan_event_kind.splits option.splits)

lemma applyEvent_inv:
  "scanner_inv st \<Longrightarrow> \<not> sc_starting st \<Longrightarrow> scanner_inv (applyEvent e st)"
  by (cases "sev_kind e"; cases "sc_status st") (auto simp: scanner_inv_def applyEvent_status)

lemma applyEvents_inv:
  "scanner_inv st \<Longrightarrow> \<not> sc_starting st \<Longrightarrow> scanner_inv (fold applyEvent es st)"
  by (induction es arbitrary: st) (auto simp: applyEvent_inv applyEvent_status)

lemma fold_applyEvent_starting:
  "fold applyEvent es (st\<lparr>sc_starting := b\<rparr>) = (fold applyEvent es st)\<lparr>sc_starting := b\<rparr>"
proof (induction es arbitrary: st)
  case (Cons e es)
  have "applyEvent e (st\<lparr>sc_starting := b\<rparr>) = (applyEvent e st)\<lparr>sc_starting := b\<rparr>"
    by (simp add: applyEvent_def Let_def split: scan_event_kind.split option.split)
  with Cons show ?case by simp
qed simp

definition begin_session :: "scan_session \<Rightarrow> scanner \<Rightarrow> scanner" where
  "begin_session s st = st\<lparr>sc_activeScanId := Some (scan_id s), sc_session := Some s,
     sc_status := ScRunning, sc_queuedEvents := [], sc_starting := False\<rparr>"

lemma start_end_eq:
  "start_end (Inr s) st = fold applyEvent (filter (\<lambda>e. sev_scanId e = scan_id s) (sc_queuedEvents st)) (begin_session s st)"
proof -
  define st' where "st' = st\<lparr>sc_activeScanId := Some (scan_id s), sc_session := Some s,
     sc_status := ScRunning, sc_queuedEvents := []\<rparr>"
  have "begin_session s st = st'\<lparr>sc_starting := False\<rparr>" by (simp add: st'_def begin_session_def)
  then show ?thesis by (simp add: fold_applyEvent_starting start_end_def Let_def st'_def)
qed

text \<open>One step of the scanner alone.\<close>

lemma started_inv: "scanner_inv st \<Longrightarrow> sc_starting st \<Longrightarrow> scan_id n \<noteq> [] \<Longrightarrow> scanner_inv (start_end (Inr n) st)"
proof -
  assume "scanner_inv st" "sc_starting st" "scan_id n \<noteq> []"
  then have "scanner_inv (begin_session n st)" "\<not> sc_starting (begin_session n st)"
    by (auto simp: scanner_inv_def begin_session_def)
  then show ?thesis by (simp add: start_end_eq applyEvents_inv)
qed

lemma event_inv: "scanner_inv st \<Longrightarrow> scanner_inv (onScanEvent ev st)"
proof (cases "active_id st = Some (sev_scanId ev)")
  case True
  moreover assume "scanner_inv st"
  moreover from calculation have "\<not> sc_starting st"
    by (auto simp: active_id_def scanner_inv_def split: option.splits scanner_status.splits)
  ultimately show ?thesis by (simp add: onScanEvent_def applyEvent_inv)
next
  case False
  moreover assume "scanner_inv st"
  ultimately show ?thesis
    by (auto simp: onScanEvent_def scanner_inv_def split: option.split scanner_status.splits)
qed

text \<open>An answer to a cancel request keeps the invariant exactly when it does not disturb.\<close>

lemma cancel_end_inv: "scanner_inv st \<Longrightarrow> scanner_inv (cancel_end r st) \<longleftrightarrow> \<not> disturbing r st"
  by (cases r) (auto simp: scanner_inv_def cancel_end_def disturbing_def split: scanner_status.splits)

lemma starting_status: "scanner_inv st \<Longrightarrow> sc_starting st \<longleftrightarrow> sc_status st = ScStarting"
  by (auto simp: scanner_inv_def split: scanner_status.splits)

lemma starting_after:
  "sc_starting (start_begin st)" "\<not> sc_starting (start_end r st)" "sc_starting (onScanEvent ev st) = sc_starting st"
  "sc_starting (cancel_begin st) = sc_starting st" "sc_starting (cancel_end q st) = sc_starting st"
  "sc_starting (refreshInterfaces_begin st) = sc_starting st" "sc_starting (refreshInterfaces_end i st) = sc_starting st"
  "sc_starting (listenFailed st) = sc_starting st"
  by (auto simp: start_begin_def start_end_def onScanEvent_def applyEvent_status cancel_begin_def cancel_end_def
      refreshInterfaces_begin_def refreshInterfaces_end_def listenFailed_def Let_def split: sum.split option.split)

lemmas scanner_handlers = start_begin_def start_end_def cancel_begin_def refreshInterfaces_begin_def
  refreshInterfaces_end_def listenFailed_def busy_def active_id_def scanner_inv_def

definition run_inv :: "scan_run \<Rightarrow> bool" where
  "run_inv s \<longleftrightarrow> run_disturbed s
     \<or> scanner_inv (run_scanner s) \<and> run_starts s = (if sc_starting (run_scanner s) then 1 else 0)"

lemma scan_step_inv: "scan_step s s' \<Longrightarrow> run_inv s \<Longrightarrow> run_inv s'"
proof (induction rule: scan_step.induct)
  case (start s)
  then show ?case
    by (auto simp: run_inv_def run_start_def on_scanner_def starting_after)
      (auto simp: scanner_handlers split: scanner_status.splits)
next
  case (started s n)
  then show ?case
    by (auto simp: run_inv_def run_start_answer_def on_scanner_def starting_after started_inv split: if_splits)
next
  case (start_failed s e)
  then show ?case
    by (auto simp: run_inv_def run_start_answer_def on_scanner_def starting_after split: if_splits)
      (auto simp: scanner_handlers split: scanner_status.splits)
next
  case (cancel s)
  then show ?case
    by (auto simp: run_inv_def run_cancel_def on_scanner_def starting_after)
      (auto simp: scanner_handlers split: scanner_status.splits option.splits if_splits)
next
  case (cancel_answer s r)
  then show ?case
    by (auto simp: run_inv_def run_cancel_answer_def on_scanner_def starting_after cancel_end_inv)
qed (auto simp: run_inv_def on_scanner_def starting_after event_inv,
     auto simp: scanner_handlers split: scanner_status.splits sum.splits)

text \<open>A stream of events that has no event of the scan after its terminal one.\<close>

fun ends_once :: "jsstr \<Rightarrow> scan_event list \<Rightarrow> bool" where
  "ends_once i [] = True"
| "ends_once i (e # es) =
     (if sev_scanId e = i \<and> sev_kind e \<noteq> ScanProgress then list_all (\<lambda>f. sev_scanId f \<noteq> i) es
      else ends_once i es)"

lemma queue_events:
  assumes "active_id st = None" and "sc_starting st"
  shows "fold onScanEvent es st = st\<lparr>sc_queuedEvents := sc_queuedEvents st @ es\<rparr>"
  using assms
proof (induction es arbitrary: st)
  case (Cons e es)
  define st' where "st' = st\<lparr>sc_queuedEvents := sc_queuedEvents st @ [e]\<rparr>"
  have "onScanEvent e st = st'" using Cons by (simp add: onScanEvent_def st'_def)
  moreover have "active_id st' = None" "sc_starting st'"
    using Cons by (simp_all add: st'_def active_id_def split: option.splits)
  ultimately show ?case using Cons.IH [of st'] by (simp add: st'_def)
qed simp

lemma foreign_events:
  assumes "active_id st = None \<and> \<not> sc_starting st"
  shows "fold onScanEvent es st = st"
  using assms by (induction es) (auto simp: onScanEvent_def)

lemma foreign_filter: "list_all (\<lambda>f. sev_scanId f \<noteq> i) es \<Longrightarrow> filter (\<lambda>e. sev_scanId e = i) es = []"
  by (simp add: list_all_iff)

lemma onScanEvent_active:
  "active_id st = Some i \<Longrightarrow> onScanEvent e st = (if sev_scanId e = i then applyEvent e st else st)"
  by (auto simp: onScanEvent_def)

lemma live_events:
  assumes "sc_activeScanId st = Some i" and "i \<noteq> []" and "\<not> sc_starting st" and "ends_once i es"
  shows "fold onScanEvent es st = fold applyEvent (filter (\<lambda>e. sev_scanId e = i) es) st"
  using assms
proof (induction es arbitrary: st)
  case (Cons e es)
  have act: "active_id st = Some i" using Cons.prems by (simp add: active_id_def)
  show ?case
  proof (cases "sev_scanId e = i")
    case False
    then show ?thesis using Cons by (simp add: onScanEvent_active [OF act])
  next
    case True
    show ?thesis
    proof (cases "sev_kind e = ScanProgress")
      case True
      with \<open>sev_scanId e = i\<close> show ?thesis
        using Cons by (simp add: onScanEvent_active [OF act] applyEvent_status)
    next
      case False
      then have "active_id (applyEvent e st) = None \<and> \<not> sc_starting (applyEvent e st)"
        using Cons.prems by (simp add: active_id_def applyEvent_status)
      with False \<open>sev_scanId e = i\<close> show ?thesis
        using Cons.prems by (simp add: onScanEvent_active [OF act] foreign_events foreign_filter)
    qed
  qed
qed simp

section \<open>Lists of ports\<close>

definition good_ports :: "int list \<Rightarrow> bool" where
  "good_ports ps \<longleftrightarrow> sorted ps \<and> distinct ps \<and> length ps \<le> 32 \<and> list_all (\<lambda>p. 1 \<le> p \<and> p \<le> 65535) ps"

lemma in_range_int:
  "in_range lo hi n \<Longrightarrow> int lo \<le> int_of_num n \<and> int_of_num n \<le> int hi \<and> n = num_int (int_of_num n)"
proof (cases n)
  case (Fin x)
  assume "in_range lo hi n"
  then have x: "of_int \<lfloor>x\<rfloor> = x" "of_nat lo \<le> x" "x \<le> of_nat hi"
    by (auto simp: in_range_def num_isInteger_def Fin)
  then obtain k where k: "x = of_int k" by metis
  have "int lo \<le> k" "k \<le> int hi"
    using x(2,3) unfolding k by (metis of_int_le_iff of_int_of_nat_eq)+
  then show ?thesis by (simp add: Fin int_of_num_def num_int_def k)
qed (auto simp: in_range_def num_isInteger_def)

lemma in_range_num_int: "in_range lo hi (num_int i) \<longleftrightarrow> int lo \<le> i \<and> i \<le> int hi"
proof -
  have "of_int i < (of_nat lo :: rat) \<longleftrightarrow> i < int lo" "(of_nat hi :: rat) < of_int i \<longleftrightarrow> int hi < i"
    by (metis of_int_less_iff of_int_of_nat_eq)+
  then show ?thesis by (auto simp: in_range_def num_isInteger_def num_int_def)
qed

lemma foldl_add_port:
  "set (foldl add_port vs ps) = set vs \<union> set ps"
  "distinct vs \<Longrightarrow> distinct (foldl add_port vs ps)"
  by (induction ps arbitrary: vs) (auto simp: add_port_def)

lemma add_token_ok:
  assumes "add_token vs t = Inr vs'" and "distinct vs" and "list_all (\<lambda>p. 1 \<le> p \<and> p \<le> 65535) vs"
  shows "distinct vs' \<and> list_all (\<lambda>p. 1 \<le> p \<and> p \<le> 65535) vs'"
proof (cases "range_match t")
  case None
  then have v: "isValidPort (js_number t)" "vs' = add_port vs (int_of_num (js_number t))"
    using assms by (auto simp: add_token_def Let_def split: if_splits)
  then show ?thesis
    using assms in_range_int [of 1 65535 "js_number t"] by (auto simp: isValidPort_def add_port_def)
next
  case (Some ab)
  obtain a b where ab: "ab = (a, b)" by (cases ab)
  have v: "isValidPort (js_number a)" "isValidPort (js_number b)"
      "vs' = foldl add_port vs [int_of_num (js_number a) .. int_of_num (js_number b)]"
    using assms by (auto simp: add_token_def Some ab Let_def split: if_splits)
  then have "1 \<le> int_of_num (js_number a)" "int_of_num (js_number b) \<le> 65535"
    using in_range_int [of 1 65535] by (auto simp: isValidPort_def)
  then show ?thesis using assms by (auto simp: v foldl_add_port list_all_iff)
qed

lemma add_tokens_ok:
  assumes "add_tokens vs ts = Inr vs'" and "distinct vs" and "length vs \<le> 32"
    and "list_all (\<lambda>p. 1 \<le> p \<and> p \<le> 65535) vs"
  shows "distinct vs' \<and> length vs' \<le> 32 \<and> list_all (\<lambda>p. 1 \<le> p \<and> p \<le> 65535) vs'"
  using assms
  by (induction vs ts rule: add_tokens.induct)
    (auto split: sum.splits if_splits dest: add_token_ok)

lemma parsePortList_good: "parsePortList s = Inr ps \<Longrightarrow> good_ports ps"
  using add_tokens_ok [of "[]" "port_tokens s"]
  by (auto simp: parsePortList_def good_ports_def list_all_iff split: sum.splits)

text \<open>The text the panel shows for a list of ports is read back as that list.\<close>

lemma range_match_digits: "list_all js_digit s \<Longrightarrow> range_match s = None"
proof -
  assume "list_all js_digit s"
  then have "dropWhile js_digit s = []" by (simp add: list_all_iff)
  then show ?thesis unfolding range_match_def Let_def by (simp only: list.case)
qed

lemma js_number_port: "0 \<le> p \<Longrightarrow> p \<le> 65535 \<Longrightarrow> js_number (nat_digits (nat p)) = num_int p"
  using js_number_nat_digits [of "nat p"] by (simp add: num_int_def nat_less_iff)

lemma add_token_digits:
  assumes "1 \<le> p" and "p \<le> 65535"
  shows "add_token vs (nat_digits (nat p)) = Inr (add_port vs p)"
proof -
  have d: "list_all js_digit (nat_digits (nat p))" using nat_digits_digit by (auto simp: list_all_iff)
  have "isValidPort (num_int p)" using assms by (simp add: isValidPort_def in_range_num_int)
  moreover have "int_of_num (num_int p) = p" by (simp add: int_of_num_def num_int_def)
  ultimately show ?thesis
    using assms d range_match_digits [OF d] js_number_port [of p] by (simp add: add_token_def Let_def)
qed

lemma add_tokens_digits:
  assumes "distinct (vs @ ps)" and "length (vs @ ps) \<le> 32" and "list_all (\<lambda>p. 1 \<le> p \<and> p \<le> 65535) ps"
  shows "add_tokens vs (map (\<lambda>p. nat_digits (nat p)) ps) = Inr (vs @ ps)"
  using assms
proof (induction ps arbitrary: vs)
  case (Cons p ps)
  then have "add_port vs p = vs @ [p]" by (simp add: add_port_def)
  moreover have "add_token vs (nat_digits (nat p)) = Inr (add_port vs p)"
    using Cons.prems by (intro add_token_digits) simp_all
  ultimately show ?case using Cons.prems Cons.IH [of "vs @ [p]"] by simp
qed simp

lemma split_where_clean: "list_all (\<lambda>c. \<not> P c) s \<Longrightarrow> split_where P s = [s]"
  by (induction s) auto

lemma split_where_append: "list_all (\<lambda>c. \<not> P c) s \<Longrightarrow> P d \<Longrightarrow> split_where P (s @ d # t) = s # split_where P t"
  by (induction s) auto

definition render_ports :: "int list \<Rightarrow> jsstr" where
  "render_ports ps = js_join (js '', '') (map (\<lambda>p. nat_digits (nat p)) ps)"

lemma digits_not_separator: "list_all (\<lambda>c. \<not> port_separator c) (nat_digits n)"
proof -
  have "\<not> port_separator c" if "js_digit c" for c
    using js_digit_bounds [OF that] js_digit_not_space [OF that] by (auto simp: port_separator_def)
  then show ?thesis using nat_digits_digit by (auto simp: list_all_iff)
qed

lemma port_tokens_render: "port_tokens (render_ports ps) = map (\<lambda>p. nat_digits (nat p)) ps"
proof -
  have trim: "js_trim (nat_digits n) = nat_digits n" for n
    by (rule trim_id) (meson nat_digits_not_Nil hd_in_set last_in_set nat_digits_digit js_digit_not_space)
  have sep: "port_separator 44" "port_separator 32" by (simp_all add: port_separator_def js_space_def)
  have "filter (\<lambda>t. t \<noteq> []) (map js_trim (split_where port_separator (js_join (js '', '') (map (\<lambda>p. nat_digits (nat p)) ps))))
      = map (\<lambda>p. nat_digits (nat p)) ps"
  proof (induction ps)
    case Nil
    then show ?case by (simp add: js_trim_def trim_end_def)
  next
    case (Cons p ps)
    show ?case
    proof (cases ps)
      case Nil
      then show ?thesis by (simp add: split_where_clean digits_not_separator trim)
    next
      case (Cons q qs)
      have two: "js '', '' = [44, 32]" by (simp add: js_def)
      have "js_trim [] = []" by (simp add: js_trim_def trim_end_def)
      then show ?thesis
        using Cons.IH by (simp add: Cons two split_where_append digits_not_separator sep trim)
    qed
  qed
  then show ?thesis by (simp add: port_tokens_def render_ports_def)
qed

section \<open>Properties\<close>

text \<open>
  C7. The port list of a scan is sorted, without duplicates, at most 32 long and within the valid
  range, whatever was typed; and every such list is what its comma-separated rendering parses to.
\<close>

theorem parsePortList_correct:
  "(parsePortList input = Inr ports \<longrightarrow> good_ports ports)
   \<and> (good_ports ports \<longrightarrow> parsePortList (render_ports ports) = Inr ports)"
proof (intro conjI impI)
  assume g: "good_ports ports"
  then have "add_tokens [] (map (\<lambda>p. nat_digits (nat p)) ports) = Inr ports"
    using add_tokens_digits [of "[]" ports] by (simp add: good_ports_def)
  then show "parsePortList (render_ports ports) = Inr ports"
    using g by (simp add: parsePortList_def port_tokens_render good_ports_def sorted_sort_id)
qed (rule parsePortList_good)

theorem parsePortList_correct_witness:
  "parsePortList (render_ports [22, 80, 8080]) = Inr [22, 80, 8080]"
  using parsePortList_correct [of "[]" "[22, 80, 8080]"] by (simp add: good_ports_def)

text \<open>
  A request that leaves the form is one the back end accepts: a network is named, some probe is
  on, the time-out and the concurrency are integers within their limits, the ports are a good list,
  and a TCP scan has at least one.
\<close>

theorem startScan_request_valid:
  assumes "startScan draft = Inr request"
  shows "req_cidr request \<noteq> [] \<and> (req_pingEnabled request \<or> req_tcpEnabled request)
     \<and> int MIN_SCAN_TIMEOUT_MS \<le> req_timeoutMs request \<and> req_timeoutMs request \<le> int MAX_SCAN_TIMEOUT_MS
     \<and> int MIN_SCAN_CONCURRENCY \<le> req_concurrency request \<and> req_concurrency request \<le> int MAX_SCAN_CONCURRENCY
     \<and> good_ports (req_ports request) \<and> (req_tcpEnabled request \<longrightarrow> req_ports request \<noteq> [])"
proof -
  have empty: "good_ports []" by (simp add: good_ports_def)
  obtain t c where lim: "parseScanLimits (dr_timeoutMs draft) (dr_concurrency draft) = Inr (t, c)"
    using assms by (auto simp: startScan_def Let_def split: if_splits sum.splits)
  then have "int MIN_SCAN_TIMEOUT_MS \<le> t \<and> t \<le> int MAX_SCAN_TIMEOUT_MS
      \<and> int MIN_SCAN_CONCURRENCY \<le> c \<and> c \<le> int MAX_SCAN_CONCURRENCY"
    using in_range_int by (auto simp: parseScanLimits_def Let_def split: if_splits)
  then show ?thesis
    using assms lim empty parsePortList_good [of "dr_portsText draft"]
    by (auto simp: startScan_def Let_def split: if_splits sum.splits)
qed

definition example_draft :: scan_draft where
  "example_draft = \<lparr>dr_cidr = js ''10.0.0.0/24'', dr_pingEnabled = True, dr_tcpEnabled = False,
     dr_portsText = [], dr_timeoutMs = nat_digits 800, dr_concurrency = nat_digits 32\<rparr>"

lemma example_request:
  "startScan example_draft = Inr \<lparr>req_cidr = js ''10.0.0.0/24'', req_pingEnabled = True,
     req_tcpEnabled = False, req_ports = [], req_timeoutMs = 800, req_concurrency = 32\<rparr>"
proof -
  have n: "js_number (nat_digits 800) = num_int 800" "js_number (nat_digits 32) = num_int 32"
    using js_number_port [of 800] js_number_port [of 32] by simp_all
  have "parseScanLimits (nat_digits 800) (nat_digits 32) = Inr (800, 32)"
    unfolding parseScanLimits_def n Let_def
    by (simp add: in_range_num_int MIN_SCAN_TIMEOUT_MS_def MAX_SCAN_TIMEOUT_MS_def
        MIN_SCAN_CONCURRENCY_def MAX_SCAN_CONCURRENCY_def) (simp add: int_of_num_def num_int_def)
  moreover have "parsePortList [] = Inr []"
    by (simp add: parsePortList_def port_tokens_def js_trim_def trim_end_def)
  moreover have "js_trim (js ''10.0.0.0/24'') = js ''10.0.0.0/24''"
    by (simp add: js_trim_def trim_end_def js_space_def js_def)
  ultimately show ?thesis by (simp add: startScan_def example_draft_def Let_def)
qed

theorem startScan_request_valid_witness:
  "\<exists>r. startScan example_draft = Inr r \<and> int MIN_SCAN_TIMEOUT_MS \<le> req_timeoutMs r"
  using startScan_request_valid [OF example_request] example_request by blast

text \<open>
  The numeric inputs cap what is typed: the text kept never reads as a finite number above the
  maximum, and it is kept as it is when it does not exceed it.
\<close>

theorem capNumericInput_capped:
  assumes "maximum < 2 ^ 53"
  shows "\<not> (num_finite (js_number (capNumericInput v maximum))
            \<and> num_less (Fin (of_nat maximum)) (js_number (capNumericInput v maximum)))
     \<and> (\<not> num_less (Fin (of_nat maximum)) (js_number v) \<longrightarrow> capNumericInput v maximum = v)"
proof -
  have "js_trim [] = []" by (simp add: js_trim_def trim_end_def)
  then have "js_number [] = Fin 0" by (simp add: js_number_def Let_def take_sign_def)
  then show ?thesis
    using js_number_nat_digits [OF assms] by (auto simp: capNumericInput_def Let_def)
qed

theorem capNumericInput_capped_witness:
  "\<not> num_less (Fin 128) (js_number (capNumericInput (nat_digits 500) 128))
     \<or> \<not> num_finite (js_number (capNumericInput (nat_digits 500) 128))"
  using capNumericInput_capped [of 128 "nat_digits 500"] by auto



text \<open>
  Events that arrive before the scan's id is known are not lost: whatever part of the stream
  comes before the answer to the start request, the scanner ends in the state it would have reached
  with the answer first, and events of other scans change nothing.
\<close>

theorem early_events_kept:
  assumes "active_id st = None" and "scan_id s \<noteq> []" and "ends_once (scan_id s) (early @ late)"
  shows "fold onScanEvent late (start_end (Inr s) (fold onScanEvent early (start_begin st)))
     = fold applyEvent (filter (\<lambda>e. sev_scanId e = scan_id s) (early @ late)) (begin_session s (start_begin st))"
proof -
  let ?i = "scan_id s"
  let ?mine = "filter (\<lambda>e. sev_scanId e = ?i)"
  let ?b = "begin_session s (start_begin st)"
  have q: "active_id (start_begin st) = None" "sc_starting (start_begin st)"
    "sc_queuedEvents (start_begin st) = []"
    using assms by (simp_all add: start_begin_def active_id_def split: option.splits)
  have split: "ends_once ?i (es @ fs) \<Longrightarrow>
      ends_once ?i fs \<and> (list_ex (\<lambda>e. sev_scanId e = ?i \<and> sev_kind e \<noteq> ScanProgress) es \<longrightarrow> ?mine fs = [])" for es fs
  proof (induction es)
    case (Cons e es)
    have "list_all (\<lambda>f. sev_scanId f \<noteq> ?i) gs \<Longrightarrow> ends_once ?i gs" for gs by (induction gs) auto
    with Cons show ?case by (auto split: if_splits simp: foreign_filter list_ex_iff)
  qed simp
  have "start_end (Inr s) (fold onScanEvent early (start_begin st)) = fold applyEvent (?mine early) ?b"
    using queue_events [OF q(1,2), of early] q(3) by (simp add: start_end_eq begin_session_def)
  moreover have "fold onScanEvent late (fold applyEvent (?mine early) ?b)
      = fold applyEvent (?mine late) (fold applyEvent (?mine early) ?b)"
  proof -
    have act: "sc_activeScanId (fold applyEvent es u) =
        (if list_ex (\<lambda>e. sev_kind e \<noteq> ScanProgress) es then None else sc_activeScanId u)
        \<and> sc_starting (fold applyEvent es u) = sc_starting u" for es u
      by (induction es arbitrary: u) (auto simp: applyEvent_status)
    have b: "sc_activeScanId ?b = Some ?i" "\<not> sc_starting ?b" by (simp_all add: begin_session_def)
    show ?thesis
    proof (cases "list_ex (\<lambda>e. sev_kind e \<noteq> ScanProgress) (?mine early)")
      case True
      then have "active_id (fold applyEvent (?mine early) ?b) = None
          \<and> \<not> sc_starting (fold applyEvent (?mine early) ?b)"
        using act b by (simp add: active_id_def)
      moreover have "?mine late = []" using split [OF assms(3)] True by (auto simp: list_ex_iff)
      ultimately show ?thesis by (simp add: foreign_events)
    next
      case False
      then show ?thesis using act b assms(2) split [OF assms(3)] by (intro live_events) auto
    qed
  qed
  ultimately show ?thesis by simp
qed

definition ping_event :: scan_event where
  "ping_event = \<lparr>sev_scanId = js ''s1'', sev_kind = ScanProgress, sev_scanned = 1, sev_total = 2,
     sev_results = [], sev_message = None\<rparr>"

theorem early_events_kept_witness:
  "sc_scanned (start_end (Inr \<lparr>scan_id = js ''s1'', scan_total = 2\<rparr>)
     (onScanEvent ping_event (start_begin initial_scanner))) = 1"
proof -
  have "ends_once (js ''s1'') ([ping_event] @ [])" by (simp add: ping_event_def)
  with early_events_kept [of initial_scanner "\<lparr>scan_id = js ''s1'', scan_total = 2\<rparr>" "[ping_event]" "[]"]
  show ?thesis by (simp add: active_id_def initial_scanner_def ping_event_def applyEvent_def Let_def)
qed

text \<open>
  A cancel request that fails after the scan has already completed puts the panel back into
  \<open>running\<close> although no scan is active: from then on it stays busy whatever events arrive, and
  cancelling again does nothing.
\<close>

theorem late_cancel_failure_sticks:
  assumes "active_id st = Some (sev_scanId done)" and "sev_kind done = ScanCompleted" and "\<not> sc_starting st"
  shows "busy (fold onScanEvent es (cancel_begin (cancel_end (Inl e) (onScanEvent done (cancel_begin st)))))
     \<and> active_id (fold onScanEvent es (cancel_begin (cancel_end (Inl e) (onScanEvent done (cancel_begin st))))) = None"
proof -
  define u where "u = cancel_end (Inl e) (onScanEvent done (cancel_begin st))"
  have "active_id (cancel_begin st) = Some (sev_scanId done)"
    using assms by (simp add: cancel_begin_def active_id_def split: option.splits if_splits)
  then have "onScanEvent done (cancel_begin st) = applyEvent done (cancel_begin st)"
    by (simp add: onScanEvent_def)
  then have u: "active_id u = None" "\<not> sc_starting u" "sc_status u = ScRunning"
    using assms by (simp_all add: u_def cancel_end_def active_id_def applyEvent_status cancel_begin_def split: option.split)
  then have "cancel_begin u = u" by (simp add: cancel_begin_def)
  then show ?thesis using u foreign_events [of u es] by (simp add: u_def [symmetric] busy_def)
qed

theorem late_cancel_failure_sticks_witness:
  "busy (cancel_begin (cancel_end (Inl (js ''timeout'')) (onScanEvent (ping_event\<lparr>sev_kind := ScanCompleted\<rparr>)
     (cancel_begin (initial_scanner\<lparr>sc_status := ScRunning, sc_activeScanId := Some (js ''s1'')\<rparr>)))))"
  using late_cancel_failure_sticks [of "initial_scanner\<lparr>sc_status := ScRunning, sc_activeScanId := Some (js ''s1'')\<rparr>"
      "ping_event\<lparr>sev_kind := ScanCompleted\<rparr>" "[]" "js ''timeout''"]
  by (simp add: active_id_def initial_scanner_def ping_event_def)

end
