(* ===== verification/WorkspaceState.thy ===== *)
theory WorkspaceState
  imports PortivaTypes
begin

text \<open>
  The state of the workspace hook (the \<^verbatim>\<open>useState\<close> and \<^verbatim>\<open>useRef\<close> cells of \<^verbatim>\<open>usePortivaWorkspace\<close>) and
  the language its asynchronous handlers are written in.

  A handler is an \<open>io\<close> action: it reads and writes the state, awaits commands of the back end and
  may throw. The back end is the function \<open>respond\<close> of the environment, which answers a command
  from everything that was asked before; nothing is assumed of it, and an answer of another type
  than the command declares counts as a rejection. While a handler waits, other handlers and events
  run: \<open>meanwhile\<close> is what they make of the state during that wait. The actions record every
  command with its answer in \<open>history\<close>. The environment also tells whether the page runs inside
  the desktop application, the time (\<open>clock\<close>) and the random ids made from time and
  \<^verbatim>\<open>Math.random\<close>.

  A closure keeps the state of the render it was created in; handlers that use such captured values
  read the state once at their start. Refs (\<^verbatim>\<open>sessionTabsRef.current\<close>) and functional updates
  (\<^verbatim>\<open>setX(current => ...)\<close>) read the state at the moment they run.
\<close>

section \<open>Messages and errors\<close>

text \<open>
  A message of the workspace is a template, named here, with its arguments, or a text of the back
  end shown as it is. An error that a handler catches is a rejected command with its text or an
  error the front end threw itself.
\<close>

datatype msg = Msg string "arg list" | Text jsstr
  and arg = AStr jsstr | ANum int | AErr err
  and err = Rejected jsstr | Thrown msg

text \<open>
  \<^verbatim>\<open>String(error)\<close> as far as the code inspects it: the front end's own messages contain none of the
  English phrases that are searched for.
\<close>

fun err_text :: "err \<Rightarrow> jsstr" where
  "err_text (Rejected t) = t"
| "err_text (Thrown _) = js ''Error: ''"

text \<open>An optional string as a condition: the empty string counts as missing.\<close>

definition truthy :: "jsstr option \<Rightarrow> jsstr option" where
  "truthy v = (case v of Some s \<Rightarrow> if s = [] then None else Some s | None \<Rightarrow> None)"

section \<open>The state\<close>

datatype data_source = Loading | Tauri | Mock
datatype open_status = Opened | NeedsTrust | OpenFailed

record open_result =
  or_status :: open_status
  or_message :: msg

definition connectionResult :: "open_status \<Rightarrow> msg \<Rightarrow> open_result" where
  "connectionResult status message = \<lparr>or_status = status, or_message = message\<rparr>"

record pending_host =
  ph_fingerprint :: jsstr
  ph_host :: jsstr
  ph_hostKeyChanged :: bool
  ph_port :: int
  ph_profileId :: jsstr

record workspace =
  w_profiles :: "profile list"
  w_groups :: "profile_group list"
  w_recentConnections :: "recent_connection list"
  w_protocolDescriptors :: "protocol_descriptor list"
  w_transfers :: "transfer list"
  w_logs :: "log_entry list"
  w_secrets :: "secret list"
  w_settings :: app_settings
  w_pendingKnownHost :: "pending_host option"
  w_knownHosts :: "known_host list"
  w_serialPorts :: "serial_port list"
  w_wslDiscovery :: wsl_discovery
  w_tunnels :: "tunnel_rule list"
  w_remoteEntries :: "remote_entry list"
  w_localEntries :: "remote_entry list"
  w_sessionTabs :: "tab list"
  w_activeSessionTabId :: jsstr
  w_activeConnection :: "connection option"
  w_activeFileTransferSession :: "ft_session option"
  w_activeTerminal :: "terminal option"
  w_pendingSnapshots :: "(jsstr \<times> snapshot) list"
  w_closingTerminalIds :: "jsstr list"
  w_settingsRef :: app_settings
  w_lastSerialPortNames :: "jsstr list"
  w_terminalSnapshot :: "snapshot option"
  w_remotePath :: jsstr
  w_localPath :: jsstr
  w_selectedRemoteEntry :: "remote_entry option"
  w_selectedLocalEntry :: "remote_entry option"
  w_activeProfileId :: jsstr
  w_terminalSearchQuery :: jsstr
  w_dataSource :: data_source
  w_sessionNotice :: jsstr
  w_message :: msg
  w_sshPassword :: jsstr
  w_transferStatuses :: "(jsstr \<times> transfer_status) list"

section \<open>Commands of the back end\<close>

record test_result =
  tr_fingerprint :: "jsstr option"
  tr_testHost :: "jsstr option"
  tr_hostKeyChanged :: bool
  tr_testPort :: "int option"
  tr_ok :: bool
  tr_message :: jsstr
  tr_requiresFingerprintConfirmation :: bool

record trust_result =
  kt_host :: jsstr
  kt_port :: int
  kt_fingerprint :: jsstr

record file_list =
  fl_path :: jsstr
  fl_entries :: "remote_entry list"

record shell_result =
  so_connection :: connection
  so_terminal :: terminal
  so_snapshot :: snapshot

datatype (plugins only: size) request =
    ConnectionOpen profile
  | ConnectionClose jsstr
  | ConnectionGet jsstr
  | SshAuthenticatePassword jsstr jsstr
  | SshAuthenticateSavedPassword jsstr
  | SshAuthenticatePrivateKey jsstr jsstr "jsstr option"
  | SshAuthenticateAgent jsstr
  | ProfileList | ProfileGroups | ProfileRecent | ProfileMarkRecent jsstr
  | ProfileCreate profile | ProfileUpdate jsstr profile | ProfileDelete jsstr
  | ProfileTestConnection profile "jsstr option"
  | ProtocolList | TunnelList
  | KnownHostTrustPlaceholder jsstr int jsstr | KnownHostsList | KnownHostDelete jsstr
  | SecretList | SecretSet jsstr secret_purpose jsstr | SecretDelete jsstr | SecretRevealPassword jsstr
  | TerminalAttach jsstr term_size bool
  | TerminalSession jsstr
  | TerminalWrite jsstr jsstr
  | TerminalWriteBytes jsstr "int list"
  | TerminalResize jsstr term_size
  | TerminalClose jsstr
  | TerminalSnapshot jsstr
  | LocalShellOpen term_size
  | WslDistributionsList | WslShellOpen jsstr term_size
  | SerialListPorts
  | SerialTerminalCreate profile term_size
  | SerialTerminalClose jsstr
  | SerialTerminalOpen jsstr profile
  | SerialTerminalReconfigure jsstr profile
  | FileTransferOpen jsstr | FileTransferSession jsstr | FileTransferClose jsstr
  | FileTransferList jsstr jsstr
  | FileTransferUpload jsstr jsstr jsstr
  | FileTransferUploadBatch jsstr jsstr "(jsstr \<times> jsstr) list"
  | FileTransferDownload jsstr jsstr jsstr
  | FileTransferMkdir jsstr jsstr | FileTransferRemove jsstr jsstr | FileTransferRename jsstr jsstr jsstr
  | FileTransferCancel jsstr | FileTransferPause jsstr | FileTransferResume jsstr
  | FileTransferResolveConflict jsstr conflict_policy
  | FileTransferRetry jsstr | FileTransferDelete jsstr
  | TransferList
  | LocalFileList jsstr | LocalFileMkdir jsstr | LocalFileRemove jsstr | LocalFileRename jsstr jsstr
  | SettingsGet | SettingsUpdate app_settings
  | LogList | LogClear

datatype (plugins only: size) reply =
    RUnit
  | RBool bool
  | RText "jsstr option"
  | RConnection connection
  | RTerminal terminal
  | RSnapshot snapshot
  | RShell shell_result
  | RSession ft_session
  | REntries "remote_entry list"
  | RFiles file_list
  | RTransfer transfer
  | RTransfers "transfer list"
  | RProfiles "profile list"
  | RGroups "profile_group list"
  | RRecent recent_connection
  | RRecents "recent_connection list"
  | RProtocols "protocol_descriptor list"
  | RTunnels "tunnel_rule list"
  | RTest test_result
  | RTrust trust_result
  | RKnownHosts "known_host list"
  | RSecret secret
  | RSecrets "secret list"
  | RSettings app_settings
  | RLogs "log_entry list"
  | RPorts "serial_port list"
  | RWsl wsl_discovery
  | RSaved jsstr

type_synonym answer = "jsstr + reply"
type_synonym history = "(request \<times> answer) list"

record environment =
  respond :: "history \<Rightarrow> request \<Rightarrow> answer"
  meanwhile :: "history \<Rightarrow> workspace \<Rightarrow> workspace"
  tauri_runtime :: bool
  clock :: "history \<Rightarrow> jsstr"
  fresh_id :: "history \<Rightarrow> jsstr"

record world =
  state_of :: workspace
  history_of :: history

section \<open>Actions\<close>

type_synonym 'a io = "environment \<Rightarrow> world \<Rightarrow> (err + 'a) \<times> world"

definition ret :: "'a \<Rightarrow> 'a io" where
  "ret x = (\<lambda>env w. (Inr x, w))"

definition throw :: "err \<Rightarrow> 'a io" where
  "throw e = (\<lambda>env w. (Inl e, w))"

definition bnd :: "'a io \<Rightarrow> ('a \<Rightarrow> 'b io) \<Rightarrow> 'b io" where
  "bnd m k = (\<lambda>env w. case m env w of (Inl e, w') \<Rightarrow> (Inl e, w') | (Inr x, w') \<Rightarrow> k x env w')"

text \<open>\<^verbatim>\<open>try { m } catch (error) { h(error) }\<close>\<close>

definition catch :: "'a io \<Rightarrow> (err \<Rightarrow> 'a io) \<Rightarrow> 'a io" where
  "catch m h = (\<lambda>env w. case m env w of (Inl e, w') \<Rightarrow> h e env w' | (Inr x, w') \<Rightarrow> (Inr x, w'))"

definition thn :: "'a io \<Rightarrow> 'b io \<Rightarrow> 'b io" where
  "thn m n = bnd m (\<lambda>_. n)"

definition get :: "workspace io" where
  "get = (\<lambda>env w. (Inr (state_of w), w))"

definition ask :: "(environment \<Rightarrow> history \<Rightarrow> 'a) \<Rightarrow> 'a io" where
  "ask f = (\<lambda>env w. (Inr (f env (history_of w)), w))"

definition upd :: "(workspace \<Rightarrow> workspace) \<Rightarrow> unit io" where
  "upd f = (\<lambda>env w. (Inr (), w\<lparr>state_of := f (state_of w)\<rparr>))"

text \<open>\<^verbatim>\<open>try { m } finally { f }\<close> with a last step that cannot throw.\<close>

definition finally_upd :: "'a io \<Rightarrow> (workspace \<Rightarrow> workspace) \<Rightarrow> 'a io" where
  "finally_upd m f = (\<lambda>env w. case m env w of (r, w') \<Rightarrow> (r, w'\<lparr>state_of := f (state_of w')\<rparr>))"

text \<open>A block of statements, and \<^verbatim>\<open>m.catch(() => undefined)\<close>.\<close>

fun block :: "unit io list \<Rightarrow> unit io" where
  "block [] = ret ()"
| "block (m # ms) = thn m (block ms)"

definition ignore :: "'a io \<Rightarrow> unit io" where
  "ignore m = catch (thn m (ret ())) (\<lambda>_. ret ())"

definition attempt :: "'a io \<Rightarrow> 'a option io" where
  "attempt m = catch (bnd m (\<lambda>x. ret (Some x))) (\<lambda>_. ret None)"

definition when_io :: "bool \<Rightarrow> unit io \<Rightarrow> unit io" where
  "when_io b m = (if b then m else ret ())"

text \<open>Loops over a list, one iteration after the other.\<close>

fun for_each :: "'a list \<Rightarrow> ('a \<Rightarrow> unit io) \<Rightarrow> unit io" where
  "for_each [] f = ret ()"
| "for_each (x # xs) f = thn (f x) (for_each xs f)"

fun map_io :: "('a \<Rightarrow> 'b io) \<Rightarrow> 'a list \<Rightarrow> 'b list io" where
  "map_io f [] = ret []"
| "map_io f (x # xs) = bnd (f x) (\<lambda>y. bnd (map_io f xs) (\<lambda>ys. ret (y # ys)))"

text \<open>
  \<^verbatim>\<open>Promise.all\<close>: every promise runs to its end, and the result is the list of values or the first
  error.
\<close>

definition settle :: "'a io \<Rightarrow> (err + 'a) io" where
  "settle m = (\<lambda>env w. case m env w of (r, w') \<Rightarrow> (Inr r, w'))"

fun collect :: "(err + 'a) list \<Rightarrow> err + 'a list" where
  "collect [] = Inr []"
| "collect (Inl e # rs) = Inl e"
| "collect (Inr x # rs) = (case collect rs of Inl e \<Rightarrow> Inl e | Inr xs \<Rightarrow> Inr (x # xs))"

definition from_sum :: "err + 'a \<Rightarrow> 'a io" where
  "from_sum r = (case r of Inl e \<Rightarrow> throw e | Inr x \<Rightarrow> ret x)"

definition all_of :: "('a \<Rightarrow> 'b io) \<Rightarrow> 'a list \<Rightarrow> 'b list io" where
  "all_of f xs = bnd (map_io (\<lambda>x. settle (f x)) xs) (\<lambda>rs. from_sum (collect rs))"

text \<open>A command: asked, then awaited while the rest of the program runs.\<close>

definition invoke :: "(reply \<Rightarrow> 'a option) \<Rightarrow> request \<Rightarrow> 'a io" where
  "invoke decode req = (\<lambda>env w.
     (let a = respond env (history_of w) req;
          h = history_of w @ [(req, a)];
          w' = \<lparr>state_of = meanwhile env h (state_of w), history_of = h\<rparr>
      in case a of
           Inl t \<Rightarrow> (Inl (Rejected t), w')
         | Inr r \<Rightarrow> (case decode r of Some x \<Rightarrow> (Inr x, w') | None \<Rightarrow> (Inl (Rejected (js ''type'')), w'))))"

definition say :: "msg \<Rightarrow> unit io" where
  "say m = upd (\<lambda>s. s\<lparr>w_message := m\<rparr>)"

end
