(* ===== verification/Ipc.thy ===== *)
theory Ipc
  imports WorkspaceState
begin

text \<open>
  The typed commands of the back end (\<^verbatim>\<open>src/shared/ipc/commands.ts\<close>), as far as the workspace
  uses them: each is one \<^verbatim>\<open>invoke\<close> of the command of that name with its arguments, awaited. The
  decoders give the declared type of the answer.
\<close>

section \<open>Commands\<close>

definition as_unit :: "reply \<Rightarrow> (unit) option" where
  "as_unit r = (case r of RUnit \<Rightarrow> Some () | _ \<Rightarrow> None)"

definition as_bool :: "reply \<Rightarrow> (bool) option" where
  "as_bool r = (case r of RBool x \<Rightarrow> Some x | _ \<Rightarrow> None)"

definition as_text :: "reply \<Rightarrow> (jsstr option) option" where
  "as_text r = (case r of RText x \<Rightarrow> Some x | _ \<Rightarrow> None)"

definition as_connection :: "reply \<Rightarrow> (connection) option" where
  "as_connection r = (case r of RConnection x \<Rightarrow> Some x | _ \<Rightarrow> None)"

definition as_terminal :: "reply \<Rightarrow> (terminal) option" where
  "as_terminal r = (case r of RTerminal x \<Rightarrow> Some x | _ \<Rightarrow> None)"

definition as_snapshot :: "reply \<Rightarrow> (snapshot) option" where
  "as_snapshot r = (case r of RSnapshot x \<Rightarrow> Some x | _ \<Rightarrow> None)"

definition as_shell :: "reply \<Rightarrow> (shell_result) option" where
  "as_shell r = (case r of RShell x \<Rightarrow> Some x | _ \<Rightarrow> None)"

definition as_session :: "reply \<Rightarrow> (ft_session) option" where
  "as_session r = (case r of RSession x \<Rightarrow> Some x | _ \<Rightarrow> None)"

definition as_entries :: "reply \<Rightarrow> (remote_entry list) option" where
  "as_entries r = (case r of REntries x \<Rightarrow> Some x | _ \<Rightarrow> None)"

definition as_files :: "reply \<Rightarrow> (file_list) option" where
  "as_files r = (case r of RFiles x \<Rightarrow> Some x | _ \<Rightarrow> None)"

definition as_transfer :: "reply \<Rightarrow> (transfer) option" where
  "as_transfer r = (case r of RTransfer x \<Rightarrow> Some x | _ \<Rightarrow> None)"

definition as_transfers :: "reply \<Rightarrow> (transfer list) option" where
  "as_transfers r = (case r of RTransfers x \<Rightarrow> Some x | _ \<Rightarrow> None)"

definition as_profiles :: "reply \<Rightarrow> (profile list) option" where
  "as_profiles r = (case r of RProfiles x \<Rightarrow> Some x | _ \<Rightarrow> None)"

definition as_groups :: "reply \<Rightarrow> (profile_group list) option" where
  "as_groups r = (case r of RGroups x \<Rightarrow> Some x | _ \<Rightarrow> None)"

definition as_recent :: "reply \<Rightarrow> (recent_connection) option" where
  "as_recent r = (case r of RRecent x \<Rightarrow> Some x | _ \<Rightarrow> None)"

definition as_recents :: "reply \<Rightarrow> (recent_connection list) option" where
  "as_recents r = (case r of RRecents x \<Rightarrow> Some x | _ \<Rightarrow> None)"

definition as_protocols :: "reply \<Rightarrow> (protocol_descriptor list) option" where
  "as_protocols r = (case r of RProtocols x \<Rightarrow> Some x | _ \<Rightarrow> None)"

definition as_tunnels :: "reply \<Rightarrow> (tunnel_rule list) option" where
  "as_tunnels r = (case r of RTunnels x \<Rightarrow> Some x | _ \<Rightarrow> None)"

definition as_test :: "reply \<Rightarrow> (test_result) option" where
  "as_test r = (case r of RTest x \<Rightarrow> Some x | _ \<Rightarrow> None)"

definition as_trust :: "reply \<Rightarrow> (trust_result) option" where
  "as_trust r = (case r of RTrust x \<Rightarrow> Some x | _ \<Rightarrow> None)"

definition as_known_hosts :: "reply \<Rightarrow> (known_host list) option" where
  "as_known_hosts r = (case r of RKnownHosts x \<Rightarrow> Some x | _ \<Rightarrow> None)"

definition as_secret :: "reply \<Rightarrow> (secret) option" where
  "as_secret r = (case r of RSecret x \<Rightarrow> Some x | _ \<Rightarrow> None)"

definition as_secrets :: "reply \<Rightarrow> (secret list) option" where
  "as_secrets r = (case r of RSecrets x \<Rightarrow> Some x | _ \<Rightarrow> None)"

definition as_settings :: "reply \<Rightarrow> (app_settings) option" where
  "as_settings r = (case r of RSettings x \<Rightarrow> Some x | _ \<Rightarrow> None)"

definition as_logs :: "reply \<Rightarrow> (log_entry list) option" where
  "as_logs r = (case r of RLogs x \<Rightarrow> Some x | _ \<Rightarrow> None)"

definition as_ports :: "reply \<Rightarrow> (serial_port list) option" where
  "as_ports r = (case r of RPorts x \<Rightarrow> Some x | _ \<Rightarrow> None)"

definition as_wsl :: "reply \<Rightarrow> (wsl_discovery) option" where
  "as_wsl r = (case r of RWsl x \<Rightarrow> Some x | _ \<Rightarrow> None)"

definition as_saved :: "reply \<Rightarrow> (jsstr) option" where
  "as_saved r = (case r of RSaved x \<Rightarrow> Some x | _ \<Rightarrow> None)"

definition connectionOpen :: "profile \<Rightarrow> connection io" where
  "connectionOpen profile = invoke as_connection (ConnectionOpen profile)"

definition connectionClose :: "jsstr \<Rightarrow> unit io" where
  "connectionClose connectionId = invoke as_unit (ConnectionClose connectionId)"

definition connectionGet :: "jsstr \<Rightarrow> connection io" where
  "connectionGet connectionId = invoke as_connection (ConnectionGet connectionId)"

definition sshAuthenticatePassword :: "jsstr \<Rightarrow> jsstr \<Rightarrow> connection io" where
  "sshAuthenticatePassword connectionId password = invoke as_connection (SshAuthenticatePassword connectionId password)"

definition sshAuthenticateSavedPassword :: "jsstr \<Rightarrow> connection io" where
  "sshAuthenticateSavedPassword connectionId = invoke as_connection (SshAuthenticateSavedPassword connectionId)"

definition sshAuthenticatePrivateKey :: "jsstr \<Rightarrow> jsstr \<Rightarrow> (jsstr option) \<Rightarrow> connection io" where
  "sshAuthenticatePrivateKey connectionId privateKeyPath passphrase = invoke as_connection (SshAuthenticatePrivateKey connectionId privateKeyPath passphrase)"

definition sshAuthenticateAgent :: "jsstr \<Rightarrow> connection io" where
  "sshAuthenticateAgent connectionId = invoke as_connection (SshAuthenticateAgent connectionId)"

definition profileList :: "(profile list) io" where
  "profileList = invoke as_profiles ProfileList"

definition profileGroups :: "(profile_group list) io" where
  "profileGroups = invoke as_groups ProfileGroups"

definition profileRecent :: "(recent_connection list) io" where
  "profileRecent = invoke as_recents ProfileRecent"

definition profileMarkRecent :: "jsstr \<Rightarrow> recent_connection io" where
  "profileMarkRecent profileId = invoke as_recent (ProfileMarkRecent profileId)"

definition profileCreate :: "profile \<Rightarrow> jsstr io" where
  "profileCreate profile = invoke as_saved (ProfileCreate profile)"

definition profileUpdate :: "jsstr \<Rightarrow> profile \<Rightarrow> jsstr io" where
  "profileUpdate profileId profile = invoke as_saved (ProfileUpdate profileId profile)"

definition profileDelete :: "jsstr \<Rightarrow> unit io" where
  "profileDelete profileId = invoke as_unit (ProfileDelete profileId)"

definition profileTestConnection :: "profile \<Rightarrow> (jsstr option) \<Rightarrow> test_result io" where
  "profileTestConnection profile secret = invoke as_test (ProfileTestConnection profile secret)"

definition protocolList :: "(protocol_descriptor list) io" where
  "protocolList = invoke as_protocols ProtocolList"

definition tunnelList :: "(tunnel_rule list) io" where
  "tunnelList = invoke as_tunnels TunnelList"

definition knownHostTrustPlaceholder :: "jsstr \<Rightarrow> int \<Rightarrow> jsstr \<Rightarrow> trust_result io" where
  "knownHostTrustPlaceholder host port fingerprint = invoke as_trust (KnownHostTrustPlaceholder host port fingerprint)"

definition knownHostsList :: "(known_host list) io" where
  "knownHostsList = invoke as_known_hosts KnownHostsList"

definition knownHostDelete :: "jsstr \<Rightarrow> unit io" where
  "knownHostDelete host = invoke as_unit (KnownHostDelete host)"

definition secretList :: "(secret list) io" where
  "secretList = invoke as_secrets SecretList"

definition secretSet :: "jsstr \<Rightarrow> secret_purpose \<Rightarrow> jsstr \<Rightarrow> secret io" where
  "secretSet profileId purpose v = invoke as_secret (SecretSet profileId purpose v)"

definition secretDelete :: "jsstr \<Rightarrow> unit io" where
  "secretDelete secretId = invoke as_unit (SecretDelete secretId)"

definition secretRevealPassword :: "jsstr \<Rightarrow> (jsstr option) io" where
  "secretRevealPassword profileId = invoke as_text (SecretRevealPassword profileId)"

definition terminalAttach :: "jsstr \<Rightarrow> term_size \<Rightarrow> bool \<Rightarrow> terminal io" where
  "terminalAttach connectionId sz x11Forwarding = invoke as_terminal (TerminalAttach connectionId sz x11Forwarding)"

definition terminalSession :: "jsstr \<Rightarrow> terminal io" where
  "terminalSession terminalId = invoke as_terminal (TerminalSession terminalId)"

definition terminalWrite :: "jsstr \<Rightarrow> jsstr \<Rightarrow> unit io" where
  "terminalWrite terminalId data = invoke as_unit (TerminalWrite terminalId data)"

definition terminalWriteBytes :: "jsstr \<Rightarrow> (int list) \<Rightarrow> unit io" where
  "terminalWriteBytes terminalId bytes = invoke as_unit (TerminalWriteBytes terminalId bytes)"

definition terminalResize :: "jsstr \<Rightarrow> term_size \<Rightarrow> unit io" where
  "terminalResize terminalId sz = invoke as_unit (TerminalResize terminalId sz)"

definition terminalClose :: "jsstr \<Rightarrow> unit io" where
  "terminalClose terminalId = invoke as_unit (TerminalClose terminalId)"

definition terminalSnapshot :: "jsstr \<Rightarrow> snapshot io" where
  "terminalSnapshot terminalId = invoke as_snapshot (TerminalSnapshot terminalId)"

definition localShellOpen :: "term_size \<Rightarrow> shell_result io" where
  "localShellOpen sz = invoke as_shell (LocalShellOpen sz)"

definition wslDistributionsList :: "wsl_discovery io" where
  "wslDistributionsList = invoke as_wsl WslDistributionsList"

definition wslShellOpen :: "jsstr \<Rightarrow> term_size \<Rightarrow> shell_result io" where
  "wslShellOpen distribution sz = invoke as_shell (WslShellOpen distribution sz)"

definition serialListPorts :: "(serial_port list) io" where
  "serialListPorts = invoke as_ports SerialListPorts"

definition serialTerminalCreate :: "profile \<Rightarrow> term_size \<Rightarrow> shell_result io" where
  "serialTerminalCreate profile sz = invoke as_shell (SerialTerminalCreate profile sz)"

definition serialTerminalClose :: "jsstr \<Rightarrow> bool io" where
  "serialTerminalClose terminalId = invoke as_bool (SerialTerminalClose terminalId)"

definition serialTerminalOpen :: "jsstr \<Rightarrow> profile \<Rightarrow> unit io" where
  "serialTerminalOpen terminalId profile = invoke as_unit (SerialTerminalOpen terminalId profile)"

definition serialTerminalReconfigure :: "jsstr \<Rightarrow> profile \<Rightarrow> unit io" where
  "serialTerminalReconfigure terminalId profile = invoke as_unit (SerialTerminalReconfigure terminalId profile)"

definition fileTransferOpen :: "jsstr \<Rightarrow> ft_session io" where
  "fileTransferOpen connectionId = invoke as_session (FileTransferOpen connectionId)"

definition fileTransferSession :: "jsstr \<Rightarrow> ft_session io" where
  "fileTransferSession sessionId = invoke as_session (FileTransferSession sessionId)"

definition fileTransferClose :: "jsstr \<Rightarrow> bool io" where
  "fileTransferClose sessionId = invoke as_bool (FileTransferClose sessionId)"

definition fileTransferList :: "jsstr \<Rightarrow> jsstr \<Rightarrow> (remote_entry list) io" where
  "fileTransferList sessionId remotePath = invoke as_entries (FileTransferList sessionId remotePath)"

definition fileTransferUpload :: "jsstr \<Rightarrow> jsstr \<Rightarrow> jsstr \<Rightarrow> transfer io" where
  "fileTransferUpload sessionId localPath remotePath = invoke as_transfer (FileTransferUpload sessionId localPath remotePath)"

definition fileTransferUploadBatch :: "jsstr \<Rightarrow> jsstr \<Rightarrow> (jsstr \<times> jsstr) list \<Rightarrow> transfer io" where
  "fileTransferUploadBatch sessionId remotePath uploads = invoke as_transfer (FileTransferUploadBatch sessionId remotePath uploads)"

definition fileTransferDownload :: "jsstr \<Rightarrow> jsstr \<Rightarrow> jsstr \<Rightarrow> transfer io" where
  "fileTransferDownload sessionId remotePath localPath = invoke as_transfer (FileTransferDownload sessionId remotePath localPath)"

definition fileTransferMkdir :: "jsstr \<Rightarrow> jsstr \<Rightarrow> unit io" where
  "fileTransferMkdir sessionId remotePath = invoke as_unit (FileTransferMkdir sessionId remotePath)"

definition fileTransferRemove :: "jsstr \<Rightarrow> jsstr \<Rightarrow> unit io" where
  "fileTransferRemove sessionId remotePath = invoke as_unit (FileTransferRemove sessionId remotePath)"

definition fileTransferRename :: "jsstr \<Rightarrow> jsstr \<Rightarrow> jsstr \<Rightarrow> unit io" where
  "fileTransferRename sessionId from_path to_path = invoke as_unit (FileTransferRename sessionId from_path to_path)"

definition fileTransferCancel :: "jsstr \<Rightarrow> transfer io" where
  "fileTransferCancel transferId = invoke as_transfer (FileTransferCancel transferId)"

definition fileTransferPause :: "jsstr \<Rightarrow> transfer io" where
  "fileTransferPause transferId = invoke as_transfer (FileTransferPause transferId)"

definition fileTransferResume :: "jsstr \<Rightarrow> transfer io" where
  "fileTransferResume transferId = invoke as_transfer (FileTransferResume transferId)"

definition fileTransferResolveConflict :: "jsstr \<Rightarrow> conflict_policy \<Rightarrow> transfer io" where
  "fileTransferResolveConflict transferId policy = invoke as_transfer (FileTransferResolveConflict transferId policy)"

definition fileTransferRetry :: "jsstr \<Rightarrow> transfer io" where
  "fileTransferRetry transferId = invoke as_transfer (FileTransferRetry transferId)"

definition fileTransferDelete :: "jsstr \<Rightarrow> transfer io" where
  "fileTransferDelete transferId = invoke as_transfer (FileTransferDelete transferId)"

definition transferList :: "(transfer list) io" where
  "transferList = invoke as_transfers TransferList"

definition localFileList :: "jsstr \<Rightarrow> file_list io" where
  "localFileList path = invoke as_files (LocalFileList path)"

definition localFileMkdir :: "jsstr \<Rightarrow> unit io" where
  "localFileMkdir path = invoke as_unit (LocalFileMkdir path)"

definition localFileRemove :: "jsstr \<Rightarrow> unit io" where
  "localFileRemove path = invoke as_unit (LocalFileRemove path)"

definition localFileRename :: "jsstr \<Rightarrow> jsstr \<Rightarrow> unit io" where
  "localFileRename from_path to_path = invoke as_unit (LocalFileRename from_path to_path)"

definition settingsGet :: "app_settings io" where
  "settingsGet = invoke as_settings SettingsGet"

definition settingsUpdate :: "app_settings \<Rightarrow> app_settings io" where
  "settingsUpdate settings = invoke as_settings (SettingsUpdate settings)"

definition logList :: "(log_entry list) io" where
  "logList = invoke as_logs LogList"

definition logClear :: "(log_entry list) io" where
  "logClear = invoke as_logs LogClear"

lemmas command_defs =
  connectionOpen_def connectionClose_def connectionGet_def sshAuthenticatePassword_def
  sshAuthenticateSavedPassword_def sshAuthenticatePrivateKey_def sshAuthenticateAgent_def profileList_def
  profileGroups_def profileRecent_def profileMarkRecent_def profileCreate_def
  profileUpdate_def profileDelete_def profileTestConnection_def protocolList_def
  tunnelList_def knownHostTrustPlaceholder_def knownHostsList_def knownHostDelete_def
  secretList_def secretSet_def secretDelete_def secretRevealPassword_def
  terminalAttach_def terminalSession_def terminalWrite_def terminalWriteBytes_def
  terminalResize_def terminalClose_def terminalSnapshot_def localShellOpen_def
  wslDistributionsList_def wslShellOpen_def serialListPorts_def serialTerminalCreate_def
  serialTerminalClose_def serialTerminalOpen_def serialTerminalReconfigure_def fileTransferOpen_def
  fileTransferSession_def fileTransferClose_def fileTransferList_def fileTransferUpload_def
  fileTransferUploadBatch_def fileTransferDownload_def fileTransferMkdir_def fileTransferRemove_def
  fileTransferRename_def fileTransferCancel_def fileTransferPause_def fileTransferResume_def
  fileTransferResolveConflict_def fileTransferRetry_def fileTransferDelete_def transferList_def
  localFileList_def localFileMkdir_def localFileRemove_def localFileRename_def
  settingsGet_def settingsUpdate_def logList_def logClear_def

end
