(* ===== verification/Actions.thy ===== *)
theory Actions
  imports Ipc
begin

text \<open>
  The program logic of the actions, by three judgements with introduction rules collected in
  \<open>act\<close>:

  \<^item> \<open>emits A m\<close>: every command \<open>m\<close> asks satisfies \<open>A\<close>, whatever the back end answers;
  \<^item> \<open>yields P m\<close>: every value \<open>m\<close> returns without throwing satisfies \<open>P\<close>;
  \<^item> \<open>keeps I m\<close>: \<open>m\<close> keeps an invariant of the state that the other handlers keep too (they run
    during its awaits).

  The locale \<open>resource\<close> is the contract of something that is acquired and released by commands;
  \<open>bracket\<close> is the shape of the handlers that must not leave it behind when they fail.
\<close>

named_theorems act \<open>introduction rules for the judgements on actions\<close>

section \<open>The judgements\<close>

definition emits :: "(request \<times> answer \<Rightarrow> bool) \<Rightarrow> 'a io \<Rightarrow> bool" where
  "emits A m \<longleftrightarrow> (\<forall>env w. \<exists>h. history_of (snd (m env w)) = history_of w @ h \<and> list_all A h)"

definition yields :: "('a \<Rightarrow> bool) \<Rightarrow> 'a io \<Rightarrow> bool" where
  "yields P m \<longleftrightarrow> (\<forall>env w x w'. m env w = (Inr x, w') \<longrightarrow> P x)"

definition keeps :: "(workspace \<Rightarrow> bool) \<Rightarrow> 'a io \<Rightarrow> bool" where
  "keeps I m \<longleftrightarrow> (\<forall>env w. (\<forall>h s. I s \<longrightarrow> I (meanwhile env h s)) \<longrightarrow> I (state_of w)
     \<longrightarrow> I (state_of (snd (m env w))))"

lemma emitsE:
  assumes "emits A m" and "m env w = (r, w')"
  obtains h where "history_of w' = history_of w @ h" and "list_all A h"
  using assms by (metis emits_def snd_conv)

lemma emitsI:
  "(\<And>env w r w'. m env w = (r, w') \<Longrightarrow> \<exists>h. history_of w' = history_of w @ h \<and> list_all A h) \<Longrightarrow> emits A m"
  by (metis emits_def prod.collapse)

lemma emits_mono: "emits A m \<Longrightarrow> (\<And>e. A e \<Longrightarrow> B e) \<Longrightarrow> emits B m"
  unfolding emits_def by (metis (mono_tags, lifting) list.pred_mono_strong)

section \<open>Rules\<close>

lemma emits_ret [act]: "emits A (ret x)"
  by (simp add: emits_def ret_def)

lemma emits_throw [act]: "emits A (throw e)"
  by (simp add: emits_def throw_def)

lemma emits_get [act]: "emits A get"
  by (simp add: emits_def get_def)

lemma emits_upd [act]: "emits A (upd f)"
  by (simp add: emits_def upd_def)

lemma emits_say [act]: "emits A (say m)"
  by (simp add: say_def emits_upd)

lemma emits_bnd [act]:
  assumes "emits A m" and "\<And>x. emits A (k x)"
  shows "emits A (bnd m k)"
proof (rule emitsI)
  fix env w r w''
  assume run: "bnd m k env w = (r, w'')"
  obtain q w' where m: "m env w = (q, w')" by fastforce
  obtain h where h: "history_of w' = history_of w @ h" "list_all A h" using emitsE [OF assms(1) m] .
  show "\<exists>h. history_of w'' = history_of w @ h \<and> list_all A h"
  proof (cases q)
    case (Inl e)
    then show ?thesis using run m h by (auto simp: bnd_def)
  next
    case (Inr x)
    then have "k x env w' = (r, w'')" using run m by (simp add: bnd_def)
    then obtain h' where "history_of w'' = history_of w' @ h'" "list_all A h'"
      using emitsE [OF assms(2)] by blast
    then show ?thesis using h by (intro exI [of _ "h @ h'"]) simp
  qed
qed

lemma emits_thn [act]: "emits A m \<Longrightarrow> emits A n \<Longrightarrow> emits A (thn m n)"
  unfolding thn_def by (rule emits_bnd)

lemma emits_catch [act]:
  assumes "emits A m" and "\<And>e. emits A (k e)"
  shows "emits A (catch m k)"
proof (rule emitsI)
  fix env w r w''
  assume run: "catch m k env w = (r, w'')"
  obtain q w' where m: "m env w = (q, w')" by fastforce
  obtain h where h: "history_of w' = history_of w @ h" "list_all A h" using emitsE [OF assms(1) m] .
  show "\<exists>h. history_of w'' = history_of w @ h \<and> list_all A h"
  proof (cases q)
    case (Inr x)
    then show ?thesis using run m h by (auto simp: catch_def)
  next
    case (Inl e)
    then have "k e env w' = (r, w'')" using run m by (simp add: catch_def)
    then obtain h' where "history_of w'' = history_of w' @ h'" "list_all A h'"
      using emitsE [OF assms(2)] by blast
    then show ?thesis using h by (intro exI [of _ "h @ h'"]) simp
  qed
qed

lemma emits_finally [act]: "emits A m \<Longrightarrow> emits A (finally_upd m f)"
  by (simp add: emits_def finally_upd_def split: prod.split) (metis snd_conv)

lemma emits_ignore [act]: "emits A m \<Longrightarrow> emits A (ignore m)"
  by (simp add: ignore_def act)

lemma emits_attempt [act]: "emits A m \<Longrightarrow> emits A (attempt m)"
  by (simp add: attempt_def act)

lemma emits_when [act]: "(b \<Longrightarrow> emits A m) \<Longrightarrow> emits A (when_io b m)"
  by (simp add: when_io_def act)

lemma emits_block [act]: "list_all (emits A) ms \<Longrightarrow> emits A (block ms)"
  by (induction ms) (simp_all add: act)

lemma emits_for_each [act]: "(\<And>x. x \<in> set xs \<Longrightarrow> emits A (f x)) \<Longrightarrow> emits A (for_each xs f)"
  by (induction xs) (simp_all add: act)

lemma emits_map_io [act]: "(\<And>x. x \<in> set xs \<Longrightarrow> emits A (f x)) \<Longrightarrow> emits A (map_io f xs)"
  by (induction xs) (simp_all add: act)

lemma emits_ask [act]: "emits A (ask f)"
  by (simp add: emits_def ask_def)

lemma emits_settle [act]: "emits A m \<Longrightarrow> emits A (settle m)"
  by (simp add: emits_def settle_def split: prod.split) (metis snd_conv)

lemma emits_from_sum [act]: "emits A (from_sum r)"
  by (simp add: from_sum_def act split: sum.split)

lemma emits_all_of [act]: "(\<And>x. x \<in> set xs \<Longrightarrow> emits A (f x)) \<Longrightarrow> emits A (all_of f xs)"
  by (simp add: all_of_def act)

lemma emits_if [act]: "(b \<Longrightarrow> emits A m) \<Longrightarrow> (\<not> b \<Longrightarrow> emits A n) \<Longrightarrow> emits A (if b then m else n)"
  by simp

lemma emits_option [act]:
  "(x = None \<Longrightarrow> emits A m) \<Longrightarrow> (\<And>y. x = Some y \<Longrightarrow> emits A (n y)) \<Longrightarrow> emits A (case x of None \<Rightarrow> m | Some y \<Rightarrow> n y)"
  by (cases x) simp_all

lemma emits_sum [act]:
  "(\<And>a. x = Inl a \<Longrightarrow> emits A (m a)) \<Longrightarrow> (\<And>b. x = Inr b \<Longrightarrow> emits A (n b)) \<Longrightarrow> emits A (case x of Inl a \<Rightarrow> m a | Inr b \<Rightarrow> n b)"
  by (cases x) simp_all

lemma emits_prod [act]: "(\<And>a b. x = (a, b) \<Longrightarrow> emits A (m a b)) \<Longrightarrow> emits A (case x of (a, b) \<Rightarrow> m a b)"
  by (cases x) simp_all

lemma emits_Let [act]: "emits A (f t) \<Longrightarrow> emits A (let x = t in f x)"
  by simp

lemma invoke_run:
  "invoke d req env w =
     (case respond env (history_of w) req of
        Inl t \<Rightarrow> Inl (Rejected t)
      | Inr r \<Rightarrow> (case d r of Some x \<Rightarrow> Inr x | None \<Rightarrow> Inl (Rejected (js ''type''))),
      \<lparr>state_of = meanwhile env (history_of w @ [(req, respond env (history_of w) req)]) (state_of w),
       history_of = history_of w @ [(req, respond env (history_of w) req)]\<rparr>)"
  by (simp add: invoke_def Let_def split: sum.split option.split)

lemma emits_invoke [act]: "(\<And>a. A (req, a)) \<Longrightarrow> emits A (invoke d req)"
  by (simp add: emits_def invoke_run)

lemma run_captured: "bnd get k env w = k (state_of w) env w"
  by (simp add: bnd_def get_def)

lemma emits_run: "emits A m \<Longrightarrow> case m env w of (res, w') \<Rightarrow> \<exists>h. history_of w' = history_of w @ h \<and> list_all A h"
  unfolding emits_def by (metis (mono_tags, lifting) case_prod_beta)

lemma yields_ret [act]: "P x \<Longrightarrow> yields P (ret x)"
  by (simp add: yields_def ret_def)

lemma yields_throw [act]: "yields P (throw e)"
  by (simp add: yields_def throw_def)

lemma yields_bnd [act]: "(\<And>x. yields P (k x)) \<Longrightarrow> yields P (bnd m k)"
  by (auto simp: yields_def bnd_def split: prod.splits sum.splits)

lemma yields_thn [act]: "yields P n \<Longrightarrow> yields P (thn m n)"
  by (simp add: thn_def yields_bnd)

lemma yields_catch [act]: "yields P m \<Longrightarrow> (\<And>e. yields P (k e)) \<Longrightarrow> yields P (catch m k)"
  by (auto simp: yields_def catch_def split: prod.splits sum.splits)

lemma yields_finally [act]: "yields P m \<Longrightarrow> yields P (finally_upd m f)"
  by (auto simp: yields_def finally_upd_def split: prod.splits)

lemma yields_if [act]: "(b \<Longrightarrow> yields P m) \<Longrightarrow> (\<not> b \<Longrightarrow> yields P n) \<Longrightarrow> yields P (if b then m else n)"
  by simp

lemma yields_option [act]:
  "(x = None \<Longrightarrow> yields P m) \<Longrightarrow> (\<And>y. x = Some y \<Longrightarrow> yields P (n y)) \<Longrightarrow> yields P (case x of None \<Rightarrow> m | Some y \<Rightarrow> n y)"
  by (cases x) simp_all

lemma yields_Let [act]: "yields P (f t) \<Longrightarrow> yields P (let x = t in f x)"
  by simp

lemma keepsI:
  "(\<And>env w. (\<And>h s. I s \<Longrightarrow> I (meanwhile env h s)) \<Longrightarrow> I (state_of w) \<Longrightarrow> I (state_of (snd (m env w)))) \<Longrightarrow> keeps I m"
  by (simp add: keeps_def)

lemma keepsD:
  "keeps I m \<Longrightarrow> (\<And>h s. I s \<Longrightarrow> I (meanwhile env h s)) \<Longrightarrow> I (state_of w) \<Longrightarrow> m env w = (r, w') \<Longrightarrow> I (state_of w')"
  by (metis keeps_def snd_conv)

lemma keeps_ret [act]: "keeps I (ret x)"
  by (simp add: keeps_def ret_def)

lemma keeps_throw [act]: "keeps I (throw e)"
  by (simp add: keeps_def throw_def)

lemma keeps_upd [act]: "(\<And>s. I s \<Longrightarrow> I (f s)) \<Longrightarrow> keeps I (upd f)"
  by (simp add: keeps_def upd_def)

lemma keeps_bnd [act]: "keeps I m \<Longrightarrow> (\<And>x. keeps I (k x)) \<Longrightarrow> keeps I (bnd m k)"
  unfolding keeps_def bnd_def
  by (auto split: prod.split sum.split) (metis snd_conv)+

lemma keeps_thn [act]: "keeps I m \<Longrightarrow> keeps I n \<Longrightarrow> keeps I (thn m n)"
  unfolding thn_def by (rule keeps_bnd)

text \<open>A captured state satisfies the invariant at the moment it is captured.\<close>

lemma keeps_captured [act]: "(\<And>s. I s \<Longrightarrow> keeps I (k s)) \<Longrightarrow> keeps I (bnd get k)"
  by (rule keepsI) (simp add: bnd_def get_def keeps_def)

lemma keeps_catch [act]: "keeps I m \<Longrightarrow> (\<And>e. keeps I (k e)) \<Longrightarrow> keeps I (catch m k)"
  unfolding keeps_def catch_def
  by (auto split: prod.split sum.split) (metis snd_conv)+

lemma keeps_finally [act]: "keeps I m \<Longrightarrow> (\<And>s. I s \<Longrightarrow> I (f s)) \<Longrightarrow> keeps I (finally_upd m f)"
  by (rule keepsI) (auto simp: finally_upd_def split: prod.split dest: keepsD)

lemma keeps_ignore [act]: "keeps I m \<Longrightarrow> keeps I (ignore m)"
  by (simp add: ignore_def act)

lemma keeps_attempt [act]: "keeps I m \<Longrightarrow> keeps I (attempt m)"
  by (simp add: attempt_def act)

lemma keeps_when [act]: "(b \<Longrightarrow> keeps I m) \<Longrightarrow> keeps I (when_io b m)"
  by (simp add: when_io_def act)

lemma keeps_block [act]: "list_all (keeps I) ms \<Longrightarrow> keeps I (block ms)"
  by (induction ms) (simp_all add: act)

lemma keeps_for_each [act]: "(\<And>x. keeps I (f x)) \<Longrightarrow> keeps I (for_each xs f)"
  by (induction xs) (simp_all add: act)

lemma keeps_map_io [act]: "(\<And>x. keeps I (f x)) \<Longrightarrow> keeps I (map_io f xs)"
  by (induction xs) (simp_all add: act)

lemma keeps_ask [act]: "keeps I (ask f)"
  by (simp add: keeps_def ask_def)

lemma keeps_settle [act]: "keeps I m \<Longrightarrow> keeps I (settle m)"
  by (rule keepsI) (auto simp: settle_def split: prod.split dest: keepsD)

lemma keeps_from_sum [act]: "keeps I (from_sum r)"
  by (simp add: from_sum_def act split: sum.split)

lemma keeps_all_of [act]: "(\<And>x. keeps I (f x)) \<Longrightarrow> keeps I (all_of f xs)"
  by (simp add: all_of_def act)

lemma keeps_if [act]: "(b \<Longrightarrow> keeps I m) \<Longrightarrow> (\<not> b \<Longrightarrow> keeps I n) \<Longrightarrow> keeps I (if b then m else n)"
  by simp

lemma keeps_option [act]:
  "(x = None \<Longrightarrow> keeps I m) \<Longrightarrow> (\<And>y. x = Some y \<Longrightarrow> keeps I (n y)) \<Longrightarrow> keeps I (case x of None \<Rightarrow> m | Some y \<Rightarrow> n y)"
  by (cases x) simp_all

lemma keeps_Let [act]: "keeps I (f t) \<Longrightarrow> keeps I (let x = t in f x)"
  by simp

lemma keeps_invoke [act]: "keeps I (invoke d req)"
  by (rule keepsI) (simp add: invoke_run)

section \<open>Acquire and release\<close>

text \<open>
  \<^verbatim>\<open>let r = null; try { r = await acquire; body } catch (e) { if (r) await release.catch(() => undefined); recover(e) }\<close>
\<close>

definition bracket :: "'r io \<Rightarrow> ('r \<Rightarrow> unit io) \<Rightarrow> ('r \<Rightarrow> 'a io) \<Rightarrow> (err \<Rightarrow> 'a io) \<Rightarrow> 'a io" where
  "bracket acquire release body recover = (\<lambda>env w.
     (case acquire env w of
        (Inl e, w') \<Rightarrow> recover e env w'
      | (Inr r, w') \<Rightarrow>
          (case body r env w' of
             (Inr x, w'') \<Rightarrow> (Inr x, w'')
           | (Inl e, w'') \<Rightarrow> thn (release r) (recover e) env w'')))"

fun ids :: "(request \<times> answer \<Rightarrow> jsstr option) \<Rightarrow> history \<Rightarrow> jsstr list" where
  "ids f [] = []"
| "ids f (e # h) = (case f e of None \<Rightarrow> ids f h | Some i \<Rightarrow> i # ids f h)"

lemma ids_append [simp]: "ids f (h @ g) = ids f h @ ids f g"
  by (induction h) (auto split: option.split)

lemma ids_none: "list_all (\<lambda>e. f e = None) h \<Longrightarrow> ids f h = []"
  by (induction h) auto

text \<open>
  What is acquired stays in use or is released: a run of the action acquires at most once, and ends
  with a result that satisfies \<open>P\<close> or has released what it acquired.
\<close>

definition leakless ::
  "(request \<times> answer \<Rightarrow> jsstr option) \<Rightarrow> (request \<times> answer \<Rightarrow> jsstr option) \<Rightarrow> ('a \<Rightarrow> bool) \<Rightarrow> 'a io \<Rightarrow> bool" where
  "leakless acquired released P m \<longleftrightarrow> (\<forall>env w. case m env w of (res, w') \<Rightarrow>
     \<exists>h. history_of w' = history_of w @ h \<and> length (ids acquired h) \<le> 1
       \<and> ((\<exists>x. res = Inr x \<and> P x) \<or> set (ids acquired h) \<subseteq> set (ids released h)))"

lemma leaklessI:
  "(\<And>env w res w'. m env w = (res, w') \<Longrightarrow> \<exists>h. history_of w' = history_of w @ h \<and> length (ids acquired h) \<le> 1
     \<and> ((\<exists>x. res = Inr x \<and> P x) \<or> set (ids acquired h) \<subseteq> set (ids released h)))
   \<Longrightarrow> leakless acquired released P m"
  by (simp add: leakless_def split: prod.split)

lemma leaklessD: "leakless acquired released P m \<Longrightarrow> case m env w of (res, w') \<Rightarrow>
    \<exists>h. history_of w' = history_of w @ h \<and> length (ids acquired h) \<le> 1
      \<and> ((\<exists>x. res = Inr x \<and> P x) \<or> set (ids acquired h) \<subseteq> set (ids released h))"
  by (simp add: leakless_def)

lemma leakless_quiet:
  assumes "emits (\<lambda>e. acquired e = None) m"
  shows "leakless acquired released P m"
proof (rule leaklessI)
  fix env w res w'
  assume "m env w = (res, w')"
  then obtain h where "history_of w' = history_of w @ h" "list_all (\<lambda>e. acquired e = None) h"
    using emitsE [OF assms] by blast
  then show "\<exists>h. history_of w' = history_of w @ h \<and> length (ids acquired h) \<le> 1
     \<and> ((\<exists>x. res = Inr x \<and> P x) \<or> set (ids acquired h) \<subseteq> set (ids released h))"
    by (intro exI [of _ h]) (simp add: ids_none)
qed

lemma leakless_bnd:
  assumes "emits (\<lambda>e. acquired e = None) m" and "\<And>x. leakless acquired released P (k x)"
  shows "leakless acquired released P (bnd m k)"
proof (rule leaklessI)
  fix env w res w''
  assume run: "bnd m k env w = (res, w'')"
  obtain q w' where m: "m env w = (q, w')" by fastforce
  obtain h where h: "history_of w' = history_of w @ h" "ids acquired h = []"
    using emitsE [OF assms(1) m] ids_none by metis
  show "\<exists>h. history_of w'' = history_of w @ h \<and> length (ids acquired h) \<le> 1
     \<and> ((\<exists>x. res = Inr x \<and> P x) \<or> set (ids acquired h) \<subseteq> set (ids released h))"
  proof (cases q)
    case (Inl e)
    then show ?thesis using run m h by (auto simp: bnd_def)
  next
    case (Inr x)
    then have "k x env w' = (res, w'')" using run m by (simp add: bnd_def)
    then obtain g where "history_of w'' = history_of w' @ g" "length (ids acquired g) \<le> 1"
        "(\<exists>x. res = Inr x \<and> P x) \<or> set (ids acquired g) \<subseteq> set (ids released g)"
      using leaklessD [OF assms(2) [of x], where env = env and w = w'] by auto
    then show ?thesis using h by (intro exI [of _ "h @ g"]) auto
  qed
qed

lemma leakless_thn: "emits (\<lambda>e. acquired e = None) m \<Longrightarrow> leakless acquired released P n
    \<Longrightarrow> leakless acquired released P (thn m n)"
  unfolding thn_def by (rule leakless_bnd)

lemma leakless_finally: "leakless acquired released P m \<Longrightarrow> leakless acquired released P (finally_upd m f)"
  by (fastforce simp: leakless_def finally_upd_def split: prod.splits)

text \<open>The state captured at the start.\<close>

lemma leakless_captured: "(\<And>s. leakless acquired released P (k s)) \<Longrightarrow> leakless acquired released P (bnd get k)"
  by (rule leakless_bnd) (simp_all add: act)

lemma leakless_if: "(b \<Longrightarrow> leakless acquired released P m) \<Longrightarrow> (\<not> b \<Longrightarrow> leakless acquired released P n)
    \<Longrightarrow> leakless acquired released P (if b then m else n)"
  by simp

lemma leakless_option: "(x = None \<Longrightarrow> leakless acquired released P m)
    \<Longrightarrow> (\<And>y. x = Some y \<Longrightarrow> leakless acquired released P (n y))
    \<Longrightarrow> leakless acquired released P (case x of None \<Rightarrow> m | Some y \<Rightarrow> n y)"
  by (cases x) simp_all

lemmas leakless_rules = leakless_captured leakless_if leakless_option leakless_thn leakless_finally

locale resource =
  fixes acquired :: "request \<times> answer \<Rightarrow> jsstr option"
    and released :: "request \<times> answer \<Rightarrow> jsstr option"
    and acquire :: "'r io"
    and name_of :: "'r \<Rightarrow> jsstr"
    and release :: "'r \<Rightarrow> unit io"
  assumes acquire_ok: "acquire env w = (Inr r, w') \<Longrightarrow>
      \<exists>h. history_of w' = history_of w @ h \<and> ids acquired h = [name_of r]"
    and acquire_failed: "acquire env w = (Inl e, w') \<Longrightarrow>
      \<exists>h. history_of w' = history_of w @ h \<and> ids acquired h = []"
    and release_run: "\<exists>v h. release r env w = (Inr (), v) \<and> history_of v = history_of w @ h
      \<and> ids acquired h = [] \<and> name_of r \<in> set (ids released h)"
begin

text \<open>
  If neither the body nor the recovery acquires anything, a run of the bracket acquires at most
  once, and it either ends with a good result of the body or has released what it acquired - the
  bracket after an error, the body when its result is not a good one.
\<close>

lemma bracket_outcome:
  assumes run: "bracket acquire release body recover env w = (res, w')"
    and body: "\<And>r. emits (\<lambda>e. acquired e = None) (body r)"
    and recover: "\<And>e. emits (\<lambda>e. acquired e = None) (recover e)"
    and result: "\<And>r env w x w'. body r env w = (Inr x, w') \<Longrightarrow>
      P x \<or> (\<exists>h. history_of w' = history_of w @ h \<and> name_of r \<in> set (ids released h))"
  shows "\<exists>h. history_of w' = history_of w @ h \<and> length (ids acquired h) \<le> 1
     \<and> ((\<exists>x. res = Inr x \<and> P x) \<or> set (ids acquired h) \<subseteq> set (ids released h))"
proof -
  obtain a w1 where a: "acquire env w = (a, w1)" by fastforce
  show ?thesis
  proof (cases a)
    case (Inl e)
    then obtain h where h: "history_of w1 = history_of w @ h" "ids acquired h = []"
      using acquire_failed a by blast
    have "recover e env w1 = (res, w')" using run a Inl by (simp add: bracket_def)
    then obtain g where "history_of w' = history_of w1 @ g" "list_all (\<lambda>e. acquired e = None) g"
      using emitsE [OF recover] by blast
    then show ?thesis using h by (intro exI [of _ "h @ g"]) (simp add: ids_none)
  next
    case (Inr r)
    then obtain h where h: "history_of w1 = history_of w @ h" "ids acquired h = [name_of r]"
      using acquire_ok a by blast
    obtain b w2 where b: "body r env w1 = (b, w2)" by fastforce
    obtain g where g: "history_of w2 = history_of w1 @ g" "ids acquired g = []"
      using emitsE [OF body b] ids_none by metis
    show ?thesis
    proof (cases b)
      case (Inr x)
      then have "res = Inr x" "w' = w2" using run a \<open>a = Inr r\<close> b by (simp_all add: bracket_def)
      moreover have "P x \<or> name_of r \<in> set (ids released g)"
        using result [of r env w1 x w2] b Inr g by auto
      ultimately show ?thesis using h g by (intro exI [of _ "h @ g"]) auto
    next
      case (Inl e)
      obtain v k where v: "release r env w2 = (Inr (), v)" "history_of v = history_of w2 @ k"
          "ids acquired k = []" "name_of r \<in> set (ids released k)"
        using release_run by blast
      have "recover e env v = (res, w')"
        using run a \<open>a = Inr r\<close> b Inl v(1) by (simp add: bracket_def thn_def bnd_def)
      then obtain f where "history_of w' = history_of v @ f" "list_all (\<lambda>e. acquired e = None) f"
        using emitsE [OF recover] by blast
      then show ?thesis using h g v by (intro exI [of _ "h @ g @ k @ f"]) (simp add: ids_none)
    qed
  qed
qed

lemma bracket_leakless:
  assumes "\<And>r. emits (\<lambda>e. acquired e = None) (body r)" and "\<And>e. emits (\<lambda>e. acquired e = None) (recover e)"
    and "\<And>r. yields P (body r)"
  shows "leakless acquired released P (bracket acquire release body recover)"
proof (rule leaklessI)
  fix env w res w'
  assume run: "bracket acquire release body recover env w = (res, w')"
  show "\<exists>h. history_of w' = history_of w @ h \<and> length (ids acquired h) \<le> 1
     \<and> ((\<exists>x. res = Inr x \<and> P x) \<or> set (ids acquired h) \<subseteq> set (ids released h))"
    by (rule bracket_outcome [OF run assms(1,2)]) (use assms(3) in \<open>unfold yields_def, blast\<close>)
qed

end

end
