(* ===== verification/SessionTabs.thy ===== *)
theory SessionTabs
  imports TabOrder TerminalSplits OutputBuffer Paths WorkspaceState
begin

text \<open>
  The handlers of \<^verbatim>\<open>src/app/usePortivaWorkspace.ts\<close> that only change the state: activating,
  detaching and reordering tabs, the titles and directories terminals report, the snapshot events
  that are applied once per frame, and the small helpers (profiles, serial titles). Each is a
  function of the workspace state. The invariant \<open>ui_inv\<close> (no two tabs with one id; the active
  connection, terminal and id are those of one tab or all empty) is kept by every step of
  \<open>ui_step\<close>.
\<close>

section \<open>Profiles and titles\<close>

definition serialTabTitle :: jsstr where
  "serialTabTitle = js ''[SERIAL]''"

definition serialTabTitleForPort :: "jsstr \<Rightarrow> jsstr" where
  "serialTabTitleForPort portName =
     (let trimmedPortName = js_trim portName
      in if trimmedPortName \<noteq> [] then serialTabTitle @ [32] @ trimmedPortName else serialTabTitle)"

definition disconnectedConnection :: "connection \<Rightarrow> connection" where
  "disconnectedConnection c = c\<lparr>conn_status := Disconnected,
     conn_transport := map_option (\<lambda>t. t\<lparr>tr_authenticated := False, tr_fileTransferReady := False,
       tr_terminalChannelReady := False\<rparr>) (conn_transport c)\<rparr>"

definition defaultTerminalSize :: term_size where
  "defaultTerminalSize = \<lparr>sz_cols = 100, sz_rows = 30, sz_widthPx = 1200, sz_heightPx = 720\<rparr>"

text \<open>The id and the time stamp of a new profile come from the clock and a random number.\<close>

definition new_base :: "jsstr \<Rightarrow> jsstr \<Rightarrow> string \<Rightarrow> string \<Rightarrow> base_profile" where
  "new_base i now grp tag = \<lparr>prof_id = i, prof_name = [], prof_groupId = Some (js grp),
     prof_tags = [js tag], prof_createdAt = now, prof_updatedAt = now\<rparr>"

definition newConnectionProfile :: "jsstr \<Rightarrow> jsstr \<Rightarrow> connection_type \<Rightarrow> profile" where
  "newConnectionProfile i now t =
     (case t of
        Ssh \<Rightarrow> SshProfile (base_profile.extend (new_base i now ''servers'' ''ssh'')
          (ssh_profile.fields [] 22 [] AuthPassword None None None None))
      | Sftp \<Rightarrow> SftpProfile (base_profile.extend (new_base i now ''servers'' ''sftp'')
          (sftp_profile.fields [] 22 [] AuthPassword None None None))
      | Telnet \<Rightarrow> TelnetProfile (base_profile.extend (new_base i now ''network'' ''telnet'')
          (telnet_profile.fields [] 23 (Some []) Vt100 Crlf Utf8))
      | Serial \<Rightarrow> SerialProfile (base_profile.extend (new_base i now ''devices'' ''serial'')
          (serial_profile.fields [] 115200 8 ParityNone StopOne FlowNone Crlf Utf8 None None))
      | _ \<Rightarrow> RawSocketProfile (base_profile.extend (new_base i now ''network'' ''raw-tcp'')
          (raw_profile.fields [] 9000 Lf Utf8)))"

text \<open>
  \<^verbatim>\<open>normalizeTerminalTitle\<close>: control characters become blanks, invisible ones go, runs of white
  space become one blank, and at most 120 code points are kept (\<^verbatim>\<open>Array.from\<close> keeps surrogate pairs
  together).
\<close>

definition title_control :: "code_unit \<Rightarrow> bool" where
  "title_control c \<longleftrightarrow> c \<le> 0x1F \<or> (0x7F \<le> c \<and> c \<le> 0x9F)"

definition title_invisible :: "code_unit \<Rightarrow> bool" where
  "title_invisible c \<longleftrightarrow>
     (0x200B \<le> c \<and> c \<le> 0x200F) \<or> (0x202A \<le> c \<and> c \<le> 0x202E) \<or> (0x2060 \<le> c \<and> c \<le> 0x206F) \<or> c = 0xFEFF"

fun collapse_spaces :: "bool \<Rightarrow> jsstr \<Rightarrow> jsstr" where
  "collapse_spaces inside [] = []"
| "collapse_spaces inside (c # s) =
     (if js_space c then (if inside then collapse_spaces True s else 32 # collapse_spaces True s)
      else c # collapse_spaces False s)"

fun code_points :: "jsstr \<Rightarrow> jsstr list" where
  "code_points (a # b # s) =
     (if high_surrogate a \<and> low_surrogate b then [a, b] # code_points s else [a] # code_points (b # s))"
| "code_points [a] = [[a]]"
| "code_points [] = []"

definition maximumTerminalTitleCharacters :: nat where
  "maximumTerminalTitleCharacters = 120"

definition normalizeTerminalTitle :: "jsstr \<Rightarrow> jsstr" where
  "normalizeTerminalTitle title =
     (let blanked = map (\<lambda>c. if title_control c then 32 else c) title;
          visible = filter (\<lambda>c. \<not> title_invisible c) blanked;
          normalized = js_trim (collapse_spaces False visible)
      in concat (take maximumTerminalTitleCharacters (code_points normalized)))"

section \<open>Views of the state\<close>

definition find_tab :: "jsstr \<Rightarrow> tab list \<Rightarrow> tab option" where
  "find_tab i tabs = find (\<lambda>t. tab_id t = i) tabs"

definition activeSessionTab :: "workspace \<Rightarrow> tab option" where
  "activeSessionTab s = find_tab (w_activeSessionTabId s) (w_sessionTabs s)"

definition activeProfile :: "profile \<Rightarrow> workspace \<Rightarrow> profile" where
  "activeProfile fallbackProfile s =
     (case find (\<lambda>p. profile_id p = w_activeProfileId s) (w_profiles s) of
        Some p \<Rightarrow> p
      | None \<Rightarrow> (case w_profiles s of p # _ \<Rightarrow> p | [] \<Rightarrow> fallbackProfile))"

text \<open>The snapshot the active pane shows, and the directory of the active terminal.\<close>

definition activeSessionTerminalSnapshot :: "workspace \<Rightarrow> snapshot option" where
  "activeSessionTerminalSnapshot s =
     (case activeSessionTab s of
        None \<Rightarrow> None
      | Some tab \<Rightarrow> (case tab_terminal tab of
          None \<Rightarrow> None
        | Some t \<Rightarrow>
            if map_option snap_terminalId (tab_terminalSnapshot tab) = Some (term_id t)
            then tab_terminalSnapshot tab
            else if map_option snap_terminalId (w_terminalSnapshot s) = Some (term_id t)
            then w_terminalSnapshot s
            else None))"

definition activeTerminalWorkingDirectory :: "workspace \<Rightarrow> jsstr option" where
  "activeTerminalWorkingDirectory s =
     (if (case activeSessionTab s of Some tab \<Rightarrow> map_option term_id (tab_terminal tab) | None \<Rightarrow> None)
           = map_option term_id (w_activeTerminal s)
      then (case activeSessionTab s of Some tab \<Rightarrow> tab_terminalWorkingDirectory tab | None \<Rightarrow> None)
      else None)"

section \<open>Tabs\<close>

definition clearFileTransferView :: "workspace \<Rightarrow> workspace" where
  "clearFileTransferView s = s\<lparr>w_activeFileTransferSession := None, w_selectedRemoteEntry := None,
     w_remoteEntries := [], w_remotePath := remoteRootPath\<rparr>"

text \<open>The tabs of a connection: its own and those opened from it.\<close>

definition of_connection :: "jsstr \<Rightarrow> tab \<Rightarrow> bool" where
  "of_connection connectionId tab \<longleftrightarrow>
     conn_id (tab_connection tab) = connectionId \<or> tab_parentConnectionId tab = Some connectionId"

definition disconnect_tab :: "tab \<Rightarrow> tab" where
  "disconnect_tab tab = tab\<lparr>tab_connection := disconnectedConnection (tab_connection tab),
     tab_additionalTerminals := [], tab_fileTransferSession := None, tab_terminal := None,
     tab_terminalLayout := None, tab_terminalSnapshot := None, tab_terminalTitle := None,
     tab_terminalWorkingDirectory := None\<rparr>"

text \<open>\<open>captured\<close> is the active connection of the render the callback was created in.\<close>

definition markConnectionTabsDisconnected :: "connection option \<Rightarrow> jsstr \<Rightarrow> workspace \<Rightarrow> workspace" where
  "markConnectionTabsDisconnected captured connectionId s =
     (let affectedTabs = filter (of_connection connectionId) (w_sessionTabs s);
          affectedConnectionIds = map (\<lambda>t. conn_id (tab_connection t)) affectedTabs;
          affectedTerminalIds = concat (map (\<lambda>t. map pane_id (terminalPanesForTab t)) affectedTabs);
          activeWasAffected = (case captured of Some c \<Rightarrow> conn_id c \<in> set affectedConnectionIds | None \<Rightarrow> False);
          s = s\<lparr>w_sessionTabs := map (\<lambda>t. if of_connection connectionId t then disconnect_tab t else t) (w_sessionTabs s),
                w_activeConnection := map_option (\<lambda>c. if conn_id c \<in> set affectedConnectionIds
                  then disconnectedConnection c else c) (w_activeConnection s),
                w_activeTerminal := (case w_activeTerminal s of
                  Some t \<Rightarrow> if term_id t \<in> set affectedTerminalIds then None else Some t | None \<Rightarrow> None),
                w_activeFileTransferSession := (case w_activeFileTransferSession s of
                  Some f \<Rightarrow> if fts_connectionId f = connectionId then None else Some f | None \<Rightarrow> None)\<rparr>
      in if activeWasAffected
         then s\<lparr>w_terminalSnapshot := None, w_remoteEntries := [], w_selectedRemoteEntry := None\<rparr>
         else s)"

definition activateSessionTab :: "tab \<Rightarrow> workspace \<Rightarrow> workspace" where
  "activateSessionTab tab s =
     (let s = s\<lparr>w_sessionNotice := [], w_activeSessionTabId := tab_id tab,
                w_activeConnection := Some (tab_connection tab), w_activeTerminal := tab_terminal tab,
                w_terminalSnapshot := tab_terminalSnapshot tab,
                w_activeProfileId := conn_profileId (tab_connection tab)\<rparr>
      in case (tab_kind_of tab, tab_fileTransferSession tab) of
           (FileTransferTab, Some session) \<Rightarrow>
             s\<lparr>w_activeFileTransferSession := Some session,
               w_message := Msg ''switched to the files of'' [AStr (conn_title (tab_connection tab))]\<rparr>
         | _ \<Rightarrow> (clearFileTransferView s)\<lparr>w_message := Msg ''switched to'' [AStr (conn_title (tab_connection tab))]\<rparr>)"

definition updateActiveSessionTab_snapshot :: "connection option \<Rightarrow> snapshot \<Rightarrow> workspace \<Rightarrow> workspace" where
  "updateActiveSessionTab_snapshot captured snapshot s =
     (case captured of
        None \<Rightarrow> s
      | Some c \<Rightarrow> s\<lparr>w_sessionTabs := map (\<lambda>t. if conn_id (tab_connection t) = conn_id c
          then t\<lparr>tab_terminalSnapshot := Some snapshot\<rparr> else t) (w_sessionTabs s)\<rparr>)"

text \<open>The tab that gets the focus when the one at \<open>i\<close> is gone, and the state without any tab.\<close>

definition next_tab :: "int \<Rightarrow> tab list \<Rightarrow> tab option" where
  "next_tab i remaining =
     (case js_at remaining (i - 1) of
        Some t \<Rightarrow> Some t
      | None \<Rightarrow> (case js_at remaining i of
          Some t \<Rightarrow> Some t
        | None \<Rightarrow> js_at remaining (int (length remaining) - 1)))"

definition deactivate :: "workspace \<Rightarrow> workspace" where
  "deactivate s = clearFileTransferView (s\<lparr>w_sessionNotice := [], w_activeSessionTabId := [],
     w_activeConnection := None, w_activeTerminal := None, w_terminalSnapshot := None\<rparr>)"

definition focus_next :: "tab option \<Rightarrow> workspace \<Rightarrow> workspace" where
  "focus_next t s = (case t of Some tab \<Rightarrow> activateSessionTab tab s | None \<Rightarrow> deactivate s)"

definition detachSessionTab :: "jsstr \<Rightarrow> workspace \<Rightarrow> workspace" where
  "detachSessionTab tabId s =
     (let detachIndex = js_findIndex (\<lambda>t. tab_id t = tabId) (w_sessionTabs s)
      in case js_at (w_sessionTabs s) detachIndex of
           None \<Rightarrow> s\<lparr>w_message := Msg ''no tab to detach'' [AStr tabId]\<rparr>
         | Some detachedTab \<Rightarrow>
             (let remainingTabs = filter (\<lambda>t. tab_id t \<noteq> tabId) (w_sessionTabs s);
                  nextTab = next_tab detachIndex remainingTabs;
                  isDetachingActive = w_activeSessionTabId s = tabId;
                  s = s\<lparr>w_sessionTabs := remainingTabs,
                        w_message := Msg ''moved to a window'' [AStr (conn_title (tab_connection detachedTab))]\<rparr>
              in if \<not> isDetachingActive then s else focus_next nextTab s))"

definition switchSessionTab :: "jsstr \<Rightarrow> workspace \<Rightarrow> workspace" where
  "switchSessionTab connectionId s =
     (case find_tab connectionId (w_sessionTabs s) of
        None \<Rightarrow> s\<lparr>w_message := Msg ''no such tab'' [AStr connectionId]\<rparr>
      | Some tab \<Rightarrow> activateSessionTab tab s)"

definition reorderSessionTabs :: "jsstr \<Rightarrow> jsstr \<Rightarrow> drop_position \<Rightarrow> workspace \<Rightarrow> workspace" where
  "reorderSessionTabs source target position s =
     (if source = target then s
      else s\<lparr>w_sessionTabs := move_by tab_id (w_sessionTabs s) source target position,
             w_message := Msg ''tab order changed'' []\<rparr>)"

section \<open>What terminals report\<close>

text \<open>An update of the pane of a terminal, in the tab that shows it first or beside.\<close>

definition update_pane :: "jsstr \<Rightarrow> (tab \<Rightarrow> tab) \<Rightarrow> (pane \<Rightarrow> pane) \<Rightarrow> tab \<Rightarrow> tab" where
  "update_pane terminalId f g tab =
     (if map_option term_id (tab_terminal tab) = Some terminalId then f tab
      else tab\<lparr>tab_additionalTerminals :=
        map (\<lambda>p. if pane_id p = terminalId then g p else p) (tab_additionalTerminals tab)\<rparr>)"

definition reportTerminalWorkingDirectory :: "jsstr \<Rightarrow> jsstr \<Rightarrow> workspace \<Rightarrow> workspace" where
  "reportTerminalWorkingDirectory terminalId path s =
     (let trimmedPath = js_trim path
      in if trimmedPath = [] then s
         else (let normalizedPath = normalizeRemotePathInput trimmedPath
               in s\<lparr>w_sessionTabs := map (update_pane terminalId
                    (\<lambda>t. t\<lparr>tab_terminalWorkingDirectory := Some normalizedPath\<rparr>)
                    (\<lambda>p. p\<lparr>pane_workingDirectory := Some normalizedPath\<rparr>)) (w_sessionTabs s)\<rparr>))"

text \<open>A title equal to the shown one (nothing shown is the empty title) changes nothing.\<close>

definition new_title :: "jsstr \<Rightarrow> jsstr option \<Rightarrow> jsstr option" where
  "new_title normalizedTitle old =
     (if (case old of Some t \<Rightarrow> t | None \<Rightarrow> []) = normalizedTitle then old
      else if normalizedTitle = [] then None else Some normalizedTitle)"

definition reportTerminalTitle :: "jsstr \<Rightarrow> jsstr \<Rightarrow> workspace \<Rightarrow> workspace" where
  "reportTerminalTitle terminalId title s =
     (let normalizedTitle = normalizeTerminalTitle title
      in s\<lparr>w_sessionTabs := map (update_pane terminalId
           (\<lambda>t. t\<lparr>tab_terminalTitle := new_title normalizedTitle (tab_terminalTitle t)\<rparr>)
           (\<lambda>p. p\<lparr>pane_title := new_title normalizedTitle (pane_title p)\<rparr>)) (w_sessionTabs s)\<rparr>)"

definition serial_tab_of :: "jsstr \<Rightarrow> tab \<Rightarrow> bool" where
  "serial_tab_of terminalId tab \<longleftrightarrow>
     map_option term_id (tab_terminal tab) = Some terminalId
     \<and> map_option tr_kind (conn_transport (tab_connection tab)) = Some KSerial"

definition serial_disconnected :: "connection \<Rightarrow> connection" where
  "serial_disconnected c = c\<lparr>conn_status := Disconnected, conn_title := serialTabTitle,
     conn_transport := map_option (\<lambda>t. t\<lparr>tr_terminalChannelReady := False\<rparr>) (conn_transport c)\<rparr>"

definition is_serial :: "connection \<Rightarrow> bool" where
  "is_serial c \<longleftrightarrow> map_option tr_kind (conn_transport c) = Some KSerial"

text \<open>\<open>ref\<close> is \<^verbatim>\<open>sessionTabsRef.current\<close>, the tabs of the last render.\<close>

definition markSerialTerminalDisconnected :: "tab list \<Rightarrow> jsstr \<Rightarrow> workspace \<Rightarrow> workspace" where
  "markSerialTerminalDisconnected ref terminalId s =
     s\<lparr>w_sessionTabs := map (\<lambda>t. if serial_tab_of terminalId t
          then t\<lparr>tab_connection := serial_disconnected (tab_connection t)\<rparr> else t) (w_sessionTabs s),
       w_activeConnection := map_option (\<lambda>c.
          if is_serial c \<and> list_ex (\<lambda>t. map_option term_id (tab_terminal t) = Some terminalId
                                        \<and> conn_id (tab_connection t) = conn_id c) ref
          then serial_disconnected c else c) (w_activeConnection s)\<rparr>"

definition resizeSshTerminalSplit :: "jsstr \<Rightarrow> nat list \<Rightarrow> jsnum \<Rightarrow> workspace \<Rightarrow> workspace" where
  "resizeSshTerminalSplit tabId path ratio s =
     s\<lparr>w_sessionTabs := map (\<lambda>t.
        if tab_id t \<noteq> tabId then t
        else (case resolveTerminalSplitLayout t of
                None \<Rightarrow> t
              | Some layout \<Rightarrow> t\<lparr>tab_terminalLayout := Some (updateTerminalSplitRatio layout path ratio)\<rparr>))
        (w_sessionTabs s)\<rparr>"

section \<open>Snapshot events\<close>

text \<open>\<^verbatim>\<open>Map.set\<close> and \<^verbatim>\<open>Map.get\<close> on the entries in insertion order.\<close>

fun js_map_set :: "'k \<Rightarrow> 'v \<Rightarrow> ('k \<times> 'v) list \<Rightarrow> ('k \<times> 'v) list" where
  "js_map_set k v [] = [(k, v)]"
| "js_map_set k v ((k', v') # m) = (if k' = k then (k, v) # m else (k', v') # js_map_set k v m)"

definition onTerminalSnapshot :: "snapshot \<Rightarrow> workspace \<Rightarrow> workspace" where
  "onTerminalSnapshot incoming s = s\<lparr>w_pendingSnapshots :=
     js_map_set (snap_terminalId incoming)
       (mergePendingSnapshot (map_of (w_pendingSnapshots s) (snap_terminalId incoming)) incoming)
       (w_pendingSnapshots s)\<rparr>"

definition with_status :: "term_status \<Rightarrow> terminal \<Rightarrow> terminal" where
  "with_status st t = (if term_status t \<noteq> st then t\<lparr>term_status := st\<rparr> else t)"

definition flush_pane :: "(jsstr \<rightharpoonup> snapshot) \<Rightarrow> pane \<Rightarrow> pane" where
  "flush_pane snapshots pane =
     (case snapshots (pane_id pane) of
        None \<Rightarrow> pane
      | Some incoming \<Rightarrow>
          (let merged = mergeTerminalSnapshot (pane_snapshot pane) incoming
           in pane\<lparr>pane_terminal := with_status (snap_status merged) (pane_terminal pane),
                   pane_snapshot := Some merged\<rparr>))"

definition flush_tab :: "(jsstr \<rightharpoonup> snapshot) \<Rightarrow> tab \<Rightarrow> tab" where
  "flush_tab snapshots tab =
     (let tab' = tab\<lparr>tab_additionalTerminals := map (flush_pane snapshots) (tab_additionalTerminals tab)\<rparr>
      in case tab_terminal tab of
           None \<Rightarrow> tab'
         | Some t \<Rightarrow> (case snapshots (term_id t) of
             None \<Rightarrow> tab'
           | Some incoming \<Rightarrow>
               (let merged = mergeTerminalSnapshot (tab_terminalSnapshot tab) incoming
                in tab'\<lparr>tab_terminal := Some (with_status (snap_status merged) t),
                        tab_terminalSnapshot := Some merged\<rparr>)))"

text \<open>\<^verbatim>\<open>activeTerminalIdRef\<close> follows the active terminal after every render.\<close>

definition flushPendingSnapshots :: "workspace \<Rightarrow> workspace" where
  "flushPendingSnapshots s =
     (if w_pendingSnapshots s = [] then s
      else
        (let snapshots = map_of (w_pendingSnapshots s);
             activeTerminalId = map_option term_id (w_activeTerminal s);
             s = s\<lparr>w_pendingSnapshots := [], w_sessionTabs := map (flush_tab snapshots) (w_sessionTabs s)\<rparr>
         in case activeTerminalId of
              None \<Rightarrow> s
            | Some i \<Rightarrow> if i = [] then s else (case snapshots i of
                None \<Rightarrow> s
              | Some activeSnapshot \<Rightarrow>
                  s\<lparr>w_terminalSnapshot := Some (mergeTerminalSnapshot (w_terminalSnapshot s) activeSnapshot),
                    w_activeTerminal := map_option (\<lambda>t. if term_id t = snap_terminalId activeSnapshot
                      then with_status (snap_status activeSnapshot) t else t) (w_activeTerminal s)\<rparr>)))"

section \<open>Small handlers\<close>

definition reportWorkspaceMessage :: "jsstr \<Rightarrow> workspace \<Rightarrow> workspace" where
  "reportWorkspaceMessage message s = s\<lparr>w_message := Text message\<rparr>"

definition selectActiveProfile :: "jsstr \<Rightarrow> workspace \<Rightarrow> workspace" where
  "selectActiveProfile profileId s =
     s\<lparr>w_activeProfileId := profileId, w_message := Msg ''profile selected'' [], w_sshPassword := []\<rparr>"

definition clearPendingKnownHost :: "workspace \<Rightarrow> workspace" where
  "clearPendingKnownHost s = s\<lparr>w_pendingKnownHost := None\<rparr>"

definition changeRemotePath :: "jsstr \<Rightarrow> workspace \<Rightarrow> workspace" where
  "changeRemotePath path s = s\<lparr>w_remotePath := (if js_trim path \<noteq> [] then js_trim path else remoteRootPath),
     w_selectedRemoteEntry := None, w_remoteEntries := []\<rparr>"

definition changeLocalPath :: "jsstr \<Rightarrow> workspace \<Rightarrow> workspace" where
  "changeLocalPath path s = s\<lparr>w_localPath := path, w_selectedLocalEntry := None, w_localEntries := []\<rparr>"

definition hasRememberedPassword :: "secret list \<Rightarrow> jsstr \<Rightarrow> bool" where
  "hasRememberedPassword secrets profileId =
     list_ex (\<lambda>x. sec_profileId x = profileId \<and> sec_purpose x = PurposePassword \<and> sec_hasValue x) secrets"

end
