(* ===== verification/Defaults.thy ===== *)
theory Defaults
  imports JsNumber Paths WorkspaceState
begin

text \<open>
  The tables and default values of the front end: the capabilities of a protocol
  (\<^verbatim>\<open>src/shared/capabilities.ts\<close>), the terminal palettes and fonts (\<^verbatim>\<open>terminalThemes.ts\<close>,
  \<^verbatim>\<open>terminalFonts.ts\<close>), the background image (\<^verbatim>\<open>appBackgrounds.ts\<close>), the default settings, the
  sample data a browser preview starts with (\<^verbatim>\<open>mockData.ts\<close>) and the initial state of the workspace
  hook. Whether the system has a font is
  measured on a canvas and is a parameter.
\<close>

section \<open>Capabilities\<close>

definition disabled :: capabilities where
  "disabled = \<lparr>cap_terminal = False, cap_fileTransfer = False, cap_sftp = False, cap_scp = False,
     cap_tunnel = False, cap_portForwarding = False, cap_ptyResize = False, cap_secureTransport = False,
     cap_reconnect = False, cap_localFileAccess = False, cap_requiresHostKeyVerification = False\<rparr>"

fun capabilitiesByType :: "connection_type \<Rightarrow> capabilities" where
  "capabilitiesByType Ssh = disabled\<lparr>cap_terminal := True, cap_fileTransfer := True, cap_sftp := True, cap_scp := True, cap_tunnel := True, cap_portForwarding := True, cap_ptyResize := True, cap_secureTransport := True, cap_reconnect := True, cap_requiresHostKeyVerification := True\<rparr>"
| "capabilitiesByType Sftp = disabled\<lparr>cap_fileTransfer := True, cap_sftp := True, cap_secureTransport := True, cap_reconnect := True, cap_requiresHostKeyVerification := True\<rparr>"
| "capabilitiesByType Telnet = disabled\<lparr>cap_terminal := True, cap_ptyResize := True, cap_reconnect := True\<rparr>"
| "capabilitiesByType Serial = disabled\<lparr>cap_terminal := True, cap_reconnect := True\<rparr>"
| "capabilitiesByType RawTcp = disabled\<lparr>cap_terminal := True, cap_reconnect := True\<rparr>"
| "capabilitiesByType LocalShell = disabled\<lparr>cap_terminal := True, cap_ptyResize := True, cap_reconnect := True, cap_localFileAccess := True, cap_secureTransport := True\<rparr>"
| "capabilitiesByType Wsl = disabled\<lparr>cap_terminal := True, cap_ptyResize := True, cap_reconnect := True, cap_localFileAccess := True, cap_secureTransport := True\<rparr>"
| "capabilitiesByType DockerExec = disabled\<lparr>cap_terminal := True, cap_ptyResize := True, cap_reconnect := True\<rparr>"
| "capabilitiesByType KubernetesExec = disabled\<lparr>cap_terminal := True, cap_ptyResize := True, cap_reconnect := True\<rparr>"
| "capabilitiesByType Ftp = disabled\<lparr>cap_fileTransfer := True, cap_reconnect := True\<rparr>"
| "capabilitiesByType Ftps = disabled\<lparr>cap_fileTransfer := True, cap_secureTransport := True, cap_reconnect := True\<rparr>"
| "capabilitiesByType Webdav = disabled\<lparr>cap_fileTransfer := True, cap_reconnect := True\<rparr>"
| "capabilitiesByType S3 = disabled\<lparr>cap_fileTransfer := True, cap_secureTransport := True, cap_reconnect := True\<rparr>"

definition enabledCapabilityNames :: "capabilities \<Rightarrow> string list" where
  "enabledCapabilityNames c = map fst (filter snd [
     (''terminal'', cap_terminal c),
     (''fileTransfer'', cap_fileTransfer c),
     (''sftp'', cap_sftp c),
     (''scp'', cap_scp c),
     (''tunnel'', cap_tunnel c),
     (''portForwarding'', cap_portForwarding c),
     (''ptyResize'', cap_ptyResize c),
     (''secureTransport'', cap_secureTransport c),
     (''reconnect'', cap_reconnect c),
     (''localFileAccess'', cap_localFileAccess c),
     (''requiresHostKeyVerification'', cap_requiresHostKeyVerification c)])"

section \<open>Terminal palettes and fonts\<close>

definition dark_colors :: palette where
  "dark_colors = \<lparr>pal_background = js ''#282C34'',
     pal_foreground = js ''#ABB2BF'',
     pal_cursor = js ''#528BFF'',
     pal_selectionBackground = js ''#3E4451'',
     pal_black = js ''#5C6370'',
     pal_red = js ''#E06C75'',
     pal_green = js ''#98C379'',
     pal_yellow = js ''#E5C07B'',
     pal_blue = js ''#61AFEF'',
     pal_magenta = js ''#C678DD'',
     pal_cyan = js ''#56B6C2'',
     pal_white = js ''#ABB2BF'',
     pal_brightBlack = js ''#4B5263'',
     pal_brightRed = js ''#BE5046'',
     pal_brightGreen = js ''#98C379'',
     pal_brightYellow = js ''#D19A66'',
     pal_brightBlue = js ''#61AFEF'',
     pal_brightMagenta = js ''#C678DD'',
     pal_brightCyan = js ''#56B6C2'',
     pal_brightWhite = js ''#FFFFFF''\<rparr>"

definition light_colors :: palette where
  "light_colors = \<lparr>pal_background = js ''#F7FAFB'',
     pal_foreground = js ''#26333A'',
     pal_cursor = js ''#147D70'',
     pal_selectionBackground = js ''#D7EEE9'',
     pal_black = js ''#142027'',
     pal_red = js ''#B14B28'',
     pal_green = js ''#4F7D22'',
     pal_yellow = js ''#8A6500'',
     pal_blue = js ''#286FA8'',
     pal_magenta = js ''#8A4FA8'',
     pal_cyan = js ''#147D70'',
     pal_white = js ''#DDE5E8'',
     pal_brightBlack = js ''#66747C'',
     pal_brightRed = js ''#C45D38'',
     pal_brightGreen = js ''#669528'',
     pal_brightYellow = js ''#A77900'',
     pal_brightBlue = js ''#347FBD'',
     pal_brightMagenta = js ''#9B60B8'',
     pal_brightCyan = js ''#1D9485'',
     pal_brightWhite = js ''#FFFFFF''\<rparr>"

definition resolveTerminalPalette :: "theme_settings \<Rightarrow> palette" where
  "resolveTerminalPalette theme =
     (case th_terminalColorPreset theme of
        PresetDark \<Rightarrow> dark_colors
      | PresetLight \<Rightarrow> light_colors
      | PresetCustom \<Rightarrow> th_terminalColors theme)"

definition bundledTerminalFontFamily :: jsstr where
  "bundledTerminalFontFamily = js ''Portiva JetBrains Mono''"

definition quoteFontFamily :: "jsstr \<Rightarrow> jsstr" where
  "quoteFontFamily fontFamily =
     [34] @ concat (map (\<lambda>c. if c = 34 \<or> c = 92 then [92, c] else [c]) fontFamily) @ [34]"

definition resolveTerminalFontFamily :: "(jsstr \<Rightarrow> bool) \<Rightarrow> jsstr \<Rightarrow> jsstr" where
  "resolveTerminalFontFamily isSystemTerminalFontAvailable fontFamily =
     (let configuredFontFamily = js_trim fontFamily;
          bundledFont = quoteFontFamily bundledTerminalFontFamily
      in if configuredFontFamily = [] \<or> configuredFontFamily = bundledTerminalFontFamily then bundledFont
         else if isSystemTerminalFontAvailable configuredFontFamily
         then quoteFontFamily configuredFontFamily @ js '', '' @ bundledFont
         else bundledFont)"

definition defaultTerminalFontSize :: rat where
  "defaultTerminalFontSize = 13"

definition resolveTerminalFontSize :: "jsnum \<Rightarrow> jsnum" where
  "resolveTerminalFontSize fontSize =
     (if num_finite fontSize \<and> num_le (Fin 8) fontSize \<and> num_le fontSize (Fin 32) then fontSize
      else Fin defaultTerminalFontSize)"

section \<open>Background\<close>

definition defaultAppBackground :: background_settings where
  "defaultAppBackground = \<lparr>bg_enabled = False, bg_preset = Aurora, bg_customImage = None,
     bg_opacity = Fin 30, bg_blur = Fin 0\<rparr>"

fun preset_image :: "background_preset \<Rightarrow> jsstr option" where
  "preset_image Aurora = Some (js ''url('' @ [39] @ js ''/backgrounds/aurora.svg'' @ [39] @ js '')'')"
| "preset_image Horizon = Some (js ''url('' @ [39] @ js ''/backgrounds/horizon.svg'' @ [39] @ js '')'')"
| "preset_image Topography = Some (js ''url('' @ [39] @ js ''/backgrounds/topography.svg'' @ [39] @ js '')'')"
| "preset_image CustomBackground = None"

definition resolveAppBackgroundImage :: "background_settings \<Rightarrow> jsstr" where
  "resolveAppBackgroundImage background =
     (if \<not> bg_enabled background then js ''none''
      else if bg_preset background = CustomBackground then
        (case bg_customImage background of
           Some img \<Rightarrow> if img \<noteq> [] then js ''url('' @ [34] @ img @ [34] @ js '')'' else js ''none''
         | None \<Rightarrow> js ''none'')
      else (case preset_image (bg_preset background) of Some img \<Rightarrow> img | None \<Rightarrow> js ''none''))"

section \<open>Default settings\<close>

definition defaultSettings :: app_settings where
  "defaultSettings = \<lparr>
     set_theme = \<lparr>th_mode = ThemeDark, th_background = defaultAppBackground,
       th_terminalFontFamily = js ''Portiva JetBrains Mono'', th_terminalFontSize = Fin 13,
       th_terminalColorPreset = PresetDark, th_terminalColors = dark_colors\<rparr>,
     set_keymap = \<lparr>km_commandPalette = js ''Ctrl+Shift+P'', km_newProfile = js ''Ctrl+N'',
       km_openHostOverview = js ''Ctrl+Shift+H'', km_openLocalTerminal = js ''Ctrl+Alt+T'',
       km_openSerialTerminal = js ''Ctrl+Alt+S'', km_openSettings = js ''Ctrl+,'',
       km_increaseFontSize = js ''Ctrl+='', km_decreaseFontSize = js ''Ctrl+-'',
       km_closeTab = js ''Ctrl+W''\<rparr>,
     set_security = \<lparr>sx_requireHostKeyVerification = True, sx_redactSensitiveLogs = True,
       sx_allowInsecureWithoutWarning = False\<rparr>,
     set_terminal = \<lparr>ts_confirmMultilinePaste = True, ts_copyRichText = False,
       ts_rightClickBehavior = RightContextMenu\<rparr>,
     set_proxy = \<lparr>px_mode = ProxyNone, px_host = js ''127.0.0.1'', px_port = 7890,
       px_authenticationEnabled = False, px_username = []\<rparr>\<rparr>"

definition emptyWslDiscovery :: wsl_discovery where
  "emptyWslDiscovery = \<lparr>wsl_supported = False, wsl_available = False, wsl_distributions = [],
     wsl_message = None\<rparr>"

section \<open>Sample data\<close>

definition sample_protocol :: "connection_type \<Rightarrow> string \<Rightarrow> protocol_descriptor" where
  "sample_protocol t label = \<lparr>pd_protocolType = t, pd_label = js label, pd_enabled = True,
     pd_capabilities = capabilitiesByType t\<rparr>"

definition sampleProtocolDescriptors :: "protocol_descriptor list" where
  "sampleProtocolDescriptors = [sample_protocol Ssh ''SSH'', sample_protocol Sftp ''SFTP'',
     sample_protocol Telnet ''Telnet'', sample_protocol Serial ''Serial'',
     sample_protocol RawTcp ''Raw TCP'']"

definition sample_log :: "string \<Rightarrow> log_level \<Rightarrow> string \<Rightarrow> jsstr \<Rightarrow> log_entry" where
  "sample_log i level target message = \<lparr>log_id = js i, log_level = level, log_target = js target,
     log_message = message, log_createdAt = js ''2026-05-11T08:00:00.000Z''\<rparr>"

definition sampleLogs :: "log_entry list" where
  "sampleLogs = [
     sample_log ''log-ui-ready'' LogInfo ''ui''
       ([80, 111, 114, 116, 105, 118, 97, 32, 24037, 20316, 21306, 24050, 21021, 22987, 21270]),
     sample_log ''log-security-todo'' LogWarn ''security''
       ([20027, 26426, 23494, 38053, 30830, 35748, 27969, 31243, 23578, 26410, 25509, 20837]),
     sample_log ''log-transfer-todo'' LogDebug ''transfer''
       ([36827, 24230, 20107, 20214, 21518, 32493, 24212, 33410, 27969, 21040, 32, 49, 48, 48, 109, 115])]"

definition sampleSerialPorts :: "serial_port list" where
  "sampleSerialPorts = [
     \<lparr>port_name = js ''COM3'', port_portType = PortUsb,
      port_displayName = [85, 83, 66, 32, 20018, 21475, 35774, 22791, 32, 40, 67, 79, 77, 51, 41],
      port_manufacturer = Some (js ''Portiva Lab''), port_vid = Some 0x1a86, port_pid = Some 0x7523,
      port_isAvailable = True\<rparr>,
     \<lparr>port_name = js ''COM4'', port_portType = PortUnknown,
      port_displayName = [24050, 21344, 29992, 20018, 21475, 32, 40, 67, 79, 77, 52, 41],
      port_manufacturer = None, port_vid = None, port_pid = None, port_isAvailable = False\<rparr>]"

section \<open>The initial state of the workspace\<close>

definition initial_workspace :: workspace where
  "initial_workspace = \<lparr>w_profiles = [], w_groups = [], w_recentConnections = [],
     w_protocolDescriptors = sampleProtocolDescriptors, w_transfers = [], w_logs = sampleLogs,
     w_secrets = [], w_settings = defaultSettings, w_pendingKnownHost = None, w_knownHosts = [],
     w_serialPorts = sampleSerialPorts, w_wslDiscovery = emptyWslDiscovery, w_tunnels = [],
     w_remoteEntries = [], w_localEntries = [], w_sessionTabs = [], w_activeSessionTabId = [],
     w_activeConnection = None, w_activeFileTransferSession = None, w_activeTerminal = None,
     w_pendingSnapshots = [], w_closingTerminalIds = [], w_settingsRef = defaultSettings,
     w_lastSerialPortNames = map port_name sampleSerialPorts, w_terminalSnapshot = None,
     w_remotePath = remoteRootPath, w_localPath = [], w_selectedRemoteEntry = None,
     w_selectedLocalEntry = None, w_activeProfileId = [], w_terminalSearchQuery = [],
     w_dataSource = Loading, w_sessionNotice = [], w_message = Msg ''loading the workspace'' [],
     w_sshPassword = [], w_transferStatuses = []\<rparr>"

section \<open>Properties\<close>

text \<open>The text of a quoted CSS string, if the whole input is one.\<close>

fun css_string_body :: "jsstr \<Rightarrow> jsstr option" where
  "css_string_body [] = None"
| "css_string_body (c # s) =
     (if c = 34 then (if s = [] then Some [] else None)
      else if c = 92 then (case s of [] \<Rightarrow> None | d # s' \<Rightarrow> map_option (\<lambda>t. d # t) (css_string_body s'))
      else map_option (\<lambda>t. c # t) (css_string_body s))"

definition css_string :: "jsstr \<Rightarrow> jsstr option" where
  "css_string s = (case s of c # t \<Rightarrow> if c = 34 then css_string_body t else None | [] \<Rightarrow> None)"

text \<open>
  A font family goes into the style sheet as one quoted string that reads back as the family:
  no quote or backslash in its name can end the string early.
\<close>

theorem quoteFontFamily_roundtrip: "css_string (quoteFontFamily family) = Some family"
proof -
  have "css_string_body (concat (map (\<lambda>c. if c = 34 \<or> c = 92 then [92, c] else [c]) family) @ [34]) = Some family"
    by (induction family) auto
  then show ?thesis by (simp add: css_string_def quoteFontFamily_def)
qed

end
