(* ===== verification/Connections.thy ===== *)
theory Connections
  imports Actions SessionTabs KeyedList Defaults
begin

text \<open>
  The handlers that open, authenticate, reconnect and close connections
  (\<^verbatim>\<open>src/app/usePortivaWorkspace.ts\<close>), with the loading of the workspace and the profile and secret
  handlers they use. A handler that is long in the source is the composition of its parts, one
  definition each, in the order of the source.
\<close>

section \<open>Shared parts\<close>

text \<open>\<^verbatim>\<open>attachTerminalWithSnapshot\<close>: the terminal, and its snapshot if it can be read.\<close>

definition attachTerminalWithSnapshot ::
  "jsstr \<Rightarrow> bool \<Rightarrow> term_size \<Rightarrow> (terminal \<times> snapshot option) io" where
  "attachTerminalWithSnapshot connectionId x11Forwarding sz =
     bnd (terminalAttach connectionId sz x11Forwarding) (\<lambda>terminal.
     bnd (attempt (terminalSnapshot (term_id terminal))) (\<lambda>snapshot.
     ret (terminal, snapshot)))"

text \<open>The authentication of a profile that logs in over SSH, and its private key.\<close>

fun ssh_auth :: "profile \<Rightarrow> (auth_type \<times> jsstr option) option" where
  "ssh_auth (SshProfile p) = Some (ssh_authType p, ssh_privateKeyPath p)"
| "ssh_auth (SftpProfile p) = Some (sftp_authType p, sftp_privateKeyPath p)"
| "ssh_auth _ = None"

definition uses_password :: "profile \<Rightarrow> bool" where
  "uses_password p \<longleftrightarrow> map_option fst (ssh_auth p) = Some AuthPassword"

definition pending_host_of :: "test_result \<Rightarrow> jsstr \<Rightarrow> pending_host option" where
  "pending_host_of result profileId =
     (case (tr_testHost result, tr_testPort result, tr_fingerprint result) of
        (Some host, Some port, Some fingerprint) \<Rightarrow>
          if host \<noteq> [] \<and> port \<noteq> 0 \<and> fingerprint \<noteq> [] then
            Some \<lparr>ph_fingerprint = fingerprint, ph_host = host,
                  ph_hostKeyChanged = tr_hostKeyChanged result, ph_port = port, ph_profileId = profileId\<rparr>
          else None
      | _ \<Rightarrow> None)"

definition resolveHostTrustFailure :: "profile \<Rightarrow> err \<Rightarrow> open_result option io" where
  "resolveHostTrustFailure profile e =
     (let normalized = js_lower (err_text e)
      in if ssh_auth profile = None
            \<or> (\<not> js_includes normalized (js ''host key'') \<and> \<not> js_includes normalized (js ''fingerprint''))
         then ret None
         else catch
           (bnd (profileTestConnection profile None) (\<lambda>result.
              if tr_requiresFingerprintConfirmation result then
                thn (block [
                  (case pending_host_of result (profile_id profile) of
                     Some p \<Rightarrow> upd (\<lambda>s. s\<lparr>w_pendingKnownHost := Some p\<rparr>) | None \<Rightarrow> ret ()),
                  say (Text (tr_message result))])
                (ret (Some (connectionResult NeedsTrust (Text (tr_message result)))))
              else if \<not> tr_ok result then
                thn (say (Text (tr_message result)))
                  (ret (Some (connectionResult OpenFailed (Text (tr_message result)))))
              else ret None))
           (\<lambda>_. ret None))"

definition forgetRememberedPassword :: "secret list \<Rightarrow> jsstr \<Rightarrow> bool io" where
  "forgetRememberedPassword secrets profileId =
     (case find (\<lambda>x. sec_profileId x = profileId \<and> sec_purpose x = PurposePassword) secrets of
        None \<Rightarrow> ret False
      | Some metadata \<Rightarrow>
          thn (secretDelete (sec_id metadata))
          (thn (upd (\<lambda>s. s\<lparr>w_secrets := filter (\<lambda>x. sec_id x \<noteq> sec_id metadata) (w_secrets s)\<rparr>))
          (ret True)))"

section \<open>Loading the workspace\<close>

text \<open>\<open>loadSlice\<close> applies the answer, or the fallback with a note of the failure.\<close>

definition loadSlice :: "string \<Rightarrow> 'a io \<Rightarrow> ('a \<Rightarrow> workspace \<Rightarrow> workspace) \<Rightarrow> 'a \<Rightarrow> arg list \<Rightarrow> arg list io" where
  "loadSlice label request apply_it fallback failures =
     bnd (settle request) (\<lambda>r.
       case r of
         Inr x \<Rightarrow> thn (upd (apply_it x)) (ret failures)
       | Inl e \<Rightarrow> thn (upd (apply_it fallback)) (ret (failures @ [AStr (js label), AErr e])))"

definition apply_profiles :: "profile list \<Rightarrow> workspace \<Rightarrow> workspace" where
  "apply_profiles nextProfiles s = s\<lparr>w_profiles := nextProfiles,
     w_activeProfileId :=
       (if list_ex (\<lambda>p. profile_id p = w_activeProfileId s) nextProfiles then w_activeProfileId s
        else (case nextProfiles of p # _ \<Rightarrow> profile_id p | [] \<Rightarrow> []))\<rparr>"

definition apply_ports :: "serial_port list \<Rightarrow> workspace \<Rightarrow> workspace" where
  "apply_ports nextSerialPorts s = s\<lparr>w_lastSerialPortNames := map port_name nextSerialPorts,
     w_serialPorts := nextSerialPorts\<rparr>"

text \<open>\<^verbatim>\<open>settingsRef.current = settings\<close> runs at every render.\<close>

definition apply_settings :: "app_settings \<Rightarrow> workspace \<Rightarrow> workspace" where
  "apply_settings x s = s\<lparr>w_settings := x, w_settingsRef := x\<rparr>"

definition refreshWorkspace :: "unit io" where
  "refreshWorkspace =
     bnd (ask (\<lambda>env _. tauri_runtime env)) (\<lambda>isTauriRuntime.
     if \<not> isTauriRuntime then
       upd (\<lambda>s. s\<lparr>w_dataSource := Mock, w_message := Msg ''browser preview with sample data'' []\<rparr>)
     else
       bnd (loadSlice ''profiles'' profileList apply_profiles [] []) (\<lambda>failures.
       bnd (loadSlice ''groups'' profileGroups (\<lambda>x s. s\<lparr>w_groups := x\<rparr>) [] failures) (\<lambda>failures.
       bnd (loadSlice ''recent'' profileRecent (\<lambda>x s. s\<lparr>w_recentConnections := x\<rparr>) [] failures) (\<lambda>failures.
       bnd (loadSlice ''protocols'' protocolList (\<lambda>x s. s\<lparr>w_protocolDescriptors := x\<rparr>) [] failures) (\<lambda>failures.
       bnd (loadSlice ''transfers'' transferList (\<lambda>x s. s\<lparr>w_transfers := x\<rparr>) [] failures) (\<lambda>failures.
       bnd (loadSlice ''logs'' logList (\<lambda>x s. s\<lparr>w_logs := x\<rparr>) [] failures) (\<lambda>failures.
       bnd (loadSlice ''secrets'' secretList (\<lambda>x s. s\<lparr>w_secrets := x\<rparr>) [] failures) (\<lambda>failures.
       bnd (loadSlice ''settings'' settingsGet apply_settings defaultSettings failures) (\<lambda>failures.
       bnd (loadSlice ''known hosts'' knownHostsList (\<lambda>x s. s\<lparr>w_knownHosts := x\<rparr>) [] failures) (\<lambda>failures.
       bnd (loadSlice ''serial ports'' serialListPorts apply_ports [] failures) (\<lambda>failures.
       bnd (loadSlice ''WSL'' wslDistributionsList (\<lambda>x s. s\<lparr>w_wslDiscovery := x\<rparr>) emptyWslDiscovery failures) (\<lambda>failures.
       bnd (loadSlice ''tunnels'' tunnelList (\<lambda>x s. s\<lparr>w_tunnels := x\<rparr>) [] failures) (\<lambda>failures.
       upd (\<lambda>s. s\<lparr>w_dataSource := Tauri,
         w_message := (if failures = [] then Msg ''workspace loaded'' []
                       else Msg ''workspace loaded, some data failed'' failures)\<rparr>))))))))))))))"

section \<open>Opening a connection\<close>

record open_options =
  oo_authenticate :: bool
  oo_rememberSecret :: "bool option"
  oo_secret :: jsstr

definition optional_secret :: "jsstr \<Rightarrow> jsstr option" where
  "optional_secret s = (if s \<noteq> [] then Some s else None)"

definition authenticate :: "profile \<Rightarrow> jsstr \<Rightarrow> connection \<Rightarrow> connection io" where
  "authenticate profile secret session =
     (case ssh_auth profile of
        None \<Rightarrow> ret session
      | Some (AuthPassword, _) \<Rightarrow>
          if secret \<noteq> [] then sshAuthenticatePassword (conn_id session) secret
          else sshAuthenticateSavedPassword (conn_id session)
      | Some (AuthPrivateKey, path) \<Rightarrow>
          sshAuthenticatePrivateKey (conn_id session) (case path of Some p \<Rightarrow> p | None \<Rightarrow> [])
            (optional_secret secret)
      | Some (AuthAgent, _) \<Rightarrow> sshAuthenticateAgent (conn_id session))"

definition remember_secret :: "profile \<Rightarrow> open_options \<Rightarrow> secret list \<Rightarrow> unit io" where
  "remember_secret profile options secrets =
     (if uses_password profile \<and> oo_rememberSecret options = Some True \<and> oo_secret options \<noteq> [] then
        bnd (secretSet (profile_id profile) PurposePassword (oo_secret options)) (\<lambda>metadata.
          upd (\<lambda>s. s\<lparr>w_secrets := put_first sec_id metadata (w_secrets s)\<rparr>))
      else if ssh_auth profile \<noteq> None \<and> oo_rememberSecret options = Some False then
        thn (forgetRememberedPassword secrets (profile_id profile)) (ret ())
      else ret ())"

definition file_transfer_ready :: "connection \<Rightarrow> connection" where
  "file_transfer_ready c =
     c\<lparr>conn_transport := map_option (\<lambda>t. t\<lparr>tr_fileTransferReady := True\<rparr>) (conn_transport c)\<rparr>"

text \<open>
  The part for an SFTP profile: the transfer session, the connection marked ready and the note on
  the root directory.
\<close>

definition open_sftp_view :: "connection \<Rightarrow> (ft_session \<times> connection \<times> arg list) io" where
  "open_sftp_view session =
     bnd (fileTransferOpen (conn_id session)) (\<lambda>transferSession.
     thn (upd (\<lambda>s. s\<lparr>w_activeFileTransferSession := Some transferSession\<rparr>))
     (bnd (catch
        (thn (upd (\<lambda>s. s\<lparr>w_remotePath := remoteRootPath\<rparr>))
        (bnd (fileTransferList (fts_id transferSession) remoteRootPath) (\<lambda>entries.
           thn (upd (\<lambda>s. s\<lparr>w_remoteEntries := entries\<rparr>)) (ret [ANum (int (length entries))]))))
        (\<lambda>e. ret [AErr e])) (\<lambda>fileTransferMessage.
     ret (transferSession, file_transfer_ready session, fileTransferMessage))))"

text \<open>
  The terminal of a connection that has one. A serial line, Telnet or raw TCP connection without its
  terminal is closed and fails; the others go on with a note.
\<close>

definition attach_initial :: "profile \<Rightarrow> connection \<Rightarrow> (terminal option \<times> snapshot option \<times> arg list) io" where
  "attach_initial profile session =
     (if cap_terminal (conn_capabilities session) then
        catch
          (bnd (attachTerminalWithSnapshot (conn_id session) False defaultTerminalSize) (\<lambda>(terminal, snapshot).
             ret (Some terminal, snapshot, [])))
          (\<lambda>e. if profile_type profile \<in> {Serial, Telnet, RawTcp} then
                 thn (ignore (connectionClose (conn_id session))) (throw e)
               else ret (None, None, [AErr e]))
      else ret (None, None, []))"

definition new_tab :: "jsstr \<Rightarrow> tab_kind \<Rightarrow> connection \<Rightarrow> ft_session option \<Rightarrow> terminal option
    \<Rightarrow> snapshot option \<Rightarrow> tab" where
  "new_tab i k c fts t snap = \<lparr>tab_idField = Some i, tab_kindField = Some k, tab_connection = c,
     tab_fileTransferSession = fts, tab_parentConnectionId = None, tab_restored = False,
     tab_terminal = t, tab_additionalTerminals = [], tab_terminalLayout = None,
     tab_terminalSnapshot = snap, tab_terminalTitle = None, tab_terminalWorkingDirectory = None\<rparr>"

text \<open>\<^verbatim>\<open>markRecent\<close> and the refresh are not required for the connection to stay usable.\<close>

definition mark_recent :: "jsstr \<Rightarrow> unit io" where
  "mark_recent profileId = ignore (thn (profileMarkRecent profileId) refreshWorkspace)"

definition opened_message :: "profile \<Rightarrow> bool \<Rightarrow> connection \<Rightarrow> terminal option \<Rightarrow> arg list \<Rightarrow> arg list \<Rightarrow> msg" where
  "opened_message profile authenticatedByDialog session terminal fileTransferMessage attachMessage =
     (let title = AStr (conn_title session)
      in case (authenticatedByDialog, terminal) of
           (True, Some t) \<Rightarrow> Msg ''authenticated, terminal attached'' [title, AStr (term_id t)]
         | (True, None) \<Rightarrow>
             if profile_type profile = Sftp then Msg ''authenticated, SFTP opened'' (title # fileTransferMessage)
             else Msg ''authenticated'' (title # attachMessage)
         | (False, Some t) \<Rightarrow> Msg ''opened, terminal attached'' [title, AStr (term_id t)]
         | (False, None) \<Rightarrow> Msg ''transport opened'' (title # attachMessage))"

text \<open>What follows a successful \<^verbatim>\<open>connectionOpen\<close>; an error in it closes the connection.\<close>

definition openProfileConnection_body ::
  "profile \<Rightarrow> open_options \<Rightarrow> secret list \<Rightarrow> connection \<Rightarrow> open_result io" where
  "openProfileConnection_body profile options secrets opened =
     thn (upd (\<lambda>s. s\<lparr>w_pendingKnownHost := None\<rparr>))
     (bnd (if oo_authenticate options then authenticate profile (oo_secret options) opened else ret opened)
      (\<lambda>session.
     thn (if oo_authenticate options then remember_secret profile options secrets else ret ())
     (thn (upd clearFileTransferView)
     (bnd (if profile_type profile = Sftp
           then bnd (open_sftp_view session) (\<lambda>(fts, c, m). ret (Some fts, c, m))
           else ret (None, session, [])) (\<lambda>(transferSession, session, fileTransferMessage).
     bnd (attach_initial profile session) (\<lambda>(terminal, initialSnapshot, attachMessage).
     (let nextTab = new_tab (conn_id session)
                      (if profile_type profile = Sftp then FileTransferTab else TerminalTab)
                      session transferSession terminal initialSnapshot;
          authenticatedByDialog = (oo_authenticate options \<and> ssh_auth profile \<noteq> None);
          message = opened_message profile authenticatedByDialog session terminal fileTransferMessage attachMessage
      in thn (upd (\<lambda>s. s\<lparr>w_sessionTabs :=
                  filter (\<lambda>t. conn_id (tab_connection t) \<noteq> conn_id session) (w_sessionTabs s) @ [nextTab],
                w_activeConnection := Some session, w_activeSessionTabId := conn_id session,
                w_activeTerminal := terminal, w_terminalSnapshot := initialSnapshot,
                w_message := message, w_activeProfileId := profile_id profile\<rparr>))
         (thn (mark_recent (profile_id profile))
         (ret (connectionResult Opened message))))))))))"

definition reload_logs :: "unit io" where
  "reload_logs = ignore (bnd logList (\<lambda>l. upd (\<lambda>s. s\<lparr>w_logs := l\<rparr>)))"

text \<open>The \<^verbatim>\<open>catch\<close> of the handlers that open a profile, after the connection was closed again.\<close>

definition open_failed :: "profile \<Rightarrow> string \<Rightarrow> bool \<Rightarrow> err \<Rightarrow> open_result io" where
  "open_failed profile what reload e =
     bnd (resolveHostTrustFailure profile e) (\<lambda>trustResult.
       case trustResult of
         Some r \<Rightarrow> ret r
       | None \<Rightarrow>
           (let message = Msg what [AErr e]
            in thn (say message)
               (thn (when_io reload reload_logs) (ret (connectionResult OpenFailed message)))))"

definition openProfileConnection :: "profile \<Rightarrow> open_options \<Rightarrow> open_result io" where
  "openProfileConnection profile options =
     bnd get (\<lambda>captured.
     if oo_authenticate options \<and> uses_password profile \<and> oo_secret options = []
        \<and> \<not> hasRememberedPassword (w_secrets captured) (profile_id profile) then
       (let message = Msg ''password required'' []
        in thn (say message) (ret (connectionResult OpenFailed message)))
     else
       thn (upd (\<lambda>s. s\<lparr>w_sessionNotice := []\<rparr>))
       (bracket (connectionOpen profile) (\<lambda>c. ignore (connectionClose (conn_id c)))
         (openProfileConnection_body profile options (w_secrets captured))
         (open_failed profile ''connection failed'' True)))"

definition openActiveConnection :: "profile \<Rightarrow> open_result io" where
  "openActiveConnection fallbackProfile =
     bnd get (\<lambda>captured. openProfileConnection (activeProfile fallbackProfile captured)
       \<lparr>oo_authenticate = False, oo_rememberSecret = None, oo_secret = []\<rparr>)"

section \<open>Local shells and serial terminals\<close>

text \<open>The new tab of a shell replaces a tab of the same id, and gets the focus.\<close>

definition show_shell_tab :: "connection \<Rightarrow> terminal \<Rightarrow> snapshot \<Rightarrow> workspace \<Rightarrow> workspace" where
  "show_shell_tab c t snap s = clearFileTransferView (s\<lparr>
     w_sessionTabs := put_last tab_id (new_tab (conn_id c) TerminalTab c None (Some t) (Some snap)) (w_sessionTabs s),
     w_activeConnection := Some c, w_activeSessionTabId := conn_id c,
     w_activeTerminal := Some t, w_terminalSnapshot := Some snap\<rparr>)"

definition failed_with :: "msg \<Rightarrow> open_result io" where
  "failed_with message = thn (say message) (ret (connectionResult OpenFailed message))"

definition openLocalShellTab :: "open_result io" where
  "openLocalShellTab =
     bnd get (\<lambda>captured.
     if w_dataSource captured = Mock then failed_with (Msg ''local terminal needs the desktop'' [])
     else catch
       (thn (upd (\<lambda>s. s\<lparr>w_sessionNotice := []\<rparr>))
       (bnd (localShellOpen defaultTerminalSize) (\<lambda>opened.
        (let message = Msg ''opened'' [AStr (conn_title (so_connection opened))]
         in thn (upd (\<lambda>s. (show_shell_tab (so_connection opened) (so_terminal opened) (so_snapshot opened) s)
                 \<lparr>w_message := message\<rparr>))
            (ret (connectionResult Opened message))))))
       (\<lambda>e. failed_with (Msg ''local terminal failed'' [AErr e])))"

definition mark_distribution_running :: "jsstr \<Rightarrow> wsl_discovery \<Rightarrow> wsl_discovery" where
  "mark_distribution_running distribution d = d\<lparr>wsl_distributions :=
     map (\<lambda>x. if wsl_name x = distribution then x\<lparr>wsl_state := WslRunning\<rparr> else x) (wsl_distributions d)\<rparr>"

definition openWslShellTab :: "jsstr \<Rightarrow> open_result io" where
  "openWslShellTab distribution =
     bnd get (\<lambda>captured.
     if w_dataSource captured = Mock then failed_with (Msg ''WSL terminal needs the desktop'' [])
     else catch
       (thn (upd (\<lambda>s. s\<lparr>w_sessionNotice := []\<rparr>))
       (bnd (wslShellOpen distribution defaultTerminalSize) (\<lambda>opened.
        (let message = Msg ''opened'' [AStr (conn_title (so_connection opened))]
         in thn (upd (\<lambda>s. (show_shell_tab (so_connection opened) (so_terminal opened) (so_snapshot opened) s)
                 \<lparr>w_wslDiscovery := mark_distribution_running distribution (w_wslDiscovery s),
                  w_message := message\<rparr>))
            (ret (connectionResult Opened message))))))
       (\<lambda>e. failed_with (Msg ''WSL terminal failed'' [AErr e])))"

fun serial_draft :: "jsstr \<Rightarrow> jsstr \<Rightarrow> jsstr \<Rightarrow> profile \<Rightarrow> profile" where
  "serial_draft i now portName (SerialProfile p) =
     SerialProfile (p\<lparr>prof_id := i, prof_name := serialTabTitle, ser_portName := portName, prof_updatedAt := now\<rparr>)"
| "serial_draft i now portName p = p"

text \<open>The connection of a serial tab before its port is opened.\<close>

definition pending_serial :: "connection \<Rightarrow> connection" where
  "pending_serial c = serial_disconnected c"

definition openSerialTerminalTab :: "open_result io" where
  "openSerialTerminalTab =
     bnd get (\<lambda>captured.
     if w_dataSource captured = Mock then failed_with (Msg ''serial terminal needs the desktop'' [])
     else catch
       (thn (upd (\<lambda>s. s\<lparr>w_sessionNotice := []\<rparr>))
       (bnd (ask (\<lambda>env h. (fresh_id env h, clock env h))) (\<lambda>(i, now).
        (let portName = (case find port_isAvailable (w_serialPorts captured) of Some p \<Rightarrow> port_name p | None \<Rightarrow> []);
             profile = serial_draft (js ''serial-runtime-'' @ i) now portName (newConnectionProfile i now Serial)
         in bnd (serialTerminalCreate profile defaultTerminalSize) (\<lambda>opened.
            (let message = Msg ''serial terminal opened, choose a port'' []
             in thn (upd (\<lambda>s. (show_shell_tab (pending_serial (so_connection opened)) (so_terminal opened)
                        (so_snapshot opened) s)\<lparr>w_message := message\<rparr>))
                (ret (connectionResult Opened message))))))))
       (\<lambda>e. failed_with (Msg ''serial terminal failed'' [AErr e])))"

section \<open>Connections that are opened are kept or closed\<close>

text \<open>The events that open and close a connection of the back end.\<close>

fun opened_connection :: "request \<times> answer \<Rightarrow> jsstr option" where
  "opened_connection (ConnectionOpen _, Inr (RConnection c)) = Some (conn_id c)"
| "opened_connection _ = None"

fun closed_connection :: "request \<times> answer \<Rightarrow> jsstr option" where
  "closed_connection (ConnectionClose i, _) = Some i"
| "closed_connection _ = None"

abbreviation quiet :: "'a io \<Rightarrow> bool" where
  "quiet \<equiv> emits (\<lambda>e. opened_connection e = None)"

lemma ignore_run: "\<exists>v. ignore m env w = (Inr (), v) \<and> v = snd (m env w)"
  by (auto simp: ignore_def catch_def thn_def bnd_def ret_def split: prod.split sum.split)

interpretation profile_connection: resource opened_connection closed_connection
  "connectionOpen profile" conn_id "\<lambda>c. ignore (connectionClose (conn_id c))" for profile
proof unfold_locales
  fix env w r w'
  show "connectionOpen profile env w = (Inr r, w') \<Longrightarrow>
      \<exists>h. history_of w' = history_of w @ h \<and> ids opened_connection h = [conn_id r]"
    by (auto simp: connectionOpen_def invoke_run as_connection_def split: sum.splits option.splits reply.splits)
next
  fix env w e w'
  show "connectionOpen profile env w = (Inl e, w') \<Longrightarrow>
      \<exists>h. history_of w' = history_of w @ h \<and> ids opened_connection h = []"
    by (auto simp: connectionOpen_def invoke_run as_connection_def split: sum.splits option.splits reply.splits)
next
  fix r :: connection and env :: environment and w
  obtain v where "ignore (connectionClose (conn_id r)) env w = (Inr (), v)"
      "v = snd (connectionClose (conn_id r) env w)" using ignore_run by blast
  then show "\<exists>v h. ignore (connectionClose (conn_id r)) env w = (Inr (), v)
      \<and> history_of v = history_of w @ h \<and> ids opened_connection h = []
      \<and> conn_id r \<in> set (ids closed_connection h)"
    by (simp add: connectionClose_def invoke_run)
qed

lemmas quiet_command = emits_invoke [where A = "\<lambda>e. opened_connection e = None"]

lemma quiet_commands [act]:
  "quiet (connectionClose i)" "quiet (sshAuthenticatePassword i p)" "quiet (sshAuthenticateSavedPassword i)"
  "quiet (sshAuthenticatePrivateKey i k x)" "quiet (sshAuthenticateAgent i)" "quiet (terminalAttach i z b)"
  "quiet (terminalSnapshot i)" "quiet (profileTestConnection pr s)" "quiet (secretDelete i)"
  "quiet (secretSet i pp v)" "quiet profileList" "quiet profileGroups" "quiet profileRecent" "quiet protocolList"
  "quiet transferList" "quiet logList" "quiet secretList" "quiet settingsGet" "quiet knownHostsList"
  "quiet serialListPorts" "quiet wslDistributionsList" "quiet tunnelList" "quiet (fileTransferOpen i)"
  "quiet (fileTransferList i p)" "quiet (profileMarkRecent i)" "quiet (terminalClose i)"
  by (simp_all add: command_defs quiet_command)

lemma quiet_attach [act]: "quiet (attachTerminalWithSnapshot c x z)"
  by (simp add: attachTerminalWithSnapshot_def act)

lemma quiet_trust [act]: "quiet (resolveHostTrustFailure profile e)"
  by (auto simp: resolveHostTrustFailure_def Let_def intro!: act split: option.split)

lemma quiet_forget [act]: "quiet (forgetRememberedPassword secrets i)"
  by (auto simp: forgetRememberedPassword_def intro!: act split: option.split)

lemma emits_loadSlice [act]: "emits A m \<Longrightarrow> emits A (loadSlice l m f x fs)"
  unfolding loadSlice_def by (intro act)

lemma quiet_refresh [act]: "quiet refreshWorkspace"
  unfolding refreshWorkspace_def by (intro act)

lemma quiet_mark_recent [act]: "quiet (mark_recent i)"
  by (simp add: mark_recent_def act)

lemma quiet_authenticate [act]: "quiet (authenticate profile secret session)"
  by (auto simp: authenticate_def intro!: act split: option.split auth_type.split prod.split)

lemma quiet_remember [act]: "quiet (remember_secret profile options secrets)"
  by (auto simp: remember_secret_def intro!: act)

lemma quiet_sftp [act]: "quiet (open_sftp_view session)"
  by (auto simp: open_sftp_view_def intro!: act)

lemma quiet_attach_initial [act]: "quiet (attach_initial profile session)"
  by (auto simp: attach_initial_def intro!: act split: prod.split)

lemma quiet_body: "quiet (openProfileConnection_body profile options secrets opened)"
  by (auto simp: openProfileConnection_body_def Let_def intro!: act split: prod.split)

lemma quiet_open_failed: "quiet (open_failed profile what reload e)"
  by (auto simp: open_failed_def reload_logs_def Let_def intro!: act split: option.split)

lemma body_opened: "yields (\<lambda>r. or_status r = Opened) (openProfileConnection_body profile options secrets opened)"
  by (auto simp: openProfileConnection_body_def Let_def connectionResult_def intro!: act split: prod.split)

lemma open_leakless:
  "leakless opened_connection closed_connection (\<lambda>r. or_status r = Opened) (openProfileConnection profile options)"
  unfolding openProfileConnection_def Let_def
  by (intro leakless_rules profile_connection.bracket_leakless quiet_body quiet_open_failed
      body_opened; (rule leakless_quiet)?; intro act)

text \<open>
  C1. Opening a profile never leaves a connection behind: whatever the back end answers and whatever
  runs meanwhile, at most one connection is opened, and unless the handler reports it as opened it
  was closed again.
\<close>

theorem openProfileConnection_no_leak:
  "case openProfileConnection profile options env w of (res, w') \<Rightarrow>
     \<exists>h. history_of w' = history_of w @ h \<and> length (ids opened_connection h) \<le> 1
       \<and> ((\<exists>r. res = Inr r \<and> or_status r = Opened)
          \<or> set (ids opened_connection h) \<subseteq> set (ids closed_connection h))"
  by (rule leaklessD [OF open_leakless])

end
