(* ===== verification/Reconnect.thy ===== *)
theory Reconnect
  imports Connections
begin

text \<open>
  Reconnecting a tab, authenticating the active connection, closing a tab, and the tabs that move
  between windows (\<^verbatim>\<open>reconnectSessionTab\<close>, \<^verbatim>\<open>authenticateActiveSshPassword\<close>, \<^verbatim>\<open>closeConnection\<close>,
  \<^verbatim>\<open>resolveDetachedSessionTab\<close> and its two callers in \<^verbatim>\<open>src/app/usePortivaWorkspace.ts\<close>).
\<close>

section \<open>Reconnecting a tab\<close>

text \<open>The old terminals and the old connection are closed first, whatever the back end says.\<close>

definition close_old :: "workspace \<Rightarrow> tab \<Rightarrow> unit io" where
  "close_old captured tab = block [
     for_each (terminalPanesForTab tab) (\<lambda>p. ignore (terminalClose (pane_id p))),
     ignore (connectionClose (conn_id (tab_connection tab))),
     upd (markConnectionTabsDisconnected (w_activeConnection captured) (conn_id (tab_connection tab)))]"

definition put_tab_at :: "nat \<Rightarrow> tab \<Rightarrow> tab list \<Rightarrow> tab list" where
  "put_tab_at i tab tabs = insert_at (min i (length tabs)) tab tabs"

definition reconnect_local :: "workspace \<Rightarrow> jsstr \<Rightarrow> nat \<Rightarrow> tab \<Rightarrow> bool \<Rightarrow> open_result io" where
  "reconnect_local captured tabId reconnectIndex reconnectTab isWslTerminal =
     (if w_dataSource captured = Mock then failed_with (Msg ''terminal needs the desktop'' [])
      else catch
        (thn (close_old captured reconnectTab)
        (bnd (if isWslTerminal
              then wslShellOpen (case conn_transport (tab_connection reconnectTab) of Some t \<Rightarrow> tr_host t | None \<Rightarrow> [])
                     defaultTerminalSize
              else localShellOpen defaultTerminalSize) (\<lambda>opened.
         (let nextTab = new_tab tabId TerminalTab (so_connection opened) None (Some (so_terminal opened))
                          (Some (so_snapshot opened));
              message = Msg ''reconnected'' [AStr (conn_title (so_connection opened))]
          in thn (upd (\<lambda>s. (clearFileTransferView (s\<lparr>w_sessionTabs := put_tab_at reconnectIndex nextTab
                     (filter (\<lambda>t. tab_id t \<noteq> tabId) (w_sessionTabs s))\<rparr>))
                  \<lparr>w_activeConnection := Some (so_connection opened), w_activeSessionTabId := tabId,
                   w_activeTerminal := Some (so_terminal opened),
                   w_terminalSnapshot := Some (so_snapshot opened), w_message := message\<rparr>))
             (ret (connectionResult Opened message))))))
        (\<lambda>e. failed_with (Msg ''terminal reconnect failed'' [AErr e])))"

text \<open>What follows the \<^verbatim>\<open>connectionOpen\<close> of a reconnect.\<close>

definition reconnect_body ::
  "profile \<Rightarrow> open_options \<Rightarrow> secret list \<Rightarrow> jsstr \<Rightarrow> nat \<Rightarrow> tab \<Rightarrow> connection \<Rightarrow> open_result io" where
  "reconnect_body profile options secrets tabId reconnectIndex reconnectTab opened =
     thn (upd (\<lambda>s. s\<lparr>w_pendingKnownHost := None\<rparr>))
     (bnd (authenticate profile (oo_secret options) opened) (\<lambda>session.
     thn (remember_secret profile options secrets)
     (bnd (attach_initial profile session) (\<lambda>(terminal, initialSnapshot, attachMessage).
     (let nextTab = new_tab tabId TerminalTab session None terminal initialSnapshot;
          message = (case terminal of
             Some t \<Rightarrow> Msg ''reconnected, terminal attached'' [AStr (conn_title session), AStr (term_id t)]
           | None \<Rightarrow> Msg ''reconnected'' (AStr (conn_title session) # attachMessage))
      in thn (upd (\<lambda>s. (clearFileTransferView (s\<lparr>w_sessionTabs := put_tab_at reconnectIndex nextTab
                 (filter (\<lambda>t. tab_id t \<noteq> tabId
                    \<and> tab_parentConnectionId t \<noteq> Some (conn_id (tab_connection reconnectTab))) (w_sessionTabs s))\<rparr>))
              \<lparr>w_activeConnection := Some session, w_activeSessionTabId := tabId, w_activeTerminal := terminal,
               w_terminalSnapshot := initialSnapshot, w_activeProfileId := profile_id profile,
               w_message := message\<rparr>))
         (thn (mark_recent (profile_id profile))
         (ret (connectionResult Opened message))))))))"

definition reconnectSessionTab :: "jsstr \<Rightarrow> open_options \<Rightarrow> profile option \<Rightarrow> open_result io" where
  "reconnectSessionTab tabId options profileOverride =
     bnd get (\<lambda>captured.
     (let reconnectIndex = js_findIndex (\<lambda>t. tab_id t = tabId) (w_sessionTabs captured)
      in case js_at (w_sessionTabs captured) reconnectIndex of
           None \<Rightarrow> failed_with (Msg ''no tab to reconnect'' [AStr tabId])
         | Some reconnectTab \<Rightarrow>
             if tab_kind_of reconnectTab = FileTransferTab then failed_with (Msg ''reconnect the SSH tab instead'' [])
             else
               (let localTerminalKind = map_option tr_kind (conn_transport (tab_connection reconnectTab))
                in if localTerminalKind = Some KLocalShell \<or> localTerminalKind = Some KWsl then
                     reconnect_local captured tabId (nat reconnectIndex) reconnectTab (localTerminalKind = Some KWsl)
                   else
                     (case (case profileOverride of Some p \<Rightarrow> Some p
                            | None \<Rightarrow> find (\<lambda>p. profile_id p = conn_profileId (tab_connection reconnectTab)) (w_profiles captured)) of
                        None \<Rightarrow> failed_with (Msg ''no profile for the tab'' [AStr (conn_profileId (tab_connection reconnectTab))])
                      | Some profile \<Rightarrow>
                          if uses_password profile \<and> oo_secret options = []
                             \<and> \<not> hasRememberedPassword (w_secrets captured) (profile_id profile)
                          then failed_with (Msg ''password required again'' [])
                          else thn (close_old captured reconnectTab)
                            (bracket (connectionOpen profile) (\<lambda>c. ignore (connectionClose (conn_id c)))
                              (reconnect_body profile options (w_secrets captured) tabId (nat reconnectIndex) reconnectTab)
                              (open_failed profile ''reconnect failed'' False))))))"

text \<open>Closing the old connection opens nothing.\<close>

lemma quiet_close_old [act]: "quiet (close_old captured tab)"
  by (auto simp: close_old_def intro!: act)

lemma quiet_reconnect_body:
  "quiet (reconnect_body profile options secrets tabId i tab opened)"
  by (auto simp: reconnect_body_def Let_def intro!: act split: prod.split)

lemma reconnect_body_opened:
  "yields (\<lambda>r. or_status r = Opened) (reconnect_body profile options secrets tabId i tab opened)"
  by (auto simp: reconnect_body_def Let_def connectionResult_def intro!: act split: prod.split)

lemma quiet_failed_with [act]: "quiet (failed_with m)"
  by (simp add: failed_with_def act)

lemma quiet_shells [act]: "quiet (localShellOpen z)" "quiet (wslShellOpen d z)"
  by (simp_all add: command_defs quiet_command)

lemma quiet_reconnect_local [act]: "quiet (reconnect_local captured tabId i tab wsl)"
  by (auto simp: reconnect_local_def Let_def intro!: act)

lemma reconnect_leakless:
  "leakless opened_connection closed_connection (\<lambda>r. or_status r = Opened)
     (reconnectSessionTab tabId options profileOverride)"
  unfolding reconnectSessionTab_def Let_def
  by (intro leakless_rules profile_connection.bracket_leakless quiet_reconnect_body quiet_open_failed
      reconnect_body_opened; (rule leakless_quiet)?; intro act)

text \<open>
  C9. Reconnecting a tab never leaves a connection behind either: at most one connection is opened,
  and unless the handler reports it as opened it was closed again.
\<close>

theorem reconnectSessionTab_no_leak:
  "case reconnectSessionTab tabId options profileOverride env w of (res, w') \<Rightarrow>
     \<exists>h. history_of w' = history_of w @ h \<and> length (ids opened_connection h) \<le> 1
       \<and> ((\<exists>r. res = Inr r \<and> or_status r = Opened)
          \<or> set (ids opened_connection h) \<subseteq> set (ids closed_connection h))"
  by (rule leaklessD [OF reconnect_leakless])

section \<open>Authenticating the active connection\<close>

definition authenticate_active :: "profile \<Rightarrow> jsstr \<Rightarrow> jsstr \<Rightarrow> connection io" where
  "authenticate_active profile password connectionId =
     (case ssh_auth profile of
        Some (AuthPrivateKey, path) \<Rightarrow>
          sshAuthenticatePrivateKey connectionId (case path of Some p \<Rightarrow> p | None \<Rightarrow> []) (optional_secret password)
      | Some (AuthAgent, _) \<Rightarrow> sshAuthenticateAgent connectionId
      | _ \<Rightarrow> sshAuthenticatePassword connectionId password)"

definition attach_authenticated :: "connection \<Rightarrow> (terminal option \<times> snapshot option \<times> arg list) io" where
  "attach_authenticated session =
     (if cap_terminal (conn_capabilities session) then
        catch
          (bnd (attachTerminalWithSnapshot (conn_id session) False defaultTerminalSize) (\<lambda>(terminal, snapshot).
             ret (Some terminal, snapshot, [])))
          (\<lambda>e. ret (None, None, [AErr e]))
      else ret (None, None, []))"

definition authenticateActiveSshPassword :: "profile \<Rightarrow> unit io" where
  "authenticateActiveSshPassword fallbackProfile =
     bnd get (\<lambda>captured.
     (let profile = activeProfile fallbackProfile captured; password = w_sshPassword captured
      in case w_activeConnection captured of
           None \<Rightarrow> say (Msg ''open an SSH connection first'' [])
         | Some activeConnection \<Rightarrow>
             if uses_password profile \<and> password = [] then say (Msg ''password required'' [])
             else catch
               (bnd (authenticate_active profile password (conn_id activeConnection)) (\<lambda>session.
                bnd (if profile_type profile = Sftp
                     then thn (upd clearFileTransferView)
                       (bnd (open_sftp_view session) (\<lambda>(_, c, m). ret (c, m)))
                     else ret (session, [])) (\<lambda>(session, fileTransferMessage).
                bnd (attach_authenticated session) (\<lambda>(terminal, initialSnapshot, attachMessage).
                thn (upd (\<lambda>s. s\<lparr>w_activeConnection := Some session, w_activeSessionTabId := conn_id session,
                   w_sessionTabs := map (\<lambda>t. if conn_id (tab_connection t) = conn_id session
                     then t\<lparr>tab_idField := Some (case tab_idField t of Some i \<Rightarrow> i | None \<Rightarrow> conn_id session),
                            tab_kindField := Some TerminalTab, tab_connection := session,
                            tab_terminal := terminal, tab_terminalSnapshot := initialSnapshot,
                            tab_terminalTitle := None\<rparr>
                     else t) (w_sessionTabs s),
                   w_activeTerminal := terminal, w_terminalSnapshot := initialSnapshot, w_sshPassword := [],
                   w_message := (if profile_type profile = Sftp
                     then Msg ''authenticated, SFTP opened'' (AStr (conn_title session) # fileTransferMessage)
                     else (case terminal of
                       Some t \<Rightarrow> Msg ''authenticated, PTY attached'' [AStr (conn_title session), AStr (term_id t)]
                     | None \<Rightarrow> Msg ''authenticated'' (AStr (conn_title session) # attachMessage)))\<rparr>))
                refreshWorkspace))))
               (\<lambda>e. say (Msg ''SSH authentication failed'' [AErr e]))))"

section \<open>Closing a tab\<close>

definition close_file_tab :: "workspace \<Rightarrow> int \<Rightarrow> tab \<Rightarrow> unit io" where
  "close_file_tab captured closingTabIndex closingTab =
     bnd (settle (block [
       (case tab_fileTransferSession closingTab of
          Some f \<Rightarrow> thn (fileTransferClose (fts_id f)) (ret ()) | None \<Rightarrow> ret ()),
       when_io (case tab_parentConnectionId closingTab of Some p \<Rightarrow> p = [] | None \<Rightarrow> True)
         (connectionClose (conn_id (tab_connection closingTab)))])) (\<lambda>r.
     case r of
       Inl e \<Rightarrow> say (Msg ''SFTP disconnect failed'' [AErr e])
     | Inr _ \<Rightarrow>
         (let remainingTabs = filter (\<lambda>t. tab_id t \<noteq> tab_id closingTab) (w_sessionTabs captured);
              nextTab = next_tab closingTabIndex remainingTabs
          in upd (\<lambda>s.
               (let s = s\<lparr>w_sessionTabs := remainingTabs, w_message := Text []\<rparr>
                in if w_activeSessionTabId captured = tab_id closingTab then focus_next nextTab s else s))))"

text \<open>
  The state once the tab is closed: \<open>captured\<close> is the state of the render the handler was created in.
\<close>

definition drop_closed_tab :: "workspace \<Rightarrow> int \<Rightarrow> tab \<Rightarrow> workspace \<Rightarrow> workspace" where
  "drop_closed_tab captured closingTabIndex closingTab s =
     (let remainingTabs = filter (\<lambda>t. tab_id t \<noteq> tab_id closingTab
            \<and> tab_parentConnectionId t \<noteq> Some (conn_id (tab_connection closingTab))) (w_sessionTabs captured);
          activeId = map_option conn_id (w_activeConnection captured);
          isClosingActive = (w_activeSessionTabId captured = tab_id closingTab
            \<or> activeId = Some (conn_id (tab_connection closingTab))
            \<or> activeId = Some (conn_id (tab_connection closingTab) @ js '':sftp''));
          nextTab = next_tab closingTabIndex remainingTabs;
          s = s\<lparr>w_sessionTabs := remainingTabs, w_message := Text [], w_sshPassword := []\<rparr>
      in if isClosingActive then focus_next nextTab s else s)"

text \<open>The ids of terminals that are being closed leave the set five seconds later, in a timer.\<close>

definition close_terminal_tab :: "workspace \<Rightarrow> int \<Rightarrow> tab \<Rightarrow> unit io" where
  "close_terminal_tab captured closingTabIndex closingTab =
     (let closingTerminalIds = map pane_id (terminalPanesForTab closingTab)
      in catch
        (block [
          upd (\<lambda>s. s\<lparr>w_closingTerminalIds := w_closingTerminalIds s @ closingTerminalIds\<rparr>),
          thn (all_of terminalClose closingTerminalIds) (ret ()),
          connectionClose (conn_id (tab_connection closingTab)),
          upd (drop_closed_tab captured closingTabIndex closingTab)])
        (\<lambda>e. say (Msg ''disconnect failed'' [AErr e])))"

definition closeConnection :: "jsstr \<Rightarrow> unit io" where
  "closeConnection connectionId =
     bnd get (\<lambda>captured.
     (let closingTabIndex = js_findIndex (\<lambda>t. tab_id t = connectionId
            \<or> conn_id (tab_connection t) = connectionId) (w_sessionTabs captured)
      in case js_at (w_sessionTabs captured) closingTabIndex of
           None \<Rightarrow> say (Msg ''no connection to close'' [AStr connectionId])
         | Some closingTab \<Rightarrow>
             if tab_kind_of closingTab = FileTransferTab then close_file_tab captured closingTabIndex closingTab
             else close_terminal_tab captured closingTabIndex closingTab))"

definition closeActiveConnection :: "unit io" where
  "closeActiveConnection =
     bnd get (\<lambda>captured.
     case w_activeConnection captured of
       None \<Rightarrow> say (Msg ''no active connection'' [])
     | Some c \<Rightarrow> closeConnection (conn_id c))"

section \<open>Tabs of other windows\<close>

record detached_target =
  dt_connectionId :: jsstr
  dt_fileTransferSessionId :: "jsstr option"
  dt_kind :: "tab_kind option"
  dt_parentConnectionId :: "jsstr option"
  dt_remotePath :: "jsstr option"
  dt_tabId :: jsstr
  dt_additionalTerminalIds :: "jsstr list"
  dt_terminalLayout :: "layout option"
  dt_terminalId :: "jsstr option"

record detached_result =
  dr_fileTransferEntries :: "remote_entry list option"
  dr_fileTransferMessage :: "arg list"
  dr_remotePath :: "jsstr option"
  dr_tab :: tab
  dr_terminalSnapshot :: "snapshot option"

definition sftp_connection :: "jsstr \<Rightarrow> connection \<Rightarrow> connection" where
  "sftp_connection i c = c\<lparr>conn_id := i, conn_title := conn_title c @ js '' / SFTP'',
     conn_capabilities := (conn_capabilities c)\<lparr>cap_terminal := False, cap_fileTransfer := True, cap_sftp := True\<rparr>\<rparr>"

definition resolve_file_tab :: "detached_target \<Rightarrow> jsstr \<Rightarrow> detached_result io" where
  "resolve_file_tab target sessionId =
     bnd (settle (connectionGet (dt_connectionId target))) (\<lambda>c.
     bnd (settle (fileTransferSession sessionId)) (\<lambda>f.
     bnd (from_sum c) (\<lambda>connection.
     bnd (from_sum f) (\<lambda>transferSession.
     if fts_connectionId transferSession \<noteq> conn_id connection then
       throw (Thrown (Msg ''transfer session of another connection'' [AStr (fts_id transferSession), AStr (conn_id connection)]))
     else
       (let parent = truthy (dt_parentConnectionId target);
            restoredTabId = (if dt_tabId target \<noteq> [] then dt_tabId target
              else if parent \<noteq> None then conn_id connection @ js '':sftp:'' @ fts_id transferSession
              else conn_id connection);
            restoredConnection = file_transfer_ready
              (if parent \<noteq> None then sftp_connection restoredTabId connection else connection);
            restoredTab = (new_tab restoredTabId FileTransferTab restoredConnection (Some transferSession) None None)
              \<lparr>tab_parentConnectionId := dt_parentConnectionId target, tab_restored := True\<rparr>;
            targetPath = normalizeRemotePathInput
              (case dt_remotePath target of Some p \<Rightarrow> p | None \<Rightarrow> remoteRootPath)
        in bnd (settle (fileTransferList (fts_id transferSession) targetPath)) (\<lambda>r.
           ret \<lparr>dr_fileTransferEntries = Some (case r of Inr entries \<Rightarrow> entries | Inl _ \<Rightarrow> []),
                dr_fileTransferMessage = (case r of Inr entries \<Rightarrow> [ANum (int (length entries))] | Inl e \<Rightarrow> [AErr e]),
                dr_remotePath = Some targetPath, dr_tab = restoredTab, dr_terminalSnapshot = None\<rparr>))))))"

text \<open>The distinct ids in order of first occurrence, at most four.\<close>

definition restored_ids :: "jsstr \<Rightarrow> jsstr list \<Rightarrow> jsstr list" where
  "restored_ids first others = take maximumSshTerminalPanes (js_unique (first # others))"

fun check_owner :: "connection \<Rightarrow> terminal list \<Rightarrow> unit io" where
  "check_owner c [] = ret ()"
| "check_owner c (t # ts) =
     (if term_connectionId t \<noteq> conn_id c
      then throw (Thrown (Msg ''terminal of another connection'' [AStr (term_id t), AStr (conn_id c)]))
      else check_owner c ts)"

definition resolve_terminal_tab :: "detached_target \<Rightarrow> jsstr \<Rightarrow> detached_result io" where
  "resolve_terminal_tab target terminalId =
     (let terminalIds = restored_ids terminalId (dt_additionalTerminalIds target)
      in bnd (settle (connectionGet (dt_connectionId target))) (\<lambda>c.
         bnd (settle (all_of terminalSession terminalIds)) (\<lambda>ts.
         bnd (from_sum c) (\<lambda>connection.
         bnd (from_sum ts) (\<lambda>terminals.
         thn (check_owner connection terminals)
         (bnd (map_io (\<lambda>t. attempt (terminalSnapshot (term_id t))) terminals) (\<lambda>snapshots.
         (let panes = map (\<lambda>(t, s). \<lparr>pane_terminal = t, pane_snapshot = s, pane_title = None,
                pane_workingDirectory = None\<rparr>) (zip terminals snapshots);
              snapshot = (case snapshots of s # _ \<Rightarrow> s | [] \<Rightarrow> None);
              restoredTab = (new_tab (if dt_tabId target \<noteq> [] then dt_tabId target else conn_id connection)
                  TerminalTab connection None (case terminals of t # _ \<Rightarrow> Some t | [] \<Rightarrow> None) snapshot)
                \<lparr>tab_restored := True, tab_additionalTerminals := drop 1 panes,
                 tab_terminalLayout := dt_terminalLayout target\<rparr>
          in ret \<lparr>dr_fileTransferEntries = None, dr_fileTransferMessage = [], dr_remotePath = None,
                  dr_tab = restoredTab, dr_terminalSnapshot = snapshot\<rparr>))))))))"

definition resolveDetachedSessionTab :: "detached_target \<Rightarrow> detached_result io" where
  "resolveDetachedSessionTab target =
     (let kind = (case dt_kind target of Some k \<Rightarrow> k
            | None \<Rightarrow> if truthy (dt_fileTransferSessionId target) \<noteq> None then FileTransferTab else TerminalTab)
      in if kind = FileTransferTab then
           (case truthy (dt_fileTransferSessionId target) of
              None \<Rightarrow> throw (Thrown (Msg ''no transfer session id'' []))
            | Some i \<Rightarrow> resolve_file_tab target i)
         else
           (case truthy (dt_terminalId target) of
              None \<Rightarrow> throw (Thrown (Msg ''no terminal id'' []))
            | Some i \<Rightarrow> resolve_terminal_tab target i))"

text \<open>A restored tab gets the focus, with its directory when it shows files.\<close>

definition focus_restored :: "detached_result \<Rightarrow> string \<Rightarrow> workspace \<Rightarrow> workspace" where
  "focus_restored restored what s =
     (let tab = dr_tab restored;
          s = s\<lparr>w_activeSessionTabId := tab_id tab, w_activeConnection := Some (tab_connection tab),
                w_activeTerminal := tab_terminal tab, w_terminalSnapshot := dr_terminalSnapshot restored,
                w_activeProfileId := conn_profileId (tab_connection tab)\<rparr>;
          s = (case (tab_kind_of tab, tab_fileTransferSession tab) of
                 (FileTransferTab, Some session) \<Rightarrow>
                   s\<lparr>w_activeFileTransferSession := Some session,
                     w_remotePath := (case dr_remotePath restored of Some p \<Rightarrow> p | None \<Rightarrow> remoteRootPath),
                     w_remoteEntries := (case dr_fileTransferEntries restored of Some e \<Rightarrow> e | None \<Rightarrow> []),
                     w_selectedRemoteEntry := None\<rparr>
               | _ \<Rightarrow> clearFileTransferView s)
      in s\<lparr>w_dataSource := Tauri,
           w_message := (if tab_kind_of tab = FileTransferTab
             then Msg what (AStr (conn_title (tab_connection tab)) # dr_fileTransferMessage restored)
             else Msg what [AStr (conn_title (tab_connection tab))])\<rparr>)"

definition restoreDetachedSessionTab :: "detached_target \<Rightarrow> unit io" where
  "restoreDetachedSessionTab target =
     catch
       (bnd (resolveDetachedSessionTab target) (\<lambda>restored.
          upd (\<lambda>s. focus_restored restored ''taken over in a window''
            (s\<lparr>w_sessionNotice := [], w_sessionTabs := [dr_tab restored]\<rparr>))))
       (\<lambda>e. upd (\<lambda>s. (clearFileTransferView (s\<lparr>w_sessionTabs := [], w_activeSessionTabId := [],
          w_activeConnection := None, w_activeTerminal := None, w_terminalSnapshot := None\<rparr>))
          \<lparr>w_message := Msg ''restore failed'' [AErr e]\<rparr>))"

definition attachDetachedSessionTab :: "detached_target \<Rightarrow> unit io" where
  "attachDetachedSessionTab target =
     catch
       (bnd (resolveDetachedSessionTab target) (\<lambda>restored.
          upd (\<lambda>s. focus_restored restored ''merged into this window''
            (s\<lparr>w_sessionNotice := [], w_sessionTabs := put_last tab_id (dr_tab restored) (w_sessionTabs s)\<rparr>))))
       (\<lambda>e. thn (say (Msg ''attach failed'' [AErr e])) (throw e))"

end
