(* ===== verification/Profiles.thy ===== *)
theory Profiles
  imports Connections
begin

text \<open>
  The handlers of \<^verbatim>\<open>src/app/usePortivaWorkspace.ts\<close> for saved profiles, credentials, known hosts and
  logs (\<^verbatim>\<open>saveProfile\<close>, \<^verbatim>\<open>deleteProfile\<close>, \<^verbatim>\<open>testProfile\<close>, \<^verbatim>\<open>trustProfileHost\<close>,
  \<^verbatim>\<open>deleteSecretMetadata\<close>, \<^verbatim>\<open>revealProfilePassword\<close>, \<^verbatim>\<open>deleteKnownHost\<close>, \<^verbatim>\<open>clearLogs\<close>). The theorem
  on \<open>trustProfileHost\<close> states that a host key is trusted only for the profile, host and port it was
  read for.
\<close>

section \<open>Saving and deleting a profile\<close>

record save_options =
  so_rememberSecret :: "bool option"
  so_secret :: jsstr

fun touched :: "jsstr \<Rightarrow> profile \<Rightarrow> profile" where
  "touched now (SshProfile p) = SshProfile (p\<lparr>prof_updatedAt := now\<rparr>)"
| "touched now (SftpProfile p) = SftpProfile (p\<lparr>prof_updatedAt := now\<rparr>)"
| "touched now (TelnetProfile p) = TelnetProfile (p\<lparr>prof_updatedAt := now\<rparr>)"
| "touched now (SerialProfile p) = SerialProfile (p\<lparr>prof_updatedAt := now\<rparr>)"
| "touched now (RawSocketProfile p) = RawSocketProfile (p\<lparr>prof_updatedAt := now\<rparr>)"

definition profile_name :: "profile \<Rightarrow> jsstr" where
  "profile_name p = prof_name (profile_base p)"

text \<open>The password part of \<^verbatim>\<open>saveProfile\<close>, with the note for the message.\<close>

definition save_password :: "profile \<Rightarrow> save_options \<Rightarrow> secret list \<Rightarrow> string io" where
  "save_password profile options secrets =
     (if so_rememberSecret options = Some True \<and> so_secret options \<noteq> [] \<and> uses_password profile then
        bnd (secretSet (profile_id profile) PurposePassword (so_secret options)) (\<lambda>metadata.
        thn (upd (\<lambda>s. s\<lparr>w_secrets := put_first sec_id metadata (w_secrets s)\<rparr>))
        (ret '', password saved''))
      else if so_rememberSecret options = Some True \<and> uses_password profile then
        ret '', no new password''
      else if so_rememberSecret options = Some False then
        bnd (forgetRememberedPassword secrets (profile_id profile)) (\<lambda>removed.
        ret (if removed then '', password removed'' else ''''))
      else ret '''')"

definition saveProfile :: "profile \<Rightarrow> save_options \<Rightarrow> profile option io" where
  "saveProfile profile options =
     bnd get (\<lambda>captured.
     bnd (ask (\<lambda>env h. clock env h)) (\<lambda>now.
     (let isExistingProfile = list_ex (\<lambda>p. profile_id p = profile_id profile) (w_profiles captured);
          updatedProfile = touched now profile
      in catch
        (bnd (if isExistingProfile then profileUpdate (profile_id updatedProfile) updatedProfile
              else profileCreate updatedProfile) (\<lambda>_.
         bnd (save_password updatedProfile options (w_secrets captured)) (\<lambda>passwordMessage.
         thn refreshWorkspace
         (thn (upd (\<lambda>s. s\<lparr>w_activeProfileId := profile_id updatedProfile,
                 w_message := Msg ''profile saved'' [AStr (profile_name updatedProfile), AStr (js passwordMessage)]\<rparr>))
         (ret (Some updatedProfile))))))
        (\<lambda>e. if w_dataSource captured = Mock then
               thn (upd (\<lambda>s. s\<lparr>w_profiles := put_first profile_id updatedProfile (w_profiles s),
                      w_activeProfileId := profile_id updatedProfile,
                      w_message := Msg ''profile saved in the sample data'' [AStr (profile_name updatedProfile)]\<rparr>))
                 (ret (Some updatedProfile))
             else thn (say (Msg ''saving the profile failed'' [AErr e])) (ret None)))))"

text \<open>The tabs of the profile go; the active connection is cleared whichever it was.\<close>

definition drop_profile_tabs :: "jsstr \<Rightarrow> workspace \<Rightarrow> workspace" where
  "drop_profile_tabs profileId s = s\<lparr>
     w_sessionTabs := filter (\<lambda>t. conn_profileId (tab_connection t) \<noteq> profileId) (w_sessionTabs s),
     w_activeConnection := None, w_activeSessionTabId := [], w_activeTerminal := None,
     w_terminalSnapshot := None, w_remoteEntries := [], w_selectedRemoteEntry := None,
     w_activeFileTransferSession := None\<rparr>"

definition drop_sample_profile :: "jsstr \<Rightarrow> workspace \<Rightarrow> workspace" where
  "drop_sample_profile profileId s =
     (let remaining = filter (\<lambda>p. profile_id p \<noteq> profileId) (w_profiles s)
      in s\<lparr>w_profiles := remaining,
           w_activeProfileId := (case remaining of p # _ \<Rightarrow> profile_id p | [] \<Rightarrow> [])\<rparr>)"

definition deleteProfile :: "jsstr \<Rightarrow> unit io" where
  "deleteProfile profileId =
     bnd get (\<lambda>captured.
     catch
       (block [
          profileDelete profileId,
          refreshWorkspace,
          upd (drop_profile_tabs profileId),
          say (Msg ''profile deleted'' [AStr profileId])])
       (\<lambda>e. if w_dataSource captured = Mock then
              upd (\<lambda>s. (drop_profile_tabs profileId (drop_sample_profile profileId s))
                \<lparr>w_message := Msg ''profile deleted from the sample data'' [AStr profileId]\<rparr>)
            else say (Msg ''deleting the profile failed'' [AErr e])))"

section \<open>Testing a profile and trusting its host\<close>

definition failed_test :: "err \<Rightarrow> test_result" where
  "failed_test e = \<lparr>tr_fingerprint = None, tr_testHost = None, tr_hostKeyChanged = False,
     tr_testPort = None, tr_ok = False, tr_message = js ''test failed: '' @ err_text e,
     tr_requiresFingerprintConfirmation = False\<rparr>"

definition testProfile :: "profile \<Rightarrow> jsstr option \<Rightarrow> test_result io" where
  "testProfile profile secret =
     catch
       (bnd (profileTestConnection profile secret) (\<lambda>result.
        thn (upd (\<lambda>s. s\<lparr>w_pendingKnownHost :=
               (if tr_requiresFingerprintConfirmation result then pending_host_of result (profile_id profile)
                else None),
               w_message := Text (tr_message result)\<rparr>))
        (ret result)))
       (\<lambda>e. thn (say (Text (tr_message (failed_test e)))) (ret (failed_test e)))"

text \<open>Host and port of a profile that logs in over SSH.\<close>

fun ssh_target :: "profile \<Rightarrow> (jsstr \<times> int) option" where
  "ssh_target (SshProfile p) = Some (ssh_host p, ssh_port p)"
| "ssh_target (SftpProfile p) = Some (sftp_host p, sftp_port p)"
| "ssh_target _ = None"

text \<open>The pending host key, if it is the one of this profile.\<close>

definition pending_for :: "pending_host option \<Rightarrow> profile \<Rightarrow> pending_host option" where
  "pending_for pending profile =
     (case (pending, ssh_target profile) of
        (Some p, Some (host, port)) \<Rightarrow>
          if ph_profileId p = profile_id profile
             \<and> js_lower (ph_host p) = js_lower (js_trim host) \<and> ph_port p = port
          then Some p else None
      | _ \<Rightarrow> None)"

definition trust_pending :: "pending_host \<Rightarrow> bool io" where
  "trust_pending pending =
     catch
       (bnd (knownHostTrustPlaceholder (ph_host pending) (ph_port pending) (ph_fingerprint pending)) (\<lambda>trusted.
        thn (upd (\<lambda>s. s\<lparr>w_pendingKnownHost := None,
               w_message := Msg (if ph_hostKeyChanged pending then ''host key replaced'' else ''host key trusted'')
                 [AStr (kt_host trusted), ANum (kt_port trusted), AStr (kt_fingerprint trusted)]\<rparr>))
        (thn refreshWorkspace (ret True))))
       (\<lambda>e. thn (say (Msg ''updating known_hosts failed'' [AErr e])) (ret False))"

definition trustProfileHost :: "profile \<Rightarrow> bool io" where
  "trustProfileHost profile =
     bnd get (\<lambda>captured.
     if ssh_target profile = None then
       thn (say (Msg ''known_hosts is for SSH and SFTP'' [])) (ret False)
     else
       (case pending_for (w_pendingKnownHost captured) profile of
          None \<Rightarrow> thn (say (Msg ''test or connect first'' [])) (ret False)
        | Some pending \<Rightarrow> trust_pending pending))"

definition trustActiveHostPlaceholder :: "profile \<Rightarrow> bool io" where
  "trustActiveHostPlaceholder fallbackProfile =
     bnd get (\<lambda>captured. trustProfileHost (activeProfile fallbackProfile captured))"

section \<open>Credentials, known hosts and logs\<close>

definition deleteSecretMetadata :: "jsstr \<Rightarrow> unit io" where
  "deleteSecretMetadata secretId =
     catch
       (thn (secretDelete secretId)
       (bnd secretList (\<lambda>secrets. upd (\<lambda>s. s\<lparr>w_secrets := secrets,
          w_message := Msg ''credential deleted'' [AStr secretId]\<rparr>))))
       (\<lambda>e. say (Msg ''deleting the credential failed'' [AErr e]))"

definition revealProfilePassword :: "jsstr \<Rightarrow> jsstr option io" where
  "revealProfilePassword profileId =
     bnd get (\<lambda>captured. if w_dataSource captured = Mock then ret None else secretRevealPassword profileId)"

definition deleteKnownHost :: "jsstr \<Rightarrow> unit io" where
  "deleteKnownHost host =
     catch
       (thn (knownHostDelete host)
       (bnd knownHostsList (\<lambda>hosts. upd (\<lambda>s. s\<lparr>w_knownHosts := hosts,
          w_message := Msg ''known host deleted'' [AStr host]\<rparr>))))
       (\<lambda>e. say (Msg ''deleting the known host failed'' [AErr e]))"

definition clearLogs :: "unit io" where
  "clearLogs =
     bnd get (\<lambda>captured.
     catch
       (if w_dataSource captured = Mock then
          upd (\<lambda>s. s\<lparr>w_logs := [], w_message := Msg ''sample log cleared'' []\<rparr>)
        else bnd logClear (\<lambda>nextLogs. upd (\<lambda>s. s\<lparr>w_logs := nextLogs, w_message := Msg ''log cleared'' []\<rparr>)))
       (\<lambda>e. say (Msg ''clearing the log failed'' [AErr e])))"

section \<open>What the handlers ask the back end\<close>

text \<open>A trust request is for the pending key of the profile.\<close>

fun trusts_pending :: "pending_host option \<Rightarrow> profile \<Rightarrow> request \<times> answer \<Rightarrow> bool" where
  "trusts_pending pending profile (KnownHostTrustPlaceholder host port fingerprint, _) =
     (\<exists>p h. pending = Some p \<and> ph_profileId p = profile_id profile \<and> ph_host p = host \<and> ph_port p = port
        \<and> ph_fingerprint p = fingerprint
        \<and> ssh_target profile = Some (h, port) \<and> js_lower host = js_lower (js_trim h))"
| "trusts_pending pending profile (KnownHostDelete _, _) = False"
| "trusts_pending pending profile _ = True"

lemma pending_for_Some:
  "pending_for pending profile = Some p \<Longrightarrow> pending = Some p \<and> ph_profileId p = profile_id profile
     \<and> (\<exists>h. ssh_target profile = Some (h, ph_port p) \<and> js_lower (ph_host p) = js_lower (js_trim h))"
  by (auto simp: pending_for_def split: option.splits if_splits)

text \<open>The refresh only reads.\<close>

definition reads_only :: "request \<times> answer \<Rightarrow> bool" where
  "reads_only e \<longleftrightarrow> fst e \<in> {ProfileList, ProfileGroups, ProfileRecent, ProtocolList, TransferList, LogList,
     SecretList, SettingsGet, KnownHostsList, SerialListPorts, WslDistributionsList, TunnelList}"

lemma refresh_reads_only: "emits reads_only refreshWorkspace"
  unfolding refreshWorkspace_def command_defs
  by (intro act; simp add: reads_only_def)

lemma trusts_refresh: "emits (trusts_pending pending profile) refreshWorkspace"
  by (rule emits_mono [OF refresh_reads_only]) (auto simp: reads_only_def)

lemma trusts_trust_pending:
  assumes "pending_for pending profile = Some p"
  shows "emits (trusts_pending pending profile) (trust_pending p)"
proof -
  have "emits (trusts_pending pending profile)
      (knownHostTrustPlaceholder (ph_host p) (ph_port p) (ph_fingerprint p))"
    using pending_for_Some [OF assms] by (auto simp: command_defs intro!: emits_invoke)
  then show ?thesis unfolding trust_pending_def by (intro act trusts_refresh)
qed

text \<open>
  A host key is trusted only when it is the key that was read for this very profile: the request
  carries the fingerprint shown to the user, the host and the port of that reading, and the profile
  still logs in to that host and port. Nothing is trusted for other profiles, and no key is deleted.
\<close>

theorem trustProfileHost_only_pending:
  "case trustProfileHost profile env w of (res, w') \<Rightarrow>
     \<exists>h. history_of w' = history_of w @ h
       \<and> list_all (trusts_pending (w_pendingKnownHost (state_of w)) profile) h"
  unfolding trustProfileHost_def run_captured
  by (rule emits_run) (auto intro!: act trusts_trust_pending split: option.split)

text \<open>The commands that close something of the back end.\<close>

fun closes :: "request \<times> answer \<Rightarrow> bool" where
  "closes (ConnectionClose _, _) = True"
| "closes (TerminalClose _, _) = True"
| "closes (FileTransferClose _, _) = True"
| "closes _ = False"

text \<open>
  Deleting a profile closes nothing: its tabs are dropped from the window and the active tab is
  cleared, but no connection, terminal or transfer session of the back end is closed.
\<close>

theorem deleteProfile_closes_nothing:
  "case deleteProfile profileId env w of (res, w') \<Rightarrow>
     \<exists>h. history_of w' = history_of w @ h \<and> list_all (\<lambda>e. \<not> closes e) h"
proof -
  have "emits (\<lambda>e. \<not> closes e) refreshWorkspace"
    by (rule emits_mono [OF refresh_reads_only]) (auto simp: reads_only_def)
  then show ?thesis
    unfolding deleteProfile_def run_captured
    by (intro emits_run) (auto simp: profileDelete_def intro!: act)
qed

end
