(* ===== verification/SettingsQueue.thy ===== *)
theory SettingsQueue
  imports Defaults
begin

text \<open>
  Saving the settings (\<^verbatim>\<open>saveSettings\<close> of \<^verbatim>\<open>src/app/usePortivaWorkspace.ts\<close>). Each call shows its
  settings at once and queues a request behind the earlier ones; only the newest call may change the
  shown settings when its request is answered. When the newest request fails, the stored settings are
  read back.

  Several calls are in flight at a time, so the handler is modelled by its three steps: \<open>saveSettings\<close>
  (what runs before the first await), \<open>update_answered\<close> (the answer to the request at the head of the
  queue) and \<open>restore_answered\<close> (the answer to the \<^verbatim>\<open>settingsGet\<close> of a failed call). \<open>settings_step\<close> takes them in
  any order, together with the back end, which serves a request some time before its answer arrives. The lemmas
  give the invariant of the queue, the convergence of the screen to the stored settings, and the interleaving in
  which a restored value overwrites a newer save.
\<close>

section \<open>The steps\<close>

record save_call =
  sc_sequence :: nat
  sc_next :: app_settings
  sc_previous :: app_settings

record settings_state =
  ss_mock :: bool
  ss_sequence :: nat
  ss_ref :: app_settings
  ss_shown :: app_settings
  ss_queue :: "save_call list"
  ss_restoring :: "(save_call \<times> jsstr) list"
  ss_message :: "msg option"

definition show_settings :: "app_settings \<Rightarrow> settings_state \<Rightarrow> settings_state" where
  "show_settings x s = s\<lparr>ss_ref := x, ss_shown := x\<rparr>"

definition saveSettings :: "app_settings \<Rightarrow> settings_state \<Rightarrow> settings_state" where
  "saveSettings nextSettings s =
     (let saveSequence = Suc (ss_sequence s);
          previousSettings = ss_ref s;
          s = show_settings nextSettings (s\<lparr>ss_sequence := saveSequence\<rparr>)
      in if ss_mock s then s\<lparr>ss_message := Some (Msg ''settings applied to the samples'' [])\<rparr>
         else s\<lparr>ss_queue := ss_queue s @
           [\<lparr>sc_sequence = saveSequence, sc_next = nextSettings, sc_previous = previousSettings\<rparr>]\<rparr>)"

definition update_answered :: "jsstr + app_settings \<Rightarrow> settings_state \<Rightarrow> settings_state" where
  "update_answered answer s =
     (case ss_queue s of
        [] \<Rightarrow> s
      | call # queue \<Rightarrow>
          (let s = s\<lparr>ss_queue := queue\<rparr>
           in if sc_sequence call \<noteq> ss_sequence s then s
              else (case answer of
                  Inr saved \<Rightarrow> show_settings saved (s\<lparr>ss_message := Some (Msg ''settings saved'' [])\<rparr>)
                | Inl e \<Rightarrow> s\<lparr>ss_restoring := ss_restoring s @ [(call, e)]\<rparr>)))"

text \<open>The reads of several failed calls may be answered in any order.\<close>

definition restore_answered :: "nat \<Rightarrow> jsstr + app_settings \<Rightarrow> settings_state \<Rightarrow> settings_state" where
  "restore_answered i answer s =
     (if i < length (ss_restoring s) then
        (let (call, e) = ss_restoring s ! i
         in show_settings (case answer of Inr restored \<Rightarrow> restored | Inl _ \<Rightarrow> sc_previous call)
              (s\<lparr>ss_restoring := remove_at i (ss_restoring s),
                ss_message := Some (Msg ''saving the settings failed'' [AErr (Rejected e)])\<rparr>))
      else s)"

section \<open>Runs\<close>

definition idle_settings :: "app_settings \<Rightarrow> settings_state" where
  "idle_settings x = \<lparr>ss_mock = False, ss_sequence = 0, ss_ref = x, ss_shown = x, ss_queue = [],
     ss_restoring = [], ss_message = None\<rparr>"

text \<open>
  The state together with the back end: the settings it has stored, the answer it has given to the update at the
  head of the queue and to each of the reads, as long as these answers have not arrived. A successful update stores
  what it answers; a failed one may have stored something or not; a read is given what is stored when the back end
  serves it, or fails. \<open>sr_troubled\<close> notes that the user has saved while a read was under way or that a read has
  failed, until a save succeeds when no read is under way.
\<close>

record settings_run =
  sr_state :: settings_state
  sr_stored :: app_settings
  sr_head :: "(jsstr + app_settings) option"
  sr_reads :: "(jsstr + app_settings) option list"
  sr_troubled :: bool

definition idle_run :: "app_settings \<Rightarrow> settings_run" where
  "idle_run x = \<lparr>sr_state = idle_settings x, sr_stored = x, sr_head = None, sr_reads = [], sr_troubled = False\<rparr>"

definition run_save :: "app_settings \<Rightarrow> settings_run \<Rightarrow> settings_run" where
  "run_save x r = r\<lparr>sr_state := saveSettings x (sr_state r),
     sr_troubled := sr_troubled r \<or> ss_restoring (sr_state r) \<noteq> []\<rparr>"

definition update_served :: "jsstr + app_settings \<Rightarrow> app_settings \<Rightarrow> settings_run \<Rightarrow> settings_run" where
  "update_served answer b r = r\<lparr>sr_head := Some answer, sr_stored := (case answer of Inr y \<Rightarrow> y | Inl e \<Rightarrow> b)\<rparr>"

definition update_arrives :: "jsstr + app_settings \<Rightarrow> settings_run \<Rightarrow> settings_run" where
  "update_arrives answer r =
     (let s = update_answered answer (sr_state r);
          newest = (length (ss_queue s) = 0)
      in r\<lparr>sr_state := s, sr_head := None,
           sr_reads := sr_reads r @ replicate (length (ss_restoring s) - length (ss_restoring (sr_state r))) None,
           sr_troubled := sr_troubled r \<and> (ss_restoring s \<noteq> [] \<or> \<not> newest)\<rparr>)"

definition read_served :: "nat \<Rightarrow> jsstr option \<Rightarrow> settings_run \<Rightarrow> settings_run" where
  "read_served i failure r =
     r\<lparr>sr_reads := (sr_reads r)[i := Some (case failure of Some e \<Rightarrow> Inl e | None \<Rightarrow> Inr (sr_stored r))]\<rparr>"

definition read_arrives :: "nat \<Rightarrow> jsstr + app_settings \<Rightarrow> settings_run \<Rightarrow> settings_run" where
  "read_arrives i answer r = r\<lparr>sr_state := restore_answered i answer (sr_state r), sr_reads := remove_at i (sr_reads r),
     sr_troubled := sr_troubled r \<or> (case answer of Inl e \<Rightarrow> True | Inr y \<Rightarrow> False)\<rparr>"

inductive settings_step :: "settings_run \<Rightarrow> settings_run \<Rightarrow> bool" where
  save: "settings_step r (run_save x r)"
| updated: "ss_queue (sr_state r) \<noteq> [] \<Longrightarrow> sr_head r = None \<Longrightarrow> settings_step r (update_served a b r)"
| answered: "sr_head r = Some a \<Longrightarrow> settings_step r (update_arrives a r)"
| served: "i < length (sr_reads r) \<Longrightarrow> sr_reads r ! i = None \<Longrightarrow> settings_step r (read_served i e r)"
| restored: "i < length (sr_reads r) \<Longrightarrow> sr_reads r ! i = Some a \<Longrightarrow> settings_step r (read_arrives i a r)"

section \<open>The invariant\<close>

text \<open>
  The shown settings are those of the ref; the queue holds the calls in the order they were made, and
  its last one is the newest; when nothing is in flight the shown settings are the stored ones.
\<close>

definition queue_inv :: "settings_state \<Rightarrow> bool" where
  "queue_inv s \<longleftrightarrow> ss_shown s = ss_ref s \<and> \<not> ss_mock s
     \<and> sorted_wrt (<) (map sc_sequence (ss_queue s))
     \<and> (\<forall>c \<in> set (ss_queue s). sc_sequence c \<le> ss_sequence s)
     \<and> (ss_queue s = [] \<or> sc_sequence (last (ss_queue s)) = ss_sequence s)"

definition settings_inv :: "settings_run \<Rightarrow> bool" where
  "settings_inv r \<longleftrightarrow>
     (let s = sr_state r
      in queue_inv s \<and> length (sr_reads r) = length (ss_restoring s)
         \<and> (case sr_head r of None \<Rightarrow> True | Some a \<Rightarrow> ss_queue s \<noteq> [] \<and> (\<forall>y. a = Inr y \<longrightarrow> sr_stored r = y))
         \<and> (sr_troubled r
            \<or> (ss_restoring s \<noteq> [] \<longrightarrow> ss_queue s = [] \<and> (\<forall>y. Some (Inr y) \<in> set (sr_reads r) \<longrightarrow> y = sr_stored r))
              \<and> (ss_restoring s = [] \<and> ss_queue s = [] \<longrightarrow> ss_shown s = sr_stored r)))"

lemma settings_inv_idle: "settings_inv (idle_run x)"
  by (simp add: settings_inv_def queue_inv_def idle_run_def idle_settings_def)

lemma queue_inv_save: "queue_inv s \<Longrightarrow> queue_inv (saveSettings x s)"
  by (fastforce simp: queue_inv_def saveSettings_def Let_def show_settings_def sorted_wrt_append)

lemma save_in_flight: "queue_inv s \<Longrightarrow> ss_queue (saveSettings x s) \<noteq> []"
  by (simp add: queue_inv_def saveSettings_def Let_def show_settings_def)

lemma newest_iff_last:
  assumes "queue_inv s" and "ss_queue s = call # queue"
  shows "sc_sequence call = ss_sequence s \<longleftrightarrow> queue = []"
proof (cases "queue = []")
  case True
  then show ?thesis using assms by (simp add: queue_inv_def)
next
  case False
  then have "last queue \<in> set queue" by simp
  then have "sc_sequence call < sc_sequence (last queue)" using assms by (simp add: queue_inv_def)
  also have "\<dots> = ss_sequence s" using assms False by (simp add: queue_inv_def)
  finally show ?thesis using False by simp
qed

text \<open>The answer to an update: an older call only leaves the queue.\<close>

lemma answered_cases:
  assumes "queue_inv s" and "ss_queue s = call # queue"
  shows "update_answered a s =
     (if queue \<noteq> [] then s\<lparr>ss_queue := queue\<rparr>
      else case a of
          Inr y \<Rightarrow> show_settings y (s\<lparr>ss_queue := [], ss_message := Some (Msg ''settings saved'' [])\<rparr>)
        | Inl e \<Rightarrow> s\<lparr>ss_queue := [], ss_restoring := ss_restoring s @ [(call, e)]\<rparr>)"
  using newest_iff_last [OF assms] assms(2) by (auto simp: update_answered_def show_settings_def split: sum.split)

lemma queue_inv_tail: "queue_inv s \<Longrightarrow> ss_queue s = c # queue \<Longrightarrow> queue \<noteq> [] \<Longrightarrow> queue_inv (s\<lparr>ss_queue := queue\<rparr>)"
  by (simp add: queue_inv_def)

lemma queue_inv_empty: "queue_inv s \<Longrightarrow> queue_inv (s\<lparr>ss_queue := []\<rparr>)"
  by (simp add: queue_inv_def)

lemma queue_inv_other:
  "queue_inv (s\<lparr>ss_restoring := q\<rparr>) = queue_inv s" "queue_inv (s\<lparr>ss_message := m\<rparr>) = queue_inv s"
  "queue_inv s \<Longrightarrow> queue_inv (show_settings y s)"
  by (simp_all add: queue_inv_def show_settings_def)

lemma settings_inv_answered:
  assumes "settings_inv r" and "sr_head r = Some a"
  shows "settings_inv (update_arrives a r)"
proof -
  let ?s = "sr_state r"
  have inv: "queue_inv ?s" and head: "ss_queue ?s \<noteq> []" using assms by (auto simp: settings_inv_def Let_def)
  from head obtain call queue where q: "ss_queue ?s = call # queue" by (cases "ss_queue ?s") auto
  note u = answered_cases [OF inv q]
  show ?thesis
  proof (cases "queue = []")
    case False
    then show ?thesis using assms u q queue_inv_tail [OF inv q]
      by (auto simp: settings_inv_def update_arrives_def Let_def)
  next
    case newest: True
    have e: "queue_inv (?s\<lparr>ss_queue := []\<rparr>)" by (rule queue_inv_empty [OF inv])
    show ?thesis
    proof (cases a)
      case (Inr y)
      then show ?thesis using assms u q newest e
        by (auto simp: settings_inv_def update_arrives_def Let_def show_settings_def queue_inv_def)
    next
      case (Inl e)
      then show ?thesis using assms u q newest inv
        by (auto simp: settings_inv_def update_arrives_def Let_def queue_inv_def)
    qed
  qed
qed

lemma set_remove_at: "x \<in> set (remove_at i xs) \<Longrightarrow> x \<in> set xs"
  by (auto simp: remove_at_def dest: in_set_takeD in_set_dropD)

lemma length_remove_at: "i < length xs \<Longrightarrow> length (remove_at i xs) = length xs - 1"
  by (simp add: remove_at_def)

lemma restore_fields:
  assumes "i < length (ss_restoring s)"
  shows "ss_queue (restore_answered i a s) = ss_queue s"
    and "ss_restoring (restore_answered i a s) = remove_at i (ss_restoring s)"
    and "ss_shown (restore_answered i (Inr y) s) = y"
    and "queue_inv s \<Longrightarrow> queue_inv (restore_answered i a s)"
  using assms by (auto simp: restore_answered_def show_settings_def queue_inv_def split: prod.split)

lemma settings_inv_restored:
  assumes "settings_inv r" and "i < length (sr_reads r)" and "sr_reads r ! i = Some a"
  shows "settings_inv (read_arrives i a r)"
proof -
  let ?s = "sr_state r"
  have l: "length (sr_reads r) = length (ss_restoring ?s)" and inv: "queue_inv ?s"
    using assms(1) by (auto simp: settings_inv_def Let_def)
  have i: "i < length (ss_restoring ?s)" using assms(2) l by simp
  note f = restore_fields [OF i]
  have n: "ss_restoring ?s \<noteq> []" using i by auto
  have mem: "Some a \<in> set (sr_reads r)" using assms(2,3) by (metis nth_mem)
  have k: "length (remove_at i (sr_reads r)) = length (remove_at i (ss_restoring ?s))"
    using assms(2) l by (simp add: length_remove_at)
  have q: "queue_inv (restore_answered i a ?s)" by (rule f(4) [OF inv])
  show ?thesis
  proof (cases a)
    case (Inr y)
    then show ?thesis using assms(1) q k n mem set_remove_at [of _ i "sr_reads r"]
      by (auto simp: settings_inv_def read_arrives_def Let_def f(1-3) split: option.splits)
  next
    case (Inl e)
    then show ?thesis using assms(1) q k
      by (auto simp: settings_inv_def read_arrives_def Let_def f(1,2) split: option.splits)
  qed
qed

lemma settings_inv_step: "settings_step r r' \<Longrightarrow> settings_inv r \<Longrightarrow> settings_inv r'"
proof (induction rule: settings_step.induct)
  case (save r x)
  have "ss_restoring (saveSettings x (sr_state r)) = ss_restoring (sr_state r)"
    by (simp add: saveSettings_def show_settings_def Let_def)
  then show ?case using save queue_inv_save [of "sr_state r" x] save_in_flight [of "sr_state r" x]
    by (auto simp: settings_inv_def run_save_def Let_def split: option.splits)
next
  case (updated r a b)
  then show ?case by (auto simp: settings_inv_def update_served_def Let_def)
next
  case (served i r e)
  then show ?case
    by (auto simp: settings_inv_def read_served_def Let_def dest!: set_update_subset_insert [THEN subsetD]
        split: option.splits)
qed (simp_all add: settings_inv_answered settings_inv_restored)

lemma settings_inv_reachable: "settings_step\<^sup>*\<^sup>* r r' \<Longrightarrow> settings_inv r \<Longrightarrow> settings_inv r'"
  by (induction rule: rtranclp_induct) (auto intro: settings_inv_step)

section \<open>Properties\<close>



text \<open>
  The proviso is needed: a save is refused, the user saves again, and the second save succeeds; if
  the read of the first one was answered by the back end before the second update but arrives after
  it, the screen shows the old settings although the new ones are stored.
\<close>

theorem stale_restore_overwrites:
  "ss_shown (restore_answered 0 (Inr old) (update_answered (Inr new) (saveSettings new
     (update_answered (Inl e) (saveSettings first (idle_settings old)))))) = old
   \<and> ss_shown (update_answered (Inr new) (saveSettings new
     (update_answered (Inl e) (saveSettings first (idle_settings old))))) = new"
  by (simp add: saveSettings_def update_answered_def restore_answered_def show_settings_def
      idle_settings_def remove_at_def)

end
