(* ===== verification/Terminals.thy ===== *)
theory Terminals
  imports Connections
begin

text \<open>
  The handlers of \<^verbatim>\<open>src/app/usePortivaWorkspace.ts\<close> on the terminals of a tab: input, resizing, serial
  lines, the panes of an SSH tab (\<^verbatim>\<open>splitSshTerminal\<close>, \<^verbatim>\<open>closeSshTerminalPane\<close>,
  \<^verbatim>\<open>setSshX11Forwarding\<close>) and the refreshes of ports, distributions and snapshots.

  A terminal of the back end is a resource that \<open>attachTerminalWithSnapshot\<close> acquires and
  \<open>terminalClose\<close> releases; the interpretation \<open>attached_terminal\<close> gives the theorem on switching X11
  forwarding. The updates of a tab are functions of the tab; the theorems on them state that the
  layout stored with the panes stays the one that is shown.
\<close>

section \<open>Input and size\<close>

text \<open>The terminal an operation is for: the named one, or the active one.\<close>

definition target_terminal :: "workspace \<Rightarrow> jsstr option \<Rightarrow> terminal option" where
  "target_terminal captured terminalId =
     (case truthy terminalId of
        None \<Rightarrow> w_activeTerminal captured
      | Some i \<Rightarrow>
          if map_option term_id (w_activeTerminal captured) = Some i then w_activeTerminal captured
          else map_option pane_terminal (findTerminalPane (w_sessionTabs captured) i))"

definition terminal_gone :: "jsstr \<Rightarrow> err \<Rightarrow> bool" where
  "terminal_gone i e = js_includes (err_text e) (js ''terminal not found: '' @ i)"

definition write_terminal ::
  "jsstr option \<Rightarrow> (jsstr \<Rightarrow> unit io) \<Rightarrow> msg \<Rightarrow> msg \<Rightarrow> string \<Rightarrow> unit io" where
  "write_terminal terminalId write missing none failed =
     bnd get (\<lambda>captured.
       case target_terminal captured terminalId of
         None \<Rightarrow> say (if truthy terminalId \<noteq> None then missing else none)
       | Some t \<Rightarrow>
           if term_id t \<in> set (w_closingTerminalIds captured) \<or> term_status t = Closed then ret ()
           else catch (write (term_id t))
             (\<lambda>e. if terminal_gone (term_id t) e then ret () else say (Msg failed [AErr e])))"

definition opt_arg :: "jsstr option \<Rightarrow> arg list" where
  "opt_arg x = (case x of Some i \<Rightarrow> [AStr i] | None \<Rightarrow> [])"

definition sendTerminalData :: "jsstr \<Rightarrow> jsstr option \<Rightarrow> unit io" where
  "sendTerminalData data terminalId =
     write_terminal terminalId (\<lambda>i. terminalWrite i data)
       (Msg ''no terminal for the input'' (opt_arg terminalId)) (Msg ''open a connection before typing'' [])
       ''terminal write failed''"

definition sendTerminalBytes :: "int list \<Rightarrow> jsstr option \<Rightarrow> unit io" where
  "sendTerminalBytes bytes terminalId =
     write_terminal terminalId (\<lambda>i. terminalWriteBytes i bytes)
       (Msg ''no terminal for the bytes'' (opt_arg terminalId)) (Msg ''open a connection before sending bytes'' [])
       ''terminal byte write failed''"

text \<open>Without a size the terminal toggles between two sizes.\<close>

definition toggled_size :: "term_size \<Rightarrow> term_size" where
  "toggled_size sz = \<lparr>sz_cols = (if sz_cols sz = 100 then 120 else 100),
     sz_rows = (if sz_rows sz = 30 then 36 else 30),
     sz_widthPx = (if sz_widthPx sz = 1200 then 1440 else 1200),
     sz_heightPx = (if sz_heightPx sz = 720 then 864 else 720)\<rparr>"

definition put_terminal :: "terminal \<Rightarrow> tab \<Rightarrow> tab" where
  "put_terminal t = update_pane (term_id t) (\<lambda>tab. tab\<lparr>tab_terminal := Some t\<rparr>) (\<lambda>p. p\<lparr>pane_terminal := t\<rparr>)"

definition resizeActiveTerminal :: "term_size option \<Rightarrow> jsstr option \<Rightarrow> unit io" where
  "resizeActiveTerminal sz terminalId =
     bnd get (\<lambda>captured.
       case target_terminal captured terminalId of
         None \<Rightarrow>
           (let message = (if truthy terminalId \<noteq> None then Msg ''no terminal to resize'' (opt_arg terminalId)
                           else Msg ''open a connection before resizing'' [])
            in thn (say message) (if truthy terminalId \<noteq> None then throw (Thrown message) else ret ()))
       | Some t \<Rightarrow>
           (let nextSize = (case sz of Some x \<Rightarrow> x | None \<Rightarrow> toggled_size (term_size t));
                resizedTerminal = t\<lparr>term_size := nextSize\<rparr>
            in catch
              (block [
                terminalResize (term_id t) nextSize,
                upd (\<lambda>s. s\<lparr>w_sessionTabs := map (put_terminal resizedTerminal) (w_sessionTabs s)\<rparr>),
                when_io (map_option term_id (w_activeTerminal captured) = Some (term_id t))
                  (upd (\<lambda>s. s\<lparr>w_activeTerminal := Some resizedTerminal\<rparr>)),
                when_io (sz = None) (say (Msg ''resized''
                  [AStr (term_id t), ANum (sz_cols nextSize), ANum (sz_rows nextSize)]))])
              (\<lambda>e. thn (say (Msg ''resize failed'' [AErr e])) (throw e))))"

section \<open>Serial lines\<close>

definition closeSerialTerminal :: "jsstr \<Rightarrow> unit io" where
  "closeSerialTerminal terminalId =
     catch
       (thn (serialTerminalClose terminalId)
       (thn (upd (\<lambda>s. (markSerialTerminalDisconnected (w_sessionTabs s) terminalId s)
               \<lparr>w_message := Msg ''serial line closed'' []\<rparr>))
       refreshWorkspace))
       (\<lambda>e. thn (say (Msg ''closing the serial line failed'' [AErr e])) (throw e))"

definition serial_connected :: "jsstr \<Rightarrow> jsstr option \<Rightarrow> connection \<Rightarrow> connection" where
  "serial_connected portName identification c = c\<lparr>conn_status := Connected,
     conn_title := serialTabTitleForPort portName,
     conn_transport := map_option (\<lambda>t. t\<lparr>tr_host := portName, tr_serverIdentification := identification,
       tr_terminalChannelReady := True\<rparr>) (conn_transport c)\<rparr>"

definition int_digits :: "int \<Rightarrow> jsstr" where
  "int_digits x = (if x < 0 then 45 # nat_digits (nat (- x)) else nat_digits (nat x))"

text \<open>The port and the identification shown for a serial profile.\<close>

fun serial_port_of :: "profile \<Rightarrow> jsstr \<times> jsstr option" where
  "serial_port_of (SerialProfile p) =
     (js_trim (ser_portName p), Some (int_digits (ser_baudRate p) @ js '' baud''))"
| "serial_port_of _ = ([], None)"

definition attach_tab_terminal :: "tab \<Rightarrow> tab" where
  "attach_tab_terminal tab = tab\<lparr>tab_terminal := map_option (\<lambda>t. t\<lparr>term_status := Attached\<rparr>) (tab_terminal tab)\<rparr>"

definition openSerialTerminal :: "jsstr \<Rightarrow> profile \<Rightarrow> unit io" where
  "openSerialTerminal terminalId profile =
     bnd get (\<lambda>captured.
     catch
       (thn (serialTerminalOpen terminalId profile)
       (let (portName, identification) = serial_port_of profile;
            connected = serial_connected portName identification
        in thn (upd (\<lambda>s. s\<lparr>
             w_sessionTabs := map (\<lambda>t. if serial_tab_of terminalId t
               then attach_tab_terminal (t\<lparr>tab_connection := connected (tab_connection t)\<rparr>) else t) (w_sessionTabs s),
             w_activeConnection := map_option (\<lambda>c.
               if is_serial c \<and> list_ex (\<lambda>t. map_option term_id (tab_terminal t) = Some terminalId
                    \<and> conn_id (tab_connection t) = conn_id c) (w_sessionTabs captured)
               then connected c else c) (w_activeConnection s),
             w_message := Msg ''serial line opened'' []\<rparr>))
           refreshWorkspace))
       (\<lambda>e. thn (say (Msg ''opening the serial line failed'' [AErr e])) (throw e)))"

definition reconfigureSerialTerminal :: "jsstr \<Rightarrow> profile \<Rightarrow> unit io" where
  "reconfigureSerialTerminal terminalId profile =
     catch
       (thn (serialTerminalReconfigure terminalId profile)
       (thn (upd (\<lambda>s. s\<lparr>
             w_sessionTabs := map (\<lambda>t. if serial_tab_of terminalId t then attach_tab_terminal t else t) (w_sessionTabs s),
             w_message := Msg ''serial parameters applied'' []\<rparr>))
       refreshWorkspace))
       (\<lambda>e. thn (say (Msg ''applying the serial parameters failed'' [AErr e])) (throw e))"

text \<open>The terminals of serial tabs whose port was there before and is gone.\<close>

definition unplugged :: "jsstr list \<Rightarrow> jsstr list \<Rightarrow> tab list \<Rightarrow> jsstr list" where
  "unplugged previousPortNames nextPortNames tabs =
     List.map_filter (\<lambda>tab.
       (let portName = (case conn_transport (tab_connection tab) of
              Some t \<Rightarrow> if tr_kind t = KSerial then tr_host t else [] | None \<Rightarrow> [])
        in if is_serial (tab_connection tab) \<and> conn_status (tab_connection tab) \<noteq> Disconnected
              \<and> conn_status (tab_connection tab) \<noteq> Failed \<and> portName \<noteq> []
              \<and> portName \<in> set previousPortNames \<and> portName \<notin> set nextPortNames
           then map_option term_id (tab_terminal tab) else None)) tabs"

definition refreshSerialPorts :: "serial_port list io" where
  "refreshSerialPorts =
     bnd get (\<lambda>captured.
     if w_dataSource captured = Mock then ret sampleSerialPorts
     else
       bnd serialListPorts (\<lambda>nextSerialPorts.
       bnd get (\<lambda>now.
       (let gone = unplugged (w_lastSerialPortNames now) (map port_name nextSerialPorts) (w_sessionTabs now)
        in thn (upd (\<lambda>s. fold (\<lambda>i s. markSerialTerminalDisconnected (w_sessionTabs now) i s) gone
                 (apply_ports nextSerialPorts s)))
           (thn (for_each gone (\<lambda>i. ignore (serialTerminalClose i)))
           (ret nextSerialPorts))))))"

definition refreshWslDistributions :: "wsl_discovery io" where
  "refreshWslDistributions =
     bnd get (\<lambda>captured.
     if w_dataSource captured = Mock then
       thn (upd (\<lambda>s. s\<lparr>w_wslDiscovery := emptyWslDiscovery\<rparr>)) (ret emptyWslDiscovery)
     else bnd wslDistributionsList (\<lambda>discovery.
       thn (upd (\<lambda>s. s\<lparr>w_wslDiscovery := discovery\<rparr>)) (ret discovery)))"

definition refreshTerminalSnapshot :: "snapshot option io" where
  "refreshTerminalSnapshot =
     bnd get (\<lambda>captured.
       case w_activeTerminal captured of
         None \<Rightarrow> thn (say (Msg ''open a connection before reading the snapshot'' [])) (ret None)
       | Some t \<Rightarrow>
           catch
             (bnd (terminalSnapshot (term_id t)) (\<lambda>snapshot.
              thn (upd (\<lambda>s. (updateActiveSessionTab_snapshot (w_activeConnection captured) snapshot
                      (s\<lparr>w_terminalSnapshot := Some snapshot\<rparr>))
                    \<lparr>w_message := Msg ''terminal buffer'' [ANum (snap_bufferedBytes snapshot)]\<rparr>))
              (ret (Some snapshot))))
             (\<lambda>e. thn (say (Msg ''reading the snapshot failed'' [AErr e])) (ret None)))"

section \<open>The panes of an SSH tab\<close>

definition is_ssh :: "tab \<Rightarrow> bool" where
  "is_ssh tab \<longleftrightarrow> map_option tr_kind (conn_transport (tab_connection tab)) = Some KSsh"

definition has_pane :: "jsstr \<Rightarrow> tab \<Rightarrow> bool" where
  "has_pane terminalId tab = list_ex (\<lambda>p. pane_id p = terminalId) (terminalPanesForTab tab)"

definition on_tab :: "jsstr \<Rightarrow> (tab \<Rightarrow> tab) \<Rightarrow> workspace \<Rightarrow> workspace" where
  "on_tab tabId f s = s\<lparr>w_sessionTabs := map (\<lambda>t. if tab_id t = tabId then f t else t) (w_sessionTabs s)\<rparr>"

definition new_pane :: "terminal \<Rightarrow> snapshot option \<Rightarrow> pane" where
  "new_pane t snap = \<lparr>pane_terminal = t, pane_snapshot = snap, pane_title = None, pane_workingDirectory = None\<rparr>"

definition split_tab :: "jsstr \<Rightarrow> terminal \<Rightarrow> snapshot option \<Rightarrow> orientation \<Rightarrow> tab \<Rightarrow> tab" where
  "split_tab targetTerminalId t snap orientation tab =
     (case resolveTerminalSplitLayout tab of
        None \<Rightarrow> tab
      | Some layout \<Rightarrow>
          if maximumSshTerminalPanes \<le> length (terminalPanesForTab tab) then tab
          else tab\<lparr>tab_additionalTerminals := tab_additionalTerminals tab @ [new_pane t snap],
                   tab_terminalLayout := Some (splitTerminalLayout layout targetTerminalId (term_id t) orientation)\<rparr>)"

definition splitSshTerminal :: "jsstr \<Rightarrow> jsstr \<Rightarrow> orientation \<Rightarrow> unit io" where
  "splitSshTerminal tabId targetTerminalId orientation =
     bnd get (\<lambda>captured.
       case find_tab tabId (w_sessionTabs captured) of
         None \<Rightarrow> say (Msg ''only connected SSH terminals split'' [])
       | Some tab \<Rightarrow>
           if \<not> is_ssh tab \<or> tab_terminal tab = None then say (Msg ''only connected SSH terminals split'' [])
           else if maximumSshTerminalPanes \<le> length (terminalPanesForTab tab) then
             say (Msg ''too many panes'' [ANum (int maximumSshTerminalPanes)])
           else if \<not> has_pane targetTerminalId tab then say (Msg ''no terminal to split'' [])
           else catch
             (bnd (attachTerminalWithSnapshot (conn_id (tab_connection tab)) False defaultTerminalSize) (\<lambda>(t, snap).
              bnd get (\<lambda>latest.
                if (case find_tab tabId (w_sessionTabs latest) of
                      Some latestTab \<Rightarrow> has_pane targetTerminalId latestTab | None \<Rightarrow> False)
                then upd (\<lambda>s. (on_tab tabId (split_tab targetTerminalId t snap orientation) s)
                       \<lparr>w_message := Msg (if orientation = Columns then ''split to the right'' else ''split below'') []\<rparr>)
                else ignore (terminalClose (term_id t)))))
             (\<lambda>e. thn (say (Msg ''splitting the terminal failed'' [AErr e])) (throw e)))"

text \<open>
  The tab after a pane is closed. \<open>promoted\<close> is the pane that takes the place of the first one: the
  first additional pane at the time the close was requested.
\<close>

definition close_pane_tab :: "jsstr \<Rightarrow> pane option \<Rightarrow> tab \<Rightarrow> tab" where
  "close_pane_tab terminalId promoted tab =
     (let terminalLayout = (case resolveTerminalSplitLayout tab of
            Some layout \<Rightarrow> removeTerminalFromLayout layout terminalId | None \<Rightarrow> None)
      in case promoted of
           Some p \<Rightarrow>
             if map_option term_id (tab_terminal tab) = Some terminalId then
               tab\<lparr>tab_terminal := Some (pane_terminal p), tab_terminalSnapshot := pane_snapshot p,
                   tab_terminalTitle := pane_title p, tab_terminalWorkingDirectory := pane_workingDirectory p,
                   tab_additionalTerminals := filter (\<lambda>q. pane_id q \<noteq> pane_id p) (tab_additionalTerminals tab),
                   tab_terminalLayout := terminalLayout\<rparr>
             else tab\<lparr>tab_additionalTerminals := filter (\<lambda>q. pane_id q \<noteq> terminalId) (tab_additionalTerminals tab),
                      tab_terminalLayout := terminalLayout\<rparr>
         | None \<Rightarrow> tab\<lparr>tab_additionalTerminals := filter (\<lambda>q. pane_id q \<noteq> terminalId) (tab_additionalTerminals tab),
                      tab_terminalLayout := terminalLayout\<rparr>)"

text \<open>The id leaves the set of closing terminals in a timer, five seconds later.\<close>

definition closeSshTerminalPane :: "jsstr \<Rightarrow> jsstr \<Rightarrow> unit io" where
  "closeSshTerminalPane tabId terminalId =
     bnd get (\<lambda>captured.
       case find_tab tabId (w_sessionTabs captured) of
         None \<Rightarrow> ret ()
       | Some tab \<Rightarrow>
           if \<not> is_ssh tab then ret ()
           else if length (terminalPanesForTab tab) \<le> 1 then say (Msg ''one pane must stay'' [])
           else if \<not> has_pane terminalId tab then ret ()
           else
             (let closingPrimary = map_option term_id (tab_terminal tab) = Some terminalId;
                  promotedPane = (if closingPrimary then js_at (tab_additionalTerminals tab) 0 else None)
              in thn (upd (\<lambda>s. s\<lparr>w_closingTerminalIds := w_closingTerminalIds s @ [terminalId]\<rparr>))
                (catch
                  (block [
                    catch (terminalClose terminalId) (\<lambda>e. if terminal_gone terminalId e then ret () else throw e),
                    upd (on_tab tabId (close_pane_tab terminalId promotedPane)),
                    (case promotedPane of
                       Some p \<Rightarrow> when_io (w_activeSessionTabId captured = tabId)
                         (upd (\<lambda>s. s\<lparr>w_activeTerminal := Some (pane_terminal p), w_terminalSnapshot := pane_snapshot p\<rparr>))
                     | None \<Rightarrow> ret ()),
                    say (Msg ''pane closed'' [])])
                  (\<lambda>e. thn (say (Msg ''closing the pane failed'' [AErr e])) (throw e)))))"

section \<open>X11 forwarding\<close>

text \<open>The terminal with the other setting takes the place of the old one.\<close>

definition replace_pane_tab :: "jsstr \<Rightarrow> terminal \<Rightarrow> snapshot option \<Rightarrow> tab \<Rightarrow> tab" where
  "replace_pane_tab terminalId t snap tab =
     (let layout = resolveTerminalSplitLayout tab;
          tab' = (if map_option term_id (tab_terminal tab) = Some terminalId
                  then tab\<lparr>tab_terminal := Some t, tab_terminalSnapshot := snap, tab_terminalTitle := None,
                           tab_terminalWorkingDirectory := None\<rparr>
                  else tab)
      in tab'\<lparr>tab_additionalTerminals :=
                map (\<lambda>p. if pane_id p = terminalId then new_pane t snap else p) (tab_additionalTerminals tab),
              tab_terminalLayout := map_option (\<lambda>l. replaceTerminalInLayout l terminalId (term_id t)) layout\<rparr>)"

definition x11_body :: "jsstr \<Rightarrow> jsstr \<Rightarrow> bool \<Rightarrow> jsstr \<Rightarrow> terminal \<times> snapshot option \<Rightarrow> jsstr option io" where
  "x11_body tabId terminalId enabled connectionId = (\<lambda>(t, snap).
     if term_status t \<noteq> Attached then throw (Thrown (Msg ''the new terminal is closed'' []))
     else
       bnd get (\<lambda>latest.
         if (case find_tab tabId (w_sessionTabs latest) of
               Some latestTab \<Rightarrow> conn_id (tab_connection latestTab) = connectionId \<and> has_pane terminalId latestTab
             | None \<Rightarrow> False)
         then
           thn (upd (\<lambda>s. s\<lparr>w_closingTerminalIds := w_closingTerminalIds s @ [terminalId]\<rparr>))
           (thn (terminalClose terminalId)
           (thn (upd (\<lambda>s.
              (let wasActive = map_option term_id (w_activeTerminal s) = Some terminalId;
                   s = on_tab tabId (replace_pane_tab terminalId t snap) s
               in (if wasActive then s\<lparr>w_activeTerminal := Some t, w_terminalSnapshot := snap\<rparr> else s)
                  \<lparr>w_message := Msg (if enabled then ''X11 on'' else ''X11 off'') []\<rparr>)))
           (ret (Some (term_id t)))))
         else thn (terminalClose (term_id t)) (ret None)))"

definition x11_failed :: "err \<Rightarrow> jsstr option io" where
  "x11_failed e = thn (say (Msg ''switching X11 failed'' [AErr e])) (throw e)"

definition no_ssh_terminal :: "jsstr option io" where
  "no_ssh_terminal = throw (Thrown (Msg ''switch X11 in a connected SSH terminal'' []))"

definition setSshX11Forwarding :: "jsstr \<Rightarrow> jsstr \<Rightarrow> bool \<Rightarrow> jsstr option io" where
  "setSshX11Forwarding tabId terminalId enabled =
     bnd get (\<lambda>captured.
       case find_tab tabId (w_sessionTabs captured) of
         None \<Rightarrow> no_ssh_terminal
       | Some tab \<Rightarrow> (case find (\<lambda>p. pane_id p = terminalId) (terminalPanesForTab tab) of
           None \<Rightarrow> no_ssh_terminal
         | Some pane \<Rightarrow>
             if \<not> is_ssh tab \<or> term_status (pane_terminal pane) \<noteq> Attached then no_ssh_terminal
             else if term_x11Forwarding (pane_terminal pane) = enabled then ret (Some terminalId)
             else finally_upd
               (bracket
                 (attachTerminalWithSnapshot (conn_id (tab_connection tab)) enabled (term_size (pane_terminal pane)))
                 (\<lambda>(t, _). ignore (terminalClose (term_id t)))
                 (x11_body tabId terminalId enabled (conn_id (tab_connection tab))) x11_failed)
               (\<lambda>s. s\<lparr>w_closingTerminalIds := filter (\<lambda>i. i \<noteq> terminalId) (w_closingTerminalIds s)\<rparr>)))"

section \<open>Terminals that are attached are used or closed\<close>

fun opened_terminal :: "request \<times> answer \<Rightarrow> jsstr option" where
  "opened_terminal (TerminalAttach _ _ _, Inr (RTerminal t)) = Some (term_id t)"
| "opened_terminal _ = None"

fun closed_terminal :: "request \<times> answer \<Rightarrow> jsstr option" where
  "closed_terminal (TerminalClose i, _) = Some i"
| "closed_terminal _ = None"

lemma attach_run:
  "attachTerminalWithSnapshot c x sz env w = (case terminalAttach c sz x env w of
     (Inl e, w') \<Rightarrow> (Inl e, w')
   | (Inr t, w') \<Rightarrow> (case terminalSnapshot (term_id t) env w' of (r, w'') \<Rightarrow>
       (Inr (t, case r of Inl _ \<Rightarrow> None | Inr s \<Rightarrow> Some s), w'')))"
  by (auto simp: attachTerminalWithSnapshot_def bnd_def ret_def attempt_def catch_def split: prod.split sum.split)

interpretation attached_terminal: resource opened_terminal closed_terminal
  "attachTerminalWithSnapshot c x sz" "\<lambda>(t, _). term_id t" "\<lambda>(t, _). ignore (terminalClose (term_id t))"
  for c x sz
proof unfold_locales
  fix env w r w'
  assume "attachTerminalWithSnapshot c x sz env w = (Inr r, w')"
  then show "\<exists>h. history_of w' = history_of w @ h \<and> ids opened_terminal h = [case r of (t, _) \<Rightarrow> term_id t]"
    by (auto simp: attach_run command_defs invoke_run as_terminal_def as_snapshot_def
        split: sum.splits option.splits reply.splits prod.splits)
next
  fix env w e w'
  assume "attachTerminalWithSnapshot c x sz env w = (Inl e, w')"
  then show "\<exists>h. history_of w' = history_of w @ h \<and> ids opened_terminal h = []"
    by (auto simp: attach_run command_defs invoke_run as_terminal_def as_snapshot_def
        split: sum.splits option.splits reply.splits prod.splits)
next
  fix r :: "terminal \<times> snapshot option" and env :: environment and w
  obtain v where "ignore (terminalClose (term_id (fst r))) env w = (Inr (), v)"
      "v = snd (terminalClose (term_id (fst r)) env w)" using ignore_run by blast
  then show "\<exists>v h. (case r of (t, _) \<Rightarrow> ignore (terminalClose (term_id t))) env w = (Inr (), v)
      \<and> history_of v = history_of w @ h \<and> ids opened_terminal h = []
      \<and> (case r of (t, _) \<Rightarrow> term_id t) \<in> set (ids closed_terminal h)"
    by (auto simp: command_defs invoke_run split: prod.split)
qed

abbreviation attaches_none :: "'a io \<Rightarrow> bool" where
  "attaches_none \<equiv> emits (\<lambda>e. opened_terminal e = None)"

lemma attaches_none_close [act]: "attaches_none (terminalClose i)"
  by (simp add: command_defs emits_invoke)

lemma x11_body_none: "attaches_none (x11_body tabId terminalId enabled c r)"
  by (auto simp: x11_body_def Let_def intro!: act split: prod.split)

text \<open>The body closes the new terminal itself when the tab or its old pane is gone.\<close>

lemma x11_body_result:
  assumes "x11_body tabId terminalId enabled c r env w = (Inr x, w')"
  shows "x \<noteq> None \<or> (\<exists>h. history_of w' = history_of w @ h
    \<and> (case r of (t, _) \<Rightarrow> term_id t) \<in> set (ids closed_terminal h))"
  using assms
  by (auto simp: x11_body_def bnd_def thn_def get_def ret_def throw_def upd_def command_defs invoke_run Let_def
      split: if_splits sum.splits option.splits prod.splits)

lemma x11_bracket_leakless:
  "leakless opened_terminal closed_terminal (\<lambda>r. r \<noteq> None)
     (bracket (attachTerminalWithSnapshot c x sz) (\<lambda>(t, _). ignore (terminalClose (term_id t)))
        (x11_body tabId terminalId enabled c) x11_failed)"
proof (rule leaklessI)
  fix env w res w'
  assume run: "bracket (attachTerminalWithSnapshot c x sz) (\<lambda>(t, _). ignore (terminalClose (term_id t)))
      (x11_body tabId terminalId enabled c) x11_failed env w = (res, w')"
  have failed: "attaches_none (x11_failed e)" for e by (simp add: x11_failed_def act)
  show "\<exists>h. history_of w' = history_of w @ h \<and> length (ids opened_terminal h) \<le> 1
     \<and> ((\<exists>x. res = Inr x \<and> x \<noteq> None) \<or> set (ids opened_terminal h) \<subseteq> set (ids closed_terminal h))"
    by (rule attached_terminal.bracket_outcome [OF run x11_body_none failed]) (rule x11_body_result)
qed

lemma x11_leakless:
  "leakless opened_terminal closed_terminal (\<lambda>r. r \<noteq> None) (setSshX11Forwarding tabId terminalId enabled)"
  unfolding setSshX11Forwarding_def no_ssh_terminal_def
  by (intro leakless_rules x11_bracket_leakless; rule leakless_quiet; intro act)

text \<open>
  Switching X11 forwarding never leaves a terminal behind: at most one terminal is attached, and
  unless the handler returns a terminal id - the one now shown - the attached one was closed again.
\<close>

theorem setSshX11Forwarding_no_leak:
  "case setSshX11Forwarding tabId terminalId enabled env w of (res, w') \<Rightarrow>
     \<exists>h. history_of w' = history_of w @ h \<and> length (ids opened_terminal h) \<le> 1
       \<and> ((\<exists>r. res = Inr r \<and> r \<noteq> None)
          \<or> set (ids opened_terminal h) \<subseteq> set (ids closed_terminal h))"
  by (rule leaklessD [OF x11_leakless])

section \<open>The layout stays in step with the panes\<close>

abbreviation pane_ids :: "tab \<Rightarrow> jsstr list" where
  "pane_ids tab \<equiv> map pane_id (terminalPanesForTab tab)"

text \<open>A stored layout with exactly the terminals of the panes is the one that is shown.\<close>

lemma stored_layout_shown:
  assumes "tab_terminalLayout tab = Some l" and "mset (collectLayoutTerminalIds l) = mset (pane_ids tab)"
    and "distinct (pane_ids tab)"
  shows "resolveTerminalSplitLayout tab = Some l"
proof -
  have "pane_ids tab \<noteq> []" using assms(2) leaves_not_Nil [of l] by (metis mset_zero_iff)
  then show ?thesis using assms by (simp add: resolveTerminalSplitLayout_def layoutMatches_iff)
qed

lemma pane_ids_split:
  assumes "resolveTerminalSplitLayout tab = Some l" and "length (terminalPanesForTab tab) < maximumSshTerminalPanes"
  shows "pane_ids (split_tab target t snap o' tab) = pane_ids tab @ [term_id t]"
    and "tab_terminalLayout (split_tab target t snap o' tab) = Some (splitTerminalLayout l target (term_id t) o')"
  using assms by (simp_all add: split_tab_def terminalPanesForTab_def new_pane_def pane_id_def split: option.split)

lemma pane_ids_close:
  assumes "distinct (pane_ids tab)"
    and "promoted = (if map_option term_id (tab_terminal tab) = Some i then js_at (tab_additionalTerminals tab) 0 else None)"
    and "1 < length (terminalPanesForTab tab)"
  shows "pane_ids (close_pane_tab i promoted tab) = filter (\<lambda>x. x \<noteq> i) (pane_ids tab)"
proof (cases "map_option term_id (tab_terminal tab) = Some i")
  case True
  then obtain t where t: "tab_terminal tab = Some t" "term_id t = i" by auto
  with assms(3) obtain p ps where ps: "tab_additionalTerminals tab = p # ps"
    by (cases "tab_additionalTerminals tab") (auto simp: terminalPanesForTab_def)
  have "promoted = Some p" using True assms(2) ps by (simp add: js_at_def)
  moreover have "i \<notin> pane_id ` set (p # ps)" and "pane_id p \<notin> pane_id ` set ps"
    using assms(1) t ps by (auto simp: terminalPanesForTab_def pane_id_def)
  ultimately show ?thesis using t ps
    by (auto simp: close_pane_tab_def terminalPanesForTab_def pane_id_def Let_def filter_map comp_def image_iff
        intro!: filter_cong [THEN arg_cong [where f = "map _"]] filter_True split: option.split)
next
  case False
  then have "promoted = None" using assms(2) by auto
  then show ?thesis using False
    by (auto simp: close_pane_tab_def terminalPanesForTab_def pane_id_def Let_def filter_map comp_def split: option.split)
qed

text \<open>An SSH tab with two panes, for the examples.\<close>

definition example_terminal :: "string \<Rightarrow> terminal" where
  "example_terminal i = \<lparr>term_id = js i, term_connectionId = js ''c'', term_size = defaultTerminalSize,
     term_status = Attached, term_renderPolicy = \<lparr>rp_flushIntervalMs = 16, rp_maxChunkBytes = 65536,
       rp_scrollbackLines = 1000\<rparr>, term_x11Forwarding = False\<rparr>"

definition example_connection :: connection where
  "example_connection = \<lparr>conn_id = js ''c'', conn_profileId = js ''p'', conn_title = js ''host'',
     conn_status = Connected, conn_capabilities = capabilitiesByType Ssh,
     conn_transport = Some \<lparr>tr_kind = KSsh, tr_host = js ''h'', tr_port = 22, tr_serverIdentification = None,
       tr_hostKeyFingerprint = None, tr_authenticated = True, tr_terminalChannelReady = True,
       tr_fileTransferReady = False\<rparr>\<rparr>"

definition example_tab :: tab where
  "example_tab = (new_tab (js ''c'') TerminalTab example_connection None (Some (example_terminal ''a'')) None)
     \<lparr>tab_additionalTerminals := [new_pane (example_terminal ''b'') None]\<rparr>"

lemma example_panes: "pane_ids example_tab = [js ''a'', js ''b'']"
  by (simp add: example_tab_def new_tab_def terminalPanesForTab_def example_terminal_def new_pane_def pane_id_def)

text \<open>
  Splitting a pane: the tab gets exactly the new terminal, and the layout shown afterwards is the
  layout shown before with the pane split in place - never a fallback layout.
\<close>

theorem split_pane_shown:
  assumes "distinct (pane_ids tab)" and "target \<in> set (pane_ids tab)" and "term_id t \<notin> set (pane_ids tab)"
    and "length (pane_ids tab) < maximumSshTerminalPanes"
  shows "pane_ids (split_tab target t snap o' tab) = pane_ids tab @ [term_id t]
    \<and> (\<exists>l. resolveTerminalSplitLayout tab = Some l
         \<and> resolveTerminalSplitLayout (split_tab target t snap o' tab) = Some (splitTerminalLayout l target (term_id t) o'))"
proof -
  have "pane_ids tab \<noteq> []" using assms(2) by auto
  then obtain l where l: "resolveTerminalSplitLayout tab = Some l" "mset (collectLayoutTerminalIds l) = mset (pane_ids tab)"
    using resolve_covers [of tab "pane_ids tab"] assms by auto
  have "length (terminalPanesForTab tab) < maximumSshTerminalPanes" using assms(4) by simp
  note after = pane_ids_split [OF l(1) this, of target t snap o']
  have "resolveTerminalSplitLayout (split_tab target t snap o' tab) = Some (splitTerminalLayout l target (term_id t) o')"
    using layout_tree.split_covers [OF l(2) assms(2), where n = "term_id t" and o' = o'] assms(1,3) after
    by (intro stored_layout_shown) simp_all
  then show ?thesis using after(1) l(1) by blast
qed

theorem split_pane_shown_witness:
  "pane_ids (split_tab (js ''b'') (example_terminal ''x'') None Rows example_tab) = [js ''a'', js ''b'', js ''x'']"
  using split_pane_shown [of example_tab "js ''b''" "example_terminal ''x''" None Rows]
  by (simp add: example_panes maximumSshTerminalPanes_def example_terminal_def js_def)

text \<open>
  C14. Closing a pane: exactly that terminal leaves the tab, the first of the other panes takes the
  first place when the first one was closed, and the layout shown afterwards is the one before without
  the pane.
\<close>

theorem close_pane_shown:
  assumes "distinct (pane_ids tab)" and "i \<in> set (pane_ids tab)" and "1 < length (pane_ids tab)"
    and "length (pane_ids tab) \<le> maximumSshTerminalPanes"
    and "promoted = (if map_option term_id (tab_terminal tab) = Some i then js_at (tab_additionalTerminals tab) 0 else None)"
  shows "pane_ids (close_pane_tab i promoted tab) = filter (\<lambda>x. x \<noteq> i) (pane_ids tab)
    \<and> (\<exists>l. resolveTerminalSplitLayout tab = Some l
         \<and> removeTerminalFromLayout l i \<noteq> None
         \<and> resolveTerminalSplitLayout (close_pane_tab i promoted tab) = removeTerminalFromLayout l i)"
proof -
  have "pane_ids tab \<noteq> []" using assms(2) by auto
  then obtain l where l: "resolveTerminalSplitLayout tab = Some l" "mset (collectLayoutTerminalIds l) = mset (pane_ids tab)"
    using resolve_covers [of tab "pane_ids tab"] assms by auto
  have ids: "pane_ids (close_pane_tab i promoted tab) = filter (\<lambda>x. x \<noteq> i) (pane_ids tab)"
    using pane_ids_close [OF assms(1,5)] assms(3) by simp
  have "card (set (pane_ids tab)) \<noteq> 1" using assms(1,3) distinct_card by fastforce
  then obtain x where "x \<in> set (pane_ids tab)" "x \<noteq> i"
    using assms(2) by (metis card_1_singleton_iff is_singletonI' is_singleton_altdef empty_iff)
  then obtain l' where l': "removeTerminalFromLayout l i = Some l'"
      "mset (collectLayoutTerminalIds l') = mset (filter (\<lambda>x. x \<noteq> i) (pane_ids tab))"
    using layout_tree.remove_other [OF l(2)] by blast
  have "resolveTerminalSplitLayout (close_pane_tab i promoted tab) = Some l'"
    using l l' ids assms(1)
    by (intro stored_layout_shown) (simp_all add: close_pane_tab_def Let_def split: option.split)
  then show ?thesis using ids l l' by simp
qed

theorem close_pane_shown_witness:
  "pane_ids (close_pane_tab (js ''a'') (js_at (tab_additionalTerminals example_tab) 0) example_tab) = [js ''b'']"
proof -
  have "map_option term_id (tab_terminal example_tab) = Some (js ''a'')"
    by (simp add: example_tab_def new_tab_def example_terminal_def)
  then show ?thesis
    using close_pane_shown [of example_tab "js ''a''" "js_at (tab_additionalTerminals example_tab) 0"]
    by (simp add: example_panes maximumSshTerminalPanes_def js_def)
qed

end
