(* ===== verification/FileTransfers.thy ===== *)
theory FileTransfers
  imports Reconnect
begin

text \<open>
  The file manager of \<^verbatim>\<open>src/app/usePortivaWorkspace.ts\<close>: the session of the active tab
  (\<^verbatim>\<open>ensureFileTransferSession\<close>), local and remote listings, the reconnect of a lost SFTP channel,
  the tabs with files, and the operations on entries. Callbacks that call each other share the
  captured state of one render, which is passed on as an argument.
\<close>

section \<open>Sessions\<close>

definition activeConnectionCapabilities :: "profile \<Rightarrow> workspace \<Rightarrow> capabilities" where
  "activeConnectionCapabilities fallbackProfile s =
     (case w_activeConnection s of Some c \<Rightarrow> conn_capabilities c
      | None \<Rightarrow> capabilitiesByType (profile_type (activeProfile fallbackProfile s)))"

definition active_file_tab :: "workspace \<Rightarrow> tab option" where
  "active_file_tab s =
     (case activeSessionTab s of
        Some tab \<Rightarrow> if tab_kind_of tab = FileTransferTab then Some tab else None
      | None \<Rightarrow> None)"

definition set_tab_session :: "ft_session \<Rightarrow> tab \<Rightarrow> tab" where
  "set_tab_session session tab = tab\<lparr>tab_fileTransferSession := Some session\<rparr>"

text \<open>
  The transfer session of the view: the one of the active file tab, or the active one if it belongs to
  the connection, or a new one.
\<close>

definition ensureFileTransferSession :: "workspace \<Rightarrow> ft_session io" where
  "ensureFileTransferSession captured =
     (case w_activeConnection captured of
        None \<Rightarrow> throw (Thrown (Msg ''open an SSH connection before transferring files'' []))
      | Some activeConnection \<Rightarrow>
          if \<not> cap_fileTransfer (conn_capabilities activeConnection) then
            throw (Thrown (Msg ''open an SSH connection before transferring files'' []))
          else
            (let activeFileTab = active_file_tab captured
             in case (case activeFileTab of Some t \<Rightarrow> tab_fileTransferSession t | None \<Rightarrow> None) of
                  Some session \<Rightarrow>
                    thn (when_io (map_option fts_id (w_activeFileTransferSession captured) \<noteq> Some (fts_id session))
                           (upd (\<lambda>s. s\<lparr>w_activeFileTransferSession := Some session\<rparr>)))
                        (ret session)
                | None \<Rightarrow>
                    (let backendConnectionId =
                       (case (case activeFileTab of Some t \<Rightarrow> tab_parentConnectionId t | None \<Rightarrow> None) of
                          Some i \<Rightarrow> i | None \<Rightarrow> conn_id activeConnection)
                     in case (case w_activeFileTransferSession captured of
                                Some f \<Rightarrow> if fts_connectionId f = backendConnectionId then Some f else None
                              | None \<Rightarrow> None) of
                          Some f \<Rightarrow> ret f
                        | None \<Rightarrow>
                            bnd (fileTransferOpen backendConnectionId) (\<lambda>session.
                            thn (upd (\<lambda>s. s\<lparr>w_activeFileTransferSession := Some session\<rparr>))
                            (thn (case activeFileTab of
                                    Some t \<Rightarrow> upd (\<lambda>s. s\<lparr>w_sessionTabs := map (\<lambda>u.
                                      if tab_id u = tab_id t then set_tab_session session u else u) (w_sessionTabs s)\<rparr>)
                                  | None \<Rightarrow> ret ())
                            (ret session))))))"

section \<open>Listings\<close>

text \<open>The selection survives a refresh if its path is still there.\<close>

definition reselect :: "remote_entry list \<Rightarrow> remote_entry option \<Rightarrow> remote_entry option" where
  "reselect entries selected =
     (case selected of Some c \<Rightarrow> find (\<lambda>e. ent_path e = ent_path c) entries | None \<Rightarrow> None)"

definition show_remote :: "remote_entry list \<Rightarrow> workspace \<Rightarrow> workspace" where
  "show_remote entries s = s\<lparr>w_remoteEntries := entries,
     w_selectedRemoteEntry := reselect entries (w_selectedRemoteEntry s)\<rparr>"

definition show_local :: "remote_entry list \<Rightarrow> workspace \<Rightarrow> workspace" where
  "show_local entries s = s\<lparr>w_localEntries := entries,
     w_selectedLocalEntry := reselect entries (w_selectedLocalEntry s)\<rparr>"

definition refreshLocalFiles :: "workspace \<Rightarrow> jsstr option \<Rightarrow> bool io" where
  "refreshLocalFiles captured pathOverride =
     catch
       (bnd (localFileList (case pathOverride of Some p \<Rightarrow> p | None \<Rightarrow> w_localPath captured)) (\<lambda>result.
        thn (upd (\<lambda>s. (show_local (fl_entries result) (s\<lparr>w_localPath := fl_path result\<rparr>))
               \<lparr>w_message := Msg ''local directory loaded'' [AStr (fl_path result), ANum (int (length (fl_entries result)))]\<rparr>))
        (ret True)))
       (\<lambda>e. thn (say (Msg ''reading the local directory failed'' [AErr e])) (ret False))"

text \<open>
  The refreshes after a transfer only touch the listing if the path is still the shown one, before
  and after the wait.
\<close>

definition refreshVisibleLocalFiles :: "jsstr \<Rightarrow> bool io" where
  "refreshVisibleLocalFiles targetPath =
     bnd get (\<lambda>before.
     if w_localPath before \<noteq> targetPath then ret False
     else catch
       (bnd (localFileList targetPath) (\<lambda>result.
        bnd get (\<lambda>after.
        if w_localPath after \<noteq> targetPath then ret False
        else thn (upd (show_local (fl_entries result))) (ret True))))
       (\<lambda>_. ret False))"

definition refreshVisibleRemoteFiles :: "workspace \<Rightarrow> jsstr \<Rightarrow> bool io" where
  "refreshVisibleRemoteFiles captured targetPath =
     (let normalizedTarget = normalizeRemotePathInput targetPath
      in bnd get (\<lambda>before.
         if normalizeRemotePathInput (w_remotePath before) \<noteq> normalizedTarget then ret False
         else catch
           (bnd (ensureFileTransferSession captured) (\<lambda>session.
            bnd (fileTransferList (fts_id session) normalizedTarget) (\<lambda>entries.
            bnd get (\<lambda>after.
            if normalizeRemotePathInput (w_remotePath after) \<noteq> normalizedTarget then ret False
            else thn (upd (show_remote entries)) (ret True)))))
           (\<lambda>_. ret False)))"

section \<open>Reconnecting the files\<close>

text \<open>The tab a file tab belongs to: its parent's, or itself.\<close>

definition source_tab :: "workspace \<Rightarrow> tab \<Rightarrow> tab option" where
  "source_tab captured fileTab =
     (case truthy (tab_parentConnectionId fileTab) of
        Some i \<Rightarrow> find_tab i (w_sessionTabs captured)
      | None \<Rightarrow> Some fileTab)"

definition authenticate_saved :: "profile \<Rightarrow> connection \<Rightarrow> connection io" where
  "authenticate_saved profile session =
     (case ssh_auth profile of
        None \<Rightarrow> ret session
      | Some (AuthPassword, _) \<Rightarrow> sshAuthenticateSavedPassword (conn_id session)
      | Some (AuthPrivateKey, path) \<Rightarrow>
          sshAuthenticatePrivateKey (conn_id session) (case path of Some p \<Rightarrow> p | None \<Rightarrow> []) None
      | Some (AuthAgent, _) \<Rightarrow> sshAuthenticateAgent (conn_id session))"

definition sftp_tab_id :: "connection \<Rightarrow> ft_session \<Rightarrow> jsstr" where
  "sftp_tab_id c session = conn_id c @ js '':sftp:'' @ fts_id session"

text \<open>The two tabs after the reconnect.\<close>

definition reconnected_source :: "tab \<Rightarrow> connection \<Rightarrow> terminal option \<Rightarrow> snapshot option \<Rightarrow> tab" where
  "reconnected_source sourceTab readySession t snap = sourceTab\<lparr>
     tab_idField := Some (conn_id readySession), tab_kindField := Some TerminalTab,
     tab_connection := readySession, tab_terminal := t, tab_terminalSnapshot := snap\<rparr>"

definition reconnected_file :: "tab \<Rightarrow> connection \<Rightarrow> ft_session \<Rightarrow> tab" where
  "reconnected_file fileTab readySession session =
     (let child = truthy (tab_parentConnectionId fileTab) \<noteq> None;
          nextFileTabId = (if child then sftp_tab_id readySession session else conn_id readySession)
      in (new_tab nextFileTabId FileTransferTab
            (if child then sftp_connection nextFileTabId readySession else readySession) (Some session) None None)
          \<lparr>tab_parentConnectionId := (if child then Some (conn_id readySession) else None)\<rparr>)"

definition replace_reconnected :: "tab \<Rightarrow> tab \<Rightarrow> tab \<Rightarrow> tab \<Rightarrow> tab list \<Rightarrow> tab list" where
  "replace_reconnected fileTab sourceTab nextFileTab nextSourceTab tabs =
     (if truthy (tab_parentConnectionId fileTab) = None then
        map (\<lambda>t. if tab_id t = tab_id fileTab then nextFileTab else t) tabs
      else map (\<lambda>t. if tab_id t = tab_id sourceTab then nextSourceTab
                    else if tab_id t = tab_id fileTab then nextFileTab else t) tabs)"

definition reconnect_files_body ::
  "profile \<Rightarrow> tab \<Rightarrow> tab \<Rightarrow> jsstr \<Rightarrow> connection \<Rightarrow> ft_session option io" where
  "reconnect_files_body profile fileTab sourceTab targetPath opened =
     thn (upd (\<lambda>s. s\<lparr>w_pendingKnownHost := None\<rparr>))
     (bnd (authenticate_saved profile opened) (\<lambda>session.
     bnd (fileTransferOpen (conn_id session)) (\<lambda>transferSession.
     bnd (fileTransferList (fts_id transferSession) targetPath) (\<lambda>entries.
     (let readySession = file_transfer_ready session
      in bnd (if truthy (tab_parentConnectionId fileTab) \<noteq> None \<and> cap_terminal (conn_capabilities readySession)
              then catch (bnd (attachTerminalWithSnapshot (conn_id readySession) False defaultTerminalSize)
                           (\<lambda>(t, snap). ret (Some t, snap)))
                         (\<lambda>_. ret (None, None))
              else ret (None, None)) (\<lambda>(t, snap).
         (let nextFileTab = reconnected_file fileTab readySession transferSession;
              nextSourceTab = reconnected_source sourceTab readySession t snap
          in thn (upd (\<lambda>s. (show_remote entries (s\<lparr>
                 w_sessionTabs := replace_reconnected fileTab sourceTab nextFileTab nextSourceTab (w_sessionTabs s),
                 w_activeSessionTabId := tab_id nextFileTab, w_activeConnection := Some (tab_connection nextFileTab),
                 w_activeTerminal := None, w_terminalSnapshot := None,
                 w_activeFileTransferSession := Some transferSession, w_remotePath := targetPath\<rparr>))
               \<lparr>w_message := Msg ''SFTP reconnected'' [AStr targetPath, ANum (int (length entries))]\<rparr>))
             (thn (ignore refreshWorkspace)
             (ret (Some transferSession))))))))))"

definition reconnect_files_failed :: "profile \<Rightarrow> err \<Rightarrow> ft_session option io" where
  "reconnect_files_failed profile e =
     bnd (resolveHostTrustFailure profile e) (\<lambda>trustResult.
       case trustResult of
         Some _ \<Rightarrow> ret None
       | None \<Rightarrow> thn (say (Msg ''SFTP reconnect failed'' [AErr e])) (ret None))"

definition refuse :: "string \<Rightarrow> arg list \<Rightarrow> 'a option io" where
  "refuse what args = thn (say (Msg what args)) (ret None)"

text \<open>What is closed before the new connection is opened: the terminal and the connection of the source tab.\<close>

definition close_source :: "workspace \<Rightarrow> tab \<Rightarrow> unit io" where
  "close_source captured sourceTab = block [
     upd (\<lambda>s. s\<lparr>w_sessionNotice := [], w_message := Msg ''SFTP refresh failed, reconnecting'' []\<rparr>),
     (case tab_terminal sourceTab of Some t \<Rightarrow> ignore (terminalClose (term_id t)) | None \<Rightarrow> ret ()),
     ignore (connectionClose (conn_id (tab_connection sourceTab))),
     upd (markConnectionTabsDisconnected (w_activeConnection captured) (conn_id (tab_connection sourceTab)))]"

definition reconnectActiveFileTransfer :: "workspace \<Rightarrow> jsstr \<Rightarrow> ft_session option io" where
  "reconnectActiveFileTransfer captured targetPath =
     (case active_file_tab captured of
        None \<Rightarrow> refuse ''not an SFTP tab'' []
      | Some fileTab \<Rightarrow>
          (case source_tab captured fileTab of
             None \<Rightarrow> refuse ''no SSH tab of the SFTP tab'' []
           | Some sourceTab \<Rightarrow>
               (case find (\<lambda>p. profile_id p = conn_profileId (tab_connection sourceTab)) (w_profiles captured) of
                  None \<Rightarrow> refuse ''no profile of the SFTP tab'' [AStr (conn_profileId (tab_connection sourceTab))]
                | Some profile \<Rightarrow>
                    if uses_password profile \<and> \<not> hasRememberedPassword (w_secrets captured) (profile_id profile)
                    then refuse ''SFTP needs the password again'' []
                    else thn (close_source captured sourceTab)
                      (bracket (connectionOpen profile) (\<lambda>c. ignore (connectionClose (conn_id c)))
                        (reconnect_files_body profile fileTab sourceTab targetPath)
                        (reconnect_files_failed profile)))))"

definition refreshRemoteFiles :: "workspace \<Rightarrow> jsstr option \<Rightarrow> bool io" where
  "refreshRemoteFiles captured pathOverride =
     (let targetPath = normalizeRemotePathInput (case pathOverride of Some p \<Rightarrow> p | None \<Rightarrow> w_remotePath captured)
      in catch
        (bnd (ensureFileTransferSession captured) (\<lambda>session.
         bnd (fileTransferList (fts_id session) targetPath) (\<lambda>entries.
         thn (upd (\<lambda>s. (show_remote entries (s\<lparr>w_remotePath := targetPath\<rparr>))
                \<lparr>w_message := Msg ''remote entries loaded'' [ANum (int (length entries))]\<rparr>))
         (ret True))))
        (\<lambda>e.
          if \<not> isRetryableSftpConnectionError (err_text e) then
            thn (say (Msg ''reading the remote directory failed'' [AStr targetPath, AErr e])) (ret False)
          else if active_file_tab captured = None then
            thn (upd (\<lambda>s. s\<lparr>w_activeFileTransferSession := None,
                   w_message := Msg ''SFTP channel failed, refresh again'' [AErr e]\<rparr>)) (ret False)
          else
            thn (say (Msg ''SFTP connection lost, reconnecting'' [AErr e]))
            (bnd (reconnectActiveFileTransfer captured targetPath) (\<lambda>r. ret (r \<noteq> None)))))"

text \<open>The reconnect keeps no connection open unless it succeeds.\<close>

lemma quiet_authenticate_saved [act]: "quiet (authenticate_saved profile session)"
  by (auto simp: authenticate_saved_def intro!: act split: option.split auth_type.split prod.split)

lemma quiet_files_body: "quiet (reconnect_files_body profile fileTab sourceTab targetPath opened)"
  by (auto simp: reconnect_files_body_def Let_def intro!: act split: prod.split)

lemma quiet_files_failed: "quiet (reconnect_files_failed profile e)"
  by (auto simp: reconnect_files_failed_def intro!: act split: option.split)

lemma quiet_refuse [act]: "quiet (refuse what args)"
  by (simp add: refuse_def act)

lemma quiet_close_source [act]: "quiet (close_source captured sourceTab)"
  by (auto simp: close_source_def intro!: act split: option.split)

lemma files_body_result: "yields (\<lambda>r. r \<noteq> None) (reconnect_files_body profile fileTab sourceTab targetPath opened)"
  by (auto simp: reconnect_files_body_def Let_def intro!: act split: prod.split)

lemma reconnect_files_leakless:
  "leakless opened_connection closed_connection (\<lambda>r. r \<noteq> None) (reconnectActiveFileTransfer captured targetPath)"
  unfolding reconnectActiveFileTransfer_def
  by (intro leakless_rules profile_connection.bracket_leakless quiet_files_body quiet_files_failed
      files_body_result; (rule leakless_quiet)?; intro act)

text \<open>
  Reconnecting the files of a tab never leaves a connection behind: at most one connection is
  opened, and unless the handler returns its transfer session it was closed again.
\<close>

theorem reconnectActiveFileTransfer_no_leak:
  "case reconnectActiveFileTransfer captured targetPath env w of (res, w') \<Rightarrow>
     \<exists>h. history_of w' = history_of w @ h \<and> length (ids opened_connection h) \<le> 1
       \<and> ((\<exists>r. res = Inr r \<and> r \<noteq> None)
          \<or> set (ids opened_connection h) \<subseteq> set (ids closed_connection h))"
  by (rule leaklessD [OF reconnect_files_leakless])

section \<open>The tab with the files of a connection\<close>

definition open_source :: "workspace \<Rightarrow> jsstr option \<Rightarrow> connection option" where
  "open_source captured connectionId =
     (let requestedTab =
        (case (case connectionId of Some i \<Rightarrow> find_tab i (w_sessionTabs captured) | None \<Rightarrow> None) of
           Some t \<Rightarrow> Some t | None \<Rightarrow> activeSessionTab captured);
          sourceTab =
        (case requestedTab of
           Some t \<Rightarrow> if tab_kind_of t = FileTransferTab
             then (case tab_parentConnectionId t of Some i \<Rightarrow> find_tab i (w_sessionTabs captured) | None \<Rightarrow> None)
             else Some t
         | None \<Rightarrow> None)
      in case sourceTab of Some t \<Rightarrow> Some (tab_connection t) | None \<Rightarrow> w_activeConnection captured)"

definition existing_file_tab :: "connection \<Rightarrow> tab list \<Rightarrow> (tab \<times> ft_session) option" where
  "existing_file_tab source tabs =
     (case find (\<lambda>t. tab_kind_of t = FileTransferTab
              \<and> (tab_parentConnectionId t = Some (conn_id source)
                 \<or> map_option fts_connectionId (tab_fileTransferSession t) = Some (conn_id source))) tabs of
        Some t \<Rightarrow> (case tab_fileTransferSession t of Some f \<Rightarrow> Some (t, f) | None \<Rightarrow> None)
      | None \<Rightarrow> None)"

definition show_existing_files :: "workspace \<Rightarrow> connection \<Rightarrow> tab \<Rightarrow> ft_session \<Rightarrow> unit io" where
  "show_existing_files captured source existing session =
     (let targetPath = (if w_activeSessionTabId captured = tab_id existing then w_remotePath captured else remoteRootPath)
      in thn (upd (\<lambda>s. s\<lparr>w_activeSessionTabId := tab_id existing, w_activeConnection := Some (tab_connection existing),
             w_activeTerminal := None, w_terminalSnapshot := None, w_activeFileTransferSession := Some session,
             w_remotePath := targetPath\<rparr>))
         (catch
           (bnd (fileTransferList (fts_id session) targetPath) (\<lambda>entries.
              upd (\<lambda>s. (show_remote entries s)
                \<lparr>w_message := Msg ''switched to the files of'' [AStr (conn_title source), ANum (int (length entries))]\<rparr>)))
           (\<lambda>e. say (Msg ''switching to the files failed'' [AErr e]))))"

definition mark_files_ready :: "jsstr \<Rightarrow> tab \<Rightarrow> tab" where
  "mark_files_ready sourceId t =
     (if tab_id t = sourceId then t\<lparr>tab_connection := file_transfer_ready (tab_connection t)\<rparr> else t)"

definition open_new_files :: "connection \<Rightarrow> unit io" where
  "open_new_files source =
     catch
       (bnd (fileTransferOpen (conn_id source)) (\<lambda>session.
        (let tabId = sftp_tab_id source session;
             nextConnection = sftp_connection tabId (file_transfer_ready source);
             nextTab = (new_tab tabId FileTransferTab nextConnection (Some session) None None)
               \<lparr>tab_parentConnectionId := Some (conn_id source)\<rparr>
         in thn (upd (\<lambda>s. s\<lparr>
                w_sessionTabs := map (mark_files_ready (conn_id source)) (w_sessionTabs s) @ [nextTab],
                w_activeSessionTabId := tabId, w_activeConnection := Some nextConnection,
                w_activeTerminal := None, w_terminalSnapshot := None,
                w_activeFileTransferSession := Some session, w_remotePath := remoteRootPath\<rparr>))
            (bnd (fileTransferList (fts_id session) remoteRootPath) (\<lambda>entries.
               upd (\<lambda>s. (show_remote entries s)
                 \<lparr>w_message := Msg ''files opened'' [AStr (conn_title source), ANum (int (length entries))]\<rparr>))))))
       (\<lambda>e. say (Msg ''opening the files failed'' [AErr e]))"

definition openFileTransferTab :: "jsstr option \<Rightarrow> bool \<Rightarrow> unit io" where
  "openFileTransferTab connectionId forceNew =
     bnd get (\<lambda>captured.
       case open_source captured connectionId of
         None \<Rightarrow> say (Msg ''open an SSH connection first'' [])
       | Some source \<Rightarrow>
           if \<not> cap_fileTransfer (conn_capabilities source) then say (Msg ''open an SSH connection first'' [])
           else if map_option tr_authenticated (conn_transport source) \<noteq> Some True then
             say (Msg ''authenticate before opening files'' [])
           else
             (case (if forceNew then None else existing_file_tab source (w_sessionTabs captured)) of
                Some (existing, session) \<Rightarrow> show_existing_files captured source existing session
              | None \<Rightarrow> open_new_files source))"

end
