(* ===== verification/Downloads.thy ===== *)
theory Downloads
  imports FileOperations
begin

text \<open>
  What a recursive download asks for (\<^verbatim>\<open>queueDownloadDirectory\<close> of
  \<^verbatim>\<open>src/app/usePortivaWorkspace.ts\<close>). For a remote tree that the back end lists faithfully, the walk
  asks for exactly the directories and files of the tree, each directory before its contents, and the
  depth of the tree is enough fuel. Its local paths lie below the chosen directory, provided that no
  remote name contains white space outside ASCII; the last theorem shows that they do not lie there
  without the proviso: \<^verbatim>\<open>joinLocalPath\<close> trims the name again after \<^verbatim>\<open>safeLocalDownloadName\<close> has
  checked it.
\<close>

section \<open>Trees\<close>

datatype rtree = Node (tree_entry: remote_entry) (children: "rtree list")

fun tree_depth :: "rtree \<Rightarrow> nat" where
  "tree_depth (Node e ts) =
     (if ent_kind e = Directory then Suc (fold max (map tree_depth ts) 0) else 0)"

text \<open>The requests a tree needs, and what it adds to the counts.\<close>

fun plan :: "jsstr \<Rightarrow> jsstr \<Rightarrow> rtree \<Rightarrow> request list" where
  "plan sessionId target (Node e ts) =
     (case ent_kind e of
        Directory \<Rightarrow>
          LocalFileMkdir (download_target target e) # FileTransferList sessionId (ent_path e)
            # concat (map (plan sessionId (download_target target e)) ts)
      | File \<Rightarrow> [FileTransferDownload sessionId (ent_path e) (download_target target e)]
      | _ \<Rightarrow> [])"

fun counted :: "rtree \<Rightarrow> walk_counts \<Rightarrow> walk_counts" where
  "counted (Node e ts) n =
     (case ent_kind e of
        Directory \<Rightarrow> fold counted ts (n\<lparr>wk_directoryCount := Suc (wk_directoryCount n)\<rparr>)
      | File \<Rightarrow> n\<lparr>wk_fileCount := Suc (wk_fileCount n)\<rparr>
      | _ \<Rightarrow> n\<lparr>wk_skippedCount := Suc (wk_skippedCount n)\<rparr>)"

text \<open>The back end lists the tree and accepts what it is asked.\<close>

fun lists_tree :: "environment \<Rightarrow> jsstr \<Rightarrow> rtree \<Rightarrow> bool" where
  "lists_tree env sessionId (Node e ts) \<longleftrightarrow>
     (ent_kind e = Directory \<longrightarrow>
        (\<forall>h. respond env h (FileTransferList sessionId (ent_path e)) = Inr (REntries (map tree_entry ts))))
     \<and> list_all (lists_tree env sessionId) ts"

definition accepts :: "environment \<Rightarrow> bool" where
  "accepts env \<longleftrightarrow> (\<forall>h p. respond env h (LocalFileMkdir p) = Inr RUnit)
     \<and> (\<forall>h s r l. \<exists>t. respond env h (FileTransferDownload s r l) = Inr (RTransfer t))"

section \<open>The walk\<close>

definition asked :: "world \<Rightarrow> request list" where
  "asked w = map fst (history_of w)"

lemma invoke_answered:
  assumes "respond env (history_of w) req = Inr r" and "d r = Some x"
  shows "\<exists>w'. invoke d req env w = (Inr x, w') \<and> asked w' = asked w @ [req]"
  using assms by (simp add: invoke_run asked_def)

lemma download_run:
  assumes "accepts env"
  shows "\<exists>t w'. fileTransferDownload s r l env w = (Inr t, w') \<and> asked w' = asked w @ [FileTransferDownload s r l]"
proof -
  obtain t where "respond env (history_of w) (FileTransferDownload s r l) = Inr (RTransfer t)"
    using assms unfolding accepts_def by blast
  from invoke_answered [OF this, of as_transfer t] show ?thesis
    by (auto simp: fileTransferDownload_def as_transfer_def)
qed

lemma mkdir_run:
  assumes "accepts env"
  shows "\<exists>w'. ensureLocalDirectory p env w = (Inr (), w') \<and> asked w' = asked w @ [LocalFileMkdir p]"
proof -
  have "respond env (history_of w) (LocalFileMkdir p) = Inr RUnit" using assms unfolding accepts_def by blast
  from invoke_answered [OF this, of as_unit "()"] show ?thesis
    by (auto simp: ensureLocalDirectory_def localFileMkdir_def as_unit_def catch_def)
qed

lemma list_run:
  assumes "\<forall>h. respond env h (FileTransferList s p) = Inr (REntries es)"
  shows "\<exists>w'. fileTransferList s p env w = (Inr es, w') \<and> asked w' = asked w @ [FileTransferList s p]"
  using invoke_answered [of env w "FileTransferList s p" "REntries es" as_entries es] assms
  by (simp add: fileTransferList_def as_entries_def)

lemma bnd_run: "m env w = (Inr x, w') \<Longrightarrow> bnd m k env w = k x env w'"
  by (simp add: bnd_def)

lemma thn_run: "m env w = (Inr x, w') \<Longrightarrow> thn m n env w = n env w'"
  by (simp add: thn_def bnd_def)

text \<open>A loop over entries, each of which adds its requests.\<close>

lemma fold_io_run:
  assumes "\<And>x n w. x \<in> set xs \<Longrightarrow> \<exists>w'. f (g x) n env w = (Inr (c x n), w') \<and> asked w' = asked w @ p x"
  shows "\<exists>w'. fold_io f (map g xs) n env w = (Inr (fold c xs n), w') \<and> asked w' = asked w @ concat (map p xs)"
  using assms
proof (induction xs arbitrary: n w)
  case Nil
  then show ?case by (simp add: ret_def)
next
  case (Cons x xs)
  obtain w1 where w1: "f (g x) n env w = (Inr (c x n), w1)" "asked w1 = asked w @ p x"
    using Cons.prems by fastforce
  obtain w2 where "fold_io f (map g xs) (c x n) env w1 = (Inr (fold c xs (c x n)), w2)"
      "asked w2 = asked w1 @ concat (map p xs)"
    using Cons.IH [of "c x n" w1] Cons.prems by auto
  then show ?case using w1 by (simp add: bnd_run)
qed

lemma fold_max_le: "fold max (map f ts) k \<le> n \<longleftrightarrow> k \<le> n \<and> (\<forall>t \<in> set ts. f t \<le> (n :: nat))"
  by (induction ts arbitrary: k) auto

lemma visit_entry_run:
  assumes "accepts env" and "lists_tree env s t" and "tree_depth t \<le> fuel"
  shows "\<exists>w'. visit_entry (visit fuel s) s target (tree_entry t) n env w = (Inr (counted t n), w')
     \<and> asked w' = asked w @ plan s target t"
  using assms(2,3)
proof (induction t arbitrary: fuel target n w)
  case (Node e ts)
  show ?case
  proof (cases "ent_kind e")
    case Directory
    then obtain k where k: "fuel = Suc k" "\<forall>t \<in> set ts. tree_depth t \<le> k"
      using Node.prems(2) by (cases fuel) (auto simp: fold_max_le)
    let ?target = "download_target target e"
    let ?n = "n\<lparr>wk_directoryCount := Suc (wk_directoryCount n)\<rparr>"
    obtain w1 where w1: "ensureLocalDirectory ?target env w = (Inr (), w1)" "asked w1 = asked w @ [LocalFileMkdir ?target]"
      using mkdir_run [OF assms(1)] by blast
    obtain w2 where w2: "fileTransferList s (ent_path e) env w1 = (Inr (map tree_entry ts), w2)"
        "asked w2 = asked w1 @ [FileTransferList s (ent_path e)]"
      using list_run [of env s "ent_path e" "map tree_entry ts" w1] Node.prems(1) Directory by auto
    have "\<exists>w'. visit_entry (visit k s) s ?target (tree_entry t) m env v = (Inr (counted t m), w')
        \<and> asked w' = asked v @ plan s ?target t" if "t \<in> set ts" for t m v
      using Node.IH [OF that] Node.prems(1) k that by (simp add: list_all_iff)
    from fold_io_run [where f = "visit_entry (visit k s) s ?target" and g = tree_entry and c = counted
        and p = "plan s ?target" and xs = ts and env = env, OF this]
    obtain w3 where "fold_io (visit_entry (visit k s) s ?target) (map tree_entry ts) ?n env w2
        = (Inr (fold counted ts ?n), w3)" "asked w3 = asked w2 @ concat (map (plan s ?target) ts)"
      by blast
    then show ?thesis using Directory k(1) w1 w2
      by (simp add: visit_entry_def Let_def thn_run bnd_run)
  next
    case File
    obtain t w1 where "fileTransferDownload s (ent_path e) (download_target target e) env w = (Inr t, w1)"
        "asked w1 = asked w @ [FileTransferDownload s (ent_path e) (download_target target e)]"
      using download_run [OF assms(1)] by blast
    then show ?thesis using File by (simp add: visit_entry_def thn_run ret_def)
  qed (simp_all add: visit_entry_def ret_def)
qed

lemma download_directory_run:
  assumes "accepts env" and "lists_tree env s (Node e ts)" and "ent_kind e = Directory"
    and "ent_path e = normalizeRemotePathInput remoteRoot" and "tree_depth (Node e ts) \<le> fuel"
  shows "\<exists>w'. queueDownloadDirectory fuel s remoteRoot localRoot env w
      = (Inr (fold counted ts \<lparr>wk_directoryCount = 1, wk_fileCount = 0, wk_skippedCount = 0\<rparr>), w')
    \<and> asked w' = asked w @ LocalFileMkdir localRoot # FileTransferList s (ent_path e)
        # concat (map (plan s localRoot) ts)"
proof -
  let ?n = "\<lparr>wk_directoryCount = 1, wk_fileCount = 0, wk_skippedCount = 0\<rparr>"
  obtain k where k: "fuel = Suc k" "\<forall>t \<in> set ts. tree_depth t \<le> k"
    using assms(3,5) by (cases fuel) (auto simp: fold_max_le)
  obtain w1 where w1: "ensureLocalDirectory localRoot env w = (Inr (), w1)" "asked w1 = asked w @ [LocalFileMkdir localRoot]"
    using mkdir_run [OF assms(1)] by blast
  obtain w2 where w2: "fileTransferList s (ent_path e) env w1 = (Inr (map tree_entry ts), w2)"
      "asked w2 = asked w1 @ [FileTransferList s (ent_path e)]"
    using list_run [of env s "ent_path e" "map tree_entry ts" w1] assms(2,3) by auto
  have "\<exists>w'. visit_entry (visit k s) s localRoot (tree_entry t) m env v = (Inr (counted t m), w')
      \<and> asked w' = asked v @ plan s localRoot t" if "t \<in> set ts" for t m v
    using visit_entry_run [OF assms(1)] assms(2) k that by (simp add: list_all_iff)
  from fold_io_run [where f = "visit_entry (visit k s) s localRoot" and g = tree_entry and c = counted
      and p = "plan s localRoot" and xs = ts and env = env, OF this]
  obtain w3 where "fold_io (visit_entry (visit k s) s localRoot) (map tree_entry ts) ?n env w2
      = (Inr (fold counted ts ?n), w3)" "asked w3 = asked w2 @ concat (map (plan s localRoot) ts)"
    by blast
  then show ?thesis using k(1) w1 w2 assms(4)
    by (simp add: queueDownloadDirectory_def thn_run bnd_run)
qed

section \<open>Where the files go\<close>

text \<open>White space that \<^verbatim>\<open>safeLocalDownloadName\<close> removes or replaces: the blank and control characters.\<close>

definition plain_name :: "jsstr \<Rightarrow> bool" where
  "plain_name name \<longleftrightarrow> list_all (\<lambda>c. js_space c \<longrightarrow> c \<le> 0x20) name"

fun plain_tree :: "rtree \<Rightarrow> bool" where
  "plain_tree (Node e ts) \<longleftrightarrow> plain_name (ent_name e) \<and> list_all plain_tree ts"

text \<open>A path below a directory: the directory followed by names every desktop system accepts.\<close>

definition path_separator :: "jsstr \<Rightarrow> code_unit" where
  "path_separator base = (if backslash \<in> set base then backslash else slash)"

definition below :: "jsstr \<Rightarrow> jsstr \<Rightarrow> bool" where
  "below base p \<longleftrightarrow> (\<exists>names. names \<noteq> [] \<and> list_all safe_file_name names
     \<and> p = base @ concat (map (\<lambda>n. path_separator base # n) names))"

definition local_path :: "request \<Rightarrow> jsstr option" where
  "local_path req = (case req of LocalFileMkdir p \<Rightarrow> Some p | FileTransferDownload _ _ p \<Rightarrow> Some p | _ \<Rightarrow> None)"

text \<open>A directory to download to: trimmed, with no separator at its end.\<close>

definition proper_directory :: "jsstr \<Rightarrow> bool" where
  "proper_directory d \<longleftrightarrow> d \<noteq> [] \<and> js_trim d = d \<and> \<not> ends_with d slash \<and> \<not> ends_with d backslash"

lemma hd_trim_end: "trim_end P s \<noteq> [] \<Longrightarrow> hd (trim_end P s) = hd s"
  using trim_end_prefix [of s P] by (metis hd_append2)

lemma plain_safe_trim:
  assumes "plain_name name"
  shows "js_trim (safeLocalDownloadName name) = safeLocalDownloadName name"
proof (rule trim_id, rule disjI2, rule conjI)
  let ?s = "safeLocalDownloadName name"
  define m where "m = map (\<lambda>c. if invalid_name_unit c then 95 else c) (js_trim name)"
  define t where "t = trim_end (\<lambda>c. c = 32 \<or> c = 46) m"
  have eq: "?s = (if t = [] \<or> t = js ''.'' \<or> t = js ''..'' then js ''download'' else if reserved_name t then 95 # t else t)"
    by (simp add: safeLocalDownloadName_def t_def m_def Let_def)
  have under: "\<not> js_space 95" by (simp add: js_space_def)
  have "\<not> js_space (hd t)" if "t \<noteq> []"
  proof -
    have "m \<noteq> []" using that by (auto simp: t_def trim_end_def)
    then have "js_trim name \<noteq> []" "hd m = (if invalid_name_unit (hd (js_trim name)) then 95 else hd (js_trim name))"
      by (auto simp: m_def hd_map)
    then show ?thesis using that trim_hd [of name] under hd_trim_end [of _ m] by (auto simp: t_def)
  qed
  then show "\<not> js_space (hd ?s)" by (auto simp: eq under) (simp_all add: js_def js_space_def)
  have sub: "c = 95 \<or> (c \<in> set name \<and> \<not> invalid_name_unit c)" if "c \<in> set t" for c
  proof -
    have "c \<in> set m" using that set_trim_end [of "\<lambda>c. c = 32 \<or> c = 46" m] by (auto simp: t_def)
    then show ?thesis using set_trim_end [of js_space "dropWhile js_space name"] set_dropWhileD [of _ js_space name]
      by (auto simp: m_def js_trim_def split: if_splits)
  qed
  have "\<not> js_space (last t)" if "t \<noteq> []"
  proof -
    have "last t \<noteq> 32" using that trim_end_last [of "\<lambda>c. c = 32 \<or> c = 46" m] by (auto simp: t_def)
    moreover have "last t = 95 \<or> (last t \<in> set name \<and> \<not> invalid_name_unit (last t))" using sub that by simp
    moreover have "c \<le> 31" if "c \<le> 32" "c \<noteq> 32" for c :: code_unit using that by unat_arith
    ultimately show ?thesis using assms under
      by (auto simp: plain_name_def list_all_iff invalid_name_unit_def)
  qed
  then show "\<not> js_space (last ?s)" by (auto simp: eq under) (simp_all add: js_def js_space_def)
qed

lemma join_safe: "proper_directory d \<Longrightarrow> js_trim n = n \<Longrightarrow> joinLocalPath d n = d @ path_separator d # n"
  by (simp add: joinLocalPath_def proper_directory_def path_separator_def Let_def)

lemma proper_below:
  assumes "proper_directory d" and "safe_file_name n" and "js_trim n = n"
  shows "proper_directory (d @ path_separator d # n)" and "path_separator (d @ path_separator d # n) = path_separator d"
proof -
  have n: "n \<noteq> []" "slash \<notin> set n" "backslash \<notin> set n"
    using assms(2) by (auto simp: safe_file_name_def list_all_iff invalid_name_unit_def)
  then have last: "last n \<noteq> slash" "last n \<noteq> backslash" by (metis last_in_set)+
  have "\<not> js_space (last n)" using trim_last [of n] assms(3) n by simp
  moreover have "\<not> js_space (hd d)" using trim_hd [of d] assms(1) by (simp add: proper_directory_def)
  ultimately have "js_trim (d @ path_separator d # n) = d @ path_separator d # n"
    using assms(1) n by (intro trim_id) (simp add: proper_directory_def)
  then show "proper_directory (d @ path_separator d # n)"
    using assms(1) n last by (simp add: proper_directory_def ends_with_def)
  show "path_separator (d @ path_separator d # n) = path_separator d"
    using n by (auto simp: path_separator_def)
qed

lemma below_step:
  assumes "d = base \<or> below base d" and "path_separator d = path_separator base" and "safe_file_name n"
  shows "below base (d @ path_separator d # n)"
proof (cases "d = base")
  case True
  then show ?thesis using assms(3) by (auto simp: below_def intro!: exI [of _ "[n]"])
next
  case False
  then obtain names where "names \<noteq> []" "list_all safe_file_name names"
      "d = base @ concat (map (\<lambda>n. path_separator base # n) names)"
    using assms(1) by (auto simp: below_def)
  then show ?thesis using assms(2,3) by (auto simp: below_def intro!: exI [of _ "names @ [n]"])
qed

lemma download_target_below:
  assumes "proper_directory d" and "plain_name (ent_name e)" and "d = base \<or> below base d"
    and "path_separator d = path_separator base"
  shows "below base (download_target d e)" and "proper_directory (download_target d e)"
    and "path_separator (download_target d e) = path_separator base"
proof -
  let ?n = "safeLocalDownloadName (ent_name e)"
  have t: "download_target d e = d @ path_separator d # ?n"
    using join_safe [OF assms(1)] plain_safe_trim [OF assms(2)] by (simp add: download_target_def)
  show "below base (download_target d e)" unfolding t by (rule below_step [OF assms(3,4) safe_download_name])
  show "proper_directory (download_target d e)" unfolding t
    by (rule proper_below(1) [OF assms(1) safe_download_name plain_safe_trim [OF assms(2)]])
  show "path_separator (download_target d e) = path_separator base"
    unfolding t assms(4) [symmetric] by (rule proper_below(2) [OF assms(1) safe_download_name plain_safe_trim [OF assms(2)]])
qed

lemma plan_below:
  "plain_tree t \<Longrightarrow> proper_directory d \<Longrightarrow> d = base \<or> below base d \<Longrightarrow> path_separator d = path_separator base
   \<Longrightarrow> req \<in> set (plan s d t) \<Longrightarrow> local_path req = Some p \<Longrightarrow> below base p"
proof (induction t arbitrary: d)
  case (Node e ts)
  have target: "below base (download_target d e)" "proper_directory (download_target d e)"
      "path_separator (download_target d e) = path_separator base"
    using download_target_below [of d e base] Node.prems by simp_all
  show ?case
  proof (cases "ent_kind e")
    case Directory
    then consider "req = LocalFileMkdir (download_target d e)" | "req = FileTransferList s (ent_path e)"
      | t where "t \<in> set ts" "req \<in> set (plan s (download_target d e) t)"
      using Node.prems(5) by auto
    then show ?thesis
    proof cases
      case 3
      then show ?thesis using Node.IH [OF 3(1), of "download_target d e"] Node.prems target
        by (auto simp: list_all_iff)
    qed (use Node.prems(6) target in \<open>auto simp: local_path_def\<close>)
  qed (use Node.prems target in \<open>auto simp: local_path_def\<close>)
qed

section \<open>Properties\<close>

text \<open>
  C10. When the back end accepts every request to make a directory and to download a file, a recursive
  download of a remote tree asks for exactly that tree: the root directory is made,
  then, entry by entry in the order of the listings, every directory is made before it is listed and
  its contents follow, every file is queued once, special entries are skipped, and the counts of the
  summary are those of the tree. The depth of the tree is enough fuel, and more makes no difference.
\<close>

theorem queueDownloadDirectory_tree:
  assumes "accepts env" and "lists_tree env s (Node e ts)" and "ent_kind e = Directory"
    and "ent_path e = normalizeRemotePathInput remoteRoot" and "tree_depth (Node e ts) \<le> fuel"
  shows "\<exists>w'. queueDownloadDirectory fuel s remoteRoot localRoot env w
      = (Inr (fold counted ts \<lparr>wk_directoryCount = 1, wk_fileCount = 0, wk_skippedCount = 0\<rparr>), w')
    \<and> asked w' = asked w @ LocalFileMkdir localRoot # FileTransferList s (ent_path e)
        # concat (map (plan s localRoot) ts)"
  by (rule download_directory_run [OF assms])

text \<open>A back end with one directory holding one file, for the examples.\<close>

definition example_entry :: "jsstr \<Rightarrow> string \<Rightarrow> entry_kind \<Rightarrow> remote_entry" where
  "example_entry name path k = \<lparr>ent_name = name, ent_path = js path, ent_kind = k, ent_size = 1,
     ent_modifiedAt = None, ent_permissions = None, ent_owner = None, ent_group = None\<rparr>"

definition example_transfer :: transfer where
  "example_transfer = \<lparr>tf_id = js ''t'', tf_connectionId = js ''c'', tf_direction = Download,
     tf_protocol = PSftp, tf_itemKind = ItemFile, tf_localPath = [], tf_remotePath = [], tf_batchItems = None,
     tf_status = Pending, tf_conflictPolicy = Ask, tf_conflictPath = None, tf_retryCount = 0,
     tf_totalBytes = None, tf_transferredBytes = 0, tf_totalItems = None, tf_completedItems = 0,
     tf_skippedItems = 0, tf_failedItems = 0, tf_speedBytesPerSecond = None, tf_error = None,
     tf_createdAt = [], tf_updatedAt = []\<rparr>"

definition example_server :: environment where
  "example_server = \<lparr>
     respond = (\<lambda>h req. case req of
        FileTransferList s p \<Rightarrow> Inr (REntries [example_entry (js ''a.txt'') ''/d/a.txt'' File])
      | LocalFileMkdir p \<Rightarrow> Inr RUnit
      | FileTransferDownload s r l \<Rightarrow> Inr (RTransfer example_transfer)
      | _ \<Rightarrow> Inl []),
     meanwhile = (\<lambda>h s. s), tauri_runtime = True, clock = (\<lambda>_. []), fresh_id = (\<lambda>_. [])\<rparr>"

abbreviation example_tree :: rtree where
  "example_tree \<equiv> Node (example_entry (js ''d'') ''/d'' Directory) [Node (example_entry (js ''a.txt'') ''/d/a.txt'' File) []]"

definition example_world :: world where
  "example_world = \<lparr>state_of = initial_workspace, history_of = []\<rparr>"

lemma example_lists:
  "accepts example_server" "lists_tree example_server s example_tree"
  "ent_kind (example_entry (js ''d'') ''/d'' Directory) = Directory"
  "ent_path (example_entry (js ''d'') ''/d'' Directory) = normalizeRemotePathInput (js ''/d'')"
  "tree_depth example_tree \<le> 1"
  by (simp_all add: accepts_def example_server_def example_entry_def normalizeRemotePathInput_def
      forward_slashes_def push_part_def absolute_def js_trim_def trim_end_def js_space_def js_def)

lemma example_root: "proper_directory (js ''/dl'')"
  by (simp add: proper_directory_def ends_with_def js_trim_def trim_end_def js_space_def js_def)

theorem queueDownloadDirectory_tree_witness:
  "\<exists>w'. queueDownloadDirectory 1 (js ''s'') (js ''/d'') (js ''/dl'') example_server example_world
      = (Inr \<lparr>wk_directoryCount = 1, wk_fileCount = 1, wk_skippedCount = 0\<rparr>, w')
    \<and> length (asked w') = 3"
proof -
  have "asked example_world = []" by (simp add: asked_def example_world_def)
  then show ?thesis
    using queueDownloadDirectory_tree [OF example_lists, where localRoot = "js ''/dl''" and w = example_world and s = "js ''s''"]
    by (auto simp: example_entry_def)
qed

text \<open>
  C11. When these requests are accepted, every path a recursive download makes or writes to is the chosen
  directory or lies below it, through names every desktop system accepts, whatever the server calls its
  files - as long as no remote name contains white space outside ASCII and the chosen directory has no
  separator or white space at its end.
\<close>

theorem downloads_stay_below:
  assumes "accepts env" and "lists_tree env s (Node e ts)" and "ent_kind e = Directory"
    and "ent_path e = normalizeRemotePathInput remoteRoot" and "tree_depth (Node e ts) \<le> fuel"
    and "proper_directory localRoot" and "list_all plain_tree ts"
  shows "\<exists>r w' new. queueDownloadDirectory fuel s remoteRoot localRoot env w = (Inr r, w')
    \<and> asked w' = asked w @ new
    \<and> list_all (\<lambda>req. case local_path req of Some p \<Rightarrow> p = localRoot \<or> below localRoot p | None \<Rightarrow> True) new"
proof -
  let ?new = "LocalFileMkdir localRoot # FileTransferList s (ent_path e) # concat (map (plan s localRoot) ts)"
  have "case local_path req of Some p \<Rightarrow> p = localRoot \<or> below localRoot p | None \<Rightarrow> True" if "req \<in> set ?new" for req
    using that assms(6,7) plan_below [where d = localRoot and base = localRoot and s = s and req = req]
    by (auto simp: list_all_iff local_path_def split: option.split)
  then have "list_all (\<lambda>req. case local_path req of Some p \<Rightarrow> p = localRoot \<or> below localRoot p | None \<Rightarrow> True) ?new"
    unfolding list_all_iff by blast
  then show ?thesis using download_directory_run [OF assms(1-5)] by blast
qed

theorem downloads_stay_below_witness:
  "\<exists>r w' new. queueDownloadDirectory 1 (js ''s'') (js ''/d'') (js ''/dl'') example_server example_world = (Inr r, w')
    \<and> asked w' = asked example_world @ new
    \<and> list_all (\<lambda>req. case local_path req of Some p \<Rightarrow> p = js ''/dl'' \<or> below (js ''/dl'') p | None \<Rightarrow> True) new"
proof -
  have "list_all plain_tree [Node (example_entry (js ''a.txt'') ''/d/a.txt'' File) []]"
    by (simp add: example_entry_def plain_name_def js_space_def js_def)
  from downloads_stay_below [OF example_lists example_root this] show ?thesis .
qed

text \<open>
  C12. With white space outside ASCII they do not: an entry a server calls by two dots, a no-break
  space and a dot is downloaded to the parent of the chosen directory. The check for \<^verbatim>\<open>..\<close> runs
  before the final trimming, which uncovers it.
\<close>

theorem download_escapes:
  assumes "proper_directory d" and "ent_name e = [46, 46, 0xA0, 46]"
  shows "download_target d e = d @ path_separator d # js ''..''"
proof -
  have "safeLocalDownloadName [46, 46, 0xA0, 46] = [46, 46, 0xA0]"
    by (simp add: safeLocalDownloadName_def js_trim_def trim_end_def js_space_def invalid_name_unit_def
        reserved_name_def device_name_def ascii_fold_def Let_def js_def)
  moreover have "js_trim [46, 46, 0xA0] = js ''..''"
    by (simp add: js_trim_def trim_end_def js_space_def js_def)
  ultimately show ?thesis using assms
    by (simp add: download_target_def joinLocalPath_def proper_directory_def path_separator_def Let_def)
qed

theorem download_escapes_witness:
  "download_target (js ''/dl'') (example_entry [46, 46, 0xA0, 46] ''/d/x'' Directory) = js ''/dl/..''"
  using download_escapes [OF example_root, of "example_entry [46, 46, 0xA0, 46] ''/d/x'' Directory"]
  by (simp add: example_entry_def path_separator_def js_def)

end
