(* ===== verification/TabInvariant.thy ===== *)
theory TabInvariant
  imports Reconnect Terminals
begin

text \<open>
  The invariant of the tabs of a window: no two tabs have one id, no id is empty, and the active id,
  connection and terminal are those of one of the tabs or all empty. \<open>ui_step\<close> are the handlers of
  \<^verbatim>\<open>src/app/usePortivaWorkspace.ts\<close> that change the state without waiting for the back end; the
  invariant holds in every state they reach. Closing a tab (\<^verbatim>\<open>closeConnection\<close>) keeps it only when no
  file tab opened from the closed one is active.
\<close>

section \<open>The invariant\<close>

definition focused_on :: "tab \<Rightarrow> workspace \<Rightarrow> bool" where
  "focused_on t s \<longleftrightarrow> w_activeSessionTabId s = tab_id t
     \<and> map_option conn_id (w_activeConnection s) = Some (conn_id (tab_connection t))
     \<and> (w_activeTerminal s = None
        \<or> map_option term_id (w_activeTerminal s) = map_option term_id (tab_terminal t))"

definition unfocused :: "workspace \<Rightarrow> bool" where
  "unfocused s \<longleftrightarrow> w_activeSessionTabId s = [] \<and> w_activeConnection s = None \<and> w_activeTerminal s = None"

definition ui_inv :: "workspace \<Rightarrow> bool" where
  "ui_inv s \<longleftrightarrow> distinct (map tab_id (w_sessionTabs s)) \<and> [] \<notin> set (map tab_id (w_sessionTabs s))
     \<and> (unfocused s \<or> list_ex (\<lambda>t. focused_on t s) (w_sessionTabs s))"

inductive ui_step :: "workspace \<Rightarrow> workspace \<Rightarrow> bool" where
  switch: "ui_step s (switchSessionTab i s)"
| detach: "ui_step s (detachSessionTab i s)"
| reorder: "ui_step s (reorderSessionTabs source target position s)"
| directory: "ui_step s (reportTerminalWorkingDirectory i path s)"
| title: "ui_step s (reportTerminalTitle i text s)"
| serial: "ui_step s (markSerialTerminalDisconnected ref i s)"
| resize: "ui_step s (resizeSshTerminalSplit i path ratio s)"
| event: "ui_step s (onTerminalSnapshot snapshot s)"
| frame: "ui_step s (flushPendingSnapshots s)"
| lost: "ui_step s (markConnectionTabsDisconnected (w_activeConnection s) i s)"
| message: "ui_step s (reportWorkspaceMessage text s)"
| select: "ui_step s (selectActiveProfile i s)"
| refuse_key: "ui_step s (clearPendingKnownHost s)"
| remote: "ui_step s (changeRemotePath path s)"
| local: "ui_step s (changeLocalPath path s)"

section \<open>Preservation\<close>

lemma tab_id_cong:
  "tab_idField t' = tab_idField t \<Longrightarrow> conn_id (tab_connection t') = conn_id (tab_connection t) \<Longrightarrow> tab_id t' = tab_id t"
  by (simp add: tab_id_def split: option.split)

text \<open>Updates of the tabs one by one that leave the ids alone.\<close>

lemma ui_inv_map:
  assumes "ui_inv s" and "w_sessionTabs s' = map f (w_sessionTabs s)" and "\<And>t. tab_id (f t) = tab_id t"
    and "\<And>t. conn_id (tab_connection (f t)) = conn_id (tab_connection t)"
    and "w_activeSessionTabId s' = w_activeSessionTabId s"
    and "map_option conn_id (w_activeConnection s') = map_option conn_id (w_activeConnection s)"
    and "w_activeTerminal s = None \<Longrightarrow> w_activeTerminal s' = None"
    and "\<And>t. t \<in> set (w_sessionTabs s) \<Longrightarrow> focused_on t s \<Longrightarrow>
      w_activeTerminal s' = None
      \<or> map_option term_id (w_activeTerminal s') = map_option term_id (tab_terminal (f t))"
  shows "ui_inv s'"
proof -
  have ids: "map tab_id (w_sessionTabs s') = map tab_id (w_sessionTabs s)" using assms(2,3) by simp
  have focus: "focused_on (f t) s'" if "t \<in> set (w_sessionTabs s)" "focused_on t s" for t
    using that assms(8) [OF that] assms(3-6) by (auto simp: focused_on_def)
  have "unfocused s' \<or> list_ex (\<lambda>t. focused_on t s') (w_sessionTabs s')"
    using assms(1,2,5-7) focus by (auto simp: ui_inv_def unfocused_def list_ex_iff)
  then show ?thesis using assms(1) ids by (simp add: ui_inv_def)
qed

lemma ui_inv_same_terminals:
  assumes "ui_inv s" and "w_sessionTabs s' = map f (w_sessionTabs s)" and "\<And>t. tab_id (f t) = tab_id t"
    and "\<And>t. conn_id (tab_connection (f t)) = conn_id (tab_connection t)"
    and "\<And>t. map_option term_id (tab_terminal (f t)) = map_option term_id (tab_terminal t)"
    and "w_activeSessionTabId s' = w_activeSessionTabId s"
    and "map_option conn_id (w_activeConnection s') = map_option conn_id (w_activeConnection s)"
    and "map_option term_id (w_activeTerminal s') = map_option term_id (w_activeTerminal s)"
  shows "ui_inv s'"
proof (rule ui_inv_map [OF assms(1-4,6,7)])
  show "w_activeTerminal s = None \<Longrightarrow> w_activeTerminal s' = None" using assms(8) by auto
  show "w_activeTerminal s' = None
      \<or> map_option term_id (w_activeTerminal s') = map_option term_id (tab_terminal (f t))"
    if "t \<in> set (w_sessionTabs s)" "focused_on t s" for t
    using that assms(5,8) by (auto simp: focused_on_def)
qed

text \<open>Updates that do not touch tabs or focus.\<close>

lemma ui_inv_frame:
  assumes "ui_inv s" and "w_sessionTabs s' = w_sessionTabs s" and "w_activeSessionTabId s' = w_activeSessionTabId s"
    and "w_activeConnection s' = w_activeConnection s" and "w_activeTerminal s' = w_activeTerminal s"
  shows "ui_inv s'"
  using assms by (simp add: ui_inv_def unfocused_def focused_on_def)

text \<open>A tab of the window gets the focus.\<close>

lemma activate_fields [simp]:
  "w_sessionTabs (activateSessionTab tab s) = w_sessionTabs s"
  "w_activeSessionTabId (activateSessionTab tab s) = tab_id tab"
  "w_activeConnection (activateSessionTab tab s) = Some (tab_connection tab)"
  "w_activeTerminal (activateSessionTab tab s) = tab_terminal tab"
  by (simp_all add: activateSessionTab_def clearFileTransferView_def Let_def split: tab_kind.split option.split)

lemma tabs_focus_next [simp]: "w_sessionTabs (focus_next t s) = w_sessionTabs s"
  by (simp add: focus_next_def deactivate_def clearFileTransferView_def split: option.split)

lemma ui_inv_activate:
  assumes "distinct (map tab_id (w_sessionTabs s))" and "[] \<notin> set (map tab_id (w_sessionTabs s))"
    and "tab \<in> set (w_sessionTabs s)"
  shows "ui_inv (activateSessionTab tab s)"
  using assms by (auto simp: ui_inv_def focused_on_def list_ex_iff)

lemma ui_inv_deactivate:
  assumes "distinct (map tab_id (w_sessionTabs s))" and "[] \<notin> set (map tab_id (w_sessionTabs s))"
  shows "ui_inv (deactivate s)"
  using assms by (simp add: ui_inv_def unfocused_def deactivate_def clearFileTransferView_def)

lemma next_tab_mem: "next_tab i remaining = Some t \<Longrightarrow> t \<in> set remaining"
  by (auto simp: next_tab_def dest: js_at_set split: option.splits)

text \<open>Without some tabs: the focus stays when the active tab stays, else it moves to a tab that is left.\<close>

lemma ui_inv_focus_next:
  assumes "ui_inv s" and "w_sessionTabs s' = filter P (w_sessionTabs s)"
  shows "ui_inv (focus_next (next_tab i (filter P (w_sessionTabs s))) s')"
proof -
  have d: "distinct (map tab_id (w_sessionTabs s'))" "[] \<notin> set (map tab_id (w_sessionTabs s'))"
    using assms by (auto simp: ui_inv_def distinct_map_filter)
  show ?thesis
  proof (cases "next_tab i (filter P (w_sessionTabs s))")
    case None
    then show ?thesis using ui_inv_deactivate [OF d] by (simp add: focus_next_def)
  next
    case (Some t)
    then show ?thesis
      using ui_inv_activate [OF d] next_tab_mem [OF Some] assms(2) by (simp add: focus_next_def)
  qed
qed

lemma ui_inv_drop:
  assumes "ui_inv s" and "w_sessionTabs s' = filter P (w_sessionTabs s)"
    and "w_activeSessionTabId s' = w_activeSessionTabId s" "w_activeConnection s' = w_activeConnection s"
    and "w_activeTerminal s' = w_activeTerminal s"
    and "\<And>t. t \<in> set (w_sessionTabs s) \<Longrightarrow> tab_id t = w_activeSessionTabId s \<Longrightarrow> P t"
  shows "ui_inv s'"
  using assms by (auto simp: ui_inv_def unfocused_def focused_on_def list_ex_iff distinct_map_filter)

lemma find_tab_mem: "find_tab i tabs = Some t \<Longrightarrow> t \<in> set tabs \<and> tab_id t = i"
  by (auto simp: find_tab_def find_Some_iff)

lemma ui_inv_switch:
  assumes "ui_inv s"
  shows "ui_inv (switchSessionTab i s)"
proof (cases "find_tab i (w_sessionTabs s)")
  case None
  then show ?thesis using assms by (auto simp: switchSessionTab_def intro: ui_inv_frame)
next
  case (Some tab)
  then show ?thesis using assms find_tab_mem [OF Some]
    by (simp add: switchSessionTab_def ui_inv_def [of s] ui_inv_activate)
qed

lemma ui_inv_detach: "ui_inv s \<Longrightarrow> ui_inv (detachSessionTab i s)"
  unfolding detachSessionTab_def Let_def
  by (auto split: option.split intro: ui_inv_frame ui_inv_drop ui_inv_focus_next)

lemma ui_inv_reorder: "ui_inv s \<Longrightarrow> ui_inv (reorderSessionTabs source target position s)"
proof (cases "source = target")
  case False
  let ?tabs = "move_by tab_id (w_sessionTabs s) source target position"
  assume inv: "ui_inv s"
  have m: "mset ?tabs = mset (w_sessionTabs s)" by (rule mset_move_by)
  then have "mset (map tab_id ?tabs) = mset (map tab_id (w_sessionTabs s))" by simp
  then have "distinct (map tab_id ?tabs) = distinct (map tab_id (w_sessionTabs s))" by (rule mset_eq_imp_distinct_iff)
  moreover have "set ?tabs = set (w_sessionTabs s)" using m by (rule mset_eq_setD)
  ultimately show ?thesis using False inv
    by (simp add: reorderSessionTabs_def ui_inv_def unfocused_def focused_on_def list_ex_iff)
qed (simp add: reorderSessionTabs_def)

lemma term_id_with_status [simp]: "term_id (with_status st t) = term_id t"
  by (simp add: with_status_def)

lemma flush_tab_ids [simp]:
  "tab_id (flush_tab m t) = tab_id t" "tab_connection (flush_tab m t) = tab_connection t"
  "map_option term_id (tab_terminal (flush_tab m t)) = map_option term_id (tab_terminal t)"
  by (auto simp: flush_tab_def Let_def intro: tab_id_cong split: option.split)

lemma flush_focus:
  "w_activeSessionTabId (flushPendingSnapshots s) = w_activeSessionTabId s"
  "w_activeConnection (flushPendingSnapshots s) = w_activeConnection s"
  "map_option term_id (w_activeTerminal (flushPendingSnapshots s)) = map_option term_id (w_activeTerminal s)"
  by (auto simp: flushPendingSnapshots_def Let_def split: option.split)

lemma flush_tabs:
  "w_sessionTabs (flushPendingSnapshots s)
    = map (if w_pendingSnapshots s = [] then id else flush_tab (map_of (w_pendingSnapshots s))) (w_sessionTabs s)"
  by (simp add: flushPendingSnapshots_def Let_def split: option.split)

lemma ui_inv_flush: "ui_inv s \<Longrightarrow> ui_inv (flushPendingSnapshots s)"
  by (erule ui_inv_same_terminals [OF _ flush_tabs]) (simp_all add: flush_focus)

lemma ui_inv_update_pane:
  assumes "ui_inv s" and "w_sessionTabs s' = map (update_pane i f g) (w_sessionTabs s)"
    and "\<And>t. tab_idField (f t) = tab_idField t" and "\<And>t. tab_connection (f t) = tab_connection t"
    and "\<And>t. tab_terminal (f t) = tab_terminal t"
    and "w_activeSessionTabId s' = w_activeSessionTabId s" "w_activeConnection s' = w_activeConnection s"
    and "w_activeTerminal s' = w_activeTerminal s"
  shows "ui_inv s'"
  using assms by (intro ui_inv_same_terminals [OF assms(1,2)]) (auto simp: update_pane_def intro: tab_id_cong)

lemma disconnect_keeps_ids [simp]:
  "tab_id (disconnect_tab t) = tab_id t"
  "conn_id (tab_connection (disconnect_tab t)) = conn_id (tab_connection t)"
  by (auto simp: disconnect_tab_def disconnectedConnection_def intro: tab_id_cong)

lemma primary_pane: "tab_terminal t = Some x \<Longrightarrow> term_id x \<in> set (map pane_id (terminalPanesForTab t))"
  by (simp add: terminalPanesForTab_def pane_id_def)

lemma ui_inv_lost: "ui_inv s \<Longrightarrow> ui_inv (markConnectionTabsDisconnected captured i s)"
proof -
  assume inv: "ui_inv s"
  let ?s = "markConnectionTabsDisconnected captured i s"
  let ?f = "\<lambda>t. if of_connection i t then disconnect_tab t else t"
  let ?gone = "concat (map (\<lambda>t. map pane_id (terminalPanesForTab t)) (filter (of_connection i) (w_sessionTabs s)))"
  have fields: "w_sessionTabs ?s = map ?f (w_sessionTabs s)" "w_activeSessionTabId ?s = w_activeSessionTabId s"
    "map_option conn_id (w_activeConnection ?s) = map_option conn_id (w_activeConnection s)"
    "w_activeTerminal ?s = (case w_activeTerminal s of Some t \<Rightarrow> if term_id t \<in> set ?gone then None else Some t
       | None \<Rightarrow> None)"
    by (simp_all add: markConnectionTabsDisconnected_def Let_def option.map_comp comp_def disconnectedConnection_def
        if_distrib cong: if_cong)
  have "w_activeTerminal ?s = None \<or> map_option term_id (w_activeTerminal ?s) = map_option term_id (tab_terminal (?f t))"
    if "t \<in> set (w_sessionTabs s)" "focused_on t s" for t
  proof (cases "of_connection i t")
    case True
    have "w_activeTerminal ?s = None" if x: "w_activeTerminal s = Some x" for x
    proof -
      obtain y where "tab_terminal t = Some y" "term_id y = term_id x"
        using \<open>focused_on t s\<close> x by (cases "tab_terminal t") (auto simp: focused_on_def)
      then have "term_id x \<in> set ?gone"
        using primary_pane [of t y] True \<open>t \<in> set (w_sessionTabs s)\<close> by auto
      then show ?thesis unfolding fields x by simp
    qed
    then show ?thesis by (cases "w_activeTerminal s") (auto simp: fields(4))
  next
    case False
    then show ?thesis using that unfolding fields by (auto simp: focused_on_def split: option.split)
  qed
  then show ?thesis
    using fields by (intro ui_inv_map [OF inv fields(1)]) auto
qed

lemma ui_inv_serial: "ui_inv s \<Longrightarrow> ui_inv (markSerialTerminalDisconnected ref i s)"
proof -
  assume inv: "ui_inv s"
  let ?f = "\<lambda>t. if serial_tab_of i t then t\<lparr>tab_connection := serial_disconnected (tab_connection t)\<rparr> else t"
  have "w_sessionTabs (markSerialTerminalDisconnected ref i s) = map ?f (w_sessionTabs s)"
    by (simp add: markSerialTerminalDisconnected_def)
  then show ?thesis
    by (rule ui_inv_same_terminals [OF inv])
      (auto simp: markSerialTerminalDisconnected_def serial_disconnected_def option.map_comp comp_def
        if_distrib [of conn_id] intro: tab_id_cong cong: if_cong)
qed

lemma ui_inv_resize: "ui_inv s \<Longrightarrow> ui_inv (resizeSshTerminalSplit i path ratio s)"
  unfolding resizeSshTerminalSplit_def
  by (erule ui_inv_same_terminals [where f = "\<lambda>t. if tab_id t \<noteq> i then t
      else (case resolveTerminalSplitLayout t of None \<Rightarrow> t
            | Some layout \<Rightarrow> t\<lparr>tab_terminalLayout := Some (updateTerminalSplitRatio layout path ratio)\<rparr>)"])
    (auto intro: tab_id_cong split: option.split)

lemma ui_inv_directory: "ui_inv s \<Longrightarrow> ui_inv (reportTerminalWorkingDirectory i path s)"
  unfolding reportTerminalWorkingDirectory_def Let_def
  by (cases "js_trim path = []") (auto elim!: ui_inv_update_pane)

lemma ui_inv_title: "ui_inv s \<Longrightarrow> ui_inv (reportTerminalTitle i text s)"
  unfolding reportTerminalTitle_def Let_def
  by (erule ui_inv_update_pane [where i = i and
      f = "\<lambda>t. t\<lparr>tab_terminalTitle := new_title (normalizeTerminalTitle text) (tab_terminalTitle t)\<rparr>" and
      g = "\<lambda>p. p\<lparr>pane_title := new_title (normalizeTerminalTitle text) (pane_title p)\<rparr>"]) simp_all

text \<open>The remaining steps touch neither tabs nor focus.\<close>

lemma ui_inv_plain:
  assumes "ui_inv s"
  shows "ui_inv (onTerminalSnapshot snapshot s)" "ui_inv (reportWorkspaceMessage text s)"
    "ui_inv (selectActiveProfile i s)" "ui_inv (clearPendingKnownHost s)" "ui_inv (changeRemotePath path s)"
    "ui_inv (changeLocalPath path s)"
  by (rule ui_inv_frame [OF assms]; simp add: onTerminalSnapshot_def reportWorkspaceMessage_def
      selectActiveProfile_def clearPendingKnownHost_def changeRemotePath_def changeLocalPath_def)+

lemmas ui_inv_kept = ui_inv_switch ui_inv_detach ui_inv_reorder ui_inv_directory ui_inv_title ui_inv_serial
  ui_inv_resize ui_inv_flush ui_inv_lost ui_inv_plain

lemma ui_inv_step: "ui_step s s' \<Longrightarrow> ui_inv s \<Longrightarrow> ui_inv s'"
  by (induction rule: ui_step.induct) (rule ui_inv_kept, assumption)+

lemma ui_inv_steps: "ui_step\<^sup>*\<^sup>* s s' \<Longrightarrow> ui_inv s \<Longrightarrow> ui_inv s'"
  by (induction rule: rtranclp_induct) (auto intro: ui_inv_step)

section \<open>Properties\<close>

text \<open>
  C15. Whatever the user clicks and the terminals report, in any order: no two tabs of a window get one
  id, and the active id, connection and terminal stay those of one of the tabs, or all are empty.
\<close>

theorem reachable_ui_inv:
  assumes "ui_inv s" and "ui_step\<^sup>*\<^sup>* s s'"
  shows "ui_inv s'"
  by (rule ui_inv_steps [OF assms(2,1)])

text \<open>A window with one tab, which is active.\<close>

definition example_window :: workspace where
  "example_window = activateSessionTab example_tab (initial_workspace\<lparr>w_sessionTabs := [example_tab]\<rparr>)"

lemma example_tab_id: "tab_id example_tab = js ''c''"
  by (simp add: example_tab_def tab_id_def new_tab_def)

lemma example_window_inv: "ui_inv example_window"
  unfolding example_window_def by (rule ui_inv_activate) (simp_all add: example_tab_id js_def)

theorem reachable_ui_inv_witness:
  "ui_inv (detachSessionTab (js ''c'') (reportTerminalTitle (js ''a'') (js ''top'') example_window))"
  by (rule reachable_ui_inv [OF example_window_inv])
    (meson rtranclp.rtrancl_into_rtrancl rtranclp.rtrancl_refl ui_step.title ui_step.detach)

text \<open>A window with a terminal tab and the file tab opened from it, which is active.\<close>

definition example_files :: tab where
  "example_files = example_tab\<lparr>tab_idField := Some (js ''c:sftp:1''), tab_kindField := Some FileTransferTab,
     tab_connection := example_connection\<lparr>conn_id := js ''c:sftp:1''\<rparr>, tab_terminal := None,
     tab_parentConnectionId := Some (js ''c'')\<rparr>"

definition example_files_window :: workspace where
  "example_files_window = activateSessionTab example_files
     (initial_workspace\<lparr>w_sessionTabs := [example_tab, example_files]\<rparr>)"

lemma example_files_id: "tab_id example_files = js ''c:sftp:1''"
  by (simp add: example_files_def tab_id_def)

lemma example_files_window_inv: "ui_inv example_files_window"
  unfolding example_files_window_def
  by (rule ui_inv_activate) (simp_all add: example_tab_id example_files_id js_def)

text \<open>
  Closing a terminal tab, with no tab opened or closed meanwhile, removes it and keeps the
  invariant, provided that no file tab opened from it is active: the focus moves to a tab that is left
  or is cleared.
\<close>

theorem close_keeps_focus:
  assumes "ui_inv s"
    and "list_all (\<lambda>t. tab_id t = w_activeSessionTabId s
           \<longrightarrow> tab_parentConnectionId t \<noteq> Some (conn_id (tab_connection closing))) (w_sessionTabs s)"
  shows "ui_inv (drop_closed_tab s i closing s)
    \<and> find_tab (tab_id closing) (w_sessionTabs (drop_closed_tab s i closing s)) = None"
proof -
  let ?P = "\<lambda>t. tab_id t \<noteq> tab_id closing \<and> tab_parentConnectionId t \<noteq> Some (conn_id (tab_connection closing))"
  let ?s = "s\<lparr>w_sessionTabs := filter ?P (w_sessionTabs s), w_message := Text [], w_sshPassword := []\<rparr>"
  have moved: "ui_inv (focus_next (next_tab i (filter ?P (w_sessionTabs s))) ?s)"
    by (rule ui_inv_focus_next [OF assms(1)]) simp
  have kept: "ui_inv ?s" if "w_activeSessionTabId s \<noteq> tab_id closing"
    by (rule ui_inv_drop [OF assms(1), where P = ?P]) (use assms(2) that in \<open>auto simp: list_all_iff\<close>)
  have "w_sessionTabs (drop_closed_tab s i closing s) = filter ?P (w_sessionTabs s)"
    by (simp add: drop_closed_tab_def Let_def)
  moreover have "ui_inv (drop_closed_tab s i closing s)"
    using moved kept by (simp add: drop_closed_tab_def Let_def)
  ultimately show ?thesis by (auto simp: find_tab_def find_None_iff)
qed

theorem close_keeps_focus_witness:
  "ui_inv (drop_closed_tab example_window 0 example_tab example_window)"
proof -
  have "list_all (\<lambda>t. tab_id t = w_activeSessionTabId example_window
      \<longrightarrow> tab_parentConnectionId t \<noteq> Some (conn_id (tab_connection example_tab))) (w_sessionTabs example_window)"
    by (simp add: example_window_def example_tab_def new_tab_def)
  then show ?thesis using close_keeps_focus [OF example_window_inv] by blast
qed

text \<open>
  When the file tab opened from the closed one is active, its id stays the active one although the
  tab is gone: the handler compares the active connection with the closed id and \<^verbatim>\<open>:sftp\<close>, but the
  connections of file tabs have the id of their transfer session after it.
\<close>

theorem close_leaves_dangling_focus:
  assumes "ui_inv s" and "files \<in> set (w_sessionTabs s)" and "focused_on files s"
    and "tab_parentConnectionId files = Some (conn_id (tab_connection closing))" and "tab_id files \<noteq> tab_id closing"
    and "conn_id (tab_connection files) = conn_id (tab_connection closing) @ js '':sftp:'' @ sessionId"
  shows "w_activeSessionTabId (drop_closed_tab s i closing s) = tab_id files
    \<and> find_tab (tab_id files) (w_sessionTabs (drop_closed_tab s i closing s)) = None"
proof -
  have other: "conn_id (tab_connection files) \<noteq> conn_id (tab_connection closing)"
    "conn_id (tab_connection files) \<noteq> conn_id (tab_connection closing) @ js '':sftp''"
    using assms(6) by (simp_all add: js_def)
  then have "drop_closed_tab s i closing s = s\<lparr>w_sessionTabs := filter (\<lambda>t. tab_id t \<noteq> tab_id closing
      \<and> tab_parentConnectionId t \<noteq> Some (conn_id (tab_connection closing))) (w_sessionTabs s),
      w_message := Text [], w_sshPassword := []\<rparr>"
    using assms(3,5) by (auto simp: drop_closed_tab_def focused_on_def Let_def)
  moreover have "t = files" if "t \<in> set (w_sessionTabs s)" "tab_id t = tab_id files" for t
    using assms(1,2) that by (auto simp: ui_inv_def distinct_map inj_on_def)
  ultimately show ?thesis using assms(3,4) by (auto simp: find_tab_def find_None_iff focused_on_def)
qed

theorem close_leaves_dangling_focus_witness:
  "w_activeSessionTabId (drop_closed_tab example_files_window 0 example_tab example_files_window) = js ''c:sftp:1''
   \<and> find_tab (js ''c:sftp:1'') (w_sessionTabs (drop_closed_tab example_files_window 0 example_tab example_files_window)) = None"
proof -
  have "example_files \<in> set (w_sessionTabs example_files_window)" "focused_on example_files example_files_window"
    "tab_parentConnectionId example_files = Some (conn_id (tab_connection example_tab))"
    "tab_id example_files \<noteq> tab_id example_tab"
    "conn_id (tab_connection example_files) = conn_id (tab_connection example_tab) @ js '':sftp:'' @ js ''1''"
    by (simp_all add: example_files_window_def focused_on_def example_files_id example_tab_id)
      (simp_all add: example_files_def example_tab_def new_tab_def example_connection_def js_def)
  from close_leaves_dangling_focus [OF example_files_window_inv this] show ?thesis
    by (simp add: example_files_id)
qed

end
