(* ===== verification/HttpModel.thy ===== *)
theory HttpModel
  imports JsNumber "HOL-Library.State_Monad"
begin

text \<open>
  The data of the HTTP console (\<^verbatim>\<open>src/features/http/HttpConsolePanel.tsx\<close>): workspaces with projects,
  requests, environments and rows of variables, and the helpers on them. \<open>js_fresh\<close> draws the ids
  \<^verbatim>\<open>makeId\<close> makes from the clock and a random number; the ids are a parameter of the model.
\<close>

section \<open>Types\<close>

datatype http_method = MGet | MPost | MPut | MPatch | MDelete | MHead | MOptions

datatype body_mode = BodyNone | BodyJson | BodyText | BodyForm

datatype http_auth_type = NoAuth | BearerAuth | BasicAuth | ApiKeyAuth

datatype api_key_location = InHeader | InQuery

datatype variable_scope = ScopeWorkspace | ScopeProject | ScopeEnvironment | ScopeRequest

datatype form_value_type = TextValue | FileValue

record kv_entry =
  kv_description :: "jsstr option"
  kv_enabled :: bool
  kv_fileName :: "jsstr option"
  kv_fileSize :: "rat option"
  kv_fileType :: "jsstr option"
  kv_formValueType :: "form_value_type option"
  kv_key :: jsstr
  kv_localFileId :: "jsstr option"
  kv_sensitive :: "bool option"
  kv_value :: jsstr

record http_auth =
  au_apiKeyLocation :: api_key_location
  au_apiKeyName :: jsstr
  au_apiKeyValue :: jsstr
  au_bearerToken :: jsstr
  au_password :: jsstr
  au_type :: http_auth_type
  au_username :: jsstr

record http_request =
  rq_auth :: http_auth
  rq_body :: jsstr
  rq_bodyMode :: body_mode
  rq_formBody :: "kv_entry list"
  rq_headers :: "kv_entry list"
  rq_id :: jsstr
  rq_method :: http_method
  rq_name :: jsstr
  rq_params :: "kv_entry list"
  rq_tempVariables :: "kv_entry list option"
  rq_url :: jsstr

record http_project =
  pj_id :: jsstr
  pj_name :: jsstr
  pj_requests :: "http_request list"
  pj_variables :: "kv_entry list option"

record http_environment =
  env_id :: jsstr
  env_name :: jsstr
  env_variables :: "kv_entry list"

record http_workspace =
  ws_activeEnvironmentId :: "jsstr option"
  ws_environments :: "http_environment list option"
  ws_id :: jsstr
  ws_name :: jsstr
  ws_projects :: "http_project list"
  ws_requests :: "http_request list"
  ws_variables :: "kv_entry list option"

section \<open>Ids\<close>

text \<open>The ids still to come, one after another; the prefix says what they are for.\<close>

type_synonym id_source = "nat \<Rightarrow> jsstr"

type_synonym 'a gen = "(nat, 'a) state"

definition makeId :: "id_source \<Rightarrow> string \<Rightarrow> jsstr gen" where
  "makeId ids kind = do {
     n \<leftarrow> State_Monad.get;
     State_Monad.set (Suc n);
     State_Monad.return (js kind @ 45 # ids n)
   }"

fun gen_list :: "'a gen list \<Rightarrow> 'a list gen" where
  "gen_list [] = State_Monad.return []"
| "gen_list (m # ms) = do {x \<leftarrow> m; xs \<leftarrow> gen_list ms; State_Monad.return (x # xs)}"

section \<open>Blank values\<close>

definition createDefaultAuth :: http_auth where
  "createDefaultAuth = \<lparr>au_apiKeyLocation = InHeader, au_apiKeyName = [], au_apiKeyValue = [],
     au_bearerToken = [], au_password = [], au_type = NoAuth, au_username = []\<rparr>"

definition createBlankRow :: kv_entry where
  "createBlankRow = \<lparr>kv_description = Some [], kv_enabled = True, kv_fileName = None, kv_fileSize = None,
     kv_fileType = None, kv_formValueType = None, kv_key = [], kv_localFileId = None,
     kv_sensitive = Some False, kv_value = []\<rparr>"

text \<open>A row as the object literals \<^verbatim>\<open>{ enabled: true, key, value }\<close> make it.\<close>

definition plain_row :: "jsstr \<Rightarrow> jsstr \<Rightarrow> kv_entry" where
  "plain_row key val = \<lparr>kv_description = None, kv_enabled = True, kv_fileName = None, kv_fileSize = None,
     kv_fileType = None, kv_formValueType = None, kv_key = key, kv_localFileId = None, kv_sensitive = None,
     kv_value = val\<rparr>"

definition opt_text :: "jsstr option \<Rightarrow> jsstr" where
  "opt_text x = (case x of Some s \<Rightarrow> s | None \<Rightarrow> [])"

definition hasKeyValueContent :: "kv_entry \<Rightarrow> bool" where
  "hasKeyValueContent row \<longleftrightarrow> js_trim (kv_key row) \<noteq> [] \<or> js_trim (kv_value row) \<noteq> []
     \<or> js_trim (opt_text (kv_fileName row)) \<noteq> [] \<or> js_trim (opt_text (kv_description row)) \<noteq> []"

definition trimTrailingBlankRows :: "kv_entry list \<Rightarrow> kv_entry list" where
  "trimTrailingBlankRows rows = trim_end (\<lambda>r. \<not> hasKeyValueContent r) rows"

text \<open>The Chinese texts of the code, as their code units.\<close>

definition defaultEnvironmentName :: jsstr where "defaultEnvironmentName = [0x9ED8, 0x8BA4, 0x73AF, 0x5883]"
definition defaultWorkspaceName :: jsstr where "defaultWorkspaceName = [0x9ED8, 0x8BA4, 0x5DE5, 0x4F5C, 0x533A]"
definition newRequestName :: jsstr where "newRequestName = [0x65B0, 0x5EFA, 0x8BF7, 0x6C42]"

definition createDefaultEnvironment :: "id_source \<Rightarrow> http_environment gen" where
  "createDefaultEnvironment ids = do {
     i \<leftarrow> makeId ids ''env'';
     State_Monad.return \<lparr>env_id = i, env_name = defaultEnvironmentName, env_variables = []\<rparr>
   }"

definition createBlankRequest :: "id_source \<Rightarrow> jsstr \<Rightarrow> http_request gen" where
  "createBlankRequest ids name = do {
     i \<leftarrow> makeId ids ''req'';
     State_Monad.return \<lparr>rq_auth = createDefaultAuth, rq_body = [], rq_bodyMode = BodyNone, rq_formBody = [],
       rq_headers = [plain_row (js ''Accept'') (js ''application/json'')], rq_id = i, rq_method = MGet,
       rq_name = name, rq_params = [], rq_tempVariables = Some [], rq_url = []\<rparr>
   }"

definition described_row :: "string \<Rightarrow> string \<Rightarrow> jsstr \<Rightarrow> kv_entry" where
  "described_row key val description = (plain_row (js key) (js val))\<lparr>kv_description := Some description\<rparr>"

definition defaultWorkspaces :: "http_workspace list" where
  "defaultWorkspaces = [\<lparr>ws_activeEnvironmentId = Some (js ''env-default''),
     ws_environments = Some [\<lparr>env_id = js ''env-default'', env_name = defaultEnvironmentName,
       env_variables = [
         described_row ''baseUrl'' ''https://api.example.local'' (js ''API '' @ [0x6839, 0x5730, 0x5740]),
         described_row ''token'' '''' (js ''Bearer Token''),
         described_row ''password'' '''' [0x793A, 0x4F8B, 0x5BC6, 0x7801]]\<rparr>],
     ws_id = js ''ws-default'', ws_name = defaultWorkspaceName, ws_projects = [], ws_requests = [],
     ws_variables = None\<rparr>]"

section \<open>Normal workspaces\<close>

text \<open>Every workspace shown has an environment, and its active environment is one of them.\<close>

definition normalizeWorkspace :: "id_source \<Rightarrow> http_workspace \<Rightarrow> http_workspace gen" where
  "normalizeWorkspace ids w = do {
     environments \<leftarrow> (case ws_environments w of
         Some (e # es) \<Rightarrow> State_Monad.return (e # es)
       | _ \<Rightarrow> do {e \<leftarrow> createDefaultEnvironment ids; State_Monad.return [e]});
     let activeEnvironmentId = (case ws_activeEnvironmentId w of
           Some i \<Rightarrow> if i \<noteq> [] \<and> list_ex (\<lambda>e. env_id e = i) environments then Some i
                     else map_option env_id (js_at environments 0)
         | None \<Rightarrow> map_option env_id (js_at environments 0));
     State_Monad.return (w\<lparr>ws_activeEnvironmentId := activeEnvironmentId, ws_environments := Some environments\<rparr>)
   }"

definition normalizeWorkspaces :: "id_source \<Rightarrow> http_workspace list \<Rightarrow> http_workspace list gen" where
  "normalizeWorkspaces ids ws = gen_list (map (normalizeWorkspace ids) ws)"

definition normal_workspace :: "http_workspace \<Rightarrow> bool" where
  "normal_workspace w \<longleftrightarrow> (case (ws_environments w, ws_activeEnvironmentId w) of
     (Some es, Some i) \<Rightarrow> list_ex (\<lambda>e. env_id e = i) es | _ \<Rightarrow> False)"

lemma normalize_normal: "normal_workspace (fst (run_state (normalizeWorkspace ids w) n))"
  by (auto simp: normalizeWorkspace_def normal_workspace_def createDefaultEnvironment_def makeId_def js_at_def
      Let_def split: option.split list.split prod.split)

lemma normalize_keeps:
  "ws_id (fst (run_state (normalizeWorkspace ids w) n)) = ws_id w"
  "ws_projects (fst (run_state (normalizeWorkspace ids w) n)) = ws_projects w"
  "ws_requests (fst (run_state (normalizeWorkspace ids w) n)) = ws_requests w"
  "ws_variables (fst (run_state (normalizeWorkspace ids w) n)) = ws_variables w"
  "ws_name (fst (run_state (normalizeWorkspace ids w) n)) = ws_name w"
  by (simp_all add: normalizeWorkspace_def createDefaultEnvironment_def makeId_def Let_def
      split: option.split list.split prod.split)

section \<open>Names\<close>

text \<open>The numbers the loop tries.\<close>

definition name_numbers :: "nat list" where
  "name_numbers = [2..<1000]"

lemma set_name_numbers: "set name_numbers = {2..<1000}"
  unfolding name_numbers_def by (rule set_upt)

text \<open>\<open>now\<close> is the text of \<^verbatim>\<open>Date.now()\<close>.\<close>

definition uniqueName :: "jsstr \<Rightarrow> jsstr list \<Rightarrow> jsstr \<Rightarrow> jsstr" where
  "uniqueName now existingNames baseName =
     (let usedNames = filter (\<lambda>n. n \<noteq> []) (map js_trim existingNames)
      in if baseName \<notin> set usedNames then baseName
         else (case find (\<lambda>n. n \<notin> set usedNames) (map (\<lambda>i. baseName @ 32 # nat_digits i) name_numbers) of
                 Some nextName \<Rightarrow> nextName
               | None \<Rightarrow> baseName @ 32 # now))"

text \<open>Fewer than 999 names leave one of the numbers free.\<close>

lemma some_number_free:
  assumes "length existing < 999" and "b \<in> set used" and "set used \<subseteq> f ` set existing"
  shows "\<exists>i \<in> set name_numbers. b @ 32 # nat_digits i \<notin> set used"
proof (rule ccontr)
  assume "\<not> ?thesis"
  then have sub: "insert b ((\<lambda>i. b @ 32 # nat_digits i) ` {2..<1000}) \<subseteq> set used"
    using assms(2) by (auto simp: set_name_numbers)
  have "inj_on (\<lambda>i. b @ 32 # nat_digits i) {2..<1000}" by (auto simp: inj_on_def nat_digits_inject)
  then have "card ((\<lambda>i. b @ 32 # nat_digits i) ` {2..<1000}) = 998" by (simp add: card_image)
  then have "card (insert b ((\<lambda>i. b @ 32 # nat_digits i) ` {2..<1000})) = 999"
    by (subst card_insert_disjoint) auto
  then have "999 \<le> card (set used)" using card_mono [OF _ sub] by simp
  also have "\<dots> \<le> card (f ` set existing)" using assms(3) by (intro card_mono) auto
  also have "\<dots> \<le> length existing" using card_image_le [of "set existing" f] card_length [of existing] by simp
  finally show False using assms(1) by simp
qed

lemma find_unused: "find P xs = Some x \<Longrightarrow> P x"
  by (auto simp: find_Some_iff)

lemma uniqueName_free:
  assumes "js_trim base = base" and "length existing < 999" and "base \<noteq> []"
  shows "uniqueName now existing base \<notin> js_trim ` set existing"
proof -
  let ?used = "filter (\<lambda>n. n \<noteq> []) (map js_trim existing)"
  have free: "n \<notin> js_trim ` set existing" if "n \<notin> set ?used" "n \<noteq> []" for n using that by auto
  show ?thesis
  proof (cases "base \<in> set ?used")
    case False
    then show ?thesis using free [of base] assms(3) by (simp add: uniqueName_def Let_def)
  next
    case True
    let ?names = "map (\<lambda>i. base @ 32 # nat_digits i) name_numbers"
    have "\<exists>i \<in> set name_numbers. base @ 32 # nat_digits i \<notin> set ?used"
      by (rule some_number_free [OF assms(2) True, where f = js_trim]) auto
    then have "find (\<lambda>n. n \<notin> set ?used) ?names \<noteq> None" unfolding find_None_iff by auto
    then obtain m where m: "find (\<lambda>n. n \<notin> set ?used) ?names = Some m" by auto
    have "uniqueName now existing base = m" using True m by (simp add: uniqueName_def Let_def)
    moreover have "m \<notin> set ?used" using find_unused [OF m] .
    moreover have "m \<noteq> []" using find_Some_set [OF m] by auto
    ultimately show ?thesis using free [of m] by simp
  qed
qed

text \<open>
  A new item gets a name no other item has, up to blanks at the ends, as long as there are fewer
  than 999 items and the proposed name itself has no blanks at its ends.
\<close>

theorem uniqueName_fresh:
  assumes "js_trim base = base" and "base \<noteq> []" and "length existing < 999"
  shows "uniqueName now existing base \<notin> js_trim ` set existing"
  by (rule uniqueName_free [OF assms(1,3,2)])

theorem uniqueName_fresh_witness: "uniqueName [] [js ''a'', js ''a 2''] (js ''a'') \<notin> js_trim ` {js ''a'', js ''a 2''}"
proof -
  have "js_trim (js ''a'') = js ''a''" by (simp add: js_trim_def trim_end_def js_space_def js_def)
  then show ?thesis using uniqueName_fresh [of "js ''a''" "[js ''a'', js ''a 2'']" "[]"] by simp
qed

text \<open>
  A proposed name with blanks at an end is always taken as it is, also when another item has
  exactly this name: only the existing names are trimmed.
\<close>

theorem uniqueName_blank_end:
  assumes "js_trim base \<noteq> base"
  shows "uniqueName now (base # existing) base = base"
proof -
  have "base \<notin> set (filter (\<lambda>n. n \<noteq> []) (map js_trim (base # existing)))"
    using assms by (auto intro: trim_trim dest: sym)
  then show ?thesis by (simp add: uniqueName_def Let_def)
qed

theorem uniqueName_blank_end_witness: "uniqueName [] [js ''Api ''] (js ''Api '') = js ''Api ''"
  by (rule uniqueName_blank_end) (simp add: js_trim_def trim_end_def js_space_def js_def)

end
