(* ===== verification/HttpVariables.thy ===== *)
theory HttpVariables
  imports HttpModel
begin

text \<open>
  The variables of the HTTP console (\<^verbatim>\<open>src/features/http/HttpConsolePanel.tsx\<close>): rows of four scopes
  become one map, and \<^verbatim>\<open>{{name}}\<close> in a text stands for a variable. A text is scanned once, from left
  to right, into characters and references, as \<^verbatim>\<open>replace\<close> does with the pattern
  \<^verbatim>\<open>/\{\{\s*([\w.-]+)\s*\}\}/g\<close>; the theorems compare the scan with templates that are rendered from
  texts and references.
\<close>

section \<open>The map of the variables\<close>

type_synonym variables = "jsstr \<rightharpoonup> jsstr"

record scoped_rows =
  sr_workspace :: "kv_entry list"
  sr_project :: "kv_entry list"
  sr_environment :: "kv_entry list"
  sr_request :: "kv_entry list"

definition opt_rows :: "kv_entry list option \<Rightarrow> kv_entry list" where
  "opt_rows x = (case x of Some rows \<Rightarrow> rows | None \<Rightarrow> [])"

definition scopedVariableRows ::
  "http_workspace \<Rightarrow> http_project option \<Rightarrow> http_environment option \<Rightarrow> http_request option \<Rightarrow> scoped_rows" where
  "scopedVariableRows w project environment request =
     \<lparr>sr_workspace = opt_rows (ws_variables w),
      sr_project = (case project of Some p \<Rightarrow> opt_rows (pj_variables p) | None \<Rightarrow> []),
      sr_environment = (case environment of Some e \<Rightarrow> env_variables e | None \<Rightarrow> []),
      sr_request = (case request of Some r \<Rightarrow> opt_rows (rq_tempVariables r) | None \<Rightarrow> [])\<rparr>"

definition variableScopePriority :: "variable_scope list" where
  "variableScopePriority = [ScopeWorkspace, ScopeProject, ScopeEnvironment, ScopeRequest]"

fun rows_of :: "scoped_rows \<Rightarrow> variable_scope \<Rightarrow> kv_entry list" where
  "rows_of r ScopeWorkspace = sr_workspace r"
| "rows_of r ScopeProject = sr_project r"
| "rows_of r ScopeEnvironment = sr_environment r"
| "rows_of r ScopeRequest = sr_request r"

definition set_variable :: "kv_entry \<Rightarrow> variables \<Rightarrow> variables" where
  "set_variable row m = (if kv_enabled row \<and> js_trim (kv_key row) \<noteq> []
     then m(js_trim (kv_key row) \<mapsto> kv_value row) else m)"

definition variableMapByScope :: "scoped_rows \<Rightarrow> variables" where
  "variableMapByScope rows = fold (\<lambda>scope m. fold set_variable (rows_of rows scope) m) variableScopePriority Map.empty"

section \<open>References in a text\<close>

definition word_unit :: "code_unit \<Rightarrow> bool" where
  "word_unit c \<longleftrightarrow> (48 \<le> c \<and> c \<le> 57) \<or> (65 \<le> c \<and> c \<le> 90) \<or> c = 95 \<or> (97 \<le> c \<and> c \<le> 122)
     \<or> c = 46 \<or> c = 45"

text \<open>The reference a text starts with, and the text behind it.\<close>

definition match_ref :: "jsstr \<Rightarrow> (jsstr \<times> jsstr) option" where
  "match_ref s =
     (if prefix (js ''{{'') s then
        (let u = dropWhile js_space (drop 2 s); key = takeWhile word_unit u;
             v = dropWhile js_space (dropWhile word_unit u)
         in if key \<noteq> [] \<and> prefix (js ''}}'') v then Some (key, drop 2 v) else None)
      else None)"

datatype piece = Plain code_unit | Ref jsstr jsstr

lemma match_ref_shorter: "match_ref s = Some (key, rest) \<Longrightarrow> length rest < length s"
proof -
  assume m: "match_ref s = Some (key, rest)"
  define u where "u = dropWhile js_space (drop 2 s)"
  define v where "v = dropWhile js_space (dropWhile word_unit u)"
  have "prefix (js ''{{'') s" "prefix (js ''}}'') v" "rest = drop 2 v"
    using m by (auto simp: match_ref_def u_def v_def Let_def split: if_splits)
  then have "2 \<le> length s" by (auto dest: prefix_length_le)
  moreover have "length v \<le> length u" unfolding v_def
    by (meson length_dropWhile_le le_trans)
  moreover have "length u \<le> length s - 2" unfolding u_def using length_dropWhile_le [of js_space "drop 2 s"] by simp
  moreover have "2 \<le> length v" using \<open>prefix (js ''}}'') v\<close> by (auto dest: prefix_length_le)
  ultimately show ?thesis using \<open>rest = drop 2 v\<close> by simp
qed

function scan :: "jsstr \<Rightarrow> piece list" where
  "scan s =
     (case s of
        [] \<Rightarrow> []
      | c # t \<Rightarrow> (case match_ref s of
            Some (key, rest) \<Rightarrow> Ref key (take (length s - length rest) s) # scan rest
          | None \<Rightarrow> Plain c # scan t))"
  by pat_completeness auto
termination
  by (relation "measure length") (auto dest: match_ref_shorter)

declare scan.simps [simp del]

fun resolve_piece :: "variables \<Rightarrow> piece \<Rightarrow> jsstr" where
  "resolve_piece vars (Plain c) = [c]"
| "resolve_piece vars (Ref key raw) = (case vars key of Some v \<Rightarrow> v | None \<Rightarrow> raw)"

definition resolveVariables :: "jsstr \<Rightarrow> variables \<Rightarrow> jsstr" where
  "resolveVariables s vars = concat (map (resolve_piece vars) (scan s))"

fun piece_key :: "piece \<Rightarrow> jsstr option" where
  "piece_key (Ref key raw) = Some key"
| "piece_key (Plain c) = None"

definition missingVariables :: "jsstr \<Rightarrow> variables \<Rightarrow> jsstr list" where
  "missingVariables s vars = js_unique (filter (\<lambda>k. vars k = None) (List.map_filter piece_key (scan s)))"

definition formValueTypeFor :: "kv_entry \<Rightarrow> form_value_type" where
  "formValueTypeFor row = (if kv_formValueType row = Some FileValue then FileValue else TextValue)"

definition request_values :: "http_request \<Rightarrow> jsstr list" where
  "request_values request =
     [rq_url request, rq_body request, au_apiKeyName (rq_auth request), au_apiKeyValue (rq_auth request),
      au_bearerToken (rq_auth request), au_password (rq_auth request), au_username (rq_auth request)]
     @ concat (map (\<lambda>e. [kv_key e, kv_value e]) (rq_params request))
     @ concat (map (\<lambda>e. [kv_key e, kv_value e]) (rq_headers request))
     @ concat (map (\<lambda>e. if formValueTypeFor e = FileValue then [kv_key e] else [kv_key e, kv_value e]) (rq_formBody request))"

definition missingRequestVariables :: "http_request \<Rightarrow> variables \<Rightarrow> jsstr list" where
  "missingRequestVariables request vars =
     js_unique (concat (map (\<lambda>v. missingVariables v vars) (request_values request)))"

definition resolveRowVariables :: "kv_entry \<Rightarrow> variables \<Rightarrow> kv_entry" where
  "resolveRowVariables row vars = row\<lparr>kv_key := resolveVariables (kv_key row) vars,
     kv_value := resolveVariables (kv_value row) vars\<rparr>"

section \<open>Templates\<close>

text \<open>A text without braces, or a reference with the blanks around its name.\<close>

datatype part = Text_part jsstr | Var_part jsstr jsstr jsstr

fun part_ok :: "part \<Rightarrow> bool" where
  "part_ok (Text_part t) \<longleftrightarrow> 123 \<notin> set t"
| "part_ok (Var_part a key b) \<longleftrightarrow> list_all js_space a \<and> key \<noteq> [] \<and> list_all word_unit key \<and> list_all js_space b"

fun render_part :: "part \<Rightarrow> jsstr" where
  "render_part (Text_part t) = t"
| "render_part (Var_part a key b) = js ''{{'' @ a @ key @ b @ js ''}}''"

fun part_value :: "variables \<Rightarrow> part \<Rightarrow> jsstr" where
  "part_value vars (Text_part t) = t"
| "part_value vars (Var_part a key b) =
     (case vars key of Some v \<Rightarrow> v | None \<Rightarrow> render_part (Var_part a key b))"

fun part_keys :: "part \<Rightarrow> jsstr list" where
  "part_keys (Text_part t) = []"
| "part_keys (Var_part a key b) = [key]"

fun part_pieces :: "part \<Rightarrow> piece list" where
  "part_pieces (Text_part t) = map Plain t"
| "part_pieces (Var_part a key b) = [Ref key (render_part (Var_part a key b))]"

lemma word_bounds: "word_unit c \<Longrightarrow> 45 \<le> unat c \<and> unat c \<le> 122"
  by (auto simp: word_unit_def word_le_nat_alt)

lemma space_bounds: "js_space c \<Longrightarrow> unat c \<le> 32 \<or> 160 \<le> unat c"
  by (auto simp: js_space_def word_le_nat_alt)

lemma word_not_space: "word_unit c \<Longrightarrow> \<not> js_space c"
  using word_bounds [of c] space_bounds [of c] by linarith

lemma drop_spaces: "list_all js_space a \<Longrightarrow> s = [] \<or> \<not> js_space (hd s) \<Longrightarrow> dropWhile js_space (a @ s) = s"
  by (induction a) (cases s; simp)+

lemma match_ref_var:
  assumes "part_ok (Var_part a key b)"
  shows "match_ref (render_part (Var_part a key b) @ rest) = Some (key, rest)"
proof -
  have key: "key \<noteq> []" "list_all word_unit key" and blank: "list_all js_space a" "list_all js_space b"
    using assms by auto
  have braces: "\<not> js_space 125" "\<not> word_unit 125" "js ''}}'' = [125, 125]" "js ''{{'' = [123, 123]"
    by (simp_all add: js_space_def word_unit_def js_def)
  have "\<not> js_space (hd key)" using key word_not_space by (cases key) auto
  then have 1: "dropWhile js_space (a @ key @ b @ [125, 125] @ rest) = key @ b @ [125, 125] @ rest"
    using drop_spaces [OF blank(1), of "key @ b @ [125, 125] @ rest"] key(1) by simp
  have stop: "(b @ [125, 125] @ rest) = [] \<or> \<not> word_unit (hd (b @ [125, 125] @ rest))"
    using blank(2) braces(2) word_not_space by (cases b) auto
  have 2: "takeWhile word_unit (key @ b @ [125, 125] @ rest) = key"
    "dropWhile word_unit (key @ b @ [125, 125] @ rest) = b @ [125, 125] @ rest"
    using stop key(2) by (auto simp: takeWhile_append2 dropWhile_append2 list_all_iff
        takeWhile_eq_Nil_iff dropWhile_eq_self_iff hd_append split: if_splits)
  have 3: "dropWhile js_space (b @ [125, 125] @ rest) = [125, 125] @ rest"
    using drop_spaces [OF blank(2), of "[125, 125] @ rest"] braces(1) by simp
  show ?thesis using 1 2 3 key(1) by (simp add: match_ref_def Let_def braces)
qed

lemma match_ref_other: "c \<noteq> 123 \<Longrightarrow> match_ref (c # s) = None"
  by (simp add: match_ref_def js_def)

lemma scan_text: "123 \<notin> set t \<Longrightarrow> scan (t @ s) = map Plain t @ scan s"
  by (induction t) (simp_all add: scan.simps [of "_ # _"] match_ref_other)

lemma scan_part: "part_ok p \<Longrightarrow> scan (render_part p @ s) = part_pieces p @ scan s"
proof (cases p)
  case (Text_part t)
  assume "part_ok p"
  then show ?thesis using Text_part scan_text by simp
next
  case (Var_part a key b)
  assume "part_ok p"
  then have m: "match_ref (render_part p @ s) = Some (key, s)" using Var_part match_ref_var by blast
  obtain c u where cu: "render_part p @ s = c # u" using Var_part by (auto simp: js_def)
  have "scan (render_part p @ s) = Ref key (take (length (render_part p @ s) - length s) (render_part p @ s)) # scan s"
    using m by (subst scan.simps) (simp add: cu)
  then show ?thesis using Var_part by simp
qed

lemma scan_template: "list_all part_ok ps \<Longrightarrow> scan (concat (map render_part ps)) = concat (map part_pieces ps)"
proof (induction ps)
  case Nil
  show ?case by (simp add: scan.simps)
qed (simp add: scan_part)

lemma resolve_pieces: "concat (map (resolve_piece vars) (part_pieces p)) = part_value vars p"
  by (cases p) (simp_all add: comp_def split: option.split)

lemma keys_of_pieces: "List.map_filter piece_key (part_pieces p) = part_keys p"
  by (cases p) (auto simp: List.map_filter_def)

lemma resolve_plain: "123 \<notin> set s \<Longrightarrow> resolveVariables s vars = s"
  using scan_text [of s "[]"] by (simp add: resolveVariables_def scan.simps [of "[]"] comp_def)

section \<open>Properties\<close>

lemma concat_map_concat: "concat (map f (concat xss)) = concat (map (\<lambda>xs. concat (map f xs)) xss)"
  by (induction xss) simp_all

lemma filter_concat_keys: "List.map_filter f (concat xss) = concat (map (List.map_filter f) xss)"
  by (induction xss) (simp_all add: List.map_filter_def)

text \<open>
  A text made of plain parts and references resolves to the plain parts with every known
  reference replaced by its value and every unknown one left as it was written; values are not
  resolved again. The names reported missing are exactly the unknown ones, each once, in order.
\<close>

theorem resolveVariables_template:
  assumes "list_all part_ok parts"
  shows "resolveVariables (concat (map render_part parts)) vars = concat (map (part_value vars) parts)
    \<and> missingVariables (concat (map render_part parts)) vars
      = js_unique (filter (\<lambda>k. vars k = None) (concat (map part_keys parts)))"
  using scan_template [OF assms]
  by (simp add: resolveVariables_def missingVariables_def concat_map_concat resolve_pieces filter_concat_keys
      keys_of_pieces comp_def)

theorem resolveVariables_template_witness:
  "resolveVariables (js ''{{ host }}/v1/{{id}}'') [js ''host'' \<mapsto> js ''{{id}}''] = js ''{{id}}/v1/{{id}}''
   \<and> missingVariables (js ''{{ host }}/v1/{{id}}'') [js ''host'' \<mapsto> js ''{{id}}''] = [js ''id'']"
proof -
  let ?ps = "[Var_part (js '' '') (js ''host'') (js '' ''), Text_part (js ''/v1/''), Var_part [] (js ''id'') []]"
  have ok: "list_all part_ok ?ps" by (simp add: js_def js_space_def word_unit_def)
  have "concat (map render_part ?ps) = js ''{{ host }}/v1/{{id}}''" by (simp add: js_def)
  then show ?thesis using resolveVariables_template [OF ok, of "[js ''host'' \<mapsto> js ''{{id}}'']"]
    by (simp add: js_append [symmetric])
qed

text \<open>The rows that give a variable its value.\<close>

definition row_for :: "jsstr \<Rightarrow> kv_entry \<Rightarrow> bool" where
  "row_for k row \<longleftrightarrow> kv_enabled row \<and> js_trim (kv_key row) = k \<and> k \<noteq> []"

lemma fold_set_variable:
  "fold set_variable rows m k
    = (case find (row_for k) (rev rows) of Some row \<Rightarrow> Some (kv_value row) | None \<Rightarrow> m k)"
  by (induction rows rule: rev_induct) (auto simp: set_variable_def row_for_def)

lemma find_append: "find P (xs @ ys) = (case find P xs of Some x \<Rightarrow> Some x | None \<Rightarrow> find P ys)"
  by (induction xs) simp_all

text \<open>
  The value of a variable is that of the last enabled row with its name in the innermost scope that
  has one: the request goes before the environment, the environment before the project, the project
  before the workspace.
\<close>

theorem variableMapByScope_precedence:
  "variableMapByScope rows k = map_option kv_value (find (row_for k)
     (rev (sr_request rows) @ rev (sr_environment rows) @ rev (sr_project rows) @ rev (sr_workspace rows)))"
  by (simp add: variableMapByScope_def variableScopePriority_def fold_set_variable find_append split: option.split)

end
