(* ===== verification/Encoding.thy ===== *)
theory Encoding
  imports JsNumber
begin

text \<open>
  The encodings the HTTP console uses: UTF-8 of a JavaScript string, the
  \<^verbatim>\<open>application/x-www-form-urlencoded\<close> text of \<^verbatim>\<open>URLSearchParams\<close>, and the Base64 of \<^verbatim>\<open>btoa\<close> and \<^verbatim>\<open>atob\<close>,
  with decoders that read them back.
\<close>

section \<open>UTF-8\<close>

definition is_high :: "code_unit \<Rightarrow> bool" where
  "is_high c \<longleftrightarrow> 0xD800 \<le> c \<and> c \<le> 0xDBFF"

definition is_low :: "code_unit \<Rightarrow> bool" where
  "is_low c \<longleftrightarrow> 0xDC00 \<le> c \<and> c \<le> 0xDFFF"

text \<open>The code points of a string; a lone surrogate becomes U+FFFD.\<close>

fun code_points_of :: "jsstr \<Rightarrow> nat list" where
  "code_points_of (a # b # s) =
     (if is_high a \<and> is_low b then (0x10000 + (unat a - 0xD800) * 0x400 + (unat b - 0xDC00)) # code_points_of s
      else (if is_high a \<or> is_low a then 0xFFFD else unat a) # code_points_of (b # s))"
| "code_points_of [a] = [if is_high a \<or> is_low a then 0xFFFD else unat a]"
| "code_points_of [] = []"

definition utf8_of_point :: "nat \<Rightarrow> nat list" where
  "utf8_of_point p =
     (if p < 0x80 then [p]
      else if p < 0x800 then [0xC0 + p div 0x40, 0x80 + p mod 0x40]
      else if p < 0x10000 then [0xE0 + p div 0x1000, 0x80 + p div 0x40 mod 0x40, 0x80 + p mod 0x40]
      else [0xF0 + p div 0x40000, 0x80 + p div 0x1000 mod 0x40, 0x80 + p div 0x40 mod 0x40, 0x80 + p mod 0x40])"

definition utf8 :: "jsstr \<Rightarrow> nat list" where
  "utf8 s = concat (map utf8_of_point (code_points_of s))"

lemma code_points_bound: "p \<in> set (code_points_of s) \<Longrightarrow> p < 0x110000"
proof (induction s rule: code_points_of.induct)
  case (1 a b s)
  have pair: "0x10000 + (unat a - 0xD800) * 0x400 + (unat b - 0xDC00) < 0x110000" if "is_high a" "is_low b"
    using that by (auto simp: is_high_def is_low_def word_le_nat_alt)
  have "unat a < 0x10000" using unsigned_less [of a, where 'a = nat] by simp
  then show ?case using 1 pair by (auto split: if_splits)
next
  case (2 a)
  have "unat a < 0x10000" using unsigned_less [of a, where 'a = nat] by simp
  then show ?case using 2 by (auto split: if_splits)
qed simp

lemma utf8_bytes: "b \<in> set (utf8 s) \<Longrightarrow> b < 256"
proof -
  assume "b \<in> set (utf8 s)"
  then obtain p where "p \<in> set (code_points_of s)" "b \<in> set (utf8_of_point p)" by (auto simp: utf8_def)
  then show ?thesis using code_points_bound [of p s] by (auto simp: utf8_of_point_def split: if_splits)
qed

section \<open>Form encoding\<close>

definition hex_digit :: "nat \<Rightarrow> code_unit" where
  "hex_digit n = (if n < 10 then of_nat (48 + n) else of_nat (55 + n))"

definition form_safe :: "nat \<Rightarrow> bool" where
  "form_safe b \<longleftrightarrow> b = 42 \<or> b = 45 \<or> b = 46 \<or> (48 \<le> b \<and> b \<le> 57) \<or> (65 \<le> b \<and> b \<le> 90) \<or> b = 95
     \<or> (97 \<le> b \<and> b \<le> 122)"

definition form_byte :: "nat \<Rightarrow> jsstr" where
  "form_byte b = (if b = 32 then [43] else if form_safe b then [of_nat b]
     else [37, hex_digit (b div 16), hex_digit (b mod 16)])"

definition form_text :: "jsstr \<Rightarrow> jsstr" where
  "form_text s = concat (map form_byte (utf8 s))"

text \<open>\<^verbatim>\<open>URLSearchParams.toString\<close> of the appended pairs.\<close>

definition form_serialize :: "(jsstr \<times> jsstr) list \<Rightarrow> jsstr" where
  "form_serialize ps = js_join [38] (map (\<lambda>(k, v). form_text k @ 61 # form_text v) ps)"

text \<open>What a server reads: pairs of byte strings.\<close>

definition hex_value :: "code_unit \<Rightarrow> nat option" where
  "hex_value c = (if 48 \<le> c \<and> c \<le> 57 then Some (unat c - 48)
     else if 65 \<le> c \<and> c \<le> 70 then Some (unat c - 55)
     else if 97 \<le> c \<and> c \<le> 102 then Some (unat c - 87) else None)"

fun form_decode :: "jsstr \<Rightarrow> nat list" where
  "form_decode [] = []"
| "form_decode (c # s) =
     (if c = 43 then 32 # form_decode s
      else if c = 37 then
        (case s of
           h # l # t \<Rightarrow> (case (hex_value h, hex_value l) of
               (Some x, Some y) \<Rightarrow> (16 * x + y) # form_decode t
             | _ \<Rightarrow> 37 # form_decode s)
         | _ \<Rightarrow> 37 # form_decode s)
      else unat c # form_decode s)"

definition split_pair :: "jsstr \<Rightarrow> nat list \<times> nat list" where
  "split_pair s = (form_decode (takeWhile (\<lambda>c. c \<noteq> 61) s), form_decode (drop 1 (dropWhile (\<lambda>c. c \<noteq> 61) s)))"

definition form_parse :: "jsstr \<Rightarrow> (nat list \<times> nat list) list" where
  "form_parse s = map split_pair (filter (\<lambda>p. p \<noteq> []) (js_split 38 s))"

lemma below_16: "n < (16::nat) \<Longrightarrow> n \<in> {0, 1, 2, 3, 4, 5, 6, 7, 8, 9, 10, 11, 12, 13, 14, 15}"
  by (simp, presburger)

lemma hex_value_digit: "n < 16 \<Longrightarrow> hex_value (hex_digit n) = Some n"
  by (drule below_16) (elim insertE emptyE; simp add: hex_value_def hex_digit_def)

lemma hex_digit_alnum: "n < 16 \<Longrightarrow> form_safe (unat (hex_digit n))"
  by (drule below_16) (elim insertE emptyE; simp add: form_safe_def hex_digit_def)

lemma safe_neq: "form_safe (unat c) \<Longrightarrow> c \<noteq> 43 \<and> c \<noteq> 37 \<and> c \<noteq> 38 \<and> c \<noteq> (61::code_unit)"
  by (auto simp: form_safe_def)

lemma unat_of_byte: "b < 256 \<Longrightarrow> unat (of_nat b :: code_unit) = b"
  by (simp add: unat_of_nat take_bit_nat_eq_self_iff)

lemma form_decode_byte: "b < 256 \<Longrightarrow> form_decode (form_byte b @ s) = b # form_decode s"
proof -
  assume b: "b < 256"
  have 1: "hex_value (hex_digit (b div 16)) = Some (b div 16)" "hex_value (hex_digit (b mod 16)) = Some (b mod 16)"
    using b by (auto intro!: hex_value_digit)
  have 2: "16 * (b div 16) + b mod 16 = b" by simp
  have "c \<noteq> 43" "c \<noteq> 37" if "form_safe b" "c = of_nat b" for c :: code_unit
    using that safe_neq [of c] unat_of_byte [OF b] by auto
  then show ?thesis using 1 2 unat_of_byte [OF b] by (simp add: form_byte_def)
qed

lemma form_decode_text: "form_decode (form_text s) = utf8 s"
proof -
  have "form_decode (concat (map form_byte bs)) = bs" if "\<forall>b \<in> set bs. b < 256" for bs
    using that by (induction bs) (simp_all add: form_decode_byte)
  then show ?thesis using utf8_bytes by (simp add: form_text_def)
qed

lemma form_byte_chars: "b < 256 \<Longrightarrow> c \<in> set (form_byte b) \<Longrightarrow> c \<noteq> 38 \<and> c \<noteq> 61"
  using safe_neq [of c] unat_of_byte [of b] hex_digit_alnum [of "b div 16"] hex_digit_alnum [of "b mod 16"]
    safe_neq [of "hex_digit (b div 16)"] safe_neq [of "hex_digit (b mod 16)"]
  by (auto simp: form_byte_def split: if_splits)

lemma form_text_chars: "c \<in> set (form_text s) \<Longrightarrow> c \<noteq> 38 \<and> c \<noteq> 61"
  using form_byte_chars utf8_bytes by (fastforce simp: form_text_def)

lemma split_pair_text: "split_pair (form_text k @ 61 # form_text v) = (utf8 k, utf8 v)"
proof -
  have "c \<noteq> 61" if "c \<in> set (form_text k)" for c using that form_text_chars by blast
  then have "takeWhile (\<lambda>c. c \<noteq> 61) (form_text k @ 61 # form_text v) = form_text k"
    "dropWhile (\<lambda>c. c \<noteq> 61) (form_text k @ 61 # form_text v) = 61 # form_text v"
    by (simp_all add: takeWhile_append dropWhile_append)
  then show ?thesis by (simp add: split_pair_def form_decode_text)
qed

lemma form_parse_serialize: "form_parse (form_serialize ps) = map (\<lambda>(k, v). (utf8 k, utf8 v)) ps"
proof (cases ps)
  case Nil
  then show ?thesis by (simp add: form_parse_def form_serialize_def)
next
  case (Cons p qs)
  let ?texts = "map (\<lambda>(k, v). form_text k @ 61 # form_text v) ps"
  have amp: "38 \<notin> set t" if "t \<in> set ?texts" for t using that form_text_chars by fastforce
  then have "js_split 38 (js_join [38] ?texts) = ?texts" using Cons by (intro js_split_join) auto
  moreover have "filter (\<lambda>p. p \<noteq> []) ?texts = ?texts" by (auto intro: filter_True)
  ultimately show ?thesis by (auto simp: form_parse_def form_serialize_def split_pair_text)
qed

section \<open>Base64\<close>

definition b64_char :: "nat \<Rightarrow> code_unit" where
  "b64_char n = (if n < 26 then of_nat (65 + n) else if n < 52 then of_nat (71 + n)
     else if n < 62 then of_nat (n - 4) else if n = 62 then 43 else 47)"

definition b64_value :: "code_unit \<Rightarrow> nat option" where
  "b64_value c = (if 65 \<le> c \<and> c \<le> 90 then Some (unat c - 65)
     else if 97 \<le> c \<and> c \<le> 122 then Some (unat c - 71)
     else if 48 \<le> c \<and> c \<le> 57 then Some (unat c + 4)
     else if c = 43 then Some 62 else if c = 47 then Some 63 else None)"

text \<open>The six-bit digits of some bytes, and the padded text.\<close>

fun b64_digits :: "nat list \<Rightarrow> nat list" where
  "b64_digits (a # b # c # s) =
     [a div 4, (a mod 4) * 16 + b div 16, (b mod 16) * 4 + c div 64, c mod 64] @ b64_digits s"
| "b64_digits [a, b] = [a div 4, (a mod 4) * 16 + b div 16, (b mod 16) * 4]"
| "b64_digits [a] = [a div 4, (a mod 4) * 16]"
| "b64_digits [] = []"

definition base64 :: "nat list \<Rightarrow> jsstr" where
  "base64 bs = map b64_char (b64_digits bs) @ replicate ((3 - length bs mod 3) mod 3) 61"

text \<open>\<^verbatim>\<open>btoa\<close> of a binary string, which throws for characters that are no bytes.\<close>

definition btoa :: "jsstr \<Rightarrow> jsstr option" where
  "btoa s = (if list_all (\<lambda>c. c < 256) s then Some (base64 (map unat s)) else None)"

fun b64_bytes :: "nat list \<Rightarrow> nat list" where
  "b64_bytes (a # b # c # d # s) =
     [a * 4 + b div 16, (b mod 16) * 16 + c div 4, (c mod 4) * 64 + d] @ b64_bytes s"
| "b64_bytes [a, b, c] = [a * 4 + b div 16, (b mod 16) * 16 + c div 4]"
| "b64_bytes [a, b] = [a * 4 + b div 16]"
| "b64_bytes _ = []"

definition drop_pad :: "jsstr \<Rightarrow> jsstr" where
  "drop_pad t = (if t \<noteq> [] \<and> last t = 61 then butlast t else t)"

text \<open>\<^verbatim>\<open>atob\<close>: ASCII blanks are skipped, the padding may be missing.\<close>

definition atob :: "jsstr \<Rightarrow> jsstr option" where
  "atob s =
     (let t = filter (\<lambda>c. c \<noteq> 9 \<and> c \<noteq> 10 \<and> c \<noteq> 12 \<and> c \<noteq> 13 \<and> c \<noteq> 32) s;
          u = (if length t mod 4 = 0 then (if t \<noteq> [] \<and> last t = 61 then drop_pad (butlast t) else t) else t)
      in if length u mod 4 = 1 \<or> list_ex (\<lambda>c. b64_value c = None) u then None
         else Some (map of_nat (b64_bytes (List.map_filter b64_value u))))"

lemma b64_value_of_nat:
  assumes "m < 256"
  shows "b64_value (of_nat m) = (if 65 \<le> m \<and> m \<le> 90 then Some (m - 65)
     else if 97 \<le> m \<and> m \<le> 122 then Some (m - 71)
     else if 48 \<le> m \<and> m \<le> 57 then Some (m + 4)
     else if m = 43 then Some 62 else if m = 47 then Some 63 else None)"
  by (simp only: b64_value_def word_le_nat_alt word_unat_eq_iff unat_of_byte [OF assms] unat_numeral)
    (simp add: take_bit_eq_mod)

lemma below_64:
  assumes "n < 64"
  shows "b64_value (b64_char n) = Some n"
proof -
  have "b64_char n = of_nat (if n < 26 then 65 + n else if n < 52 then 71 + n else if n < 62 then n - 4
      else if n = 62 then 43 else 47)"
    by (simp add: b64_char_def)
  also have "b64_value \<dots> = Some n" using assms by (subst b64_value_of_nat) auto
  finally show ?thesis .
qed

lemma b64_char_plain:
  assumes "n < 64"
  shows "b64_char n \<noteq> 61 \<and> b64_char n \<noteq> 9 \<and> b64_char n \<noteq> 10 \<and> b64_char n \<noteq> 12 \<and> b64_char n \<noteq> 13
    \<and> b64_char n \<noteq> 32"
  using below_64 [OF assms] by (auto simp: b64_value_def split: if_splits)

lemma digit_bounds: "a < 256 \<Longrightarrow> a div 4 < (64::nat)" "b < 256 \<Longrightarrow> b div 16 < (16::nat)" "c < 256 \<Longrightarrow> c div 64 < (4::nat)"
  by (simp_all add: less_mult_imp_div_less)

lemma digit_sums:
  "x < (16::nat) \<Longrightarrow> (a mod 4 * 16 + x) div 16 = a mod 4 \<and> (a mod 4 * 16 + x) mod 16 = x \<and> a mod 4 * 16 + x < 64"
  "y < (4::nat) \<Longrightarrow> (b mod 16 * 4 + y) div 4 = b mod 16 \<and> (b mod 16 * 4 + y) mod 4 = y \<and> b mod 16 * 4 + y < 64"
proof -
  have "a mod 4 < 4" "b mod 16 < 16" by simp_all
  then show "x < 16 \<Longrightarrow> (a mod 4 * 16 + x) div 16 = a mod 4 \<and> (a mod 4 * 16 + x) mod 16 = x \<and> a mod 4 * 16 + x < 64"
    "y < 4 \<Longrightarrow> (b mod 16 * 4 + y) div 4 = b mod 16 \<and> (b mod 16 * 4 + y) mod 4 = y \<and> b mod 16 * 4 + y < 64"
    by simp_all
qed

lemma digit_sums_0: "a mod 4 * 16 div 16 = a mod (4::nat)" "b mod 16 * 4 div 4 = b mod (16::nat)"
  "a mod 4 * 16 < (64::nat)" "b mod 16 * 4 < (64::nat)"
  using digit_sums(1) [of 0 a] digit_sums(2) [of 0 b] by simp_all

lemma b64_digits_bound: "list_all (\<lambda>b. b < 256) bs \<Longrightarrow> list_all (\<lambda>d. d < 64) (b64_digits bs)"
  by (induction bs rule: b64_digits.induct) (simp_all add: digit_bounds digit_sums digit_sums_0)

lemma b64_bytes_digits: "list_all (\<lambda>b. b < 256) bs \<Longrightarrow> b64_bytes (b64_digits bs) = bs"
  by (induction bs rule: b64_digits.induct) (simp_all add: digit_bounds digit_sums digit_sums_0)

lemma length_digits: "length (b64_digits bs) + (3 - length bs mod 3) mod 3 = 4 * ((length bs + 2) div 3)"
proof (induction bs rule: b64_digits.induct)
  case (1 a b c s)
  have len: "length (a # b # c # s) = length s + 3" by simp
  have "(length s + 3) mod 3 = length s mod 3" "(length s + 3 + 2) div 3 = Suc ((length s + 2) div 3)"
    using div_add_self2 [of 3 "length s + 2"] by (simp_all add: add.commute add.left_commute)
  then show ?case using 1 unfolding len by simp
qed simp_all

lemma drop_pads:
  assumes "\<forall>c \<in> set t. c \<noteq> 61" and "k \<le> 2"
  shows "(if t @ replicate k 61 \<noteq> [] \<and> last (t @ replicate k 61) = 61
      then drop_pad (butlast (t @ replicate k 61)) else t @ replicate k 61) = (t :: jsstr)"
proof -
  have end_t: "t = [] \<or> last t \<noteq> 61" using assms(1) last_in_set [of t] by blast
  then have stop: "drop_pad t = t" by (auto simp: drop_pad_def)
  have one: "drop_pad (t @ [61]) = t" by (simp add: drop_pad_def)
  consider "k = 0" | "k = 1" | "k = 2" using assms(2) by linarith
  then show ?thesis
  proof cases
    case 1
    then show ?thesis using end_t by auto
  next
    case 2
    then show ?thesis using stop by simp
  next
    case 3
    have "t @ replicate 2 61 = (t @ [61]) @ [61]" by (simp add: numeral_2_eq_2)
    then show ?thesis using 3 one by (simp only: butlast_snoc last_snoc) simp
  qed
qed

lemma not_one_mod_4: "(x + k) mod 4 = 0 \<Longrightarrow> k < 3 \<Longrightarrow> x mod 4 \<noteq> (1::nat)"
  by presburger

lemma map_filter_map: "(\<And>x. x \<in> set xs \<Longrightarrow> f (g x) = Some x) \<Longrightarrow> List.map_filter f (map g xs) = xs"
  by (induction xs) (simp_all add: List.map_filter_def)

lemma atob_base64:
  assumes "list_all (\<lambda>b. b < 256) bs"
  shows "atob (base64 bs) = Some (map of_nat bs)"
proof -
  let ?d = "map b64_char (b64_digits bs)" and ?k = "(3 - length bs mod 3) mod 3"
  have small: "d < 64" if "d \<in> set (b64_digits bs)" for d
    using b64_digits_bound [OF assms] that by (simp add: list_all_iff)
  have ws: "filter (\<lambda>c. c \<noteq> 9 \<and> c \<noteq> 10 \<and> c \<noteq> 12 \<and> c \<noteq> 13 \<and> c \<noteq> 32) (base64 bs) = base64 bs"
    by (rule filter_True) (use b64_char_plain small in \<open>auto simp: base64_def\<close>)
  have len: "length (base64 bs) mod 4 = 0" by (simp add: base64_def length_digits)
  have pad: "(if base64 bs \<noteq> [] \<and> last (base64 bs) = 61 then drop_pad (butlast (base64 bs)) else base64 bs) = ?d"
    unfolding base64_def by (rule drop_pads) (use b64_char_plain small in auto)
  have "length (b64_digits bs) mod 4 \<noteq> 1" by (rule not_one_mod_4 [of _ ?k]) (simp_all add: length_digits)
  moreover have "\<not> list_ex (\<lambda>c. b64_value c = None) ?d" using below_64 small by (auto simp: list_ex_iff)
  moreover have "List.map_filter b64_value ?d = b64_digits bs"
    using below_64 small by (intro map_filter_map) blast
  ultimately show ?thesis
    by (simp only: atob_def ws Let_def len pad if_True) (simp add: b64_bytes_digits [OF assms])
qed

end
