(* ===== verification/HttpRequest.thy ===== *)
theory HttpRequest
  imports HttpVariables Encoding
begin

text \<open>
  From a request draft of the HTTP console to the request that is sent
  (\<^verbatim>\<open>src/features/http/HttpConsolePanel.tsx\<close>): query, headers, authentication, bodies, multipart parts with
  files, the preview, and the decoding of a response body. The browser's URL parser, its text decoder
  and JSON printer, and the reading of a file are parameters.
\<close>

section \<open>Limits\<close>

definition HTTP_FILE_UPLOAD_MAX_BYTES :: nat where "HTTP_FILE_UPLOAD_MAX_BYTES = 128 * 1024 * 1024"
definition HTTP_RESPONSE_MAX_BYTES :: nat where "HTTP_RESPONSE_MAX_BYTES = 32 * 1024 * 1024"
definition HTTP_STREAM_PREVIEW_MAX_CHARS :: nat where "HTTP_STREAM_PREVIEW_MAX_CHARS = 2 * 1024 * 1024"

text \<open>What the code throws; the texts shown are Chinese sentences with these parts.\<close>

datatype http_error =
    Cancelled
  | FileTooLarge
  | NamedFileTooLarge jsstr
  | FileNotChosen jsstr
  | ReadError jsstr
  | ResponseTooLarge

section \<open>Query and headers\<close>

definition enabledRows :: "kv_entry list \<Rightarrow> kv_entry list" where
  "enabledRows rows = filter (\<lambda>e. kv_enabled e \<and> js_trim (kv_key e) \<noteq> []) rows"

text \<open>\<open>add_params url pairs\<close> is the printed URL with the pairs appended, or \<open>None\<close> when \<^verbatim>\<open>new URL\<close> throws.\<close>

definition appendEnabledQueryParams ::
  "(jsstr \<Rightarrow> (jsstr \<times> jsstr) list \<Rightarrow> jsstr option) \<Rightarrow> jsstr \<Rightarrow> kv_entry list \<Rightarrow> jsstr" where
  "appendEnabledQueryParams add_params url params =
     (let pairs = map (\<lambda>e. (js_trim (kv_key e), kv_value e)) (enabledRows params)
      in if url = [] \<or> pairs = [] then url
         else (case add_params url pairs of
                 Some u \<Rightarrow> u
               | None \<Rightarrow> url @ (if 63 \<in> set url then [38] else [63]) @ form_serialize pairs))"

definition header_named :: "jsstr \<Rightarrow> kv_entry \<Rightarrow> bool" where
  "header_named name e \<longleftrightarrow> js_lower (js_trim (kv_key e)) = name"

definition hasHeader :: "kv_entry list \<Rightarrow> jsstr \<Rightarrow> bool" where
  "hasHeader headers key = list_ex (header_named (js_lower key)) (enabledRows headers)"

definition encodeBasicCredentials :: "jsstr \<Rightarrow> jsstr \<Rightarrow> jsstr" where
  "encodeBasicCredentials username password =
     (case btoa (username @ 58 # password) of Some s \<Rightarrow> s | None \<Rightarrow> [])"

definition authHeaderRows :: "http_auth \<Rightarrow> variables \<Rightarrow> kv_entry list" where
  "authHeaderRows auth vars =
     (if au_type auth = BearerAuth \<and> js_trim (au_bearerToken auth) \<noteq> [] then
        [plain_row (js ''Authorization'') (js ''Bearer '' @ resolveVariables (js_trim (au_bearerToken auth)) vars)]
      else if au_type auth = BasicAuth \<and> (au_username auth \<noteq> [] \<or> au_password auth \<noteq> []) then
        (let encoded = encodeBasicCredentials (resolveVariables (au_username auth) vars)
               (resolveVariables (au_password auth) vars)
         in if encoded \<noteq> [] then [plain_row (js ''Authorization'') (js ''Basic '' @ encoded)] else [])
      else if au_type auth = ApiKeyAuth \<and> au_apiKeyLocation auth = InHeader \<and> js_trim (au_apiKeyName auth) \<noteq> [] then
        [plain_row (resolveVariables (js_trim (au_apiKeyName auth)) vars) (resolveVariables (au_apiKeyValue auth) vars)]
      else [])"

definition requestUsesMultipart :: "http_request \<Rightarrow> bool" where
  "requestUsesMultipart r \<longleftrightarrow>
     rq_bodyMode r = BodyForm \<and> list_ex (\<lambda>e. formValueTypeFor e = FileValue) (enabledRows (rq_formBody r))"

definition no_body_method :: "http_method \<Rightarrow> bool" where
  "no_body_method m \<longleftrightarrow> m = MGet \<or> m = MHead"

definition bodyContentType :: "http_request \<Rightarrow> jsstr option" where
  "bodyContentType r =
     (if no_body_method (rq_method r) \<or> rq_bodyMode r = BodyNone then None
      else if rq_bodyMode r = BodyJson then Some (js ''application/json'')
      else if rq_bodyMode r = BodyText then Some (js ''text/plain; charset=utf-8'')
      else if requestUsesMultipart r then None
      else Some (js ''application/x-www-form-urlencoded''))"

definition given_headers :: "http_request \<Rightarrow> variables \<Rightarrow> kv_entry list" where
  "given_headers r vars = map (\<lambda>e. resolveRowVariables e vars) (enabledRows (rq_headers r)) @ authHeaderRows (rq_auth r) vars"

definition requestHeaderRows :: "http_request \<Rightarrow> variables \<Rightarrow> (jsstr \<times> jsstr) list" where
  "requestHeaderRows r vars =
     (let headers = given_headers r vars;
          headers = (case bodyContentType r of
              Some t \<Rightarrow> if \<not> hasHeader headers (js ''Content-Type'')
                then headers @ [plain_row (js ''Content-Type'') t] else headers
            | None \<Rightarrow> headers)
      in map (\<lambda>e. (js_trim (kv_key e), kv_value e))
           (filter (\<lambda>e. \<not> (requestUsesMultipart r \<and> header_named (js ''content-type'') e)) headers))"

section \<open>Bodies\<close>

definition requestBodyFor :: "http_request \<Rightarrow> variables \<Rightarrow> jsstr option" where
  "requestBodyFor r vars =
     (if no_body_method (rq_method r) \<or> rq_bodyMode r = BodyNone then None
      else if rq_bodyMode r = BodyForm then
        (if requestUsesMultipart r then None
         else
           (let bodyText = form_serialize (map (\<lambda>e. (js_trim (kv_key e), kv_value e))
                  (map (\<lambda>e. resolveRowVariables e vars)
                    (filter (\<lambda>e. formValueTypeFor e = TextValue) (enabledRows (rq_formBody r)))))
            in if bodyText \<noteq> [] then Some bodyText else None))
      else if rq_body r \<noteq> [] then Some (resolveVariables (rq_body r) vars) else None)"

text \<open>\<^verbatim>\<open>arrayBufferToBase64\<close> and \<^verbatim>\<open>encodeBase64\<close>: the bytes become characters, 32768 at a time.\<close>

function chunk_chars :: "nat \<Rightarrow> nat list \<Rightarrow> jsstr" where
  "chunk_chars n bytes = (if bytes = [] \<or> n = 0 then [] else map of_nat (take n bytes) @ chunk_chars n (drop n bytes))"
  by pat_completeness auto
termination by (relation "measure (\<lambda>(n, bytes). length bytes)") auto

declare chunk_chars.simps [simp del]

definition arrayBufferToBase64 :: "nat list \<Rightarrow> jsstr" where
  "arrayBufferToBase64 bytes = (case btoa (chunk_chars 0x8000 bytes) of Some s \<Rightarrow> s | None \<Rightarrow> [])"

definition base64ToUint8Array :: "jsstr \<Rightarrow> nat list option" where
  "base64ToUint8Array s = map_option (map unat) (atob s)"

record http_file =
  fl_name :: jsstr
  fl_type :: jsstr
  fl_size :: nat

text \<open>
  \<^verbatim>\<open>fileToBase64OnMainThread\<close>, and the same steps in the worker: \<open>before\<close> and \<open>after\<close> tell whether the
  request was cancelled before and after the read, \<open>contents\<close> is the answer of \<^verbatim>\<open>file.arrayBuffer()\<close>.
\<close>

definition fileToBase64OnMainThread ::
  "http_file \<Rightarrow> bool \<Rightarrow> bool \<Rightarrow> jsstr + nat list \<Rightarrow> http_error + jsstr" where
  "fileToBase64OnMainThread f before after contents =
     (if fl_size f > HTTP_FILE_UPLOAD_MAX_BYTES then Inl FileTooLarge
      else if before then Inl Cancelled
      else (case contents of
              Inl e \<Rightarrow> Inl (ReadError e)
            | Inr bytes \<Rightarrow> if after then Inl Cancelled else Inr (arrayBufferToBase64 bytes)))"

record http_part =
  pt_bytesBase64 :: "jsstr option"
  pt_contentType :: "jsstr option"
  pt_fileName :: "jsstr option"
  pt_kind :: form_value_type
  pt_name :: jsstr
  pt_value :: "jsstr option"

definition or_text :: "jsstr \<Rightarrow> jsstr \<Rightarrow> jsstr" where
  "or_text a b = (if a \<noteq> [] then a else b)"

text \<open>One row of the form: nothing, an error, or a part.\<close>

definition part_of_row ::
  "variables \<Rightarrow> (jsstr \<rightharpoonup> http_file) \<Rightarrow> (http_file \<Rightarrow> http_error + jsstr) \<Rightarrow> kv_entry \<Rightarrow> http_error + http_part option" where
  "part_of_row vars formFiles read e =
     (let name = js_trim (resolveVariables (js_trim (kv_key e)) vars)
      in if name = [] then Inr None
         else if formValueTypeFor e = FileValue then
           (case (case kv_localFileId e of Some i \<Rightarrow> if i \<noteq> [] then formFiles i else None | None \<Rightarrow> None) of
              None \<Rightarrow> Inl (FileNotChosen (js_trim (kv_key e)))
            | Some f \<Rightarrow>
                if fl_size f > HTTP_FILE_UPLOAD_MAX_BYTES then Inl (NamedFileTooLarge (fl_name f))
                else (case read f of
                        Inl err \<Rightarrow> Inl err
                      | Inr b \<Rightarrow> Inr (Some \<lparr>pt_bytesBase64 = Some b,
                          pt_contentType = Some (or_text (or_text (fl_type f) (opt_text (kv_fileType e)))
                            (js ''application/octet-stream'')),
                          pt_fileName = Some (or_text (opt_text (kv_fileName e)) (fl_name f)),
                          pt_kind = FileValue, pt_name = name, pt_value = None\<rparr>)))
         else Inr (Some \<lparr>pt_bytesBase64 = None, pt_contentType = None, pt_fileName = None, pt_kind = TextValue,
                pt_name = name, pt_value = Some (resolveVariables (kv_value e) vars)\<rparr>))"

fun collect_parts :: "('a \<Rightarrow> http_error + http_part option) \<Rightarrow> 'a list \<Rightarrow> http_error + http_part list" where
  "collect_parts f [] = Inr []"
| "collect_parts f (e # es) =
     (case f e of
        Inl err \<Rightarrow> Inl err
      | Inr p \<Rightarrow> (case collect_parts f es of
          Inl err \<Rightarrow> Inl err
        | Inr ps \<Rightarrow> Inr (case p of Some x \<Rightarrow> x # ps | None \<Rightarrow> ps)))"

definition requestMultipartFor ::
  "http_request \<Rightarrow> variables \<Rightarrow> (jsstr \<rightharpoonup> http_file) \<Rightarrow> (http_file \<Rightarrow> http_error + jsstr)
     \<Rightarrow> http_error + http_part list option" where
  "requestMultipartFor r vars formFiles read =
     (if no_body_method (rq_method r) \<or> rq_bodyMode r \<noteq> BodyForm \<or> \<not> requestUsesMultipart r then Inr None
      else (case collect_parts (part_of_row vars formFiles read) (enabledRows (rq_formBody r)) of
              Inl e \<Rightarrow> Inl e
            | Inr parts \<Rightarrow> Inr (if parts \<noteq> [] then Some parts else None)))"

section \<open>The request that is sent\<close>

record http_payload =
  hp_body :: "jsstr option"
  hp_headers :: "(jsstr \<times> jsstr) list"
  hp_method :: http_method
  hp_multipart :: "http_part list option"
  hp_timeoutMs :: nat
  hp_url :: jsstr

definition requestUrlFor ::
  "(jsstr \<Rightarrow> (jsstr \<times> jsstr) list \<Rightarrow> jsstr option) \<Rightarrow> http_request \<Rightarrow> variables \<Rightarrow> jsstr" where
  "requestUrlFor add_params r vars =
     (let params = map (\<lambda>e. resolveRowVariables e vars) (rq_params r);
          auth = rq_auth r;
          params = (if au_type auth = ApiKeyAuth \<and> au_apiKeyLocation auth = InQuery \<and> js_trim (au_apiKeyName auth) \<noteq> []
            then params @ [plain_row (resolveVariables (js_trim (au_apiKeyName auth)) vars)
              (resolveVariables (au_apiKeyValue auth) vars)] else params)
      in appendEnabledQueryParams add_params (resolveVariables (js_trim (rq_url r)) vars) params)"

definition buildHttpPayload ::
  "(jsstr \<Rightarrow> (jsstr \<times> jsstr) list \<Rightarrow> jsstr option) \<Rightarrow> http_request \<Rightarrow> variables \<Rightarrow> http_part list option
     \<Rightarrow> http_payload" where
  "buildHttpPayload add_params r vars multipart =
     \<lparr>hp_body = (if multipart \<noteq> None then None else requestBodyFor r vars), hp_headers = requestHeaderRows r vars,
      hp_method = rq_method r, hp_multipart = multipart, hp_timeoutMs = 30000,
      hp_url = requestUrlFor add_params r vars\<rparr>"

definition buildHttpPayloadForSend ::
  "(jsstr \<Rightarrow> (jsstr \<times> jsstr) list \<Rightarrow> jsstr option) \<Rightarrow> http_request \<Rightarrow> variables \<Rightarrow> (jsstr \<rightharpoonup> http_file)
     \<Rightarrow> (http_file \<Rightarrow> http_error + jsstr) \<Rightarrow> http_error + http_payload" where
  "buildHttpPayloadForSend add_params r vars formFiles read =
     (case requestMultipartFor r vars formFiles read of
        Inl e \<Rightarrow> Inl e
      | Inr multipart \<Rightarrow> Inr (buildHttpPayload add_params r vars multipart))"

section \<open>Preview\<close>

text \<open>\<open>num_text\<close> prints a number; \<^verbatim>\<open>toFixed\<close> prints numbers from 1e21 on like \<^verbatim>\<open>String\<close>.\<close>

definition fixed_2 :: "(rat \<Rightarrow> jsstr) \<Rightarrow> rat \<Rightarrow> jsstr" where
  "fixed_2 num_text x = (if x < 10 ^ 21 then to_fixed 2 x else num_text x)"

definition formatBytes :: "(rat \<Rightarrow> jsstr) \<Rightarrow> rat \<Rightarrow> jsstr" where
  "formatBytes num_text bytes =
     (if bytes < 1024 then num_text bytes @ js '' B''
      else if bytes < 1024 * 1024 then fixed_2 num_text (bytes / 1024) @ js '' KB''
      else fixed_2 num_text (bytes / 1024 / 1024) @ js '' MB'')"

text \<open>The Chinese words of the preview: no name, no file, nothing, no URL.\<close>

definition noNameText :: jsstr where "noNameText = [60, 0x672A, 0x586B, 0x5199, 0x540D, 0x79F0, 62]"
definition noFileText :: jsstr where "noFileText = [60, 0x672A, 0x9009, 0x62E9, 0x6587, 0x4EF6, 62]"
definition nothingText :: jsstr where "nothingText = [0x65E0]"
definition noUrlText :: jsstr where "noUrlText = [60, 0x672A, 0x586B, 0x5199] @ js '' URL>''"

definition preview_line :: "(rat \<Rightarrow> jsstr) \<Rightarrow> variables \<Rightarrow> kv_entry \<Rightarrow> jsstr" where
  "preview_line num_text vars e =
     (let name = or_text (js_trim (resolveVariables (js_trim (kv_key e)) vars)) noNameText
      in if formValueTypeFor e = FileValue then
           js ''[file] '' @ name @ js '': '' @ or_text (or_text (opt_text (kv_fileName e)) (kv_value e)) noFileText
             @ (case kv_fileSize e of Some n \<Rightarrow> js '', '' @ formatBytes num_text n | None \<Rightarrow> [])
         else js ''[text] '' @ name @ js '': '' @ resolveVariables (kv_value e) vars)"

definition requestMultipartPreviewFor :: "(rat \<Rightarrow> jsstr) \<Rightarrow> http_request \<Rightarrow> variables \<Rightarrow> jsstr option" where
  "requestMultipartPreviewFor num_text r vars =
     (if \<not> requestUsesMultipart r then None
      else (let rows = enabledRows (rq_formBody r)
            in if rows = [] then None else Some (js_join [10] (map (preview_line num_text vars) rows))))"

fun method_text :: "http_method \<Rightarrow> jsstr" where
  "method_text MGet = js ''GET''"
| "method_text MPost = js ''POST''"
| "method_text MPut = js ''PUT''"
| "method_text MPatch = js ''PATCH''"
| "method_text MDelete = js ''DELETE''"
| "method_text MHead = js ''HEAD''"
| "method_text MOptions = js ''OPTIONS''"

definition buildRequestPreview ::
  "(rat \<Rightarrow> jsstr) \<Rightarrow> (jsstr \<Rightarrow> (jsstr \<times> jsstr) list \<Rightarrow> jsstr option) \<Rightarrow> http_request \<Rightarrow> variables \<Rightarrow> jsstr" where
  "buildRequestPreview num_text add_params r vars =
     (let payload = buildHttpPayload add_params r vars None;
          headers = (if hp_headers payload \<noteq> []
            then js_join [10] (map (\<lambda>(k, v). k @ js '': '' @ v) (hp_headers payload)) else nothingText);
          body = (case requestMultipartPreviewFor num_text r vars of
              Some p \<Rightarrow> if p \<noteq> [] then js ''multipart/form-data'' @ 10 # p
                        else or_text (opt_text (hp_body payload)) nothingText
            | None \<Rightarrow> or_text (opt_text (hp_body payload)) nothingText)
      in method_text (hp_method payload) @ 32 # or_text (hp_url payload) noUrlText
         @ [10, 10] @ js ''Headers'' @ 10 # headers @ [10, 10] @ js ''Body'' @ 10 # body)"

section \<open>Checks of addresses\<close>

text \<open>\<open>protocol url\<close> is \<^verbatim>\<open>new URL(url).protocol\<close>, or \<open>None\<close> when the parser throws.\<close>

definition isValidRequestUrl :: "(jsstr \<Rightarrow> jsstr option) \<Rightarrow> jsstr \<Rightarrow> bool" where
  "isValidRequestUrl protocol url =
     (let trimmedUrl = js_trim url
      in if trimmedUrl = [] then True
         else (case protocol trimmedUrl of
                 Some p \<Rightarrow> p = js ''http:'' \<or> p = js ''https:''
               | None \<Rightarrow> List.map_filter piece_key (scan trimmedUrl) \<noteq> []))"

definition hasInvalidRequestUrl :: "(jsstr \<Rightarrow> jsstr option) \<Rightarrow> http_workspace list \<Rightarrow> bool" where
  "hasInvalidRequestUrl protocol workspaces =
     list_ex (\<lambda>w. list_ex (\<lambda>r. \<not> isValidRequestUrl protocol (rq_url r)) (ws_requests w)
       \<or> list_ex (\<lambda>p. list_ex (\<lambda>r. \<not> isValidRequestUrl protocol (rq_url r)) (pj_requests p)) (ws_projects w)) workspaces"

section \<open>Properties\<close>

lemma not_header_filter: "filter (\<lambda>e. \<not> (a \<and> P e)) xs = (if a then filter (\<lambda>e. \<not> P e) xs else xs)"
  by simp

lemma lower_content_type: "js_lower (js ''Content-Type'') = js ''content-type''"
  by (simp add: js_lower_def lower_unit_def js_def)

text \<open>Headers of the payload by their lower case names.\<close>

definition content_types :: "(jsstr \<times> jsstr) list \<Rightarrow> jsstr list" where
  "content_types hs = map snd (filter (\<lambda>(k, v). js_lower k = js ''content-type'') hs)"

lemma content_types_rows:
  "content_types (map (\<lambda>e. (js_trim (kv_key e), kv_value e)) es)
    = map kv_value (filter (header_named (js ''content-type'')) es)"
  by (induction es) (simp_all add: content_types_def header_named_def)

lemma enabled_given: "e \<in> set (given_headers r vars) \<Longrightarrow> kv_enabled e"
  by (auto simp: given_headers_def enabledRows_def resolveRowVariables_def authHeaderRows_def plain_row_def Let_def
      split: if_splits)

lemma has_content_type:
  "hasHeader (given_headers r vars) (js ''Content-Type'')
    \<longleftrightarrow> filter (header_named (js ''content-type'')) (given_headers r vars) \<noteq> []"
proof -
  have "js_trim (kv_key e) \<noteq> []" if "header_named (js ''content-type'') e" for e
    using that by (auto simp: header_named_def js_lower_def)
  then show ?thesis
    using enabled_given by (auto simp: hasHeader_def lower_content_type list_ex_iff enabledRows_def filter_empty_conv)
qed

text \<open>
  The request goes out with exactly the content types the user or the authentication gave, or, when
  none was given, with the one of the body; a multipart request has none, so that the boundary can be
  set when it is sent.
\<close>

theorem requestHeaderRows_content_type:
  "content_types (requestHeaderRows r vars) =
     (let given = map kv_value (filter (header_named (js ''content-type'')) (given_headers r vars))
      in if requestUsesMultipart r then []
         else (case bodyContentType r of
                 Some t \<Rightarrow> if given = [] then [t] else given
               | None \<Rightarrow> given))"
proof -
  have own: "header_named (js ''content-type'') (plain_row (js ''Content-Type'') t)"
    "kv_value (plain_row (js ''Content-Type'') t) = t" for t
  proof -
    have "js_trim (js ''Content-Type'') = js ''Content-Type''"
      by (simp add: js_trim_def trim_end_def js_space_def js_def)
    then show "header_named (js ''content-type'') (plain_row (js ''Content-Type'') t)"
      by (simp add: header_named_def plain_row_def lower_content_type)
  qed (simp add: plain_row_def)
  show ?thesis
    by (auto simp: requestHeaderRows_def Let_def content_types_rows not_header_filter has_content_type own
        comp_def split: option.split)
qed

text \<open>
  The body of a form is read back by a server as the enabled rows in order, names and values as
  the UTF-8 bytes of their resolved texts: no name or value can break out of its field.
\<close>

theorem requestBodyFor_form:
  assumes "\<not> no_body_method (rq_method r)" and "rq_bodyMode r = BodyForm" and "\<not> requestUsesMultipart r"
  shows "form_parse (opt_text (requestBodyFor r vars))
    = map (\<lambda>e. (utf8 (js_trim (resolveVariables (kv_key e) vars)), utf8 (resolveVariables (kv_value e) vars)))
        (enabledRows (rq_formBody r))"
proof -
  have "filter (\<lambda>e. formValueTypeFor e = TextValue) (enabledRows (rq_formBody r)) = enabledRows (rq_formBody r)"
    using assms(2,3) by (intro filter_True) (auto simp: requestUsesMultipart_def list_ex_iff formValueTypeFor_def)
  then have "opt_text (requestBodyFor r vars) = form_serialize (map (\<lambda>e. (js_trim (kv_key e), kv_value e))
      (map (\<lambda>e. resolveRowVariables e vars) (enabledRows (rq_formBody r))))"
    using assms by (simp add: requestBodyFor_def Let_def opt_text_def)
  then show ?thesis by (simp add: form_parse_serialize resolveRowVariables_def comp_def)
qed

definition example_request :: http_request where
  "example_request = \<lparr>rq_auth = createDefaultAuth, rq_body = [], rq_bodyMode = BodyForm,
     rq_formBody = [plain_row (js ''a'') (js ''x&b=1'')], rq_headers = [], rq_id = js ''r'', rq_method = MPost,
     rq_name = js ''r'', rq_params = [], rq_tempVariables = None, rq_url = js ''http://h''\<rparr>"

theorem requestBodyFor_form_witness:
  "form_parse (opt_text (requestBodyFor example_request Map.empty))
    = map (\<lambda>e. (utf8 (js_trim (resolveVariables (kv_key e) Map.empty)), utf8 (resolveVariables (kv_value e) Map.empty)))
        (enabledRows (rq_formBody example_request))"
  by (rule requestBodyFor_form)
    (simp_all add: example_request_def no_body_method_def requestUsesMultipart_def enabledRows_def formValueTypeFor_def
      plain_row_def)

lemma chunk_chars_all: "0 < n \<Longrightarrow> chunk_chars n bytes = map of_nat bytes"
proof (induction n bytes rule: chunk_chars.induct)
  case (1 n bytes)
  then show ?case
    by (subst chunk_chars.simps) (simp add: map_append [symmetric] del: map_append)
qed

lemma base64_of_bytes: "list_all (\<lambda>b. b < 256) bytes \<Longrightarrow> arrayBufferToBase64 bytes = base64 bytes"
proof -
  assume b: "list_all (\<lambda>b. b < 256) bytes"
  then have "list_all (\<lambda>c. c < 256) (map of_nat bytes :: jsstr)"
    by (auto simp: list_all_iff word_less_nat_alt unat_of_byte)
  moreover have "map unat (map of_nat bytes :: jsstr) = bytes"
    using b by (auto simp: list_all_iff unat_of_byte intro: map_idI)
  ultimately show ?thesis by (simp add: arrayBufferToBase64_def btoa_def chunk_chars_all)
qed

lemma file_bytes_back: "list_all (\<lambda>b. b < 256) bytes \<Longrightarrow> base64ToUint8Array (arrayBufferToBase64 bytes) = Some bytes"
  by (auto simp: base64_of_bytes base64ToUint8Array_def atob_base64 list_all_iff unat_of_byte intro: map_idI)

text \<open>
  C17. The bytes of an uploaded file survive the trip through Base64, whatever their number.
\<close>

theorem arrayBufferToBase64_roundtrip:
  assumes "list_all (\<lambda>b. b < 256) bytes"
  shows "base64ToUint8Array (arrayBufferToBase64 bytes) = Some bytes"
  by (rule file_bytes_back [OF assms])

theorem arrayBufferToBase64_roundtrip_witness: "base64ToUint8Array (arrayBufferToBase64 [255, 0]) = Some [255, 0]"
  by (rule arrayBufferToBase64_roundtrip) simp

text \<open>The text that goes into a basic authentication header.\<close>

definition basic_credentials :: "http_auth \<Rightarrow> variables \<Rightarrow> jsstr" where
  "basic_credentials auth vars =
     resolveVariables (au_username auth) vars @ 58 # resolveVariables (au_password auth) vars"

text \<open>
  Basic authentication sends a header that decodes to the resolved name, a colon and the resolved
  password - unless one of them has a character outside Latin-1: then the request goes out without any
  authorization header, and nothing is reported.
\<close>

theorem authHeaderRows_basic:
  assumes "au_type auth = BasicAuth" and "au_username auth \<noteq> [] \<or> au_password auth \<noteq> []"
  shows "if list_all (\<lambda>c. c < 256) (basic_credentials auth vars)
    then \<exists>b. authHeaderRows auth vars = [plain_row (js ''Authorization'') (js ''Basic '' @ b)] \<and> atob b = Some (basic_credentials auth vars)
    else authHeaderRows auth vars = []"
proof (cases "list_all (\<lambda>c. c < 256) (basic_credentials auth vars)")
  case True
  let ?b = "base64 (map unat (basic_credentials auth vars))"
  have bytes: "list_all (\<lambda>b. b < 256) (map unat (basic_credentials auth vars))" using True by (auto simp: list_all_iff word_less_nat_alt)
  have "atob ?b = Some (basic_credentials auth vars)" using atob_base64 [OF bytes] by (simp add: comp_def)
  moreover from this have "?b \<noteq> []" by (auto simp: atob_def basic_credentials_def)
  ultimately have "authHeaderRows auth vars = [plain_row (js ''Authorization'') (js ''Basic '' @ ?b)] \<and> atob ?b = Some (basic_credentials auth vars)"
    using True assms(1,2) unfolding authHeaderRows_def encodeBasicCredentials_def basic_credentials_def [symmetric]
    by (simp add: btoa_def Let_def)
  then show ?thesis using True by auto
next
  case False
  then have "btoa (basic_credentials auth vars) = None" by (simp add: btoa_def)
  then show ?thesis using False assms(1,2) unfolding authHeaderRows_def encodeBasicCredentials_def basic_credentials_def [symmetric]
    by (simp add: Let_def)
qed

theorem authHeaderRows_basic_witness:
  "authHeaderRows (createDefaultAuth\<lparr>au_type := BasicAuth, au_username := js ''u'', au_password := [0x4E2D]\<rparr>) Map.empty = []"
proof -
  have no_ref: "resolveVariables [c] Map.empty = [c]" for c
    by (simp add: resolveVariables_def scan.simps match_ref_def js_def)
  let ?auth = "createDefaultAuth\<lparr>au_type := BasicAuth, au_username := js ''u'', au_password := [0x4E2D]\<rparr>"
  have "au_type ?auth = BasicAuth" "au_username ?auth \<noteq> [] \<or> au_password ?auth \<noteq> []" by simp_all
  note result = authHeaderRows_basic [OF this, of Map.empty]
  have "\<not> list_all (\<lambda>c. c < 256) (basic_credentials ?auth Map.empty)"
    using no_ref [of "0x4E2D"] by (simp add: basic_credentials_def)
  with result show ?thesis by (simp only: if_False)
qed

text \<open>The part made of a row: same name, the resolved text or the bytes of the chosen file.\<close>

definition row_part_ok ::
  "variables \<Rightarrow> (jsstr \<rightharpoonup> http_file) \<Rightarrow> (http_file \<Rightarrow> jsstr + nat list) \<Rightarrow> kv_entry \<Rightarrow> http_part \<Rightarrow> bool" where
  "row_part_ok vars formFiles contents e p \<longleftrightarrow>
     pt_name p = js_trim (resolveVariables (js_trim (kv_key e)) vars) \<and> pt_kind p = formValueTypeFor e
     \<and> (case formValueTypeFor e of
          TextValue \<Rightarrow> pt_value p = Some (resolveVariables (kv_value e) vars)
        | FileValue \<Rightarrow> (case Option.bind (kv_localFileId e) formFiles of
            None \<Rightarrow> False
          | Some f \<Rightarrow> fl_size f \<le> HTTP_FILE_UPLOAD_MAX_BYTES
              \<and> (case contents f of Inl _ \<Rightarrow> False
                 | Inr bytes \<Rightarrow> Option.bind (pt_bytesBase64 p) base64ToUint8Array = Some bytes)))"

lemma part_of_row_ok:
  assumes "part_of_row vars formFiles (\<lambda>f. fileToBase64OnMainThread f (before f) (after f) (contents f)) e = Inr q"
    and "\<And>f bytes. contents f = Inr bytes \<Longrightarrow> list_all (\<lambda>b. b < 256) bytes"
  shows "case q of None \<Rightarrow> js_trim (resolveVariables (js_trim (kv_key e)) vars) = []
    | Some p \<Rightarrow> js_trim (resolveVariables (js_trim (kv_key e)) vars) \<noteq> [] \<and> row_part_ok vars formFiles contents e p"
proof (cases "formValueTypeFor e")
  case TextValue
  then show ?thesis using assms(1) by (auto simp: part_of_row_def row_part_ok_def Let_def split: if_splits)
next
  case FileValue
  have kept: "base64ToUint8Array (arrayBufferToBase64 bs) = Some bs" if "contents f = Inr bs" for f bs
    by (rule file_bytes_back [OF assms(2) [OF that]])
  show ?thesis
    using assms(1) FileValue kept
    by (auto simp: part_of_row_def row_part_ok_def fileToBase64OnMainThread_def Let_def
        split: if_splits option.splits sum.splits)
qed

lemma collect_parts_ok:
  assumes "collect_parts g rows = Inr parts"
    and "\<And>e q. g e = Inr q \<Longrightarrow> (case q of None \<Rightarrow> \<not> P e | Some p \<Rightarrow> P e \<and> R e p)"
  shows "list_all2 R (filter P rows) parts"
  using assms(1)
proof (induction rows arbitrary: parts)
  case (Cons e es)
  then obtain q ps where q: "g e = Inr q" and ps: "collect_parts g es = Inr ps"
    by (auto split: sum.splits)
  then show ?case using Cons assms(2) [OF q] by (cases q) auto
qed simp

text \<open>
  A multipart body that is sent has one part for every enabled row of the form whose name does not
  resolve to nothing, in order: texts as they resolve, and files with exactly the bytes that were read,
  none of them above the limit. A missing, oversized, unreadable or cancelled file sends nothing.
\<close>

theorem requestMultipartFor_parts:
  assumes "requestMultipartFor r vars formFiles (\<lambda>f. fileToBase64OnMainThread f (before f) (after f) (contents f))
      = Inr (Some parts)"
    and "\<forall>f. case contents f of Inr bytes \<Rightarrow> list_all (\<lambda>b. b < 256) bytes | Inl _ \<Rightarrow> True"
  shows "list_all2 (row_part_ok vars formFiles contents)
    (filter (\<lambda>e. js_trim (resolveVariables (js_trim (kv_key e)) vars) \<noteq> []) (enabledRows (rq_formBody r))) parts"
proof -
  let ?g = "part_of_row vars formFiles (\<lambda>f. fileToBase64OnMainThread f (before f) (after f) (contents f))"
  have parts: "collect_parts ?g (enabledRows (rq_formBody r)) = Inr parts"
    using assms(1) by (auto simp: requestMultipartFor_def split: if_splits sum.splits)
  have bytes: "list_all (\<lambda>b. b < 256) bytes" if "contents f = Inr bytes" for f bytes
    using assms(2) [rule_format, of f] that by simp
  show ?thesis
    by (rule collect_parts_ok [OF parts])
      (use part_of_row_ok [OF _ bytes] in \<open>force split: option.splits\<close>)
qed

text \<open>A form with one file, and the request that sends it.\<close>

definition example_form :: http_request where
  "example_form = example_request\<lparr>rq_formBody := [(plain_row (js ''f'') [])
     \<lparr>kv_formValueType := Some FileValue, kv_localFileId := Some (js ''1'')\<rparr>]\<rparr>"

definition example_file :: http_file where
  "example_file = \<lparr>fl_name = js ''x.bin'', fl_type = [], fl_size = 2\<rparr>"

definition example_part :: http_part where
  "example_part = \<lparr>pt_bytesBase64 = Some (arrayBufferToBase64 [1, 255]),
     pt_contentType = Some (js ''application/octet-stream''), pt_fileName = Some (js ''x.bin''), pt_kind = FileValue,
     pt_name = js ''f'', pt_value = None\<rparr>"

theorem requestMultipartFor_parts_witness:
  "list_all2 (row_part_ok Map.empty (\<lambda>_. Some example_file) (\<lambda>_. Inr [1, 255]))
    (filter (\<lambda>e. js_trim (resolveVariables (js_trim (kv_key e)) Map.empty) \<noteq> []) (enabledRows (rq_formBody example_form)))
    [example_part]"
proof (rule requestMultipartFor_parts)
  have f: "js_trim (js ''f'') = js ''f''" "resolveVariables (js ''f'') Map.empty = js ''f''"
    by (simp_all add: resolve_plain js_trim_def trim_end_def js_space_def js_def)
  show "requestMultipartFor example_form Map.empty (\<lambda>_. Some example_file)
      (\<lambda>f. fileToBase64OnMainThread f False False (Inr [1, 255])) = Inr (Some [example_part])"
    using f by (simp add: requestMultipartFor_def example_form_def example_request_def no_body_method_def
        requestUsesMultipart_def enabledRows_def formValueTypeFor_def plain_row_def part_of_row_def example_file_def
        HTTP_FILE_UPLOAD_MAX_BYTES_def fileToBase64OnMainThread_def or_text_def opt_text_def example_part_def Let_def)
  show "\<forall>f. case (Inr [1, 255] :: jsstr + nat list) of Inr bytes \<Rightarrow> list_all (\<lambda>b. b < 256) bytes | Inl _ \<Rightarrow> True" by simp
qed

end
