(* ===== verification/FreshIds.thy ===== *)
theory FreshIds
  imports HttpModel
begin

text \<open>
  Reasoning about computations that draw ids: \<open>wp m Q n\<close> says that \<open>m\<close>, started when \<open>n\<close> ids are
  drawn, gives a value and a number of ids drawn with \<open>Q\<close>. Straight code is run by the simplifier,
  loops over lists have the rules below. \<open>news\<close> are distinct ids drawn in a stretch, \<open>unused\<close> says
  that no id still to come is among the given ones.
\<close>

definition wp :: "'a gen \<Rightarrow> ('a \<Rightarrow> nat \<Rightarrow> bool) \<Rightarrow> nat \<Rightarrow> bool" where
  "wp m Q n = (case run_state m n of (x, n') \<Rightarrow> Q x n')"

lemma wp_return [simp]: "wp (State_Monad.return x) Q n = Q x n"
  by (simp add: wp_def State_Monad.return_def)

lemma wp_bind [simp]: "wp (State_Monad.bind m f) Q n = wp m (\<lambda>x n'. wp (f x) Q n') n"
  by (simp add: wp_def State_Monad.bind_def split: prod.split)

lemma wp_makeId [simp]: "wp (makeId ids kind) Q n = Q (js kind @ 45 # ids n) (Suc n)"
  by (simp add: wp_def makeId_def)

lemma wp_mono: "wp m P n \<Longrightarrow> (\<And>x n'. P x n' \<Longrightarrow> Q x n') \<Longrightarrow> wp m Q n"
  by (auto simp: wp_def split: prod.splits)

lemma wp_conj: "wp m P n \<Longrightarrow> wp m Q n \<Longrightarrow> wp m (\<lambda>x n'. P x n' \<and> Q x n') n"
  by (auto simp: wp_def split: prod.splits)

lemma wp_run: "wp m Q n \<Longrightarrow> Q (fst (run_state m n)) (snd (run_state m n))"
  by (auto simp: wp_def split: prod.splits)

lemma run_wp: "Q (fst (run_state m n)) (snd (run_state m n)) \<Longrightarrow> wp m Q n"
  by (auto simp: wp_def split: prod.splits)

lemma wp_gen_list_content:
  assumes "\<And>x n. x \<in> set xs \<Longrightarrow> wp (f x) (\<lambda>y n'. R x y) n"
  shows "wp (gen_list (map f xs)) (\<lambda>ys n'. list_all2 R xs ys) n"
  using assms
proof (induction xs arbitrary: n)
  case step: (Cons a as n)
  have tail: "wp (gen_list (map f as)) (\<lambda>ys n'. list_all2 R as ys) m" for m
    using step by simp
  have "wp (f a) (\<lambda>y n'. R a y) n" using step.prems by simp
  then show ?case by simp (rule wp_mono, assumption, rule wp_mono, rule tail, simp)
qed simp

definition drawn :: "id_source \<Rightarrow> string \<Rightarrow> nat \<Rightarrow> nat \<Rightarrow> jsstr \<Rightarrow> bool" where
  "drawn ids kind n n' i \<longleftrightarrow> (\<exists>k. n \<le> k \<and> k < n' \<and> i = js kind @ 45 # ids k)"

definition news :: "id_source \<Rightarrow> string \<Rightarrow> nat \<Rightarrow> nat \<Rightarrow> jsstr list \<Rightarrow> bool" where
  "news ids kind n n' is \<longleftrightarrow> n \<le> n' \<and> distinct is \<and> list_all (drawn ids kind n n') is"

definition unused :: "id_source \<Rightarrow> string \<Rightarrow> nat \<Rightarrow> jsstr set \<Rightarrow> bool" where
  "unused ids kind n S \<longleftrightarrow> (\<forall>k \<ge> n. js kind @ 45 # ids k \<notin> S)"

lemma drawn_mono: "drawn ids kind n n' i \<Longrightarrow> m \<le> n \<Longrightarrow> n' \<le> m' \<Longrightarrow> drawn ids kind m m' i"
  by (auto simp: drawn_def intro: le_trans less_le_trans)

lemma news_Nil [simp]: "news ids kind n n' [] \<longleftrightarrow> n \<le> n'"
  by (simp add: news_def)

lemma news_one: "n \<le> k \<Longrightarrow> k < n' \<Longrightarrow> news ids kind n n' [js kind @ 45 # ids k]"
  by (auto simp: news_def drawn_def)

lemma news_le: "news ids kind n n' is \<Longrightarrow> n \<le> n'"
  by (simp add: news_def)

lemma news_mono: "news ids kind n n' is \<Longrightarrow> m \<le> n \<Longrightarrow> n' \<le> m' \<Longrightarrow> news ids kind m m' is"
  by (auto simp: news_def list_all_iff intro: drawn_mono)

lemma news_append:
  assumes "inj ids" and a: "news ids kind n n' is" and b: "news ids kind n' n'' ks"
  shows "news ids kind n n'' (is @ ks)"
proof -
  have "set is \<inter> set ks = {}"
    using a b injD [OF assms(1)] by (fastforce simp: news_def list_all_iff drawn_def)
  then show ?thesis using news_mono [OF a, of n n''] news_mono [OF b, of n n''] news_le [OF a] news_le [OF b]
    by (auto simp: news_def)
qed

lemma news_subset: "news ids kind n n' is \<Longrightarrow> distinct ks \<Longrightarrow> set ks \<subseteq> set is \<Longrightarrow> news ids kind n n' ks"
  by (auto simp: news_def list_all_iff)

lemma wp_gen_list_news:
  assumes "inj ids" and "\<And>x n. x \<in> set xs \<Longrightarrow> wp (f x) (\<lambda>y n'. news ids kind n n' (g y)) n"
  shows "wp (gen_list (map f xs)) (\<lambda>ys n'. news ids kind n n' (concat (map g ys))) n"
  using assms(2)
proof (induction xs arbitrary: n)
  case step: (Cons a as n)
  have tail: "wp (gen_list (map f as)) (\<lambda>ys n'. news ids kind m n' (concat (map g ys))) m" for m
    using step by simp
  have "wp (f a) (\<lambda>y n'. news ids kind n n' (g y)) n" using step.prems by simp
  then show ?case
    by simp (rule wp_mono, assumption, rule wp_mono, rule tail, simp add: news_append [OF assms(1)])
qed simp

lemma unused_mono: "unused ids kind n S \<Longrightarrow> n \<le> n' \<Longrightarrow> T \<subseteq> S \<Longrightarrow> unused ids kind n' T"
  by (auto simp: unused_def)

lemma unused_Un: "unused ids kind n (S \<union> T) \<longleftrightarrow> unused ids kind n S \<and> unused ids kind n T"
  by (auto simp: unused_def)

lemma unused_news: "inj ids \<Longrightarrow> news ids kind n n' is \<Longrightarrow> unused ids kind n' (set is)"
  by (fastforce simp: unused_def news_def list_all_iff drawn_def dest: injD)

lemma unused_disjoint: "unused ids kind n S \<Longrightarrow> news ids kind n n' is \<Longrightarrow> S \<inter> set is = {}"
  by (auto simp: unused_def news_def list_all_iff drawn_def)

lemma unused_next: "inj ids \<Longrightarrow> unused ids kind n S \<Longrightarrow> unused ids kind (Suc n) (insert (js kind @ 45 # ids n) S)"
  by (auto simp: unused_def dest: injD)

lemma unused_not: "unused ids kind n S \<Longrightarrow> js kind @ 45 # ids n \<notin> S"
  by (simp add: unused_def)

lemma news_swap: "news ids kind n n' (is @ ks) \<longleftrightarrow> news ids kind n n' (ks @ is)"
  by (auto simp: news_def)

section \<open>Ids of a workspace\<close>

definition request_ids :: "http_workspace \<Rightarrow> jsstr list" where
  "request_ids w = map rq_id (ws_requests w) @ concat (map (\<lambda>p. map rq_id (pj_requests p)) (ws_projects w))"

definition project_ids :: "http_workspace \<Rightarrow> jsstr list" where
  "project_ids w = map pj_id (ws_projects w)"

definition environment_ids :: "http_workspace \<Rightarrow> jsstr list" where
  "environment_ids w = (case ws_environments w of Some es \<Rightarrow> map env_id es | None \<Rightarrow> [])"

lemma wp_normalizeWorkspace:
  "wp (normalizeWorkspace ids w) (\<lambda>w' n'. n \<le> n' \<and> normal_workspace w' \<and> ws_id w' = ws_id w
     \<and> ws_name w' = ws_name w \<and> ws_projects w' = ws_projects w \<and> ws_requests w' = ws_requests w
     \<and> ws_variables w' = ws_variables w
     \<and> (case ws_environments w of
          Some (e # es) \<Rightarrow> ws_environments w' = Some (e # es)
            \<and> (\<forall>i. ws_activeEnvironmentId w = Some i \<longrightarrow> i \<noteq> [] \<longrightarrow> i \<in> set (environment_ids w)
                \<longrightarrow> ws_activeEnvironmentId w' = Some i)
        | _ \<Rightarrow> n < n' \<and> ws_environments w' = Some [\<lparr>env_id = js ''env'' @ 45 # ids n, env_name = defaultEnvironmentName, env_variables = []\<rparr>])) n"
proof -
  have "n \<le> snd (run_state (normalizeWorkspace ids w) n)"
    by (auto simp: normalizeWorkspace_def createDefaultEnvironment_def makeId_def Let_def
        split: option.split list.split prod.split)
  moreover have "case ws_environments w of
      Some (e # es) \<Rightarrow> ws_environments (fst (run_state (normalizeWorkspace ids w) n)) = Some (e # es)
            \<and> (\<forall>i. ws_activeEnvironmentId w = Some i \<longrightarrow> i \<noteq> [] \<longrightarrow> i \<in> set (environment_ids w)
                \<longrightarrow> ws_activeEnvironmentId (fst (run_state (normalizeWorkspace ids w) n)) = Some i)
    | _ \<Rightarrow> n < snd (run_state (normalizeWorkspace ids w) n)
        \<and> ws_environments (fst (run_state (normalizeWorkspace ids w) n)) = Some [\<lparr>env_id = js ''env'' @ 45 # ids n, env_name = defaultEnvironmentName, env_variables = []\<rparr>]"
    by (auto simp: normalizeWorkspace_def createDefaultEnvironment_def makeId_def Let_def environment_ids_def list_ex_iff
        split: option.split list.split prod.split)
  ultimately show ?thesis by (intro run_wp) (auto simp: normalize_keeps normalize_normal)
qed

end
