(* ===== verification/HttpShare.thy ===== *)
theory HttpShare
  imports HttpRequest FreshIds
begin

text \<open>
  Sharing a workspace of the HTTP console (\<^verbatim>\<open>src/features/http/HttpConsolePanel.tsx\<close>): the document that is
  exported, and what an imported one becomes. The text of a document is printed and parsed by
  \<^verbatim>\<open>JSON.stringify\<close> and \<^verbatim>\<open>JSON.parse\<close>, which are parameters; \<open>print\<close> gets the properties that are not
  \<^verbatim>\<open>undefined\<close>, as \<^verbatim>\<open>JSON.stringify\<close> leaves the others out.
\<close>

section \<open>Values of unknown type\<close>

text \<open>\<open>None\<close> is \<^verbatim>\<open>undefined\<close>, the value of a property that is absent.\<close>

definition isRecord :: "json option \<Rightarrow> bool" where
  "isRecord v = (case v of Some j \<Rightarrow> json_is_object j | None \<Rightarrow> False)"

definition textValue :: "json option \<Rightarrow> jsstr \<Rightarrow> jsstr" where
  "textValue v fallback = (case v of Some (JStr s) \<Rightarrow> s | _ \<Rightarrow> fallback)"

definition booleanValue :: "json option \<Rightarrow> bool \<Rightarrow> bool" where
  "booleanValue v fallback = (case v of Some (JBool b) \<Rightarrow> b | _ \<Rightarrow> fallback)"

definition numberValue :: "json option \<Rightarrow> rat option" where
  "numberValue v = (case v of Some (JNum (Fin r)) \<Rightarrow> if 0 \<le> r then Some r else None | _ \<Rightarrow> None)"

text \<open>The property of a value, and the elements of an array; nothing for other values.\<close>

definition prop_of :: "string \<Rightarrow> json option \<Rightarrow> json option" where
  "prop_of name v = (case v of Some j \<Rightarrow> json_get name j | None \<Rightarrow> None)"

definition elements :: "json option \<Rightarrow> json list" where
  "elements v = (case v of Some (JArr xs) \<Rightarrow> xs | _ \<Rightarrow> [])"

definition some_text :: "jsstr \<Rightarrow> jsstr option" where
  "some_text s = (if s \<noteq> [] then Some s else None)"

section \<open>Import\<close>

definition imported_row :: "json \<Rightarrow> kv_entry option" where
  "imported_row entry =
     (if \<not> json_is_object entry then None
      else Some \<lparr>kv_description = Some (textValue (json_get ''description'' entry) []),
        kv_enabled = booleanValue (json_get ''enabled'' entry) True,
        kv_fileName = some_text (textValue (json_get ''fileName'' entry) []),
        kv_fileSize = numberValue (json_get ''fileSize'' entry),
        kv_fileType = some_text (textValue (json_get ''fileType'' entry) []),
        kv_formValueType = (if textValue (json_get ''formValueType'' entry) [] = js ''file'' then Some FileValue else None),
        kv_key = textValue (json_get ''key'' entry) [], kv_localFileId = None,
        kv_sensitive = Some (booleanValue (json_get ''sensitive'' entry) False),
        kv_value = textValue (json_get ''value'' entry) []\<rparr>)"

definition normalizeImportedRows :: "json option \<Rightarrow> kv_entry list" where
  "normalizeImportedRows v = List.map_filter imported_row (elements v)"

fun auth_type_text :: "http_auth_type \<Rightarrow> jsstr" where
  "auth_type_text NoAuth = js ''none''"
| "auth_type_text BearerAuth = js ''bearer''"
| "auth_type_text BasicAuth = js ''basic''"
| "auth_type_text ApiKeyAuth = js ''api-key''"

fun body_mode_text :: "body_mode \<Rightarrow> jsstr" where
  "body_mode_text BodyNone = js ''none''"
| "body_mode_text BodyJson = js ''json''"
| "body_mode_text BodyText = js ''text''"
| "body_mode_text BodyForm = js ''form''"

definition authTypeOptions :: "http_auth_type list" where
  "authTypeOptions = [NoAuth, BearerAuth, BasicAuth, ApiKeyAuth]"

definition bodyModeOptions :: "body_mode list" where
  "bodyModeOptions = [BodyNone, BodyJson, BodyText, BodyForm]"

definition httpMethods :: "http_method list" where
  "httpMethods = [MGet, MPost, MPut, MPatch, MDelete, MHead, MOptions]"

text \<open>The option whose value is the text, or the default.\<close>

definition option_for :: "('a \<Rightarrow> jsstr) \<Rightarrow> 'a list \<Rightarrow> 'a \<Rightarrow> jsstr \<Rightarrow> 'a" where
  "option_for render options fallback s =
     (case find (\<lambda>x. render x = s) options of Some x \<Rightarrow> x | None \<Rightarrow> fallback)"

definition normalizeImportedAuth :: "json option \<Rightarrow> http_auth" where
  "normalizeImportedAuth v =
     (let auth = (if isRecord v then v else Some (JObj []))
      in \<lparr>au_apiKeyLocation = (if textValue (prop_of ''apiKeyLocation'' auth) [] = js ''query'' then InQuery else InHeader),
          au_apiKeyName = textValue (prop_of ''apiKeyName'' auth) [],
          au_apiKeyValue = textValue (prop_of ''apiKeyValue'' auth) [],
          au_bearerToken = textValue (prop_of ''bearerToken'' auth) [],
          au_password = textValue (prop_of ''password'' auth) [],
          au_type = option_for auth_type_text authTypeOptions NoAuth (textValue (prop_of ''type'' auth) []),
          au_username = textValue (prop_of ''username'' auth) []\<rparr>)"

text \<open>The Chinese names of imported things: an imported request, project, environment and workspace.\<close>

definition importedRequestName :: jsstr where "importedRequestName = [0x5BFC, 0x5165, 0x8BF7, 0x6C42]"
definition importedProjectName :: jsstr where "importedProjectName = [0x5BFC, 0x5165, 0x9879, 0x76EE]"
definition importedEnvironmentName :: jsstr where "importedEnvironmentName = [0x5BFC, 0x5165, 0x73AF, 0x5883]"
definition importedWorkspaceName :: jsstr where "importedWorkspaceName = [0x5BFC, 0x5165, 0x5DE5, 0x4F5C, 0x533A]"
definition importSuffix :: jsstr where "importSuffix = [32, 0x5BFC, 0x5165]"

definition normalizeImportedRequest :: "id_source \<Rightarrow> json \<Rightarrow> http_request option gen" where
  "normalizeImportedRequest ids v =
     (if \<not> json_is_object v then State_Monad.return None
      else do {
        i \<leftarrow> makeId ids ''req'';
        State_Monad.return (Some \<lparr>rq_auth = normalizeImportedAuth (json_get ''auth'' v),
          rq_body = textValue (json_get ''body'' v) [],
          rq_bodyMode = option_for body_mode_text bodyModeOptions BodyNone (textValue (json_get ''bodyMode'' v) []),
          rq_formBody = normalizeImportedRows (json_get ''formBody'' v),
          rq_headers = normalizeImportedRows (json_get ''headers'' v), rq_id = i,
          rq_method = option_for method_text httpMethods MGet (textValue (json_get ''method'' v) []),
          rq_name = textValue (json_get ''name'' v) importedRequestName,
          rq_params = normalizeImportedRows (json_get ''params'' v),
          rq_tempVariables = Some (normalizeImportedRows (json_get ''tempVariables'' v)),
          rq_url = textValue (json_get ''url'' v) []\<rparr>)
      })"

text \<open>\<^verbatim>\<open>value.flatMap((x) => f(x) ?? [])\<close> where \<open>f\<close> draws ids.\<close>

definition gen_flat :: "('a \<Rightarrow> 'b option gen) \<Rightarrow> 'a list \<Rightarrow> 'b list gen" where
  "gen_flat f xs = do {ys \<leftarrow> gen_list (map f xs); State_Monad.return (List.map_filter id ys)}"

definition normalizeImportedProject :: "id_source \<Rightarrow> json \<Rightarrow> http_project option gen" where
  "normalizeImportedProject ids v =
     (if \<not> json_is_object v then State_Monad.return None
      else do {
        i \<leftarrow> makeId ids ''project'';
        requests \<leftarrow> gen_flat (normalizeImportedRequest ids) (elements (json_get ''requests'' v));
        State_Monad.return (Some \<lparr>pj_id = i, pj_name = textValue (json_get ''name'' v) importedProjectName,
          pj_requests = requests, pj_variables = Some (normalizeImportedRows (json_get ''variables'' v))\<rparr>)
      })"

text \<open>The environment with the id it had in the document: what \<^verbatim>\<open>idMap.set\<close> gets.\<close>

definition normalizeImportedEnvironment :: "id_source \<Rightarrow> json \<Rightarrow> (jsstr \<times> http_environment) option gen" where
  "normalizeImportedEnvironment ids v =
     (if \<not> json_is_object v then State_Monad.return None
      else do {
        importedId \<leftarrow> makeId ids ''env'';
        State_Monad.return (Some (textValue (json_get ''id'' v) [],
          \<lparr>env_id = importedId, env_name = textValue (json_get ''name'' v) importedEnvironmentName,
           env_variables = normalizeImportedRows (json_get ''variables'' v)\<rparr>))
      })"

definition environment_id_map :: "(jsstr \<times> http_environment) list \<Rightarrow> (jsstr \<rightharpoonup> jsstr)" where
  "environment_id_map found =
     fold (\<lambda>(sourceId, e) m. if sourceId \<noteq> [] then m(sourceId \<mapsto> env_id e) else m) found Map.empty"

datatype share_error = BadJson | NotAnObject | OtherKind | OtherVersion "json option" | NoWorkspace

definition imported_draft ::
  "jsstr \<Rightarrow> jsstr list \<Rightarrow> json option \<Rightarrow> (jsstr \<times> http_environment) list \<Rightarrow> jsstr \<Rightarrow> http_project list
     \<Rightarrow> http_request list \<Rightarrow> http_workspace" where
  "imported_draft now existingNames v found i projects requests =
     (let environments = map snd found;
          activeEnvironmentId =
            (case environment_id_map found (textValue (prop_of ''activeEnvironmentId'' v) []) of
               Some k \<Rightarrow> Some k
             | None \<Rightarrow> map_option env_id (js_at environments 0));
          baseName = textValue (prop_of ''name'' v) importedWorkspaceName
      in \<lparr>ws_activeEnvironmentId = activeEnvironmentId, ws_environments = Some environments, ws_id = i,
          ws_name = uniqueName now existingNames (baseName @ importSuffix), ws_projects = projects,
          ws_requests = requests, ws_variables = Some (normalizeImportedRows (prop_of ''variables'' v))\<rparr>)"

definition normalizeImportedWorkspace :: "id_source \<Rightarrow> jsstr \<Rightarrow> json option \<Rightarrow> jsstr list \<Rightarrow> (share_error + http_workspace) gen" where
  "normalizeImportedWorkspace ids now v existingNames =
     (if \<not> isRecord v then State_Monad.return (Inl NoWorkspace)
      else do {
        found \<leftarrow> gen_flat (normalizeImportedEnvironment ids) (elements (prop_of ''environments'' v));
        i \<leftarrow> makeId ids ''ws'';
        projects \<leftarrow> gen_flat (normalizeImportedProject ids) (elements (prop_of ''projects'' v));
        requests \<leftarrow> gen_flat (normalizeImportedRequest ids) (elements (prop_of ''requests'' v));
        w \<leftarrow> normalizeWorkspace ids (imported_draft now existingNames v found i projects requests);
        State_Monad.return (Inr w)
      })"

definition httpWorkspaceShareKind :: jsstr where "httpWorkspaceShareKind = js ''portiva.http.workspace''"
definition httpWorkspaceShareVersion :: jsnum where "httpWorkspaceShareVersion = Fin 1"

definition parseWorkspaceShareJson ::
  "(jsstr \<Rightarrow> json option) \<Rightarrow> id_source \<Rightarrow> jsstr \<Rightarrow> jsstr \<Rightarrow> jsstr list \<Rightarrow> (share_error + http_workspace) gen" where
  "parseWorkspaceShareJson parse ids now text existingNames =
     (case parse text of
        None \<Rightarrow> State_Monad.return (Inl BadJson)
      | Some parsed \<Rightarrow>
          if \<not> json_is_object parsed then State_Monad.return (Inl NotAnObject)
          else if json_get ''kind'' parsed \<noteq> Some (JStr httpWorkspaceShareKind) then State_Monad.return (Inl OtherKind)
          else if json_get ''version'' parsed \<noteq> Some (JNum httpWorkspaceShareVersion)
            then State_Monad.return (Inl (OtherVersion (json_get ''version'' parsed)))
          else normalizeImportedWorkspace ids now (json_get ''workspace'' parsed) existingNames)"

section \<open>Export\<close>

definition stripLocalFormFileStateFromRows :: "kv_entry list option \<Rightarrow> kv_entry list" where
  "stripLocalFormFileStateFromRows rows = map (\<lambda>row. row\<lparr>kv_localFileId := None\<rparr>) (opt_rows rows)"

definition stripLocalFormFileStateFromRequest :: "http_request \<Rightarrow> http_request" where
  "stripLocalFormFileStateFromRequest request =
     request\<lparr>rq_formBody := stripLocalFormFileStateFromRows (Some (rq_formBody request)),
       rq_headers := stripLocalFormFileStateFromRows (Some (rq_headers request)),
       rq_params := stripLocalFormFileStateFromRows (Some (rq_params request)),
       rq_tempVariables := Some (stripLocalFormFileStateFromRows (rq_tempVariables request))\<rparr>"

definition stripLocalFormFileStateFromWorkspace :: "http_workspace \<Rightarrow> http_workspace" where
  "stripLocalFormFileStateFromWorkspace w =
     w\<lparr>ws_environments := map_option (map (\<lambda>e. e\<lparr>env_variables := stripLocalFormFileStateFromRows (Some (env_variables e))\<rparr>))
         (ws_environments w),
       ws_projects := map (\<lambda>p. p\<lparr>pj_requests := map stripLocalFormFileStateFromRequest (pj_requests p),
         pj_variables := Some (stripLocalFormFileStateFromRows (pj_variables p))\<rparr>) (ws_projects w),
       ws_requests := map stripLocalFormFileStateFromRequest (ws_requests w),
       ws_variables := Some (stripLocalFormFileStateFromRows (ws_variables w))\<rparr>"

definition stripLocalFormFileStateFromWorkspaces :: "http_workspace list \<Rightarrow> http_workspace list" where
  "stripLocalFormFileStateFromWorkspaces workspaces = map stripLocalFormFileStateFromWorkspace workspaces"

definition buildShareWorkspace :: "http_workspace \<Rightarrow> (jsstr \<Rightarrow> bool) \<Rightarrow> http_workspace" where
  "buildShareWorkspace w selected =
     stripLocalFormFileStateFromWorkspace
       (w\<lparr>ws_projects := filter (\<lambda>p. pj_requests p \<noteq> [])
            (map (\<lambda>p. p\<lparr>pj_requests := filter (\<lambda>r. selected (rq_id r)) (pj_requests p)\<rparr>) (ws_projects w)),
          ws_requests := filter (\<lambda>r. selected (rq_id r)) (ws_requests w)\<rparr>)"

text \<open>The properties of an object that are not \<^verbatim>\<open>undefined\<close>.\<close>

definition json_object :: "(string \<times> json option) list \<Rightarrow> json" where
  "json_object ps = JObj (List.map_filter (\<lambda>(name, v). map_option (\<lambda>j. (js name, j)) v) ps)"

fun form_value_text :: "form_value_type \<Rightarrow> jsstr" where
  "form_value_text TextValue = js ''text''"
| "form_value_text FileValue = js ''file''"

definition json_of_row :: "kv_entry \<Rightarrow> json" where
  "json_of_row e = json_object [
     (''description'', map_option JStr (kv_description e)), (''enabled'', Some (JBool (kv_enabled e))),
     (''fileName'', map_option JStr (kv_fileName e)), (''fileSize'', map_option (\<lambda>r. JNum (Fin r)) (kv_fileSize e)),
     (''fileType'', map_option JStr (kv_fileType e)),
     (''formValueType'', map_option (\<lambda>t. JStr (form_value_text t)) (kv_formValueType e)),
     (''key'', Some (JStr (kv_key e))), (''localFileId'', map_option JStr (kv_localFileId e)),
     (''sensitive'', map_option JBool (kv_sensitive e)), (''value'', Some (JStr (kv_value e)))]"

definition json_of_rows :: "kv_entry list \<Rightarrow> json" where
  "json_of_rows rows = JArr (map json_of_row rows)"

fun location_text :: "api_key_location \<Rightarrow> jsstr" where
  "location_text InHeader = js ''header''"
| "location_text InQuery = js ''query''"

definition json_of_auth :: "http_auth \<Rightarrow> json" where
  "json_of_auth a = json_object [
     (''apiKeyLocation'', Some (JStr (location_text (au_apiKeyLocation a)))),
     (''apiKeyName'', Some (JStr (au_apiKeyName a))), (''apiKeyValue'', Some (JStr (au_apiKeyValue a))),
     (''bearerToken'', Some (JStr (au_bearerToken a))), (''password'', Some (JStr (au_password a))),
     (''type'', Some (JStr (auth_type_text (au_type a)))), (''username'', Some (JStr (au_username a)))]"

definition json_of_request :: "http_request \<Rightarrow> json" where
  "json_of_request r = json_object [
     (''auth'', Some (json_of_auth (rq_auth r))), (''body'', Some (JStr (rq_body r))),
     (''bodyMode'', Some (JStr (body_mode_text (rq_bodyMode r)))), (''formBody'', Some (json_of_rows (rq_formBody r))),
     (''headers'', Some (json_of_rows (rq_headers r))), (''id'', Some (JStr (rq_id r))),
     (''method'', Some (JStr (method_text (rq_method r)))), (''name'', Some (JStr (rq_name r))),
     (''params'', Some (json_of_rows (rq_params r))),
     (''tempVariables'', map_option json_of_rows (rq_tempVariables r)), (''url'', Some (JStr (rq_url r)))]"

definition json_of_project :: "http_project \<Rightarrow> json" where
  "json_of_project p = json_object [
     (''id'', Some (JStr (pj_id p))), (''name'', Some (JStr (pj_name p))),
     (''requests'', Some (JArr (map json_of_request (pj_requests p)))),
     (''variables'', map_option json_of_rows (pj_variables p))]"

definition json_of_environment :: "http_environment \<Rightarrow> json" where
  "json_of_environment e = json_object [
     (''id'', Some (JStr (env_id e))), (''name'', Some (JStr (env_name e))),
     (''variables'', Some (json_of_rows (env_variables e)))]"

definition json_of_workspace :: "http_workspace \<Rightarrow> json" where
  "json_of_workspace w = json_object [
     (''activeEnvironmentId'', Some (case ws_activeEnvironmentId w of Some i \<Rightarrow> JStr i | None \<Rightarrow> JNull)),
     (''environments'', map_option (\<lambda>es. JArr (map json_of_environment es)) (ws_environments w)),
     (''id'', Some (JStr (ws_id w))), (''name'', Some (JStr (ws_name w))),
     (''projects'', Some (JArr (map json_of_project (ws_projects w)))),
     (''requests'', Some (JArr (map json_of_request (ws_requests w)))),
     (''variables'', map_option json_of_rows (ws_variables w))]"

definition share_document :: "jsstr \<Rightarrow> http_workspace \<Rightarrow> json" where
  "share_document exportedAt w = json_object [
     (''exportedAt'', Some (JStr exportedAt)), (''kind'', Some (JStr httpWorkspaceShareKind)),
     (''version'', Some (JNum httpWorkspaceShareVersion)), (''workspace'', Some (json_of_workspace w))]"

definition buildWorkspaceShareJson :: "(json \<Rightarrow> jsstr) \<Rightarrow> jsstr \<Rightarrow> http_workspace \<Rightarrow> (jsstr \<Rightarrow> bool) \<Rightarrow> jsstr" where
  "buildWorkspaceShareJson print exportedAt w selected = print (share_document exportedAt (buildShareWorkspace w selected))"

section \<open>Reading back what was exported\<close>

lemma map_of_object:
  "distinct (map fst ps) \<Longrightarrow>
    map_of (List.map_filter (\<lambda>(name, v). map_option (\<lambda>j. (js name, j)) v) ps) (js name)
      = Option.bind (map_of ps name) id"
proof (induction ps)
  case (Cons q ps)
  obtain a v where q: "q = (a, v)" by (cases q)
  have absent: "map_of ps a = None" using Cons.prems q by (auto simp: map_of_eq_None_iff)
  show ?case using Cons q absent by (cases v) (auto simp: List.map_filter_def comp_def split: if_splits)
qed (simp add: List.map_filter_def)

lemma exported_property:
  "distinct (map fst ps) \<Longrightarrow> json_get name (json_object ps) = Option.bind (map_of ps name) id"
  by (simp add: json_object_def map_of_object)

lemma object_is_object [simp]: "json_is_object (json_object ps)"
  by (simp add: json_object_def)

lemma elements_array [simp]: "elements (Some (JArr xs)) = xs" "elements None = []"
  by (simp_all add: elements_def)

lemma text_value [simp]: "textValue (Some (JStr s)) d = s" "textValue None d = d" "textValue (Some JNull) d = d"
  by (simp_all add: textValue_def)

lemma text_value_option: "textValue (map_option JStr x) [] = opt_text x"
  by (simp add: opt_text_def split: option.split)

text \<open>A row, and a request, as they arrive at the other side.\<close>

definition shared_row :: "kv_entry \<Rightarrow> kv_entry" where
  "shared_row e = e\<lparr>kv_description := Some (opt_text (kv_description e)), kv_fileName := some_text (opt_text (kv_fileName e)),
     kv_fileSize := Option.bind (kv_fileSize e) (\<lambda>r. if 0 \<le> r then Some r else None),
     kv_fileType := some_text (opt_text (kv_fileType e)),
     kv_formValueType := (if kv_formValueType e = Some FileValue then Some FileValue else None),
     kv_localFileId := None, kv_sensitive := Some (case kv_sensitive e of Some b \<Rightarrow> b | None \<Rightarrow> False)\<rparr>"

definition shared_request :: "http_request \<Rightarrow> jsstr \<Rightarrow> http_request" where
  "shared_request r i = r\<lparr>rq_formBody := map shared_row (rq_formBody r), rq_headers := map shared_row (rq_headers r),
     rq_id := i, rq_params := map shared_row (rq_params r),
     rq_tempVariables := Some (map shared_row (opt_rows (rq_tempVariables r)))\<rparr>"

definition same_request :: "http_request \<Rightarrow> http_request \<Rightarrow> bool" where
  "same_request r q \<longleftrightarrow> q = shared_request r (rq_id q)"

definition same_project :: "http_project \<Rightarrow> http_project \<Rightarrow> bool" where
  "same_project p q \<longleftrightarrow> pj_name q = pj_name p \<and> list_all2 same_request (pj_requests p) (pj_requests q)
     \<and> pj_variables q = Some (map shared_row (opt_rows (pj_variables p)))"

definition same_environment :: "http_environment \<Rightarrow> http_environment \<Rightarrow> bool" where
  "same_environment d e \<longleftrightarrow> env_name e = env_name d \<and> env_variables e = map shared_row (env_variables d)"

lemma imported_row_back: "imported_row (json_of_row e) = Some (shared_row e)"
proof -
  have form: "(textValue (map_option (\<lambda>t. JStr (form_value_text t)) t) [] = js ''file'') = (t = Some FileValue)" for t
    by (cases t; cases "the t") (simp_all add: js_def)
  have bool: "booleanValue (map_option JBool b) False = (case b of Some c \<Rightarrow> c | None \<Rightarrow> False)" for b
    by (simp add: booleanValue_def split: option.split)
  have num: "numberValue (map_option (\<lambda>r. JNum (Fin r)) x) = Option.bind x (\<lambda>r. if 0 \<le> r then Some r else None)" for x
    by (simp add: numberValue_def split: option.split)
  show ?thesis unfolding json_of_row_def imported_row_def
    by (simp add: exported_property text_value_option form bool num shared_row_def)
      (simp add: booleanValue_def)
qed

lemma rows_back: "normalizeImportedRows (Some (json_of_rows rows)) = map shared_row rows"
  by (simp add: normalizeImportedRows_def json_of_rows_def List.map_filter_def imported_row_back comp_def)

lemma option_back:
  "distinct (map render options) \<Longrightarrow> x \<in> set options \<Longrightarrow> option_for render options d (render x) = x"
proof (induction options)
  case (Cons a options)
  show ?case
  proof (cases "render a = render x")
    case True
    then have "a = x" using Cons.prems by (auto simp: image_iff)
    then show ?thesis by (simp add: option_for_def)
  next
    case False
    then show ?thesis using Cons by (auto simp: option_for_def)
  qed
qed simp

lemma method_back: "option_for method_text httpMethods MGet (method_text m) = m"
  by (rule option_back) (auto simp: httpMethods_def intro: http_method.exhaust [of m])

lemma body_mode_back: "option_for body_mode_text bodyModeOptions BodyNone (body_mode_text m) = m"
  by (rule option_back) (auto simp: bodyModeOptions_def intro: body_mode.exhaust [of m])

lemma auth_type_back: "option_for auth_type_text authTypeOptions NoAuth (auth_type_text m) = m"
  by (rule option_back) (auto simp: authTypeOptions_def intro: http_auth_type.exhaust [of m])

lemma auth_back: "normalizeImportedAuth (Some (json_of_auth a)) = a"
proof -
  have q: "(location_text l = js ''query'') = (l = InQuery)" for l by (cases l) simp_all
  show ?thesis unfolding normalizeImportedAuth_def Let_def json_of_auth_def
    by (cases "au_apiKeyLocation a") (simp_all add: isRecord_def prop_of_def exported_property auth_type_back)
qed

lemma request_back:
  "wp (normalizeImportedRequest ids (json_of_request r)) (\<lambda>x n'. x = Some (shared_request r (js ''req'' @ 45 # ids n)) \<and> n' = Suc n) n"
proof -
  have t: "normalizeImportedRows (map_option json_of_rows x) = map shared_row (opt_rows x)" for x
    by (cases x) (simp_all add: rows_back opt_rows_def, simp add: normalizeImportedRows_def List.map_filter_def)
  show ?thesis unfolding normalizeImportedRequest_def json_of_request_def
    by (simp add: exported_property rows_back auth_back method_back body_mode_back t shared_request_def)
qed

lemma wp_flat_content:
  assumes "\<And>x n. wp (f (j x)) (\<lambda>y n'. \<exists>z. y = Some z \<and> R x z) n"
  shows "wp (gen_flat f (map j xs)) (\<lambda>zs n'. list_all2 R xs zs) n"
proof -
  have all: "wp (gen_list (map f (map j xs))) (\<lambda>ys n'. list_all2 (\<lambda>v y. \<exists>z. y = Some z \<and> R v z) xs ys) n"
    using wp_gen_list_content [of xs "\<lambda>x. f (j x)" "\<lambda>v y. \<exists>z. y = Some z \<and> R v z" n] assms
    by (simp add: comp_def)
  have "list_all2 R xs (List.map_filter id ys)" if "list_all2 (\<lambda>v y. \<exists>z. y = Some z \<and> R v z) xs ys" for ys
    using that by (induction rule: list_all2_induct) (auto simp: List.map_filter_def)
  then show ?thesis using all by (simp add: gen_flat_def) (erule wp_mono)
qed

lemma wp_flat_news:
  assumes "inj ids"
    and "\<And>x n. wp (f x) (\<lambda>y n'. news ids kind n n' (case y of Some z \<Rightarrow> g z | None \<Rightarrow> [])) n"
  shows "wp (gen_flat f xs) (\<lambda>zs n'. news ids kind n n' (concat (map g zs))) n"
proof -
  have flat: "concat (map (\<lambda>y. case y of Some z \<Rightarrow> g z | None \<Rightarrow> []) ys) = concat (map g (List.map_filter id ys))" for ys
    by (induction ys) (auto simp: List.map_filter_def split: option.split)
  show ?thesis
    using wp_gen_list_news [where g = "\<lambda>y. case y of Some z \<Rightarrow> g z | None \<Rightarrow> []", OF assms(1) assms(2)]
    by (simp add: gen_flat_def flat)
qed

lemma requests_back:
  "wp (gen_flat (normalizeImportedRequest ids) (map json_of_request rs)) (\<lambda>qs n'. list_all2 same_request rs qs) n"
  by (rule wp_flat_content, rule wp_mono, rule request_back) (auto simp: same_request_def shared_request_def)

lemma project_back:
  "wp (normalizeImportedProject ids (json_of_project p)) (\<lambda>y n'. \<exists>q. y = Some q \<and> same_project p q) n"
proof -
  have t: "normalizeImportedRows (map_option json_of_rows x) = map shared_row (opt_rows x)" for x
    by (cases x) (simp_all add: rows_back opt_rows_def, simp add: normalizeImportedRows_def List.map_filter_def)
  show ?thesis unfolding normalizeImportedProject_def json_of_project_def
    by (simp add: exported_property t) (rule wp_mono, rule requests_back, simp add: same_project_def)
qed

lemma environment_back:
  "wp (normalizeImportedEnvironment ids (json_of_environment d))
     (\<lambda>y n'. \<exists>q. y = Some q \<and> fst q = env_id d \<and> same_environment d (snd q)) n"
  unfolding normalizeImportedEnvironment_def json_of_environment_def
  by (simp add: exported_property rows_back same_environment_def)

section \<open>Ids of what is imported\<close>

lemma imported_request_ids:
  assumes "inj ids"
  shows "wp (gen_flat (normalizeImportedRequest ids) vs) (\<lambda>rs n'. news ids ''req'' n n' (map rq_id rs)) n"
proof -
  have "wp (gen_flat (normalizeImportedRequest ids) vs) (\<lambda>rs n'. news ids ''req'' n n' (concat (map (\<lambda>r. [rq_id r]) rs))) n"
    by (rule wp_flat_news [OF assms]) (simp add: normalizeImportedRequest_def news_one)
  then show ?thesis by (simp add: concat_map_singleton)
qed

lemma imported_project_ids:
  assumes "inj ids"
  shows "wp (gen_flat (normalizeImportedProject ids) vs) (\<lambda>ps n'. news ids ''project'' n n' (map pj_id ps)
     \<and> news ids ''req'' n n' (concat (map (\<lambda>p. map rq_id (pj_requests p)) ps))) n"
proof (rule wp_conj)
  have one: "wp (normalizeImportedProject ids v) (\<lambda>y n'. news ids ''project'' m n' (case y of Some p \<Rightarrow> [pj_id p] | None \<Rightarrow> [])
      \<and> news ids ''req'' m n' (case y of Some p \<Rightarrow> map rq_id (pj_requests p) | None \<Rightarrow> [])) m" for v m
    unfolding normalizeImportedProject_def
    by simp (intro impI, rule wp_mono, rule imported_request_ids [OF assms],
        auto intro: news_mono news_one dest: news_le)
  have "wp (gen_flat (normalizeImportedProject ids) vs) (\<lambda>ps n'. news ids ''project'' n n' (concat (map (\<lambda>p. [pj_id p]) ps))) n"
    by (rule wp_flat_news [OF assms], rule wp_mono, rule one, simp)
  then show "wp (gen_flat (normalizeImportedProject ids) vs) (\<lambda>ps n'. news ids ''project'' n n' (map pj_id ps)) n"
    by (simp add: concat_map_singleton)
  show "wp (gen_flat (normalizeImportedProject ids) vs)
      (\<lambda>ps n'. news ids ''req'' n n' (concat (map (\<lambda>p. map rq_id (pj_requests p)) ps))) n"
    by (rule wp_flat_news [OF assms], rule wp_mono, rule one, simp)
qed

lemma imported_environment_ids:
  assumes "inj ids"
  shows "wp (gen_flat (normalizeImportedEnvironment ids) vs) (\<lambda>found n'. news ids ''env'' n n' (map (env_id \<circ> snd) found)) n"
proof -
  have "wp (gen_flat (normalizeImportedEnvironment ids) vs)
      (\<lambda>found n'. news ids ''env'' n n' (concat (map (\<lambda>q. [env_id (snd q)]) found))) n"
    by (rule wp_flat_news [OF assms]) (simp add: normalizeImportedEnvironment_def news_one)
  then show ?thesis by (simp add: concat_map_singleton comp_def)
qed

definition environments_of :: "http_workspace \<Rightarrow> http_environment list" where
  "environments_of w = (case ws_environments w of Some es \<Rightarrow> es | None \<Rightarrow> [])"

lemma environment_ids_of: "environment_ids w = map env_id (environments_of w)"
  by (simp add: environment_ids_def environments_of_def split: option.split)

lemma imported_ids_together:
  assumes "inj ids" and envs: "news ids ''env'' n m1 (map (env_id \<circ> snd) found)"
    and projects: "news ids ''project'' (Suc m1) m2 (map pj_id projects)
      \<and> news ids ''req'' (Suc m1) m2 (concat (map (\<lambda>p. map rq_id (pj_requests p)) projects))"
    and requests: "news ids ''req'' m2 m3 (map rq_id requests)"
    and normal: "m3 \<le> m4 \<and> normal_workspace w \<and> ws_id w = js ''ws'' @ 45 # ids m1 \<and> ws_name w = name
      \<and> ws_projects w = projects \<and> ws_requests w = requests \<and> ws_variables w = vars
      \<and> (case map snd found of
           [] \<Rightarrow> m3 < m4 \<and> ws_environments w = Some [\<lparr>env_id = js ''env'' @ 45 # ids m3, env_name = d, env_variables = []\<rparr>]
         | e # es \<Rightarrow> ws_environments w = Some (e # es) \<and> Q)"
  shows "n \<le> m4 \<and> normal_workspace w \<and> news ids ''req'' n m4 (request_ids w)
      \<and> news ids ''project'' n m4 (project_ids w) \<and> news ids ''env'' n m4 (environment_ids w)
      \<and> news ids ''ws'' n m4 [ws_id w]"
proof -
  have le: "n \<le> m1" "Suc m1 \<le> m2" "m2 \<le> m3" "m3 \<le> m4"
    using envs projects requests normal by (auto dest: news_le)
  have "news ids ''req'' (Suc m1) m3 (request_ids w)"
    using news_append [OF assms(1) conjunct2 [OF projects] requests] normal
    by (simp add: request_ids_def news_swap)
  then have "news ids ''req'' n m4 (request_ids w)" by (rule news_mono) (use le in simp_all)
  moreover have "news ids ''project'' n m4 (project_ids w)"
    using projects normal le by (auto simp: project_ids_def intro: news_mono)
  moreover have "news ids ''env'' n m4 (environment_ids w)"
  proof (cases "map snd found")
    case Nil
    then show ?thesis using normal le by (simp add: environment_ids_def) (rule news_one, simp_all)
  next
    case (Cons e es)
    then have "environment_ids w = map env_id (map snd found)" using normal by (simp add: environment_ids_def)
    then have "environment_ids w = map (env_id \<circ> snd) found" by simp
    then show ?thesis using envs le by (auto intro: news_mono)
  qed
  moreover have "news ids ''ws'' n m4 [ws_id w]" using normal le by (simp add: news_one)
  ultimately show ?thesis using le normal by simp
qed

lemma imported_workspace_ids:
  assumes "inj ids"
  shows "wp (normalizeImportedWorkspace ids now v names) (\<lambda>result n'. n \<le> n' \<and>
     (case result of Inl e \<Rightarrow> e = NoWorkspace | Inr w \<Rightarrow> normal_workspace w \<and> news ids ''req'' n n' (request_ids w)
       \<and> news ids ''project'' n n' (project_ids w) \<and> news ids ''env'' n n' (environment_ids w)
       \<and> news ids ''ws'' n n' [ws_id w])) n"
proof (cases "isRecord v")
  case False
  then show ?thesis by (simp add: normalizeImportedWorkspace_def)
next
  case True
  have draft: "ws_environments (imported_draft now names v found i projects requests) = Some (map snd found)"
    "ws_id (imported_draft now names v found i projects requests) = i"
    "ws_projects (imported_draft now names v found i projects requests) = projects"
    "ws_requests (imported_draft now names v found i projects requests) = requests"
    for found i projects requests by (simp_all add: imported_draft_def Let_def)
  show ?thesis unfolding normalizeImportedWorkspace_def using True
    apply simp
    apply (rule wp_mono, rule imported_environment_ids [OF assms])
    apply (rule wp_mono, rule imported_project_ids [OF assms])
    apply (rule wp_mono, rule imported_request_ids [OF assms])
    apply (rule wp_mono, rule wp_normalizeWorkspace)
    apply (simp (no_asm_use) only: wp_return sum.case option.case draft)
    apply (erule (3) imported_ids_together [OF assms])
    done
qed

section \<open>The round trip\<close>

text \<open>The part of a workspace that is chosen for the export.\<close>

definition selected_part :: "http_workspace \<Rightarrow> (jsstr \<Rightarrow> bool) \<Rightarrow> http_workspace" where
  "selected_part w selected = w\<lparr>ws_projects := filter (\<lambda>p. pj_requests p \<noteq> [])
       (map (\<lambda>p. p\<lparr>pj_requests := filter (\<lambda>r. selected (rq_id r)) (pj_requests p)\<rparr>) (ws_projects w)),
     ws_requests := filter (\<lambda>r. selected (rq_id r)) (ws_requests w)\<rparr>"

lemma shared_row_strip: "shared_row (e\<lparr>kv_localFileId := None\<rparr>) = shared_row e"
  by (simp add: shared_row_def)

lemma shared_rows_strip: "map shared_row (stripLocalFormFileStateFromRows rows) = map shared_row (opt_rows rows)"
  by (simp add: stripLocalFormFileStateFromRows_def shared_row_strip comp_def)

lemma shared_request_strip: "shared_request (stripLocalFormFileStateFromRequest r) i = shared_request r i"
  by (simp add: shared_request_def stripLocalFormFileStateFromRequest_def shared_rows_strip)
    (simp add: opt_rows_def shared_rows_strip)

lemma same_request_strip: "same_request (stripLocalFormFileStateFromRequest r) = same_request r"
  by (rule ext) (simp add: same_request_def shared_request_strip)

lemma environment_map_find:
  "environment_id_map found s = (if s = [] then None
     else map_of (rev (map (\<lambda>q. (fst q, env_id (snd q))) found)) s)"
  by (induction found rule: rev_induct) (auto simp: environment_id_map_def split: prod.splits)

lemma environment_map_nth:
  assumes "distinct (map fst found)" and "k < length found" and "fst (found ! k) \<noteq> []"
  shows "environment_id_map found (fst (found ! k)) = Some (env_id (snd (found ! k)))"
proof -
  let ?ps = "rev (map (\<lambda>q. (fst q, env_id (snd q))) found)"
  have "map_of ?ps (fst (found ! k)) = Some (env_id (snd (found ! k)))"
    by (rule map_of_is_SomeI)
      (use assms in \<open>auto simp: rev_map [symmetric] comp_def intro!: image_eqI [of _ _ "found ! k"]\<close>)
  then show ?thesis using assms(3) by (simp add: environment_map_find)
qed

lemma workspace_properties:
  "prop_of ''environments'' (Some (json_of_workspace w)) = map_option (\<lambda>es. JArr (map json_of_environment es)) (ws_environments w)"
  "prop_of ''activeEnvironmentId'' (Some (json_of_workspace w))
    = Some (case ws_activeEnvironmentId w of Some i \<Rightarrow> JStr i | None \<Rightarrow> JNull)"
  "prop_of ''name'' (Some (json_of_workspace w)) = Some (JStr (ws_name w))"
  "prop_of ''projects'' (Some (json_of_workspace w)) = Some (JArr (map json_of_project (ws_projects w)))"
  "prop_of ''requests'' (Some (json_of_workspace w)) = Some (JArr (map json_of_request (ws_requests w)))"
  "prop_of ''variables'' (Some (json_of_workspace w)) = map_option json_of_rows (ws_variables w)"
  "isRecord (Some (json_of_workspace w))"
  by (simp_all add: prop_of_def json_of_workspace_def exported_property isRecord_def)

lemma elements_of_environments:
  "elements (map_option (\<lambda>es. JArr (map json_of_environment es)) x) = map json_of_environment (case x of Some es \<Rightarrow> es | None \<Rightarrow> [])"
  by (simp split: option.split)

text \<open>The active environment of the draft is the one at the place of the active one that was exported.\<close>

lemma draft_active:
  assumes found: "list_all2 (\<lambda>d q. fst q = env_id d \<and> same_environment d (snd q)) (environments_of w) found"
    and distinct: "distinct (environment_ids w)" and k: "k < length (environments_of w)"
    and active: "ws_activeEnvironmentId w = Some (env_id (environments_of w ! k))" "env_id (environments_of w ! k) \<noteq> []"
  shows "ws_activeEnvironmentId (imported_draft now names (Some (json_of_workspace w)) found i projects requests)
    = Some (env_id (snd (found ! k)))"
proof -
  have "map fst found = map env_id (environments_of w)"
    using found by (auto simp: list_all2_conv_all_nth intro: nth_equalityI)
  then have "distinct (map fst found)" using distinct by (simp add: environment_ids_of)
  moreover have "k < length found" "fst (found ! k) = env_id (environments_of w ! k)"
    using found k by (auto simp: list_all2_conv_all_nth)
  ultimately have "environment_id_map found (env_id (environments_of w ! k)) = Some (env_id (snd (found ! k)))"
    using environment_map_nth [of found k] active(2) by simp
  then show ?thesis by (simp add: imported_draft_def workspace_properties active(1) Let_def)
qed

text \<open>The exported workspace and an imported one agree, up to the ids.\<close>

definition same_workspace :: "http_workspace \<Rightarrow> http_workspace \<Rightarrow> bool" where
  "same_workspace w v \<longleftrightarrow>
     list_all2 same_request (ws_requests w) (ws_requests v) \<and> list_all2 same_project (ws_projects w) (ws_projects v)
     \<and> list_all2 same_environment (environments_of w) (environments_of v)
     \<and> ws_variables v = Some (map shared_row (opt_rows (ws_variables w)))
     \<and> (\<exists>k < length (environments_of w). ws_activeEnvironmentId w = Some (env_id (environments_of w ! k))
          \<and> ws_activeEnvironmentId v = Some (env_id (environments_of v ! k)))"

lemma imported_draft_fields:
  "ws_environments (imported_draft now names v found i projects requests) = Some (map snd found)"
  "ws_projects (imported_draft now names v found i projects requests) = projects"
  "ws_requests (imported_draft now names v found i projects requests) = requests"
  "ws_variables (imported_draft now names v found i projects requests) = Some (normalizeImportedRows (prop_of ''variables'' v))"
  by (simp_all add: imported_draft_def Let_def)

lemma optional_rows_back: "normalizeImportedRows (map_option json_of_rows x) = map shared_row (opt_rows x)"
  by (cases x) (simp_all add: rows_back opt_rows_def, simp add: normalizeImportedRows_def List.map_filter_def)

lemma draft_same:
  assumes found: "list_all2 (\<lambda>d q. fst q = env_id d \<and> same_environment d (snd q)) (environments_of w) found"
    and new: "news ids ''env'' n m (map (env_id \<circ> snd) found)"
    and content: "list_all2 same_project (ws_projects w) projects" "list_all2 same_request (ws_requests w) requests"
    and distinct: "distinct (environment_ids w)" and k: "k < length (environments_of w)"
    and active: "ws_activeEnvironmentId w = Some (env_id (environments_of w ! k))" "env_id (environments_of w ! k) \<noteq> []"
    and D: "D = imported_draft now names (Some (json_of_workspace w)) found i projects requests"
    and u: "ws_projects u = ws_projects D" "ws_requests u = ws_requests D" "ws_variables u = ws_variables D"
      "case ws_environments D of Some (e # es) \<Rightarrow> ws_environments u = Some (e # es)
         \<and> (\<forall>i. ws_activeEnvironmentId D = Some i \<longrightarrow> i \<noteq> [] \<longrightarrow> i \<in> set (environment_ids D) \<longrightarrow> ws_activeEnvironmentId u = Some i)
       | _ \<Rightarrow> Q"
  shows "same_workspace w u"
proof -
  have len: "length found = length (environments_of w)" using found by (simp add: list_all2_lengthD)
  obtain e es where es: "map snd found = e # es" using len k by (cases found) auto
  have envs: "environments_of u = map snd found" using u(4) es by (simp add: environments_of_def D imported_draft_fields)
  have "env_id (snd (found ! k)) \<in> set (map (env_id \<circ> snd) found)" using len k by force
  moreover from this have "env_id (snd (found ! k)) \<noteq> []" using new by (auto simp: news_def list_all_iff drawn_def)
  moreover have "ws_activeEnvironmentId D = Some (env_id (snd (found ! k)))"
    using draft_active [OF found distinct k active] D by simp
  moreover have "set (map (env_id \<circ> snd) found) = set (environment_ids D)"
    by (simp add: D environment_ids_def imported_draft_fields image_comp)
  ultimately have "ws_activeEnvironmentId u = Some (env_id (snd (found ! k)))"
    using u(4) es by (simp add: D imported_draft_fields)
  moreover have "environments_of u ! k = snd (found ! k)" using envs len k by simp
  moreover have "list_all2 same_environment (environments_of w) (environments_of u)"
    using found envs by (auto simp: list_all2_conv_all_nth)
  ultimately show ?thesis using content u k active
    by (auto simp: same_workspace_def D imported_draft_fields optional_rows_back workspace_properties)
qed

lemma workspace_back:
  assumes normal: "normal_workspace w" and distinct: "distinct (environment_ids w)" and ids: "[] \<notin> set (environment_ids w)"
    and inj: "inj ids"
  shows "wp (normalizeImportedWorkspace ids now (Some (json_of_workspace w)) names)
    (\<lambda>result n'. \<exists>v. result = Inr v \<and> same_workspace w v) n"
proof -
  obtain k where k: "k < length (environments_of w)" "ws_activeEnvironmentId w = Some (env_id (environments_of w ! k))"
    using normal by (auto simp: normal_workspace_def environments_of_def list_ex_iff in_set_conv_nth split: option.splits)
  have "env_id (environments_of w ! k) \<in> set (environment_ids w)" using k(1) by (simp add: environment_ids_of)
  then have ne: "env_id (environments_of w ! k) \<noteq> []" using ids by auto
  have env: "wp (gen_flat (normalizeImportedEnvironment ids) (map json_of_environment (environments_of w)))
      (\<lambda>found n'. list_all2 (\<lambda>d q. fst q = env_id d \<and> same_environment d (snd q)) (environments_of w) found
        \<and> news ids ''env'' m n' (map (env_id \<circ> snd) found)) m" for m
    by (rule wp_conj, rule wp_flat_content, rule environment_back, rule imported_environment_ids [OF inj])
  show ?thesis
    unfolding normalizeImportedWorkspace_def
    apply (simp add: workspace_properties elements_of_environments environments_of_def [symmetric])
    apply (rule wp_mono, rule env)
    apply (rule wp_mono, rule wp_flat_content, rule project_back)
    apply (rule wp_mono, rule requests_back)
    apply (rule wp_mono, rule wp_normalizeWorkspace)
    apply (use draft_same [OF _ _ _ _ distinct k ne refl] in \<open>blast\<close>)
    done
qed

lemma same_project_strip:
  "same_project (p\<lparr>pj_requests := map stripLocalFormFileStateFromRequest (pj_requests p),
     pj_variables := Some (stripLocalFormFileStateFromRows (pj_variables p))\<rparr>) q = same_project p q"
  by (simp add: same_project_def list_all2_map1 same_request_strip shared_rows_strip opt_rows_def)

lemma same_environment_strip:
  "same_environment (e\<lparr>env_variables := stripLocalFormFileStateFromRows (Some (env_variables e))\<rparr>) d = same_environment e d"
  by (simp add: same_environment_def shared_rows_strip) (simp add: opt_rows_def)

lemma environments_strip:
  "environments_of (stripLocalFormFileStateFromWorkspace w)
    = map (\<lambda>e. e\<lparr>env_variables := stripLocalFormFileStateFromRows (Some (env_variables e))\<rparr>) (environments_of w)"
  by (simp add: environments_of_def stripLocalFormFileStateFromWorkspace_def split: option.split)

lemma same_workspace_strip: "same_workspace (stripLocalFormFileStateFromWorkspace w) v \<longleftrightarrow> same_workspace w v"
proof -
  have "environments_of (stripLocalFormFileStateFromWorkspace w) ! k = (environments_of w ! k)
      \<lparr>env_variables := stripLocalFormFileStateFromRows (Some (env_variables (environments_of w ! k)))\<rparr>"
    if "k < length (environments_of w)" for k using that by (simp add: environments_strip)
  moreover have "length (environments_of (stripLocalFormFileStateFromWorkspace w)) = length (environments_of w)"
    by (simp add: environments_strip)
  moreover have "list_all2 same_environment (environments_of (stripLocalFormFileStateFromWorkspace w)) (environments_of v)
      = list_all2 same_environment (environments_of w) (environments_of v)"
    by (simp add: environments_strip list_all2_map1 same_environment_strip)
  ultimately show ?thesis
    by (auto simp: same_workspace_def stripLocalFormFileStateFromWorkspace_def list_all2_map1 same_request_strip
        same_project_strip opt_rows_def)
      (auto simp: shared_rows_strip opt_rows_def)
qed

lemma normal_strip: "normal_workspace (stripLocalFormFileStateFromWorkspace w) = normal_workspace w"
  by (auto simp: normal_workspace_def stripLocalFormFileStateFromWorkspace_def list_ex_iff split: option.split)

lemma environment_ids_strip: "environment_ids (stripLocalFormFileStateFromWorkspace w) = environment_ids w"
  by (simp add: environment_ids_def stripLocalFormFileStateFromWorkspace_def comp_def split: option.split)

lemma exported_comes_back:
  assumes "parse (buildWorkspaceShareJson print time w selected)
      = Some (share_document time (buildShareWorkspace w selected))"
    and "normal_workspace w" and "distinct (environment_ids w)" and "[] \<notin> set (environment_ids w)" and "inj ids"
  shows "\<exists>v. fst (run_state (parseWorkspaceShareJson parse ids now (buildWorkspaceShareJson print time w selected) names) n) = Inr v
    \<and> same_workspace (selected_part w selected) v \<and> normal_workspace v \<and> distinct (request_ids v) \<and> distinct (project_ids v)"
proof -
  let ?s = "buildShareWorkspace w selected"
  have s: "?s = stripLocalFormFileStateFromWorkspace (selected_part w selected)"
    by (simp add: buildShareWorkspace_def selected_part_def)
  have part: "normal_workspace (selected_part w selected)" "environment_ids (selected_part w selected) = environment_ids w"
    using assms(2) by (simp_all add: selected_part_def normal_workspace_def environment_ids_def)
  have "wp (normalizeImportedWorkspace ids now (Some (json_of_workspace ?s)) names)
      (\<lambda>result n'. \<exists>v. result = Inr v \<and> same_workspace ?s v) n"
    by (rule workspace_back) (simp_all add: s normal_strip environment_ids_strip part assms)
  then obtain v where v: "fst (run_state (normalizeImportedWorkspace ids now (Some (json_of_workspace ?s)) names) n) = Inr v"
    "same_workspace (selected_part w selected) v"
    by (auto dest!: wp_run simp: s same_workspace_strip)
  have "normal_workspace v \<and> distinct (request_ids v) \<and> distinct (project_ids v)"
    using wp_run [OF imported_workspace_ids [OF assms(5), of now "Some (json_of_workspace ?s)" names n]] v(1)
    by (simp add: news_def)
  moreover have "parseWorkspaceShareJson parse ids now (buildWorkspaceShareJson print time w selected) names
      = normalizeImportedWorkspace ids now (Some (json_of_workspace ?s)) names"
    using assms(1) by (simp add: parseWorkspaceShareJson_def share_document_def exported_property)
  ultimately show ?thesis using v by auto
qed

text \<open>
  C19. Importing an exported document gives a workspace with the chosen requests and their projects,
  every environment and every variable, in order, with the same active environment; only the ids are
  new, and what a file row remembers of a local file is gone. \<open>parse\<close> has to read back the printed
  document.
\<close>

theorem share_roundtrip:
  assumes "parse (buildWorkspaceShareJson print time w selected)
      = Some (share_document time (buildShareWorkspace w selected))"
    and "normal_workspace w" and "distinct (environment_ids w)" and "[] \<notin> set (environment_ids w)" and "inj ids"
  shows "\<exists>v. fst (run_state (parseWorkspaceShareJson parse ids now (buildWorkspaceShareJson print time w selected) names) n) = Inr v
    \<and> same_workspace (selected_part w selected) v \<and> normal_workspace v \<and> distinct (request_ids v) \<and> distinct (project_ids v)"
  by (rule exported_comes_back [where parse = parse]) (fact assms)+

definition example_workspace :: http_workspace where
  "example_workspace = \<lparr>ws_activeEnvironmentId = Some (js ''e''),
     ws_environments = Some [\<lparr>env_id = js ''e'', env_name = js ''dev'', env_variables = [plain_row (js ''host'') (js ''h'')]\<rparr>],
     ws_id = js ''w'', ws_name = js ''w'',
     ws_projects = [\<lparr>pj_id = js ''p'', pj_name = js ''p'', pj_requests = [], pj_variables = None\<rparr>],
     ws_requests = [example_request], ws_variables = None\<rparr>"

theorem share_roundtrip_witness:
  "let doc = share_document [] (buildShareWorkspace example_workspace (\<lambda>_. True)) in
   \<exists>v. fst (run_state (parseWorkspaceShareJson (\<lambda>_. Some doc) (\<lambda>n. replicate n 97) []
      (buildWorkspaceShareJson (\<lambda>_. js ''doc'') [] example_workspace (\<lambda>_. True)) []) 0) = Inr v
    \<and> same_workspace (selected_part example_workspace (\<lambda>_. True)) v \<and> normal_workspace v
    \<and> distinct (request_ids v) \<and> distinct (project_ids v)"
  unfolding Let_def
proof (rule share_roundtrip)
  show "inj (\<lambda>n. replicate n 97 :: jsstr)" by (rule injI) (metis length_replicate)
qed (simp_all add: example_workspace_def normal_workspace_def environment_ids_def)

section \<open>An imported request is the same request\<close>

lemma enabled_shared: "enabledRows (map shared_row rows) = map shared_row (enabledRows rows)"
  by (simp add: enabledRows_def filter_map comp_def shared_row_def)

lemma shared_row_fields [simp]:
  "kv_key (shared_row e) = kv_key e" "kv_value (shared_row e) = kv_value e" "kv_enabled (shared_row e) = kv_enabled e"
  "formValueTypeFor (shared_row e) = formValueTypeFor e"
  by (simp_all add: shared_row_def formValueTypeFor_def)

lemma resolve_shared: "resolveRowVariables (shared_row e) vars = shared_row (resolveRowVariables e vars)"
  by (simp add: resolveRowVariables_def shared_row_def)

lemma multipart_shared: "requestUsesMultipart (shared_request r i) = requestUsesMultipart r"
  by (simp add: requestUsesMultipart_def shared_request_def enabled_shared list_ex_iff)

lemma missing_shared: "missingRequestVariables (shared_request r i) vars = missingRequestVariables r vars"
  by (simp add: missingRequestVariables_def request_values_def shared_request_def comp_def cong: if_cong)

lemma shared_variables: "fold set_variable (map shared_row rows) m = fold set_variable rows m"
  by (induction rows arbitrary: m) (simp_all add: set_variable_def)

lemma variables_shared:
  assumes "rows_of b = (\<lambda>scope. map shared_row (rows_of a scope))"
  shows "variableMapByScope b = variableMapByScope a"
  by (simp add: variableMapByScope_def assms shared_variables)

lemma append_params:
  assumes "map (\<lambda>e. (js_trim (kv_key e), kv_value e)) (enabledRows a) = map (\<lambda>e. (js_trim (kv_key e), kv_value e)) (enabledRows b)"
  shows "appendEnabledQueryParams add_params u a = appendEnabledQueryParams add_params u b"
  unfolding appendEnabledQueryParams_def assms ..

lemma payload_shared: "buildHttpPayload add_params (shared_request r i) vars m = buildHttpPayload add_params r vars m"
proof -
  have type: "bodyContentType (shared_request r i) = bodyContentType r"
    by (simp add: bodyContentType_def multipart_shared) (simp add: shared_request_def)
  have given: "map (\<lambda>e. (js_trim (kv_key e), kv_value e)) (filter P (given_headers (shared_request r i) vars @ hs))
      = map (\<lambda>e. (js_trim (kv_key e), kv_value e)) (filter P (given_headers r vars @ hs))"
    "list_ex P (enabledRows (given_headers (shared_request r i) vars)) = list_ex P (enabledRows (given_headers r vars))"
    if "\<And>e. P (shared_row e) = P e" for P hs
    using that by (simp_all add: given_headers_def shared_request_def enabled_shared resolve_shared comp_def filter_map enabledRows_def list_ex_iff bex_Un)
  have named: "header_named h (shared_row e) = header_named h e" for h e by (simp add: header_named_def)
  have headers: "requestHeaderRows (shared_request r i) vars = requestHeaderRows r vars"
    using given(1) [of "\<lambda>e. \<not> (requestUsesMultipart r \<and> header_named (js ''content-type'') e)" "[]"]
      given(1) [of "\<lambda>e. \<not> (requestUsesMultipart r \<and> header_named (js ''content-type'') e)" "[plain_row (js ''Content-Type'') t]" for t]
    by (simp add: requestHeaderRows_def Let_def type multipart_shared hasHeader_def given(2) named split: option.split)
  have body: "requestBodyFor (shared_request r i) vars = requestBodyFor r vars"
    by (simp add: requestBodyFor_def multipart_shared)
      (simp add: shared_request_def enabled_shared filter_map resolve_shared comp_def)
  have url: "requestUrlFor add_params (shared_request r i) vars = requestUrlFor add_params r vars"
  proof -
    have "appendEnabledQueryParams add_params u (map (\<lambda>e. resolveRowVariables e vars) (map shared_row (rq_params r)) @ rest)
        = appendEnabledQueryParams add_params u (map (\<lambda>e. resolveRowVariables e vars) (rq_params r) @ rest)" for u rest
      by (rule append_params) (simp add: resolve_shared comp_def enabledRows_def filter_map)
    from this this [of _ "[]"] show ?thesis by (simp add: requestUrlFor_def shared_request_def Let_def comp_def)
  qed
  show ?thesis by (simp add: buildHttpPayload_def headers body url) (simp add: shared_request_def)
qed

text \<open>
  The file that has to be chosen again before the imported request can be sent: that of the first row of the form
  that would be sent as a file. An imported request refuses to be sent without it, whatever files are at hand.
\<close>

definition missing_file :: "http_request \<Rightarrow> variables \<Rightarrow> jsstr option" where
  "missing_file r vars =
     (if no_body_method (rq_method r) \<or> rq_bodyMode r \<noteq> BodyForm then None
      else map_option (\<lambda>e. js_trim (kv_key e))
        (find (\<lambda>e. js_trim (resolveVariables (js_trim (kv_key e)) vars) \<noteq> [] \<and> formValueTypeFor e = FileValue)
           (enabledRows (rq_formBody r))))"

lemma part_shared:
  "part_of_row vars files' read' (shared_row e) =
     (if js_trim (resolveVariables (js_trim (kv_key e)) vars) \<noteq> [] \<and> formValueTypeFor e = FileValue
      then Inl (FileNotChosen (js_trim (kv_key e))) else part_of_row vars files read e)"
  by (simp add: part_of_row_def Let_def) (simp add: shared_row_def)

lemma parts_shared:
  "collect_parts (part_of_row vars files' read') (map shared_row rows) =
     (case find (\<lambda>e. js_trim (resolveVariables (js_trim (kv_key e)) vars) \<noteq> [] \<and> formValueTypeFor e = FileValue) rows of
        Some e \<Rightarrow> Inl (FileNotChosen (js_trim (kv_key e))) | None \<Rightarrow> collect_parts (part_of_row vars files read) rows)"
proof (induction rows)
  case (Cons e rows)
  let ?file = "js_trim (resolveVariables (js_trim (kv_key e)) vars) \<noteq> [] \<and> formValueTypeFor e = FileValue"
  show ?case
  proof (cases ?file)
    case True
    then show ?thesis by (simp add: part_shared [where files = files and read = read])
  next
    case False
    have "\<exists>q. part_of_row vars files read e = Inr q" using False by (auto simp: part_of_row_def Let_def)
    then obtain q where q: "part_of_row vars files read e = Inr q" ..
    have s: "part_of_row vars files' read' (shared_row e) = Inr q"
      using q False by (simp add: part_shared [where files = files and read = read])
    have f: "find (\<lambda>e. js_trim (resolveVariables (js_trim (kv_key e)) vars) \<noteq> [] \<and> formValueTypeFor e = FileValue) (e # rows)
        = find (\<lambda>e. js_trim (resolveVariables (js_trim (kv_key e)) vars) \<noteq> [] \<and> formValueTypeFor e = FileValue) rows"
      using False by auto
    show ?thesis unfolding f by (simp add: s q Cons.IH split: option.split)
  qed
qed simp

lemma multipart_for_shared:
  "requestMultipartFor (shared_request r i) vars files' read' =
     (case missing_file r vars of Some k \<Rightarrow> Inl (FileNotChosen k) | None \<Rightarrow> requestMultipartFor r vars files read)"
proof -
  let ?P = "\<lambda>e. js_trim (resolveVariables (js_trim (kv_key e)) vars) \<noteq> [] \<and> formValueTypeFor e = FileValue"
  have fields: "rq_method (shared_request r i) = rq_method r" "rq_bodyMode (shared_request r i) = rq_bodyMode r"
    "enabledRows (rq_formBody (shared_request r i)) = map shared_row (enabledRows (rq_formBody r))"
    by (simp_all add: shared_request_def enabled_shared)
  have none: "find ?P (enabledRows (rq_formBody r)) = None" if "rq_bodyMode r = BodyForm" "\<not> requestUsesMultipart r"
    using that by (auto simp: requestUsesMultipart_def list_ex_iff find_None_iff)
  show ?thesis
    by (auto simp: requestMultipartFor_def fields multipart_shared missing_file_def none
        parts_shared [where files = files and read = read] split: option.split)
qed

lemma send_shared:
  "buildHttpPayloadForSend add_params (shared_request r i) vars files' read' =
     (case missing_file r vars of Some k \<Rightarrow> Inl (FileNotChosen k) | None \<Rightarrow> buildHttpPayloadForSend add_params r vars files read)"
  by (simp add: buildHttpPayloadForSend_def multipart_for_shared [where files = files and read = read] payload_shared
      split: option.split sum.split)

text \<open>A request of a workspace by its place: in the project at an index, or in the workspace itself.\<close>

definition request_at :: "http_workspace \<Rightarrow> int option \<Rightarrow> int \<Rightarrow> (http_project option \<times> http_request) option" where
  "request_at w j i =
     (case j of
        None \<Rightarrow> map_option (Pair None) (js_at (ws_requests w) i)
      | Some j \<Rightarrow> Option.bind (js_at (ws_projects w) j) (\<lambda>p. map_option (Pair (Some p)) (js_at (pj_requests p) i)))"

text \<open>In the environment at an index: the variables of the request, and what is sent.\<close>

definition variables_at :: "http_workspace \<Rightarrow> int option \<Rightarrow> int \<Rightarrow> int \<Rightarrow> (http_request \<times> variables) option" where
  "variables_at w j i k = map_option (\<lambda>(p, r). (r, variableMapByScope
     (scopedVariableRows w p (js_at (environments_of w) k) (Some r)))) (request_at w j i)"

definition missing_at :: "http_workspace \<Rightarrow> int option \<Rightarrow> int \<Rightarrow> int \<Rightarrow> jsstr list option" where
  "missing_at w j i k = map_option (\<lambda>(r, vars). missingRequestVariables r vars) (variables_at w j i k)"

definition missing_file_at :: "http_workspace \<Rightarrow> int option \<Rightarrow> int \<Rightarrow> int \<Rightarrow> jsstr option" where
  "missing_file_at w j i k = Option.bind (variables_at w j i k) (\<lambda>(r, vars). missing_file r vars)"

definition send_at ::
  "(jsstr \<Rightarrow> (jsstr \<times> jsstr) list \<Rightarrow> jsstr option) \<Rightarrow> http_workspace \<Rightarrow> int option \<Rightarrow> int \<Rightarrow> int
     \<Rightarrow> (jsstr \<rightharpoonup> http_file) \<Rightarrow> (http_file \<Rightarrow> http_error + jsstr) \<Rightarrow> (http_error + http_payload) option" where
  "send_at add_params w j i k files read =
     map_option (\<lambda>(r, vars). buildHttpPayloadForSend add_params r vars files read) (variables_at w j i k)"

lemma list_all2_js_at: "list_all2 P xs ys \<Longrightarrow> rel_option P (js_at xs i) (js_at ys i)"
  by (auto simp: js_at_def list_all2_lengthD list_all2_nthD)

lemma same_variables:
  assumes "same_workspace w v" and "rel_option same_project p p'" and "rel_option same_environment e e'"
  shows "variableMapByScope (scopedVariableRows v p' e' (Some (shared_request r i)))
    = variableMapByScope (scopedVariableRows w p e (Some r))"
proof -
  have "rows_of (scopedVariableRows v p' e' (Some (shared_request r i))) scope
      = map shared_row (rows_of (scopedVariableRows w p e (Some r)) scope)" for scope
    using assms
    by (cases scope) (auto simp: scopedVariableRows_def same_workspace_def same_project_def same_environment_def opt_rows_def
        shared_request_def option_rel_Some1 split: option.splits elim: option.rel_cases)
  then show ?thesis by (intro variables_shared ext)
qed

lemma request_at_same:
  assumes "same_workspace w v"
  shows "rel_option (rel_prod (rel_option same_project) same_request) (request_at w j i) (request_at v j i)"
proof (cases j)
  case None
  have "rel_option same_request (js_at (ws_requests w) i) (js_at (ws_requests v) i)"
    using assms by (intro list_all2_js_at) (simp add: same_workspace_def)
  then show ?thesis by (auto simp: request_at_def None elim: option.rel_cases)
next
  case (Some k)
  have "rel_option same_project (js_at (ws_projects w) k) (js_at (ws_projects v) k)"
    using assms by (intro list_all2_js_at) (simp add: same_workspace_def)
  then show ?thesis
  proof (cases rule: option.rel_cases)
    case (Some p q)
    have "rel_option same_request (js_at (pj_requests p) i) (js_at (pj_requests q) i)"
      using Some(3) by (intro list_all2_js_at) (simp add: same_project_def)
    then show ?thesis using Some \<open>j = Some k\<close> by (auto simp: request_at_def elim: option.rel_cases)
  qed (simp add: request_at_def Some)
qed

lemma variables_at_same:
  assumes "same_workspace w v"
  shows "rel_option (\<lambda>(r, vars) (q, vars'). vars' = vars \<and> (\<exists>n. q = shared_request r n)) (variables_at w j i k) (variables_at v j i k)"
proof -
  have e: "rel_option same_environment (js_at (environments_of w) k) (js_at (environments_of v) k)"
    using assms by (intro list_all2_js_at) (simp add: same_workspace_def)
  from request_at_same [OF assms, of j i] show ?thesis
  proof (cases rule: option.rel_cases)
    case (Some a b)
    obtain p r p' q where ab: "a = (p, r)" "b = (p', q)" by (metis prod.exhaust)
    then obtain n where q: "q = shared_request r n" "rel_option same_project p p'"
      using Some(3) by (auto simp: same_request_def)
    show ?thesis using Some ab same_variables [OF assms q(2) e, of r n] by (auto simp: variables_at_def q(1))
  qed (simp add: variables_at_def)
qed

text \<open>
  C20. What is exported and imported sends the same: in the imported workspace every request of the selected part,
  at its place and in each environment, has the values and the undefined names it had and goes out with the same
  method, address, headers, body and parts. Only the files of a form are not taken along: a request that would send
  one refuses to be sent until it is chosen again. \<open>parse\<close> has to read back the printed document.
\<close>

theorem imported_request_sends_same:
  assumes "parse (buildWorkspaceShareJson print time w selected)
      = Some (share_document time (buildShareWorkspace w selected))"
    and "normal_workspace w" and "distinct (environment_ids w)" and "[] \<notin> set (environment_ids w)" and "inj ids"
  shows "\<exists>v. fst (run_state (parseWorkspaceShareJson parse ids now (buildWorkspaceShareJson print time w selected) names) n) = Inr v
    \<and> (\<forall>j i k. map_option snd (variables_at v j i k) = map_option snd (variables_at (selected_part w selected) j i k)
        \<and> missing_at v j i k = missing_at (selected_part w selected) j i k
        \<and> send_at add_params v j i k files' read' =
            (case missing_file_at (selected_part w selected) j i k of
               Some key \<Rightarrow> Some (Inl (FileNotChosen key))
             | None \<Rightarrow> send_at add_params (selected_part w selected) j i k files read))"
proof -
  obtain v where v: "fst (run_state (parseWorkspaceShareJson parse ids now (buildWorkspaceShareJson print time w selected) names) n) = Inr v"
    "same_workspace (selected_part w selected) v"
    using exported_comes_back [of parse print time w selected ids now names n] assms by blast
  let ?u = "selected_part w selected"
  have "map_option snd (variables_at v j i k) = map_option snd (variables_at ?u j i k)
      \<and> missing_at v j i k = missing_at ?u j i k
      \<and> send_at add_params v j i k files' read' =
          (case missing_file_at ?u j i k of
             Some key \<Rightarrow> Some (Inl (FileNotChosen key)) | None \<Rightarrow> send_at add_params ?u j i k files read)" for j i k
    using variables_at_same [OF v(2), of j i k]
    by (cases rule: option.rel_cases)
      (auto simp: missing_at_def send_at_def missing_file_at_def missing_shared
        send_shared [where files = files and read = read] split: option.split)
  then show ?thesis using v(1) by blast
qed

text \<open>A workspace with one request is exported, imported and sent.\<close>

theorem imported_request_sends_same_witness:
  "let doc = share_document [] (buildShareWorkspace example_workspace (\<lambda>_. True)) in
   \<exists>v. fst (run_state (parseWorkspaceShareJson (\<lambda>_. Some doc) (\<lambda>n. replicate n 97) []
      (buildWorkspaceShareJson (\<lambda>_. js ''doc'') [] example_workspace (\<lambda>_. True)) []) 0) = Inr v
    \<and> send_at (\<lambda>_ _. None) v None 0 0 Map.empty (\<lambda>_. Inr [])
      = Some (buildHttpPayloadForSend (\<lambda>_ _. None) example_request
          (variableMapByScope (scopedVariableRows example_workspace None
             (Some \<lparr>env_id = js ''e'', env_name = js ''dev'', env_variables = [plain_row (js ''host'') (js ''h'')]\<rparr>)
             (Some example_request))) Map.empty (\<lambda>_. Inr []))"
proof -
  let ?doc = "share_document [] (buildShareWorkspace example_workspace (\<lambda>_. True))"
  have "\<exists>v. fst (run_state (parseWorkspaceShareJson (\<lambda>_. Some ?doc) (\<lambda>n. replicate n 97) []
      (buildWorkspaceShareJson (\<lambda>_. js ''doc'') [] example_workspace (\<lambda>_. True)) []) 0) = Inr v
    \<and> (\<forall>j i k. map_option snd (variables_at v j i k) = map_option snd (variables_at (selected_part example_workspace (\<lambda>_. True)) j i k)
        \<and> missing_at v j i k = missing_at (selected_part example_workspace (\<lambda>_. True)) j i k
        \<and> send_at (\<lambda>_ _. None) v j i k Map.empty (\<lambda>_. Inr []) =
            (case missing_file_at (selected_part example_workspace (\<lambda>_. True)) j i k of
               Some key \<Rightarrow> Some (Inl (FileNotChosen key))
             | None \<Rightarrow> send_at (\<lambda>_ _. None) (selected_part example_workspace (\<lambda>_. True)) j i k Map.empty (\<lambda>_. Inr [])))"
  proof (rule imported_request_sends_same)
    show "inj (\<lambda>n. replicate n 97 :: jsstr)" by (rule injI) (metis length_replicate)
  qed (simp_all add: example_workspace_def normal_workspace_def environment_ids_def)
  moreover have "variables_at (selected_part example_workspace (\<lambda>_. True)) None 0 0
      = Some (example_request, variableMapByScope (scopedVariableRows example_workspace None
             (Some \<lparr>env_id = js ''e'', env_name = js ''dev'', env_variables = [plain_row (js ''host'') (js ''h'')]\<rparr>)
             (Some example_request)))"
    by (simp add: variables_at_def request_at_def selected_part_def example_workspace_def js_at_def environments_of_def
        scopedVariableRows_def)
  moreover have "missing_file example_request vars = None" for vars
    by (simp add: missing_file_def example_request_def enabledRows_def formValueTypeFor_def plain_row_def)
  ultimately show ?thesis unfolding Let_def by (fastforce simp: missing_file_at_def send_at_def)
qed

end
