(* ===== verification/HttpMerge.thy ===== *)
theory HttpMerge
  imports HttpShare
begin

text \<open>
  Merging an imported workspace into the current one (\<^verbatim>\<open>mergeImportedWorkspaceIntoCurrent\<close> of
  \<^verbatim>\<open>src/features/http/HttpConsolePanel.tsx\<close>): requests are the same when their addresses are; a request
  that is already there is overwritten or ignored, the others are added.
\<close>

section \<open>The merge\<close>

datatype conflict_mode = Overwrite | IgnoreConflicts

definition requestUrlKey :: "http_request \<Rightarrow> jsstr" where
  "requestUrlKey r = js_trim (rq_url r)"

definition all_requests :: "http_workspace \<Rightarrow> http_request list" where
  "all_requests w = ws_requests w @ concat (map pj_requests (ws_projects w))"

definition requestLocationById :: "http_workspace \<Rightarrow> jsstr \<Rightarrow> (jsstr option \<times> jsstr) option" where
  "requestLocationById w requestId =
     (if list_ex (\<lambda>r. rq_id r = requestId) (ws_requests w) then Some (None, requestId)
      else map_option (\<lambda>p. (Some (pj_id p), requestId))
        (find (\<lambda>p. list_ex (\<lambda>r. rq_id r = requestId) (pj_requests p)) (ws_projects w)))"

definition note_url :: "http_request \<Rightarrow> (jsstr \<rightharpoonup> jsstr) \<Rightarrow> (jsstr \<rightharpoonup> jsstr)" where
  "note_url r m = (if requestUrlKey r \<noteq> [] \<and> m (requestUrlKey r) = None then m(requestUrlKey r \<mapsto> rq_id r) else m)"

text \<open>First the requests of the workspace, then those of its projects.\<close>

definition existingRequestIdByUrl :: "http_workspace \<Rightarrow> (jsstr \<rightharpoonup> jsstr)" where
  "existingRequestIdByUrl w = fold note_url (all_requests w) Map.empty"

record merge_state =
  mg_overwrittenRequests :: "jsstr \<rightharpoonup> http_request"
  mg_importedRequestIds :: "jsstr list"
  mg_added :: nat
  mg_ignored :: nat
  mg_overwritten :: nat

definition merge_start :: merge_state where
  "merge_start = \<lparr>mg_overwrittenRequests = Map.empty, mg_importedRequestIds = [], mg_added = 0, mg_ignored = 0,
     mg_overwritten = 0\<rparr>"

text \<open>The id of the request with this address, if there is one; an empty id counts as none.\<close>

definition existing_id :: "(jsstr \<rightharpoonup> jsstr) \<Rightarrow> http_request \<Rightarrow> jsstr option" where
  "existing_id existing r =
     (if requestUrlKey r = [] then None
      else (case existing (requestUrlKey r) of Some i \<Rightarrow> if i \<noteq> [] then Some i else None | None \<Rightarrow> None))"

definition resolveImportedRequest ::
  "(jsstr \<rightharpoonup> jsstr) \<Rightarrow> conflict_mode \<Rightarrow> http_request \<Rightarrow> merge_state \<Rightarrow> http_request option \<times> merge_state" where
  "resolveImportedRequest existing mode r s =
     (case existing_id existing r of
        Some i \<Rightarrow>
          (None, if mode = Overwrite
             then s\<lparr>mg_overwrittenRequests := (mg_overwrittenRequests s)(i \<mapsto> r\<lparr>rq_id := i\<rparr>),
                mg_importedRequestIds := mg_importedRequestIds s @ [i], mg_overwritten := mg_overwritten s + 1\<rparr>
             else s\<lparr>mg_ignored := mg_ignored s + 1\<rparr>)
      | None \<Rightarrow> (Some r, s\<lparr>mg_importedRequestIds := mg_importedRequestIds s @ [rq_id r], mg_added := mg_added s + 1\<rparr>))"

fun resolve_requests ::
  "(jsstr \<rightharpoonup> jsstr) \<Rightarrow> conflict_mode \<Rightarrow> http_request list \<Rightarrow> merge_state \<Rightarrow> http_request list \<times> merge_state" where
  "resolve_requests existing mode [] s = ([], s)"
| "resolve_requests existing mode (r # rs) s =
     (let (kept, s) = resolveImportedRequest existing mode r s;
          (more, s) = resolve_requests existing mode rs s
      in ((case kept of Some q \<Rightarrow> [q] | None \<Rightarrow> []) @ more, s))"

fun resolve_projects ::
  "jsstr \<Rightarrow> (jsstr \<rightharpoonup> jsstr) \<Rightarrow> conflict_mode \<Rightarrow> http_project list \<Rightarrow> jsstr list \<Rightarrow> merge_state
     \<Rightarrow> http_project list \<times> merge_state" where
  "resolve_projects now existing mode [] names s = ([], s)"
| "resolve_projects now existing mode (p # ps) names s =
     (let (requests, s) = resolve_requests existing mode (pj_requests p) s
      in if requests = [] \<and> opt_rows (pj_variables p) = [] then resolve_projects now existing mode ps names s
         else (let name = uniqueName now names (pj_name p);
                   (more, s) = resolve_projects now existing mode ps (names @ [name]) s
               in (p\<lparr>pj_name := name, pj_requests := requests\<rparr> # more, s)))"

definition replaceRequest :: "(jsstr \<rightharpoonup> http_request) \<Rightarrow> http_request \<Rightarrow> http_request" where
  "replaceRequest overwritten r = (case overwritten (rq_id r) of Some q \<Rightarrow> q | None \<Rightarrow> r)"

definition mergeImportedWorkspaceIntoCurrent ::
  "id_source \<Rightarrow> jsstr \<Rightarrow> http_workspace \<Rightarrow> http_workspace \<Rightarrow> conflict_mode \<Rightarrow> (http_workspace \<times> merge_state) gen" where
  "mergeImportedWorkspaceIntoCurrent ids now current imported mode =
     (let existing = existingRequestIdByUrl current;
          (requests, s) = resolve_requests existing mode (ws_requests imported) merge_start;
          (projects, s) = resolve_projects now existing mode (ws_projects imported) (map pj_name (ws_projects current)) s;
          replace = replaceRequest (mg_overwrittenRequests s)
      in do {
        w \<leftarrow> normalizeWorkspace ids (current\<lparr>
          ws_environments := Some (environments_of current @ environments_of imported),
          ws_projects := map (\<lambda>p. p\<lparr>pj_requests := map replace (pj_requests p)\<rparr>) (ws_projects current) @ projects,
          ws_requests := map replace (ws_requests current) @ requests,
          ws_variables := Some (opt_rows (ws_variables current) @ opt_rows (ws_variables imported))\<rparr>);
        State_Monad.return (w, s)
      })"

record share_option =
  so_id :: jsstr
  so_projectId :: "jsstr option"
  so_projectName :: jsstr
  so_request :: http_request

definition workspaceWord :: jsstr where "workspaceWord = [0x5DE5, 0x4F5C, 0x533A]"

definition collectShareRequestOptions :: "http_workspace \<Rightarrow> share_option list" where
  "collectShareRequestOptions w =
     map (\<lambda>r. \<lparr>so_id = rq_id r, so_projectId = None, so_projectName = workspaceWord, so_request = r\<rparr>) (ws_requests w)
     @ concat (map (\<lambda>p. map (\<lambda>r. \<lparr>so_id = rq_id r, so_projectId = Some (pj_id p), so_projectName = pj_name p, so_request = r\<rparr>)
         (pj_requests p)) (ws_projects w))"

section \<open>Counting\<close>

definition merged_total :: "merge_state \<Rightarrow> nat" where
  "merged_total s = mg_added s + mg_ignored s + mg_overwritten s"

lemma resolve_one:
  "resolveImportedRequest existing mode r s = (kept, s') \<Longrightarrow>
    merged_total s' = Suc (merged_total s)
    \<and> mg_importedRequestIds s' = mg_importedRequestIds s @ (case existing_id existing r of
        Some i \<Rightarrow> if mode = Overwrite then [i] else [] | None \<Rightarrow> [rq_id r])
    \<and> kept = (if existing_id existing r = None then Some r else None)
    \<and> mg_added s' = mg_added s + (if existing_id existing r = None then 1 else 0)
    \<and> (if mode = Overwrite then mg_ignored s' = mg_ignored s else mg_overwritten s' = mg_overwritten s)
    \<and> mg_overwrittenRequests s' = (case existing_id existing r of
        Some i \<Rightarrow> if mode = Overwrite then (mg_overwrittenRequests s)(i \<mapsto> r\<lparr>rq_id := i\<rparr>) else mg_overwrittenRequests s
      | None \<Rightarrow> mg_overwrittenRequests s)"
  by (auto simp: resolveImportedRequest_def merged_total_def split: option.splits if_splits)

text \<open>What the loops over the imported requests do, as folds over all of them.\<close>

definition overwrite_one :: "(jsstr \<rightharpoonup> jsstr) \<Rightarrow> conflict_mode \<Rightarrow> http_request \<Rightarrow> (jsstr \<rightharpoonup> http_request) \<Rightarrow> (jsstr \<rightharpoonup> http_request)" where
  "overwrite_one existing mode r m = (case existing_id existing r of
     Some i \<Rightarrow> if mode = Overwrite then m(i \<mapsto> r\<lparr>rq_id := i\<rparr>) else m | None \<Rightarrow> m)"

definition imported_ids :: "(jsstr \<rightharpoonup> jsstr) \<Rightarrow> conflict_mode \<Rightarrow> http_request list \<Rightarrow> jsstr list" where
  "imported_ids existing mode rs = concat (map (\<lambda>r. case existing_id existing r of
     Some i \<Rightarrow> if mode = Overwrite then [i] else [] | None \<Rightarrow> [rq_id r]) rs)"

definition new_requests :: "(jsstr \<rightharpoonup> jsstr) \<Rightarrow> http_request list \<Rightarrow> http_request list" where
  "new_requests existing rs = filter (\<lambda>r. existing_id existing r = None) rs"

definition after_requests :: "(jsstr \<rightharpoonup> jsstr) \<Rightarrow> conflict_mode \<Rightarrow> http_request list \<Rightarrow> merge_state \<Rightarrow> merge_state \<Rightarrow> bool" where
  "after_requests existing mode rs s s' \<longleftrightarrow>
     merged_total s' = merged_total s + length rs
     \<and> mg_importedRequestIds s' = mg_importedRequestIds s @ imported_ids existing mode rs
     \<and> mg_added s' = mg_added s + length (new_requests existing rs)
     \<and> (if mode = Overwrite then mg_ignored s' = mg_ignored s else mg_overwritten s' = mg_overwritten s)
     \<and> mg_overwrittenRequests s' = fold (overwrite_one existing mode) rs (mg_overwrittenRequests s)"

lemma after_requests_append:
  "after_requests existing mode rs s s' \<Longrightarrow> after_requests existing mode qs s' s'' \<Longrightarrow> after_requests existing mode (rs @ qs) s s''"
  by (simp add: after_requests_def imported_ids_def new_requests_def split: if_splits)

lemma resolve_requests_result:
  "resolve_requests existing mode rs s = (kept, s') \<Longrightarrow>
    kept = new_requests existing rs \<and> after_requests existing mode rs s s'"
proof (induction rs arbitrary: s kept s')
  case (Cons r rs)
  obtain k1 s1 where one: "resolveImportedRequest existing mode r s = (k1, s1)" by fastforce
  obtain k2 s2 where rest: "resolve_requests existing mode rs s1 = (k2, s2)" by fastforce
  show ?case using Cons.IH [OF rest] resolve_one [OF one] Cons.prems one rest
    by (auto simp: after_requests_def imported_ids_def new_requests_def overwrite_one_def split: option.splits if_splits)
qed (simp add: after_requests_def imported_ids_def new_requests_def)

text \<open>A project of the import as it is added: without the requests that are already there.\<close>

definition same_but_merged :: "(jsstr \<rightharpoonup> jsstr) \<Rightarrow> http_project \<Rightarrow> http_project \<Rightarrow> bool" where
  "same_but_merged existing p q \<longleftrightarrow> pj_id q = pj_id p \<and> pj_variables q = pj_variables p
     \<and> pj_requests q = new_requests existing (pj_requests p)"

definition added_projects :: "(jsstr \<rightharpoonup> jsstr) \<Rightarrow> http_project list \<Rightarrow> http_project list" where
  "added_projects existing ps =
     filter (\<lambda>p. new_requests existing (pj_requests p) \<noteq> [] \<or> opt_rows (pj_variables p) \<noteq> []) ps"

lemma resolve_projects_result:
  "resolve_projects now existing mode ps names s = (kept, s') \<Longrightarrow>
    list_all2 (same_but_merged existing) (added_projects existing ps) kept
    \<and> after_requests existing mode (concat (map pj_requests ps)) s s'"
proof (induction ps arbitrary: s kept names s')
  case (Cons p ps)
  obtain k1 s1 where one: "resolve_requests existing mode (pj_requests p) s = (k1, s1)" by fastforce
  note first = resolve_requests_result [OF one]
  show ?case
  proof (cases "k1 = [] \<and> opt_rows (pj_variables p) = []")
    case True
    then have rest: "resolve_projects now existing mode ps names s1 = (kept, s')" using Cons.prems one by simp
    show ?thesis using Cons.IH [OF rest] first True after_requests_append by (simp add: added_projects_def) blast
  next
    case False
    let ?name = "uniqueName now names (pj_name p)"
    obtain k2 s2 where rest: "resolve_projects now existing mode ps (names @ [?name]) s1 = (k2, s2)" by fastforce
    then have "kept = p\<lparr>pj_name := ?name, pj_requests := k1\<rparr> # k2 \<and> s' = s2"
      using Cons.prems one False by (auto simp: Let_def)
    then show ?thesis using Cons.IH [OF rest] first False after_requests_append
      by (simp add: added_projects_def same_but_merged_def) blast
  qed
qed (simp add: added_projects_def after_requests_def imported_ids_def new_requests_def)

section \<open>The merged workspace\<close>

definition overwritten_by :: "http_workspace \<Rightarrow> http_workspace \<Rightarrow> conflict_mode \<Rightarrow> (jsstr \<rightharpoonup> http_request)" where
  "overwritten_by current imported mode =
     fold (overwrite_one (existingRequestIdByUrl current) mode) (all_requests imported) Map.empty"

lemma new_requests_append: "new_requests existing (rs @ qs) = new_requests existing rs @ new_requests existing qs"
  by (simp add: new_requests_def)

lemma added_project_requests:
  "list_all2 (same_but_merged existing) (added_projects existing ps) qs \<Longrightarrow>
    concat (map pj_requests qs) = new_requests existing (concat (map pj_requests ps))"
proof (induction ps arbitrary: qs)
  case (Cons p ps)
  show ?case
  proof (cases "new_requests existing (pj_requests p) = [] \<and> opt_rows (pj_variables p) = []")
    case True
    then show ?thesis using Cons by (auto simp: added_projects_def new_requests_append)
  next
    case False
    then obtain q rest where q: "qs = q # rest" "same_but_merged existing p q"
      and rest: "list_all2 (same_but_merged existing) (added_projects existing ps) rest"
      using Cons.prems by (auto simp: added_projects_def list_all2_Cons1)
    show ?thesis using Cons.IH [OF rest] q by (simp add: new_requests_append same_but_merged_def)
  qed
qed (auto simp: added_projects_def new_requests_def)

text \<open>The result of a merge: \<open>w\<close>, and \<open>s\<close> with the counts and the ids to select.\<close>

definition merge_result ::
  "http_workspace \<Rightarrow> http_workspace \<Rightarrow> conflict_mode \<Rightarrow> http_workspace \<times> merge_state \<Rightarrow> bool" where
  "merge_result current imported mode result \<longleftrightarrow> (case result of (w, s) \<Rightarrow>
     after_requests (existingRequestIdByUrl current) mode (all_requests imported) merge_start s
     \<and> ws_requests w = map (replaceRequest (overwritten_by current imported mode)) (ws_requests current)
         @ new_requests (existingRequestIdByUrl current) (ws_requests imported)
     \<and> (\<exists>added. ws_projects w = map (\<lambda>p. p\<lparr>pj_requests :=
           map (replaceRequest (overwritten_by current imported mode)) (pj_requests p)\<rparr>) (ws_projects current) @ added
         \<and> list_all2 (same_but_merged (existingRequestIdByUrl current))
             (added_projects (existingRequestIdByUrl current) (ws_projects imported)) added)
     \<and> normal_workspace w \<and> ws_id w = ws_id current \<and> ws_name w = ws_name current)"

lemma merge_gives_result:
  "wp (mergeImportedWorkspaceIntoCurrent ids now current imported mode) (\<lambda>r n'. n \<le> n' \<and> merge_result current imported mode r) n"
proof -
  let ?existing = "existingRequestIdByUrl current"
  obtain kept s1 where r: "resolve_requests ?existing mode (ws_requests imported) merge_start = (kept, s1)" by fastforce
  obtain projects s2 where p: "resolve_projects now ?existing mode (ws_projects imported) (map pj_name (ws_projects current)) s1
      = (projects, s2)" by fastforce
  note r' = resolve_requests_result [OF r] and p' = resolve_projects_result [OF p]
  have all: "after_requests ?existing mode (all_requests imported) merge_start s2"
    unfolding all_requests_def using r' p' by (blast intro: after_requests_append)
  then have ov: "mg_overwrittenRequests s2 = overwritten_by current imported mode"
    by (simp add: after_requests_def overwritten_by_def merge_start_def)
  show ?thesis unfolding mergeImportedWorkspaceIntoCurrent_def Let_def r p prod.case wp_bind wp_return
    by (rule wp_mono, rule wp_normalizeWorkspace) (use r' p' all in \<open>simp add: merge_result_def ov\<close>)
qed

lemma mset_concat_map_append: "mset (concat (map f (xs @ ys))) = mset (concat (map f xs)) + mset (concat (map f ys))"
  by simp

lemma merged_requests:
  "merge_result current imported mode (w, s) \<Longrightarrow>
    mset (all_requests w) = mset (map (replaceRequest (overwritten_by current imported mode)) (all_requests current))
      + mset (new_requests (existingRequestIdByUrl current) (all_requests imported))"
  by (auto simp: merge_result_def all_requests_def new_requests_append added_project_requests map_concat comp_def)

lemma fold_overwrite:
  "fold (overwrite_one existing mode) rs m i =
     (let hits = filter (\<lambda>r. existing_id existing r = Some i) rs
      in if mode = Overwrite \<and> hits \<noteq> [] then Some ((last hits)\<lparr>rq_id := i\<rparr>) else m i)"
  by (induction rs arbitrary: m) (auto simp: overwrite_one_def Let_def split: option.split)

lemma overwritten_at:
  "overwritten_by current imported mode i =
     (let hits = filter (\<lambda>r. existing_id (existingRequestIdByUrl current) r = Some i) (all_requests imported)
      in if mode = Overwrite \<and> hits \<noteq> [] then Some ((last hits)\<lparr>rq_id := i\<rparr>) else None)"
  by (simp add: overwritten_by_def fold_overwrite Let_def)

lemma overwritten_from:
  assumes "overwritten_by current imported mode i = Some q"
  obtains r where "r \<in> set (all_requests imported)" "existing_id (existingRequestIdByUrl current) r = Some i" "q = r\<lparr>rq_id := i\<rparr>"
proof -
  let ?hits = "filter (\<lambda>r. existing_id (existingRequestIdByUrl current) r = Some i) (all_requests imported)"
  have "?hits \<noteq> []" "q = (last ?hits)\<lparr>rq_id := i\<rparr>"
    using assms by (auto simp: overwritten_at Let_def split: if_splits)
  moreover from this(1) have "last ?hits \<in> set ?hits" by (rule last_in_set)
  ultimately show ?thesis using that by auto
qed

lemma replace_id [simp]: "rq_id (replaceRequest (overwritten_by current imported mode) r) = rq_id r"
  by (auto simp: replaceRequest_def split: option.split elim: overwritten_from)

lemma fold_note_url:
  "fold note_url rs m k = Some i \<Longrightarrow> m k = Some i \<or> (\<exists>r \<in> set rs. requestUrlKey r = k \<and> rq_id r = i)"
  by (induction rs arbitrary: m) (fastforce simp: note_url_def split: if_splits)+

lemma existing_from:
  "existingRequestIdByUrl w k = Some i \<Longrightarrow> \<exists>r \<in> set (all_requests w). requestUrlKey r = k \<and> rq_id r = i"
  using fold_note_url [of "all_requests w" Map.empty k i] by (simp add: existingRequestIdByUrl_def)

lemma request_ids_all: "mset (request_ids w) = mset (map rq_id (all_requests w))"
  by (simp add: request_ids_def all_requests_def map_concat comp_def)

lemma distinct_request: "distinct (request_ids w) \<Longrightarrow> r \<in> set (all_requests w) \<Longrightarrow> q \<in> set (all_requests w)
    \<Longrightarrow> rq_id r = rq_id q \<Longrightarrow> r = q"
  using mset_eq_imp_distinct_iff [OF request_ids_all] by (auto simp: distinct_map inj_on_def)

lemma replaced_url:
  assumes "distinct (request_ids current)" and "r \<in> set (all_requests current)"
  shows "requestUrlKey (replaceRequest (overwritten_by current imported mode) r) = requestUrlKey r"
proof (cases "overwritten_by current imported mode (rq_id r)")
  case (Some q)
  then obtain a where a: "existing_id (existingRequestIdByUrl current) a = Some (rq_id r)" "q = a\<lparr>rq_id := rq_id r\<rparr>"
    by (rule overwritten_from)
  then have "existingRequestIdByUrl current (requestUrlKey a) = Some (rq_id r)"
    by (auto simp: existing_id_def split: if_splits option.splits)
  then have "requestUrlKey a = requestUrlKey r" using existing_from distinct_request [OF assms(1) assms(2)] by metis
  then show ?thesis using Some a(2) by (simp add: replaceRequest_def requestUrlKey_def)
qed (simp add: replaceRequest_def)

section \<open>Properties\<close>


lemma existing_key: "existing_id existing r = Some i \<Longrightarrow> existing (requestUrlKey r) = Some i"
  by (auto simp: existing_id_def split: if_splits option.splits)

lemma union_between: "I \<subseteq> A \<union> N \<Longrightarrow> N \<subseteq> I \<Longrightarrow> A \<union> N = A \<union> I"
  by blast

text \<open>
  No address is lost: the merged workspace has requests for exactly the addresses of the current
  and of the imported one.
\<close>

theorem merge_keeps_urls:
  assumes "distinct (request_ids current)"
    and "fst (run_state (mergeImportedWorkspaceIntoCurrent ids now current imported mode) n) = (w, s)"
  shows "requestUrlKey ` set (all_requests w) = requestUrlKey ` set (all_requests current) \<union> requestUrlKey ` set (all_requests imported)"
proof -
  let ?new = "new_requests (existingRequestIdByUrl current) (all_requests imported)"
  let ?replace = "replaceRequest (overwritten_by current imported mode)"
  have res: "merge_result current imported mode (w, s)"
    using wp_run [OF merge_gives_result [of ids now current imported mode n]] assms(2) by simp
  have "set (all_requests w) = ?replace ` set (all_requests current) \<union> set ?new"
    using arg_cong [OF merged_requests [OF res], of set_mset] by simp
  then have w: "requestUrlKey ` set (all_requests w) = requestUrlKey ` set (all_requests current) \<union> requestUrlKey ` set ?new"
    using replaced_url [OF assms(1)] by (simp add: image_Un image_image cong: image_cong)
  have "requestUrlKey r \<in> requestUrlKey ` set (all_requests current)"
    if "existing_id (existingRequestIdByUrl current) r = Some i" for r i
    using existing_from [OF existing_key [OF that]] by (metis imageI)
  then have "requestUrlKey r \<in> requestUrlKey ` set (all_requests current) \<union> requestUrlKey ` set ?new"
    if "r \<in> set (all_requests imported)" for r
    using that by (cases "existing_id (existingRequestIdByUrl current) r") (auto simp: new_requests_def)
  then have "requestUrlKey ` set (all_requests imported) \<subseteq> requestUrlKey ` set (all_requests current) \<union> requestUrlKey ` set ?new"
    by auto
  moreover have "requestUrlKey ` set ?new \<subseteq> requestUrlKey ` set (all_requests imported)"
    by (rule image_mono) (auto simp: new_requests_def)
  ultimately show ?thesis unfolding w by (rule union_between)
qed

text \<open>Two workspaces: one request in the current one, and two with its address and different methods.\<close>

definition example_current :: http_workspace where
  "example_current = example_workspace\<lparr>ws_projects := [],
     ws_requests := [example_request\<lparr>rq_id := js ''a'', rq_url := js ''http://h'', rq_method := MHead\<rparr>]\<rparr>"

definition example_import :: http_workspace where
  "example_import = example_workspace\<lparr>ws_projects := [],
     ws_requests := [example_request\<lparr>rq_id := js ''b'', rq_url := js ''http://h'', rq_method := MGet\<rparr>,
       example_request\<lparr>rq_id := js ''c'', rq_url := js ''http://h'', rq_method := MPost\<rparr>]\<rparr>"

lemma example_address: "js_trim (js ''http://h'') = js ''http://h''"
  by (simp add: js_trim_def trim_end_def js_space_def js_def)

lemma example_existing:
  "existing_id (existingRequestIdByUrl example_current) r = (if requestUrlKey r = js ''http://h'' then Some (js ''a'') else None)"
  by (simp add: existing_id_def existingRequestIdByUrl_def all_requests_def example_current_def note_url_def
      requestUrlKey_def example_address)

theorem merge_keeps_urls_witness:
  "case fst (run_state (mergeImportedWorkspaceIntoCurrent (\<lambda>n. replicate n 97) [] example_current example_import Overwrite) 0) of
     (w, s) \<Rightarrow> requestUrlKey ` set (all_requests w)
       = requestUrlKey ` set (all_requests example_current) \<union> requestUrlKey ` set (all_requests example_import)"
proof -
  have d: "distinct (request_ids example_current)" by (simp add: request_ids_def example_current_def)
  show ?thesis by (cases "fst (run_state (mergeImportedWorkspaceIntoCurrent (\<lambda>n. replicate n 97) [] example_current example_import Overwrite) 0)")
      (simp only: prod.case merge_keeps_urls [OF d])
qed

lemma replaced_is_current: "rq_id q \<notin> set (request_ids w) \<Longrightarrow> q \<notin> set (all_requests w)"
  using mset_eq_setD [OF request_ids_all [of w]] by auto

text \<open>
  When imported requests of one address overwrite a request, only the last of them is kept, also
  when they differ in their method; all of them are reported as overwritten.
\<close>

theorem merge_keeps_last:
  assumes "fst (run_state (mergeImportedWorkspaceIntoCurrent ids now current imported Overwrite) n) = (w, s)"
    and "distinct (request_ids current)" and "set (request_ids current) \<inter> set (request_ids imported) = {}"
    and "filter (\<lambda>r. existing_id (existingRequestIdByUrl current) r = Some i) (all_requests imported) = hits" and "hits \<noteq> []"
    and "q \<in> set (all_requests w)" and "rq_id q = i"
  shows "q = (last hits)\<lparr>rq_id := i\<rparr>"
proof -
  have res: "merge_result current imported Overwrite (w, s)"
    using wp_run [OF merge_gives_result [of ids now current imported Overwrite n]] assms(1) by simp
  let ?replace = "replaceRequest (overwritten_by current imported Overwrite)"
  have "set (all_requests w) = ?replace ` set (all_requests current)
      \<union> set (new_requests (existingRequestIdByUrl current) (all_requests imported))"
    using arg_cong [OF merged_requests [OF res], of set_mset] by simp
  then consider r where "r \<in> set (all_requests current)" "q = ?replace r" | "q \<in> set (all_requests imported)"
    using assms(6) by (auto simp: new_requests_def)
  then show ?thesis
  proof cases
    case (1 r)
    then have "rq_id r = i" using assms(7) by simp
    then show ?thesis using 1 assms(4,5) by (simp add: replaceRequest_def overwritten_at)
  next
    case 2
    obtain a where "a \<in> set hits" using assms(5) by (cases hits) auto
    then have "existing_id (existingRequestIdByUrl current) a = Some i" using assms(4) by auto
    then have "i \<in> set (request_ids current)"
      using existing_from [OF existing_key] mset_eq_setD [OF request_ids_all [of current]] by fastforce
    moreover have "i \<in> set (request_ids imported)"
      using 2 assms(7) mset_eq_setD [OF request_ids_all [of imported]] by auto
    ultimately show ?thesis using assms(3) by auto
  qed
qed

theorem merge_keeps_last_witness:
  "case fst (run_state (mergeImportedWorkspaceIntoCurrent (\<lambda>n. replicate n 97) [] example_current example_import Overwrite) 0) of
     (w, s) \<Rightarrow> \<forall>q \<in> set (all_requests w). rq_id q = js ''a'' \<longrightarrow> rq_method q = MPost"
proof -
  obtain w s where ws: "fst (run_state (mergeImportedWorkspaceIntoCurrent (\<lambda>n. replicate n 97) [] example_current example_import Overwrite) 0) = (w, s)"
    by fastforce
  have d: "distinct (request_ids example_current)" "set (request_ids example_current) \<inter> set (request_ids example_import) = {}"
    by (simp_all add: request_ids_def example_current_def example_import_def)
  have hits: "filter (\<lambda>r. existing_id (existingRequestIdByUrl example_current) r = Some (js ''a'')) (all_requests example_import)
      = ws_requests example_import"
    by (simp add: example_existing) (simp add: all_requests_def example_import_def requestUrlKey_def example_address)
  have "rq_method q = MPost" if "q \<in> set (all_requests w)" "rq_id q = js ''a''" for q
    using merge_keeps_last [OF ws d hits _ that] by (simp add: example_import_def)
  then show ?thesis by (simp add: ws)
qed

end
