(* ===== verification/HttpResponse.thy ===== *)
theory HttpResponse
  imports HttpRequest
begin

text \<open>
  Responses of the HTTP console (\<^verbatim>\<open>src/features/http/HttpConsolePanel.tsx\<close>): the decoding of a body, the
  browser's fetch with its limit, the bounded preview of a stream, and the life of one send
  (\<^verbatim>\<open>sendPreviewRequest\<close>) as a state machine. The text decoder, the JSON printer, the clock and the answer
  of \<^verbatim>\<open>fetch\<close> are parameters.
\<close>

section \<open>Bodies\<close>

datatype body_kind = KindBinary | KindEmpty | KindImage | KindJson | KindText

record http_response =
  rs_body :: jsstr
  rs_bodyKind :: body_kind
  rs_durationMs :: nat
  rs_headers :: "(jsstr \<times> jsstr) list"
  rs_sizeBytes :: nat
  rs_status :: nat
  rs_statusText :: jsstr
  rs_url :: jsstr

definition isTextualResponse :: "jsstr \<Rightarrow> bool" where
  "isTextualResponse contentType =
     (let normalized = js_lower contentType
      in prefix (js ''text/'') normalized \<or> js_includes normalized (js ''json'') \<or> js_includes normalized (js ''xml'')
         \<or> js_includes normalized (js ''html'') \<or> js_includes normalized (js ''javascript'')
         \<or> js_includes normalized (js ''x-www-form-urlencoded''))"

definition isImageResponse :: "jsstr \<Rightarrow> bool" where
  "isImageResponse contentType = prefix (js ''image/'') (js_lower contentType)"

text \<open>\<open>pretty text\<close> is \<^verbatim>\<open>JSON.stringify(JSON.parse(text), null, 2)\<close>, or \<open>None\<close> when it throws.\<close>

definition decodeBufferedResponseBody ::
  "(nat list \<Rightarrow> jsstr) \<Rightarrow> (jsstr \<Rightarrow> jsstr option) \<Rightarrow> nat list \<Rightarrow> jsstr \<Rightarrow> jsstr \<times> body_kind \<times> nat" where
  "decodeBufferedResponseBody decode pretty bytes contentType =
     (let sizeBytes = length bytes
      in if sizeBytes = 0 then ([], KindEmpty, sizeBytes)
         else if isImageResponse contentType then
           (js ''data:'' @ contentType @ js '';base64,'' @ arrayBufferToBase64 bytes, KindImage, sizeBytes)
         else if isTextualResponse contentType \<or> contentType = [] then
           (let text = decode bytes
            in if js_includes (js_lower contentType) (js ''json'') then
                 (case pretty text of Some p \<Rightarrow> (p, KindJson, sizeBytes) | None \<Rightarrow> (text, KindText, sizeBytes))
               else (text, KindText, sizeBytes))
         else (js ''Binary response ('' @ nat_digits sizeBytes @ js '' bytes).'', KindBinary, sizeBytes))"

text \<open>The answer of \<^verbatim>\<open>fetch\<close>: \<open>ft_chunks\<close> are the chunks of the stream, or \<open>None\<close> without a body.\<close>

record fetched =
  ft_contentLength :: "jsstr option"
  ft_contentType :: "jsstr option"
  ft_chunks :: "nat list list option"
  ft_buffer :: "nat list"
  ft_status :: nat
  ft_statusText :: jsstr
  ft_url :: jsstr
  ft_headers :: "(jsstr \<times> jsstr) list"

fun read_stream :: "nat list \<Rightarrow> nat list list \<Rightarrow> http_error + nat list" where
  "read_stream got [] = Inr got"
| "read_stream got (c # cs) =
     (if length got + length c > HTTP_RESPONSE_MAX_BYTES then Inl ResponseTooLarge else read_stream (got @ c) cs)"

definition decodeBrowserResponseBody ::
  "(nat list \<Rightarrow> jsstr) \<Rightarrow> (jsstr \<Rightarrow> jsstr option) \<Rightarrow> fetched \<Rightarrow> http_error + jsstr \<times> body_kind \<times> nat" where
  "decodeBrowserResponseBody decode pretty f =
     (if length (ft_buffer f) > HTTP_RESPONSE_MAX_BYTES then Inl ResponseTooLarge
      else Inr (decodeBufferedResponseBody decode pretty (ft_buffer f) (opt_text (ft_contentType f))))"

definition declared_length :: "fetched \<Rightarrow> jsnum" where
  "declared_length f = (case ft_contentLength f of Some s \<Rightarrow> js_number s | None \<Rightarrow> Fin 0)"

text \<open>
  What the browser is given: headers, and a body that is nothing, a text or the items of a form. The
  code makes its parts with \<^verbatim>\<open>bytesBase64\<close> only, so that a file part without it is empty.
\<close>

datatype form_item = FileItem jsstr "nat list" jsstr jsstr | TextItem jsstr jsstr

datatype browser_body = NoBody | TextBody jsstr | FormBody "form_item list"

definition form_item_of :: "http_part \<Rightarrow> http_error + form_item" where
  "form_item_of part =
     (if pt_kind part = FileValue then
        (let blob = (\<lambda>bytes. FileItem (pt_name part) bytes
               (or_text (opt_text (pt_contentType part)) (js ''application/octet-stream''))
               (or_text (opt_text (pt_fileName part)) (js ''upload'')))
         in if opt_text (pt_bytesBase64 part) = [] then Inr (blob [])
            else (case base64ToUint8Array (opt_text (pt_bytesBase64 part)) of
                    Some bytes \<Rightarrow> Inr (blob bytes)
                  | None \<Rightarrow> Inl (ReadError (js ''InvalidCharacterError''))))
      else Inr (TextItem (pt_name part) (opt_text (pt_value part))))"

fun buildBrowserMultipartBody :: "http_part list \<Rightarrow> http_error + form_item list" where
  "buildBrowserMultipartBody [] = Inr []"
| "buildBrowserMultipartBody (part # parts) =
     (case form_item_of part of
        Inl e \<Rightarrow> Inl e
      | Inr item \<Rightarrow> (case buildBrowserMultipartBody parts of
          Inl e \<Rightarrow> Inl e
        | Inr items \<Rightarrow> Inr (item # items)))"

definition browser_headers :: "http_payload \<Rightarrow> (jsstr \<times> jsstr) list" where
  "browser_headers request =
     filter (\<lambda>(key, val). \<not> (hp_multipart request \<noteq> None \<and> js_lower (js_trim key) = js ''content-type''))
       (hp_headers request)"

definition browser_body :: "http_payload \<Rightarrow> http_error + browser_body" where
  "browser_body request =
     (case hp_multipart request of
        Some parts \<Rightarrow> (case buildBrowserMultipartBody parts of Inl e \<Rightarrow> Inl e | Inr items \<Rightarrow> Inr (FormBody items))
      | None \<Rightarrow> (case hp_body request of Some b \<Rightarrow> Inr (TextBody b) | None \<Rightarrow> Inr NoBody))"

text \<open>
  The calls of \<^verbatim>\<open>onChunk\<close>: \<open>decode_stream seen value\<close> is the text the stream decoder gives for a chunk
  after the bytes \<open>seen\<close>. A stream of bytes that are no text reports nothing.
\<close>

fun stream_reports ::
  "(nat list \<Rightarrow> nat list \<Rightarrow> jsstr) \<Rightarrow> body_kind \<Rightarrow> nat list \<Rightarrow> nat list list \<Rightarrow> (jsstr \<times> body_kind \<times> nat) list" where
  "stream_reports decode_stream kind seen [] = []"
| "stream_reports decode_stream kind seen (c # cs) =
     (if length seen + length c > HTTP_RESPONSE_MAX_BYTES then []
      else (decode_stream seen c, kind, length seen + length c)
        # stream_reports decode_stream kind (seen @ c) cs)"

definition fetch_reports ::
  "(nat list \<Rightarrow> nat list \<Rightarrow> jsstr) \<Rightarrow> fetched \<Rightarrow> (jsstr \<times> body_kind \<times> nat) list" where
  "fetch_reports decode_stream f =
     (let contentType = opt_text (ft_contentType f)
      in if isTextualResponse contentType \<or> contentType = []
         then stream_reports decode_stream (if js_includes (js_lower contentType) (js ''json'') then KindJson else KindText)
           [] (case ft_chunks f of Some chunks \<Rightarrow> chunks | None \<Rightarrow> [])
         else [])"

definition fetch_decoded ::
  "(nat list \<Rightarrow> jsstr) \<Rightarrow> (jsstr \<Rightarrow> jsstr option) \<Rightarrow> fetched \<Rightarrow> http_error + jsstr \<times> body_kind \<times> nat" where
  "fetch_decoded decode pretty f =
     (if num_finite (declared_length f) \<and> num_less (num_int (int HTTP_RESPONSE_MAX_BYTES)) (declared_length f)
      then Inl ResponseTooLarge
      else
        (case ft_chunks f of
           Some chunks \<Rightarrow> (case read_stream [] chunks of
               Inl e \<Rightarrow> Inl e
             | Inr bytes \<Rightarrow> Inr (decodeBufferedResponseBody decode pretty bytes (opt_text (ft_contentType f))))
         | None \<Rightarrow> decodeBrowserResponseBody decode pretty f))"

text \<open>
  \<open>fetch\<close> gets the URL, the method, the headers and the body, and answers or throws; \<open>durationMs\<close> is the
  rounded time between the two readings of the clock.
\<close>

definition sendWithBrowserFetch ::
  "(jsstr \<Rightarrow> http_method \<Rightarrow> (jsstr \<times> jsstr) list \<Rightarrow> browser_body \<Rightarrow> jsstr + fetched) \<Rightarrow> (nat list \<Rightarrow> jsstr)
     \<Rightarrow> (jsstr \<Rightarrow> jsstr option) \<Rightarrow> nat \<Rightarrow> http_payload \<Rightarrow> http_error + http_response" where
  "sendWithBrowserFetch fetch decode pretty durationMs request =
     (case browser_body request of
        Inl e \<Rightarrow> Inl e
      | Inr body \<Rightarrow>
          (case fetch (hp_url request) (hp_method request) (browser_headers request) body of
             Inl e \<Rightarrow> Inl (ReadError e)
           | Inr f \<Rightarrow>
               (case fetch_decoded decode pretty f of
                  Inl e \<Rightarrow> Inl e
                | Inr (text_body, kind, sz) \<Rightarrow> Inr \<lparr>rs_body = text_body, rs_bodyKind = kind,
                    rs_durationMs = max 1 durationMs, rs_headers = ft_headers f, rs_sizeBytes = sz,
                    rs_status = ft_status f, rs_statusText = ft_statusText f, rs_url = ft_url f\<rparr>)))"

definition appendHttpStreamPreview :: "jsstr \<Rightarrow> jsstr \<Rightarrow> jsstr" where
  "appendHttpStreamPreview current chunk =
     (if HTTP_STREAM_PREVIEW_MAX_CHARS > length current
      then current @ take (HTTP_STREAM_PREVIEW_MAX_CHARS - length current) chunk else current)"

lemma append_preview: "appendHttpStreamPreview (take HTTP_STREAM_PREVIEW_MAX_CHARS s) chunk
    = take HTTP_STREAM_PREVIEW_MAX_CHARS (s @ chunk)"
  by (simp add: appendHttpStreamPreview_def)

section \<open>The life of a send\<close>

datatype http_notice =
    NoNotice
  | ChooseRequest
  | EnterUrl
  | UndefinedVariables "jsstr list"
  | RequestCancelled
  | FileLimit
  | BadJsonBody
  | Failure jsstr

record http_history =
  hh_error :: "http_notice option"
  hh_id :: jsstr
  hh_method :: http_method
  hh_name :: jsstr
  hh_response :: "http_response option"
  hh_timestamp :: nat
  hh_url :: jsstr

text \<open>The request under way: the snapshot it was started with, its id, and whether it was cancelled.\<close>

record active_send =
  as_requestId :: jsstr
  as_request :: http_request
  as_pendingUrl :: jsstr
  as_payloadUrl :: "jsstr option"
  as_aborted :: bool

record send_state =
  sd_active :: "active_send option"
  sd_response :: "http_response option"
  sd_notice :: http_notice
  sd_history :: "http_history list"
  sd_cancels :: "jsstr list"

definition idle_send :: send_state where
  "idle_send = \<lparr>sd_active = None, sd_response = None, sd_notice = NoNotice, sd_history = [], sd_cancels = []\<rparr>"

text \<open>The texts for a request that waits and for one whose files are read.\<close>

definition waitingText :: jsstr where "waitingText = [0x8BF7, 0x6C42, 0x4E2D]"
definition readingText :: jsstr where "readingText = [0x8BFB, 0x53D6, 0x6587, 0x4EF6]"

definition pending_response :: "jsstr \<Rightarrow> jsstr \<Rightarrow> http_response" where
  "pending_response statusText url = \<lparr>rs_body = [], rs_bodyKind = KindText, rs_durationMs = 0, rs_headers = [],
     rs_sizeBytes = 0, rs_status = 0, rs_statusText = statusText, rs_url = url\<rparr>"

definition cancelActiveHttpRequest :: "send_state \<Rightarrow> send_state" where
  "cancelActiveHttpRequest s =
     (case sd_active s of
        None \<Rightarrow> s
      | Some a \<Rightarrow> s\<lparr>sd_active := Some (a\<lparr>as_aborted := True\<rparr>), sd_cancels := sd_cancels s @ [as_requestId a]\<rparr>)"

definition sendPreviewRequest ::
  "(jsstr \<Rightarrow> (jsstr \<times> jsstr) list \<Rightarrow> jsstr option) \<Rightarrow> jsstr \<Rightarrow> http_request option \<Rightarrow> variables \<Rightarrow> send_state \<Rightarrow> send_state" where
  "sendPreviewRequest add_params requestId activeRequest vars s =
     (if sd_active s \<noteq> None then cancelActiveHttpRequest s
      else
        (let s = s\<lparr>sd_notice := NoNotice\<rparr>
         in case activeRequest of
              None \<Rightarrow> s\<lparr>sd_response := None, sd_notice := ChooseRequest\<rparr>
            | Some r \<Rightarrow>
                if js_trim (rq_url r) = [] then s\<lparr>sd_response := None, sd_notice := EnterUrl\<rparr>
                else
                  (let missing = missingRequestVariables r vars
                   in if missing \<noteq> [] then s\<lparr>sd_response := None, sd_notice := UndefinedVariables missing\<rparr>
                      else
                        (let pendingUrl = requestUrlFor add_params r vars
                         in s\<lparr>sd_active := Some \<lparr>as_requestId = requestId, as_request = r, as_pendingUrl = pendingUrl,
                                as_payloadUrl = None, as_aborted = False\<rparr>,
                              sd_response := Some (pending_response
                                (if requestUsesMultipart r then readingText else waitingText) pendingUrl)\<rparr>))))"

definition shown :: "send_state \<Rightarrow> active_send \<Rightarrow> http_response" where
  "shown s a = (case sd_response s of Some r \<Rightarrow> r
     | None \<Rightarrow> pending_response waitingText (case as_payloadUrl a of Some u \<Rightarrow> u | None \<Rightarrow> as_pendingUrl a))"

text \<open>The payload is built and the request goes out.\<close>

definition payload_built :: "http_payload \<Rightarrow> send_state \<Rightarrow> send_state" where
  "payload_built payload s =
     (case sd_active s of
        None \<Rightarrow> s
      | Some a \<Rightarrow> s\<lparr>sd_active := Some (a\<lparr>as_payloadUrl := Some (hp_url payload)\<rparr>),
          sd_response := Some ((shown s a)\<lparr>rs_statusText := waitingText, rs_url := hp_url payload\<rparr>)\<rparr>)"

definition onChunk :: "jsstr \<Rightarrow> jsstr \<Rightarrow> body_kind \<Rightarrow> nat \<Rightarrow> send_state \<Rightarrow> send_state" where
  "onChunk eventId chunk kind sz s =
     (case sd_active s of
        None \<Rightarrow> s
      | Some a \<Rightarrow>
          if eventId \<noteq> as_requestId a then s
          else s\<lparr>sd_response := Some ((shown s a)\<lparr>rs_body := appendHttpStreamPreview (rs_body (shown s a)) chunk,
                 rs_bodyKind := kind, rs_sizeBytes := sz\<rparr>)\<rparr>)"

definition pushResponseHistory :: "http_history \<Rightarrow> send_state \<Rightarrow> send_state" where
  "pushResponseHistory entry s = s\<lparr>sd_history := take 50 (entry # sd_history s)\<rparr>"

text \<open>\<open>i\<close> and \<open>now\<close> are the id and the time of the history entry; \<^verbatim>\<open>includes("\<close>cancelled\<^verbatim>\<open>")\<close> is on the error's text.\<close>

definition cancelWord :: jsstr where "cancelWord = [0x53D6, 0x6D88]"

definition send_finished :: "jsstr \<Rightarrow> nat \<Rightarrow> jsstr + http_response \<Rightarrow> send_state \<Rightarrow> send_state" where
  "send_finished i now result s =
     (case sd_active s of
        None \<Rightarrow> s
      | Some a \<Rightarrow>
          (let url = (case as_payloadUrl a of Some u \<Rightarrow> u | None \<Rightarrow> as_pendingUrl a);
               entry = \<lparr>hh_error = None, hh_id = i, hh_method = rq_method (as_request a),
                 hh_name = rq_name (as_request a), hh_response = None, hh_timestamp = now, hh_url = url\<rparr>;
               s = (case result of
                   Inr nextResponse \<Rightarrow> pushResponseHistory (entry\<lparr>hh_response := Some nextResponse\<rparr>)
                     (s\<lparr>sd_response := Some nextResponse\<rparr>)
                 | Inl message \<Rightarrow>
                     (let notice = (if as_aborted a \<or> js_includes message cancelWord then RequestCancelled
                                    else Failure message)
                      in pushResponseHistory (entry\<lparr>hh_error := Some notice\<rparr>)
                           (s\<lparr>sd_response := None, sd_notice := notice\<rparr>)))
           in s\<lparr>sd_active := None\<rparr>))"

text \<open>Selecting another request clears what is shown, also while a request is under way.\<close>

definition resetResponse :: "send_state \<Rightarrow> send_state" where
  "resetResponse s = s\<lparr>sd_response := None, sd_notice := NoNotice\<rparr>"

section \<open>Properties\<close>

lemma preview_chunks:
  "fold (\<lambda>chunk shown. appendHttpStreamPreview shown chunk) chunks (take HTTP_STREAM_PREVIEW_MAX_CHARS s)
    = take HTTP_STREAM_PREVIEW_MAX_CHARS (s @ concat chunks)"
  by (induction chunks arbitrary: s) (simp_all only: fold_simps append_preview concat.simps append_assoc append_Nil2 id_apply)

text \<open>
  However the answer is cut into chunks, the preview of a stream shows its first two million
  characters, none lost and none twice.
\<close>

theorem appendHttpStreamPreview_prefix:
  "fold (\<lambda>chunk shown. appendHttpStreamPreview shown chunk) chunks [] = take HTTP_STREAM_PREVIEW_MAX_CHARS (concat chunks)"
  using preview_chunks [of chunks "[]"] by simp

lemma read_stream_all:
  "length got \<le> HTTP_RESPONSE_MAX_BYTES \<Longrightarrow> read_stream got chunks =
     (if length (got @ concat chunks) \<le> HTTP_RESPONSE_MAX_BYTES then Inr (got @ concat chunks) else Inl ResponseTooLarge)"
  by (induction chunks arbitrary: got) auto

lemma decoded_size: "decodeBufferedResponseBody decode pretty bytes t = (body, kind, sz) \<Longrightarrow> sz = length bytes"
  by (auto simp: decodeBufferedResponseBody_def Let_def split: if_splits option.splits)

text \<open>The bytes a response brought.\<close>

definition received :: "fetched \<Rightarrow> nat list" where
  "received f = (case ft_chunks f of Some chunks \<Rightarrow> concat chunks | None \<Rightarrow> ft_buffer f)"

lemma fetch_decoded_bounded:
  assumes "fetch_decoded decode pretty f = Inr (b, kind, sz)"
  shows "sz = length (received f) \<and> sz \<le> HTTP_RESPONSE_MAX_BYTES"
proof (cases "ft_chunks f")
  case None
  then show ?thesis using assms
    by (auto simp: fetch_decoded_def decodeBrowserResponseBody_def received_def dest!: decoded_size split: if_splits)
next
  case (Some chunks)
  have start: "read_stream [] chunks = (if length (concat chunks) \<le> HTTP_RESPONSE_MAX_BYTES then Inr (concat chunks)
      else Inl ResponseTooLarge)"
    using read_stream_all [of "[]" chunks] by simp
  show ?thesis using assms Some
    by (auto simp: fetch_decoded_def start received_def dest!: decoded_size split: if_splits)
qed

text \<open>
  C18. A response the browser delivers is accepted only up to 32 MiB, whatever length the server
  declared, and its reported size is the number of bytes received: those of all chunks together. What
  is sent is the URL, the method and the body of the request, with all its headers except the content
  type of a multipart form, which the browser sets with the boundary.
\<close>

theorem sendWithBrowserFetch_bounded:
  assumes "sendWithBrowserFetch fetch decode pretty d request = Inr r"
  obtains f body where "fetch (hp_url request) (hp_method request) (browser_headers request) body = Inr f"
    and "browser_body request = Inr body" and "rs_sizeBytes r = length (received f)"
    and "length (received f) \<le> HTTP_RESPONSE_MAX_BYTES"
proof -
  obtain body f t kind sz where *: "browser_body request = Inr body"
    "fetch (hp_url request) (hp_method request) (browser_headers request) body = Inr f"
    "fetch_decoded decode pretty f = Inr (t, kind, sz)" "rs_sizeBytes r = sz"
    using assms by (auto simp: sendWithBrowserFetch_def split: sum.splits)
  show ?thesis using that * fetch_decoded_bounded [OF *(3)] by simp
qed

definition example_fetched :: fetched where
  "example_fetched = \<lparr>ft_contentLength = None, ft_contentType = None, ft_chunks = Some [[104], [105]], ft_buffer = [],
     ft_status = 200, ft_statusText = js ''OK'', ft_url = [], ft_headers = []\<rparr>"

definition example_payload :: http_payload where
  "example_payload = \<lparr>hp_body = None, hp_headers = [], hp_method = MGet, hp_multipart = None, hp_timeoutMs = 30000,
     hp_url = js ''http://h''\<rparr>"

theorem sendWithBrowserFetch_bounded_witness:
  "\<exists>r f. sendWithBrowserFetch (\<lambda>_ _ _ _. Inr example_fetched) (map of_nat) (\<lambda>_. None) 0 example_payload = Inr r
     \<and> rs_sizeBytes r = length (received f) \<and> length (received f) \<le> HTTP_RESPONSE_MAX_BYTES"
proof -
  have "\<exists>r. sendWithBrowserFetch (\<lambda>_ _ _ _. Inr example_fetched) (map of_nat) (\<lambda>_. None) 0 example_payload = Inr r"
    by (simp add: sendWithBrowserFetch_def fetch_decoded_def example_fetched_def example_payload_def browser_body_def
        declared_length_def num_int_def HTTP_RESPONSE_MAX_BYTES_def split: prod.split)
  then obtain r where r: "sendWithBrowserFetch (\<lambda>_ _ _ _. Inr example_fetched) (map of_nat) (\<lambda>_. None) 0 example_payload = Inr r" ..
  show ?thesis by (rule sendWithBrowserFetch_bounded [OF r]) (use r in blast)
qed

text \<open>The events of the panel, in any order; \<open>idle_send\<close> is the panel when it is opened.\<close>

inductive send_step :: "send_state \<Rightarrow> send_state \<Rightarrow> bool" where
  send: "send_step s (sendPreviewRequest add_params i r vars s)"
| built: "send_step s (payload_built payload s)"
| chunk: "send_step s (onChunk i str kind sz s)"
| finish: "send_step s (send_finished i now result s)"
| cancel: "send_step s (cancelActiveHttpRequest s)"
| select: "send_step s (resetResponse s)"

definition send_inv :: "send_state \<Rightarrow> bool" where
  "send_inv s \<longleftrightarrow> length (sd_history s) \<le> 50
     \<and> (case (sd_active s, sd_response s) of
          (Some a, Some r) \<Rightarrow> length (rs_body r) \<le> HTTP_STREAM_PREVIEW_MAX_CHARS
        | _ \<Rightarrow> True)"

lemma length_append_preview:
  "length t \<le> HTTP_STREAM_PREVIEW_MAX_CHARS \<Longrightarrow>
    length (appendHttpStreamPreview t chunk) \<le> HTTP_STREAM_PREVIEW_MAX_CHARS"
  by (auto simp: appendHttpStreamPreview_def)

lemma shown_bounded:
  "send_inv s \<Longrightarrow> sd_active s = Some a \<Longrightarrow> length (rs_body (shown s a)) \<le> HTTP_STREAM_PREVIEW_MAX_CHARS"
  by (auto simp: send_inv_def shown_def pending_response_def split: option.splits)

lemma send_inv_step: "send_step s s' \<Longrightarrow> send_inv s \<Longrightarrow> send_inv s'"
proof (induction rule: send_step.induct)
  case (send s add_params i r vars)
  then show ?case
    by (auto simp: sendPreviewRequest_def cancelActiveHttpRequest_def send_inv_def pending_response_def Let_def
        split: option.splits)
next
  case (built s payload)
  then show ?case using shown_bounded [OF built]
    by (auto simp: payload_built_def split: option.splits) (auto simp: send_inv_def)
next
  case (chunk s i str kind sz)
  then show ?case using shown_bounded [OF chunk] length_append_preview
    by (auto simp: onChunk_def split: option.splits) (auto simp: send_inv_def)
next
  case (finish s i now result)
  then show ?case
    by (auto simp: send_finished_def pushResponseHistory_def send_inv_def Let_def split: option.splits sum.splits)
next
  case (cancel s)
  then show ?case by (auto simp: cancelActiveHttpRequest_def send_inv_def split: option.splits)
next
  case (select s)
  then show ?case by (auto simp: resetResponse_def send_inv_def split: option.splits)
qed

text \<open>
  In every state the panel reaches, the history holds at most fifty entries, and while a request is
  under way the text shown stays within the limit of the preview, whatever chunks arrive.
\<close>

theorem reachable_send_inv:
  assumes "send_step\<^sup>*\<^sup>* idle_send s"
  shows "send_inv s"
  using assms
proof (induction rule: rtranclp_induct)
  case base
  show ?case by (simp add: send_inv_def idle_send_def)
next
  case (step s s')
  then show ?case by (blast intro: send_inv_step)
qed

theorem reachable_send_inv_witness:
  "send_inv (onChunk (js ''1'') (js ''hello'') KindText 5
     (sendPreviewRequest (\<lambda>_ _. None) (js ''1'') (Some example_request) Map.empty idle_send))"
  by (rule reachable_send_inv, rule rtranclp.rtrancl_into_rtrancl, rule r_into_rtranclp, rule send_step.send,
      rule send_step.chunk)

text \<open>
  A response is shown where the user is when it arrives: when another request was selected
  meanwhile, the panel of that request shows the response of the first one.
\<close>

theorem late_response_shown:
  assumes "sd_active s = Some a"
  shows "sd_response (send_finished i now (Inr response) (resetResponse s)) = Some response
    \<and> sd_active (send_finished i now (Inr response) (resetResponse s)) = None"
  using assms by (simp add: send_finished_def resetResponse_def pushResponseHistory_def Let_def)

theorem late_response_shown_witness:
  "sd_response (send_finished [] 0 (Inr (pending_response [] [])) (resetResponse
      (idle_send\<lparr>sd_active := Some \<lparr>as_requestId = js ''1'', as_request = example_request, as_pendingUrl = [],
        as_payloadUrl = None, as_aborted = False\<rparr>\<rparr>))) = Some (pending_response [] [])"
  using late_response_shown [of "idle_send\<lparr>sd_active := Some \<lparr>as_requestId = js ''1'', as_request = example_request,
      as_pendingUrl = [], as_payloadUrl = None, as_aborted = False\<rparr>\<rparr>"] by simp

end
