(* ===== verification/HttpTree.thy ===== *)
theory HttpTree
  imports HttpMerge HttpResponse
begin

text \<open>
  The state of the HTTP console and the handlers of its tree and its tabs
  (\<^verbatim>\<open>src/features/http/HttpConsolePanel.tsx\<close>): selecting, opening and closing tabs, creating, duplicating,
  renaming and deleting workspaces, projects and requests. A handler reads the values of the render it
  was made in, which is the state it starts in, and the updates it queues are applied one after another.
  \<open>ids\<close> are the ids still to come and \<open>now\<close> the text of the clock, as in HttpModel.
\<close>

section \<open>State\<close>

datatype main_view = BlankView | RequestView | EnvironmentView | ShareView

datatype share_view = ExportView | ImportView

datatype import_target = ImportCurrent | ImportNew

datatype row_field = FormBodyRows | HeaderRows | ParamRows

datatype node_type = WorkspaceNode | ProjectNode | RequestNode

record editing_node =
  ed_id :: jsstr
  ed_type :: node_type
  ed_value :: jsstr

datatype delete_target =
    DeleteWorkspace jsstr jsstr
  | DeleteProject jsstr jsstr jsstr
  | DeleteRequest jsstr "jsstr option" jsstr jsstr
  | DeleteEnvironment jsstr jsstr

text \<open>What the share tab reports; the counts are those of a merge.\<close>

datatype share_notice = NoShareNotice | Copied | Downloaded | ImportedNew jsstr | ImportedCurrent nat nat nat

record console =
  hc_workspaces :: "http_workspace list"
  hc_activeWorkspaceId :: jsstr
  hc_activeProjectId :: "jsstr option"
  hc_activeRequestId :: jsstr
  hc_mainView :: main_view
  hc_shareView :: share_view
  hc_environmentTabOpen :: bool
  hc_shareTabOpen :: bool
  hc_selectedShare :: "jsstr set"
  hc_importTarget :: import_target
  hc_conflictMode :: conflict_mode
  hc_importJson :: jsstr
  hc_shareMessage :: share_notice
  hc_shareError :: "share_error option"
  hc_variableDrafts :: "variable_scope \<Rightarrow> kv_entry"
  hc_requestDrafts :: "row_field \<Rightarrow> kv_entry"
  hc_closedTabs :: "jsstr set"
  hc_send :: send_state
  hc_contextMenu :: bool
  hc_deleteConfirm :: "delete_target option"
  hc_editingNode :: "editing_node option"
  hc_storageReady :: bool
  hc_dirty :: "jsstr set"
  hc_formFiles :: "jsstr \<rightharpoonup> http_file"
  hc_tauri :: bool
  hc_drawn :: nat

text \<open>Drawing ids in a handler.\<close>

definition draw :: "'a gen \<Rightarrow> console \<Rightarrow> 'a \<times> console" where
  "draw m s = (case run_state m (hc_drawn s) of (x, n) \<Rightarrow> (x, s\<lparr>hc_drawn := n\<rparr>))"

definition truthy :: "jsstr option \<Rightarrow> jsstr option" where
  "truthy i = (case i of Some k \<Rightarrow> if k \<noteq> [] then Some k else None | None \<Rightarrow> None)"

definition emptyVariableDrafts :: "variable_scope \<Rightarrow> kv_entry" where
  "emptyVariableDrafts = (\<lambda>_. createBlankRow\<lparr>kv_enabled := False\<rparr>)"

definition emptyRequestDraftRows :: "row_field \<Rightarrow> kv_entry" where
  "emptyRequestDraftRows field = (if field = FormBodyRows
     then createBlankRow\<lparr>kv_enabled := False, kv_formValueType := Some TextValue\<rparr>
     else createBlankRow\<lparr>kv_enabled := False\<rparr>)"

text \<open>The first request shown of a workspace, with the project it is in.\<close>

definition first_request :: "http_workspace \<Rightarrow> http_request option" where
  "first_request w = (case ws_requests w of
     r # _ \<Rightarrow> Some r
   | [] \<Rightarrow> (case ws_projects w of p # _ \<Rightarrow> js_at (pj_requests p) 0 | [] \<Rightarrow> None))"

definition first_project_id :: "http_workspace \<Rightarrow> jsstr option" where
  "first_project_id w = (if ws_requests w \<noteq> [] then None else map_option pj_id (js_at (ws_projects w) 0))"

definition request_id_or_none :: "http_request option \<Rightarrow> jsstr" where
  "request_id_or_none r = (case r of Some q \<Rightarrow> rq_id q | None \<Rightarrow> [])"

definition initial_console :: "id_source \<Rightarrow> bool \<Rightarrow> console" where
  "initial_console ids tauri =
     (let (ws, n) = run_state (normalizeWorkspaces ids defaultWorkspaces) 0
      in \<lparr>hc_workspaces = ws, hc_activeWorkspaceId = js ''ws-default'', hc_activeProjectId = None, hc_activeRequestId = [],
          hc_mainView = BlankView, hc_shareView = ExportView, hc_environmentTabOpen = False, hc_shareTabOpen = False,
          hc_selectedShare = {}, hc_importTarget = ImportNew, hc_conflictMode = Overwrite, hc_importJson = [],
          hc_shareMessage = NoShareNotice, hc_shareError = None, hc_variableDrafts = emptyVariableDrafts,
          hc_requestDrafts = emptyRequestDraftRows, hc_closedTabs = {}, hc_send = idle_send, hc_contextMenu = False,
          hc_deleteConfirm = None, hc_editingNode = None, hc_storageReady = False, hc_dirty = {},
          hc_formFiles = Map.empty, hc_tauri = tauri, hc_drawn = n\<rparr>)"

section \<open>Values of a render\<close>

definition activeWorkspace :: "console \<Rightarrow> http_workspace option" where
  "activeWorkspace s = (case find (\<lambda>w. ws_id w = hc_activeWorkspaceId s) (hc_workspaces s) of
     Some w \<Rightarrow> Some w | None \<Rightarrow> js_at (hc_workspaces s) 0)"

definition workspaceEnvironments :: "console \<Rightarrow> http_environment list" where
  "workspaceEnvironments s = (case activeWorkspace s of Some w \<Rightarrow> environments_of w | None \<Rightarrow> [])"

definition environment_of :: "http_workspace \<Rightarrow> http_environment option" where
  "environment_of w = (case find (\<lambda>e. Some (env_id e) = ws_activeEnvironmentId w) (environments_of w) of
     Some e \<Rightarrow> Some e | None \<Rightarrow> js_at (environments_of w) 0)"

definition activeEnvironment :: "console \<Rightarrow> http_environment option" where
  "activeEnvironment s = Option.bind (activeWorkspace s) environment_of"

definition activeProject :: "console \<Rightarrow> http_project option" where
  "activeProject s = (case (truthy (hc_activeProjectId s), activeWorkspace s) of
     (Some i, Some w) \<Rightarrow> find (\<lambda>p. pj_id p = i) (ws_projects w) | _ \<Rightarrow> None)"

definition activeRequestList :: "console \<Rightarrow> http_request list" where
  "activeRequestList s = (case activeProject s of
     Some p \<Rightarrow> pj_requests p
   | None \<Rightarrow> (case activeWorkspace s of Some w \<Rightarrow> ws_requests w | None \<Rightarrow> []))"

definition openRequestTabs :: "console \<Rightarrow> http_request list" where
  "openRequestTabs s = filter (\<lambda>r. rq_id r \<notin> hc_closedTabs s) (activeRequestList s)"

definition activeRequest :: "console \<Rightarrow> http_request option" where
  "activeRequest s = find (\<lambda>r. rq_id r = hc_activeRequestId s) (activeRequestList s)"

definition shareRequestOptions :: "console \<Rightarrow> share_option list" where
  "shareRequestOptions s = (case activeWorkspace s of Some w \<Rightarrow> collectShareRequestOptions w | None \<Rightarrow> [])"

definition available_share_ids :: "console \<Rightarrow> jsstr set" where
  "available_share_ids s = set (map so_id (shareRequestOptions s))"

definition selectedShareRequestIdsForWorkspace :: "console \<Rightarrow> jsstr set" where
  "selectedShareRequestIdsForWorkspace s = hc_selectedShare s \<inter> available_share_ids s"

definition shareJson :: "(json \<Rightarrow> jsstr) \<Rightarrow> jsstr \<Rightarrow> console \<Rightarrow> jsstr" where
  "shareJson print time s = (case activeWorkspace s of
     Some w \<Rightarrow> buildWorkspaceShareJson print time w (\<lambda>i. i \<in> selectedShareRequestIdsForWorkspace s) | None \<Rightarrow> [])"

definition activeVariableRows :: "console \<Rightarrow> scoped_rows" where
  "activeVariableRows s = (case activeWorkspace s of
     Some w \<Rightarrow> scopedVariableRows w (activeProject s) (activeEnvironment s) (activeRequest s)
   | None \<Rightarrow> \<lparr>sr_workspace = [], sr_project = [], sr_environment = [], sr_request = []\<rparr>)"

definition activeVariables :: "console \<Rightarrow> variables" where
  "activeVariables s = variableMapByScope (activeVariableRows s)"

section \<open>Small steps\<close>

definition reset_response :: "console \<Rightarrow> console" where
  "reset_response s = s\<lparr>hc_send := resetResponse (hc_send s)\<rparr>"

definition markRequestDirty :: "jsstr option \<Rightarrow> console \<Rightarrow> console" where
  "markRequestDirty requestId s =
     (case truthy requestId of
        Some i \<Rightarrow> if hc_storageReady s \<and> hc_tauri s then s\<lparr>hc_dirty := insert i (hc_dirty s)\<rparr> else s
      | None \<Rightarrow> s)"

definition open_tab :: "jsstr \<Rightarrow> console \<Rightarrow> console" where
  "open_tab i s = s\<lparr>hc_closedTabs := hc_closedTabs s - {i}\<rparr>"

definition on_workspace :: "jsstr \<Rightarrow> (http_workspace \<Rightarrow> http_workspace) \<Rightarrow> http_workspace list \<Rightarrow> http_workspace list" where
  "on_workspace i f ws = map (\<lambda>w. if ws_id w = i then f w else w) ws"

text \<open>The requests of a project, or those of the workspace itself when there is no project id.\<close>

definition on_requests ::
  "jsstr option \<Rightarrow> (http_request list \<Rightarrow> http_request list) \<Rightarrow> http_workspace \<Rightarrow> http_workspace" where
  "on_requests projectId f w =
     (case truthy projectId of
        Some i \<Rightarrow> w\<lparr>ws_projects := map (\<lambda>p. if pj_id p = i then p\<lparr>pj_requests := f (pj_requests p)\<rparr> else p) (ws_projects w)\<rparr>
      | None \<Rightarrow> w\<lparr>ws_requests := f (ws_requests w)\<rparr>)"

section \<open>Selection and tabs\<close>

definition selectWorkspace :: "http_workspace \<Rightarrow> console \<Rightarrow> console" where
  "selectWorkspace w s =
     (let firstRequestId = request_id_or_none (js_at (ws_requests w) 0);
          s = s\<lparr>hc_activeWorkspaceId := ws_id w, hc_activeProjectId := None, hc_activeRequestId := firstRequestId\<rparr>;
          s = (if firstRequestId \<noteq> [] then open_tab firstRequestId s else s)
      in reset_response (s\<lparr>hc_mainView := (if ws_requests w \<noteq> [] then RequestView else BlankView)\<rparr>))"

definition selectProject :: "http_project \<Rightarrow> console \<Rightarrow> console" where
  "selectProject p s =
     (let firstRequestId = request_id_or_none (js_at (pj_requests p) 0);
          s = s\<lparr>hc_activeProjectId := Some (pj_id p), hc_activeRequestId := firstRequestId\<rparr>;
          s = (if firstRequestId \<noteq> [] then open_tab firstRequestId s else s)
      in reset_response (s\<lparr>hc_mainView := (if pj_requests p \<noteq> [] then RequestView else BlankView)\<rparr>))"

definition selectRequest :: "jsstr option \<Rightarrow> jsstr \<Rightarrow> console \<Rightarrow> console" where
  "selectRequest projectId requestId s =
     reset_response (open_tab requestId
       (s\<lparr>hc_activeProjectId := projectId, hc_activeRequestId := requestId, hc_mainView := RequestView\<rparr>))"

definition openEnvironmentTab :: "console \<Rightarrow> console" where
  "openEnvironmentTab s = s\<lparr>hc_environmentTabOpen := True, hc_mainView := EnvironmentView\<rparr>"

definition selectAllShareRequests :: "console \<Rightarrow> console" where
  "selectAllShareRequests s = s\<lparr>hc_selectedShare := available_share_ids s\<rparr>"

definition clearShareRequestSelection :: "console \<Rightarrow> console" where
  "clearShareRequestSelection s = s\<lparr>hc_selectedShare := {}\<rparr>"

definition toggleShareRequestSelection :: "jsstr \<Rightarrow> console \<Rightarrow> console" where
  "toggleShareRequestSelection i s =
     s\<lparr>hc_selectedShare := (if i \<in> hc_selectedShare s then hc_selectedShare s - {i} else insert i (hc_selectedShare s))\<rparr>"

definition openShareTab :: "console \<Rightarrow> console" where
  "openShareTab s =
     (let visible = hc_selectedShare s \<inter> available_share_ids s
      in s\<lparr>hc_shareTabOpen := True, hc_shareView := ExportView, hc_mainView := ShareView, hc_shareError := None,
           hc_shareMessage := NoShareNotice,
           hc_selectedShare := (if visible \<noteq> {} then visible else available_share_ids s)\<rparr>)"

text \<open>The tab to show when the environments or the share tab is closed.\<close>

definition next_open_tab :: "console \<Rightarrow> http_request option" where
  "next_open_tab s = (case find (\<lambda>r. rq_id r = hc_activeRequestId s) (openRequestTabs s) of
     Some r \<Rightarrow> Some r | None \<Rightarrow> js_at (openRequestTabs s) 0)"

definition show_next :: "http_request option \<Rightarrow> main_view \<Rightarrow> console \<Rightarrow> console" where
  "show_next nextRequest otherwise s =
     (case nextRequest of
        Some r \<Rightarrow> s\<lparr>hc_activeRequestId := rq_id r, hc_mainView := RequestView\<rparr>
      | None \<Rightarrow> s\<lparr>hc_activeRequestId := [], hc_mainView := otherwise\<rparr>)"

definition closeEnvironmentTab :: "console \<Rightarrow> console" where
  "closeEnvironmentTab s =
     show_next (next_open_tab s) (if hc_shareTabOpen s then ShareView else BlankView) (s\<lparr>hc_environmentTabOpen := False\<rparr>)"

definition closeShareTab :: "console \<Rightarrow> console" where
  "closeShareTab s =
     show_next (next_open_tab s) (if hc_environmentTabOpen s then EnvironmentView else BlankView) (s\<lparr>hc_shareTabOpen := False\<rparr>)"

definition closeRequestTab :: "jsstr \<Rightarrow> console \<Rightarrow> console" where
  "closeRequestTab requestId s =
     (let currentOpenTabs = openRequestTabs s;
          closedIndex = js_findIndex (\<lambda>r. rq_id r = requestId) currentOpenTabs;
          remainingTabs = filter (\<lambda>r. rq_id r \<noteq> requestId) currentOpenTabs;
          nextRequest = (case js_at remainingTabs closedIndex of
            Some r \<Rightarrow> Some r | None \<Rightarrow> js_at remainingTabs (closedIndex - 1));
          s' = s\<lparr>hc_closedTabs := insert requestId (hc_closedTabs s)\<rparr>
      in if hc_mainView s = RequestView \<and> hc_activeRequestId s = requestId
         then reset_response (show_next nextRequest (if hc_environmentTabOpen s then EnvironmentView else BlankView) s')
         else s')"

section \<open>Creating and duplicating\<close>

definition newWorkspaceName :: jsstr where "newWorkspaceName = [0x65B0, 0x5EFA, 0x5DE5, 0x4F5C, 0x533A]"
definition newProjectName :: jsstr where "newProjectName = [0x65B0, 0x5EFA, 0x9879, 0x76EE]"
definition copySuffix :: jsstr where "copySuffix = [32, 0x526F, 0x672C]"

definition createWorkspace :: "id_source \<Rightarrow> jsstr \<Rightarrow> console \<Rightarrow> console" where
  "createWorkspace ids now s =
     (let (i, s) = draw (makeId ids ''ws'') s;
          name = uniqueName now (map ws_name (hc_workspaces s)) newWorkspaceName;
          w = \<lparr>ws_activeEnvironmentId = None, ws_environments = None, ws_id = i, ws_name = name, ws_projects = [],
               ws_requests = [], ws_variables = None\<rparr>
      in reset_response (s\<lparr>hc_workspaces := hc_workspaces s @ [w], hc_activeWorkspaceId := i, hc_activeProjectId := None,
           hc_activeRequestId := [], hc_mainView := BlankView,
           hc_editingNode := Some \<lparr>ed_id = i, ed_type = WorkspaceNode, ed_value = name\<rparr>, hc_contextMenu := False\<rparr>))"

text \<open>The workspace with the id, or the active one.\<close>

definition workspace_or_active :: "jsstr \<Rightarrow> console \<Rightarrow> http_workspace option" where
  "workspace_or_active i s = (case find (\<lambda>w. ws_id w = i) (hc_workspaces s) of Some w \<Rightarrow> Some w | None \<Rightarrow> activeWorkspace s)"

definition createProject :: "id_source \<Rightarrow> jsstr \<Rightarrow> jsstr \<Rightarrow> console \<Rightarrow> console" where
  "createProject ids now workspaceId s =
     (case workspace_or_active workspaceId s of
        None \<Rightarrow> s
      | Some w \<Rightarrow>
          (let (i, s) = draw (makeId ids ''project'') s;
               name = uniqueName now (map pj_name (ws_projects w)) newProjectName;
               p = \<lparr>pj_id = i, pj_name = name, pj_requests = [], pj_variables = None\<rparr>
           in reset_response (s\<lparr>hc_workspaces := on_workspace workspaceId (\<lambda>w. w\<lparr>ws_projects := ws_projects w @ [p]\<rparr>) (hc_workspaces s),
                hc_activeWorkspaceId := workspaceId, hc_activeProjectId := Some i, hc_activeRequestId := [],
                hc_mainView := BlankView, hc_editingNode := Some \<lparr>ed_id = i, ed_type = ProjectNode, ed_value = name\<rparr>,
                hc_contextMenu := False\<rparr>)))"

definition createRequest :: "id_source \<Rightarrow> jsstr \<Rightarrow> jsstr \<Rightarrow> jsstr option \<Rightarrow> console \<Rightarrow> console" where
  "createRequest ids now workspaceId projectId s =
     (case workspace_or_active workspaceId s of
        None \<Rightarrow> s
      | Some w \<Rightarrow>
          (let project = (case truthy projectId of
                 Some i \<Rightarrow> (case find (\<lambda>p. pj_id p = i) (ws_projects w) of
                     Some p \<Rightarrow> Some p | None \<Rightarrow> js_at (ws_projects w) 0)
               | None \<Rightarrow> None);
               siblingRequests = (case project of Some p \<Rightarrow> pj_requests p | None \<Rightarrow> ws_requests w);
               (request, s) = draw (createBlankRequest ids (uniqueName now (map rq_name siblingRequests) newRequestName)) s;
               s = s\<lparr>hc_workspaces := on_workspace workspaceId (on_requests projectId (\<lambda>rs. rs @ [request])) (hc_workspaces s),
                 hc_activeWorkspaceId := workspaceId, hc_activeProjectId := projectId, hc_activeRequestId := rq_id request\<rparr>;
               s = markRequestDirty (Some (rq_id request)) ((open_tab (rq_id request) s)\<lparr>hc_mainView := RequestView\<rparr>)
           in reset_response (s\<lparr>hc_editingNode := Some \<lparr>ed_id = rq_id request, ed_type = RequestNode, ed_value = rq_name request\<rparr>,
                hc_contextMenu := False\<rparr>)))"

text \<open>The requests beside one, as the handlers look them up: \<open>None\<close> when the workspace is gone.\<close>

definition siblings :: "jsstr \<Rightarrow> jsstr option \<Rightarrow> console \<Rightarrow> http_request list option" where
  "siblings workspaceId projectId s =
     map_option (\<lambda>w. case Option.bind (truthy projectId) (\<lambda>i. find (\<lambda>p. pj_id p = i) (ws_projects w)) of
         Some p \<Rightarrow> pj_requests p | None \<Rightarrow> ws_requests w)
       (find (\<lambda>w. ws_id w = workspaceId) (hc_workspaces s))"

definition copy_after :: "jsstr \<Rightarrow> http_request \<Rightarrow> http_request list \<Rightarrow> http_request list" where
  "copy_after requestId copy rs = concat (map (\<lambda>r. if rq_id r = requestId then [r, copy] else [r]) rs)"

definition duplicateRequest :: "id_source \<Rightarrow> jsstr \<Rightarrow> jsstr \<Rightarrow> jsstr option \<Rightarrow> jsstr \<Rightarrow> console \<Rightarrow> console" where
  "duplicateRequest ids now workspaceId projectId requestId s =
     (case siblings workspaceId projectId s of
        None \<Rightarrow> s
      | Some siblingRequests \<Rightarrow>
          (case find (\<lambda>r. rq_id r = requestId) siblingRequests of
             None \<Rightarrow> s
           | Some request \<Rightarrow>
               (let (i, s) = draw (makeId ids ''req'') s;
                    copy = request\<lparr>rq_id := i, rq_name := uniqueName now (map rq_name siblingRequests) (rq_name request @ copySuffix)\<rparr>;
                    s = s\<lparr>hc_workspaces := on_workspace workspaceId (on_requests projectId (copy_after requestId copy)) (hc_workspaces s),
                      hc_activeWorkspaceId := workspaceId, hc_activeProjectId := projectId, hc_activeRequestId := i\<rparr>
                in reset_response ((markRequestDirty (Some i) ((open_tab i s)\<lparr>hc_mainView := RequestView\<rparr>))\<lparr>hc_contextMenu := False\<rparr>))))"

section \<open>Renaming\<close>

definition beginRename :: "node_type \<Rightarrow> jsstr \<Rightarrow> jsstr \<Rightarrow> console \<Rightarrow> console" where
  "beginRename t i val s = s\<lparr>hc_editingNode := Some \<lparr>ed_id = i, ed_type = t, ed_value = val\<rparr>, hc_contextMenu := False\<rparr>"

definition rename_request :: "editing_node \<Rightarrow> jsstr \<Rightarrow> http_request \<Rightarrow> http_request" where
  "rename_request e name r = (if ed_type e = RequestNode \<and> rq_id r = ed_id e then r\<lparr>rq_name := name\<rparr> else r)"

definition rename_in :: "editing_node \<Rightarrow> jsstr \<Rightarrow> http_workspace \<Rightarrow> http_workspace" where
  "rename_in e name w =
     (if ed_type e = WorkspaceNode \<and> ws_id w = ed_id e then w\<lparr>ws_name := name\<rparr>
      else w\<lparr>ws_requests := map (rename_request e name) (ws_requests w),
             ws_projects := map (\<lambda>p. if ed_type e = ProjectNode \<and> pj_id p = ed_id e then p\<lparr>pj_name := name\<rparr>
               else p\<lparr>pj_requests := map (rename_request e name) (pj_requests p)\<rparr>) (ws_projects w)\<rparr>)"

definition commitRename :: "console \<Rightarrow> console" where
  "commitRename s =
     (case hc_editingNode s of
        None \<Rightarrow> s
      | Some e \<Rightarrow>
          (let nextName = js_trim (ed_value e)
           in if nextName = [] then s\<lparr>hc_editingNode := None\<rparr>
              else (markRequestDirty (if ed_type e = RequestNode then Some (ed_id e) else None)
                (s\<lparr>hc_workspaces := map (rename_in e nextName) (hc_workspaces s)\<rparr>))\<lparr>hc_editingNode := None\<rparr>))"

section \<open>Deleting\<close>

definition requestDeleteWorkspace :: "jsstr \<Rightarrow> console \<Rightarrow> console" where
  "requestDeleteWorkspace workspaceId s =
     (if length (hc_workspaces s) \<le> 1 then s
      else (case find (\<lambda>w. ws_id w = workspaceId) (hc_workspaces s) of
              None \<Rightarrow> s
            | Some w \<Rightarrow> s\<lparr>hc_contextMenu := False, hc_deleteConfirm := Some (DeleteWorkspace (ws_name w) workspaceId)\<rparr>))"

definition deleteWorkspace :: "jsstr \<Rightarrow> console \<Rightarrow> console" where
  "deleteWorkspace workspaceId s =
     (if length (hc_workspaces s) \<le> 1 then s
      else (case find (\<lambda>w. ws_id w = workspaceId) (hc_workspaces s) of
              None \<Rightarrow> s
            | Some w \<Rightarrow>
                (let workspaceIndex = js_findIndex (\<lambda>w. ws_id w = workspaceId) (hc_workspaces s);
                     nextWorkspace = (case js_at (hc_workspaces s) (if workspaceIndex = 0 then 1 else workspaceIndex - 1) of
                       Some v \<Rightarrow> Some v | None \<Rightarrow> js_at (hc_workspaces s) 0);
                     s' = s\<lparr>hc_workspaces := filter (\<lambda>w. ws_id w \<noteq> workspaceId) (hc_workspaces s), hc_contextMenu := False\<rparr>
                 in case (activeWorkspace s, nextWorkspace) of
                      (Some a, Some v) \<Rightarrow> if ws_id a = workspaceId then selectWorkspace v s' else s'
                    | _ \<Rightarrow> s')))"

text \<open>The project with an id in a workspace with an id.\<close>

definition find_project :: "jsstr \<Rightarrow> jsstr \<Rightarrow> console \<Rightarrow> (http_workspace \<times> http_project) option" where
  "find_project workspaceId projectId s =
     Option.bind (find (\<lambda>w. ws_id w = workspaceId) (hc_workspaces s))
       (\<lambda>w. map_option (\<lambda>p. (w, p)) (find (\<lambda>p. pj_id p = projectId) (ws_projects w)))"

definition requestDeleteProject :: "jsstr \<Rightarrow> jsstr \<Rightarrow> console \<Rightarrow> console" where
  "requestDeleteProject workspaceId projectId s =
     (case find_project workspaceId projectId s of
        None \<Rightarrow> s
      | Some (w, p) \<Rightarrow> s\<lparr>hc_contextMenu := False, hc_deleteConfirm := Some (DeleteProject (pj_name p) projectId workspaceId)\<rparr>)"

definition deleteProject :: "jsstr \<Rightarrow> jsstr \<Rightarrow> console \<Rightarrow> console" where
  "deleteProject workspaceId projectId s =
     (case find_project workspaceId projectId s of
        None \<Rightarrow> s
      | Some (w, p) \<Rightarrow>
          (let s' = s\<lparr>hc_workspaces := on_workspace workspaceId
                 (\<lambda>w. w\<lparr>ws_projects := filter (\<lambda>p. pj_id p \<noteq> projectId) (ws_projects w)\<rparr>) (hc_workspaces s), hc_contextMenu := False\<rparr>
           in if map_option ws_id (activeWorkspace s) = Some workspaceId \<and> map_option pj_id (activeProject s) = Some projectId
              then reset_response (s'\<lparr>hc_activeProjectId := None, hc_activeRequestId := request_id_or_none (js_at (ws_requests w) 0)\<rparr>)
              else s'))"

definition requestDeleteRequest :: "jsstr \<Rightarrow> jsstr option \<Rightarrow> jsstr \<Rightarrow> console \<Rightarrow> console" where
  "requestDeleteRequest workspaceId projectId requestId s =
     (case Option.bind (siblings workspaceId projectId s) (find (\<lambda>r. rq_id r = requestId)) of
        None \<Rightarrow> s
      | Some r \<Rightarrow> s\<lparr>hc_contextMenu := False, hc_deleteConfirm := Some (DeleteRequest (rq_name r) projectId requestId workspaceId)\<rparr>)"

definition deleteRequest :: "jsstr \<Rightarrow> jsstr option \<Rightarrow> jsstr \<Rightarrow> console \<Rightarrow> console" where
  "deleteRequest workspaceId projectId requestId s =
     (case siblings workspaceId projectId s of
        None \<Rightarrow> s
      | Some siblingRequests \<Rightarrow>
          if find (\<lambda>r. rq_id r = requestId) siblingRequests = None then s
          else
            (let requestIndex = js_findIndex (\<lambda>r. rq_id r = requestId) siblingRequests;
                 nextRequest = js_at (filter (\<lambda>r. rq_id r \<noteq> requestId) siblingRequests)
                   (if requestIndex = 0 then 0 else requestIndex - 1);
                 s' = s\<lparr>hc_workspaces := on_workspace workspaceId (on_requests projectId (filter (\<lambda>r. rq_id r \<noteq> requestId))) (hc_workspaces s),
                   hc_contextMenu := False, hc_closedTabs := hc_closedTabs s - {requestId}, hc_dirty := hc_dirty s - {requestId}\<rparr>
             in if map_option ws_id (activeWorkspace s) = Some workspaceId \<and> map_option pj_id (activeProject s) = projectId
                   \<and> map_option rq_id (activeRequest s) = Some requestId
                then reset_response (s'\<lparr>hc_activeRequestId := request_id_or_none nextRequest,
                  hc_mainView := (if nextRequest \<noteq> None then RequestView
                    else if hc_environmentTabOpen s then EnvironmentView
                    else if hc_shareTabOpen s then ShareView else BlankView)\<rparr>)
                else s'))"

end
