(* ===== verification/HttpDrag.thy ===== *)
theory HttpDrag
  imports HttpTree
begin

text \<open>
  Dragging projects and requests in the tree of the HTTP console
  (\<^verbatim>\<open>src/features/http/HttpConsolePanel.tsx\<close>, the types in \<^verbatim>\<open>HttpTreeItem.tsx\<close>). What the page says about
  the pointer (the row under it, the half of the row it is in) comes with the events.
\<close>

section \<open>Drags and targets\<close>

datatype drag_type = DragProject | DragRequest

datatype drop_type = DropWorkspace | DropProject | DropRequest

datatype drop_position = DropBefore | DropAfter | DropInside

record drag_payload =
  dg_nodeId :: jsstr
  dg_projectId :: "jsstr option"
  dg_type :: drag_type
  dg_workspaceId :: jsstr

record drop_base =
  dt_projectId :: "jsstr option"
  dt_requestId :: "jsstr option"
  dt_type :: drop_type
  dt_workspaceId :: jsstr

record drop_target = drop_base +
  dt_position :: drop_position

record pointer_drag =
  pd_active :: bool
  pd_drag :: drag_payload
  pd_pointerId :: int
  pd_startX :: rat
  pd_startY :: rat

record tree_drag =
  td_console :: console
  td_draggedRef :: "drag_payload option"
  td_dragged :: "drag_payload option"
  td_preview :: "(drag_payload \<times> rat \<times> rat) option"
  td_target :: "drop_target option"
  td_pointer :: "pointer_drag option"
  td_listening :: bool
  td_suppressClick :: bool

definition canDropTreeNode :: "drag_payload option \<Rightarrow> drop_target \<Rightarrow> bool" where
  "canDropTreeNode drag target =
     (case drag of
        None \<Rightarrow> False
      | Some d \<Rightarrow>
          if dg_workspaceId d \<noteq> dt_workspaceId target then False
          else if dg_type d = DragProject then
            dt_type target = DropWorkspace \<or> (dt_type target = DropProject \<and> dt_projectId target \<noteq> Some (dg_nodeId d))
          else if dt_type target = DropRequest \<and> dt_requestId target = Some (dg_nodeId d) then False
          else dt_type target = DropWorkspace \<or> dt_type target = DropProject \<or> dt_type target = DropRequest)"

text \<open>\<open>upper\<close>: the pointer is in the upper half of the row.\<close>

definition treeDropPositionFromEvent :: "bool \<Rightarrow> drop_position" where
  "treeDropPositionFromEvent upper = (if upper then DropBefore else DropAfter)"

definition with_position :: "drop_position \<Rightarrow> drop_base \<Rightarrow> drop_target" where
  "with_position p t = drop_base.extend t \<lparr>dt_position = p\<rparr>"

definition drop_position_for :: "drag_payload option \<Rightarrow> bool \<Rightarrow> drop_base \<Rightarrow> drop_position" where
  "drop_position_for drag upper t =
     (if dt_type t = DropRequest \<or> (dt_type t = DropProject \<and> map_option dg_type drag = Some DragProject)
      then treeDropPositionFromEvent upper else DropInside)"

text \<open>\<open>raw\<close> is the parsed payload of the event, or \<open>None\<close> when there is none or it does not parse.\<close>

definition readTreeDragPayload :: "drag_payload option \<Rightarrow> tree_drag \<Rightarrow> drag_payload option" where
  "readTreeDragPayload raw s = (case raw of Some d \<Rightarrow> Some d | None \<Rightarrow>
     (case td_draggedRef s of Some d \<Rightarrow> Some d | None \<Rightarrow> td_dragged s))"

definition resolveTreeDropTarget :: "drag_payload option \<Rightarrow> bool \<Rightarrow> drop_base \<Rightarrow> drop_target option" where
  "resolveTreeDropTarget drag upper t =
     (let resolvedTarget = with_position (drop_position_for drag upper t) t
      in if canDropTreeNode drag resolvedTarget then Some resolvedTarget else None)"

section \<open>Moving\<close>

definition move_project_in :: "drag_payload \<Rightarrow> drop_target \<Rightarrow> http_workspace \<Rightarrow> http_workspace" where
  "move_project_in drag target w =
     (case find (\<lambda>p. pj_id p = dg_nodeId drag) (ws_projects w) of
        None \<Rightarrow> w
      | Some sourceProject \<Rightarrow>
          (let nextProjects = filter (\<lambda>p. pj_id p \<noteq> dg_nodeId drag) (ws_projects w)
           in case (if dt_type target = DropProject then truthy (dt_projectId target) else None) of
                Some i \<Rightarrow>
                  (let targetIndex = js_findIndex (\<lambda>p. pj_id p = i) nextProjects
                   in if targetIndex = -1 then w
                      else w\<lparr>ws_projects := insert_at
                        (nat (if dt_position target = DropAfter then targetIndex + 1 else targetIndex)) sourceProject nextProjects\<rparr>)
              | None \<Rightarrow> w\<lparr>ws_projects := nextProjects @ [sourceProject]\<rparr>))"

definition moveProject :: "drag_payload \<Rightarrow> drop_target \<Rightarrow> console \<Rightarrow> console" where
  "moveProject drag target s =
     (if dg_type drag \<noteq> DragProject then s
      else s\<lparr>hc_workspaces := on_workspace (dg_workspaceId drag) (move_project_in drag target) (hc_workspaces s),
             hc_contextMenu := False\<rparr>)"

text \<open>
  The list of requests the code finds for a project id (the first project with it), and the workspace
  with this list changed: the code changes copies of the lists in place, so that the list a request is
  taken from may be the one it is put into.
\<close>

definition request_list :: "jsstr option \<Rightarrow> http_workspace \<Rightarrow> http_request list option" where
  "request_list projectId w = (case truthy projectId of
     Some i \<Rightarrow> map_option pj_requests (find (\<lambda>p. pj_id p = i) (ws_projects w))
   | None \<Rightarrow> Some (ws_requests w))"

fun update_first :: "('a \<Rightarrow> bool) \<Rightarrow> ('a \<Rightarrow> 'a) \<Rightarrow> 'a list \<Rightarrow> 'a list" where
  "update_first P f [] = []"
| "update_first P f (x # xs) = (if P x then f x # xs else x # update_first P f xs)"

definition set_request_list :: "jsstr option \<Rightarrow> http_request list \<Rightarrow> http_workspace \<Rightarrow> http_workspace" where
  "set_request_list projectId rs w = (case truthy projectId of
     Some i \<Rightarrow> w\<lparr>ws_projects := update_first (\<lambda>p. pj_id p = i) (\<lambda>p. p\<lparr>pj_requests := rs\<rparr>) (ws_projects w)\<rparr>
   | None \<Rightarrow> w\<lparr>ws_requests := rs\<rparr>)"

definition target_index :: "drop_target \<Rightarrow> http_request list \<Rightarrow> nat" where
  "target_index target targetList =
     (case (if dt_type target = DropRequest then truthy (dt_requestId target) else None) of
        Some i \<Rightarrow>
          (let matchedIndex = js_findIndex (\<lambda>r. rq_id r = i) targetList
           in if matchedIndex = -1 then length targetList
              else nat (matchedIndex + (if dt_position target = DropAfter then 1 else 0)))
      | None \<Rightarrow> length targetList)"

definition target_project :: "drop_target \<Rightarrow> jsstr option" where
  "target_project target = (if dt_type target = DropWorkspace then None else dt_projectId target)"

definition move_request_in :: "drag_payload \<Rightarrow> drop_target \<Rightarrow> http_workspace \<Rightarrow> http_workspace" where
  "move_request_in drag target w =
     (case (request_list (dg_projectId drag) w, request_list (target_project target) w) of
        (Some sourceList, Some _) \<Rightarrow>
          (let sourceIndex = js_findIndex (\<lambda>r. rq_id r = dg_nodeId drag) sourceList
           in if sourceIndex = -1 then w
              else
                (let sourceRequest = sourceList ! nat sourceIndex;
                     taken = set_request_list (dg_projectId drag) (remove_at (nat sourceIndex) sourceList) w
                 in case request_list (target_project target) taken of
                      None \<Rightarrow> w
                    | Some targetList \<Rightarrow> set_request_list (target_project target)
                        (insert_at (target_index target targetList) sourceRequest targetList) taken))
      | _ \<Rightarrow> w)"

definition moveRequest :: "drag_payload \<Rightarrow> drop_target \<Rightarrow> console \<Rightarrow> console" where
  "moveRequest drag target s =
     (if dg_type drag \<noteq> DragRequest then s
      else reset_response (s\<lparr>hc_workspaces := on_workspace (dg_workspaceId drag) (move_request_in drag target) (hc_workspaces s),
        hc_activeWorkspaceId := dg_workspaceId drag, hc_activeProjectId := target_project target,
        hc_activeRequestId := dg_nodeId drag, hc_mainView := RequestView, hc_contextMenu := False\<rparr>))"

definition move_node :: "drag_payload \<Rightarrow> drop_target \<Rightarrow> tree_drag \<Rightarrow> tree_drag" where
  "move_node drag target s = s\<lparr>td_console :=
     (if dg_type drag = DragProject then moveProject drag target (td_console s) else moveRequest drag target (td_console s))\<rparr>"

section \<open>Drag and drop events\<close>

definition startTreeDrag :: "drag_payload \<Rightarrow> tree_drag \<Rightarrow> tree_drag" where
  "startTreeDrag drag s = s\<lparr>td_draggedRef := Some drag, td_dragged := Some drag, td_target := None,
     td_console := (td_console s)\<lparr>hc_contextMenu := False\<rparr>\<rparr>"

definition updateTreeDropTarget :: "drag_payload option \<Rightarrow> bool \<Rightarrow> drop_base \<Rightarrow> tree_drag \<Rightarrow> tree_drag" where
  "updateTreeDropTarget raw upper t s =
     (case resolveTreeDropTarget (readTreeDragPayload raw s) upper t of None \<Rightarrow> s | Some r \<Rightarrow> s\<lparr>td_target := Some r\<rparr>)"

definition clearTreeDrag :: "tree_drag \<Rightarrow> tree_drag" where
  "clearTreeDrag s = s\<lparr>td_draggedRef := None, td_pointer := None, td_dragged := None, td_preview := None, td_target := None\<rparr>"

definition dropTreeNode :: "drag_payload option \<Rightarrow> bool \<Rightarrow> drop_base \<Rightarrow> tree_drag \<Rightarrow> tree_drag" where
  "dropTreeNode raw upper t s =
     (case (readTreeDragPayload raw s, resolveTreeDropTarget (readTreeDragPayload raw s) upper t) of
        (Some drag, Some resolvedTarget) \<Rightarrow> clearTreeDrag (move_node drag resolvedTarget s)
      | _ \<Rightarrow> clearTreeDrag s)"

text \<open>\<open>row\<close> is the row under the pointer, with its half, if the element there belongs to one.\<close>

definition resolvePointerTreeDropTarget :: "(drop_base \<times> bool) option \<Rightarrow> drag_payload \<Rightarrow> drop_target option" where
  "resolvePointerTreeDropTarget row drag =
     (case row of
        None \<Rightarrow> None
      | Some (t, upper) \<Rightarrow>
          if dt_workspaceId t = [] then None
          else
            (let target = with_position
                   (if dt_type t = DropRequest \<or> (dt_type t = DropProject \<and> dg_type drag = DragProject)
                    then (if upper then DropBefore else DropAfter) else DropInside)
                   (t\<lparr>dt_projectId := truthy (dt_projectId t)\<rparr>)
             in if canDropTreeNode (Some drag) target then Some target else None))"

definition startTreePointerDrag :: "bool \<Rightarrow> int \<Rightarrow> rat \<Rightarrow> rat \<Rightarrow> drag_payload \<Rightarrow> tree_drag \<Rightarrow> tree_drag" where
  "startTreePointerDrag main_button pointerId x y drag s =
     (if \<not> main_button \<or> map_option ed_id (hc_editingNode (td_console s)) = Some (dg_nodeId drag) then s
      else s\<lparr>td_pointer := Some \<lparr>pd_active = False, pd_drag = drag, pd_pointerId = pointerId, pd_startX = x, pd_startY = y\<rparr>,
             td_draggedRef := Some drag, td_target := None, td_console := (td_console s)\<lparr>hc_contextMenu := False\<rparr>,
             td_listening := True\<rparr>)"

text \<open>The distance is below 4 exactly when its square is below 16.\<close>

definition moveTreePointerDrag :: "int \<Rightarrow> rat \<Rightarrow> rat \<Rightarrow> (drop_base \<times> bool) option \<Rightarrow> tree_drag \<Rightarrow> tree_drag" where
  "moveTreePointerDrag pointerId x y row s =
     (case td_pointer s of
        None \<Rightarrow> s
      | Some p \<Rightarrow>
          if pd_pointerId p \<noteq> pointerId then s
          else if \<not> pd_active p \<and> (x - pd_startX p) * (x - pd_startX p) + (y - pd_startY p) * (y - pd_startY p) < 16 then s
          else
            (let s = (if \<not> pd_active p then s\<lparr>td_pointer := Some (p\<lparr>pd_active := True\<rparr>), td_draggedRef := Some (pd_drag p),
                       td_dragged := Some (pd_drag p)\<rparr> else s)
             in s\<lparr>td_preview := Some (pd_drag p, x, y), td_target := resolvePointerTreeDropTarget row (pd_drag p)\<rparr>))"

definition finishTreePointerDrag :: "(drop_base \<times> bool) option \<Rightarrow> tree_drag \<Rightarrow> tree_drag" where
  "finishTreePointerDrag row s =
     (let s = s\<lparr>td_listening := False\<rparr>
      in case td_pointer s of
           None \<Rightarrow> clearTreeDrag s
         | Some p \<Rightarrow>
             (let target = (if pd_active p then
                    (case resolvePointerTreeDropTarget row (pd_drag p) of Some t \<Rightarrow> Some t | None \<Rightarrow> td_target s) else None)
              in case target of
                   Some t \<Rightarrow> if canDropTreeNode (Some (pd_drag p)) t
                     then clearTreeDrag (move_node (pd_drag p) t (s\<lparr>td_suppressClick := True\<rparr>)) else clearTreeDrag s
                 | None \<Rightarrow> clearTreeDrag s))"

definition cancelTreePointerDrag :: "tree_drag \<Rightarrow> tree_drag" where
  "cancelTreePointerDrag s = clearTreeDrag (s\<lparr>td_listening := False\<rparr>)"

text \<open>The timeout after a drop, and a click on a row: whether it is swallowed.\<close>

definition click_allowed_again :: "tree_drag \<Rightarrow> tree_drag" where
  "click_allowed_again s = s\<lparr>td_suppressClick := False\<rparr>"

definition ignoreTreeClickAfterDrag :: "tree_drag \<Rightarrow> bool" where
  "ignoreTreeClickAfterDrag s = td_suppressClick s"

end
