(* ===== verification/HttpEditor.thy ===== *)
theory HttpEditor
  imports HttpTree
begin

text \<open>
  The editors of the HTTP console (\<^verbatim>\<open>src/features/http/HttpConsolePanel.tsx\<close>): changes of the active
  request and workspace, environments and variables, the rows of a request and their files, import and
  export, the deletion that was confirmed, loading and saving, and sending.
\<close>

section \<open>The active request and workspace\<close>

text \<open>A patch is the function that writes its properties.\<close>

definition patch_request :: "jsstr \<Rightarrow> (http_request \<Rightarrow> http_request) \<Rightarrow> http_request list \<Rightarrow> http_request list" where
  "patch_request i f rs = map (\<lambda>r. if rq_id r = i then f r else r) rs"

definition updateActiveRequest :: "(http_request \<Rightarrow> http_request) \<Rightarrow> console \<Rightarrow> console" where
  "updateActiveRequest f s =
     (case (activeRequest s, activeWorkspace s) of
        (Some r, Some w) \<Rightarrow>
          (markRequestDirty (Some (rq_id r)) s)\<lparr>hc_workspaces :=
             on_workspace (ws_id w) (on_requests (map_option pj_id (activeProject s)) (patch_request (rq_id r) f)) (hc_workspaces s)\<rparr>
      | _ \<Rightarrow> s)"

definition updateActiveAuth :: "(http_auth \<Rightarrow> http_auth) \<Rightarrow> console \<Rightarrow> console" where
  "updateActiveAuth f s =
     (case activeRequest s of
        None \<Rightarrow> s
      | Some r \<Rightarrow> updateActiveRequest (\<lambda>q. q\<lparr>rq_auth := f (rq_auth r)\<rparr>) s)"

definition updateActiveWorkspace :: "id_source \<Rightarrow> (http_workspace \<Rightarrow> http_workspace) \<Rightarrow> console \<Rightarrow> console" where
  "updateActiveWorkspace ids f s =
     (case activeWorkspace s of
        None \<Rightarrow> s
      | Some a \<Rightarrow>
          (let (ws, s) = draw (gen_list (map (\<lambda>w. if ws_id w = ws_id a then normalizeWorkspace ids (f w)
                 else State_Monad.return w) (hc_workspaces s))) s
           in s\<lparr>hc_workspaces := ws\<rparr>))"

section \<open>Environments\<close>

definition newEnvironmentName :: jsstr where "newEnvironmentName = [0x65B0, 0x73AF, 0x5883]"

definition setActiveEnvironment :: "id_source \<Rightarrow> jsstr \<Rightarrow> console \<Rightarrow> console" where
  "setActiveEnvironment ids environmentId = updateActiveWorkspace ids (\<lambda>w. w\<lparr>ws_activeEnvironmentId := Some environmentId\<rparr>)"

definition createEnvironment :: "id_source \<Rightarrow> jsstr \<Rightarrow> console \<Rightarrow> console" where
  "createEnvironment ids now s =
     (let environments = workspaceEnvironments s;
          (i, s) = draw (makeId ids ''env'') s;
          e = \<lparr>env_id = i, env_name = uniqueName now (map env_name environments) newEnvironmentName, env_variables = []\<rparr>
      in updateActiveWorkspace ids (\<lambda>w. w\<lparr>ws_activeEnvironmentId := Some i, ws_environments := Some (environments @ [e])\<rparr>) s)"

definition on_environment :: "jsstr \<Rightarrow> (http_environment \<Rightarrow> http_environment) \<Rightarrow> http_environment list \<Rightarrow> http_environment list" where
  "on_environment i f es = map (\<lambda>e. if env_id e = i then f e else e) es"

definition renameActiveEnvironment :: "id_source \<Rightarrow> jsstr \<Rightarrow> console \<Rightarrow> console" where
  "renameActiveEnvironment ids name s =
     (case activeEnvironment s of
        None \<Rightarrow> s
      | Some e \<Rightarrow> updateActiveWorkspace ids (\<lambda>w. w\<lparr>ws_environments :=
          Some (on_environment (env_id e) (\<lambda>e. e\<lparr>env_name := name\<rparr>) (workspaceEnvironments s))\<rparr>) s)"

definition requestDeleteActiveEnvironment :: "console \<Rightarrow> console" where
  "requestDeleteActiveEnvironment s =
     (case activeEnvironment s of
        None \<Rightarrow> s
      | Some e \<Rightarrow> if length (workspaceEnvironments s) \<le> 1 then s
          else s\<lparr>hc_deleteConfirm := Some (DeleteEnvironment (env_id e) (env_name e))\<rparr>)"

definition deleteEnvironment :: "id_source \<Rightarrow> jsstr \<Rightarrow> console \<Rightarrow> console" where
  "deleteEnvironment ids environmentId s =
     (if length (workspaceEnvironments s) \<le> 1 \<or> find (\<lambda>e. env_id e = environmentId) (workspaceEnvironments s) = None then s
      else (let nextEnvironments = filter (\<lambda>e. env_id e \<noteq> environmentId) (workspaceEnvironments s)
            in updateActiveWorkspace ids (\<lambda>w. w\<lparr>ws_activeEnvironmentId := map_option env_id (js_at nextEnvironments 0),
                 ws_environments := Some nextEnvironments\<rparr>) s))"

definition updateEnvironmentVariables :: "id_source \<Rightarrow> jsstr \<Rightarrow> kv_entry list \<Rightarrow> console \<Rightarrow> console" where
  "updateEnvironmentVariables ids environmentId rows s =
     updateActiveWorkspace ids (\<lambda>w. w\<lparr>ws_environments :=
       Some (on_environment environmentId (\<lambda>e. e\<lparr>env_variables := rows\<rparr>) (workspaceEnvironments s))\<rparr>) s"

definition confirmDeleteTarget :: "id_source \<Rightarrow> console \<Rightarrow> console" where
  "confirmDeleteTarget ids s =
     (case hc_deleteConfirm s of
        None \<Rightarrow> s
      | Some target \<Rightarrow>
          (let s = s\<lparr>hc_deleteConfirm := None\<rparr>
           in case target of
                DeleteWorkspace name workspaceId \<Rightarrow> deleteWorkspace workspaceId s
              | DeleteProject name projectId workspaceId \<Rightarrow> deleteProject workspaceId projectId s
              | DeleteRequest name projectId requestId workspaceId \<Rightarrow> deleteRequest workspaceId projectId requestId s
              | DeleteEnvironment environmentId name \<Rightarrow> deleteEnvironment ids environmentId s))"

section \<open>Variables\<close>

definition variableScopeAvailable :: "variable_scope \<Rightarrow> console \<Rightarrow> bool" where
  "variableScopeAvailable scope s =
     (case scope of
        ScopeProject \<Rightarrow> activeProject s \<noteq> None
      | ScopeRequest \<Rightarrow> activeRequest s \<noteq> None
      | ScopeEnvironment \<Rightarrow> activeEnvironment s \<noteq> None
      | ScopeWorkspace \<Rightarrow> True)"

definition updateVariableRowsForScope :: "id_source \<Rightarrow> variable_scope \<Rightarrow> kv_entry list \<Rightarrow> console \<Rightarrow> console" where
  "updateVariableRowsForScope ids scope rows s =
     (let nextRows = trimTrailingBlankRows rows
      in case scope of
           ScopeWorkspace \<Rightarrow> updateActiveWorkspace ids (\<lambda>w. w\<lparr>ws_variables := Some nextRows\<rparr>) s
         | ScopeEnvironment \<Rightarrow> (case activeEnvironment s of
             Some e \<Rightarrow> updateEnvironmentVariables ids (env_id e) nextRows s | None \<Rightarrow> s)
         | ScopeProject \<Rightarrow> (case (activeProject s, activeWorkspace s) of
             (Some p, Some a) \<Rightarrow> updateActiveWorkspace ids (\<lambda>w. w\<lparr>ws_projects :=
               map (\<lambda>q. if pj_id q = pj_id p then q\<lparr>pj_variables := Some nextRows\<rparr> else q) (ws_projects a)\<rparr>) s
           | _ \<Rightarrow> s)
         | ScopeRequest \<Rightarrow> (if activeRequest s \<noteq> None
             then updateActiveRequest (\<lambda>q. q\<lparr>rq_tempVariables := Some nextRows\<rparr>) s else s))"

definition resetVariableDraft :: "variable_scope \<Rightarrow> console \<Rightarrow> console" where
  "resetVariableDraft scope s =
     s\<lparr>hc_variableDrafts := (hc_variableDrafts s)(scope := createBlankRow\<lparr>kv_enabled := False\<rparr>)\<rparr>"

definition updateVariableDraft :: "variable_scope \<Rightarrow> (kv_entry \<Rightarrow> kv_entry) \<Rightarrow> console \<Rightarrow> console" where
  "updateVariableDraft scope f s =
     s\<lparr>hc_variableDrafts := (hc_variableDrafts s)(scope := (f (hc_variableDrafts s scope))\<lparr>kv_enabled := False\<rparr>)\<rparr>"

definition commitVariableDraft :: "id_source \<Rightarrow> variable_scope \<Rightarrow> console \<Rightarrow> console" where
  "commitVariableDraft ids scope s =
     (if \<not> variableScopeAvailable scope s then s
      else (let draft = hc_variableDrafts s scope
            in if \<not> hasKeyValueContent draft then resetVariableDraft scope s
               else resetVariableDraft scope (updateVariableRowsForScope ids scope
                 (trimTrailingBlankRows (rows_of (activeVariableRows s) scope) @ [draft\<lparr>kv_enabled := True\<rparr>]) s)))"

text \<open>A row of a list, changed by index; the index is not negative.\<close>

definition patch_row :: "nat \<Rightarrow> (kv_entry \<Rightarrow> kv_entry) \<Rightarrow> kv_entry list \<Rightarrow> kv_entry list" where
  "patch_row i f rows = (if i < length rows then rows[i := f (rows ! i)] else rows)"

definition without_row :: "nat \<Rightarrow> kv_entry list \<Rightarrow> kv_entry list" where
  "without_row i rows = take i rows @ drop (Suc i) rows"

definition updateScopedVariable :: "id_source \<Rightarrow> variable_scope \<Rightarrow> nat \<Rightarrow> (kv_entry \<Rightarrow> kv_entry) \<Rightarrow> console \<Rightarrow> console" where
  "updateScopedVariable ids scope i f s =
     (if \<not> variableScopeAvailable scope s then s
      else (let rows = trimTrailingBlankRows (rows_of (activeVariableRows s) scope)
            in if i \<ge> length rows then updateVariableDraft scope f s
               else updateVariableRowsForScope ids scope (patch_row i f rows) s))"

definition removeScopedVariable :: "id_source \<Rightarrow> variable_scope \<Rightarrow> nat \<Rightarrow> console \<Rightarrow> console" where
  "removeScopedVariable ids scope i s =
     (if \<not> variableScopeAvailable scope s then s
      else updateVariableRowsForScope ids scope (without_row i (trimTrailingBlankRows (rows_of (activeVariableRows s) scope))) s)"

section \<open>Rows of a request\<close>

fun request_rows :: "row_field \<Rightarrow> http_request \<Rightarrow> kv_entry list" where
  "request_rows FormBodyRows r = rq_formBody r"
| "request_rows HeaderRows r = rq_headers r"
| "request_rows ParamRows r = rq_params r"

fun set_request_rows :: "row_field \<Rightarrow> kv_entry list \<Rightarrow> http_request \<Rightarrow> http_request" where
  "set_request_rows FormBodyRows rows r = r\<lparr>rq_formBody := rows\<rparr>"
| "set_request_rows HeaderRows rows r = r\<lparr>rq_headers := rows\<rparr>"
| "set_request_rows ParamRows rows r = r\<lparr>rq_params := rows\<rparr>"

definition resetRequestDraft :: "row_field \<Rightarrow> console \<Rightarrow> console" where
  "resetRequestDraft field s = s\<lparr>hc_requestDrafts := (hc_requestDrafts s)(field := emptyRequestDraftRows field)\<rparr>"

definition updateRequestDraft :: "row_field \<Rightarrow> (kv_entry \<Rightarrow> kv_entry) \<Rightarrow> console \<Rightarrow> console" where
  "updateRequestDraft field f s =
     s\<lparr>hc_requestDrafts := (hc_requestDrafts s)(field := (f (hc_requestDrafts s field))\<lparr>kv_enabled := False\<rparr>)\<rparr>"

definition updateRequestRows :: "row_field \<Rightarrow> kv_entry list \<Rightarrow> console \<Rightarrow> console" where
  "updateRequestRows field rows s = updateActiveRequest (set_request_rows field rows) s"

definition commitRequestDraft :: "row_field \<Rightarrow> console \<Rightarrow> console" where
  "commitRequestDraft field s =
     (case activeRequest s of
        None \<Rightarrow> s
      | Some r \<Rightarrow>
          (let draft = hc_requestDrafts s field
           in if \<not> hasKeyValueContent draft then resetRequestDraft field s
              else resetRequestDraft field (updateRequestRows field
                (trimTrailingBlankRows (request_rows field r) @ [draft\<lparr>kv_enabled := True\<rparr>]) s)))"

definition updateRequestRow :: "row_field \<Rightarrow> nat \<Rightarrow> (kv_entry \<Rightarrow> kv_entry) \<Rightarrow> console \<Rightarrow> console" where
  "updateRequestRow field i f s =
     (case activeRequest s of
        None \<Rightarrow> s
      | Some r \<Rightarrow>
          (let rows = trimTrailingBlankRows (request_rows field r)
           in if i \<ge> length rows then updateRequestDraft field f s
              else updateRequestRows field (trimTrailingBlankRows (patch_row i f rows)) s))"

definition forgetFormFile :: "kv_entry option \<Rightarrow> console \<Rightarrow> console" where
  "forgetFormFile row s =
     (case truthy (Option.bind row kv_localFileId) of
        Some i \<Rightarrow> s\<lparr>hc_formFiles := (hc_formFiles s)(i := None)\<rparr>
      | None \<Rightarrow> s)"

text \<open>The row of the form at an index: the draft behind the last one.\<close>

definition form_row :: "nat \<Rightarrow> http_request \<Rightarrow> console \<Rightarrow> kv_entry" where
  "form_row i r s = (let rows = trimTrailingBlankRows (rq_formBody r)
     in if i \<ge> length rows then hc_requestDrafts s FormBodyRows else rows ! i)"

definition setFormRowValueType :: "nat \<Rightarrow> form_value_type \<Rightarrow> console \<Rightarrow> console" where
  "setFormRowValueType i t s =
     (case activeRequest s of
        None \<Rightarrow> s
      | Some r \<Rightarrow> updateRequestRow FormBodyRows i (\<lambda>e. e\<lparr>kv_fileName := None, kv_fileSize := None, kv_fileType := None,
            kv_formValueType := (if t = FileValue then Some FileValue else None), kv_localFileId := None, kv_value := []\<rparr>)
          (forgetFormFile (Some (form_row i r s)) s))"

definition selectFormFile :: "id_source \<Rightarrow> nat \<Rightarrow> http_file option \<Rightarrow> console \<Rightarrow> console" where
  "selectFormFile ids i file s =
     (case (file, activeRequest s) of
        (Some f, Some r) \<Rightarrow>
          if fl_size f > HTTP_FILE_UPLOAD_MAX_BYTES then s\<lparr>hc_send := (hc_send s)\<lparr>sd_notice := FileLimit\<rparr>\<rparr>
          else
            (let (localFileId, s') = draw (makeId ids ''form-file'') s;
                 s' = forgetFormFile (Some (form_row i r s)) s';
                 s' = s'\<lparr>hc_formFiles := (hc_formFiles s')(localFileId \<mapsto> f)\<rparr>
             in updateRequestRow FormBodyRows i (\<lambda>e. e\<lparr>kv_fileName := Some (fl_name f), kv_fileSize := Some (of_nat (fl_size f)),
                  kv_fileType := Some (fl_type f), kv_formValueType := Some FileValue, kv_localFileId := Some localFileId,
                  kv_value := fl_name f\<rparr>) s')
      | _ \<Rightarrow> s)"

definition removeRequestRow :: "row_field \<Rightarrow> nat \<Rightarrow> console \<Rightarrow> console" where
  "removeRequestRow field i s =
     (case activeRequest s of
        None \<Rightarrow> s
      | Some r \<Rightarrow>
          (let s = (if field = FormBodyRows then forgetFormFile (js_at (trimTrailingBlankRows (rq_formBody r)) (int i)) s else s)
           in updateRequestRows field (without_row i (trimTrailingBlankRows (request_rows field r))) s))"

text \<open>\<open>down\<close> is the direction 1, otherwise -1; the index is that of a row that is shown.\<close>

definition swap_rows :: "nat \<Rightarrow> nat \<Rightarrow> kv_entry list \<Rightarrow> kv_entry list" where
  "swap_rows i j rows = rows[i := rows ! j, j := rows ! i]"

definition moveRequestRow :: "row_field \<Rightarrow> nat \<Rightarrow> bool \<Rightarrow> console \<Rightarrow> console" where
  "moveRequestRow field i down s =
     (case activeRequest s of
        None \<Rightarrow> s
      | Some r \<Rightarrow>
          (let nextIndex = (if down then int i + 1 else int i - 1);
               rows = trimTrailingBlankRows (request_rows field r)
           in if nextIndex < 0 \<or> nextIndex \<ge> int (length rows) then s
              else updateRequestRows field (swap_rows i (nat nextIndex) rows) s))"

definition formatJsonBody :: "(jsstr \<Rightarrow> jsstr option) \<Rightarrow> console \<Rightarrow> console" where
  "formatJsonBody pretty s =
     (case activeRequest s of
        None \<Rightarrow> s
      | Some r \<Rightarrow>
          if rq_bodyMode r \<noteq> BodyJson \<or> js_trim (rq_body r) = [] then s
          else (case pretty (js_trim (rq_body r)) of
                  Some b \<Rightarrow> (let s = updateActiveRequest (\<lambda>q. q\<lparr>rq_body := b\<rparr>) s
                    in s\<lparr>hc_send := (hc_send s)\<lparr>sd_notice := NoNotice\<rparr>\<rparr>)
                | None \<Rightarrow> s\<lparr>hc_send := (hc_send s)\<lparr>sd_notice := BadJsonBody\<rparr>\<rparr>))"

section \<open>Import and export\<close>

definition select_imported :: "http_workspace \<Rightarrow> merge_state \<Rightarrow> console \<Rightarrow> console" where
  "select_imported w m s =
     (let firstImportedRequestId = (case mg_importedRequestIds m of i # _ \<Rightarrow> i | [] \<Rightarrow> [])
      in case (if firstImportedRequestId \<noteq> [] then requestLocationById w firstImportedRequestId else None) of
           Some (projectId, requestId) \<Rightarrow> s\<lparr>hc_activeProjectId := projectId, hc_activeRequestId := requestId,
             hc_closedTabs := hc_closedTabs s - set (mg_importedRequestIds m)\<rparr>
         | None \<Rightarrow> s)"

definition show_export :: "share_notice \<Rightarrow> console \<Rightarrow> console" where
  "show_export message s = s\<lparr>hc_importJson := [], hc_shareTabOpen := True, hc_mainView := ShareView, hc_shareView := ExportView,
     hc_shareMessage := message\<rparr>"

definition importShareJson :: "(jsstr \<Rightarrow> json option) \<Rightarrow> id_source \<Rightarrow> jsstr \<Rightarrow> console \<Rightarrow> console" where
  "importShareJson parse ids now s =
     (let s = s\<lparr>hc_shareError := None, hc_shareMessage := NoShareNotice\<rparr>;
          (result, s) = draw (parseWorkspaceShareJson parse ids now (hc_importJson s) (map ws_name (hc_workspaces s))) s
      in case (result, activeWorkspace s) of
           (Inl e, _) \<Rightarrow> s\<lparr>hc_shareError := Some e\<rparr>
         | (Inr imported, None) \<Rightarrow> s
         | (Inr imported, Some a) \<Rightarrow>
             if hc_importTarget s = ImportCurrent then
               (let ((w, m), s) = draw (mergeImportedWorkspaceIntoCurrent ids now a imported (hc_conflictMode s)) s;
                    s = s\<lparr>hc_workspaces := on_workspace (ws_id a) (\<lambda>_. w) (hc_workspaces s), hc_activeWorkspaceId := ws_id a\<rparr>;
                    s = select_imported w m s
                in show_export (ImportedCurrent (mg_added m) (mg_overwritten m) (mg_ignored m))
                     (s\<lparr>hc_selectedShare := set (mg_importedRequestIds m)\<rparr>))
             else
               show_export (ImportedNew (ws_name imported))
                 (s\<lparr>hc_workspaces := hc_workspaces s @ [imported], hc_activeWorkspaceId := ws_id imported,
                    hc_activeProjectId := first_project_id imported,
                    hc_activeRequestId := request_id_or_none (first_request imported), hc_closedTabs := {},
                    hc_selectedShare := set (map so_id (collectShareRequestOptions imported))\<rparr>))"

text \<open>The characters a file name may not have become underscores.\<close>

definition file_name_unit :: "code_unit \<Rightarrow> code_unit" where
  "file_name_unit c = (if c \<in> {92, 47, 58, 42, 63, 34, 60, 62, 124} then 95 else c)"

definition download_name :: "http_workspace \<Rightarrow> jsstr" where
  "download_name w = or_text (map file_name_unit (ws_name w)) (js ''http-workspace'') @ js ''.portiva-http.json''"

text \<open>The texts that go to the clipboard and into the file, with the state afterwards.\<close>

definition copyText :: "jsstr \<Rightarrow> console \<Rightarrow> jsstr \<times> console" where
  "copyText t s = (t, s\<lparr>hc_contextMenu := False\<rparr>)"

definition copyShareJson :: "(json \<Rightarrow> jsstr) \<Rightarrow> jsstr \<Rightarrow> console \<Rightarrow> jsstr \<times> console" where
  "copyShareJson print time s =
     (case copyText (shareJson print time s) s of (t, s) \<Rightarrow> (t, s\<lparr>hc_shareError := None, hc_shareMessage := Copied\<rparr>))"

definition downloadShareJson :: "(json \<Rightarrow> jsstr) \<Rightarrow> jsstr \<Rightarrow> console \<Rightarrow> (jsstr \<times> jsstr) option \<times> console" where
  "downloadShareJson print time s =
     (map_option (\<lambda>w. (download_name w, shareJson print time s)) (activeWorkspace s),
      s\<lparr>hc_shareError := None, hc_shareMessage := Downloaded\<rparr>)"

section \<open>Loading, saving and sending\<close>

text \<open>\<open>stored\<close> is the answer of \<^verbatim>\<open>httpWorkspacesGet\<close>, \<open>None\<close> when it fails; outside the desktop there is none.\<close>

definition workspaces_loaded :: "id_source \<Rightarrow> http_workspace list option \<Rightarrow> console \<Rightarrow> console" where
  "workspaces_loaded ids stored s =
     (let s = (case (if hc_tauri s then stored else None) of
          Some (w # ws) \<Rightarrow>
            (let (normalizedWorkspaces, s) = draw (normalizeWorkspaces ids (w # ws)) s
             in case normalizedWorkspaces of
                  [] \<Rightarrow> s
                | nextWorkspace # _ \<Rightarrow>
                    s\<lparr>hc_workspaces := normalizedWorkspaces, hc_activeWorkspaceId := ws_id nextWorkspace,
                      hc_activeProjectId := first_project_id nextWorkspace,
                      hc_activeRequestId := request_id_or_none (first_request nextWorkspace),
                      hc_mainView := (if first_request nextWorkspace \<noteq> None then RequestView else BlankView), hc_dirty := {}\<rparr>)
        | _ \<Rightarrow> s)
      in s\<lparr>hc_storageReady := True\<rparr>)"

text \<open>What the timer saves, if it saves, and what the button saves; \<open>workspaces_saved\<close> is the success of a save.\<close>

definition autosave_payload :: "(jsstr \<Rightarrow> jsstr option) \<Rightarrow> console \<Rightarrow> http_workspace list option" where
  "autosave_payload protocol s =
     (if \<not> hc_storageReady s \<or> \<not> hc_tauri s \<or> hasInvalidRequestUrl protocol (hc_workspaces s) then None
      else Some (stripLocalFormFileStateFromWorkspaces (hc_workspaces s)))"

definition saveWorkspacesNow :: "(jsstr \<Rightarrow> jsstr option) \<Rightarrow> console \<Rightarrow> http_workspace list option \<times> console" where
  "saveWorkspacesNow protocol s =
     (if \<not> hc_tauri s then (None, s\<lparr>hc_dirty := {}\<rparr>)
      else if hasInvalidRequestUrl protocol (hc_workspaces s) then (None, s)
      else (Some (stripLocalFormFileStateFromWorkspaces (hc_workspaces s)), s))"

definition workspaces_saved :: "console \<Rightarrow> console" where
  "workspaces_saved s = s\<lparr>hc_dirty := {}\<rparr>"

text \<open>The id of a send is drawn before it is known that it is needed; ids are as good as each other.\<close>

definition send_active_request ::
  "(jsstr \<Rightarrow> (jsstr \<times> jsstr) list \<Rightarrow> jsstr option) \<Rightarrow> id_source \<Rightarrow> console \<Rightarrow> console" where
  "send_active_request add_params ids s =
     (let (i, s) = draw (makeId ids ''http-send'') s
      in s\<lparr>hc_send := sendPreviewRequest add_params i (activeRequest s) (activeVariables s) (hc_send s)\<rparr>)"

definition show_history :: "http_history \<Rightarrow> console \<Rightarrow> console" where
  "show_history entry s = s\<lparr>hc_send := (hc_send s)\<lparr>sd_response := hh_response entry,
     sd_notice := (case hh_error entry of Some e \<Rightarrow> e | None \<Rightarrow> NoNotice)\<rparr>\<rparr>"

end
