(* ===== verification/HttpInvariant.thy ===== *)
theory HttpInvariant
  imports HttpDrag HttpEditor
begin

text \<open>
  What stays true of the HTTP console: workspaces, projects and requests have ids of their own, and
  the active workspace exists. The handlers are a step relation on the state; what only changes texts
  and rows keeps the ids, what creates draws new ones.
\<close>

section \<open>Ids of the workspaces\<close>

definition ids_ok :: "id_source \<Rightarrow> nat \<Rightarrow> http_workspace list \<Rightarrow> bool" where
  "ids_ok ids n ws \<longleftrightarrow> distinct (map ws_id ws) \<and> distinct (concat (map request_ids ws)) \<and> distinct (concat (map project_ids ws))
     \<and> unused ids ''ws'' n (set (map ws_id ws)) \<and> unused ids ''req'' n (set (concat (map request_ids ws)))
     \<and> unused ids ''project'' n (set (concat (map project_ids ws)))"

lemma distinct_sub: "mset xs \<subseteq># mset ys \<Longrightarrow> distinct ys \<Longrightarrow> distinct xs"
proof -
  assume sub: "mset xs \<subseteq># mset ys" and d: "distinct ys"
  obtain zs where "mset zs = mset ys - mset xs" using ex_mset by blast
  then have "mset ys = mset (xs @ zs)" using sub by simp
  then have "distinct (xs @ zs)" using d mset_eq_imp_distinct_iff by blast
  then show ?thesis by simp
qed

lemma grown_ids:
  assumes "inj ids" and "distinct old" and "unused ids kind n (set old)" and "news ids kind n n' new"
    and "mset now \<subseteq># mset old + mset new"
  shows "distinct now \<and> unused ids kind n' (set now)"
proof -
  have "distinct (old @ new)" using assms(2,4) unused_disjoint [OF assms(3,4)] by (auto simp: news_def)
  then have "distinct now" using assms(5) distinct_sub [of now "old @ new"] by simp
  moreover have "set now \<subseteq> set old \<union> set new" using set_mset_mono [OF assms(5)] by simp
  moreover have "unused ids kind n' (set old)" using assms(3) news_le [OF assms(4)] by (auto intro: unused_mono)
  ultimately show ?thesis using unused_news [OF assms(1,4)] unused_mono [of ids kind n' "set old \<union> set new"] by (simp add: unused_Un)
qed

lemma ids_ok_grow:
  assumes "inj ids" and "ids_ok ids n ws"
    and "news ids ''ws'' n n' wi" and "mset (map ws_id ws') \<subseteq># mset (map ws_id ws) + mset wi"
    and "news ids ''req'' n n' ri" and "mset (concat (map request_ids ws')) \<subseteq># mset (concat (map request_ids ws)) + mset ri"
    and "news ids ''project'' n n' qi" and "mset (concat (map project_ids ws')) \<subseteq># mset (concat (map project_ids ws)) + mset qi"
  shows "ids_ok ids n' ws'"
  using assms(2) grown_ids [OF assms(1) _ _ assms(3,4)] grown_ids [OF assms(1) _ _ assms(5,6)] grown_ids [OF assms(1) _ _ assms(7,8)]
  unfolding ids_ok_def by blast

lemma ids_ok_shrink:
  assumes "inj ids" and "ids_ok ids n ws" and "n \<le> n'" and "mset (map ws_id ws') \<subseteq># mset (map ws_id ws)"
    and "mset (concat (map request_ids ws')) \<subseteq># mset (concat (map request_ids ws))"
    and "mset (concat (map project_ids ws')) \<subseteq># mset (concat (map project_ids ws))"
  shows "ids_ok ids n' ws'"
  by (rule ids_ok_grow [OF assms(1,2), of n' "[]" _ "[]" "[]"]) (use assms in simp_all)

lemma ids_ok_same:
  assumes "inj ids" and "ids_ok ids n ws" and "n \<le> n'" and "map ws_id ws' = map ws_id ws"
    and "map request_ids ws' = map request_ids ws" and "map project_ids ws' = map project_ids ws"
  shows "ids_ok ids n' ws'"
  by (rule ids_ok_shrink [OF assms(1-3)]) (simp_all add: assms(4-6))

lemma map_on_workspace:
  "(\<And>w. g (f w) = g w) \<Longrightarrow> map g (on_workspace i f ws) = map g ws"
  by (simp add: on_workspace_def)

lemma on_workspace_sub:
  assumes "\<And>w. mset (g (f w)) \<subseteq># mset (g w)"
  shows "mset (concat (map g (on_workspace i f ws))) \<subseteq># mset (concat (map g ws))"
  using assms by (induction ws) (auto simp: on_workspace_def intro: subset_mset.add_mono)

lemma on_workspace_same: "i \<notin> ws_id ` set ws \<Longrightarrow> on_workspace i f ws = ws"
  unfolding on_workspace_def by (rule map_idI) auto

lemma on_workspace_grow:
  assumes "distinct (map ws_id ws)" and "\<And>w. w \<in> set ws \<Longrightarrow> ws_id w = i \<Longrightarrow> mset (g (f w)) \<subseteq># mset (g w) + M"
  shows "mset (concat (map g (on_workspace i f ws))) \<subseteq># mset (concat (map g ws)) + M"
  using assms
proof (induction ws)
  case (Cons w ws)
  show ?case
  proof (cases "ws_id w = i")
    case True
    then have "on_workspace i f ws = ws" using Cons.prems(1) by (intro on_workspace_same) auto
    then have "mset (concat (map g (on_workspace i f (w # ws)))) = mset (g (f w)) + mset (concat (map g ws))"
      using True by (simp add: on_workspace_def)
    also have "\<dots> \<subseteq># (mset (g w) + M) + mset (concat (map g ws))"
      using Cons.prems(2) [of w] True by (intro subset_mset.add_right_mono) simp
    finally show ?thesis by (simp add: ac_simps)
  next
    case False
    have "mset (concat (map g (on_workspace i f ws))) \<subseteq># mset (concat (map g ws)) + M" using Cons by simp
    then have "mset (g w) + mset (concat (map g (on_workspace i f ws))) \<subseteq># mset (g w) + (mset (concat (map g ws)) + M)"
      by (rule subset_mset.add_left_mono)
    then show ?thesis using False by (simp add: on_workspace_def ac_simps)
  qed
qed (simp add: on_workspace_def)

lemma ws_id_on_requests [simp]: "ws_id (on_requests p f w) = ws_id w"
  by (simp add: on_requests_def split: option.split)

lemma project_ids_on_requests [simp]: "project_ids (on_requests p f w) = project_ids w"
  by (auto simp: on_requests_def project_ids_def split: option.split)

lemma projects_sub:
  assumes "\<And>p. p \<in> set ps \<Longrightarrow> mset (map rq_id (pj_requests (f p))) \<subseteq># mset (map rq_id (pj_requests p))"
  shows "mset (concat (map (\<lambda>p. map rq_id (pj_requests p)) (map f ps))) \<subseteq># mset (concat (map (\<lambda>p. map rq_id (pj_requests p)) ps))"
  using assms by (induction ps) (auto intro: subset_mset.add_mono)

lemma projects_grow:
  assumes "distinct (map pj_id ps)"
    and "\<And>p. p \<in> set ps \<Longrightarrow> pj_id p = i \<Longrightarrow> mset (map rq_id (f (pj_requests p))) \<subseteq># mset (map rq_id (pj_requests p)) + M"
  shows "mset (concat (map (\<lambda>p. map rq_id (pj_requests p))
      (map (\<lambda>p. if pj_id p = i then p\<lparr>pj_requests := f (pj_requests p)\<rparr> else p) ps)))
    \<subseteq># mset (concat (map (\<lambda>p. map rq_id (pj_requests p)) ps)) + M"
  using assms
proof (induction ps)
  case (Cons p ps)
  let ?g = "\<lambda>p. if pj_id p = i then p\<lparr>pj_requests := f (pj_requests p)\<rparr> else p"
  let ?ids = "\<lambda>ps. mset (concat (map (\<lambda>p. map rq_id (pj_requests p)) ps))"
  show ?case
  proof (cases "pj_id p = i")
    case True
    have "pj_id q \<noteq> i" if "q \<in> set ps" for q using that Cons.prems(1) True by (auto simp: image_iff)
    then have "map ?g ps = ps" by (intro map_idI) simp
    then have "?ids (map ?g (p # ps)) = mset (map rq_id (f (pj_requests p))) + ?ids ps" using True by simp
    also have "\<dots> \<subseteq># (mset (map rq_id (pj_requests p)) + M) + ?ids ps"
      using Cons.prems(2) [of p] True by (intro subset_mset.add_right_mono) simp
    finally show ?thesis by (simp add: ac_simps)
  next
    case False
    have "?ids (map ?g ps) \<subseteq># ?ids ps + M" using Cons by simp
    then have "mset (map rq_id (pj_requests p)) + ?ids (map ?g ps) \<subseteq># mset (map rq_id (pj_requests p)) + (?ids ps + M)"
      by (rule subset_mset.add_left_mono)
    then show ?thesis using False by (simp add: ac_simps)
  qed
qed simp

lemma request_ids_parts:
  "mset (request_ids w) = mset (map rq_id (ws_requests w)) + mset (concat (map (\<lambda>p. map rq_id (pj_requests p)) (ws_projects w)))"
  by (simp add: request_ids_def)

lemma on_requests_grow:
  assumes "distinct (project_ids w)" and "distinct (request_ids w)"
    and "\<And>rs. distinct (map rq_id rs) \<Longrightarrow> mset (map rq_id (f rs)) \<subseteq># mset (map rq_id rs) + M"
  shows "mset (request_ids (on_requests projectId f w)) \<subseteq># mset (request_ids w) + M"
proof (cases "truthy projectId")
  case None
  have "mset (map rq_id (f (ws_requests w))) \<subseteq># mset (map rq_id (ws_requests w)) + M"
    using assms(2) by (intro assms(3)) (simp add: request_ids_def)
  from subset_mset.add_right_mono [OF this, of "mset (concat (map (\<lambda>p. map rq_id (pj_requests p)) (ws_projects w)))"]
  show ?thesis unfolding request_ids_parts using None by (simp add: on_requests_def ac_simps)
next
  case (Some i)
  have own: "distinct (map rq_id (pj_requests p))" if "p \<in> set (ws_projects w)" for p
    using assms(2) that by (auto simp: request_ids_def dest!: split_list)
  have "mset (concat (map (\<lambda>p. map rq_id (pj_requests p)) (ws_projects (on_requests projectId f w))))
      \<subseteq># mset (concat (map (\<lambda>p. map rq_id (pj_requests p)) (ws_projects w))) + M"
    using projects_grow [of "ws_projects w" i f M] assms(1,3) own Some by (simp add: on_requests_def project_ids_def del: map_map)
  from subset_mset.add_left_mono [OF this, of "mset (map rq_id (ws_requests w))"]
  show ?thesis unfolding request_ids_parts using Some by (simp add: on_requests_def ac_simps)
qed

lemma on_requests_sub:
  assumes "\<And>rs. mset (map rq_id (f rs)) \<subseteq># mset (map rq_id rs)"
  shows "mset (request_ids (on_requests projectId f w)) \<subseteq># mset (request_ids w)"
proof (cases "truthy projectId")
  case None
  then show ?thesis using subset_mset.add_right_mono [OF assms [of "ws_requests w"]]
    by (simp add: request_ids_parts on_requests_def)
next
  case (Some i)
  have "mset (concat (map (\<lambda>p. map rq_id (pj_requests p)) (ws_projects (on_requests projectId f w))))
      \<subseteq># mset (concat (map (\<lambda>p. map rq_id (pj_requests p)) (ws_projects w)))"
    using projects_sub [of "ws_projects w" "\<lambda>p. if pj_id p = i then p\<lparr>pj_requests := f (pj_requests p)\<rparr> else p"] assms Some
    by (simp add: on_requests_def del: map_map)
  from subset_mset.add_left_mono [OF this, of "mset (map rq_id (ws_requests w))"]
  show ?thesis unfolding request_ids_parts using Some by (simp add: on_requests_def)
qed

section \<open>The invariant\<close>

definition console_inv :: "id_source \<Rightarrow> console \<Rightarrow> bool" where
  "console_inv ids s \<longleftrightarrow> hc_activeWorkspaceId s \<in> ws_id ` set (hc_workspaces s) \<and> ids_ok ids (hc_drawn s) (hc_workspaces s)"

lemma console_inv_cong:
  "hc_workspaces s' = hc_workspaces s \<Longrightarrow> hc_activeWorkspaceId s' = hc_activeWorkspaceId s \<Longrightarrow> hc_drawn s' = hc_drawn s
    \<Longrightarrow> console_inv ids s' = console_inv ids s"
  by (simp add: console_inv_def)

lemma small_steps [simp]:
  "hc_workspaces (reset_response s) = hc_workspaces s" "hc_activeWorkspaceId (reset_response s) = hc_activeWorkspaceId s"
  "hc_drawn (reset_response s) = hc_drawn s"
  "hc_workspaces (markRequestDirty r s) = hc_workspaces s" "hc_activeWorkspaceId (markRequestDirty r s) = hc_activeWorkspaceId s"
  "hc_drawn (markRequestDirty r s) = hc_drawn s"
  "hc_workspaces (open_tab i s) = hc_workspaces s" "hc_activeWorkspaceId (open_tab i s) = hc_activeWorkspaceId s"
  "hc_drawn (open_tab i s) = hc_drawn s"
  "hc_workspaces (show_next q v s) = hc_workspaces s" "hc_activeWorkspaceId (show_next q v s) = hc_activeWorkspaceId s"
  "hc_drawn (show_next q v s) = hc_drawn s"
  "hc_workspaces (forgetFormFile e s) = hc_workspaces s" "hc_activeWorkspaceId (forgetFormFile e s) = hc_activeWorkspaceId s"
  "hc_drawn (forgetFormFile e s) = hc_drawn s"
  by (simp_all add: reset_response_def markRequestDirty_def open_tab_def show_next_def forgetFormFile_def split: option.split)

lemma draw_makeId: "draw (makeId ids kind) s = (js kind @ 45 # ids (hc_drawn s), s\<lparr>hc_drawn := Suc (hc_drawn s)\<rparr>)"
  by (simp add: draw_def makeId_def)

lemma draw_blank: "draw (createBlankRequest ids name) s
  = ((fst (run_state (createBlankRequest ids name) (hc_drawn s))), s\<lparr>hc_drawn := Suc (hc_drawn s)\<rparr>)"
  "rq_id (fst (run_state (createBlankRequest ids name) n)) = js ''req'' @ 45 # ids n"
  by (simp_all add: draw_def createBlankRequest_def makeId_def)

lemma draw_wp: "draw m s = (x, s') \<Longrightarrow> wp m Q (hc_drawn s) \<Longrightarrow> Q x (hc_drawn s') \<and> s' = s\<lparr>hc_drawn := hc_drawn s'\<rparr>"
  by (auto simp: draw_def wp_def split: prod.splits)

lemma active_exists: "console_inv ids s \<Longrightarrow> \<exists>w. activeWorkspace s = Some w \<and> w \<in> set (hc_workspaces s) \<and> ws_id w = hc_activeWorkspaceId s"
  by (auto simp: console_inv_def activeWorkspace_def find_None_iff split: option.split dest: find_Some_set)

lemma on_workspace_ids [simp]:
  "(\<And>w. ws_id (f w) = ws_id w) \<Longrightarrow> map ws_id (on_workspace i f ws) = map ws_id ws"
  by (rule map_on_workspace)

lemma on_workspace_id_set [simp]:
  "(\<And>w. ws_id (f w) = ws_id w) \<Longrightarrow> ws_id ` set (on_workspace i f ws) = ws_id ` set ws"
  by (simp only: set_map [symmetric] on_workspace_ids)

lemma each_distinct:
  "ids_ok ids n ws \<Longrightarrow> w \<in> set ws \<Longrightarrow> distinct (project_ids w) \<and> distinct (request_ids w)"
  by (auto simp: ids_ok_def dest!: split_list)

text \<open>Adding requests with new ids to one workspace.\<close>

lemma ids_ok_add_requests:
  assumes "inj ids" and "ids_ok ids n ws" and "news ids ''req'' n n' new"
    and "\<And>rs. distinct (map rq_id rs) \<Longrightarrow> mset (map rq_id (f rs)) \<subseteq># mset (map rq_id rs) + mset new"
  shows "ids_ok ids n' (on_workspace i (on_requests p f) ws)"
proof (rule ids_ok_grow [OF assms(1,2), of n' "[]" _ new "[]"])
  show "mset (concat (map request_ids (on_workspace i (on_requests p f) ws))) \<subseteq># mset (concat (map request_ids ws)) + mset new"
    by (rule on_workspace_grow)
      (use assms(2,4) each_distinct [OF assms(2)] in \<open>auto simp: ids_ok_def intro: on_requests_grow\<close>)
qed (use assms(3) in \<open>simp_all add: news_le map_on_workspace\<close>)

lemma ids_ok_shrink_requests:
  assumes "inj ids" and "ids_ok ids n ws" and "\<And>rs. mset (map rq_id (f rs)) \<subseteq># mset (map rq_id rs)"
  shows "ids_ok ids n (on_workspace i (on_requests p f) ws)"
  by (rule ids_ok_shrink [OF assms(1,2)])
    (use assms(3) in \<open>simp_all add: map_on_workspace on_workspace_sub on_requests_sub\<close>)

section \<open>The handlers keep it\<close>

lemma inv_selectWorkspace: "console_inv ids s \<Longrightarrow> w \<in> set (hc_workspaces s) \<Longrightarrow> console_inv ids (selectWorkspace w s)"
  by (simp add: selectWorkspace_def Let_def console_inv_def)

lemma inv_createWorkspace:
  assumes "inj ids" and "console_inv ids s"
  shows "console_inv ids (createWorkspace ids now s)"
proof -
  let ?n = "hc_drawn s"
  have ok: "ids_ok ids ?n (hc_workspaces s)" using assms(2) by (simp add: console_inv_def)
  have "ids_ok ids (Suc ?n) (hc_workspaces s @ [w])"
    if "ws_id w = js ''ws'' @ 45 # ids ?n" "ws_projects w = []" "ws_requests w = []" for w
    by (rule ids_ok_grow [OF assms(1) ok, of _ "[ws_id w]" _ "[]" "[]"])
      (use that in \<open>simp_all add: news_one request_ids_def project_ids_def\<close>)
  then show ?thesis by (simp add: createWorkspace_def draw_makeId Let_def console_inv_def)
qed

lemma inv_createProject:
  assumes "inj ids" and "console_inv ids s" and "workspaceId \<in> ws_id ` set (hc_workspaces s)"
  shows "console_inv ids (createProject ids now workspaceId s)"
proof -
  let ?n = "hc_drawn s"
  have "ids_ok ids (Suc ?n) (on_workspace workspaceId (\<lambda>w. w\<lparr>ws_projects := ws_projects w @ [p]\<rparr>) (hc_workspaces s))"
    if "pj_id p = js ''project'' @ 45 # ids ?n" "pj_requests p = []" for p
  proof (rule ids_ok_grow [OF assms(1), of ?n _ _ "[]" _ "[]" "[pj_id p]"])
    show "ids_ok ids ?n (hc_workspaces s)" using assms(2) by (simp add: console_inv_def)
    show "mset (concat (map project_ids (on_workspace workspaceId (\<lambda>w. w\<lparr>ws_projects := ws_projects w @ [p]\<rparr>) (hc_workspaces s))))
        \<subseteq># mset (concat (map project_ids (hc_workspaces s))) + mset [pj_id p]"
      by (rule on_workspace_grow) (use assms(2) in \<open>auto simp: console_inv_def ids_ok_def project_ids_def\<close>)
    show "mset (concat (map request_ids (on_workspace workspaceId (\<lambda>w. w\<lparr>ws_projects := ws_projects w @ [p]\<rparr>) (hc_workspaces s))))
        \<subseteq># mset (concat (map request_ids (hc_workspaces s))) + mset []"
      using on_workspace_sub [of request_ids "\<lambda>w. w\<lparr>ws_projects := ws_projects w @ [p]\<rparr>"] that(2) by (simp add: request_ids_def)
  qed (use that in \<open>simp_all add: news_one\<close>)
  then show ?thesis using active_exists [OF assms(2)] assms(2,3)
    by (auto simp: createProject_def draw_makeId Let_def console_inv_def split: option.split)
qed

lemma inv_createRequest:
  assumes "inj ids" and "console_inv ids s" and "workspaceId \<in> ws_id ` set (hc_workspaces s)"
  shows "console_inv ids (createRequest ids now workspaceId projectId s)"
proof -
  let ?n = "hc_drawn s"
  have "ids_ok ids (Suc ?n) (on_workspace workspaceId (on_requests projectId (\<lambda>rs. rs @ [r])) (hc_workspaces s))"
    if "rq_id r = js ''req'' @ 45 # ids ?n" for r
    by (rule ids_ok_add_requests [OF assms(1), of ?n _ _ "[rq_id r]"])
      (use assms(2) that in \<open>simp_all add: console_inv_def news_one\<close>)
  then show ?thesis using assms(2,3) draw_blank(2)
    by (auto simp: createRequest_def draw_blank(1) Let_def console_inv_def split: option.split)
qed

lemma copy_after_ids:
  assumes "distinct (map rq_id rs)"
  shows "mset (map rq_id (copy_after i c rs)) \<subseteq># mset (map rq_id rs) + mset [rq_id c]"
  using assms
proof (induction rs)
  case (Cons r rs)
  show ?case
  proof (cases "rq_id r = i")
    case True
    then have "concat (map (\<lambda>r. if rq_id r = i then [r, c] else [r]) rs) = rs"
      using Cons.prems by (induction rs) auto
    then show ?thesis using True by (simp add: copy_after_def)
  next
    case False
    then show ?thesis using Cons by (simp add: copy_after_def)
  qed
qed (simp add: copy_after_def)

lemma inv_duplicateRequest:
  assumes "inj ids" and "console_inv ids s"
  shows "console_inv ids (duplicateRequest ids now workspaceId projectId requestId s)"
proof -
  let ?n = "hc_drawn s"
  have "ids_ok ids (Suc ?n) (on_workspace workspaceId (on_requests projectId (copy_after requestId c)) (hc_workspaces s))"
    if "rq_id c = js ''req'' @ 45 # ids ?n" for c
  proof (rule ids_ok_add_requests [OF assms(1), of ?n _ _ "[rq_id c]"])
    show "ids_ok ids ?n (hc_workspaces s)" using assms(2) by (simp add: console_inv_def)
    show "news ids ''req'' ?n (Suc ?n) [rq_id c]" by (simp add: that news_one)
  qed (rule copy_after_ids)
  moreover have "workspaceId \<in> ws_id ` set (hc_workspaces s)" if "siblings workspaceId projectId s \<noteq> None"
    using that by (auto simp: siblings_def dest: find_Some_set)
  ultimately show ?thesis using assms(2)
    by (auto simp: duplicateRequest_def draw_makeId Let_def console_inv_def split: option.split)
qed

lemma rename_ids [simp]:
  "rq_id (rename_request e name r) = rq_id r" "ws_id (rename_in e name w) = ws_id w"
  "project_ids (rename_in e name w) = project_ids w" "request_ids (rename_in e name w) = request_ids w"
proof -
  show r: "rq_id (rename_request e name r) = rq_id r" for r by (simp add: rename_request_def)
  show "ws_id (rename_in e name w) = ws_id w" by (simp add: rename_in_def)
  show "project_ids (rename_in e name w) = project_ids w" by (auto simp: rename_in_def project_ids_def)
  have "map (\<lambda>p. map rq_id (pj_requests p)) (map (\<lambda>p. if ed_type e = ProjectNode \<and> pj_id p = ed_id e then p\<lparr>pj_name := name\<rparr>
      else p\<lparr>pj_requests := map (rename_request e name) (pj_requests p)\<rparr>) ps) = map (\<lambda>p. map rq_id (pj_requests p)) ps" for ps :: "http_project list"
    by (auto simp: r)
  then show "request_ids (rename_in e name w) = request_ids w"
    by (simp add: rename_in_def request_ids_def del: map_map map_eq_conv) (simp add: r)
qed

lemma inv_same:
  assumes "inj ids" and "console_inv ids s" and "hc_drawn s \<le> hc_drawn s'" and "hc_activeWorkspaceId s' = hc_activeWorkspaceId s"
    and "map ws_id (hc_workspaces s') = map ws_id (hc_workspaces s)"
    and "map request_ids (hc_workspaces s') = map request_ids (hc_workspaces s)"
    and "map project_ids (hc_workspaces s') = map project_ids (hc_workspaces s)"
  shows "console_inv ids s'"
proof -
  have "ws_id ` set (hc_workspaces s') = ws_id ` set (hc_workspaces s)" by (simp only: set_map [symmetric] assms(5))
  then show ?thesis using assms(2,4) ids_ok_same [OF assms(1) _ assms(3,5-7)] by (simp add: console_inv_def)
qed

lemma inv_commitRename: "inj ids \<Longrightarrow> console_inv ids s \<Longrightarrow> console_inv ids (commitRename s)"
  by (rule inv_same [where s = s]) (auto simp: commitRename_def Let_def comp_def split: option.split)

lemma findIndex_next:
  assumes "distinct (map ws_id ws)" and "w \<in> set ws" and "1 < length ws"
  shows "\<exists>v. (case js_at ws (let i = js_findIndex (\<lambda>x. ws_id x = ws_id w) ws in if i = 0 then 1 else i - 1) of
      Some v \<Rightarrow> Some v | None \<Rightarrow> js_at ws 0) = Some v \<and> v \<in> set ws \<and> ws_id v \<noteq> ws_id w"
proof -
  define i where "i = js_findIndex (\<lambda>x. ws_id x = ws_id w) ws"
  have "0 \<le> i" using js_findIndex_neg_iff [of "\<lambda>x. ws_id x = ws_id w" ws] assms(2) by (auto simp: i_def)
  then have i: "nat i < length ws" "ws_id (ws ! nat i) = ws_id w" using js_findIndex_find [of "\<lambda>x. ws_id x = ws_id w" ws] by (auto simp: i_def)
  define j where "j = (if i = 0 then 1 else nat i - 1)"
  have j: "j < length ws" "j \<noteq> nat i" using assms(3) i(1) \<open>0 \<le> i\<close> by (auto simp: j_def)
  have "js_at ws (if i = 0 then 1 else i - 1) = Some (ws ! j)"
    using \<open>0 \<le> i\<close> i(1) assms(3) by (auto simp: js_at_def j_def nat_diff_distrib)
  moreover have "ws_id (ws ! j) \<noteq> ws_id w"
    using assms(1) i j by (metis distinct_conv_nth length_map nth_map)
  moreover have "(let i = js_findIndex (\<lambda>x. ws_id x = ws_id w) ws in if i = 0 then 1 else i - 1) = (if i = 0 then 1 else i - 1)"
    by (simp add: i_def Let_def)
  ultimately show ?thesis using j(1) by simp
qed

lemma concat_filter_sub: "mset (concat (map g (filter P xs))) \<subseteq># mset (concat (map g xs))"
  by (induction xs) (auto intro: subset_mset.add_mono subset_mset.add_increasing)

lemma inv_deleteWorkspace:
  assumes "inj ids" and "console_inv ids s"
  shows "console_inv ids (deleteWorkspace workspaceId s)"
proof (cases "1 < length (hc_workspaces s) \<and> workspaceId \<in> ws_id ` set (hc_workspaces s)")
  case False
  have "find (\<lambda>w. ws_id w = workspaceId) (hc_workspaces s) = None" if "workspaceId \<notin> ws_id ` set (hc_workspaces s)"
    using that by (auto simp: find_None_iff)
  then show ?thesis using False assms(2) by (auto simp: deleteWorkspace_def)
next
  case True
  let ?ws = "hc_workspaces s"
  have ok: "ids_ok ids (hc_drawn s) ?ws" using assms(2) by (simp add: console_inv_def)
  obtain w where w: "find (\<lambda>w. ws_id w = workspaceId) ?ws = Some w" "w \<in> set ?ws" "ws_id w = workspaceId"
    using True by (cases "find (\<lambda>w. ws_id w = workspaceId) ?ws") (auto simp: find_None_iff dest: find_Some_set)
  have rest: "ids_ok ids (hc_drawn s) (filter (\<lambda>w. ws_id w \<noteq> workspaceId) ?ws)"
    by (rule ids_ok_shrink [OF assms(1) ok]) (simp_all add: concat_filter_sub image_mset_subseteq_mono)
  obtain a where a: "activeWorkspace s = Some a" "a \<in> set ?ws" "ws_id a = hc_activeWorkspaceId s" using active_exists [OF assms(2)] by auto
  obtain v where v: "(case js_at ?ws (let i = js_findIndex (\<lambda>x. ws_id x = workspaceId) ?ws in if i = 0 then 1 else i - 1) of
      Some v \<Rightarrow> Some v | None \<Rightarrow> js_at ?ws 0) = Some v" "v \<in> set ?ws" "ws_id v \<noteq> workspaceId"
    using findIndex_next [of ?ws w] ok w True by (auto simp: ids_ok_def)
  have "deleteWorkspace workspaceId s = (let s' = s\<lparr>hc_workspaces := filter (\<lambda>w. ws_id w \<noteq> workspaceId) ?ws, hc_contextMenu := False\<rparr>
      in if ws_id a = workspaceId then selectWorkspace v s' else s')"
    using True w(1) a(1) v(1) by (simp add: deleteWorkspace_def Let_def)
  moreover have "console_inv ids (s\<lparr>hc_workspaces := filter (\<lambda>w. ws_id w \<noteq> workspaceId) ?ws, hc_contextMenu := False\<rparr>)"
    if "ws_id a \<noteq> workspaceId" using rest a that by (auto simp: console_inv_def intro!: image_eqI [of _ _ a])
  moreover have "console_inv ids (selectWorkspace v (s\<lparr>hc_workspaces := filter (\<lambda>w. ws_id w \<noteq> workspaceId) ?ws, hc_contextMenu := False\<rparr>))"
    using rest v by (auto simp: console_inv_def selectWorkspace_def Let_def)
  ultimately show ?thesis by (simp add: Let_def)
qed

lemma inv_deleteProject:
  assumes "inj ids" and "console_inv ids s"
  shows "console_inv ids (deleteProject workspaceId projectId s)"
proof -
  let ?f = "\<lambda>w. w\<lparr>ws_projects := filter (\<lambda>p. pj_id p \<noteq> projectId) (ws_projects w)\<rparr>"
  have ok: "ids_ok ids (hc_drawn s) (hc_workspaces s)" using assms(2) by (simp add: console_inv_def)
  have r: "mset (request_ids (?f w)) \<subseteq># mset (request_ids w)" for w
    using subset_mset.add_left_mono [OF concat_filter_sub [of "\<lambda>p. map rq_id (pj_requests p)" "\<lambda>p. pj_id p \<noteq> projectId" "ws_projects w"],
      of "mset (map rq_id (ws_requests w))"] by (simp add: request_ids_parts)
  have p: "mset (project_ids (?f w)) \<subseteq># mset (project_ids w)" for w
    by (simp add: project_ids_def image_mset_subseteq_mono)
  have "ids_ok ids (hc_drawn s) (on_workspace workspaceId ?f (hc_workspaces s))"
    by (rule ids_ok_shrink [OF assms(1) ok]) (simp_all add: on_workspace_sub r p)
  then show ?thesis using assms(2) by (auto simp: deleteProject_def console_inv_def Let_def split: option.split)
qed

lemma inv_deleteRequest:
  assumes "inj ids" and "console_inv ids s"
  shows "console_inv ids (deleteRequest workspaceId projectId requestId s)"
proof -
  have "ids_ok ids (hc_drawn s) (on_workspace workspaceId (on_requests projectId (filter (\<lambda>r. rq_id r \<noteq> requestId))) (hc_workspaces s))"
    by (rule ids_ok_shrink_requests [OF assms(1)]) (use assms(2) in \<open>simp_all add: console_inv_def image_mset_subseteq_mono\<close>)
  then show ?thesis using assms(2) by (auto simp: deleteRequest_def console_inv_def Let_def split: option.split)
qed

section \<open>Moving\<close>

lemma move_project_ids:
  "distinct (map pj_id (ws_projects w)) \<Longrightarrow> mset (ws_projects (move_project_in drag target w)) = mset (ws_projects w)
    \<and> ws_id (move_project_in drag target w) = ws_id w \<and> ws_requests (move_project_in drag target w) = ws_requests w"
proof -
  assume d: "distinct (map pj_id (ws_projects w))"
  have put: "add_mset p (mset (filter (\<lambda>q. pj_id q \<noteq> i) ps)) = mset ps"
    if "distinct (map pj_id ps)" "p \<in> set ps \<and> pj_id p = i" for p :: http_project and ps i
    using that
  proof (induction ps)
    case (Cons q ps)
    show ?case
    proof (cases "q = p")
      case True
      have "pj_id r \<noteq> i" if "r \<in> set ps" for r using that Cons.prems True by (auto simp: image_iff)
      then have "filter (\<lambda>q. pj_id q \<noteq> i) ps = ps" by (intro filter_True) blast
      then show ?thesis using True Cons.prems by simp
    next
      case False
      then have "pj_id q \<noteq> i" "p \<in> set ps" using Cons.prems by (auto simp: image_iff)
      then show ?thesis using Cons by simp
    qed
  qed simp
  show ?thesis
  proof (cases "find (\<lambda>p. pj_id p = dg_nodeId drag) (ws_projects w)")
    case (Some p)
    have "add_mset p {#q \<in># mset (ws_projects w). pj_id q \<noteq> dg_nodeId drag#} = mset (ws_projects w)"
      using put [OF d find_Some_set [OF Some]] by simp
    then show ?thesis using Some by (auto simp: move_project_in_def Let_def split: option.split)
  qed (simp add: move_project_in_def)
qed

lemma mset_concat_perm: "mset ps = mset qs \<Longrightarrow> mset (concat (map f ps)) = mset (concat (map f qs))"
proof -
  have "mset (concat (map f ps)) = sum_mset (image_mset (\<lambda>p. mset (f p)) (mset ps))" for ps
    by (induction ps) simp_all
  then show "mset ps = mset qs \<Longrightarrow> ?thesis" by simp
qed

text \<open>Handlers that change one workspace in place and keep its ids, up to their order.\<close>

lemma inv_on_workspace:
  assumes "inj ids" and "console_inv ids s"
    and "\<And>w. w \<in> set (hc_workspaces s) \<Longrightarrow> distinct (project_ids w) \<Longrightarrow> distinct (request_ids w) \<Longrightarrow>
      ws_id (f w) = ws_id w \<and> mset (request_ids (f w)) = mset (request_ids w) \<and> mset (project_ids (f w)) = mset (project_ids w)"
    and "hc_workspaces s' = on_workspace i f (hc_workspaces s)" and "hc_drawn s \<le> hc_drawn s'"
    and "hc_activeWorkspaceId s' \<in> ws_id ` set (hc_workspaces s)"
  shows "console_inv ids s'"
proof -
  have ok: "ids_ok ids (hc_drawn s) (hc_workspaces s)" using assms(2) by (simp add: console_inv_def)
  have each: "ws_id (f w) = ws_id w \<and> mset (request_ids (f w)) = mset (request_ids w) \<and> mset (project_ids (f w)) = mset (project_ids w)"
    if "w \<in> set (hc_workspaces s)" for w
    using assms(3) [OF that] each_distinct [OF ok that] by blast
  have wi: "map ws_id (on_workspace i f (hc_workspaces s)) = map ws_id (hc_workspaces s)"
    using each by (auto simp: on_workspace_def)
  then have "ws_id ` set (on_workspace i f (hc_workspaces s)) = ws_id ` set (hc_workspaces s)" by (simp only: set_map [symmetric])
  moreover have "ids_ok ids (hc_drawn s') (on_workspace i f (hc_workspaces s))"
  proof (rule ids_ok_shrink [OF assms(1) ok assms(5)])
    show "mset (concat (map request_ids (on_workspace i f (hc_workspaces s)))) \<subseteq># mset (concat (map request_ids (hc_workspaces s)))"
      using on_workspace_grow [of "hc_workspaces s" i request_ids f "{#}"] ok each by (simp add: ids_ok_def)
    show "mset (concat (map project_ids (on_workspace i f (hc_workspaces s)))) \<subseteq># mset (concat (map project_ids (hc_workspaces s)))"
      using on_workspace_grow [of "hc_workspaces s" i project_ids f "{#}"] ok each by (simp add: ids_ok_def)
  qed (simp add: wi)
  ultimately show ?thesis using assms(4,6) by (simp add: console_inv_def)
qed

lemma inv_moveProject:
  assumes "inj ids" and "console_inv ids s"
  shows "console_inv ids (moveProject drag target s)"
proof (cases "dg_type drag = DragProject")
  case True
  show ?thesis
  proof (rule inv_on_workspace [OF assms, of "move_project_in drag target" _ "dg_workspaceId drag"])
    fix w
    assume "distinct (project_ids w)"
    then have *: "mset (ws_projects (move_project_in drag target w)) = mset (ws_projects w)"
      "ws_id (move_project_in drag target w) = ws_id w" "ws_requests (move_project_in drag target w) = ws_requests w"
      using move_project_ids [of w] by (simp_all add: project_ids_def)
    then show "ws_id (move_project_in drag target w) = ws_id w
        \<and> mset (request_ids (move_project_in drag target w)) = mset (request_ids w)
        \<and> mset (project_ids (move_project_in drag target w)) = mset (project_ids w)"
      using mset_concat_perm [OF *(1), of "\<lambda>p. map rq_id (pj_requests p)"] by (simp add: request_ids_parts project_ids_def)
  qed (use assms(2) True in \<open>auto simp: moveProject_def console_inv_def\<close>)
qed (simp add: moveProject_def assms(2))

text \<open>The requests of a workspace after a list is changed.\<close>

lemma update_first_requests:
  assumes "find P ps = Some p"
  shows "mset (concat (map pj_requests (update_first P (\<lambda>p. p\<lparr>pj_requests := rs\<rparr>) ps))) + mset (pj_requests p)
    = mset (concat (map pj_requests ps)) + mset rs"
  using assms by (induction ps) (auto split: if_splits simp: ac_simps)

lemma set_request_list_all:
  "request_list p w = Some old \<Longrightarrow> mset (all_requests (set_request_list p rs w)) + mset old = mset (all_requests w) + mset rs"
  using update_first_requests [of _ "ws_projects w" _ rs]
  by (auto simp: request_list_def set_request_list_def all_requests_def ac_simps split: option.splits)

lemma update_first_ids: "(\<And>p. g (f p) = g p) \<Longrightarrow> map g (update_first P f ps) = map g ps"
  by (induction ps) simp_all

lemma set_request_list_ids [simp]:
  "ws_id (set_request_list p rs w) = ws_id w" "project_ids (set_request_list p rs w) = project_ids w"
  by (simp_all add: set_request_list_def project_ids_def update_first_ids split: option.split)

lemma move_request_ids:
  "mset (all_requests (move_request_in drag target w)) = mset (all_requests w)
    \<and> ws_id (move_request_in drag target w) = ws_id w \<and> project_ids (move_request_in drag target w) = project_ids w"
proof (cases "\<exists>source i targetList r taken. request_list (dg_projectId drag) w = Some source
    \<and> i = nat (js_findIndex (\<lambda>r. rq_id r = dg_nodeId drag) source) \<and> js_findIndex (\<lambda>r. rq_id r = dg_nodeId drag) source \<noteq> -1
    \<and> r = source ! i \<and> taken = set_request_list (dg_projectId drag) (remove_at i source) w
    \<and> request_list (target_project target) taken = Some targetList
    \<and> move_request_in drag target w = set_request_list (target_project target)
        (insert_at (target_index target targetList) r targetList) taken")
  case True
  then obtain source i targetList r taken where *: "request_list (dg_projectId drag) w = Some source"
    "i = nat (js_findIndex (\<lambda>r. rq_id r = dg_nodeId drag) source)" "js_findIndex (\<lambda>r. rq_id r = dg_nodeId drag) source \<noteq> -1"
    "r = source ! i" "taken = set_request_list (dg_projectId drag) (remove_at i source) w"
    "request_list (target_project target) taken = Some targetList"
    "move_request_in drag target w = set_request_list (target_project target) (insert_at (target_index target targetList) r targetList) taken"
    by blast
  have "i < length source" using *(2,3) js_findIndex_find [of "\<lambda>r. rq_id r = dg_nodeId drag" source]
      js_findIndex_ge [of "\<lambda>r. rq_id r = dg_nodeId drag" source] by auto
  then have out: "add_mset r (mset (remove_at i source)) = mset source" using *(4) mset_remove_at by simp
  have "mset (all_requests taken) + mset source = mset (all_requests w) + mset (remove_at i source)"
    using set_request_list_all [OF *(1)] *(5) by simp
  then have "add_mset r (mset (all_requests taken)) = mset (all_requests w)" unfolding out [symmetric] by simp
  moreover have "mset (all_requests (move_request_in drag target w)) + mset targetList
      = mset (all_requests taken) + add_mset r (mset targetList)"
    using set_request_list_all [OF *(6)] *(7) by simp
  ultimately show ?thesis using *(5,7) by simp
next
  case False
  then have "move_request_in drag target w = w"
    by (auto simp: move_request_in_def Let_def split: option.splits if_splits)
  then show ?thesis by simp
qed

lemma inv_moveRequest:
  assumes "inj ids" and "console_inv ids s" and "dg_workspaceId drag \<in> ws_id ` set (hc_workspaces s)"
  shows "console_inv ids (moveRequest drag target s)"
proof (cases "dg_type drag = DragRequest")
  case True
  show ?thesis
  proof (rule inv_on_workspace [OF assms(1,2), of "move_request_in drag target" _ "dg_workspaceId drag"])
    fix w
    have "mset (request_ids (move_request_in drag target w)) = mset (request_ids w)"
      unfolding request_ids_all using move_request_ids [of drag target w] by simp
    then show "ws_id (move_request_in drag target w) = ws_id w
        \<and> mset (request_ids (move_request_in drag target w)) = mset (request_ids w)
        \<and> mset (project_ids (move_request_in drag target w)) = mset (project_ids w)"
      using move_request_ids [of drag target w] by simp
  qed (use assms(3) True in \<open>auto simp: moveRequest_def\<close>)
qed (simp add: moveRequest_def assms(2))

section \<open>Editing\<close>

lemma on_requests_keep:
  assumes "\<And>rs. map rq_id (f rs) = map rq_id rs"
  shows "request_ids (on_requests p f w) = request_ids w"
proof -
  have "map (\<lambda>q. map rq_id (pj_requests q)) (map (\<lambda>p. if pj_id p = i then p\<lparr>pj_requests := f (pj_requests p)\<rparr> else p) ps)
      = map (\<lambda>q. map rq_id (pj_requests q)) ps" for i and ps :: "http_project list"
    by (simp add: assms)
  then show ?thesis by (simp add: request_ids_def on_requests_def assms del: map_map split: option.split)
qed

lemma inv_updateActiveRequest:
  assumes "inj ids" and "console_inv ids s" and "\<And>r. rq_id (f r) = rq_id r"
  shows "console_inv ids (updateActiveRequest f s)"
proof -
  have "map rq_id (patch_request i f rs) = map rq_id rs" for i rs by (simp add: patch_request_def assms(3))
  then have "request_ids (on_requests p (patch_request i f) w) = request_ids w" for p i w by (rule on_requests_keep)
  then show ?thesis
    by (intro inv_same [OF assms(1,2)]) (simp_all add: updateActiveRequest_def map_on_workspace split: option.split)
qed

lemma updateActiveRequest_drawn [simp]: "hc_drawn (updateActiveRequest f s) = hc_drawn s"
  by (simp add: updateActiveRequest_def split: option.split)

lemma wp_update_workspaces:
  assumes "\<And>w. w \<in> set ws \<Longrightarrow> ws_id w = i \<Longrightarrow> ws_id (f w) = ws_id w \<and> request_ids (f w) = request_ids w \<and> project_ids (f w) = project_ids w"
  shows "wp (gen_list (map (\<lambda>w. if ws_id w = i then normalizeWorkspace ids (f w) else State_Monad.return w) ws))
    (\<lambda>ws' n'. n \<le> n' \<and> map ws_id ws' = map ws_id ws \<and> map request_ids ws' = map request_ids ws \<and> map project_ids ws' = map project_ids ws) n"
  using assms
proof (induction ws arbitrary: n)
  case step: (Cons w ws n)
  have tail: "wp (gen_list (map (\<lambda>w. if ws_id w = i then normalizeWorkspace ids (f w) else State_Monad.return w) ws))
    (\<lambda>ws' n'. m \<le> n' \<and> map ws_id ws' = map ws_id ws \<and> map request_ids ws' = map request_ids ws \<and> map project_ids ws' = map project_ids ws) m" for m
    by (rule step.IH) (use step.prems in auto)
  have one: "wp (if ws_id w = i then normalizeWorkspace ids (f w) else State_Monad.return w)
      (\<lambda>w' n'. n \<le> n' \<and> ws_id w' = ws_id w \<and> request_ids w' = request_ids w \<and> project_ids w' = project_ids w) n"
  proof (cases "ws_id w = i")
    case True
    have "wp (normalizeWorkspace ids (f w)) (\<lambda>w' n'. n \<le> n' \<and> ws_id w' = ws_id w \<and> request_ids w' = request_ids w \<and> project_ids w' = project_ids w) n"
      by (rule wp_mono, rule wp_normalizeWorkspace)
        (use step.prems [of w] True in \<open>auto simp: request_ids_def project_ids_def\<close>)
    then show ?thesis using True by simp
  qed simp
  have pair: "wp (gen_list (map (\<lambda>w. if ws_id w = i then normalizeWorkspace ids (f w) else State_Monad.return w) ws))
      (\<lambda>ws' n'. n \<le> n' \<and> ws_id w' # map ws_id ws' = ws_id w # map ws_id ws
        \<and> request_ids w' # map request_ids ws' = request_ids w # map request_ids ws
        \<and> project_ids w' # map project_ids ws' = project_ids w # map project_ids ws) m"
    if "n \<le> m \<and> ws_id w' = ws_id w \<and> request_ids w' = request_ids w \<and> project_ids w' = project_ids w" for w' m
    by (rule wp_mono, rule tail) (use that in auto)
  show ?case by (simp only: list.map gen_list.simps wp_bind wp_return) (rule wp_mono, rule one, rule pair)
qed simp

lemma inv_updateActiveWorkspace:
  assumes "inj ids" and "console_inv ids s"
    and "\<And>a. activeWorkspace s = Some a \<Longrightarrow> ws_id (f a) = ws_id a \<and> request_ids (f a) = request_ids a \<and> project_ids (f a) = project_ids a"
  shows "console_inv ids (updateActiveWorkspace ids f s)"
proof -
  obtain a where a: "activeWorkspace s = Some a" "a \<in> set (hc_workspaces s)" using active_exists [OF assms(2)] by blast
  have "w = a" if "w \<in> set (hc_workspaces s)" "ws_id w = ws_id a" for w
    using assms(2) that a(2) by (auto simp: console_inv_def ids_ok_def distinct_map dest: inj_onD)
  then have keep: "ws_id (f w) = ws_id w \<and> request_ids (f w) = request_ids w \<and> project_ids (f w) = project_ids w"
    if "w \<in> set (hc_workspaces s)" "ws_id w = ws_id a" for w
    using that assms(3) [OF a(1)] by blast
  obtain ws t where d: "draw (gen_list (map (\<lambda>w. if ws_id w = ws_id a then normalizeWorkspace ids (f w) else State_Monad.return w)
      (hc_workspaces s))) s = (ws, t)" by fastforce
  note r = draw_wp [OF d wp_update_workspaces [OF keep]]
  then obtain m where t: "t = s\<lparr>hc_drawn := m\<rparr>" by blast
  have "updateActiveWorkspace ids f s = t\<lparr>hc_workspaces := ws\<rparr>"
    by (simp add: updateActiveWorkspace_def a(1) d)
  then show ?thesis using conjunct1 [OF r] t by (intro inv_same [OF assms(1,2)]) simp_all
qed

lemma inv_drawn: "inj ids \<Longrightarrow> console_inv ids s \<Longrightarrow> hc_drawn s \<le> n \<Longrightarrow> console_inv ids (s\<lparr>hc_drawn := n\<rparr>)"
  by (rule inv_same [where s = s]) simp_all

lemma inv_environments:
  assumes "inj ids" and "console_inv ids s"
    and "\<And>w. ws_id (f w) = ws_id w \<and> ws_requests (f w) = ws_requests w \<and> ws_projects (f w) = ws_projects w"
  shows "console_inv ids (updateActiveWorkspace ids f s)"
  by (rule inv_updateActiveWorkspace [OF assms(1,2)]) (simp add: assms(3) request_ids_def project_ids_def)

lemma inv_createEnvironment: "inj ids \<Longrightarrow> console_inv ids s \<Longrightarrow> console_inv ids (createEnvironment ids now s)"
  unfolding createEnvironment_def Let_def draw_makeId prod.case
  by (rule inv_environments) (simp_all add: inv_drawn)

lemma inv_renameActiveEnvironment: "inj ids \<Longrightarrow> console_inv ids s \<Longrightarrow> console_inv ids (renameActiveEnvironment ids name s)"
  by (simp add: renameActiveEnvironment_def inv_environments split: option.split)

lemma inv_deleteEnvironment: "inj ids \<Longrightarrow> console_inv ids s \<Longrightarrow> console_inv ids (deleteEnvironment ids i s)"
  by (simp add: deleteEnvironment_def Let_def inv_environments)

lemma inv_confirmDeleteTarget: "inj ids \<Longrightarrow> console_inv ids s \<Longrightarrow> console_inv ids (confirmDeleteTarget ids s)"
proof -
  assume inj: "inj ids" and "console_inv ids s"
  then have "console_inv ids (s\<lparr>hc_deleteConfirm := None\<rparr>)" by (simp add: console_inv_def)
  then show ?thesis using \<open>console_inv ids s\<close>
    by (auto simp: confirmDeleteTarget_def Let_def inj inv_deleteWorkspace inv_deleteProject inv_deleteRequest
        inv_deleteEnvironment split: option.split delete_target.split)
qed

lemma inv_updateVariableRowsForScope:
  assumes "inj ids" and "console_inv ids s"
  shows "console_inv ids (updateVariableRowsForScope ids scope rows s)"
proof (cases scope)
  case ScopeProject
  have "map pj_id (map (\<lambda>q. if pj_id q = i then q\<lparr>pj_variables := v\<rparr> else q) ps) = map pj_id ps"
    "map (\<lambda>p. map rq_id (pj_requests p)) (map (\<lambda>q. if pj_id q = i then q\<lparr>pj_variables := v\<rparr> else q) ps)
      = map (\<lambda>p. map rq_id (pj_requests p)) ps" for i v and ps :: "http_project list" by auto
  then have "console_inv ids (updateActiveWorkspace ids (\<lambda>w. w\<lparr>ws_projects :=
        map (\<lambda>q. if pj_id q = i then q\<lparr>pj_variables := v\<rparr> else q) (ws_projects a)\<rparr>) s)" if "activeWorkspace s = Some a" for a i v
    by (intro inv_updateActiveWorkspace [OF assms]) (use that in \<open>simp add: request_ids_def project_ids_def del: map_map\<close>)
  then show ?thesis using ScopeProject assms(2)
    by (simp add: updateVariableRowsForScope_def Let_def split: option.split)
qed (use assms in \<open>simp_all add: updateVariableRowsForScope_def updateEnvironmentVariables_def Let_def
    inv_environments inv_updateActiveRequest split: option.split\<close>)

lemma inv_drafts [simp]:
  "console_inv ids (resetVariableDraft scope s) = console_inv ids s"
  "console_inv ids (updateVariableDraft scope f s) = console_inv ids s"
  "console_inv ids (resetRequestDraft field s) = console_inv ids s"
  "console_inv ids (updateRequestDraft field f s) = console_inv ids s"
  "console_inv ids (forgetFormFile e s) = console_inv ids s"
  by (simp_all add: resetVariableDraft_def updateVariableDraft_def resetRequestDraft_def updateRequestDraft_def
      forgetFormFile_def console_inv_def split: option.split)

lemma inv_variables:
  assumes "inj ids" and "console_inv ids s"
  shows "console_inv ids (commitVariableDraft ids scope s)" "console_inv ids (updateScopedVariable ids scope i f s)"
    "console_inv ids (removeScopedVariable ids scope i s)"
  using assms inv_updateVariableRowsForScope [OF assms]
  by (simp_all add: commitVariableDraft_def updateScopedVariable_def removeScopedVariable_def Let_def)

lemma set_request_rows_id [simp]: "rq_id (set_request_rows field rows r) = rq_id r"
  by (cases field) simp_all

lemma inv_updateRequestRows: "inj ids \<Longrightarrow> console_inv ids s \<Longrightarrow> console_inv ids (updateRequestRows field rows s)"
  unfolding updateRequestRows_def by (rule inv_updateActiveRequest) simp_all

lemma inv_updateRequestRow: "inj ids \<Longrightarrow> console_inv ids s \<Longrightarrow> console_inv ids (updateRequestRow field i f s)"
  by (simp add: updateRequestRow_def Let_def inv_updateRequestRows split: option.split)

lemma inv_notice [simp]: "console_inv ids (s\<lparr>hc_send := t\<rparr>) = console_inv ids s" "console_inv ids (s\<lparr>hc_formFiles := fs\<rparr>) = console_inv ids s"
  by (simp_all add: console_inv_def)

lemma inv_rows:
  assumes "inj ids" and "console_inv ids s"
  shows "console_inv ids (commitRequestDraft field s)" "console_inv ids (setFormRowValueType i t s)"
    "console_inv ids (selectFormFile ids i file s)" "console_inv ids (removeRequestRow field i s)"
    "console_inv ids (moveRequestRow field i down s)" "console_inv ids (formatJsonBody pretty s)"
proof -
  have drawn: "console_inv ids (s\<lparr>hc_drawn := Suc (hc_drawn s)\<rparr>)" by (rule inv_drawn [OF assms]) simp
  show "console_inv ids (commitRequestDraft field s)" "console_inv ids (setFormRowValueType i t s)"
    "console_inv ids (removeRequestRow field i s)" "console_inv ids (moveRequestRow field i down s)"
    using assms by (simp_all add: commitRequestDraft_def setFormRowValueType_def removeRequestRow_def moveRequestRow_def
        Let_def inv_updateRequestRows inv_updateRequestRow split: option.split)
  show "console_inv ids (selectFormFile ids i file s)"
    using assms drawn by (simp add: selectFormFile_def draw_makeId Let_def inv_updateRequestRow split: option.split)
  show "console_inv ids (formatJsonBody pretty s)"
    using assms by (simp add: formatJsonBody_def Let_def inv_updateActiveRequest split: option.split)
qed

section \<open>Import and loading\<close>

lemma merged_ids:
  assumes "merge_result a imported mode (w, m)"
  shows "mset (request_ids w) \<subseteq># mset (request_ids a) + mset (request_ids imported)"
    and "mset (project_ids w) \<subseteq># mset (project_ids a) + mset (project_ids imported)" and "ws_id w = ws_id a"
proof -
  have "mset (map rq_id (new_requests (existingRequestIdByUrl a) (all_requests imported))) \<subseteq># mset (map rq_id (all_requests imported))"
    by (simp add: new_requests_def image_mset_subseteq_mono)
  moreover have "mset (map rq_id (all_requests w)) = mset (map rq_id (all_requests a))
      + mset (map rq_id (new_requests (existingRequestIdByUrl a) (all_requests imported)))"
    using arg_cong [OF merged_requests [OF assms], of "image_mset rq_id"] by (simp add: image_mset.compositionality comp_def)
  ultimately show "mset (request_ids w) \<subseteq># mset (request_ids a) + mset (request_ids imported)" by (simp add: request_ids_all)
  obtain added where added: "ws_projects w = map (\<lambda>p. p\<lparr>pj_requests := map (replaceRequest (overwritten_by a imported mode)) (pj_requests p)\<rparr>)
      (ws_projects a) @ added" "list_all2 (same_but_merged (existingRequestIdByUrl a)) (added_projects (existingRequestIdByUrl a) (ws_projects imported)) added"
    using assms by (auto simp: merge_result_def)
  have "map pj_id added = map pj_id (added_projects (existingRequestIdByUrl a) (ws_projects imported))"
    using added(2) by (induction rule: list_all2_induct) (auto simp: same_but_merged_def)
  then have "mset (map pj_id added) \<subseteq># mset (project_ids imported)"
    by (simp add: added_projects_def project_ids_def image_mset_subseteq_mono)
  then show "mset (project_ids w) \<subseteq># mset (project_ids a) + mset (project_ids imported)"
    by (simp add: added(1) project_ids_def comp_def)
  show "ws_id w = ws_id a" using assms by (simp add: merge_result_def)
qed

lemma imported_parse:
  assumes "inj ids"
  shows "wp (parseWorkspaceShareJson parse ids now t names) (\<lambda>result n'. n \<le> n' \<and> (case result of Inl e \<Rightarrow> True
    | Inr w \<Rightarrow> news ids ''req'' n n' (request_ids w) \<and> news ids ''project'' n n' (project_ids w) \<and> news ids ''ws'' n n' [ws_id w])) n"
proof (cases "\<exists>v. parseWorkspaceShareJson parse ids now t names = normalizeImportedWorkspace ids now v names")
  case True
  then obtain v where v: "parseWorkspaceShareJson parse ids now t names = normalizeImportedWorkspace ids now v names" ..
  show ?thesis unfolding v
    by (rule wp_mono, rule imported_workspace_ids [OF assms]) (auto split: sum.splits)
next
  case False
  then obtain e where "parseWorkspaceShareJson parse ids now t names = State_Monad.return (Inl e)"
    unfolding parseWorkspaceShareJson_def by (auto split: option.splits if_splits)
  then show ?thesis by simp
qed

lemma select_imported_fields [simp]:
  "hc_workspaces (select_imported w m s) = hc_workspaces s" "hc_activeWorkspaceId (select_imported w m s) = hc_activeWorkspaceId s"
  "hc_drawn (select_imported w m s) = hc_drawn s"
  by (simp_all add: select_imported_def Let_def split: option.split prod.split)

lemma show_export_fields [simp]:
  "hc_workspaces (show_export m s) = hc_workspaces s" "hc_activeWorkspaceId (show_export m s) = hc_activeWorkspaceId s"
  "hc_drawn (show_export m s) = hc_drawn s"
  by (simp_all add: show_export_def)

lemma inv_show_export [simp]: "console_inv ids (show_export message s) = console_inv ids s"
  by (simp add: show_export_def console_inv_def)

lemma inv_import_current:
  assumes "inj ids" and "ids_ok ids n (hc_workspaces s)" and "a \<in> set (hc_workspaces s)"
    and new: "news ids ''req'' n n1 (request_ids imported)" "news ids ''project'' n n1 (project_ids imported)"
    and merged: "merge_result a imported mode (w, m)" and "n1 \<le> n2"
  shows "ids_ok ids n2 (on_workspace (ws_id a) (\<lambda>_. w) (hc_workspaces s)) \<and> ws_id a \<in> ws_id ` set (on_workspace (ws_id a) (\<lambda>_. w) (hc_workspaces s))"
proof
  note sub = merged_ids [OF merged]
  have d: "distinct (map ws_id (hc_workspaces s))" using assms(2) by (simp add: ids_ok_def)
  have a: "v = a" if "v \<in> set (hc_workspaces s)" "ws_id v = ws_id a" for v
    using d that assms(3) by (auto simp: distinct_map dest: inj_onD)
  have wi: "map ws_id (on_workspace (ws_id a) (\<lambda>_. w) (hc_workspaces s)) = map ws_id (hc_workspaces s)"
    using sub(3) by (auto simp: on_workspace_def)
  show "ids_ok ids n2 (on_workspace (ws_id a) (\<lambda>_. w) (hc_workspaces s))"
  proof (rule ids_ok_grow [OF assms(1,2), of n2 "[]" _ "request_ids imported" "project_ids imported"])
    show "mset (concat (map request_ids (on_workspace (ws_id a) (\<lambda>_. w) (hc_workspaces s))))
        \<subseteq># mset (concat (map request_ids (hc_workspaces s))) + mset (request_ids imported)"
      by (rule on_workspace_grow [OF d]) (use sub(1) a in auto)
    show "mset (concat (map project_ids (on_workspace (ws_id a) (\<lambda>_. w) (hc_workspaces s))))
        \<subseteq># mset (concat (map project_ids (hc_workspaces s))) + mset (project_ids imported)"
      by (rule on_workspace_grow [OF d]) (use sub(2) a in auto)
    show "news ids ''req'' n n2 (request_ids imported)" "news ids ''project'' n n2 (project_ids imported)"
      using new assms(7) by (auto intro: news_mono)
    show "news ids ''ws'' n n2 []" using news_le [OF new(1)] assms(7) by simp
  qed (simp add: wi)
  show "ws_id a \<in> ws_id ` set (on_workspace (ws_id a) (\<lambda>_. w) (hc_workspaces s))"
    using assms(3) wi by (metis image_eqI set_map)
qed

lemma inv_importShareJson:
  assumes "inj ids" and inv: "console_inv ids s"
  shows "console_inv ids (importShareJson parse ids now s)"
proof -
  let ?s = "s\<lparr>hc_shareError := None, hc_shareMessage := NoShareNotice\<rparr>"
  obtain a where a: "activeWorkspace s = Some a" "a \<in> set (hc_workspaces s)" using active_exists [OF inv] by blast
  have ok: "ids_ok ids (hc_drawn s) (hc_workspaces s)" using inv by (simp add: console_inv_def)
  obtain result t where p: "draw (parseWorkspaceShareJson parse ids now (hc_importJson s) (map ws_name (hc_workspaces s))) ?s = (result, t)"
    by fastforce
  note parsed = draw_wp [OF p imported_parse [OF assms(1)]]
  then obtain n1 where t: "t = ?s\<lparr>hc_drawn := n1\<rparr>" by blast
  have at: "activeWorkspace t = Some a" using a(1) by (simp add: t activeWorkspace_def split: option.splits)
  show ?thesis
  proof (cases result)
    case (Inl e)
    then show ?thesis using p parsed inv_drawn [OF assms, of n1] t by (simp add: importShareJson_def console_inv_def)
  next
    case (Inr imported)
    then have new: "news ids ''req'' (hc_drawn s) n1 (request_ids imported)" "news ids ''project'' (hc_drawn s) n1 (project_ids imported)"
      "news ids ''ws'' (hc_drawn s) n1 [ws_id imported]"
      using parsed t by auto
    show ?thesis
    proof (cases "hc_importTarget s = ImportCurrent")
      case True
      obtain w m u where d: "draw (mergeImportedWorkspaceIntoCurrent ids now a imported (hc_conflictMode s)) t = ((w, m), u)"
        by (metis prod.exhaust)
      note merged = draw_wp [OF d merge_gives_result]
      then obtain n2 where u: "u = t\<lparr>hc_drawn := n2\<rparr>" by blast
      have "ids_ok ids n2 (on_workspace (ws_id a) (\<lambda>_. w) (hc_workspaces s))
          \<and> ws_id a \<in> ws_id ` set (on_workspace (ws_id a) (\<lambda>_. w) (hc_workspaces s))"
        by (rule inv_import_current [OF assms(1) ok a(2) new(1,2)]) (use merged t u in auto)
      then show ?thesis using p Inr True at d t u by (simp add: importShareJson_def console_inv_def)
    next
      case False
      have "ids_ok ids n1 (hc_workspaces s @ [imported])"
        by (rule ids_ok_grow [OF assms(1) ok new(3) _ new(1) _ new(2)]) simp_all
      then show ?thesis using p Inr False at t by (simp add: importShareJson_def console_inv_def)
    qed
  qed
qed

lemma inv_workspaces_loaded:
  assumes "inj ids" and inv: "console_inv ids s" and "stored \<noteq> None \<Longrightarrow> ids_ok ids (hc_drawn s) (the stored)"
  shows "console_inv ids (workspaces_loaded ids stored s)"
proof (cases "\<exists>w ws. hc_tauri s \<and> stored = Some (w # ws)")
  case True
  then obtain w ws where st: "hc_tauri s" "stored = Some (w # ws)" by blast
  obtain vs t where d: "draw (normalizeWorkspaces ids (w # ws)) s = (vs, t)" by fastforce
  have "wp (normalizeWorkspaces ids (w # ws)) (\<lambda>vs n'. hc_drawn s \<le> n' \<and> map ws_id vs = map ws_id (w # ws)
      \<and> map request_ids vs = map request_ids (w # ws) \<and> map project_ids vs = map project_ids (w # ws)) (hc_drawn s)"
  proof -
    have step: "wp (gen_list (map (normalizeWorkspace ids) us)) (\<lambda>vs n'. n \<le> n' \<and> map ws_id vs = map ws_id us
      \<and> map request_ids vs = map request_ids us \<and> map project_ids vs = map project_ids us) n" for us n
    proof (induction us arbitrary: n)
      case step: (Cons u us n)
      have pair: "wp (gen_list (map (normalizeWorkspace ids) us)) (\<lambda>vs n'. n \<le> n' \<and> ws_id v # map ws_id vs = ws_id u # map ws_id us
          \<and> request_ids v # map request_ids vs = request_ids u # map request_ids us
          \<and> project_ids v # map project_ids vs = project_ids u # map project_ids us) m"
        if "n \<le> m \<and> ws_id v = ws_id u \<and> request_ids v = request_ids u \<and> project_ids v = project_ids u" for v m
        by (rule wp_mono, rule step.IH) (use that in auto)
      have one: "wp (normalizeWorkspace ids u) (\<lambda>v n'. n \<le> n' \<and> ws_id v = ws_id u \<and> request_ids v = request_ids u \<and> project_ids v = project_ids u) n"
        by (rule wp_mono, rule wp_normalizeWorkspace) (auto simp: request_ids_def project_ids_def)
      show ?case by (simp only: list.map gen_list.simps wp_bind wp_return) (rule wp_mono, rule one, rule pair)
    qed simp
    show ?thesis unfolding normalizeWorkspaces_def by (rule step)
  qed
  note r = draw_wp [OF d this]
  then obtain n1 where t: "t = s\<lparr>hc_drawn := n1\<rparr>" by blast
  obtain v rest where vs: "vs = v # rest" using r by (cases vs) auto
  have "ids_ok ids n1 vs" using ids_ok_same [OF assms(1) assms(3)] st r t by simp
  then show ?thesis using st d vs t by (simp add: workspaces_loaded_def console_inv_def Let_def)
next
  case False
  have "workspaces_loaded ids stored s = s\<lparr>hc_storageReady := True\<rparr>"
  proof (cases "hc_tauri s")
    case True
    then show ?thesis using False by (simp add: workspaces_loaded_def split: option.split list.split)
  qed (simp add: workspaces_loaded_def)
  then show ?thesis using inv by (simp add: console_inv_def)
qed

section \<open>The console as a step relation\<close>

text \<open>
  The events of the panel, but for loading and saving. Patches of the page write no ids; a workspace that is
  clicked on is shown, and so is the one something is created in or dragged within.
\<close>

inductive console_step :: "id_source \<Rightarrow> console \<Rightarrow> console \<Rightarrow> bool" for ids where
  workspace: "w \<in> set (hc_workspaces s) \<Longrightarrow> console_step ids s (selectWorkspace w s)"
| project: "console_step ids s (selectProject p s)"
| request: "console_step ids s (selectRequest i r s)"
| environments: "console_step ids s (openEnvironmentTab s)"
| share: "console_step ids s (openShareTab s)"
| share_all: "console_step ids s (selectAllShareRequests s)"
| share_none: "console_step ids s (clearShareRequestSelection s)"
| share_toggle: "console_step ids s (toggleShareRequestSelection r s)"
| close_environments: "console_step ids s (closeEnvironmentTab s)"
| close_share: "console_step ids s (closeShareTab s)"
| close_request: "console_step ids s (closeRequestTab r s)"
| new_workspace: "console_step ids s (createWorkspace ids now s)"
| new_project: "i \<in> ws_id ` set (hc_workspaces s) \<Longrightarrow> console_step ids s (createProject ids now i s)"
| new_request: "i \<in> ws_id ` set (hc_workspaces s) \<Longrightarrow> console_step ids s (createRequest ids now i j s)"
| duplicate: "console_step ids s (duplicateRequest ids now i j r s)"
| begin_rename: "console_step ids s (beginRename t i v s)"
| edit_name: "console_step ids s (s\<lparr>hc_editingNode := e\<rparr>)"
| commit_rename: "console_step ids s (commitRename s)"
| ask_workspace: "console_step ids s (requestDeleteWorkspace i s)"
| ask_project: "console_step ids s (requestDeleteProject i j s)"
| ask_request: "console_step ids s (requestDeleteRequest i k r s)"
| ask_environment: "console_step ids s (requestDeleteActiveEnvironment s)"
| cancel_delete: "console_step ids s (s\<lparr>hc_deleteConfirm := None\<rparr>)"
| confirm_delete: "console_step ids s (confirmDeleteTarget ids s)"
| move_project: "console_step ids s (moveProject drag target s)"
| move_request: "dg_workspaceId drag \<in> ws_id ` set (hc_workspaces s) \<Longrightarrow> console_step ids s (moveRequest drag target s)"
| patch: "(\<And>r. rq_id (f r) = rq_id r) \<Longrightarrow> console_step ids s (updateActiveRequest f s)"
| auth: "console_step ids s (updateActiveAuth g s)"
| choose_environment: "console_step ids s (setActiveEnvironment ids i s)"
| new_environment: "console_step ids s (createEnvironment ids now s)"
| rename_environment: "console_step ids s (renameActiveEnvironment ids v s)"
| draft_variable: "console_step ids s (commitVariableDraft ids scope s)"
| edit_variable: "console_step ids s (updateScopedVariable ids scope n h s)"
| remove_variable: "console_step ids s (removeScopedVariable ids scope n s)"
| draft_row: "console_step ids s (commitRequestDraft field s)"
| edit_row: "console_step ids s (updateRequestRow field n h s)"
| type_row: "console_step ids s (setFormRowValueType n vt s)"
| file_row: "console_step ids s (selectFormFile ids n file s)"
| remove_row: "console_step ids s (removeRequestRow field n s)"
| move_row: "console_step ids s (moveRequestRow field n down s)"
| format_body: "console_step ids s (formatJsonBody pretty s)"
| import_settings: "console_step ids s (s\<lparr>hc_importTarget := target', hc_conflictMode := mode, hc_importJson := text'\<rparr>)"
| import_json: "console_step ids s (importShareJson parse ids now s)"
| saved: "console_step ids s (workspaces_saved s)"
| send: "console_step ids s (send_active_request add_params ids s)"
| sending: "send_step (hc_send s) u \<Longrightarrow> console_step ids s (s\<lparr>hc_send := u\<rparr>)"
| history: "console_step ids s (show_history entry s)"

lemma inv_selections [simp]:
  "console_inv ids (selectProject p s) = console_inv ids s" "console_inv ids (selectRequest pid r s) = console_inv ids s"
  "console_inv ids (openEnvironmentTab s) = console_inv ids s" "console_inv ids (openShareTab s) = console_inv ids s"
  "console_inv ids (selectAllShareRequests s) = console_inv ids s" "console_inv ids (clearShareRequestSelection s) = console_inv ids s"
  "console_inv ids (toggleShareRequestSelection r s) = console_inv ids s" "console_inv ids (closeEnvironmentTab s) = console_inv ids s"
  "console_inv ids (closeShareTab s) = console_inv ids s" "console_inv ids (closeRequestTab r s) = console_inv ids s"
  "console_inv ids (beginRename t i v s) = console_inv ids s" "console_inv ids (requestDeleteWorkspace i s) = console_inv ids s"
  "console_inv ids (requestDeleteProject i j s) = console_inv ids s" "console_inv ids (requestDeleteRequest i k r s) = console_inv ids s"
  "console_inv ids (requestDeleteActiveEnvironment s) = console_inv ids s"
  by (simp_all add: console_inv_def selectProject_def selectRequest_def openEnvironmentTab_def openShareTab_def
      selectAllShareRequests_def clearShareRequestSelection_def toggleShareRequestSelection_def closeEnvironmentTab_def
      closeShareTab_def closeRequestTab_def beginRename_def requestDeleteWorkspace_def requestDeleteProject_def
      requestDeleteRequest_def requestDeleteActiveEnvironment_def Let_def split: option.split prod.split)

lemma inv_step: "console_step ids s s' \<Longrightarrow> inj ids \<Longrightarrow> console_inv ids s \<Longrightarrow> console_inv ids s'"
proof (induction rule: console_step.induct)
  case (auth s g)
  then show ?case by (auto simp: updateActiveAuth_def intro: inv_updateActiveRequest split: option.split)
next
  case (send s add_params)
  then show ?case using inv_drawn [of ids s "Suc (hc_drawn s)"] by (simp add: send_active_request_def draw_makeId)
next
  case (choose_environment s i)
  then show ?case by (simp add: setActiveEnvironment_def inv_environments)
qed (simp_all add: inv_selectWorkspace inv_createWorkspace inv_createProject inv_createRequest inv_duplicateRequest
    inv_commitRename inv_confirmDeleteTarget inv_moveProject inv_moveRequest inv_updateActiveRequest inv_createEnvironment
    inv_renameActiveEnvironment inv_variables inv_rows inv_updateRequestRow inv_importShareJson inv_workspaces_loaded
    workspaces_saved_def show_history_def, simp_all add: console_inv_def)

end
