(* ===== verification/HttpStorage.thy ===== *)
theory HttpStorage
  imports HttpInvariant
begin

text \<open>
  The HTTP console with its storage: the panel is mounted and unmounted, saves its workspaces and loads, when it is
  mounted, what was saved before (\<^verbatim>\<open>HttpConsolePanel.tsx\<close>, \<^verbatim>\<open>httpWorkspacesGet\<close> and \<^verbatim>\<open>httpWorkspacesSave\<close>). The code checks
  nothing of what it loads; that the ids are distinct follows from what it has saved.
\<close>

section \<open>The number of ids drawn only grows\<close>

lemma drawn_same:
  "hc_drawn (selectWorkspace w s) = hc_drawn s" "hc_drawn (selectProject p s) = hc_drawn s"
  "hc_drawn (selectRequest j i s) = hc_drawn s" "hc_drawn (openEnvironmentTab s) = hc_drawn s"
  "hc_drawn (openShareTab s) = hc_drawn s" "hc_drawn (selectAllShareRequests s) = hc_drawn s"
  "hc_drawn (clearShareRequestSelection s) = hc_drawn s" "hc_drawn (toggleShareRequestSelection i s) = hc_drawn s"
  "hc_drawn (closeEnvironmentTab s) = hc_drawn s" "hc_drawn (closeShareTab s) = hc_drawn s"
  "hc_drawn (closeRequestTab i s) = hc_drawn s" "hc_drawn (beginRename t i v s) = hc_drawn s"
  "hc_drawn (commitRename s) = hc_drawn s" "hc_drawn (requestDeleteWorkspace i s) = hc_drawn s"
  "hc_drawn (requestDeleteProject i k s) = hc_drawn s" "hc_drawn (requestDeleteRequest i j k s) = hc_drawn s"
  "hc_drawn (requestDeleteActiveEnvironment s) = hc_drawn s"
  by (auto simp: selectWorkspace_def selectProject_def selectRequest_def openEnvironmentTab_def openShareTab_def
      selectAllShareRequests_def clearShareRequestSelection_def toggleShareRequestSelection_def closeEnvironmentTab_def
      closeShareTab_def closeRequestTab_def beginRename_def commitRename_def requestDeleteWorkspace_def requestDeleteProject_def
      requestDeleteRequest_def requestDeleteActiveEnvironment_def Let_def split: option.split prod.split)

lemma drawn_moves: "hc_drawn (moveProject drag target s) = hc_drawn s" "hc_drawn (moveRequest drag target s) = hc_drawn s"
  by (auto simp: moveProject_def moveRequest_def Let_def split: option.split prod.split)

lemma drawn_deletes: "hc_drawn (deleteWorkspace i s) = hc_drawn s" "hc_drawn (deleteProject i k s) = hc_drawn s"
  "hc_drawn (deleteRequest i j k s) = hc_drawn s"
  by (auto simp: deleteWorkspace_def deleteProject_def deleteRequest_def Let_def drawn_same split: option.split prod.split list.split)

lemma drawn_creates: "hc_drawn s \<le> hc_drawn (createWorkspace ids now s)" "hc_drawn s \<le> hc_drawn (createProject ids now i s)"
  "hc_drawn s \<le> hc_drawn (createRequest ids now i j s)" "hc_drawn s \<le> hc_drawn (duplicateRequest ids now i j r s)"
  by (auto simp: createWorkspace_def createProject_def createRequest_def duplicateRequest_def draw_makeId draw_blank(1) Let_def
      split: option.split)

lemma drawn_gen_list: "(\<And>x n. x \<in> set xs \<Longrightarrow> wp (f x) (\<lambda>y n'. n \<le> n') n) \<Longrightarrow> wp (gen_list (map f xs)) (\<lambda>ys n'. n \<le> n') n"
proof (induction xs arbitrary: n)
  case (Cons x xs)
  have "wp (gen_list (map f xs)) (\<lambda>ys n'. n \<le> n') m" if "n \<le> m" for m
    by (rule wp_mono, rule Cons.IH) (use that Cons.prems in auto)
  moreover have "wp (f x) (\<lambda>y n'. n \<le> n') n" using Cons.prems by simp
  ultimately show ?case by (simp, elim wp_mono)
qed simp

lemma drawn_normalize: "wp (normalizeWorkspace ids w) (\<lambda>y n'. n \<le> n') n"
  by (rule wp_mono, rule wp_normalizeWorkspace) simp

lemma drawn_update: "hc_drawn s \<le> hc_drawn (updateActiveWorkspace ids f s)"
proof (cases "activeWorkspace s")
  case (Some a)
  let ?g = "\<lambda>w. if ws_id w = ws_id a then normalizeWorkspace ids (f w) else State_Monad.return w"
  obtain ws t where d: "draw (gen_list (map ?g (hc_workspaces s))) s = (ws, t)" by fastforce
  have "wp (gen_list (map ?g (hc_workspaces s))) (\<lambda>ys n'. hc_drawn s \<le> n') (hc_drawn s)"
    by (rule drawn_gen_list) (simp add: drawn_normalize)
  then have "hc_drawn s \<le> hc_drawn t" using draw_wp [OF d] by blast
  then show ?thesis using Some d by (simp add: updateActiveWorkspace_def)
qed (simp add: updateActiveWorkspace_def)

lemma drawn_small: "hc_drawn (resetVariableDraft scope s) = hc_drawn s" "hc_drawn (updateVariableDraft scope f s) = hc_drawn s"
  "hc_drawn (resetRequestDraft field s) = hc_drawn s" "hc_drawn (updateRequestDraft field f s) = hc_drawn s"
  by (simp_all add: resetVariableDraft_def updateVariableDraft_def resetRequestDraft_def updateRequestDraft_def)

lemma drawn_scope: "hc_drawn s \<le> hc_drawn (updateVariableRowsForScope ids scope rows s)"
  by (cases scope) (auto simp: updateVariableRowsForScope_def updateEnvironmentVariables_def Let_def drawn_update split: option.split)

lemma drawn_rows: "hc_drawn (updateRequestRows field rows s) = hc_drawn s" "hc_drawn (updateRequestRow field n h s) = hc_drawn s"
  by (simp_all add: updateRequestRows_def updateRequestRow_def Let_def drawn_small split: option.split)

lemma drawn_editors:
  "hc_drawn s \<le> hc_drawn (commitVariableDraft ids scope s)" "hc_drawn s \<le> hc_drawn (updateScopedVariable ids scope n h s)"
  "hc_drawn s \<le> hc_drawn (removeScopedVariable ids scope n s)" "hc_drawn s \<le> hc_drawn (commitRequestDraft field s)"
  "hc_drawn s \<le> hc_drawn (setFormRowValueType n vt s)" "hc_drawn s \<le> hc_drawn (selectFormFile ids n file s)"
  "hc_drawn s \<le> hc_drawn (removeRequestRow field n s)" "hc_drawn s \<le> hc_drawn (moveRequestRow field n down s)"
  "hc_drawn s \<le> hc_drawn (formatJsonBody pretty s)" "hc_drawn s \<le> hc_drawn (updateActiveAuth g s)"
  by (auto simp: commitVariableDraft_def updateScopedVariable_def removeScopedVariable_def commitRequestDraft_def
      setFormRowValueType_def selectFormFile_def removeRequestRow_def moveRequestRow_def formatJsonBody_def updateActiveAuth_def
      Let_def drawn_scope drawn_rows drawn_small draw_makeId split: option.split)

lemma drawn_environments:
  "hc_drawn s \<le> hc_drawn (setActiveEnvironment ids i s)" "hc_drawn s \<le> hc_drawn (createEnvironment ids now s)"
  "hc_drawn s \<le> hc_drawn (renameActiveEnvironment ids v s)" "hc_drawn s \<le> hc_drawn (deleteEnvironment ids i s)"
proof -
  have "hc_drawn s \<le> hc_drawn (updateActiveWorkspace ids f (s\<lparr>hc_drawn := Suc (hc_drawn s)\<rparr>))" for f
    using drawn_update [of "s\<lparr>hc_drawn := Suc (hc_drawn s)\<rparr>" ids f] by simp
  then show "hc_drawn s \<le> hc_drawn (createEnvironment ids now s)" by (simp add: createEnvironment_def draw_makeId Let_def)
qed (auto simp: setActiveEnvironment_def renameActiveEnvironment_def deleteEnvironment_def Let_def drawn_update split: option.split)

lemma drawn_confirm: "hc_drawn s \<le> hc_drawn (confirmDeleteTarget ids s)"
proof -
  have "hc_drawn s \<le> hc_drawn (deleteEnvironment ids i (s\<lparr>hc_deleteConfirm := None\<rparr>))" for i
    using drawn_environments(4) [of "s\<lparr>hc_deleteConfirm := None\<rparr>" ids i] by simp
  then show ?thesis
    by (auto simp: confirmDeleteTarget_def Let_def drawn_deletes split: option.split delete_target.split)
qed

lemma drawn_import:
  assumes "inj ids"
  shows "hc_drawn s \<le> hc_drawn (importShareJson parse ids now s)"
proof -
  let ?s = "s\<lparr>hc_shareError := None, hc_shareMessage := NoShareNotice\<rparr>"
  obtain result t where p: "draw (parseWorkspaceShareJson parse ids now (hc_importJson s) (map ws_name (hc_workspaces s))) ?s = (result, t)"
    by fastforce
  have t: "hc_drawn s \<le> hc_drawn t" using draw_wp [OF p imported_parse [OF assms]] by simp
  have merged: "hc_drawn t \<le> hc_drawn u" if "draw (mergeImportedWorkspaceIntoCurrent ids now a w m) t = (x, u)" for a w m x u
    using draw_wp [OF that merge_gives_result] by (cases x) simp
  show ?thesis
  proof (cases "\<exists>w a. result = Inr w \<and> activeWorkspace t = Some a \<and> hc_importTarget t = ImportCurrent")
    case True
    then obtain w a where c: "result = Inr w" "activeWorkspace t = Some a" "hc_importTarget t = ImportCurrent" by blast
    obtain v m u where d: "draw (mergeImportedWorkspaceIntoCurrent ids now a w (hc_conflictMode t)) t = ((v, m), u)"
      by (metis prod.exhaust)
    show ?thesis using t merged [OF d] p c d by (simp add: importShareJson_def)
  next
    case False
    then show ?thesis using t p by (auto simp: importShareJson_def split: sum.split option.split)
  qed
qed

lemma drawn_step: "console_step ids s s' \<Longrightarrow> inj ids \<Longrightarrow> hc_drawn s \<le> hc_drawn s'"
proof (induction rule: console_step.induct)
  case (import_json s parse now)
  then show ?case by (rule drawn_import)
qed (simp_all add: drawn_same drawn_moves drawn_creates drawn_editors drawn_environments drawn_confirm drawn_rows
    workspaces_saved_def send_active_request_def draw_makeId show_history_def)

lemma drawn_loaded: "hc_drawn s \<le> hc_drawn (workspaces_loaded ids stored s)"
proof (cases "\<exists>w ws. hc_tauri s \<and> stored = Some (w # ws)")
  case True
  then obtain w ws where st: "hc_tauri s" "stored = Some (w # ws)" by blast
  obtain vs t where d: "draw (normalizeWorkspaces ids (w # ws)) s = (vs, t)" by fastforce
  have "hc_drawn s \<le> hc_drawn t"
    using draw_wp [OF d [unfolded normalizeWorkspaces_def] drawn_gen_list] drawn_normalize by blast
  then show ?thesis using st d by (simp add: workspaces_loaded_def split: list.split)
next
  case False
  then show ?thesis by (auto simp: workspaces_loaded_def split: option.split list.split)
qed

section \<open>Mounted, saved and loaded\<close>

text \<open>
  The console of the panel that is mounted, and every list of workspaces that was sent to be saved. A read is answered
  with one of them, at any time: the file holds the last one that was written, and the answers of an earlier panel may
  still be under way. It may also find no file, an empty list, or fail.
\<close>

record console_run =
  cr_console :: console
  cr_saved :: "http_workspace list list"

definition first_run :: "id_source \<Rightarrow> bool \<Rightarrow> console_run" where
  "first_run ids tauri = \<lparr>cr_console = initial_console ids tauri, cr_saved = []\<rparr>"

definition run_mounted :: "id_source \<Rightarrow> bool \<Rightarrow> console_run \<Rightarrow> console_run" where
  "run_mounted ids tauri r = r\<lparr>cr_console := (initial_console ids tauri)\<lparr>hc_drawn := hc_drawn (cr_console r)\<rparr>\<rparr>"

definition run_loaded :: "id_source \<Rightarrow> http_workspace list option \<Rightarrow> console_run \<Rightarrow> console_run" where
  "run_loaded ids stored r = r\<lparr>cr_console := workspaces_loaded ids stored (cr_console r)\<rparr>"

definition run_sent :: "http_workspace list option \<Rightarrow> console \<Rightarrow> console_run \<Rightarrow> console_run" where
  "run_sent payload c r = r\<lparr>cr_console := c, cr_saved := cr_saved r @ (case payload of Some ws \<Rightarrow> [ws] | None \<Rightarrow> [])\<rparr>"

definition run_autosave :: "(jsstr \<Rightarrow> jsstr option) \<Rightarrow> console_run \<Rightarrow> console_run" where
  "run_autosave protocol r = run_sent (autosave_payload protocol (cr_console r)) (cr_console r) r"

definition run_save_now :: "(jsstr \<Rightarrow> jsstr option) \<Rightarrow> console_run \<Rightarrow> console_run" where
  "run_save_now protocol r = (case saveWorkspacesNow protocol (cr_console r) of (payload, c) \<Rightarrow> run_sent payload c r)"

inductive console_run_step :: "id_source \<Rightarrow> console_run \<Rightarrow> console_run \<Rightarrow> bool" for ids where
  handled: "console_step ids (cr_console r) c \<Longrightarrow> console_run_step ids r (r\<lparr>cr_console := c\<rparr>)"
| loaded: "stored = None \<or> stored = Some [] \<or> the stored \<in> set (cr_saved r) \<Longrightarrow> console_run_step ids r (run_loaded ids stored r)"
| autosave: "console_run_step ids r (run_autosave protocol r)"
| save_now: "console_run_step ids r (run_save_now protocol r)"
| mounted: "console_run_step ids r (run_mounted ids tauri r)"

definition console_run_inv :: "id_source \<Rightarrow> console_run \<Rightarrow> bool" where
  "console_run_inv ids r \<longleftrightarrow> console_inv ids (cr_console r) \<and> list_all (ids_ok ids (hc_drawn (cr_console r))) (cr_saved r)"

lemma ids_ok_later: "ids_ok ids n ws \<Longrightarrow> n \<le> n' \<Longrightarrow> ids_ok ids n' ws"
  by (auto simp: ids_ok_def intro: unused_mono)

lemma saved_later:
  "list_all (ids_ok ids n) xs \<Longrightarrow> n \<le> n' \<Longrightarrow> list_all (ids_ok ids n') xs"
  by (auto simp: list_all_iff intro: ids_ok_later)

lemma ids_of_stripped:
  "ws_id (stripLocalFormFileStateFromWorkspace w) = ws_id w"
  "request_ids (stripLocalFormFileStateFromWorkspace w) = request_ids w"
  "project_ids (stripLocalFormFileStateFromWorkspace w) = project_ids w"
  by (simp_all add: stripLocalFormFileStateFromWorkspace_def stripLocalFormFileStateFromRequest_def request_ids_def
      project_ids_def comp_def)

lemma ids_ok_stripped: "ids_ok ids n (stripLocalFormFileStateFromWorkspaces ws) = ids_ok ids n ws"
  by (simp add: ids_ok_def stripLocalFormFileStateFromWorkspaces_def comp_def ids_of_stripped)

lemma run_sent_inv:
  assumes "console_run_inv ids r" and "console_inv ids c" and "hc_drawn c = hc_drawn (cr_console r)"
    and "\<And>ws. payload = Some ws \<Longrightarrow> ws = stripLocalFormFileStateFromWorkspaces (hc_workspaces (cr_console r))"
  shows "console_run_inv ids (run_sent payload c r)"
  using assms by (auto simp: console_run_inv_def run_sent_def ids_ok_stripped console_inv_def split: option.split)

lemma initial_workspaces:
  "hc_workspaces (initial_console ids tauri) = [(hd defaultWorkspaces)]" "hc_drawn (initial_console ids tauri) = 0"
  "hc_activeWorkspaceId (initial_console ids tauri) = js ''ws-default''"
  by (simp_all add: initial_console_def Let_def defaultWorkspaces_def normalizeWorkspaces_def normalizeWorkspace_def js_at_def
      split: prod.split)

lemma initial_inv_at:
  assumes "js ''default'' \<notin> range ids"
  shows "console_inv ids ((initial_console ids tauri)\<lparr>hc_drawn := n\<rparr>)"
proof -
  have "js ''ws'' @ 45 # ids k \<noteq> js ''ws-default''" for k using assms by (auto simp: js_def) (metis rangeI)
  then show ?thesis
    by (simp add: console_inv_def ids_ok_def initial_workspaces defaultWorkspaces_def request_ids_def project_ids_def unused_def)
qed

lemma initial_inv: "js ''default'' \<notin> range ids \<Longrightarrow> console_inv ids (initial_console ids tauri)"
  using initial_inv_at [of ids 0 tauri] initial_workspaces(2) [of ids tauri] by (simp add: console_inv_def)

lemma console_run_step_inv:
  assumes "console_run_step ids r r'" and "inj ids" and "js ''default'' \<notin> range ids" and "console_run_inv ids r"
  shows "console_run_inv ids r'"
  using assms(1,4)
proof (induction rule: console_run_step.induct)
  case (handled r c)
  then show ?case using drawn_step [OF handled.hyps assms(2)] inv_step [OF handled.hyps assms(2)]
    by (auto simp: console_run_inv_def intro: saved_later)
next
  case (loaded stored r)
  let ?n = "hc_drawn (cr_console r)"
  have "ids_ok ids ?n []" by (simp add: ids_ok_def unused_def)
  then have "ids_ok ids ?n (the stored)" if "stored \<noteq> None" using loaded that
    by (auto simp: console_run_inv_def list_all_iff)
  then have "console_inv ids (workspaces_loaded ids stored (cr_console r))"
    using loaded.prems by (intro inv_workspaces_loaded [OF assms(2)]) (auto simp: console_run_inv_def)
  then show ?case using loaded.prems saved_later [OF _ drawn_loaded [of "cr_console r" ids stored]]
    by (auto simp: console_run_inv_def run_loaded_def)
next
  case (autosave r protocol)
  then show ?case unfolding run_autosave_def
    by (intro run_sent_inv) (auto simp: console_run_inv_def autosave_payload_def split: if_splits)
next
  case (save_now r protocol)
  obtain payload c where p: "saveWorkspacesNow protocol (cr_console r) = (payload, c)" by fastforce
  have "console_inv ids c" "hc_drawn c = hc_drawn (cr_console r)"
    "payload = Some ws \<Longrightarrow> ws = stripLocalFormFileStateFromWorkspaces (hc_workspaces (cr_console r))" for ws
    using p save_now by (auto simp: saveWorkspacesNow_def console_run_inv_def console_inv_def split: if_splits)
  then show ?case unfolding run_save_now_def using p save_now by (simp add: run_sent_inv)
next
  case (mounted r tauri)
  then show ?case by (simp add: console_run_inv_def run_mounted_def initial_inv_at [OF assms(3)])
qed

lemma console_run_reachable:
  assumes "(console_run_step ids)\<^sup>*\<^sup>* (first_run ids tauri) r" and "inj ids" and "js ''default'' \<notin> range ids"
  shows "console_run_inv ids r"
  using assms(1)
proof (induction rule: rtranclp_induct)
  case base
  show ?case using initial_inv [OF assms(3)] by (simp add: console_run_inv_def first_run_def)
qed (use console_run_step_inv [OF _ assms(2,3)] in blast)

end
