(* ===== verification/HttpConsole.thy ===== *)
theory HttpConsole
  imports HttpStorage
begin

text \<open>
  What the handlers of the HTTP console guarantee: ids stay unique over every run, drags lose and
  double nothing, the tab shown after one is closed is open, rows that move only change their order,
  and what a failed load and a copied request do to what is stored.
\<close>

section \<open>Every run\<close>

lemma initial_fields [simp]:
  "hc_tauri (initial_console ids tauri) = tauri" "hc_mainView (initial_console ids tauri) = BlankView"
  "hc_activeProjectId (initial_console ids tauri) = None" "hc_closedTabs (initial_console ids tauri) = {}"
  by (simp_all add: initial_console_def Let_def split: prod.split)

lemma all_request_ids: "mset (map rq_id (concat (map all_requests ws))) = mset (concat (map request_ids ws))"
  by (induction ws) (simp_all add: request_ids_all)

text \<open>
  C16. Whatever the user does, with any clock, any answers of the back end and any imported text, however often the
  panel is closed and opened again and whichever of the workspaces that it has saved it finds then: the active
  workspace exists, and no two workspaces, projects or requests share an id, on the screen and in what is saved.
\<close>

theorem reachable_console_inv:
  assumes "(console_run_step ids)\<^sup>*\<^sup>* (first_run ids tauri) r" and "inj ids" and "js ''default'' \<notin> range ids"
  shows "hc_activeWorkspaceId (cr_console r) \<in> ws_id ` set (hc_workspaces (cr_console r))
    \<and> list_all (\<lambda>ws. distinct (map ws_id ws) \<and> distinct (concat (map (\<lambda>w. map pj_id (ws_projects w)) ws))
         \<and> distinct (map rq_id (concat (map all_requests ws)))) (hc_workspaces (cr_console r) # cr_saved r)"
proof -
  have inv: "console_run_inv ids r" by (rule console_run_reachable [OF assms])
  have "(\<lambda>w. map pj_id (ws_projects w)) = project_ids" by (simp add: project_ids_def fun_eq_iff)
  then have ok: "distinct (map ws_id ws) \<and> distinct (concat (map (\<lambda>w. map pj_id (ws_projects w)) ws))
         \<and> distinct (map rq_id (concat (map all_requests ws)))" if "ids_ok ids n ws" for n ws
    using mset_eq_imp_distinct_iff [OF all_request_ids] that by (simp add: ids_ok_def)
  show ?thesis using inv ok by (auto simp: console_run_inv_def console_inv_def list_all_iff)
qed

lemma loaded_length:
  assumes "hc_tauri s" and "ws \<noteq> []"
  shows "length (hc_workspaces (workspaces_loaded ids (Some ws) s)) = length ws"
proof -
  obtain vs t where d: "draw (normalizeWorkspaces ids ws) s = (vs, t)" by fastforce
  have "wp (normalizeWorkspaces ids ws) (\<lambda>vs n'. list_all2 (\<lambda>x y. True) ws vs) (hc_drawn s)"
    unfolding normalizeWorkspaces_def by (rule wp_gen_list_content) (simp add: wp_def split: prod.split)
  from conjunct1 [OF draw_wp [OF d this]] have "length vs = length ws" by (simp add: list_all2_lengthD)
  then show ?thesis using assms d by (cases ws; cases vs) (auto simp: workspaces_loaded_def Let_def)
qed

lemma example_ids: "inj (\<lambda>n. replicate n (97 :: code_unit))" "js ''default'' \<notin> range (\<lambda>n. replicate n 97)"
proof -
  show "inj (\<lambda>n. replicate n (97 :: code_unit))" by (rule injI) (metis length_replicate)
  show "js ''default'' \<notin> range (\<lambda>n. replicate n 97)"
  proof
    assume "js ''default'' \<in> range (\<lambda>n. replicate n 97)"
    then obtain n where "js ''default'' = replicate n 97" by blast
    then have "\<forall>c\<in>set (js ''default''). c = 97" by auto
    then show False by (simp add: js_def)
  qed
qed

text \<open>A workspace is created and saved, the panel is opened again and finds both.\<close>

theorem reachable_console_inv_witness:
  "\<exists>r :: console_run. length (hc_workspaces (cr_console r)) = 2 \<and> length (cr_saved r) = 1
    \<and> distinct (map ws_id (hc_workspaces (cr_console r)))"
proof -
  let ?ids = "\<lambda>n. replicate n 97" and ?p = "\<lambda>_ :: jsstr. Some (js ''https:'')"
  define a where "a = first_run ?ids True"
  define b where "b = a\<lparr>cr_console := createWorkspace ?ids [] (cr_console a)\<rparr>"
  define c where "c = run_save_now ?p b"
  define d where "d = run_mounted ?ids True c"
  define e where "e = run_loaded ?ids (Some (hd (cr_saved c))) d"
  have con: "cr_console a = initial_console ?ids True" "cr_saved a = []" by (simp_all add: a_def first_run_def)
  obtain w where b: "hc_workspaces (cr_console b) = [hd defaultWorkspaces, w]" "hc_tauri (cr_console b)" "cr_saved b = []"
    "ws_requests w = []" "ws_projects w = []"
    by (simp add: b_def con createWorkspace_def draw_makeId initial_workspaces Let_def reset_response_def)
  have valid: "\<not> hasInvalidRequestUrl ?p (hc_workspaces (cr_console b))"
    by (simp add: b hasInvalidRequestUrl_def defaultWorkspaces_def)
  have c: "cr_saved c = [stripLocalFormFileStateFromWorkspaces (hc_workspaces (cr_console b))]"
    using valid b by (simp add: c_def run_save_now_def saveWorkspacesNow_def run_sent_def)
  have "console_run_step ?ids a b" unfolding b_def by (rule console_run_step.handled) (rule console_step.new_workspace)
  moreover have "console_run_step ?ids b c" unfolding c_def by (rule console_run_step.save_now)
  moreover have "console_run_step ?ids c d" unfolding d_def by (rule console_run_step.mounted)
  moreover have "console_run_step ?ids d e" unfolding e_def
    by (rule console_run_step.loaded) (simp add: d_def run_mounted_def c)
  ultimately have run: "(console_run_step ?ids)\<^sup>*\<^sup>* (first_run ?ids True) e"
    unfolding a_def [symmetric] by (meson converse_rtranclp_into_rtranclp r_into_rtranclp)
  have s: "cr_saved e = cr_saved c" by (simp add: e_def run_loaded_def d_def run_mounted_def)
  have "length (hc_workspaces (cr_console e)) = 2" by (simp add: e_def run_loaded_def d_def run_mounted_def c loaded_length b stripLocalFormFileStateFromWorkspaces_def)
  then show ?thesis using reachable_console_inv [OF run example_ids] s c by auto
qed

section \<open>Moving requests\<close>

text \<open>
  No drag of a request loses, doubles or changes a request, whatever the target.
\<close>

theorem moveRequest_keeps:
  "mset (concat (map all_requests (hc_workspaces (moveRequest drag target s)))) = mset (concat (map all_requests (hc_workspaces s)))"
proof -
  have "mset (concat (map all_requests (on_workspace i (move_request_in drag target) ws))) = mset (concat (map all_requests ws))" for i ws
    by (induction ws) (simp_all add: on_workspace_def move_request_ids)
  then show ?thesis by (simp add: moveRequest_def)
qed

lemma request_list_set_same: "request_list p w = Some old \<Longrightarrow> truthy q = truthy p \<Longrightarrow> request_list q (set_request_list p rs w) = Some rs"
proof -
  have "find P (update_first P (\<lambda>p. p\<lparr>pj_requests := rs\<rparr>) ps) = Some (p\<lparr>pj_requests := rs\<rparr>)"
    if "find P ps = Some p" "\<And>p. P (p\<lparr>pj_requests := rs\<rparr>) = P p" for P and ps :: "http_project list" and p
    using that by (induction ps) (auto split: if_splits)
  then show "request_list p w = Some old \<Longrightarrow> truthy q = truthy p \<Longrightarrow> request_list q (set_request_list p rs w) = Some rs"
    by (auto simp: request_list_def set_request_list_def split: option.splits)
qed

lemma request_list_set_other: "truthy q \<noteq> truthy p \<Longrightarrow> request_list q (set_request_list p rs w) = request_list q w"
proof -
  have "map_option pj_requests (find (\<lambda>p. pj_id p = j) (update_first (\<lambda>p. pj_id p = i) (\<lambda>p. p\<lparr>pj_requests := rs\<rparr>) ps))
      = map_option pj_requests (find (\<lambda>p. pj_id p = j) ps)" if "i \<noteq> j" for i j and ps :: "http_project list"
    using that by (induction ps) auto
  then show "truthy q \<noteq> truthy p \<Longrightarrow> request_list q (set_request_list p rs w) = request_list q w"
    by (auto simp: request_list_def set_request_list_def split: option.splits)
qed

lemma request_list_sub: "request_list p w = Some rs \<Longrightarrow> set rs \<subseteq> set (all_requests w)"
  by (auto simp: request_list_def all_requests_def split: option.splits dest!: find_Some_set)

lemma workspace_distinct:
  assumes "ids_ok ids n ws" and "w \<in> set ws"
  shows "distinct (map rq_id (all_requests w))"
  using each_distinct [OF assms] mset_eq_imp_distinct_iff [OF request_ids_all] by blast

lemma request_list_distinct:
  assumes "distinct (map rq_id (all_requests w))" and "request_list p w = Some rs"
  shows "distinct (map rq_id rs)"
proof -
  have "distinct (concat (map (\<lambda>p. map rq_id (pj_requests p)) (ws_projects w)))" "distinct (map rq_id (ws_requests w))"
    using assms(1) by (auto simp: all_requests_def map_concat comp_def)
  then show ?thesis using assms(2)
    by (auto simp: request_list_def split: option.splits dest!: find_Some_set split_list)
qed

lemma filter_remove_at:
  assumes "i < length xs" and "\<not> P (xs ! i)"
  shows "filter P (remove_at i xs) = filter P xs"
proof -
  have "xs = take i xs @ xs ! i # drop (Suc i) xs" using assms(1) by (rule id_take_nth_drop)
  then have "filter P xs = filter P (take i xs @ xs ! i # drop (Suc i) xs)" by simp
  then show ?thesis using assms(2) by (simp add: remove_at_def)
qed

lemma findIndex_split: "0 \<le> js_findIndex P xs \<Longrightarrow> xs = take (nat (js_findIndex P xs)) xs @ xs ! nat (js_findIndex P xs) # drop (Suc (nat (js_findIndex P xs))) xs"
  using js_findIndex_find [of P xs] by (intro id_take_nth_drop) simp

text \<open>
  A request that is dropped on another one is put directly before or after it, as the half of the
  row says, and both lists keep the order of the requests that were not dragged.
\<close>

theorem moveRequest_beside:
  assumes "distinct (request_ids w)" and "request_list (dg_projectId drag) w = Some source"
    and "find (\<lambda>r. rq_id r = dg_nodeId drag) source = Some r"
    and "request_list (target_project target) w = Some old" and "dt_type target = DropRequest"
    and "dt_requestId target = Some (rq_id q)" and "q \<in> set old" and "rq_id q \<noteq> []" and "q \<noteq> r"
  shows "\<exists>xs ys. request_list (target_project target) (move_request_in drag target w)
        = Some (xs @ (if dt_position target = DropAfter then [q, r] else [r, q]) @ ys)
      \<and> filter (\<lambda>p. rq_id p \<noteq> dg_nodeId drag) old = xs @ q # ys"
proof -
  let ?i = "js_findIndex (\<lambda>r. rq_id r = dg_nodeId drag) source"
  have found: "0 \<le> ?i" using assms(3) find_None_findIndex [of "\<lambda>r. rq_id r = dg_nodeId drag" source] by force
  then have i: "nat ?i < length source" "source ! nat ?i = r" "rq_id r = dg_nodeId drag"
    using js_findIndex_find [OF found] assms(3) by auto
  define taken where "taken = set_request_list (dg_projectId drag) (remove_at (nat ?i) source) w"
  have src: "add_mset r (mset (remove_at (nat ?i) source)) = mset source" using mset_remove_at [OF i(1)] i(2) by simp
  have "mset (all_requests taken) + mset source = mset (all_requests w) + mset (remove_at (nat ?i) source)"
    unfolding taken_def by (rule set_request_list_all [OF assms(2)])
  then have out: "add_mset r (mset (all_requests taken)) = mset (all_requests w)"
    unfolding src [symmetric] by simp
  have dist: "distinct (map rq_id (all_requests w))" using assms(1) mset_eq_imp_distinct_iff [OF request_ids_all] by blast
  have "mset (rq_id r # map rq_id (all_requests taken)) = mset (map rq_id (all_requests w))"
    using arg_cong [OF out, of "image_mset rq_id"] by simp
  then have "distinct (rq_id r # map rq_id (all_requests taken))" using dist mset_eq_imp_distinct_iff by blast
  then have gone: "rq_id p \<noteq> dg_nodeId drag" if "p \<in> set (all_requests taken)" for p
    using that i(3) by (auto simp: image_iff)
  obtain new where new: "request_list (target_project target) taken = Some new"
    and "filter (\<lambda>p. rq_id p \<noteq> dg_nodeId drag) new = filter (\<lambda>p. rq_id p \<noteq> dg_nodeId drag) old"
  proof (cases "truthy (target_project target) = truthy (dg_projectId drag)")
    case True
    then have "old = source" using assms(2,4) by (simp add: request_list_def)
    then show ?thesis
      using that [OF request_list_set_same [OF assms(2) True, of "remove_at (nat ?i) source", folded taken_def]]
        filter_remove_at [OF i(1)] i(2,3) by simp
  next
    case False
    show ?thesis by (rule that [of old]) (simp_all add: taken_def request_list_set_other [OF False] assms(4))
  qed
  moreover have "filter (\<lambda>p. rq_id p \<noteq> dg_nodeId drag) new = new"
    by (rule filter_True) (use gone request_list_sub [OF new] in blast)
  ultimately have rest: "filter (\<lambda>p. rq_id p \<noteq> dg_nodeId drag) old = new" by simp
  have "rq_id q \<noteq> rq_id r"
  proof
    assume same: "rq_id q = rq_id r"
    have "q \<in> set (all_requests w)" "r \<in> set (all_requests w)"
      using assms(7) request_list_sub [OF assms(4)] find_Some_set [OF assms(3)] request_list_sub [OF assms(2)] by auto
    then show False using distinct_request [OF assms(1)] same assms(9) by blast
  qed
  then have q: "q \<in> set new" using assms(7) i(3) by (simp flip: rest)
  let ?k = "js_findIndex (\<lambda>p. rq_id p = rq_id q) new"
  have k: "0 \<le> ?k" using q js_findIndex_neg_iff [of "\<lambda>p. rq_id p = rq_id q" new] by force
  have inw: "p \<in> set (all_requests w)" if "p \<in> set new" for p
    using that rest request_list_sub [OF assms(4)] by (metis filter_is_subset subsetD)
  have at: "new ! nat ?k = q"
    using js_findIndex_find [OF k] by (intro distinct_request [OF assms(1) inw inw [OF q]]) auto
  have moved: "request_list (target_project target) (move_request_in drag target w)
      = Some (insert_at (target_index target new) r new)"
    using assms(2,4) found new i(2) request_list_set_same [OF new refl, of "insert_at (target_index target new) r new"]
    by (simp add: move_request_in_def taken_def)
  have "target_index target new = nat ?k + (if dt_position target = DropAfter then 1 else 0)"
    using assms(5,6,8) k by (simp add: target_index_def truthy_def nat_add_distrib)
  moreover have "drop (nat ?k) new = q # drop (Suc (nat ?k)) new"
    using Cons_nth_drop_Suc [of "nat ?k" new] js_findIndex_find [OF k] at by simp
  ultimately have "insert_at (target_index target new) r new
      = take (nat ?k) new @ (if dt_position target = DropAfter then [q, r] else [r, q]) @ drop (Suc (nat ?k)) new"
    using js_findIndex_find [OF k] at by (auto simp: insert_at_def take_Suc_conv_app_nth)
  then show ?thesis using moved rest findIndex_split [OF k] at by metis
qed

text \<open>Two requests of a workspace.\<close>

definition dragged_request :: "string \<Rightarrow> http_request" where
  "dragged_request i = (fst (run_state (createBlankRequest (\<lambda>_. []) (js i)) 0))\<lparr>rq_id := js i\<rparr>"

definition dragged_workspace :: http_workspace where
  "dragged_workspace = (hd defaultWorkspaces)\<lparr>ws_requests := [dragged_request ''a'', dragged_request ''b'']\<rparr>"

lemma dragged_fields [simp]:
  "rq_id (dragged_request i) = js i" "ws_requests dragged_workspace = [dragged_request ''a'', dragged_request ''b'']"
  "ws_projects dragged_workspace = []" "rq_name (dragged_request i) = js i"
  by (simp_all add: dragged_request_def dragged_workspace_def defaultWorkspaces_def createBlankRequest_def makeId_def)

theorem moveRequest_beside_witness:
  "\<exists>xs ys. request_list None (move_request_in \<lparr>dg_nodeId = js ''a'', dg_projectId = None, dg_type = DragRequest, dg_workspaceId = []\<rparr>
      \<lparr>dt_projectId = None, dt_requestId = Some (js ''b''), dt_type = DropRequest, dt_workspaceId = [], dt_position = DropAfter\<rparr>
      dragged_workspace) = Some (xs @ [dragged_request ''b'', dragged_request ''a''] @ ys)"
proof -
  have ne: "dragged_request ''b'' \<noteq> dragged_request ''a''"
  proof
    assume "dragged_request ''b'' = dragged_request ''a''"
    then have "rq_id (dragged_request ''b'') = rq_id (dragged_request ''a'')" by (rule arg_cong)
    then show False by (simp add: js_def)
  qed
  have "distinct (request_ids dragged_workspace)" by (simp add: request_ids_def js_def)
  from moveRequest_beside [OF this, of "\<lparr>dg_nodeId = js ''a'', dg_projectId = None, dg_type = DragRequest, dg_workspaceId = []\<rparr>"
      "[dragged_request ''a'', dragged_request ''b'']" "dragged_request ''a''"
      "\<lparr>dt_projectId = None, dt_requestId = Some (js ''b''), dt_type = DropRequest, dt_workspaceId = [], dt_position = DropAfter\<rparr>"
      "[dragged_request ''a'', dragged_request ''b'']" "dragged_request ''b''"]
  show ?thesis using ne by (auto simp: request_list_def truthy_def target_project_def js_def)
qed

section \<open>Closing tabs\<close>

lemma shown_next [simp]:
  "hc_mainView (show_next q v s) = (case q of Some r \<Rightarrow> RequestView | None \<Rightarrow> v)"
  "hc_activeRequestId (show_next q v s) = (case q of Some r \<Rightarrow> rq_id r | None \<Rightarrow> [])"
  "hc_activeProjectId (show_next q v s) = hc_activeProjectId s" "hc_closedTabs (show_next q v s) = hc_closedTabs s"
  "hc_mainView (reset_response s) = hc_mainView s" "hc_activeRequestId (reset_response s) = hc_activeRequestId s"
  "hc_activeProjectId (reset_response s) = hc_activeProjectId s" "hc_closedTabs (reset_response s) = hc_closedTabs s"
  by (simp_all add: show_next_def reset_response_def split: option.split)

lemma openRequestTabs_cong:
  "hc_workspaces s' = hc_workspaces s \<Longrightarrow> hc_activeWorkspaceId s' = hc_activeWorkspaceId s \<Longrightarrow> hc_activeProjectId s' = hc_activeProjectId s
    \<Longrightarrow> openRequestTabs s' = filter (\<lambda>r. rq_id r \<notin> hc_closedTabs s') (activeRequestList s)"
  by (simp only: openRequestTabs_def activeRequestList_def activeProject_def activeWorkspace_def)

text \<open>
  Closing the tab of a request takes exactly this one out of the tabs, and if a request is shown
  then, its tab is open.
\<close>

theorem closeRequestTab_shows_open:
  assumes "hc_mainView s = RequestView \<longrightarrow> hc_activeRequestId s \<in> rq_id ` set (openRequestTabs s)"
  shows "openRequestTabs (closeRequestTab i s) = filter (\<lambda>r. rq_id r \<noteq> i) (openRequestTabs s)
    \<and> (hc_mainView (closeRequestTab i s) = RequestView \<longrightarrow>
       hc_activeRequestId (closeRequestTab i s) \<in> rq_id ` set (openRequestTabs (closeRequestTab i s)))"
proof -
  have tabs: "openRequestTabs (closeRequestTab i s) = filter (\<lambda>r. rq_id r \<noteq> i) (openRequestTabs s)"
    by (subst openRequestTabs_cong [of _ s])
      (auto simp: closeRequestTab_def Let_def openRequestTabs_def intro: filter_cong)
  have at: "js_at xs n = Some r \<Longrightarrow> r \<in> set xs" for xs n and r :: http_request
    by (auto simp: js_at_def split: if_splits)
  have "hc_activeRequestId (closeRequestTab i s) \<in> rq_id ` set (filter (\<lambda>r. rq_id r \<noteq> i) (openRequestTabs s))"
    if "hc_mainView (closeRequestTab i s) = RequestView"
    using that assms by (auto simp: closeRequestTab_def Let_def split: if_splits option.splits dest!: at)
  then show ?thesis using tabs by simp
qed

theorem closeRequestTab_shows_open_witness:
  "openRequestTabs (closeRequestTab [] (initial_console (\<lambda>_. []) True)) = []"
  using closeRequestTab_shows_open [of "initial_console (\<lambda>_. []) True" "[]"]
  by (simp add: openRequestTabs_def activeRequestList_def activeProject_def activeWorkspace_def truthy_def initial_workspaces
      defaultWorkspaces_def)

section \<open>Deleting a request\<close>

lemma concat_disjoint:
  "distinct (concat (map f xs)) \<Longrightarrow> x \<in> set xs \<Longrightarrow> y \<in> set xs \<Longrightarrow> x \<noteq> y \<Longrightarrow> set (f x) \<inter> set (f y) = {}"
  by (induction xs) auto

lemma concat_map_cong: "(\<And>x. x \<in> set xs \<Longrightarrow> f x = g x) \<Longrightarrow> concat (map f xs) = concat (map g xs)"
  by (induction xs) simp_all

lemma delete_in_workspace:
  assumes "distinct (map rq_id (all_requests w))" and "request_list p w = Some rs" and "r \<in> set rs"
  shows "all_requests (on_requests p (filter (\<lambda>q. rq_id q \<noteq> rq_id r)) w) = filter (\<lambda>q. rq_id q \<noteq> rq_id r) (all_requests w)"
proof -
  let ?Q = "\<lambda>q. rq_id q \<noteq> rq_id r"
  have d: "distinct (map rq_id (ws_requests w))" "distinct (concat (map (\<lambda>p. map rq_id (pj_requests p)) (ws_projects w)))"
    "rq_id ` set (ws_requests w) \<inter> rq_id ` (\<Union>p\<in>set (ws_projects w). set (pj_requests p)) = {}"
    using assms(1) by (auto simp: all_requests_def map_concat comp_def)
  show ?thesis
  proof (cases "truthy p")
    case None
    then have "r \<in> set (ws_requests w)" using assms(2,3) by (simp add: request_list_def)
    then have "filter ?Q (pj_requests q) = pj_requests q" if "q \<in> set (ws_projects w)" for q
      using d(3) that by (intro filter_True) (auto simp: image_iff)
    then have "concat (map (\<lambda>q. filter ?Q (pj_requests q)) (ws_projects w)) = concat (map pj_requests (ws_projects w))"
      by (rule concat_map_cong)
    then show ?thesis using None by (simp add: on_requests_def all_requests_def filter_concat comp_def)
  next
    case (Some i)
    then obtain q where q: "q \<in> set (ws_projects w)" "pj_id q = i" "r \<in> set (pj_requests q)"
      using assms(2,3) by (auto simp: request_list_def dest: find_Some_set)
    have "filter ?Q (pj_requests v) = pj_requests v" if "v \<in> set (ws_projects w)" "pj_id v \<noteq> i" for v
      using concat_disjoint [OF d(2) that(1) q(1)] that(2) q(2,3) by (intro filter_True) (auto simp: image_iff disjoint_iff)
    then have "concat (map (\<lambda>p. pj_requests (if pj_id p = i then p\<lparr>pj_requests := filter ?Q (pj_requests p)\<rparr> else p)) (ws_projects w))
        = concat (map (\<lambda>p. filter ?Q (pj_requests p)) (ws_projects w))" by (intro concat_map_cong) simp
    moreover have "filter ?Q (ws_requests w) = ws_requests w"
      using d(3) q by (intro filter_True) (auto simp: image_iff)
    ultimately show ?thesis using Some by (simp add: on_requests_def all_requests_def filter_concat comp_def)
  qed
qed

text \<open>
  Deleting a request deletes this request and nothing else, in every workspace and project.
\<close>

theorem deleteRequest_exact:
  assumes "console_inv ids s" and "find (\<lambda>w. ws_id w = workspaceId) (hc_workspaces s) = Some w"
    and "request_list projectId w = Some rs" and "find (\<lambda>r. rq_id r = requestId) rs = Some r"
  shows "map all_requests (hc_workspaces (deleteRequest workspaceId projectId requestId s))
    = map (\<lambda>v. filter (\<lambda>q. rq_id q \<noteq> requestId) (all_requests v)) (hc_workspaces s)"
proof -
  have ok: "distinct (map ws_id (hc_workspaces s))" "distinct (concat (map request_ids (hc_workspaces s)))"
    using assms(1) by (simp_all add: console_inv_def ids_ok_def)
  have w: "w \<in> set (hc_workspaces s)" "ws_id w = workspaceId" and r: "r \<in> set rs" "rq_id r = requestId"
    using find_Some_set [OF assms(2)] find_Some_set [OF assms(4)] by auto
  have ids: "set (request_ids v) = rq_id ` set (all_requests v)" for v
    using arg_cong [OF request_ids_all [of v], of set_mset] by simp
  have each: "all_requests (if ws_id v = workspaceId then on_requests projectId (filter (\<lambda>q. rq_id q \<noteq> requestId)) v else v)
      = filter (\<lambda>q. rq_id q \<noteq> requestId) (all_requests v)" if "v \<in> set (hc_workspaces s)" for v
  proof (cases "v = w")
    case True
    have "distinct (map rq_id (all_requests w))"
      using workspace_distinct [OF _ w(1), of ids "hc_drawn s"] assms(1) by (simp add: console_inv_def)
    then show ?thesis using True w(2) delete_in_workspace [OF _ assms(3) r(1)] r(2) by simp
  next
    case False
    then have "ws_id v \<noteq> workspaceId" using ok(1) that w by (auto simp: distinct_map dest: inj_onD)
    moreover have "rq_id q \<noteq> requestId" if "q \<in> set (all_requests v)" for q
      using concat_disjoint [OF ok(2) \<open>v \<in> _\<close> w(1) False] r request_list_sub [OF assms(3)] that unfolding ids by blast
    ultimately show ?thesis by simp
  qed
  have "siblings workspaceId projectId s = Some rs"
    using assms(2,3) by (auto simp: siblings_def request_list_def split: option.splits)
  then have "hc_workspaces (deleteRequest workspaceId projectId requestId s)
      = on_workspace workspaceId (on_requests projectId (filter (\<lambda>q. rq_id q \<noteq> requestId))) (hc_workspaces s)"
    using assms(4) by (simp add: deleteRequest_def Let_def)
  then show ?thesis using each by (simp add: on_workspace_def)
qed

theorem deleteRequest_exact_witness:
  "map all_requests (hc_workspaces (deleteRequest (js ''ws-default'') None (js ''a'')
      ((initial_console (\<lambda>n. replicate n 97) True)\<lparr>hc_workspaces := [dragged_workspace]\<rparr>))) = [[dragged_request ''b'']]"
proof -
  let ?s = "(initial_console (\<lambda>n. replicate n 97) True)\<lparr>hc_workspaces := [dragged_workspace]\<rparr>"
  have w: "ws_id dragged_workspace = js ''ws-default''" by (simp add: dragged_workspace_def defaultWorkspaces_def)
  have "console_inv (\<lambda>n. replicate n 97) ?s"
    using initial_inv [OF example_ids(2), of True]
    by (simp add: console_inv_def ids_ok_def initial_workspaces request_ids_def project_ids_def unused_def w defaultWorkspaces_def)
      (simp add: js_def)
  then show ?thesis
    using deleteRequest_exact [of "\<lambda>n. replicate n 97" ?s "js ''ws-default''" dragged_workspace None
      "[dragged_request ''a'', dragged_request ''b'']" "js ''a''"]
    by (simp add: w request_list_def truthy_def all_requests_def js_def)
qed

section \<open>Storage\<close>

text \<open>
  When the stored workspaces cannot be read, the console counts as loaded, and its timer saves the
  default workspace over them.
\<close>

theorem failed_load_overwrites:
  "autosave_payload protocol (workspaces_loaded ids None (initial_console ids True))
    = Some (stripLocalFormFileStateFromWorkspaces defaultWorkspaces)"
  by (simp add: autosave_payload_def workspaces_loaded_def initial_workspaces hasInvalidRequestUrl_def defaultWorkspaces_def)

section \<open>Copies\<close>

lemma find_on_workspace:
  "find (\<lambda>w. ws_id w = i) ws = Some w \<Longrightarrow> (\<And>w. ws_id (f w) = ws_id w) \<Longrightarrow> find (\<lambda>w. ws_id w = i) (on_workspace i f ws) = Some (f w)"
  by (induction ws) (auto simp: on_workspace_def)

lemma active_list:
  assumes "find (\<lambda>w. ws_id w = hc_activeWorkspaceId s) (hc_workspaces s) = Some w" and "request_list (hc_activeProjectId s) w = Some rs"
  shows "activeRequestList s = rs"
  using assms by (auto simp: activeRequestList_def activeProject_def activeWorkspace_def request_list_def split: option.splits)

lemma request_list_on_requests: "request_list p w = Some rs \<Longrightarrow> request_list p (on_requests p f w) = Some (f rs)"
proof -
  have "find (\<lambda>p. pj_id p = i) (map (\<lambda>p. if pj_id p = i then p\<lparr>pj_requests := f (pj_requests p)\<rparr> else p) ps) = Some (q\<lparr>pj_requests := f (pj_requests q)\<rparr>)"
    if "find (\<lambda>p. pj_id p = i) ps = Some q" for i q and ps :: "http_project list"
    using that by (induction ps) (auto split: if_splits)
  then show "request_list p w = Some rs \<Longrightarrow> ?thesis" by (auto simp: request_list_def on_requests_def split: option.splits)
qed

lemma find_copy: "r \<in> set rs \<Longrightarrow> rq_id copy \<notin> rq_id ` set rs \<Longrightarrow> find (\<lambda>q. rq_id q = rq_id copy) (copy_after (rq_id r) copy rs) = Some copy"
  by (induction rs) (auto simp: copy_after_def)

lemma copy_after_split:
  "distinct (map rq_id (xs @ r # ys)) \<Longrightarrow> copy_after (rq_id r) copy (xs @ r # ys) = xs @ r # copy # ys"
proof -
  have "concat (map (\<lambda>q. if rq_id q = i then [q, copy] else [q]) zs) = zs" if "i \<notin> rq_id ` set zs" for i zs
    using that by (induction zs) auto
  then show "distinct (map rq_id (xs @ r # ys)) \<Longrightarrow> ?thesis" by (auto simp: copy_after_def image_iff)
qed

lemma duplicated:
  assumes "console_inv ids s" and "find (\<lambda>w. ws_id w = workspaceId) (hc_workspaces s) = Some w"
    and "request_list projectId w = Some (xs @ r # ys)"
  shows "\<exists>copy w'. activeWorkspace (duplicateRequest ids now workspaceId projectId (rq_id r) s) = Some w'
    \<and> request_list projectId w' = Some (xs @ r # copy # ys)
    \<and> activeRequest (duplicateRequest ids now workspaceId projectId (rq_id r) s) = Some copy
    \<and> (\<exists>i name. copy = r\<lparr>rq_id := i, rq_name := name\<rparr>) \<and> rq_id copy \<notin> rq_id ` set (concat (map all_requests (hc_workspaces s)))"
proof -
  let ?rs = "xs @ r # ys" and ?s = "duplicateRequest ids now workspaceId projectId (rq_id r) s"
  let ?i = "js ''req'' @ 45 # ids (hc_drawn s)"
  have ok: "ids_ok ids (hc_drawn s) (hc_workspaces s)" using assms(1) by (simp add: console_inv_def)
  have w: "w \<in> set (hc_workspaces s)" using find_Some_set [OF assms(2)] by simp
  have all: "set (concat (map request_ids (hc_workspaces s))) = rq_id ` set (concat (map all_requests (hc_workspaces s)))"
    using arg_cong [OF all_request_ids [of "hc_workspaces s"], of set_mset] by (metis set_map set_mset_mset)
  have new: "?i \<notin> rq_id ` set (concat (map all_requests (hc_workspaces s)))"
    using ok unfolding ids_ok_def all by (blast dest: unused_not)
  have sub: "set ?rs \<subseteq> set (concat (map all_requests (hc_workspaces s)))" using request_list_sub [OF assms(3)] w by auto
  have sib: "siblings workspaceId projectId s = Some ?rs"
    using assms(2,3) by (auto simp: siblings_def request_list_def split: option.splits)
  have d: "distinct (map rq_id ?rs)" by (rule request_list_distinct [OF workspace_distinct [OF ok w] assms(3)])
  have "rq_id r \<notin> rq_id ` set xs" using d by auto
  then have found: "find (\<lambda>q. rq_id q = rq_id r) ?rs = Some r" by (induction xs) auto
  define copy where "copy = r\<lparr>rq_id := ?i, rq_name := uniqueName now (map rq_name ?rs) (rq_name r @ copySuffix)\<rparr>"
  define w' where "w' = on_requests projectId (copy_after (rq_id r) copy) w"
  have parts: "hc_workspaces ?s = on_workspace workspaceId (on_requests projectId (copy_after (rq_id r) copy)) (hc_workspaces s)"
    "hc_activeWorkspaceId ?s = workspaceId" "hc_activeProjectId ?s = projectId" "hc_activeRequestId ?s = ?i"
    using sib found by (simp_all add: duplicateRequest_def draw_makeId Let_def copy_def markRequestDirty_def open_tab_def truthy_def)
  have at: "find (\<lambda>w. ws_id w = workspaceId) (on_workspace workspaceId (on_requests projectId (copy_after (rq_id r) copy)) (hc_workspaces s)) = Some w'"
    using find_on_workspace [OF assms(2), of "on_requests projectId (copy_after (rq_id r) copy)"] by (simp add: w'_def)
  have w': "find (\<lambda>w. ws_id w = workspaceId) (hc_workspaces ?s) = Some w'" unfolding parts(1) by (rule at)
  have list: "request_list projectId w' = Some (copy_after (rq_id r) copy ?rs)"
    unfolding w'_def by (rule request_list_on_requests [OF assms(3)])
  have "activeRequestList ?s = copy_after (rq_id r) copy ?rs"
    by (rule active_list [of _ w']) (simp_all add: parts at list)
  moreover have "rq_id copy \<notin> rq_id ` set ?rs" using new sub by (auto simp: copy_def)
  ultimately have "activeRequest ?s = Some copy"
    using find_copy [of r ?rs copy] parts(4) by (simp add: activeRequest_def copy_def)
  moreover have "activeWorkspace ?s = Some w'" using w' by (simp add: activeWorkspace_def parts(2))
  moreover have "request_list projectId w' = Some (xs @ r # copy # ys)"
    using list copy_after_split [OF d, of copy] by simp
  moreover have "rq_id copy \<notin> rq_id ` set (concat (map all_requests (hc_workspaces s)))" using new by (simp add: copy_def)
  ultimately show ?thesis unfolding copy_def by blast
qed

text \<open>
  Duplicating a request puts a copy directly behind it, which differs in its id and its name only,
  has an id no request of the console has, and is the request shown then.
\<close>

theorem duplicateRequest_copies:
  assumes "console_inv ids s" and "find (\<lambda>w. ws_id w = workspaceId) (hc_workspaces s) = Some w"
    and "request_list projectId w = Some (xs @ r # ys)"
  shows "\<exists>copy w'. activeWorkspace (duplicateRequest ids now workspaceId projectId (rq_id r) s) = Some w'
    \<and> request_list projectId w' = Some (xs @ r # copy # ys)
    \<and> activeRequest (duplicateRequest ids now workspaceId projectId (rq_id r) s) = Some copy
    \<and> (\<exists>i name. copy = r\<lparr>rq_id := i, rq_name := name\<rparr>) \<and> rq_id copy \<notin> rq_id ` set (concat (map all_requests (hc_workspaces s)))"
  by (rule duplicated [OF assms])

definition example_console :: console where
  "example_console = (initial_console (\<lambda>n. replicate n 97) True)\<lparr>hc_workspaces := [dragged_workspace]\<rparr>"

lemma example_console_fields [simp]:
  "hc_workspaces example_console = [dragged_workspace]" "ws_id dragged_workspace = js ''ws-default''"
  by (simp_all add: example_console_def dragged_workspace_def defaultWorkspaces_def)

lemma example_console_inv: "console_inv (\<lambda>n. replicate n 97) example_console"
  using initial_inv [OF example_ids(2), of True] unfolding example_console_def
  by (simp add: console_inv_def ids_ok_def initial_workspaces request_ids_def project_ids_def unused_def defaultWorkspaces_def)
    (simp add: js_def)

theorem duplicateRequest_copies_witness:
  "\<exists>copy. activeRequest (duplicateRequest (\<lambda>n. replicate n 97) [] (js ''ws-default'') None (js ''a'') example_console) = Some copy
    \<and> rq_method copy = MGet"
  using duplicateRequest_copies [OF example_console_inv, of "js ''ws-default''" dragged_workspace None "[]" "dragged_request ''a''"
      "[dragged_request ''b'']" "[]"]
  by (auto simp: request_list_def truthy_def dragged_request_def createBlankRequest_def makeId_def)

lemma active_same:
  "hc_workspaces s' = hc_workspaces s \<Longrightarrow> hc_activeWorkspaceId s' = hc_activeWorkspaceId s \<Longrightarrow> hc_activeProjectId s' = hc_activeProjectId s
    \<Longrightarrow> hc_activeRequestId s' = hc_activeRequestId s \<Longrightarrow> activeRequest s' = activeRequest s"
  by (simp only: activeRequest_def activeRequestList_def activeProject_def activeWorkspace_def)

lemma kept_by_update:
  assumes "rq_id r \<noteq> rq_id q" and "r \<in> set (concat (map all_requests (hc_workspaces s)))" and "activeRequest s = Some q"
  shows "r \<in> set (concat (map all_requests (hc_workspaces (updateActiveRequest f s))))"
proof -
  have "r \<in> set (all_requests (on_requests p (patch_request (rq_id q) f) w))" if "r \<in> set (all_requests w)" for p w
  proof -
    have kept: "r \<in> set (patch_request (rq_id q) f rs)" if "r \<in> set rs" for rs
      using that assms(1) by (force simp: patch_request_def)
    then have "r \<in> set (pj_requests (if pj_id x = i then x\<lparr>pj_requests := patch_request (rq_id q) f (pj_requests x)\<rparr> else x))"
      if "r \<in> set (pj_requests x)" for x :: http_project and i
      using that by simp
    then show ?thesis using that kept
      by (fastforce simp: all_requests_def on_requests_def simp del: if_image_distrib split: option.split)
  qed
  then show ?thesis using assms(2,3)
    by (fastforce simp: updateActiveRequest_def on_workspace_def simp del: if_image_distrib split: option.split)
qed

lemma updateActiveRequest_files [simp]: "hc_formFiles (updateActiveRequest f s) = hc_formFiles s"
  by (simp add: updateActiveRequest_def markRequestDirty_def split: option.split)

text \<open>
  A copy names the same chosen file as the original, and removing the row of the copy removes the
  file itself, although the row of the original stays.
\<close>

theorem copy_removes_original_file:
  assumes "console_inv ids s" and "find (\<lambda>w. ws_id w = workspaceId) (hc_workspaces s) = Some w"
    and "request_list projectId w = Some (xs @ r # ys)"
    and "js_at (trimTrailingBlankRows (rq_formBody r)) (int n) = Some e" and "kv_localFileId e = Some k" and "k \<noteq> []"
  shows "hc_formFiles (removeRequestRow FormBodyRows n (duplicateRequest ids now workspaceId projectId (rq_id r) s)) k = None
    \<and> r \<in> set (concat (map all_requests (hc_workspaces
         (removeRequestRow FormBodyRows n (duplicateRequest ids now workspaceId projectId (rq_id r) s)))))"
proof -
  let ?d = "duplicateRequest ids now workspaceId projectId (rq_id r) s" and ?f = "forgetFormFile (Some e)"
  obtain copy w' i name where d: "activeWorkspace ?d = Some w'" "request_list projectId w' = Some (xs @ r # copy # ys)"
    "activeRequest ?d = Some copy" "copy = r\<lparr>rq_id := i, rq_name := name\<rparr>"
    "rq_id copy \<notin> rq_id ` set (concat (map all_requests (hc_workspaces s)))"
    using duplicated [OF assms(1-3), of now] by blast
  have step: "removeRequestRow FormBodyRows n ?d
      = updateActiveRequest (set_request_rows FormBodyRows (without_row n (trimTrailingBlankRows (rq_formBody r)))) (?f ?d)"
    using d(3,4) assms(4) by (simp add: removeRequestRow_def updateRequestRows_def)
  have gone: "hc_formFiles (?f ?d) k = None" using assms(5,6) by (simp add: forgetFormFile_def truthy_def)
  have w: "w \<in> set (hc_workspaces s)" using find_Some_set [OF assms(2)] by simp
  then have "rq_id r \<in> rq_id ` set (concat (map all_requests (hc_workspaces s)))"
    using request_list_sub [OF assms(3)] by (intro imageI) auto
  then have "rq_id r \<noteq> rq_id copy" using d(5) by metis
  moreover have "w' \<in> set (hc_workspaces ?d)"
    using d(1) by (auto simp: activeWorkspace_def js_at_def split: option.splits if_splits dest: find_Some_set)
  then have "r \<in> set (concat (map all_requests (hc_workspaces (?f ?d))))" using request_list_sub [OF d(2)] by auto
  moreover have "activeRequest (?f ?d) = activeRequest ?d"
    by (rule active_same) (simp_all add: forgetFormFile_def split: option.split)
  ultimately show ?thesis using kept_by_update [of r copy "?f ?d"] gone d(3) by (simp add: step)
qed

text \<open>A request with a file row, whose file the console has.\<close>

definition file_row :: kv_entry where
  "file_row = (plain_row (js ''f'') (js ''v''))\<lparr>kv_localFileId := Some (js ''k'')\<rparr>"

definition file_console :: console where
  "file_console = example_console\<lparr>hc_workspaces :=
     [dragged_workspace\<lparr>ws_requests := [(dragged_request ''a'')\<lparr>rq_formBody := [file_row]\<rparr>]\<rparr>],
     hc_formFiles := [js ''k'' \<mapsto> \<lparr>fl_name = js ''v'', fl_type = [], fl_size = 0\<rparr>]\<rparr>"

lemma file_row_trim: "trimTrailingBlankRows [file_row] = [file_row]"
  by (simp add: trimTrailingBlankRows_def trim_end_def file_row_def hasKeyValueContent_def plain_row_def js_def js_trim_def
      js_space_def)

theorem copy_removes_original_file_witness:
  "hc_formFiles file_console (js ''k'') \<noteq> None
    \<and> hc_formFiles (removeRequestRow FormBodyRows 0 (duplicateRequest (\<lambda>n. replicate n 97) [] (js ''ws-default'') None (js ''a'') file_console))
        (js ''k'') = None"
proof -
  have "console_inv (\<lambda>n. replicate n 97) file_console"
    using example_console_inv
    by (simp add: file_console_def console_inv_def ids_ok_def request_ids_def project_ids_def unused_def example_console_def)
  from copy_removes_original_file [OF this, of "js ''ws-default''" "hd (hc_workspaces file_console)" None "[]"
      "(dragged_request ''a'')\<lparr>rq_formBody := [file_row]\<rparr>" "[]" 0 file_row "js ''k''" "[]"]
  show ?thesis
    by (simp add: file_console_def request_list_def truthy_def file_row_trim js_at_def) (simp add: file_row_def js_def)
qed

end
