(* ===== verification/Labels.thy ===== *)
theory Labels
  imports PortivaTypes JsNumber
begin

text \<open>
  The texts of the shared helpers: labels and summaries of transfers (\<^verbatim>\<open>src/shared/labels.ts\<close>), sizes and
  times (\<^verbatim>\<open>src/shared/format.ts\<close>), targets of profiles (\<^verbatim>\<open>src/shared/profile.ts\<close>),
     the delays of retries
  (\<^verbatim>\<open>src/shared/retryBackoff.ts\<close>) and the recognition of failed credentials (\<^verbatim>\<open>src/shared/credentials.ts\<close>).
  Counts of bytes and seconds are integers, as the back end sends them.
\<close>

section \<open>Numbers in texts\<close>

definition int_text :: "int \<Rightarrow> jsstr" where
  "int_text i = (if i < 0 then 45 # nat_digits (nat (- i)) else nat_digits (nat i))"

section \<open>Labels\<close>

text \<open>A table of labels; a name that is not in it stands for itself. The tables are object literals: the names
  every object inherits (\<^verbatim>\<open>constructor\<close>) are no names of kinds and states and do not occur.\<close>

definition label_of :: "(string \<times> jsstr) list \<Rightarrow> jsstr \<Rightarrow> jsstr" where
  "label_of labels s = (case map_of (map (\<lambda>(n, t). (js n, t)) labels) s of Some t \<Rightarrow> t | None \<Rightarrow> s)"

definition dataSourceLabel :: "jsstr \<Rightarrow> jsstr" where
  "dataSourceLabel source =
     (if source = js ''tauri'' then [0x672C, 0x673A, 0x670D, 0x52A1] else if source = js ''mock'' then [0x6F14, 0x793A, 0x6570,
        0x636E] else [0x52A0, 0x8F7D, 0x4E2D])"

definition connectionStatusLabel :: "jsstr \<Rightarrow> jsstr" where
  "connectionStatusLabel = label_of
     [(''ready'', [0x5C31, 0x7EEA]), (''connecting'', [0x8FDE, 0x63A5, 0x4E2D]), (''connected'', [0x5DF2, 0x8FDE, 0x63A5]),
      (''disconnected'', [0x5DF2, 0x65AD, 0x5F00]), (''failed'', [0x5931, 0x8D25]), (''todo'', [0x5F85, 0x5B9E, 0x73B0])]"

definition protocolLabel :: "jsstr \<Rightarrow> jsstr" where
  "protocolLabel = label_of
     [(''ssh'', js ''SSH''), (''sftp'', js ''SFTP''), (''telnet'', js ''Telnet''), (''serial'', [0x4E32, 0x53E3]),
      (''raw-tcp'', js ''Raw TCP''), (''local-shell'', ([0x672C, 0x5730] @ js '' Shell'')), (''wsl'', js ''WSL''),
      (''docker-exec'', js ''Docker''), (''kubernetes-exec'', js ''Kubernetes''), (''ftp'', js ''FTP''),
      (''ftps'', js ''FTPS''), (''webdav'', js ''WebDAV''), (''s3'', js ''S3'')]"

definition capabilityLabel :: "jsstr \<Rightarrow> jsstr" where
  "capabilityLabel = label_of
     [(''terminal'', [0x7EC8, 0x7AEF]), (''fileTransfer'', [0x6587, 0x4EF6, 0x4F20, 0x8F93]), (''sftp'', js ''SFTP''), (''scp'',
        js ''SCP''),
      (''tunnel'', [0x96A7, 0x9053]), (''portForwarding'', [0x7AEF, 0x53E3, 0x8F6C, 0x53D1]), (''ptyResize'', [80, 84, 89, 32, 0x8C03,
         0x6574]),
      (''secureTransport'', [0x52A0, 0x5BC6, 0x4F20, 0x8F93]), (''reconnect'', [0x91CD, 0x8FDE]), (''localFileAccess'', [0x672C, 0x5730,
         0x6587, 0x4EF6]),
      (''requiresHostKeyVerification'', [0x4E3B, 0x673A, 0x5BC6, 0x94A5, 0x6821, 0x9A8C])]"

definition transferDirectionLabel :: "direction \<Rightarrow> jsstr" where
  "transferDirectionLabel d = (if d = Upload then [0x4E0A, 0x4F20] else [0x4E0B, 0x8F7D])"

fun transferStatusLabel :: "transfer_status \<Rightarrow> jsstr" where
  "transferStatusLabel Pending = [0x7B49, 0x5F85, 0x4E2D]"
| "transferStatusLabel Running = [0x4F20, 0x8F93, 0x4E2D]"
| "transferStatusLabel Paused = [0x5DF2, 0x6682, 0x505C]"
| "transferStatusLabel WaitingConflict = [0x7B49, 0x5F85, 0x5904, 0x7406, 0x51B2, 0x7A81]"
| "transferStatusLabel Completed = [0x5DF2, 0x5B8C, 0x6210]"
| "transferStatusLabel Partial = [0x5DF2, 0x5B8C, 0x6210, 0xFF08, 0x6709, 0x8DF3, 0x8FC7, 0xFF09]"
| "transferStatusLabel TFailed = [0x5931, 0x8D25]"
| "transferStatusLabel Cancelled = [0x5DF2, 0x53D6, 0x6D88]"

fun conflictPolicyLabel :: "conflict_policy \<Rightarrow> jsstr" where
  "conflictPolicyLabel Overwrite = [0x8986, 0x76D6]"
| "conflictPolicyLabel OverwriteAll = [0x5168, 0x90E8, 0x8986, 0x76D6]"
| "conflictPolicyLabel Skip = [0x8DF3, 0x8FC7]"
| "conflictPolicyLabel SkipAll = [0x5168, 0x90E8, 0x8DF3, 0x8FC7]"
| "conflictPolicyLabel Rename = [0x91CD, 0x547D, 0x540D]"
| "conflictPolicyLabel Ask = [0x8BE2, 0x95EE]"

definition tunnelKindLabel :: "jsstr \<Rightarrow> jsstr" where
  "tunnelKindLabel = label_of [(''local'', [0x672C, 0x5730]), (''remote'', [0x8FDC, 0x7A0B]), (''dynamic'', [0x52A8, 0x6001])]"

definition logLevelLabel :: "jsstr \<Rightarrow> jsstr" where
  "logLevelLabel = label_of [(''debug'', [0x8C03, 0x8BD5]), (''info'', [0x4FE1, 0x606F]), (''warn'', [0x8B66, 0x544A]), (''error'',
     [0x9519, 0x8BEF])]"

section \<open>Transfers\<close>

text \<open>\<^verbatim>\<open>Math.round((a / b) * 100)\<close>, in doubles.\<close>

definition rounded_percent :: "int \<Rightarrow> int \<Rightarrow> jsnum" where
  "rounded_percent a b = num_round (num_mul (double_of (of_int a / of_int b)) (Fin 100))"

definition truthy_int :: "int option \<Rightarrow> bool" where
  "truthy_int v = (case v of Some n \<Rightarrow> n \<noteq> 0 | None \<Rightarrow> False)"

definition transferProgressPercent :: "transfer \<Rightarrow> jsnum" where
  "transferProgressPercent task =
     (if tf_status task = Completed \<or> tf_status task = Partial then Fin 100
      else if truthy_int (tf_totalBytes task) then
        num_min (Fin 100) (rounded_percent (tf_transferredBytes task) (the (tf_totalBytes task)))
      else if truthy_int (tf_totalItems task) then
        (let handledItems = tf_completedItems task + tf_skippedItems task + tf_failedItems task
         in num_min (Fin 100) (rounded_percent handledItems (the (tf_totalItems task))))
      else Fin 0)"

definition transferTaskSummary :: "transfer \<Rightarrow> jsstr" where
  "transferTaskSummary task =
     (if tf_status task = TFailed \<and> tf_error task \<noteq> None \<and> tf_error task \<noteq> Some [] then [0x5931, 0x8D25,
        0xFF1A] @ the (tf_error task)
      else if (tf_itemKind task = ItemDirectory \<or> tf_itemKind task = ItemBatch) \<and> tf_status task = Running \<and> tf_totalItems task = None
      then (if tf_itemKind task = ItemBatch then [0x6B63, 0x5728, 0x626B, 0x63CF, 0x6279, 0x91CF, 0x9879, 0x76EE] else [0x6B63, 0x5728,
         0x626B, 0x63CF, 0x6587, 0x4EF6, 0x5939])
      else (let status = transferStatusLabel (tf_status task)
            in if \<not> truthy_int (tf_totalItems task) then status
               else (let counts = filter (\<lambda>t. t \<noteq> [])
                       [int_text (tf_completedItems task) @ 47 # int_text (the (tf_totalItems task)),
                        if tf_skippedItems task \<noteq> 0 then [0x8DF3, 0x8FC7, 32] @ int_text (tf_skippedItems task) else [],
                        if tf_failedItems task \<noteq> 0 then [0x5931, 0x8D25, 32] @ int_text (tf_failedItems task) else []]
                     in status @ [32, 0xB7, 32] @ js_join [0xFF0C] counts)))"

text \<open>\<^verbatim>\<open>path.replace(/\\/g, "/").replace(/\/$/, "")\<close>\<close>

definition slashed_path :: "jsstr \<Rightarrow> jsstr" where
  "slashed_path path =
     (let p = map (\<lambda>c. if c = 92 then 47 else c) path
      in if p \<noteq> [] \<and> last p = 47 then butlast p else p)"

definition transferTaskDisplayName :: "transfer \<Rightarrow> jsstr" where
  "transferTaskDisplayName task =
     (if tf_itemKind task = ItemBatch then
        [0x6279, 0x91CF, 0x4E0A, 0x4F20, 32, 0xB7, 32] @ nat_digits (case tf_batchItems task of Some items \<Rightarrow> length items | None \<Rightarrow> 0) @ [32, 0x4E2A, 0x9879, 0x76EE]
      else (let path = (if tf_direction task = Download then tf_remotePath task else tf_localPath task);
                name = last (js_split 47 (slashed_path path))
            in if name \<noteq> [] then name else path))"

definition transferTaskTooltip :: "transfer \<Rightarrow> jsstr" where
  "transferTaskTooltip task =
     (let localSource =
        (if tf_itemKind task = ItemBatch then [0x672C, 0x5730, 0x9879, 0x76EE, 0xFF1A, 10] @ (case tf_batchItems task of Some items \<Rightarrow> js_join [10] (map up_localPath items) | None \<Rightarrow> [])
         else [0x672C, 0x5730, 0xFF1A] @ tf_localPath task)
      in js_join [10] (filter (\<lambda>t. t \<noteq> [])
           [[0x8FDC, 0x7A0B, 0xFF1A] @ tf_remotePath task, localSource,
            case tf_error task of Some e \<Rightarrow> if e \<noteq> [] then [0x9519, 0x8BEF, 0xFF1A] @ e else [] | None \<Rightarrow> []]))"

section \<open>Sizes and times\<close>

text \<open>
  The division by 1024 is exact in doubles for counts of bytes below 2 to the 53: \<open>k\<close> divisions leave
  \<open>value / 1024 ^ k\<close>.
\<close>

definition size_units :: "jsstr list" where
  "size_units = map js [''B'', ''KB'', ''MB'', ''GB'', ''TB'']"

fun scale_bytes :: "nat \<Rightarrow> rat \<Rightarrow> nat \<Rightarrow> rat \<times> nat" where
  "scale_bytes 0 size_left unitIndex = (size_left, unitIndex)"
| "scale_bytes (Suc n) size_left unitIndex =
     (if 1024 \<le> size_left then scale_bytes n (size_left / 1024) (unitIndex + 1) else (size_left, unitIndex))"

definition formatBytes :: "int option \<Rightarrow> jsstr \<Rightarrow> jsstr" where
  "formatBytes value fallback =
     (case value of
        None \<Rightarrow> fallback
      | Some v \<Rightarrow>
          if v < 0 then fallback
          else (let (scaled, unitIndex) = scale_bytes (length size_units - 1) (of_int v) 0;
                    digits = (if 100 \<le> scaled \<or> unitIndex = 0 then 0 else if 10 \<le> scaled then 1 else 2)
                in to_fixed digits scaled @ 32 # size_units ! unitIndex))"

definition formatUptime :: "int option \<Rightarrow> jsstr" where
  "formatUptime value =
     (case value of
        None \<Rightarrow> [0x2014]
      | Some v \<Rightarrow>
          if v < 0 then [0x2014]
          else (let days = v div 86400; hours = v mod 86400 div 3600; minutes = v mod 3600 div 60
                in if days > 0 then int_text days @ [0x5929, 32] @ int_text hours @ [0x65F6]
                   else if hours > 0 then int_text hours @ [0x65F6, 32] @ int_text minutes @ [0x5206]
                   else int_text minutes @ [0x5206, 0x949F]))"

definition formatUptimeDays :: "int option \<Rightarrow> jsstr" where
  "formatUptimeDays value =
     (case value of
        None \<Rightarrow> [0x2014]
      | Some v \<Rightarrow>
          if v < 0 then [0x2014]
          else (let days = v div 86400 in if days > 0 then int_text days @ [0x5929] else formatUptime value))"

section \<open>Profiles\<close>

fun type_text :: "connection_type \<Rightarrow> jsstr" where
  "type_text Ssh = js ''ssh''" | "type_text Sftp = js ''sftp''" | "type_text Telnet = js ''telnet''"
| "type_text Serial = js ''serial''" | "type_text RawTcp = js ''raw-tcp''" | "type_text LocalShell = js ''local-shell''"
| "type_text Wsl = js ''wsl''" | "type_text DockerExec = js ''docker-exec''" | "type_text KubernetesExec = js ''kubernetes-exec''"
| "type_text Ftp = js ''ftp''" | "type_text Ftps = js ''ftps''" | "type_text Webdav = js ''webdav''" | "type_text S3 = js ''s3''"

definition at_host :: "jsstr option \<Rightarrow> jsstr \<Rightarrow> int \<Rightarrow> jsstr" where
  "at_host username host port =
     (case username of Some u \<Rightarrow> if u \<noteq> [] then u @ [64] else [] | None \<Rightarrow> []) @ host @ 58 # int_text port"

fun profileTarget :: "profile \<Rightarrow> jsstr" where
  "profileTarget (SerialProfile p) = ser_portName p @ 58 # int_text (ser_baudRate p)"
| "profileTarget (SshProfile p) = at_host (Some (ssh_username p)) (ssh_host p) (ssh_port p)"
| "profileTarget (SftpProfile p) = at_host (Some (sftp_username p)) (sftp_host p) (sftp_port p)"
| "profileTarget (TelnetProfile p) = at_host (tel_username p) (tel_host p) (tel_port p)"
| "profileTarget (RawSocketProfile p) = at_host None (raw_host p) (raw_port p)"

text \<open>\<^verbatim>\<open>toUpperCase\<close> of the ASCII names of the types.\<close>

definition upper_type :: "jsstr \<Rightarrow> jsstr" where
  "upper_type s = map (\<lambda>c. if 97 \<le> c \<and> c \<le> 122 then c - 32 else c) s"

definition profileTitle :: "profile \<Rightarrow> jsstr" where
  "profileTitle p = 91 # upper_type (type_text (profile_type p)) @ [93, 32] @ profileTarget p"

section \<open>Retries\<close>

text \<open>The arguments are integers where it is called.\<close>

definition exponentialBackoffDelay :: "int \<Rightarrow> int \<Rightarrow> int \<Rightarrow> int" where
  "exponentialBackoffDelay consecutiveFailures baseDelayMs maximumDelayMs =
     (let normalizedFailures = max 0 (min 30 consecutiveFailures);
          normalizedBaseDelay = max 1 baseDelayMs;
          normalizedMaximumDelay = max normalizedBaseDelay maximumDelayMs
      in min normalizedMaximumDelay (normalizedBaseDelay * 2 ^ nat normalizedFailures))"

definition requiresSavedCredentialRecovery :: "jsstr \<Rightarrow> bool" where
  "requiresSavedCredentialRecovery message \<longleftrightarrow>
     list_ex (js_includes message)
       [[0x7CFB, 0x7EDF, 0x51ED, 0x636E, 0x5E93, 0x8BFB, 0x53D6, 0x51ED, 0x636E, 0x5931, 0x8D25], [0x7CFB, 0x7EDF, 0x51ED, 0x636E,
          0x5E93, 0x4EFB, 0x52A1, 0x6267, 0x884C, 0x5931, 0x8D25],
        [0x8BFB, 0x53D6, 0x5DF2, 0x4FDD, 0x5B58, 0x7684, 32, 83, 83, 72, 32, 0x51ED, 0x636E, 0x8D85, 0x65F6], [0x672A, 0x627E, 0x5230,
           0x5DF2, 0x4FDD, 0x5B58, 0x7684, 32, 83, 83, 72, 32, 0x5BC6, 0x7801],
        (js ''Portiva '' @ [0x51ED, 0x636E, 0x4E3B, 0x5BC6, 0x94A5]), (js ''Portiva '' @ [0x51ED, 0x636E, 0x5BC6, 0x6587]),
           (js ''Portiva '' @ [0x51ED, 0x636E, 0x89E3, 0x5BC6]),
        js ''SSH password authentication failed'', js ''SSH private key authentication failed'']"

section \<open>Lemmas\<close>

lemma backoff_bounds:
  "1 \<le> exponentialBackoffDelay n b m" "exponentialBackoffDelay n b m \<le> max 1 (max b m)"
  "max 1 b \<le> exponentialBackoffDelay n b m"
proof -
  have p: "1 \<le> (2 :: int) ^ k" for k by simp
  show low: "max 1 b \<le> exponentialBackoffDelay n b m"
    using p [of "nat (max 0 (min 30 n))"] mult_left_mono [OF p, of "max 1 b"]
    by (simp add: exponentialBackoffDelay_def Let_def)
  then show "1 \<le> exponentialBackoffDelay n b m" by simp
  show "exponentialBackoffDelay n b m \<le> max 1 (max b m)" by (simp add: exponentialBackoffDelay_def Let_def min_def max_def)
qed

lemma backoff_mono: "n \<le> n' \<Longrightarrow> exponentialBackoffDelay n b m \<le> exponentialBackoffDelay n' b m"
proof -
  assume "n \<le> n'"
  then have "(2 :: int) ^ nat (max 0 (min 30 n)) \<le> 2 ^ nat (max 0 (min 30 n'))" by (intro power_increasing) auto
  then have "max 1 b * 2 ^ nat (max 0 (min 30 n)) \<le> max 1 b * 2 ^ nat (max 0 (min 30 n'))" by (intro mult_left_mono) auto
  then show ?thesis unfolding exponentialBackoffDelay_def Let_def by (intro min.mono order_refl)
qed

lemma rounded_percent_nonneg:
  assumes "0 \<le> a" "0 < b"
  shows "rounded_percent a b = PosInf \<or> (\<exists>n. rounded_percent a b = Fin (of_int n) \<and> 0 \<le> n)"
proof -
  have r: "num_round x = PosInf \<or> (\<exists>n. num_round x = Fin (of_int n) \<and> 0 \<le> n)"
    if "x = PosInf \<or> (\<exists>y. x = Fin y \<and> 0 \<le> y)" for x using that by auto
  have "(0 :: rat) \<le> of_int a / of_int b" using assms by simp
  from double_of_nonneg [OF this] have "num_mul (double_of (of_int a / of_int b)) (Fin 100) = PosInf
      \<or> (\<exists>y. num_mul (double_of (of_int a / of_int b)) (Fin 100) = Fin y \<and> 0 \<le> y)"
  proof
    assume "\<exists>y. double_of (of_int a / of_int b) = Fin y \<and> 0 \<le> y"
    then obtain y where "double_of (of_int a / of_int b) = Fin y" "0 \<le> y" by blast
    then show ?thesis using double_of_nonneg [of "y * 100"] by simp
  qed simp
  then show ?thesis unfolding rounded_percent_def by (rule r)
qed

lemma percent_min:
  assumes "x = PosInf \<or> (\<exists>n. x = Fin (of_int n) \<and> 0 \<le> n)"
  shows "\<exists>n \<in> {0..100}. num_min (Fin 100) x = Fin (of_int n)"
proof -
  have "(of_int n :: rat) < 100 \<longleftrightarrow> n < 100" for n using of_int_less_iff [of n 100, where ?'a = rat] by simp
  then show ?thesis using assms
    by (auto simp: num_min_def intro: bexI [of _ 100] bexI)
qed

text \<open>
  The progress shown is a whole percentage between 0 and 100, whatever the counts, as long as they
  are not negative.
\<close>

theorem transferProgressPercent_range:
  assumes "0 \<le> tf_transferredBytes task" "0 \<le> tf_completedItems task" "0 \<le> tf_skippedItems task" "0 \<le> tf_failedItems task"
    and "\<forall>n. tf_totalBytes task = Some n \<longrightarrow> 0 \<le> n" "\<forall>n. tf_totalItems task = Some n \<longrightarrow> 0 \<le> n"
  shows "\<exists>n \<in> {0..100}. transferProgressPercent task = Fin (of_int n)"
proof -
  have pos: "0 < the v" if "truthy_int v" "\<forall>n. v = Some n \<longrightarrow> 0 \<le> n" for v
    using that by (auto simp: truthy_int_def split: option.splits)
  have bytes: "\<exists>n \<in> {0..100}. num_min (Fin 100) (rounded_percent (tf_transferredBytes task) (the (tf_totalBytes task))) = Fin (of_int n)"
    if "truthy_int (tf_totalBytes task)" using percent_min [OF rounded_percent_nonneg [OF assms(1) pos [OF that assms(5)]]] .
  have "0 \<le> tf_completedItems task + tf_skippedItems task + tf_failedItems task" using assms(2-4) by simp
  from rounded_percent_nonneg [OF this] have counted: "\<exists>n \<in> {0..100}. num_min (Fin 100)
      (rounded_percent (tf_completedItems task + tf_skippedItems task + tf_failedItems task) (the (tf_totalItems task))) = Fin (of_int n)"
    if "truthy_int (tf_totalItems task)" using percent_min pos [OF that assms(6)] by blast
  have whole: "\<exists>n \<in> {0..100}. Fin 100 = Fin (of_int n)" "\<exists>n \<in> {0..100}. Fin 0 = Fin (of_int n)"
    by (auto intro: bexI [of _ 100] bexI [of _ 0])
  show ?thesis using bytes counted whole unfolding transferProgressPercent_def Let_def by presburger
qed

end
