(* ===== verification/Overviews.thy ===== *)
theory Overviews
  imports Labels
begin

text \<open>
  The overview of the hosts (\<^verbatim>\<open>src/features/connections/ConnectionList.tsx\<close>): a pool of workers asks the
  back end for the state of every saved host, on request and every ten seconds, with pauses after
  failures and a question for credentials that are missing; the same for the WSL distributions. What an
  overview holds is a type parameter: the code hands it on.
\<close>

section \<open>The pool of workers\<close>

datatype 'a worker = Idle | Busy 'a | Finished

record 'a pool =
  pl_items :: "'a list"
  pl_nextIndex :: nat
  pl_workers :: "'a worker list"

definition runWithConcurrency :: "'a list \<Rightarrow> int \<Rightarrow> 'a pool" where
  "runWithConcurrency items concurrency =
     \<lparr>pl_items = items, pl_nextIndex = 0,
      pl_workers = replicate (min (nat (max 1 concurrency)) (length items)) Idle\<rparr>"

text \<open>
  A worker without a task looks for the next item, from the check of the loop to the start of the task
  without an interruption: \<open>Some (Some x)\<close> is the item it starts, \<open>Some None\<close> the end of its loop.
\<close>

definition worker_turn :: "nat \<Rightarrow> 'a pool \<Rightarrow> ('a option \<times> 'a pool) option" where
  "worker_turn w p =
     (if w < length (pl_workers p) then
        (case pl_workers p ! w of
           Idle \<Rightarrow>
             if pl_nextIndex p < length (pl_items p) then
               (let item = pl_items p ! pl_nextIndex p
                in Some (Some item, p\<lparr>pl_nextIndex := pl_nextIndex p + 1, pl_workers := (pl_workers p)[w := Busy item]\<rparr>))
             else Some (None, p\<lparr>pl_workers := (pl_workers p)[w := Finished]\<rparr>)
         | _ \<Rightarrow> None)
      else None)"

text \<open>The task of a worker has ended: with its loop when it is rejected.\<close>

definition task_ended :: "nat \<Rightarrow> bool \<Rightarrow> 'a pool \<Rightarrow> 'a pool option" where
  "task_ended w ok p =
     (if w < length (pl_workers p) then
        (case pl_workers p ! w of
           Busy x \<Rightarrow> Some (p\<lparr>pl_workers := (pl_workers p)[w := if ok then Idle else Finished]\<rparr>)
         | _ \<Rightarrow> None)
      else None)"

fun busy_item :: "'a worker \<Rightarrow> 'a list" where
  "busy_item (Busy x) = [x]"
| "busy_item _ = []"

definition busy_items :: "'a pool \<Rightarrow> 'a list" where
  "busy_items p = concat (map busy_item (pl_workers p))"

definition pool_finished :: "'a pool \<Rightarrow> bool" where
  "pool_finished p \<longleftrightarrow> (\<forall>w \<in> set (pl_workers p). w = Finished)"

text \<open>Runs of a pool: the items that were started, and those whose tasks were resolved and rejected.\<close>

inductive pool_run :: "'a pool \<Rightarrow> 'a list \<Rightarrow> 'a list \<Rightarrow> 'a list \<Rightarrow> 'a pool \<Rightarrow> bool" for p where
  begins: "pool_run p [] [] [] p"
| takes: "pool_run p started resolved failed q \<Longrightarrow> worker_turn w q = Some (Some x, q') \<Longrightarrow> pool_run p (started @ [x]) resolved failed q'"
| leaves: "pool_run p started resolved failed q \<Longrightarrow> worker_turn w q = Some (None, q') \<Longrightarrow> pool_run p started resolved failed q'"
| resolves: "pool_run p started resolved failed q \<Longrightarrow> w < length (pl_workers q) \<Longrightarrow> pl_workers q ! w = Busy x
    \<Longrightarrow> task_ended w True q = Some q' \<Longrightarrow> pool_run p started (resolved @ [x]) failed q'"
| rejects: "pool_run p started resolved failed q \<Longrightarrow> w < length (pl_workers q) \<Longrightarrow> pl_workers q ! w = Busy x
    \<Longrightarrow> task_ended w False q = Some q' \<Longrightarrow> pool_run p started resolved (failed @ [x]) q'"

lemma worker_turn_eq:
  "worker_turn w p = Some (r, q) \<longleftrightarrow> w < length (pl_workers p) \<and> pl_workers p ! w = Idle
     \<and> (if pl_nextIndex p < length (pl_items p)
        then r = Some (pl_items p ! pl_nextIndex p)
          \<and> q = p\<lparr>pl_nextIndex := pl_nextIndex p + 1, pl_workers := (pl_workers p)[w := Busy (pl_items p ! pl_nextIndex p)]\<rparr>
        else r = None \<and> q = p\<lparr>pl_workers := (pl_workers p)[w := Finished]\<rparr>)"
  by (auto simp: worker_turn_def Let_def split: worker.splits)

lemma task_ended_eq:
  "task_ended w b p = Some q \<longleftrightarrow> w < length (pl_workers p) \<and> (\<exists>x. pl_workers p ! w = Busy x)
     \<and> q = p\<lparr>pl_workers := (pl_workers p)[w := if b then Idle else Finished]\<rparr>"
  by (auto simp: task_ended_def split: worker.splits)

lemma mset_concat_update:
  assumes "w < length ws"
  shows "mset (concat (map f (ws[w := x]))) + mset (f (ws ! w)) = mset (concat (map f ws)) + mset (f x)"
proof -
  have "ws = take w ws @ ws ! w # drop (Suc w) ws" using assms by (rule id_take_nth_drop)
  then have "mset (concat (map f ws)) = mset (concat (map f (take w ws @ ws ! w # drop (Suc w) ws)))" by simp
  moreover have "ws[w := x] = take w ws @ x # drop (Suc w) ws" using assms by (rule upd_conv_take_nth_drop)
  ultimately show ?thesis by simp
qed

lemmas mset_busy_update = mset_concat_update [of _ _ busy_item]

lemma length_busy: "length (concat (map busy_item ws)) \<le> length ws"
proof (induction ws)
  case (Cons w ws)
  then show ?case by (cases w) auto
qed simp

definition pool_inv :: "'a list \<Rightarrow> nat \<Rightarrow> 'a list \<Rightarrow> 'a list \<Rightarrow> 'a list \<Rightarrow> 'a pool \<Rightarrow> bool" where
  "pool_inv items n started resolved failed q \<longleftrightarrow>
     pl_items q = items \<and> pl_nextIndex q \<le> length items \<and> started = take (pl_nextIndex q) items
     \<and> length (pl_workers q) = n
     \<and> mset started = mset (concat (map busy_item (pl_workers q))) + mset resolved + mset failed
     \<and> (failed = [] \<and> Finished \<in> set (pl_workers q) \<longrightarrow> pl_nextIndex q = length items)"

lemma finished_kept: "Finished \<in> set (ws[w := x]) \<Longrightarrow> x \<noteq> Finished \<Longrightarrow> Finished \<in> set ws"
  by (metis insert_iff set_update_subset_insert subsetD)

lemma pool_run_inv:
  "pool_run p started resolved failed q \<Longrightarrow> pool_inv items n [] [] [] p \<Longrightarrow> pool_inv items n started resolved failed q"
proof (induction rule: pool_run.induct)
  case (takes started resolved failed q w x q')
  then have i: "pool_inv items n started resolved failed q" by blast
  have t: "w < length (pl_workers q)" "pl_workers q ! w = Idle" "pl_nextIndex q < length (pl_items q)"
    "x = pl_items q ! pl_nextIndex q"
    "q' = q\<lparr>pl_nextIndex := pl_nextIndex q + 1, pl_workers := (pl_workers q)[w := Busy x]\<rparr>"
    using takes.hyps(2) by (auto simp: worker_turn_eq split: if_splits)
  show ?case using i t mset_busy_update [OF t(1), of "Busy x"] finished_kept [of "pl_workers q" w "Busy x"]
    by (auto simp: pool_inv_def take_Suc_conv_app_nth)
next
  case (leaves started resolved failed q w q')
  then have i: "pool_inv items n started resolved failed q" by blast
  have t: "w < length (pl_workers q)" "pl_workers q ! w = Idle" "\<not> pl_nextIndex q < length (pl_items q)"
    "q' = q\<lparr>pl_workers := (pl_workers q)[w := Finished]\<rparr>"
    using leaves.hyps(2) by (auto simp: worker_turn_eq split: if_splits)
  show ?case using i t mset_busy_update [OF t(1), of Finished] by (auto simp: pool_inv_def)
next
  case (resolves started resolved failed q w x q')
  then have i: "pool_inv items n started resolved failed q" by blast
  have t: "q' = q\<lparr>pl_workers := (pl_workers q)[w := Idle]\<rparr>" using resolves.hyps(4) by (simp add: task_ended_eq)
  show ?case using i t resolves.hyps(2,3) mset_busy_update [OF resolves.hyps(2), of Idle]
      finished_kept [of "pl_workers q" w Idle] by (auto simp: pool_inv_def)
next
  case (rejects started resolved failed q w x q')
  then have i: "pool_inv items n started resolved failed q" by blast
  have t: "q' = q\<lparr>pl_workers := (pl_workers q)[w := Finished]\<rparr>" using rejects.hyps(4) by (simp add: task_ended_eq)
  show ?case using i t rejects.hyps(2,3) mset_busy_update [OF rejects.hyps(2), of Finished] by (auto simp: pool_inv_def)
qed

lemma pool_start_inv:
  "pool_inv items (min (nat (max 1 concurrency)) (length items)) [] [] [] (runWithConcurrency items concurrency)"
  by (auto simp: pool_inv_def runWithConcurrency_def)

text \<open>
  C25. The pool starts every item once, in the order given, never more at a time than allowed; what was
  started is under way, resolved or failed. When all workers have ended and no task failed, every item was
  started and every task is resolved.
\<close>

theorem runWithConcurrency_complete:
  assumes "pool_run (runWithConcurrency items concurrency) started resolved failed q"
  shows "started = take (pl_nextIndex q) items \<and> mset started = mset (busy_items q) + mset resolved + mset failed
    \<and> length (busy_items q) \<le> nat (max 1 concurrency)
    \<and> (pool_finished q \<and> failed = [] \<longrightarrow> started = items \<and> mset resolved = mset items)"
proof -
  let ?n = "min (nat (max 1 concurrency)) (length items)"
  have i: "pool_inv items ?n started resolved failed q" using pool_run_inv [OF assms pool_start_inv] .
  have "started = items \<and> mset resolved = mset items" if f: "pool_finished q" "failed = []"
  proof -
    have none: "concat (map busy_item (pl_workers q)) = []" using f(1) by (auto simp: pool_finished_def)
    have "pl_nextIndex q = length items"
    proof (cases "items = []")
      case False
      then have "?n \<noteq> 0" by (cases items) simp_all
      moreover have "length (pl_workers q) = ?n" using i unfolding pool_inv_def by blast
      ultimately have "pl_workers q \<noteq> []" by force
      then have "Finished \<in> set (pl_workers q)" using f(1) by (cases "pl_workers q") (auto simp: pool_finished_def)
      then show ?thesis using i f(2) by (simp add: pool_inv_def)
    qed (use i in \<open>simp add: pool_inv_def\<close>)
    moreover have "mset started = mset (concat (map busy_item (pl_workers q))) + mset resolved + mset failed"
      "started = take (pl_nextIndex q) items" using i unfolding pool_inv_def by blast+
    ultimately show ?thesis unfolding none f(2) by simp
  qed
  moreover have "length (busy_items q) \<le> nat (max 1 concurrency)"
    using i length_busy [of "pl_workers q"] by (simp add: pool_inv_def busy_items_def)
  ultimately show ?thesis using i by (auto simp: pool_inv_def busy_items_def)
qed

text \<open>The measure that every step of a pool lowers; a pool that has not ended can always take one.\<close>

fun worker_left :: "'a worker \<Rightarrow> nat" where
  "worker_left (Busy x) = 2"
| "worker_left Idle = 1"
| "worker_left Finished = 0"

definition pool_left :: "'a pool \<Rightarrow> nat" where
  "pool_left p = 2 * (length (pl_items p) - pl_nextIndex p) + sum_list (map worker_left (pl_workers p))"

definition pool_step :: "'a pool \<Rightarrow> 'a pool \<Rightarrow> bool" where
  "pool_step p q \<longleftrightarrow> (\<exists>w r. worker_turn w p = Some (r, q)) \<or> (\<exists>w b. task_ended w b p = Some q)"

lemma left_update:
  "w < length ws \<Longrightarrow> sum_list (map worker_left (ws[w := x])) + worker_left (ws ! w) = sum_list (map worker_left ws) + worker_left x"
proof -
  assume w: "w < length ws"
  then have "ws = take w ws @ ws ! w # drop (Suc w) ws" by (rule id_take_nth_drop)
  then have "sum_list (map worker_left ws) = sum_list (map worker_left (take w ws @ ws ! w # drop (Suc w) ws))" by simp
  moreover have "ws[w := x] = take w ws @ x # drop (Suc w) ws" using w by (rule upd_conv_take_nth_drop)
  ultimately show ?thesis by simp
qed

lemma pool_step_left: "pool_step p q \<Longrightarrow> pool_left q < pool_left p"
  unfolding pool_step_def
proof (elim disjE exE)
  fix w r
  assume "worker_turn w p = Some (r, q)"
  then show ?thesis using left_update [of w "pl_workers p" "Busy (pl_items p ! pl_nextIndex p)"]
      left_update [of w "pl_workers p" Finished] by (auto simp: worker_turn_eq pool_left_def split: if_splits)
next
  fix w b
  assume "task_ended w b p = Some q"
  then show ?thesis using left_update [of w "pl_workers p" "if b then Idle else Finished"]
    by (cases b) (auto simp: task_ended_eq pool_left_def)
qed

text \<open>
  Whatever the order in which the tasks end, a pool comes to its end: no sequence of its steps is
  endless, and as long as a worker has not ended there is a next step.
\<close>

theorem runWithConcurrency_ends:
  "wfP (\<lambda>q p. pool_step p q) \<and> (pool_finished p \<or> (\<exists>q. pool_step p q))"
proof
  have "(\<lambda>q p. pool_step p q) \<le> (\<lambda>q p. pool_left q < pool_left p)" using pool_step_left by blast
  then show "wfP (\<lambda>q p. pool_step p q)" by (rule wfp_subset [OF wfp_if_convertible_to_nat, rotated]) auto
  show "pool_finished p \<or> (\<exists>q. pool_step p q)"
  proof (cases "pool_finished p")
    case False
    then obtain w where "w < length (pl_workers p)" "pl_workers p ! w \<noteq> Finished"
      by (auto simp: pool_finished_def in_set_conv_nth)
    then have "worker_turn w p \<noteq> None \<or> task_ended w True p \<noteq> None"
      by (cases "pl_workers p ! w") (simp_all add: worker_turn_def task_ended_def Let_def)
    then show ?thesis unfolding pool_step_def by fast
  qed simp
qed

section \<open>State of the list\<close>

record 'd overview =
  ov_data :: "'d option"
  ov_error :: "jsstr option"
  ov_loading :: bool
  ov_refreshedAt :: "int option"

record overview_retry =
  rt_consecutiveFailures :: int
  rt_contextKey :: jsstr
  rt_retryAt :: int

text \<open>The state hooks and the references of the component, and what it asks of its parent.\<close>

record ('d, 'w) conn_list =
  cl_overviews :: "jsstr \<rightharpoonup> 'd overview"
  cl_wslOverviews :: "jsstr \<rightharpoonup> 'w overview"
  cl_openMenuProfileId :: "jsstr option"
  cl_openingWsl :: "jsstr list"
  cl_wslRefreshing :: bool
  cl_wslRefreshError :: "jsstr option"
  cl_refreshing :: "jsstr list"
  cl_retry :: "jsstr \<rightharpoonup> overview_retry"
  cl_automaticRunning :: bool
  cl_credentialPrompt :: "jsstr option"
  cl_refreshingWsl :: "jsstr list"
  cl_discovering :: bool
  cl_mounted :: bool
  cl_credentialRequests :: "(jsstr \<times> jsstr) list"
  cl_overviewRequests :: "(jsstr \<times> jsstr option) list"

definition initial_list :: "('d, 'w) conn_list" where
  "initial_list = \<lparr>cl_overviews = Map.empty, cl_wslOverviews = Map.empty, cl_openMenuProfileId = None,
     cl_openingWsl = [], cl_wslRefreshing = False, cl_wslRefreshError = None, cl_refreshing = [], cl_retry = Map.empty,
     cl_automaticRunning = False, cl_credentialPrompt = None, cl_refreshingWsl = [], cl_discovering = False,
     cl_mounted = True, cl_credentialRequests = [], cl_overviewRequests = []\<rparr>"

definition AUTO_REFRESH_TIMEOUT_MS :: int where "AUTO_REFRESH_TIMEOUT_MS = 60000"
definition HOST_OVERVIEW_REFRESH_INTERVAL_MS :: int where "HOST_OVERVIEW_REFRESH_INTERVAL_MS = 10000"
definition HOST_OVERVIEW_MAXIMUM_RETRY_INTERVAL_MS :: int where "HOST_OVERVIEW_MAXIMUM_RETRY_INTERVAL_MS = 5 * 60000"
definition SSH_OVERVIEW_CONCURRENCY :: int where "SSH_OVERVIEW_CONCURRENCY = 4"

section \<open>What is shown\<close>

definition authenticated_tab :: "tab \<Rightarrow> bool" where
  "authenticated_tab t = (case conn_transport (tab_connection t) of Some tr \<Rightarrow> tr_authenticated tr | None \<Rightarrow> False)"

fun sessions_from :: "(jsstr \<rightharpoonup> tab) \<Rightarrow> tab list \<Rightarrow> jsstr \<rightharpoonup> tab" where
  "sessions_from m [] = m"
| "sessions_from m (t # ts) =
     sessions_from
       (case m (conn_profileId (tab_connection t)) of
          None \<Rightarrow> m(conn_profileId (tab_connection t) \<mapsto> t)
        | Some current \<Rightarrow>
            if authenticated_tab t \<and> \<not> authenticated_tab current then m(conn_profileId (tab_connection t) \<mapsto> t) else m) ts"

definition sessionsByProfile :: "tab list \<Rightarrow> jsstr \<rightharpoonup> tab" where
  "sessionsByProfile sessionTabs = sessions_from Map.empty sessionTabs"

text \<open>\<open>compare\<close> is \<^verbatim>\<open>localeCompare\<close>: negative when the first text comes first.\<close>

definition saved_before :: "(jsstr \<Rightarrow> jsstr \<Rightarrow> int) \<Rightarrow> profile \<Rightarrow> profile \<Rightarrow> int" where
  "saved_before compare left right =
     (let byCreation = compare (prof_createdAt (profile_base right)) (prof_createdAt (profile_base left))
      in if byCreation \<noteq> 0 then byCreation else compare (profile_id left) (profile_id right))"

text \<open>\<^verbatim>\<open>Array.prototype.sort\<close>, which is stable: every element goes behind those that are not greater.\<close>

fun insert_by :: "('a \<Rightarrow> 'a \<Rightarrow> int) \<Rightarrow> 'a \<Rightarrow> 'a list \<Rightarrow> 'a list" where
  "insert_by c x [] = [x]"
| "insert_by c x (y # ys) = (if c x y < 0 then x # y # ys else y # insert_by c x ys)"

definition sort_by :: "('a \<Rightarrow> 'a \<Rightarrow> int) \<Rightarrow> 'a list \<Rightarrow> 'a list" where
  "sort_by c xs = fold (insert_by c) xs []"

definition savedProfiles :: "(jsstr \<Rightarrow> jsstr \<Rightarrow> int) \<Rightarrow> profile list \<Rightarrow> profile list" where
  "savedProfiles compare profiles = sort_by (saved_before compare) profiles"

definition filteredProfiles :: "jsstr \<Rightarrow> profile list \<Rightarrow> profile list" where
  "filteredProfiles query saved =
     (let normalizedQuery = js_lower (js_trim query)
      in if normalizedQuery = [] then saved
         else filter (\<lambda>p. js_includes (js_lower (js_join [32]
                [prof_name (profile_base p), profileTarget p, protocolLabel (type_text (profile_type p))])) normalizedQuery) saved)"

definition filteredWslDistributions :: "jsstr \<Rightarrow> wsl_discovery \<Rightarrow> wsl_distribution list" where
  "filteredWslDistributions query d =
     (let normalizedQuery = js_lower (js_trim query)
      in if normalizedQuery = [] then wsl_distributions d
         else filter (\<lambda>w. js_includes (js_lower (js_join [32]
                [wsl_name w, js ''WSL'' @ (case wsl_version w of Some v \<Rightarrow> int_text v | None \<Rightarrow> []),
                 if wsl_isDefault w then [0x9ED8, 0x8BA4] else []])) normalizedQuery) (wsl_distributions d))"

definition open_wsl_tab :: "tab \<Rightarrow> jsstr option" where
  "open_wsl_tab t =
     (case conn_transport (tab_connection t) of
        Some tr \<Rightarrow> if tr_kind tr \<noteq> KWsl \<or> conn_status (tab_connection t) = Disconnected then None else Some (tr_host tr)
      | None \<Rightarrow> None)"

definition wslSessionCountByDistribution :: "tab list \<Rightarrow> jsstr \<Rightarrow> nat" where
  "wslSessionCountByDistribution sessionTabs distribution = length (filter (\<lambda>t. open_wsl_tab t = Some distribution) sessionTabs)"

section \<open>Overview of one host\<close>

definition is_ssh_profile :: "profile \<Rightarrow> bool" where
  "is_ssh_profile p \<longleftrightarrow> profile_type p = Ssh \<or> profile_type p = Sftp"

definition begin_overview :: "(jsstr \<rightharpoonup> 'd overview) \<Rightarrow> jsstr \<Rightarrow> (jsstr \<rightharpoonup> 'd overview)" where
  "begin_overview m i = m(i \<mapsto> \<lparr>ov_data = Option.bind (m i) ov_data, ov_error = None, ov_loading = True,
     ov_refreshedAt = Option.bind (m i) ov_refreshedAt\<rparr>)"

definition show_overview :: "(jsstr \<rightharpoonup> 'd overview) \<Rightarrow> jsstr \<Rightarrow> 'd \<Rightarrow> int \<Rightarrow> (jsstr \<rightharpoonup> 'd overview)" where
  "show_overview m i data now = m(i \<mapsto> \<lparr>ov_data = Some data, ov_error = None, ov_loading = False,
     ov_refreshedAt = Some now\<rparr>)"

definition fail_overview :: "(jsstr \<rightharpoonup> 'd overview) \<Rightarrow> jsstr \<Rightarrow> jsstr \<Rightarrow> (jsstr \<rightharpoonup> 'd overview)" where
  "fail_overview m i message = m(i \<mapsto> \<lparr>ov_data = Option.bind (m i) ov_data, ov_error = Some message, ov_loading = False,
     ov_refreshedAt = Option.bind (m i) ov_refreshedAt\<rparr>)"

text \<open>\<open>error\<close> is the text of the error, \<^verbatim>\<open>String(error)\<close>.\<close>

definition drop_error_prefix :: "jsstr \<Rightarrow> jsstr" where
  "drop_error_prefix s =
     (if js_lower (take 6 s) = js ''error:'' then dropWhile js_space (drop 6 s) else s)"

definition drop_command_prefix :: "jsstr \<Rightarrow> jsstr" where
  "drop_command_prefix s = (if take 5 s = [0x547D, 0x4EE4, 0x5931, 0x8D25, 0xFF1A] then dropWhile js_space (drop 5 s) else s)"

definition hostOverviewErrorMessage :: "jsstr \<Rightarrow> jsstr" where
  "hostOverviewErrorMessage error =
     (let message = js_trim (drop_command_prefix (drop_error_prefix error))
      in if js_includes message (js ''not trusted'') then [0x4E3B, 0x673A, 0x5BC6, 0x94A5, 0x5C1A, 0x672A, 0x4FE1, 0x4EFB, 0xFF0C,
         0x8BF7, 0x5148, 0x8FDE, 0x63A5, 0x5E76, 0x786E, 0x8BA4, 0x6307, 0x7EB9]
         else if js_includes message (js ''timed out'') \<or> js_includes message (js ''timeout'') then [83, 83, 72, 32, 0x8BF7, 0x6C42,
            0x8D85, 0x65F6]
         else if message \<noteq> [] then message else [0x672A, 0x77E5, 0x9519, 0x8BEF])"

definition hostOverviewRetryContext :: "profile \<Rightarrow> tab option \<Rightarrow> jsstr" where
  "hostOverviewRetryContext p session =
     js_join [58] [prof_updatedAt (profile_base p),
       case session of Some t \<Rightarrow> conn_id (tab_connection t) | None \<Rightarrow> [],
       js (if (case session of Some t \<Rightarrow> authenticated_tab t | None \<Rightarrow> False) then ''authenticated'' else ''pending'')]"

text \<open>Up to the request: whether there is one, and the state with it sent.\<close>

definition refreshOverview :: "(jsstr \<rightharpoonup> tab) \<Rightarrow> profile \<Rightarrow> ('d,
   'w) conn_list \<Rightarrow> bool \<times> ('d, 'w) conn_list" where
  "refreshOverview sessions p s =
     (if \<not> is_ssh_profile p \<or> profile_id p \<in> set (cl_refreshing s) then (False, s)
      else (True, s\<lparr>cl_refreshing := cl_refreshing s @ [profile_id p],
              cl_overviews := begin_overview (cl_overviews s) (profile_id p),
              cl_overviewRequests := cl_overviewRequests s
                @ [(profile_id p, map_option (\<lambda>t. conn_id (tab_connection t)) (sessions (profile_id p)))]\<rparr>))"

text \<open>An answer, or the error that came instead of it (in an automatic refresh also that of the time limit).\<close>

definition overview_answered :: "profile \<Rightarrow> 'd \<Rightarrow> int \<Rightarrow> ('d, 'w) conn_list \<Rightarrow> ('d,
   'w) conn_list" where
  "overview_answered p data now s =
     (let s = (if \<not> cl_mounted s then s
               else s\<lparr>cl_overviews := show_overview (cl_overviews s) (profile_id p) data now,
                      cl_retry := (cl_retry s)(profile_id p := None)\<rparr>)
      in s\<lparr>cl_refreshing := removeAll (profile_id p) (cl_refreshing s)\<rparr>)"

definition overview_retry_after :: "profile \<Rightarrow> tab option \<Rightarrow> int \<Rightarrow> overview_retry option \<Rightarrow> overview_retry" where
  "overview_retry_after p session now previousRetry =
     (let contextKey = hostOverviewRetryContext p session;
          consecutiveFailures =
            (case previousRetry of
               Some r \<Rightarrow> if rt_contextKey r = contextKey then rt_consecutiveFailures r + 1 else 1
             | None \<Rightarrow> 1)
      in \<lparr>rt_consecutiveFailures = consecutiveFailures, rt_contextKey = contextKey,
          rt_retryAt = now + exponentialBackoffDelay consecutiveFailures HOST_OVERVIEW_REFRESH_INTERVAL_MS
                         HOST_OVERVIEW_MAXIMUM_RETRY_INTERVAL_MS\<rparr>)"

definition overview_failed ::
    "(jsstr \<rightharpoonup> tab) \<Rightarrow> profile \<Rightarrow> bool \<Rightarrow> jsstr \<Rightarrow> int \<Rightarrow> ('d,
       'w) conn_list \<Rightarrow> ('d, 'w) conn_list" where
  "overview_failed sessions p requestCredential error now s =
     (let message = hostOverviewErrorMessage error;
          s = s\<lparr>cl_retry := (cl_retry s)(profile_id p \<mapsto>
                overview_retry_after p (sessions (profile_id p)) now (cl_retry s (profile_id p)))\<rparr>;
          s = (if \<not> cl_mounted s then s
               else (let s = s\<lparr>cl_overviews := fail_overview (cl_overviews s) (profile_id p) message\<rparr>
                     in if requestCredential \<and> requiresSavedCredentialRecovery message
                        then s\<lparr>cl_credentialRequests := cl_credentialRequests s @ [(profile_id p, message)]\<rparr> else s))
      in s\<lparr>cl_refreshing := removeAll (profile_id p) (cl_refreshing s)\<rparr>)"

section \<open>WSL\<close>

definition refreshWslOverview :: "wsl_distribution \<Rightarrow> ('d, 'w) conn_list \<Rightarrow> bool \<times> ('d, 'w) conn_list" where
  "refreshWslOverview d s =
     (if wsl_state d \<noteq> WslRunning then (False, s\<lparr>cl_wslOverviews := (cl_wslOverviews s)(wsl_name d := None)\<rparr>)
      else if wsl_name d \<in> set (cl_refreshingWsl s) then (False, s)
      else (True, s\<lparr>cl_refreshingWsl := cl_refreshingWsl s @ [wsl_name d],
                    cl_wslOverviews := begin_overview (cl_wslOverviews s) (wsl_name d)\<rparr>))"

definition wsl_overview_answered :: "wsl_distribution \<Rightarrow> jsstr + 'w \<Rightarrow> int \<Rightarrow> ('d,
   'w) conn_list \<Rightarrow> ('d, 'w) conn_list" where
  "wsl_overview_answered d answer now s =
     (let s = (if \<not> cl_mounted s then s
               else s\<lparr>cl_wslOverviews :=
                 (case answer of
                    Inr data \<Rightarrow> show_overview (cl_wslOverviews s) (wsl_name d) data now
                  | Inl error \<Rightarrow> fail_overview (cl_wslOverviews s) (wsl_name d) (hostOverviewErrorMessage error))\<rparr>)
      in s\<lparr>cl_refreshingWsl := removeAll (wsl_name d) (cl_refreshingWsl s)\<rparr>)"

definition refreshWsl :: "bool \<Rightarrow> ('d, 'w) conn_list \<Rightarrow> bool \<times> ('d, 'w) conn_list" where
  "refreshWsl silent s =
     (if cl_discovering s then (False, s)
      else (True, s\<lparr>cl_discovering := True, cl_wslRefreshing := (if silent then cl_wslRefreshing s else True)\<rparr>))"

text \<open>The answer: every distribution is asked for its overview; \<open>asked\<close> are those that are.\<close>

fun refresh_distributions :: "wsl_distribution list \<Rightarrow> ('d, 'w) conn_list \<Rightarrow> wsl_distribution list \<times> ('d,
   'w) conn_list" where
  "refresh_distributions [] s = ([], s)"
| "refresh_distributions (d # ds) s =
     (case refreshWslOverview d s of
        (asked, s1) \<Rightarrow> (case refresh_distributions ds s1 of (as, s2) \<Rightarrow> (if asked then d # as else as, s2)))"

definition wsl_discovered ::
    "bool \<Rightarrow> jsstr + wsl_discovery \<Rightarrow> ('d,
       'w) conn_list \<Rightarrow> wsl_discovery option \<times> wsl_distribution list \<times> ('d, 'w) conn_list" where
  "wsl_discovered silent answer s =
     (let (found, asked, s) =
        (case answer of
           Inr discovery \<Rightarrow>
             (case refresh_distributions (wsl_distributions discovery) (s\<lparr>cl_wslRefreshError := None\<rparr>) of
                (as, s') \<Rightarrow> (Some discovery, as, s'))
         | Inl error \<Rightarrow> (None, [], s\<lparr>cl_wslRefreshError := Some (hostOverviewErrorMessage error)\<rparr>))
      in (found, asked, s\<lparr>cl_discovering := False, cl_wslRefreshing := (if silent then cl_wslRefreshing s else False)\<rparr>))"

definition openWslDistribution :: "jsstr \<Rightarrow> ('d, 'w) conn_list \<Rightarrow> bool \<times> ('d, 'w) conn_list" where
  "openWslDistribution distribution s =
     (if distribution \<in> set (cl_openingWsl s) then (False, s)
      else (True, s\<lparr>cl_openingWsl := cl_openingWsl s @ [distribution]\<rparr>))"

definition wsl_opened :: "jsstr \<Rightarrow> ('d, 'w) conn_list \<Rightarrow> ('d, 'w) conn_list" where
  "wsl_opened distribution s = s\<lparr>cl_openingWsl := removeAll distribution (cl_openingWsl s)\<rparr>"

section \<open>Cards\<close>

definition toggle_menu :: "jsstr \<Rightarrow> ('d, 'w) conn_list \<Rightarrow> ('d, 'w) conn_list" where
  "toggle_menu i s = s\<lparr>cl_openMenuProfileId := if cl_openMenuProfileId s = Some i then None else Some i\<rparr>"

definition list_key_down :: "jsstr \<Rightarrow> ('d, 'w) conn_list \<Rightarrow> ('d, 'w) conn_list" where
  "list_key_down key s = (if key = js ''Escape'' then s\<lparr>cl_openMenuProfileId := None\<rparr> else s)"

definition list_pointer_down :: "bool \<Rightarrow> ('d, 'w) conn_list \<Rightarrow> ('d, 'w) conn_list" where
  "list_pointer_down inMenu s = (if \<not> inMenu then s\<lparr>cl_openMenuProfileId := None\<rparr> else s)"

definition session_authenticated :: "tab option \<Rightarrow> bool" where
  "session_authenticated session = (case session of Some t \<Rightarrow> authenticated_tab t | None \<Rightarrow> False)"

text \<open>What is written for a host when its session or its credentials change.\<close>

definition autoRefreshKey :: "jsstr set \<Rightarrow> jsstr set \<Rightarrow> (connection_status \<Rightarrow> jsstr) \<Rightarrow> (jsstr \<rightharpoonup> tab) \<Rightarrow> profile list \<Rightarrow> jsstr" where
  "autoRefreshKey connecting remembered status_text sessions saved =
     js_join [124] (map (\<lambda>p. let session = sessions (profile_id p) in js_join [58]
       [profile_id p, prof_updatedAt (profile_base p),
        case session of Some t \<Rightarrow> conn_id (tab_connection t) | None \<Rightarrow> [],
        case session of Some t \<Rightarrow> status_text (conn_status (tab_connection t)) | None \<Rightarrow> [],
        js (if session_authenticated session then ''authenticated'' else ''pending''),
        js (if profile_id p \<in> connecting then ''connecting'' else ''settled''),
        js (if profile_id p \<in> remembered then ''credential'' else ''no-credential'')]) (filter is_ssh_profile saved))"

definition wsl_state_text :: "wsl_state \<Rightarrow> jsstr" where
  "wsl_state_text w = js (case w of WslRunning \<Rightarrow> ''running'' | WslStopped \<Rightarrow> ''stopped'' | WslUnknown \<Rightarrow> ''unknown'')"

definition wslAutoRefreshKey :: "wsl_discovery \<Rightarrow> jsstr" where
  "wslAutoRefreshKey d = js_join [124] (map (\<lambda>w. wsl_name w @ 58 # wsl_state_text (wsl_state w) @ 58
     # (case wsl_version w of Some v \<Rightarrow> int_text v | None \<Rightarrow> [])) (wsl_distributions d))"

datatype card_status = StatusConnecting | StatusOnline | StatusError | StatusOffline | StatusIdle

definition overview_loading :: "'d overview option \<Rightarrow> bool" where
  "overview_loading state = (case state of Some o' \<Rightarrow> ov_loading o' | None \<Rightarrow> False)"

definition overview_has_data :: "'d overview option \<Rightarrow> bool" where
  "overview_has_data state = (case state of Some o' \<Rightarrow> ov_data o' \<noteq> None | None \<Rightarrow> False)"

definition overview_has_error :: "'d overview option \<Rightarrow> bool" where
  "overview_has_error state = (case state of Some o' \<Rightarrow> ov_error o' \<noteq> None \<and> ov_error o' \<noteq> Some [] | None \<Rightarrow> False)"

definition host_card_status :: "bool \<Rightarrow> tab option \<Rightarrow> 'd overview option \<Rightarrow> card_status" where
  "host_card_status isConnecting session state =
     (if isConnecting \<or> overview_loading state then StatusConnecting
      else if overview_has_data state \<or> session_authenticated session then StatusOnline
      else if overview_has_error state then StatusError
      else StatusIdle)"

definition wsl_card_status :: "wsl_distribution \<Rightarrow> bool \<Rightarrow> 'w overview option \<Rightarrow> card_status" where
  "wsl_card_status d refreshing overview =
     (if overview_loading overview \<or> refreshing then StatusConnecting
      else if wsl_state d = WslRunning \<and> overview_has_data overview then StatusOnline
      else if wsl_state d = WslRunning \<and> overview_has_error overview then StatusError
      else if wsl_state d = WslStopped then StatusOffline
      else if wsl_state d = WslRunning then StatusConnecting
      else StatusIdle)"

text \<open>What the buttons of a card ask of the workspace.\<close>

datatype card_action =
    OpenSession jsstr
  | ConnectProfile profile
  | OpenFileTransfer profile "jsstr option"

definition primary_action :: "profile \<Rightarrow> tab option \<Rightarrow> card_action" where
  "primary_action p session =
     (case session of
        Some t \<Rightarrow> if tab_id t \<noteq> [] \<and> authenticated_tab t then OpenSession (tab_id t) else ConnectProfile p
      | None \<Rightarrow> ConnectProfile p)"

definition files_action :: "profile \<Rightarrow> tab option \<Rightarrow> card_action" where
  "files_action p session =
     (case session of
        Some t \<Rightarrow>
          if authenticated_tab t \<and> tab_kind_of t = FileTransferTab \<and> tab_id t \<noteq> [] then OpenSession (tab_id t)
          else OpenFileTransfer p (if authenticated_tab t then Some (conn_id (tab_connection t)) else None)
      | None \<Rightarrow> OpenFileTransfer p None)"

definition canOpenFileTransfer :: "profile \<Rightarrow> tab option \<Rightarrow> 'd overview option \<Rightarrow> bool" where
  "canOpenFileTransfer p session state \<longleftrightarrow>
     (is_ssh_profile p \<or> (case session of Some t \<Rightarrow> cap_fileTransfer (conn_capabilities (tab_connection t)) | None \<Rightarrow> False))
     \<and> (session_authenticated session \<or> overview_has_data state)"

definition usagePercent :: "int option \<Rightarrow> int option \<Rightarrow> jsnum option" where
  "usagePercent used capacity =
     (if used \<noteq> None \<and> truthy_int capacity
      then Some (num_min (Fin 100) (num_max (Fin 0) (rounded_percent (the used) (the capacity)))) else None)"

definition formatCapacityTotal :: "int option \<Rightarrow> jsstr option" where
  "formatCapacityTotal capacity = (if capacity = None then None else Some ([47, 32] @ formatBytes capacity [0x2014]))"

definition profileCardSubtitle :: "profile \<Rightarrow> jsstr" where
  "profileCardSubtitle p =
     (case p of
        SshProfile q \<Rightarrow>
          if js_trim (prof_name q) = js_trim (ssh_host q)
          then js_join [32, 0xB7, 32] (filter (\<lambda>t. t \<noteq> []) [js_trim (ssh_username q), int_text (ssh_port q)])
          else profileTarget p
      | SftpProfile q \<Rightarrow>
          if js_trim (prof_name q) = js_trim (sftp_host q)
          then js_join [32, 0xB7, 32] (filter (\<lambda>t. t \<noteq> []) [js_trim (sftp_username q), int_text (sftp_port q)])
          else profileTarget p
      | _ \<Rightarrow> profileTarget p)"

definition showWslSection :: "jsstr \<Rightarrow> profile list \<Rightarrow> wsl_discovery \<Rightarrow> bool" where
  "showWslSection query saved d \<longleftrightarrow>
     wsl_supported d \<and> (saved \<noteq> [] \<or> wsl_distributions d \<noteq> [])
     \<and> (js_trim query = [] \<or> filteredWslDistributions query d \<noteq> [] \<or> wsl_distributions d = [])"

section \<open>Overviews of all hosts\<close>

text \<open>
  One call of \<^verbatim>\<open>refreshSavedOverviews\<close> under way, with the sessions of the render it was made in.
\<close>

record overview_run =
  rn_automatic :: bool
  rn_sessions :: "jsstr \<rightharpoonup> tab"
  rn_pool :: "profile pool"
  rn_missing :: bool
  rn_stopScheduling :: bool
  rn_credentialRequested :: bool
  rn_recoveryFailed :: bool

definition lacks_credential :: "jsstr set \<Rightarrow> (jsstr \<rightharpoonup> tab) \<Rightarrow> profile \<Rightarrow> bool" where
  "lacks_credential remembered sessions p \<longleftrightarrow>
     (case p of SshProfile q \<Rightarrow> ssh_authType q = AuthPassword | SftpProfile q \<Rightarrow> sftp_authType q = AuthPassword | _ \<Rightarrow> False)
     \<and> profile_id p \<notin> remembered
     \<and> \<not> (case sessions (profile_id p) of Some t \<Rightarrow> authenticated_tab t | None \<Rightarrow> False)"

definition retry_due :: "int \<Rightarrow> (jsstr \<rightharpoonup> tab) \<Rightarrow> (jsstr \<rightharpoonup> overview_retry) \<Rightarrow> profile \<Rightarrow> bool" where
  "retry_due now sessions retries p =
     (case retries (profile_id p) of
        None \<Rightarrow> True
      | Some r \<Rightarrow> rt_contextKey r \<noteq> hostOverviewRetryContext p (sessions (profile_id p)) \<or> rt_retryAt r \<le> now)"

definition prompt_key :: "string \<Rightarrow> profile \<Rightarrow> jsstr" where
  "prompt_key kind p = js kind @ 58 # profile_id p @ 58 # prof_updatedAt (profile_base p)"

definition missing_message :: jsstr where
  "missing_message = [0x672A, 0x627E, 0x5230, 0x5DF2, 0x4FDD, 0x5B58, 0x7684, 32, 83, 83, 72, 32, 0x5BC6, 0x7801]"

definition refreshSavedOverviews ::
    "bool \<Rightarrow> int \<Rightarrow> profile list \<Rightarrow> jsstr set \<Rightarrow> (jsstr \<rightharpoonup> tab) \<Rightarrow> ('d, 'w) conn_list \<Rightarrow> overview_run option \<times> ('d, 'w) conn_list"
where
  "refreshSavedOverviews automatic now saved remembered sessions s =
     (if automatic \<and> cl_automaticRunning s then (None, s)
      else
        (let s = (if automatic then s\<lparr>cl_automaticRunning := True\<rparr> else s);
             sshProfiles = filter is_ssh_profile saved;
             missingCredentialProfiles = filter (lacks_credential remembered sessions) sshProfiles;
             hasMissing = automatic \<and> missingCredentialProfiles \<noteq> [];
             s = (if hasMissing \<and> cl_credentialPrompt s \<noteq> Some (prompt_key ''missing'' (hd missingCredentialProfiles))
                  then s\<lparr>cl_credentialPrompt := Some (prompt_key ''missing'' (hd missingCredentialProfiles)),
                         cl_credentialRequests := cl_credentialRequests s
                           @ [(profile_id (hd missingCredentialProfiles), missing_message)]\<rparr>
                  else s);
             profilesToRefresh =
               (if automatic then
                  filter (retry_due now sessions (cl_retry s))
                    (filter (\<lambda>p. profile_id p \<notin> set (map profile_id missingCredentialProfiles)) sshProfiles)
                else sshProfiles)
         in (Some \<lparr>rn_automatic = automatic, rn_sessions = sessions,
                   rn_pool = runWithConcurrency profilesToRefresh SSH_OVERVIEW_CONCURRENCY, rn_missing = hasMissing,
                   rn_stopScheduling = False,
                   rn_credentialRequested = (automatic \<and> cl_credentialPrompt s \<noteq> None), rn_recoveryFailed = False\<rparr>, s)))"

text \<open>
  A worker of the run takes a turn. The task of the item it takes ends at once when the run has stopped
  or the host is not asked.
\<close>

definition set_worker :: "nat \<Rightarrow> 'a worker \<Rightarrow> 'a pool \<Rightarrow> 'a pool" where
  "set_worker w x p = p\<lparr>pl_workers := (pl_workers p)[w := x]\<rparr>"

definition run_turn :: "nat \<Rightarrow> overview_run \<Rightarrow> ('d, 'w) conn_list \<Rightarrow> (overview_run \<times> ('d,
   'w) conn_list) option" where
  "run_turn w r s =
     (case worker_turn w (rn_pool r) of
        None \<Rightarrow> None
      | Some (None, p) \<Rightarrow> Some (r\<lparr>rn_pool := p\<rparr>, s)
      | Some (Some profile, p) \<Rightarrow>
          if rn_stopScheduling r then Some (r\<lparr>rn_pool := set_worker w Idle p\<rparr>, s)
          else (case refreshOverview (rn_sessions r) profile s of
                  (asked, s') \<Rightarrow> Some (r\<lparr>rn_pool := if asked then p else set_worker w Idle p\<rparr>, s')))"

text \<open>The rest of the task when the overview failed with \<open>message\<close>.\<close>

definition after_failure :: "profile \<Rightarrow> jsstr \<Rightarrow> overview_run \<Rightarrow> ('d,
   'w) conn_list \<Rightarrow> overview_run \<times> ('d, 'w) conn_list" where
  "after_failure p message r s =
     (if \<not> requiresSavedCredentialRecovery message then (r, s)
      else (let s' = (if rn_credentialRequested r then s
                      else s\<lparr>cl_credentialPrompt := if rn_automatic r then Some (prompt_key ''error'' p) else cl_credentialPrompt s,
                             cl_credentialRequests := cl_credentialRequests s @ [(profile_id p, message)]\<rparr>)
            in (r\<lparr>rn_recoveryFailed := True, rn_credentialRequested := True,
                 rn_stopScheduling := rn_stopScheduling r \<or> rn_automatic r\<rparr>, s')))"

text \<open>The answer to the request of a worker: the data of the host, or the text of an error.\<close>

definition run_answer ::
    "nat \<Rightarrow> jsstr + 'd \<Rightarrow> int \<Rightarrow> overview_run \<Rightarrow> ('d,
       'w) conn_list \<Rightarrow> (overview_run \<times> ('d, 'w) conn_list) option" where
  "run_answer w answer now r s =
     (if w < length (pl_workers (rn_pool r)) then
        (case pl_workers (rn_pool r) ! w of
           Busy p \<Rightarrow>
             (let r' = r\<lparr>rn_pool := set_worker w Idle (rn_pool r)\<rparr>
              in case answer of
                   Inr data \<Rightarrow> Some (r', overview_answered p data now s)
                 | Inl error \<Rightarrow> Some (after_failure p (hostOverviewErrorMessage error) r'
                                      (overview_failed (rn_sessions r) p False error now s)))
         | _ \<Rightarrow> None)
      else None)"

definition run_ended :: "overview_run \<Rightarrow> ('d, 'w) conn_list \<Rightarrow> ('d, 'w) conn_list" where
  "run_ended r s =
     (let s = (if rn_automatic r \<and> \<not> rn_missing r \<and> \<not> rn_recoveryFailed r then s\<lparr>cl_credentialPrompt := None\<rparr> else s)
      in if rn_automatic r then s\<lparr>cl_automaticRunning := False\<rparr> else s)"

section \<open>The list at work\<close>

text \<open>
  The component with the refreshes under way: the runs, and the single refreshes of the buttons of the
  cards. Every answer may be late and every order is possible; the component may be unmounted.
\<close>

record ('d, 'w) overview_system =
  os_list :: "('d, 'w) conn_list"
  os_runs :: "overview_run list"
  os_single :: "profile list"

inductive overview_step :: "('d, 'w) overview_system \<Rightarrow> ('d, 'w) overview_system \<Rightarrow> bool" where
  refresh_all: "refreshSavedOverviews automatic now saved remembered sessions (os_list y) = (Some r, s)
    \<Longrightarrow> overview_step y (y\<lparr>os_list := s, os_runs := os_runs y @ [r]\<rparr>)"
| turn: "n < length (os_runs y) \<Longrightarrow> run_turn w (os_runs y ! n) (os_list y) = Some (r, s)
    \<Longrightarrow> overview_step y (y\<lparr>os_list := s, os_runs := (os_runs y)[n := r]\<rparr>)"
| answer: "n < length (os_runs y) \<Longrightarrow> run_answer w a now (os_runs y ! n) (os_list y) = Some (r, s)
    \<Longrightarrow> overview_step y (y\<lparr>os_list := s, os_runs := (os_runs y)[n := r]\<rparr>)"
| ends: "os_runs y = rs @ r # ts \<Longrightarrow> pool_finished (rn_pool r)
    \<Longrightarrow> overview_step y (y\<lparr>os_list := run_ended r (os_list y), os_runs := rs @ ts\<rparr>)"
| refresh_one: "refreshOverview sessions p (os_list y) = (True, s)
    \<Longrightarrow> overview_step y (y\<lparr>os_list := s, os_single := p # os_single y\<rparr>)"
| answer_one: "os_single y = ps @ p # qs \<Longrightarrow> overview_step y
    (y\<lparr>os_list := (case a of Inr data \<Rightarrow> overview_answered p data now (os_list y)
                   | Inl error \<Rightarrow> overview_failed sessions p True error now (os_list y)), os_single := ps @ qs\<rparr>)"
| unmounted: "overview_step y (y\<lparr>os_list := (os_list y)\<lparr>cl_mounted := False\<rparr>\<rparr>)"

definition initial_system :: "('d, 'w) overview_system" where
  "initial_system = \<lparr>os_list = initial_list, os_runs = [], os_single = []\<rparr>"

text \<open>
  The hosts asked by a run and by all refreshes; every host whose overview is shown as loading is asked,
  once.
\<close>

definition asks :: "overview_run \<Rightarrow> profile list" where
  "asks r = busy_items (rn_pool r)"

definition under_way :: "('d, 'w) overview_system \<Rightarrow> profile list" where
  "under_way y = concat (map asks (os_runs y)) @ os_single y"

definition loading_shown :: "('d, 'w) conn_list \<Rightarrow> bool" where
  "loading_shown s \<longleftrightarrow> (cl_mounted s \<longrightarrow>
     (\<forall>i. (case cl_overviews s i of Some o' \<Rightarrow> ov_loading o' | None \<Rightarrow> False) \<longleftrightarrow> i \<in> set (cl_refreshing s)))"

definition overview_inv :: "('d, 'w) overview_system \<Rightarrow> bool" where
  "overview_inv y \<longleftrightarrow>
     distinct (cl_refreshing (os_list y))
     \<and> mset (map profile_id (under_way y)) = mset (cl_refreshing (os_list y))
     \<and> (\<forall>p \<in> set (under_way y). is_ssh_profile p)
     \<and> (\<forall>r \<in> set (os_runs y). length (pl_workers (rn_pool r)) \<le> 4)
     \<and> length (filter rn_automatic (os_runs y)) = (if cl_automaticRunning (os_list y) then 1 else 0)
     \<and> loading_shown (os_list y)"

lemma refreshOverview_asks:
  assumes "refreshOverview sessions p s = (True, s')"
  shows "is_ssh_profile p \<and> profile_id p \<notin> set (cl_refreshing s) \<and> cl_refreshing s' = cl_refreshing s @ [profile_id p]
    \<and> cl_automaticRunning s' = cl_automaticRunning s \<and> (loading_shown s \<longrightarrow> loading_shown s')"
  using assms by (auto simp: refreshOverview_def loading_shown_def begin_overview_def split: if_splits)

lemma refreshOverview_silent: "refreshOverview sessions p s = (False, s') \<Longrightarrow> s' = s"
  by (auto simp: refreshOverview_def split: if_splits)

lemma overview_answered_keeps:
  "cl_refreshing (overview_answered p data now s) = removeAll (profile_id p) (cl_refreshing s)
     \<and> cl_automaticRunning (overview_answered p data now s) = cl_automaticRunning s
     \<and> (loading_shown s \<longrightarrow> loading_shown (overview_answered p data now s))"
  by (auto simp: overview_answered_def Let_def loading_shown_def show_overview_def)

lemma overview_failed_keeps:
  "cl_refreshing (overview_failed sessions p requestCredential error now s) = removeAll (profile_id p) (cl_refreshing s)
     \<and> cl_automaticRunning (overview_failed sessions p requestCredential error now s) = cl_automaticRunning s
     \<and> (loading_shown s \<longrightarrow> loading_shown (overview_failed sessions p requestCredential error now s))"
  by (auto simp: overview_failed_def Let_def loading_shown_def fail_overview_def)

lemma after_failure_keeps:
  assumes "after_failure p message r s = (r', s')"
  shows "cl_refreshing s' = cl_refreshing s \<and> cl_automaticRunning s' = cl_automaticRunning s
     \<and> loading_shown s' = loading_shown s \<and> rn_pool r' = rn_pool r \<and> rn_automatic r' = rn_automatic r"
  using assms by (auto simp: after_failure_def Let_def loading_shown_def split: if_splits)

lemma busy_set_worker:
  assumes "w < length (pl_workers p)"
  shows "mset (busy_items (set_worker w x p)) + mset (busy_item (pl_workers p ! w)) = mset (busy_items p) + mset (busy_item x)"
  using mset_busy_update [OF assms, of x] by (simp add: busy_items_def set_worker_def)

definition run_moves :: "overview_run \<Rightarrow> ('d, 'w) conn_list \<Rightarrow> overview_run \<Rightarrow> ('d,
   'w) conn_list \<Rightarrow> bool" where
  "run_moves r s r' s' \<longleftrightarrow>
     rn_automatic r' = rn_automatic r \<and> length (pl_workers (rn_pool r')) = length (pl_workers (rn_pool r))
     \<and> cl_automaticRunning s' = cl_automaticRunning s \<and> (loading_shown s \<longrightarrow> loading_shown s')
     \<and> ((mset (asks r') = mset (asks r) \<and> cl_refreshing s' = cl_refreshing s)
        \<or> (\<exists>p. is_ssh_profile p \<and> mset (asks r') = add_mset p (mset (asks r)) \<and> profile_id p \<notin> set (cl_refreshing s)
             \<and> cl_refreshing s' = cl_refreshing s @ [profile_id p])
        \<or> (\<exists>p. mset (asks r) = add_mset p (mset (asks r')) \<and> cl_refreshing s' = removeAll (profile_id p) (cl_refreshing s)))"

lemma run_turn_moves:
  assumes "run_turn w r s = Some (r', s')"
  shows "run_moves r s r' s'"
proof -
  obtain item p where t: "worker_turn w (rn_pool r) = Some (item, p)" using assms by (auto simp: run_turn_def split: option.splits)
  then have w: "w < length (pl_workers (rn_pool r))" "pl_workers (rn_pool r) ! w = Idle" by (simp_all add: worker_turn_eq)
  show ?thesis
  proof (cases item)
    case None
    then have "p = set_worker w Finished (rn_pool r)" using t by (auto simp: worker_turn_eq set_worker_def split: if_splits)
    moreover have "r' = r\<lparr>rn_pool := p\<rparr>" "s' = s" using t assms None by (simp_all add: run_turn_def)
    ultimately show ?thesis using busy_set_worker [OF w(1), of Finished] w
      by (simp add: run_moves_def asks_def) (simp add: set_worker_def)
  next
    case (Some q)
    then have p: "p = (set_worker w (Busy q) (rn_pool r))\<lparr>pl_nextIndex := pl_nextIndex (rn_pool r) + 1\<rparr>"
      using t by (auto simp: worker_turn_eq set_worker_def split: if_splits)
    have busy: "mset (busy_items p) = add_mset q (mset (asks r))" "mset (busy_items (set_worker w Idle p)) = mset (asks r)"
      using busy_set_worker [OF w(1), of "Busy q"] busy_set_worker [of w p Idle] w
      by (auto simp: p asks_def busy_items_def set_worker_def)
    obtain asked s1 where ask: "refreshOverview (rn_sessions r) q s = (asked, s1)" by fastforce
    show ?thesis
    proof (cases "\<not> rn_stopScheduling r \<and> asked")
      case True
      then have "r' = r\<lparr>rn_pool := p\<rparr>" "s' = s1" using assms t Some ask by (auto simp: run_turn_def)
      then show ?thesis using refreshOverview_asks [of "rn_sessions r" q s s1] ask True busy(1) w
        by (auto simp: run_moves_def asks_def p set_worker_def)
    next
      case False
      then have "r' = r\<lparr>rn_pool := set_worker w Idle p\<rparr>" "s' = s"
        using assms t Some ask refreshOverview_silent [of "rn_sessions r" q s s1] by (auto simp: run_turn_def split: if_splits)
      then show ?thesis using busy(2) by (simp add: run_moves_def asks_def) (simp add: p set_worker_def)
    qed
  qed
qed

lemma run_answer_moves:
  assumes "run_answer w a now r s = Some (r', s')"
  shows "run_moves r s r' s'"
proof -
  obtain p where w: "w < length (pl_workers (rn_pool r))" "pl_workers (rn_pool r) ! w = Busy p"
    using assms by (auto simp: run_answer_def split: if_splits worker.splits)
  let ?r = "r\<lparr>rn_pool := set_worker w Idle (rn_pool r)\<rparr>"
  have busy: "mset (asks r) = add_mset p (mset (asks ?r))" using busy_set_worker [OF w(1), of Idle] w by (simp add: asks_def)
  show ?thesis
  proof (cases a)
    case (Inr data)
    then have "r' = ?r" "s' = overview_answered p data now s" using assms w by (auto simp: run_answer_def)
    then show ?thesis using overview_answered_keeps [of p data now s] busy
      by (simp add: run_moves_def) (auto simp: set_worker_def)
  next
    case (Inl error)
    let ?s = "overview_failed (rn_sessions r) p False error now s"
    have "after_failure p (hostOverviewErrorMessage error) ?r ?s = (r', s')" using assms w Inl by (auto simp: run_answer_def)
    from after_failure_keeps [OF this] show ?thesis
      using overview_failed_keeps [of "rn_sessions r" p False error now s] busy
      by (simp add: run_moves_def asks_def) (auto simp: set_worker_def)
  qed
qed

text \<open>The hosts under way after a step, as multisets: the same, one more, or one less.\<close>

definition hosts_move :: "profile list \<Rightarrow> jsstr list \<Rightarrow> profile list \<Rightarrow> jsstr list \<Rightarrow> bool" where
  "hosts_move ps ids ps' ids' \<longleftrightarrow>
     (mset ps' = mset ps \<and> ids' = ids)
     \<or> (\<exists>p. is_ssh_profile p \<and> mset ps' = add_mset p (mset ps) \<and> profile_id p \<notin> set ids \<and> ids' = ids @ [profile_id p])
     \<or> (\<exists>p. mset ps = add_mset p (mset ps') \<and> ids' = removeAll (profile_id p) ids)"

lemma mset_removeAll_distinct: "distinct ids \<Longrightarrow> mset (removeAll i ids) = mset ids - {#i#}"
  by (metis distinct_remove1_removeAll mset_remove1)

lemma hosts_move_keeps:
  assumes "hosts_move ps ids ps' ids'" "distinct ids" "mset (map profile_id ps) = mset ids" "\<forall>p \<in> set ps. is_ssh_profile p"
  shows "distinct ids' \<and> mset (map profile_id ps') = mset ids' \<and> (\<forall>p \<in> set ps'. is_ssh_profile p)"
  using assms(1) unfolding hosts_move_def
proof (elim disjE exE conjE)
  assume "mset ps' = mset ps" "ids' = ids"
  then show ?thesis using assms(2-4) by (metis mset_map set_mset_mset)
next
  fix p
  assume p: "is_ssh_profile p" "mset ps' = add_mset p (mset ps)" "profile_id p \<notin> set ids" "ids' = ids @ [profile_id p]"
  from p(2) have "set ps' = insert p (set ps)" by (metis set_mset_add_mset_insert set_mset_mset)
  then show ?thesis using assms(2-4) p by simp
next
  fix p
  assume p: "mset ps = add_mset p (mset ps')" "ids' = removeAll (profile_id p) ids"
  from p(1) have "set ps = insert p (set ps')" by (metis set_mset_add_mset_insert set_mset_mset)
  moreover have "mset (map profile_id ps') = mset ids - {#profile_id p#}"
    using assms(3) p(1) by (metis add_mset_remove_trivial image_mset_add_mset mset_map)
  ultimately show ?thesis using assms(2,4) p(2) by (simp add: mset_removeAll_distinct distinct_removeAll)
qed

lemma run_moves_hosts:
  assumes n: "n < length (os_runs y)" and m: "run_moves (os_runs y ! n) (os_list y) r s"
  shows "hosts_move (under_way y) (cl_refreshing (os_list y)) (under_way (y\<lparr>os_list := s, os_runs := (os_runs y)[n := r]\<rparr>)) (cl_refreshing s)"
proof -
  let ?y = "y\<lparr>os_list := s, os_runs := (os_runs y)[n := r]\<rparr>"
  have "mset (under_way ?y) + mset (asks (os_runs y ! n)) = mset (under_way y) + mset (asks r)"
    using mset_concat_update [OF n, of asks r] by (simp add: under_way_def)
  note sum = this
  consider (same) "mset (asks r) = mset (asks (os_runs y ! n))" "cl_refreshing s = cl_refreshing (os_list y)"
    | (more) p where "is_ssh_profile p" "mset (asks r) = add_mset p (mset (asks (os_runs y ! n)))"
        "profile_id p \<notin> set (cl_refreshing (os_list y))" "cl_refreshing s = cl_refreshing (os_list y) @ [profile_id p]"
    | (less) p where "mset (asks (os_runs y ! n)) = add_mset p (mset (asks r))"
        "cl_refreshing s = removeAll (profile_id p) (cl_refreshing (os_list y))"
    using m unfolding run_moves_def by blast
  then show ?thesis
  proof cases
    case same
    then show ?thesis using sum by (simp add: hosts_move_def)
  next
    case (more p)
    then have "mset (under_way ?y) = add_mset p (mset (under_way y))" using sum by simp
    then show ?thesis unfolding hosts_move_def using more by blast
  next
    case (less p)
    then have "mset (under_way y) = add_mset p (mset (under_way ?y))" using sum by simp
    then show ?thesis unfolding hosts_move_def using less by blast
  qed
qed

lemma automatic_kept:
  fixes rs :: "overview_run list"
  assumes "n < length rs" "rn_automatic r = rn_automatic (rs ! n)"
  shows "length (filter rn_automatic (rs[n := r])) = length (filter rn_automatic rs)"
proof -
  have "rn_automatic r = map rn_automatic rs ! n" using assms by simp
  then have "map rn_automatic (rs[n := r]) = map rn_automatic rs" by (simp only: map_update list_update_id)
  moreover have "length (filter rn_automatic xs) = length (filter id (map rn_automatic xs))" for xs :: "overview_run list" by (induction xs) auto
  ultimately show ?thesis by metis
qed

lemma run_step_inv:
  assumes inv: "overview_inv y" and n: "n < length (os_runs y)" and m: "run_moves (os_runs y ! n) (os_list y) r s"
  shows "overview_inv (y\<lparr>os_list := s, os_runs := (os_runs y)[n := r]\<rparr>)"
proof -
  let ?y = "y\<lparr>os_list := s, os_runs := (os_runs y)[n := r]\<rparr>"
  have hosts: "distinct (cl_refreshing s) \<and> mset (map profile_id (under_way ?y)) = mset (cl_refreshing s)
      \<and> (\<forall>p \<in> set (under_way ?y). is_ssh_profile p)"
    using hosts_move_keeps [OF run_moves_hosts [OF n m]] inv unfolding overview_inv_def by blast
  have r: "rn_automatic r = rn_automatic (os_runs y ! n)" "length (pl_workers (rn_pool r)) = length (pl_workers (rn_pool (os_runs y ! n)))"
    "cl_automaticRunning s = cl_automaticRunning (os_list y)" "loading_shown (os_list y) \<longrightarrow> loading_shown s"
    using m unfolding run_moves_def by blast+
  have "\<forall>r' \<in> set ((os_runs y)[n := r]). length (pl_workers (rn_pool r')) \<le> 4"
    using inv n r(2) nth_mem [OF n] set_update_subset_insert [of "os_runs y" n r] unfolding overview_inv_def by auto
  then show ?thesis using hosts inv automatic_kept [OF n r(1)] r(3,4) by (simp add: overview_inv_def)
qed

lemma refreshSavedOverviews_starts:
  assumes "refreshSavedOverviews automatic now saved remembered sessions s = (Some r, s')"
  shows "asks r = [] \<and> length (pl_workers (rn_pool r)) \<le> 4 \<and> rn_automatic r = automatic
    \<and> \<not> (automatic \<and> cl_automaticRunning s) \<and> cl_automaticRunning s' = (automatic \<or> cl_automaticRunning s)
    \<and> cl_refreshing s' = cl_refreshing s \<and> loading_shown s' = loading_shown s"
proof -
  have "busy_items (runWithConcurrency items SSH_OVERVIEW_CONCURRENCY) = []" for items :: "profile list"
    by (simp add: busy_items_def runWithConcurrency_def concat_eq_Nil_conv)
  moreover have "length (pl_workers (runWithConcurrency items SSH_OVERVIEW_CONCURRENCY)) \<le> 4" for items :: "profile list"
    by (simp add: runWithConcurrency_def SSH_OVERVIEW_CONCURRENCY_def)
  ultimately show ?thesis using assms
    by (auto simp: refreshSavedOverviews_def Let_def asks_def loading_shown_def split: if_splits)
qed

lemma run_ended_keeps:
  "cl_refreshing (run_ended r s) = cl_refreshing s" "loading_shown (run_ended r s) = loading_shown s"
  "cl_automaticRunning (run_ended r s) = (\<not> rn_automatic r \<and> cl_automaticRunning s)"
  by (auto simp: run_ended_def Let_def loading_shown_def)

lemma finished_asks: "pool_finished (rn_pool r) \<Longrightarrow> asks r = []"
  by (auto simp: asks_def busy_items_def pool_finished_def)

lemma overview_step_inv:
  assumes "overview_step y y'" and inv: "overview_inv y"
  shows "overview_inv y'"
  using assms(1)
proof cases
  case (refresh_all automatic now saved remembered sessions r s)
  then show ?thesis using inv refreshSavedOverviews_starts [OF refresh_all(2)]
    by (auto simp: overview_inv_def under_way_def)
next
  case (turn n w r s)
  then show ?thesis using run_step_inv [OF inv turn(2) run_turn_moves [OF turn(3)]] by simp
next
  case (answer n w a now r s)
  then show ?thesis using run_step_inv [OF inv answer(2) run_answer_moves [OF answer(3)]] by simp
next
  case (ends rs r ts)
  then show ?thesis using inv finished_asks [OF ends(3)]
    by (auto simp: overview_inv_def under_way_def run_ended_keeps split: if_splits)
next
  case (refresh_one sessions p s)
  then show ?thesis using inv refreshOverview_asks [OF refresh_one(2)]
    by (auto simp: overview_inv_def under_way_def)
next
  case (answer_one ps p qs a now sessions)
  then have "mset (under_way y) = add_mset p (mset (under_way y'))" by (simp add: under_way_def)
  moreover have "cl_refreshing (os_list y') = removeAll (profile_id p) (cl_refreshing (os_list y))"
    "cl_automaticRunning (os_list y') = cl_automaticRunning (os_list y)" "loading_shown (os_list y) \<longrightarrow> loading_shown (os_list y')"
    "os_runs y' = os_runs y"
    using answer_one by (auto simp: overview_answered_keeps overview_failed_keeps split: sum.split)
  ultimately show ?thesis
    using inv hosts_move_keeps [of "under_way y" "cl_refreshing (os_list y)" "under_way y'" "cl_refreshing (os_list y')"]
    by (auto simp: overview_inv_def hosts_move_def)
next
  case unmounted
  then show ?thesis using inv by (simp add: overview_inv_def under_way_def loading_shown_def)
qed


lemma automatic_run_hosts:
  assumes "refreshSavedOverviews True now saved remembered sessions s = (Some r, s')" and "p \<in> set (pl_items (rn_pool r))"
  shows "p \<in> set saved \<and> is_ssh_profile p \<and> \<not> lacks_credential remembered sessions p \<and> retry_due now sessions (cl_retry s) p"
  using assms by (auto simp: refreshSavedOverviews_def Let_def runWithConcurrency_def split: if_splits)

text \<open>A list with one host and one run: the host is asked and the answer comes.\<close>

definition example_host :: profile where
  "example_host = SshProfile \<lparr>prof_id = js ''p'', prof_name = js ''host'', prof_groupId = None, prof_tags = [],
     prof_createdAt = [], prof_updatedAt = [], ssh_host = js ''h'', ssh_port = 22, ssh_username = js ''u'',
     ssh_authType = AuthAgent, ssh_privateKeyPath = None, ssh_enableAgentForwarding = None,
     ssh_enableCompression = None, ssh_proxyJump = None\<rparr>"

definition example_asked :: "(nat, nat) overview_system" where
  "example_asked = initial_system\<lparr>os_list := snd (refreshOverview Map.empty example_host initial_list),
     os_single := [example_host]\<rparr>"

lemma example_asked_step: "overview_step initial_system example_asked"
proof -
  have "refreshOverview Map.empty example_host (initial_list :: (nat, nat) conn_list)
      = (True, snd (refreshOverview Map.empty example_host initial_list))"
    by (simp add: refreshOverview_def initial_list_def example_host_def is_ssh_profile_def)
  then show ?thesis
    using overview_step.refresh_one [of Map.empty example_host initial_system] by (simp add: example_asked_def initial_system_def)
qed


theorem runWithConcurrency_complete_witness:
  "[7] = take 1 [7::nat] \<and> mset [7::nat] = mset [7]"
proof -
  let ?p = "runWithConcurrency [7::nat] 4"
  let ?q = "\<lparr>pl_items = [7], pl_nextIndex = 1, pl_workers = [Busy 7]\<rparr>"
  let ?r = "\<lparr>pl_items = [7], pl_nextIndex = 1, pl_workers = [Idle]\<rparr>"
  let ?s = "\<lparr>pl_items = [7], pl_nextIndex = 1, pl_workers = [Finished]\<rparr>"
  have "pool_run ?p ([] @ [7]) [] [] ?q"
    by (rule pool_run.takes [OF pool_run.begins, of 0]) (simp add: worker_turn_def runWithConcurrency_def)
  then have "pool_run ?p ([] @ [7]) ([] @ [7]) [] ?r"
    by (rule pool_run.resolves [where w = 0]) (simp_all add: task_ended_def)
  then have "pool_run ?p ([] @ [7]) ([] @ [7]) [] ?s"
    by (rule pool_run.leaves [where w = 0]) (simp add: worker_turn_def)
  from runWithConcurrency_complete [OF this] show ?thesis by (simp add: pool_finished_def)
qed

end
