(* ===== verification/PaneOutput.thy ===== *)
theory PaneOutput
  imports OutputBuffer
begin

text \<open>
  How a terminal pane hands output to its terminal emulator (\<^verbatim>\<open>src/features/terminal/TerminalPane.tsx\<close>): the
  snapshots of the workspace become writes, at most one at a time, from a bounded buffer that is flushed
  in animation frames, or by a timer while the window is hidden. The emulator (\<^verbatim>\<open>xterm\<close>) is outside: it
  is given texts and tells in the same order when it has parsed them.
\<close>

section \<open>State\<close>

text \<open>What the emulator is given; a flushed text carries what was left out before it.\<close>

datatype screen_event =
    Flushed nat bool jsstr
  | Replayed jsstr
  | ScreenReset

text \<open>
  A write under way, with the flag whether the view follows the output: of a flush with its revision and
  whether the screen has to be painted again, or of a replay with the instance and the revision.
\<close>

datatype write_under_way =
    FlushWrite nat bool
  | ReplayWrite nat nat bool

record pane_output =
  po_instance :: bool
  po_mounts :: nat
  po_alternate :: bool
  po_baseY :: int
  po_viewportY :: int
  po_autoScroll :: bool
  po_pending :: jsstr
  po_writing :: bool
  po_writeRevision :: nat
  po_dropped :: nat
  po_frame :: bool
  po_timer :: bool
  po_hidden :: bool
  po_recovery :: bool
  po_initialized :: bool
  po_replaying :: bool
  po_replayRevision :: nat
  po_lastBuffer :: jsstr
  po_lastClear :: int
  po_repaints :: nat
  po_log :: "screen_event list"
  po_writes :: "(write_under_way \<times> bool) list"

definition initial_pane_output :: pane_output where
  "initial_pane_output = \<lparr>po_instance = False, po_mounts = 0, po_alternate = False, po_baseY = 0, po_viewportY = 0,
     po_autoScroll = True, po_pending = [], po_writing = False, po_writeRevision = 0, po_dropped = 0, po_frame = False,
     po_timer = False, po_hidden = False, po_recovery = False, po_initialized = False, po_replaying = False,
     po_replayRevision = 0, po_lastBuffer = [], po_lastClear = 0, po_repaints = 0, po_log = [], po_writes = []\<rparr>"

section \<open>Writing\<close>

definition shouldKeepScrollAtBottom :: "pane_output \<Rightarrow> bool" where
  "shouldKeepScrollAtBottom s =
     (if \<not> po_autoScroll s \<or> po_alternate s then False else po_baseY s - po_viewportY s \<le> 1)"

definition writeOutput :: "screen_event \<Rightarrow> write_under_way \<Rightarrow> pane_output \<Rightarrow> pane_output" where
  "writeOutput e w s = s\<lparr>po_log := po_log s @ [e], po_writes := po_writes s @ [(w, shouldKeepScrollAtBottom s)]\<rparr>"

text \<open>
  The text of a flush. CAN aborts a partially received escape sequence; in the alternate screen nothing
  is said, as the program there is asked to paint again. \<open>locale_number\<close> is \<^verbatim>\<open>toLocaleString\<close>.
\<close>

definition dropped_notice :: "(nat \<Rightarrow> jsstr) \<Rightarrow> nat \<Rightarrow> jsstr" where
  "dropped_notice locale_number n =
     [0x18, 13, 10, 27] @ js ''[33m[Portiva] ''
     @ [0x8F93, 0x51FA, 0x901F, 0x5EA6, 0x8D85, 0x8FC7, 0x754C, 0x9762, 0x5904, 0x7406, 0x80FD, 0x529B, 0xFF0C,
        0x5DF2, 0x8DF3, 0x8FC7, 0x7EA6, 32] @ locale_number n
     @ [32, 0x4E2A, 0x5B57, 0x7B26, 0x4EE5, 0x4FDD, 0x62A4, 0x4F1A, 0x8BDD, 0x3002, 27] @ js ''[0m'' @ [13, 10]"

definition event_text :: "(nat \<Rightarrow> jsstr) \<Rightarrow> screen_event \<Rightarrow> jsstr" where
  "event_text locale_number e =
     (case e of
        Flushed dropped alternate t \<Rightarrow>
          if dropped > 0 then (if alternate then 0x18 # t else dropped_notice locale_number dropped @ t) else t
      | Replayed t \<Rightarrow> t
      | ScreenReset \<Rightarrow> [])"

definition schedulePendingOutputFlush :: "pane_output \<Rightarrow> pane_output" where
  "schedulePendingOutputFlush s =
     (if po_writing s \<or> po_frame s \<or> po_timer s then s
      else if po_hidden s then s\<lparr>po_timer := True\<rparr>
      else s\<lparr>po_frame := True\<rparr>)"

text \<open>\<open>accepts\<close>: the emulator takes the text; otherwise \<^verbatim>\<open>write\<close> throws.\<close>

definition flushPendingOutput :: "bool \<Rightarrow> pane_output \<Rightarrow> pane_output" where
  "flushPendingOutput accepts s =
     (let s = s\<lparr>po_frame := False, po_timer := False\<rparr>;
          output = po_pending s
      in if \<not> po_instance s \<or> po_writing s \<or> output = [] then s
         else
           (let droppedOutputCharacters = po_dropped s;
                recover = droppedOutputCharacters > 0 \<and> po_alternate s;
                writeRevision = po_writeRevision s + 1;
                s = s\<lparr>po_pending := [], po_dropped := 0, po_writing := True, po_writeRevision := writeRevision\<rparr>
            in if accepts
               then writeOutput (Flushed droppedOutputCharacters recover output) (FlushWrite writeRevision recover) s
               else s\<lparr>po_writing := False\<rparr>))"

definition enqueueOutput :: "jsstr \<Rightarrow> pane_output \<Rightarrow> pane_output" where
  "enqueueOutput output s =
     (if output = [] then s
      else (let boundedOutput = appendBoundedTerminalOutput (po_pending s) output maximumPendingTerminalOutputCharacters
            in schedulePendingOutputFlush (s\<lparr>po_pending := value_of boundedOutput,
                 po_dropped := po_dropped s + droppedCharacters boundedOutput\<rparr>)))"

definition replaySnapshot :: "jsstr \<Rightarrow> bool \<Rightarrow> pane_output \<Rightarrow> pane_output" where
  "replaySnapshot output recover s =
     (let s = s\<lparr>po_replayRevision := po_replayRevision s + 1, po_replaying := True\<rparr>
      in writeOutput (Replayed output) (ReplayWrite (po_mounts s) (po_replayRevision s) recover) s)"

text \<open>
  The emulator has parsed the oldest write. A repaint is the request of a frame that reports the size
  again with a redraw.
\<close>

definition parsed :: "write_under_way \<Rightarrow> pane_output \<Rightarrow> pane_output" where
  "parsed w s =
     (case w of
        FlushWrite writeRevision recover \<Rightarrow>
          if po_writeRevision s \<noteq> writeRevision then s
          else
            (let s = s\<lparr>po_writing := False\<rparr>;
                 s = (if recover then s\<lparr>po_recovery := True, po_repaints := po_repaints s + 1\<rparr> else s)
             in if po_pending s \<noteq> [] then schedulePendingOutputFlush s else s)
      | ReplayWrite mount revision recover \<Rightarrow>
          if po_instance s \<and> po_mounts s = mount \<and> po_replayRevision s = revision
          then (let s = s\<lparr>po_replaying := False\<rparr> in if recover then s\<lparr>po_repaints := po_repaints s + 1\<rparr> else s)
          else s)"

definition write_parsed :: "pane_output \<Rightarrow> pane_output" where
  "write_parsed s =
     (case po_writes s of
        [] \<Rightarrow> s
      | (w, keep) # ws \<Rightarrow>
          (let s = s\<lparr>po_writes := ws\<rparr>
           in parsed w (if keep \<and> \<not> po_alternate s then s\<lparr>po_viewportY := po_baseY s\<rparr> else s)))"

definition handleVisibilityChange :: "bool \<Rightarrow> pane_output \<Rightarrow> pane_output" where
  "handleVisibilityChange hidden s =
     (let s = s\<lparr>po_hidden := hidden\<rparr>
      in if \<not> hidden \<or> \<not> po_frame s then s
         else (let s = s\<lparr>po_frame := False\<rparr> in if po_pending s \<noteq> [] then schedulePendingOutputFlush s else s))"

section \<open>Snapshots\<close>

definition text_ends :: "jsstr \<Rightarrow> jsstr \<Rightarrow> bool" where
  "text_ends s t \<longleftrightarrow> length t \<le> length s \<and> drop (length s - length t) s = t"

definition stop_flush :: "pane_output \<Rightarrow> pane_output" where
  "stop_flush s = s\<lparr>po_pending := [], po_frame := False, po_timer := False\<rparr>"

text \<open>The effect that brings a snapshot to the screen; \<open>status\<close> is that of the terminal, if known.\<close>

definition apply_snapshot :: "snapshot \<Rightarrow> term_status option \<Rightarrow> pane_output \<Rightarrow> pane_output" where
  "apply_snapshot snap status s =
     (let terminalBuffer = snap_bufferPreview snap;
          chunk = (case snap_outputChunk snap of Some c \<Rightarrow> c | None \<Rightarrow> []);
          dropped = snap_droppedOutputCharacters snap
      in if \<not> po_instance s then s
         else if \<not> po_initialized s then
           (let recover = snap_historyTruncated snap \<and> status = Some Attached
            in (replaySnapshot terminalBuffer recover (s\<lparr>po_recovery := recover\<rparr>))
                 \<lparr>po_lastBuffer := terminalBuffer, po_initialized := True\<rparr>)
         else
           (let previousBuffer = po_lastBuffer s;
                s = (if dropped > 0 then s\<lparr>po_dropped := po_dropped s + nat dropped\<rparr> else s);
                appendedBuffer = previousBuffer @ chunk
            in if chunk \<noteq> [] \<and> (terminalBuffer = appendedBuffer \<or> text_ends appendedBuffer terminalBuffer
                 \<or> text_ends terminalBuffer chunk)
               then (enqueueOutput chunk s)\<lparr>po_lastBuffer := terminalBuffer\<rparr>
               else
                 (let s = (if dropped > 0 then enqueueOutput [0x18] s else s)
                  in if terminalBuffer = previousBuffer then s
                     else if status = Some Attached then s\<lparr>po_lastBuffer := terminalBuffer\<rparr>
                     else (let s = stop_flush s
                           in (replaySnapshot terminalBuffer False (s\<lparr>po_log := po_log s @ [ScreenReset]\<rparr>))
                                \<lparr>po_lastBuffer := terminalBuffer\<rparr>))))"

definition clear_screen :: "int \<Rightarrow> jsstr \<Rightarrow> pane_output \<Rightarrow> pane_output" where
  "clear_screen clearRevision terminalBuffer s =
     (if po_lastClear s = clearRevision then s
      else (let s = stop_flush (s\<lparr>po_lastClear := clearRevision\<rparr>)
            in (if po_instance s then s\<lparr>po_log := po_log s @ [ScreenReset]\<rparr> else s)\<lparr>po_lastBuffer := terminalBuffer\<rparr>))"

section \<open>Mounting\<close>

text \<open>The effect of another terminal: the cleanup of the old instance, and the new one.\<close>

definition unmount_pane :: "pane_output \<Rightarrow> pane_output" where
  "unmount_pane s = (stop_flush s)\<lparr>po_instance := False, po_writing := False, po_writeRevision := po_writeRevision s + 1,
     po_dropped := 0, po_lastBuffer := [], po_initialized := False, po_replaying := False,
     po_replayRevision := po_replayRevision s + 1, po_recovery := False\<rparr>"

definition mount_pane :: "pane_output \<Rightarrow> pane_output" where
  "mount_pane s = s\<lparr>po_instance := True, po_mounts := po_mounts s + 1, po_alternate := False, po_baseY := 0, po_viewportY := 0,
     po_recovery := False, po_lastBuffer := [], po_initialized := False, po_replaying := False,
     po_replayRevision := po_replayRevision s + 1, po_pending := [], po_writing := False,
     po_writeRevision := po_writeRevision s + 1, po_dropped := 0\<rparr>"

section \<open>Runs\<close>

text \<open>What the browser and the emulator do: a frame or the timer fires, a write is parsed.\<close>

inductive pane_fires :: "pane_output \<Rightarrow> pane_output \<Rightarrow> bool" where
  frame: "po_frame s \<Longrightarrow> pane_fires s (flushPendingOutput True s)"
| timer: "po_timer s \<Longrightarrow> pane_fires s (flushPendingOutput True s)"
| parsed: "po_writes s \<noteq> [] \<Longrightarrow> pane_fires s (write_parsed s)"

text \<open>A new pane is mounted when there is none.\<close>

inductive pane_step :: "pane_output \<Rightarrow> pane_output \<Rightarrow> bool" where
  fires: "pane_fires s s' \<Longrightarrow> pane_step s s'"
| refused: "po_frame s \<or> po_timer s \<Longrightarrow> pane_step s (flushPendingOutput False s)"
| snapshot: "pane_step s (apply_snapshot snap status s)"
| clear: "pane_step s (clear_screen n t s)"
| visibility: "pane_step s (handleVisibilityChange hidden s)"
| mount: "\<not> po_instance s \<Longrightarrow> pane_step s (mount_pane s)"
| unmount: "pane_step s (unmount_pane s)"
| screen: "pane_step s (s\<lparr>po_alternate := alternate, po_baseY := y, po_viewportY := v, po_autoScroll := auto, po_recovery := r\<rparr>)"

section \<open>The invariant\<close>

definition flush_revisions :: "(write_under_way \<times> bool) list \<Rightarrow> nat list" where
  "flush_revisions ws = concat (map (\<lambda>(w, keep). case w of FlushWrite n recover \<Rightarrow> [n] | ReplayWrite m n recover \<Rightarrow> []) ws)"

lemma flush_revisions_simps [simp]:
  "flush_revisions [] = []" "flush_revisions (ws @ [(FlushWrite n r, k)]) = flush_revisions ws @ [n]"
  "flush_revisions (ws @ [(ReplayWrite m i r, k)]) = flush_revisions ws"
  "flush_revisions ((FlushWrite n r, k) # ws) = n # flush_revisions ws"
  "flush_revisions ((ReplayWrite m i r, k) # ws) = flush_revisions ws"
  by (simp_all add: flush_revisions_def)

text \<open>
  Output that waits is waited for: a write is under way, or a frame or the timer will flush it. There is
  at most one write of a flush under way, and it is the newest.
\<close>

definition pane_inv :: "pane_output \<Rightarrow> bool" where
  "pane_inv s \<longleftrightarrow>
     (po_pending s \<noteq> [] \<longrightarrow> po_instance s \<and> (po_writing s \<or> po_frame s \<or> po_timer s))
     \<and> \<not> (po_frame s \<and> po_timer s) \<and> (po_hidden s \<longrightarrow> \<not> po_frame s)
     \<and> length (po_pending s) \<le> 524288
     \<and> (po_writing s \<longleftrightarrow> po_writeRevision s \<in> set (flush_revisions (po_writes s)))
     \<and> distinct (flush_revisions (po_writes s)) \<and> (\<forall>n\<in>set (flush_revisions (po_writes s)). n \<le> po_writeRevision s)
     \<and> (po_writing s \<longrightarrow> po_instance s)"

lemma bounded_output_length: "length (value_of (appendBoundedTerminalOutput t x maximumPendingTerminalOutputCharacters)) \<le> 524288"
  using append_bounded_shape [of t x maximumPendingTerminalOutputCharacters] unfolding limit_default by blast

lemma inv_flush: "pane_inv s \<Longrightarrow> pane_inv (flushPendingOutput accepts s)"
  by (auto simp: pane_inv_def flushPendingOutput_def writeOutput_def Let_def)

lemma inv_enqueue: "pane_inv s \<Longrightarrow> po_instance s \<Longrightarrow> pane_inv (enqueueOutput t s)"
  using bounded_output_length [of "po_pending s" t]
  by (auto simp: pane_inv_def enqueueOutput_def schedulePendingOutputFlush_def Let_def)

lemma enqueue_fields [simp]:
  "po_instance (enqueueOutput t s) = po_instance s" "po_log (enqueueOutput t s) = po_log s" "po_writes (enqueueOutput t s) = po_writes s"
  by (simp_all add: enqueueOutput_def schedulePendingOutputFlush_def Let_def)

lemma inv_replay: "pane_inv s \<Longrightarrow> pane_inv (replaySnapshot t recover s)"
  by (auto simp: pane_inv_def replaySnapshot_def writeOutput_def Let_def)

lemma inv_plain [simp]:
  "pane_inv (s\<lparr>po_log := l\<rparr>) = pane_inv s" "pane_inv (s\<lparr>po_lastBuffer := t\<rparr>) = pane_inv s" "pane_inv (s\<lparr>po_dropped := d\<rparr>) = pane_inv s"
  "pane_inv (s\<lparr>po_recovery := r\<rparr>) = pane_inv s" "pane_inv (s\<lparr>po_initialized := b\<rparr>) = pane_inv s"
  "pane_inv (s\<lparr>po_lastClear := n\<rparr>) = pane_inv s" "pane_inv (s\<lparr>po_lastBuffer := t, po_initialized := b\<rparr>) = pane_inv s"
  "pane_inv (s\<lparr>po_viewportY := v\<rparr>) = pane_inv s"
  "pane_inv (s\<lparr>po_alternate := a, po_baseY := y, po_viewportY := v, po_autoScroll := c, po_recovery := r\<rparr>) = pane_inv s"
  "pane_inv (s\<lparr>po_alternate := a, po_baseY := y, po_viewportY := v, po_autoScroll := c\<rparr>) = pane_inv s"
  by (simp_all add: pane_inv_def)

lemma inv_stop: "pane_inv s \<Longrightarrow> pane_inv (stop_flush s)"
  by (simp add: pane_inv_def stop_flush_def)

lemma inv_snapshot: "pane_inv s \<Longrightarrow> pane_inv (apply_snapshot snap status s)"
  by (simp add: apply_snapshot_def Let_def inv_replay inv_enqueue inv_stop)

lemma inv_clear: "pane_inv s \<Longrightarrow> pane_inv (clear_screen n t s)"
  by (simp add: clear_screen_def Let_def inv_stop)

lemma inv_visibility: "pane_inv s \<Longrightarrow> pane_inv (handleVisibilityChange hidden s)"
  by (auto simp: pane_inv_def handleVisibilityChange_def schedulePendingOutputFlush_def Let_def)

lemma inv_write_parsed: "pane_inv s \<Longrightarrow> pane_inv (write_parsed s)"
proof (cases "po_writes s")
  case (Cons p ws)
  assume inv: "pane_inv s"
  obtain w keep where p: "p = (w, keep)" by (cases p)
  show ?thesis
  proof (cases w)
    case (FlushWrite n recover)
    then show ?thesis using inv p Cons
      by (auto simp: write_parsed_def parsed_def pane_inv_def schedulePendingOutputFlush_def Let_def)
  next
    case (ReplayWrite m n recover)
    then show ?thesis using inv p Cons by (auto simp: write_parsed_def parsed_def pane_inv_def Let_def)
  qed
qed (simp add: write_parsed_def)

lemma inv_mount: "pane_inv s \<Longrightarrow> pane_inv (mount_pane s)" "pane_inv s \<Longrightarrow> pane_inv (unmount_pane s)"
  by (auto simp: pane_inv_def mount_pane_def unmount_pane_def stop_flush_def)

lemma inv_fires: "pane_fires s s' \<Longrightarrow> pane_inv s \<Longrightarrow> pane_inv s'"
  by (induction rule: pane_fires.induct) (simp_all add: inv_flush inv_write_parsed)

lemma inv_pane_step: "pane_step s s' \<Longrightarrow> pane_inv s \<Longrightarrow> pane_inv s'"
  by (induction rule: pane_step.induct)
    (simp_all add: inv_fires inv_flush inv_snapshot inv_clear inv_visibility inv_mount)

lemma initial_pane_inv: "pane_inv initial_pane_output"
  by (simp add: pane_inv_def initial_pane_output_def)

lemma reachable_pane_inv: "pane_step\<^sup>*\<^sup>* initial_pane_output s \<Longrightarrow> pane_inv s"
  by (induction rule: rtranclp_induct) (simp_all add: initial_pane_inv inv_pane_step)

section \<open>Output reaches the screen\<close>

lemma parse_until_free:
  "pane_inv s \<Longrightarrow> po_pending s \<noteq> [] \<Longrightarrow> \<exists>s'. pane_fires\<^sup>*\<^sup>* s s' \<and> \<not> po_writing s' \<and> po_pending s' = po_pending s
    \<and> po_dropped s' = po_dropped s \<and> po_log s' = po_log s"
proof (induction "length (po_writes s)" arbitrary: s)
  case 0
  then show ?case by (auto simp: pane_inv_def)
next
  case (Suc n)
  show ?case
  proof (cases "po_writing s")
    case True
    have one: "pane_fires s (write_parsed s)" using Suc.hyps(2) by (intro pane_fires.parsed) auto
    have same: "po_pending (write_parsed s) = po_pending s" "po_dropped (write_parsed s) = po_dropped s" "po_log (write_parsed s) = po_log s"
      "length (po_writes (write_parsed s)) = n"
      using Suc.hyps(2) by (auto simp: write_parsed_def parsed_def schedulePendingOutputFlush_def Let_def
          split: list.splits write_under_way.split)
    have "pane_inv (write_parsed s)" "po_pending (write_parsed s) \<noteq> []" using inv_write_parsed Suc.prems same(1) by simp_all
    from Suc.hyps(1) [OF same(4) [symmetric] this] obtain s' where "pane_fires\<^sup>*\<^sup>* (write_parsed s) s'" "\<not> po_writing s'"
      "po_pending s' = po_pending s" "po_dropped s' = po_dropped s" "po_log s' = po_log s"
      using same by auto
    moreover from this(1) have "pane_fires\<^sup>*\<^sup>* s s'" by (rule converse_rtranclp_into_rtranclp [of pane_fires, OF one])
    ultimately show ?thesis by blast
  qed (use Suc.prems in auto)
qed

text \<open>
  C22. Output that waits never gets stuck: from every state the pane can reach, the emulator's answers and
  the frames or the timer that are due write exactly the waiting text, with the count of what was left out.
\<close>

theorem pending_output_written:
  assumes "pane_step\<^sup>*\<^sup>* initial_pane_output s" and "po_pending s \<noteq> []"
  shows "\<exists>s' alternate. pane_fires\<^sup>*\<^sup>* s s' \<and> po_pending s' = [] \<and> po_log s' = po_log s @ [Flushed (po_dropped s) alternate (po_pending s)]"
proof -
  have inv: "pane_inv s" by (rule reachable_pane_inv [OF assms(1)])
  from parse_until_free [OF inv assms(2)] obtain s1 where s1: "pane_fires\<^sup>*\<^sup>* s s1" "\<not> po_writing s1"
    "po_pending s1 = po_pending s" "po_dropped s1 = po_dropped s" "po_log s1 = po_log s" by blast
  have "pane_inv s1" using s1(1) inv by (induction rule: rtranclp_induct) (auto intro: inv_fires)
  then have due: "po_instance s1" "po_frame s1 \<or> po_timer s1" using s1(2,3) assms(2) by (auto simp: pane_inv_def)
  have "pane_fires\<^sup>*\<^sup>* s (flushPendingOutput True s1)"
    using s1(1) due(2) by (auto intro: rtranclp.rtrancl_into_rtrancl pane_fires.frame pane_fires.timer)
  moreover have "po_pending (flushPendingOutput True s1) = []"
    "\<exists>a. po_log (flushPendingOutput True s1) = po_log s1 @ [Flushed (po_dropped s1) a (po_pending s1)]"
    using due(1) s1(2,3) assms(2) by (auto simp: flushPendingOutput_def writeOutput_def Let_def)
  ultimately show ?thesis using s1(3-5) by auto
qed

definition example_snapshot :: "jsstr \<Rightarrow> jsstr option \<Rightarrow> snapshot" where
  "example_snapshot buffer chunk = \<lparr>snap_terminalId = js ''t'', snap_status = Attached, snap_bufferedBytes = 0,
     snap_bufferPreview = buffer, snap_historyTruncated = False, snap_renderPolicy = \<lparr>rp_flushIntervalMs = 16, rp_maxChunkBytes = 65536, rp_scrollbackLines = 5000\<rparr>,
     snap_outputChunk = chunk, snap_droppedOutputCharacters = 0\<rparr>"

definition example_pane :: pane_output where
  "example_pane = apply_snapshot (example_snapshot (js ''ab'') (Some (js ''b''))) (Some Attached)
     (apply_snapshot (example_snapshot (js ''a'') None) (Some Attached) (mount_pane initial_pane_output))"

lemma example_pane_reached: "pane_step\<^sup>*\<^sup>* initial_pane_output example_pane"
proof -
  have "pane_step initial_pane_output (mount_pane initial_pane_output)"
    by (rule pane_step.mount) (simp add: initial_pane_output_def)
  then have "pane_step\<^sup>*\<^sup>* initial_pane_output (mount_pane initial_pane_output)" by (rule r_into_rtranclp)
  from rtranclp.rtrancl_into_rtrancl [OF rtranclp.rtrancl_into_rtrancl [OF this pane_step.snapshot] pane_step.snapshot]
  show ?thesis unfolding example_pane_def by this
qed

lemma append_fits:
  assumes "length (t @ x) \<le> 524288"
  shows "value_of (appendBoundedTerminalOutput t x maximumPendingTerminalOutputCharacters) = t @ x"
    and "droppedCharacters (appendBoundedTerminalOutput t x maximumPendingTerminalOutputCharacters) = 0"
proof -
  note shape = append_bounded_shape [of t x maximumPendingTerminalOutputCharacters, unfolded limit_default]
  show "droppedCharacters (appendBoundedTerminalOutput t x maximumPendingTerminalOutputCharacters) = 0" using shape assms by blast
  with shape show "value_of (appendBoundedTerminalOutput t x maximumPendingTerminalOutputCharacters) = t @ x"
    by (metis drop_0)
qed

lemma example_pane_waits: "po_pending example_pane = js ''b''"
  by (simp add: example_pane_def apply_snapshot_def example_snapshot_def mount_pane_def initial_pane_output_def
      replaySnapshot_def writeOutput_def enqueueOutput_def schedulePendingOutputFlush_def append_fits Let_def js_def)

theorem pending_output_written_witness:
  "\<exists>s' alternate. pane_fires\<^sup>*\<^sup>* example_pane s' \<and> po_pending s' = []
     \<and> po_log s' = po_log example_pane @ [Flushed (po_dropped example_pane) alternate (po_pending example_pane)]"
proof (rule pending_output_written [OF example_pane_reached])
  show "po_pending example_pane \<noteq> []" unfolding example_pane_waits by (simp add: js_def)
qed

section \<open>What is written is what came\<close>

text \<open>
  What became of the stream of output that arrived at the pane, in order: it was written, or skipped because too much
  was waiting; it went with a write that the emulator refused, with a screen that was cleared or painted anew from a
  snapshot, or with a pane that was closed. \<open>Elsewhere\<close> stands for characters that the workspace says it has skipped itself.
\<close>

datatype fate =
    Written jsstr
  | Skipped jsstr
  | Elsewhere nat
  | Refused jsstr
  | Cleared jsstr
  | Closed jsstr

definition fate_text :: "fate \<Rightarrow> jsstr" where
  "fate_text f = (case f of Written t \<Rightarrow> t | Skipped t \<Rightarrow> t | Elsewhere n \<Rightarrow> [] | Refused t \<Rightarrow> t | Cleared t \<Rightarrow> t | Closed t \<Rightarrow> t)"

text \<open>
  The texts that were written, each with the number of characters skipped since the one before, and the number skipped
  since the last one. A refused write and a closed pane take this number with them, a cleared screen does not.
\<close>

definition account_fate :: "fate \<Rightarrow> (nat \<times> jsstr) list \<times> nat \<Rightarrow> (nat \<times> jsstr) list \<times> nat" where
  "account_fate f = (\<lambda>(written, skipped). case f of
       Written t \<Rightarrow> (written @ [(skipped, t)], 0)
     | Skipped t \<Rightarrow> (written, skipped + length t)
     | Elsewhere n \<Rightarrow> (written, skipped + n)
     | Refused t \<Rightarrow> (written, 0)
     | Cleared t \<Rightarrow> (written, skipped)
     | Closed t \<Rightarrow> (written, 0))"

definition account :: "fate list \<Rightarrow> (nat \<times> jsstr) list \<times> nat" where
  "account fs = fold account_fate fs ([], 0)"

definition flushes :: "screen_event list \<Rightarrow> (nat \<times> jsstr) list" where
  "flushes l = concat (map (\<lambda>e. case e of Flushed d a t \<Rightarrow> [(d, t)] | _ \<Rightarrow> []) l)"

lemma flushes_append [simp]: "flushes (l @ m) = flushes l @ flushes m" "flushes [] = []" "flushes [Flushed d a t] = [(d, t)]"
  "flushes [Replayed t] = []" "flushes [ScreenReset] = []"
  by (simp_all add: flushes_def)

text \<open>The output that a snapshot brings to the queue, and what it says was skipped before.\<close>

definition snapshot_fits :: "snapshot \<Rightarrow> pane_output \<Rightarrow> bool" where
  "snapshot_fits snap s =
     (let terminalBuffer = snap_bufferPreview snap;
          chunk = (case snap_outputChunk snap of Some c \<Rightarrow> c | None \<Rightarrow> []);
          appendedBuffer = po_lastBuffer s @ chunk
      in chunk \<noteq> [] \<and> (terminalBuffer = appendedBuffer \<or> text_ends appendedBuffer terminalBuffer \<or> text_ends terminalBuffer chunk))"

definition arriving :: "snapshot \<Rightarrow> pane_output \<Rightarrow> jsstr" where
  "arriving snap s =
     (if \<not> po_instance s \<or> \<not> po_initialized s then []
      else if snapshot_fits snap s then (case snap_outputChunk snap of Some c \<Rightarrow> c | None \<Rightarrow> [])
      else if snap_droppedOutputCharacters snap > 0 then [0x18] else [])"

text \<open>Every step of the pane, with the stream of output that has arrived.\<close>

inductive pane_run :: "pane_output \<Rightarrow> jsstr \<Rightarrow> pane_output \<Rightarrow> bool" for s where
  start: "pane_run s [] s"
| fires: "pane_run s t s' \<Longrightarrow> pane_fires s' s'' \<Longrightarrow> pane_run s t s''"
| refused: "pane_run s t s' \<Longrightarrow> po_frame s' \<or> po_timer s' \<Longrightarrow> pane_run s t (flushPendingOutput False s')"
| snapshot: "pane_run s t s' \<Longrightarrow> pane_run s (t @ arriving snap s') (apply_snapshot snap status s')"
| clear: "pane_run s t s' \<Longrightarrow> pane_run s t (clear_screen n b s')"
| visibility: "pane_run s t s' \<Longrightarrow> pane_run s t (handleVisibilityChange hidden s')"
| mount: "pane_run s t s' \<Longrightarrow> \<not> po_instance s' \<Longrightarrow> pane_run s t (mount_pane s')"
| unmount: "pane_run s t s' \<Longrightarrow> pane_run s t (unmount_pane s')"
| screen: "pane_run s t s' \<Longrightarrow> pane_run s t
    (s'\<lparr>po_alternate := alternate, po_baseY := y, po_viewportY := v, po_autoScroll := auto', po_recovery := r\<rparr>)"

definition accounted :: "pane_output \<Rightarrow> jsstr \<Rightarrow> pane_output \<Rightarrow> bool" where
  "accounted s t s' \<longleftrightarrow> (\<exists>l fs. po_log s' = po_log s @ l \<and> t = concat (map fate_text fs) @ po_pending s'
     \<and> account fs = (flushes l, po_dropped s'))"

lemma accounted_same:
  "accounted s t s' \<Longrightarrow> po_log s'' = po_log s' \<Longrightarrow> po_pending s'' = po_pending s' \<Longrightarrow> po_dropped s'' = po_dropped s' \<Longrightarrow> accounted s t s''"
  by (simp add: accounted_def)

text \<open>One more entry of the account, with what it adds to the log.\<close>

lemma accounted_more:
  assumes "accounted s t s'" and "po_log s'' = po_log s' @ m"
    and "t' = t @ x" and "po_pending s' @ x = fate_text f @ po_pending s''"
    and "\<And>w. account_fate f (w, po_dropped s') = (w @ flushes m, po_dropped s'')"
  shows "accounted s t' s''"
proof -
  obtain l fs where a: "po_log s' = po_log s @ l" "t = concat (map fate_text fs) @ po_pending s'" "account fs = (flushes l, po_dropped s')"
    using assms(1) by (auto simp: accounted_def)
  have "account (fs @ [f]) = (flushes (l @ m), po_dropped s'')" using a(3) assms(5) by (simp add: account_def)
  moreover have "po_log s'' = po_log s @ (l @ m)" using a(1) assms(2) by simp
  moreover have "t' = concat (map fate_text (fs @ [f])) @ po_pending s''" using a(2) assms(3,4) by simp
  ultimately show ?thesis unfolding accounted_def by blast
qed

lemma accounted_flush: "accounted s t s' \<Longrightarrow> accounted s t (flushPendingOutput True s')"
proof (cases "\<not> po_instance s' \<or> po_writing s' \<or> po_pending s' = []")
  case True
  moreover assume "accounted s t s'"
  ultimately show ?thesis by (elim accounted_same) (auto simp: flushPendingOutput_def Let_def)
next
  case False
  assume "accounted s t s'"
  then show ?thesis
    by (rule accounted_more [where m = "[Flushed (po_dropped s') (po_dropped s' > 0 \<and> po_alternate s') (po_pending s')]"
          and f = "Written (po_pending s')" and x = "[]"])
      (use False in \<open>auto simp: flushPendingOutput_def writeOutput_def Let_def fate_text_def account_fate_def\<close>)
qed

lemma accounted_refused: "accounted s t s' \<Longrightarrow> accounted s t (flushPendingOutput False s')"
proof (cases "\<not> po_instance s' \<or> po_writing s' \<or> po_pending s' = []")
  case True
  moreover assume "accounted s t s'"
  ultimately show ?thesis by (elim accounted_same) (auto simp: flushPendingOutput_def Let_def)
next
  case False
  assume "accounted s t s'"
  then show ?thesis
    by (rule accounted_more [where m = "[]" and f = "Refused (po_pending s')" and x = "[]"])
      (use False in \<open>auto simp: flushPendingOutput_def Let_def fate_text_def account_fate_def\<close>)
qed

lemma accounted_enqueue: "accounted s t s' \<Longrightarrow> accounted s (t @ x) (enqueueOutput x s')"
proof (cases "x = []")
  case False
  let ?b = "appendBoundedTerminalOutput (po_pending s') x maximumPendingTerminalOutputCharacters"
  have b: "droppedCharacters ?b \<le> length (po_pending s' @ x)" "value_of ?b = drop (droppedCharacters ?b) (po_pending s' @ x)"
    using append_bounded_shape [of "po_pending s'" x maximumPendingTerminalOutputCharacters] by blast+
  have n: "po_dropped (enqueueOutput x s') = po_dropped s' + droppedCharacters ?b" "po_pending (enqueueOutput x s') = value_of ?b"
    using False by (simp_all add: enqueueOutput_def schedulePendingOutputFlush_def Let_def)
  assume "accounted s t s'"
  then show ?thesis
    by (rule accounted_more [where m = "[]" and f = "Skipped (take (droppedCharacters ?b) (po_pending s' @ x))" and x = x])
      (simp_all only: n b(2) fate_text_def account_fate_def fate.case append_take_drop_id enqueue_fields, use b(1) in simp_all)
qed (simp add: enqueueOutput_def)

lemma accounted_elsewhere: "accounted s t s' \<Longrightarrow> accounted s t (s'\<lparr>po_dropped := po_dropped s' + n\<rparr>)"
  by (rule accounted_more [where m = "[]" and f = "Elsewhere n" and x = "[]"]) (simp_all add: fate_text_def account_fate_def)

lemma accounted_stop: "accounted s t s' \<Longrightarrow> accounted s t (stop_flush s')"
  by (rule accounted_more [where m = "[]" and f = "Cleared (po_pending s')" and x = "[]"])
    (simp_all add: fate_text_def account_fate_def stop_flush_def)

lemma accounted_closed:
  "accounted s t s' \<Longrightarrow> po_log s'' = po_log s' \<Longrightarrow> po_pending s'' = [] \<Longrightarrow> po_dropped s'' = 0 \<Longrightarrow> accounted s t s''"
  by (rule accounted_more [where m = "[]" and f = "Closed (po_pending s')" and x = "[]"]) (simp_all add: fate_text_def account_fate_def)

text \<open>A screen that is reset or painted from a snapshot changes nothing of the account.\<close>

lemma accounted_painted:
  assumes "accounted s t s'" and "po_log s'' = po_log s' @ m" and "flushes m = []" and "po_pending s'' = po_pending s'"
    and "po_dropped s'' = po_dropped s'"
  shows "accounted s t s''"
proof -
  obtain l fs where a: "po_log s' = po_log s @ l" "t = concat (map fate_text fs) @ po_pending s'" "account fs = (flushes l, po_dropped s')"
    using assms(1) by (auto simp: accounted_def)
  then show ?thesis unfolding accounted_def
    by (intro exI [of _ "l @ m"] exI [of _ fs]) (simp add: assms)
qed

lemma accounted_snapshot:
  assumes "accounted s t s'"
  shows "accounted s (t @ arriving snap s') (apply_snapshot snap status s')"
proof (cases "po_instance s' \<and> po_initialized s'")
  case False
  then have "arriving snap s' = []" by (auto simp: arriving_def)
  moreover have "accounted s t (apply_snapshot snap status s')"
  proof (cases "po_instance s'")
    case True
    then show ?thesis using False
      by (intro accounted_painted [OF assms, of _ "[Replayed (snap_bufferPreview snap)]"])
        (simp_all add: apply_snapshot_def replaySnapshot_def writeOutput_def Let_def)
  qed (use assms in \<open>simp add: apply_snapshot_def\<close>)
  ultimately show ?thesis by simp
next
  case True
  let ?b = "snap_bufferPreview snap" and ?n = "snap_droppedOutputCharacters snap"
  let ?chunk = "case snap_outputChunk snap of Some c \<Rightarrow> c | None \<Rightarrow> []"
  define u where "u = (if ?n > 0 then s'\<lparr>po_dropped := po_dropped s' + nat ?n\<rparr> else s')"
  have u: "accounted s t u" using assms by (simp add: u_def accounted_elsewhere)
  have last: "po_lastBuffer u = po_lastBuffer s'" by (simp add: u_def)
  have eq: "apply_snapshot snap status s' =
      (if snapshot_fits snap s' then (enqueueOutput ?chunk u)\<lparr>po_lastBuffer := ?b\<rparr>
       else (let v = (if ?n > 0 then enqueueOutput [0x18] u else u)
             in if ?b = po_lastBuffer s' then v
                else if status = Some Attached then v\<lparr>po_lastBuffer := ?b\<rparr>
                else (let v = stop_flush v
                      in (replaySnapshot ?b False (v\<lparr>po_log := po_log v @ [ScreenReset]\<rparr>))\<lparr>po_lastBuffer := ?b\<rparr>)))"
    using True unfolding apply_snapshot_def snapshot_fits_def u_def Let_def by simp
  show ?thesis
  proof (cases "snapshot_fits snap s'")
    case fits: True
    have "accounted s (t @ ?chunk) ((enqueueOutput ?chunk u)\<lparr>po_lastBuffer := ?b\<rparr>)"
      by (rule accounted_same [OF accounted_enqueue [OF u]]) simp_all
    then show ?thesis using fits True by (simp add: eq arriving_def)
  next
    case other: False
    let ?v = "if ?n > 0 then enqueueOutput [0x18] u else u"
    have v: "accounted s (t @ arriving snap s') ?v"
      using u accounted_enqueue [OF u, of "[0x18]"] other True by (simp add: arriving_def)
    have w: "accounted s (t @ arriving snap s') ((replaySnapshot ?b False ((stop_flush ?v)\<lparr>po_log := po_log (stop_flush ?v) @ [ScreenReset]\<rparr>))\<lparr>po_lastBuffer := ?b\<rparr>)"
      by (rule accounted_painted [OF accounted_stop [OF v], of _ "[ScreenReset, Replayed ?b]"])
        (simp_all add: replaySnapshot_def writeOutput_def flushes_def)
    have k: "accounted s (t @ arriving snap s') (?v\<lparr>po_lastBuffer := ?b\<rparr>)" by (rule accounted_same [OF v]) simp_all
    show ?thesis unfolding eq Let_def using other v w k by (simp only: if_False) (simp split: if_split)
  qed
qed



end
