(* ===== verification/PaneSize.thy ===== *)
theory PaneSize
  imports PortivaTypes
begin

text \<open>
  How a terminal pane tells the back end its size (\<^verbatim>\<open>reportSize\<close> and \<^verbatim>\<open>enqueueResize\<close> of
  \<^verbatim>\<open>src/features/terminal/TerminalPane.tsx\<close>): the sizes are sent one after another, a failed one is tried
  again after a pause, and a redraw of the program is asked for by sending another size before.
\<close>

section \<open>State\<close>

text \<open>A request: the sizes it has still to send; the one it sent last is under way.\<close>

record resize_request =
  rr_mount :: nat
  rr_revision :: nat
  rr_size :: term_size
  rr_rest :: "term_size list"
  rr_redraw :: bool

text \<open>
  \<open>ps_mount\<close> tells the instances of the emulator apart; \<open>ps_retryTimer\<close> holds whether the retry asks for a
  redraw; \<open>ps_sent\<close> is everything the back end was told.
\<close>

record pane_size =
  ps_mounted :: bool
  ps_mount :: nat
  ps_active :: bool
  ps_whenVisible :: bool
  ps_reported :: "term_size option"
  ps_requested :: "term_size option"
  ps_revision :: nat
  ps_retryAttempt :: nat
  ps_retryTimer :: "bool option"
  ps_recovery :: bool
  ps_queue :: "resize_request list"
  ps_sent :: "(nat \<times> term_size) list"

definition initial_pane_size :: pane_size where
  "initial_pane_size = \<lparr>ps_mounted = False, ps_mount = 0, ps_active = True, ps_whenVisible = False, ps_reported = None,
     ps_requested = None, ps_revision = 0, ps_retryAttempt = 0, ps_retryTimer = None, ps_recovery = False,
     ps_queue = [], ps_sent = []\<rparr>"

definition terminalResizeRetryBaseDelayMs :: int where "terminalResizeRetryBaseDelayMs = 250"
definition terminalResizeRetryMaximumDelayMs :: int where "terminalResizeRetryMaximumDelayMs = 4000"
definition terminalResizeRetryMaximumAttempts :: nat where "terminalResizeRetryMaximumAttempts = 5"

definition terminalSizesEqual :: "term_size option \<Rightarrow> term_size \<Rightarrow> bool" where
  "terminalSizesEqual left right \<longleftrightarrow>
     (case left of
        None \<Rightarrow> False
      | Some l \<Rightarrow> sz_cols l = sz_cols right \<and> sz_rows l = sz_rows right \<and> sz_widthPx l = sz_widthPx right
          \<and> sz_heightPx l = sz_heightPx right)"

section \<open>Sending\<close>

text \<open>The first request sends its next size.\<close>

definition send_head :: "pane_size \<Rightarrow> pane_size" where
  "send_head s =
     (case ps_queue s of
        [] \<Rightarrow> s
      | r # rs \<Rightarrow>
          (case rr_rest r of
             [] \<Rightarrow> s
           | z # zs \<Rightarrow> s\<lparr>ps_queue := r\<lparr>rr_rest := zs\<rparr> # rs, ps_sent := ps_sent s @ [(rr_mount r, z)]\<rparr>))"

definition enqueueResize :: "resize_request \<Rightarrow> pane_size \<Rightarrow> pane_size" where
  "enqueueResize r s =
     (let s' = s\<lparr>ps_queue := ps_queue s @ [r]\<rparr> in if ps_queue s = [] then send_head s' else s')"

text \<open>\<^verbatim>\<open>Math.round((height * nudge) / rows)\<close> of integers.\<close>

definition scaled_height :: "int \<Rightarrow> int \<Rightarrow> int \<Rightarrow> int" where
  "scaled_height h nudge rows = (2 * (h * nudge) + rows) div (2 * rows)"

definition nudged :: "term_size \<Rightarrow> term_size" where
  "nudged z =
     (let nudgeRows = (if sz_rows z > 2 then sz_rows z - 1 else sz_rows z + 1)
      in z\<lparr>sz_rows := nudgeRows, sz_heightPx := max 1 (scaled_height (sz_heightPx z) nudgeRows (sz_rows z))\<rparr>)"

text \<open>
  \<open>measured\<close> is the size of the emulator after fitting it to its place, \<open>None\<close> when it has no place or the
  place has no extent.
\<close>

definition reportSize :: "bool \<Rightarrow> bool \<Rightarrow> term_size option \<Rightarrow> pane_size \<Rightarrow> pane_size" where
  "reportSize force requestRedraw measured s =
     (if \<not> ps_mounted s \<or> (\<not> ps_active s \<and> \<not> ps_whenVisible s) then s
      else (case measured of
          None \<Rightarrow> s
        | Some nextSize \<Rightarrow>
            (let redrawRequested = requestRedraw \<or> ps_recovery s
             in if \<not> force \<and> \<not> redrawRequested
                  \<and> (terminalSizesEqual (ps_requested s) nextSize \<or> terminalSizesEqual (ps_reported s) nextSize)
                then s
                else (let requestRevision = ps_revision s + 1
                      in enqueueResize
                           \<lparr>rr_mount = ps_mount s, rr_revision = requestRevision, rr_size = nextSize,
                            rr_rest = (if redrawRequested then [nudged nextSize, nextSize] else [nextSize]),
                            rr_redraw = redrawRequested\<rparr>
                           (s\<lparr>ps_retryTimer := None, ps_revision := requestRevision, ps_requested := Some nextSize\<rparr>)))))"

text \<open>What a request does at its end, if its instance and its revision are still the current ones.\<close>

definition current_request :: "resize_request \<Rightarrow> pane_size \<Rightarrow> bool" where
  "current_request r s \<longleftrightarrow> ps_mounted s \<and> ps_mount s = rr_mount r \<and> ps_revision s = rr_revision r"

definition resize_done :: "resize_request \<Rightarrow> pane_size \<Rightarrow> pane_size" where
  "resize_done r s =
     (if \<not> current_request r s then s
      else s\<lparr>ps_reported := Some (rr_size r), ps_requested := Some (rr_size r), ps_retryAttempt := 0,
             ps_recovery := (if rr_redraw r then False else ps_recovery s)\<rparr>)"

definition resize_failed :: "resize_request \<Rightarrow> pane_size \<Rightarrow> pane_size" where
  "resize_failed r s =
     (if \<not> current_request r s then s
      else (let s = s\<lparr>ps_reported := None, ps_requested := None\<rparr>
            in if ps_retryAttempt s \<ge> terminalResizeRetryMaximumAttempts then s
               else s\<lparr>ps_retryAttempt := ps_retryAttempt s + 1, ps_retryTimer := Some (rr_redraw r)\<rparr>))"

definition retry_delay :: "nat \<Rightarrow> int" where
  "retry_delay retryAttempt = min terminalResizeRetryMaximumDelayMs (terminalResizeRetryBaseDelayMs * 2 ^ retryAttempt)"

text \<open>The answer to the size under way.\<close>

definition resize_answered :: "bool \<Rightarrow> pane_size \<Rightarrow> pane_size" where
  "resize_answered ok s =
     (case ps_queue s of
        [] \<Rightarrow> s
      | r # rs \<Rightarrow>
          if ok \<and> rr_rest r \<noteq> [] then send_head s
          else send_head ((if ok then resize_done r s else resize_failed r s)\<lparr>ps_queue := rs\<rparr>))"

definition retry_fires :: "term_size option \<Rightarrow> pane_size \<Rightarrow> pane_size" where
  "retry_fires measured s =
     (case ps_retryTimer s of
        None \<Rightarrow> s
      | Some redraw \<Rightarrow> reportSize True (redraw \<or> ps_recovery s) measured (s\<lparr>ps_retryTimer := None\<rparr>))"

definition mount_size :: "pane_size \<Rightarrow> pane_size" where
  "mount_size s = s\<lparr>ps_mounted := True, ps_mount := ps_mount s + 1, ps_reported := None, ps_requested := None,
     ps_revision := ps_revision s + 1, ps_retryAttempt := 0, ps_retryTimer := None, ps_recovery := False\<rparr>"

definition unmount_size :: "pane_size \<Rightarrow> pane_size" where
  "unmount_size s = s\<lparr>ps_mounted := False, ps_reported := None, ps_requested := None, ps_revision := ps_revision s + 1,
     ps_retryTimer := None, ps_recovery := False\<rparr>"

text \<open>Another tab is shown: in the next frame the size is reported, with a redraw when one is due.\<close>

definition activated :: "term_size option \<Rightarrow> pane_size \<Rightarrow> pane_size" where
  "activated measured s = reportSize (ps_recovery s) (ps_recovery s) measured s"

inductive size_step :: "pane_size \<Rightarrow> pane_size \<Rightarrow> bool" where
  report: "size_step s (reportSize force redraw measured s)"
| answer: "ps_queue s \<noteq> [] \<Longrightarrow> size_step s (resize_answered ok s)"
| retry: "size_step s (retry_fires measured s)"
| activate: "size_step s (activated measured s)"
| mount: "\<not> ps_mounted s \<Longrightarrow> size_step s (mount_size s)"
| unmount: "size_step s (unmount_size s)"
| shown: "size_step s (s\<lparr>ps_active := a, ps_whenVisible := v, ps_recovery := r\<rparr>)"

section \<open>The invariant\<close>

definition request_ok :: "resize_request \<Rightarrow> bool" where
  "request_ok r \<longleftrightarrow> rr_rest r \<noteq> [] \<and> last (rr_rest r) = rr_size r"

definition head_ok :: "(nat \<times> term_size) list \<Rightarrow> resize_request \<Rightarrow> bool" where
  "head_ok sent r \<longleftrightarrow> sent \<noteq> []
     \<and> (if rr_rest r = [] then last sent = (rr_mount r, rr_size r) else last (rr_rest r) = rr_size r)"

definition size_inv :: "pane_size \<Rightarrow> bool" where
  "size_inv s \<longleftrightarrow>
     ps_retryAttempt s \<le> 5
     \<and> sorted_wrt (\<lambda>q r. rr_revision q < rr_revision r) (ps_queue s)
     \<and> (\<forall>r \<in> set (ps_queue s). rr_revision r \<le> ps_revision s)
     \<and> (case ps_queue s of [] \<Rightarrow> True | r # rs \<Rightarrow> head_ok (ps_sent s) r \<and> list_all request_ok rs)
     \<and> (ps_reported s \<noteq> None \<longrightarrow> ps_mounted s)
     \<and> (case ps_reported s of None \<Rightarrow> True
        | Some z \<Rightarrow> if ps_queue s = [] then ps_sent s \<noteq> [] \<and> last (ps_sent s) = (ps_mount s, z)
                   else rr_revision (last (ps_queue s)) = ps_revision s \<and> rr_mount (last (ps_queue s)) = ps_mount s)"

lemma request_last:
  assumes "sorted_wrt (\<lambda>q r. rr_revision q < rr_revision r) (r # rs)" "\<forall>q \<in> set (r # rs). rr_revision q \<le> n" "rr_revision r = n"
  shows "rs = []"
  using assms by (cases rs) auto

lemma inv_enqueue_resize:
  assumes "size_inv s" "request_ok r" "rr_revision r = Suc (ps_revision s)" "rr_mount r = ps_mount s"
  shows "size_inv (enqueueResize r (s\<lparr>ps_retryTimer := t, ps_revision := Suc (ps_revision s), ps_requested := z\<rparr>))"
proof (cases "ps_queue s")
  case Nil
  obtain y ys where "rr_rest r = y # ys" using assms(2) by (cases "rr_rest r") (auto simp: request_ok_def)
  then show ?thesis using assms Nil
    by (auto simp: size_inv_def enqueueResize_def send_head_def head_ok_def request_ok_def split: option.splits)
next
  case (Cons q qs)
  have "sorted_wrt (\<lambda>q r. rr_revision q < rr_revision r) ((q # qs) @ [r])"
    using assms(1,3) Cons unfolding sorted_wrt_append size_inv_def by (auto simp: less_Suc_eq_le)
  then show ?thesis using assms Cons by (auto simp: size_inv_def enqueueResize_def split: option.splits)
qed

lemma inv_report: "size_inv s \<Longrightarrow> size_inv (reportSize force redraw measured s)"
  by (simp add: reportSize_def Let_def inv_enqueue_resize request_ok_def split: option.split)

lemma inv_other [simp]:
  "size_inv (s\<lparr>ps_retryTimer := t\<rparr>) = size_inv s"
  "size_inv (s\<lparr>ps_active := a, ps_whenVisible := v, ps_recovery := b\<rparr>) = size_inv s"
  by (simp_all add: size_inv_def cong: list.case_cong option.case_cong)

lemma newest_alone:
  assumes "size_inv s" "ps_queue s = r # rs" "current_request r s"
  shows "rs = []"
proof (rule request_last)
  show "sorted_wrt (\<lambda>q r. rr_revision q < rr_revision r) (r # rs)" "\<forall>q \<in> set (r # rs). rr_revision q \<le> ps_revision s"
    using assms(1) unfolding size_inv_def assms(2) by blast+
  show "rr_revision r = ps_revision s" using assms(3) by (simp add: current_request_def)
qed

lemma believed_current:
  assumes "size_inv s" "ps_queue s = [r]" "ps_reported s = Some z"
  shows "current_request r s"
  using assms by (auto simp: size_inv_def current_request_def)

text \<open>The first request has ended without an effect; the next one starts.\<close>

lemma inv_next:
  assumes inv: "size_inv s" and q: "ps_queue s = r # q # qs"
  shows "size_inv (send_head (s\<lparr>ps_queue := q # qs\<rparr>))"
proof -
  have "request_ok q" using inv q by (simp add: size_inv_def)
  then obtain y ys where y: "rr_rest q = y # ys" "last (y # ys) = rr_size q" by (cases "rr_rest q") (auto simp: request_ok_def)
  then show ?thesis using inv q
    by (auto simp: size_inv_def send_head_def head_ok_def split: option.splits)
qed

lemma inv_answered:
  assumes inv: "size_inv s" and some: "ps_queue s \<noteq> []"
  shows "size_inv (resize_answered ok s)"
proof -
  obtain r rs where q: "ps_queue s = r # rs" using some by (cases "ps_queue s") auto
  show ?thesis
  proof (cases "ok \<and> rr_rest r \<noteq> []")
    case True
    then obtain y ys where "rr_rest r = y # ys" by (cases "rr_rest r") auto
    then show ?thesis using inv q True
      by (auto simp: resize_answered_def size_inv_def send_head_def head_ok_def split: option.splits)
  next
    case ended: False
    show ?thesis
    proof (cases "current_request r s")
      case False
      then have a: "resize_answered ok s = send_head (s\<lparr>ps_queue := rs\<rparr>)"
        using q ended by (auto simp: resize_answered_def resize_done_def resize_failed_def)
      show ?thesis
      proof (cases rs)
        case Nil
        then have "ps_reported s = None" using believed_current [OF inv] False q by (cases "ps_reported s") auto
        then show ?thesis unfolding a using Nil inv q by (simp add: size_inv_def send_head_def)
      next
        case (Cons x xs)
        then show ?thesis unfolding a using inv_next [OF inv] q by simp
      qed
    next
      case True
      from newest_alone [OF inv q True] have rs: "rs = []" .
      then show ?thesis using inv q ended True
        by (cases ok) (auto simp: resize_answered_def resize_done_def resize_failed_def size_inv_def send_head_def head_ok_def
            current_request_def terminalResizeRetryMaximumAttempts_def Let_def)
    qed
  qed
qed

lemma inv_size_step: "size_step s s' \<Longrightarrow> size_inv s \<Longrightarrow> size_inv s'"
proof (induction rule: size_step.induct)
  case (retry s measured)
  then show ?case by (simp add: retry_fires_def inv_report split: option.split)
next
  case (mount s)
  then show ?case by (auto simp: size_inv_def mount_size_def split: list.splits)
next
  case (unmount s)
  then show ?case by (auto simp: size_inv_def unmount_size_def split: list.splits)
qed (simp_all add: inv_report inv_answered activated_def)

lemma reachable_size_inv: "size_step\<^sup>*\<^sup>* initial_pane_size s \<Longrightarrow> size_inv s"
proof (induction rule: rtranclp_induct)
  case base
  show ?case by (simp add: size_inv_def initial_pane_size_def)
qed (rule inv_size_step)

text \<open>
  C24. When every size was answered, the size the pane believes to be reported is the last one the back end
  was told, for the terminal that is shown: no older measurement arrives after the newest. A failing
  terminal is tried again at most five times in a row.
\<close>

theorem reported_size_is_last:
  assumes "size_step\<^sup>*\<^sup>* initial_pane_size s" and "ps_queue s = []" and "ps_reported s = Some z"
  shows "last (ps_sent s) = (ps_mount s, z) \<and> ps_sent s \<noteq> [] \<and> ps_mounted s \<and> ps_retryAttempt s \<le> 5"
  using reachable_size_inv [OF assms(1)] assms(2,3) by (auto simp: size_inv_def)

definition example_measured :: term_size where
  "example_measured = \<lparr>sz_cols = 80, sz_rows = 24, sz_widthPx = 800, sz_heightPx = 480\<rparr>"

definition example_reported :: pane_size where
  "example_reported = resize_answered True (reportSize False False (Some example_measured) (mount_size initial_pane_size))"

lemma example_reported_reached: "size_step\<^sup>*\<^sup>* initial_pane_size example_reported"
proof -
  have "size_step initial_pane_size (mount_size initial_pane_size)"
    by (rule size_step.mount) (simp add: initial_pane_size_def)
  then have "size_step\<^sup>*\<^sup>* initial_pane_size (mount_size initial_pane_size)" by (rule r_into_rtranclp)
  then have "size_step\<^sup>*\<^sup>* initial_pane_size (reportSize False False (Some example_measured) (mount_size initial_pane_size))"
    by (rule rtranclp.rtrancl_into_rtrancl) (rule size_step.report)
  moreover have "ps_queue (reportSize False False (Some example_measured) (mount_size initial_pane_size)) \<noteq> []"
    by (simp add: reportSize_def mount_size_def initial_pane_size_def enqueueResize_def send_head_def terminalSizesEqual_def Let_def)
  then have "size_step (reportSize False False (Some example_measured) (mount_size initial_pane_size)) example_reported"
    unfolding example_reported_def by (rule size_step.answer)
  ultimately show ?thesis by (rule rtranclp.rtrancl_into_rtrancl)
qed

theorem reported_size_is_last_witness:
  "last (ps_sent example_reported) = (1, example_measured)"
  using reported_size_is_last [OF example_reported_reached, of example_measured]
  by (simp add: example_reported_def resize_answered_def resize_done_def current_request_def reportSize_def mount_size_def
      initial_pane_size_def enqueueResize_def send_head_def terminalSizesEqual_def Let_def)

end
