(* ===== verification/JsRegex.thy ===== *)
theory JsRegex
  imports JsBase
begin

text \<open>
  The regular expressions the code uses, with the backtracking of ECMA-262: a match is the first of the
  list of ways to match, in the order in which the engine tries them. Captures are numbered by the
  pattern; case is ignored for ASCII letters, as the patterns have no other letters with case.
\<close>

section \<open>Patterns\<close>

datatype rx =
    Eps
  | Unit "code_unit \<Rightarrow> bool"
  | Seq rx rx
  | Alt rx rx
  | Star rx
  | Lazy rx
  | Cap nat rx
  | Look rx
  | AtStart
  | AtEnd
  | WordEdge

type_synonym captures = "(nat \<times> nat \<times> nat) list"

definition word_unit :: "code_unit \<Rightarrow> bool" where
  "word_unit c \<longleftrightarrow> (48 \<le> c \<and> c \<le> 57) \<or> (65 \<le> c \<and> c \<le> 90) \<or> c = 95 \<or> (97 \<le> c \<and> c \<le> 122)"

definition word_at :: "jsstr \<Rightarrow> nat \<Rightarrow> bool" where
  "word_at s i \<longleftrightarrow> i < length s \<and> word_unit (s ! i)"

definition word_edge :: "jsstr \<Rightarrow> nat \<Rightarrow> bool" where
  "word_edge s i \<longleftrightarrow> ((i > 0 \<and> word_at s (i - 1)) \<noteq> word_at s i)"

text \<open>
  Repetition of one step, most often first or least often first. A repetition that matches nothing is
  not tried, so that as many rounds as there are units left are enough.
\<close>

fun greedy :: "(nat \<times> captures \<Rightarrow> (nat \<times> captures) list) \<Rightarrow> nat \<Rightarrow> nat \<times> captures \<Rightarrow> (nat \<times> captures) list" where
  "greedy f 0 p = [p]"
| "greedy f (Suc n) p = concat (map (greedy f n) (filter (\<lambda>q. fst q > fst p) (f p))) @ [p]"

fun lazy :: "(nat \<times> captures \<Rightarrow> (nat \<times> captures) list) \<Rightarrow> nat \<Rightarrow> nat \<times> captures \<Rightarrow> (nat \<times> captures) list" where
  "lazy f 0 p = [p]"
| "lazy f (Suc n) p = p # concat (map (lazy f n) (filter (\<lambda>q. fst q > fst p) (f p)))"

fun ways :: "rx \<Rightarrow> jsstr \<Rightarrow> nat \<times> captures \<Rightarrow> (nat \<times> captures) list" where
  "ways Eps s p = [p]"
| "ways (Unit P) s p = (if fst p < length s \<and> P (s ! fst p) then [(Suc (fst p), snd p)] else [])"
| "ways (Seq a b) s p = concat (map (ways b s) (ways a s p))"
| "ways (Alt a b) s p = ways a s p @ ways b s p"
| "ways (Star a) s p = greedy (ways a s) (length s - fst p) p"
| "ways (Lazy a) s p = lazy (ways a s) (length s - fst p) p"
| "ways (Cap n a) s p = map (\<lambda>q. (fst q, (n, fst p, fst q) # snd q)) (ways a s p)"
| "ways (Look a) s p = (case ways a s p of [] \<Rightarrow> [] | q # _ \<Rightarrow> [(fst p, snd q)])"
| "ways AtStart s p = (if fst p = 0 then [p] else [])"
| "ways AtEnd s p = (if fst p = length s then [p] else [])"
| "ways WordEdge s p = (if word_edge s (fst p) then [p] else [])"

section \<open>Searching\<close>

text \<open>\<^verbatim>\<open>exec\<close> from an index: the leftmost place with a match, its end and its captures.\<close>

record rx_match =
  rm_start :: nat
  rm_end :: nat
  rm_captures :: captures

definition match_at :: "rx \<Rightarrow> jsstr \<Rightarrow> nat \<Rightarrow> rx_match option" where
  "match_at r s i = (case ways r s (i, []) of [] \<Rightarrow> None | q # _ \<Rightarrow> Some \<lparr>rm_start = i, rm_end = fst q, rm_captures = snd q\<rparr>)"

definition rx_exec :: "rx \<Rightarrow> jsstr \<Rightarrow> nat \<Rightarrow> rx_match option" where
  "rx_exec r s i = (case find (\<lambda>k. match_at r s k \<noteq> None) [i..<Suc (length s)] of Some k \<Rightarrow> match_at r s k | None \<Rightarrow> None)"

definition rx_test :: "rx \<Rightarrow> jsstr \<Rightarrow> bool" where
  "rx_test r s \<longleftrightarrow> rx_exec r s 0 \<noteq> None"

definition slice :: "nat \<Rightarrow> nat \<Rightarrow> jsstr \<Rightarrow> jsstr" where
  "slice i j s = take (j - i) (drop i s)"

definition match_text :: "jsstr \<Rightarrow> rx_match \<Rightarrow> jsstr" where
  "match_text s m = slice (rm_start m) (rm_end m) s"

text \<open>The text of a group that took part in the match.\<close>

definition group :: "jsstr \<Rightarrow> rx_match \<Rightarrow> nat \<Rightarrow> jsstr option" where
  "group s m n = map_option (\<lambda>(i, j). slice i j s) (map_of (rm_captures m) n)"

section \<open>Bounds\<close>

lemma greedy_bounds:
  assumes "\<And>p q. fst p \<le> l \<Longrightarrow> q \<in> set (f p) \<Longrightarrow> fst p \<le> fst q \<and> fst q \<le> l"
  shows "fst p \<le> l \<Longrightarrow> q \<in> set (greedy f n p) \<Longrightarrow> fst p \<le> fst q \<and> fst q \<le> l"
proof (induction n arbitrary: p)
  case (Suc n)
  from Suc.prems(2) consider "q = p" | r where "r \<in> set (f p)" "q \<in> set (greedy f n r)" by auto
  then show ?case
  proof cases
    case 2
    then show ?thesis using assms [OF Suc.prems(1) 2(1)] Suc.IH [of r] by auto
  qed (use Suc.prems in simp)
qed auto

lemma lazy_bounds:
  assumes "\<And>p q. fst p \<le> l \<Longrightarrow> q \<in> set (f p) \<Longrightarrow> fst p \<le> fst q \<and> fst q \<le> l"
  shows "fst p \<le> l \<Longrightarrow> q \<in> set (lazy f n p) \<Longrightarrow> fst p \<le> fst q \<and> fst q \<le> l"
proof (induction n arbitrary: p)
  case (Suc n)
  from Suc.prems(2) consider "q = p" | r where "r \<in> set (f p)" "q \<in> set (lazy f n r)" by auto
  then show ?case
  proof cases
    case 2
    then show ?thesis using assms [OF Suc.prems(1) 2(1)] Suc.IH [of r] by auto
  qed (use Suc.prems in simp)
qed auto

lemma ways_bounds: "fst p \<le> length s \<Longrightarrow> q \<in> set (ways r s p) \<Longrightarrow> fst p \<le> fst q \<and> fst q \<le> length s"
proof (induction r arbitrary: p q)
  case (Seq a b)
  from Seq.prems(2) obtain m where m: "m \<in> set (ways a s p)" "q \<in> set (ways b s m)" by auto
  show ?case using Seq.IH(1) [OF Seq.prems(1) m(1)] Seq.IH(2) [OF _ m(2)] by simp
next
  case (Star a)
  show ?case using greedy_bounds [of "length s" "ways a s", OF Star.IH Star.prems(1)] Star.prems(2) by simp
next
  case (Lazy a)
  show ?case using lazy_bounds [of "length s" "ways a s", OF Lazy.IH Lazy.prems(1)] Lazy.prems(2) by simp
next
  case (Alt a b)
  from Alt.prems(2) have "q \<in> set (ways a s p) \<or> q \<in> set (ways b s p)" by simp
  then show ?case using Alt.IH(1) [OF Alt.prems(1), of q] Alt.IH(2) [OF Alt.prems(1), of q] by blast
next
  case (Cap n a)
  from Cap.prems(2) obtain m where "m \<in> set (ways a s p)" "fst q = fst m" by auto
  then show ?case using Cap.IH [OF Cap.prems(1)] by simp
next
  case (Look a)
  from Look.prems(2) have "fst q = fst p" by (cases "ways a s p") simp_all
  then show ?case using Look.prems(1) by simp
qed (simp_all split: if_splits)

text \<open>The least number of units a pattern takes.\<close>

fun least_units :: "rx \<Rightarrow> nat" where
  "least_units (Unit P) = 1"
| "least_units (Seq a b) = least_units a + least_units b"
| "least_units (Alt a b) = min (least_units a) (least_units b)"
| "least_units (Cap n a) = least_units a"
| "least_units _ = 0"

lemma ways_least: "fst p \<le> length s \<Longrightarrow> q \<in> set (ways r s p) \<Longrightarrow> fst p + least_units r \<le> fst q"
proof (induction r arbitrary: p q)
  case (Seq a b)
  from Seq.prems(2) obtain m where m: "m \<in> set (ways a s p)" "q \<in> set (ways b s m)" by auto
  then have "fst m \<le> length s" using ways_bounds [OF Seq.prems(1)] by blast
  then show ?case using Seq.IH(1) [OF Seq.prems(1) m(1)] Seq.IH(2) [OF _ m(2)] by simp
next
  case (Star a)
  then show ?case using ways_bounds [OF Star.prems] by simp
next
  case (Lazy a)
  then show ?case using ways_bounds [OF Lazy.prems] by simp
next
  case (Alt a b)
  from Alt.prems(2) have "q \<in> set (ways a s p) \<or> q \<in> set (ways b s p)" by simp
  then have "fst p + least_units a \<le> fst q \<or> fst p + least_units b \<le> fst q"
    using Alt.IH(1) [OF Alt.prems(1), of q] Alt.IH(2) [OF Alt.prems(1), of q] by blast
  then show ?case by (simp add: min_def) linarith
next
  case (Cap n a)
  from Cap.prems(2) obtain m where "m \<in> set (ways a s p)" "fst q = fst m" by auto
  then show ?case using Cap.IH [OF Cap.prems(1)] by simp
next
  case (Look a)
  from Look.prems(2) have "fst q = fst p" by (cases "ways a s p") simp_all
  then show ?case by simp
qed (simp_all split: if_splits)

lemma match_at_bounds:
  "match_at r s i = Some m \<Longrightarrow> i \<le> length s \<Longrightarrow> rm_start m = i \<and> i + least_units r \<le> rm_end m \<and> rm_end m \<le> length s"
  using ways_least [of "(i, [])" s "hd (ways r s (i, []))" r] ways_bounds [of "(i, [])" s "hd (ways r s (i, []))" r]
  by (cases "ways r s (i, [])") (auto simp: match_at_def)

lemma rx_exec_bounds:
  "rx_exec r s i = Some m \<Longrightarrow> i \<le> rm_start m \<and> rm_start m + least_units r \<le> rm_end m \<and> rm_end m \<le> length s"
proof -
  assume "rx_exec r s i = Some m"
  then obtain k where k: "find (\<lambda>k. match_at r s k \<noteq> None) [i..<Suc (length s)] = Some k" "match_at r s k = Some m"
    by (auto simp: rx_exec_def split: option.splits)
  then have "i \<le> k" "k \<le> length s" using find_Some_set [OF k(1)] by auto
  then show ?thesis using match_at_bounds [OF k(2)] by simp
qed

section \<open>All matches\<close>

text \<open>
  The loop over \<^verbatim>\<open>exec\<close> with a global pattern: after an empty match the search goes on one further.
\<close>

function rx_all_from :: "rx \<Rightarrow> jsstr \<Rightarrow> nat \<Rightarrow> rx_match list" where
  "rx_all_from r s i = (case rx_exec r s i of None \<Rightarrow> []
     | Some m \<Rightarrow> m # rx_all_from r s (if rm_end m = rm_start m then Suc (rm_end m) else rm_end m))"
  by auto
termination
  by (relation "measure (\<lambda>(r, s, i). Suc (length s) - i)") (auto dest: rx_exec_bounds)

declare rx_all_from.simps [simp del]

definition rx_all :: "rx \<Rightarrow> jsstr \<Rightarrow> rx_match list" where
  "rx_all r s = rx_all_from r s 0"

lemma rx_all_from_bounds:
  "m \<in> set (rx_all_from r s i) \<Longrightarrow> i \<le> rm_start m \<and> rm_start m + least_units r \<le> rm_end m \<and> rm_end m \<le> length s"
proof (induction r s i rule: rx_all_from.induct)
  case (1 r s i)
  obtain m' where m': "rx_exec r s i = Some m'" using "1.prems" by (cases "rx_exec r s i") (simp_all add: rx_all_from.simps [of r s i])
  then have "m = m' \<or> m \<in> set (rx_all_from r s (if rm_end m' = rm_start m' then Suc (rm_end m') else rm_end m'))"
    using "1.prems" by (simp add: rx_all_from.simps [of r s i])
  then show ?case using "1.IH" [OF m'] rx_exec_bounds [OF m'] by (auto split: if_splits)
qed

lemmas rx_all_bounds = rx_all_from_bounds [of _ _ _ 0, folded rx_all_def]

text \<open>Matches of a global pattern follow one another without overlap.\<close>

lemma rx_all_from_sorted: "sorted_wrt (\<lambda>m m'. rm_end m \<le> rm_start m') (rx_all_from r s i)"
proof (induction r s i rule: rx_all_from.induct)
  case (1 r s i)
  show ?case
  proof (cases "rx_exec r s i")
    case (Some m)
    have "rm_end m \<le> rm_start m'" if "m' \<in> set (rx_all_from r s (if rm_end m = rm_start m then Suc (rm_end m) else rm_end m))" for m'
      using rx_all_from_bounds [OF that] by (auto split: if_splits)
    then show ?thesis using "1.IH" [OF Some] Some by (simp add: rx_all_from.simps [of r s i])
  qed (simp add: rx_all_from.simps)
qed

text \<open>\<^verbatim>\<open>replace\<close> with a global pattern and a text without references.\<close>

fun replaced_from :: "jsstr \<Rightarrow> (rx_match \<Rightarrow> jsstr) \<Rightarrow> rx_match list \<Rightarrow> nat \<Rightarrow> jsstr" where
  "replaced_from s f [] i = drop i s"
| "replaced_from s f (m # ms) i = slice i (rm_start m) s @ f m @ replaced_from s f ms (rm_end m)"

definition rx_replace_all :: "rx \<Rightarrow> jsstr \<Rightarrow> jsstr \<Rightarrow> jsstr" where
  "rx_replace_all r replacement s = replaced_from s (\<lambda>_. replacement) (rx_all r s) 0"

definition rx_replace_first :: "rx \<Rightarrow> jsstr \<Rightarrow> jsstr \<Rightarrow> jsstr" where
  "rx_replace_first r replacement s =
     (case rx_exec r s 0 of Some m \<Rightarrow> replaced_from s (\<lambda>_. replacement) [m] 0 | None \<Rightarrow> s)"

section \<open>Building patterns\<close>

definition one_of :: "jsstr \<Rightarrow> rx" where "one_of cs = Unit (\<lambda>c. c \<in> set cs)"
definition none_of :: "jsstr \<Rightarrow> rx" where "none_of cs = Unit (\<lambda>c. c \<notin> set cs)"
definition between :: "code_unit \<Rightarrow> code_unit \<Rightarrow> rx" where "between a b = Unit (\<lambda>c. a \<le> c \<and> c \<le> b)"
definition digit_rx :: rx where "digit_rx = between 48 57"
definition word_rx :: rx where "word_rx = Unit word_unit"
definition space_rx :: rx where "space_rx = Unit js_space"
definition nonspace_rx :: rx where "nonspace_rx = Unit (\<lambda>c. \<not> js_space c)"
definition any_rx :: rx where "any_rx = Unit (\<lambda>c. c \<notin> {10, 13, 0x2028, 0x2029})"
definition letter_rx :: rx where "letter_rx = Unit (\<lambda>c. (65 \<le> c \<and> c \<le> 90) \<or> (97 \<le> c \<and> c \<le> 122))"

definition plus :: "rx \<Rightarrow> rx" where "plus r = Seq r (Star r)"
definition opt :: "rx \<Rightarrow> rx" where "opt r = Alt r Eps"

fun rseq :: "rx list \<Rightarrow> rx" where
  "rseq [] = Eps"
| "rseq [r] = r"
| "rseq (r # rs) = Seq r (rseq rs)"

fun ralt :: "rx list \<Rightarrow> rx" where
  "ralt [] = Unit (\<lambda>_. False)"
| "ralt [r] = r"
| "ralt (r # rs) = Alt r (ralt rs)"

definition ascii_upper :: "code_unit \<Rightarrow> code_unit" where
  "ascii_upper c = (if 97 \<le> c \<and> c \<le> 122 then c - 32 else c)"

definition lit :: "jsstr \<Rightarrow> rx" where "lit t = rseq (map (\<lambda>c. Unit (\<lambda>d. d = c)) t)"
definition lit_i :: "jsstr \<Rightarrow> rx" where "lit_i t = rseq (map (\<lambda>c. Unit (\<lambda>d. ascii_upper d = ascii_upper c)) t)"

definition words_i :: "string list \<Rightarrow> rx" where "words_i ws = ralt (map (\<lambda>w. lit_i (js w)) ws)"
definition words :: "string list \<Rightarrow> rx" where "words ws = ralt (map (\<lambda>w. lit (js w)) ws)"

section \<open>Removing matches\<close>

text \<open>Patterns that do not look at what is before them match the same behind another text.\<close>

fun local_rx :: "rx \<Rightarrow> bool" where
  "local_rx Eps = True"
| "local_rx (Unit P) = True"
| "local_rx (Seq a b) = (local_rx a \<and> local_rx b)"
| "local_rx (Alt a b) = (local_rx a \<and> local_rx b)"
| "local_rx (Star a) = local_rx a"
| "local_rx _ = False"

definition later :: "nat \<Rightarrow> nat \<times> captures \<Rightarrow> nat \<times> captures" where
  "later k q = (k + fst q, snd q)"

lemma greedy_later:
  assumes "\<And>p. f' (later k p) = map (later k) (f p)"
  shows "greedy f' n (later k p) = map (later k) (greedy f n p)"
proof (induction n arbitrary: p)
  case (Suc n)
  have less: "fst (later k p) < fst (later k q) \<longleftrightarrow> fst p < fst q" for p q :: "nat \<times> captures" by (simp add: later_def)
  show ?case by (simp add: assms filter_map comp_def less Suc.IH map_concat)
qed simp

lemma ways_later: "local_rx r \<Longrightarrow> ways r (u @ s) (later (length u) p) = map (later (length u)) (ways r s p)"
proof (induction r arbitrary: p)
  case (Unit P)
  then show ?case by (simp add: later_def)
next
  case (Seq a b)
  then show ?case by (simp add: comp_def map_concat)
next
  case (Star a)
  then have "greedy (ways a (u @ s)) n (later (length u) p) = map (later (length u)) (greedy (ways a s) n p)" for n
    by (intro greedy_later) simp
  then show ?case by (simp add: later_def)
qed simp_all

definition later_match :: "nat \<Rightarrow> rx_match \<Rightarrow> rx_match" where
  "later_match k m = m\<lparr>rm_start := k + rm_start m, rm_end := k + rm_end m\<rparr>"

lemma match_later: "local_rx r \<Longrightarrow> match_at r (u @ s) (length u + i) = map_option (later_match (length u)) (match_at r s i)"
  using ways_later [of r u s "(i, [])"] by (simp add: match_at_def later_def later_match_def split: list.split)

lemma find_later: "find P [k + i..<k + n] = map_option (\<lambda>j. k + j) (find (\<lambda>j. P (k + j)) [i..<n])"
proof -
  have "find P (map f xs) = map_option f (find (\<lambda>x. P (f x)) xs)" for f :: "nat \<Rightarrow> nat" and xs
    by (induction xs) simp_all
  moreover have "map (\<lambda>j. k + j) [i..<n] = [k + i..<k + n]" by (rule nth_equalityI) simp_all
  ultimately show ?thesis using \<open>\<And>f xs. find P (map f xs) = map_option f (find (\<lambda>x. P (f x)) xs)\<close> [of "\<lambda>j. k + j" "[i..<n]"] by simp
qed

lemma exec_later: "local_rx r \<Longrightarrow> rx_exec r (u @ s) (length u + i) = map_option (later_match (length u)) (rx_exec r s i)"
  unfolding rx_exec_def
  using find_later [of "\<lambda>k. match_at r (u @ s) k \<noteq> None" "length u" i "Suc (length s)"]
  by (simp add: match_later option.case_eq_if option.map_sel)

lemma all_later: "local_rx r \<Longrightarrow> rx_all_from r (u @ s) (length u + i) = map (later_match (length u)) (rx_all_from r s i)"
proof (induction r s i rule: rx_all_from.induct)
  case (1 r s i)
  show ?case
  proof (cases "rx_exec r s i")
    case None
    then show ?thesis using 1(2) by (simp add: rx_all_from.simps [of r s i] rx_all_from.simps [of r "u @ s"] exec_later)
  next
    case (Some m)
    then show ?thesis using "1.IH" [OF Some 1(2)] exec_later [OF 1(2), of u s i]
      by (auto simp: rx_all_from.simps [of r s i] rx_all_from.simps [of r "u @ s" "length u + i"] later_match_def)
  qed
qed

lemma replaced_later:
  "replaced_from (u @ s) (\<lambda>_. t) (map (later_match (length u)) ms) (length u + i) = replaced_from s (\<lambda>_. t) ms i"
  by (induction ms arbitrary: i) (simp_all add: later_match_def slice_def)

text \<open>Where the pattern does not match, a unit stays; where it matches, the match goes.\<close>

lemma replace_unit:
  assumes "local_rx r" and "match_at r (c # s) 0 = None"
  shows "rx_replace_all r t (c # s) = c # rx_replace_all r t s"
proof -
  have "rx_exec r (c # s) 0 = rx_exec r (c # s) 1"
    using assms(2) by (simp add: rx_exec_def upt_rec [of 0] del: upt_Suc)
  then have "rx_all_from r (c # s) 0 = rx_all_from r (c # s) 1"
    unfolding rx_all_from.simps [of r "c # s" 0] rx_all_from.simps [of r "c # s" 1] by simp
  then have all: "rx_all r (c # s) = map (later_match 1) (rx_all r s)"
    using all_later [OF assms(1), of "[c]" s 0] by (simp add: rx_all_def)
  have "replaced_from (c # s) (\<lambda>_. t) (map (later_match 1) ms) 0 = c # replaced_from s (\<lambda>_. t) ms 0" for ms
  proof (cases ms)
    case (Cons m ms')
    then show ?thesis using replaced_later [of "[c]" s t ms' "rm_end m"] by (simp add: later_match_def slice_def)
  qed simp
  then show ?thesis by (simp add: rx_replace_all_def all)
qed

lemma replace_plain:
  assumes "local_rx r" and "\<And>c s'. c \<in> set u \<Longrightarrow> match_at r (c # s') 0 = None"
  shows "rx_replace_all r t (u @ s) = u @ rx_replace_all r t s"
  using assms(2) by (induction u) (simp_all add: replace_unit [OF assms(1)])

lemma replace_match:
  assumes "local_rx r" and "match_at r (u @ s) 0 = Some m" and "rm_end m = length u" and "u \<noteq> []"
  shows "rx_replace_all r [] (u @ s) = rx_replace_all r [] s"
proof -
  have start: "rm_start m = 0" using match_at_bounds [OF assms(2)] by simp
  have "rx_exec r (u @ s) 0 = Some m" using assms(2) by (simp add: rx_exec_def upt_rec [of 0] del: upt_Suc)
  then have "rx_all_from r (u @ s) 0 = m # rx_all_from r (u @ s) (length u)"
    using start assms(3,4) by (simp add: rx_all_from.simps [of r "u @ s" 0])
  then have "rx_all r (u @ s) = m # map (later_match (length u)) (rx_all r s)"
    using all_later [OF assms(1), of u s 0] by (simp add: rx_all_def)
  then show ?thesis using replaced_later [of u s "[]" "rx_all r s" 0] start assms(3)
    by (simp add: rx_replace_all_def slice_def)
qed

text \<open>The first way of a repetition of units takes all of them.\<close>

lemma star_units:
  "\<exists>qs. ways (Star (Unit P)) s (i, c) = (i + length (takeWhile P (drop i s)), c) # qs"
proof -
  have "\<exists>qs. greedy (ways (Unit P) s) n (i, c) = (i + length (takeWhile P (drop i s)), c) # qs" if "length s - i \<le> n" for n
    using that
  proof (induction n arbitrary: i)
    case (Suc n)
    show ?case
    proof (cases "i < length s \<and> P (s ! i)")
      case True
      then have d: "takeWhile P (drop i s) = s ! i # takeWhile P (drop (Suc i) s)" by (simp add: Cons_nth_drop_Suc [symmetric])
      have "\<exists>qs. greedy (ways (Unit P) s) n (Suc i, c) = (Suc i + length (takeWhile P (drop (Suc i) s)), c) # qs"
        using Suc.prems by (intro Suc.IH) simp
      then obtain qs where qs: "greedy (ways (Unit P) s) n (Suc i, c) = (Suc i + length (takeWhile P (drop (Suc i) s)), c) # qs" ..
      have "greedy (ways (Unit P) s) (Suc n) (i, c) = greedy (ways (Unit P) s) n (Suc i, c) @ [(i, c)]" using True by simp
      then show ?thesis by (simp only: d qs list.size append_Cons) simp
    next
      case False
      have "takeWhile P (drop i s) = []"
      proof (cases "i < length s")
        case True
        then show ?thesis using False by (simp add: Cons_nth_drop_Suc [symmetric])
      qed simp
      then show ?thesis using False by auto
    qed
  qed simp
  then show ?thesis by simp
qed

lemma seq_first:
  assumes "\<exists>qs. ways a s p = q # qs" and "\<exists>qs. ways b s q = w # qs"
  shows "\<exists>qs. ways (Seq a b) s p = w # qs"
  using assms by auto

end
