(* ===== verification/TerminalText.thy ===== *)
theory TerminalText
  imports JsRegex JsNumber PortivaTypes
begin

text \<open>
  The texts a terminal pane reads and writes (\<^verbatim>\<open>src/features/terminal/TerminalPane.tsx\<close>): the commands
  submitted with the input, the command line programs they name, colours and their reports, the matches of
  a search and the rows of the mouse wheel.
\<close>

section \<open>Characters\<close>

text \<open>The characters of a text as its iterator gives them: a surrogate pair is one.\<close>

definition pair_at :: "code_unit \<Rightarrow> code_unit \<Rightarrow> bool" where
  "pair_at c d \<longleftrightarrow> 0xD800 \<le> c \<and> c \<le> 0xDBFF \<and> 0xDC00 \<le> d \<and> d \<le> 0xDFFF"

fun js_chars :: "jsstr \<Rightarrow> jsstr list" where
  "js_chars (c # d # s) = (if pair_at c d then [c, d] # js_chars s else [c] # js_chars (d # s))"
| "js_chars [c] = [[c]]"
| "js_chars [] = []"

section \<open>Submitted commands\<close>

definition paste_start_rx :: rx where "paste_start_rx = lit (27 # js ''[200~'')"
definition paste_end_rx :: rx where "paste_end_rx = lit (27 # js ''[201~'')"

definition csi_rx :: rx where
  "csi_rx = rseq [lit [27, 91], Star (between 48 63), Star (between 32 47), between 64 126]"

definition ss3_rx :: rx where "ss3_rx = rseq [lit [27, 79], any_rx]"

definition last_word_rx :: rx where "last_word_rx = rseq [plus nonspace_rx, Star space_rx, AtEnd]"

text \<open>The input without the marks of a paste and without the sequences of keys.\<close>

definition normalized_input :: "jsstr \<Rightarrow> jsstr" where
  "normalized_input s =
     rx_replace_all ss3_rx [] (rx_replace_all csi_rx [] (rx_replace_all paste_end_rx [] (rx_replace_all paste_start_rx [] s)))"

text \<open>One character of the input: the commands so far, the draft and the character before.\<close>

fun capture_character :: "jsstr \<Rightarrow> jsstr list \<times> jsstr \<times> jsstr \<Rightarrow> jsstr list \<times> jsstr \<times> jsstr" where
  "capture_character ch (commands, draft, previous) =
     (if ch = [10] \<and> previous = [13] then (commands, draft, ch)
      else if ch = [13] \<or> ch = [10] then
        (if js_trim draft \<noteq> [] then commands @ [js_trim draft] else commands, [], ch)
      else if ch = [0x7F] \<or> ch = [8] then (commands, concat (butlast (js_chars draft)), ch)
      else if ch = [3] \<or> ch = [0x15] then (commands, [], ch)
      else if ch = [0x17] then (commands, rx_replace_first last_word_rx [] draft, ch)
      else if ch \<noteq> [] \<and> 32 \<le> hd ch then (commands, draft @ ch, ch)
      else (commands, draft, ch))"

definition captureSubmittedCommands :: "jsstr \<Rightarrow> jsstr \<Rightarrow> jsstr list \<times> jsstr" where
  "captureSubmittedCommands input currentDraft =
     (case fold capture_character (js_chars (normalized_input input)) ([], currentDraft, []) of
        (commands, draft, previous) \<Rightarrow> (commands, draft))"

section \<open>Command line programs\<close>

text \<open>
  \<open>InheritedCli\<close> is what the table of names gives for the names of \<^verbatim>\<open>Object.prototype\<close> in lower case.
\<close>

datatype mainstream_cli = Aider | Claude | Codex | Copilot | Cursor | Gemini | Opencode | Qwen | InheritedCli

definition cliExecutableNames :: "jsstr \<Rightarrow> mainstream_cli option" where
  "cliExecutableNames = map_of (map (\<lambda>(n, c). (js n, c))
     [(''@anthropic-ai/claude-code'', Claude), (''@google/gemini-cli'', Gemini), (''@openai/codex'', Codex),
      (''@qwen-code/qwen-code'', Qwen), (''aider'', Aider), (''aider-chat'', Aider), (''claude'', Claude),
      (''codex'', Codex), (''copilot'', Copilot), (''cursor-agent'', Cursor), (''gemini'', Gemini),
      (''opencode'', Opencode), (''opencode-ai'', Opencode), (''qwen'', Qwen), (''qwen-code'', Qwen),
      (''constructor'', InheritedCli), (''__proto__'', InheritedCli)])"

definition token_rx :: rx where
  "token_rx = ralt [rseq [lit [34], Star (none_of [34]), lit [34]], rseq [lit [39], Star (none_of [39]), lit [39]], plus nonspace_rx]"

definition quote_rx :: rx where
  "quote_rx = ralt [rseq [AtStart, one_of [34, 39]], rseq [one_of [34, 39], AtEnd]]"

definition tokenizeCommand :: "jsstr \<Rightarrow> jsstr list" where
  "tokenizeCommand command = map (\<lambda>m. rx_replace_all quote_rx [] (match_text command m)) (rx_all token_rx command)"

definition script_suffix_rx :: rx where
  "script_suffix_rx = rseq [lit [46], words_i [''cmd'', ''exe'', ''ps1''], AtEnd]"

definition commandName :: "jsstr \<Rightarrow> jsstr" where
  "commandName token =
     rx_replace_first script_suffix_rx [] (js_lower (last (js_split 47 (map (\<lambda>c. if c = 92 then 47 else c) token))))"

definition assignment_rx :: rx where
  "assignment_rx = rseq [AtStart, Alt letter_rx (lit [95]), Star word_rx, lit [61]]"

text \<open>\<^verbatim>\<open>tokens[index] ?? ""\<close>, and the loops that pass over tokens.\<close>

definition token_at :: "jsstr list \<Rightarrow> nat \<Rightarrow> jsstr" where
  "token_at tokens i = (if i < length tokens then tokens ! i else [])"

definition pass_over :: "(jsstr \<Rightarrow> bool) \<Rightarrow> jsstr list \<Rightarrow> nat \<Rightarrow> nat" where
  "pass_over P tokens i = i + length (takeWhile P (drop i tokens))"

definition is_option :: "jsstr \<Rightarrow> bool" where
  "is_option t \<longleftrightarrow> t \<noteq> [] \<and> hd t = 45"

definition is_one_of :: "string list \<Rightarrow> jsstr \<Rightarrow> bool" where
  "is_one_of names t \<longleftrightarrow> t \<in> set (map js names)"

definition after_wrapper :: "jsstr list \<Rightarrow> nat \<Rightarrow> nat" where
  "after_wrapper tokens i =
     (if is_one_of [''sudo'', ''env''] (commandName (token_at tokens i))
      then pass_over (\<lambda>t. is_option t \<or> rx_test assignment_rx t) tokens (i + 1) else i)"

definition after_runner :: "jsstr list \<Rightarrow> nat \<Rightarrow> nat" where
  "after_runner tokens i =
     (let packageRunner = commandName (token_at tokens i)
      in if is_one_of [''bunx'', ''npx'', ''uvx''] packageRunner then pass_over is_option tokens (i + 1)
         else if is_one_of [''pnpm'', ''yarn''] packageRunner \<and> is_one_of [''dlx'', ''exec''] (js_lower (token_at tokens (i + 1)))
         then i + 2
         else if packageRunner = js ''pipx'' \<and> js_lower (token_at tokens (i + 1)) = js ''run'' then i + 2
         else i)"

definition detectMainstreamCliCommand :: "jsstr \<Rightarrow> mainstream_cli option" where
  "detectMainstreamCliCommand command =
     (let tokens = tokenizeCommand (js_trim command);
          i = after_runner tokens (after_wrapper tokens (pass_over (rx_test assignment_rx) tokens 0));
          executable = commandName (token_at tokens i)
      in if is_one_of [''python'', ''python3'', ''py''] executable \<and> js_lower (token_at tokens (i + 1)) = js ''-m''
         then cliExecutableNames (commandName (token_at tokens (i + 2)))
         else (case cliExecutableNames executable of
                 Some c \<Rightarrow> Some c
               | None \<Rightarrow> cliExecutableNames (js_lower (token_at tokens i))))"

definition title_edge :: rx where
  "title_edge = Unit (\<lambda>c. js_space c \<or> c \<in> {124, 45, 0x2014})"

definition title_rx :: "string \<Rightarrow> string \<Rightarrow> rx" where
  "title_rx name rest =
     rseq [Alt AtStart title_edge, lit_i (js name),
       if rest = [] then Eps else opt (rseq [plus space_rx, lit_i (js rest)]), Alt AtEnd title_edge]"

definition cliTitleMatchers :: "(mainstream_cli \<times> rx) list" where
  "cliTitleMatchers =
     [(Claude, title_rx ''claude'' ''code''), (Codex, title_rx ''codex'' []), (Gemini, title_rx ''gemini'' []),
      (Aider, title_rx ''aider'' []), (Opencode, title_rx ''opencode'' []), (Qwen, title_rx ''qwen'' ''code''),
      (Copilot, title_rx ''copilot'' []), (Cursor, title_rx ''cursor'' ''agent'')]"

definition detectMainstreamCliTitle :: "jsstr \<Rightarrow> mainstream_cli option" where
  "detectMainstreamCliTitle title = map_option fst (find (\<lambda>(c, r). rx_test r (js_trim title)) cliTitleMatchers)"

definition shell_title_rx :: rx where
  "shell_title_rx =
     rseq [Alt AtStart (Unit (\<lambda>c. js_space c \<or> c \<in> {92, 47})),
       words_i [''bash'', ''cmd'', ''fish'', ''nu'', ''powershell'', ''pwsh'', ''zsh''], opt (lit_i (js ''.exe'')),
       Alt AtEnd (Unit (\<lambda>c. js_space c \<or> c \<in> {58, 124, 45, 0x2014}))]"

definition isShellTerminalTitle :: "jsstr \<Rightarrow> bool" where
  "isShellTerminalTitle title = rx_test shell_title_rx (js_trim title)"

text \<open>The prompt of the line with the cursor; \<open>line\<close> is that line without trailing blanks.\<close>

definition sensitive_rx :: rx where
  "sensitive_rx =
     rseq [ralt [lit_i (js ''password''), lit_i (js ''passphrase''),
             rseq [lit_i (js ''authentication''), plus space_rx, lit_i (js ''token'')],
             rseq [lit_i (js ''one''), one_of [45, 32], lit_i (js ''time''), plus space_rx, words_i [''code'', ''password'']],
             lit_i (js ''otp''), lit [0x5BC6, 0x7801], lit [0x53E3, 0x4EE4], lit [0x9A8C, 0x8BC1, 0x7801]],
       Star space_rx, opt (rseq [lit_i (js ''for''), plus space_rx, plus nonspace_rx]),
       Star space_rx, opt (one_of [58, 0xFF1A]), Star space_rx, AtEnd]"

definition isSensitiveTerminalPrompt :: "jsstr \<Rightarrow> bool" where
  "isSensitiveTerminalPrompt line = rx_test sensitive_rx (js_trim line)"

section \<open>Colours\<close>

definition hex_digits_value :: "jsstr \<Rightarrow> nat" where
  "hex_digits_value s = the (radix_value 16 0 s)"

definition hex_colour_rx :: rx where
  "hex_colour_rx =
     (let h = Unit (\<lambda>c. radix_digit 16 c \<noteq> None)
      in rseq [AtStart, lit [35], Cap 1 (rseq [h, h, h, h, h, h]), AtEnd])"

definition channels_rx :: "rx list" where
  "channels_rx =
     [Star space_rx, Cap 1 (plus digit_rx), Star space_rx, lit [44], Star space_rx, Cap 2 (plus digit_rx),
      Star space_rx, lit [44], Star space_rx, Cap 3 (plus digit_rx)]"

definition rgb_rx :: rx where
  "rgb_rx = rseq ([AtStart, lit_i (js ''rgb''), opt (lit_i (js ''a'')), lit [40]] @ channels_rx)"

text \<open>
  The channels are numbers of any size; a number that a double would round is far beyond 255, where all
  uses treat numbers alike.
\<close>

type_synonym rgb_colour = "nat \<times> nat \<times> nat"

definition group_text :: "jsstr \<Rightarrow> rx_match \<Rightarrow> nat \<Rightarrow> jsstr" where
  "group_text s m n = (case group s m n of Some t \<Rightarrow> t | None \<Rightarrow> [])"

definition parseTerminalColor :: "jsstr \<Rightarrow> rgb_colour option" where
  "parseTerminalColor colour =
     (case rx_exec hex_colour_rx colour 0 of
        Some m \<Rightarrow> (let h = group_text colour m 1
                   in Some (hex_digits_value (slice 0 2 h), hex_digits_value (slice 2 4 h), hex_digits_value (slice 4 6 h)))
      | None \<Rightarrow>
          map_option (\<lambda>m. (digits_value (group_text colour m 1), digits_value (group_text colour m 2),
              digits_value (group_text colour m 3))) (rx_exec rgb_rx colour 0))"

text \<open>The sum of doubles.\<close>

fun num_add :: "jsnum \<Rightarrow> jsnum \<Rightarrow> jsnum" where
  "num_add (Fin a) (Fin b) = double_of (a + b)"
| "num_add NaN y = NaN"
| "num_add x NaN = NaN"
| "num_add PosInf NegInf = NaN"
| "num_add NegInf PosInf = NaN"
| "num_add PosInf y = PosInf"
| "num_add NegInf y = NegInf"
| "num_add x y = y"

definition decimal :: "nat \<Rightarrow> jsnum" where
  "decimal thousandths = double_of (of_nat thousandths / 1000)"

definition isDarkColor :: "jsstr \<Rightarrow> bool" where
  "isDarkColor colour =
     (let (red, green, blue) = (case parseTerminalColor colour of Some c \<Rightarrow> c | None \<Rightarrow> (0, 0, 0));
          part = (\<lambda>v w. num_mul (double_of (of_nat v)) (decimal w))
      in num_less (num_add (num_add (part red 299) (part green 587)) (part blue 114)) (Fin 150))"

definition hex_unit :: "nat \<Rightarrow> code_unit" where
  "hex_unit n = (if n < 10 then of_nat (48 + n) else of_nat (87 + n))"

text \<open>\<^verbatim>\<open>toString(16).padStart(2, "0")\<close> of a number up to 255.\<close>

definition hex_byte :: "nat \<Rightarrow> jsstr" where
  "hex_byte n = [hex_unit (n div 16), hex_unit (n mod 16)]"

definition formatOscRgb :: "rgb_colour \<Rightarrow> jsstr" where
  "formatOscRgb colour =
     (case colour of (r, g, b) \<Rightarrow>
        js ''rgb:'' @ js_join [47] (map (\<lambda>c. hex_byte (min 255 c) @ hex_byte (min 255 c)) [r, g, b]))"

record search_selection =
  sel_background :: jsstr
  sel_foreground :: jsstr
  sel_inactive :: jsstr

definition createSearchSelectionTheme :: "palette \<Rightarrow> search_selection" where
  "createSearchSelectionTheme theme =
     (let dark = isDarkColor (pal_background theme)
      in \<lparr>sel_background = if dark then pal_brightYellow theme else pal_cursor theme,
          sel_foreground = js (if dark then ''#142027'' else ''#FFFFFF''),
          sel_inactive = if dark then pal_yellow theme else pal_cyan theme\<rparr>)"

definition rgba_rx :: rx where
  "rgba_rx = rseq ([AtStart, lit_i (js ''rgba''), lit [40]] @ channels_rx
     @ [Star space_rx, lit [44], Star space_rx, plus (Alt digit_rx (lit [46])), Star space_rx, lit [41], AtEnd])"

definition resolveXtermCanvasBackground :: "jsstr \<Rightarrow> jsstr" where
  "resolveXtermCanvasBackground background =
     (case rx_exec rgba_rx background 0 of
        None \<Rightarrow> background
      | Some m \<Rightarrow> js ''rgba('' @ group_text background m 1 @ js '', '' @ group_text background m 2
          @ js '', '' @ group_text background m 3 @ js '', 0.01)'')"

text \<open>The theme of the emulator: the palette with its background and the colours of the selection.\<close>

record xterm_theme =
  xt_palette :: palette
  xt_selectionForeground :: "jsstr option"
  xt_selectionInactiveBackground :: jsstr

definition createXtermTheme :: "palette \<Rightarrow> bool \<Rightarrow> xterm_theme" where
  "createXtermTheme theme emphasizeSelection =
     (let selection = (if emphasizeSelection then Some (createSearchSelectionTheme theme) else None)
      in \<lparr>xt_palette = theme\<lparr>pal_background := resolveXtermCanvasBackground (pal_background theme),
            pal_selectionBackground := (case selection of Some s \<Rightarrow> sel_background s | None \<Rightarrow> pal_selectionBackground theme)\<rparr>,
          xt_selectionForeground = map_option sel_foreground selection,
          xt_selectionInactiveBackground = (case selection of Some s \<Rightarrow> sel_inactive s | None \<Rightarrow> pal_selectionBackground theme)\<rparr>)"

section \<open>The mouse wheel\<close>

datatype delta_mode = DeltaPixel | DeltaLine | DeltaPage

text \<open>A double of the arithmetic of the wheel, whose numbers stay far from the limits of doubles.\<close>

definition dbl :: "rat \<Rightarrow> rat" where
  "dbl x = (case double_of x of Fin v \<Rightarrow> v | _ \<Rightarrow> 0)"

definition whole_part :: "rat \<Rightarrow> rat" where
  "whole_part x = (if x < 0 then - of_int \<lfloor>- x\<rfloor> else of_int \<lfloor>x\<rfloor>)"

text \<open>The rows to scroll, and the rest that is kept for the next event.\<close>

definition consumeAlternateBufferWheel ::
    "rat \<Rightarrow> bool \<Rightarrow> delta_mode \<Rightarrow> int \<Rightarrow> int \<Rightarrow> rat \<Rightarrow> rat \<times> rat" where
  "consumeAlternateBufferWheel deltaY shiftKey deltaMode terminalRows terminalHeight partialRows =
     (if deltaY = 0 \<or> shiftKey then (0, partialRows)
      else (case deltaMode of
          DeltaPixel \<Rightarrow>
            (let cellHeight = max (dbl (of_int terminalHeight / of_int (max terminalRows 1))) 1;
                 amount = dbl (deltaY / cellHeight);
                 amount = (if \<bar>deltaY\<bar> < 50 then dbl (amount * dbl (3 / 10)) else amount);
                 partialRows = dbl (partialRows + amount)
             in (whole_part partialRows, partialRows - whole_part partialRows))
        | DeltaPage \<Rightarrow> (dbl (deltaY * of_int (max terminalRows 1)), partialRows)
        | DeltaLine \<Rightarrow> (deltaY, partialRows)))"

definition alternateBufferArrowSequence :: "bool \<Rightarrow> rat \<Rightarrow> jsstr" where
  "alternateBufferArrowSequence applicationCursorKeys dir =
     27 # (if applicationCursorKeys then 79 else 91) # [if dir < 0 then 65 else 66]"

definition alternateBufferWheelScrollSpeed :: nat where "alternateBufferWheelScrollSpeed = 3"

section \<open>Searching\<close>

definition wordSeparators :: jsstr where
  "wordSeparators = js '' ~!@#$%^&*()+`-=[]{}|'' @ [92] @ js '';:'' @ [34, 39] @ js '',./<>?'' @ [13, 10, 9]"

definition isWholeWordMatch :: "jsstr \<Rightarrow> nat \<Rightarrow> nat \<Rightarrow> bool" where
  "isWholeWordMatch source i termLength \<longleftrightarrow>
     (i = 0 \<or> source ! (i - 1) \<in> set wordSeparators)
     \<and> (i + termLength \<ge> length source \<or> source ! (i + termLength) \<in> set wordSeparators)"

text \<open>\<^verbatim>\<open>indexOf(needle, i)\<close>\<close>

definition index_of_from :: "jsstr \<Rightarrow> jsstr \<Rightarrow> nat \<Rightarrow> nat option" where
  "index_of_from s p i = find (\<lambda>k. prefix p (drop k s)) [i..<Suc (length s)]"

lemma index_of_from_bounds: "index_of_from s p i = Some k \<Longrightarrow> i \<le> k \<and> k + length p \<le> length s"
proof -
  assume "index_of_from s p i = Some k"
  from find_Some_set [OF this [unfolded index_of_from_def]]
  have k: "k \<in> set [i..<Suc (length s)]" "prefix p (drop k s)" by blast+
  have "i \<le> k" "k \<le> length s" using k(1) unfolding set_upt by simp_all
  then show ?thesis using prefix_length_le [OF k(2)] by simp
qed

function count_matches :: "jsstr \<Rightarrow> jsstr \<Rightarrow> bool \<Rightarrow> nat \<Rightarrow> nat" where
  "count_matches haystack needle wholeWord i =
     (if needle = [] \<or> i + length needle > length haystack then 0
      else (case index_of_from haystack needle i of
              None \<Rightarrow> 0
            | Some k \<Rightarrow> (if \<not> wholeWord \<or> isWholeWordMatch haystack k (length needle) then 1 else 0)
                + count_matches haystack needle wholeWord (k + length needle)))"
  by auto
termination
proof (relation "measure (\<lambda>(h, n, w, i). Suc (length h) - i)", goal_cases)
  case (2 haystack needle wholeWord i k)
  then show ?case using index_of_from_bounds [of haystack needle i k] by (cases needle) auto
qed simp

declare count_matches.simps [simp del]

definition countSearchMatches :: "jsstr \<Rightarrow> jsstr \<Rightarrow> bool \<Rightarrow> bool \<Rightarrow> nat" where
  "countSearchMatches source needle caseSensitive wholeWord =
     (if source = [] \<or> needle = [] then 0
      else count_matches (if caseSensitive then source else js_lower source) (if caseSensitive then needle else js_lower needle) wholeWord 0)"

section \<open>Lemmas\<close>

lemma concat_js_chars: "concat (js_chars s) = s"
  by (induction s rule: js_chars.induct) auto

lemma js_chars_append:
  assumes "s = [] \<or> t = [] \<or> \<not> pair_at (last s) (hd t)"
  shows "js_chars (s @ t) = js_chars s @ js_chars t"
  using assms
proof (induction s rule: js_chars.induct)
  case (1 c d s)
  then show ?case by (cases s) auto
next
  case (2 c)
  then show ?case by (cases t) auto
qed auto

lemma js_chars_units: "ch \<in> set (js_chars s) \<Longrightarrow> set ch \<subseteq> set s \<and> ch \<noteq> []"
  by (induction s rule: js_chars.induct) (auto split: if_splits)

text \<open>A pattern that begins with a unit that does not occur matches nowhere.\<close>

lemma rx_all_none:
  assumes "\<And>i. i \<le> length s \<Longrightarrow> ways r s (i, []) = []"
  shows "rx_all r s = []"
proof -
  have "match_at r s k = None" if "k \<in> set [0..<Suc (length s)]" for k
  proof -
    have "k \<le> length s" using that unfolding set_upt by simp
    then show ?thesis using assms by (simp add: match_at_def)
  qed
  then have "find (\<lambda>k. match_at r s k \<noteq> None) [0..<Suc (length s)] = None"
    unfolding find_None_iff by (metis (no_types))
  then have "rx_exec r s 0 = None" by (simp add: rx_exec_def)
  then show ?thesis by (simp add: rx_all_def rx_all_from.simps [of r s 0])
qed

lemma rx_replace_all_none: "rx_all r s = [] \<Longrightarrow> rx_replace_all r t s = s"
  by (simp add: rx_replace_all_def)

lemma escape_absent:
  assumes "27 \<notin> set s"
  shows "ways (Seq (Unit (\<lambda>d. d = 27)) r) s (i, []) = []"
proof -
  have "\<not> (i < length s \<and> s ! i = 27)" using assms by (auto simp: in_set_conv_nth)
  then have "ways (Unit (\<lambda>d. d = 27)) s (i, []) = []" by auto
  then show ?thesis by simp
qed

lemma normalized_plain:
  assumes "27 \<notin> set s"
  shows "normalized_input s = s"
proof -
  have "rx_all paste_start_rx s = []" "rx_all paste_end_rx s = []"
    by (rule rx_all_none, simp only: paste_start_rx_def paste_end_rx_def lit_def js_def list.map rseq.simps escape_absent [OF assms])+
  moreover have "ways (Seq (Seq (Unit (\<lambda>d. d = 27)) q) r) s (i, []) = []" for q r i
    using escape_absent [OF assms, of q i] by simp
  then have "rx_all csi_rx s = []" "rx_all ss3_rx s = []"
    by (rule_tac [!] rx_all_none) (simp_all only: csi_rx_def ss3_rx_def lit_def list.map rseq.simps)
  ultimately show ?thesis by (simp add: normalized_input_def rx_replace_all_none)
qed

section \<open>Keys in the input\<close>

text \<open>
  What the emulator sends: texts, control sequences with parameters, intermediate units and a final one, as of the arrow
  keys and the marks of a paste, and the sequences of the keypad.
\<close>

datatype key_input =
    Typed jsstr
  | ControlSequence jsstr jsstr code_unit
  | KeypadKey code_unit

fun key_units :: "key_input \<Rightarrow> jsstr" where
  "key_units (Typed t) = t"
| "key_units (ControlSequence params mid c) = 27 # 91 # params @ mid @ [c]"
| "key_units (KeypadKey c) = [27, 79, c]"

fun key_text :: "key_input \<Rightarrow> jsstr" where
  "key_text (Typed t) = t"
| "key_text _ = []"

fun key_valid :: "key_input \<Rightarrow> bool" where
  "key_valid (Typed t) = (27 \<notin> set t)"
| "key_valid (ControlSequence params mid c) =
     (list_all (\<lambda>d. 48 \<le> d \<and> d \<le> 63) params \<and> list_all (\<lambda>d. 32 \<le> d \<and> d \<le> 47) mid \<and> 64 \<le> c \<and> c \<le> 126)"
| "key_valid (KeypadKey c) = (c \<notin> {10, 13, 27, 0x2028, 0x2029})"

definition keys_units :: "key_input list \<Rightarrow> jsstr" where "keys_units ks = concat (map key_units ks)"
definition keys_text :: "key_input list \<Rightarrow> jsstr" where "keys_text ks = concat (map key_text ks)"

lemma keys_simps [simp]: "keys_units [] = []" "keys_units (k # ks) = key_units k @ keys_units ks"
  "keys_text [] = []" "keys_text (k # ks) = key_text k @ keys_text ks"
  "keys_units (ks @ ls) = keys_units ks @ keys_units ls" "keys_text (ks @ ls) = keys_text ks @ keys_text ls"
  by (simp_all add: keys_units_def keys_text_def)

lemma escape_first:
  assumes "r = Seq (Unit (\<lambda>d. d = 27)) q \<or> r = Seq (Seq (Unit (\<lambda>d. d = 27)) q') q" and "c \<noteq> 27"
  shows "match_at r (c # s) 0 = None"
  using assms by (auto simp: match_at_def)

lemma paste_rx: "paste_start_rx = lit [27, 91, 50, 48, 48, 126]" "paste_end_rx = lit [27, 91, 50, 48, 49, 126]"
  by (simp_all add: paste_start_rx_def paste_end_rx_def js_def)

lemma rx_local: "local_rx paste_start_rx" "local_rx paste_end_rx" "local_rx csi_rx" "local_rx ss3_rx"
  by (simp_all add: paste_rx csi_rx_def ss3_rx_def lit_def between_def any_rx_def)

lemma not_escape:
  assumes "c \<noteq> 27"
  shows "match_at paste_start_rx (c # s) 0 = None" "match_at paste_end_rx (c # s) 0 = None"
    "match_at csi_rx (c # s) 0 = None" "match_at ss3_rx (c # s) 0 = None"
  using assms by (auto intro!: escape_first simp: paste_rx csi_rx_def ss3_rx_def lit_def)

lemma plain_stays:
  assumes "27 \<notin> set t"
  shows "rx_replace_all paste_start_rx [] (t @ s) = t @ rx_replace_all paste_start_rx [] s"
    "rx_replace_all paste_end_rx [] (t @ s) = t @ rx_replace_all paste_end_rx [] s"
    "rx_replace_all csi_rx [] (t @ s) = t @ rx_replace_all csi_rx [] s"
    "rx_replace_all ss3_rx [] (t @ s) = t @ rx_replace_all ss3_rx [] s"
  using assms by (auto intro!: replace_plain rx_local not_escape)

text \<open>The second unit of a sequence decides which pattern may match.\<close>

lemma second_unit:
  "c \<noteq> 91 \<Longrightarrow> match_at paste_start_rx (27 # c # s) 0 = None" "c \<noteq> 91 \<Longrightarrow> match_at paste_end_rx (27 # c # s) 0 = None"
  "c \<noteq> 91 \<Longrightarrow> match_at csi_rx (27 # c # s) 0 = None" "c \<noteq> 79 \<Longrightarrow> match_at ss3_rx (27 # c # s) 0 = None"
  by (auto simp: match_at_def paste_rx csi_rx_def ss3_rx_def lit_def)

lemma keypad_stays:
  assumes "c \<notin> {10, 13, 27, 0x2028, 0x2029}"
  shows "rx_replace_all paste_start_rx [] (27 # 79 # c # s) = 27 # 79 # c # rx_replace_all paste_start_rx [] s"
    "rx_replace_all paste_end_rx [] (27 # 79 # c # s) = 27 # 79 # c # rx_replace_all paste_end_rx [] s"
    "rx_replace_all csi_rx [] (27 # 79 # c # s) = 27 # 79 # c # rx_replace_all csi_rx [] s"
  using assms by (simp_all add: replace_unit rx_local second_unit not_escape)

lemma keypad_goes:
  assumes "c \<notin> {10, 13, 27, 0x2028, 0x2029}"
  shows "rx_replace_all ss3_rx [] (27 # 79 # c # s) = rx_replace_all ss3_rx [] s"
proof -
  have m: "match_at ss3_rx ([27, 79, c] @ s) 0 = Some \<lparr>rm_start = 0, rm_end = 3, rm_captures = []\<rparr>"
    using assms by (simp add: match_at_def ss3_rx_def lit_def any_rx_def)
  show ?thesis using replace_match [OF rx_local(4) m] by simp
qed

lemma csi_matches:
  assumes "list_all (\<lambda>d. 48 \<le> d \<and> d \<le> 63) params" and "list_all (\<lambda>d. 32 \<le> d \<and> d \<le> 47) mid" and "64 \<le> c" and "c \<le> 126"
  shows "match_at csi_rx (27 # 91 # params @ mid @ c # s) 0
    = Some \<lparr>rm_start = 0, rm_end = 3 + length params + length mid, rm_captures = []\<rparr>"
proof -
  let ?s = "27 # 91 # params @ mid @ c # s" and ?P = "\<lambda>d :: code_unit. 48 \<le> d \<and> d \<le> 63" and ?I = "\<lambda>d :: code_unit. 32 \<le> d \<and> d \<le> 47"
  let ?n = "2 + length params" and ?m = "2 + length params + length mid"
  have two: "ways (lit [27, 91]) ?s (0, []) = [(2, [])]" by (simp add: lit_def numeral_2_eq_2)
  have after: "mid @ c # s \<noteq> []" "\<not> ?P (hd (mid @ c # s))" "\<not> ?I (hd (c # s))"
  proof -
    show "mid @ c # s \<noteq> []" by simp
    have c: "\<not> c \<le> 63" "\<not> c \<le> 47" using assms(3) by (auto dest: order_trans)
    have "\<not> 48 \<le> d" if "d \<le> 47" for d :: code_unit using that by (auto dest: order_trans)
    then show "\<not> ?P (hd (mid @ c # s))" using assms(2) c by (cases mid) auto
    show "\<not> ?I (hd (c # s))" using c by simp
  qed
  have tw: "takeWhile Q (u @ v) = u" if "list_all Q u" "v = [] \<or> \<not> Q (hd v)" for Q and u v :: jsstr
    using that by (induction u) (auto simp: takeWhile_eq_Nil_iff)
  have d2: "drop 2 ?s = params @ mid @ c # s" by simp
  have dn: "drop ?n ?s = mid @ c # s" by simp
  have p: "\<exists>qs. ways (Star (between 48 63)) ?s (2, []) = (?n, []) # qs"
    using star_units [of ?P ?s 2 "[]"] tw [OF assms(1), of "mid @ c # s"] after by (simp add: between_def d2)
  have i: "\<exists>qs. ways (Star (between 32 47)) ?s (?n, []) = (?m, []) # qs"
    using star_units [of ?I ?s ?n "[]"] tw [OF assms(2), of "c # s"] after by (simp add: between_def dn)
  have f: "\<exists>qs. ways (between 64 126) ?s (?m, []) = (Suc ?m, []) # qs"
    using assms(3,4) by (simp add: between_def nth_append)
  have "\<exists>qs. ways csi_rx ?s (0, []) = (Suc ?m, []) # qs"
    unfolding csi_rx_def rseq.simps
    by (rule seq_first [OF _ seq_first [OF p seq_first [OF i f]]]) (simp only: two, simp)
  then show ?thesis by (auto simp: match_at_def)
qed

lemma csi_goes:
  assumes "key_valid (ControlSequence params mid c)"
  shows "rx_replace_all csi_rx [] (key_units (ControlSequence params mid c) @ s) = rx_replace_all csi_rx [] s"
  using csi_matches [of params mid c s] assms
  by (intro replace_match [OF rx_local(3), where m = "\<lparr>rm_start = 0, rm_end = 3 + length params + length mid, rm_captures = []\<rparr>"]) simp_all

lemma mark_units: "match_at (lit [27, 91, a, b, d, e]) (27 # 91 # v) 0 \<noteq> None \<Longrightarrow> take 4 v = [a, b, d, e]"
  by (auto simp: match_at_def lit_def take_Suc_conv_app_nth numeral_eq_Suc split: if_splits)

lemma paste_mark:
  assumes "key_valid (ControlSequence params mid c)" and r: "r = lit [27, 91, 50, 48, d, 126]" and d: "48 \<le> d" "d \<le> 63"
  shows "rx_replace_all r [] (key_units (ControlSequence params mid c) @ s)
    = (if params = [50, 48, d] \<and> mid = [] \<and> c = 126 then [] else key_units (ControlSequence params mid c)) @ rx_replace_all r [] s"
proof -
  let ?t = "params @ mid @ [c]" and ?P = "\<lambda>e :: code_unit. 48 \<le> e \<and> e \<le> 63" and ?I = "\<lambda>e :: code_unit. 32 \<le> e \<and> e \<le> 47"
  have local: "local_rx r" by (simp add: r lit_def)
  have not27: "match_at r (e # s') 0 = None" if "e \<noteq> 27" for e s' using that by (auto intro!: escape_first simp: r lit_def)
  have none27: "27 \<notin> set ?t"
  proof -
    have "\<not> 48 \<le> (27 :: code_unit)" "\<not> 32 \<le> (27 :: code_unit)" "\<not> 64 \<le> (27 :: code_unit)" by simp_all
    then show ?thesis using assms(1) by (auto simp: list_all_iff)
  qed
  have c: "\<not> c \<le> 63" "\<not> c \<le> 47" using assms(1) by (auto dest: order_trans)
  have low: "\<not> 48 \<le> e" if "e \<le> 47" for e :: code_unit using that by (auto dest: order_trans)
  show ?thesis
  proof (cases "take 4 (?t @ s) = [50, 48, d, 126]")
    case True
    then have ts: "?t @ s = 50 # 48 # d # 126 # drop 4 (?t @ s)" using append_take_drop_id [of 4 "?t @ s"] by simp
    have "takeWhile ?P (?t @ s) = params"
    proof -
      have "takeWhile ?P (params @ v) = params" if "v = [] \<or> \<not> ?P (hd v)" for v
        using that assms(1) by (induction params) (auto simp: takeWhile_eq_Nil_iff)
      moreover have "\<not> ?P (hd (mid @ c # s))" using assms(1) c low by (cases mid) auto
      ultimately show ?thesis by simp
    qed
    moreover have "takeWhile ?P (50 # 48 # d # 126 # drop 4 (?t @ s)) = [50, 48, d]" using d by simp
    ultimately have p: "params = [50, 48, d]" using ts by metis
    then have "mid @ c # s = 126 # drop 4 (?t @ s)" using ts by simp
    then have m: "mid = [] \<and> c = 126" using assms(1) by (cases mid) auto
    have "match_at r ([27, 91, 50, 48, d, 126] @ s) 0 = Some \<lparr>rm_start = 0, rm_end = 6, rm_captures = []\<rparr>"
      by (simp add: match_at_def r lit_def)
    from replace_match [OF local this] show ?thesis using p m by simp
  next
    case False
    have "match_at r (27 # 91 # ?t @ s) 0 = None"
    proof (rule ccontr)
      assume "\<not> ?thesis"
      then have "take 4 (?t @ s) = [50, 48, d, 126]" unfolding r by (rule mark_units)
      then show False using False by blast
    qed
    then have "rx_replace_all r [] (27 # 91 # ?t @ s) = 27 # rx_replace_all r [] (91 # ?t @ s)" by (rule replace_unit [OF local])
    moreover have "rx_replace_all r [] ((91 # ?t) @ s) = (91 # ?t) @ rx_replace_all r [] s"
      using none27 by (intro replace_plain [OF local] not27) auto
    ultimately show ?thesis using False by auto
  qed
qed

text \<open>The four passes over one key.\<close>

lemma normalized_key:
  assumes "key_valid k"
  shows "\<exists>u v. (\<forall>s. rx_replace_all paste_start_rx [] (key_units k @ s) = u @ rx_replace_all paste_start_rx [] s)
    \<and> (\<forall>s. rx_replace_all paste_end_rx [] (u @ s) = v @ rx_replace_all paste_end_rx [] s)
    \<and> (\<forall>s. rx_replace_all ss3_rx [] (rx_replace_all csi_rx [] (v @ s)) = key_text k @ rx_replace_all ss3_rx [] (rx_replace_all csi_rx [] s))"
proof (cases k)
  case (Typed t)
  then show ?thesis using assms plain_stays by (intro exI [of _ t]) simp
next
  case (KeypadKey c)
  then show ?thesis using assms keypad_stays keypad_goes by (intro exI [of _ "[27, 79, c]"]) simp
next
  case (ControlSequence params mid c)
  let ?k = "key_units (ControlSequence params mid c)"
  have marks: "paste_start_rx = lit [27, 91, 50, 48, 48, 126]" "paste_end_rx = lit [27, 91, 50, 48, 49, 126]" by (rule paste_rx)+
  have v: "key_valid (ControlSequence params mid c)" using assms ControlSequence by simp
  define u where "u = (if params = [50, 48, 48] \<and> mid = [] \<and> c = 126 then [] else ?k)"
  define w where "w = (if u = [] \<or> params = [50, 48, 49] \<and> mid = [] \<and> c = 126 then [] else ?k)"
  have empty: "rx_replace_all r [] ([] @ s) = [] @ rx_replace_all r [] s" for r s by simp
  have "\<forall>s. rx_replace_all paste_start_rx [] (?k @ s) = u @ rx_replace_all paste_start_rx [] s"
    using paste_mark [OF v marks(1)] by (simp add: u_def)
  moreover have "\<forall>s. rx_replace_all paste_end_rx [] (u @ s) = w @ rx_replace_all paste_end_rx [] s"
  proof (cases "u = []")
    case False
    then have "u = ?k" by (auto simp: u_def split: if_splits)
    then show ?thesis using paste_mark [OF v marks(2)] False by (simp add: w_def)
  qed (simp add: w_def)
  moreover have "\<forall>s. rx_replace_all ss3_rx [] (rx_replace_all csi_rx [] (w @ s)) = rx_replace_all ss3_rx [] (rx_replace_all csi_rx [] s)"
    using csi_goes [OF v] by (simp add: w_def)
  ultimately show ?thesis using ControlSequence by (intro exI [of _ u] exI [of _ w]) simp
qed

lemma normalized_keys: "list_all key_valid ks \<Longrightarrow> normalized_input (keys_units ks) = keys_text ks"
proof (induction ks)
  case Nil
  show ?case by (simp add: normalized_plain)
next
  case (Cons k ks)
  then have IH: "normalized_input (keys_units ks) = keys_text ks" and k: "key_valid k" by simp_all
  obtain u v where "\<forall>s. rx_replace_all paste_start_rx [] (key_units k @ s) = u @ rx_replace_all paste_start_rx [] s"
    "\<forall>s. rx_replace_all paste_end_rx [] (u @ s) = v @ rx_replace_all paste_end_rx [] s"
    "\<forall>s. rx_replace_all ss3_rx [] (rx_replace_all csi_rx [] (v @ s)) = key_text k @ rx_replace_all ss3_rx [] (rx_replace_all csi_rx [] s)"
    using normalized_key [OF k] by blast
  then show ?case using IH by (simp add: normalized_input_def)
qed

section \<open>Commands come in pieces\<close>

definition capture_all :: "jsstr list \<Rightarrow> jsstr list \<times> jsstr \<times> jsstr \<Rightarrow> jsstr list \<times> jsstr \<times> jsstr" where
  "capture_all chs st = fold capture_character chs st"

lemma captured_simps [simp]:
  "capture_all [] st = st" "capture_all (ch # chs) st = capture_all chs (capture_character ch st)"
  "capture_all (chs @ chs') st = capture_all chs' (capture_all chs st)"
  by (simp_all add: capture_all_def)

lemma capture_more:
  "capture_all chs (cs, d, p) = (cs @ fst (capture_all chs ([], d, p)), snd (capture_all chs ([], d, p)))"
proof (induction chs arbitrary: cs d p)
  case (Cons ch chs)
  obtain cs' d' p' where c: "capture_character ch ([], d, p) = (cs', d', p')" by (cases "capture_character ch ([], d, p)")
  then have "capture_character ch (cs, d, p) = (cs @ cs', d', p')" by (auto split: if_splits)
  then show ?case using c Cons.IH [of "cs @ cs'" d' p'] Cons.IH [of cs' d' p']
    by (simp del: capture_character.simps)
qed simp

lemma capture_previous:
  assumes "p = [13] \<longrightarrow> d = []"
  shows "fst (capture_all chs (cs, d, p)) = fst (capture_all chs (cs, d, []))
    \<and> fst (snd (capture_all chs (cs, d, p))) = fst (snd (capture_all chs (cs, d, [])))"
proof (cases chs)
  case (Cons ch rest)
  have "capture_character ch (cs, d, p) = capture_character ch (cs, d, [])"
    using assms by (auto simp: js_trim_def trim_end_def)
  then show ?thesis using Cons by (simp del: capture_character.simps)
qed simp

lemma capture_return_empty:
  assumes "p = [13] \<longrightarrow> d = []"
  shows "snd (snd (capture_all chs (cs, d, p))) = [13] \<longrightarrow> fst (snd (capture_all chs (cs, d, p))) = []"
  using assms
proof (induction chs arbitrary: cs d p)
  case (Cons ch chs)
  obtain cs' d' p' where c: "capture_character ch (cs, d, p) = (cs', d', p')" by (cases "capture_character ch (cs, d, p)")
  then have "p' = [13] \<longrightarrow> d' = []" using Cons.prems by (auto split: if_splits)
  then show ?case using Cons.IH c by (simp del: capture_character.simps)
qed simp

lemma captureSubmitted_eq:
  "captureSubmittedCommands s d = (fst (capture_all (js_chars (normalized_input s)) ([], d, [])),
     fst (snd (capture_all (js_chars (normalized_input s)) ([], d, []))))"
  by (simp add: captureSubmittedCommands_def capture_all_def split_beta)

lemma keys_plain: "list_all key_valid ks \<Longrightarrow> 27 \<notin> set (keys_text ks)"
  by (induction ks) (auto elim: key_valid.elims)


section \<open>Commands are lines\<close>

definition line_unit :: "code_unit \<Rightarrow> bool" where
  "line_unit c \<longleftrightarrow> 32 \<le> c \<and> c \<noteq> 0x7F"

lemma trim_units: "set (js_trim s) \<subseteq> set s"
  by (auto simp: js_trim_def trim_end_def dest!: set_dropWhileD)

lemma replace_first_units: "set (rx_replace_first r [] s) \<subseteq> set s"
  by (auto simp: rx_replace_first_def slice_def split: option.splits dest: in_set_takeD in_set_dropD)

lemma butlast_chars_units: "set (concat (butlast (js_chars s))) \<subseteq> set s"
  using js_chars_units in_set_butlastD by fastforce

definition lines_only :: "jsstr list \<times> jsstr \<times> jsstr \<Rightarrow> bool" where
  "lines_only st \<longleftrightarrow> (\<forall>c \<in> set (fst st). c \<noteq> [] \<and> js_trim c = c \<and> list_all line_unit c) \<and> list_all line_unit (fst (snd st))"

lemma capture_lines:
  assumes st: "lines_only (cs, d, p)" and ch: "ch = [c] \<or> ch = [c, e] \<and> pair_at c e"
  shows "lines_only (capture_character ch (cs, d, p))"
proof -
  have d: "list_all line_unit d" using st by (simp add: lines_only_def)
  then have sub: "list_all line_unit s" if "set s \<subseteq> set d" for s using that by (auto simp: list_all_iff)
  have "list_all line_unit ch" if "32 \<le> hd ch" "ch \<noteq> [0x7F]"
  proof -
    have "32 \<le> e \<and> e \<noteq> 0x7F" if "0xDC00 \<le> e"
      using that by (auto intro: order_trans [of 32 "0xDC00" e])
    moreover have "c \<noteq> 0x7F" if "0xD800 \<le> c" using that by auto
    ultimately show ?thesis using ch that by (auto simp: line_unit_def pair_at_def)
  qed
  then show ?thesis using st sub [OF trim_units] sub [OF butlast_chars_units] sub [OF replace_first_units]
    by (auto simp: lines_only_def)
qed

lemma js_chars_shape: "ch \<in> set (js_chars s) \<Longrightarrow> \<exists>c e. ch = [c] \<or> ch = [c, e] \<and> pair_at c e"
  by (induction s rule: js_chars.induct) (auto split: if_splits)

lemma captured_lines:
  assumes "\<forall>ch \<in> set chs. \<exists>c e. ch = [c] \<or> ch = [c, e] \<and> pair_at c e" and "lines_only st"
  shows "lines_only (capture_all chs st)"
  using assms
proof (induction chs arbitrary: st)
  case (Cons ch chs)
  obtain cs d p where st: "st = (cs, d, p)" by (cases st)
  obtain c e where "ch = [c] \<or> ch = [c, e] \<and> pair_at c e" using Cons.prems(1) by auto
  from capture_lines [OF _ this] have "lines_only (capture_character ch st)" using Cons.prems(2) st by blast
  then show ?case using Cons.IH Cons.prems(1) by (simp del: capture_character.simps)
qed simp

text \<open>
  C28. Whatever is typed or pasted, every submitted command is one line without control characters, not
  blank and without blanks at its ends.
\<close>

theorem captureSubmittedCommands_lines:
  assumes "list_all line_unit draft" and "captureSubmittedCommands s draft = (commands, draft')"
  shows "list_all line_unit draft' \<and> (\<forall>c \<in> set commands. c \<noteq> [] \<and> js_trim c = c \<and> list_all line_unit c)"
proof -
  have "lines_only (capture_all (js_chars (normalized_input s)) ([], draft, []))"
    using js_chars_shape assms(1) by (intro captured_lines ballI) (auto simp: lines_only_def)
  then show ?thesis using assms(2) by (auto simp: captureSubmitted_eq lines_only_def)
qed

theorem captureSubmittedCommands_lines_witness:
  "js_trim (js ''ls'') = js ''ls'' \<and> list_all line_unit (js ''ls'')"
  using captureSubmittedCommands_lines [of "[]" "js ''ls'' @ [13]" "[js ''ls'']" "[]"]
  by (simp add: captureSubmittedCommands_def normalized_plain js_def pair_at_def js_trim_def trim_end_def js_space_def)


section \<open>Bounds\<close>

lemma count_matches_bound: "i \<le> length h \<Longrightarrow> count_matches h n w i * length n \<le> length h - i"
proof (induction h n w i rule: count_matches.induct)
  case (1 h n w i)
  show ?case
  proof (cases "n = [] \<or> i + length n > length h")
    case False
    show ?thesis
    proof (cases "index_of_from h n i")
      case (Some k)
      from index_of_from_bounds [OF this] have k: "i \<le> k" "k + length n \<le> length h" by simp_all
      have "count_matches h n w (k + length n) * length n \<le> length h - (k + length n)"
        using "1.IH" [OF False Some k(2)] .
      moreover have "count_matches h n w i \<le> Suc (count_matches h n w (k + length n))"
        using False Some by (simp add: count_matches.simps [of h n w i])
      then have "count_matches h n w i * length n \<le> length n + count_matches h n w (k + length n) * length n"
        using mult_le_mono1 [of "count_matches h n w i" "Suc (count_matches h n w (k + length n))" "length n"] by simp
      ultimately show ?thesis using k by linarith
    qed (use False in \<open>simp add: count_matches.simps [of h n w i]\<close>)
  qed (simp add: count_matches.simps [of h n w i])
qed

lemma whole_part_rest: "\<bar>x - whole_part x\<bar> < 1"
  by (auto simp: whole_part_def abs_less_iff) linarith+

lemma wheel_rest:
  assumes "\<bar>partial\<bar> < 1"
  shows "\<bar>snd (consumeAlternateBufferWheel y shift mode rows height partial)\<bar> < 1"
  using assms by (auto simp: consumeAlternateBufferWheel_def Let_def whole_part_rest split: delta_mode.split)

end
