(* ===== verification/TerminalInput.thy ===== *)
theory TerminalInput
  imports TerminalText Keymap
begin

text \<open>
  What a terminal pane does with the user's input (\<^verbatim>\<open>src/features/terminal/TerminalPane.tsx\<close>,
  \<^verbatim>\<open>terminalClipboard.ts\<close>): keys, data, the wheel, the queries of the program, searching, copying and
  pasting. The emulator is outside: what it is asked (its selection, its buffer, the finds of its search)
  comes as arguments.
\<close>

section \<open>Keys\<close>

record terminal_key = key_event +
  tk_keydown :: bool
  tk_repeat :: bool

definition key_is :: "'a key_event_scheme \<Rightarrow> char \<Rightarrow> bool" where
  "key_is e c \<longleftrightarrow> js_lower (ke_key e) = js [c]"

definition isTerminalCopyShortcut :: "terminal_key \<Rightarrow> bool \<Rightarrow> bool" where
  "isTerminalCopyShortcut event hasSelection =
     (if \<not> tk_keydown event \<or> ke_isComposing event \<or> ke_keyCode event = 229 \<or> ke_altKey event then False
      else if \<not> key_is event CHR ''c'' then False
      else if ke_metaKey event then \<not> ke_ctrlKey event \<and> \<not> ke_shiftKey event
      else ke_ctrlKey event \<and> (ke_shiftKey event \<or> hasSelection))"

definition isTerminalSearchShortcut :: "'a key_event_scheme \<Rightarrow> bool" where
  "isTerminalSearchShortcut event =
     (if \<not> key_is event CHR ''f'' \<or> ke_altKey event then False
      else ke_metaKey event \<or> (ke_ctrlKey event \<and> ke_shiftKey event))"

datatype key_effect = CopySelection | OpenSearch | CloseDisconnected | ReconnectDisconnected

text \<open>Whether the emulator handles the key, and what the pane does.\<close>

definition terminal_key_handler :: "term_status option \<Rightarrow> bool \<Rightarrow> terminal_key \<Rightarrow> bool \<times> key_effect list" where
  "terminal_key_handler status hasSelection event =
     (if ke_isComposing event \<or> ke_keyCode event = 229 then (True, [])
      else if isTerminalCopyShortcut event hasSelection then (False, [CopySelection])
      else if tk_keydown event \<and> isTerminalSearchShortcut event then (False, [OpenSearch])
      else if \<not> tk_keydown event \<or> status \<noteq> Some Closed then (True, [])
      else if tk_repeat event then (False, [])
      else if ke_key event = js ''Enter'' then (False, [CloseDisconnected])
      else if key_is event CHR ''r'' \<and> \<not> ke_altKey event \<and> \<not> ke_ctrlKey event \<and> \<not> ke_metaKey event
      then (False, [ReconnectDisconnected])
      else (False, []))"

section \<open>Data\<close>

record pane_input =
  in_status :: "term_status option"
  in_replaying :: bool
  in_alternate :: bool
  in_activeBuffer :: bool
  in_forceFrame :: bool
  in_draft :: jsstr
  in_cli :: "mainstream_cli option"
  in_alternateCli :: "mainstream_cli option"
  in_wheel :: rat
  in_foreground :: rgb_colour
  in_background :: rgb_colour
  in_commands :: "jsstr list"
  in_queue :: "jsstr list"

text \<open>
  \<open>in_alternate\<close> is the buffer of the emulator, \<open>in_activeBuffer\<close> what the pane saw last,
     \<open>in_forceFrame\<close> the
  frame that reports the size again.
\<close>

definition syncAlternateScreenCli :: "pane_input \<Rightarrow> pane_input" where
  "syncAlternateScreenCli s =
     (let enteredAlternateScreen = (\<not> in_activeBuffer s \<and> in_alternate s)
      in s\<lparr>in_activeBuffer := in_alternate s, in_alternateCli := (if in_alternate s then in_cli s else None),
           in_forceFrame := in_forceFrame s \<or> enteredAlternateScreen\<rparr>)"

definition setActiveMainstreamCli :: "mainstream_cli option \<Rightarrow> pane_input \<Rightarrow> pane_input" where
  "setActiveMainstreamCli cli s = syncAlternateScreenCli (if in_cli s = cli then s else s\<lparr>in_cli := cli\<rparr>)"

definition onTitleChange :: "jsstr \<Rightarrow> pane_input \<Rightarrow> pane_input" where
  "onTitleChange title s =
     (case detectMainstreamCliTitle title of
        Some cli \<Rightarrow> setActiveMainstreamCli (Some cli) s
      | None \<Rightarrow> if in_cli s \<noteq> None \<and> isShellTerminalTitle title then setActiveMainstreamCli None s else s)"

definition command_submitted :: "jsstr \<Rightarrow> pane_input \<Rightarrow> pane_input" where
  "command_submitted command s =
     (let s = (if in_cli s = None
               then (case detectMainstreamCliCommand command of Some c \<Rightarrow> setActiveMainstreamCli (Some c) s | None \<Rightarrow> s)
               else s)
      in s\<lparr>in_commands := in_commands s @ [command]\<rparr>)"

definition enqueueInput :: "jsstr \<Rightarrow> pane_input \<Rightarrow> pane_input" where
  "enqueueInput t s = s\<lparr>in_queue := in_queue s @ [t]\<rparr>"

text \<open>\<open>line\<close> is the line of the screen with the cursor.\<close>

definition onData :: "jsstr \<Rightarrow> jsstr \<Rightarrow> pane_input \<Rightarrow> pane_input" where
  "onData line t s =
     (if in_status s = Some Closed \<or> in_replaying s then s
      else (let s = (if isSensitiveTerminalPrompt line then s\<lparr>in_draft := []\<rparr>
                     else (case captureSubmittedCommands t (in_draft s) of
                             (commands, draft) \<Rightarrow> fold command_submitted commands (s\<lparr>in_draft := draft\<rparr>)))
            in enqueueInput t s))"

text \<open>The reports of the colours, for the queries of OSC 10 and 11.\<close>

definition colour_query :: "string \<Rightarrow> (pane_input \<Rightarrow> rgb_colour) \<Rightarrow> jsstr \<Rightarrow> pane_input \<Rightarrow> jsstr option" where
  "colour_query code colour t s =
     (if js_trim t \<noteq> [63] then None
      else Some ([27, 93] @ js code @ 59 # formatOscRgb (colour s) @ [27, 92]))"

text \<open>
  The wheel: whether the emulator scrolls itself, and the keys it is given instead.
\<close>

definition on_wheel ::
    "bool \<Rightarrow> bool \<Rightarrow> rat \<Rightarrow> bool \<Rightarrow> delta_mode \<Rightarrow> int \<Rightarrow> int \<Rightarrow> pane_input \<Rightarrow> bool \<times> jsstr option \<times> pane_input" where
  "on_wheel mouseTracking applicationCursorKeys deltaY shiftKey mode rows height s =
     (if \<not> in_alternate s \<or> mouseTracking then (True, None, s\<lparr>in_wheel := 0\<rparr>)
      else (case consumeAlternateBufferWheel deltaY shiftKey mode rows height (in_wheel s) of
              (dir, partialRows) \<Rightarrow>
                (let s = s\<lparr>in_wheel := partialRows\<rparr>
                 in if dir = 0 then (False, None, s)
                    else (False, Some (concat (replicate alternateBufferWheelScrollSpeed
                             (alternateBufferArrowSequence applicationCursorKeys dir))), s))))"

section \<open>The order of the input\<close>

text \<open>
  The chain of promises: one text is sent at a time, and the next one when the answer has come, also when
  it is an error.
\<close>

record input_chain =
  ic_sent :: "jsstr list"
  ic_waiting :: "jsstr list"
  ic_sending :: bool

definition chain_add :: "jsstr \<Rightarrow> input_chain \<Rightarrow> input_chain" where
  "chain_add t c =
     (if ic_sending c then c\<lparr>ic_waiting := ic_waiting c @ [t]\<rparr>
      else c\<lparr>ic_sent := ic_sent c @ [t], ic_sending := True\<rparr>)"

definition chain_answered :: "input_chain \<Rightarrow> input_chain" where
  "chain_answered c =
     (case ic_waiting c of
        [] \<Rightarrow> c\<lparr>ic_sending := False\<rparr>
      | t # ts \<Rightarrow> c\<lparr>ic_sent := ic_sent c @ [t], ic_waiting := ts, ic_sending := True\<rparr>)"

inductive chain_run :: "jsstr list \<Rightarrow> input_chain \<Rightarrow> bool" where
  start: "chain_run [] \<lparr>ic_sent = [], ic_waiting = [], ic_sending = False\<rparr>"
| add: "chain_run ts c \<Longrightarrow> chain_run (ts @ [t]) (chain_add t c)"
| answered: "chain_run ts c \<Longrightarrow> ic_sending c \<Longrightarrow> chain_run ts (chain_answered c)"

section \<open>Searching\<close>

datatype search_status = SearchIdle | SearchFound | SearchEmpty | SearchError

record pane_search =
  se_open :: bool
  se_query :: jsstr
  se_caseSensitive :: bool
  se_wholeWord :: bool
  se_status :: search_status
  se_matchIndex :: int

definition initial_search :: pane_search where
  "initial_search = \<lparr>se_open = False, se_query = [], se_caseSensitive = False, se_wholeWord = False,
     se_status = SearchIdle, se_matchIndex = -1\<rparr>"

definition searchMatchCount :: "jsstr \<Rightarrow> pane_search \<Rightarrow> nat" where
  "searchMatchCount buffer s =
     (if \<not> se_open s \<or> js_trim (se_query s) = [] then 0
      else countSearchMatches buffer (js_trim (se_query s)) (se_caseSensitive s) (se_wholeWord s))"

text \<open>\<open>found\<close> is the answer of the search addon: \<open>None\<close> when it throws,
   \<open>Some False\<close> also when there is none.\<close>

definition findNext :: "bool option \<Rightarrow> jsstr \<Rightarrow> bool \<Rightarrow> nat \<Rightarrow> pane_search \<Rightarrow> pane_search" where
  "findNext found query advanceIndex n s =
     (if js_trim query = [] then s\<lparr>se_status := SearchIdle, se_matchIndex := -1\<rparr>
      else (case found of
          None \<Rightarrow> s\<lparr>se_status := SearchError, se_matchIndex := -1\<rparr>
        | Some f \<Rightarrow>
            s\<lparr>se_status := (if f then SearchFound else SearchEmpty),
              se_matchIndex :=
                (if \<not> f \<or> n = 0 then -1
                 else if \<not> advanceIndex \<or> se_matchIndex s < 0 then 0
                 else (se_matchIndex s + 1) mod int n)\<rparr>))"

definition findPrevious :: "bool option \<Rightarrow> jsstr \<Rightarrow> nat \<Rightarrow> pane_search \<Rightarrow> pane_search" where
  "findPrevious found query n s =
     (if js_trim query = [] then s\<lparr>se_status := SearchIdle, se_matchIndex := -1\<rparr>
      else (case found of
          None \<Rightarrow> s\<lparr>se_status := SearchError, se_matchIndex := -1\<rparr>
        | Some f \<Rightarrow>
            s\<lparr>se_status := (if f then SearchFound else SearchEmpty),
              se_matchIndex :=
                (if \<not> f \<or> n = 0 then -1
                 else if se_matchIndex s < 0 then int n - 1
                 else (se_matchIndex s - 1 + int n) mod int n)\<rparr>))"

definition openSearch :: "pane_search \<Rightarrow> pane_search" where
  "openSearch s = s\<lparr>se_open := True\<rparr>"

definition closeSearch :: "pane_search \<Rightarrow> pane_search" where
  "closeSearch s = s\<lparr>se_open := False, se_status := SearchIdle, se_matchIndex := -1\<rparr>"

text \<open>The effect after the query, the options, the buffer or the count have changed.\<close>

definition search_effect :: "bool option \<Rightarrow> nat \<Rightarrow> pane_search \<Rightarrow> pane_search" where
  "search_effect found n s =
     (if \<not> se_open s then s
      else if js_trim (se_query s) = [] then s\<lparr>se_status := SearchIdle, se_matchIndex := -1\<rparr>
      else findNext found (js_trim (se_query s)) False n s)"

section \<open>Copying\<close>

record copy_payload =
  cp_text :: jsstr
  cp_html :: "jsstr option"

text \<open>
  \<open>selection\<close> and \<open>buffer_lines\<close> of the emulator, \<open>serialized\<close> what the serializer gives for the selection or all
  (\<open>None\<close>: it throws, or there is no serializer).
\<close>

definition captureTerminalCopy :: "jsstr \<Rightarrow> jsstr list \<Rightarrow> (bool \<Rightarrow> jsstr option) \<Rightarrow> bool \<Rightarrow> bool \<Rightarrow> copy_payload option" where
  "captureTerminalCopy selection buffer_lines serialized includeBuffer richText =
     (let copied = (if selection = [] \<and> includeBuffer then js_join [10] buffer_lines else selection)
      in if copied = [] then None
         else Some \<lparr>cp_text = copied,
           cp_html = (if richText then (case serialized (selection \<noteq> []) of Some h \<Rightarrow> if h = [] then None else Some h | None \<Rightarrow> None)
                      else None)\<rparr>)"

datatype clipboard_write = WriteText jsstr | WriteHtml jsstr jsstr

text \<open>What is written, with the answers of the clipboard: the writes and whether the copy succeeded.\<close>

definition writeTerminalCopy :: "(clipboard_write \<Rightarrow> bool) \<Rightarrow> copy_payload \<Rightarrow> clipboard_write list \<times> bool" where
  "writeTerminalCopy succeeds payload =
     (let plain = WriteText (cp_text payload)
      in case cp_html payload of
           None \<Rightarrow> ([plain], succeeds plain)
         | Some html \<Rightarrow>
             (let rich = WriteHtml html (cp_text payload)
              in if succeeds rich then ([rich], True) else ([rich, plain], succeeds plain)))"

record pane_clipboard =
  pc_menu :: "(int \<times> int) option"
  pc_error :: bool
  pc_rightCopy :: "copy_payload option"
  pc_rightCaptured :: bool
  pc_pasteDraft :: "jsstr option"
  pc_pasted :: "jsstr list"
  pc_written :: "clipboard_write list"

definition closeContextMenu :: "pane_clipboard \<Rightarrow> pane_clipboard" where
  "closeContextMenu s = s\<lparr>pc_menu := None, pc_rightCopy := None, pc_rightCaptured := False\<rparr>"

definition copyCapturedText :: "(clipboard_write \<Rightarrow> bool) \<Rightarrow> copy_payload option \<Rightarrow> pane_clipboard \<Rightarrow> pane_clipboard" where
  "copyCapturedText succeeds payload s =
     (let s = closeContextMenu s
      in case payload of
           None \<Rightarrow> s
         | Some p \<Rightarrow> (case writeTerminalCopy succeeds p of
             (writes, ok) \<Rightarrow> s\<lparr>pc_error := \<not> ok, pc_written := pc_written s @ writes\<rparr>))"

definition copyTerminalText :: "(clipboard_write \<Rightarrow> bool) \<Rightarrow> copy_payload option \<Rightarrow> pane_clipboard \<Rightarrow> pane_clipboard" where
  "copyTerminalText succeeds captured s =
     copyCapturedText succeeds (if pc_rightCopy s \<noteq> None then pc_rightCopy s else captured) s"

definition copyTerminalPlainText :: "(clipboard_write \<Rightarrow> bool) \<Rightarrow> copy_payload option \<Rightarrow> pane_clipboard \<Rightarrow> pane_clipboard" where
  "copyTerminalPlainText succeeds captured s =
     copyCapturedText succeeds (map_option (\<lambda>p. \<lparr>cp_text = cp_text p, cp_html = None\<rparr>)
       (if pc_rightCopy s \<noteq> None then pc_rightCopy s else captured)) s"

section \<open>Pasting\<close>

definition isMultilinePaste :: "jsstr \<Rightarrow> bool" where
  "isMultilinePaste t \<longleftrightarrow> 13 \<in> set t \<or> 10 \<in> set t"

definition sendPastedText :: "term_status option \<Rightarrow> jsstr \<Rightarrow> pane_clipboard \<Rightarrow> pane_clipboard" where
  "sendPastedText status t s = (if status = None \<or> status = Some Closed \<or> t = [] then s else s\<lparr>pc_pasted := pc_pasted s @ [t]\<rparr>)"

definition queuePastedText :: "bool \<Rightarrow> term_status option \<Rightarrow> jsstr \<Rightarrow> pane_clipboard \<Rightarrow> pane_clipboard" where
  "queuePastedText confirmMultiline status t s =
     (if t = [] then s
      else if confirmMultiline \<and> isMultilinePaste t then s\<lparr>pc_pasteDraft := Some t\<rparr>
      else sendPastedText status t s)"

text \<open>The question has an editor for its text (\<open>editPasteDraft\<close>).\<close>

definition confirmPasteDraft :: "term_status option \<Rightarrow> pane_clipboard \<Rightarrow> pane_clipboard" where
  "confirmPasteDraft status s =
     sendPastedText status (case pc_pasteDraft s of Some t \<Rightarrow> t | None \<Rightarrow> []) (s\<lparr>pc_pasteDraft := None\<rparr>)"

definition editPasteDraft :: "jsstr \<Rightarrow> pane_clipboard \<Rightarrow> pane_clipboard" where
  "editPasteDraft t s = (if pc_pasteDraft s = None then s else s\<lparr>pc_pasteDraft := Some t\<rparr>)"

definition closePasteConfirm :: "pane_clipboard \<Rightarrow> pane_clipboard" where
  "closePasteConfirm s = s\<lparr>pc_pasteDraft := None\<rparr>"

text \<open>\<open>read\<close> is what the clipboard gives, \<open>None\<close> when reading it fails; \<open>now\<close> is the status when it has.\<close>

definition pasteClipboardText :: "bool \<Rightarrow> term_status option \<Rightarrow> jsstr option \<Rightarrow> pane_clipboard \<Rightarrow> pane_clipboard" where
  "pasteClipboardText confirmMultiline status clip s =
     (if status = None \<or> status = Some Closed then closeContextMenu s
      else closeContextMenu (case clip of Some t \<Rightarrow> queuePastedText confirmMultiline status t s | None \<Rightarrow> s))"

definition handleSmartCopyOrPaste ::
    "(clipboard_write \<Rightarrow> bool) \<Rightarrow> bool \<Rightarrow> term_status option \<Rightarrow> jsstr option \<Rightarrow> pane_clipboard \<Rightarrow> pane_clipboard" where
  "handleSmartCopyOrPaste succeeds confirmMultiline status clip s =
     (if pc_rightCopy s \<noteq> None then copyCapturedText succeeds (pc_rightCopy s) s
      else pasteClipboardText confirmMultiline status clip s)"

text \<open>The right button: what is captured when it goes down, and the menu when the browser asks for it.\<close>

definition right_mouse_down :: "right_click \<Rightarrow> (bool \<Rightarrow> copy_payload option) \<Rightarrow> pane_clipboard \<Rightarrow> pane_clipboard" where
  "right_mouse_down behaviour captured s =
     (if behaviour = RightDisabled then s
      else s\<lparr>pc_rightCopy := captured (behaviour = RightContextMenu), pc_rightCaptured := True\<rparr>)"

definition context_menu ::
    "right_click \<Rightarrow> (bool \<Rightarrow> copy_payload option) \<Rightarrow> (clipboard_write \<Rightarrow> bool) \<Rightarrow> bool \<Rightarrow> term_status option
     \<Rightarrow> jsstr option \<Rightarrow> int \<times> int \<Rightarrow> pane_clipboard \<Rightarrow> pane_clipboard" where
  "context_menu behaviour captured succeeds confirmMultiline status clip position s =
     (if behaviour = RightDisabled then closeContextMenu s
      else (let s = (if pc_rightCaptured s then s else s\<lparr>pc_rightCopy := captured (behaviour = RightContextMenu)\<rparr>);
                s = s\<lparr>pc_rightCaptured := False\<rparr>
            in case behaviour of
                 RightPaste \<Rightarrow> pasteClipboardText confirmMultiline status clip s
               | RightCopyOrPaste \<Rightarrow> handleSmartCopyOrPaste succeeds confirmMultiline status clip s
               | _ \<Rightarrow> s\<lparr>pc_menu := Some position\<rparr>))"

section \<open>Lemmas\<close>

lemma chain_run_shape:
  "chain_run ts c \<Longrightarrow> ts = ic_sent c @ ic_waiting c \<and> (\<not> ic_sending c \<longrightarrow> ic_waiting c = [])"
  by (induction rule: chain_run.induct) (auto simp: chain_add_def chain_answered_def split: list.splits)

text \<open>
  The input reaches the back end in the order it was typed in, one text at a time, and nothing waits
  when nothing is being sent, whether the answers are errors or not.
\<close>

theorem input_in_order:
  assumes "chain_run ts c"
  shows "ts = ic_sent c @ ic_waiting c \<and> (\<not> ic_sending c \<longrightarrow> ic_sent c = ts)"
  using chain_run_shape [OF assms] by auto

theorem input_in_order_witness:
  "[js ''a'', js ''b''] = [js ''a''] @ [js ''b''] \<and> chain_run [js ''a''] (chain_add (js ''a'') \<lparr>ic_sent = [],
     ic_waiting = [], ic_sending = False\<rparr>)"
  using chain_run.add [OF chain_run.start, of "js ''a''"] input_in_order [OF chain_run.add [OF chain_run.add [OF chain_run.start],
     of "js ''b''" "js ''a''"]]
  by (simp add: chain_add_def)

text \<open>
  Keys: Ctrl and C without a selection interrupts the program, as the key reaches the emulator; with a
  selection it copies. In a closed terminal no key that is pressed reaches it.
\<close>

theorem terminal_keys:
  assumes "tk_keydown e" "\<not> ke_isComposing e" "ke_keyCode e \<noteq> 229"
  shows "(status \<noteq> Some Closed \<and> key_is e CHR ''c'' \<and> ke_ctrlKey e \<and> \<not> ke_shiftKey e \<and> \<not> ke_altKey e \<and> \<not> ke_metaKey e
      \<longrightarrow> terminal_key_handler status selected e = (\<not> selected, if selected then [CopySelection] else []))
    \<and> (status = Some Closed \<longrightarrow> \<not> fst (terminal_key_handler status selected e))"
proof -
  have f: "\<not> (key_is e CHR ''c'' \<and> key_is e CHR ''f'')" by (auto simp: key_is_def js_def)
  then show ?thesis using assms
    by (auto simp: terminal_key_handler_def isTerminalCopyShortcut_def isTerminalSearchShortcut_def)
qed

definition example_ctrl_c :: terminal_key where
  "example_ctrl_c = \<lparr>ke_altKey = False, ke_ctrlKey = True, ke_metaKey = False, ke_shiftKey = False, ke_key = js ''c'',
     ke_isComposing = False, ke_keyCode = 67, ke_target = None, tk_keydown = True, tk_repeat = False\<rparr>"

theorem terminal_keys_witness:
  "terminal_key_handler (Some Attached) True example_ctrl_c = (False, [CopySelection])"
  using terminal_keys [of example_ctrl_c "Some Attached" True]
  by (simp add: example_ctrl_c_def key_is_def js_def js_lower_def lower_unit_def)

text \<open>
  What happens at the clipboard, with the texts that are pasted by it: by a step of the pane, with the setting
  for questions as it is then; by the answer to the question, with the text that stands in it; or by the emulator
  itself, which takes a paste of the browser without the pane.
\<close>

datatype paste_cause =
    ByPane bool
  | ByAnswer "jsstr option"
  | ByEmulator

definition new_pastes :: "pane_clipboard \<Rightarrow> pane_clipboard \<Rightarrow> jsstr list" where
  "new_pastes s s' = drop (length (pc_pasted s)) (pc_pasted s')"

inductive clipboard_step :: "bool \<Rightarrow> pane_clipboard \<Rightarrow> pane_clipboard \<Rightarrow> bool" for ask where
  paste: "clipboard_step ask s (pasteClipboardText ask status clip s)"
| smart: "clipboard_step ask s (handleSmartCopyOrPaste succeeds ask status clip s)"
| menu: "clipboard_step ask s (context_menu behaviour captured succeeds ask status clip position s)"
| mouse: "clipboard_step ask s (right_mouse_down behaviour captured s)"
| copy: "clipboard_step ask s (copyTerminalText succeeds captured' s)"
| plain: "clipboard_step ask s (copyTerminalPlainText succeeds captured' s)"
| close: "clipboard_step ask s (closeContextMenu s)"
| edit: "clipboard_step ask s (editPasteDraft t s)"
| cancel: "clipboard_step ask s (closePasteConfirm s)"

inductive paste_run :: "pane_clipboard \<Rightarrow> (paste_cause \<times> jsstr list) list \<Rightarrow> pane_clipboard \<Rightarrow> bool" for s where
  start: "paste_run s [] s"
| pane: "paste_run s l u \<Longrightarrow> clipboard_step ask u v \<Longrightarrow> paste_run s (l @ [(ByPane ask, new_pastes u v)]) v"
| answer: "paste_run s l u \<Longrightarrow> paste_run s (l @ [(ByAnswer (pc_pasteDraft u), new_pastes u (confirmPasteDraft status u))]) (confirmPasteDraft status u)"
| emulator: "paste_run s l u \<Longrightarrow> paste_run s (l @ [(ByEmulator, [t])]) u"

fun paste_allowed :: "paste_cause \<times> jsstr list \<Rightarrow> bool" where
  "paste_allowed (ByPane ask, ts) = (ask \<longrightarrow> list_all (\<lambda>t. \<not> isMultilinePaste t) ts)"
| "paste_allowed (ByAnswer draft, ts) = (ts = [] \<or> (\<exists>t. draft = Some t \<and> ts = [t]))"
| "paste_allowed (ByEmulator, ts) = True"

text \<open>A step of the pane only adds to what was pasted, and asks for texts of several lines.\<close>

definition pastes_more :: "bool \<Rightarrow> pane_clipboard \<Rightarrow> pane_clipboard \<Rightarrow> bool" where
  "pastes_more ask s s' \<longleftrightarrow> (\<exists>ts. pc_pasted s' = pc_pasted s @ ts \<and> (ask \<longrightarrow> list_all (\<lambda>t. \<not> isMultilinePaste t) ts))"

lemma pastes_none: "pc_pasted s' = pc_pasted s \<Longrightarrow> pastes_more ask s s'"
  by (simp add: pastes_more_def)

lemma pastes_same: "pc_pasted u = pc_pasted s \<Longrightarrow> pastes_more ask u s' = pastes_more ask s s'"
  by (simp add: pastes_more_def)

lemma copied_pasted: "pc_pasted (copyCapturedText succeeds p s) = pc_pasted s"
  by (simp add: copyCapturedText_def closeContextMenu_def Let_def split: option.split prod.split)

lemma pastes_paste: "pastes_more ask s (pasteClipboardText ask status clip s)"
proof (cases clip)
  case (Some t)
  have "pc_pasted (queuePastedText ask status t s) = pc_pasted s
      @ (if t = [] \<or> ask \<and> isMultilinePaste t \<or> status = None \<or> status = Some Closed then [] else [t])"
    by (simp add: queuePastedText_def sendPastedText_def)
  then show ?thesis using Some
    by (auto simp: pastes_more_def pasteClipboardText_def closeContextMenu_def)
qed (simp add: pastes_none pasteClipboardText_def closeContextMenu_def)

lemma pastes_smart: "pastes_more ask s (handleSmartCopyOrPaste succeeds ask status clip s)"
  by (simp add: handleSmartCopyOrPaste_def pastes_paste pastes_none copied_pasted)

lemma pastes_menu: "pastes_more ask s (context_menu behaviour captured succeeds ask status clip position s)"
proof (cases "behaviour = RightDisabled")
  case False
  let ?u = "(if pc_rightCaptured s then s else s\<lparr>pc_rightCopy := captured (behaviour = RightContextMenu)\<rparr>)\<lparr>pc_rightCaptured := False\<rparr>"
  have u: "pc_pasted ?u = pc_pasted s" by simp
  show ?thesis using False pastes_paste [of ask ?u status clip] pastes_smart [of ask ?u succeeds status clip]
    unfolding pastes_same [OF u]
    by (cases behaviour) (simp_all add: context_menu_def Let_def pastes_none split: if_splits)
qed (simp add: context_menu_def closeContextMenu_def pastes_none)

lemma pastes_step: "clipboard_step ask s s' \<Longrightarrow> pastes_more ask s s'"
  by (induction rule: clipboard_step.induct)
    (simp_all add: pastes_paste pastes_smart pastes_menu pastes_none right_mouse_down_def copyTerminalText_def
      copyTerminalPlainText_def copied_pasted closeContextMenu_def editPasteDraft_def closePasteConfirm_def)

definition paned :: "(paste_cause \<times> jsstr list) list \<Rightarrow> jsstr list" where
  "paned l = concat (map (\<lambda>(cause, ts). if cause = ByEmulator then [] else ts) l)"

text \<open>
  C29. Of the texts the pane pastes - by the mouse, the menu, or the answer to the question - none has several lines
  while the setting asks for them to be confirmed, unless it is the text that stands in the question when it is
  confirmed, edited or not; whatever the setting, the terminal and the clipboard are at each step. A paste of the
  browser goes to the emulator and is not asked for.
\<close>

theorem multiline_paste_asked:
  assumes "paste_run s l s'"
  shows "pc_pasted s' = pc_pasted s @ paned l \<and> list_all paste_allowed l"
  using assms
proof (induction rule: paste_run.induct)
  case (pane l u ask v)
  then show ?case using pastes_step [OF pane.hyps(2)] by (auto simp: pastes_more_def new_pastes_def paned_def)
next
  case (answer l u status)
  have "pc_pasted (confirmPasteDraft status u) = pc_pasted u @ (case pc_pasteDraft u of
      Some t \<Rightarrow> if status = None \<or> status = Some Closed \<or> t = [] then [] else [t] | None \<Rightarrow> [])"
    by (simp add: confirmPasteDraft_def sendPastedText_def split: option.split)
  then show ?case using answer.IH by (auto simp: new_pastes_def paned_def split: option.splits)
qed (simp_all add: paned_def)

definition empty_clipboard :: pane_clipboard where
  "empty_clipboard = \<lparr>pc_menu = None, pc_error = False, pc_rightCopy = None, pc_rightCaptured = False,
     pc_pasteDraft = None, pc_pasted = [], pc_written = []\<rparr>"

text \<open>Two lines are pasted, edited in the question and confirmed.\<close>

theorem multiline_paste_asked_witness:
  "pc_pasted (confirmPasteDraft (Some Attached) (editPasteDraft (js ''b'' @ [13])
     (pasteClipboardText True (Some Attached) (Some (js ''a'' @ [13])) empty_clipboard))) = [js ''b'' @ [13]]"
proof -
  let ?u = "pasteClipboardText True (Some Attached) (Some (js ''a'' @ [13])) empty_clipboard"
  let ?v = "editPasteDraft (js ''b'' @ [13]) ?u"
  let ?l = "[(ByPane True, new_pastes empty_clipboard ?u), (ByPane True, new_pastes ?u ?v),
    (ByAnswer (pc_pasteDraft ?v), new_pastes ?v (confirmPasteDraft (Some Attached) ?v))]"
  have r: "paste_run empty_clipboard ?l (confirmPasteDraft (Some Attached) ?v)"
    using paste_run.answer [OF paste_run.pane [OF paste_run.pane [OF paste_run.start clipboard_step.paste] clipboard_step.edit]]
    by simp
  note defs = empty_clipboard_def pasteClipboardText_def queuePastedText_def isMultilinePaste_def closeContextMenu_def
    editPasteDraft_def confirmPasteDraft_def sendPastedText_def new_pastes_def
  have "paned ?l = [js ''b'' @ [13]]" by (simp add: paned_def defs)
  then show ?thesis using conjunct1 [OF multiline_paste_asked [OF r]] by (simp add: empty_clipboard_def)
qed

section \<open>Searching stays in range\<close>

lemma mod_above: "0 < n \<Longrightarrow> -1 \<le> x mod int n"
proof -
  assume "0 < n"
  then have "0 \<le> x mod int n" by (intro pos_mod_sign) simp
  then show ?thesis by linarith
qed

lemma findNext_range: "-1 \<le> se_matchIndex s \<Longrightarrow> -1 \<le> se_matchIndex (findNext found q adv n s) \<and> se_matchIndex (findNext found q adv n s) < max 0 (int n)"
  by (auto simp: findNext_def mod_above split: option.split)

lemma findPrevious_range: "-1 \<le> se_matchIndex s \<Longrightarrow> -1 \<le> se_matchIndex (findPrevious found q n s) \<and> se_matchIndex (findPrevious found q n s) < max 0 (int n)"
  by (auto simp: findPrevious_def mod_above split: option.split)

text \<open>Going on and back returns to the same match, around the end too.\<close>

lemma find_next_previous:
  assumes "js_trim q \<noteq> []" "0 \<le> se_matchIndex s" "se_matchIndex s < int n"
  shows "se_matchIndex (findPrevious (Some True) q n (findNext (Some True) q True n s)) = se_matchIndex s"
proof -
  let ?i = "se_matchIndex s"
  have n: "n \<noteq> 0" using assms(2,3) by linarith
  have "0 \<le> (?i + 1) mod int n" using n by simp
  then have not_less: "\<not> (?i + 1) mod int n < 0" by linarith
  then have "se_matchIndex (findPrevious (Some True) q n (findNext (Some True) q True n s)) = ((?i + 1) mod int n - 1 + int n) mod int n"
    using assms n by (simp add: findPrevious_def findNext_def)
  also have "\<dots> = ((?i + 1) mod int n - 1) mod int n" by simp
  also have "\<dots> = ?i mod int n" by (simp add: mod_diff_left_eq)
  finally show ?thesis using assms(2,3) by simp
qed

section \<open>Secrets\<close>

text \<open>
  Data that comes while the cursor stands behind a prompt for a secret is sent on, but neither submitted
  as a command nor kept as a draft.
\<close>

lemma onData_sensitive:
  assumes "isSensitiveTerminalPrompt line"
  shows "in_commands (onData line t s) = in_commands s
    \<and> (in_status s \<noteq> Some Closed \<and> \<not> in_replaying s \<longrightarrow> in_draft (onData line t s) = [] \<and> in_queue (onData line t s) = in_queue s @ [t])"
  using assms by (simp add: onData_def enqueueInput_def)

lemma fold_command_queue: "in_queue (fold command_submitted cs s) = in_queue s \<and> in_commands (fold command_submitted cs s) = in_commands s @ cs"
proof (induction cs arbitrary: s)
  case (Cons c cs)
  have "in_queue (command_submitted c s) = in_queue s" "in_commands (command_submitted c s) = in_commands s @ [c]"
    by (simp_all add: command_submitted_def Let_def setActiveMainstreamCli_def syncAlternateScreenCli_def split: option.split)
  then show ?case using Cons by simp
qed simp

end
