(* ===== verification/TerminalIme.thy ===== *)
theory TerminalIme
  imports JsBase
begin

text \<open>
  The bridge between input methods and the emulator (\<^verbatim>\<open>src/features/terminal/terminalIme.ts\<close>): the text of a
  composition is sent when it ends, when the next one starts or when the field loses the focus, whatever
  comes first. What the emulator's own handlers do (where a composition starts, the text it has sent
  already) comes with the events.
\<close>

section \<open>State\<close>

text \<open>A composition with its number; its mark \<^verbatim>\<open>sent\<close> is in \<open>im_sent\<close>, which every callback reads.\<close>

record composition =
  co_id :: nat
  co_start :: nat

datatype ime_timer =
    FinishTimer composition
  | ChangeTimer jsstr nat

record cursor_position =
  cu_x :: int
  cu_y :: int

record ime =
  im_value :: jsstr
  im_isComposing :: bool
  im_isSending :: bool
  im_dataAlreadySent :: jsstr
  im_composition :: "composition option"
  im_sent :: "nat list"
  im_generation :: nat
  im_timers :: "ime_timer list"
  im_stableCursor :: "cursor_position option"
  im_composingCursor :: "cursor_position option"
  im_disposed :: bool
  im_input :: "jsstr list"

definition initial_ime :: ime where
  "initial_ime = \<lparr>im_value = [], im_isComposing = False, im_isSending = False, im_dataAlreadySent = [], im_composition = None,
     im_sent = [], im_generation = 0, im_timers = [], im_stableCursor = None, im_composingCursor = None,
     im_disposed = False, im_input = []\<rparr>"

section \<open>The cursor\<close>

definition readCursor :: "int \<Rightarrow> int \<Rightarrow> int \<Rightarrow> int \<Rightarrow> int \<Rightarrow> int \<Rightarrow> cursor_position option" where
  "readCursor baseY cursorY viewportY cursorX cols rows =
     (let y = baseY + cursorY - viewportY
      in if 0 \<le> y \<and> y < rows then Some \<lparr>cu_x = min cursorX (cols - 1), cu_y = y\<rparr> else None)"

definition shown_cursor :: "ime \<Rightarrow> cursor_position option" where
  "shown_cursor s = (if im_isComposing s then im_composingCursor s else im_stableCursor s)"

definition updateCursor :: "bool \<Rightarrow> cursor_position option \<Rightarrow> ime \<Rightarrow> ime" where
  "updateCursor isCursorHidden cursor s =
     (case cursor of
        None \<Rightarrow> s
      | Some c \<Rightarrow>
          if \<not> (isCursorHidden \<and> cu_x c = 0 \<and> cu_y c = 0 \<and> im_stableCursor s \<noteq> None) then s\<lparr>im_stableCursor := Some c\<rparr> else s)"

section \<open>Compositions\<close>

definition finish_composition :: "composition \<Rightarrow> ime \<Rightarrow> ime" where
  "finish_composition pending s =
     (if co_id pending \<in> set (im_sent s) \<or> im_disposed s then s
      else (let input = drop (co_start pending + length (im_dataAlreadySent s)) (im_value s);
                s = s\<lparr>im_sent := im_sent s @ [co_id pending]\<rparr>;
                s = (if im_composition s = Some pending then s\<lparr>im_isSending := False\<rparr> else s)
            in if input \<noteq> [] then s\<lparr>im_input := im_input s @ [input]\<rparr> else s))"

text \<open>\<open>start\<close> and \<open>alreadySent\<close> are what the emulator's own handler leaves; compositions are numbered by \<open>im_generation\<close>.\<close>

definition compositionstart :: "nat \<Rightarrow> jsstr \<Rightarrow> cursor_position option \<Rightarrow> ime \<Rightarrow> ime" where
  "compositionstart start alreadySent cursor s =
     (let s = (case im_composition s of Some c \<Rightarrow> finish_composition c s | None \<Rightarrow> s);
          g = im_generation s + 1
      in s\<lparr>im_generation := g, im_isComposing := True, im_dataAlreadySent := alreadySent,
           im_composition := Some \<lparr>co_id = g, co_start = start\<rparr>,
           im_composingCursor := (if im_stableCursor s \<noteq> None then im_stableCursor s else cursor)\<rparr>)"

definition finalizeComposition :: "bool \<Rightarrow> ime \<Rightarrow> ime" where
  "finalizeComposition waitForPropagation s =
     (let s = s\<lparr>im_isComposing := False\<rparr>
      in case im_composition s of
           None \<Rightarrow> s
         | Some pending \<Rightarrow>
             if co_id pending \<in> set (im_sent s) then s
             else if waitForPropagation then s\<lparr>im_isSending := True, im_timers := im_timers s @ [FinishTimer pending]\<rparr>
             else finish_composition pending s)"

definition handleAnyTextareaChanges :: "ime \<Rightarrow> ime" where
  "handleAnyTextareaChanges s =
     (if list_ex (\<lambda>t. case t of ChangeTimer _ _ \<Rightarrow> True | _ \<Rightarrow> False) (im_timers s) then s
      else s\<lparr>im_timers := im_timers s @ [ChangeTimer (im_value s) (im_generation s)]\<rparr>)"

text \<open>\<^verbatim>\<open>s.replace(p, "")\<close> of a text: the first occurrence is taken out.\<close>

fun without_first :: "jsstr \<Rightarrow> jsstr \<Rightarrow> jsstr" where
  "without_first p s =
     (if take (length p) s = p then drop (length p) s
      else (case s of [] \<Rightarrow> [] | c # t \<Rightarrow> c # without_first p t))"

declare without_first.simps [simp del]

definition textarea_changed :: "jsstr \<Rightarrow> nat \<Rightarrow> ime \<Rightarrow> ime" where
  "textarea_changed oldValue revision s =
     (if revision \<noteq> im_generation s \<or> im_isComposing s then s
      else (let newValue = im_value s;
                diff = without_first oldValue newValue;
                s = s\<lparr>im_dataAlreadySent := diff\<rparr>
            in if length newValue > length oldValue then s\<lparr>im_input := im_input s @ [diff]\<rparr>
               else if length newValue < length oldValue then s\<lparr>im_input := im_input s @ [[0x7F]]\<rparr>
               else if newValue \<noteq> oldValue then s\<lparr>im_input := im_input s @ [newValue]\<rparr>
               else s))"

definition timer_fires :: "ime_timer \<Rightarrow> ime \<Rightarrow> ime" where
  "timer_fires t s =
     (let s = s\<lparr>im_timers := remove1 t (im_timers s)\<rparr>
      in if im_disposed s then s
         else (case t of FinishTimer c \<Rightarrow> finish_composition c s | ChangeTimer old gen \<Rightarrow> textarea_changed old gen s))"

definition flushOnBlur :: "ime \<Rightarrow> ime" where
  "flushOnBlur s = (case im_composition s of Some c \<Rightarrow> if \<not> im_isComposing s then finish_composition c s else s | None \<Rightarrow> s)"

definition dispose_ime :: "ime \<Rightarrow> ime" where
  "dispose_ime s = s\<lparr>im_disposed := True, im_timers := []\<rparr>"

inductive ime_step :: "ime \<Rightarrow> ime \<Rightarrow> bool" where
  starts: "\<not> im_disposed s \<Longrightarrow> ime_step s (compositionstart start alreadySent cursor s)"
| ends: "\<not> im_disposed s \<Longrightarrow> ime_step s (finalizeComposition wait s)"
| changes: "\<not> im_disposed s \<Longrightarrow> ime_step s (handleAnyTextareaChanges s)"
| fires: "t \<in> set (im_timers s) \<Longrightarrow> ime_step s (timer_fires t s)"
| blur: "\<not> im_disposed s \<Longrightarrow> ime_step s (flushOnBlur s)"
| cursor: "ime_step s (updateCursor hidden c s)"
| edits: "ime_step s (s\<lparr>im_value := v\<rparr>)"
| dispose: "ime_step s (dispose_ime s)"

section \<open>Every composition once\<close>

text \<open>
  The compositions that were sent are all of them up to the current one, each once; the current one may
  still be open, and an open one that has ended has its timer.
\<close>

definition ime_inv :: "ime \<Rightarrow> bool" where
  "ime_inv s \<longleftrightarrow>
     (case im_composition s of
        None \<Rightarrow> im_generation s = 0 \<and> im_sent s = []
      | Some c \<Rightarrow> co_id c = im_generation s \<and> im_generation s > 0
          \<and> (im_sent s = [1..<im_generation s] \<or> im_sent s = [1..<im_generation s + 1]))
     \<and> (\<forall>c. FinishTimer c \<in> set (im_timers s) \<longrightarrow> co_id c \<in> set (im_sent s) \<or> im_composition s = Some c)
     \<and> (\<forall>c. im_composition s = Some c \<and> \<not> im_isComposing s \<and> \<not> im_disposed s
          \<longrightarrow> co_id c \<in> set (im_sent s) \<or> FinishTimer c \<in> set (im_timers s))"

lemma finish_fields:
  "im_sent (finish_composition c s) = (if co_id c \<in> set (im_sent s) \<or> im_disposed s then im_sent s else im_sent s @ [co_id c])"
  "im_composition (finish_composition c s) = im_composition s" "im_generation (finish_composition c s) = im_generation s"
  "im_timers (finish_composition c s) = im_timers s" "im_isComposing (finish_composition c s) = im_isComposing s"
  "im_disposed (finish_composition c s) = im_disposed s" "im_stableCursor (finish_composition c s) = im_stableCursor s"
  by (simp_all add: finish_composition_def Let_def)

lemma finish_inv:
  assumes "ime_inv s" "im_composition s = Some c \<or> co_id c \<in> set (im_sent s)"
  shows "ime_inv (finish_composition c s)"
  using assms by (auto simp: ime_inv_def finish_fields split: option.splits)

lemma textarea_changed_fields:
  "im_sent (textarea_changed o' r s) = im_sent s" "im_composition (textarea_changed o' r s) = im_composition s"
  "im_generation (textarea_changed o' r s) = im_generation s" "im_timers (textarea_changed o' r s) = im_timers s"
  "im_isComposing (textarea_changed o' r s) = im_isComposing s" "im_disposed (textarea_changed o' r s) = im_disposed s"
  by (simp_all add: textarea_changed_def Let_def)

lemma ime_step_inv: "ime_step s s' \<Longrightarrow> ime_inv s \<Longrightarrow> ime_inv s'"
proof (induction rule: ime_step.induct)
  case (starts s start alreadySent cursor)
  show ?case
  proof (cases "im_composition s")
    case None
    then show ?thesis using starts by (auto simp: ime_inv_def compositionstart_def Let_def)
  next
    case (Some c)
    let ?s = "finish_composition c s"
    have "im_sent ?s = [1..<im_generation s + 1]" using starts Some by (auto simp: ime_inv_def finish_fields)
    then show ?thesis using starts Some
      by (auto simp: ime_inv_def compositionstart_def Let_def finish_fields)
  qed
next
  case (ends s wait)
  then show ?case
    by (auto simp: ime_inv_def finalizeComposition_def Let_def finish_fields split: option.splits)
next
  case (changes s)
  then show ?case by (auto simp: ime_inv_def handleAnyTextareaChanges_def split: option.splits)
next
  case (fires t s)
  show ?case
  proof (cases t)
    case (FinishTimer c)
    have other: "FinishTimer d \<in> set (remove1 (FinishTimer c) (im_timers s))"
      if "FinishTimer d \<in> set (im_timers s)" "co_id d \<noteq> co_id c" for d
      using that by (metis in_set_remove1 ime_timer.inject(1))
    show ?thesis using fires FinishTimer other
      by (auto simp: ime_inv_def timer_fires_def Let_def finish_fields split: option.splits dest: notin_set_remove1)
  next
    case (ChangeTimer old gen)
    then show ?thesis using fires
      by (auto simp: ime_inv_def timer_fires_def Let_def textarea_changed_fields in_set_remove1 split: option.splits dest: notin_set_remove1)
  qed
next
  case (blur s)
  then show ?case by (auto simp: flushOnBlur_def intro: finish_inv split: option.split)
next
  case (cursor s hidden c)
  then show ?case by (auto simp: ime_inv_def updateCursor_def split: option.splits)
next
  case (edits s v)
  then show ?case by (auto simp: ime_inv_def split: option.splits)
next
  case (dispose s)
  then show ?case by (auto simp: ime_inv_def dispose_ime_def split: option.splits)
qed

lemma ime_inv_reached: "ime_step\<^sup>*\<^sup>* initial_ime s \<Longrightarrow> ime_inv s"
proof (induction rule: rtranclp_induct)
  case base
  show ?case by (simp add: ime_inv_def initial_ime_def)
qed (rule ime_step_inv)

section \<open>What is sent\<close>

text \<open>
  What a step has to send: a composition, with what is already sent of it and the field as it is, or a change of the
  field without one. The text of a composition is the field from its start, but for what is already sent.
\<close>

datatype sending =
    OfComposition composition jsstr jsstr
  | OfChange jsstr jsstr

fun sent_text :: "sending \<Rightarrow> jsstr" where
  "sent_text (OfComposition c already field) = drop (co_start c + length already) field"
| "sent_text (OfChange before field) =
     (if length field > length before then without_first before field else if length field < length before then [0x7F] else field)"

fun sent_ids :: "sending list \<Rightarrow> nat list" where
  "sent_ids [] = []"
| "sent_ids (OfComposition c already field # l) = co_id c # sent_ids l"
| "sent_ids (OfChange before field # l) = sent_ids l"

definition due :: "composition option \<Rightarrow> ime \<Rightarrow> sending list" where
  "due c s = (case c of None \<Rightarrow> []
     | Some c \<Rightarrow> if co_id c \<in> set (im_sent s) \<or> im_disposed s then [] else [OfComposition c (im_dataAlreadySent s) (im_value s)])"

text \<open>A composition is due when the next one starts, when it ends, a moment after it has ended, or at the blur after it.\<close>

inductive ime_does :: "ime \<Rightarrow> sending list \<Rightarrow> ime \<Rightarrow> bool" where
  starts: "\<not> im_disposed s \<Longrightarrow> ime_does s (due (im_composition s) s) (compositionstart start alreadySent cursor s)"
| ends: "\<not> im_disposed s \<Longrightarrow> ime_does s (if wait then [] else due (im_composition s) s) (finalizeComposition wait s)"
| changes: "\<not> im_disposed s \<Longrightarrow> ime_does s [] (handleAnyTextareaChanges s)"
| finish: "FinishTimer c \<in> set (im_timers s) \<Longrightarrow> ime_does s (due (Some c) s) (timer_fires (FinishTimer c) s)"
| probe: "ChangeTimer before g \<in> set (im_timers s) \<Longrightarrow>
    ime_does s (if im_disposed s \<or> g \<noteq> im_generation s \<or> im_isComposing s \<or> before = im_value s then [] else [OfChange before (im_value s)])
      (timer_fires (ChangeTimer before g) s)"
| blur: "\<not> im_disposed s \<Longrightarrow> ime_does s (if im_isComposing s then [] else due (im_composition s) s) (flushOnBlur s)"
| cursor: "ime_does s [] (updateCursor hidden c s)"
| edits: "ime_does s [] (s\<lparr>im_value := v\<rparr>)"
| dispose: "ime_does s [] (dispose_ime s)"

inductive ime_run :: "sending list \<Rightarrow> ime \<Rightarrow> bool" where
  start: "ime_run [] initial_ime"
| step: "ime_run l s \<Longrightarrow> ime_does s m s' \<Longrightarrow> ime_run (l @ m) s'"

lemma does_step: "ime_does s m s' \<Longrightarrow> ime_step s s'"
  by (induction rule: ime_does.induct) (auto intro: ime_step.intros)

lemma run_reached: "ime_run l s \<Longrightarrow> ime_step\<^sup>*\<^sup>* initial_ime s"
  by (induction rule: ime_run.induct) (auto intro: rtranclp.rtrancl_into_rtrancl does_step)

lemma sent_ids_append: "sent_ids (l @ m) = sent_ids l @ sent_ids m"
  by (induction l rule: sent_ids.induct) simp_all

lemma without_first_length: "length s \<le> length p + length (without_first p s)"
proof (induction p s rule: without_first.induct)
  case (1 p s)
  show ?case
  proof (cases "take (length p) s = p")
    case True
    then show ?thesis by (simp add: without_first.simps [of p s])
  next
    case False
    show ?thesis
    proof (cases s)
      case Nil
      then show ?thesis by simp
    next
      case (Cons c cs)
      then show ?thesis using 1 False by (simp add: without_first.simps [of p "c # cs"])
    qed
  qed
qed

text \<open>Each step sends what is due, once.\<close>

definition sends :: "ime \<Rightarrow> sending list \<Rightarrow> ime \<Rightarrow> bool" where
  "sends s m s' \<longleftrightarrow> im_input s' = im_input s @ filter (\<lambda>t. t \<noteq> []) (map sent_text m) \<and> im_sent s' = im_sent s @ sent_ids m"

lemma sends_finish: "sends s (due (Some c) s) (finish_composition c s)"
  by (simp add: sends_def due_def finish_composition_def Let_def)

lemma sends_nothing: "im_input s' = im_input s \<Longrightarrow> im_sent s' = im_sent s \<Longrightarrow> sends s [] s'"
  by (simp add: sends_def)

lemma sends_before: "im_input u = im_input s \<Longrightarrow> im_sent u = im_sent s \<Longrightarrow> sends u m s' = sends s m s'"
  by (simp add: sends_def)

lemma sends_after: "sends s m u \<Longrightarrow> im_input s' = im_input u \<Longrightarrow> im_sent s' = im_sent u \<Longrightarrow> sends s m s'"
  by (simp add: sends_def)

lemma due_same: "im_sent u = im_sent s \<Longrightarrow> im_disposed u = im_disposed s \<Longrightarrow> im_dataAlreadySent u = im_dataAlreadySent s
    \<Longrightarrow> im_value u = im_value s \<Longrightarrow> due c u = due c s"
  by (simp add: due_def split: option.split)

lemma sends_probe:
  "sends s (if g \<noteq> im_generation s \<or> im_isComposing s \<or> before = im_value s then [] else [OfChange before (im_value s)])
     (textarea_changed before g s)"
proof (cases "g \<noteq> im_generation s \<or> im_isComposing s \<or> before = im_value s")
  case True
  then show ?thesis by (auto simp: sends_def textarea_changed_def Let_def)
next
  case False
  have "without_first before (im_value s) \<noteq> []" if "length before < length (im_value s)"
    using without_first_length [of "im_value s" before] that by auto
  moreover have "im_value s \<noteq> []" if "length before = length (im_value s)" using False that by auto
  ultimately show ?thesis using False by (auto simp: sends_def textarea_changed_def Let_def)
qed

lemma does_sends: "ime_does s m s' \<Longrightarrow> sends s m s'"
proof (induction rule: ime_does.induct)
  case (starts s start alreadySent cursor)
  show ?case
  proof (cases "im_composition s")
    case None
    then show ?thesis by (simp add: sends_def due_def compositionstart_def Let_def)
  next
    case (Some c)
    show ?thesis unfolding Some
      by (rule sends_after [OF sends_finish]) (simp_all add: compositionstart_def Some Let_def)
  qed
next
  case (ends s wait)
  show ?case
  proof (cases "im_composition s")
    case None
    then show ?thesis by (simp add: sends_def due_def finalizeComposition_def Let_def)
  next
    case (Some c)
    let ?u = "s\<lparr>im_isComposing := False\<rparr>"
    have "sends s (due (Some c) s) (finish_composition c ?u)"
      using sends_finish [of ?u c] by (simp add: sends_def due_def)
    moreover have "due (Some c) s = []" if "co_id c \<in> set (im_sent s)" using that by (simp add: due_def)
    ultimately show ?thesis using Some ends by (simp add: finalizeComposition_def Let_def sends_nothing)
  qed
next
  case (finish c s)
  let ?u = "s\<lparr>im_timers := remove1 (FinishTimer c) (im_timers s)\<rparr>"
  have "sends s (due (Some c) s) (finish_composition c ?u)"
    using sends_finish [of ?u c] by (simp add: sends_def due_def)
  moreover have "due (Some c) s = []" if "im_disposed s" using that by (simp add: due_def)
  ultimately show ?case by (simp add: timer_fires_def Let_def sends_nothing)
next
  case (probe before g s)
  let ?u = "s\<lparr>im_timers := remove1 (ChangeTimer before g) (im_timers s)\<rparr>"
  have "sends s (if g \<noteq> im_generation s \<or> im_isComposing s \<or> before = im_value s then [] else [OfChange before (im_value s)])
      (textarea_changed before g ?u)"
    using sends_probe [of ?u g before] by (simp add: sends_def split: if_splits)
  then show ?case by (simp add: timer_fires_def Let_def sends_nothing)
next
  case (blur s)
  show ?case
  proof (cases "im_composition s")
    case None
    then show ?thesis by (simp add: flushOnBlur_def due_def sends_nothing)
  next
    case (Some c)
    then show ?thesis using sends_finish [of s c] by (simp add: flushOnBlur_def sends_nothing)
  qed
qed (simp_all add: sends_nothing handleAnyTextareaChanges_def updateCursor_def dispose_ime_def split: option.split)

text \<open>
  C33. No composition is sent twice and none is lost. What the emulator is given is, in order, one text for every
  composition that was sent - what stands in the field from where the composition started, but for what is already
  sent, at the moment it is sent - and one for every change of the field without a composition, and nothing else. The
  compositions sent are the first ones in their order, all but the newest are sent, and when no composition is open and
  no timer is due the newest is sent as well.
\<close>

theorem compositions_sent_once:
  assumes "ime_run l s"
  shows "im_input s = filter (\<lambda>t. t \<noteq> []) (map sent_text l)
    \<and> (sent_ids l = [1..<im_generation s] \<or> sent_ids l = [1..<im_generation s + 1])
    \<and> (im_timers s = [] \<and> \<not> im_isComposing s \<and> \<not> im_disposed s \<longrightarrow> sent_ids l = [1..<im_generation s + 1])"
proof -
  have "im_input s = filter (\<lambda>t. t \<noteq> []) (map sent_text l) \<and> im_sent s = sent_ids l" using assms
  proof (induction rule: ime_run.induct)
    case start
    show ?case by (simp add: initial_ime_def)
  next
    case (step l s m s')
    then show ?case using does_sends [OF step.hyps(2)] by (simp add: sends_def sent_ids_append)
  qed
  moreover have "ime_inv s" using ime_inv_reached run_reached [OF assms] by blast
  ultimately show ?thesis by (cases "im_composition s") (auto simp: ime_inv_def)
qed

text \<open>A word is composed behind what the field has and sent when it ends.\<close>

definition example_composing :: ime where
  "example_composing = (compositionstart 1 [] None (initial_ime\<lparr>im_value := js ''a''\<rparr>))\<lparr>im_value := js ''abc''\<rparr>"

theorem compositions_sent_once_witness:
  "im_input (finalizeComposition False example_composing) = [js ''bc'']"
proof -
  let ?c = "\<lparr>co_id = 1, co_start = 1\<rparr>"
  have 1: "ime_run [] (initial_ime\<lparr>im_value := js ''a''\<rparr>)" using ime_run.step [OF ime_run.start ime_does.edits] by simp
  have 2: "ime_run [] (compositionstart 1 [] None (initial_ime\<lparr>im_value := js ''a''\<rparr>))"
    using ime_run.step [OF 1 ime_does.starts [of _ 1 "[]" None]] by (simp add: initial_ime_def due_def)
  have 3: "ime_run [] example_composing" unfolding example_composing_def using ime_run.step [OF 2 ime_does.edits] by simp
  have d: "\<not> im_disposed example_composing" "due (im_composition example_composing) example_composing = [OfComposition ?c [] (js ''abc'')]"
    by (simp_all add: example_composing_def compositionstart_def initial_ime_def due_def Let_def)
  have 4: "ime_run [OfComposition ?c [] (js ''abc'')] (finalizeComposition False example_composing)"
    using ime_run.step [OF 3 ime_does.ends [OF d(1), of False]] by (simp add: d(2))
  show ?thesis using compositions_sent_once [OF 4] by (simp add: js_def)
qed

end
