(* ===== verification/SavedCommands.thy ===== *)
theory SavedCommands
  imports JsBase
begin

text \<open>
  What a window keeps in the local storage for its terminals: the library of commands
  (\<^verbatim>\<open>src/features/terminal/useSavedSshCommands.ts\<close>) and the panels that are open
  (\<^verbatim>\<open>src/features/terminal/useTerminalPanelPreferences.ts\<close>). A stored text is given as the JSON value it
  parses to, \<open>None\<close> when reading or parsing it throws; a missing text is read as an empty list or \<^verbatim>\<open>null\<close>.
\<close>

section \<open>Saved commands\<close>

record saved_command =
  sv_command :: jsstr
  sv_id :: jsstr
  sv_updatedAt :: jsnum

definition maximumSavedCommands :: nat where "maximumSavedCommands = 100"

definition saved_command_of :: "json \<Rightarrow> saved_command option" where
  "saved_command_of item =
     (case (json_get ''id'' item, json_get ''command'' item, json_get ''updatedAt'' item) of
        (Some (JStr i), Some (JStr command), Some (JNum n)) \<Rightarrow>
          if js_trim command \<noteq> [] then Some \<lparr>sv_command = command, sv_id = i, sv_updatedAt = n\<rparr> else None
      | _ \<Rightarrow> None)"

definition readSavedCommands :: "json option \<Rightarrow> saved_command list" where
  "readSavedCommands stored =
     (case stored of
        Some (JArr items) \<Rightarrow> take maximumSavedCommands (List.map_filter saved_command_of items)
      | _ \<Rightarrow> [])"

text \<open>What the effect stores.\<close>

definition command_json :: "saved_command \<Rightarrow> json" where
  "command_json c = JObj [(js ''command'', JStr (sv_command c)), (js ''id'', JStr (sv_id c)), (js ''updatedAt'', JNum (sv_updatedAt c))]"

definition stored_commands :: "saved_command list \<Rightarrow> json" where
  "stored_commands cs = JArr (map command_json cs)"

text \<open>\<open>newId\<close> is the result of \<^verbatim>\<open>commandId\<close>, \<open>now\<close> the clock.\<close>

definition addCommand :: "jsstr \<Rightarrow> jsnum \<Rightarrow> jsstr \<Rightarrow> saved_command list \<Rightarrow> saved_command list" where
  "addCommand newId now v current =
     (let command = js_trim v
      in if command = [] then current
         else (let next =
                 (case find (\<lambda>c. sv_command c = command) current of
                    Some existing \<Rightarrow> existing\<lparr>sv_updatedAt := now\<rparr> # filter (\<lambda>c. sv_id c \<noteq> sv_id existing) current
                  | None \<Rightarrow> \<lparr>sv_command = command, sv_id = newId, sv_updatedAt = now\<rparr> # current)
               in take maximumSavedCommands next))"

definition updateCommand :: "jsnum \<Rightarrow> jsstr \<Rightarrow> jsstr \<Rightarrow> saved_command list \<Rightarrow> saved_command list" where
  "updateCommand now commandIdValue v current =
     (let command = js_trim v
      in if command = [] then current
         else map (\<lambda>c. if sv_id c = commandIdValue then c\<lparr>sv_command := command, sv_updatedAt := now\<rparr> else c) current)"

definition removeCommand :: "jsstr \<Rightarrow> saved_command list \<Rightarrow> saved_command list" where
  "removeCommand commandIdValue current = filter (\<lambda>c. sv_id c \<noteq> commandIdValue) current"

definition commands_ok :: "saved_command list \<Rightarrow> bool" where
  "commands_ok cs \<longleftrightarrow>
     length cs \<le> maximumSavedCommands \<and> distinct (map sv_id cs) \<and> (\<forall>c \<in> set cs. js_trim (sv_command c) \<noteq> [])"

inductive library_step :: "saved_command list \<Rightarrow> saved_command list \<Rightarrow> bool" where
  add: "newId \<notin> sv_id ` set cs \<Longrightarrow> library_step cs (addCommand newId now v cs)"
| update: "library_step cs (updateCommand now i v cs)"
| remove: "library_step cs (removeCommand i cs)"

lemma find_set: "find P xs = Some x \<Longrightarrow> x \<in> set xs \<and> P x"
  by (rule find_Some_set)

lemma distinct_take_ids: "distinct (map f xs) \<Longrightarrow> distinct (map f (take n xs))"
  by (metis distinct_take take_map)

lemma commands_ok_add:
  assumes "commands_ok cs" "newId \<notin> sv_id ` set cs"
  shows "commands_ok (addCommand newId now v cs)"
proof (cases "js_trim v = []")
  case False
  define next' where "next' = (case find (\<lambda>c. sv_command c = js_trim v) cs of
      Some existing \<Rightarrow> existing\<lparr>sv_updatedAt := now\<rparr> # filter (\<lambda>c. sv_id c \<noteq> sv_id existing) cs
    | None \<Rightarrow> \<lparr>sv_command = js_trim v, sv_id = newId, sv_updatedAt = now\<rparr> # cs)"
  have "distinct (map sv_id next') \<and> (\<forall>c \<in> set next'. js_trim (sv_command c) \<noteq> [])"
  proof (cases "find (\<lambda>c. sv_command c = js_trim v) cs")
    case None
    then show ?thesis using assms False by (auto simp: next'_def commands_ok_def)
  next
    case (Some e)
    then have "js_trim (sv_command e) \<noteq> []" using find_set [OF Some] False by simp
    moreover have "distinct (map sv_id (filter (\<lambda>c. sv_id c \<noteq> sv_id e) cs))"
      using assms(1) by (simp add: commands_ok_def distinct_map_filter)
    ultimately show ?thesis using assms(1) Some by (auto simp: next'_def commands_ok_def)
  qed
  moreover have "addCommand newId now v cs = take maximumSavedCommands next'"
    using False by (simp add: addCommand_def next'_def Let_def)
  ultimately show ?thesis by (auto simp: commands_ok_def distinct_take_ids dest: in_set_takeD)
qed (use assms in \<open>simp add: addCommand_def\<close>)

lemma commands_ok_step: "library_step cs cs' \<Longrightarrow> commands_ok cs \<Longrightarrow> commands_ok cs'"
proof (induction rule: library_step.induct)
  case (add newId cs now v)
  then show ?case by (simp add: commands_ok_add)
next
  case (update cs now i v)
  have "map sv_id (updateCommand now i v cs) = map sv_id cs" by (simp add: updateCommand_def Let_def comp_def if_distrib cong: if_cong)
  then show ?case using update by (auto simp: commands_ok_def updateCommand_def Let_def split: if_splits)
next
  case (remove cs i)
  then show ?case by (auto simp: commands_ok_def removeCommand_def distinct_map_filter intro: order_trans [OF length_filter_le])
qed

lemma read_stored:
  assumes "commands_ok cs"
  shows "readSavedCommands (Some (stored_commands cs)) = cs"
proof -
  have one: "saved_command_of (command_json c) = Some c" if "js_trim (sv_command c) \<noteq> []" for c
    using that by (simp add: saved_command_of_def command_json_def js_def)
  have "List.map_filter saved_command_of (map command_json xs) = xs" if "\<forall>c \<in> set xs. js_trim (sv_command c) \<noteq> []" for xs
    using that one by (induction xs) (simp_all add: map_filter_simps)
  then show ?thesis using assms by (simp add: readSavedCommands_def stored_commands_def commands_ok_def)
qed

text \<open>
  C34. In every library that adding, changing and removing lead to, the commands have ids of their own, none is
  blank, there are at most a hundred, and the next window reads back exactly what this one stored.
\<close>

theorem command_library:
  assumes "library_step\<^sup>*\<^sup>* [] cs"
  shows "length cs \<le> 100 \<and> distinct (map sv_id cs) \<and> (\<forall>c \<in> set cs. js_trim (sv_command c) \<noteq> [])
    \<and> readSavedCommands (Some (stored_commands cs)) = cs"
proof -
  have "commands_ok cs" using assms
  proof (induction rule: rtranclp_induct)
    case base
    show ?case by (simp add: commands_ok_def)
  qed (rule commands_ok_step)
  then show ?thesis using read_stored by (simp add: commands_ok_def maximumSavedCommands_def)
qed

definition example_library :: "saved_command list" where
  "example_library = addCommand (js ''1'') (Fin 0) (js ''ls'') []"

theorem command_library_witness:
  "readSavedCommands (Some (stored_commands example_library)) = example_library \<and> distinct (map sv_id example_library)"
proof -
  have "library_step [] example_library" unfolding example_library_def by (rule library_step.add) simp
  from command_library [OF r_into_rtranclp [of library_step, OF this]] show ?thesis by simp
qed

section \<open>Panels\<close>

record panel_preferences =
  pp_command :: bool
  pp_sftp :: bool
  pp_status :: bool

definition default_preferences :: panel_preferences where
  "default_preferences = \<lparr>pp_command = False, pp_sftp = True, pp_status = False\<rparr>"

definition json_bool :: "json option \<Rightarrow> bool \<Rightarrow> bool" where
  "json_bool v fallback = (case v of Some (JBool b) \<Rightarrow> b | _ \<Rightarrow> fallback)"

definition readTerminalPanelPreferences :: "json option \<Rightarrow> panel_preferences" where
  "readTerminalPanelPreferences stored =
     (case stored of
        Some v \<Rightarrow> \<lparr>pp_command = json_bool (json_get ''command'' v) (pp_command default_preferences),
                   pp_sftp = json_bool (json_get ''sftp'' v) (pp_sftp default_preferences),
                   pp_status = json_bool (json_get ''status'' v) (pp_status default_preferences)\<rparr>
      | None \<Rightarrow> default_preferences)"

definition writeTerminalPanelPreferences :: "panel_preferences \<Rightarrow> json" where
  "writeTerminalPanelPreferences p =
     JObj [(js ''command'', JBool (pp_command p)), (js ''sftp'', JBool (pp_sftp p)), (js ''status'', JBool (pp_status p))]"

lemma preferences_back: "readTerminalPanelPreferences (Some (writeTerminalPanelPreferences p)) = p"
  by (simp add: readTerminalPanelPreferences_def writeTerminalPanelPreferences_def json_bool_def js_def)

end
