(* ===== verification/TerminalSyntax.thy ===== *)
theory TerminalSyntax
  imports TerminalText
begin

text \<open>
  The colours of the text of a terminal row (\<^verbatim>\<open>src/features/terminal/terminalSyntaxHighlight.ts\<close>):
  which language a command shows, which language a line looks like, and the spans of a line in a language.
\<close>

section \<open>Languages and spans\<close>

datatype TerminalSyntaxLanguage = LangC | LangCpp | LangCss | LangGo | LangHtml | LangJava | LangJavascript | LangJson
  | LangPython | LangRust | LangShell | LangSql | LangToml | LangTypescript | LangYaml

datatype TerminalSyntaxTone = CommentTone | CommandTone | KeywordTone | NumberTone | PropertyTone | StringTone | VariableTone

record TerminalSyntaxSpan =
  sp_end :: nat
  sp_start :: nat
  sp_tone :: TerminalSyntaxTone

section \<open>Pieces of patterns\<close>

definition tx :: "string \<Rightarrow> rx" where "tx t = lit (js t)"
definition txi :: "string \<Rightarrow> rx" where "txi t = lit_i (js t)"
definition chars_rx :: "string \<Rightarrow> rx" where "chars_rx t = one_of (js t)"
definition spaces :: rx where "spaces = plus space_rx"
definition maybe_spaces :: rx where "maybe_spaces = Star space_rx"
definition first_rx :: rx where "first_rx = Alt letter_rx (tx ''_'')"
definition ident_rx :: rx where "ident_rx = Seq first_rx (Star word_rx)"
definition js_ident_rx :: rx where "js_ident_rx = Seq (Alt letter_rx (chars_rx ''_$'')) (Star (Alt word_rx (tx ''$'')))"
definition dotted_rx :: rx where "dotted_rx = Alt word_rx (tx ''.'')"
definition key_rx :: rx where "key_rx = Seq first_rx (Star (Alt word_rx (chars_rx ''.-'')))"
definition quotes_rx :: rx where "quotes_rx = one_of [34, 39]"
definition in_parens_rx :: rx where "in_parens_rx = rseq [tx ''('', Star (none_of [41]), tx '')'']"
definition decimal_rx :: rx where "decimal_rx = Seq (plus digit_rx) (opt (Seq (tx ''.'') (plus digit_rx)))"
definition hex_rx :: rx where "hex_rx = ralt [digit_rx, between 97 102, between 65 70]"
definition whole :: "rx \<Rightarrow> rx" where "whole r = rseq [WordEdge, r, WordEdge]"

section \<open>The language of a path and of a command\<close>

definition path_suffixes :: "(rx \<times> TerminalSyntaxLanguage) list" where
  "path_suffixes =
     [(rseq [tx ''.'', opt (words [''ba'', ''z'', ''k'']), tx ''sh'', AtEnd], LangShell),
      (rseq [tx ''.json'', opt (tx ''c''), AtEnd], LangJson),
      (rseq [tx ''.y'', opt (tx ''a''), tx ''ml'', AtEnd], LangYaml),
      (ralt [rseq [tx ''.'', words [''toml'', ''ini'', ''conf'', ''env''], AtEnd],
             rseq [Alt AtStart (tx ''/''), tx ''.env'', Alt (tx ''.'') AtEnd]], LangToml),
      (rseq [tx ''.py'', AtEnd], LangPython),
      (rseq [tx ''.'', words [''js'', ''jsx'', ''mjs'', ''cjs''], AtEnd], LangJavascript),
      (rseq [tx ''.'', words [''ts'', ''tsx'', ''mts'', ''cts''], AtEnd], LangTypescript),
      (rseq [tx ''.rs'', AtEnd], LangRust),
      (rseq [tx ''.go'', AtEnd], LangGo),
      (rseq [tx ''.java'', AtEnd], LangJava),
      (rseq [tx ''.c'', AtEnd], LangC),
      (rseq [tx ''.'', words [''cc'', ''cpp'', ''cxx'', ''h'', ''hh'', ''hpp''], AtEnd], LangCpp),
      (rseq [tx ''.css'', AtEnd], LangCss),
      (rseq [tx ''.'', Alt (Seq (tx ''htm'') (opt (tx ''l''))) (words [''xml'', ''svg'']), AtEnd], LangHtml),
      (rseq [tx ''.sql'', AtEnd], LangSql)]"

definition languageFromPath :: "jsstr \<Rightarrow> TerminalSyntaxLanguage option" where
  "languageFromPath path =
     (let normalized = rx_replace_first (rseq [chars_rx ''),:'', AtEnd]) [] (js_lower path)
      in map_option snd (find (\<lambda>(r, language). rx_test r normalized) path_suffixes))"

definition displayedFileCommandPattern :: rx where
  "displayedFileCommandPattern =
     rseq [ralt [AtStart, tx ''&&'', tx ''||'', tx '';'', tx ''|'', Seq (one_of [36, 35, 0x276F]) spaces],
           maybe_spaces, opt (Seq (txi ''sudo'') spaces),
           words_i [''awk'', ''bat'', ''batcat'', ''cat'', ''head'', ''less'', ''more'', ''nl'', ''sed'', ''tail''],
           WordEdge, Cap 1 (Star (none_of (js '';&|'')))]"

definition candidate_rx :: rx where
  "candidate_rx = ralt [rseq [lit [34], plus (none_of [34]), lit [34]], rseq [lit [39], plus (none_of [39]), lit [39]], plus nonspace_rx]"

definition plain_count_rx :: rx where "plain_count_rx = rseq [AtStart, opt (tx ''+''), plus digit_rx, AtEnd]"

text \<open>The arguments of one command, the last one first; options and counts are passed over.\<close>

definition candidate_language :: "jsstr \<Rightarrow> TerminalSyntaxLanguage option" where
  "candidate_language c =
     (let candidate = rx_replace_all quote_rx [] c
      in if prefix [45] candidate \<or> rx_test plain_count_rx candidate then None else languageFromPath candidate)"

definition first_of :: "('a \<Rightarrow> 'b option) \<Rightarrow> 'a list \<Rightarrow> 'b option" where
  "first_of f xs = (case find (\<lambda>x. f x \<noteq> None) xs of Some x \<Rightarrow> f x | None \<Rightarrow> None)"

definition arguments_language :: "jsstr \<Rightarrow> TerminalSyntaxLanguage option" where
  "arguments_language arguments =
     first_of candidate_language (rev (map (match_text arguments) (rx_all candidate_rx arguments)))"

definition detectDisplayedFileLanguage :: "jsstr \<Rightarrow> TerminalSyntaxLanguage option" where
  "detectDisplayedFileLanguage command =
     first_of (\<lambda>m. case group command m 1 of Some arguments \<Rightarrow> arguments_language arguments | None \<Rightarrow> None)
       (rx_all displayedFileCommandPattern command)"

section \<open>The language a line looks like\<close>

definition shebang :: "rx \<Rightarrow> rx" where
  "shebang r = rseq [AtStart, tx ''#!'', Star any_rx, WordEdge, r, WordEdge]"

definition json_line :: rx where
  "json_line = Alt
     (rseq [AtStart, tx ''{'', maybe_spaces, Alt (lit [34]) AtEnd])
     (rseq [AtStart, tx ''['', maybe_spaces, ralt [one_of [123, 34, 45], digit_rx, tx ''true'', tx ''false'', tx ''null'', AtEnd]])"

definition html_line :: rx where
  "html_line = Seq AtStart (ralt
     [rseq [txi ''<!doctype'', spaces, txi ''html''], Seq (txi ''<html'') WordEdge, Seq (txi ''<?xml'') WordEdge,
      rseq [tx ''<'', letter_rx, Star (Alt word_rx (chars_rx '':-'')), ralt [space_rx, tx ''>'', tx ''/'']]])"

definition go_line :: rx where
  "go_line = Seq AtStart (Alt
     (rseq [txi ''package'', spaces, ident_rx, maybe_spaces, opt (Seq (tx ''//'') (Star any_rx)), AtEnd])
     (rseq [txi ''func'', spaces, opt (Seq in_parens_rx maybe_spaces), ident_rx, maybe_spaces, tx ''('']))"

definition rust_line :: rx where
  "rust_line = Seq AtStart (ralt
     [rseq [tx ''use'', spaces, words [''std'', ''crate'', ''super'', ''self''], tx ''::''],
      rseq [opt (Seq (tx ''pub'') spaces), tx ''fn'', spaces, ident_rx, maybe_spaces, tx ''(''],
      rseq [opt (Seq (tx ''pub'') spaces), words [''struct'', ''enum'', ''trait'', ''impl''], spaces, ident_rx]])"

definition python_line :: rx where
  "python_line = Seq AtStart (ralt
     [rseq [tx ''from'', spaces, plus dotted_rx, spaces, tx ''import'', spaces],
      rseq [tx ''import'', spaces, plus dotted_rx, opt (rseq [spaces, tx ''as'', spaces, plus word_rx]), maybe_spaces, AtEnd],
      rseq [opt (Seq (tx ''async'') spaces), tx ''def'', spaces, plus word_rx, maybe_spaces, tx ''(''],
      rseq [tx ''class'', spaces, plus word_rx, opt in_parens_rx, maybe_spaces, tx '':'']])"

definition typescript_line :: rx where
  "typescript_line =
     rseq [AtStart, words [''interface'', ''namespace'', ''type''], spaces, js_ident_rx, ralt [space_rx, tx ''='', tx ''<'']]"

definition javascript_line :: rx where
  "javascript_line = Seq AtStart (ralt
     [rseq [tx ''import'', spaces, plus any_rx, spaces, tx ''from'', spaces, quotes_rx],
      rseq [tx ''export'', spaces, opt (Seq (tx ''default'') spaces)],
      rseq [words [''const'', ''let'', ''var''], spaces, js_ident_rx, maybe_spaces, tx ''=''],
      rseq [opt (Seq (tx ''async'') spaces), tx ''function'', spaces, js_ident_rx, maybe_spaces, tx ''('']])"

definition java_line :: rx where
  "java_line = Seq AtStart (ralt
     [rseq [tx ''package'', spaces, plus dotted_rx, maybe_spaces, tx '';''],
      rseq [tx ''import'', spaces, tx ''java.''],
      rseq [tx ''public'', spaces, opt (Alt (Seq (tx ''abstract'') spaces) (Seq (tx ''final'') spaces)),
            words [''class'', ''interface'', ''enum'', ''record''], spaces, plus word_rx]])"

definition include_line :: rx where
  "include_line =
     rseq [AtStart, tx ''#'', maybe_spaces, tx ''include'', maybe_spaces, one_of [60, 34], plus (none_of [62, 34]), one_of [62, 34]]"

definition cpp_include :: rx where
  "cpp_include = Alt (words [''iostream'', ''vector'', ''string'', ''memory'', ''unordered_''])
     (Seq (tx ''.hpp'') (one_of [62, 34]))"

definition shell_line :: rx where
  "shell_line = Seq AtStart (ralt
     [rseq [tx ''if'', spaces, tx ''[''],
      rseq [tx ''if'', spaces, tx ''[[''],
      rseq [opt (Seq (tx ''export'') spaces), ident_rx, tx ''=''],
      rseq [words [''for'', ''while''], spaces, plus any_rx, opt (tx '';''), maybe_spaces, tx ''do'', WordEdge],
      ralt [rseq [tx ''case'', spaces, plus any_rx, spaces, tx ''in''],
            rseq [tx ''function'', spaces, plus word_rx],
            rseq [plus word_rx, maybe_spaces, tx ''()'', maybe_spaces, tx ''{'']]])"

definition yaml_line :: rx where
  "yaml_line = Seq AtStart (ralt
     [rseq [tx ''---'', maybe_spaces, AtEnd],
      Seq (tx ''%YAML'') WordEdge,
      rseq [key_rx, tx '':'', spaces, Alt (none_of [58, 61]) AtEnd]])"

definition toml_line :: rx where
  "toml_line = Seq AtStart (Alt
     (rseq [tx ''['', opt (tx ''[''), key_rx, opt (tx '']''), tx '']''])
     (rseq [key_rx, maybe_spaces, tx ''='', maybe_spaces,
            ralt [one_of [39, 34, 91, 123], digit_rx, Seq (tx ''true'') WordEdge, Seq (tx ''false'') WordEdge]]))"

definition sql_line :: rx where
  "sql_line = rseq [AtStart,
     ralt [txi ''select'', rseq [txi ''insert'', spaces, txi ''into''], txi ''update'',
           rseq [txi ''delete'', spaces, txi ''from''], rseq [txi ''create'', spaces, txi ''table''],
           rseq [txi ''alter'', spaces, txi ''table''], txi ''with''], WordEdge]"

definition css_line :: rx where
  "css_line = Seq AtStart (Alt
     (rseq [tx ''@'', words [''media'', ''supports'', ''keyframes'', ''font-face''], WordEdge])
     (rseq [ralt [tx ''.'', tx ''#'', Seq (tx '':root'') WordEdge], plus (Alt word_rx (tx ''-'')), Star (none_of [123, 125]), tx ''{'']))"

definition inferDisplayedContentLanguage :: "jsstr \<Rightarrow> TerminalSyntaxLanguage option" where
  "inferDisplayedContentLanguage line =
     (let value = js_trim line
      in if value = [] then None
         else if rx_test (shebang (Seq (opt (words_i [''ba'', ''z'', ''k''])) (txi ''sh''))) value then Some LangShell
         else if rx_test (shebang (Seq (txi ''python'') (Star digit_rx))) value then Some LangPython
         else if rx_test (shebang (words_i [''node'', ''deno'', ''bun''])) value then Some LangJavascript
         else if rx_test json_line value then Some LangJson
         else if rx_test html_line value then Some LangHtml
         else if rx_test go_line value then Some LangGo
         else if rx_test rust_line value then Some LangRust
         else if rx_test python_line value then Some LangPython
         else if rx_test typescript_line value then Some LangTypescript
         else if rx_test javascript_line value then Some LangJavascript
         else if rx_test java_line value then Some LangJava
         else if rx_test include_line value then Some (if rx_test cpp_include value then LangCpp else LangC)
         else if rx_test shell_line value then Some LangShell
         else if rx_test yaml_line value then Some LangYaml
         else if rx_test toml_line value then Some LangToml
         else if rx_test sql_line value then Some LangSql
         else if rx_test css_line value then Some LangCss
         else None)"

section \<open>Spans\<close>

definition overlapsAny :: "nat \<Rightarrow> nat \<Rightarrow> TerminalSyntaxSpan list \<Rightarrow> bool" where
  "overlapsAny st en spans \<longleftrightarrow> (\<exists>s\<in>set spans. st < sp_end s \<and> en > sp_start s)"

definition span_of :: "TerminalSyntaxTone \<Rightarrow> rx_match \<Rightarrow> TerminalSyntaxSpan" where
  "span_of tone m = \<lparr>sp_end = rm_end m, sp_start = rm_start m, sp_tone = tone\<rparr>"

text \<open>The matches of a global pattern, and of the one pattern that is not global, of which there is one.\<close>

definition add_spans :: "rx_match list \<Rightarrow> TerminalSyntaxTone \<Rightarrow> TerminalSyntaxSpan list \<Rightarrow> TerminalSyntaxSpan list \<Rightarrow> TerminalSyntaxSpan list" where
  "add_spans ms tone spans blocked =
     spans @ map (span_of tone) (filter (\<lambda>m. \<not> overlapsAny (rm_start m) (rm_end m) blocked) ms)"

definition addMatches :: "jsstr \<Rightarrow> rx \<Rightarrow> TerminalSyntaxTone \<Rightarrow> TerminalSyntaxSpan list \<Rightarrow> TerminalSyntaxSpan list \<Rightarrow> TerminalSyntaxSpan list" where
  "addMatches s pattern tone spans blocked = add_spans (rx_all pattern s) tone spans blocked"

definition addFirstMatch :: "jsstr \<Rightarrow> rx \<Rightarrow> TerminalSyntaxTone \<Rightarrow> TerminalSyntaxSpan list \<Rightarrow> TerminalSyntaxSpan list \<Rightarrow> TerminalSyntaxSpan list" where
  "addFirstMatch s pattern tone spans blocked =
     add_spans (case rx_exec pattern s 0 of Some m \<Rightarrow> [m] | None \<Rightarrow> []) tone spans blocked"

definition addWords :: "jsstr \<Rightarrow> string list \<Rightarrow> TerminalSyntaxTone \<Rightarrow> TerminalSyntaxSpan list \<Rightarrow> TerminalSyntaxSpan list \<Rightarrow> TerminalSyntaxSpan list" where
  "addWords s ws tone spans blocked =
     (if ws = [] then spans else addMatches s (whole (words_i ws)) tone spans blocked)"

definition quoted :: "code_unit \<Rightarrow> rx" where
  "quoted q = rseq [lit [q], Star (Alt (Seq (lit [92]) any_rx) (none_of [q, 92])), lit [q]]"

definition stringSpans :: "jsstr \<Rightarrow> TerminalSyntaxSpan list" where
  "stringSpans s = addMatches s (ralt [quoted 34, quoted 39, quoted 96]) StringTone [] []"

text \<open>Where the comment of a line starts: quoted text is passed over, with its escapes.\<close>

fun comment_from :: "jsstr \<Rightarrow> code_unit option \<Rightarrow> nat \<Rightarrow> jsstr \<Rightarrow> nat option" where
  "comment_from token quote i [] = None"
| "comment_from token (Some q) i (c # s) =
     (if c = 92 then comment_from token (Some q) (i + 2) (drop 1 s)
      else comment_from token (if c = q then None else Some q) (i + 1) s)"
| "comment_from token None i (c # s) =
     (if c \<in> {34, 39, 96} then comment_from token (Some c) (i + 1) s
      else if prefix token (c # s) then Some i
      else comment_from token None (i + 1) s)"

definition findCommentStart :: "jsstr \<Rightarrow> string \<Rightarrow> nat option" where
  "findCommentStart s token = comment_from (js token) None 0 s"

definition removeStartingAt :: "nat \<Rightarrow> TerminalSyntaxSpan list \<Rightarrow> TerminalSyntaxSpan list" where
  "removeStartingAt st spans = filter (\<lambda>s. \<not> sp_start s \<ge> st) spans"

definition with_comment :: "jsstr \<Rightarrow> string \<Rightarrow> TerminalSyntaxSpan list \<Rightarrow> TerminalSyntaxSpan list" where
  "with_comment s token spans =
     (case findCommentStart s token of
        None \<Rightarrow> spans
      | Some st \<Rightarrow> removeStartingAt st spans @ [\<lparr>sp_end = length s, sp_start = st, sp_tone = CommentTone\<rparr>])"

definition toned :: "TerminalSyntaxTone set \<Rightarrow> TerminalSyntaxSpan list \<Rightarrow> TerminalSyntaxSpan list" where
  "toned tones spans = filter (\<lambda>s. sp_tone s \<in> tones) spans"

subsection \<open>The spans of a line in each language\<close>

definition shellKeywords :: "string list" where
  "shellKeywords = [''case'', ''do'', ''done'', ''elif'', ''else'', ''esac'', ''fi'', ''for'', ''function'', ''if'', ''in'',
     ''select'', ''then'', ''time'', ''until'', ''while'']"

definition shellCommands :: "string list" where
  "shellCommands = [''break'', ''cd'', ''continue'', ''echo'', ''eval'', ''exec'', ''exit'', ''export'', ''local'', ''printf'',
     ''read'', ''readonly'', ''return'', ''set'', ''shift'', ''source'', ''test'', ''trap'', ''typeset'', ''unset'']"

fun languageKeywords :: "TerminalSyntaxLanguage \<Rightarrow> string list" where
  "languageKeywords LangC = [''auto'', ''break'', ''case'', ''char'', ''const'', ''continue'', ''default'', ''do'', ''double'', ''else'',
     ''enum'', ''extern'', ''float'', ''for'', ''goto'', ''if'', ''inline'', ''int'', ''long'', ''register'',
     ''restrict'', ''return'', ''short'', ''signed'', ''sizeof'', ''static'', ''struct'', ''switch'', ''typedef'',
     ''union'', ''unsigned'', ''void'', ''volatile'', ''while'']"
| "languageKeywords LangCpp = [''alignas'', ''auto'', ''bool'', ''break'', ''case'', ''catch'', ''class'', ''const'', ''constexpr'',
     ''continue'', ''default'', ''delete'', ''do'', ''else'', ''enum'', ''explicit'', ''export'', ''extern'',
     ''false'', ''for'', ''friend'', ''if'', ''inline'', ''namespace'', ''new'', ''nullptr'', ''private'',
     ''protected'', ''public'', ''return'', ''static'', ''struct'', ''switch'', ''template'', ''this'', ''throw'',
     ''true'', ''try'', ''typename'', ''union'', ''using'', ''virtual'', ''void'', ''while'']"
| "languageKeywords LangGo = [''break'', ''case'', ''chan'', ''const'', ''continue'', ''default'', ''defer'', ''else'', ''fallthrough'',
     ''for'', ''func'', ''go'', ''goto'', ''if'', ''import'', ''interface'', ''map'', ''package'', ''range'',
     ''return'', ''select'', ''struct'', ''switch'', ''type'', ''var'']"
| "languageKeywords LangJava = [''abstract'', ''boolean'', ''break'', ''case'', ''catch'', ''class'', ''const'', ''continue'', ''default'',
     ''do'', ''else'', ''enum'', ''extends'', ''final'', ''finally'', ''for'', ''if'', ''implements'', ''import'',
     ''instanceof'', ''interface'', ''native'', ''new'', ''package'', ''private'', ''protected'', ''public'',
     ''return'', ''static'', ''strictfp'', ''super'', ''switch'', ''synchronized'', ''this'', ''throw'', ''throws'',
     ''transient'', ''try'', ''void'', ''volatile'', ''while'']"
| "languageKeywords LangJavascript = [''async'', ''await'', ''break'', ''case'', ''catch'', ''class'', ''const'', ''continue'', ''debugger'',
     ''default'', ''delete'', ''do'', ''else'', ''export'', ''extends'', ''finally'', ''for'', ''from'',
     ''function'', ''get'', ''if'', ''import'', ''in'', ''instanceof'', ''let'', ''new'', ''of'', ''return'',
     ''set'', ''static'', ''super'', ''switch'', ''this'', ''throw'', ''try'', ''typeof'', ''var'', ''void'',
     ''while'', ''with'', ''yield'']"
| "languageKeywords LangPython = [''and'', ''as'', ''assert'', ''async'', ''await'', ''break'', ''case'', ''class'', ''continue'', ''def'',
     ''del'', ''elif'', ''else'', ''except'', ''False'', ''finally'', ''for'', ''from'', ''global'', ''if'',
     ''import'', ''in'', ''is'', ''lambda'', ''match'', ''None'', ''nonlocal'', ''not'', ''or'', ''pass'', ''raise'',
     ''return'', ''True'', ''try'', ''while'', ''with'', ''yield'']"
| "languageKeywords LangRust = [''as'', ''async'', ''await'', ''break'', ''const'', ''continue'', ''crate'', ''dyn'', ''else'', ''enum'',
     ''extern'', ''false'', ''fn'', ''for'', ''if'', ''impl'', ''in'', ''let'', ''loop'', ''match'', ''mod'',
     ''move'', ''mut'', ''pub'', ''ref'', ''return'', ''self'', ''Self'', ''static'', ''struct'', ''super'',
     ''trait'', ''true'', ''type'', ''unsafe'', ''use'', ''where'', ''while'']"
| "languageKeywords LangTypescript = [''abstract'', ''any'', ''as'', ''async'', ''await'', ''boolean'', ''break'', ''case'', ''catch'', ''class'',
     ''const'', ''continue'', ''declare'', ''default'', ''delete'', ''do'', ''else'', ''enum'', ''export'',
     ''extends'', ''finally'', ''for'', ''from'', ''function'', ''get'', ''if'', ''implements'', ''import'', ''in'',
     ''infer'', ''instanceof'', ''interface'', ''keyof'', ''let'', ''namespace'', ''never'', ''new'', ''number'',
     ''of'', ''private'', ''protected'', ''public'', ''readonly'', ''return'', ''set'', ''static'', ''string'',
     ''super'', ''switch'', ''this'', ''throw'', ''try'', ''type'', ''typeof'', ''unknown'', ''var'', ''void'',
     ''while'', ''yield'']"
| "languageKeywords _ = []"

definition sqlKeywords :: "string list" where
  "sqlKeywords = [''alter'', ''and'', ''as'', ''asc'', ''begin'', ''between'', ''by'', ''case'', ''create'', ''delete'', ''desc'',
     ''distinct'', ''drop'', ''else'', ''end'', ''exists'', ''from'', ''group'', ''having'', ''in'', ''insert'',
     ''into'', ''is'', ''join'', ''like'', ''limit'', ''not'', ''null'', ''on'', ''or'', ''order'', ''outer'',
     ''returning'', ''select'', ''set'', ''table'', ''then'', ''union'', ''update'', ''values'', ''when'', ''where'',
     ''with'']"

definition number_rx :: rx where
  "number_rx = whole (Alt (rseq [txi ''0x'', plus hex_rx]) decimal_rx)"

definition variable_rx :: rx where
  "variable_rx = Seq (tx ''$'')
     (ralt [rseq [tx ''{'', plus (none_of [125, 13, 10]), tx ''}''], ident_rx, Alt digit_rx (chars_rx ''@#?*!$-'')])"

definition shebang_start :: rx where "shebang_start = rseq [AtStart, maybe_spaces, tx ''#!'']"

definition codeSpans :: "jsstr \<Rightarrow> TerminalSyntaxLanguage \<Rightarrow> TerminalSyntaxSpan list" where
  "codeSpans s language =
     (let spans = with_comment s (if language = LangShell \<or> language = LangPython then ''#'' else ''//'') (stringSpans s);
          blocked = toned {CommentTone, StringTone} spans;
          spans = (if language = LangShell then
            (let spans = addWords s shellKeywords KeywordTone spans blocked;
                 spans = addWords s shellCommands CommandTone spans blocked;
                 spans = addMatches s variable_rx VariableTone spans (toned {CommentTone} spans)
             in if rx_test shebang_start s
                then spans @ [\<lparr>sp_end = length (trim_end js_space s), sp_start = the (index_of_from s (js ''#!'') 0), sp_tone = CommandTone\<rparr>]
                else spans)
            else addWords s (languageKeywords language) KeywordTone spans blocked)
      in addMatches s number_rx NumberTone spans blocked)"

definition property_name_rx :: rx where
  "property_name_rx = Seq (quoted 34) (Look (Seq maybe_spaces (tx '':'')))"

definition json_number_rx :: rx where
  "json_number_rx = rseq [opt (tx ''-''), WordEdge, decimal_rx,
     opt (rseq [txi ''e'', opt (chars_rx ''+-''), plus digit_rx]), WordEdge]"

definition jsonSpans :: "jsstr \<Rightarrow> TerminalSyntaxSpan list" where
  "jsonSpans s =
     (let spans = stringSpans s;
          spans = addMatches s property_name_rx PropertyTone spans [];
          spans = addMatches s (whole (words [''false'', ''null'', ''true''])) KeywordTone spans (toned {StringTone} spans)
      in addMatches s json_number_rx NumberTone spans (toned {StringTone} spans))"

definition key_pattern :: "TerminalSyntaxLanguage \<Rightarrow> rx" where
  "key_pattern language = rseq [AtStart, maybe_spaces, key_rx,
     Look (Seq maybe_spaces (tx (if language = LangYaml then '':'' else ''='')))]"

definition configurationSpans :: "jsstr \<Rightarrow> TerminalSyntaxLanguage \<Rightarrow> TerminalSyntaxSpan list" where
  "configurationSpans s language =
     (let spans = with_comment s ''#'' (stringSpans s);
          spans = addFirstMatch s (key_pattern language) PropertyTone spans [];
          blocked = toned {CommentTone, StringTone} spans;
          spans = addMatches s (whole (words_i [''false'', ''null'', ''true'', ''yes'', ''no'', ''on'', ''off''])) KeywordTone spans blocked
      in addMatches s (whole decimal_rx) NumberTone spans blocked)"

definition htmlSpans :: "jsstr \<Rightarrow> TerminalSyntaxSpan list" where
  "htmlSpans s =
     (let spans = stringSpans s;
          spans = addMatches s (rseq [tx ''<!--'', Lazy any_rx, Alt (tx ''-->'') AtEnd]) CommentTone spans [];
          spans = addMatches s (rseq [tx ''<'', opt (tx ''/''), letter_rx, Star (Alt word_rx (chars_rx '':-''))]) KeywordTone spans []
      in addMatches s (rseq [WordEdge, Alt letter_rx (chars_rx ''_:''), Star (Alt word_rx (chars_rx '':.-'')),
              Look (Seq maybe_spaces (tx ''=''))]) PropertyTone spans (toned {StringTone, CommentTone} spans))"

definition css_number_rx :: rx where
  "css_number_rx = Alt (rseq [tx ''#'', hex_rx, hex_rx, hex_rx, opt (Seq hex_rx (opt (Seq hex_rx (opt (Seq hex_rx (opt (Seq hex_rx (opt hex_rx)))))))) ])
     (rseq [WordEdge, decimal_rx, opt (words_i [''px'', ''rem'', ''em'', ''%'', ''s'', ''ms'', ''vh'', ''vw'']), WordEdge])"

definition cssSpans :: "jsstr \<Rightarrow> TerminalSyntaxSpan list" where
  "cssSpans s =
     (let spans = stringSpans s;
          spans = addMatches s (rseq [tx ''/*'', Lazy any_rx, Alt (tx ''*/'') AtEnd]) CommentTone spans [];
          spans = addMatches s (rseq [tx ''-'', opt (tx ''-''), letter_rx, Star (Alt word_rx (tx ''-'')),
              Look (Seq maybe_spaces (tx '':''))]) PropertyTone spans [];
          spans = addMatches s (Seq (tx ''@'') (plus (Alt letter_rx (tx ''-'')))) KeywordTone spans []
      in addMatches s css_number_rx NumberTone spans (toned {StringTone, CommentTone} spans))"

definition sqlSpans :: "jsstr \<Rightarrow> TerminalSyntaxSpan list" where
  "sqlSpans s =
     (let spans = with_comment s ''--'' (stringSpans s);
          spans = addWords s sqlKeywords KeywordTone spans (toned {StringTone, CommentTone} spans)
      in addMatches s (whole decimal_rx) NumberTone spans (toned {StringTone, CommentTone} spans))"

definition terminalSyntaxSpans :: "jsstr \<Rightarrow> TerminalSyntaxLanguage \<Rightarrow> TerminalSyntaxSpan list" where
  "terminalSyntaxSpans s language =
     (if language = LangJson then jsonSpans s
      else if language = LangYaml \<or> language = LangToml then configurationSpans s language
      else if language = LangHtml then htmlSpans s
      else if language = LangCss then cssSpans s
      else if language = LangSql then sqlSpans s
      else codeSpans s language)"


section \<open>Spans are pieces of the line\<close>

definition span_inside :: "nat \<Rightarrow> TerminalSyntaxSpan \<Rightarrow> bool" where
  "span_inside n s \<longleftrightarrow> sp_start s < sp_end s \<and> sp_end s \<le> n"

lemma least_units_ralt: "(\<And>r. r \<in> set rs \<Longrightarrow> k \<le> least_units r) \<Longrightarrow> k \<le> 1 \<Longrightarrow> k \<le> least_units (ralt rs)"
  by (induction rs rule: ralt.induct) auto

lemma least_units_rseq: "least_units (rseq rs) = sum_list (map least_units rs)"
  by (induction rs rule: rseq.induct) auto

lemma least_units_lit [simp]: "least_units (lit t) = length t" "least_units (lit_i t) = length t"
  by (simp_all add: lit_def lit_i_def least_units_rseq comp_def sum_list_triv)

lemma least_units_words:
  "[] \<notin> set ws \<Longrightarrow> 1 \<le> least_units (words_i ws)" "[] \<notin> set ws \<Longrightarrow> 1 \<le> least_units (words ws)"
  unfolding words_i_def words_def
  by (rule least_units_ralt; auto simp: Suc_le_eq)+

lemma add_spans_inside:
  assumes "list_all (span_inside n) spans" "\<And>m. m \<in> set ms \<Longrightarrow> rm_start m < rm_end m \<and> rm_end m \<le> n"
  shows "list_all (span_inside n) (add_spans ms tone spans blocked)"
  using assms by (auto simp: add_spans_def list_all_iff span_of_def span_inside_def)

lemma addMatches_inside:
  "list_all (span_inside (length s)) spans \<Longrightarrow> 1 \<le> least_units pattern
   \<Longrightarrow> list_all (span_inside (length s)) (addMatches s pattern tone spans blocked)"
  unfolding addMatches_def by (rule add_spans_inside) (auto dest!: rx_all_bounds)

lemma addFirstMatch_inside:
  "list_all (span_inside (length s)) spans \<Longrightarrow> 1 \<le> least_units pattern
   \<Longrightarrow> list_all (span_inside (length s)) (addFirstMatch s pattern tone spans blocked)"
  unfolding addFirstMatch_def by (rule add_spans_inside) (auto dest: rx_exec_bounds split: option.splits dest!: sym [of "Some _"])

lemma addWords_inside:
  "list_all (span_inside (length s)) spans \<Longrightarrow> [] \<notin> set ws
   \<Longrightarrow> list_all (span_inside (length s)) (addWords s ws tone spans blocked)"
  using least_units_words(1) [of ws] by (auto simp: addWords_def whole_def intro!: addMatches_inside)

lemma comment_from_inside: "comment_from token quote i s = Some k \<Longrightarrow> i \<le> k \<and> k < i + length s"
  by (induction token quote i s rule: comment_from.induct) (fastforce split: if_splits)+

lemma with_comment_inside:
  "list_all (span_inside (length s)) spans \<Longrightarrow> list_all (span_inside (length s)) (with_comment s token spans)"
  using comment_from_inside [of "js token" None 0 s]
  by (auto simp: with_comment_def findCommentStart_def removeStartingAt_def list_all_iff span_inside_def split: option.splits)

lemma stringSpans_inside: "list_all (span_inside (length s)) (stringSpans s)"
  unfolding stringSpans_def by (rule addMatches_inside) (simp_all add: quoted_def)

text \<open>What a fixed text matches, with or without regard to case.\<close>

lemma concat_map_single: "concat (map (ways Eps s) xs) = xs"
  by (induction xs) simp_all

lemma ways_rseq_Cons: "ways (rseq (r # rs)) s p = concat (map (ways (rseq rs) s) (ways r s p))"
  by (cases rs) (simp_all add: concat_map_single)

lemma ways_units:
  "ways (rseq (map (\<lambda>c. Unit (\<lambda>d. f d = f c)) t)) s p =
     (if map f (take (length t) (drop (fst p) s)) = map f t then [(fst p + length t, snd p)] else [])"
proof (induction t arbitrary: p)
  case (Cons c t)
  show ?case
  proof (cases "fst p < length s")
    case True
    then have "drop (fst p) s = s ! fst p # drop (Suc (fst p)) s" by (simp add: Cons_nth_drop_Suc)
    then show ?thesis using True Cons.IH [of "(Suc (fst p), snd p)"] by (simp add: ways_rseq_Cons del: rseq.simps)
  qed (simp add: ways_rseq_Cons del: rseq.simps)
qed simp

lemmas ways_lit = ways_units [of "\<lambda>c. c", folded lit_def, simplified]
lemmas ways_lit_i = ways_units [of ascii_upper, folded lit_i_def]

lemma trim_end_reaches: "k < length s \<Longrightarrow> \<not> P (s ! k) \<Longrightarrow> k < length (trim_end P s)"
  by (induction s rule: rev_induct) (auto simp: trim_end_def nth_append split: if_splits)

text \<open>The length a pattern takes at least, read from the pattern.\<close>

lemmas pattern_pieces = tx_def txi_def spaces_def maybe_spaces_def first_rx_def ident_rx_def key_rx_def decimal_rx_def
  hex_rx_def whole_def quoted_def plus_def opt_def chars_rx_def one_of_def none_of_def between_def digit_rx_def word_rx_def
  space_rx_def letter_rx_def any_rx_def

lemma one_unit_patterns [simp]:
  "least_units (chars_rx t) = 1" "least_units digit_rx = 1" "least_units letter_rx = 1" "least_units hex_rx = 1"
  "least_units word_rx = 1" "least_units first_rx = least_units (Alt letter_rx (tx ''_''))"
  "least_units (tx t) = length t" "least_units (txi t) = length t" "least_units (plus r) = least_units r" "least_units (opt r) = 0"
  "least_units (whole r) = least_units r" "least_units (quoted q) = 2"
  by (simp_all add: pattern_pieces)

lemma pattern_lengths [simp]:
  "least_units ident_rx = 1" "least_units key_rx = 1" "least_units decimal_rx = 1" "least_units number_rx = 1"
  "least_units variable_rx = 2" "least_units property_name_rx = 2" "least_units json_number_rx = 1"
  "1 \<le> least_units (key_pattern language)" "least_units css_number_rx = 1"
  by (simp_all add: ident_rx_def key_rx_def decimal_rx_def number_rx_def variable_rx_def property_name_rx_def json_number_rx_def
      key_pattern_def css_number_rx_def maybe_spaces_def)

lemma rx_test_ways: "rx_test r s \<Longrightarrow> \<exists>k q. k \<le> length s \<and> q \<in> set (ways r s (k, []))"
proof -
  assume "rx_test r s"
  then obtain k where k: "find (\<lambda>k. match_at r s k \<noteq> None) [0..<Suc (length s)] = Some k"
    by (auto simp: rx_test_def rx_exec_def simp del: upt_Suc split: option.splits)
  then have "k \<in> set [0..<Suc (length s)]" "match_at r s k \<noteq> None" using find_Some_set [OF k] by blast+
  then have "k \<le> length s" "hd (ways r s (k, [])) \<in> set (ways r s (k, []))"
    unfolding set_upt by (auto simp: match_at_def split: list.splits)
  then show ?thesis by blast
qed

lemma shebang_place:
  assumes "rx_test shebang_start s"
  shows "\<exists>k. index_of_from s (js ''#!'') 0 = Some k \<and> k < length (trim_end js_space s)"
proof -
  obtain j q where "j \<le> length s" "q \<in> set (ways shebang_start s (j, []))" using rx_test_ways [OF assms] by blast
  then obtain m where m: "m \<in> set (ways (Star space_rx) s (0, []))" "q \<in> set (ways (tx ''#!'') s m)"
    by (auto simp: shebang_start_def maybe_spaces_def simp del: ways.simps(5) split: if_splits)
  have "fst m \<le> length s" using ways_bounds [OF _ m(1)] by simp
  moreover have "prefix (js ''#!'') (drop (fst m) s)"
    using m(2) by (simp add: tx_def ways_lit split: if_splits) (metis take_is_prefix)
  ultimately obtain m where m: "prefix (js ''#!'') (drop m s)" "m \<le> length s" by blast
  then obtain k where k: "index_of_from s (js ''#!'') 0 = Some k"
    by (cases "index_of_from s (js ''#!'') 0") (auto simp: index_of_from_def find_None_iff less_Suc_eq_le simp del: upt_Suc)
  then have "prefix (js ''#!'') (drop k s)" using find_Some_set [OF k [unfolded index_of_from_def]] by blast
  then have "s ! k = 35" using index_of_from_bounds [OF k] by (auto simp: prefix_def js_def dest: arg_cong [of _ _ hd] simp: hd_drop_conv_nth)
  then show ?thesis using k index_of_from_bounds [OF k] by (auto intro!: trim_end_reaches simp: js_space_def)
qed

lemma languageKeywords_named: "[] \<notin> set (languageKeywords language)"
  by (cases language) simp_all

lemma span_inside_shebang: "k < length (trim_end js_space s) \<Longrightarrow>
    span_inside (length s) \<lparr>sp_end = length (trim_end js_space s), sp_start = k, sp_tone = tone\<rparr>"
  using length_dropWhile_le [of js_space "rev s"] by (simp add: span_inside_def trim_end_def)

lemma codeSpans_inside: "list_all (span_inside (length s)) (codeSpans s language)"
  using shebang_place [of s]
  by (auto simp: codeSpans_def Let_def shellKeywords_def shellCommands_def languageKeywords_named span_inside_shebang
      intro!: addMatches_inside addWords_inside with_comment_inside stringSpans_inside)

theorem terminalSyntaxSpans_inside:
  "list_all (span_inside (length s)) (terminalSyntaxSpans s language)"
  by (auto simp: terminalSyntaxSpans_def jsonSpans_def configurationSpans_def htmlSpans_def cssSpans_def sqlSpans_def Let_def
      least_units_words [simplified] pattern_lengths(8) [simplified] sqlKeywords_def codeSpans_inside
      intro!: addMatches_inside addFirstMatch_inside addWords_inside with_comment_inside stringSpans_inside)

section \<open>Numbers and keywords spare comments and quoted text\<close>

definition overlap :: "TerminalSyntaxSpan \<Rightarrow> TerminalSyntaxSpan \<Rightarrow> bool" where
  "overlap s t \<longleftrightarrow> sp_start t < sp_end s \<and> sp_start s < sp_end t"

abbreviation quiet :: "TerminalSyntaxTone set" where "quiet \<equiv> {CommentTone, StringTone}"

definition tidy :: "TerminalSyntaxTone set \<Rightarrow> TerminalSyntaxSpan list \<Rightarrow> bool" where
  "tidy K spans \<longleftrightarrow> (\<forall>s\<in>set spans. \<forall>t\<in>set spans. sp_tone s \<in> quiet \<longrightarrow> sp_tone t \<in> K \<longrightarrow> \<not> overlap s t)"

definition tones_of :: "TerminalSyntaxSpan list \<Rightarrow> TerminalSyntaxTone set" where
  "tones_of spans = sp_tone ` set spans"

lemma set_add_spans:
  "set (add_spans ms tone spans blocked) =
     set spans \<union> span_of tone ` {m \<in> set ms. \<not> overlapsAny (rm_start m) (rm_end m) blocked}"
  by (auto simp: add_spans_def)

lemma toned_add_spans: "tone \<notin> K \<Longrightarrow> toned K (add_spans ms tone spans blocked) = toned K spans"
  by (auto simp: toned_def add_spans_def span_of_def filter_empty_conv)

lemma tidy_add_blocked:
  "tidy K spans \<Longrightarrow> tone \<notin> quiet \<Longrightarrow> toned quiet spans = blocked \<Longrightarrow> tidy K (add_spans ms tone spans blocked)"
  by (auto simp: tidy_def set_add_spans span_of_def overlapsAny_def overlap_def toned_def)

lemma tidy_add_other:
  "tidy K spans \<Longrightarrow> tone \<notin> quiet \<Longrightarrow> tone \<notin> K \<Longrightarrow> tidy K (add_spans ms tone spans blocked)"
  by (auto simp: tidy_def set_add_spans span_of_def)

lemma tones_of_add_spans: "tones_of (add_spans ms tone spans blocked) \<subseteq> insert tone (tones_of spans)"
  by (auto simp: tones_of_def set_add_spans span_of_def)

lemma tidy_no_tones: "tones_of spans \<inter> K = {} \<Longrightarrow> tidy K spans"
  by (auto simp: tidy_def tones_of_def)

lemmas adds_defs = addMatches_def addFirstMatch_def

lemma addWords_cases: "addWords s ws tone spans blocked = spans \<or> (\<exists>ms. addWords s ws tone spans blocked = add_spans ms tone spans blocked)"
  by (auto simp: addWords_def addMatches_def)

lemma tones_of_strings: "tones_of (stringSpans s) \<subseteq> {StringTone}"
  unfolding stringSpans_def addMatches_def using tones_of_add_spans [of _ StringTone "[]" "[]"] by (auto simp: tones_of_def)

lemma tone_kept_out:
  "T \<notin> tones_of spans \<Longrightarrow> T \<noteq> tone \<Longrightarrow> T \<notin> tones_of (add_spans ms tone spans blocked)"
  "T \<noteq> StringTone \<Longrightarrow> T \<notin> tones_of (stringSpans s)"
  using tones_of_add_spans [of ms tone spans blocked] tones_of_strings [of s] by auto

lemma tidy_without: "T \<notin> tones_of spans \<Longrightarrow> tidy {T} spans"
  by (rule tidy_no_tones) simp

lemma tones_of_with_comment: "tones_of spans \<subseteq> quiet \<Longrightarrow> tones_of (with_comment s token spans) \<subseteq> quiet"
  by (auto simp: with_comment_def removeStartingAt_def tones_of_def split: option.splits)

lemma quiet_with_comment: "tones_of (with_comment s token (stringSpans s)) \<subseteq> quiet"
  by (rule tones_of_with_comment) (use tones_of_strings [of s] in auto)

text \<open>The steps of a language keep the tidiness and leave the comments and the quoted text as they are.\<close>

definition kept :: "TerminalSyntaxTone set \<Rightarrow> TerminalSyntaxSpan list \<Rightarrow> TerminalSyntaxSpan list \<Rightarrow> bool" where
  "kept K b spans \<longleftrightarrow> tidy K spans \<and> toned quiet spans = b"

lemma kept_start: "tones_of spans \<subseteq> quiet \<Longrightarrow> K \<inter> quiet = {} \<Longrightarrow> kept K (toned quiet spans) spans"
  unfolding kept_def by (auto intro: tidy_no_tones)

lemma kept_blocked: "kept K b spans \<Longrightarrow> tone \<notin> quiet \<Longrightarrow> kept K b (addMatches s r tone spans b)"
  unfolding kept_def adds_defs by (simp add: tidy_add_blocked toned_add_spans)

lemma kept_words: "kept K b spans \<Longrightarrow> tone \<notin> quiet \<Longrightarrow> kept K b (addWords s ws tone spans b)"
  by (simp add: addWords_def kept_blocked)

lemma kept_other:
  "kept K b spans \<Longrightarrow> tone \<notin> quiet \<Longrightarrow> tone \<notin> K \<Longrightarrow> kept K b (addMatches s r tone spans c)"
  "kept K b spans \<Longrightarrow> tone \<notin> quiet \<Longrightarrow> tone \<notin> K \<Longrightarrow> kept K b (addFirstMatch s r tone spans c)"
  unfolding kept_def adds_defs by (simp_all add: tidy_add_other toned_add_spans)

lemma kept_single:
  "kept K b spans \<Longrightarrow> tone \<notin> quiet \<Longrightarrow> tone \<notin> K \<Longrightarrow> kept K b (spans @ [\<lparr>sp_end = e, sp_start = st, sp_tone = tone\<rparr>])"
  unfolding kept_def by (auto simp: tidy_def toned_def)

lemma kept_now: "kept K b spans \<Longrightarrow> kept K (toned quiet spans) spans"
  by (simp add: kept_def)

abbreviation countable :: "TerminalSyntaxTone set" where "countable \<equiv> {NumberTone, KeywordTone}"

lemma quiet_flip: "{StringTone, CommentTone} = quiet"
  by auto

lemma codeSpans_tidy: "tidy countable (codeSpans s language)"
proof -
  define spans where "spans = with_comment s (if language = LangShell \<or> language = LangPython then ''#'' else ''//'') (stringSpans s)"
  define b where "b = toned quiet spans"
  have start: "kept countable b spans"
    unfolding b_def spans_def by (rule kept_start [OF quiet_with_comment]) simp
  have "kept countable b (codeSpans s language)"
    unfolding codeSpans_def Let_def spans_def [symmetric] b_def [symmetric]
    by (auto intro!: kept_blocked kept_words kept_single kept_other(1) start)
  then show ?thesis by (simp add: kept_def)
qed

lemma sqlSpans_tidy: "tidy countable (sqlSpans s)"
proof -
  define spans where "spans = with_comment s ''--'' (stringSpans s)"
  define b where "b = toned quiet spans"
  have start: "kept countable b spans"
    unfolding b_def spans_def by (rule kept_start [OF quiet_with_comment]) simp
  then have words: "kept countable b (addWords s sqlKeywords KeywordTone spans b)" by (rule kept_words) simp
  then have "toned quiet (addWords s sqlKeywords KeywordTone spans b) = b" by (simp add: kept_def)
  then have "kept countable b (sqlSpans s)"
    unfolding sqlSpans_def Let_def spans_def [symmetric] quiet_flip b_def [symmetric]
    using kept_blocked [OF words, of NumberTone s "whole decimal_rx"] by simp
  then show ?thesis by (simp add: kept_def)
qed

lemma configurationSpans_tidy: "tidy countable (configurationSpans s language)"
proof -
  define spans where "spans = with_comment s ''#'' (stringSpans s)"
  define named where "named = addFirstMatch s (key_pattern language) PropertyTone spans []"
  have "kept countable (toned quiet spans) spans"
    unfolding spans_def by (rule kept_start [OF quiet_with_comment]) simp
  then have "kept countable (toned quiet named) named" unfolding named_def by (intro kept_now [OF kept_other(2)]) auto
  then have "kept countable (toned quiet named) (configurationSpans s language)"
    unfolding configurationSpans_def Let_def spans_def [symmetric] named_def [symmetric] by (auto intro!: kept_blocked)
  then show ?thesis by (simp add: kept_def)
qed

lemma jsonSpans_tidy: "tidy countable (jsonSpans s)"
proof -
  define named where "named = addMatches s property_name_rx PropertyTone (stringSpans s) []"
  define b where "b = toned quiet named"
  have strings: "tones_of (stringSpans s) \<subseteq> quiet" using tones_of_strings [of s] by auto
  have named: "kept countable b named"
    unfolding named_def b_def by (rule kept_now [OF kept_other(1) [OF kept_start [OF strings]]]) simp_all
  define words where "words = addMatches s (whole (JsRegex.words [''false'', ''null'', ''true''])) KeywordTone named b"
  have words: "kept countable b words" unfolding words_def using named by (rule kept_blocked) simp
  have quiet_strings: "toned {StringTone} spans = toned quiet spans" if "CommentTone \<notin> tones_of spans" for spans
    using that by (auto simp: toned_def tones_of_def image_iff intro!: filter_cong)
  have "CommentTone \<notin> tones_of named" "CommentTone \<notin> tones_of words"
    using tones_of_strings [of s] tones_of_add_spans [of _ PropertyTone "stringSpans s" "[]"] tones_of_add_spans [of _ KeywordTone named b]
    unfolding words_def named_def addMatches_def by blast+
  then have "toned {StringTone} named = b" "toned {StringTone} words = b"
    using words by (simp_all add: quiet_strings b_def kept_def)
  then have "jsonSpans s = addMatches s json_number_rx NumberTone words b"
    unfolding jsonSpans_def Let_def named_def [symmetric] by (simp add: words_def)
  then show ?thesis using kept_blocked [OF words, of NumberTone s json_number_rx] by (simp add: kept_def)
qed

lemma cssSpans_tidy: "tidy {NumberTone} (cssSpans s)"
proof -
  show ?thesis unfolding cssSpans_def Let_def quiet_flip addMatches_def
  proof (rule tidy_add_blocked)
    show "tidy {NumberTone} (add_spans a KeywordTone (add_spans b PropertyTone (add_spans c CommentTone (stringSpans s) []) []) [])" for a b c
      by (intro tidy_without tone_kept_out) simp_all
  qed simp_all
qed

lemma htmlSpans_tidy: "tidy {NumberTone} (htmlSpans s)"
  unfolding htmlSpans_def Let_def addMatches_def by (intro tidy_without tone_kept_out) simp_all

lemma tidy_less: "tidy K spans \<Longrightarrow> L \<subseteq> K \<Longrightarrow> tidy L spans"
  by (auto simp: tidy_def)

lemma terminalSyntaxSpans_tidy:
  "tidy (if language = LangHtml \<or> language = LangCss then {NumberTone} else countable) (terminalSyntaxSpans s language)"
  by (simp add: terminalSyntaxSpans_def jsonSpans_tidy configurationSpans_tidy htmlSpans_tidy cssSpans_tidy sqlSpans_tidy codeSpans_tidy)

section \<open>Keywords are whole words\<close>

lemma rx_all_from_ways: "m \<in> set (rx_all_from r s i) \<Longrightarrow> \<exists>q\<in>set (ways r s (rm_start m, [])). fst q = rm_end m"
proof (induction r s i rule: rx_all_from.induct)
  case (1 r s i)
  obtain m' where m': "rx_exec r s i = Some m'" using "1.prems" by (cases "rx_exec r s i") (simp_all add: rx_all_from.simps [of r s i])
  have "\<exists>q\<in>set (ways r s (rm_start m', [])). fst q = rm_end m'"
    using m' by (auto simp: rx_exec_def match_at_def split: option.splits list.splits dest!: find_Some_set)
  then show ?case using "1.prems" "1.IH" [OF m'] m' by (auto simp: rx_all_from.simps [of r s i])
qed

definition same_letters :: "jsstr \<Rightarrow> string \<Rightarrow> bool" where
  "same_letters s w \<longleftrightarrow> map ascii_upper s = map ascii_upper (js w)"

lemma ways_ralt: "q \<in> set (ways (ralt rs) s p) \<Longrightarrow> \<exists>r\<in>set rs. q \<in> set (ways r s p)"
  by (induction rs rule: ralt.induct) auto

lemma words_match:
  assumes "m \<in> set (rx_all (whole (words_i ws)) s)"
  shows "word_edge s (rm_start m) \<and> word_edge s (rm_end m) \<and> (\<exists>w\<in>set ws. same_letters (match_text s m) w)"
proof -
  obtain q where q: "q \<in> set (ways (whole (words_i ws)) s (rm_start m, []))" "fst q = rm_end m"
    using rx_all_from_ways assms unfolding rx_all_def by blast
  then have edges: "word_edge s (rm_start m)" "word_edge s (rm_end m)" and "q \<in> set (ways (words_i ws) s (rm_start m, []))"
    by (auto simp: whole_def split: if_splits)
  then obtain w where w: "w \<in> set ws" "q \<in> set (ways (lit_i (js w)) s (rm_start m, []))"
    using ways_ralt [of q "map (\<lambda>w. lit_i (js w)) ws"] unfolding words_i_def by fastforce
  then have "same_letters (match_text s m) w"
    using q(2) by (auto simp: ways_lit_i same_letters_def match_text_def slice_def split: if_splits simp flip: q(2))
  then show ?thesis using edges w(1) by blast
qed

lemma exact_words_match:
  assumes "m \<in> set (rx_all (whole (words ws)) s)"
  shows "word_edge s (rm_start m) \<and> word_edge s (rm_end m) \<and> (\<exists>w\<in>set ws. match_text s m = js w)"
proof -
  obtain q where q: "q \<in> set (ways (whole (words ws)) s (rm_start m, []))" "fst q = rm_end m"
    using rx_all_from_ways assms unfolding rx_all_def by blast
  then have edges: "word_edge s (rm_start m)" "word_edge s (rm_end m)" and "q \<in> set (ways (words ws) s (rm_start m, []))"
    by (auto simp: whole_def split: if_splits)
  then obtain w where w: "w \<in> set ws" "q \<in> set (ways (lit (js w)) s (rm_start m, []))"
    using ways_ralt [of q "map (\<lambda>w. lit (js w)) ws"] unfolding words_def by fastforce
  then have "match_text s m = js w"
    using q(2) by (auto simp: ways_lit match_text_def slice_def split: if_splits simp flip: q(2))
  then show ?thesis using edges w(1) by blast
qed

text \<open>The list of keywords of a language; those of JSON are in lower case only.\<close>

definition keywords_of :: "TerminalSyntaxLanguage \<Rightarrow> string list" where
  "keywords_of language =
     (if language = LangShell then shellKeywords else if language = LangSql then sqlKeywords
      else if language = LangJson then [''false'', ''null'', ''true'']
      else if language = LangYaml \<or> language = LangToml then [''false'', ''null'', ''true'', ''yes'', ''no'', ''on'', ''off'']
      else languageKeywords language)"

definition whole_keyword :: "jsstr \<Rightarrow> string list \<Rightarrow> TerminalSyntaxSpan \<Rightarrow> bool" where
  "whole_keyword s ws t \<longleftrightarrow> word_edge s (sp_start t) \<and> word_edge s (sp_end t)
     \<and> (\<exists>w\<in>set ws. same_letters (slice (sp_start t) (sp_end t) s) w)"

definition exact_keyword :: "jsstr \<Rightarrow> string list \<Rightarrow> TerminalSyntaxSpan \<Rightarrow> bool" where
  "exact_keyword s ws t \<longleftrightarrow> word_edge s (sp_start t) \<and> word_edge s (sp_end t)
     \<and> (\<exists>w\<in>set ws. slice (sp_start t) (sp_end t) s = js w)"

text \<open>What is a keyword of a language: in HTML a tag from its bracket on, in CSS a rule from its sign on.\<close>

definition keyword_span :: "TerminalSyntaxLanguage \<Rightarrow> jsstr \<Rightarrow> TerminalSyntaxSpan \<Rightarrow> bool" where
  "keyword_span language s t \<longleftrightarrow>
     (if language = LangHtml then s ! sp_start t = 60
      else if language = LangCss then s ! sp_start t = 64
      else if language = LangJson then exact_keyword s (keywords_of language) t
      else whole_keyword s (keywords_of language) t)"

lemma matches_added:
  assumes "t \<in> set (add_spans ms tone spans blocked)" "sp_tone t = KeywordTone" "KeywordTone \<notin> tones_of spans"
  obtains m where "m \<in> set ms" "t = span_of KeywordTone m"
proof -
  have "t \<notin> set spans" using assms(2,3) by (metis tones_of_def imageI)
  then show ?thesis using that assms(1,2) by (auto simp: set_add_spans span_of_def)
qed

lemma keywords_added:
  assumes "t \<in> set (addWords s ws KeywordTone spans blocked)" "sp_tone t = KeywordTone" "KeywordTone \<notin> tones_of spans"
  shows "whole_keyword s ws t"
proof (cases "ws = []")
  case True
  then show ?thesis using assms unfolding addWords_def tones_of_def by (metis image_eqI)
next
  case False
  then have "t \<in> set (add_spans (rx_all (whole (words_i ws)) s) KeywordTone spans blocked)"
    using assms(1) by (simp add: addWords_def addMatches_def)
  then obtain m where "m \<in> set (rx_all (whole (words_i ws)) s)" "t = span_of KeywordTone m"
    using assms(2,3) by (rule matches_added)
  then show ?thesis using words_match [of m ws s] by (simp add: whole_keyword_def span_of_def match_text_def)
qed

lemma keyword_not_new:
  "t \<in> set (add_spans ms tone spans blocked) \<Longrightarrow> sp_tone t = KeywordTone \<Longrightarrow> tone \<noteq> KeywordTone \<Longrightarrow> t \<in> set spans"
  by (auto simp: set_add_spans span_of_def)

lemma no_keyword_yet: "KeywordTone \<notin> tones_of (with_comment s token (stringSpans s))"
  using quiet_with_comment [of s token] by auto

lemma codeSpans_keywords:
  assumes "t \<in> set (codeSpans s language)" "sp_tone t = KeywordTone"
  shows "whole_keyword s (if language = LangShell then shellKeywords else languageKeywords language) t"
proof -
  define spans where "spans = with_comment s (if language = LangShell \<or> language = LangPython then ''#'' else ''//'') (stringSpans s)"
  define b where "b = toned quiet spans"
  have none: "KeywordTone \<notin> tones_of spans" unfolding spans_def by (rule no_keyword_yet)
  have "t \<in> set (addWords s (if language = LangShell then shellKeywords else languageKeywords language) KeywordTone spans b)"
    using assms unfolding codeSpans_def Let_def spans_def [symmetric] b_def [symmetric]
    by (auto simp: addMatches_def addWords_def shellCommands_def split: if_splits dest!: keyword_not_new)
  then show ?thesis using assms(2) none by (rule keywords_added)
qed

lemma sqlSpans_keywords:
  assumes "t \<in> set (sqlSpans s)" "sp_tone t = KeywordTone"
  shows "whole_keyword s sqlKeywords t"
  using assms keywords_added [OF _ assms(2) no_keyword_yet]
  by (auto simp: sqlSpans_def Let_def addMatches_def dest!: keyword_not_new)

lemma tones_add_matches: "tones_of (addMatches s r tone spans b) \<subseteq> insert tone (tones_of spans)"
  "tones_of (addFirstMatch s r tone spans b) \<subseteq> insert tone (tones_of spans)"
  unfolding adds_defs by (rule tones_of_add_spans)+

lemma configurationSpans_keywords:
  assumes "t \<in> set (configurationSpans s language)" "sp_tone t = KeywordTone"
  shows "whole_keyword s [''false'', ''null'', ''true'', ''yes'', ''no'', ''on'', ''off''] t"
proof -
  define spans where "spans = addFirstMatch s (key_pattern language) PropertyTone (with_comment s ''#'' (stringSpans s)) []"
  define b where "b = toned {CommentTone, StringTone} spans"
  have none: "KeywordTone \<notin> tones_of spans"
    using tones_add_matches(2) [of s "key_pattern language" PropertyTone "with_comment s ''#'' (stringSpans s)" "[]"]
      no_keyword_yet [of s "''#''"] unfolding spans_def by auto
  have "t \<in> set (addWords s [''false'', ''null'', ''true'', ''yes'', ''no'', ''on'', ''off''] KeywordTone spans b)"
    using assms unfolding configurationSpans_def Let_def spans_def [symmetric] b_def [symmetric]
    by (auto simp: addMatches_def addWords_def dest!: keyword_not_new)
  then show ?thesis using assms(2) none by (rule keywords_added)
qed

lemma jsonSpans_keywords:
  assumes "t \<in> set (jsonSpans s)" "sp_tone t = KeywordTone"
  shows "exact_keyword s [''false'', ''null'', ''true''] t"
proof -
  define spans where "spans = addMatches s property_name_rx PropertyTone (stringSpans s) []"
  have none: "KeywordTone \<notin> tones_of spans"
    using tones_add_matches(1) [of s property_name_rx PropertyTone "stringSpans s" "[]"] tones_of_strings [of s]
    unfolding spans_def by auto
  have "t \<in> set (add_spans (rx_all (whole (words [''false'', ''null'', ''true''])) s) KeywordTone spans (toned {StringTone} spans))"
    using assms unfolding jsonSpans_def Let_def spans_def [symmetric] by (auto simp: addMatches_def dest!: keyword_not_new)
  then obtain m where "m \<in> set (rx_all (whole (words [''false'', ''null'', ''true''])) s)" "t = span_of KeywordTone m"
    using assms(2) none by (rule matches_added)
  then show ?thesis using exact_words_match [of m "[''false'', ''null'', ''true'']" s]
    by (simp add: exact_keyword_def span_of_def match_text_def)
qed

text \<open>The first unit of a match of a pattern that begins with a unit.\<close>

lemma first_unit:
  assumes "m \<in> set (rx_all (Seq (Unit (\<lambda>d. d = c)) r) s)"
  shows "s ! rm_start m = c"
proof -
  obtain q where "q \<in> set (ways (Seq (Unit (\<lambda>d. d = c)) r) s (rm_start m, []))"
    using rx_all_from_ways assms unfolding rx_all_def by blast
  then show ?thesis by (auto split: if_splits)
qed

lemma htmlSpans_keywords:
  assumes "t \<in> set (htmlSpans s)" "sp_tone t = KeywordTone"
  shows "s ! sp_start t = 60"
proof -
  define spans where "spans = addMatches s (rseq [tx ''<!--'', Lazy any_rx, Alt (tx ''-->'') AtEnd]) CommentTone (stringSpans s) []"
  define r where "r = rseq [opt (tx ''/''), letter_rx, Star (Alt word_rx (chars_rx '':-''))]"
  have tag: "rseq [tx ''<'', opt (tx ''/''), letter_rx, Star (Alt word_rx (chars_rx '':-''))] = Seq (Unit (\<lambda>d. d = 60)) r"
    by (simp add: r_def tx_def lit_def js_def)
  have none: "KeywordTone \<notin> tones_of spans"
    using tones_add_matches(1) [of s _ CommentTone "stringSpans s" "[]"] tones_of_strings [of s] unfolding spans_def by blast
  have "t \<in> set (add_spans (rx_all (Seq (Unit (\<lambda>d. d = 60)) r) s) KeywordTone spans [])"
    using assms unfolding htmlSpans_def Let_def spans_def [symmetric] tag by (auto simp: addMatches_def dest!: keyword_not_new)
  then obtain m where "m \<in> set (rx_all (Seq (Unit (\<lambda>d. d = 60)) r) s)" "t = span_of KeywordTone m"
    using assms(2) none by (rule matches_added)
  then show ?thesis using first_unit [of m 60 r s] by (simp add: span_of_def)
qed

lemma cssSpans_keywords:
  assumes "t \<in> set (cssSpans s)" "sp_tone t = KeywordTone"
  shows "s ! sp_start t = 64"
proof -
  define comments where "comments = addMatches s (rseq [tx ''/*'', Lazy any_rx, Alt (tx ''*/'') AtEnd]) CommentTone (stringSpans s) []"
  define spans where "spans = addMatches s (rseq [tx ''-'', opt (tx ''-''), letter_rx, Star (Alt word_rx (tx ''-'')),
              Look (Seq maybe_spaces (tx '':''))]) PropertyTone comments []"
  define r where "r = plus (Alt letter_rx (tx ''-''))"
  have rule: "Seq (tx ''@'') (plus (Alt letter_rx (tx ''-''))) = Seq (Unit (\<lambda>d. d = 64)) r"
    by (simp add: r_def tx_def lit_def js_def)
  have "KeywordTone \<notin> tones_of comments"
    using tones_add_matches(1) [of s _ CommentTone "stringSpans s" "[]"] tones_of_strings [of s] unfolding comments_def by blast
  then have none: "KeywordTone \<notin> tones_of spans"
    using tones_add_matches(1) [of s _ PropertyTone comments "[]"] unfolding spans_def by blast
  have "t \<in> set (add_spans (rx_all (Seq (Unit (\<lambda>d. d = 64)) r) s) KeywordTone spans [])"
    using assms unfolding cssSpans_def Let_def comments_def [symmetric] spans_def [symmetric] rule
    by (auto simp: addMatches_def dest!: keyword_not_new)
  then obtain m where "m \<in> set (rx_all (Seq (Unit (\<lambda>d. d = 64)) r) s)" "t = span_of KeywordTone m"
    using assms(2) none by (rule matches_added)
  then show ?thesis using first_unit [of m 64 r s] by (simp add: span_of_def)
qed

section \<open>The spans of a line\<close>

text \<open>
  C30. Whatever the text of a row is: every span is a non-empty piece of it; no number overlaps a comment or quoted
  text, and no keyword does, except in HTML and CSS, where tags and rules are coloured wherever they stand; and a
  keyword is a whole word of the list of its language, whatever its case, but in lower case in JSON, a tag from its
  bracket on in HTML and a rule from its sign on in CSS.
\<close>

theorem spans_of_a_line:
  assumes "t \<in> set (terminalSyntaxSpans s language)"
  shows "sp_start t < sp_end t \<and> sp_end t \<le> length s
    \<and> (sp_tone t = NumberTone \<or> sp_tone t = KeywordTone \<and> language \<noteq> LangHtml \<and> language \<noteq> LangCss
        \<longrightarrow> (\<forall>c\<in>set (terminalSyntaxSpans s language). sp_tone c = CommentTone \<or> sp_tone c = StringTone
               \<longrightarrow> sp_end c \<le> sp_start t \<or> sp_end t \<le> sp_start c))
    \<and> (sp_tone t = KeywordTone \<longrightarrow> keyword_span language s t)"
proof (intro conjI impI ballI)
  show "sp_start t < sp_end t" "sp_end t \<le> length s"
    using assms terminalSyntaxSpans_inside [of s language] by (auto simp: list_all_iff span_inside_def)
next
  fix c
  assume tone: "sp_tone t = NumberTone \<or> sp_tone t = KeywordTone \<and> language \<noteq> LangHtml \<and> language \<noteq> LangCss"
    and c: "c \<in> set (terminalSyntaxSpans s language)" "sp_tone c = CommentTone \<or> sp_tone c = StringTone"
  then have "\<not> overlap c t"
    using terminalSyntaxSpans_tidy [of language s] assms by (auto simp: tidy_def split: if_splits)
  then show "sp_end c \<le> sp_start t \<or> sp_end t \<le> sp_start c" by (auto simp: overlap_def)
next
  assume "sp_tone t = KeywordTone"
  then show "keyword_span language s t"
    using assms codeSpans_keywords [of t s language] sqlSpans_keywords [of t s] configurationSpans_keywords [of t s language]
      jsonSpans_keywords [of t s] htmlSpans_keywords [of t s] cssSpans_keywords [of t s]
    by (auto simp: terminalSyntaxSpans_def keyword_span_def keywords_of_def split: if_splits)
qed

text \<open>A line of a program: the keyword, the quoted text, the number and the comment.\<close>

definition a_line :: jsstr where "a_line = js ''if 7//x''"

lemma a_line_spans:
  "terminalSyntaxSpans a_line LangC =
     [\<lparr>sp_end = 7, sp_start = 4, sp_tone = CommentTone\<rparr>, \<lparr>sp_end = 2, sp_start = 0, sp_tone = KeywordTone\<rparr>,
      \<lparr>sp_end = 4, sp_start = 3, sp_tone = NumberTone\<rparr>]"
  by code_simp

theorem spans_of_a_line_witness:
  "keyword_span LangC a_line \<lparr>sp_end = 2, sp_start = 0, sp_tone = KeywordTone\<rparr>
   \<and> (2 \<le> (4::nat) \<or> 7 \<le> (0::nat))"
  using spans_of_a_line [of "\<lparr>sp_end = 2, sp_start = 0, sp_tone = KeywordTone\<rparr>" a_line LangC]
  by (simp add: a_line_spans)

text \<open>A tag in a comment of HTML is coloured as a tag, over the comment.\<close>

lemma tag_in_comment:
  "\<lparr>sp_end = 6, sp_start = 4, sp_tone = KeywordTone\<rparr> \<in> set (terminalSyntaxSpans (js ''<!--<a>-->'') LangHtml)
   \<and> \<lparr>sp_end = 10, sp_start = 0, sp_tone = CommentTone\<rparr> \<in> set (terminalSyntaxSpans (js ''<!--<a>-->'') LangHtml)"
  by code_simp

text \<open>The number of arguments of a shell script is taken for a comment: the pattern of a variable never sees it.\<close>

lemma argument_count_is_comment:
  "terminalSyntaxSpans (js ''[ $# ]'') LangShell = [\<lparr>sp_end = 6, sp_start = 3, sp_tone = CommentTone\<rparr>]"
  by code_simp

end
