(* ===== verification/TerminalHighlight.thy ===== *)
theory TerminalHighlight
  imports TerminalSyntax
begin

text \<open>
  The colouring of the rows of a terminal pane
  (\<^verbatim>\<open>src/features/terminal/terminalSemanticHighlighter.ts\<close>): the words that stand for a state, the
  regions that show a file, and the markers and decorations the highlighter holds. The emulator is a
  component of its own, a library: of its state the model has the buffer, and the markers and decorations
  the highlighter registered. A decoration is gone when it or its marker is disposed.
\<close>

section \<open>Cells and lines\<close>

record buffer_cell =
  cl_chars :: jsstr
  cl_width :: nat
  cl_default :: bool

type_synonym buffer_line = "buffer_cell option list"

record SearchableLine =
  sl_cellEnds :: "nat list"
  sl_cellStarts :: "nat list"
  sl_default :: "bool list"
  sl_text :: jsstr

text \<open>
  The signature, of the text and of the flags, is computed from the line; a cell without characters
  stands for a blank.
\<close>

definition cell_text :: "buffer_cell \<Rightarrow> jsstr" where
  "cell_text c = (if cl_chars c = [] then [32] else cl_chars c)"

definition shown_cells :: "buffer_line \<Rightarrow> nat \<Rightarrow> (nat \<times> buffer_cell) list" where
  "shown_cells line columns =
     concat (map (\<lambda>x. case line ! x of Some c \<Rightarrow> if cl_width c = 0 then [] else [(x, c)] | None \<Rightarrow> [])
       [0..<min columns (length line)])"

definition toSearchableLine :: "buffer_line \<Rightarrow> nat \<Rightarrow> SearchableLine" where
  "toSearchableLine line columns =
     (let units = concat (map (\<lambda>(x, c). map (\<lambda>u. (u, x, c)) (cell_text c)) (shown_cells line columns))
      in \<lparr>sl_cellEnds = map (\<lambda>(u, x, c). x + cl_width c) units, sl_cellStarts = map (\<lambda>(u, x, c). x) units,
          sl_default = map (\<lambda>(u, x, c). cl_default c) units, sl_text = map fst units\<rparr>)"

definition line_signature :: "SearchableLine \<Rightarrow> jsstr" where
  "line_signature l = sl_text l @ [0] @ map (\<lambda>b. if b then 49 else 48) (sl_default l)"

section \<open>Tones and spans\<close>

datatype SemanticTone = DebugTone | ErrorTone | InfoTone | SuccessTone | WarningTone

datatype HighlightTone = Semantic SemanticTone | Syntax TerminalSyntaxTone

record HighlightSpan =
  hs_tone :: HighlightTone
  hs_width :: nat
  hs_x :: nat

fun highlightColor :: "palette \<Rightarrow> HighlightTone \<Rightarrow> jsstr" where
  "highlightColor p (Semantic ErrorTone) = pal_red p"
| "highlightColor p (Semantic WarningTone) = pal_yellow p"
| "highlightColor p (Semantic SuccessTone) = pal_green p"
| "highlightColor p (Semantic InfoTone) = pal_cyan p"
| "highlightColor p (Semantic DebugTone) = pal_brightBlack p"
| "highlightColor p (Syntax CommentTone) = pal_brightBlack p"
| "highlightColor p (Syntax CommandTone) = pal_blue p"
| "highlightColor p (Syntax PropertyTone) = pal_blue p"
| "highlightColor p (Syntax KeywordTone) = pal_magenta p"
| "highlightColor p (Syntax NumberTone) = pal_cyan p"
| "highlightColor p (Syntax StringTone) = pal_green p"
| "highlightColor p (Syntax VariableTone) = pal_yellow p"

definition error_words :: rx where
  "error_words = ralt [txi ''critical'', txi ''fatal'', txi ''exception'', Seq (txi ''error'') (opt (txi ''s'')), txi ''err'',
     txi ''failed'', txi ''failure'', txi ''denied'']"

definition warning_words :: rx where
  "warning_words = ralt [Seq (txi ''warning'') (opt (txi ''s'')), txi ''warn'', txi ''caution'', txi ''deprecated'']"

definition success_words :: rx where
  "success_words = words_i [''successful'', ''succeeded'', ''success'', ''completed'', ''complete'', ''passed'', ''ready'', ''ok'']"

definition semanticKeywordPattern :: rx where
  "semanticKeywordPattern =
     whole (ralt [error_words, warning_words, success_words, words_i [''info'', ''notice'', ''debug'']])"

text \<open>The tests of a word in lower case: the same words, from the start to the end.\<close>

definition semanticTone :: "jsstr \<Rightarrow> SemanticTone" where
  "semanticTone keyword =
     (let value = js_lower keyword
      in if rx_test (rseq [AtStart, error_words, AtEnd]) value then ErrorTone
         else if rx_test (rseq [AtStart, warning_words, AtEnd]) value then WarningTone
         else if rx_test (rseq [AtStart, success_words, AtEnd]) value then SuccessTone
         else if value = js ''debug'' then DebugTone else InfoTone)"

text \<open>A piece of the text as a span of cells, unless a cell of it has a colour of its own.\<close>

definition cell_span :: "SearchableLine \<Rightarrow> nat \<Rightarrow> nat \<Rightarrow> HighlightTone \<Rightarrow> HighlightSpan list" where
  "cell_span l st en tone =
     (if \<not> list_all (\<lambda>b. b) (take (en - st) (drop st (sl_default l))) then []
      else (case (js_at (sl_cellStarts l) (int st), js_at (sl_cellEnds l) (int en - 1)) of
              (Some x, Some right) \<Rightarrow> if right \<le> x then [] else [\<lparr>hs_tone = tone, hs_width = right - x, hs_x = x\<rparr>]
            | _ \<Rightarrow> []))"

definition semanticSpans :: "SearchableLine \<Rightarrow> HighlightSpan list" where
  "semanticSpans l =
     concat (map (\<lambda>m. cell_span l (rm_start m) (rm_end m) (Semantic (semanticTone (match_text (sl_text l) m))))
       (rx_all semanticKeywordPattern (sl_text l)))"

definition syntaxHighlightSpans :: "SearchableLine \<Rightarrow> TerminalSyntaxLanguage option \<Rightarrow> HighlightSpan list" where
  "syntaxHighlightSpans l language =
     (case language of None \<Rightarrow> []
      | Some lang \<Rightarrow> concat (map (\<lambda>s. cell_span l (sp_start s) (sp_end s) (Syntax (sp_tone s))) (terminalSyntaxSpans (sl_text l) lang)))"

definition row_spans :: "SearchableLine \<Rightarrow> TerminalSyntaxLanguage option \<Rightarrow> HighlightSpan list" where
  "row_spans l language = semanticSpans l @ syntaxHighlightSpans l language"

section \<open>The state\<close>

record marker =
  mk_line :: int
  mk_disposed :: bool

record decoration =
  dc_marker :: nat
  dc_color :: jsstr
  dc_span :: HighlightSpan
  dc_disposed :: bool

text \<open>Markers and decorations have the places of their lists as names.\<close>

record emulator =
  em_normal :: bool
  em_viewportY :: nat
  em_length :: nat
  em_rows :: nat
  em_cols :: nat
  em_cursor :: nat
  em_lines :: "buffer_line option list"
  em_decorates :: bool
  em_markers :: "marker list"
  em_decorations :: "decoration list"

record HighlightedRow =
  hr_decorations :: "nat list"
  hr_marker :: nat
  hr_signature :: "jsstr \<times> TerminalSyntaxLanguage option"

record SyntaxRegion =
  sr_inclusive :: bool
  sr_language :: "TerminalSyntaxLanguage option"
  sr_marker :: nat

record highlighter =
  hl_enabled :: bool
  hl_frame :: bool
  hl_palette :: palette
  hl_rows :: "HighlightedRow list"
  hl_regions :: "SyntaxRegion list"
  hl_term :: emulator

section \<open>Markers and decorations\<close>

definition marker_line :: "highlighter \<Rightarrow> nat \<Rightarrow> int" where
  "marker_line h m = mk_line (em_markers (hl_term h) ! m)"

definition marker_disposed :: "highlighter \<Rightarrow> nat \<Rightarrow> bool" where
  "marker_disposed h m = mk_disposed (em_markers (hl_term h) ! m)"

text \<open>\<^verbatim>\<open>registerMarker\<close>: a marker on the line at a distance from the cursor.\<close>

definition registerMarker :: "int \<Rightarrow> highlighter \<Rightarrow> nat \<times> highlighter" where
  "registerMarker d h =
     (let t = hl_term h
      in (length (em_markers t),
          h\<lparr>hl_term := t\<lparr>em_markers := em_markers t @ [\<lparr>mk_line = int (em_cursor t) + d, mk_disposed = False\<rparr>]\<rparr>\<rparr>))"

definition disposeMarker :: "nat \<Rightarrow> highlighter \<Rightarrow> highlighter" where
  "disposeMarker m h =
     (let t = hl_term h
      in h\<lparr>hl_term := t\<lparr>em_markers := (em_markers t)[m := (em_markers t ! m)\<lparr>mk_disposed := True\<rparr>]\<rparr>\<rparr>)"

definition disposeDecoration :: "nat \<Rightarrow> highlighter \<Rightarrow> highlighter" where
  "disposeDecoration d h =
     (let t = hl_term h
      in h\<lparr>hl_term := t\<lparr>em_decorations := (em_decorations t)[d := (em_decorations t ! d)\<lparr>dc_disposed := True\<rparr>]\<rparr>\<rparr>)"

definition registerDecoration :: "nat \<Rightarrow> HighlightSpan \<Rightarrow> highlighter \<Rightarrow> nat list \<times> highlighter" where
  "registerDecoration m s h =
     (let t = hl_term h
      in if em_decorates t
         then ([length (em_decorations t)],
               h\<lparr>hl_term := t\<lparr>em_decorations := em_decorations t @
                  [\<lparr>dc_marker = m, dc_color = highlightColor (hl_palette h) (hs_tone s), dc_span = s, dc_disposed = False\<rparr>]\<rparr>\<rparr>)
         else ([], h))"

fun registerDecorations :: "nat \<Rightarrow> HighlightSpan list \<Rightarrow> highlighter \<Rightarrow> nat list \<times> highlighter" where
  "registerDecorations m [] h = ([], h)"
| "registerDecorations m (s # ss) h =
     (case registerDecoration m s h of (ds, h1) \<Rightarrow>
        (case registerDecorations m ss h1 of (ds', h2) \<Rightarrow> (ds @ ds', h2)))"

definition disposeHighlightedRow :: "HighlightedRow \<Rightarrow> highlighter \<Rightarrow> highlighter" where
  "disposeHighlightedRow row h = disposeMarker (hr_marker row) (fold disposeDecoration (hr_decorations row) h)"

definition disposeRows :: "highlighter \<Rightarrow> highlighter" where
  "disposeRows h = (fold disposeHighlightedRow (hl_rows h) h)\<lparr>hl_rows := []\<rparr>"

definition disposeSyntaxRegions :: "highlighter \<Rightarrow> highlighter" where
  "disposeSyntaxRegions h = (fold (\<lambda>r. disposeMarker (sr_marker r)) (hl_regions h) h)\<lparr>hl_regions := []\<rparr>"

section \<open>Operations\<close>

definition schedule :: "highlighter \<Rightarrow> highlighter" where
  "schedule h = (if \<not> hl_enabled h \<or> hl_frame h then h else h\<lparr>hl_frame := True\<rparr>)"

definition dispose_highlighter :: "highlighter \<Rightarrow> highlighter" where
  "dispose_highlighter h = disposeSyntaxRegions (disposeRows (h\<lparr>hl_frame := False\<rparr>))"

definition live_regions :: "highlighter \<Rightarrow> highlighter" where
  "live_regions h = h\<lparr>hl_regions := filter (\<lambda>r. \<not> marker_disposed h (sr_marker r)) (hl_regions h)\<rparr>"

definition add_region :: "bool \<Rightarrow> TerminalSyntaxLanguage option \<Rightarrow> int \<Rightarrow> highlighter \<Rightarrow> highlighter" where
  "add_region inclusive language d h =
     (case registerMarker d h of (m, h1) \<Rightarrow>
        h1\<lparr>hl_regions := hl_regions h1 @ [\<lparr>sr_inclusive = inclusive, sr_language = language, sr_marker = m\<rparr>]\<rparr>)"

definition trackCommand :: "jsstr \<Rightarrow> highlighter \<Rightarrow> highlighter" where
  "trackCommand command h =
     (if \<not> hl_enabled h \<or> \<not> em_normal (hl_term h) then h
      else schedule (add_region False (detectDisplayedFileLanguage command) 0 (live_regions h)))"

definition update_highlighter :: "palette \<Rightarrow> bool \<Rightarrow> highlighter \<Rightarrow> highlighter" where
  "update_highlighter p enabled h =
     (let h1 = disposeRows (h\<lparr>hl_palette := p, hl_enabled := enabled\<rparr>)
      in if enabled then schedule h1 else disposeSyntaxRegions h1)"

text \<open>\<^verbatim>\<open>registerMarkerAtRow\<close>: the distance of a row from the cursor.\<close>

definition from_cursor :: "nat \<Rightarrow> highlighter \<Rightarrow> int" where
  "from_cursor row h = int row - int (em_cursor (hl_term h))"

definition trackEchoedDisplayCommand :: "nat \<Rightarrow> jsstr \<Rightarrow> highlighter \<Rightarrow> highlighter" where
  "trackEchoedDisplayCommand row line h =
     (case detectDisplayedFileLanguage line of
        None \<Rightarrow> h
      | Some language \<Rightarrow>
          if \<exists>r\<in>set (hl_regions h). marker_line h (sr_marker r) = int row then h
          else add_region False (Some language) (from_cursor row h) h)"

definition region_holds :: "highlighter \<Rightarrow> nat \<Rightarrow> nat \<Rightarrow> bool" where
  "region_holds h row i =
     (let region = hl_regions h ! i; line = marker_line h (sr_marker region)
      in (if sr_inclusive region then line \<le> int row else line < int row)
         \<and> \<not> (i + 1 < length (hl_regions h) \<and> marker_line h (sr_marker (hl_regions h ! (i + 1))) \<le> int row))"

definition syntaxLanguageForRow :: "nat \<Rightarrow> jsstr \<Rightarrow> highlighter \<Rightarrow> TerminalSyntaxLanguage option \<times> highlighter" where
  "syntaxLanguageForRow row line h =
     (let h1 = trackEchoedDisplayCommand row line (live_regions h);
          h2 = h1\<lparr>hl_regions := sort_key (\<lambda>r. marker_line h1 (sr_marker r)) (hl_regions h1)\<rparr>
      in case find (region_holds h2 row) (rev [0..<length (hl_regions h2)]) of
           Some i \<Rightarrow>
             (case sr_language (hl_regions h2 ! i) of
                Some language \<Rightarrow> (Some language, h2)
              | None \<Rightarrow>
                  (let language = inferDisplayedContentLanguage line;
                       h3 = h2\<lparr>hl_regions := (hl_regions h2)[i := (hl_regions h2 ! i)\<lparr>sr_language := language\<rparr>]\<rparr>
                   in (language, if language = None then h3 else schedule h3)))
         | None \<Rightarrow>
             (case inferDisplayedContentLanguage line of
                Some language \<Rightarrow> (Some language, add_region True (Some language) (from_cursor row h2) h2)
              | None \<Rightarrow> (None, h2)))"

definition drop_row :: "HighlightedRow \<Rightarrow> highlighter \<Rightarrow> highlighter" where
  "drop_row existing h =
     (let h1 = disposeHighlightedRow existing h
      in h1\<lparr>hl_rows := filter (\<lambda>r. hr_marker r \<noteq> hr_marker existing) (hl_rows h1)\<rparr>)"

definition refreshRow :: "nat \<Rightarrow> buffer_line \<Rightarrow> highlighter \<Rightarrow> highlighter" where
  "refreshRow row line h =
     (let searchable = toSearchableLine line (em_cols (hl_term h))
      in case syntaxLanguageForRow row (sl_text searchable) h of (language, h1) \<Rightarrow>
        (let signature = (line_signature searchable, language);
             existing = find (\<lambda>r. marker_line h1 (hr_marker r) = int row) (hl_rows h1)
         in if map_option hr_signature existing = Some signature then h1
            else
              (let h2 = (case existing of Some r \<Rightarrow> drop_row r h1 | None \<Rightarrow> h1);
                   spans = row_spans searchable language
               in if spans = [] then h2
                  else (case registerMarker (from_cursor row h2) h2 of (m, h3) \<Rightarrow>
                    (case registerDecorations m spans h3 of (ds, h4) \<Rightarrow>
                       if ds = [] then disposeMarker m h4
                       else h4\<lparr>hl_rows := hl_rows h4 @ [\<lparr>hr_decorations = ds, hr_marker = m, hr_signature = signature\<rparr>]\<rparr>)))))"

definition refresh_line :: "nat \<Rightarrow> highlighter \<Rightarrow> highlighter" where
  "refresh_line row h =
     (case js_at (em_lines (hl_term h)) (int row) of Some (Some line) \<Rightarrow> refreshRow row line h | _ \<Rightarrow> h)"

definition refreshVisibleRows :: "highlighter \<Rightarrow> highlighter" where
  "refreshVisibleRows h =
     (let t = hl_term h
      in if \<not> hl_enabled h \<or> \<not> em_normal t then h
         else fold refresh_line [em_viewportY t..<min (em_length t) (em_viewportY t + em_rows t)]
                (h\<lparr>hl_rows := filter (\<lambda>r. \<not> marker_disposed h (hr_marker r)) (hl_rows h)\<rparr>))"

text \<open>A frame that was asked for.\<close>

definition frame_fires :: "highlighter \<Rightarrow> highlighter" where
  "frame_fires h = refreshVisibleRows (h\<lparr>hl_frame := False\<rparr>)"

section \<open>The cells of a span\<close>

definition line_units :: "buffer_line \<Rightarrow> nat \<Rightarrow> (code_unit \<times> nat \<times> buffer_cell) list" where
  "line_units line columns = concat (map (\<lambda>(x, c). map (\<lambda>u. (u, x, c)) (cell_text c)) (shown_cells line columns))"

lemma searchable_units:
  "sl_cellStarts (toSearchableLine line columns) = map (\<lambda>(u, x, c). x) (line_units line columns)"
  "sl_cellEnds (toSearchableLine line columns) = map (\<lambda>(u, x, c). x + cl_width c) (line_units line columns)"
  "sl_default (toSearchableLine line columns) = map (\<lambda>(u, x, c). cl_default c) (line_units line columns)"
  "sl_text (toSearchableLine line columns) = map fst (line_units line columns)"
  by (simp_all add: toSearchableLine_def line_units_def Let_def)

definition cell_at :: "buffer_line \<Rightarrow> nat \<Rightarrow> nat \<Rightarrow> buffer_cell \<Rightarrow> bool" where
  "cell_at line columns x c \<longleftrightarrow> x < min columns (length line) \<and> line ! x = Some c \<and> cl_width c \<noteq> 0"

lemma shown_cells_iff: "(x, c) \<in> set (shown_cells line columns) \<longleftrightarrow> cell_at line columns x c"
proof -
  have "(x, c) \<in> set (case line ! y of Some c \<Rightarrow> if cl_width c = 0 then [] else [(y, c)] | None \<Rightarrow> [])
      \<longleftrightarrow> y = x \<and> line ! x = Some c \<and> cl_width c \<noteq> 0" for y
    by (cases "line ! y") auto
  then show ?thesis unfolding shown_cells_def cell_at_def by (auto simp del: upt_Suc)
qed

lemma line_units_iff: "(\<exists>u. (u, x, c) \<in> set (line_units line columns)) \<longleftrightarrow> cell_at line columns x c"
proof -
  have "cell_text c \<noteq> []" by (simp add: cell_text_def)
  then have "\<exists>u. u \<in> set (cell_text c)" by (cases "cell_text c") auto
  then show ?thesis unfolding shown_cells_iff [symmetric] by (fastforce simp: line_units_def)
qed

lemma sorted_concat_blocks:
  "sorted_wrt (<) (map fst xs) \<Longrightarrow> sorted (map (\<lambda>(u, x, c). x :: nat) (concat (map (\<lambda>(x, c). map (\<lambda>u. (u, x, c)) (f c)) xs)))"
  by (induction xs) (auto simp: sorted_append comp_def sorted_wrt_map case_prod_unfold image_iff less_imp_le sorted_map)

lemma shown_cells_sorted: "sorted_wrt (<) (map fst (shown_cells line columns))"
proof -
  have "sorted_wrt (<) (map fst (concat (map (\<lambda>x. case line ! x of Some c \<Rightarrow> if cl_width c = 0 then [] else [(x, c)] | None \<Rightarrow> []) xs)))"
    if "sorted_wrt (<) xs" for xs
    using that by (induction xs) (auto simp: sorted_wrt_append split: option.splits if_splits)
  from this [OF sorted_wrt_upt] show ?thesis unfolding shown_cells_def .
qed

lemma line_units_sorted:
  assumes "i \<le> j" "j < length (line_units line columns)"
  shows "fst (snd (line_units line columns ! i)) \<le> fst (snd (line_units line columns ! j))"
proof -
  have "sorted (map (\<lambda>(u, x, c). x) (line_units line columns))"
    unfolding line_units_def by (rule sorted_concat_blocks [OF shown_cells_sorted])
  from sorted_nth_mono [OF this assms(1)] show ?thesis using assms by (simp add: case_prod_unfold)
qed

text \<open>A wide cell is followed by cells of no width, as many as it covers.\<close>

definition wide_cells_ok :: "buffer_line \<Rightarrow> nat \<Rightarrow> bool" where
  "wide_cells_ok line columns \<longleftrightarrow>
     list_all (\<lambda>x. case line ! x of None \<Rightarrow> True
       | Some c \<Rightarrow> x + cl_width c \<le> columns \<and> list_all (\<lambda>y. case line ! y of None \<Rightarrow> True | Some d \<Rightarrow> cl_width d = 0)
           [Suc x..<min (x + cl_width c) (length line)]) [0..<min columns (length line)]"

lemma wide_cells:
  "wide_cells_ok line columns \<Longrightarrow> cell_at line columns x c \<Longrightarrow> x + cl_width c \<le> columns"
  "wide_cells_ok line columns \<Longrightarrow> cell_at line columns x c \<Longrightarrow> cell_at line columns y d \<Longrightarrow> x < y \<Longrightarrow> x + cl_width c \<le> y"
proof -
  assume ok: "wide_cells_ok line columns" and c: "cell_at line columns x c"
  then have at: "x + cl_width c \<le> columns \<and> (\<forall>y. Suc x \<le> y \<and> y < min (x + cl_width c) (length line) \<longrightarrow>
      (case line ! y of None \<Rightarrow> True | Some d \<Rightarrow> cl_width d = 0))"
    unfolding wide_cells_ok_def cell_at_def list_all_iff by (force dest!: bspec [of _ _ x])
  then show "x + cl_width c \<le> columns" by blast
  assume d: "cell_at line columns y d" and "x < y"
  have "\<not> (Suc x \<le> y \<and> y < min (x + cl_width c) (length line))"
    using d at [THEN conjunct2, rule_format, of y] by (auto simp: cell_at_def)
  then show "x + cl_width c \<le> y" using d \<open>x < y\<close> by (auto simp: cell_at_def)
qed

lemma cell_span_cells:
  assumes span: "s \<in> set (cell_span (toSearchableLine line columns) st en tone)" and ok: "wide_cells_ok line columns" and less: "st < en"
  shows "0 < hs_width s \<and> hs_x s + hs_width s \<le> columns
    \<and> (\<forall>y c. cell_at line columns y c \<longrightarrow> hs_x s \<le> y \<longrightarrow> y < hs_x s + hs_width s \<longrightarrow> cl_default c)"
proof -
  define us where "us = line_units line columns"
  note sl = searchable_units [of line columns, folded us_def]
  have plain: "list_all (\<lambda>b. b) (take (en - st) (drop st (map (\<lambda>(u, x, c). cl_default c) us)))"
    using span unfolding cell_span_def sl by (auto split: if_splits)
  obtain ux x cx where st: "st < length us" "us ! st = (ux, x, cx)"
    using span unfolding cell_span_def sl by (cases "us ! st") (auto simp: js_at_def split: if_splits option.splits)
  obtain uz z cz where en: "0 < en" "en - 1 < length us" "us ! (en - 1) = (uz, z, cz)"
    using span unfolding cell_span_def sl by (cases "us ! (en - 1)") (auto simp: js_at_def split: if_splits option.splits)
  have [simp]: "nat (int en - 1) = en - 1" by simp
  have s: "hs_x s = x" "hs_width s = z + cl_width cz - x" "x < z + cl_width cz"
    using span st en unfolding cell_span_def sl by (auto simp: js_at_def split: if_splits)
  have cells: "cell_at line columns x cx" "cell_at line columns z cz"
    using line_units_iff [of _ _ line columns] st en nth_mem [of st us] nth_mem [of "en - 1" us] unfolding us_def by metis+
  have mono: "fst (snd (us ! i)) \<le> fst (snd (us ! j))" if "i \<le> j" "j < length us" for i j
    using line_units_sorted that unfolding us_def by blast
  have default: "cl_default d" if "st \<le> j" "j \<le> en - 1" "us ! j = (u, y, d)" for j u y d
  proof -
    have "take (en - st) (drop st (map (\<lambda>(u, x, c). cl_default c) us)) ! (j - st) = cl_default d" "j - st < en - st" "j < length us"
      using that en by auto
    then show ?thesis using plain en(1) that by (auto simp: list_all_length dest!: spec [of _ "j - st"])
  qed
  have "cl_default c" if y: "cell_at line columns y c" "x \<le> y" "y < z + cl_width cz" for y c
  proof -
    obtain u where "(u, y, c) \<in> set us" using y(1) line_units_iff unfolding us_def by blast
    then obtain j where j: "j < length us" "us ! j = (u, y, c)" by (metis in_set_conv_nth)
    have le: "y \<le> z" using wide_cells(2) [OF ok cells(2) y(1)] y(3) by linarith
    consider "y = x" | "y = z" | "x < y" "y < z" using le y(2) by linarith
    then show ?thesis
    proof cases
      case 1
      then have "c = cx" using y(1) cells(1) by (simp add: cell_at_def)
      then show ?thesis using default [OF _ _ st(2)] less by simp
    next
      case 2
      then have "c = cz" using y(1) cells(2) by (simp add: cell_at_def)
      then show ?thesis using default [OF _ _ en(3)] less by simp
    next
      case 3
      then have "st \<le> j" "j \<le> en - 1" using mono [of j st] mono [of "en - 1" j] j st en by force+
      then show ?thesis using default j(2) by blast
    qed
  qed
  then show ?thesis using s wide_cells(1) [OF ok cells(2)] by auto
qed

text \<open>
  C31. On a row whose wide cells are followed by the cells they cover, every coloured span is at least one cell
  wide, ends before the last column, and covers no cell that the program gave a colour of its own.
\<close>

theorem row_spans_cells:
  assumes "s \<in> set (row_spans (toSearchableLine line columns) language)" and "wide_cells_ok line columns"
  shows "0 < hs_width s \<and> hs_x s + hs_width s \<le> columns
    \<and> (\<forall>y c. cell_at line columns y c \<longrightarrow> hs_x s \<le> y \<longrightarrow> y < hs_x s + hs_width s \<longrightarrow> cl_default c)"
proof -
  have "1 \<le> least_units semanticKeywordPattern"
    unfolding semanticKeywordPattern_def error_words_def warning_words_def success_words_def
    by (simp add: least_units_words [simplified])
  then have words: "rm_start m < rm_end m" if "m \<in> set (rx_all semanticKeywordPattern (sl_text l))" for m l
    using rx_all_bounds [OF that] by simp
  have pieces: "sp_start p < sp_end p" if "p \<in> set (terminalSyntaxSpans t lang)" for p t lang
    using terminalSyntaxSpans_inside [of t lang] that by (auto simp: list_all_iff span_inside_def)
  from assms(1) have "\<exists>st en tone. st < en \<and> s \<in> set (cell_span (toSearchableLine line columns) st en tone)"
    unfolding row_spans_def semanticSpans_def syntaxHighlightSpans_def
    by (auto split: option.splits) (use words pieces in blast)+
  then show ?thesis using cell_span_cells [OF _ assms(2)] by blast
qed

text \<open>A row of two cells, with a word that stands for success.\<close>

definition ok_line :: buffer_line where
  "ok_line = [Some \<lparr>cl_chars = js ''o'', cl_width = 1, cl_default = True\<rparr>, Some \<lparr>cl_chars = js ''k'', cl_width = 1, cl_default = True\<rparr>]"

lemma ok_line_spans:
  "row_spans (toSearchableLine ok_line 2) None = [\<lparr>hs_tone = Semantic SuccessTone, hs_width = 2, hs_x = 0\<rparr>]"
  by code_simp

theorem row_spans_cells_witness:
  "row_spans (toSearchableLine ok_line 2) None = [\<lparr>hs_tone = Semantic SuccessTone, hs_width = 2, hs_x = 0\<rparr>]
   \<and> wide_cells_ok ok_line 2 \<and> (0::nat) + 2 \<le> 2"
proof -
  have "wide_cells_ok ok_line 2" by code_simp
  then show ?thesis
    using row_spans_cells [of "\<lparr>hs_tone = Semantic SuccessTone, hs_width = 2, hs_x = 0\<rparr>" ok_line 2 None]
    by (simp add: ok_line_spans)
qed

section \<open>What the highlighter holds\<close>

text \<open>
  A marker that is not disposed is the marker of a row or of a region, or one of a set that an operation
  has in its hands; decorations are on markers that are not of regions.
\<close>

definition region_markers :: "highlighter \<Rightarrow> nat set" where
  "region_markers h = sr_marker ` set (hl_regions h)"

definition row_markers :: "highlighter \<Rightarrow> nat set" where
  "row_markers h = hr_marker ` set (hl_rows h)"

abbreviation marker_count :: "highlighter \<Rightarrow> nat" where "marker_count h \<equiv> length (em_markers (hl_term h))"

abbreviation decorations :: "highlighter \<Rightarrow> decoration list" where "decorations h \<equiv> em_decorations (hl_term h)"

definition live_markers :: "highlighter \<Rightarrow> nat set" where
  "live_markers h = {m. m < marker_count h \<and> \<not> marker_disposed h m}"

definition live_decorations :: "highlighter \<Rightarrow> decoration set" where
  "live_decorations h = {d \<in> set (decorations h). \<not> dc_disposed d \<and> dc_marker d \<in> live_markers h}"

definition decoration_markers :: "highlighter \<Rightarrow> nat set" where
  "decoration_markers h = dc_marker ` set (decorations h)"

definition held :: "nat set \<Rightarrow> highlighter \<Rightarrow> bool" where
  "held X h \<longleftrightarrow> live_markers h \<subseteq> row_markers h \<union> region_markers h \<union> X
     \<and> decoration_markers h \<subseteq> {..<marker_count h} - region_markers h
     \<and> region_markers h \<subseteq> {..<marker_count h}"

lemma held_mono: "held X h \<Longrightarrow> X \<subseteq> Y \<Longrightarrow> held Y h"
  by (auto simp: held_def)

lemma sets_of_fields [simp]:
  "live_markers (h\<lparr>hl_rows := rs\<rparr>) = live_markers h" "live_markers (h\<lparr>hl_regions := gs\<rparr>) = live_markers h"
  "live_markers (h\<lparr>hl_frame := b\<rparr>) = live_markers h" "live_markers (h\<lparr>hl_palette := p, hl_enabled := b\<rparr>) = live_markers h"
  "decoration_markers (h\<lparr>hl_rows := rs\<rparr>) = decoration_markers h" "decoration_markers (h\<lparr>hl_regions := gs\<rparr>) = decoration_markers h"
  "decoration_markers (h\<lparr>hl_frame := b\<rparr>) = decoration_markers h"
  "decoration_markers (h\<lparr>hl_palette := p, hl_enabled := b\<rparr>) = decoration_markers h"
  by (simp_all add: live_markers_def marker_disposed_def decoration_markers_def)

text \<open>The effect of each call of the emulator on the sets.\<close>

lemma registerMarker_effect:
  assumes "registerMarker d h = (m, h')"
  shows "live_markers h' = insert m (live_markers h)" "m = marker_count h" "marker_count h' = Suc m"
    "decorations h' = decorations h" "hl_rows h' = hl_rows h" "hl_regions h' = hl_regions h" "hl_palette h' = hl_palette h"
proof -
  have h': "m = marker_count h" "h' = snd (registerMarker d h)" using assms by (auto simp: registerMarker_def Let_def)
  show "live_markers h' = insert m (live_markers h)"
    by (simp add: h' registerMarker_def Let_def live_markers_def marker_disposed_def)
       (auto simp: nth_append split: if_splits elim: less_SucE)
qed (use assms in \<open>auto simp: registerMarker_def Let_def\<close>)

lemma disposeMarker_effect:
  "live_markers (disposeMarker m h) = live_markers h - {m}" "marker_count (disposeMarker m h) = marker_count h"
  "decorations (disposeMarker m h) = decorations h" "hl_rows (disposeMarker m h) = hl_rows h"
  "hl_regions (disposeMarker m h) = hl_regions h" "hl_palette (disposeMarker m h) = hl_palette h"
proof -
  have "m' \<in> live_markers (disposeMarker m h) \<longleftrightarrow> m' \<in> live_markers h - {m}" for m'
    by (cases "m' = m") (auto simp: disposeMarker_def Let_def live_markers_def marker_disposed_def)
  then show "live_markers (disposeMarker m h) = live_markers h - {m}" by blast
qed (simp_all add: disposeMarker_def Let_def)

lemma disposeDecoration_effect:
  "live_markers (disposeDecoration d h) = live_markers h" "marker_count (disposeDecoration d h) = marker_count h"
  "decoration_markers (disposeDecoration d h) = decoration_markers h" "hl_rows (disposeDecoration d h) = hl_rows h"
  "hl_regions (disposeDecoration d h) = hl_regions h" "hl_palette (disposeDecoration d h) = hl_palette h"
proof -
  have "map dc_marker ((decorations h)[d := (decorations h ! d)\<lparr>dc_disposed := True\<rparr>]) = map dc_marker (decorations h)"
    by (cases "d < length (decorations h)") (simp_all add: map_update list_update_same_conv list_update_beyond)
  from arg_cong [OF this, of set] show "decoration_markers (disposeDecoration d h) = decoration_markers h"
    by (simp add: disposeDecoration_def Let_def decoration_markers_def)
qed (simp_all add: disposeDecoration_def Let_def live_markers_def marker_disposed_def)

lemma registerDecorations_effect:
  "registerDecorations m ss h = (ds, h') \<Longrightarrow> live_markers h' = live_markers h \<and> marker_count h' = marker_count h
     \<and> decoration_markers h' \<subseteq> insert m (decoration_markers h) \<and> hl_rows h' = hl_rows h \<and> hl_regions h' = hl_regions h"
proof (induction ss arbitrary: h ds h')
  case (Cons s ss)
  obtain ds1 h1 where h1: "registerDecoration m s h = (ds1, h1)" by (cases "registerDecoration m s h")
  then obtain ds2 where h2: "registerDecorations m ss h1 = (ds2, h')" using Cons.prems by (auto split: prod.splits)
  have "live_markers h1 = live_markers h" "marker_count h1 = marker_count h" "hl_rows h1 = hl_rows h" "hl_regions h1 = hl_regions h"
      "decoration_markers h1 \<subseteq> insert m (decoration_markers h)"
    using h1 by (auto simp: registerDecoration_def Let_def live_markers_def marker_disposed_def decoration_markers_def split: if_splits)
  then show ?case using Cons.IH [OF h2] by auto
qed auto

lemma disposeHighlightedRow_effect:
  "live_markers (disposeHighlightedRow r h) = live_markers h - {hr_marker r}"
  "marker_count (disposeHighlightedRow r h) = marker_count h"
  "decoration_markers (disposeHighlightedRow r h) = decoration_markers h" "hl_rows (disposeHighlightedRow r h) = hl_rows h"
  "hl_regions (disposeHighlightedRow r h) = hl_regions h"
proof -
  have "live_markers (fold disposeDecoration ds h) = live_markers h \<and> marker_count (fold disposeDecoration ds h) = marker_count h
      \<and> decoration_markers (fold disposeDecoration ds h) = decoration_markers h \<and> hl_rows (fold disposeDecoration ds h) = hl_rows h
      \<and> hl_regions (fold disposeDecoration ds h) = hl_regions h" for ds
    by (induction ds arbitrary: h) (simp_all add: disposeDecoration_effect)
  then show "live_markers (disposeHighlightedRow r h) = live_markers h - {hr_marker r}"
    "marker_count (disposeHighlightedRow r h) = marker_count h"
    "decoration_markers (disposeHighlightedRow r h) = decoration_markers h" "hl_rows (disposeHighlightedRow r h) = hl_rows h"
    "hl_regions (disposeHighlightedRow r h) = hl_regions h"
    by (simp_all add: disposeHighlightedRow_def disposeMarker_effect decoration_markers_def)
qed

lemma disposeRows_effect:
  "live_markers (disposeRows h) = live_markers h - row_markers h" "marker_count (disposeRows h) = marker_count h"
  "decoration_markers (disposeRows h) = decoration_markers h" "hl_rows (disposeRows h) = []" "hl_regions (disposeRows h) = hl_regions h"
proof -
  have "live_markers (fold disposeHighlightedRow rs h) = live_markers h - hr_marker ` set rs
      \<and> marker_count (fold disposeHighlightedRow rs h) = marker_count h
      \<and> decoration_markers (fold disposeHighlightedRow rs h) = decoration_markers h
      \<and> hl_regions (fold disposeHighlightedRow rs h) = hl_regions h" for rs
    by (induction rs arbitrary: h) (auto simp: disposeHighlightedRow_effect)
  from this [of "hl_rows h"] show "live_markers (disposeRows h) = live_markers h - row_markers h"
    "marker_count (disposeRows h) = marker_count h" "decoration_markers (disposeRows h) = decoration_markers h"
    "hl_rows (disposeRows h) = []" "hl_regions (disposeRows h) = hl_regions h"
    by (simp_all add: disposeRows_def row_markers_def)
qed

lemma disposeSyntaxRegions_effect:
  "live_markers (disposeSyntaxRegions h) = live_markers h - region_markers h"
  "marker_count (disposeSyntaxRegions h) = marker_count h"
  "decoration_markers (disposeSyntaxRegions h) = decoration_markers h" "hl_rows (disposeSyntaxRegions h) = hl_rows h"
  "hl_regions (disposeSyntaxRegions h) = []"
proof -
  have "live_markers (fold (\<lambda>r. disposeMarker (sr_marker r)) rs h) = live_markers h - sr_marker ` set rs
      \<and> marker_count (fold (\<lambda>r. disposeMarker (sr_marker r)) rs h) = marker_count h
      \<and> decoration_markers (fold (\<lambda>r. disposeMarker (sr_marker r)) rs h) = decoration_markers h
      \<and> hl_rows (fold (\<lambda>r. disposeMarker (sr_marker r)) rs h) = hl_rows h" for rs
    by (induction rs arbitrary: h) (auto simp: disposeMarker_effect decoration_markers_def)
  from this [of "hl_regions h"] show "live_markers (disposeSyntaxRegions h) = live_markers h - region_markers h"
    "marker_count (disposeSyntaxRegions h) = marker_count h"
    "decoration_markers (disposeSyntaxRegions h) = decoration_markers h" "hl_rows (disposeSyntaxRegions h) = hl_rows h"
    "hl_regions (disposeSyntaxRegions h) = []"
    by (simp_all add: disposeSyntaxRegions_def region_markers_def)
qed

subsection \<open>The operations keep the ledger\<close>

lemma held_add_region: "held X h \<Longrightarrow> held X (add_region b l d h)"
proof -
  obtain m h1 where h1: "registerMarker d h = (m, h1)" by (cases "registerMarker d h")
  assume "held X h"
  then show ?thesis using registerMarker_effect [OF h1]
    by (auto simp: add_region_def h1 held_def row_markers_def region_markers_def decoration_markers_def lessThan_Suc less_Suc_eq)
qed

lemma held_live_regions: "held X h \<Longrightarrow> held X (live_regions h)"
  by (auto simp: live_regions_def held_def region_markers_def row_markers_def) (auto simp: live_markers_def)

lemma held_schedule [simp]: "held X (schedule h) = held X h"
  by (simp add: schedule_def held_def row_markers_def region_markers_def)

lemma held_trackCommand: "held {} h \<Longrightarrow> held {} (trackCommand c h)"
  by (simp add: trackCommand_def held_add_region held_live_regions)

lemma held_language: "held {} h \<Longrightarrow> held {} (snd (syntaxLanguageForRow row line h))"
proof -
  assume "held {} h"
  define h1 where "h1 = trackEchoedDisplayCommand row line (live_regions h)"
  have h1: "held {} h1" using \<open>held {} h\<close>
    by (auto simp: h1_def trackEchoedDisplayCommand_def held_live_regions held_add_region split: option.splits)
  define h2 where "h2 = h1\<lparr>hl_regions := sort_key (\<lambda>r. marker_line h1 (sr_marker r)) (hl_regions h1)\<rparr>"
  have h2: "held {} h2" using h1 by (simp add: h2_def held_def row_markers_def region_markers_def)
  have change: "held {} (h2\<lparr>hl_regions := (hl_regions h2)[i := (hl_regions h2 ! i)\<lparr>sr_language := l\<rparr>]\<rparr>)" for i l
  proof -
    have "map sr_marker ((hl_regions h2)[i := (hl_regions h2 ! i)\<lparr>sr_language := l\<rparr>]) = map sr_marker (hl_regions h2)"
      by (cases "i < length (hl_regions h2)") (simp_all add: map_update list_update_same_conv list_update_beyond)
    from arg_cong [OF this, of set] show ?thesis using h2 by (simp add: held_def row_markers_def region_markers_def)
  qed
  show ?thesis
    unfolding syntaxLanguageForRow_def Let_def h1_def [symmetric] h2_def [symmetric]
    using h2 change by (auto simp: held_add_region split: option.splits)
qed

lemma held_drop_row:
  assumes "held {} h"
  shows "held {} (drop_row r h)"
proof -
  note e = disposeHighlightedRow_effect [of r h]
  have "row_markers (drop_row r h) = row_markers h - {hr_marker r}" "region_markers (drop_row r h) = region_markers h"
      "live_markers (drop_row r h) = live_markers h - {hr_marker r}" "decoration_markers (drop_row r h) = decoration_markers h"
      "marker_count (drop_row r h) = marker_count h"
    unfolding drop_row_def Let_def using e by (auto simp: row_markers_def region_markers_def)
  then show ?thesis using assms unfolding held_def by auto
qed

lemma held_refreshRow: "held {} h \<Longrightarrow> held {} (refreshRow row line h)"
proof -
  assume held: "held {} h"
  define s where "s = toSearchableLine line (em_cols (hl_term h))"
  obtain language h1 where h1: "syntaxLanguageForRow row (sl_text s) h = (language, h1)" by fastforce
  have "held {} h1" using held_language [OF held, of row "sl_text s"] h1 by simp
  define existing where "existing = find (\<lambda>r. marker_line h1 (hr_marker r) = int row) (hl_rows h1)"
  define h2 where "h2 = (case existing of Some r \<Rightarrow> drop_row r h1 | None \<Rightarrow> h1)"
  have h2: "held {} h2" using \<open>held {} h1\<close> by (simp add: h2_def held_drop_row split: option.splits)
  obtain m h3 where h3: "registerMarker (from_cursor row h2) h2 = (m, h3)" by fastforce
  obtain ds h4 where h4: "registerDecorations m (row_spans s language) h3 = (ds, h4)" by fastforce
  note e3 = registerMarker_effect [OF h3]
  note e4 = registerDecorations_effect [OF h4]
  have "decoration_markers h3 = decoration_markers h2" using e3(4) by (simp add: decoration_markers_def)
  then have h4_facts: "m \<notin> region_markers h2" "live_markers h4 = insert m (live_markers h2)" "marker_count h4 = Suc (marker_count h2)"
      "decoration_markers h4 \<subseteq> insert m (decoration_markers h2)" "hl_rows h4 = hl_rows h2" "hl_regions h4 = hl_regions h2"
    using h2 e3 e4 by (auto simp: held_def)
  moreover from this have rr: "row_markers h4 = row_markers h2" "region_markers h4 = region_markers h2"
    by (simp_all add: row_markers_def region_markers_def)
  moreover note e5 = disposeMarker_effect [of m h4]
  moreover have "row_markers (disposeMarker m h4) = row_markers h4" "region_markers (disposeMarker m h4) = region_markers h4"
      "decoration_markers (disposeMarker m h4) = decoration_markers h4"
    using e5 by (simp_all add: row_markers_def region_markers_def decoration_markers_def)
  ultimately have gone: "held {} (disposeMarker m h4)"
    using h2 e3(2) unfolding held_def lessThan_Suc by auto
  have "held {} (h4\<lparr>hl_rows := hl_rows h4 @ [\<lparr>hr_decorations = ds, hr_marker = m, hr_signature = sg\<rparr>]\<rparr>)" (is "held {} ?h5") for sg
  proof -
    have "row_markers ?h5 = insert m (row_markers h2)" "region_markers ?h5 = region_markers h2"
      using rr by (auto simp: row_markers_def region_markers_def)
    then show ?thesis using h2 h4_facts e3(2) unfolding held_def lessThan_Suc by auto
  qed
  then show ?thesis
    unfolding refreshRow_def Let_def s_def [symmetric] h1 prod.case existing_def [symmetric] h2_def [symmetric] h3 h4
    using \<open>held {} h1\<close> h2 gone by simp
qed

lemma held_visible: "held {} h \<Longrightarrow> held {} (refreshVisibleRows h)"
proof -
  assume held: "held {} h"
  have lines: "held {} h' \<Longrightarrow> held {} (fold refresh_line rows h')" for rows h'
    by (induction rows arbitrary: h') (simp_all add: refresh_line_def held_refreshRow split: option.splits)
  have "held {} (h\<lparr>hl_rows := filter (\<lambda>r. \<not> marker_disposed h (hr_marker r)) (hl_rows h)\<rparr>)"
    using held by (auto simp: held_def region_markers_def row_markers_def) (auto simp: live_markers_def)
  from lines [OF this] show ?thesis using held by (simp add: refreshVisibleRows_def Let_def)
qed

lemma held_frame_flag [simp]: "held X (h\<lparr>hl_frame := b\<rparr>) = held X h"
  by (simp add: held_def row_markers_def region_markers_def)

lemma held_frame: "held {} h \<Longrightarrow> held {} (frame_fires h)"
  by (simp add: frame_fires_def held_visible)

lemma rows_gone: "held {} h \<Longrightarrow> held {} (disposeRows h)"
  using disposeRows_effect [of h] by (auto simp: held_def row_markers_def region_markers_def)

lemma regions_gone: "held {} h \<Longrightarrow> held {} (disposeSyntaxRegions h)"
  using disposeSyntaxRegions_effect [of h] by (auto simp: held_def row_markers_def region_markers_def)

lemma held_update: "held {} h \<Longrightarrow> held {} (update_highlighter p b h)"
proof -
  assume "held {} h"
  then have "held {} (h\<lparr>hl_palette := p, hl_enabled := b\<rparr>)" by (simp add: held_def row_markers_def region_markers_def)
  from rows_gone [OF this] show ?thesis by (auto simp: update_highlighter_def Let_def intro: regions_gone)
qed

lemma held_dispose: "held {} h \<Longrightarrow> held {} (dispose_highlighter h)"
  by (simp add: dispose_highlighter_def rows_gone regions_gone)

section \<open>A run of the highlighter\<close>

text \<open>
  The emulator on its own: text arrives, the view scrolls, lines move, markers and decorations go. It never
  brings one back, and names stay names.
\<close>

definition emulator_changes :: "emulator \<Rightarrow> emulator \<Rightarrow> bool" where
  "emulator_changes t t' \<longleftrightarrow> length (em_markers t') = length (em_markers t)
     \<and> list_all2 (\<lambda>a b. mk_disposed a \<longrightarrow> mk_disposed b) (em_markers t) (em_markers t')
     \<and> map dc_marker (em_decorations t') = map dc_marker (em_decorations t)
     \<and> list_all2 (\<lambda>a b. dc_disposed a \<longrightarrow> dc_disposed b) (em_decorations t) (em_decorations t')"

inductive hl_step :: "highlighter \<Rightarrow> highlighter \<Rightarrow> bool" where
  command: "hl_step h (trackCommand c h)"
| wrote: "hl_step h (schedule h)"
| frame: "hl_frame h \<Longrightarrow> hl_step h (frame_fires h)"
| updated: "hl_step h (update_highlighter p b h)"
| disposed: "hl_step h (dispose_highlighter h)"
| emulator: "emulator_changes (hl_term h) t \<Longrightarrow> hl_step h (h\<lparr>hl_term := t\<rparr>)"

definition fresh_highlighter :: "highlighter \<Rightarrow> bool" where
  "fresh_highlighter h \<longleftrightarrow> hl_rows h = [] \<and> hl_regions h = [] \<and> \<not> hl_frame h \<and> em_markers (hl_term h) = [] \<and> decorations h = []"

lemma held_emulator: "held {} h \<Longrightarrow> emulator_changes (hl_term h) t \<Longrightarrow> held {} (h\<lparr>hl_term := t\<rparr>)"
proof -
  assume held: "held {} h" and t: "emulator_changes (hl_term h) t"
  from t have "set (map dc_marker (em_decorations t)) = set (map dc_marker (decorations h))" by (simp add: emulator_changes_def)
  then have "decoration_markers (h\<lparr>hl_term := t\<rparr>) = decoration_markers h" by (simp add: decoration_markers_def)
  moreover have "live_markers (h\<lparr>hl_term := t\<rparr>) \<subseteq> live_markers h"
  proof
    fix m
    assume m: "m \<in> live_markers (h\<lparr>hl_term := t\<rparr>)"
    then have "m < marker_count h" using t by (simp add: live_markers_def emulator_changes_def)
    moreover have "list_all2 (\<lambda>a b. mk_disposed a \<longrightarrow> mk_disposed b) (em_markers (hl_term h)) (em_markers t)"
      using t by (simp add: emulator_changes_def)
    ultimately show "m \<in> live_markers h"
      using m list_all2_nthD [of _ "em_markers (hl_term h)" "em_markers t" m] by (auto simp: live_markers_def marker_disposed_def)
  qed
  moreover have "row_markers (h\<lparr>hl_term := t\<rparr>) = row_markers h" "region_markers (h\<lparr>hl_term := t\<rparr>) = region_markers h"
    by (simp_all add: row_markers_def region_markers_def)
  moreover have "marker_count (h\<lparr>hl_term := t\<rparr>) = marker_count h" using t by (simp add: emulator_changes_def)
  ultimately show ?thesis using held unfolding held_def by auto
qed

lemma held_step: "hl_step h h' \<Longrightarrow> held {} h \<Longrightarrow> held {} h'"
  by (erule hl_step.cases) (blast intro: held_trackCommand held_frame held_update held_dispose held_emulator held_schedule [THEN iffD2])+

lemma reachable_held:
  assumes "hl_step\<^sup>*\<^sup>* h0 h" "fresh_highlighter h0"
  shows "held {} h"
  using assms
proof (induction rule: rtranclp_induct)
  case base
  then show ?case by (simp add: fresh_highlighter_def held_def live_markers_def decoration_markers_def region_markers_def)
next
  case (step h h')
  then show ?case using held_step by blast
qed

lemma live_decorations_rows: "held {} h \<Longrightarrow> dc_marker ` live_decorations h \<subseteq> row_markers h"
  by (fastforce simp: held_def live_decorations_def decoration_markers_def)

text \<open>
  C32. Nothing of the highlighter stays behind: whatever happened, every decoration on the screen belongs to a
  row the highlighter holds; a change of the palette takes all decorations away, and once the highlighter is
  switched off or disposed no marker and no decoration of it is left.
\<close>

theorem highlights_are_released:
  assumes "hl_step\<^sup>*\<^sup>* h0 h" and "fresh_highlighter h0"
  shows "dc_marker ` live_decorations h \<subseteq> row_markers h \<and> live_decorations (update_highlighter p b h) = {}
    \<and> live_markers (update_highlighter p False h) = {}
    \<and> live_markers (dispose_highlighter h) = {} \<and> live_decorations (dispose_highlighter h) = {}"
proof -
  have held: "held {} h" using reachable_held [OF assms] .
  have off: "hl_rows (update_highlighter p c h) = []" "hl_regions (update_highlighter p False h) = []" for c
    by (simp_all add: update_highlighter_def Let_def schedule_def disposeSyntaxRegions_effect disposeRows_effect)
  have out: "hl_rows (dispose_highlighter h) = []" "hl_regions (dispose_highlighter h) = []"
    by (simp_all add: dispose_highlighter_def disposeSyntaxRegions_effect disposeRows_effect)
  have none: "live_markers k = {}" if "held {} k" "hl_rows k = []" "hl_regions k = []" for k
    using that by (simp add: held_def row_markers_def region_markers_def)
  have bare: "live_decorations k = {}" if "held {} k" "hl_rows k = []" for k
    using live_decorations_rows [OF that(1)] that(2) by (simp add: row_markers_def)
  show ?thesis
    using live_decorations_rows [OF held] bare [OF held_update [OF held] off(1)] none [OF held_update [OF held] off(1) off(2)]
      none [OF held_dispose [OF held] out] bare [OF held_dispose [OF held] out(1)] by blast
qed

definition blank_palette :: palette where
  "blank_palette =
     \<lparr>pal_background = [], pal_foreground = [], pal_cursor = [], pal_selectionBackground = [], pal_black =
     [], pal_red = [], pal_green = [], pal_yellow = [], pal_blue = [], pal_magenta = [], pal_cyan = [], pal_white =
     [], pal_brightBlack = [], pal_brightRed = [], pal_brightGreen = [], pal_brightYellow = [], pal_brightBlue =
     [], pal_brightMagenta = [], pal_brightCyan = [], pal_brightWhite = []\<rparr>"

definition ok_highlighter :: highlighter where
  "ok_highlighter = \<lparr>hl_enabled = True, hl_frame = False, hl_palette = blank_palette, hl_rows = [], hl_regions = [],
     hl_term = \<lparr>em_normal = True, em_viewportY = 0, em_length = 1, em_rows = 1, em_cols = 2, em_cursor = 0,
       em_lines = [Some ok_line], em_decorates = True, em_markers = [], em_decorations = []\<rparr>\<rparr>"

lemma ok_highlighter_shows:
  "map dc_marker (decorations (frame_fires (schedule ok_highlighter))) = [0]
   \<and> map hr_marker (hl_rows (frame_fires (schedule ok_highlighter))) = [0]"
  by code_simp

theorem highlights_are_released_witness:
  "map dc_marker (decorations (frame_fires (schedule ok_highlighter))) = [0]
   \<and> live_decorations (update_highlighter blank_palette True (frame_fires (schedule ok_highlighter))) = {}
   \<and> live_markers (dispose_highlighter (frame_fires (schedule ok_highlighter))) = {}"
proof -
  have one: "hl_step ok_highlighter (schedule ok_highlighter)" by (rule hl_step.wrote)
  have "hl_frame (schedule ok_highlighter)" by (simp add: schedule_def ok_highlighter_def)
  then have two: "hl_step (schedule ok_highlighter) (frame_fires (schedule ok_highlighter))" by (rule hl_step.frame)
  have "hl_step\<^sup>*\<^sup>* ok_highlighter (schedule ok_highlighter)" by (rule r_into_rtranclp [of hl_step, OF one])
  then have "hl_step\<^sup>*\<^sup>* ok_highlighter (frame_fires (schedule ok_highlighter))"
    using two by (rule rtranclp.rtrancl_into_rtrancl)
  moreover have "fresh_highlighter ok_highlighter" by (simp add: fresh_highlighter_def ok_highlighter_def)
  ultimately show ?thesis
    using highlights_are_released [of ok_highlighter "frame_fires (schedule ok_highlighter)" blank_palette True] ok_highlighter_shows
    by blast
qed

end
