(* ===== verification/SerialPanel.thy ===== *)
theory SerialPanel
  imports TerminalText Encoding
begin

text \<open>
  The panel of a serial line (\<^verbatim>\<open>src/features/terminal/SerialTerminalPanel.tsx\<close>): hexadecimal input, the slots to
  send from with their timers and their history, the log of the traffic with the window of it that is
  displayed, and the line itself, which is opened, closed and configured. The back end answers the calls with
  events of their own.
\<close>

section \<open>Labels and profiles\<close>

definition serialLineEndingValue :: "line_ending \<Rightarrow> jsstr" where
  "serialLineEndingValue e = (case e of Cr \<Rightarrow> [13] | Lf \<Rightarrow> [10] | Crlf \<Rightarrow> [13, 10])"

definition serialLineEndingLabel :: "line_ending \<Rightarrow> jsstr" where
  "serialLineEndingLabel e = (case e of Cr \<Rightarrow> js ''CR'' | Lf \<Rightarrow> js ''LF'' | Crlf \<Rightarrow> js ''CRLF'')"

text \<open>The letter of a parity, of \<^verbatim>\<open>mark\<close> and \<^verbatim>\<open>space\<close> the first one.\<close>

definition parity_letter :: "parity \<Rightarrow> jsstr" where
  "parity_letter p = (case p of ParityNone \<Rightarrow> js ''N'' | ParityOdd \<Rightarrow> js ''O'' | ParityEven \<Rightarrow> js ''E''
     | ParityMark \<Rightarrow> js ''M'' | ParitySpace \<Rightarrow> js ''S'')"

definition stop_bits_text :: "stop_bits \<Rightarrow> jsstr" where
  "stop_bits_text b = (case b of StopOne \<Rightarrow> js ''1'' | StopOneAndHalf \<Rightarrow> js ''1.5'' | StopTwo \<Rightarrow> js ''2'')"

definition serialFrameLabel :: "serial_profile option \<Rightarrow> jsstr" where
  "serialFrameLabel profile =
     (case profile of
        None \<Rightarrow> js ''8N1''
      | Some p \<Rightarrow> nat_digits (nat (ser_dataBits p)) @ parity_letter (ser_parity p) @ stop_bits_text (ser_stopBits p))"

definition serialFlowLabel :: "serial_profile option \<Rightarrow> jsstr" where
  "serialFlowLabel profile =
     (case map_option ser_flowControl profile of
        Some FlowHardware \<Rightarrow> js ''RTS/CTS'' | Some FlowSoftware \<Rightarrow> js ''XON/XOFF'' | _ \<Rightarrow> js ''No flow'')"

definition serialBaudLabel :: "connection \<Rightarrow> serial_profile option \<Rightarrow> jsstr" where
  "serialBaudLabel c profile =
     (case profile of
        Some p \<Rightarrow>
          if ser_baudRate p \<noteq> 0 then nat_digits (nat (ser_baudRate p)) @ js '' baud''
          else (case Option.bind (conn_transport c) tr_serverIdentification of Some s \<Rightarrow> s | None \<Rightarrow> js ''baud'')
      | None \<Rightarrow> (case Option.bind (conn_transport c) tr_serverIdentification of Some s \<Rightarrow> s | None \<Rightarrow> js ''baud''))"

definition or_value :: "'a option \<Rightarrow> 'a \<Rightarrow> 'a" where
  "or_value x y = (case x of Some v \<Rightarrow> v | None \<Rightarrow> y)"

definition serialRuntimeProfile :: "jsstr \<Rightarrow> serial_profile option \<Rightarrow> connection \<Rightarrow> serial_profile" where
  "serialRuntimeProfile now profile c =
     (case profile of
        Some p \<Rightarrow> p\<lparr>ser_dtr := Some (or_value (ser_dtr p) True), ser_rts := Some (or_value (ser_rts p) True),
           prof_updatedAt := now\<rparr>
      | None \<Rightarrow>
          \<lparr>prof_id = conn_id c @ js ''-serial-runtime'', prof_name = conn_title c, prof_groupId = None, prof_tags = [js ''serial''],
           prof_createdAt = now, prof_updatedAt = now,
           ser_portName = or_value (map_option tr_host (conn_transport c)) [], ser_baudRate = 115200, ser_dataBits = 8,
           ser_parity = ParityNone, ser_stopBits = StopOne, ser_flowControl = FlowNone, ser_lineEnding = Crlf, ser_encoding = Utf8,
           ser_dtr = Some True, ser_rts = Some True\<rparr>)"

definition commonSerialBaudRates :: "int list" where
  "commonSerialBaudRates = [110, 300, 600, 1200, 2400, 4800, 9600, 14400, 19200, 38400, 57600, 74880, 115200, 128000,
     230400, 250000, 256000, 460800, 500000, 921600, 1000000, 1500000, 2000000]"

definition baudRateOptions :: "int \<Rightarrow> int list" where
  "baudRateOptions rate = (if rate \<in> set commonSerialBaudRates then commonSerialBaudRates else sort (commonSerialBaudRates @ [rate]))"

record port_option =
  po_disabled :: bool
  po_label :: jsstr
  po_value :: jsstr

definition serialPortOptions :: "jsstr \<Rightarrow> serial_port list \<Rightarrow> port_option list" where
  "serialPortOptions portName ports =
     (if portName \<noteq> [] \<and> portName \<notin> set (map port_name ports)
      then [\<lparr>po_disabled = False, po_label = portName @ [0xFF08, 0x5F53, 0x524D, 0x914D, 0x7F6E, 0xFF09],
         po_value = portName\<rparr>] else [])
     @ map (\<lambda>p. \<lparr>po_disabled = (\<not> port_isAvailable p \<and> port_name p \<noteq> portName),
          po_label = (if port_displayName p \<noteq> [] then port_displayName p else port_name p)
            @ (if port_isAvailable p then [] else [0xFF08, 0x5360, 0x7528, 0xFF09]),
          po_value = port_name p\<rparr>) ports"

section \<open>Hexadecimal input\<close>

text \<open>\<^verbatim>\<open>replace(/0x/gi, "")\<close>, and the class of separators, which are taken out one by one.\<close>

fun without_0x :: "jsstr \<Rightarrow> jsstr" where
  "without_0x (c # d # s) = (if c = 48 \<and> (d = 120 \<or> d = 88) then without_0x s else c # without_0x (d # s))"
| "without_0x s = s"

definition hex_separator :: "code_unit \<Rightarrow> bool" where
  "hex_separator c \<longleftrightarrow> js_space c \<or> c \<in> {44, 59, 58, 95, 45}"

fun hex_bytes :: "jsstr \<Rightarrow> nat list" where
  "hex_bytes (a # b # s) = (16 * the (hex_value a) + the (hex_value b)) # hex_bytes s"
| "hex_bytes s = []"

definition parseSerialHexDraft :: "jsstr \<Rightarrow> nat list \<times> jsstr option" where
  "parseSerialHexDraft input =
     (let trimmed = js_trim input
      in if trimmed = [] then ([], None)
         else (let compact = filter (\<lambda>c. \<not> hex_separator c) (without_0x trimmed)
               in if compact = [] then ([], None)
                  else if list_ex (\<lambda>c. hex_value c = None) compact then ([], Some [72, 69, 88, 32, 0x53EA, 0x80FD, 0x5305,
                     0x542B, 32, 48, 45, 57, 0x3001, 65, 45, 70, 32, 0x548C, 0x5206, 0x9694, 0x7B26, 0x3002])
                  else if length compact mod 2 \<noteq> 0 then ([], Some [72, 69, 88, 32, 0x9700, 0x8981, 0x6309, 0x4E24, 0x4E2A, 0x5B57,
                     0x7B26, 0x7EC4, 0x6210, 0x4E00, 0x4E2A, 0x5B57, 0x8282, 0x3002])
                  else (hex_bytes compact, None)))"

section \<open>Received data, times and sizes\<close>

datatype SerialSendMode = TextMode | HexMode
datatype SerialSendEnding = ConfiguredEnding | NoEnding

text \<open>\<open>other\<close> tells whether a character is of the Unicode category C.\<close>

definition detectSerialRxMode :: "(jsstr \<Rightarrow> bool) \<Rightarrow> int list \<Rightarrow> jsstr \<Rightarrow> SerialSendMode" where
  "detectSerialRxMode other bytes s =
     (if bytes = [] then TextMode
      else if list_ex (\<lambda>ch. \<not> (ch = [0xFFFD] \<or> other ch)) (js_chars s) then TextMode else HexMode)"

definition clampTimedSendInterval :: "jsnum \<Rightarrow> jsnum" where
  "clampTimedSendInterval v = (if \<not> num_finite v then Fin 1000 else num_min (Fin 600000) (num_max (Fin 50) (num_round v)))"

text \<open>The time in the zone of the window: hours, minutes, seconds and milliseconds.\<close>

definition padded :: "nat \<Rightarrow> nat \<Rightarrow> jsstr" where
  "padded w n = replicate (w - length (nat_digits n)) 48 @ nat_digits n"

definition formatExchangeTime :: "(int \<Rightarrow> nat \<times> nat \<times> nat \<times> nat) \<Rightarrow> int \<Rightarrow> jsstr" where
  "formatExchangeTime local_time timestampUs =
     (case local_time (timestampUs div 1000) of (h, m, s, ms) \<Rightarrow>
        padded 2 h @ 58 # padded 2 m @ 58 # padded 2 s @ 46 # padded 3 ms)"

definition formatByteSize :: "nat \<Rightarrow> jsstr" where
  "formatByteSize n =
     (if n < 1024 then nat_digits n @ [66]
      else (let kilobytes = of_nat n / 1024
            in if kilobytes < 1024 then to_fixed (if kilobytes \<ge> 10 then 0 else 1) kilobytes @ [75]
               else (let megabytes = kilobytes / 1024 in to_fixed (if megabytes \<ge> 10 then 0 else 1) megabytes @ [77])))"

section \<open>The window of the log\<close>

function binary_search :: "rat list \<Rightarrow> rat \<Rightarrow> int \<Rightarrow> int \<Rightarrow> int \<Rightarrow> int" where
  "binary_search offsets target low high result =
     (if low \<le> high then
        (let middle = (low + high) div 2
         in if offsets ! nat middle \<le> target then binary_search offsets target (middle + 1) high middle
            else binary_search offsets target low (middle - 1) result)
      else result)"
  by auto
termination
  by (relation "measure (\<lambda>(os, t, low, high, r). nat (high - low + 1))") auto

declare binary_search.simps [simp del]

definition findTrafficVirtualIndex :: "rat list \<Rightarrow> rat \<Rightarrow> nat" where
  "findTrafficVirtualIndex offsets target =
     (if offsets = [] \<or> target \<le> 0 then 0 else nat (binary_search offsets target 0 (int (length offsets) - 1) 0))"

datatype exchange_direction = Rx | Tx

record SerialExchangeEntry =
  ex_byteCount :: nat
  ex_content :: jsstr
  ex_direction :: exchange_direction
  ex_id :: nat
  ex_mode :: SerialSendMode
  ex_timestampUs :: int

text \<open>The measured heights; an entry that was not measured yet has the estimated one.\<close>

type_synonym row_heights = "nat \<Rightarrow> rat option"

definition row_height :: "row_heights \<Rightarrow> SerialExchangeEntry \<Rightarrow> rat" where
  "row_height heights e = (case heights (ex_id e) of Some h \<Rightarrow> h | None \<Rightarrow> 36)"

fun trafficVirtualMetrics :: "row_heights \<Rightarrow> rat \<Rightarrow> SerialExchangeEntry list \<Rightarrow> rat list \<times> rat" where
  "trafficVirtualMetrics heights totalHeight [] = ([], totalHeight)"
| "trafficVirtualMetrics heights totalHeight (e # es) =
     (case trafficVirtualMetrics heights (totalHeight + row_height heights e) es of (offsets, t) \<Rightarrow> (totalHeight # offsets, t))"

definition trafficVisibleRange :: "row_heights \<Rightarrow> SerialExchangeEntry list \<Rightarrow> rat \<Rightarrow> rat \<Rightarrow> nat \<times> nat" where
  "trafficVisibleRange heights entries scrollTop viewportHeight =
     (if entries = [] then (0, 0)
      else (let offsets = fst (trafficVirtualMetrics heights 0 entries);
                visibleTop = max 0 (scrollTop - 720);
                visibleBottom = scrollTop + viewportHeight + 720
            in (findTrafficVirtualIndex offsets visibleTop, min (length entries) (findTrafficVirtualIndex offsets visibleBottom + 2))))"

text \<open>\<^verbatim>\<open>registerTrafficRow\<close>: a measured height, an empty one counts as the estimated one.\<close>

definition measured_row :: "nat \<Rightarrow> rat \<Rightarrow> row_heights \<Rightarrow> row_heights" where
  "measured_row i height heights =
     (let nextHeight = (if height = 0 then 36 else height)
      in case heights i of
           Some previous \<Rightarrow> if \<bar>previous - nextHeight\<bar> > 1 / 2 then heights(i \<mapsto> nextHeight) else heights
         | None \<Rightarrow> heights(i \<mapsto> nextHeight))"

section \<open>The panel\<close>

text \<open>
  Ids of slots and of entries are the numbers in their texts; the id of a history entry is its mode and its
  content. \<open>se_flights\<close> are the sends the back end has not answered, with the slot of the timer that started
  them; \<open>se_calls\<close> is everything the back end was asked for, the newest call last.
\<close>

record SerialSendHistoryEntry =
  he_byteCount :: nat
  he_content :: jsstr
  he_mode :: SerialSendMode

record SerialSendSlot =
  sl_content :: jsstr
  sl_id :: nat
  sl_mode :: SerialSendMode
  sl_sendEnding :: SerialSendEnding
  sl_timedSendEnabled :: bool
  sl_timedSendIntervalMs :: jsnum

datatype serial_call =
    SendBytes "nat list" jsstr
  | SendData jsstr jsstr
  | OpenLine jsstr serial_profile
  | CloseLine jsstr
  | ReconfigureLine jsstr serial_profile

record serial_flight =
  fl_byteCount :: nat
  fl_content :: jsstr
  fl_mode :: SerialSendMode
  fl_timer :: "nat option"

record serial_panel =
  se_autoScroll :: bool
  se_log :: "SerialExchangeEntry list"
  se_heights :: row_heights
  se_hexError :: jsstr
  se_history :: "SerialSendHistoryEntry list"
  se_slots :: "SerialSendSlot list"
  se_historyIndex :: "nat option"
  se_lastTimestampUs :: int
  se_nextExchangeId :: nat
  se_nextSendSlotId :: nat
  se_inFlight :: "nat list"
  se_outputPaused :: bool
  se_profile :: serial_profile
  se_actionPending :: bool
  se_open :: bool
  se_terminal :: "terminal option"
  se_flights :: "serial_flight list"
  se_calls :: "serial_call list"

definition createSerialSendSlot :: "nat \<Rightarrow> SerialSendSlot" where
  "createSerialSendSlot i = \<lparr>sl_content = [], sl_id = i, sl_mode = TextMode, sl_sendEnding = ConfiguredEnding,
     sl_timedSendEnabled = False, sl_timedSendIntervalMs = Fin 1000\<rparr>"

definition line_open :: "terminal option \<Rightarrow> connection_status \<Rightarrow> bool" where
  "line_open terminal status \<longleftrightarrow> terminal \<noteq> None \<and> status \<noteq> Disconnected \<and> status \<noteq> Failed"

definition initial_panel :: "serial_profile \<Rightarrow> terminal option \<Rightarrow> connection_status \<Rightarrow> serial_panel" where
  "initial_panel runtimeProfile terminal status =
     \<lparr>se_autoScroll = True, se_log = [], se_heights = Map.empty, se_hexError = [], se_history = [],
      se_slots = map createSerialSendSlot [0..<6], se_historyIndex = None, se_lastTimestampUs = 0, se_nextExchangeId = 0,
      se_nextSendSlotId = 6, se_inFlight = [], se_outputPaused = False, se_profile = runtimeProfile, se_actionPending = False,
      se_open = line_open terminal status, se_terminal = terminal, se_flights = [], se_calls = []\<rparr>"

definition terminalReady :: "serial_panel \<Rightarrow> bool" where
  "terminalReady s \<longleftrightarrow> (case se_terminal s of Some t \<Rightarrow> term_status t \<noteq> Closed \<and> se_open s | None \<Rightarrow> False)"

definition serial_call :: "serial_call \<Rightarrow> serial_panel \<Rightarrow> serial_panel" where
  "serial_call c s = s\<lparr>se_calls := se_calls s @ [c]\<rparr>"

subsection \<open>The log\<close>

definition appendExchangeEntry :: "int \<Rightarrow> nat \<Rightarrow> jsstr \<Rightarrow> exchange_direction \<Rightarrow> SerialSendMode \<Rightarrow> serial_panel \<Rightarrow> serial_panel" where
  "appendExchangeEntry t byteCount content d mode s =
     (let timestampUs = max t (se_lastTimestampUs s + 1)
      in s\<lparr>se_lastTimestampUs := timestampUs, se_nextExchangeId := se_nextExchangeId s + 1,
           se_log := se_log s @ [\<lparr>ex_byteCount = byteCount, ex_content = content, ex_direction = d,
             ex_id = se_nextExchangeId s, ex_mode = mode, ex_timestampUs = timestampUs\<rparr>]\<rparr>)"

definition serial_rx :: "(jsstr \<Rightarrow> bool) \<Rightarrow> serial_rx_event \<Rightarrow> serial_panel \<Rightarrow> serial_panel" where
  "serial_rx other e s =
     (case se_terminal s of
        None \<Rightarrow> s
      | Some t \<Rightarrow>
          if se_outputPaused s \<or> rx_terminalId e \<noteq> term_id t then s
          else appendExchangeEntry (rx_timestampUs e) (length (rx_bytes e)) (rx_text e) Rx
                 (detectSerialRxMode other (rx_bytes e) (rx_text e)) s)"

definition clearExchangeLog :: "serial_panel \<Rightarrow> serial_panel" where
  "clearExchangeLog s = s\<lparr>se_heights := Map.empty, se_log := []\<rparr>"

subsection \<open>Sending\<close>

definition find_slot :: "serial_panel \<Rightarrow> nat \<Rightarrow> SerialSendSlot option" where
  "find_slot s i = find (\<lambda>slot. sl_id slot = i) (se_slots s)"

text \<open>\<^verbatim>\<open>sendDraft\<close> up to the call; \<open>timer\<close> is the slot of the timer that fired. Without a call it is over.\<close>

definition sendDraft :: "nat option \<Rightarrow> nat \<Rightarrow> serial_panel \<Rightarrow> bool \<times> serial_panel" where
  "sendDraft timer slotId s =
     (case (find_slot s slotId, se_terminal s) of
        (Some slot, Some terminal) \<Rightarrow>
          (let draft = sl_content slot; content = js_trim draft
           in if \<not> terminalReady s \<or> content = [] then (False, s)
              else if sl_mode slot = HexMode then
                (case parseSerialHexDraft content of
                   (_, Some e) \<Rightarrow> (False, s\<lparr>se_hexError := e\<rparr>)
                 | (bytes, None) \<Rightarrow>
                     if bytes = [] then (False, s)
                     else (True, serial_call (SendBytes bytes (term_id terminal))
                            (s\<lparr>se_flights := se_flights s @
                               [\<lparr>fl_byteCount = length bytes, fl_content = content, fl_mode = HexMode,
                                  fl_timer = timer\<rparr>]\<rparr>)))
              else
                (let payload = draft @ (if sl_sendEnding slot = ConfiguredEnding then serialLineEndingValue (ser_lineEnding (se_profile s)) else [])
                 in (True, serial_call (SendData payload (term_id terminal))
                       (s\<lparr>se_flights := se_flights s @
                          [\<lparr>fl_byteCount = length payload, fl_content = content, fl_mode = TextMode,
                             fl_timer = timer\<rparr>]\<rparr>))))
      | _ \<Rightarrow> (False, s))"

definition same_entry :: "SerialSendHistoryEntry \<Rightarrow> SerialSendHistoryEntry \<Rightarrow> bool" where
  "same_entry a b \<longleftrightarrow> he_mode a = he_mode b \<and> he_content a = he_content b"

definition maxHistoryItems :: nat where "maxHistoryItems = 12"

definition with_history :: "SerialSendHistoryEntry \<Rightarrow> SerialSendHistoryEntry list \<Rightarrow> SerialSendHistoryEntry list" where
  "with_history e current =
     (if (case current of h # _ \<Rightarrow> same_entry h e \<and> he_byteCount h = he_byteCount e | [] \<Rightarrow> False) then current
      else take maxHistoryItems (e # filter (\<lambda>h. \<not> same_entry h e) current))"

definition end_flight :: "serial_flight \<Rightarrow> serial_panel \<Rightarrow> serial_panel" where
  "end_flight f s = s\<lparr>se_flights := remove1 f (se_flights s),
     se_inFlight := (case fl_timer f of Some i \<Rightarrow> filter (\<lambda>j. j \<noteq> i) (se_inFlight s) | None \<Rightarrow> se_inFlight s)\<rparr>"

text \<open>The back end has taken the data; when it fails, nothing is written down.\<close>

definition send_answered :: "int \<Rightarrow> serial_flight \<Rightarrow> serial_panel \<Rightarrow> serial_panel" where
  "send_answered now f s =
     (let s = appendExchangeEntry now (fl_byteCount f) (fl_content f) Tx (fl_mode f) (end_flight f s)
      in s\<lparr>se_history := with_history \<lparr>he_byteCount = fl_byteCount f, he_content = fl_content f,
         he_mode = fl_mode f\<rparr> (se_history s),
           se_hexError := [], se_historyIndex := None\<rparr>)"

text \<open>
  The timers run for the slots that ask for it. Every new list of slots, and every change of the line or of
  its line ending, stops the timers and starts them anew, and takes their slots out of those under way.
\<close>

definition timed_slots :: "serial_panel \<Rightarrow> SerialSendSlot list" where
  "timed_slots s = filter (\<lambda>slot. sl_timedSendEnabled slot \<and> js_trim (sl_content slot) \<noteq> []) (se_slots s)"

definition timer_ticks :: "nat \<Rightarrow> serial_panel \<Rightarrow> serial_panel" where
  "timer_ticks i s =
     (if i \<in> set (se_inFlight s) then s
      else (case sendDraft (Some i) i (s\<lparr>se_inFlight := i # se_inFlight s\<rparr>) of
              (True, s') \<Rightarrow> s'
            | (False, s') \<Rightarrow> s'\<lparr>se_inFlight := filter (\<lambda>j. j \<noteq> i) (se_inFlight s')\<rparr>))"

definition timers_restart :: "serial_panel \<Rightarrow> serial_panel \<Rightarrow> serial_panel" where
  "timers_restart before s =
     (if terminalReady before then s\<lparr>se_inFlight := filter (\<lambda>j. j \<notin> sl_id ` set (timed_slots before)) (se_inFlight s)\<rparr> else s)"

definition timers_follow :: "serial_panel \<Rightarrow> serial_panel \<Rightarrow> serial_panel" where
  "timers_follow before s =
     (if terminalReady before = terminalReady s \<and> se_terminal before = se_terminal s
         \<and> ser_lineEnding (se_profile before) = ser_lineEnding (se_profile s) then s
      else timers_restart before s)"

definition change_slots :: "(SerialSendSlot list \<Rightarrow> SerialSendSlot list) \<Rightarrow> serial_panel \<Rightarrow> serial_panel" where
  "change_slots f s = timers_restart s (s\<lparr>se_slots := f (se_slots s)\<rparr>)"

definition updateSendSlot :: "nat \<Rightarrow> (SerialSendSlot \<Rightarrow> SerialSendSlot) \<Rightarrow> serial_panel \<Rightarrow> serial_panel" where
  "updateSendSlot slotId patch = change_slots (map (\<lambda>slot. if sl_id slot = slotId then patch slot else slot))"

definition addSendSlot :: "serial_panel \<Rightarrow> serial_panel" where
  "addSendSlot s =
     change_slots (\<lambda>slots. slots @ [createSerialSendSlot (se_nextSendSlotId s)]) (s\<lparr>se_nextSendSlotId := se_nextSendSlotId s + 1\<rparr>)"

definition removeSendSlot :: "nat \<Rightarrow> serial_panel \<Rightarrow> serial_panel" where
  "removeSendSlot slotId s =
     (if length (se_slots s) \<le> 1 then s else change_slots (filter (\<lambda>slot. sl_id slot \<noteq> slotId)) s)"

subsection \<open>Inputs and their history\<close>

definition slot_edited :: "nat \<Rightarrow> jsstr \<Rightarrow> serial_panel \<Rightarrow> serial_panel" where
  "slot_edited slotId value s = (updateSendSlot slotId (\<lambda>slot. slot\<lparr>sl_content := value\<rparr>) s)\<lparr>se_hexError := [], se_historyIndex := None\<rparr>"

definition slot_mode :: "nat \<Rightarrow> SerialSendMode \<Rightarrow> serial_panel \<Rightarrow> serial_panel" where
  "slot_mode slotId mode s = (updateSendSlot slotId (\<lambda>slot. slot\<lparr>sl_mode := mode\<rparr>) s)\<lparr>se_hexError := []\<rparr>"

definition history_at :: "serial_panel \<Rightarrow> nat \<Rightarrow> SerialSendHistoryEntry option" where
  "history_at s i = (if i < length (se_history s) then Some (se_history s ! i) else None)"

text \<open>The entry as the content and mode of a slot; without an entry, what \<open>content\<close> gives and the mode it has.\<close>

definition history_slot :: "serial_panel \<Rightarrow> nat \<Rightarrow> nat \<Rightarrow> jsstr \<Rightarrow> SerialSendSlot \<Rightarrow> SerialSendSlot" where
  "history_slot s slotId next content slot =
     slot\<lparr>sl_content := or_value (map_option he_content (history_at s next)) content,
          sl_mode := or_value (map_option he_mode (history_at s next)) (or_value (map_option sl_mode (find_slot s slotId)) TextMode)\<rparr>"

definition arrow_up :: "nat \<Rightarrow> serial_panel \<Rightarrow> serial_panel" where
  "arrow_up slotId s =
     (let next = (case se_historyIndex s of None \<Rightarrow> 0 | Some i \<Rightarrow> min (length (se_history s) - 1) (i + 1))
      in (updateSendSlot slotId (history_slot s slotId next (or_value (map_option sl_content (find_slot s slotId)) [])) s)
           \<lparr>se_historyIndex := (if se_history s \<noteq> [] then Some next else None), se_hexError := []\<rparr>)"

definition arrow_down :: "nat \<Rightarrow> serial_panel \<Rightarrow> serial_panel" where
  "arrow_down slotId s =
     (case se_historyIndex s of
        None \<Rightarrow> s
      | Some 0 \<Rightarrow> (updateSendSlot slotId (\<lambda>slot. slot\<lparr>sl_content := []\<rparr>) s)\<lparr>se_historyIndex := None\<rparr>
      | Some (Suc next) \<Rightarrow>
          (updateSendSlot slotId (history_slot s slotId next []) s)\<lparr>se_historyIndex := Some next, se_hexError := []\<rparr>)"

definition restoreHistory :: "SerialSendHistoryEntry \<Rightarrow> serial_panel \<Rightarrow> serial_panel" where
  "restoreHistory entry s =
     (let fill = (\<lambda>slot. slot\<lparr>sl_content := he_content entry, sl_mode := he_mode entry\<rparr>);
          s' = (case find (\<lambda>slot. js_trim (sl_content slot) = []) (se_slots s) of
                  Some emptySlot \<Rightarrow> change_slots (map (\<lambda>slot. if sl_id slot = sl_id emptySlot then fill slot else slot)) s
                | None \<Rightarrow> change_slots (\<lambda>slots. slots @ [fill (createSerialSendSlot (se_nextSendSlotId s))])
                            (s\<lparr>se_nextSendSlotId := se_nextSendSlotId s + 1\<rparr>))
      in s'\<lparr>se_hexError := [], se_historyIndex := None\<rparr>)"

definition clearSendHistory :: "serial_panel \<Rightarrow> serial_panel" where
  "clearSendHistory s = s\<lparr>se_history := [], se_historyIndex := None\<rparr>"

definition removeSendHistoryEntry :: "SerialSendHistoryEntry \<Rightarrow> serial_panel \<Rightarrow> serial_panel" where
  "removeSendHistoryEntry entry s = s\<lparr>se_history := filter (\<lambda>h. \<not> same_entry h entry) (se_history s),
     se_historyIndex := None\<rparr>"

subsection \<open>The line\<close>

definition updateRuntimeProfile :: "jsstr \<Rightarrow> (serial_profile \<Rightarrow> serial_profile) \<Rightarrow> serial_panel \<Rightarrow> serial_panel" where
  "updateRuntimeProfile now patch s =
     (let nextProfile = (patch (se_profile s))\<lparr>prof_updatedAt := now\<rparr>;
          s' = timers_follow s (s\<lparr>se_profile := nextProfile\<rparr>)
      in case se_terminal s of
           None \<Rightarrow> s'
         | Some t \<Rightarrow>
             if \<not> se_open s \<or> se_actionPending s then s'
             else serial_call (ReconfigureLine (term_id t) nextProfile) (s'\<lparr>se_actionPending := True\<rparr>))"

definition toggleSerial :: "serial_panel \<Rightarrow> serial_panel" where
  "toggleSerial s =
     (case se_terminal s of
        None \<Rightarrow> s
      | Some t \<Rightarrow>
          if se_actionPending s then s
          else serial_call (if se_open s then CloseLine (term_id t) else OpenLine (term_id t) (se_profile s)) (s\<lparr>se_actionPending := True\<rparr>))"

text \<open>The answer to the action under way: it succeeds with the line open or closed, or it fails.\<close>

definition action_answered :: "bool \<Rightarrow> serial_panel \<Rightarrow> serial_panel" where
  "action_answered isOpen s = timers_follow s (s\<lparr>se_open := isOpen, se_actionPending := False\<rparr>)"

subsection \<open>What comes from outside\<close>

definition status_changed :: "connection_status \<Rightarrow> serial_panel \<Rightarrow> serial_panel" where
  "status_changed status s = timers_follow s (s\<lparr>se_open := line_open (se_terminal s) status\<rparr>)"

definition terminal_changed :: "terminal option \<Rightarrow> connection_status \<Rightarrow> serial_panel \<Rightarrow> serial_panel" where
  "terminal_changed terminal status s =
     timers_follow s
       (if map_option term_id terminal = map_option term_id (se_terminal s) then s\<lparr>se_terminal := terminal\<rparr>
        else s\<lparr>se_terminal := terminal, se_open := line_open terminal status, se_log := [],
          se_heights := Map.empty\<rparr>)"

definition profile_changed :: "serial_profile \<Rightarrow> serial_panel \<Rightarrow> serial_panel" where
  "profile_changed runtimeProfile s = timers_follow s (s\<lparr>se_profile := runtimeProfile\<rparr>)"

definition port_gone :: "jsstr \<Rightarrow> serial_port list \<Rightarrow> serial_panel \<Rightarrow> serial_panel" where
  "port_gone now ports s =
     (if se_open s \<or> ser_portName (se_profile s) = [] \<or> ser_portName (se_profile s) \<in> set (map port_name ports) then s
      else s\<lparr>se_profile := (se_profile s)\<lparr>ser_portName := [], prof_updatedAt := now\<rparr>\<rparr>)"

section \<open>Hexadecimal input read back\<close>

definition two_hex :: "nat \<Rightarrow> jsstr" where
  "two_hex b = [hex_digit (b div 16), hex_digit (b mod 16)]"

text \<open>A byte as it may be written: with or without the prefix, and separators behind it.\<close>

definition hex_token :: "bool \<times> nat \<times> jsstr \<Rightarrow> jsstr" where
  "hex_token = (\<lambda>(prefixed, b, separators). (if prefixed then js ''0x'' else []) @ two_hex b @ separators)"

definition token_ok :: "bool \<times> nat \<times> jsstr \<Rightarrow> bool" where
  "token_ok = (\<lambda>(prefixed, b, separators). b < 256 \<and> list_all hex_separator separators)"

lemma hex_digit_cases: "n < 16 \<Longrightarrow> hex_digit n \<noteq> 120 \<and> hex_digit n \<noteq> 88 \<and> \<not> hex_separator (hex_digit n) \<and> \<not> js_space (hex_digit n)"
  by (drule below_16) (elim insertE emptyE; simp add: hex_digit_def hex_separator_def js_space_def)

lemma separator_not_x: "hex_separator c \<Longrightarrow> c \<noteq> 120 \<and> c \<noteq> 88"
  by (auto simp: hex_separator_def js_space_def)

lemma without_0x_plain: "c \<noteq> 48 \<or> s = [] \<or> hd s \<noteq> 120 \<and> hd s \<noteq> 88 \<Longrightarrow> without_0x (c # s) = c # without_0x s"
  by (cases s) auto

definition no_x :: "jsstr \<Rightarrow> bool" where "no_x s \<longleftrightarrow> s = [] \<or> hd s \<noteq> 120 \<and> hd s \<noteq> 88"

lemma without_0x_separators: "list_all hex_separator t \<Longrightarrow> no_x s \<Longrightarrow> without_0x (t @ s) = t @ without_0x s \<and> no_x (t @ s)"
proof (induction t)
  case (Cons c t)
  then have "without_0x (t @ s) = t @ without_0x s" "no_x (t @ s)" by simp_all
  then show ?case using Cons.prems separator_not_x [of c] by (simp add: without_0x_plain no_x_def)
qed simp

lemma without_0x_token:
  assumes "token_ok tk" "no_x s"
  shows "filter (\<lambda>c. \<not> hex_separator c) (without_0x (hex_token tk @ s)) = two_hex (fst (snd tk)) @ filter (\<lambda>c. \<not> hex_separator c) (without_0x s)
    \<and> no_x (hex_token tk @ s)"
proof -
  obtain p b t where tk: "tk = (p, b, t)" by (cases tk)
  then have b: "b div 16 < 16" "b mod 16 < 16" and t: "list_all hex_separator t" using assms(1) by (auto simp: token_ok_def)
  have rest: "without_0x (t @ s) = t @ without_0x s" "no_x (t @ s)" using without_0x_separators [OF t assms(2)] by blast+
  have none: "filter (\<lambda>c. \<not> hex_separator c) t = []" using t by (auto simp: list_all_iff filter_empty_conv)
  have two: "without_0x (two_hex b @ t @ s) = two_hex b @ without_0x (t @ s)"
    using hex_digit_cases [OF b(1)] hex_digit_cases [OF b(2)] rest(2) by (simp add: two_hex_def without_0x_plain no_x_def)
  have "without_0x (hex_token tk @ s) = two_hex b @ t @ without_0x s"
    using two rest(1) by (simp add: hex_token_def tk js_def)
  moreover have "no_x (hex_token tk @ s)"
    using hex_digit_cases [OF b(1)] by (simp add: hex_token_def tk two_hex_def no_x_def js_def)
  ultimately show ?thesis
    using hex_digit_cases [OF b(1)] hex_digit_cases [OF b(2)] none by (simp add: tk two_hex_def)
qed

lemma tokens_compact:
  "list_all token_ok tks \<Longrightarrow>
     filter (\<lambda>c. \<not> hex_separator c) (without_0x (concat (map hex_token tks))) = concat (map (two_hex \<circ> fst \<circ> snd) tks)
     \<and> no_x (concat (map hex_token tks))"
proof (induction tks)
  case (Cons tk tks)
  then show ?case using without_0x_token [of tk "concat (map hex_token tks)"] by simp
qed (simp add: no_x_def)

lemma hex_bytes_two: "list_all (\<lambda>b. b < 256) bs \<Longrightarrow> hex_bytes (concat (map two_hex bs)) = bs"
proof (induction bs)
  case (Cons b bs)
  then have "b div 16 < 16" "b mod 16 < 16" by auto
  then show ?case using Cons by (simp add: two_hex_def hex_value_digit)
qed simp

lemma hex_bytes_below: "list_all (\<lambda>c. hex_value c \<noteq> None) s \<Longrightarrow> list_all (\<lambda>b. b < 256) (hex_bytes s)"
proof (induction s rule: hex_bytes.induct)
  case (1 a b s)
  have "the (hex_value c) < 16" if "hex_value c \<noteq> None" for c
    using that by (auto simp: hex_value_def unat_arith_simps split: if_splits)
  from this [of a] this [of b] show ?case using 1 by auto
qed simp_all

lemma trim_end_append: "xs \<noteq> [] \<Longrightarrow> \<not> P (last xs) \<Longrightarrow> trim_end P (xs @ ys) = xs @ trim_end P ys"
  by (cases xs rule: rev_cases) (auto simp: trim_end_def dropWhile_append)

lemma hex_token_start: "token_ok tk \<Longrightarrow> \<not> js_space (hd (hex_token tk @ r))"
proof -
  assume ok: "token_ok tk"
  obtain p b t where tk: "tk = (p, b, t)" by (cases tk)
  have "b < 256" using ok by (simp add: token_ok_def tk)
  then have "b div 16 < 16" by simp
  from hex_digit_cases [OF this] show ?thesis by (simp add: tk hex_token_def two_hex_def js_def js_space_def)
qed

lemma trim_tokens:
  assumes "list_all token_ok (tks @ [(p, b, t)])"
  shows "js_trim (concat (map hex_token (tks @ [(p, b, t)]))) = concat (map hex_token (tks @ [(p, b, trim_end js_space t)]))"
proof -
  have b: "b div 16 < 16" "b mod 16 < 16" using assms by (auto simp: token_ok_def)
  let ?xs = "concat (map hex_token tks) @ (if p then js ''0x'' else []) @ two_hex b"
  have xs: "?xs \<noteq> []" "\<not> js_space (last ?xs)" using hex_digit_cases [OF b(2)] by (simp_all add: two_hex_def)
  have "\<not> js_space (hd (?xs @ t))"
    using assms hex_digit_cases [OF b(1)] hex_token_start
    by (cases tks) (auto simp: two_hex_def js_def js_space_def [of 48])
  then have "dropWhile js_space (?xs @ t) = ?xs @ t" using xs(1) by (cases "?xs @ t") simp_all
  then show ?thesis using trim_end_append [of ?xs js_space t] xs by (simp add: js_trim_def hex_token_def)
qed

lemma parse_compact:
  assumes "js_trim s \<noteq> []" "filter (\<lambda>c. \<not> hex_separator c) (without_0x (js_trim s)) = concat (map two_hex bs)" "list_all (\<lambda>b. b < 256) bs"
  shows "parseSerialHexDraft s = (bs, None)"
proof -
  have digits: "list_all (\<lambda>c. hex_value c \<noteq> None) (concat (map two_hex bs))" using assms(3)
  proof (induction bs)
    case (Cons b bs)
    then have "b div 16 < 16" "b mod 16 < 16" by auto
    then show ?case using Cons by (simp add: two_hex_def hex_value_digit)
  qed simp
  then have "\<not> list_ex (\<lambda>c. hex_value c = None) (concat (map two_hex bs))" by (auto simp: list_all_iff list_ex_iff)
  moreover have "length (concat (map two_hex bs)) mod 2 = 0" by (induction bs) (simp_all add: two_hex_def)
  ultimately show ?thesis
    using assms hex_bytes_two [OF assms(3)] by (cases bs) (simp_all add: parseSerialHexDraft_def Let_def two_hex_def)
qed

text \<open>
  C35. Hexadecimal input is read back: however the bytes are written, with or without the prefix and with any
  separators between them, exactly these bytes are sent; and whatever is typed, only bytes are sent.
\<close>

theorem hex_input_read_back:
  assumes "list_all token_ok tks"
  shows "parseSerialHexDraft (concat (map hex_token tks)) = (map (fst \<circ> snd) tks, None)
    \<and> list_all (\<lambda>b. b < 256) (fst (parseSerialHexDraft s))"
proof
  show "parseSerialHexDraft (concat (map hex_token tks)) = (map (fst \<circ> snd) tks, None)"
  proof (cases tks rule: rev_cases)
    case Nil
    then show ?thesis by (simp add: parseSerialHexDraft_def js_trim_def trim_end_def)
  next
    case (snoc ks k)
    obtain p b t where k: "k = (p, b, t)" by (cases k)
    let ?tks = "ks @ [(p, b, trim_end js_space t)]"
    have trim: "js_trim (concat (map hex_token tks)) = concat (map hex_token ?tks)"
      using trim_tokens [of ks p b t] assms unfolding snoc k by blast
    have "set (trim_end js_space t) \<subseteq> set t" by (auto simp: trim_end_def dest: set_dropWhileD)
    then have ok: "list_all token_ok ?tks" using assms unfolding snoc k by (auto simp: token_ok_def list_all_iff)
    have "map (fst \<circ> snd) ?tks = map (fst \<circ> snd) tks" by (simp add: snoc k)
    moreover have "list_all (\<lambda>b. b < 256) (map (fst \<circ> snd) ?tks)" using ok by (auto simp: list_all_iff token_ok_def)
    moreover have "js_trim (concat (map hex_token tks)) \<noteq> []" unfolding trim by (simp add: hex_token_def two_hex_def)
    moreover have "filter (\<lambda>c. \<not> hex_separator c) (without_0x (js_trim (concat (map hex_token tks)))) = concat (map two_hex (map (fst \<circ> snd) ?tks))"
      using tokens_compact [OF ok] unfolding trim by (simp only: map_map comp_assoc)
    ultimately show ?thesis by (metis parse_compact)
  qed
next
  show "list_all (\<lambda>b. b < 256) (fst (parseSerialHexDraft s))"
  proof -
    define compact where "compact = filter (\<lambda>c. \<not> hex_separator c) (without_0x (js_trim s))"
    have "list_all (\<lambda>b. b < 256) (hex_bytes compact)" if "\<not> list_ex (\<lambda>c. hex_value c = None) compact"
      using that by (intro hex_bytes_below) (simp add: list_ex_iff list_all_iff)
    then show ?thesis unfolding parseSerialHexDraft_def Let_def compact_def [symmetric] by simp
  qed
qed

theorem hex_input_read_back_witness:
  "parseSerialHexDraft (concat (map hex_token [(True, 1, [44, 32]), (False, 0xFF, [])])) = ([1, 0xFF], None)"
  using hex_input_read_back [of "[(True, 1, [44, 32]), (False, 0xFF, [])]"] by (simp add: token_ok_def hex_separator_def js_space_def)

section \<open>The window covers what is visible\<close>

lemma binary_search_spec:
  assumes "os \<noteq> []" "os ! 0 \<le> t" "0 \<le> low" "low \<le> high + 1" "high < int (length os)"
    "\<And>j. int j < low \<Longrightarrow> os ! j \<le> t" "\<And>j. high < int j \<Longrightarrow> j < length os \<Longrightarrow> t < os ! j"
    "result = (if low = 0 then 0 else low - 1)" "sorted os"
  shows "0 \<le> binary_search os t low high result \<and> binary_search os t low high result < int (length os)
    \<and> os ! nat (binary_search os t low high result) \<le> t
    \<and> (\<forall>j. binary_search os t low high result < int j \<longrightarrow> j < length os \<longrightarrow> t < os ! j)"
  using assms
proof (induction os t low high result rule: binary_search.induct)
  case (1 os t low high result)
  show ?case
  proof (cases "low \<le> high")
    case False
    then have low: "low = high + 1" using "1.prems"(4) by simp
    have "low \<noteq> 0"
    proof
      assume "low = 0"
      then have "t < os ! 0" using "1.prems"(1) "1.prems"(7) [of 0] low by simp
      then show False using "1.prems"(2) by simp
    qed
    moreover have "binary_search os t low high result = low - 1"
      using False "1.prems"(8) \<open>low \<noteq> 0\<close> by (simp add: binary_search.simps [of os t low])
    ultimately show ?thesis using "1.prems"(3,5,7) "1.prems"(6) [of "nat (low - 1)"] low by auto
  next
    case True
    define middle where "middle = (low + high) div 2"
    have m: "low \<le> middle" "middle \<le> high" "0 \<le> middle" "nat middle < length os" using True "1.prems"(3,5) by (auto simp: middle_def)
    have mono: "i \<le> j \<Longrightarrow> j < length os \<Longrightarrow> os ! i \<le> os ! j" for i j using "1.prems"(9) by (simp add: sorted_nth_mono)
    show ?thesis
    proof (cases "os ! nat middle \<le> t")
      case le: True
      have below: "os ! j \<le> t" if "int j < middle + 1" for j using mono [of j "nat middle"] m le that by (auto simp: le_nat_iff)
      have step: "binary_search os t low high result = binary_search os t (middle + 1) high middle"
        using True le by (simp add: binary_search.simps [of os t low] middle_def [symmetric] Let_def)
      show ?thesis unfolding step
      proof (rule "1.IH"(1) [OF True middle_def le])
        show "0 \<le> middle + 1" "middle + 1 \<le> high + 1" "middle = (if middle + 1 = 0 then 0 else middle + 1 - 1)" using m by auto
      qed (use "1.prems" below in auto)
    next
      case gt: False
      have above: "t < os ! j" if "middle - 1 < int j" "j < length os" for j using mono [of "nat middle" j] m gt that by (auto simp: nat_le_iff)
      have step: "binary_search os t low high result = binary_search os t low (middle - 1) result"
        using True gt by (simp add: binary_search.simps [of os t low] middle_def [symmetric] Let_def)
      show ?thesis unfolding step
      proof (rule "1.IH"(2) [OF True middle_def gt])
        show "low \<le> middle - 1 + 1" "middle - 1 < int (length os)" using m by auto
      qed (use "1.prems" above in auto)
    qed
  qed
qed

lemma findTrafficVirtualIndex_spec:
  assumes "os \<noteq> []" "os ! 0 = 0" "sorted os" "0 < t"
  shows "findTrafficVirtualIndex os t < length os" "j \<le> findTrafficVirtualIndex os t \<Longrightarrow> os ! j \<le> t"
    "findTrafficVirtualIndex os t < j \<Longrightarrow> j < length os \<Longrightarrow> t < os ! j"
proof -
  have r: "0 \<le> binary_search os t 0 (int (length os) - 1) 0 \<and> binary_search os t 0 (int (length os) - 1) 0 < int (length os)
      \<and> os ! nat (binary_search os t 0 (int (length os) - 1) 0) \<le> t
      \<and> (\<forall>j. binary_search os t 0 (int (length os) - 1) 0 < int j \<longrightarrow> j < length os \<longrightarrow> t < os ! j)"
    using assms by (intro binary_search_spec) auto
  then show lt: "findTrafficVirtualIndex os t < length os" using assms by (simp add: findTrafficVirtualIndex_def nat_less_iff)
  have at: "os ! findTrafficVirtualIndex os t \<le> t" using r assms by (simp add: findTrafficVirtualIndex_def)
  show "j \<le> findTrafficVirtualIndex os t \<Longrightarrow> os ! j \<le> t"
    using sorted_nth_mono [OF assms(3), of j "findTrafficVirtualIndex os t"] lt at by simp
  show "findTrafficVirtualIndex os t < j \<Longrightarrow> j < length os \<Longrightarrow> t < os ! j"
    using r assms by (simp add: findTrafficVirtualIndex_def nat_less_iff)
qed

lemma metrics_cons:
  "fst (trafficVirtualMetrics heights t (e # es)) = t # fst (trafficVirtualMetrics heights (t + row_height heights e) es)"
  by (simp add: case_prod_unfold)

lemma metrics_length: "length (fst (trafficVirtualMetrics heights t es)) = length es"
  by (induction es arbitrary: t) (simp_all only: metrics_cons, simp_all)

lemma metrics_offsets:
  "i < length es \<Longrightarrow> fst (trafficVirtualMetrics heights t es) ! i = t + sum_list (map (row_height heights) (take i es))"
proof (induction es arbitrary: t i)
  case (Cons e es)
  then show ?case by (cases i) (simp_all add: metrics_cons del: trafficVirtualMetrics.simps)
qed simp

text \<open>
  C36. The window of the log shows all of it that can be seen: with rows of positive height, every entry that
  reaches into the visible part or less than 720 pixels beyond it is in the range that is displayed.
\<close>

theorem visible_entries_displayed:
  fixes scrollTop viewportHeight top :: rat and heights :: row_heights
  assumes "i < length entries" and "\<forall>e \<in> set entries. 0 < row_height heights e" and "0 \<le> scrollTop" "0 \<le> viewportHeight"
    and "top = sum_list (map (row_height heights) (take i entries))"
    and "scrollTop - 720 < top + row_height heights (entries ! i)" "top \<le> scrollTop + viewportHeight + 720"
  shows "fst (trafficVisibleRange heights entries scrollTop viewportHeight) \<le> i
    \<and> i < snd (trafficVisibleRange heights entries scrollTop viewportHeight)"
proof -
  define os where "os = fst (trafficVirtualMetrics heights 0 entries)"
  have nonempty: "entries \<noteq> []" using assms(1) by auto
  have len: "length os = length entries" unfolding os_def by (rule metrics_length)
  have at: "os ! j = sum_list (map (row_height heights) (take j entries))" if "j < length entries" for j
    unfolding os_def using metrics_offsets [OF that, of heights 0] by simp
  have next_at: "sum_list (map (row_height heights) (take (Suc j) entries)) =
      sum_list (map (row_height heights) (take j entries)) + row_height heights (entries ! j)" if "j < length entries" for j
    using that by (simp add: take_Suc_conv_app_nth)
  have first: "os ! 0 = 0" using at [of 0] nonempty by simp
  have sorted: "sorted os"
  proof (unfold sorted_iff_nth_Suc, intro allI impI)
    fix j assume "Suc j < length os"
    then have j: "j < length entries" "Suc j < length entries" using len by simp_all
    then have "0 < row_height heights (entries ! j)" using assms(2) nth_mem [of j entries] by blast
    then show "os ! j \<le> os ! Suc j" unfolding at [OF j(1)] at [OF j(2)] next_at [OF j(1)] by simp
  qed
  have os: "os \<noteq> []" using nonempty len by auto
  define r where "r = findTrafficVirtualIndex os (max 0 (scrollTop - 720))"
  define q where "q = findTrafficVirtualIndex os (scrollTop + viewportHeight + 720)"
  have range: "trafficVisibleRange heights entries scrollTop viewportHeight = (r, min (length entries) (q + 2))"
    using nonempty by (simp add: trafficVisibleRange_def Let_def os_def [symmetric] r_def q_def)
  have "r \<le> i"
  proof (rule ccontr)
    assume "\<not> r \<le> i"
    then have pos: "0 < scrollTop - 720" by (auto simp: r_def findTrafficVirtualIndex_def max_def split: if_splits)
    then have "r < length os" "os ! Suc i \<le> scrollTop - 720"
      using findTrafficVirtualIndex_spec(1,2) [OF os first sorted, of "scrollTop - 720"] \<open>\<not> r \<le> i\<close> by (simp_all add: r_def)
    then show False using at [of "Suc i"] next_at [OF assms(1)] assms(5,6) \<open>\<not> r \<le> i\<close> len by simp
  qed
  moreover have "i \<le> q"
  proof (rule ccontr)
    assume "\<not> i \<le> q"
    then have "scrollTop + viewportHeight + 720 < os ! i"
      using findTrafficVirtualIndex_spec(3) [OF os first sorted, of "scrollTop + viewportHeight + 720" i] assms(1,3,4) len by (simp add: q_def)
    then show False using at [OF assms(1)] assms(5,7) by simp
  qed
  ultimately show ?thesis using assms(1) range by simp
qed

definition example_log :: "SerialExchangeEntry list" where
  "example_log = [\<lparr>ex_byteCount = 1, ex_content = js ''A'', ex_direction = Rx, ex_id = 0, ex_mode = TextMode,
     ex_timestampUs = 1\<rparr>,
     \<lparr>ex_byteCount = 1, ex_content = js ''B'', ex_direction = Tx, ex_id = 1, ex_mode = TextMode, ex_timestampUs = 2\<rparr>]"

theorem visible_entries_displayed_witness:
  "1 < snd (trafficVisibleRange Map.empty example_log 0 100)"
proof -
  have heights: "row_height Map.empty e = 36" for e by (simp add: row_height_def)
  have "1 < length example_log" "(36::rat) = sum_list (map (row_height Map.empty) (take 1 example_log))"
    by (simp_all add: example_log_def heights)
  from visible_entries_displayed [OF this(1) _ _ _ this(2), of 0 100] show ?thesis by (simp add: heights)
qed

section \<open>The state of the panel\<close>

definition slots_ok :: "nat \<Rightarrow> SerialSendSlot list \<Rightarrow> bool" where
  "slots_ok n slots \<longleftrightarrow> slots \<noteq> [] \<and> distinct (map sl_id slots) \<and> (\<forall>i \<in> set (map sl_id slots). i < n)"

definition log_ok :: "nat \<Rightarrow> int \<Rightarrow> SerialExchangeEntry list \<Rightarrow> bool" where
  "log_ok n t es \<longleftrightarrow> sorted_wrt (<) (map ex_id es) \<and> (\<forall>i \<in> set (map ex_id es). i < n)
     \<and> sorted_wrt (<) (map ex_timestampUs es) \<and> (\<forall>u \<in> set (map ex_timestampUs es). u \<le> t)"

definition history_key :: "SerialSendHistoryEntry \<Rightarrow> SerialSendMode \<times> jsstr" where
  "history_key h = (he_mode h, he_content h)"

definition history_ok :: "SerialSendHistoryEntry list \<Rightarrow> bool" where
  "history_ok hs \<longleftrightarrow> length hs \<le> maxHistoryItems \<and> distinct (map history_key hs)"

definition panel_inv :: "serial_panel \<Rightarrow> bool" where
  "panel_inv s \<longleftrightarrow> slots_ok (se_nextSendSlotId s) (se_slots s) \<and> log_ok (se_nextExchangeId s) (se_lastTimestampUs s) (se_log s)
     \<and> history_ok (se_history s)"

inductive panel_step :: "serial_panel \<Rightarrow> serial_panel \<Rightarrow> bool" where
  received: "panel_step s (serial_rx other e s)"
| cleared: "panel_step s (clearExchangeLog s)"
| submitted: "panel_step s (snd (sendDraft None i s))"
| ticked: "i \<in> set (map sl_id (timed_slots s)) \<Longrightarrow> terminalReady s \<Longrightarrow> panel_step s (timer_ticks i s)"
| sent: "f \<in> set (se_flights s) \<Longrightarrow> panel_step s (send_answered now f s)"
| refused: "f \<in> set (se_flights s) \<Longrightarrow> panel_step s (end_flight f s)"
| added: "panel_step s (addSendSlot s)"
| removed: "panel_step s (removeSendSlot i s)"
| edited: "panel_step s (slot_edited i v s)"
| mode: "panel_step s (slot_mode i m s)"
| sending: "panel_step s (updateSendSlot i (\<lambda>slot. slot\<lparr>sl_sendEnding := e, sl_timedSendEnabled := b,
   sl_timedSendIntervalMs := clampTimedSendInterval v\<rparr>) s)"
| up: "panel_step s (arrow_up i s)"
| down: "panel_step s (arrow_down i s)"
| restored: "h \<in> set (se_history s) \<Longrightarrow> panel_step s (restoreHistory h s)"
| forgotten: "panel_step s (clearSendHistory s)"
| dropped: "panel_step s (removeSendHistoryEntry h s)"
| configured: "panel_step s (updateRuntimeProfile now patch s)"
| toggled: "panel_step s (toggleSerial s)"
| answered: "se_actionPending s \<Longrightarrow> panel_step s (action_answered b s)"
| status: "panel_step s (status_changed st s)"
| terminal: "panel_step s (terminal_changed t st s)"
| profile: "panel_step s (profile_changed p s)"
| port: "panel_step s (port_gone now ports s)"
| rendered: "panel_step s (timers_restart s s)"
| measured: "panel_step s (s\<lparr>se_heights := measured_row i h (se_heights s)\<rparr>)"
| paused: "panel_step s (s\<lparr>se_outputPaused := b, se_autoScroll := a\<rparr>)"

lemma timers_fields [simp]:
  "se_slots (timers_restart b s) = se_slots s" "se_nextSendSlotId (timers_restart b s) = se_nextSendSlotId s"
  "se_log (timers_restart b s) = se_log s" "se_nextExchangeId (timers_restart b s) = se_nextExchangeId s"
  "se_lastTimestampUs (timers_restart b s) = se_lastTimestampUs s" "se_history (timers_restart b s) = se_history s"
  "se_slots (timers_follow b s) = se_slots s" "se_nextSendSlotId (timers_follow b s) = se_nextSendSlotId s"
  "se_log (timers_follow b s) = se_log s" "se_nextExchangeId (timers_follow b s) = se_nextExchangeId s"
  "se_lastTimestampUs (timers_follow b s) = se_lastTimestampUs s" "se_history (timers_follow b s) = se_history s"
  by (simp_all add: timers_restart_def timers_follow_def)

lemma change_slots_fields [simp]:
  "se_slots (change_slots f s) = f (se_slots s)" "se_nextSendSlotId (change_slots f s) = se_nextSendSlotId s"
  "se_log (change_slots f s) = se_log s" "se_nextExchangeId (change_slots f s) = se_nextExchangeId s"
  "se_lastTimestampUs (change_slots f s) = se_lastTimestampUs s" "se_history (change_slots f s) = se_history s"
  by (simp_all add: change_slots_def)

lemma sendDraft_fields:
  "se_slots (snd (sendDraft t i s)) = se_slots s" "se_nextSendSlotId (snd (sendDraft t i s)) = se_nextSendSlotId s"
  "se_log (snd (sendDraft t i s)) = se_log s" "se_nextExchangeId (snd (sendDraft t i s)) = se_nextExchangeId s"
  "se_lastTimestampUs (snd (sendDraft t i s)) = se_lastTimestampUs s" "se_history (snd (sendDraft t i s)) = se_history s"
  by (simp_all add: sendDraft_def serial_call_def Let_def split: option.split prod.split)

lemma slots_ok_map:
  "slots_ok n slots \<Longrightarrow> (\<And>slot. sl_id (f slot) = sl_id slot) \<Longrightarrow> slots_ok n (map f slots)"
  by (simp add: slots_ok_def comp_def)

lemma slots_ok_add: "slots_ok n slots \<Longrightarrow> sl_id slot = n \<Longrightarrow> slots_ok (Suc n) (slots @ [slot])"
  by (auto simp: slots_ok_def less_Suc_eq)

lemma slots_ok_filter: "slots_ok n slots \<Longrightarrow> \<not> length slots \<le> 1 \<Longrightarrow> slots_ok n (filter (\<lambda>slot. sl_id slot \<noteq> i) slots)"
proof -
  assume ok: "slots_ok n slots" and many: "\<not> length slots \<le> 1"
  then obtain a b slots' where s: "slots = a # b # slots'" by (cases slots rule: list.exhaust; metis One_nat_def le_SucI length_Cons list.exhaust list.size(3) not_less_eq_eq)
  then have "sl_id a \<noteq> sl_id b" using ok by (simp add: slots_ok_def)
  then have "filter (\<lambda>slot. sl_id slot \<noteq> i) slots \<noteq> []" by (auto simp: s)
  then show ?thesis using ok by (auto simp: slots_ok_def distinct_map intro: inj_on_subset)
qed

lemma log_ok_append:
  "log_ok n t es \<Longrightarrow> ex_id e = n \<Longrightarrow> t < ex_timestampUs e \<Longrightarrow> log_ok (Suc n) (ex_timestampUs e) (es @ [e])"
  by (force simp: log_ok_def sorted_wrt_append)

lemma log_ok_Nil: "log_ok n t []"
  by (simp add: log_ok_def)

lemma append_inv: "panel_inv s \<Longrightarrow> panel_inv (appendExchangeEntry t n c d m s)"
  using log_ok_append [of "se_nextExchangeId s" "se_lastTimestampUs s" "se_log s" "last (se_log (appendExchangeEntry t n c d m s))"]
  by (simp add: panel_inv_def appendExchangeEntry_def Let_def)

lemma history_ok_filter: "history_ok hs \<Longrightarrow> history_ok (filter P hs)"
  using order_trans [OF length_filter_le [of P hs], of maxHistoryItems]
  by (simp add: history_ok_def distinct_map) (auto intro: inj_on_subset)

lemma history_ok_with: "history_ok hs \<Longrightarrow> history_ok (with_history e hs)"
proof -
  assume ok: "history_ok hs"
  let ?new = "e # filter (\<lambda>h. \<not> same_entry h e) hs"
  have "distinct (map history_key ?new)"
    using ok by (auto simp: history_ok_def distinct_map same_entry_def history_key_def intro: inj_on_subset)
  then have "distinct (map history_key (take maxHistoryItems ?new))" by (simp only: take_map [symmetric] distinct_take)
  then have "history_ok (take maxHistoryItems ?new)" by (simp add: history_ok_def)
  then show ?thesis using ok by (simp add: with_history_def split: list.splits)
qed

lemma panel_step_inv: "panel_step s s' \<Longrightarrow> panel_inv s \<Longrightarrow> panel_inv s'"
proof (induction rule: panel_step.induct)
  case (received s other e)
  then show ?case by (simp add: serial_rx_def append_inv split: option.split)
next
  case (submitted s i)
  then show ?case by (simp add: panel_inv_def sendDraft_fields)
next
  case (ticked i s)
  then show ?case using sendDraft_fields [of "Some i" i "s\<lparr>se_inFlight := i # se_inFlight s\<rparr>"]
    by (auto simp: timer_ticks_def panel_inv_def split: prod.splits bool.splits)
next
  case (sent f s now)
  have "panel_inv (end_flight f s)" using sent.prems by (simp add: panel_inv_def end_flight_def)
  from append_inv [OF this] show ?case by (simp add: send_answered_def Let_def panel_inv_def history_ok_with)
next
  case (restored h s)
  then show ?case
    by (auto simp: restoreHistory_def Let_def panel_inv_def createSerialSendSlot_def
        intro!: slots_ok_map slots_ok_add [where n = "se_nextSendSlotId s", simplified] split: option.splits)
next
  case (down s i)
  then show ?case
    by (auto simp: arrow_down_def panel_inv_def updateSendSlot_def history_slot_def intro!: slots_ok_map split: option.splits nat.splits)
next
  case (removed s i)
  then show ?case by (simp add: removeSendSlot_def panel_inv_def slots_ok_filter)
next
  case (added s)
  then show ?case by (simp add: addSendSlot_def panel_inv_def slots_ok_add createSerialSendSlot_def)
qed (auto simp: panel_inv_def clearExchangeLog_def log_ok_Nil end_flight_def slot_edited_def slot_mode_def updateSendSlot_def arrow_up_def
    history_slot_def clearSendHistory_def history_ok_filter removeSendHistoryEntry_def updateRuntimeProfile_def toggleSerial_def
    serial_call_def action_answered_def status_changed_def terminal_changed_def profile_changed_def port_gone_def Let_def
    history_ok_def [of "[]"] intro!: slots_ok_map split: option.splits)

text \<open>
  C37. Whatever happens in the panel, there is a slot to send from and every slot has an id of its own; the
  entries of the log have ids and times that strictly increase, whatever clock they come from; and the history
  has at most twelve entries, no two of the same mode and content.
\<close>

theorem reachable_panel_inv:
  assumes "panel_step\<^sup>*\<^sup>* (initial_panel p t st) s"
  shows "se_slots s \<noteq> [] \<and> distinct (map sl_id (se_slots s))
    \<and> sorted_wrt (<) (map ex_id (se_log s)) \<and> sorted_wrt (<) (map ex_timestampUs (se_log s))
    \<and> length (se_history s) \<le> 12 \<and> distinct (map (\<lambda>h. (he_mode h, he_content h)) (se_history s))"
proof -
  have "panel_inv s" using assms
  proof (induction rule: rtranclp_induct)
    case base
    have "map sl_id (map createSerialSendSlot [0..<6]) = [0..<6]" by (simp add: createSerialSendSlot_def comp_def)
    then show ?case by (simp add: panel_inv_def initial_panel_def slots_ok_def log_ok_Nil history_ok_def)
  qed (rule panel_step_inv)
  then show ?thesis by (simp add: panel_inv_def slots_ok_def log_ok_def history_ok_def history_key_def [abs_def] maxHistoryItems_def)
qed

definition example_terminal :: terminal where
  "example_terminal = \<lparr>term_id = js ''t'', term_connectionId = js ''c'',
     term_size = \<lparr>sz_cols = 80, sz_rows = 24, sz_widthPx = 0, sz_heightPx = 0\<rparr>, term_status = Attached,
     term_renderPolicy = \<lparr>rp_flushIntervalMs = 16, rp_maxChunkBytes = 4096, rp_scrollbackLines = 1000\<rparr>,
        term_x11Forwarding = False\<rparr>"

definition example_profile :: serial_profile where
  "example_profile = \<lparr>prof_id = js ''p'', prof_name = js ''p'', prof_groupId = None, prof_tags = [], prof_createdAt = [],
     prof_updatedAt = [],
     ser_portName = js ''COM1'', ser_baudRate = 115200, ser_dataBits = 8, ser_parity = ParityNone, ser_stopBits = StopOne,
     ser_flowControl = FlowNone, ser_lineEnding = Crlf, ser_encoding = Utf8, ser_dtr = Some True, ser_rts = Some True\<rparr>"

definition example_panel :: serial_panel where
  "example_panel = initial_panel example_profile (Some example_terminal) Connected"

theorem reachable_panel_inv_witness:
  "distinct (map sl_id (se_slots (addSendSlot example_panel))) \<and> length (se_slots (addSendSlot example_panel)) = 7"
proof -
  have "panel_step example_panel (addSendSlot example_panel)" by (rule panel_step.added)
  from reachable_panel_inv [OF r_into_rtranclp [of panel_step, OF this, unfolded example_panel_def]] show ?thesis
    by (simp add: example_panel_def addSendSlot_def initial_panel_def)
qed

section \<open>Two things the code does not do\<close>

text \<open>
  The mark of a send under way is meant to keep the timer of a slot from sending again before the answer.
  A change of any slot takes the mark away: the next tick sends a second time.
\<close>

lemma edit_lets_sends_overlap:
  "map fl_timer (se_flights
     (timer_ticks 0 (slot_edited 1 (js ''x'')
       (timer_ticks 0 (updateSendSlot 0 (\<lambda>slot. slot\<lparr>sl_content := js ''AT'',
          sl_timedSendEnabled := True\<rparr>) example_panel))))) = [Some 0, Some 0]"
  by code_simp

text \<open>A setting that is changed while a reconfiguration is under way is displayed but never sent.\<close>

lemma change_during_action_is_not_sent:
  "se_actionPending s \<Longrightarrow> se_calls (updateRuntimeProfile now patch s) = se_calls s
     \<and> se_profile (updateRuntimeProfile now patch s) = (patch (se_profile s))\<lparr>prof_updatedAt := now\<rparr>"
  by (simp add: updateRuntimeProfile_def Let_def timers_follow_def timers_restart_def split: option.split)

end
