(* ===== verification/FilePanels.thy ===== *)
theory FilePanels
  imports Paths TerminalText
begin

text \<open>
  The file panels (\<^verbatim>\<open>src/features/file-transfer\<close>): names and paths as they are typed and displayed, the
  directory of a prompt, permissions, icons and dropped files, the selection of entries, and the state of the
  panel beside a terminal (\<^verbatim>\<open>SimpleSftpPanel.tsx\<close>) with the calls it makes of the workspace.
\<close>

section \<open>Names of entries\<close>

datatype name_rules = LocalRules | RemoteRules | WslRules

definition sanitizeEntryName :: "jsstr \<Rightarrow> jsstr" where
  "sanitizeEntryName name = filter (\<lambda>c. \<not> invalid_name_unit c) name"

definition entryNameInvalidReason :: "jsstr \<Rightarrow> name_rules \<Rightarrow> jsstr" where
  "entryNameInvalidReason name rules =
     (if name = [] then [0x540D, 0x79F0, 0x4E0D, 0x80FD, 0x4E3A, 0x7A7A, 0x3002]
      else if name = js ''.'' \<or> name = js ''..'' then [0x540D, 0x79F0, 0x4E0D, 0x80FD, 0x662F, 32, 46, 32, 0x6216, 32, 46, 46, 0x3002]
      else if rules \<noteq> WslRules \<and> (last name = 32 \<or> last name = 46) then [0x540D, 0x79F0, 0x4E0D, 0x80FD, 0x4EE5, 0x7A7A,
         0x683C, 0x6216, 0x70B9, 0x7ED3, 0x5C3E, 0x3002]
      else if rules \<noteq> WslRules \<and> reserved_name name then [0x540D, 0x79F0, 0x4E0D, 0x80FD, 0x4F7F, 0x7528, 0x7CFB, 0x7EDF,
         0x4FDD, 0x7559, 0x540D, 0x3002]
      else if list_ex invalid_name_unit name then
        (if rules = WslRules then ([87, 83, 76, 32, 0x7684] @ js '' Windows '' @ [0x6587, 0x4EF6, 0x901A, 0x9053, 0x4E0D, 0x80FD, 0x8BBF,
           0x95EE, 0x540D, 0x79F0, 0x4E2D, 0x7684] @ [32, 92, 32, 47, 32, 58, 32, 42, 32, 63, 32, 34, 32, 60, 32, 62, 32,
           124] @ [0x3002]) else ([0x540D, 0x79F0, 0x4E0D, 0x80FD, 0x5305, 0x542B, 0x7279, 0x6B8A, 0x7B26, 0x53F7, 0xFF1A] @ [92, 32, 47,
           32, 58, 32, 42, 32, 63, 32, 34, 32, 60, 32, 62, 32, 124]))
      else [])"

definition new_directory_name :: jsstr where "new_directory_name = [0x65B0, 0x5EFA, 0x6587, 0x4EF6, 0x5939]"

definition safeEntryBaseName :: "jsstr \<Rightarrow> name_rules \<Rightarrow> jsstr" where
  "safeEntryBaseName name rules =
     (let sanitized = js_trim (sanitizeEntryName name)
      in if entryNameInvalidReason sanitized rules = [] then sanitized else new_directory_name)"

text \<open>\<open>lower\<close> is \<^verbatim>\<open>toLocaleLowerCase\<close>, \<open>now\<close> the clock in milliseconds.\<close>

definition taken_names :: "(jsstr \<Rightarrow> jsstr) \<Rightarrow> remote_entry list \<Rightarrow> jsstr option \<Rightarrow> jsstr list" where
  "taken_names lower entries ignorePath = map (\<lambda>e. lower (js_trim (ent_name e))) (filter (\<lambda>e. Some (ent_path e) \<noteq> ignorePath) entries)"

definition numbered_name :: "jsstr \<Rightarrow> nat \<Rightarrow> jsstr" where
  "numbered_name b i = b @ [32, 40] @ nat_digits i @ [41]"

definition uniqueEntryName :: "(jsstr \<Rightarrow> jsstr) \<Rightarrow> nat \<Rightarrow> remote_entry list \<Rightarrow> jsstr \<Rightarrow> name_rules \<Rightarrow> jsstr option \<Rightarrow> jsstr" where
  "uniqueEntryName lower now entries baseName rules ignorePath =
     (let names = taken_names lower entries ignorePath; normalizedBase = safeEntryBaseName baseName rules
      in if lower normalizedBase \<notin> set names then normalizedBase
         else (case find (\<lambda>i. lower (numbered_name normalizedBase i) \<notin> set names) [1..<1000] of
                 Some i \<Rightarrow> numbered_name normalizedBase i
               | None \<Rightarrow> normalizedBase @ 45 # nat_digits now))"

section \<open>What is displayed of an entry\<close>

definition isTransferableEntry :: "remote_entry \<Rightarrow> bool" where
  "isTransferableEntry e \<longleftrightarrow> ent_kind e = File \<or> ent_kind e = Directory"

definition kindLabel :: "entry_kind \<Rightarrow> jsstr" where
  "kindLabel k = (case k of Directory \<Rightarrow> [0x6587, 0x4EF6, 0x5939] | File \<Rightarrow> [0x6587,
     0x4EF6] | OtherEntry \<Rightarrow> [0x5176, 0x5B83] | Symlink \<Rightarrow> [0x94FE, 0x63A5])"

text \<open>\<^verbatim>\<open>Number.parseInt(s, 10)\<close> of what follows \<^verbatim>\<open>unix:\<close>: blanks,
   a sign and digits, whatever comes then.\<close>

definition parse_int :: "jsstr \<Rightarrow> int option" where
  "parse_int s =
     (let (sign, t) = take_sign (dropWhile js_space s); ds = takeWhile js_digit t
      in if ds = [] then None else Some (sign * int (digits_value ds)))"

definition formatModifiedAt :: "(int \<Rightarrow> jsstr) \<Rightarrow> jsstr option \<Rightarrow> jsstr" where
  "formatModifiedAt toLocaleString value =
     (case value of
        None \<Rightarrow> js ''-''
      | Some v \<Rightarrow>
          if v = [] then js ''-''
          else if prefix (js ''unix:'') v then (case parse_int (drop 5 v) of Some seconds \<Rightarrow> toLocaleString (seconds * 1000) | None \<Rightarrow> v)
          else v)"

definition entry_bytestext :: "nat \<Rightarrow> jsstr" where
  "entry_bytestext bytes =
     (if bytes < 1024 then nat_digits bytes @ js '' B''
      else if bytes < 1024 * 1024 then to_fixed 1 (of_nat bytes / 1024) @ js '' KB''
      else to_fixed 1 (of_nat bytes / 1024 / 1024) @ js '' MB'')"

definition permissionTriplet :: "nat \<Rightarrow> nat \<Rightarrow> bool \<Rightarrow> code_unit \<Rightarrow> code_unit \<Rightarrow> jsstr" where
  "permissionTriplet permissionBits shift special executableSpecial nonExecutableSpecial =
     (let v = (permissionBits div 2 ^ shift) mod 8
      in [if v div 4 mod 2 = 1 then 114 else 45, if v div 2 mod 2 = 1 then 119 else 45,
          if special then (if v mod 2 = 1 then executableSpecial else nonExecutableSpecial)
          else (if v mod 2 = 1 then 120 else 45)])"

definition octal_digit :: "code_unit \<Rightarrow> bool" where "octal_digit c \<longleftrightarrow> 48 \<le> c \<and> c \<le> 55"

definition mode_text :: "entry_kind \<Rightarrow> nat \<Rightarrow> jsstr" where
  "mode_text kind mode =
     (case kind of Directory \<Rightarrow> 100 | Symlink \<Rightarrow> 108 | _ \<Rightarrow> 45) #
     permissionTriplet (mode mod 512) 6 (mode div 2048 mod 2 = 1) 115 83
     @ permissionTriplet (mode mod 512) 3 (mode div 1024 mod 2 = 1) 115 83
     @ permissionTriplet (mode mod 512) 0 (mode div 512 mod 2 = 1) 116 84"

definition formatPermissions :: "entry_kind \<Rightarrow> jsstr option \<Rightarrow> jsstr" where
  "formatPermissions kind permissions =
     (case map_option js_trim permissions of
        None \<Rightarrow> js ''-''
      | Some p \<Rightarrow>
          if p = [] then js ''-''
          else if length p = 10 \<and> hd p \<in> set (js ''dl-'') \<and> list_all (\<lambda>c. c \<in> set (js ''rwxstST-'')) (tl p) then p
          else if \<not> list_all octal_digit p then p
          else (case double_of (of_nat (the (radix_value 8 0 p))) of
                  Fin mode \<Rightarrow> mode_text kind (nat \<lfloor>mode\<rfloor>)
                | _ \<Rightarrow> p))"

subsection \<open>Icons\<close>

datatype FileIconKind = ArchiveIcon | AudioIcon | BinaryIcon | CodeIcon | FileIcon | ImageIcon | TextIcon | VideoIcon

definition fileExtension :: "jsstr \<Rightarrow> jsstr" where
  "fileExtension name =
     (let cleanName = js_lower (js_trim name)
      in case find (\<lambda>e. suffix (46 # js e) cleanName) [''tar.gz'', ''tar.bz2'', ''tar.xz'', ''d.ts''] of
           Some e \<Rightarrow> js e
         | None \<Rightarrow> (let dotIndex = js_lastIndexOf 46 cleanName in if 0 \<le> dotIndex then drop (nat dotIndex + 1) cleanName else []))"

definition icon_extensions :: "(FileIconKind \<times> string list) list" where
  "icon_extensions =
     [(ImageIcon, [''avif'', ''bmp'', ''gif'', ''ico'', ''jpeg'', ''jpg'', ''png'', ''svg'', ''tif'', ''tiff'', ''webp'']),
      (VideoIcon, [''avi'', ''m4v'', ''mkv'', ''mov'', ''mp4'', ''mpeg'', ''mpg'', ''webm'', ''wmv'']),
      (AudioIcon, [''aac'', ''flac'', ''m4a'', ''mp3'', ''ogg'', ''opus'', ''wav'', ''wma'']),
      (ArchiveIcon, [''7z'', ''bz2'', ''gz'', ''jar'', ''rar'', ''tar'', ''tar.bz2'', ''tar.gz'', ''tar.xz'', ''tgz'', ''war'', ''xz'',
         ''zip'']),
      (CodeIcon, [''bat'', ''c'', ''cmd'', ''cpp'', ''cs'', ''css'', ''d.ts'', ''go'', ''h'', ''html'', ''java'', ''js'', ''jsx'', ''kt'',
         ''php'', ''ps1'', ''py'', ''rb'', ''rs'', ''scss'', ''sh'', ''sql'', ''swift'', ''ts'', ''tsx'', ''vue'']),
      (TextIcon, [''conf'', ''csv'', ''env'', ''ini'', ''json'', ''log'', ''md'', ''properties'', ''text'', ''toml'', ''txt'', ''xml'',
         ''yaml'', ''yml'']),
      (BinaryIcon, [''bin'', ''dll'', ''dmg'', ''exe'', ''msi'', ''o'', ''obj'', ''so''])]"

definition fileIconKind :: "jsstr \<Rightarrow> FileIconKind" where
  "fileIconKind name =
     (case find (\<lambda>(k, es). fileExtension name \<in> set (map js es)) icon_extensions of Some (k,
        _) \<Rightarrow> k | None \<Rightarrow> FileIcon)"

definition iconNames :: "FileIconKind \<Rightarrow> jsstr" where
  "iconNames k = (case k of ArchiveIcon \<Rightarrow> js ''file-archive'' | AudioIcon \<Rightarrow> js ''file-audio'' | BinaryIcon \<Rightarrow> js ''file-binary''
     | CodeIcon \<Rightarrow> js ''file-code'' | FileIcon \<Rightarrow> js ''file'' | ImageIcon \<Rightarrow> js ''file-image'' | TextIcon \<Rightarrow> js ''file-text''
     | VideoIcon \<Rightarrow> js ''file-video'')"

definition remoteEntryIconName :: "remote_entry \<Rightarrow> jsstr" where
  "remoteEntryIconName e =
     (case ent_kind e of Directory \<Rightarrow> js ''folder'' | Symlink \<Rightarrow> js ''external-link'' | _ \<Rightarrow> iconNames (fileIconKind (ent_name e)))"

section \<open>Paths\<close>

definition normalizeRemoteDisplayPath :: "jsstr \<Rightarrow> jsstr" where
  "normalizeRemoteDisplayPath path = absolute (foldl push_part [] (js_split slash (forward_slashes (js_trim path))))"

definition canGoRemoteParent :: "jsstr \<Rightarrow> bool" where
  "canGoRemoteParent path \<longleftrightarrow> js_trim path \<noteq> [] \<and> js_trim path \<noteq> js ''/''"

definition parentRemotePath :: "jsstr \<Rightarrow> jsstr" where
  "parentRemotePath path =
     (let normalized = normalizeRemoteDisplayPath path
      in if normalized = js ''/'' then js ''/''
         else (let parent = take (nat (js_lastIndexOf slash normalized)) normalized in if parent = [] then js ''/'' else parent))"

definition joinRemoteDisplayPath :: "jsstr \<Rightarrow> jsstr \<Rightarrow> jsstr" where
  "joinRemoteDisplayPath basePath name =
     (let b = normalizeRemoteDisplayPath basePath; cleanName = dropWhile (\<lambda>c. c = slash) (js_trim name)
      in normalizeRemoteDisplayPath (if b = js ''/'' then slash # cleanName else b @ slash # cleanName))"

datatype path_kind = LocalKind | RemoteKind

definition resolveEntryDirectoryPath :: "jsstr \<Rightarrow> remote_entry \<Rightarrow> path_kind \<Rightarrow> jsstr" where
  "resolveEntryDirectoryPath currentPath e pathKind =
     (if pathKind = LocalKind then ent_path e
      else (let entryPath = js_trim (ent_path e)
            in if starts_with entryPath slash then normalizeRemoteDisplayPath entryPath
               else joinRemoteDisplayPath currentPath (if entryPath \<noteq> [] then entryPath else ent_name e)))"

text \<open>A drive with at most one separator behind it.\<close>

definition drive_root :: "jsstr \<Rightarrow> bool" where
  "drive_root p \<longleftrightarrow> is_drive p \<or> (length p = 3 \<and> is_drive (butlast p) \<and> separator_unit (last p))"

definition local_parent :: "jsstr \<Rightarrow> jsstr \<Rightarrow> jsstr" where
  "local_parent roots trimmed =
     (if drive_root trimmed then localRootsPath
      else (let normalized = trim_end separator_unit trimmed;
                separatorIndex = max (js_lastIndexOf slash normalized) (js_lastIndexOf backslash normalized)
            in if separatorIndex \<le> 0 then roots
               else if is_drive (take (nat separatorIndex) normalized) then take (nat separatorIndex + 1) normalized
               else take (nat separatorIndex) normalized))"

definition parentPath :: "jsstr \<Rightarrow> path_kind \<Rightarrow> jsstr" where
  "parentPath path pathKind =
     (let trimmed = js_trim path
      in if trimmed = [] \<or> trimmed = js ''.'' \<or> trimmed = js ''/'' \<or> trimmed = localRootsPath then
           (if trimmed = js ''/'' \<or> trimmed = localRootsPath then trimmed else [])
         else if pathKind = RemoteKind then parentRemotePath trimmed
         else local_parent (js ''.'') trimmed)"

definition canGoParent :: "jsstr \<Rightarrow> bool" where
  "canGoParent path \<longleftrightarrow> js_trim path \<notin> {[], js ''.'', js ''/'', localRootsPath}"

definition canGoLocalParent :: "jsstr \<Rightarrow> bool" where
  "canGoLocalParent path \<longleftrightarrow> js_trim path \<noteq> [] \<and> js_trim path \<noteq> localRootsPath"

definition parentLocalPath :: "jsstr \<Rightarrow> jsstr" where
  "parentLocalPath path =
     (let trimmed = js_trim path
      in if trimmed = [] \<or> trimmed = localRootsPath then localRootsPath else local_parent localRootsPath trimmed)"

text \<open>The paths of the files of a WSL distribution (\<^verbatim>\<open>WslFileTransferPanel.tsx\<close>).\<close>

definition joinLinuxPath :: "jsstr \<Rightarrow> jsstr \<Rightarrow> jsstr" where
  "joinLinuxPath parent name =
     (if parent = js ''/'' then slash # name
      else (if ends_with parent slash then butlast parent else parent) @ slash # name)"

definition join_windows_path :: "jsstr \<Rightarrow> jsstr \<Rightarrow> jsstr" where
  "join_windows_path parent name =
     (if ends_with parent backslash \<or> ends_with parent slash then parent @ name
      else parent @ (if backslash \<in> set parent then backslash else slash) # name)"

definition pathBaseName :: "jsstr \<Rightarrow> jsstr" where
  "pathBaseName path =
     (let normalized = trim_end separator_unit path
      in drop (nat (max (js_lastIndexOf backslash normalized) (js_lastIndexOf slash normalized) + 1)) normalized)"

definition safeWindowsFileName :: "jsstr \<Rightarrow> jsstr" where
  "safeWindowsFileName name =
     (let normalized = trim_end (\<lambda>c. c = 32 \<or> c = 46) (map (\<lambda>c. if invalid_name_unit c then 95 else c) (js_trim name))
      in if normalized \<noteq> [] \<and> normalized \<noteq> js ''.'' \<and> normalized \<noteq> js ''..'' then normalized else js ''download'')"

section \<open>Dropped files\<close>

definition uniquePaths :: "jsstr list \<Rightarrow> jsstr list" where
  "uniquePaths paths = js_unique (filter (\<lambda>p. p \<noteq> []) (map js_trim paths))"

text \<open>The files and the items of a drop, with the paths the window knows of them.\<close>

definition extractLocalFilePaths :: "jsstr option list \<Rightarrow> jsstr option list \<Rightarrow> jsstr list" where
  "extractLocalFilePaths files items =
     uniquePaths (concat (map (\<lambda>p. case p of Some q \<Rightarrow> if q \<noteq> [] then [q] else [] | None \<Rightarrow> []) (files @ items)))"

datatype drop_event = DropLeave | DropOver bool | DropPaths bool "jsstr list"

text \<open>The event of the window with whether it is inside the target: the mark of the target and what is uploaded.\<close>

definition window_drop :: "drop_event \<Rightarrow> bool \<times> jsstr list option" where
  "window_drop e =
     (case e of
        DropLeave \<Rightarrow> (False, None)
      | DropOver inside \<Rightarrow> (inside, None)
      | DropPaths inside paths \<Rightarrow> (False, if inside \<and> paths \<noteq> [] then Some (uniquePaths paths) else None))"

section \<open>The directory of a prompt\<close>

definition osc_rx :: rx where
  "osc_rx = rseq [lit [27, 93], Star (none_of [7]), Alt (lit [7]) (lit [27, 92])]"

definition stripAnsiSequences :: "jsstr \<Rightarrow> jsstr" where
  "stripAnsiSequences s = rx_replace_all csi_rx [] (rx_replace_all osc_rx [] s)"

definition prompt_path_rx :: "code_unit list \<Rightarrow> rx" where
  "prompt_path_rx excluded = Cap 1 (Alt (lit [126]) (Seq (lit [47]) (plus (Unit (\<lambda>c. \<not> js_space c \<and> c \<notin> set excluded)))))"

definition prompt_end_rx :: rx where
  "prompt_end_rx = rseq [prompt_path_rx (js ''$#>%]''), Look (rseq [opt (one_of (js ''$#>%]'')), Star space_rx, AtEnd])]"

definition first_prompt_rx :: rx where
  "first_prompt_rx = Seq (ralt [AtStart, space_rx, lit [58]]) prompt_end_rx"

definition bracket_prompt_rx :: rx where
  "bracket_prompt_rx =
     rseq [lit [91], Lazy (none_of [93]), prompt_path_rx [93], lit [93], opt (one_of (js ''$#>%'')), Star space_rx, AtEnd]"

definition last_prompt_rx :: rx where
  "last_prompt_rx = rseq [Alt AtStart space_rx, prompt_path_rx [], AtEnd]"

text \<open>The result is a string in every case, the empty one without a match, so that \<^verbatim>\<open>??\<close> keeps it.\<close>

definition matchLastPath :: "jsstr \<Rightarrow> rx \<Rightarrow> jsstr option" where
  "matchLastPath line pattern =
     Some (case rx_exec pattern line 0 of Some m \<Rightarrow> (case group line m 1 of Some p \<Rightarrow> p | None \<Rightarrow> []) | None \<Rightarrow> [])"

definition nullish :: "'a option \<Rightarrow> 'a option \<Rightarrow> 'a option" where
  "nullish x y = (case x of Some v \<Rightarrow> Some v | None \<Rightarrow> y)"

definition expandRemoteHomePath :: "jsstr \<Rightarrow> jsstr \<Rightarrow> jsstr" where
  "expandRemoteHomePath path username =
     (if path = js ''~'' \<or> prefix (js ''~/'') path then
        (let user = js_trim username;
             home = (if user = js ''root'' then js ''/root'' else if user \<noteq> [] then js ''/home/'' @ user else [])
         in if home = [] then []
            else normalizeRemoteDisplayPath (if path = js ''~'' then home else home @ slash # drop 2 path))
      else normalizeRemoteDisplayPath path)"

definition inferRemotePathFromTerminalLine :: "jsstr \<Rightarrow> jsstr \<Rightarrow> jsstr" where
  "inferRemotePathFromTerminalLine line username =
     (let explicitPath = js_trim line
      in if starts_with explicitPath slash then normalizeRemoteDisplayPath explicitPath
         else (let normalizedLine = js_trim (rx_replace_all (plus space_rx) [32] line);
                   promptPath = nullish (matchLastPath normalizedLine first_prompt_rx)
                     (nullish (matchLastPath normalizedLine bracket_prompt_rx) (matchLastPath normalizedLine last_prompt_rx))
               in case promptPath of Some p \<Rightarrow> if p \<noteq> [] then expandRemoteHomePath p username else [] | None \<Rightarrow> []))"

definition inferRemotePathFromTerminalText :: "jsstr \<Rightarrow> jsstr \<Rightarrow> jsstr" where
  "inferRemotePathFromTerminalText s username =
     (let lines = filter (\<lambda>l. l \<noteq> []) (map js_trim (js_split 10 (map (\<lambda>c. if c = 13 then 10 else c) (stripAnsiSequences s))));
          paths = map (\<lambda>l. inferRemotePathFromTerminalLine l username) (rev lines)
      in case find (\<lambda>p. p \<noteq> []) paths of Some p \<Rightarrow> p | None \<Rightarrow> [])"

section \<open>The selection\<close>

record modifiers =
  md_ctrlKey :: bool
  md_metaKey :: bool
  md_shiftKey :: bool

definition isAdditiveDesktopSelection :: "bool \<Rightarrow> modifiers \<Rightarrow> bool" where
  "isAdditiveDesktopSelection isMacDesktop e = (if isMacDesktop then md_metaKey e else md_ctrlKey e)"

text \<open>The selected paths in the order they were added, the anchor and the entry the workspace is told.\<close>

record selection =
  sn_paths :: "jsstr list"
  sn_anchor :: "jsstr option"
  sn_entry :: "remote_entry option"

definition set_add :: "'a \<Rightarrow> 'a list \<Rightarrow> 'a list" where
  "set_add x xs = (if x \<in> set xs then xs else xs @ [x])"

definition set_toggle :: "'a \<Rightarrow> 'a list \<Rightarrow> 'a list" where
  "set_toggle x xs = (if x \<in> set xs then filter (\<lambda>y. y \<noteq> x) xs else xs @ [x])"

definition select_only :: "remote_entry \<Rightarrow> selection" where
  "select_only e = \<lparr>sn_paths = [ent_path e], sn_anchor = Some (ent_path e), sn_entry = Some e\<rparr>"

definition anchor_index :: "remote_entry list \<Rightarrow> selection \<Rightarrow> nat option" where
  "anchor_index entries s =
     (case sn_anchor s of
        Some a \<Rightarrow> if a = [] then None
                  else (let i = js_findIndex (\<lambda>e. ent_path e = a) entries in if 0 \<le> i then Some (nat i) else None)
      | None \<Rightarrow> None)"

definition selectEntry :: "bool \<Rightarrow> remote_entry list \<Rightarrow> modifiers \<Rightarrow> remote_entry \<Rightarrow> nat \<Rightarrow> selection \<Rightarrow> selection" where
  "selectEntry isMacDesktop entries ev e entryIndex s =
     (let additive = isAdditiveDesktopSelection isMacDesktop ev
      in case (if md_shiftKey ev then anchor_index entries s else None) of
           Some anchorIndex \<Rightarrow>
             (let startIndex = min anchorIndex entryIndex; endIndex = max anchorIndex entryIndex;
                  range = map ent_path (take (endIndex + 1 - startIndex) (drop startIndex entries))
              in s\<lparr>sn_paths := fold set_add range (if additive then sn_paths s else []), sn_entry := Some e\<rparr>)
         | None \<Rightarrow>
             if additive then s\<lparr>sn_paths := set_toggle (ent_path e) (sn_paths s), sn_anchor := Some (ent_path e),
                sn_entry := Some e\<rparr>
             else select_only e)"

definition toggle_entry :: "remote_entry \<Rightarrow> selection \<Rightarrow> selection" where
  "toggle_entry e s = s\<lparr>sn_paths := set_toggle (ent_path e) (sn_paths s), sn_anchor := Some (ent_path e), sn_entry := Some e\<rparr>"

definition no_selection :: selection where
  "no_selection = \<lparr>sn_paths = [], sn_anchor = None, sn_entry = None\<rparr>"

text \<open>What another directory or another listing leaves of the selection.\<close>

definition select_listing :: "bool \<Rightarrow> remote_entry list \<Rightarrow> selection \<Rightarrow> selection" where
  "select_listing otherPath entries s =
     (if otherPath then s\<lparr>sn_paths := [], sn_anchor := None\<rparr>
      else s\<lparr>sn_paths := filter (\<lambda>p. p \<in> ent_path ` set entries) (sn_paths s)\<rparr>)"

section \<open>The panel beside a terminal\<close>

datatype panel_call =
    RefreshRemote "jsstr option"
  | CreateDirectory jsstr jsstr
  | RemoveEntries "remote_entry list"
  | RenameEntry remote_entry jsstr
  | DownloadTo remote_entry jsstr
  | UploadPaths "jsstr list"
  | CopyText jsstr
  | ReportMessage jsstr
  | RefreshSnapshot

record sftp_panel =
  fp_remotePath :: jsstr
  fp_entries :: "remote_entry list"
  fp_selection :: selection
  fp_contextMenu :: "remote_entry option"
  fp_deleteConfirm :: "remote_entry list"
  fp_download :: "remote_entry list"
  fp_editingPath :: "jsstr option"
  fp_editingName :: jsstr
  fp_pendingCreated :: "(jsstr \<times> jsstr) option"
  fp_pathInput :: jsstr
  fp_autoLoaded :: "jsstr option"
  fp_calls :: "panel_call list"

definition panel_call :: "panel_call \<Rightarrow> sftp_panel \<Rightarrow> sftp_panel" where
  "panel_call c s = s\<lparr>fp_calls := fp_calls s @ [c]\<rparr>"

definition initial_sftp_panel :: "jsstr \<Rightarrow> remote_entry list \<Rightarrow> sftp_panel" where
  "initial_sftp_panel remotePath entries =
     \<lparr>fp_remotePath = remotePath, fp_entries = entries, fp_selection = no_selection, fp_contextMenu = None, fp_deleteConfirm = [],
      fp_download = [], fp_editingPath = None, fp_editingName = [], fp_pendingCreated = None, fp_pathInput = remotePath,
      fp_autoLoaded = None, fp_calls = []\<rparr>"

definition selectedRemoteEntries :: "sftp_panel \<Rightarrow> remote_entry list" where
  "selectedRemoteEntries s = filter (\<lambda>e. ent_path e \<in> set (sn_paths (fp_selection s))) (fp_entries s)"

definition selectedTransferableEntries :: "sftp_panel \<Rightarrow> remote_entry list" where
  "selectedTransferableEntries s = filter isTransferableEntry (selectedRemoteEntries s)"

definition clearSelection :: "sftp_panel \<Rightarrow> sftp_panel" where
  "clearSelection s = s\<lparr>fp_selection := no_selection\<rparr>"

definition openDownloadPicker :: "remote_entry option \<Rightarrow> sftp_panel \<Rightarrow> sftp_panel" where
  "openDownloadPicker entry s =
     (let entries = (case entry of
            Some e \<Rightarrow> if ent_path e \<notin> set (sn_paths (fp_selection s)) then [e] else selectedTransferableEntries s
          | None \<Rightarrow> selectedTransferableEntries s)
      in s\<lparr>fp_contextMenu := None, fp_download := filter isTransferableEntry entries\<rparr>)"

definition directory_chosen :: "jsstr \<Rightarrow> sftp_panel \<Rightarrow> sftp_panel" where
  "directory_chosen directory s =
     fold (\<lambda>e. panel_call (DownloadTo e directory)) (fp_download s) (s\<lparr>fp_download := []\<rparr>)"

definition deleteRemoteEntries :: "remote_entry option \<Rightarrow> sftp_panel \<Rightarrow> sftp_panel" where
  "deleteRemoteEntries entry s =
     (let entries = (case entry of
            Some e \<Rightarrow> if ent_path e \<notin> set (sn_paths (fp_selection s)) then [e] else selectedRemoteEntries s
          | None \<Rightarrow> selectedRemoteEntries s)
      in s\<lparr>fp_contextMenu := None, fp_deleteConfirm := entries\<rparr>)"

text \<open>The removal is asked for when it is confirmed; the selection is cleared when it has been answered.\<close>

definition confirmDeleteRemoteEntry :: "sftp_panel \<Rightarrow> sftp_panel" where
  "confirmDeleteRemoteEntry s =
     (if fp_deleteConfirm s = [] then s
      else panel_call (RemoveEntries (fp_deleteConfirm s)) (s\<lparr>fp_deleteConfirm := []\<rparr>))"

definition startInlineRename :: "remote_entry \<Rightarrow> sftp_panel \<Rightarrow> sftp_panel" where
  "startInlineRename e s = s\<lparr>fp_contextMenu := None, fp_selection := select_only e, fp_editingPath := Some (ent_path e),
     fp_editingName := ent_name e\<rparr>"

definition cancelInlineRename :: "sftp_panel \<Rightarrow> sftp_panel" where
  "cancelInlineRename s = s\<lparr>fp_editingPath := None, fp_editingName := []\<rparr>"

definition createDirectoryInline :: "(jsstr \<Rightarrow> jsstr) \<Rightarrow> nat \<Rightarrow> sftp_panel \<Rightarrow> sftp_panel" where
  "createDirectoryInline lower now s =
     (let selectedDirectory = find (\<lambda>e. ent_path e \<in> set (sn_paths (fp_selection s)) \<and> ent_kind e = Directory) (fp_entries s);
          targetParentPath = normalizeRemoteDisplayPath (case selectedDirectory of Some e \<Rightarrow> ent_path e | None \<Rightarrow> fp_remotePath s);
          isCurrentDirectory = (targetParentPath = normalizeRemoteDisplayPath (fp_remotePath s));
          nextName = (if isCurrentDirectory then uniqueEntryName lower now (fp_entries s) new_directory_name LocalRules None
                      else new_directory_name)
      in panel_call (CreateDirectory nextName targetParentPath)
           (s\<lparr>fp_contextMenu := None, fp_pendingCreated := Some (nextName, targetParentPath)\<rparr>))"

definition directory_created :: "bool \<Rightarrow> sftp_panel \<Rightarrow> sftp_panel" where
  "directory_created created s = (if created then s else s\<lparr>fp_pendingCreated := None\<rparr>)"

definition commitInlineRename :: "(jsstr \<Rightarrow> jsstr) \<Rightarrow> nat \<Rightarrow> remote_entry \<Rightarrow> sftp_panel \<Rightarrow> sftp_panel" where
  "commitInlineRename lower now e s =
     (let requestedName = js_trim (sanitizeEntryName (fp_editingName s));
          invalidReason = entryNameInvalidReason requestedName LocalRules
      in if invalidReason \<noteq> [] then panel_call (ReportMessage invalidReason) (s\<lparr>fp_editingName := requestedName\<rparr>)
         else if requestedName = ent_name e then cancelInlineRename s
         else panel_call (RenameEntry e (uniqueEntryName lower now (fp_entries s) requestedName LocalRules (Some (ent_path e))))
                (cancelInlineRename s))"

definition copyRemoteText :: "jsstr \<Rightarrow> sftp_panel \<Rightarrow> sftp_panel" where
  "copyRemoteText t s = panel_call (CopyText t) (s\<lparr>fp_contextMenu := None\<rparr>)"

text \<open>The directory of the terminal: the tracked one, or else the one its text shows once the snapshot is there.\<close>

definition syncRemotePathFromTerminal :: "jsstr \<Rightarrow> sftp_panel \<Rightarrow> sftp_panel" where
  "syncRemotePathFromTerminal trackedTerminalPath s =
     (let trackedPath = js_trim trackedTerminalPath
      in if trackedPath \<noteq> [] then panel_call (RefreshRemote (Some trackedPath)) (s\<lparr>fp_pathInput := trackedPath\<rparr>)
         else panel_call RefreshSnapshot s)"

definition snapshot_for_path :: "(jsstr \<Rightarrow> (jsstr \<times> jsstr) option) \<Rightarrow> jsstr \<Rightarrow> jsstr \<Rightarrow> sftp_panel \<Rightarrow> sftp_panel" where
  "snapshot_for_path parse_url terminalText username s =
     (let osc7 = latestOsc7WorkingDirectory parse_url terminalText;
          remotePath = (if osc7 \<noteq> [] then osc7 else inferRemotePathFromTerminalText terminalText username)
      in if remotePath = [] then panel_call (ReportMessage [0x7EC8, 0x7AEF, 0x5C1A, 0x672A, 0x62A5, 0x544A, 0x5F53, 0x524D, 0x76EE,
         0x5F55, 0x3002, 0x53EF, 0x4EE5, 0x624B, 0x52A8, 0x8F93, 0x5165, 0x8DEF, 0x5F84, 0xFF0C, 0x6216, 0x5148, 0x5728, 0x7EC8, 0x7AEF,
         0x6267, 0x884C, 32, 112, 119, 100, 32, 0x518D, 0x540C, 0x6B65, 0x3002]) s
         else panel_call (RefreshRemote (Some remotePath)) (s\<lparr>fp_pathInput := remotePath\<rparr>))"

definition openRemotePathInput :: "sftp_panel \<Rightarrow> sftp_panel" where
  "openRemotePathInput s =
     panel_call (RefreshRemote (Some (if js_trim (fp_pathInput s) \<noteq> [] then js_trim (fp_pathInput s) else js ''/''))) s"

definition row_context_menu :: "remote_entry \<Rightarrow> sftp_panel \<Rightarrow> sftp_panel" where
  "row_context_menu e s =
     s\<lparr>fp_selection := (if ent_path e \<in> set (sn_paths (fp_selection s)) then (fp_selection s)\<lparr>sn_entry := Some e\<rparr> else select_only e),
       fp_contextMenu := Some e\<rparr>"

definition row_opened :: "remote_entry \<Rightarrow> sftp_panel \<Rightarrow> sftp_panel" where
  "row_opened e s =
     (if fp_editingPath s = Some (ent_path e) \<or> ent_kind e \<noteq> Directory then s
      else panel_call (RefreshRemote (Some (ent_path e))) (s\<lparr>fp_selection := (fp_selection s)\<lparr>sn_paths := [],
         sn_anchor := None\<rparr>\<rparr>))"

definition row_clicked :: "bool \<Rightarrow> modifiers \<Rightarrow> nat \<Rightarrow> sftp_panel \<Rightarrow> sftp_panel" where
  "row_clicked isMacDesktop ev i s =
     (if i \<ge> length (fp_entries s) \<or> fp_editingPath s = Some (ent_path (fp_entries s ! i)) then s
      else s\<lparr>fp_selection := selectEntry isMacDesktop (fp_entries s) ev (fp_entries s ! i) i (fp_selection s)\<rparr>)"

definition row_toggled :: "nat \<Rightarrow> sftp_panel \<Rightarrow> sftp_panel" where
  "row_toggled i s =
     (if i \<ge> length (fp_entries s) \<or> fp_editingPath s = Some (ent_path (fp_entries s ! i)) then s
      else s\<lparr>fp_selection := toggle_entry (fp_entries s ! i) (fp_selection s)\<rparr>)"

text \<open>
  A listing of the workspace with its path: the selection, the path in its field, and a directory that was
  made and is there now is renamed.
\<close>

definition remote_listed :: "jsstr \<Rightarrow> remote_entry list \<Rightarrow> sftp_panel \<Rightarrow> sftp_panel" where
  "remote_listed path entries s =
     (let s1 = s\<lparr>fp_selection := select_listing (path \<noteq> fp_remotePath s) entries (fp_selection s),
                 fp_pathInput := (if path \<noteq> fp_remotePath s then path else fp_pathInput s), fp_remotePath := path,
                    fp_entries := entries\<rparr>
      in case fp_pendingCreated s1 of
           Some (name, parent) \<Rightarrow>
             if normalizeRemoteDisplayPath path \<noteq> parent then s1
             else (case find (\<lambda>e. ent_kind e = Directory \<and> ent_name e = name) entries of
                     Some e \<Rightarrow> startInlineRename e (s1\<lparr>fp_pendingCreated := None\<rparr>)
                   | None \<Rightarrow> s1)
         | None \<Rightarrow> s1)"

definition remote_ready :: "jsstr \<Rightarrow> sftp_panel \<Rightarrow> sftp_panel" where
  "remote_ready connectionId s =
     (if connectionId = [] \<or> fp_autoLoaded s = Some connectionId then s
      else panel_call (RefreshRemote (Some (if fp_remotePath s \<noteq> [] then fp_remotePath s else js ''/'')))
             (s\<lparr>fp_autoLoaded := Some connectionId\<rparr>))"

inductive sftp_step :: "sftp_panel \<Rightarrow> sftp_panel \<Rightarrow> bool" where
  ready: "sftp_step s (remote_ready connectionId s)"
| listed: "sftp_step s (remote_listed path entries s)"
| clicked: "sftp_step s (row_clicked mac ev i s)"
| toggled: "sftp_step s (row_toggled i s)"
| opened: "sftp_step s (row_opened e s)"
| menu: "sftp_step s (row_context_menu e s)"
| menu_closed: "sftp_step s (s\<lparr>fp_contextMenu := None\<rparr>)"
| cleared: "sftp_step s (clearSelection s)"
| download: "sftp_step s (openDownloadPicker e' s)"
| download_cancelled: "sftp_step s (s\<lparr>fp_download := []\<rparr>)"
| chosen: "sftp_step s (directory_chosen directory s)"
| delete_asked: "sftp_step s (deleteRemoteEntries e' s)"
| delete_cancelled: "sftp_step s (s\<lparr>fp_deleteConfirm := []\<rparr>)"
| confirmed: "sftp_step s (confirmDeleteRemoteEntry s)"
| rename_started: "sftp_step s (startInlineRename e s)"
| rename_cancelled: "sftp_step s (cancelInlineRename s)"
| rename_typed: "sftp_step s (s\<lparr>fp_editingName := v\<rparr>)"
| renamed: "sftp_step s (commitInlineRename lower now e s)"
| creates: "sftp_step s (createDirectoryInline lower now s)"
| created: "sftp_step s (directory_created b s)"
| copied: "sftp_step s (copyRemoteText t s)"
| synced: "sftp_step s (syncRemotePathFromTerminal t s)"
| snapshot: "sftp_step s (snapshot_for_path parse_url t user s)"
| typed: "sftp_step s (s\<lparr>fp_pathInput := v\<rparr>)"
| path_opened: "sftp_step s (openRemotePathInput s)"
| refreshed: "sftp_step s (panel_call (RefreshRemote p) s)"
| dropped: "sftp_step s (panel_call (UploadPaths ps) s)"

section \<open>Names that are free and allowed\<close>

lemma sanitize_valid: "list_all (\<lambda>c. \<not> invalid_name_unit c) (sanitizeEntryName name)"
  by (simp add: sanitizeEntryName_def list_all_iff)

lemma device_name_letters:
  assumes d: "device_name s"
  shows "32 \<notin> set s" "45 \<notin> set s"
proof -
  have False if "x = 32 \<or> x = 45" "x \<in> set s" for x
  proof -
  from that(2) have "ascii_fold x \<in> set (map ascii_fold s)" by auto
  then have m: "x \<in> set (map ascii_fold s)" using that(1) by (auto simp: ascii_fold_def)
  from d show False unfolding device_name_def Let_def
  proof (elim disjE conjE)
    assume "map ascii_fold s \<in> {js ''con'', js ''prn'', js ''aux'', js ''nul''}"
    then show False using m that(1) by (auto simp: js_def)
  next
    assume t: "length (map ascii_fold s) = 4" "take 3 (map ascii_fold s) \<in> {js ''com'', js ''lpt''}" "49 \<le> map ascii_fold s ! 3"
    then obtain a b c d where e: "map ascii_fold s = [a, b, c, d]" by (auto simp: length_Suc_conv eval_nat_numeral)
    show False using m t that(1) unfolding e by (auto simp: js_def)
  qed
  qed
  then show "32 \<notin> set s" "45 \<notin> set s" by blast+
qed

text \<open>A name that is allowed stays so with a blank, a number in parentheses, or a dash and a number behind it.\<close>

definition allowed_name :: "jsstr \<Rightarrow> name_rules \<Rightarrow> bool" where
  "allowed_name name rules \<longleftrightarrow> entryNameInvalidReason name rules = []"

lemma allowed_name_iff:
  "allowed_name name rules \<longleftrightarrow> name \<noteq> [] \<and> name \<noteq> js ''.'' \<and> name \<noteq> js ''..''
     \<and> (rules \<noteq> WslRules \<longrightarrow> last name \<noteq> 32 \<and> last name \<noteq> 46 \<and> \<not> reserved_name name)
     \<and> list_all (\<lambda>c. \<not> invalid_name_unit c) name"
  by (auto simp: allowed_name_def entryNameInvalidReason_def list_ex_iff list_all_iff)

lemma safe_base_allowed: "allowed_name (safeEntryBaseName name rules) rules"
proof -
  have "allowed_name new_directory_name rules"
    by (simp add: allowed_name_iff new_directory_name_def js_def reserved_name_def device_name_def invalid_name_unit_def Let_def ascii_fold_def)
  then show ?thesis by (simp add: safeEntryBaseName_def Let_def allowed_name_def)
qed

lemma reserved_append:
  assumes "reserved_name (b @ t)" "\<not> reserved_name b" "b \<noteq> []" "hd t = 32 \<or> hd t = 45" "t \<noteq> []"
  shows False
proof (cases "46 \<in> set b")
  case True
  then have "takeWhile (\<lambda>c. c \<noteq> 46) (b @ t) = takeWhile (\<lambda>c. c \<noteq> 46) b"
      "dropWhile (\<lambda>c. c \<noteq> 46) (b @ t) = dropWhile (\<lambda>c. c \<noteq> 46) b @ t"
    by (auto simp: takeWhile_append1 dropWhile_append1)
  moreover have "dropWhile (\<lambda>c. c \<noteq> 46) b \<noteq> []" using True by (auto simp: dropWhile_eq_Nil_conv)
  then have "drop 1 (dropWhile (\<lambda>c. c \<noteq> 46) b @ t) = drop 1 (dropWhile (\<lambda>c. c \<noteq> 46) b) @ t" by (cases "dropWhile (\<lambda>c. c \<noteq> 46) b") simp_all
  ultimately show False using assms(1,2) by (simp add: reserved_name_def Let_def)
next
  case False
  then have b: "\<And>x. x \<in> set b \<Longrightarrow> x \<noteq> 46" by metis
  obtain x r where t: "t = x # r" using assms(5) by (cases t) auto
  then have x: "x \<noteq> 46" using assms(4) by auto
  have "takeWhile (\<lambda>c. c \<noteq> 46) (b @ t) = b @ takeWhile (\<lambda>c. c \<noteq> 46) t" using b by (rule takeWhile_append2)
  then have "hd t \<in> set (takeWhile (\<lambda>c. c \<noteq> 46) (b @ t))" by (simp add: t x)
  moreover have "device_name (takeWhile (\<lambda>c. c \<noteq> 46) (b @ t))" using assms(1) by (simp add: reserved_name_def Let_def)
  ultimately show False using assms(4) device_name_letters [of "takeWhile (\<lambda>c. c \<noteq> 46) (b @ t)"] by metis
qed

lemma nat_digits_last: "last (nat_digits n) \<noteq> 32 \<and> last (nat_digits n) \<noteq> 46"
proof -
  have "js_digit (last (nat_digits n))" using nat_digits_digit last_in_set nat_digits_not_Nil by blast
  then show ?thesis by (auto simp: js_digit_def)
qed

lemma nat_digits_valid: "list_all (\<lambda>c. \<not> invalid_name_unit c) (nat_digits n)"
proof -
  have "\<not> invalid_name_unit c" if "js_digit c" for c using that by (auto simp: js_digit_def invalid_name_unit_def word_le_nat_alt)
  then show ?thesis using nat_digits_digit by (auto simp: list_all_iff)
qed

lemma allowed_append:
  assumes b: "allowed_name b rules" and t: "hd t = 32 \<or> hd t = 45" "t \<noteq> []" "last t \<noteq> 32" "last t \<noteq> 46"
    "list_all (\<lambda>c. \<not> invalid_name_unit c) t"
  shows "allowed_name (b @ t) rules"
proof -
  have b': "b \<noteq> []" and bv: "list_all (\<lambda>c. \<not> invalid_name_unit c) b" using b by (auto simp: allowed_name_iff)
  have last: "last (b @ t) = last t" using t(2) by simp
  have dots: "b @ t \<noteq> js ''.''" "b @ t \<noteq> js ''..''"
  proof -
    have "last (js ''.'') = 46" "last (js ''..'') = 46" by (simp_all add: js_def)
    then show "b @ t \<noteq> js ''.''" "b @ t \<noteq> js ''..''" using last t(4) by metis+
  qed
  have "\<not> reserved_name (b @ t)" if "rules \<noteq> WslRules"
    using reserved_append [of b t] b that b' t(1,2) by (auto simp: allowed_name_iff)
  then show ?thesis using bv t b' last dots by (simp add: allowed_name_iff)
qed

lemma allowed_numbered: "allowed_name b rules \<Longrightarrow> allowed_name (numbered_name b i) rules"
  unfolding numbered_name_def
  by (rule allowed_append) (use nat_digits_valid [of i] in \<open>simp_all add: invalid_name_unit_def\<close>)

lemma allowed_dated: "allowed_name b rules \<Longrightarrow> allowed_name (b @ 45 # nat_digits n) rules"
  by (rule allowed_append) (use nat_digits_valid [of n] nat_digits_last [of n] in \<open>simp_all add: invalid_name_unit_def\<close>)

text \<open>
  C38. The name an entry is made or renamed with is always allowed by the rules of the panel, whatever was typed.
  As long as one of the numbered names is left it is the name of no other entry, also when letters are taken
  as the same in both cases.
\<close>

theorem uniqueEntryName_free:
  assumes "list_ex (\<lambda>i. lower (numbered_name (safeEntryBaseName baseName rules) i) \<notin> set (taken_names lower entries ignorePath)) [1..<1000]"
  shows "entryNameInvalidReason (uniqueEntryName lower now entries baseName rules ignorePath) rules = []
    \<and> entryNameInvalidReason (uniqueEntryName lower now others baseName rules ignorePath) rules = []
    \<and> lower (uniqueEntryName lower now entries baseName rules ignorePath) \<notin> set (taken_names lower entries ignorePath)"
proof -
  define b where "b = safeEntryBaseName baseName rules"
  have b: "allowed_name b rules" unfolding b_def by (rule safe_base_allowed)
  have allowed: "allowed_name (uniqueEntryName lower now es baseName rules ignorePath) rules" for es
    using b allowed_numbered [OF b] allowed_dated [OF b]
    by (auto simp: uniqueEntryName_def Let_def b_def [symmetric] split: option.split)
  obtain j where "find (\<lambda>i. lower (numbered_name b i) \<notin> set (taken_names lower entries ignorePath)) [1..<1000] = Some j"
    using assms unfolding b_def [symmetric] by (cases "find (\<lambda>i. lower (numbered_name b i) \<notin> set (taken_names lower entries ignorePath)) [1..<1000]")
      (auto simp: find_None_iff list_ex_iff)
  moreover from this have "lower (numbered_name b j) \<notin> set (taken_names lower entries ignorePath)" by (auto simp: find_Some_iff)
  ultimately have "lower (uniqueEntryName lower now entries baseName rules ignorePath) \<notin> set (taken_names lower entries ignorePath)"
    by (simp add: uniqueEntryName_def Let_def b_def [symmetric])
  then show ?thesis using allowed by (simp add: allowed_name_def)
qed

definition listed_entry :: remote_entry where
  "listed_entry = \<lparr>ent_name = js ''A'', ent_path = js ''/A'', ent_kind = File, ent_size = 0,
     ent_modifiedAt = None, ent_permissions = None, ent_owner = None, ent_group = None\<rparr>"

theorem uniqueEntryName_free_witness:
  "uniqueEntryName js_lower 0 [listed_entry] (js ''a'') LocalRules None = js ''a (1)''
    \<and> entryNameInvalidReason (js ''a (1)'') LocalRules = [] \<and> js_lower (js ''a (1)'') \<notin> set (taken_names js_lower [listed_entry] None)"
proof -
  have e: "uniqueEntryName js_lower 0 [listed_entry] (js ''a'') LocalRules None = js ''a (1)''" by code_simp
  have "list_ex (\<lambda>i. js_lower (numbered_name (safeEntryBaseName (js ''a'') LocalRules) i) \<notin> set (taken_names js_lower [listed_entry] None)) [1..<1000]"
  proof -
    have "js_lower (numbered_name (safeEntryBaseName (js ''a'') LocalRules) 1) \<notin> set (taken_names js_lower [listed_entry] None)" by code_simp
    then show ?thesis unfolding list_ex_iff by (intro bexI [of _ 1]) auto
  qed
  from uniqueEntryName_free [OF this, of 0 "[]"] show ?thesis unfolding e by blast
qed

section \<open>What the panel panel_asks the workspace for\<close>

text \<open>Names are allowed, only files and directories are downloaded, and removals have entries.\<close>

definition call_ok :: "panel_call \<Rightarrow> bool" where
  "call_ok c = (case c of
       RenameEntry e name \<Rightarrow> allowed_name name LocalRules
     | CreateDirectory name parent \<Rightarrow> allowed_name name LocalRules
     | DownloadTo e directory \<Rightarrow> isTransferableEntry e
     | RemoveEntries es \<Rightarrow> es \<noteq> []
     | _ \<Rightarrow> True)"

lemma unique_allowed: "allowed_name (uniqueEntryName lower now es baseName rules ignorePath) rules"
  using allowed_numbered [OF safe_base_allowed [of baseName rules]] allowed_dated [OF safe_base_allowed [of baseName rules]]
    safe_base_allowed [of baseName rules]
  by (auto simp: uniqueEntryName_def Let_def split: option.split)

lemma new_directory_allowed: "allowed_name new_directory_name LocalRules"
  by (simp add: allowed_name_iff new_directory_name_def js_def reserved_name_def device_name_def invalid_name_unit_def Let_def ascii_fold_def)

lemma chosen_calls:
  "fp_calls (fold (\<lambda>e. panel_call (DownloadTo e d)) es s) = fp_calls s @ map (\<lambda>e. DownloadTo e d) es
   \<and> fp_download (fold (\<lambda>e. panel_call (DownloadTo e d)) es s) = fp_download s"
  by (induction es arbitrary: s) (simp_all add: panel_call_def)

lemma listed_calls:
  "fp_calls (remote_listed path es s) = fp_calls s" "fp_download (remote_listed path es s) = fp_download s"
  by (simp_all add: remote_listed_def Let_def startInlineRename_def split: option.split)

definition panel_asks :: "sftp_panel \<Rightarrow> sftp_panel \<Rightarrow> panel_call \<Rightarrow> bool" where
  "panel_asks s s' c \<longleftrightarrow> c \<in> set (fp_calls s) \<or> (call_ok c \<and> (\<forall>es. c = RemoveEntries es \<longrightarrow> fp_deleteConfirm s = es \<and> s' = confirmDeleteRemoteEntry s))"

lemma sftp_step_calls:
  assumes "sftp_step s s'" "list_all isTransferableEntry (fp_download s)" "c \<in> set (fp_calls s')"
  shows "panel_asks s s' c"
  using assms
proof (induction rule: sftp_step.induct)
  case (chosen s directory)
  then show ?case by (auto simp: panel_asks_def directory_chosen_def chosen_calls call_ok_def list_all_iff)
next
  case (listed s path entries)
  then show ?case by (simp add: panel_asks_def listed_calls)
next
  case (confirmed s)
  then show ?case by (auto simp: panel_asks_def confirmDeleteRemoteEntry_def panel_call_def call_ok_def split: if_splits)
next
  case (renamed s lower now e)
  then show ?case
    by (auto simp: panel_asks_def commitInlineRename_def Let_def panel_call_def cancelInlineRename_def call_ok_def unique_allowed split: if_splits)
next
  case (creates s lower now)
  then show ?case
    by (auto simp: panel_asks_def createDirectoryInline_def Let_def panel_call_def call_ok_def unique_allowed new_directory_allowed split: if_splits)
qed (auto simp: panel_asks_def remote_ready_def row_clicked_def row_toggled_def row_opened_def row_context_menu_def clearSelection_def openDownloadPicker_def
    deleteRemoteEntries_def startInlineRename_def cancelInlineRename_def directory_created_def copyRemoteText_def syncRemotePathFromTerminal_def
    snapshot_for_path_def openRemotePathInput_def panel_call_def call_ok_def Let_def split: if_splits)

lemma sftp_step_downloads:
  "sftp_step s s' \<Longrightarrow> list_all isTransferableEntry (fp_download s) \<Longrightarrow> list_all isTransferableEntry (fp_download s')"
proof (induction rule: sftp_step.induct)
  case (chosen s directory)
  then show ?case by (simp add: directory_chosen_def chosen_calls)
next
  case (listed s path entries)
  then show ?case by (simp add: listed_calls)
qed (auto simp: remote_ready_def row_clicked_def row_toggled_def row_opened_def row_context_menu_def clearSelection_def openDownloadPicker_def
    deleteRemoteEntries_def startInlineRename_def cancelInlineRename_def directory_created_def copyRemoteText_def syncRemotePathFromTerminal_def
    snapshot_for_path_def openRemotePathInput_def panel_call_def confirmDeleteRemoteEntry_def commitInlineRename_def createDirectoryInline_def
    Let_def list_all_iff)



section \<open>Prompts and names that are not recognised\<close>

text \<open>A prompt in brackets shows its directory, but the expression for it is never tried.\<close>

lemma bracket_prompt_not_read: "inferRemotePathFromTerminalLine (js ''[r@h /v]#'') [] = []"
  by code_simp

text \<open>A message that starts with a path is taken for the directory of the terminal as a whole.\<close>

lemma message_read_as_path: "inferRemotePathFromTerminalLine (js ''/b/x: not found'') [] = js ''/b/x: not found''"
  by code_simp

text \<open>The names of devices of Windows are refused for new entries, but not for downloads out of a WSL distribution.\<close>

lemma device_name_downloaded:
  "safeWindowsFileName (js ''con'') = js ''con'' \<and> entryNameInvalidReason (js ''con'') LocalRules \<noteq> []"
  by code_simp

end
