(* ===== verification/FilePane.thy ===== *)
theory FilePane
  imports FilePanels Labels
begin

text \<open>
  A pane of the file transfer (\<^verbatim>\<open>FilePane\<close> in \<^verbatim>\<open>src/features/file-transfer/FileTransferPanel.tsx\<close>) with the selection of
  the remote one, the choice of a local directory (\<^verbatim>\<open>LocalDirectoryPicker\<close> in \<^verbatim>\<open>SimpleSftpPanel.tsx\<close>), and the buttons of
  the queue of transfers and of the menu of an entry.
\<close>

section \<open>A pane\<close>

text \<open>
  What a pane asks for: the entry that is selected, a directory of a name, another directory, together with the
  path the pane had when it asked, the same directory again, and another name for an entry.
\<close>

datatype pane_call =
    PaneSelect remote_entry
  | PaneCreate jsstr
  | PaneOpen jsstr jsstr
  | PaneRefresh
  | PaneRename remote_entry jsstr

record file_pane =
  pn_path :: jsstr
  pn_entries :: "remote_entry list"
  pn_rules :: name_rules
  pn_pathInput :: jsstr
  pn_editingEntryPath :: "jsstr option"
  pn_editingName :: jsstr
  pn_pendingEditName :: "jsstr option"
  pn_inlineNotice :: jsstr
  pn_contextMenu :: "remote_entry option option"
  pn_calls :: "pane_call list"

definition initial_pane :: "jsstr \<Rightarrow> remote_entry list \<Rightarrow> name_rules \<Rightarrow> file_pane" where
  "initial_pane path entries rules =
     \<lparr>pn_path = path, pn_entries = entries, pn_rules = rules, pn_pathInput = path, pn_editingEntryPath = None,
      pn_editingName = [], pn_pendingEditName = None, pn_inlineNotice = [], pn_contextMenu = None, pn_calls = []\<rparr>"

definition pane_call :: "pane_call \<Rightarrow> file_pane \<Rightarrow> file_pane" where
  "pane_call c s = s\<lparr>pn_calls := pn_calls s @ [c]\<rparr>"

definition pane_startInlineRename :: "remote_entry \<Rightarrow> file_pane \<Rightarrow> file_pane" where
  "pane_startInlineRename e s =
     pane_call (PaneSelect e) (s\<lparr>pn_editingEntryPath := Some (ent_path e), pn_editingName := ent_name e\<rparr>)"

definition pane_cancelInlineRename :: "file_pane \<Rightarrow> file_pane" where
  "pane_cancelInlineRename s = s\<lparr>pn_editingEntryPath := None, pn_editingName := []\<rparr>"

text \<open>A directory that was made is renamed as soon as the entries have its name.\<close>

definition pane_pending :: "file_pane \<Rightarrow> file_pane" where
  "pane_pending s =
     (case pn_pendingEditName s of
        None \<Rightarrow> s
      | Some name \<Rightarrow>
          (case find (\<lambda>e. ent_name e = name) (pn_entries s) of
             None \<Rightarrow> s
           | Some e \<Rightarrow> pane_startInlineRename e (s\<lparr>pn_pendingEditName := None\<rparr>)))"

definition pane_listed :: "jsstr \<Rightarrow> remote_entry list \<Rightarrow> file_pane \<Rightarrow> file_pane" where
  "pane_listed path entries s =
     pane_pending (s\<lparr>pn_pathInput := (if path \<noteq> pn_path s then path else pn_pathInput s), pn_path := path,
        pn_entries := entries\<rparr>)"

definition pane_createDirectoryInline :: "(jsstr \<Rightarrow> jsstr) \<Rightarrow> nat \<Rightarrow> file_pane \<Rightarrow> file_pane" where
  "pane_createDirectoryInline lower now s =
     (let nextName = uniqueEntryName lower now (pn_entries s) new_directory_name (pn_rules s) None
      in pane_call (PaneCreate nextName)
           (if nextName \<noteq> new_directory_name then s\<lparr>pn_inlineNotice := [0x5DF2, 0x5B58, 0x5728, 0x540C, 0x540D, 0x6587,
              0x4EF6, 0x5939, 0xFF0C, 0x81EA, 0x52A8, 0x521B, 0x5EFA, 0x4E3A, 32] @ nextName\<rparr> else s))"

definition pane_created :: "bool \<Rightarrow> jsstr \<Rightarrow> file_pane \<Rightarrow> file_pane" where
  "pane_created created nextName s = (if created then pane_pending (s\<lparr>pn_pendingEditName := Some nextName\<rparr>) else s)"

definition openPathInput :: "file_pane \<Rightarrow> file_pane" where
  "openPathInput s =
     (let nextPath = js_trim (pn_pathInput s)
      in if nextPath \<noteq> [] \<and> nextPath \<noteq> pn_path s then pane_call (PaneOpen nextPath (pn_path s)) s else pane_call PaneRefresh s)"

text \<open>A directory that could not be opened: the field shows the path the pane had.\<close>

definition open_answered :: "bool \<Rightarrow> jsstr \<Rightarrow> file_pane \<Rightarrow> file_pane" where
  "open_answered changed path s = (if changed then s else s\<lparr>pn_pathInput := path\<rparr>)"

definition pane_commitInlineRename :: "(jsstr \<Rightarrow> jsstr) \<Rightarrow> nat \<Rightarrow> remote_entry \<Rightarrow> file_pane \<Rightarrow> file_pane" where
  "pane_commitInlineRename lower now e s =
     (let requestedName = js_trim (sanitizeEntryName (pn_editingName s));
          invalidReason = entryNameInvalidReason requestedName (pn_rules s)
      in if invalidReason \<noteq> [] then s\<lparr>pn_editingName := requestedName, pn_inlineNotice := invalidReason\<rparr>
         else if requestedName = [] \<or> requestedName = ent_name e then pane_cancelInlineRename s
         else (let nextName = uniqueEntryName lower now (pn_entries s) requestedName (pn_rules s) (Some (ent_path e));
                   s' = (if nextName \<noteq> requestedName then s\<lparr>pn_inlineNotice := [0x5DF2, 0x5B58, 0x5728, 0x540C, 0x540D,
                      0x6761, 0x76EE, 0xFF0C, 0x81EA, 0x52A8, 0x91CD, 0x547D, 0x540D, 0x4E3A, 32] @ nextName\<rparr> else s)
               in pane_call (PaneRename e nextName) (pane_cancelInlineRename s')))"

definition special_characters_notice :: "name_rules \<Rightarrow> jsstr" where
  "special_characters_notice rules = entryNameInvalidReason [47] rules"

definition name_typed :: "jsstr \<Rightarrow> file_pane \<Rightarrow> file_pane" where
  "name_typed nextName s =
     (let sanitizedName = sanitizeEntryName nextName
      in s\<lparr>pn_inlineNotice := (if nextName \<noteq> sanitizedName then special_characters_notice (pn_rules s) else pn_inlineNotice s),
           pn_editingName := sanitizedName\<rparr>)"

definition pane_opened :: "path_kind \<Rightarrow> remote_entry \<Rightarrow> file_pane \<Rightarrow> file_pane" where
  "pane_opened kind e s =
     (if ent_kind e = Directory then pane_call (PaneOpen (resolveEntryDirectoryPath (pn_path s) e kind) (pn_path s)) s else s)"

definition pane_parent :: "path_kind \<Rightarrow> file_pane \<Rightarrow> file_pane" where
  "pane_parent kind s =
     (if canGoParent (pn_path s) then pane_call (PaneOpen (parentPath (pn_path s) kind) (pn_path s)) s else s)"

inductive file_pane_step :: "file_pane \<Rightarrow> file_pane \<Rightarrow> bool" where
  listed: "file_pane_step s (pane_listed path entries s)"
| creates: "file_pane_step s (pane_createDirectoryInline lower now s)"
| created: "PaneCreate name \<in> set (pn_calls s) \<Longrightarrow> file_pane_step s (pane_created b name s)"
| rename_started: "file_pane_step s (pane_startInlineRename e s)"
| rename_cancelled: "file_pane_step s (pane_cancelInlineRename s)"
| renamed: "file_pane_step s (pane_commitInlineRename lower now e s)"
| name_typed: "file_pane_step s (name_typed v s)"
| typed: "file_pane_step s (s\<lparr>pn_pathInput := v\<rparr>)"
| path_opened: "file_pane_step s (openPathInput s)"
| answered: "PaneOpen p q \<in> set (pn_calls s) \<Longrightarrow> file_pane_step s (open_answered b q s)"
| opened: "file_pane_step s (pane_opened kind e s)"
| parent: "file_pane_step s (pane_parent kind s)"
| refreshed: "file_pane_step s (pane_call PaneRefresh s)"
| selected: "file_pane_step s (pane_call (PaneSelect e) s)"
| menu: "file_pane_step s (s\<lparr>pn_contextMenu := m\<rparr>)"
| notice_gone: "file_pane_step s (s\<lparr>pn_inlineNotice := []\<rparr>)"

definition pane_call_ok :: "name_rules \<Rightarrow> pane_call \<Rightarrow> bool" where
  "pane_call_ok rules c = (case c of
       PaneCreate name \<Rightarrow> allowed_name name rules
     | PaneRename e name \<Rightarrow> allowed_name name rules
     | _ \<Rightarrow> True)"

lemma pane_pending_fields:
  "pn_rules (pane_pending s) = pn_rules s"
  "set (pn_calls (pane_pending s)) \<subseteq> set (pn_calls s) \<union> range PaneSelect"
  by (auto simp: pane_pending_def pane_startInlineRename_def pane_call_def split: option.split)

section \<open>The selection of the remote pane\<close>

definition panel_select_listing :: "bool \<Rightarrow> remote_entry list \<Rightarrow> selection \<Rightarrow> selection" where
  "panel_select_listing otherPath entries s = (if otherPath then no_selection else select_listing False entries s)"

definition selectedRemoteLabel :: "remote_entry list \<Rightarrow> selection \<Rightarrow> jsstr" where
  "selectedRemoteLabel entries s =
     (case filter (\<lambda>e. ent_path e \<in> set (sn_paths s)) entries of
        [] \<Rightarrow> [0x672A, 0x9009, 0x62E9] | [e] \<Rightarrow> ent_name e | es \<Rightarrow> [0x5DF2, 0x9009, 0x62E9,
           32] @ nat_digits (length es) @ [32, 0x9879])"

section \<open>The choice of a local directory\<close>

text \<open>
  Every new path is a request of its own; the answer of an older one is dropped. \<open>list_directory\<close> is the
  listing of the back end, \<open>downloads\<close> its directory of downloads.
\<close>

record picker =
  dp_path :: jsstr
  dp_result :: "(jsstr \<times> remote_entry list) option"
  dp_busy :: bool
  dp_error :: jsstr
  dp_request :: nat

type_synonym listing = "jsstr + jsstr \<times> remote_entry list"

definition picker_listing :: "(jsstr \<Rightarrow> listing) \<Rightarrow> jsstr option \<Rightarrow> jsstr \<Rightarrow> listing" where
  "picker_listing list_directory downloads path =
     (let targetPath = (if path \<noteq> [] then path else case downloads of Some d \<Rightarrow> d | None \<Rightarrow> localRootsPath)
      in case list_directory targetPath of
           Inr r \<Rightarrow> Inr r
         | Inl e \<Rightarrow> if targetPath = localRootsPath then Inl e else list_directory localRootsPath)"

definition picker_load :: "picker \<Rightarrow> picker" where
  "picker_load s = s\<lparr>dp_busy := True, dp_error := [], dp_request := dp_request s + 1\<rparr>"

definition initial_picker :: picker where
  "initial_picker = picker_load \<lparr>dp_path = [], dp_result = None, dp_busy = False, dp_error = [], dp_request = 0\<rparr>"

definition picker_setPath :: "jsstr \<Rightarrow> picker \<Rightarrow> picker" where
  "picker_setPath path s = (if path = dp_path s then s else picker_load (s\<lparr>dp_path := path\<rparr>))"

definition picker_answered :: "nat \<Rightarrow> listing \<Rightarrow> picker \<Rightarrow> picker" where
  "picker_answered request answer s =
     (if request \<noteq> dp_request s then s
      else case answer of
             Inl e \<Rightarrow> s\<lparr>dp_error := [0x8BFB, 0x53D6, 0x76EE, 0x5F55, 0x5931, 0x8D25, 0xFF1A] @ e, dp_busy := False\<rparr>
           | Inr (path, entries) \<Rightarrow> picker_setPath path (s\<lparr>dp_result := Some (path, entries), dp_busy := False\<rparr>))"

definition directories :: "picker \<Rightarrow> remote_entry list" where
  "directories s = (case dp_result s of Some (_, entries) \<Rightarrow> filter (\<lambda>e. ent_kind e = Directory) entries | None \<Rightarrow> [])"

definition canSelectCurrent :: "picker \<Rightarrow> bool" where
  "canSelectCurrent s = (case dp_result s of Some (path, _) \<Rightarrow> path \<noteq> [] \<and> path \<noteq> localRootsPath | None \<Rightarrow> False)"

definition picker_parent :: "picker \<Rightarrow> picker" where
  "picker_parent s =
     (case dp_result s of
        Some (path, _) \<Rightarrow> if path \<noteq> [] \<and> canGoLocalParent path then picker_setPath (parentLocalPath path) s else s
      | None \<Rightarrow> s)"

definition picker_selected :: "picker \<Rightarrow> jsstr option" where
  "picker_selected s = (if canSelectCurrent s then map_option fst (dp_result s) else None)"

text \<open>The answer to the request under way, if there is one.\<close>

definition picker_served :: "(jsstr \<Rightarrow> listing) \<Rightarrow> jsstr option \<Rightarrow> picker \<Rightarrow> picker" where
  "picker_served list_directory downloads s =
     (if dp_busy s then picker_answered (dp_request s) (picker_listing list_directory downloads (dp_path s)) s else s)"

section \<open>Buttons\<close>

datatype queue_button = ResumeButton | PauseButton | RetryButton | CancelButton | DeleteButton | FolderButton

text \<open>The buttons of a transfer: whether it is active, which are there, and which of them can be used.\<close>

definition transfer_active :: "transfer \<Rightarrow> bool" where
  "transfer_active task \<longleftrightarrow> tf_status task = Running \<or> tf_status task = Paused \<or> tf_status task = WaitingConflict"

definition transfer_buttons :: "transfer \<Rightarrow> (queue_button \<times> bool) list" where
  "transfer_buttons task =
     (if tf_status task = Paused then [(ResumeButton, True)] else if tf_status task = Running then [(PauseButton, True)] else [])
     @ (if tf_status task = TFailed then [(RetryButton, True)] else [])
     @ (if tf_status task = Pending \<or> transfer_active task then [(CancelButton, True)] else [])
     @ [(DeleteButton, \<not> transfer_active task)]"

definition simple_transfer_buttons :: "transfer \<Rightarrow> (queue_button \<times> bool) list" where
  "simple_transfer_buttons task =
     (if (tf_status task = Completed \<or> tf_status task = Partial) \<and> tf_itemKind task \<noteq> ItemBatch \<and> js_trim (tf_localPath task) \<noteq> []
      then [(FolderButton, True)] else []) @ transfer_buttons task"

datatype menu_button = NewDirectoryItem | CopyItem | RenameItem | DeleteItem

text \<open>The menu of an entry: which items can be used; without the count and the copies of a selection, those of the entry.\<close>

definition entry_menu :: "bool \<Rightarrow> bool option \<Rightarrow> remote_entry option \<Rightarrow> nat option \<Rightarrow> (menu_button \<times> bool) list" where
  "entry_menu canAct canCopySelection entry selectionCount =
     (let selectedCount = (case selectionCount of Some n \<Rightarrow> n | None \<Rightarrow> if entry \<noteq> None then 1 else 0);
          canCopy = (case canCopySelection of Some b \<Rightarrow> b | None \<Rightarrow> (case entry of Some e \<Rightarrow> isTransferableEntry e | None \<Rightarrow> False))
      in [(NewDirectoryItem, canAct), (CopyItem, canAct \<and> canCopy),
          (RenameItem, canAct \<and> entry \<noteq> None \<and> selectedCount \<le> 1), (DeleteItem, canAct \<and> selectedCount \<noteq> 0)])"

section \<open>What is proved\<close>

lemma pane_listed_calls:
  "pn_rules (pane_listed path es s) = pn_rules s" "set (pn_calls (pane_listed path es s)) \<subseteq> set (pn_calls s) \<union> range PaneSelect"
  using pane_pending_fields [of "s\<lparr>pn_pathInput := (if path \<noteq> pn_path s then path else pn_pathInput s), pn_path := path,
     pn_entries := es\<rparr>"]
  by (simp_all add: pane_listed_def)

lemma pane_created_calls:
  "pn_rules (pane_created b n s) = pn_rules s" "set (pn_calls (pane_created b n s)) \<subseteq> set (pn_calls s) \<union> range PaneSelect"
  using pane_pending_fields [of "s\<lparr>pn_pendingEditName := Some n\<rparr>"]
  by (auto simp add: pane_created_def)

lemma select_call_ok: "c \<in> range PaneSelect \<Longrightarrow> pane_call_ok rules c"
  by (auto simp: pane_call_ok_def)

text \<open>Every name a pane asks for is allowed by its rules.\<close>

lemma pane_step_calls:
  assumes "file_pane_step s s'"
  shows "pn_rules s' = pn_rules s \<and> (\<forall>c \<in> set (pn_calls s'). c \<in> set (pn_calls s) \<or> pane_call_ok (pn_rules s) c)"
  using assms
proof (induction rule: file_pane_step.induct)
  case (listed s path entries)
  show ?case using pane_listed_calls [of path entries s] select_call_ok by blast
next
  case (created name s b)
  show ?case using pane_created_calls [of b name s] select_call_ok by blast
next
  case (creates s lower now)
  then show ?case by (simp add: pane_createDirectoryInline_def Let_def pane_call_def pane_call_ok_def unique_allowed)
next
  case (renamed s lower now e)
  then show ?case
    by (simp add: pane_commitInlineRename_def Let_def pane_call_def pane_cancelInlineRename_def pane_call_ok_def unique_allowed)
qed (auto simp: pane_startInlineRename_def pane_cancelInlineRename_def name_typed_def openPathInput_def open_answered_def pane_opened_def pane_parent_def
    pane_call_def pane_call_ok_def Let_def)

theorem pane_names_allowed:
  assumes "file_pane_step\<^sup>*\<^sup>* (initial_pane path listing rules) s"
  shows "list_all (pane_call_ok rules) (pn_calls s)"
proof -
  have "pn_rules s = rules \<and> (\<forall>c \<in> set (pn_calls s). pane_call_ok rules c)" using assms
  proof (induction rule: rtranclp_induct)
    case base
    show ?case by (simp add: initial_pane_def)
  next
    case (step s s')
    then show ?case using pane_step_calls [OF step.hyps(2)] by metis
  qed
  then show ?thesis by (simp add: list_all_iff)
qed

text \<open>
  A directory that is made while the user goes to another one: an entry of that one which has the name is
  put up for renaming.
\<close>

definition same_name :: remote_entry where
  "same_name = listed_entry\<lparr>ent_name := new_directory_name, ent_path := js ''/other/d''\<rparr>"

lemma other_entry_is_renamed:
  "pn_editingEntryPath (pane_created True new_directory_name
     (pane_listed (js ''/other'') [same_name] (pane_createDirectoryInline js_lower 0 (initial_pane (js ''/'') [] RemoteRules))))
   = Some (js ''/other/d'')"
  by code_simp

subsection \<open>The selection\<close>

lemma set_add_fold: "set (fold set_add xs ys) = set xs \<union> set ys"
  by (induction xs arbitrary: ys) (auto simp: set_add_def)

lemma selection_range:
  assumes "md_shiftKey ev" "anchor_index entries s = Some a" "i < length entries" "a < length entries"
  shows "set (sn_paths (selectEntry mac entries ev e i s)) =
      {ent_path (entries ! j) | j. min a i \<le> j \<and> j \<le> max a i} \<union> (if isAdditiveDesktopSelection mac ev then set (sn_paths s) else {})
    \<and> sn_anchor (selectEntry mac entries ev e i s) = sn_anchor s"
proof -
  let ?r = "take (max a i + 1 - min a i) (drop (min a i) entries)"
  have "set ?r = {entries ! j | j. min a i \<le> j \<and> j \<le> max a i}"
  proof (intro set_eqI iffI)
    fix x assume "x \<in> set ?r"
    then obtain k where k: "k < length ?r" "x = ?r ! k" by (auto simp: in_set_conv_nth)
    then have "x = entries ! (min a i + k)" "min a i + k \<le> max a i" using assms(3,4) by auto
    then show "x \<in> {entries ! j | j. min a i \<le> j \<and> j \<le> max a i}" by force
  next
    fix x assume "x \<in> {entries ! j | j. min a i \<le> j \<and> j \<le> max a i}"
    then obtain j where j: "x = entries ! j" "min a i \<le> j" "j \<le> max a i" by blast
    have l: "j - min a i < length ?r" using j assms(3,4) by auto
    have "min a i \<le> length entries" using assms(3) by simp
    then have "?r ! (j - min a i) = entries ! j" using j(2) l by (simp add: nth_drop)
    then show "x \<in> set ?r" using l j(1) nth_mem by metis
  qed
  then have "ent_path ` set ?r = {ent_path (entries ! j) | j. min a i \<le> j \<and> j \<le> max a i}" by auto
  then show ?thesis using assms(1,2) by (simp add: selectEntry_def Let_def set_add_fold Un_commute)
qed

subsection \<open>The choice of a directory comes to rest\<close>

lemma picker_listing_stable:
  assumes "\<And>p q es. list_directory p = Inr (q, es) \<Longrightarrow> q \<noteq> [] \<and> (\<exists>es'. list_directory q = Inr (q,
     es'))"
    and "picker_listing list_directory downloads p = Inr (q, es)"
  shows "q \<noteq> [] \<and> (\<exists>es'. picker_listing list_directory downloads q = Inr (q, es'))"
proof -
  have "\<exists>t. list_directory t = Inr (q, es)" using assms(2)
    by (auto simp: picker_listing_def Let_def split: sum.splits if_splits)
  then obtain es' where "q \<noteq> []" "list_directory q = Inr (q, es')" using assms(1) by blast
  then show ?thesis by (auto simp: picker_listing_def)
qed

text \<open>
  C40. The choice of a directory comes to rest: when the paths the back end answers with are themselves listed
  under that path, it is no longer busy after two answers, and what it shows is the directory of its
  path or an error, whatever was chosen before. Answers of older requests change nothing.
\<close>

theorem picker_settles:
  assumes stable: "\<And>p q es. list_directory p = Inr (q, es) \<Longrightarrow> q \<noteq> [] \<and> (\<exists>es'. list_directory q = Inr (q, es'))"
    and busy: "dp_busy s"
    and t: "t = picker_served list_directory downloads (picker_served list_directory downloads s)"
  shows "\<not> dp_busy t \<and> (dp_error t = [] \<longrightarrow> map_option fst (dp_result t) = Some (dp_path t))
    \<and> (r < dp_request s \<longrightarrow> picker_answered r answer s = s)"
proof -
  define u where "u = picker_served list_directory downloads s"
  have u: "u = picker_answered (dp_request s) (picker_listing list_directory downloads (dp_path s)) s"
    by (simp add: u_def picker_served_def busy)
  have tu: "t = picker_served list_directory downloads u" by (simp only: t u_def)
  show ?thesis
  proof (cases "picker_listing list_directory downloads (dp_path s)")
    case (Inl e)
    then have e: "u = s\<lparr>dp_error := [0x8BFB, 0x53D6, 0x76EE, 0x5F55, 0x5931, 0x8D25, 0xFF1A] @ e,
       dp_busy := False\<rparr>" by (simp add: u picker_answered_def)
    then have "t = u" by (simp add: tu picker_served_def)
    then show ?thesis by (simp add: e picker_answered_def)
  next
    case (Inr a)
    obtain q es where a: "a = (q, es)" by (cases a)
    have u': "u = picker_setPath q (s\<lparr>dp_result := Some (q, es), dp_busy := False\<rparr>)" by (simp add: u Inr a picker_answered_def)
    show ?thesis
    proof (cases "q = dp_path s")
      case True
      then have "u = s\<lparr>dp_result := Some (q, es), dp_busy := False\<rparr>" by (simp add: u' picker_setPath_def)
      moreover from this have "t = u" by (simp add: tu picker_served_def)
      ultimately show ?thesis using True by (simp add: picker_answered_def)
    next
      case False
      then have v: "u = picker_load (s\<lparr>dp_result := Some (q, es), dp_busy := False, dp_path := q\<rparr>)" by (simp add: u' picker_setPath_def)
      obtain es' where l: "picker_listing list_directory downloads q = Inr (q, es')"
      proof -
        have "q \<noteq> [] \<and> (\<exists>es'. picker_listing list_directory downloads q = Inr (q, es'))"
        proof (rule picker_listing_stable)
          show "picker_listing list_directory downloads (dp_path s) = Inr (q, es)" by (simp add: Inr a)
        qed (rule stable)
        then show thesis using that by blast
      qed
      have "t = picker_answered (dp_request u) (picker_listing list_directory downloads q) u"
        by (simp add: tu picker_served_def) (simp add: v picker_load_def)
      then show ?thesis by (simp add: l v picker_answered_def picker_setPath_def picker_load_def)
    qed
  qed
qed

theorem picker_settles_witness:
  "dp_path (picker_served (\<lambda>p. if p = js ''c'' then Inr (js ''c'', []) else Inl []) (Some (js ''c'')) initial_picker) = js ''c''
    \<and> \<not> dp_busy (picker_served (\<lambda>p. if p = js ''c'' then Inr (js ''c'', []) else Inl []) (Some (js ''c''))
          (picker_served (\<lambda>p. if p = js ''c'' then Inr (js ''c'', []) else Inl []) (Some (js ''c'')) initial_picker))"
proof -
  let ?l = "\<lambda>p. if p = js ''c'' then Inr (js ''c'', []) else Inl [] :: listing"
  have "\<And>p q es. ?l p = Inr (q, es) \<Longrightarrow> q \<noteq> [] \<and> (\<exists>es'. ?l q = Inr (q,
     es'))" by (auto split: if_splits)
  moreover have "dp_busy initial_picker" by code_simp
  ultimately have "\<not> dp_busy (picker_served ?l (Some (js ''c'')) (picker_served ?l (Some (js ''c'')) initial_picker))"
    using picker_settles [of ?l initial_picker _ "Some (js ''c'')"] by blast
  moreover have "dp_path (picker_served ?l (Some (js ''c'')) initial_picker) = js ''c''" by code_simp
  ultimately show ?thesis by blast
qed

end
