(* ===== verification/WslFiles.thy ===== *)
theory WslFiles
  imports FilePanels
begin

text \<open>
  The files of a WSL distribution beside the local ones (\<^verbatim>\<open>src/features/file-transfer/WslFileTransferPanel.tsx\<close>). A
  handler asks the back end for something and goes on when it has answered: \<open>wf_tasks\<close> are the handlers that
  wait, each with what it will do, and \<open>wf_calls\<close> is everything the back end was asked for. As in the code, a
  handler keeps the paths of the moment it was called.
\<close>

section \<open>State\<close>

datatype wsl_action = WslPause | WslResume | WslRetry | WslCancel | WslDelete

datatype wsl_command =
    ListLocal jsstr
  | ListWsl jsstr
  | ListTransfers
  | MkdirLocal jsstr
  | MkdirWsl jsstr
  | RenameLocal jsstr jsstr
  | RenameWsl jsstr jsstr
  | RemoveLocal jsstr
  | RemoveWsl jsstr
  | WslUpload jsstr jsstr
  | WslDownload jsstr jsstr
  | WslAction jsstr wsl_action
  | ResolveConflict jsstr conflict_policy

text \<open>
  What happens when the transfers cannot be read: nothing, a report with the error behind it, a report of its
  own, or another reading of the transfers before a report with the error.
\<close>

datatype wsl_failure = Silent | WithError jsstr | Instead jsstr | Again jsstr

text \<open>
  The handlers that wait: a listing with what is reported behind it, a change on one side with the message of
  its failure, whether it drops the selection, and the directory listed then; the removal of one entry after
  another; an upload with those that follow; and anything after which the transfers are read.
\<close>

datatype wsl_task =
    LocalListing jsstr
  | WslListing jsstr "jsstr list"
  | TransferListing "jsstr list" wsl_failure
  | LocalChange wsl_command bool jsstr jsstr
  | WslChange wsl_command bool jsstr jsstr
  | Removal remote_entry "remote_entry list" "jsstr list" nat jsstr
  | Uploads wsl_command "wsl_command list" "jsstr list" jsstr
  | ThenTransfers wsl_command "jsstr list" jsstr

record wsl_panel =
  wf_distribution :: jsstr
  wf_localEntries :: "remote_entry list"
  wf_localPath :: jsstr
  wf_wslEntries :: "remote_entry list"
  wf_wslPath :: jsstr
  wf_selectedLocal :: "remote_entry option"
  wf_selectedWsl :: "remote_entry option"
  wf_transfers :: "transfer list"
  wf_previous :: "jsstr \<Rightarrow> transfer_status option"
  wf_tasks :: "wsl_task list"
  wf_reports :: "jsstr list"
  wf_calls :: "wsl_command list"

definition initial_wsl_panel :: "jsstr \<Rightarrow> wsl_panel" where
  "initial_wsl_panel distribution =
     \<lparr>wf_distribution = distribution, wf_localEntries = [], wf_localPath = [], wf_wslEntries = [], wf_wslPath = js ''/'',
      wf_selectedLocal = None, wf_selectedWsl = None, wf_transfers = [], wf_previous = Map.empty, wf_tasks = [],
      wf_reports = [], wf_calls = []\<rparr>"

fun wsl_task_command :: "wsl_task \<Rightarrow> wsl_command" where
  "wsl_task_command (LocalListing path) = ListLocal path"
| "wsl_task_command (WslListing path m) = ListWsl path"
| "wsl_task_command (TransferListing m f) = ListTransfers"
| "wsl_task_command (LocalChange c b path m) = c"
| "wsl_task_command (WslChange c b path m) = c"
| "wsl_task_command (Removal e es failures n path) = RemoveWsl (ent_path e)"
| "wsl_task_command (Uploads c cs m f) = c"
| "wsl_task_command (ThenTransfers c m f) = c"

definition start_task :: "wsl_task \<Rightarrow> wsl_panel \<Rightarrow> wsl_panel" where
  "start_task t s = s\<lparr>wf_tasks := wf_tasks s @ [t], wf_calls := wf_calls s @ [wsl_task_command t]\<rparr>"

definition end_task :: "wsl_task \<Rightarrow> wsl_panel \<Rightarrow> wsl_panel" where
  "end_task t s = s\<lparr>wf_tasks := remove1 t (wf_tasks s)\<rparr>"

definition wsl_report :: "jsstr list \<Rightarrow> wsl_panel \<Rightarrow> wsl_panel" where
  "wsl_report m s = s\<lparr>wf_reports := wf_reports s @ m\<rparr>"

section \<open>Listings\<close>

definition wsl_local_directory :: "wsl_panel \<Rightarrow> jsstr" where
  "wsl_local_directory s = (if wf_localPath s \<noteq> [] then wf_localPath s else localRootsPath)"

definition wsl_refreshLocal :: "jsstr option \<Rightarrow> wsl_panel \<Rightarrow> wsl_panel" where
  "wsl_refreshLocal pathOverride s = start_task (LocalListing (case pathOverride of Some p \<Rightarrow> p | None \<Rightarrow> wsl_local_directory s)) s"

definition wsl_refreshWsl :: "jsstr option \<Rightarrow> wsl_panel \<Rightarrow> wsl_panel" where
  "wsl_refreshWsl pathOverride s = start_task (WslListing (case pathOverride of Some p \<Rightarrow> p | None \<Rightarrow> wf_wslPath s) []) s"

definition refreshTransfers :: "jsstr list \<Rightarrow> wsl_failure \<Rightarrow> wsl_panel \<Rightarrow> wsl_panel" where
  "refreshTransfers m f = start_task (TransferListing m f)"

text \<open>The selected entry as it is in the new listing, if it is still there.\<close>

definition still_selected :: "remote_entry list \<Rightarrow> remote_entry option \<Rightarrow> remote_entry option" where
  "still_selected entries current = Option.bind current (\<lambda>c. find (\<lambda>e. ent_path e = ent_path c) entries)"

definition finished_status :: "transfer_status \<Rightarrow> bool" where
  "finished_status st \<longleftrightarrow> st = Completed \<or> st = Partial"

definition statuses :: "transfer list \<Rightarrow> jsstr \<Rightarrow> transfer_status option" where
  "statuses ts = fold (\<lambda>t m. m(tf_id t \<mapsto> tf_status t)) ts Map.empty"

text \<open>Both sides are listed again when a transfer has ended.\<close>

definition transfers_changed :: "wsl_panel \<Rightarrow> wsl_panel" where
  "transfers_changed s =
     (let previous = wf_previous s;
          justFinished = list_ex (\<lambda>t. finished_status (tf_status t)
            \<and> \<not> (case previous (tf_id t) of Some st \<Rightarrow> finished_status st | None \<Rightarrow> False)) (wf_transfers s);
          s' = s\<lparr>wf_previous := statuses (wf_transfers s)\<rparr>
      in if justFinished then wsl_refreshWsl None (wsl_refreshLocal None s') else s')"

definition wsl_hasActiveTransfer :: "wsl_panel \<Rightarrow> bool" where
  "wsl_hasActiveTransfer s = list_ex (\<lambda>t. tf_status t \<in> {Pending, Running, Paused, WaitingConflict}) (wf_transfers s)"

definition poll_transfers :: "wsl_panel \<Rightarrow> wsl_panel" where
  "poll_transfers s = (if wsl_hasActiveTransfer s then refreshTransfers [] Silent s else s)"

text \<open>The first listings and transfers, when all of them have come.\<close>

definition wsl_panel_opened :: "jsstr \<times> remote_entry list \<Rightarrow> jsstr \<times> remote_entry list \<Rightarrow> transfer list \<Rightarrow> wsl_panel \<Rightarrow> wsl_panel" where
  "wsl_panel_opened localResult wslResult nextTransfers s =
     transfers_changed (wsl_report [[0x5DF2, 0x6253, 0x5F00, 32] @ wf_distribution s @ [32, 0x6587, 0x4EF6, 0x7BA1, 0x7406,
        0xFF1A] @ fst wslResult]
       (s\<lparr>wf_localPath := fst localResult, wf_localEntries := snd localResult, wf_wslPath := fst wslResult,
          wf_wslEntries := snd wslResult, wf_transfers := nextTransfers, wf_previous := statuses nextTransfers\<rparr>))"

section \<open>Changes\<close>

definition wsl_createLocalDirectory :: "jsstr \<Rightarrow> wsl_panel \<Rightarrow> wsl_panel" where
  "wsl_createLocalDirectory name s =
     start_task (LocalChange (MkdirLocal (join_windows_path (wf_localPath s) name)) False (wsl_local_directory s) ([0x521B,
        0x5EFA] @ js '' Windows '' @ [0x76EE, 0x5F55, 0x5931, 0x8D25, 0xFF1A])) s"

definition createWslDirectory :: "jsstr \<Rightarrow> wsl_panel \<Rightarrow> wsl_panel" where
  "createWslDirectory name s =
     start_task (WslChange (MkdirWsl (joinLinuxPath (wf_wslPath s) name)) False (wf_wslPath s) [0x521B, 0x5EFA, 32, 87, 83, 76, 32,
        0x76EE, 0x5F55, 0x5931, 0x8D25, 0xFF1A]) s"

definition renameLocal :: "remote_entry \<Rightarrow> jsstr \<Rightarrow> wsl_panel \<Rightarrow> wsl_panel" where
  "renameLocal e name s =
     start_task (LocalChange (RenameLocal (ent_path e) (join_windows_path (wf_localPath s) name)) True (wsl_local_directory s) (js ''Windows '' @ [0x91CD, 0x547D, 0x540D, 0x5931, 0x8D25, 0xFF1A])) s"

definition renameWsl :: "remote_entry \<Rightarrow> jsstr \<Rightarrow> wsl_panel \<Rightarrow> wsl_panel" where
  "renameWsl e name s =
     start_task (WslChange (RenameWsl (ent_path e) (joinLinuxPath (wf_wslPath s) name)) True (wf_wslPath s) [87, 83, 76, 32, 0x91CD,
        0x547D, 0x540D, 0x5931, 0x8D25, 0xFF1A]) s"

definition removeLocal :: "remote_entry option \<Rightarrow> wsl_panel \<Rightarrow> wsl_panel" where
  "removeLocal entry s =
     (case (case entry of Some e \<Rightarrow> Some e | None \<Rightarrow> wf_selectedLocal s) of
        None \<Rightarrow> s
      | Some target \<Rightarrow> start_task (LocalChange (RemoveLocal (ent_path target)) True (wsl_local_directory s) ([0x5220,
         0x9664] @ js '' Windows '' @ [0x6761, 0x76EE, 0x5931, 0x8D25, 0xFF1A])) s)"

definition removeWsl :: "remote_entry option \<Rightarrow> wsl_panel \<Rightarrow> wsl_panel" where
  "removeWsl entry s =
     (case (case entry of Some e \<Rightarrow> Some e | None \<Rightarrow> wf_selectedWsl s) of
        None \<Rightarrow> s
      | Some target \<Rightarrow> start_task (WslChange (RemoveWsl (ent_path target)) True (wf_wslPath s) [0x5220, 0x9664, 32, 87, 83,
         76, 32, 0x6761, 0x76EE, 0x5931, 0x8D25, 0xFF1A]) s)"

text \<open>One entry after another; the failures are counted, and the first one is reported.\<close>

definition wsl_removal_result :: "jsstr list \<Rightarrow> nat \<Rightarrow> jsstr" where
  "wsl_removal_result failures n =
     (if failures \<noteq> [] then [87, 83, 76, 32, 0x6279, 0x91CF, 0x5220, 0x9664, 0x5B8C, 0x6210,
        0xFF0C] @ nat_digits (length failures) @ [32, 0x9879, 0x5931, 0x8D25, 0xFF1A] @ hd failures
      else [0x5DF2, 0x5220, 0x9664, 32] @ nat_digits n @ [32, 0x4E2A, 32, 87, 83, 76, 32, 0x6761, 0x76EE, 0x3002])"

definition remove_next :: "remote_entry list \<Rightarrow> jsstr list \<Rightarrow> nat \<Rightarrow> jsstr \<Rightarrow> wsl_panel \<Rightarrow> wsl_panel" where
  "remove_next entries failures n path s =
     (case entries of
        e # es \<Rightarrow> start_task (Removal e es failures n path) s
      | [] \<Rightarrow> start_task (WslListing path [wsl_removal_result failures n]) (s\<lparr>wf_selectedWsl := None\<rparr>))"

definition removeWslEntries :: "remote_entry list \<Rightarrow> wsl_panel \<Rightarrow> wsl_panel" where
  "removeWslEntries entries s = remove_next entries [] (length entries) (wf_wslPath s) s"

section \<open>Transfers\<close>

definition uploadEntry :: "remote_entry \<Rightarrow> wsl_panel \<Rightarrow> wsl_panel" where
  "uploadEntry e s =
     start_task (ThenTransfers (WslUpload (ent_path e) (joinLinuxPath (wf_wslPath s) (ent_name e)))
       [([0x5DF2, 0x52A0, 0x5165] @ js '' Windows '' @ [0x2192, 32]) @ wf_distribution s @ [32, 0x4F20, 0x8F93, 0x961F, 0x5217,
          0xFF1A] @ ent_name e] [0x52A0, 0x5165, 32, 87, 83, 76, 32, 0x4F20, 0x8F93, 0x961F, 0x5217, 0x5931, 0x8D25, 0xFF1A]) s"

definition upload_next :: "wsl_command list \<Rightarrow> jsstr list \<Rightarrow> wsl_panel \<Rightarrow> wsl_panel" where
  "upload_next commands m s =
     (case commands of
        c # cs \<Rightarrow> start_task (Uploads c cs m [0x52A0, 0x5165, 32, 87, 83, 76, 32, 0x4F20, 0x8F93, 0x961F, 0x5217, 0x5931,
           0x8D25, 0xFF1A]) s
      | [] \<Rightarrow> refreshTransfers m (Again [0x52A0, 0x5165, 32, 87, 83, 76, 32, 0x4F20, 0x8F93, 0x961F, 0x5217, 0x5931, 0x8D25,
         0xFF1A]) s)"

definition wsl_uploadPaths :: "jsstr list \<Rightarrow> wsl_panel \<Rightarrow> wsl_panel" where
  "wsl_uploadPaths paths s =
     (let unique = uniquePaths paths
      in upload_next (map (\<lambda>p. WslUpload p (joinLinuxPath (wf_wslPath s) (pathBaseName p))) unique)
           [[0x5DF2, 0x52A0, 0x5165, 32] @ nat_digits (length unique) @ ([32, 0x4E2A] @ js '' Windows '' @ [0x2192,
              32]) @ wf_distribution s @ [32, 0x4F20, 0x8F93, 0x4EFB, 0x52A1, 0x3002]] s)"

definition downloadEntry :: "remote_entry \<Rightarrow> wsl_panel \<Rightarrow> wsl_panel" where
  "downloadEntry e s =
     (let targetDirectory = downloadTargetDirectory (wf_localPath s) (wf_selectedLocal s)
      in if targetDirectory = [] \<or> targetDirectory = localRootsPath
         then wsl_report [([0x8BF7, 0x5148, 0x5728] @ js '' Windows '' @ [0x9762, 0x677F, 0x8FDB, 0x5165, 0x76EE, 0x6807, 0x76EE, 0x5F55,
            0x3002])] s
         else start_task (ThenTransfers (WslDownload (ent_path e) (join_windows_path targetDirectory (safeWindowsFileName (ent_name e))))
                [[0x5DF2, 0x52A0, 0x5165, 32] @ wf_distribution s @ ([32, 0x2192] @ js '' Windows '' @ [0x4F20, 0x8F93, 0x961F, 0x5217,
                   0xFF1A]) @ ent_name e] [0x52A0, 0x5165, 32, 87, 83, 76, 32, 0x4E0B, 0x8F7D, 0x961F, 0x5217, 0x5931, 0x8D25, 0xFF1A]) s)"

definition updateTransfer :: "jsstr \<Rightarrow> wsl_action \<Rightarrow> wsl_panel \<Rightarrow> wsl_panel" where
  "updateTransfer i action = start_task (ThenTransfers (WslAction i action) [] [87, 83, 76, 32, 0x4F20, 0x8F93, 0x4EFB, 0x52A1, 0x64CD,
     0x4F5C, 0x5931, 0x8D25, 0xFF1A])"

definition pendingConflict :: "wsl_panel \<Rightarrow> transfer option" where
  "pendingConflict s = find (\<lambda>t. tf_status t = WaitingConflict) (wf_transfers s)"

definition wsl_resolveConflict :: "conflict_policy \<Rightarrow> wsl_panel \<Rightarrow> wsl_panel" where
  "wsl_resolveConflict policy s =
     (case pendingConflict s of
        None \<Rightarrow> s
      | Some t \<Rightarrow> start_task (ThenTransfers (ResolveConflict (tf_id t) policy) [] [0x5904, 0x7406, 32, 87, 83, 76, 32, 0x6587,
         0x4EF6, 0x51B2, 0x7A81, 0x5931, 0x8D25, 0xFF1A]) s)"

section \<open>Answers\<close>

fun wsl_listed :: "wsl_task \<Rightarrow> jsstr \<Rightarrow> remote_entry list \<Rightarrow> wsl_panel \<Rightarrow> wsl_panel" where
  "wsl_listed (LocalListing p) path entries s =
     s\<lparr>wf_localPath := path, wf_localEntries := entries, wf_selectedLocal := still_selected entries (wf_selectedLocal s)\<rparr>"
| "wsl_listed (WslListing p m) path entries s =
     wsl_report m (s\<lparr>wf_wslPath := path, wf_wslEntries := entries, wf_selectedWsl := still_selected entries (wf_selectedWsl s)\<rparr>)"
| "wsl_listed t path entries s = s"

fun wsl_transfers :: "wsl_task \<Rightarrow> transfer list \<Rightarrow> wsl_panel \<Rightarrow> wsl_panel" where
  "wsl_transfers (TransferListing m f) ts s = transfers_changed (wsl_report m (s\<lparr>wf_transfers := ts\<rparr>))"
| "wsl_transfers t ts s = s"

text \<open>A change that has been made.\<close>

fun wsl_done :: "wsl_task \<Rightarrow> wsl_panel \<Rightarrow> wsl_panel" where
  "wsl_done (LocalChange c clears path m) s =
     start_task (LocalListing path) (if clears then s\<lparr>wf_selectedLocal := None\<rparr> else s)"
| "wsl_done (WslChange c clears path m) s =
     start_task (WslListing path []) (if clears then s\<lparr>wf_selectedWsl := None\<rparr> else s)"
| "wsl_done (Removal e es failures n path) s = remove_next es failures n path s"
| "wsl_done (Uploads c cs m f) s = upload_next cs m s"
| "wsl_done (ThenTransfers c m f) s = refreshTransfers m (WithError f) s"
| "wsl_done t s = s"

fun wsl_failed :: "wsl_task \<Rightarrow> jsstr \<Rightarrow> wsl_panel \<Rightarrow> wsl_panel" where
  "wsl_failed (LocalListing p) e s = wsl_report [([0x8BFB, 0x53D6] @ js '' Windows '' @ [0x76EE, 0x5F55, 0x5931, 0x8D25, 0xFF1A]) @ e] s"
| "wsl_failed (WslListing p m) e s = wsl_report ([[0x8BFB, 0x53D6, 32] @ wf_distribution s @ [32, 0x76EE, 0x5F55, 0x5931, 0x8D25,
   0xFF1A] @ e] @ m) s"
| "wsl_failed (TransferListing m f) e s =
     (case f of
        Silent \<Rightarrow> s | WithError m \<Rightarrow> wsl_report [m @ e] s | Instead m \<Rightarrow> wsl_report [m] s
      | Again m \<Rightarrow> refreshTransfers [m @ e] (Instead (m @ e)) s)"
| "wsl_failed (LocalChange c clears path m) e s = wsl_report [m @ e] s"
| "wsl_failed (WslChange c clears path m) e s = wsl_report [m @ e] s"
| "wsl_failed (Removal x es failures n path) e s = remove_next es (failures @ [ent_name x @ [0xFF1A] @ e]) n path s"
| "wsl_failed (Uploads c cs m f) e s = refreshTransfers [f @ e] (Instead (f @ e)) s"
| "wsl_failed (ThenTransfers c m f) e s = wsl_report [f @ e] s"

definition is_listing :: "wsl_task \<Rightarrow> bool" where
  "is_listing t = (case t of LocalListing p \<Rightarrow> True | WslListing p m \<Rightarrow> True | _ \<Rightarrow> False)"

definition is_transfers :: "wsl_task \<Rightarrow> bool" where
  "is_transfers t = (case t of TransferListing m f \<Rightarrow> True | _ \<Rightarrow> False)"

inductive wsl_step :: "wsl_panel \<Rightarrow> wsl_panel \<Rightarrow> bool" where
  opened: "wsl_step s (wsl_panel_opened l w ts s)"
| not_opened: "wsl_step s (wsl_report [[0x6253, 0x5F00, 32] @ wf_distribution s @ [32, 0x6587, 0x4EF6, 0x7BA1, 0x7406, 0x5931, 0x8D25,
   0xFF1A] @ e] s)"
| polled: "wsl_step s (poll_transfers s)"
| local: "wsl_step s (wsl_refreshLocal p s)"
| wsl: "wsl_step s (wsl_refreshWsl p s)"
| selected: "wsl_step s (s\<lparr>wf_selectedLocal := e, wf_selectedWsl := e'\<rparr>)"
| made_local: "wsl_step s (wsl_createLocalDirectory name s)"
| made_wsl: "wsl_step s (createWslDirectory name s)"
| renamed_local: "wsl_step s (renameLocal x name s)"
| renamed_wsl: "wsl_step s (renameWsl x name s)"
| removed_local: "wsl_step s (removeLocal e s)"
| removed_wsl: "wsl_step s (removeWsl e s)"
| removed_entries: "wsl_step s (removeWslEntries es s)"
| uploaded: "wsl_step s (uploadEntry x s)"
| paths_uploaded: "wsl_step s (wsl_uploadPaths ps s)"
| downloaded: "wsl_step s (downloadEntry x s)"
| transfer: "wsl_step s (updateTransfer i a s)"
| conflict: "wsl_step s (wsl_resolveConflict policy s)"
| listed: "t \<in> set (wf_tasks s) \<Longrightarrow> is_listing t \<Longrightarrow> wsl_step s (wsl_listed t path es (end_task t s))"
| transfers: "t \<in> set (wf_tasks s) \<Longrightarrow> is_transfers t \<Longrightarrow> wsl_step s (wsl_transfers t ts (end_task t s))"
| changed: "t \<in> set (wf_tasks s) \<Longrightarrow> \<not> is_listing t \<Longrightarrow> \<not> is_transfers t \<Longrightarrow> wsl_step s (wsl_done t (end_task t s))"
| failed: "t \<in> set (wf_tasks s) \<Longrightarrow> wsl_step s (wsl_failed t e (end_task t s))"

section \<open>Downloads stay in the directory\<close>

text \<open>A file name in a directory of the Windows side, neither the list of its drives nor none.\<close>

definition windows_name :: "jsstr \<Rightarrow> bool" where
  "windows_name n \<longleftrightarrow> n \<noteq> [] \<and> n \<noteq> js ''.'' \<and> n \<noteq> js ''..'' \<and> list_all (\<lambda>c. \<not> invalid_name_unit c) n \<and> last n \<notin> {32, 46}"

definition wsl_call_ok :: "wsl_command \<Rightarrow> bool" where
  "wsl_call_ok c \<longleftrightarrow> (case c of
     WslDownload p q \<Rightarrow> \<exists>d n. q = join_windows_path d n \<and> d \<notin> {[], localRootsPath} \<and> windows_name n
   | _ \<Rightarrow> True)"

fun wsl_task_ok :: "wsl_task \<Rightarrow> bool" where
  "wsl_task_ok (Uploads c cs m f) = list_all wsl_call_ok cs"
| "wsl_task_ok (LocalListing p) = True"
| "wsl_task_ok (WslListing p m) = True"
| "wsl_task_ok (TransferListing m f) = True"
| "wsl_task_ok (LocalChange c b p m) = True"
| "wsl_task_ok (WslChange c b p m) = True"
| "wsl_task_ok (Removal e es fs n p) = True"
| "wsl_task_ok (ThenTransfers c m f) = True"

definition wsl_inv :: "wsl_panel \<Rightarrow> bool" where
  "wsl_inv s \<longleftrightarrow> list_all wsl_call_ok (wf_calls s) \<and> list_all wsl_task_ok (wf_tasks s)"

lemma safe_windows_name: "windows_name (safeWindowsFileName name)"
proof -
  define m where "m = map (\<lambda>c. if invalid_name_unit c then 95 else c) (js_trim name)"
  define n where "n = trim_end (\<lambda>c. c = 32 \<or> c = 46) m"
  have "list_all (\<lambda>c. \<not> invalid_name_unit c) m" by (auto simp: m_def list_all_iff invalid_name_unit_def)
  then have v: "list_all (\<lambda>c. \<not> invalid_name_unit c) n" by (auto simp: n_def trim_end_def list_all_iff dest: set_dropWhileD)
  have l: "last n \<notin> {32, 46}" if "n \<noteq> []"
  proof -
    have "n = rev (dropWhile (\<lambda>c. c = 32 \<or> c = 46) (rev m))" by (simp add: n_def trim_end_def)
    then show ?thesis using that hd_dropWhile [of "\<lambda>c. c = 32 \<or> c = 46" "rev m"] by (auto simp: last_rev)
  qed
  have d: "windows_name (js ''download'')" by (simp add: windows_name_def js_def invalid_name_unit_def)
  show ?thesis
  proof (cases "n \<noteq> [] \<and> n \<noteq> js ''.'' \<and> n \<noteq> js ''..''")
    case True
    then have "safeWindowsFileName name = n" by (simp add: safeWindowsFileName_def Let_def n_def m_def)
    then show ?thesis using True v l by (simp add: windows_name_def)
  next
    case False
    then have "safeWindowsFileName name = js ''download''" by (auto simp: safeWindowsFileName_def Let_def n_def m_def)
    then show ?thesis using d by simp
  qed
qed

lemma download_call_ok: "d \<notin> {[], localRootsPath} \<Longrightarrow> wsl_call_ok (WslDownload p (join_windows_path d (safeWindowsFileName name)))"
  using safe_windows_name [of name] by (auto simp: wsl_call_ok_def)

lemma start_inv: "wsl_inv s \<Longrightarrow> wsl_call_ok (wsl_task_command t) \<Longrightarrow> wsl_task_ok t \<Longrightarrow> wsl_inv (start_task t s)"
  by (simp add: wsl_inv_def start_task_def)

lemma end_inv: "wsl_inv s \<Longrightarrow> wsl_inv (end_task t s)"
  by (auto simp: wsl_inv_def end_task_def list_all_iff dest: notin_set_remove1)

lemma report_inv [simp]: "wsl_inv (wsl_report m s) = wsl_inv s"
  by (simp add: wsl_inv_def wsl_report_def)

lemma refresh_inv:
  "wsl_inv s \<Longrightarrow> wsl_inv (wsl_refreshLocal p s)" "wsl_inv s \<Longrightarrow> wsl_inv (wsl_refreshWsl p s)" "wsl_inv s \<Longrightarrow> wsl_inv (refreshTransfers m f s)"
  by (auto simp: wsl_refreshLocal_def wsl_refreshWsl_def refreshTransfers_def wsl_call_ok_def intro!: start_inv)

lemma transfers_changed_inv: "wsl_inv s \<Longrightarrow> wsl_inv (transfers_changed s)"
proof -
  assume "wsl_inv s"
  then have "wsl_inv (s\<lparr>wf_previous := statuses (wf_transfers s)\<rparr>)" by (simp add: wsl_inv_def)
  then show ?thesis by (simp add: transfers_changed_def Let_def refresh_inv)
qed

lemma remove_next_inv: "wsl_inv s \<Longrightarrow> wsl_inv (remove_next es fs n p s)"
proof -
  assume i: "wsl_inv s"
  then have "wsl_inv (s\<lparr>wf_selectedWsl := None\<rparr>)" by (simp add: wsl_inv_def)
  then show ?thesis using i by (cases es) (auto simp: remove_next_def wsl_call_ok_def intro!: start_inv)
qed

lemma upload_next_inv: "wsl_inv s \<Longrightarrow> list_all wsl_call_ok cs \<Longrightarrow> wsl_inv (upload_next cs m s)"
  by (cases cs) (auto simp: upload_next_def refresh_inv intro!: start_inv)

lemma wsl_listed_inv: "wsl_inv s \<Longrightarrow> wsl_inv (wsl_listed t path es s)"
  by (cases t) (simp_all add: wsl_inv_def wsl_report_def)

lemma wsl_transfers_inv: "wsl_inv s \<Longrightarrow> wsl_inv (wsl_transfers t ts s)"
proof (cases t)
  case (TransferListing m f)
  assume "wsl_inv s"
  then have "wsl_inv (wsl_report m (s\<lparr>wf_transfers := ts\<rparr>))" by (simp add: wsl_inv_def wsl_report_def)
  then show ?thesis by (simp add: TransferListing transfers_changed_inv)
qed simp_all

lemma wsl_done_inv: "wsl_inv s \<Longrightarrow> wsl_task_ok t \<Longrightarrow> wsl_inv (wsl_done t s)"
proof (cases t)
  case (LocalChange c b path m)
  assume i: "wsl_inv s"
  then have "wsl_inv (if b then s\<lparr>wf_selectedLocal := None\<rparr> else s)" by (simp add: wsl_inv_def)
  then show ?thesis by (auto simp: LocalChange wsl_call_ok_def intro!: start_inv)
next
  case (WslChange c b path m)
  assume i: "wsl_inv s"
  then have "wsl_inv (if b then s\<lparr>wf_selectedWsl := None\<rparr> else s)" by (simp add: wsl_inv_def)
  then show ?thesis by (auto simp: WslChange wsl_call_ok_def intro!: start_inv)
qed (simp_all add: remove_next_inv upload_next_inv refresh_inv)

lemma wsl_failed_inv: "wsl_inv s \<Longrightarrow> wsl_inv (wsl_failed t e s)"
  by (cases t) (simp_all add: remove_next_inv refresh_inv split: wsl_failure.split)

lemma wsl_step_inv: "wsl_step s s' \<Longrightarrow> wsl_inv s \<Longrightarrow> wsl_inv s'"
proof (induction rule: wsl_step.induct)
  case (opened s l w ts)
  then have "wsl_inv (wsl_report [[0x5DF2, 0x6253, 0x5F00, 32] @ wf_distribution s @ [32, 0x6587, 0x4EF6, 0x7BA1, 0x7406, 0xFF1A] @ fst w]
       (s\<lparr>wf_localPath := fst l, wf_localEntries := snd l, wf_wslPath := fst w,
          wf_wslEntries := snd w, wf_transfers := ts, wf_previous := statuses ts\<rparr>))" by (simp add: wsl_inv_def wsl_report_def)
  then show ?case by (simp add: wsl_panel_opened_def transfers_changed_inv)
next
  case (selected s e e')
  then show ?case by (simp add: wsl_inv_def)
next
  case (downloaded s x)
  then show ?case by (simp add: downloadEntry_def Let_def download_call_ok start_inv)
next
  case (paths_uploaded s ps)
  then show ?case by (simp add: wsl_uploadPaths_def Let_def upload_next_inv list_all_iff wsl_call_ok_def)
next
  case (changed t s)
  then have "wsl_task_ok t" by (simp add: wsl_inv_def list_all_iff)
  then show ?case using changed by (simp add: wsl_done_inv end_inv)
qed (auto simp: poll_transfers_def refresh_inv wsl_createLocalDirectory_def createWslDirectory_def renameLocal_def renameWsl_def
    removeLocal_def removeWsl_def removeWslEntries_def remove_next_inv uploadEntry_def updateTransfer_def wsl_resolveConflict_def wsl_call_ok_def
    wsl_listed_inv wsl_transfers_inv wsl_failed_inv end_inv intro!: start_inv split: option.split)

theorem wsl_downloads_safe:
  assumes "wsl_step\<^sup>*\<^sup>* (initial_wsl_panel distribution) s" and "WslDownload p q \<in> set (wf_calls s)"
  shows "\<exists>d n. q = join_windows_path d n \<and> d \<notin> {[], localRootsPath} \<and> windows_name n"
proof -
  have "wsl_inv s" using assms(1)
  proof (induction rule: rtranclp_induct)
    case base
    show ?case by (simp add: wsl_inv_def initial_wsl_panel_def)
  qed (rule wsl_step_inv)
  then have "wsl_call_ok (WslDownload p q)" using assms(2) by (simp add: wsl_inv_def list_all_iff)
  then show ?thesis by (simp add: wsl_call_ok_def)
qed

section \<open>Refreshing\<close>

text \<open>The transfers that have ended make both sides be listed again, and only once.\<close>

lemma statuses_append: "fold (\<lambda>t m. m(tf_id t \<mapsto> tf_status t)) ts m i = (case map_of (map (\<lambda>t. (tf_id t,
   tf_status t)) (rev ts)) i of
    Some st \<Rightarrow> Some st | None \<Rightarrow> m i)"
  by (induction ts rule: rev_induct) auto

lemma statuses_of: "distinct (map tf_id ts) \<Longrightarrow> t \<in> set ts \<Longrightarrow> statuses ts (tf_id t) = Some (tf_status t)"
proof -
  assume d: "distinct (map tf_id ts)" and t: "t \<in> set ts"
  have "distinct (map fst (map (\<lambda>t. (tf_id t, tf_status t)) (rev ts)))" using d by (simp add: comp_def rev_map [symmetric])
  moreover have "(tf_id t, tf_status t) \<in> set (map (\<lambda>t. (tf_id t, tf_status t)) (rev ts))" using t by auto
  ultimately show ?thesis by (simp add: statuses_def statuses_append del: map_map set_map)
qed

lemma finished_once:
  assumes "distinct (map tf_id (wf_transfers s))"
  shows "wf_tasks (transfers_changed (transfers_changed s)) = wf_tasks (transfers_changed s)"
proof -
  have p: "wf_previous (transfers_changed s) = statuses (wf_transfers s)" "wf_transfers (transfers_changed s) = wf_transfers s"
    by (simp_all add: transfers_changed_def Let_def wsl_refreshLocal_def wsl_refreshWsl_def start_task_def)
  have "\<not> list_ex (\<lambda>t. finished_status (tf_status t)
            \<and> \<not> (case statuses (wf_transfers s) (tf_id t) of Some st \<Rightarrow> finished_status st | None \<Rightarrow> False)) (wf_transfers s)"
    using statuses_of [OF assms] by (auto simp: list_ex_iff)
  then show ?thesis by (subst transfers_changed_def) (simp add: Let_def p)
qed

text \<open>
  A change lists the directory of the moment it was asked for: when the user has gone to another one in the
  meantime, the panel is brought back.
\<close>

lemma late_change_goes_back:
  "wf_localPath (wsl_listed (LocalListing (js ''a'')) (js ''a'') []
     (wsl_done (LocalChange (MkdirLocal (js ''a/n'')) False (js ''a'') m)
       (wsl_listed (LocalListing (js ''b'')) (js ''b'') [] (wsl_createLocalDirectory (js ''n'')
         ((initial_wsl_panel d)\<lparr>wf_localPath := js ''a''\<rparr>))))) = js ''a''"
  by simp

end
