(* ===== verification/UriText.thy ===== *)
theory UriText
  imports Encoding Paths
begin

text \<open>
  \<^verbatim>\<open>encodeURIComponent\<close> of the language, read back by \<^verbatim>\<open>decodeURIComponent\<close>. It throws for a string with a lone
  surrogate; the strings the code encodes come from the back end, whose strings have none (\<open>well_formed\<close>).
\<close>

fun well_formed :: "jsstr \<Rightarrow> bool" where
  "well_formed (a # b # s) =
     (if is_high a \<and> is_low b then well_formed s else \<not> is_high a \<and> \<not> is_low a \<and> well_formed (b # s))"
| "well_formed [a] = (\<not> is_high a \<and> \<not> is_low a)"
| "well_formed [] = True"

definition uri_unreserved :: "nat \<Rightarrow> bool" where
  "uri_unreserved b \<longleftrightarrow> b \<in> {33, 39, 40, 41, 42, 45, 46, 95, 126} \<or> (48 \<le> b \<and> b \<le> 57) \<or> (65 \<le> b \<and> b \<le> 90) \<or> (97 \<le> b \<and> b \<le> 122)"

definition uri_byte :: "nat \<Rightarrow> jsstr" where
  "uri_byte b = (if uri_unreserved b then [of_nat b] else [37, hex_digit (b div 16), hex_digit (b mod 16)])"

definition encodeURIComponent :: "jsstr \<Rightarrow> jsstr" where
  "encodeURIComponent s = concat (map uri_byte (utf8 s))"

section \<open>Reading back\<close>

lemma path_hex_digit: "n < 16 \<Longrightarrow> Paths.hex_value (hex_digit n) = Some n"
  by (drule below_16) (elim insertE emptyE; simp add: hex_digit_def)

declare Paths.hex_value.simps [simp del]

lemma escaped_byte: "b < 256 \<Longrightarrow> \<not> uri_unreserved b \<Longrightarrow> escape_digits (hex_digit (b div 16) # hex_digit (b mod 16) # s) = Some (b, s)"
  by (simp add: path_hex_digit)

lemma high_bytes: "128 \<le> b \<Longrightarrow> \<not> uri_unreserved b"
  by (auto simp: uri_unreserved_def)

lemma escape_bytes_high:
  "list_all (\<lambda>b. 128 \<le> b \<and> b < 256) bs \<Longrightarrow> escape_bytes (length bs) (concat (map uri_byte bs) @ s) = Some (bs, s)"
  by (induction bs) (auto simp: uri_byte_def high_bytes path_hex_digit)

lemma decode_ascii:
  assumes "p < 128"
  shows "decodeURIComponent (uri_byte p @ s) = map_option (\<lambda>t. of_nat p # t) (decodeURIComponent s)"
proof (cases "uri_unreserved p")
  case True
  then have "(of_nat p :: code_unit) \<noteq> 37" using unat_of_byte [of p] assms by (auto simp: uri_unreserved_def)
  then show ?thesis using True by (simp add: uri_byte_def)
next
  case False
  then show ?thesis using assms by (simp add: uri_byte_def path_hex_digit)
qed

lemma decode_sequence:
  assumes "128 \<le> b" "b < 256" "list_all (\<lambda>b. 128 \<le> b \<and> b < 256) bs" "utf8_length b = Some (Suc (length bs))" "utf8_point b bs = Some p"
  shows "decodeURIComponent (concat (map uri_byte (b # bs)) @ s) = map_option (\<lambda>t. utf16_units p @ t) (decodeURIComponent s)"
  using assms escape_bytes_high [OF assms(3), of s] by (simp add: uri_byte_def high_bytes path_hex_digit)

lemma decode_point:
  assumes "p < 0x110000" "\<not> (0xD800 \<le> p \<and> p \<le> 0xDFFF)"
  shows "decodeURIComponent (concat (map uri_byte (utf8_of_point p)) @ s) = map_option (\<lambda>t. utf16_units p @ t) (decodeURIComponent s)"
proof -
  have m: "x mod 64 < 128" for x :: nat
  proof -
    have "x mod 64 < 64" by simp
    then show ?thesis by linarith
  qed
  consider "p < 0x80" | "0x80 \<le> p" "p < 0x800" | "0x800 \<le> p" "p < 0x10000" | "0x10000 \<le> p" by linarith
  then show ?thesis
  proof cases
    case 1
    then show ?thesis using decode_ascii [of p s] by (simp add: utf8_of_point_def utf16_units_def)
  next
    case 2
    have "utf8_length (0xC0 + p div 0x40) = Some (Suc (length [0x80 + p mod 0x40]))" using 2 by (auto simp: utf8_length_def)
    moreover have "utf8_point (0xC0 + p div 0x40) [0x80 + p mod 0x40] = Some p" using 2 by (auto simp: utf8_point_def Let_def)
    ultimately show ?thesis using decode_sequence [of "0xC0 + p div 0x40" "[0x80 + p mod 0x40]" p s] 2
      by (simp add: utf8_of_point_def)
  next
    case 3
    let ?bs = "[0x80 + p div 0x40 mod 0x40, 0x80 + p mod 0x40]"
    have "utf8_length (0xE0 + p div 0x1000) = Some (Suc (length ?bs))" using 3 by (auto simp: utf8_length_def)
    moreover have "64 * (64 * (p div 0x1000) + p div 0x40 mod 0x40) + p mod 0x40 = p"
      using div_mult2_eq [of p 64 64] by simp
    then have "utf8_point (0xE0 + p div 0x1000) ?bs = Some p" using 3 assms(2) by (auto simp: utf8_point_def Let_def)
    ultimately show ?thesis using decode_sequence [of "0xE0 + p div 0x1000" ?bs p s] 3 m [of p] m [of "p div 64"]
      by (simp add: utf8_of_point_def)
  next
    case 4
    let ?bs = "[0x80 + p div 0x1000 mod 0x40, 0x80 + p div 0x40 mod 0x40, 0x80 + p mod 0x40]"
    have b: "p div 0x40000 < 5" using assms(1) by linarith
    have "utf8_length (0xF0 + p div 0x40000) = Some (Suc (length ?bs))" using 4 b by (auto simp: utf8_length_def)
    moreover have "64 * (64 * (64 * (p div 0x40000) + p div 0x1000 mod 0x40) + p div 0x40 mod 0x40) + p mod 0x40 = p"
    proof -
      have "64 * (p div 0x40000) + p div 0x1000 mod 0x40 = p div 0x1000" using div_mult2_eq [of p "0x1000" 64] by simp
      moreover have "64 * (p div 0x1000) + p div 0x40 mod 0x40 = p div 0x40" using div_mult2_eq [of p 64 64] by simp
      ultimately show ?thesis by simp
    qed
    then have "utf8_point (0xF0 + p div 0x40000) ?bs = Some p" using 4 assms by (auto simp: utf8_point_def Let_def)
    ultimately show ?thesis using decode_sequence [of "0xF0 + p div 0x40000" ?bs p s] 4 b m [of p] m [of "p div 64"] m [of "p div 4096"]
      by (simp add: utf8_of_point_def)
  qed
qed

lemma surrogate_pair:
  assumes "is_high a" "is_low b"
  shows "utf16_units (0x10000 + (unat a - 0xD800) * 0x400 + (unat b - 0xDC00)) = [a, b]"
proof -
  have a: "0xD800 \<le> unat a" "unat a \<le> 0xDBFF" using assms(1) by (auto simp: is_high_def word_le_nat_alt)
  have b: "0xDC00 \<le> unat b" "unat b \<le> 0xDFFF" using assms(2) by (auto simp: is_low_def word_le_nat_alt)
  define q where "q = unat b - 0xDC00"
  have q: "q < 0x400" using b by (simp add: q_def)
  have bq: "unat b = 0xDC00 + q" using b by (simp add: q_def)
  have "0xD800 + ((unat a - 0xD800) * 0x400 + q) div 0x400 = unat a" using a q by simp
  moreover have "0xDC00 + ((unat a - 0xD800) * 0x400 + q) mod 0x400 = unat b" using q unfolding bq by simp
  ultimately show ?thesis by (simp add: utf16_units_def q_def [symmetric] add.commute add.assoc)
qed

lemma code_points_well_formed:
  "well_formed s \<Longrightarrow> concat (map utf16_units (code_points_of s)) = s
     \<and> list_all (\<lambda>p. p < 0x110000 \<and> \<not> (0xD800 \<le> p \<and> p \<le> 0xDFFF)) (code_points_of s)"
proof (induction s rule: code_points_of.induct)
  case (1 a b s)
  have u: "unat a < 0x10000" using unsigned_less [of a, where 'a = nat] by simp
  show ?case
  proof (cases "is_high a \<and> is_low b")
    case True
    have "unat a \<le> 0xDBFF" "unat b \<le> 0xDFFF" using True by (auto simp: is_high_def is_low_def word_le_nat_alt)
    then show ?thesis using 1 True surrogate_pair [of a b] by simp
  next
    case False
    have "\<not> (0xD800 \<le> unat a \<and> unat a \<le> 0xDFFF)" using False 1(3) by (auto simp: is_high_def is_low_def word_le_nat_alt split: if_splits)
    then show ?thesis using 1 False u by (auto simp: utf16_units_def)
  qed
next
  case (2 a)
  have u: "unat a < 0x10000" using unsigned_less [of a, where 'a = nat] by simp
  have "\<not> (0xD800 \<le> unat a \<and> unat a \<le> 0xDFFF)" using 2 by (auto simp: is_high_def is_low_def word_le_nat_alt)
  then show ?case using 2 u by (auto simp: utf16_units_def)
qed simp

lemma decode_encode: "well_formed s \<Longrightarrow> decodeURIComponent (encodeURIComponent s) = Some s"
proof -
  have "decodeURIComponent (concat (map uri_byte (concat (map utf8_of_point ps)))) = Some (concat (map utf16_units ps))"
    if "list_all (\<lambda>p. p < 0x110000 \<and> \<not> (0xD800 \<le> p \<and> p \<le> 0xDFFF)) ps" for ps
    using that
  proof (induction ps)
    case (Cons p ps)
    then show ?case using decode_point [of p "concat (map uri_byte (concat (map utf8_of_point ps)))"] by simp
  qed simp
  then show "well_formed s \<Longrightarrow> decodeURIComponent (encodeURIComponent s) = Some s"
    using code_points_well_formed [of s] by (simp add: encodeURIComponent_def utf8_def)
qed

lemma encode_inject: "well_formed s \<Longrightarrow> well_formed t \<Longrightarrow> encodeURIComponent s = encodeURIComponent t \<longleftrightarrow> s = t"
  using decode_encode by (metis option.inject)

end
