(* ===== verification/AppTabs.thy ===== *)
theory AppTabs
  imports SessionTabs Defaults UriText
begin

text \<open>
  The tabs of a window (\<^verbatim>\<open>src/App.tsx\<close>): those of the sessions, which the workspace keeps,
     and those of the tools, in
  one order; which of them is shown, and what opening, selecting, closing and moving them does.
\<close>

section \<open>The tabs of the tools\<close>

definition settingsTabId :: jsstr where "settingsTabId = js ''portiva-settings''"
definition httpConsoleTabId :: jsstr where "httpConsoleTabId = js ''portiva-http-console''"
definition networkScannerTabId :: jsstr where "networkScannerTabId = js ''portiva-network-scanner''"
definition hostDashboardTabId :: jsstr where "hostDashboardTabId = js ''portiva-host-dashboard''"
definition wslFilesTabPrefix :: jsstr where "wslFilesTabPrefix = js ''portiva-wsl-files:''"

definition inactiveCapabilities :: capabilities where
  "inactiveCapabilities = \<lparr>cap_terminal = False, cap_fileTransfer = False, cap_sftp = False, cap_scp = False, cap_tunnel = False,
     cap_portForwarding = False, cap_ptyResize = False, cap_secureTransport = True, cap_reconnect = False,
     cap_localFileAccess = False, cap_requiresHostKeyVerification = False\<rparr>"

definition tool_tab :: "jsstr \<Rightarrow> tab_kind \<Rightarrow> jsstr \<Rightarrow> jsstr \<Rightarrow> tab" where
  "tool_tab i kind profileId title =
     \<lparr>tab_idField = Some i, tab_kindField = Some kind,
      tab_connection = \<lparr>conn_id = i, conn_profileId = profileId, conn_title = title, conn_status = Ready,
        conn_capabilities = inactiveCapabilities, conn_transport = None\<rparr>,
      tab_fileTransferSession = None, tab_parentConnectionId = None, tab_restored = False, tab_terminal = None,
      tab_additionalTerminals = [], tab_terminalLayout = None, tab_terminalSnapshot = None, tab_terminalTitle = None,
      tab_terminalWorkingDirectory = None\<rparr>"

definition settingsSessionTab :: tab where
  "settingsSessionTab = tool_tab settingsTabId SettingsTab settingsTabId [0x8BBE, 0x7F6E]"

definition httpConsoleSessionTab :: tab where
  "httpConsoleSessionTab = tool_tab httpConsoleTabId HttpConsoleTab httpConsoleTabId (js ''Post'')"

definition networkScannerSessionTab :: tab where
  "networkScannerSessionTab = tool_tab networkScannerTabId NetworkScanTab networkScannerTabId [0x5C40, 0x57DF, 0x7F51, 0x626B, 0x63CF]"

definition hostDashboardSessionTab :: tab where
  "hostDashboardSessionTab = tool_tab hostDashboardTabId HostDashboardTab hostDashboardTabId [0x4E3B, 0x673A, 0x6982, 0x89C8]"

definition wslFilesTabId :: "jsstr \<Rightarrow> jsstr" where
  "wslFilesTabId distribution = wslFilesTabPrefix @ encodeURIComponent distribution"

definition isWslFilesTabId :: "jsstr option \<Rightarrow> bool" where
  "isWslFilesTabId tabId = (case tabId of Some i \<Rightarrow> prefix wslFilesTabPrefix i | None \<Rightarrow> False)"

definition wslFilesDistribution :: "jsstr \<Rightarrow> jsstr" where
  "wslFilesDistribution tabId = safeDecodePath (drop (length wslFilesTabPrefix) tabId)"

definition createWslFilesSessionTab :: "jsstr \<Rightarrow> tab" where
  "createWslFilesSessionTab distribution =
     tool_tab (wslFilesTabId distribution) WslFilesTab (js ''wsl:'' @ distribution) (distribution @ [32, 47, 32, 0x6587, 0x4EF6])"

section \<open>The state of the window\<close>

record app =
  ap_workspace :: workspace
  ap_settingsTabOpen :: bool
  ap_httpConsoleOpen :: bool
  ap_networkScannerOpen :: bool
  ap_savedConnectionsOpen :: bool
  ap_wslFileDistributions :: "jsstr list"
  ap_appTabOrder :: "jsstr list"
  ap_activeShellTabId :: "jsstr option"

definition initial_app :: "workspace \<Rightarrow> app" where
  "initial_app w = \<lparr>ap_workspace = w, ap_settingsTabOpen = False, ap_httpConsoleOpen = False, ap_networkScannerOpen = False,
     ap_savedConnectionsOpen = False, ap_wslFileDistributions = [], ap_appTabOrder = [], ap_activeShellTabId = None\<rparr>"

definition appTabSourceIds :: "app \<Rightarrow> jsstr list" where
  "appTabSourceIds s =
     map tab_id (w_sessionTabs (ap_workspace s))
     @ (if ap_savedConnectionsOpen s then [hostDashboardTabId] else [])
     @ (if ap_httpConsoleOpen s then [httpConsoleTabId] else [])
     @ (if ap_networkScannerOpen s then [networkScannerTabId] else [])
     @ (if ap_settingsTabOpen s then [settingsTabId] else [])
     @ map wslFilesTabId (ap_wslFileDistributions s)"

text \<open>The order follows the tabs there are.\<close>

definition follow_order :: "app \<Rightarrow> app" where
  "follow_order s = s\<lparr>ap_appTabOrder := appendMissingTabIds (ap_appTabOrder s) (appTabSourceIds s)\<rparr>"

definition put_tab :: "tab \<Rightarrow> (jsstr \<rightharpoonup> tab) \<Rightarrow> jsstr \<rightharpoonup> tab" where
  "put_tab t m = m(tab_id t \<mapsto> t)"

definition app_tabs :: "app \<Rightarrow> tab list" where
  "app_tabs s =
     w_sessionTabs (ap_workspace s)
     @ (if ap_savedConnectionsOpen s then [hostDashboardSessionTab] else [])
     @ (if ap_httpConsoleOpen s then [httpConsoleSessionTab] else [])
     @ (if ap_networkScannerOpen s then [networkScannerSessionTab] else [])
     @ (if ap_settingsTabOpen s then [settingsSessionTab] else [])
     @ map createWslFilesSessionTab (ap_wslFileDistributions s)"

definition tabById :: "app \<Rightarrow> jsstr \<rightharpoonup> tab" where
  "tabById s = fold put_tab (app_tabs s) Map.empty"

definition appSessionTabs :: "app \<Rightarrow> tab list" where
  "appSessionTabs s = List.map_filter (tabById s) (appendMissingTabIds (ap_appTabOrder s) (appTabSourceIds s))"

definition activeToolTabId :: "app \<Rightarrow> jsstr option" where
  "activeToolTabId s =
     (let active = ap_activeShellTabId s
      in if active = Some hostDashboardTabId \<and> ap_savedConnectionsOpen s then Some hostDashboardTabId
         else if active = Some settingsTabId \<and> ap_settingsTabOpen s then Some settingsTabId
         else if active = Some httpConsoleTabId \<and> ap_httpConsoleOpen s then Some httpConsoleTabId
         else if active = Some networkScannerTabId \<and> ap_networkScannerOpen s then Some networkScannerTabId
         else if isWslFilesTabId active
             \<and> wslFilesDistribution (case active of Some i \<Rightarrow> i | None \<Rightarrow> []) \<in> set (ap_wslFileDistributions s) then active
         else None)"

definition fallbackAppTabId :: "app \<Rightarrow> jsstr option" where
  "fallbackAppTabId s =
     (if w_activeSessionTabId (ap_workspace s) = [] then
        (if ap_savedConnectionsOpen s then Some hostDashboardTabId
         else if ap_httpConsoleOpen s then Some httpConsoleTabId
         else if ap_networkScannerOpen s then Some networkScannerTabId
         else if ap_settingsTabOpen s then Some settingsTabId
         else (case ap_wslFileDistributions s of d # _ \<Rightarrow> if d \<noteq> [] then Some (wslFilesTabId d) else None | [] \<Rightarrow> None))
      else Some (w_activeSessionTabId (ap_workspace s)))"

definition activeAppTabId :: "app \<Rightarrow> jsstr option" where
  "activeAppTabId s = (case activeToolTabId s of Some i \<Rightarrow> Some i | None \<Rightarrow> fallbackAppTabId s)"

section \<open>Opening\<close>

definition openHostDashboardTab :: "app \<Rightarrow> app" where
  "openHostDashboardTab s = s\<lparr>ap_savedConnectionsOpen := True, ap_activeShellTabId := Some hostDashboardTabId\<rparr>"

definition openSettingsTab :: "app \<Rightarrow> app" where
  "openSettingsTab s = s\<lparr>ap_settingsTabOpen := True, ap_activeShellTabId := Some settingsTabId\<rparr>"

definition openHttpConsoleTab :: "app \<Rightarrow> app" where
  "openHttpConsoleTab s = s\<lparr>ap_httpConsoleOpen := True, ap_activeShellTabId := Some httpConsoleTabId\<rparr>"

definition openNetworkScannerTab :: "app \<Rightarrow> app" where
  "openNetworkScannerTab s = s\<lparr>ap_networkScannerOpen := True, ap_activeShellTabId := Some networkScannerTabId\<rparr>"

definition openWslFilesTab :: "jsstr \<Rightarrow> app \<Rightarrow> app" where
  "openWslFilesTab distribution s =
     s\<lparr>ap_wslFileDistributions := (if distribution \<in> set (ap_wslFileDistributions s) then ap_wslFileDistributions s
         else ap_wslFileDistributions s @ [distribution]),
       ap_activeShellTabId := Some (wslFilesTabId distribution)\<rparr>"

text \<open>A session that is opened shows itself: the tools step back. The workspace opens it on its own.\<close>

definition show_sessions :: "app \<Rightarrow> app" where
  "show_sessions s = s\<lparr>ap_activeShellTabId := None\<rparr>"

datatype TrayQuickAction = HttpAction | LocalTerminalAction | NetworkScanAction | SerialTerminalAction

definition tray_action :: "TrayQuickAction \<Rightarrow> app \<Rightarrow> app" where
  "tray_action a s = (case a of
     LocalTerminalAction \<Rightarrow> show_sessions s | SerialTerminalAction \<Rightarrow> show_sessions s
   | HttpAction \<Rightarrow> openHttpConsoleTab s | NetworkScanAction \<Rightarrow> openNetworkScannerTab s)"

section \<open>Selecting and closing\<close>

definition on_workspace :: "(workspace \<Rightarrow> workspace) \<Rightarrow> app \<Rightarrow> app" where
  "on_workspace f s = s\<lparr>ap_workspace := f (ap_workspace s)\<rparr>"

definition selectAppSessionTab :: "jsstr \<Rightarrow> app \<Rightarrow> app" where
  "selectAppSessionTab tabId s =
     (if tabId = hostDashboardTabId then openHostDashboardTab s
      else if tabId = settingsTabId then openSettingsTab s
      else if tabId = httpConsoleTabId then openHttpConsoleTab s
      else if tabId = networkScannerTabId then openNetworkScannerTab s
      else if isWslFilesTabId (Some tabId) then s\<lparr>ap_activeShellTabId := Some tabId\<rparr>
      else on_workspace (switchSessionTab tabId) (show_sessions s))"

definition leave_tool :: "jsstr \<Rightarrow> app \<Rightarrow> app" where
  "leave_tool tabId s = (if ap_activeShellTabId s = Some tabId then s\<lparr>ap_activeShellTabId := None\<rparr> else s)"

definition closeHostDashboardTab :: "app \<Rightarrow> app" where
  "closeHostDashboardTab s = leave_tool hostDashboardTabId (s\<lparr>ap_savedConnectionsOpen := False\<rparr>)"

definition closeSettingsTab :: "app \<Rightarrow> app" where
  "closeSettingsTab s = leave_tool settingsTabId (s\<lparr>ap_settingsTabOpen := False\<rparr>)"

definition closeHttpConsoleTab :: "app \<Rightarrow> app" where
  "closeHttpConsoleTab s = leave_tool httpConsoleTabId (s\<lparr>ap_httpConsoleOpen := False\<rparr>)"

definition closeNetworkScannerTab :: "app \<Rightarrow> app" where
  "closeNetworkScannerTab s = leave_tool networkScannerTabId (s\<lparr>ap_networkScannerOpen := False\<rparr>)"

definition close_wsl_files :: "jsstr \<Rightarrow> app \<Rightarrow> app" where
  "close_wsl_files tabId s =
     (let distribution = wslFilesDistribution tabId;
          remaining = filter (\<lambda>d. d \<noteq> distribution) (ap_wslFileDistributions s)
      in s\<lparr>ap_wslFileDistributions := remaining,
           ap_activeShellTabId :=
             (if ap_activeShellTabId s \<noteq> Some tabId then ap_activeShellTabId s
              else if w_activeSessionTabId (ap_workspace s) \<noteq> [] then None
              else (case remaining of d # _ \<Rightarrow> if d \<noteq> [] then Some (wslFilesTabId d) else None | [] \<Rightarrow> None))\<rparr>)"

text \<open>The state, and the tab whose connection the workspace is asked to close.\<close>

definition closeAppSessionTab :: "jsstr \<Rightarrow> app \<Rightarrow> app \<times> jsstr option" where
  "closeAppSessionTab tabId s =
     (if tabId = hostDashboardTabId then (closeHostDashboardTab s, None)
      else if tabId = settingsTabId then (closeSettingsTab s, None)
      else if tabId = httpConsoleTabId then (closeHttpConsoleTab s, None)
      else if tabId = networkScannerTabId then (closeNetworkScannerTab s, None)
      else if isWslFilesTabId (Some tabId) then (close_wsl_files tabId s, None)
      else (s, Some tabId))"

text \<open>The shortcut that closes a tab is \<^verbatim>\<open>closeActiveConnection\<close> of the workspace,
   which closes its active connection.\<close>

definition shortcut_closes :: "app \<Rightarrow> jsstr option" where
  "shortcut_closes s = map_option conn_id (w_activeConnection (ap_workspace s))"

definition is_tool :: "jsstr \<Rightarrow> bool" where
  "is_tool tabId \<longleftrightarrow> tabId \<in> {hostDashboardTabId, settingsTabId, httpConsoleTabId,
     networkScannerTabId} \<or> isWslFilesTabId (Some tabId)"

datatype window_request = PostWindow | SessionWindow jsstr

definition openAppSessionWindow :: "jsstr \<Rightarrow> window_request option" where
  "openAppSessionWindow tabId =
     (if tabId = httpConsoleTabId then Some PostWindow else if is_tool tabId then None else Some (SessionWindow tabId))"

definition reconnectAppSessionTab :: "jsstr \<Rightarrow> jsstr option" where
  "reconnectAppSessionTab tabId = (if is_tool tabId then None else Some tabId)"

definition reorderAppSessionTabs :: "jsstr \<Rightarrow> jsstr \<Rightarrow> drop_position \<Rightarrow> app \<Rightarrow> app" where
  "reorderAppSessionTabs sourceTabId targetTabId position s =
     (let s' = s\<lparr>ap_appTabOrder := moveTabId (appendMissingTabIds (ap_appTabOrder s) (appTabSourceIds s)) sourceTabId targetTabId position\<rparr>;
          workspaceTabIds = map tab_id (w_sessionTabs (ap_workspace s))
      in if sourceTabId \<in> set workspaceTabIds \<and> targetTabId \<in> set workspaceTabIds
         then on_workspace (reorderSessionTabs sourceTabId targetTabId position) s' else s')"

section \<open>Steps\<close>

text \<open>
  The workspace changes on its own. Its tabs have ids of their own, none of them that of a tool, and its focus is on
  one of them or on none, which is part of the invariant of \<^verbatim>\<open>TabInvariant\<close>.
\<close>

definition workspace_ok :: "workspace \<Rightarrow> bool" where
  "workspace_ok w \<longleftrightarrow> (w_activeSessionTabId w = [] \<or> w_activeSessionTabId w \<in> tab_id ` set (w_sessionTabs w))
     \<and> distinct (map tab_id (w_sessionTabs w)) \<and> list_all (\<lambda>t. \<not> is_tool (tab_id t)) (w_sessionTabs w)"

inductive app_step :: "app \<Rightarrow> app \<Rightarrow> bool" where
  workspace: "workspace_ok w \<Longrightarrow> app_step s (s\<lparr>ap_workspace := w\<rparr>)"
| ordered: "app_step s (follow_order s)"
| dashboard: "app_step s (openHostDashboardTab s)"
| settings: "app_step s (openSettingsTab s)"
| http: "app_step s (openHttpConsoleTab s)"
| scanner: "app_step s (openNetworkScannerTab s)"
| wsl_files: "well_formed d \<Longrightarrow> d \<noteq> [] \<Longrightarrow> app_step s (openWslFilesTab d s)"
| sessions: "app_step s (show_sessions s)"
| tray: "app_step s (tray_action a s)"
| selected: "i \<in> tab_id ` set (appSessionTabs s) \<Longrightarrow> app_step s (selectAppSessionTab i s)"
| closed: "i \<in> tab_id ` set (appSessionTabs s) \<Longrightarrow> app_step s (fst (closeAppSessionTab i s))"
| moved: "app_step s (reorderAppSessionTabs i j position s)"

section \<open>What is proved\<close>

lemma wsl_files_read_back: "well_formed d \<Longrightarrow> wslFilesDistribution (wslFilesTabId d) = d"
  by (simp add: wslFilesDistribution_def wslFilesTabId_def safeDecodePath_def decode_encode)

lemma wsl_files_is: "isWslFilesTabId (Some (wslFilesTabId d))"
  by (simp add: isWslFilesTabId_def wslFilesTabId_def)

definition app_inv :: "app \<Rightarrow> bool" where
  "app_inv s \<longleftrightarrow> workspace_ok (ap_workspace s) \<and> list_all (\<lambda>d. well_formed d \<and> d \<noteq> []) (ap_wslFileDistributions s)
     \<and> distinct (ap_wslFileDistributions s) \<and> distinct (ap_appTabOrder s)
     \<and> (case ap_activeShellTabId s of
          Some i \<Rightarrow> \<not> isWslFilesTabId (Some i) \<or> (\<exists>d. well_formed d \<and> i = wslFilesTabId d)
        | None \<Rightarrow> True)"

text \<open>Every tab there is is found under its id.\<close>

lemma put_tabs: "fold put_tab ts m i = (case find (\<lambda>t. tab_id t = i) (rev ts) of Some t \<Rightarrow> Some t | None \<Rightarrow> m i)"
  by (induction ts rule: rev_induct) (auto simp: put_tab_def)

lemma tool_tab_id [simp]:
  "tab_id settingsSessionTab = settingsTabId" "tab_id httpConsoleSessionTab = httpConsoleTabId"
  "tab_id networkScannerSessionTab = networkScannerTabId" "tab_id hostDashboardSessionTab = hostDashboardTabId"
  "tab_id (createWslFilesSessionTab d) = wslFilesTabId d"
  by (simp_all add: tab_id_def settingsSessionTab_def httpConsoleSessionTab_def networkScannerSessionTab_def hostDashboardSessionTab_def
      createWslFilesSessionTab_def tool_tab_def)

lemma tabById_Some: "tabById s i = Some t \<Longrightarrow> tab_id t = i"
  by (auto simp: tabById_def put_tabs find_Some_iff split: option.splits)

lemma app_tabs_ids: "map tab_id (app_tabs s) = appTabSourceIds s"
  by (simp add: appTabSourceIds_def app_tabs_def comp_def)

lemma tabById_source: "i \<in> set (appTabSourceIds s) \<Longrightarrow> \<exists>t. tabById s i = Some t"
proof -
  assume "i \<in> set (appTabSourceIds s)"
  then have "\<exists>t \<in> set (rev (app_tabs s)). tab_id t = i" unfolding app_tabs_ids [symmetric] by auto
  then have "find (\<lambda>t. tab_id t = i) (rev (app_tabs s)) \<noteq> None" by (auto simp: find_None_iff)
  then show ?thesis unfolding tabById_def put_tabs by (auto split: option.split)
qed

lemma map_filter_ids:
  "(\<And>i. i \<in> set is \<Longrightarrow> \<exists>t. m i = Some t) \<Longrightarrow> (\<And>i t. m i = Some t \<Longrightarrow> tab_id t = i) \<Longrightarrow> map tab_id (List.map_filter m is) = is"
proof (induction "is")
  case (Cons i is')
  obtain t where "m i = Some t" using Cons.prems(1) by fastforce
  moreover have "map tab_id (List.map_filter m is') = is'" using Cons by simp
  ultimately show ?case using Cons.prems(2) by (simp add: List.map_filter_simps)
qed (simp add: List.map_filter_simps)

lemma shown_ids: "map tab_id (appSessionTabs s) = appendMissingTabIds (ap_appTabOrder s) (appTabSourceIds s)"
  unfolding appSessionTabs_def
proof (rule map_filter_ids)
  show "\<exists>t. tabById s i = Some t" if "i \<in> set (appendMissingTabIds (ap_appTabOrder s) (appTabSourceIds s))" for i
    using that tabById_source by (simp add: set_appendMissing)
qed (rule tabById_Some)

lemma shown_set: "tab_id ` set (appSessionTabs s) = set (appTabSourceIds s)"
  using arg_cong [OF shown_ids [of s], of set] by (simp add: set_appendMissing)

lemma tool_not_wsl:
  "\<not> isWslFilesTabId (Some hostDashboardTabId)" "\<not> isWslFilesTabId (Some settingsTabId)" "\<not> isWslFilesTabId (Some httpConsoleTabId)"
  "\<not> isWslFilesTabId (Some networkScannerTabId)"
  by (simp_all add: isWslFilesTabId_def wslFilesTabPrefix_def hostDashboardTabId_def settingsTabId_def httpConsoleTabId_def networkScannerTabId_def js_def)

lemma switch_ok: "workspace_ok w \<Longrightarrow> workspace_ok (switchSessionTab i w)"
proof -
  assume w: "workspace_ok w"
  show ?thesis
  proof (cases "find_tab i (w_sessionTabs w)")
    case None
    then show ?thesis using w by (simp add: switchSessionTab_def workspace_ok_def)
  next
    case (Some t)
    have f: "w_sessionTabs (activateSessionTab t w) = w_sessionTabs w" "w_activeSessionTabId (activateSessionTab t w) = tab_id t"
      by (simp_all add: activateSessionTab_def clearFileTransferView_def Let_def split: tab_kind.split option.split)
    have "t \<in> set (w_sessionTabs w)" using Some by (auto simp: find_tab_def find_Some_iff)
    then show ?thesis using w f Some by (simp add: switchSessionTab_def workspace_ok_def)
  qed
qed

lemma reorder_ok: "workspace_ok w \<Longrightarrow> workspace_ok (reorderSessionTabs i j position w)"
proof -
  assume w: "workspace_ok w"
  have m: "mset (move_by tab_id (w_sessionTabs w) i j position) = mset (w_sessionTabs w)" by (rule mset_move_by)
  then have "set (move_by tab_id (w_sessionTabs w) i j position) = set (w_sessionTabs w)" by (rule mset_eq_setD)
  moreover have "mset (map tab_id (move_by tab_id (w_sessionTabs w) i j position)) = mset (map tab_id (w_sessionTabs w))" using m by simp
  then have "distinct (map tab_id (move_by tab_id (w_sessionTabs w) i j position)) = distinct (map tab_id (w_sessionTabs w))"
    using mset_eq_imp_distinct_iff by blast
  ultimately show ?thesis using w by (simp add: reorderSessionTabs_def workspace_ok_def list_all_iff)
qed

lemma source_distinct: "app_inv s \<Longrightarrow> distinct (appTabSourceIds s)"
proof -
  assume i: "app_inv s"
  have wsl: "distinct (map wslFilesTabId (ap_wslFileDistributions s))"
  proof -
    have "inj_on wslFilesTabId (set (ap_wslFileDistributions s))"
      using i wsl_files_read_back by (intro inj_onI) (metis app_inv_def list_all_iff)
    then show ?thesis using i by (simp add: distinct_map app_inv_def)
  qed
  have tools: "wslFilesTabId d \<notin> {hostDashboardTabId, settingsTabId, httpConsoleTabId, networkScannerTabId}" for d
    using tool_not_wsl wsl_files_is [of d] by force
  have sessions: "\<not> is_tool (tab_id t)" if "t \<in> set (w_sessionTabs (ap_workspace s))" for t
    using i that by (simp add: app_inv_def workspace_ok_def list_all_iff)
  have four: "distinct [hostDashboardTabId, httpConsoleTabId, networkScannerTabId, settingsTabId]" by code_simp
  let ?tools = "(if ap_savedConnectionsOpen s then [hostDashboardTabId] else []) @ (if ap_httpConsoleOpen s then [httpConsoleTabId] else [])
    @ (if ap_networkScannerOpen s then [networkScannerTabId] else []) @ (if ap_settingsTabOpen s then [settingsTabId] else [])"
  have four': "distinct ?tools" using four by simp
  have tool_set: "set ?tools \<subseteq> {hostDashboardTabId, settingsTabId, httpConsoleTabId, networkScannerTabId}" by auto
  have "set ?tools \<inter> set (map wslFilesTabId (ap_wslFileDistributions s)) = {}" using tool_set tools by fastforce
  then have rest: "distinct (?tools @ map wslFilesTabId (ap_wslFileDistributions s))" using four' wsl by (simp only: distinct_append)
  have "is_tool i" if "i \<in> set (?tools @ map wslFilesTabId (ap_wslFileDistributions s))" for i
  proof -
    have "i \<in> set ?tools \<or> i \<in> wslFilesTabId ` set (ap_wslFileDistributions s)" using that by (simp only: set_append set_map Un_iff)
    then show ?thesis
    proof
      assume "i \<in> set ?tools"
      then have "i \<in> {hostDashboardTabId, settingsTabId, httpConsoleTabId, networkScannerTabId}" using tool_set by blast
      then show ?thesis unfolding is_tool_def by blast
    next
      assume "i \<in> wslFilesTabId ` set (ap_wslFileDistributions s)"
      then show ?thesis using wsl_files_is unfolding is_tool_def by blast
    qed
  qed
  then have apart: "set (map tab_id (w_sessionTabs (ap_workspace s))) \<inter> set (?tools @ map wslFilesTabId (ap_wslFileDistributions s)) = {}"
    using sessions unfolding set_map by blast
  have d: "distinct (map tab_id (w_sessionTabs (ap_workspace s)))" using i by (simp add: app_inv_def workspace_ok_def)
  have e: "appTabSourceIds s = map tab_id (w_sessionTabs (ap_workspace s)) @ (?tools @ map wslFilesTabId (ap_wslFileDistributions s))"
    by (simp only: appTabSourceIds_def append_assoc)
  show ?thesis unfolding e distinct_append [of "map tab_id (w_sessionTabs (ap_workspace s))"] using d rest apart by blast
qed

lemma wsl_source: "app_inv s \<Longrightarrow> i \<in> set (appTabSourceIds s) \<Longrightarrow> isWslFilesTabId (Some i) \<Longrightarrow> \<exists>d \<in> set (ap_wslFileDistributions s). i = wslFilesTabId d"
  using tool_not_wsl by (auto simp: appTabSourceIds_def app_inv_def workspace_ok_def list_all_iff is_tool_def split: if_splits)

lemma on_workspace_inv: "app_inv s \<Longrightarrow> workspace_ok (f (ap_workspace s)) \<Longrightarrow> app_inv (on_workspace f s)"
  by (simp add: app_inv_def on_workspace_def)

lemma leave_tool_inv: "app_inv s \<Longrightarrow> app_inv (leave_tool i s)"
  by (simp add: app_inv_def leave_tool_def)

lemma open_inv:
  "app_inv s \<Longrightarrow> app_inv (openHostDashboardTab s)" "app_inv s \<Longrightarrow> app_inv (openSettingsTab s)" "app_inv s \<Longrightarrow> app_inv (openHttpConsoleTab s)"
  "app_inv s \<Longrightarrow> app_inv (openNetworkScannerTab s)" "app_inv s \<Longrightarrow> app_inv (show_sessions s)"
  using tool_not_wsl
  by (simp_all add: app_inv_def openHostDashboardTab_def openSettingsTab_def openHttpConsoleTab_def openNetworkScannerTab_def show_sessions_def)

lemma close_inv:
  "app_inv s \<Longrightarrow> app_inv (closeHostDashboardTab s)" "app_inv s \<Longrightarrow> app_inv (closeSettingsTab s)" "app_inv s \<Longrightarrow> app_inv (closeHttpConsoleTab s)"
  "app_inv s \<Longrightarrow> app_inv (closeNetworkScannerTab s)"
  unfolding closeHostDashboardTab_def closeSettingsTab_def closeHttpConsoleTab_def closeNetworkScannerTab_def
  by (rule leave_tool_inv; simp add: app_inv_def)+

lemma close_wsl_inv: "app_inv s \<Longrightarrow> app_inv (close_wsl_files i s)"
proof -
  assume i: "app_inv s"
  have "\<exists>d. well_formed d \<and> wslFilesTabId d' = wslFilesTabId d" if "d' # r = filter (\<lambda>d. d \<noteq> x) (ap_wslFileDistributions s)" for d' r x
  proof -
    have "d' \<in> set (filter (\<lambda>d. d \<noteq> x) (ap_wslFileDistributions s))" unfolding that [symmetric] by simp
    then show ?thesis using i by (auto simp: app_inv_def list_all_iff)
  qed
  then have first: "\<exists>d. well_formed d \<and> wslFilesTabId d' = wslFilesTabId d"
    if "filter (\<lambda>d. d \<noteq> x) (ap_wslFileDistributions s) = d' # r" for d' r x using that by metis
  show ?thesis using i
    by (auto simp: app_inv_def close_wsl_files_def Let_def list_all_iff split: list.split option.split dest!: first)
qed

lemma app_step_inv: "app_step s s' \<Longrightarrow> app_inv s \<Longrightarrow> app_inv s'"
proof (induction rule: app_step.induct)
  case (ordered s)
  then show ?case using source_distinct [of s] by (simp add: app_inv_def follow_order_def distinct_appendMissing)
next
  case (wsl_files d s)
  then show ?case by (auto simp: app_inv_def openWslFilesTab_def)
next
  case (tray s a)
  then show ?case by (cases a) (simp_all add: tray_action_def open_inv)
next
  case (selected i s)
  have "\<exists>d. well_formed d \<and> i = wslFilesTabId d" if "isWslFilesTabId (Some i)"
    using wsl_source [of s i] selected that by (auto simp: shown_set app_inv_def list_all_iff)
  then have "app_inv (s\<lparr>ap_activeShellTabId := Some i\<rparr>)" if "isWslFilesTabId (Some i)"
    using that selected(2) by (simp add: app_inv_def)
  moreover have "app_inv (on_workspace (switchSessionTab i) (show_sessions s))"
    using selected(2) open_inv(5) by (intro on_workspace_inv) (simp_all add: app_inv_def show_sessions_def switch_ok)
  ultimately show ?case using selected(2) by (simp add: selectAppSessionTab_def open_inv)
next
  case (closed i s)
  then show ?case by (simp add: closeAppSessionTab_def close_inv close_wsl_inv)
next
  case (moved s i j position)
  have "mset (moveTabId (appendMissingTabIds (ap_appTabOrder s) (appTabSourceIds s)) i j position) = mset (appendMissingTabIds (ap_appTabOrder s) (appTabSourceIds s))"
    by (rule mset_moveTabId)
  then have "distinct (moveTabId (appendMissingTabIds (ap_appTabOrder s) (appTabSourceIds s)) i j position)"
    using source_distinct [OF moved] moved distinct_appendMissing mset_eq_imp_distinct_iff by (metis app_inv_def)
  then have "app_inv (s\<lparr>ap_appTabOrder := moveTabId (appendMissingTabIds (ap_appTabOrder s) (appTabSourceIds s)) i j position\<rparr>)"
    using moved by (simp add: app_inv_def)
  moreover from this have "app_inv (on_workspace (reorderSessionTabs i j position) (s\<lparr>ap_appTabOrder := moveTabId (appendMissingTabIds (ap_appTabOrder s) (appTabSourceIds s)) i j position\<rparr>))"
    by (rule on_workspace_inv) (use moved in \<open>simp add: app_inv_def reorder_ok\<close>)
  ultimately show ?case by (simp add: reorderAppSessionTabs_def Let_def)
qed (simp_all add: open_inv, simp add: app_inv_def)

lemma active_in_source:
  assumes "app_inv s" "activeAppTabId s = Some i"
  shows "i \<in> set (appTabSourceIds s)"
proof (cases "activeToolTabId s")
  case None
  then have f: "fallbackAppTabId s = Some i" using assms(2) by (simp add: activeAppTabId_def)
  show ?thesis
  proof (cases "w_activeSessionTabId (ap_workspace s) = []")
    case True
    then show ?thesis using f by (auto simp: fallbackAppTabId_def appTabSourceIds_def split: if_splits list.splits)
  next
    case False
    then show ?thesis using f assms(1) by (auto simp: fallbackAppTabId_def appTabSourceIds_def app_inv_def workspace_ok_def)
  qed
next
  case (Some j)
  then have j: "j = i" using assms(2) by (simp add: activeAppTabId_def)
  show ?thesis
  proof (cases "isWslFilesTabId (Some i)")
    case True
    then have a: "ap_activeShellTabId s = Some i" "wslFilesDistribution i \<in> set (ap_wslFileDistributions s)"
      using Some tool_not_wsl unfolding j by (auto simp: activeToolTabId_def Let_def split: if_splits)
    then obtain d where "well_formed d" "i = wslFilesTabId d" using assms(1) True by (auto simp: app_inv_def)
    then show ?thesis using a(2) wsl_files_read_back by (auto simp: appTabSourceIds_def)
  next
    case False
    then show ?thesis using Some unfolding j by (auto simp: activeToolTabId_def Let_def appTabSourceIds_def split: if_splits)
  qed
qed

text \<open>
  The bar shows every tab of a session and of an open tool exactly once, in an order that is kept, and the
  tab in front is always one of them: whatever is opened, selected, closed and moved and however the sessions change.
  There is no tab in front only when no tool is open and no session has the focus.
\<close>

lemma active_tab_is_shown:
  assumes "app_step\<^sup>*\<^sup>* (initial_app w) s" and "workspace_ok w"
  shows "distinct (map tab_id (appSessionTabs s)) \<and> tab_id ` set (appSessionTabs s) = set (appTabSourceIds s)
    \<and> (case activeAppTabId s of
         Some i \<Rightarrow> i \<in> tab_id ` set (appSessionTabs s)
       | None \<Rightarrow> w_activeSessionTabId (ap_workspace s) = [] \<and> appTabSourceIds s = map tab_id (w_sessionTabs (ap_workspace s)))"
proof -
  have i: "app_inv s" using assms(1)
  proof (induction rule: rtranclp_induct)
    case base
    show ?case using assms(2) by (simp add: app_inv_def initial_app_def)
  qed (rule app_step_inv)
  have "distinct (map tab_id (appSessionTabs s))"
    unfolding shown_ids using i source_distinct [OF i] by (intro distinct_appendMissing) (simp_all add: app_inv_def)
  moreover have "w_activeSessionTabId (ap_workspace s) = [] \<and> appTabSourceIds s = map tab_id (w_sessionTabs (ap_workspace s))" if "activeAppTabId s = None"
    using that i by (auto simp: activeAppTabId_def fallbackAppTabId_def appTabSourceIds_def app_inv_def list_all_iff split: option.splits if_splits list.splits)
  ultimately show ?thesis using active_in_source [OF i] by (auto simp: shown_set split: option.split)
qed

lemma active_tab_is_shown_example:
  "tab_id ` set (appSessionTabs (openSettingsTab (initial_app initial_workspace))) = {settingsTabId}
    \<and> activeAppTabId (openSettingsTab (initial_app initial_workspace)) = Some settingsTabId"
proof -
  let ?s = "openSettingsTab (initial_app initial_workspace)"
  have w: "workspace_ok initial_workspace" by (simp add: workspace_ok_def initial_workspace_def)
  have r: "app_step\<^sup>*\<^sup>* (initial_app initial_workspace) ?s" by (rule r_into_rtranclp [of app_step, OF app_step.settings])
  have "appTabSourceIds ?s = [settingsTabId]" by (simp add: appTabSourceIds_def openSettingsTab_def initial_app_def initial_workspace_def)
  moreover have "activeAppTabId ?s = Some settingsTabId"
    by (simp add: activeAppTabId_def activeToolTabId_def openSettingsTab_def initial_app_def Let_def settingsTabId_def hostDashboardTabId_def js_inject)
  ultimately show ?thesis using active_tab_is_shown [OF r w] by simp
qed

text \<open>The shortcut that closes a tab closes the session under a tool that is in front.\<close>

lemma shortcut_closes_hidden_session:
  "w_activeConnection w = Some c \<Longrightarrow>
     activeAppTabId (openSettingsTab (initial_app w)) = Some settingsTabId \<and> shortcut_closes (openSettingsTab (initial_app w)) = Some (conn_id c)"
  by (simp add: activeAppTabId_def activeToolTabId_def openSettingsTab_def initial_app_def shortcut_closes_def
      Let_def settingsTabId_def hostDashboardTabId_def js_inject)

end
