(* ===== verification/AppWindows.thy ===== *)
theory AppWindows
  imports Reconnect Labels UriText
begin

text \<open>
  Windows of their own for tabs (\<^verbatim>\<open>src/App.tsx\<close>): the tab as the parameters of the address of its window, and the
  hand-over of a tab from one window to another. And the connections that are opened from the lists: one
  attempt for a profile at a time, keys of hosts that have to be trusted first, and the questions for passwords.
\<close>

section \<open>A tab as the parameters of an address\<close>

definition kind_text :: "tab_kind \<Rightarrow> jsstr" where
  "kind_text k = (if k = FileTransferTab then js ''file-transfer'' else js ''terminal'')"

definition optional_param :: "string \<Rightarrow> jsstr option \<Rightarrow> (jsstr \<times> jsstr) list" where
  "optional_param name v = (case v of Some x \<Rightarrow> if x \<noteq> [] then [(js name, x)] else [] | None \<Rightarrow> [])"

text \<open>\<open>print_layout\<close> is \<^verbatim>\<open>JSON.stringify\<close>, \<open>read_layout\<close> is \<^verbatim>\<open>JSON.parse\<close> with the check \<^verbatim>\<open>isTerminalSplitLayout\<close>.\<close>

definition createDetachedSessionUrl :: "(layout \<Rightarrow> jsstr) \<Rightarrow> detached_target \<Rightarrow> (jsstr \<times> jsstr) list" where
  "createDetachedSessionUrl print_layout target =
     [(js ''connectionId'', dt_connectionId target), (js ''detachedSession'', dt_tabId target),
      (js ''tabKind'', kind_text (case dt_kind target of Some k \<Rightarrow> k | None \<Rightarrow> TerminalTab))]
     @ optional_param ''terminalId'' (dt_terminalId target)
     @ map (\<lambda>i. (js ''additionalTerminalId'', i)) (dt_additionalTerminalIds target)
     @ (case dt_terminalLayout target of Some l \<Rightarrow> [(js ''terminalLayout'', print_layout l)] | None \<Rightarrow> [])
     @ optional_param ''fileTransferSessionId'' (dt_fileTransferSessionId target)
     @ optional_param ''parentConnectionId'' (dt_parentConnectionId target)
     @ optional_param ''remotePath'' (dt_remotePath target)"

definition param :: "string \<Rightarrow> (jsstr \<times> jsstr) list \<Rightarrow> jsstr option" where
  "param name ps = map_of ps (js name)"

definition params_all :: "string \<Rightarrow> (jsstr \<times> jsstr) list \<Rightarrow> jsstr list" where
  "params_all name ps = map snd (filter (\<lambda>(k, v). k = js name) ps)"

definition detachedTarget :: "(jsstr \<Rightarrow> layout option) \<Rightarrow> (jsstr \<times> jsstr) list \<Rightarrow> detached_target option" where
  "detachedTarget read_layout ps =
     (let session = param ''fileTransferSessionId'' ps
      in case param ''detachedSession'' ps of
           None \<Rightarrow> None
         | Some tabId \<Rightarrow>
             if tabId = [] then None
             else Some \<lparr>dt_connectionId = (case param ''connectionId'' ps of Some c \<Rightarrow> c | None \<Rightarrow> tabId),
                dt_fileTransferSessionId = session,
                dt_kind = Some (if param ''tabKind'' ps = Some (js ''file-transfer'') \<or> truthy session \<noteq> None then FileTransferTab else TerminalTab),
                dt_parentConnectionId = param ''parentConnectionId'' ps, dt_remotePath = param ''remotePath'' ps, dt_tabId = tabId,
                dt_additionalTerminalIds = take 3 (params_all ''additionalTerminalId'' ps),
                dt_terminalLayout = Option.bind (truthy (param ''terminalLayout'' ps)) read_layout,
                dt_terminalId = param ''terminalId'' ps\<rparr>)"

text \<open>The tab of a window as such a target; \<open>Inl\<close> is the message when it has none.\<close>

definition backend_connection :: "tab \<Rightarrow> jsstr" where
  "backend_connection tab =
     (if tab_kind_of tab = FileTransferTab then
        (case tab_parentConnectionId tab of
           Some p \<Rightarrow> p
         | None \<Rightarrow> (case tab_fileTransferSession tab of Some f \<Rightarrow> fts_connectionId f | None \<Rightarrow> conn_id (tab_connection tab)))
      else conn_id (tab_connection tab))"

definition createDetachedSessionTarget :: "jsstr \<Rightarrow> workspace \<Rightarrow> jsstr + detached_target" where
  "createDetachedSessionTarget tabId w =
     (case find_tab tabId (w_sessionTabs w) of
        None \<Rightarrow> Inl []
      | Some tab \<Rightarrow>
          (let kind = tab_kind_of tab
           in if kind \<noteq> TerminalTab \<and> kind \<noteq> FileTransferTab then Inl [0x5F53, 0x524D, 0x5DE5, 0x5177, 0x6807, 0x7B7E,
              0x4E0D, 0x652F, 0x6301, 0x5355, 0x72EC, 0x7A97, 0x53E3, 0x3002]
              else if kind = TerminalTab \<and> tab_terminal tab = None then Inl [0x5F53, 0x524D, 0x6807, 0x7B7E, 0x8FD8, 0x6CA1, 0x6709,
                 0x53EF, 0x5206, 0x79BB, 0x7684, 0x7EC8, 0x7AEF, 0x4F1A, 0x8BDD, 0x3002]
              else if kind = FileTransferTab \<and> tab_fileTransferSession tab = None then Inl ([0x5F53, 0x524D, 0x6587, 0x4EF6, 0x7BA1,
                 0x7406, 0x6807, 0x7B7E, 0x8FD8, 0x6CA1, 0x6709, 0x53EF, 0x5206, 0x79BB, 0x7684] @ js '' SFTP '' @ [0x4F1A, 0x8BDD, 0x3002])
              else Inr \<lparr>dt_connectionId = backend_connection tab, dt_fileTransferSessionId = map_option fts_id (tab_fileTransferSession tab),
                dt_kind = Some kind, dt_parentConnectionId = truthy (tab_parentConnectionId tab),
                dt_remotePath = (if kind = FileTransferTab then
                    Some (if w_activeSessionTabId w = tabId then w_remotePath w else js ''/'') else None),
                dt_tabId = tabId, dt_additionalTerminalIds = map pane_id (tab_additionalTerminals tab),
                dt_terminalLayout = tab_terminalLayout tab, dt_terminalId = map_option term_id (tab_terminal tab)\<rparr>))"

text \<open>The target a window is asked to take over: the path is that of the active tab when this one shows files.\<close>

definition moved_target :: "workspace \<Rightarrow> detached_target \<Rightarrow> detached_target" where
  "moved_target w target =
     (if map_option tab_kind_of (activeSessionTab w) = Some FileTransferTab then target\<lparr>dt_remotePath := Some (w_remotePath w)\<rparr> else target)"

definition detached_label :: "detached_target \<Rightarrow> jsstr" where
  "detached_label target =
     js ''portiva-tab-'' @ map (\<lambda>c. if (48 \<le> c \<and> c \<le> 57) \<or> (65 \<le> c \<and> c \<le> 90) \<or> (97 \<le> c \<and> c \<le> 122) \<or> c = 95 \<or> c = 45 then c else 45)
       (case dt_terminalId target of Some i \<Rightarrow> i
        | None \<Rightarrow> (case dt_fileTransferSessionId target of Some i \<Rightarrow> i | None \<Rightarrow> dt_tabId target))"

definition isSessionWindowLabel :: "jsstr \<Rightarrow> bool" where
  "isSessionWindowLabel label \<longleftrightarrow> label = js ''main'' \<or> prefix (js ''portiva-tab-'') label \<or> prefix (js ''portiva-terminal-'') label"

text \<open>The window under the pointer, of those that can take a tab; without one the main window, or none for the main window itself.\<close>

record window_bounds =
  wb_label :: jsstr
  wb_x :: int
  wb_y :: int
  wb_width :: int
  wb_height :: int

definition merge_target :: "jsstr \<Rightarrow> (int \<times> int) option \<Rightarrow> window_bounds list \<Rightarrow> jsstr option" where
  "merge_target sourceWindowLabel position windows =
     (let candidates = filter (\<lambda>w. wb_label w \<noteq> sourceWindowLabel \<and> isSessionWindowLabel (wb_label w)) windows;
          hit = (case position of
             None \<Rightarrow> None
           | Some (x, y) \<Rightarrow> find (\<lambda>w. wb_x w \<le> x \<and> x \<le> wb_x w + wb_width w \<and> wb_y w \<le> y \<and> y \<le> wb_y w + wb_height w) candidates)
      in case hit of
           Some w \<Rightarrow> Some (wb_label w)
         | None \<Rightarrow> if sourceWindowLabel = js ''main'' then None else Some (js ''main''))"

subsection \<open>The address is read back\<close>

definition not_empty :: "jsstr option \<Rightarrow> bool" where "not_empty v \<longleftrightarrow> v \<noteq> Some []"

lemma map_of_map_none: "map_of (map (\<lambda>i. (k, i)) xs) j = (if j = k \<and> xs \<noteq> [] then Some (hd xs) else None)"
  by (induction xs) auto

lemma optional_param_map: "optional_param name v = (case truthy v of Some x \<Rightarrow> [(js name, x)] | None \<Rightarrow> [])"
  by (simp add: optional_param_def truthy_def split: option.split)

text \<open>
  The window opened for a tab shows this tab: the parameters of its address are read back as the target they
  were made from, with its kind, its terminals in order, its layout and its directory.
\<close>

lemma detached_target_read_back:
  assumes "dt_tabId t \<noteq> []" and "dt_kind t = Some k" and "k = FileTransferTab \<or> k = TerminalTab \<and> dt_fileTransferSessionId t = None"
    and "length (dt_additionalTerminalIds t) \<le> 3"
    and "list_all not_empty [dt_terminalId t, dt_fileTransferSessionId t, dt_parentConnectionId t, dt_remotePath t]"
    and "\<And>l. dt_terminalLayout t = Some l \<Longrightarrow> print_layout l \<noteq> [] \<and> read_layout (print_layout l) = Some l"
  shows "detachedTarget read_layout (createDetachedSessionUrl print_layout t) = Some t"
proof -
  let ?ps = "createDetachedSessionUrl print_layout t"
  have v: "truthy (dt_terminalId t) = dt_terminalId t" "truthy (dt_fileTransferSessionId t) = dt_fileTransferSessionId t"
    "truthy (dt_parentConnectionId t) = dt_parentConnectionId t" "truthy (dt_remotePath t) = dt_remotePath t"
    using assms(5) by (simp_all add: truthy_def not_empty_def split: option.split)
  note url = createDetachedSessionUrl_def optional_param_map v
  have layout: "Option.bind (truthy (param ''terminalLayout'' ?ps)) read_layout = dt_terminalLayout t"
    using assms(6) by (cases "dt_terminalLayout t")
      (auto simp: url param_def js_inject map_of_map_none truthy_def map_add_def split: option.split)
  have others: "param ''connectionId'' ?ps = Some (dt_connectionId t)" "param ''detachedSession'' ?ps = Some (dt_tabId t)"
    "param ''tabKind'' ?ps = Some (kind_text k)" "param ''terminalId'' ?ps = dt_terminalId t"
    "param ''fileTransferSessionId'' ?ps = dt_fileTransferSessionId t" "param ''parentConnectionId'' ?ps = dt_parentConnectionId t"
    "param ''remotePath'' ?ps = dt_remotePath t"
    using assms(2) by (auto simp: url param_def js_inject map_of_map_none map_add_def split: option.split)
  have ids: "params_all ''additionalTerminalId'' ?ps = dt_additionalTerminalIds t"
    by (auto simp: url params_all_def js_inject comp_def split: option.split)
  have kind: "(if kind_text k = js ''file-transfer'' \<or> dt_fileTransferSessionId t \<noteq> None then FileTransferTab else TerminalTab) = k"
    using assms(3) by (auto simp: kind_text_def js_inject)
  show ?thesis using assms(1,2,4) kind v(2) by (simp add: detachedTarget_def Let_def others layout ids)
qed

lemma detached_target_read_back_example:
  "detachedTarget (\<lambda>_. Some (Leaf (js ''term-1'')))
      (createDetachedSessionUrl (\<lambda>_. js ''layout'')
         \<lparr>dt_connectionId = js ''conn-1'', dt_fileTransferSessionId = None, dt_kind = Some TerminalTab, dt_parentConnectionId = None,
          dt_remotePath = None, dt_tabId = js ''tab-1'', dt_additionalTerminalIds = [js ''term-2''],
          dt_terminalLayout = Some (Leaf (js ''term-1'')), dt_terminalId = Some (js ''term-1'')\<rparr>)
    = Some \<lparr>dt_connectionId = js ''conn-1'', dt_fileTransferSessionId = None, dt_kind = Some TerminalTab, dt_parentConnectionId = None,
          dt_remotePath = None, dt_tabId = js ''tab-1'', dt_additionalTerminalIds = [js ''term-2''],
          dt_terminalLayout = Some (Leaf (js ''term-1'')), dt_terminalId = Some (js ''term-1'')\<rparr>"
  by (rule detached_target_read_back [where k = TerminalTab]) (simp_all add: not_empty_def js_def)

section \<open>The hand-over of a tab\<close>

text \<open>
  A window that hands its tab over waits for the answer of the other one, at most five seconds
  (\<^verbatim>\<open>moveDetachedSessionToWindow\<close>); the other one takes the session over and answers (the listener of
  \<^verbatim>\<open>detachedReattachRequestEvent\<close>). An answer may fail to be sent, after the session was taken over as well,
     and then
  the other window answers that it has failed.
\<close>

datatype handover_phase = Asking | Waiting | Moved | Refused | TimedOut

record handover =
  ho_source :: bool
  ho_target :: bool
  ho_phase :: handover_phase
  ho_requests :: nat
  ho_answers :: "bool list"

definition initial_handover :: handover where
  "initial_handover = \<lparr>ho_source = True, ho_target = False, ho_phase = Asking, ho_requests = 0, ho_answers = []\<rparr>"

definition request_sent :: "handover \<Rightarrow> handover" where
  "request_sent s = (if ho_phase s = Asking then s\<lparr>ho_phase := Waiting, ho_requests := ho_requests s + 1\<rparr> else s)"

text \<open>The request could not be sent.\<close>

definition request_failed :: "handover \<Rightarrow> handover" where
  "request_failed s = (if ho_phase s = Asking then s\<lparr>ho_phase := Refused\<rparr> else s)"

text \<open>The other window has the request: the session was taken over or not, and the answer was sent or not.\<close>

definition request_served :: "bool \<Rightarrow> bool \<Rightarrow> handover \<Rightarrow> handover" where
  "request_served attached answer_sent s =
     (if ho_requests s = 0 then s
      else s\<lparr>ho_requests := ho_requests s - 1, ho_target := ho_target s \<or> attached,
             ho_answers := ho_answers s @ [attached \<and> answer_sent]\<rparr>)"

definition answer_lost :: "handover \<Rightarrow> handover" where
  "answer_lost s = s\<lparr>ho_answers := drop 1 (ho_answers s)\<rparr>"

definition answer_received :: "handover \<Rightarrow> handover" where
  "answer_received s =
     (case ho_answers s of
        [] \<Rightarrow> s
      | ok # answers \<Rightarrow>
          (let s = s\<lparr>ho_answers := answers\<rparr>
           in if ho_phase s \<noteq> Waiting then s
              else if ok then s\<lparr>ho_phase := Moved, ho_source := False\<rparr> else s\<lparr>ho_phase := Refused\<rparr>))"

definition time_out :: "handover \<Rightarrow> handover" where
  "time_out s = (if ho_phase s = Waiting then s\<lparr>ho_phase := TimedOut\<rparr> else s)"

inductive handover_step :: "handover \<Rightarrow> handover \<Rightarrow> bool" where
  asked: "handover_step s (request_sent s)"
| not_asked: "handover_step s (request_failed s)"
| served: "handover_step s (request_served attached answer_sent s)"
| lost: "handover_step s (answer_lost s)"
| answered: "handover_step s (answer_received s)"
| late: "handover_step s (time_out s)"

text \<open>
  The tab that is handed over is never lost: this window gives it up only when the other one has taken the session
  over and has said so; whatever is refused, lost or late, one of the two windows shows the tab.
\<close>

lemma handover_keeps_tab:
  assumes "handover_step\<^sup>*\<^sup>* initial_handover s"
  shows "(ho_source s \<or> ho_target s) \<and> (ho_source s = (ho_phase s \<noteq> Moved))"
proof -
  have "(ho_source s = (ho_phase s \<noteq> Moved)) \<and> (ho_phase s = Moved \<longrightarrow> ho_target s) \<and> (True \<in> set (ho_answers s) \<longrightarrow> ho_target s)" using assms
  proof (induction rule: rtranclp_induct)
    case base
    show ?case by (simp add: initial_handover_def)
  next
    case (step s s')
    from step.hyps(2) step.IH show ?case
      by (induction rule: handover_step.induct)
        (auto simp: request_sent_def request_failed_def request_served_def answer_lost_def answer_received_def time_out_def Let_def
          dest: in_set_dropD split: list.split)
  qed
  then show ?thesis by auto
qed

lemma handover_keeps_tab_example:
  "ho_target (answer_received (request_served True True (request_sent initial_handover)))"
proof -
  let ?s = "answer_received (request_served True True (request_sent initial_handover))"
  have "handover_step\<^sup>*\<^sup>* initial_handover ?s"
    by (rule rtranclp.rtrancl_into_rtrancl, rule rtranclp.rtrancl_into_rtrancl,
        rule r_into_rtranclp [of handover_step, OF handover_step.asked], rule handover_step.served, rule handover_step.answered)
  moreover have "\<not> ho_source ?s" by code_simp
  ultimately show ?thesis using handover_keeps_tab [of ?s] by blast
qed

text \<open>
  But both windows show it when the answer comes after the five seconds: the session belongs to two tabs then, and
  closing one of them closes the connection of the other.
\<close>

lemma late_answer_shows_twice:
  "\<exists>s. handover_step\<^sup>*\<^sup>* initial_handover s \<and> ho_source s \<and> ho_target s \<and> ho_answers s = [] \<and> ho_requests s = 0"
proof -
  let ?s = "answer_received (request_served True True (time_out (request_sent initial_handover)))"
  have r: "handover_step\<^sup>*\<^sup>* initial_handover ?s"
    by (rule rtranclp.rtrancl_into_rtrancl, rule rtranclp.rtrancl_into_rtrancl, rule rtranclp.rtrancl_into_rtrancl,
        rule r_into_rtranclp [of handover_step, OF handover_step.asked], rule handover_step.late, rule handover_step.served,
        rule handover_step.answered)
  have "ho_source ?s \<and> ho_target ?s \<and> ho_answers ?s = [] \<and> ho_requests ?s = 0" by code_simp
  then show ?thesis using r by blast
qed

text \<open>A file tab in the background arrives with the directory of the active one.\<close>

lemma background_tab_moves_to_other_directory:
  "activeSessionTab w = Some a \<Longrightarrow> tab_kind_of a = FileTransferTab \<Longrightarrow> dt_remotePath (moved_target w t) = Some (w_remotePath w)"
  by (simp add: moved_target_def)

section \<open>Connections from the lists\<close>

text \<open>Profiles with a password that is not stored are asked for it before they are opened.\<close>

definition password_missing :: "profile \<Rightarrow> secret list \<Rightarrow> bool" where
  "password_missing p secrets \<longleftrightarrow>
     (case p of
        SshProfile q \<Rightarrow> ssh_authType q = AuthPassword \<and> \<not> hasRememberedPassword secrets (profile_id p)
      | SftpProfile q \<Rightarrow> sftp_authType q = AuthPassword \<and> \<not> hasRememberedPassword secrets (profile_id p)
      | _ \<Rightarrow> False)"

text \<open>The same host as a terminal or as files: the profile of the other type.\<close>

datatype connect_target = ToTerminal | ToFiles

definition profile_for :: "connect_target \<Rightarrow> profile \<Rightarrow> profile" where
  "profile_for target p =
     (case (target, p) of
        (ToFiles, SshProfile q) \<Rightarrow> SftpProfile \<lparr>prof_id = prof_id q, prof_name = prof_name q,
           prof_groupId = prof_groupId q,
          prof_tags = prof_tags q, prof_createdAt = prof_createdAt q, prof_updatedAt = prof_updatedAt q, sftp_host = ssh_host q,
          sftp_port = ssh_port q, sftp_username = ssh_username q, sftp_authType = ssh_authType q,
          sftp_privateKeyPath = ssh_privateKeyPath q, sftp_enableCompression = ssh_enableCompression q,
             sftp_proxyJump = ssh_proxyJump q\<rparr>
      | (ToTerminal, SftpProfile q) \<Rightarrow> SshProfile \<lparr>prof_id = prof_id q, prof_name = prof_name q,
         prof_groupId = prof_groupId q,
          prof_tags = prof_tags q, prof_createdAt = prof_createdAt q, prof_updatedAt = prof_updatedAt q, ssh_host = sftp_host q,
          ssh_port = sftp_port q, ssh_username = sftp_username q, ssh_authType = sftp_authType q,
          ssh_privateKeyPath = sftp_privateKeyPath q, ssh_enableAgentForwarding = None,
          ssh_enableCompression = sftp_enableCompression q, ssh_proxyJump = sftp_proxyJump q\<rparr>
      | _ \<Rightarrow> p)"

record HostTrustRequest =
  ht_connectAfterTrust :: bool
  ht_authenticate :: "bool option"
  ht_profile :: profile
  ht_reconnectTabId :: "jsstr option"

text \<open>What the window asks the workspace for; \<open>la_attempts\<close> are the attempts that have not been answered.\<close>

datatype launch_call =
    OpenConnection profile "bool option"
  | ReconnectTab jsstr
  | TrustHost profile

record launcher =
  la_connecting :: "jsstr list"
  la_attempts :: "(profile \<times> profile) list"
  la_profileDialog :: "(bool \<times> profile) option"
  la_trustRequest :: "HostTrustRequest option"
  la_trustBusy :: bool
  la_reconnectTabId :: "jsstr option"
  la_sessionsShown :: bool
  la_calls :: "launch_call list"

definition initial_launcher :: launcher where
  "initial_launcher = \<lparr>la_connecting = [], la_attempts = [], la_profileDialog = None, la_trustRequest = None, la_trustBusy = False,
     la_reconnectTabId = None, la_sessionsShown = False, la_calls = []\<rparr>"

definition launch_call :: "launch_call \<Rightarrow> launcher \<Rightarrow> launcher" where
  "launch_call c s = s\<lparr>la_calls := la_calls s @ [c]\<rparr>"

text \<open>\<^verbatim>\<open>connectSavedConnection\<close> up to the call, and after it. A refused attempt is over at once.\<close>

definition connect_begins :: "secret list \<Rightarrow> connect_target \<Rightarrow> profile \<Rightarrow> launcher \<Rightarrow> launcher" where
  "connect_begins secrets target profile s =
     (if profile_id profile \<in> set (la_connecting s) then s
      else (let connectionProfile = profile_for target profile
            in if password_missing connectionProfile secrets then s\<lparr>la_profileDialog := Some (False, profile)\<rparr>
               else launch_call (OpenConnection connectionProfile (Some (ssh_auth connectionProfile \<noteq> None)))
                      (s\<lparr>la_connecting := la_connecting s @ [profile_id profile], la_attempts := la_attempts s @ [(profile,
                         connectionProfile)]\<rparr>)))"

definition registerHostTrustRequest :: "open_status \<Rightarrow> HostTrustRequest \<Rightarrow> launcher \<Rightarrow> launcher" where
  "registerHostTrustRequest status request s = (if status = NeedsTrust then s\<lparr>la_trustRequest := Some request\<rparr> else s)"

definition connect_ends :: "profile \<times> profile \<Rightarrow> open_status \<Rightarrow> jsstr \<Rightarrow> launcher \<Rightarrow> launcher" where
  "connect_ends att status message s =
     (let (profile, connectionProfile) = att;
          s = s\<lparr>la_connecting := filter (\<lambda>i. i \<noteq> profile_id profile) (la_connecting s),
             la_attempts := remove1 att (la_attempts s)\<rparr>;
          s = registerHostTrustRequest status \<lparr>ht_connectAfterTrust = True, ht_authenticate = Some (ssh_auth connectionProfile \<noteq> None),
                ht_profile = connectionProfile, ht_reconnectTabId = None\<rparr> s
      in if status = Opened \<or> status = NeedsTrust then s\<lparr>la_sessionsShown := True\<rparr>
         else if requiresSavedCredentialRecovery message then s\<lparr>la_profileDialog := Some (True, profile)\<rparr> else s)"

text \<open>Reconnecting a tab (\<^verbatim>\<open>reconnectSessionTab\<close>), with its profile if there is one.\<close>

definition reconnect_begins :: "secret list \<Rightarrow> profile option \<Rightarrow> jsstr \<Rightarrow> launcher \<Rightarrow> launcher" where
  "reconnect_begins secrets profile tabId s =
     (case profile of
        Some p \<Rightarrow> if password_missing p secrets then s\<lparr>la_reconnectTabId := Some tabId,
           la_profileDialog := Some (False, p)\<rparr>
                  else launch_call (ReconnectTab tabId) s
      | None \<Rightarrow> launch_call (ReconnectTab tabId) s)"

definition reconnect_ends :: "profile option \<Rightarrow> jsstr \<Rightarrow> open_status \<Rightarrow> jsstr \<Rightarrow> launcher \<Rightarrow> launcher" where
  "reconnect_ends profile tabId status message s =
     (case profile of
        None \<Rightarrow> s
      | Some p \<Rightarrow>
          (let s = registerHostTrustRequest status \<lparr>ht_connectAfterTrust = True, ht_authenticate = None, ht_profile = p,
                     ht_reconnectTabId = Some tabId\<rparr> s
           in if requiresSavedCredentialRecovery message then s\<lparr>la_reconnectTabId := Some tabId, la_profileDialog := Some (True,
              p)\<rparr> else s))"

text \<open>The key of a host: shown only for the request it was read for.\<close>

definition pendingHostTrust :: "HostTrustRequest option \<Rightarrow> pending_host option \<Rightarrow> pending_host option" where
  "pendingHostTrust request pending =
     (case (request, pending) of
        (Some r, Some k) \<Rightarrow>
          (case ht_profile r of
             SshProfile q \<Rightarrow> if profile_id (ht_profile r) = ph_profileId k \<and> js_lower (js_trim (ssh_host q)) = js_lower (ph_host k)
                 \<and> ssh_port q = ph_port k then Some k else None
           | SftpProfile q \<Rightarrow> if profile_id (ht_profile r) = ph_profileId k \<and> js_lower (js_trim (sftp_host q)) = js_lower (ph_host k)
                 \<and> sftp_port q = ph_port k then Some k else None
           | _ \<Rightarrow> None)
      | _ \<Rightarrow> None)"

text \<open>The workspace forgets the key at the same time (\<open>clearPendingKnownHost\<close>).\<close>

definition cancelHostTrust :: "launcher \<Rightarrow> launcher" where
  "cancelHostTrust s = s\<lparr>la_trustRequest := None, la_trustBusy := False\<rparr>"

text \<open>\<^verbatim>\<open>confirmHostTrust\<close>: the question to trust, the connection that follows, and its end.\<close>

definition trust_begins :: "pending_host option \<Rightarrow> launcher \<Rightarrow> launcher" where
  "trust_begins pending s =
     (case la_trustRequest s of
        None \<Rightarrow> s
      | Some r \<Rightarrow> if pending = None \<or> la_trustBusy s then s else launch_call (TrustHost (ht_profile r)) (s\<lparr>la_trustBusy := True\<rparr>))"

definition trust_answered :: "HostTrustRequest \<Rightarrow> bool \<Rightarrow> launcher \<Rightarrow> launcher" where
  "trust_answered r trusted s =
     (if \<not> trusted then s\<lparr>la_trustBusy := False\<rparr>
      else (let s = s\<lparr>la_trustRequest := None\<rparr>
            in if \<not> ht_connectAfterTrust r then s\<lparr>la_trustBusy := False\<rparr>
               else (case ht_reconnectTabId r of
                       Some i \<Rightarrow> if i \<noteq> [] then launch_call (ReconnectTab i) s else launch_call (OpenConnection (ht_profile r) (ht_authenticate r)) s
                     | None \<Rightarrow> launch_call (OpenConnection (ht_profile r) (ht_authenticate r)) s)))"

definition trusted_connected :: "HostTrustRequest \<Rightarrow> open_status \<Rightarrow> jsstr \<Rightarrow> launcher \<Rightarrow> launcher" where
  "trusted_connected r status message s =
     (let s = s\<lparr>la_trustBusy := False\<rparr>
      in if status = Opened then s\<lparr>la_sessionsShown := True, la_profileDialog := None, la_reconnectTabId := None\<rparr>
         else if status = NeedsTrust then s\<lparr>la_trustRequest := Some r\<rparr>
         else if requiresSavedCredentialRecovery message
         then s\<lparr>la_reconnectTabId := ht_reconnectTabId r, la_profileDialog := Some (True, ht_profile r)\<rparr> else s)"

text \<open>The terminal beside the files of a tab (\<^verbatim>\<open>openSshFromActiveFileTransfer\<close>): one that is there,
   or the profile to open it with.\<close>

datatype ssh_choice = ShowTab jsstr | ConnectProfile profile | NoFileTab | NoProfile jsstr

definition authenticated_terminal :: "tab \<Rightarrow> bool" where
  "authenticated_terminal tab \<longleftrightarrow> tab_kind_of tab = TerminalTab
     \<and> (case conn_transport (tab_connection tab) of Some t \<Rightarrow> tr_authenticated t | None \<Rightarrow> False)"

definition openSshFromActiveFileTransfer :: "workspace \<Rightarrow> ssh_choice" where
  "openSshFromActiveFileTransfer w =
     (case find (\<lambda>t. tab_id t = w_activeSessionTabId w \<and> tab_kind_of t = FileTransferTab) (w_sessionTabs w) of
        None \<Rightarrow> NoFileTab
      | Some fileTab \<Rightarrow>
          (let parentTerminal = (case truthy (tab_parentConnectionId fileTab) of
                 Some p \<Rightarrow> find (\<lambda>t. tab_id t = p \<and> authenticated_terminal t) (w_sessionTabs w) | None \<Rightarrow> None);
               profileId = conn_profileId (tab_connection fileTab);
               matchingTerminal = (case parentTerminal of
                 Some t \<Rightarrow> Some t
               | None \<Rightarrow> find (\<lambda>t. authenticated_terminal t \<and> conn_profileId (tab_connection t) = profileId) (w_sessionTabs w))
           in case matchingTerminal of
                Some t \<Rightarrow> ShowTab (tab_id t)
              | None \<Rightarrow> (case find (\<lambda>p. profile_id p = profileId) (w_profiles w) of
                  Some p \<Rightarrow> ConnectProfile p | None \<Rightarrow> NoProfile profileId)))"

inductive launch_step :: "launcher \<Rightarrow> launcher \<Rightarrow> bool" where
  connects: "launch_step s (connect_begins secrets target p s)"
| connected: "a \<in> set (la_attempts s) \<Longrightarrow> launch_step s (connect_ends a status m s)"
| reconnects: "launch_step s (reconnect_begins secrets q i s)"
| reconnected: "launch_step s (reconnect_ends q i status m s)"
| confirmed: "launch_step s (trust_begins pending s)"
| trusted: "launch_step s (trust_answered r b s)"
| followed: "launch_step s (trusted_connected r status m s)"
| cancelled: "launch_step s (cancelHostTrust s)"

text \<open>One attempt from the lists for a profile at a time, and its mark is gone when it has been answered.\<close>

definition launch_inv :: "launcher \<Rightarrow> bool" where
  "launch_inv s \<longleftrightarrow> distinct (la_connecting s) \<and> la_connecting s = map (profile_id \<circ> fst) (la_attempts s)"

lemma distinct_remove1: "distinct (map f xs) \<Longrightarrow> x \<in> set xs \<Longrightarrow> map f (remove1 x xs) = filter (\<lambda>y. y \<noteq> f x) (map f xs)"
proof (induction xs)
  case (Cons a xs)
  show ?case
  proof (cases "a = x")
    case True
    have "filter (\<lambda>y. y \<noteq> f x) (map f xs) = map f xs" using Cons.prems(1) True by (auto intro: filter_True)
    then show ?thesis using True by simp
  next
    case False
    then have "f a \<noteq> f x" using Cons.prems by auto
    then show ?thesis using Cons False by simp
  qed
qed simp

lemma launch_step_inv: "launch_step s s' \<Longrightarrow> launch_inv s \<Longrightarrow> launch_inv s'"
proof (induction rule: launch_step.induct)
  case (connected a s status m)
  have d: "distinct (map (profile_id \<circ> fst) (la_attempts s))" using connected(2) unfolding launch_inv_def by metis
  have "map (profile_id \<circ> fst) (remove1 a (la_attempts s)) = filter (\<lambda>i. i \<noteq> (profile_id \<circ> fst) a) (la_connecting s)"
    using distinct_remove1 [OF d connected(1)] connected(2) by (simp add: launch_inv_def)
  then show ?case using connected(2) d
    by (cases a) (simp add: launch_inv_def connect_ends_def registerHostTrustRequest_def Let_def)
qed (auto simp: launch_inv_def connect_begins_def reconnect_begins_def reconnect_ends_def trust_begins_def trust_answered_def trusted_connected_def
    cancelHostTrust_def registerHostTrustRequest_def launch_call_def Let_def split: option.split)

lemma one_attempt_per_profile:
  assumes "launch_step\<^sup>*\<^sup>* initial_launcher s"
  shows "distinct (map (profile_id \<circ> fst) (la_attempts s)) \<and> la_connecting s = map (profile_id \<circ> fst) (la_attempts s)"
proof -
  have "launch_inv s" using assms
  proof (induction rule: rtranclp_induct)
    case base
    show ?case by (simp add: launch_inv_def initial_launcher_def)
  qed (rule launch_step_inv)
  then show ?thesis unfolding launch_inv_def by metis
qed

text \<open>A host as files and as a terminal has one id, so that both are one attempt.\<close>

lemma profile_for_id: "profile_id (profile_for target p) = profile_id p"
  by (cases p; cases target) (simp_all add: profile_for_def profile_id_def base_profile.defs)

end
