(* ===== verification/Spec2Isabelle.thy ===== *)
theory Spec2Isabelle
  imports TabOrder KeyedList TerminalSplits OutputBuffer Paths Keymap NetworkScan Ipc Actions
    SessionTabs Defaults Connections Reconnect Profiles
    SettingsQueue Terminals FileTransfers FileOperations Downloads TabInvariant HttpConsole
    Labels Overviews PaneOutput PaneSize TerminalText TerminalInput
    TerminalIme SavedCommands TerminalSyntax TerminalHighlight SerialPanel FilePanels FilePane WslFiles
    UriText AppTabs AppWindows
begin

text \<open>
  Verification of the front end of Portiva, a desktop client for terminals (SSH, Telnet, serial lines, raw sockets,
  WSL and local shells), files (SFTP and WSL), HTTP requests and network scans. The program is a React application
  in TypeScript (\<^verbatim>\<open>src\<close>) in the window of a Tauri back end in Rust (\<^verbatim>\<open>src-tauri\<close>). This library models the
  TypeScript part: its data, its pure functions and the handlers that change state. A definition has the
  name of the function or type it translates; code without a name of its own (listeners, effects, parts of a handler
  between two awaits) has a name with underscores. The manifest gives the lines of each.

  Parts and how they interact.

  \<^item> \<^verbatim>\<open>app/usePortivaWorkspace.ts\<close> holds the state of a window: profiles, secrets, settings, tabs with their connections
    and terminals, transfers. Its handlers await commands of the back end (\<^verbatim>\<open>shared/ipc/commands.ts\<close>).
  \<^item> \<^verbatim>\<open>App.tsx\<close> puts the tabs of the sessions and of the tools in one bar, asks for passwords and for trust in host keys,
    and hands tabs over between windows.
  \<^item> \<^verbatim>\<open>features/terminal\<close> connects a pane to its emulator (xterm): output, size, input, input methods, colours; the panel
    of a serial line and the library of commands.
  \<^item> \<^verbatim>\<open>features/http\<close> is a client for HTTP requests with workspaces, variables, import and export.
  \<^item> \<^verbatim>\<open>features/file-transfer\<close>, \<^verbatim>\<open>features/network-scan\<close> and \<^verbatim>\<open>features/connections\<close> are the file panels, the scanner and the
    overview of the hosts.
  \<^item> \<^verbatim>\<open>shared\<close> has the types and the helpers of all of these.

  How the code is modelled.

  \<^item> A string is its list of UTF-16 code units (\<open>jsstr\<close>, \<^verbatim>\<open>JsBase\<close>); what JavaScript does with units, trimming, splitting
    and letter case is written out. Numbers are \<open>int\<close> or \<open>nat\<close> where the code has only whole ones; \<^verbatim>\<open>JsNumber\<close> reads texts
    as numbers, rounded to doubles; regular expressions are those of \<^verbatim>\<open>JsRegex\<close>, with the backtracking of ECMA-262.
    Interfaces are records, unions are datatypes, a missing or null value is \<open>None\<close>; the code tells an empty text from
    a missing one by \<open>truthy\<close>. Ids that the back end gives (connections, terminals, sessions) are taken not to be
    empty.
  \<^item> A handler that awaits is an \<open>io\<close> action (\<^verbatim>\<open>WorkspaceState\<close>): the back end is any function of the history of requests,
    and between a request and its answer the state changes in any way the parameter \<open>meanwhile\<close> says. Theorems on such
    handlers hold for every back end and every interference, unless they name an assumption on them.
  \<^item> A component whose events come in any order is a step relation (\<open>inductive\<close>) whose steps are the handlers
    themselves, with answers at any later time; theorems hold in every state that is reached.
  \<^item> What is not code of the repository is a parameter: the URL parser, \<^verbatim>\<open>TextDecoder\<close>, \<^verbatim>\<open>JSON.parse\<close> and \<^verbatim>\<open>JSON.stringify\<close> on
    texts (documents are JSON values), \<^verbatim>\<open>fetch\<close>, the clock and random ids, the buffer, markers and decorations of the
    emulator, the lower case of a locale, the local time. What a theorem needs of one is a premise that its text
    names, such as that a printed document is read back.

  Which theory models which part.

  \<^item> \<^verbatim>\<open>JsBase\<close>, \<^verbatim>\<open>JsNumber\<close>, \<^verbatim>\<open>JsRegex\<close>, \<^verbatim>\<open>Encoding\<close>, \<^verbatim>\<open>UriText\<close>: the language and its library. \<^verbatim>\<open>KeyedList\<close>: arrays of things with ids
    (locale \<open>keyed_upsert\<close> with the three ways the code stores into them).
  \<^item> \<^verbatim>\<open>PortivaTypes\<close> (\<^verbatim>\<open>shared/types.ts\<close>), \<^verbatim>\<open>TabOrder\<close> (\<^verbatim>\<open>app/tabOrder.ts\<close>), \<^verbatim>\<open>TerminalSplits\<close> (\<^verbatim>\<open>shared/terminalSplits.ts\<close>, locale
    \<open>split_tree\<close>), \<^verbatim>\<open>OutputBuffer\<close> (\<^verbatim>\<open>shared/terminalOutputBuffer.ts\<close>, locale \<open>bounded_stream\<close>), \<^verbatim>\<open>Paths\<close> (paths of the workspace
    and \<^verbatim>\<open>shared/terminalWorkingDirectory.ts\<close>), \<^verbatim>\<open>Keymap\<close> (\<^verbatim>\<open>shared/keymap.ts\<close>), \<^verbatim>\<open>Labels\<close> (\<^verbatim>\<open>shared/labels.ts\<close>, \<^verbatim>\<open>format.ts\<close>),
    \<^verbatim>\<open>Defaults\<close> (capabilities, themes, fonts, default values).
  \<^item> \<^verbatim>\<open>WorkspaceState\<close>, \<^verbatim>\<open>Ipc\<close>, \<^verbatim>\<open>Actions\<close>: the state of the workspace, the commands, and the program logic of the actions
    (\<open>emits\<close>, \<open>yields\<close>, \<open>keeps\<close>, and the locale \<open>resource\<close> for what is opened and has to be closed again, interpreted for
    connections and for terminals). \<^verbatim>\<open>SessionTabs\<close>, \<^verbatim>\<open>Connections\<close>, \<^verbatim>\<open>Reconnect\<close>, \<^verbatim>\<open>Profiles\<close>, \<^verbatim>\<open>SettingsQueue\<close>, \<^verbatim>\<open>Terminals\<close>,
    \<^verbatim>\<open>FileTransfers\<close>, \<^verbatim>\<open>FileOperations\<close> and \<^verbatim>\<open>Downloads\<close> are its handlers; \<^verbatim>\<open>TabInvariant\<close> the invariant of its tabs.
  \<^item> \<^verbatim>\<open>AppTabs\<close> and \<^verbatim>\<open>AppWindows\<close>: the bar of tabs of \<^verbatim>\<open>App.tsx\<close>, its windows, and the connections opened from the lists.
  \<^item> \<^verbatim>\<open>NetworkScan\<close>: the form, the port list and the state of a scan. \<^verbatim>\<open>Overviews\<close>: the workers that ask the hosts.
  \<^item> \<^verbatim>\<open>HttpModel\<close>, \<^verbatim>\<open>HttpVariables\<close>, \<^verbatim>\<open>HttpRequest\<close>, \<^verbatim>\<open>HttpResponse\<close>, \<^verbatim>\<open>HttpShare\<close>, \<^verbatim>\<open>HttpMerge\<close>, \<^verbatim>\<open>HttpTree\<close>, \<^verbatim>\<open>HttpDrag\<close>, \<^verbatim>\<open>HttpEditor\<close>: the
    HTTP console (\<^verbatim>\<open>features/http\<close>) in the order of its code; \<^verbatim>\<open>FreshIds\<close> reasons on ids that are drawn one after another,
    \<^verbatim>\<open>HttpInvariant\<close>, \<^verbatim>\<open>HttpStorage\<close> and \<^verbatim>\<open>HttpConsole\<close> have what holds in every run, with the storage.
  \<^item> \<^verbatim>\<open>PaneOutput\<close>, \<^verbatim>\<open>PaneSize\<close>, \<^verbatim>\<open>TerminalText\<close>, \<^verbatim>\<open>TerminalInput\<close> (\<^verbatim>\<open>TerminalPane.tsx\<close>), \<^verbatim>\<open>TerminalIme\<close>, \<^verbatim>\<open>TerminalSyntax\<close>,
    \<^verbatim>\<open>TerminalHighlight\<close>, \<^verbatim>\<open>SavedCommands\<close>, \<^verbatim>\<open>SerialPanel\<close>: the files of \<^verbatim>\<open>features/terminal\<close> of these names.
  \<^item> \<^verbatim>\<open>FilePanels\<close> and \<^verbatim>\<open>FilePane\<close> (\<^verbatim>\<open>SimpleSftpPanel.tsx\<close>, \<^verbatim>\<open>FileTransferPanel.tsx\<close>), \<^verbatim>\<open>WslFiles\<close> (\<^verbatim>\<open>WslFileTransferPanel.tsx\<close>).

  What the lemmas show.

  \<^item> Nothing is left behind: connections and terminals opened by a handler that fails are closed (\<^verbatim>\<open>Connections\<close>,
    \<^verbatim>\<open>Reconnect\<close>), markers and decorations are released (\<^verbatim>\<open>TerminalHighlight\<close>).
  \<^item> Nothing is lost or doubled: tabs and layouts (\<^verbatim>\<open>TabOrder\<close>, \<^verbatim>\<open>Terminals\<close>), output (\<^verbatim>\<open>OutputBuffer\<close>, \<^verbatim>\<open>PaneOutput\<close>), input of
    an input method (\<^verbatim>\<open>TerminalIme\<close>), pieces of input (\<^verbatim>\<open>TerminalText\<close>), items of the worker pool (\<^verbatim>\<open>Overviews\<close>), requests of
    a merge (\<^verbatim>\<open>HttpMerge\<close>).
  \<^item> Round trips and equivalences: layouts (\<^verbatim>\<open>TerminalSplits\<close>), ports (\<^verbatim>\<open>NetworkScan\<close>), Base64 (\<^verbatim>\<open>HttpRequest\<close>), shared
    workspaces and what they send (\<^verbatim>\<open>HttpShare\<close>), saved commands (\<^verbatim>\<open>SavedCommands\<close>), hexadecimal input (\<^verbatim>\<open>SerialPanel\<close>).
  \<^item> Safety of what leaves the window: names and places of downloads (\<^verbatim>\<open>Paths\<close>, and \<^verbatim>\<open>Downloads\<close>, with the name that fails),
    pastes of several lines (\<^verbatim>\<open>TerminalInput\<close>), removals of files (\<^verbatim>\<open>FilePanels\<close>), names of entries (\<^verbatim>\<open>FilePanels\<close>),
    submitted commands (\<^verbatim>\<open>TerminalText\<close>).
  \<^item> Invariants of what is reached in any order of events: scanner (\<^verbatim>\<open>NetworkScan\<close>), settings (\<^verbatim>\<open>SettingsQueue\<close>), tabs
    (\<^verbatim>\<open>TabInvariant\<close>), HTTP console (\<^verbatim>\<open>HttpConsole\<close>), size of a pane (\<^verbatim>\<open>PaneSize\<close>), overviews (\<^verbatim>\<open>Overviews\<close>), serial panel
    (\<^verbatim>\<open>SerialPanel\<close>), choice of a directory (\<^verbatim>\<open>FilePane\<close>).
  \<^item> Bounds: responses (\<^verbatim>\<open>HttpResponse\<close>), coloured spans (\<^verbatim>\<open>TerminalSyntax\<close>, \<^verbatim>\<open>TerminalHighlight\<close>), the displayed part of a log
    (\<^verbatim>\<open>SerialPanel\<close>); and the exact requests of a recursive download (\<^verbatim>\<open>Downloads\<close>).

  Fuel and bounds. A recursive download walks a tree of the server that no type bounds: its fuel is the depth, and
  \<^verbatim>\<open>Downloads\<close> shows that the depth of the tree is enough and that more makes no difference. A repetition in a regular
  expression takes at least one unit in each pass, as in ECMA-262, so that the rest of the text bounds it. All other
  loops are structural or have a measure.

  Not modelled: rendering, styles, icons, menus and focus; the measurement of texts and elements (their results come
  with the events); the window manager, its drag hints and its events' transport; the updater; the forms of
  profiles; the Rust back end, which is the environment of the actions. The manifest lists these parts with the
  files.
\<close>

end
